(* ===== verification/Prelude.thy ===== *)
theory Prelude
  imports Main "HOL-Library.Word"
begin

text \<open>
  Shared vocabulary of the development: the machine types of the C code, its error codes,
  the byte order helpers of \<open>include/ext4_misc.h\<close>, and the generic facts on words and
  byte lists that the component theories rest on.

  The target of the model is a little-endian host, as in the shipped configuration
  (\<open>CONFIG_BIG_ENDIAN\<close> is not defined), so \<open>to_le16/32/64\<close> are the identity and are not
  written; \<open>to_be16/32/64\<close> are \<open>reorder16/32/64\<close>.
\<close>

unbundle bit_operations_syntax

section \<open>Types, error codes\<close>

type_synonym u8 = "8 word"
type_synonym u16 = "16 word"
type_synonym u32 = "32 word"
type_synonym u64 = "64 word"
type_synonym bytes = "u8 list"

text \<open>
  The \<open>int\<close> return codes. \<open>E_minus_one\<close> is the literal \<open>-1\<close> of \<open>ext2_htree_hash\<close>,
  \<open>EXT4_ERR_BAD_DX_DIR\<close> the private code of the directory index.
\<close>

datatype errno =
    EOK | EPERM | ENOENT | EIO | ENXIO | E2BIG | ENOMEM | EACCES | EFAULT | EEXIST | ENODEV
  | ENOTDIR | EISDIR | EINVAL | EFBIG | ENOSPC | EROFS | EMLINK | ERANGE | ENOTEMPTY
  | ENODATA | ENOTSUP | EXT4_ERR_BAD_DX_DIR | E_minus_one

named_theorems word_nat \<open>reading word operations on natural numbers\<close>
named_theorems byte_simps \<open>reading back what was stored in a byte buffer\<close>

section \<open>Byte order\<close>

definition reorder16 :: "u16 \<Rightarrow> u16" where
  "reorder16 n = push_bit 8 (n AND 0xff) OR drop_bit 8 (n AND 0xff00)"

definition reorder32 :: "u32 \<Rightarrow> u32" where
  "reorder32 n =
     push_bit 24 (n AND 0xff) OR push_bit 8 (n AND 0xff00)
     OR drop_bit 8 (n AND 0xff0000) OR drop_bit 24 (n AND 0xff000000)"

definition reorder64 :: "u64 \<Rightarrow> u64" where
  "reorder64 n =
     push_bit 56 (n AND 0xff) OR push_bit 40 (n AND 0xff00)
     OR push_bit 24 (n AND 0xff0000) OR push_bit 8 (n AND 0xff000000)
     OR drop_bit 8 (n AND 0xff00000000) OR drop_bit 24 (n AND 0xff0000000000)
     OR drop_bit 40 (n AND 0xff000000000000) OR drop_bit 56 (n AND 0xff00000000000000)"

definition EXT4_DIV_ROUND_UP :: "'a::len word \<Rightarrow> 'a word \<Rightarrow> 'a word" where
  "EXT4_DIV_ROUND_UP x y = (x + y - 1) div y"

definition EXT4_ALIGN :: "'a::len word \<Rightarrow> 'a word \<Rightarrow> 'a word" where
  "EXT4_ALIGN x y = y * EXT4_DIV_ROUND_UP x y"


section \<open>Words as natural numbers and as bits\<close>

lemma unat_take_bit [word_nat]: "unat (take_bit n (w :: 'a::len word)) = unat w mod 2 ^ n"
  by (simp only: unsigned_take_bit_eq take_bit_eq_mod [where 'a = nat])

lemma unat_drop_bit [word_nat]: "unat (drop_bit n (w :: 'a::len word)) = unat w div 2 ^ n"
  by (simp only: unsigned_drop_bit_eq take_bit_drop_bit drop_bit_eq_div [where 'a = nat])
   (simp add: take_bit_nat_eq_self)

lemma unat_and_mask [word_nat]: "unat ((w :: 'a::len word) AND mask n) = unat w mod 2 ^ n"
  by (simp only: unat_take_bit flip: take_bit_eq_mask)

lemma unat_mask: "m \<le> LENGTH('a) \<Longrightarrow> unat (mask m :: 'a::len word) = 2 ^ m - 1"
proof -
  assume "m \<le> LENGTH('a)"
  then have "unat (take_bit m (- 1 :: 'a word)) = mask m"
    by (simp only: unsigned_take_bit_eq unsigned_minus_1_eq_mask take_bit_of_mask min.absorb1)
  then show ?thesis by (simp add: take_bit_minus_one_eq_mask mask_eq_exp_minus_1)
qed

lemma unat_inc:
  assumes "i < n"
  shows "unat (i + 1) = Suc (unat (i :: 'a::len word))"
proof -
  have "unat n < 2 ^ LENGTH('a)" by (rule unsigned_less)
  then have "Suc (unat i) < 2 ^ LENGTH('a)"
    using assms [unfolded word_less_nat_alt] by linarith
  then show ?thesis by (simp add: unat_word_ariths unat_of_nat)
qed

lemma word_inc_measure [intro, simp]:
  "i < n \<Longrightarrow> unat n - unat (i + 1) < unat n - unat (i :: 'a::len word)"
  by (simp add: unat_inc word_less_nat_alt)

lemma unat_minus: "n \<le> w \<Longrightarrow> unat (w - n) = unat (w :: 'a::len word) - unat n"
  by (rule unat_sub)

lemma and_7: "(w :: 'a::len word) AND 7 = take_bit 3 w"
  by (simp add: take_bit_eq_mask mask_eq_exp_minus_1)

lemma and_255: "(w :: 'a::len word) AND 255 = take_bit 8 w"
  by (simp add: take_bit_eq_mask mask_eq_exp_minus_1)

lemma and_push_mask:
  "(w :: 'a::len word) AND push_bit k (mask m) = push_bit k (take_bit m (drop_bit k w))"
  by (rule bit_word_eqI) (auto simp: bit_simps)

lemma nth_list_update_eq_if:
  "j < length xs \<Longrightarrow> xs[i := x] ! j = (if i = j then x else xs ! j)"
  by (cases "i = j") auto

lemma find_append:
  "find P (xs @ ys) = (case find P xs of None \<Rightarrow> find P ys | Some x \<Rightarrow> Some x)"
  by (induction xs) auto

text \<open>A 64-bit count kept in two 32-bit halves; narrowing commutes with subtraction.\<close>

lemma halves_word32 [byte_simps]:
  "push_bit 32 (ucast (ucast (drop_bit 32 c) :: u32)) OR ucast (ucast (drop_bit 32 (push_bit 32 c)) :: u32)
     = (c :: u64)"
  by (rule bit_word_eqI) (auto simp: bit_simps)

lemma wide64:
  "ucast (ucast v :: u32) OR push_bit 32 (ucast (ucast (drop_bit 32 v) :: u32)) = (v :: u64)"
  "ucast (ucast v :: u32) = (take_bit 32 v :: u64)"
  by (rule bit_word_eqI; auto simp: bit_simps)+

lemma wide32:
  "ucast (ucast (drop_bit 16 (push_bit 16 v)) :: u16) OR push_bit 16 (ucast (ucast (drop_bit 16 v) :: u16))
     = (v :: u32)"
  "ucast (ucast (drop_bit 16 (push_bit 16 v)) :: u16) = (take_bit 16 v :: u32)"
  by (rule bit_word_eqI; auto simp: bit_simps)+

lemma wide_join:
  "take_bit 32 v OR push_bit 32 (take_bit 32 (drop_bit 32 v)) = (v :: u64)"
  "take_bit 16 c OR push_bit 16 (ucast (ucast (drop_bit 16 c) :: u16)) = (c :: u32)"
  by (rule bit_word_eqI; auto simp: bit_simps)+

lemma unat_halves32:
  "unat (push_bit 32 (ucast hi) OR ucast lo :: u64) = 2 ^ 32 * unat (hi :: u32) + unat (lo :: u32)"
proof -
  have "push_bit 32 (ucast hi) OR ucast lo = push_bit 32 (ucast hi) + (ucast lo :: u64)"
    by (rule disjunctive_add [symmetric]) (auto simp: bit_simps dest: bit_imp_le_length)
  also have "\<dots> = of_nat (2 ^ 32 * unat hi + unat lo)"
    by (simp add: push_bit_eq_mult)
  also have "unat \<dots> = 2 ^ 32 * unat hi + unat lo"
  proof -
    have "unat hi < 2 ^ 32" "unat lo < 2 ^ 32" using unsigned_less [of hi] unsigned_less [of lo] by simp_all
    then show ?thesis by (simp only: unat_of_nat) simp
  qed
  finally show ?thesis .
qed

lemma ucast_minus_down:
  "LENGTH('b) \<le> LENGTH('a) \<Longrightarrow>
     ucast (x - y :: 'a::len word) = (ucast x - ucast y :: 'b::len word)"
proof transfer
  fix x y :: int
  assume "LENGTH('b) \<le> LENGTH('a)"
  then have m: "take_bit LENGTH('b) (take_bit LENGTH('a) k) = take_bit LENGTH('b) k" for k :: int
    by (simp add: min_def)
  show "take_bit LENGTH('b) (take_bit LENGTH('a) (x - y)) =
      take_bit LENGTH('b) (take_bit LENGTH('a) x - take_bit LENGTH('a) y)"
    by (subst (2) take_bit_diff [symmetric]) (simp only: m take_bit_diff)
qed

lemma unat_ucast_down_eq:
  "unat (ucast (w :: 'a::len word) :: 'b::len word) = unat w mod 2 ^ LENGTH('b)"
  by (simp add: unsigned_ucast_eq take_bit_eq_mod)

lemma unat_ucast_up_eq:
  "LENGTH('a) \<le> LENGTH('b) \<Longrightarrow> unat (ucast (w :: 'a::len word) :: 'b::len word) = unat w"
proof -
  assume "LENGTH('a) \<le> LENGTH('b)"
  then have "(2::nat) ^ LENGTH('a) \<le> 2 ^ LENGTH('b)" by simp
  with unsigned_less [of w, where 'a = nat] have "unat w < 2 ^ LENGTH('b)" by linarith
  then show ?thesis by (simp add: unat_ucast_down_eq)
qed

section \<open>Little-endian byte lists\<close>

text \<open>
  A packed C struct is a run of little-endian fields. \<open>le_bytes n w\<close> are the \<open>n\<close> bytes
  of the field \<open>w\<close> and \<open>of_le_bytes\<close> reads a field back.
\<close>

fun of_le_bytes :: "bytes \<Rightarrow> 'a::len word" where
  "of_le_bytes [] = 0"
| "of_le_bytes (b # bs) = ucast b OR push_bit 8 (of_le_bytes bs)"

definition le_bytes :: "nat \<Rightarrow> 'a::len word \<Rightarrow> bytes" where
  "le_bytes n w = map (\<lambda>i. ucast (drop_bit (8 * i) w)) [0..<n]"

lemma length_le_bytes [simp]: "length (le_bytes n w) = n"
  by (simp add: le_bytes_def)

lemma nth_le_bytes: "i < n \<Longrightarrow> le_bytes n w ! i = ucast (drop_bit (8 * i) w)"
  by (simp add: le_bytes_def)

lemma bit_of_le_bytes:
  "bit (of_le_bytes bs :: 'a::len word) k \<longleftrightarrow>
     k < LENGTH('a) \<and> k div 8 < length bs \<and> bit (bs ! (k div 8)) (k mod 8)"
proof (induction bs arbitrary: k)
  case Nil
  then show ?case by simp
next
  case (Cons b bs)
  show ?case
  proof (cases "k < 8")
    case True
    then show ?thesis by (auto simp: bit_simps)
  next
    case False
    then obtain j where j: "k = 8 + j" by (metis le_Suc_ex not_less)
    have "(8 + j) div 8 = Suc (j div 8)" "(8 + j) mod 8 = j mod 8" by simp_all
    with Cons.IH [of j] show ?thesis
      by (auto simp: j bit_simps dest: bit_imp_le_length)
  qed
qed

lemma of_le_bytes_le_bytes [byte_simps]:
  "LENGTH('a) = 8 * n \<Longrightarrow> of_le_bytes (le_bytes n (w :: 'a::len word)) = w"
  by (rule bit_word_eqI) (auto simp: bit_of_le_bytes nth_le_bytes bit_simps)

lemma le_bytes_of_le_bytes [byte_simps]:
  assumes "8 * length bs = LENGTH('a)"
  shows "le_bytes (length bs) (of_le_bytes bs :: 'a::len word) = bs"
proof (rule nth_equalityI)
  fix i assume "i < length (le_bytes (length bs) (of_le_bytes bs :: 'a word))"
  then have i: "i < length bs" by simp
  show "le_bytes (length bs) (of_le_bytes bs :: 'a word) ! i = bs ! i"
    by (rule bit_word_eqI) (use i assms in \<open>auto simp: nth_le_bytes bit_of_le_bytes bit_simps\<close>)
qed simp

lemma of_le_bytes_inj:
  assumes "length xs = length ys" "8 * length xs \<le> LENGTH('a)"
    and "of_le_bytes xs = (of_le_bytes ys :: 'a::len word)"
  shows "xs = ys"
proof (rule nth_equalityI [OF assms(1)])
  fix i assume i: "i < length xs"
  show "xs ! i = ys ! i"
  proof (rule bit_word_eqI)
    fix k assume k: "k < LENGTH(8)"
    from i k assms have "8 * i + k < LENGTH('a)" by simp
    moreover from assms(3) have "bit (of_le_bytes xs :: 'a word) (8 * i + k) =
        bit (of_le_bytes ys :: 'a word) (8 * i + k)" by simp
    ultimately show "bit (xs ! i) k = bit (ys ! i) k"
      using i k assms(1) by (simp add: bit_of_le_bytes)
  qed
qed

section \<open>Fields of packed structs\<close>

text \<open>
  A field of \<open>n\<close> bytes at offset \<open>off\<close>, an array of \<open>k\<close> such fields, and storing a run of
  bytes into a buffer (\<open>memcpy\<close>). Conditional rewrite rules read a field back out of the
  concatenation of the fields of a struct.
\<close>

definition get_le :: "nat \<Rightarrow> nat \<Rightarrow> bytes \<Rightarrow> 'a::len word" where
  "get_le n off bs = of_le_bytes (take n (drop off bs))"

definition get_les :: "nat \<Rightarrow> nat \<Rightarrow> nat \<Rightarrow> bytes \<Rightarrow> 'a::len word list" where
  "get_les n off k bs = map (\<lambda>i. get_le n (off + n * i) bs) [0..<k]"

definition les_bytes :: "nat \<Rightarrow> 'a::len word list \<Rightarrow> bytes" where
  "les_bytes n ws = concat (map (le_bytes n) ws)"

definition put_bytes :: "nat \<Rightarrow> bytes \<Rightarrow> bytes \<Rightarrow> bytes" where
  "put_bytes off new bs = take off bs @ new @ drop (off + length new) bs"

lemma length_get_les [simp]: "length (get_les n off k bs) = k"
  by (simp add: get_les_def)

lemma length_les_bytes [simp]: "length (les_bytes n ws) = n * length ws"
  by (induction ws) (simp_all add: les_bytes_def)

lemma les_bytes_Cons: "les_bytes n (w # ws) = le_bytes n w @ les_bytes n ws"
  by (simp add: les_bytes_def)

lemma get_le_skip [byte_simps]:
  "length xs \<le> off \<Longrightarrow> get_le n off (xs @ ys) = get_le n (off - length xs) ys"
  by (simp add: get_le_def)

lemma get_le_in [byte_simps]:
  "off + n \<le> length xs \<Longrightarrow> get_le n off (xs @ ys) = get_le n off xs"
  by (simp add: get_le_def)

lemma get_le_here [byte_simps]:
  "LENGTH('a) = 8 * n \<Longrightarrow> get_le n 0 (le_bytes n w @ ys) = (w :: 'a::len word)"
  "LENGTH('a) = 8 * n \<Longrightarrow> get_le n 0 (le_bytes n w) = (w :: 'a::len word)"
  by (simp_all add: get_le_def of_le_bytes_le_bytes)

lemma get_le_take [byte_simps]:
  "off + n \<le> k \<Longrightarrow> get_le n off (take k bs) = get_le n off bs"
  by (simp add: get_le_def drop_take)

lemma of_le_bytes_zeros [simp]: "of_le_bytes (replicate n 0) = 0"
  by (induction n) simp_all

lemma get_le_zeros [simp]: "get_le n off (replicate k 0) = 0"
  by (simp add: get_le_def)

lemma get_les_skip [byte_simps]:
  "length xs \<le> off \<Longrightarrow> get_les n off k (xs @ ys) = get_les n (off - length xs) k ys"
  by (simp add: get_les_def get_le_skip)

lemma get_les_in [byte_simps]:
  assumes "off + n * k \<le> length xs"
  shows "get_les n off k (xs @ ys) = get_les n off k xs"
  unfolding get_les_def
proof (intro map_cong refl get_le_in)
  fix i assume "i \<in> set [0..<k]"
  then have "Suc i \<le> k" by simp
  from mult_le_mono2 [OF this, of n] assms show "off + n * i + n \<le> length xs" by simp
qed

lemma get_les_Suc:
  "get_les n off (Suc k) bs = get_le n off bs # get_les n (off + n) k bs"
  by (simp add: get_les_def upt_conv_Cons add.assoc del: upt_Suc flip: map_Suc_upt)

lemma get_les_here [byte_simps]:
  "LENGTH('a) = 8 * n \<Longrightarrow> length ws = k \<Longrightarrow>
     get_les n 0 k (les_bytes n ws @ ys) = (ws :: 'a::len word list)"
proof (induction ws arbitrary: k)
  case Nil
  then show ?case by (simp add: get_les_def)
next
  case (Cons w ws)
  then obtain j where j: "k = Suc j" "length ws = j" by auto
  from Cons show ?case
    by (simp add: j get_les_Suc les_bytes_Cons get_le_here get_les_skip)
qed

lemma get_les_last [byte_simps]:
  "LENGTH('a) = 8 * n \<Longrightarrow> length ws = k \<Longrightarrow>
     get_les n 0 k (les_bytes n ws) = (ws :: 'a::len word list)"
  using get_les_here [of n ws k "[]"] by simp

lemma le_bytes_get_le [byte_simps]:
  "LENGTH('a) = 8 * n \<Longrightarrow> off + n \<le> length bs \<Longrightarrow>
     le_bytes n (get_le n off bs :: 'a::len word) = take n (drop off bs)"
proof -
  assume n: "LENGTH('a) = 8 * n" and "off + n \<le> length bs"
  then have "length (take n (drop off bs)) = n" by simp
  with n le_bytes_of_le_bytes [of "take n (drop off bs)", where 'a = 'a] show ?thesis
    by (simp only: get_le_def)
qed

lemma les_bytes_get_les [byte_simps]:
  "LENGTH('a) = 8 * n \<Longrightarrow> off + n * k \<le> length bs \<Longrightarrow>
     les_bytes n (get_les n off k bs :: 'a::len word list) = take (n * k) (drop off bs)"
proof (induction k arbitrary: off)
  case 0
  then show ?case by (simp add: get_les_def les_bytes_def)
next
  case (Suc k)
  have "take n (drop off bs) @ take (n * k) (drop (off + n) bs) = take (n + n * k) (drop off bs)"
    by (simp add: take_add add.commute)
  with Suc show ?case
    by (simp add: get_les_Suc les_bytes_Cons le_bytes_get_le)
qed

lemma take_drop_join [byte_simps]:
  "b = a + n \<Longrightarrow> take n (drop a bs) @ drop b bs = drop a bs"
  by (metis add.commute append_take_drop_id drop_drop)

lemma take_drop_join2 [byte_simps]:
  "b = a + n \<Longrightarrow> take n (drop a bs) @ take m (drop b bs) = take (n + m) (drop a bs)"
  by (simp add: take_add add.commute [of a])

lemma take_drop_join3 [byte_simps]:
  "b = a + n \<Longrightarrow> take n (drop a bs) @ take m (drop b bs) @ ys = take (n + m) (drop a bs) @ ys"
  by (simp add: take_add add.commute [of a])

lemma length_put_bytes [simp]:
  "off + length new \<le> length bs \<Longrightarrow> length (put_bytes off new bs) = length bs"
  by (simp add: put_bytes_def)

lemma put_bytes_same [byte_simps]:
  "off + length new \<le> length bs \<Longrightarrow> n = length new \<Longrightarrow>
     take n (drop off (put_bytes off new bs)) = new"
  by (simp add: put_bytes_def)

lemma nth_put_bytes:
  assumes "off + length new \<le> length bs" "j < length bs"
  shows "put_bytes off new bs ! j =
    (if off \<le> j \<and> j < off + length new then new ! (j - off) else bs ! j)"
  using assms by (auto simp: put_bytes_def nth_append min_def)

lemma put_bytes_other [byte_simps]:
  assumes "off + length new \<le> length bs" "a + n \<le> off \<or> off + length new \<le> a"
  shows "take n (drop a (put_bytes off new bs)) = take n (drop a bs)"
proof (rule nth_equalityI)
  show "length (take n (drop a (put_bytes off new bs))) = length (take n (drop a bs))"
    using assms by simp
  fix i assume "i < length (take n (drop a (put_bytes off new bs)))"
  then have i: "i < n" "a + i < length bs" using assms by auto
  with assms show "take n (drop a (put_bytes off new bs)) ! i = take n (drop a bs) ! i"
    by (auto simp: nth_put_bytes)
qed

lemma get_le_put_same:
  "off + n \<le> length bs \<Longrightarrow> LENGTH('a) = 8 * n \<Longrightarrow>
     get_le n off (put_bytes off (le_bytes n w) bs) = (w :: 'a::len word)"
  by (simp add: get_le_def put_bytes_same of_le_bytes_le_bytes)

lemma get_le_put_other:
  "off + length new \<le> length bs \<Longrightarrow> a + n \<le> off \<or> off + length new \<le> a \<Longrightarrow>
     get_le n a (put_bytes off new bs) = get_le n a bs"
  by (simp add: get_le_def put_bytes_other)

text \<open>Reading inside a region that was copied from elsewhere.\<close>

lemma get_le_put_copy:
  assumes "off + length new \<le> length bs" "off \<le> a" "a + n \<le> off + length new"
  shows "get_le n a (put_bytes off new bs) = get_le n (a - off) new"
proof -
  have "take n (drop a (put_bytes off new bs)) = take n (drop (a - off) new)"
    using assms by (simp add: put_bytes_def)
  then show ?thesis by (simp only: get_le_def)
qed

lemma get_le_slice:
  "k + n \<le> m \<Longrightarrow> get_le n k (take m (drop off bs)) = get_le n (off + k) bs"
  by (simp add: get_le_def drop_take add.commute)

end
