(* ===== verification/Bitmap.thy ===== *)
theory Bitmap
  imports Prelude
begin

text \<open>
  The bitmap primitives of \<open>include/ext4_bitmap.h\<close> and \<open>src/ext4_bitmap.c\<close>. A bitmap is
  the byte list of the block that holds it; a C pointer into it is the list with a byte
  offset \<open>p\<close>. The fast paths under \<open>CONFIG_UNALIGNED_ACCESS\<close> are not compiled in the
  shipped configuration (the macro is 0) and are not modelled. An access outside the
  block is undefined in C; each lemma assumes that the bits it names lie in the block.
\<close>

section \<open>Single bits\<close>

definition ext4_bmap_bit_set :: "bytes \<Rightarrow> nat \<Rightarrow> u32 \<Rightarrow> bytes" where
  "ext4_bmap_bit_set bmap p b =
     (let i = p + unat (drop_bit 3 b)
      in bmap[i := bmap ! i OR push_bit (unat (b AND 7)) 1])"

definition ext4_bmap_bit_clr :: "bytes \<Rightarrow> nat \<Rightarrow> u32 \<Rightarrow> bytes" where
  "ext4_bmap_bit_clr bmap p b =
     (let i = p + unat (drop_bit 3 b)
      in bmap[i := bmap ! i AND NOT (push_bit (unat (b AND 7)) 1)])"

definition ext4_bmap_is_bit_set :: "bytes \<Rightarrow> nat \<Rightarrow> u32 \<Rightarrow> bool" where
  "ext4_bmap_is_bit_set bmap p b \<longleftrightarrow>
     bmap ! (p + unat (drop_bit 3 b)) AND push_bit (unat (b AND 7)) 1 \<noteq> 0"

definition ext4_bmap_is_bit_clr :: "bytes \<Rightarrow> nat \<Rightarrow> u32 \<Rightarrow> bool" where
  "ext4_bmap_is_bit_clr bmap p b \<longleftrightarrow> \<not> ext4_bmap_is_bit_set bmap p b"

section \<open>Clearing a range: ext4_bmap_bits_free\<close>

text \<open>
  The leading loop runs to the next byte boundary; \<open>Inl\<close> is its early \<open>return\<close>, \<open>Inr\<close>
  the values of \<open>i\<close> and \<open>bcnt\<close> after it.
\<close>

function bits_free_head :: "bytes \<Rightarrow> u32 \<Rightarrow> u32 \<Rightarrow> bytes + bytes \<times> u32 \<times> u32" where
  "bits_free_head bmap i bcnt =
     (if i AND 7 \<noteq> 0 then
        if bcnt = 0 then Inl bmap
        else bits_free_head (ext4_bmap_bit_clr bmap 0 i) (i + 1) (bcnt - 1)
      else Inr (bmap, i, bcnt))"
  by pat_completeness auto
termination
  by (relation "measure (\<lambda>(bmap, i, bcnt). unat bcnt)")
     (auto simp: unat_gt_0 word_neq_0_conv intro!: measure_unat)

function bits_free_bytes :: "bytes \<Rightarrow> nat \<Rightarrow> u32 \<Rightarrow> bytes \<times> nat \<times> u32" where
  "bits_free_bytes bmap p bcnt =
     (if 8 \<le> bcnt then bits_free_bytes (bmap[p := 0]) (p + 1) (bcnt - 8) else (bmap, p, bcnt))"
  by pat_completeness auto
termination
  by (relation "measure (\<lambda>(bmap, p, bcnt). unat bcnt)") (auto simp: word_le_nat_alt unat_sub)

function bits_free_tail :: "bytes \<Rightarrow> nat \<Rightarrow> u32 \<Rightarrow> u32 \<Rightarrow> bytes" where
  "bits_free_tail bmap p i bcnt =
     (if i < bcnt then bits_free_tail (ext4_bmap_bit_clr bmap p i) p (i + 1) bcnt else bmap)"
  by pat_completeness auto
termination
  by (relation "measure (\<lambda>(bmap, p, i, bcnt). unat bcnt - unat i)") auto

declare bits_free_head.simps [simp del] bits_free_bytes.simps [simp del]
  bits_free_tail.simps [simp del]

definition ext4_bmap_bits_free :: "bytes \<Rightarrow> u32 \<Rightarrow> u32 \<Rightarrow> bytes" where
  "ext4_bmap_bits_free bmap sbit bcnt =
     (case bits_free_head bmap sbit bcnt of
        Inl bmap1 \<Rightarrow> bmap1
      | Inr (bmap1, i, bcnt1) \<Rightarrow>
          (case bits_free_bytes bmap1 (unat (drop_bit 3 i)) bcnt1 of
             (bmap2, p, bcnt2) \<Rightarrow> bits_free_tail bmap2 p 0 bcnt2))"

section \<open>Searching a clear bit: ext4_bmap_bit_find_clr\<close>

text \<open>
  The leading loop reports \<open>sbit\<close>, the start of the search, whichever bit \<open>i\<close> it found
  clear: this is what the code does.
\<close>

function find_clr_head ::
    "bytes \<Rightarrow> u32 \<Rightarrow> u32 \<Rightarrow> u32 \<Rightarrow> (errno \<times> u32 option) + u32 \<times> u32" where
  "find_clr_head bmap sbit i bcnt =
     (if i AND 7 \<noteq> 0 then
        if bcnt = 0 then Inl (ENOSPC, None)
        else if ext4_bmap_is_bit_clr bmap 0 i then Inl (EOK, Some sbit)
        else find_clr_head bmap sbit (i + 1) (bcnt - 1)
      else Inr (i, bcnt))"
  by pat_completeness auto
termination
  by (relation "measure (\<lambda>(bmap, sbit, i, bcnt). unat bcnt)")
     (auto simp: unat_gt_0 word_neq_0_conv intro!: measure_unat)

function find_clr_for :: "bytes \<Rightarrow> nat \<Rightarrow> u32 \<Rightarrow> u32 \<Rightarrow> u32 option" where
  "find_clr_for bmap p i n =
     (if i < n then
        if ext4_bmap_is_bit_clr bmap p i then Some i else find_clr_for bmap p (i + 1) n
      else None)"
  by pat_completeness auto
termination
  by (relation "measure (\<lambda>(bmap, p, i, n). unat n - unat i)") auto

function find_clr_bytes :: "bytes \<Rightarrow> nat \<Rightarrow> u32 \<Rightarrow> u32 \<Rightarrow> u32 + nat \<times> u32 \<times> u32" where
  "find_clr_bytes bmap p sbit bcnt =
     (if 8 \<le> bcnt then
        case (if bmap ! p \<noteq> 0xFF then find_clr_for bmap p 0 8 else None) of
          Some i \<Rightarrow> Inl (sbit + i)
        | None \<Rightarrow> find_clr_bytes bmap (p + 1) (sbit + 8) (bcnt - 8)
      else Inr (p, sbit, bcnt))"
  by pat_completeness auto
termination
  by (relation "measure (\<lambda>(bmap, p, sbit, bcnt). unat bcnt)")
     (auto simp: word_le_nat_alt unat_sub)

declare find_clr_head.simps [simp del] find_clr_for.simps [simp del]
  find_clr_bytes.simps [simp del]

definition ext4_bmap_bit_find_clr :: "bytes \<Rightarrow> u32 \<Rightarrow> u32 \<Rightarrow> errno \<times> u32 option" where
  "ext4_bmap_bit_find_clr bmap sbit ebit =
     (case find_clr_head bmap sbit sbit (ebit - sbit) of
        Inl res \<Rightarrow> res
      | Inr (i, bcnt) \<Rightarrow>
          (case find_clr_bytes bmap (unat (drop_bit 3 i)) i bcnt of
             Inl b \<Rightarrow> (EOK, Some b)
           | Inr (p, sbit2, bcnt2) \<Rightarrow>
               (case find_clr_for bmap p 0 bcnt2 of
                  Some j \<Rightarrow> (EOK, Some (sbit2 + j))
                | None \<Rightarrow> (ENOSPC, None))))"

section \<open>Bits of the bitmap\<close>

text \<open>
  The abstract bitmap: bit \<open>n\<close> of the block, counted from its first byte.
\<close>

definition bmap_bit :: "bytes \<Rightarrow> nat \<Rightarrow> bool" where
  "bmap_bit bmap n = bit (bmap ! (n div 8)) (n mod 8)"

lemma ext4_bmap_is_bit_set_iff:
  "ext4_bmap_is_bit_set bmap p b = bmap_bit bmap (8 * p + unat b)"
  by (simp add: ext4_bmap_is_bit_set_def bmap_bit_def and_exp_eq_0_iff_not_bit and_7 word_nat)

lemma byte_index_eq:
  "(j :: nat) = 8 * p + b \<longleftrightarrow> j div 8 = p + b div 8 \<and> j mod 8 = b mod 8"
proof
  assume "j = 8 * p + b"
  then show "j div 8 = p + b div 8 \<and> j mod 8 = b mod 8" by simp
next
  assume eq: "j div 8 = p + b div 8 \<and> j mod 8 = b mod 8"
  have "j = 8 * (j div 8) + j mod 8" by simp
  also have "\<dots> = 8 * p + (8 * (b div 8) + b mod 8)" using eq by simp
  finally show "j = 8 * p + b" by simp
qed

lemma bit_or_exp: "bit ((x :: u8) OR 2 ^ (k mod 8)) (j mod 8) \<longleftrightarrow> bit x (j mod 8) \<or> j mod 8 = k mod 8"
  by (auto simp: bit_or_iff bit_exp_iff)

lemma bit_and_not_exp:
  "bit ((x :: u8) AND NOT (2 ^ (k mod 8))) (j mod 8) \<longleftrightarrow> bit x (j mod 8) \<and> j mod 8 \<noteq> k mod 8"
  by (auto simp: bit_and_iff bit_not_iff bit_exp_iff)

lemma bmap_bit_set:
  assumes "j < 8 * length bmap"
  shows "bmap_bit (ext4_bmap_bit_set bmap p b) j \<longleftrightarrow> bmap_bit bmap j \<or> j = 8 * p + unat b"
proof -
  have "j div 8 < length bmap" using assms by (simp add: less_mult_imp_div_less mult.commute)
  then show ?thesis
    unfolding byte_index_eq [of j p]
    by (auto simp: bmap_bit_def ext4_bmap_bit_set_def Let_def nth_list_update_eq_if bit_or_exp
        and_7 word_nat)
qed

lemma bmap_bit_clr:
  assumes "j < 8 * length bmap"
  shows "bmap_bit (ext4_bmap_bit_clr bmap p b) j \<longleftrightarrow> bmap_bit bmap j \<and> j \<noteq> 8 * p + unat b"
proof -
  have "j div 8 < length bmap" using assms by (simp add: less_mult_imp_div_less mult.commute)
  then show ?thesis
    unfolding byte_index_eq [of j p]
    by (auto simp: bmap_bit_def ext4_bmap_bit_clr_def Let_def nth_list_update_eq_if bit_and_not_exp
        and_7 word_nat)
qed

lemma length_bmap_bit_set [simp]: "length (ext4_bmap_bit_set bmap p b) = length bmap"
  by (simp add: ext4_bmap_bit_set_def Let_def)

lemma length_bmap_bit_clr [simp]: "length (ext4_bmap_bit_clr bmap p b) = length bmap"
  by (simp add: ext4_bmap_bit_clr_def Let_def)

lemma bmap_bit_zero_byte:
  assumes "j < 8 * length bmap"
  shows "bmap_bit (bmap[p := 0]) j \<longleftrightarrow> bmap_bit bmap j \<and> \<not> (8 * p \<le> j \<and> j < 8 * p + 8)"
proof -
  have len: "j div 8 < length bmap" using assms by (simp add: less_mult_imp_div_less mult.commute)
  have "p = j div 8 \<longleftrightarrow> 8 * p \<le> j \<and> j < 8 * p + 8" by auto
  with len show ?thesis
    by (auto simp: bmap_bit_def nth_list_update_eq_if)
qed


section \<open>Clearing a range is exact\<close>

definition cleared :: "bytes \<Rightarrow> nat \<Rightarrow> nat \<Rightarrow> bytes \<Rightarrow> bool" where
  "cleared bmap a b bmap1 \<longleftrightarrow> length bmap1 = length bmap \<and>
     (\<forall>j < 8 * length bmap. bmap_bit bmap1 j \<longleftrightarrow> bmap_bit bmap j \<and> \<not> (a \<le> j \<and> j < b))"

lemma cleared_refl: "b \<le> a \<Longrightarrow> cleared bmap a b bmap"
  by (auto simp: cleared_def)

lemma cleared_trans:
  "cleared bmap a m bmap1 \<Longrightarrow> cleared bmap1 m b bmap2 \<Longrightarrow> a \<le> m \<Longrightarrow> m \<le> b \<Longrightarrow>
   cleared bmap a b bmap2"
  by (auto simp: cleared_def)

lemma cleared_bit: "n = 8 * p + unat b \<Longrightarrow> cleared bmap n (Suc n) (ext4_bmap_bit_clr bmap p b)"
  by (auto simp: cleared_def bmap_bit_clr)

lemma cleared_byte: "n = 8 * p \<Longrightarrow> cleared bmap n (8 + n) (bmap[p := 0])"
  by (auto simp: cleared_def bmap_bit_zero_byte)

lemma bits_free_head_spec:
  "unat i + unat bcnt < 2 ^ 32 \<Longrightarrow>
   (case bits_free_head bmap i bcnt of
      Inl bmap1 \<Rightarrow> cleared bmap (unat i) (unat i + unat bcnt) bmap1
    | Inr (bmap1, i1, bcnt1) \<Rightarrow>
        cleared bmap (unat i) (unat i1) bmap1 \<and> unat i \<le> unat i1 \<and> unat i1 mod 8 = 0 \<and>
        unat i1 + unat bcnt1 = unat i + unat bcnt)"
proof (induction bmap i bcnt rule: bits_free_head.induct)
  case (1 bmap i bcnt)
  show ?case
  proof (cases "i AND 7 \<noteq> 0 \<and> bcnt \<noteq> 0")
    case True
    then have b: "unat bcnt = Suc (unat (bcnt - 1))"
      by (simp add: unat_minus_one unat_gt_0)
    with "1.prems" have i1: "unat (i + 1) = Suc (unat i)"
      by (simp add: unat_word_ariths)
    with "1.prems" b have pre: "unat (i + 1) + unat (bcnt - 1) < 2 ^ 32" by simp
    show ?thesis
      using "1.IH" [of, OF _ _ pre] True i1 b
        cleared_bit [of "unat i" 0 i bmap]
      by (auto simp: bits_free_head.simps [of bmap i bcnt]
          split: sum.splits prod.splits intro: cleared_trans)
  next
    case False
    then show ?thesis
      by (auto simp: bits_free_head.simps [of bmap i bcnt] cleared_refl and_7 unat_take_bit
          simp flip: unat_0_iff)
  qed
qed

lemma bits_free_bytes_spec:
  "8 * p + unat bcnt < 2 ^ 35 \<Longrightarrow>
   (case bits_free_bytes bmap p bcnt of
      (bmap1, p1, bcnt1) \<Rightarrow>
        cleared bmap (8 * p) (8 * p1) bmap1 \<and> p \<le> p1 \<and> 8 * p1 + unat bcnt1 = 8 * p + unat bcnt)"
proof (induction bmap p bcnt rule: bits_free_bytes.induct)
  case (1 bmap p bcnt)
  show ?case
  proof (cases "8 \<le> bcnt")
    case True
    then have b: "unat (bcnt - 8) + 8 = unat bcnt"
      by (simp add: unat_minus word_le_nat_alt)
    show ?thesis
      using "1.IH" [OF True] "1.prems" True b cleared_byte [of "8 * p" p bmap]
      by (auto simp: bits_free_bytes.simps [of bmap p bcnt]
          split: prod.splits intro: cleared_trans)
  next
    case False
    then show ?thesis
      by (auto simp: bits_free_bytes.simps [of bmap p bcnt] cleared_refl)
  qed
qed

lemma bits_free_tail_spec:
  "i \<le> bcnt \<Longrightarrow>
   cleared bmap (8 * p + unat i) (8 * p + unat bcnt) (bits_free_tail bmap p i bcnt)"
proof (induction bmap p i bcnt rule: bits_free_tail.induct)
  case (1 bmap p i bcnt)
  show ?case
  proof (cases "i < bcnt")
    case True
    then have i1: "unat (i + 1) = Suc (unat i)" by (rule unat_inc)
    with True have "i + 1 \<le> bcnt" by (simp add: word_le_nat_alt word_less_nat_alt)
    from "1.IH" [OF True this] True i1 show ?thesis
      using cleared_bit [of "8 * p + unat i" p i bmap]
      by (auto simp: bits_free_tail.simps [of bmap p i bcnt] word_less_nat_alt
          intro: cleared_trans)
  next
    case False
    with "1.prems" have "i = bcnt" by simp
    then show ?thesis
      by (simp add: bits_free_tail.simps [of bmap p bcnt bcnt] cleared_refl)
  qed
qed

lemma ext4_bmap_bits_free_cleared:
  assumes "unat sbit + unat bcnt < 2 ^ 32"
  shows "cleared bmap (unat sbit) (unat sbit + unat bcnt) (ext4_bmap_bits_free bmap sbit bcnt)"
proof (cases "bits_free_head bmap sbit bcnt")
  case (Inl bmap1)
  with bits_free_head_spec [OF assms, of bmap] show ?thesis
    by (simp add: ext4_bmap_bits_free_def)
next
  case (Inr r)
  obtain bmap1 i bcnt1 where r: "r = (bmap1, i, bcnt1)" by (cases r)
  let ?p = "unat (drop_bit 3 i)"
  obtain bmap2 p bcnt2 where b2: "bits_free_bytes bmap1 ?p bcnt1 = (bmap2, p, bcnt2)"
    by (cases "bits_free_bytes bmap1 ?p bcnt1")
  from bits_free_head_spec [OF assms, of bmap] Inr r
  have h: "cleared bmap (unat sbit) (unat i) bmap1" "unat sbit \<le> unat i" "unat i mod 8 = 0"
    "unat i + unat bcnt1 = unat sbit + unat bcnt" by simp_all
  then have p8: "8 * ?p = unat i" by (simp add: unat_drop_bit) (metis mod_0_imp_dvd dvd_mult_div_cancel)
  with h assms have "8 * ?p + unat bcnt1 < 2 ^ 35" by simp
  from bits_free_bytes_spec [OF this, of bmap1] b2 p8
  have m: "cleared bmap1 (unat i) (8 * p) bmap2" "unat i \<le> 8 * p"
    "8 * p + unat bcnt2 = unat i + unat bcnt1" by auto
  have t: "cleared bmap2 (8 * p) (8 * p + unat bcnt2) (bits_free_tail bmap2 p 0 bcnt2)"
    using bits_free_tail_spec [of 0 bcnt2 bmap2 p] by simp
  have "cleared bmap (unat sbit) (8 * p + unat bcnt2) (bits_free_tail bmap2 p 0 bcnt2)"
    using cleared_trans [OF cleared_trans [OF h(1) m(1)] t] h m by simp
  with h m show ?thesis by (simp add: ext4_bmap_bits_free_def Inr r b2)
qed

section \<open>The search against its reference\<close>

text \<open>The reference: the first clear bit of the range, scanning bit by bit.\<close>

definition first_clear :: "bytes \<Rightarrow> nat \<Rightarrow> nat \<Rightarrow> nat option" where
  "first_clear bmap a b = find (\<lambda>j. \<not> bmap_bit bmap j) [a..<b]"

lemma first_clear_rec:
  "first_clear bmap a b =
     (if a < b then if bmap_bit bmap a then first_clear bmap (Suc a) b else Some a else None)"
  by (simp add: first_clear_def upt_conv_Cons)

lemma first_clear_empty [simp]: "b \<le> a \<Longrightarrow> first_clear bmap a b = None"
  by (simp add: first_clear_def)

lemma first_clear_Some:
  "first_clear bmap a b = Some j \<longleftrightarrow>
     a \<le> j \<and> j < b \<and> \<not> bmap_bit bmap j \<and> (\<forall>k. a \<le> k \<and> k < j \<longrightarrow> bmap_bit bmap k)"
proof
  assume "first_clear bmap a b = Some j"
  then obtain i where i: "i < b - a" "\<not> bmap_bit bmap (a + i)" "j = a + i"
    "\<forall>k < i. bmap_bit bmap (a + k)"
    by (auto simp: first_clear_def find_Some_iff)
  have "bmap_bit bmap k" if "a \<le> k" "k < j" for k
    using i(4) [rule_format, of "k - a"] that i(3) by simp
  with i show "a \<le> j \<and> j < b \<and> \<not> bmap_bit bmap j \<and> (\<forall>k. a \<le> k \<and> k < j \<longrightarrow> bmap_bit bmap k)"
    by simp
next
  assume j: "a \<le> j \<and> j < b \<and> \<not> bmap_bit bmap j \<and> (\<forall>k. a \<le> k \<and> k < j \<longrightarrow> bmap_bit bmap k)"
  then show "first_clear bmap a b = Some j"
    unfolding first_clear_def find_Some_iff by (intro exI [of _ "j - a"]) auto
qed

lemma first_clear_None:
  "first_clear bmap a b = None \<longleftrightarrow> (\<forall>j. a \<le> j \<and> j < b \<longrightarrow> bmap_bit bmap j)"
  by (auto simp: first_clear_def find_None_iff)

lemma first_clear_split:
  "a \<le> m \<Longrightarrow> m \<le> b \<Longrightarrow> first_clear bmap a b =
     (case first_clear bmap a m of Some j \<Rightarrow> Some j | None \<Rightarrow> first_clear bmap m b)"
proof -
  assume "a \<le> m" "m \<le> b"
  then have "[a..<b] = [a..<m] @ [m..<b]" by (metis le_Suc_ex upt_add_eq_append)
  then show ?thesis by (simp add: first_clear_def find_append split: option.splits)
qed

definition align8 :: "nat \<Rightarrow> nat" where
  "align8 n = (n + 7) div 8 * 8"

lemma align8_Suc: "n mod 8 \<noteq> 0 \<Longrightarrow> align8 (Suc n) = align8 n \<and> n < align8 n"
proof -
  assume n: "n mod 8 \<noteq> 0"
  have "n = 8 * (n div 8) + n mod 8" "n mod 8 < 8" by simp_all
  with n have "(n + 7) div 8 = Suc (n div 8)" "(Suc n + 7) div 8 = Suc (n div 8)"
    by linarith+
  moreover have "n < Suc (n div 8) * 8" by simp
  ultimately show ?thesis by (simp add: align8_def)
qed

lemma align8_id: "n mod 8 = 0 \<Longrightarrow> align8 n = n"
  unfolding align8_def by presburger

lemma ext4_bmap_is_bit_clr_iff:
  "ext4_bmap_is_bit_clr bmap p b \<longleftrightarrow> \<not> bmap_bit bmap (8 * p + unat b)"
  by (simp add: ext4_bmap_is_bit_clr_def ext4_bmap_is_bit_set_iff)

lemma find_clr_head_spec:
  "unat i + unat bcnt < 2 ^ 32 \<Longrightarrow>
   (case find_clr_head bmap sbit i bcnt of
      Inl (r, b) \<Rightarrow>
        (case first_clear bmap (unat i) (unat i + unat bcnt) of
           None \<Rightarrow> r = ENOSPC \<and> b = None
         | Some j \<Rightarrow> r = EOK \<and> b = Some sbit \<and> j < align8 (unat i))
    | Inr (i1, bcnt1) \<Rightarrow>
        unat i1 = align8 (unat i) \<and> unat i1 + unat bcnt1 = unat i + unat bcnt \<and> unat i \<le> unat i1 \<and>
        first_clear bmap (unat i) (unat i1) = None)"
proof (induction bmap sbit i bcnt rule: find_clr_head.induct)
  case (1 bmap sbit i bcnt)
  have al: "i AND 7 \<noteq> 0 \<longleftrightarrow> unat i mod 8 \<noteq> 0"
    by (simp add: and_7 unat_take_bit flip: unat_0_iff)
  show ?case
  proof (cases "i AND 7 \<noteq> 0 \<and> bcnt \<noteq> 0 \<and> \<not> ext4_bmap_is_bit_clr bmap 0 i")
    case True
    then have b: "unat bcnt = Suc (unat (bcnt - 1))"
      by (simp add: unat_minus_one unat_gt_0)
    with "1.prems" have i1: "unat (i + 1) = Suc (unat i)"
      by (simp add: unat_word_ariths)
    with "1.prems" b have pre: "unat (i + 1) + unat (bcnt - 1) < 2 ^ 32" by simp
    have set: "bmap_bit bmap (unat i)" using True by (simp add: ext4_bmap_is_bit_clr_iff)
    have "first_clear bmap (unat i) n = first_clear bmap (Suc (unat i)) n" for n
      using set by (subst first_clear_rec) simp
    then show ?thesis
      using "1.IH" [OF _ _ _ pre] True i1 b al align8_Suc [of "unat i"]
      by (auto simp: find_clr_head.simps [of bmap sbit i bcnt]
          split: sum.splits prod.splits option.splits)
  next
    case False
    then consider "i AND 7 = 0" | "i AND 7 \<noteq> 0" "bcnt = 0"
      | "i AND 7 \<noteq> 0" "bcnt \<noteq> 0" "ext4_bmap_is_bit_clr bmap 0 i" by blast
    then show ?thesis
    proof cases
      case 1
      with al show ?thesis by (simp add: find_clr_head.simps [of bmap sbit i bcnt] align8_id)
    next
      case 2
      then show ?thesis by (simp add: find_clr_head.simps [of bmap sbit i 0])
    next
      case 3
      then have "first_clear bmap (unat i) (unat i + unat bcnt) = Some (unat i)"
        by (subst first_clear_rec) (simp add: ext4_bmap_is_bit_clr_iff unat_gt_0)
      with 3 al align8_Suc [of "unat i"] show ?thesis
        by (simp add: find_clr_head.simps [of bmap sbit i bcnt])
    qed
  qed
qed

lemma find_clr_for_spec:
  "i \<le> n \<Longrightarrow>
   find_clr_for bmap p i n =
     map_option (\<lambda>j. of_nat (j - 8 * p)) (first_clear bmap (8 * p + unat i) (8 * p + unat n))"
proof (induction bmap p i n rule: find_clr_for.induct)
  case (1 bmap p i n)
  show ?case
  proof (cases "i < n")
    case True
    then have i1: "unat (i + 1) = Suc (unat i)" by (rule unat_inc)
    with True have "i + 1 \<le> n" by (simp add: word_le_nat_alt word_less_nat_alt)
    with "1.IH" [OF True] True i1 show ?thesis
      by (auto simp: find_clr_for.simps [of bmap p i n] word_less_nat_alt
          first_clear_rec [of bmap "8 * p + unat i"] ext4_bmap_is_bit_clr_iff)
  next
    case False
    with "1.prems" have "i = n" by simp
    then show ?thesis by (simp add: find_clr_for.simps [of bmap p n n])
  qed
qed


lemma byte_all_ones: "bmap ! p = 0xFF \<Longrightarrow> first_clear bmap (8 * p) (8 * p + 8) = None"
proof -
  assume ff: "bmap ! p = 0xFF"
  have m: "(0xFF :: u8) = mask 8" by (simp add: mask_eq_exp_minus_1)
  have "bmap_bit bmap j" if "8 * p \<le> j" "j < 8 * p + 8" for j
  proof -
    from that have "j div 8 = p" by auto
    with ff show ?thesis by (simp add: bmap_bit_def m bit_simps del: mask_eq_exp_minus_1)
  qed
  then show ?thesis by (auto simp: first_clear_None)
qed

lemma find_clr_bytes_spec:
  "unat sbit = 8 * p \<Longrightarrow> 8 * p + unat bcnt < 2 ^ 32 \<Longrightarrow>
   (case find_clr_bytes bmap p sbit bcnt of
      Inl b \<Rightarrow> first_clear bmap (8 * p) (8 * p + unat bcnt) = Some (unat b)
    | Inr (p1, sbit1, bcnt1) \<Rightarrow>
        unat sbit1 = 8 * p1 \<and> p \<le> p1 \<and> 8 * p1 + unat bcnt1 = 8 * p + unat bcnt \<and>
        first_clear bmap (8 * p) (8 * p1) = None)"
proof (induction bmap p sbit bcnt rule: find_clr_bytes.induct)
  case (1 bmap p sbit bcnt)
  show ?case
  proof (cases "8 \<le> bcnt")
    case False
    with "1.prems" show ?thesis by (simp add: find_clr_bytes.simps [of bmap p sbit bcnt])
  next
    case True
    then have b: "unat bcnt = 8 + unat (bcnt - 8)"
      by (simp add: unat_minus word_le_nat_alt)
    let ?f = "if bmap ! p \<noteq> 0xFF then find_clr_for bmap p 0 8 else None"
    have f: "?f = map_option (\<lambda>j. of_nat (j - 8 * p)) (first_clear bmap (8 * p) (8 * p + 8))"
      using find_clr_for_spec [of 0 8 bmap p] byte_all_ones [of bmap p] by simp
    have split: "first_clear bmap (8 * p) n =
        (case first_clear bmap (8 * p) (8 * p + 8) of
           Some j \<Rightarrow> Some j | None \<Rightarrow> first_clear bmap (8 * p + 8) n)" if "8 * p + 8 \<le> n" for n
      using that by (intro first_clear_split) auto
    show ?thesis
    proof (cases "first_clear bmap (8 * p) (8 * p + 8)")
      case (Some j)
      then have "8 * p \<le> j" "j < 8 * p + 8" by (auto simp: first_clear_Some)
      then obtain d where d: "j = 8 * p + d" "d < 8" by (metis le_Suc_ex nat_add_left_cancel_less)
      with "1.prems" b have "unat (sbit + of_nat (j - 8 * p)) = j"
        by (simp add: unat_word_ariths unat_of_nat)
      with Some f True b split [of "8 * p + unat bcnt"] show ?thesis
        by (simp add: find_clr_bytes.simps [of bmap p sbit bcnt])
    next
      case None
      with f have fN: "?f = None" by simp
      have s8: "unat (sbit + 8) = 8 * (p + 1)"
        using "1.prems" b by (simp add: unat_word_ariths)
      have pre: "8 * (p + 1) + unat (bcnt - 8) < 2 ^ 32" using "1.prems" b by simp
      from "1.IH" [OF True fN s8 pre] None fN True b s8 split
      show ?thesis
        by (auto simp: find_clr_bytes.simps [of bmap p sbit bcnt] algebra_simps
            split: sum.splits prod.splits)
    qed
  qed
qed

text \<open>
  The search, on every branch: the first clear bit of the range when it lies at or after
  the first byte boundary, the start of the search when it lies before it.
\<close>

lemma ext4_bmap_bit_find_clr_spec:
  assumes le: "sbit \<le> ebit"
  shows "ext4_bmap_bit_find_clr bmap sbit ebit =
    (case first_clear bmap (unat sbit) (unat ebit) of
       None \<Rightarrow> (ENOSPC, None)
     | Some j \<Rightarrow> (EOK, Some (if j < align8 (unat sbit) then sbit else of_nat j)))"
proof -
  have n: "unat sbit + unat (ebit - sbit) = unat ebit" "unat ebit < 2 ^ 32"
    using le unsigned_less [of ebit] by (simp_all add: unat_minus word_le_nat_alt)
  then have pre: "unat sbit + unat (ebit - sbit) < 2 ^ 32" by simp
  note h = find_clr_head_spec [OF pre, where bmap = bmap and sbit = sbit, unfolded n]
  show ?thesis
  proof (cases "find_clr_head bmap sbit sbit (ebit - sbit)")
    case (Inl r)
    with h show ?thesis
      by (cases r) (auto simp: ext4_bmap_bit_find_clr_def split: option.splits)
  next
    case head: (Inr r)
    obtain i bcnt where r: "r = (i, bcnt)" by (cases r)
    note h1 = h [unfolded head r sum.case prod.case]
    from h1 have i: "unat i = align8 (unat sbit)" "unat i + unat bcnt = unat ebit"
      "unat sbit \<le> unat i" "first_clear bmap (unat sbit) (unat i) = None" by blast+
    let ?p = "unat (drop_bit 3 i)"
    have p: "unat i = 8 * ?p" using i(1) by (simp add: unat_drop_bit align8_def)
    with i n have pre2: "8 * ?p + unat bcnt < 2 ^ 32" by simp
    have all: "first_clear bmap (unat sbit) (unat ebit) = first_clear bmap (unat i) (unat ebit)"
      using i by (subst first_clear_split [of _ "unat i"]) auto
    note m = find_clr_bytes_spec [OF p pre2, where bmap = bmap]
    show ?thesis
    proof (cases "find_clr_bytes bmap ?p i bcnt")
      case (Inl b)
      with m p i all have "first_clear bmap (unat sbit) (unat ebit) = Some (unat b)" by simp
      moreover from this all have "unat i \<le> unat b" by (auto simp: first_clear_Some)
      ultimately show ?thesis
        using Inl head r i(1) by (simp add: ext4_bmap_bit_find_clr_def)
    next
      case (Inr q)
      obtain p1 s1 b1 where q: "q = (p1, s1, b1)" by (cases q)
      with m Inr have m1: "unat s1 = 8 * p1" "?p \<le> p1" "8 * p1 + unat b1 = 8 * ?p + unat bcnt"
        "first_clear bmap (8 * ?p) (8 * p1) = None" by simp_all
      have "first_clear bmap (unat i) (unat ebit) = first_clear bmap (8 * p1) (unat ebit)"
        using m1 p i by (subst first_clear_split [of _ "8 * p1"]) auto
      with all have all1: "first_clear bmap (unat sbit) (unat ebit) =
          first_clear bmap (8 * p1) (8 * p1 + unat b1)" using m1 i p by simp
      have fr: "find_clr_for bmap p1 0 b1 = map_option (\<lambda>j. of_nat (j - 8 * p1))
          (first_clear bmap (unat sbit) (unat ebit))"
        using find_clr_for_spec [of 0 b1 bmap p1] all1 by simp
      have res: "ext4_bmap_bit_find_clr bmap sbit ebit =
          (case find_clr_for bmap p1 0 b1 of
             Some j \<Rightarrow> (EOK, Some (s1 + j)) | None \<Rightarrow> (ENOSPC, None))"
        by (simp only: ext4_bmap_bit_find_clr_def head r q Inr sum.case prod.case)
      show ?thesis
      proof (cases "first_clear bmap (unat sbit) (unat ebit)")
        case None
        with fr res show ?thesis by simp
      next
        case (Some j)
        with all1 have "first_clear bmap (8 * p1) (8 * p1 + unat b1) = Some j" by metis
        then have j: "8 * p1 \<le> j" by (simp add: first_clear_Some)
        have "s1 = of_nat (8 * p1)" by (subst m1(1) [symmetric]) simp
        then have "s1 + of_nat (j - 8 * p1) = of_nat (8 * p1 + (j - 8 * p1))"
          by (simp only: of_nat_add)
        then have "s1 + of_nat (j - 8 * p1) = of_nat j" using j by simp
        moreover have "\<not> j < align8 (unat sbit)" using i p m1 j by linarith
        ultimately show ?thesis using fr res Some by simp
      qed
    qed
  qed
qed

section \<open>Properties\<close>

text \<open>
  \<open>ext4_bmap_bits_free\<close> clears exactly the bits \<open>sbit .. sbit + bcnt - 1\<close>, whatever the
  alignment of the range, and leaves every other bit and the size of the bitmap alone.
\<close>

theorem bits_free_exact:
  assumes "unat sbit + unat bcnt < 2 ^ 32" and "j < 8 * length bmap"
  shows "length (ext4_bmap_bits_free bmap sbit bcnt) = length bmap \<and>
    (bmap_bit (ext4_bmap_bits_free bmap sbit bcnt) j \<longleftrightarrow>
      bmap_bit bmap j \<and> \<not> (unat sbit \<le> j \<and> j < unat sbit + unat bcnt))"
  using ext4_bmap_bits_free_cleared [OF assms(1), of bmap] assms(2) by (simp_all add: cleared_def)

theorem bits_free_exact_witness:
  "\<not> bmap_bit (ext4_bmap_bits_free [255, 255, 255] 5 9) 13 \<and>
   bmap_bit (ext4_bmap_bits_free [255, 255, 255] 5 9) 14"
  using bits_free_exact [of 5 9 13 "[255, 255, 255]"]
    bits_free_exact [of 5 9 14 "[255, 255, 255]"]
  by (simp add: bmap_bit_def)

text \<open>
  C28: The word-wise search \<open>ext4_bmap_bit_find_clr\<close> against the bit-by-bit scan, on every
  input with \<open>sbit \<le> ebit\<close>: it answers \<open>ENOSPC\<close> exactly when every bit of the range is set;
  otherwise it answers the first clear bit, except that a first clear bit in front of the
  first byte boundary is reported as \<open>sbit\<close>. From a byte-aligned start it is the scan.
\<close>

theorem find_clr_is_scan:
  assumes "sbit \<le> ebit"
  shows "ext4_bmap_bit_find_clr bmap sbit ebit =
    (case first_clear bmap (unat sbit) (unat ebit) of
       None \<Rightarrow> (ENOSPC, None)
     | Some j \<Rightarrow> (EOK, Some (if j < align8 (unat sbit) then sbit else of_nat j)))"
  using assms by (rule ext4_bmap_bit_find_clr_spec)

theorem find_clr_is_scan_witness:
  "ext4_bmap_bit_find_clr [255, 251] 0 16 = (EOK, Some 10)"
  by (simp add: find_clr_is_scan [of 0 16] first_clear_rec bmap_bit_def align8_def)

text \<open>
  a defect of the search, on a concrete bitmap: bit 1 is set and bit 2 is the first
  clear one, yet the search from bit 1 succeeds with bit 1, a bit that is in use.
\<close>

theorem find_clr_reports_used_bit:
  "ext4_bmap_bit_find_clr [2] 1 8 = (EOK, Some 1) \<and> bmap_bit [2] 1 \<and>
   first_clear [2] 1 8 = Some 2"
  by (simp add: ext4_bmap_bit_find_clr_spec first_clear_rec bmap_bit_def align8_def)

end
