(* ===== verification/Hash.thy ===== *)
theory Hash
  imports Prelude
begin

text \<open>
  The directory index hashes of \<open>src/ext4_hash.c\<close>: half-MD4, TEA and the legacy hash, the
  packing of a name into hash words, and the driver \<open>ext2_htree_hash\<close>. Words are 32 bits
  wide and wrap. A name is its byte list; the signed variants sign-extend each byte, the
  unsigned ones zero-extend it.
\<close>

section \<open>Half MD4\<close>

definition md4_F :: "u32 \<Rightarrow> u32 \<Rightarrow> u32 \<Rightarrow> u32" where
  "md4_F x y z = (x AND y) OR (NOT x AND z)"

definition md4_G :: "u32 \<Rightarrow> u32 \<Rightarrow> u32 \<Rightarrow> u32" where
  "md4_G x y z = (x AND y) OR (x AND z) OR (y AND z)"

definition md4_H :: "u32 \<Rightarrow> u32 \<Rightarrow> u32 \<Rightarrow> u32" where
  "md4_H x y z = x XOR y XOR z"

definition ROTATE_LEFT :: "u32 \<Rightarrow> nat \<Rightarrow> u32" where
  "ROTATE_LEFT x n = push_bit n x OR drop_bit (32 - n) x"

text \<open>The macros \<open>FF\<close>, \<open>GG\<close>, \<open>HH\<close> assign to their first argument; here they return it.\<close>

definition FF :: "u32 \<Rightarrow> u32 \<Rightarrow> u32 \<Rightarrow> u32 \<Rightarrow> u32 \<Rightarrow> nat \<Rightarrow> u32" where
  "FF a b c d x s = ROTATE_LEFT (a + (md4_F b c d + x)) s"

definition GG :: "u32 \<Rightarrow> u32 \<Rightarrow> u32 \<Rightarrow> u32 \<Rightarrow> u32 \<Rightarrow> nat \<Rightarrow> u32" where
  "GG a b c d x s = ROTATE_LEFT (a + (md4_G b c d + x + 0x5A827999)) s"

definition HH :: "u32 \<Rightarrow> u32 \<Rightarrow> u32 \<Rightarrow> u32 \<Rightarrow> u32 \<Rightarrow> nat \<Rightarrow> u32" where
  "HH a b c d x s = ROTATE_LEFT (a + (md4_H b c d + x + 0x6ED9EBA1)) s"

definition ext2_half_md4 :: "u32 list \<Rightarrow> u32 list \<Rightarrow> u32 list" where
  "ext2_half_md4 hash data =
    (let a = hash ! 0; b = hash ! 1; c = hash ! 2; d = hash ! 3;
         a = FF a b c d (data ! 0) 3;  d = FF d a b c (data ! 1) 7;
         c = FF c d a b (data ! 2) 11; b = FF b c d a (data ! 3) 19;
         a = FF a b c d (data ! 4) 3;  d = FF d a b c (data ! 5) 7;
         c = FF c d a b (data ! 6) 11; b = FF b c d a (data ! 7) 19;
         a = GG a b c d (data ! 1) 3;  d = GG d a b c (data ! 3) 5;
         c = GG c d a b (data ! 5) 9;  b = GG b c d a (data ! 7) 13;
         a = GG a b c d (data ! 0) 3;  d = GG d a b c (data ! 2) 5;
         c = GG c d a b (data ! 4) 9;  b = GG b c d a (data ! 6) 13;
         a = HH a b c d (data ! 3) 3;  d = HH d a b c (data ! 7) 9;
         c = HH c d a b (data ! 2) 11; b = HH b c d a (data ! 6) 15;
         a = HH a b c d (data ! 1) 3;  d = HH d a b c (data ! 5) 9;
         c = HH c d a b (data ! 0) 11; b = HH b c d a (data ! 4) 15
     in hash[0 := hash ! 0 + a, 1 := hash ! 1 + b, 2 := hash ! 2 + c, 3 := hash ! 3 + d])"

section \<open>Tiny encryption algorithm\<close>

fun tea_rounds :: "nat \<Rightarrow> nat \<Rightarrow> u32 \<Rightarrow> u32 \<Rightarrow> u32 list \<Rightarrow> u32 \<times> u32" where
  "tea_rounds 0 i x y data = (x, y)"
| "tea_rounds (Suc n) i x y data =
     (let sum = of_nat i * 0x9E3779B9;
          x = x + ((push_bit 4 y + data ! 0) XOR (y + sum) XOR (drop_bit 5 y + data ! 1));
          y = y + ((push_bit 4 x + data ! 2) XOR (x + sum) XOR (drop_bit 5 x + data ! 3))
      in tea_rounds n (i + 1) x y data)"

definition ext2_tea :: "u32 list \<Rightarrow> u32 list \<Rightarrow> u32 list" where
  "ext2_tea hash data =
     (case tea_rounds 16 1 (hash ! 0) (hash ! 1) data of
        (x, y) \<Rightarrow> hash[0 := hash ! 0 + x, 1 := hash ! 1 + y])"

section \<open>Characters, the legacy hash\<close>

text \<open>The two readings of a byte as the C \<open>int\<close> that enters 32-bit arithmetic.\<close>

definition char_val :: "bool \<Rightarrow> u8 \<Rightarrow> u32" where
  "char_val unsigned_char c = (if unsigned_char then ucast c else scast c)"

fun legacy_loop :: "bool \<Rightarrow> bytes \<Rightarrow> u32 \<Rightarrow> u32 \<Rightarrow> u32" where
  "legacy_loop uc [] h1 h2 = h1"
| "legacy_loop uc (c # name) h1 h2 =
     (let h0 = h2 + (h1 XOR (char_val uc c * 0x6D22F5));
          h0 = (if h0 AND 0x80000000 \<noteq> 0 then h0 - 0x7FFFFFFF else h0)
      in legacy_loop uc name h0 h1)"

definition ext2_legacy_hash :: "bytes \<Rightarrow> bool \<Rightarrow> u32" where
  "ext2_legacy_hash name uc = push_bit 1 (legacy_loop uc name 0x12A3FE2D 0x37ABE8F9)"

section \<open>Packing a name: ext2_prep_hashbuf\<close>

text \<open>
  \<open>dst\<close> is the list of words stored so far; \<open>dlen\<close> is the C \<open>int\<close> that counts the bytes
  left in the output and goes negative when it is used up.
\<close>

fun prep_loop ::
    "u32 \<Rightarrow> bool \<Rightarrow> bytes \<Rightarrow> nat \<Rightarrow> u32 \<Rightarrow> u32 list \<Rightarrow> int \<Rightarrow> u32 \<times> u32 list \<times> int" where
  "prep_loop padding uc [] i buf_val dst dlen = (buf_val, dst, dlen)"
| "prep_loop padding uc (c # src) i buf_val dst dlen =
     (let buf_val = (if i mod 4 = 0 then padding else buf_val);
          buf_val = push_bit 8 buf_val + char_val uc c
      in if i mod 4 = 3
         then prep_loop padding uc src (i + 1) padding (dst @ [buf_val]) (dlen - 4)
         else prep_loop padding uc src (i + 1) buf_val dst dlen)"

function pad_loop :: "u32 \<Rightarrow> u32 list \<Rightarrow> int \<Rightarrow> u32 list" where
  "pad_loop padding dst dlen =
     (if 0 \<le> dlen then pad_loop padding (dst @ [padding]) (dlen - 4) else dst)"
  by pat_completeness auto
termination
  by (relation "measure (\<lambda>(padding, dst, dlen). nat (dlen + 4))") auto

declare pad_loop.simps [simp del]

definition ext2_prep_hashbuf :: "bytes \<Rightarrow> u32 \<Rightarrow> int \<Rightarrow> bool \<Rightarrow> u32 list" where
  "ext2_prep_hashbuf src slen dlen uc =
    (let padding = slen OR push_bit 8 slen OR push_bit 16 slen OR push_bit 24 slen;
         len = (if word_of_int dlen < slen then nat dlen else unat slen)
     in case prep_loop padding uc (take len src) 0 padding [] dlen of
          (buf_val, dst, dlen) \<Rightarrow>
            (let dlen = dlen - 4;
                 dst = (if 0 \<le> dlen then dst @ [buf_val] else dst)
             in pad_loop padding dst (dlen - 4)))"

section \<open>The driver: ext2_htree_hash\<close>

text \<open>
  The loop over the name, shared by the TEA (16 byte) and half-MD4 (32 byte) arms.
  \<open>data\<close> words that \<open>ext2_prep_hashbuf\<close> does not store keep their old value in C; it
  stores all of them (\<open>prep_hashbuf_words\<close> below), so the fresh list is the array.
\<close>

function hash_blocks ::
    "(u32 list \<Rightarrow> u32 list \<Rightarrow> u32 list) \<Rightarrow> int \<Rightarrow> bool \<Rightarrow> bytes \<Rightarrow> int \<Rightarrow> u32 list \<Rightarrow> u32 list" where
  "hash_blocks f step uc name len hash =
     (if 0 < len \<and> 0 < step then
        hash_blocks f step uc (drop (nat step) name) (len - step)
          (f hash (ext2_prep_hashbuf name (word_of_int len) step uc))
      else hash)"
  by pat_completeness auto
termination
  by (relation "measure (\<lambda>(f, step, uc, name, len, hash). nat len)") auto

declare hash_blocks.simps [simp del]

definition EXT2_HTREE_LEGACY :: int where "EXT2_HTREE_LEGACY = 0"
definition EXT2_HTREE_HALF_MD4 :: int where "EXT2_HTREE_HALF_MD4 = 1"
definition EXT2_HTREE_TEA :: int where "EXT2_HTREE_TEA = 2"
definition EXT2_HTREE_LEGACY_UNSIGNED :: int where "EXT2_HTREE_LEGACY_UNSIGNED = 3"
definition EXT2_HTREE_HALF_MD4_UNSIGNED :: int where "EXT2_HTREE_HALF_MD4_UNSIGNED = 4"
definition EXT2_HTREE_TEA_UNSIGNED :: int where "EXT2_HTREE_TEA_UNSIGNED = 5"

lemmas htree_versions =
  EXT2_HTREE_LEGACY_def EXT2_HTREE_HALF_MD4_def EXT2_HTREE_TEA_def
  EXT2_HTREE_LEGACY_UNSIGNED_def EXT2_HTREE_HALF_MD4_UNSIGNED_def EXT2_HTREE_TEA_UNSIGNED_def

definition EXT2_HTREE_EOF :: u32 where "EXT2_HTREE_EOF = 0x7FFFFFFF"

text \<open>
  The \<open>switch\<close> on the hash version: \<open>None\<close> is the \<open>default\<close> arm, otherwise the raw major
  and minor hash.
\<close>

definition htree_switch :: "bytes \<Rightarrow> int \<Rightarrow> u32 list \<Rightarrow> int \<Rightarrow> (u32 \<times> u32) option" where
  "htree_switch name len hash version =
    (if version = EXT2_HTREE_TEA \<or> version = EXT2_HTREE_TEA_UNSIGNED then
       (let h = hash_blocks ext2_tea 16 (version = EXT2_HTREE_TEA_UNSIGNED) name len hash
        in Some (h ! 0, h ! 1))
     else if version = EXT2_HTREE_LEGACY \<or> version = EXT2_HTREE_LEGACY_UNSIGNED then
       Some (ext2_legacy_hash (take (nat len) name) (version = EXT2_HTREE_LEGACY_UNSIGNED), 0)
     else if version = EXT2_HTREE_HALF_MD4 \<or> version = EXT2_HTREE_HALF_MD4_UNSIGNED then
       (let h = hash_blocks ext2_half_md4 32 (version = EXT2_HTREE_HALF_MD4_UNSIGNED) name len hash
        in Some (h ! 1, h ! 2))
     else None)"

text \<open>
  \<open>name = None\<close> is a NULL name, \<open>has_major\<close> whether \<open>hash_major\<close> is non-NULL; the result
  holds the values stored through \<open>hash_major\<close> and (when it is non-NULL) \<open>hash_minor\<close>.
\<close>

definition ext2_htree_hash ::
    "bytes option \<Rightarrow> int \<Rightarrow> u32 list option \<Rightarrow> int \<Rightarrow> bool \<Rightarrow> errno \<times> (u32 \<times> u32) option" where
  "ext2_htree_hash name len hash_seed version has_major =
    (case name of
       None \<Rightarrow> (E_minus_one, None)
     | Some nm \<Rightarrow>
         if \<not> has_major then (E_minus_one, None)
         else if len < 1 \<or> 255 < len then (ENOTSUP, Some (0, 0))
         else
           (let hash = (case hash_seed of
                          None \<Rightarrow> [0x67452301, 0xEFCDAB89, 0x98BADCFE, 0x10325476]
                        | Some seed \<Rightarrow> take 4 seed)
            in case htree_switch nm len hash version of
                 None \<Rightarrow> (ENOTSUP, Some (0, 0))
               | Some (major, minor) \<Rightarrow>
                   (let major = major AND NOT 1;
                        major = (if major = push_bit 1 EXT2_HTREE_EOF
                                 then push_bit 1 (EXT2_HTREE_EOF - 1) else major)
                    in (EOK, Some (major, minor)))))"

section \<open>The packed words\<close>

text \<open>
  The reference definition of the packing: word \<open>k\<close> is built from the bytes
  \<open>4 k, ..., 4 k + 3\<close> of the name that exist, shifted into the padding pattern.
\<close>

definition pack_word :: "u32 \<Rightarrow> bool \<Rightarrow> bytes \<Rightarrow> u32" where
  "pack_word padding uc cs = foldl (\<lambda>v c. push_bit 8 v + char_val uc c) padding cs"

definition hash_padding :: "u32 \<Rightarrow> u32" where
  "hash_padding slen = slen OR push_bit 8 slen OR push_bit 16 slen OR push_bit 24 slen"

definition hashbuf_spec :: "bytes \<Rightarrow> u32 \<Rightarrow> nat \<Rightarrow> bool \<Rightarrow> u32 list" where
  "hashbuf_spec src slen words uc =
     map (\<lambda>k. pack_word (hash_padding slen) uc (take 4 (drop (4 * k) (take (unat slen) src))))
       [0..<words]"

lemma pack_word_Nil [simp]: "pack_word padding uc [] = padding"
  by (simp add: pack_word_def)

lemma four_cases:
  obtains "cs = []" | a where "cs = [a]" | a b where "cs = [a, b]" | a b c where "cs = [a, b, c]"
    | a b c d ds where "cs = a # b # c # d # ds"
  by (cases cs; cases "tl cs"; cases "tl (tl cs)"; cases "tl (tl (tl cs))") auto

lemma prep_loop_short:
  assumes "length cs < 4" "i mod 4 = 0"
  shows "prep_loop padding uc cs i padding dst dlen = (pack_word padding uc cs, dst, dlen)"
proof -
  have 1: "Suc i mod 4 = 1" and 2: "Suc (Suc i) mod 4 = 2"
    using assms(2) by (simp_all add: mod_Suc)
  show ?thesis
    using 1 2 assms by (cases cs rule: four_cases) (simp_all add: pack_word_def Let_def)
qed

lemma prep_loop_chunk:
  assumes "i mod 4 = 0"
  shows "prep_loop padding uc (a # b # c # d # cs) i padding dst dlen =
     prep_loop padding uc cs (i + 4) padding (dst @ [pack_word padding uc [a, b, c, d]]) (dlen - 4)"
proof -
  have 1: "Suc i mod 4 = 1" and 2: "Suc (Suc i) mod 4 = 2" and 3: "Suc (Suc (Suc i)) mod 4 = 3"
    using assms by (simp_all add: mod_Suc)
  have 4: "Suc (Suc (Suc (Suc i))) = i + 4" by simp
  show ?thesis using assms 1 2 3
    by (simp add: pack_word_def Let_def 4)
qed

lemma drop_four: "drop (4 + n) (a # b # c # d # ds) = drop n ds"
proof -
  have "4 + n = Suc (Suc (Suc (Suc n)))" by simp
  then show ?thesis by (simp only: drop_Suc_Cons)
qed

lemma four_or_short:
  obtains (short) "length cs < 4" | (long) a b c d ds where "cs = a # b # c # d # ds"
  by (cases cs rule: four_cases) auto

lemma prep_loop_words:
  "i mod 4 = 0 \<Longrightarrow> prep_loop padding uc cs i padding dst dlen =
     (pack_word padding uc (drop (4 * (length cs div 4)) cs),
      dst @ map (\<lambda>k. pack_word padding uc (take 4 (drop (4 * k) cs))) [0..<length cs div 4],
      dlen - 4 * int (length cs div 4))"
proof (induction "length cs" arbitrary: cs i dst dlen rule: less_induct)
  case less
  show ?case
  proof (cases cs rule: four_or_short)
    case short
    then show ?thesis by (simp add: prep_loop_short less.prems)
  next
    case (long a b c d ds)
    have len: "length cs div 4 = Suc (length ds div 4)" by (simp add: long)
    have words: "map (\<lambda>k. pack_word padding uc (take 4 (drop (4 * k) cs))) [0..<length cs div 4] =
        pack_word padding uc [a, b, c, d] #
        map (\<lambda>k. pack_word padding uc (take 4 (drop (4 * k) ds))) [0..<length ds div 4]"
      unfolding len by (simp only: upt_conv_Cons zero_less_Suc list.map map_Suc_upt [symmetric] map_map)
        (simp add: long o_def drop_four)
    have l4: "(4 + length ds) div 4 = Suc (length ds div 4)" by simp
    have "(i + 4) mod 4 = 0" using less.prems by simp
    then show ?thesis
      unfolding words using less.hyps [of ds "i + 4"] less.prems
      by (simp add: long prep_loop_chunk l4 drop_four del: prep_loop.simps)
  qed
qed

lemma pad_loop_replicate:
  "pad_loop padding dst dlen = dst @ replicate (nat ((dlen + 4) div 4)) padding"
proof (induction padding dst dlen rule: pad_loop.induct)
  case (1 padding dst dlen)
  show ?case
  proof (cases "0 \<le> dlen")
    case True
    have "nat ((dlen + 4) div 4) = Suc (nat ((dlen - 4 + 4) div 4))" using True by simp
    then show ?thesis using True 1
      by (simp add: pad_loop.simps [of padding dst dlen])
  next
    case False
    then have "nat ((dlen + 4) div 4) = 0" by simp
    with False show ?thesis by (simp add: pad_loop.simps [of padding dst dlen])
  qed
qed

lemma prep_hashbuf_words:
  assumes "unat slen \<le> length src" "4 * words < 2 ^ 31"
  shows "ext2_prep_hashbuf src slen (4 * int words) uc = hashbuf_spec src slen words uc"
proof -
  let ?p = "hash_padding slen"
  define cs where "cs = take (min (4 * words) (unat slen)) src"
  let ?n = "length cs div 4"
  let ?w = "\<lambda>k. pack_word ?p uc (take 4 (drop (4 * k) (take (unat slen) src)))"
  have "word_of_int (4 * int words) = (of_nat (4 * words) :: u32)" by simp
  then have w: "unat (word_of_int (4 * int words) :: u32) = 4 * words"
    using assms(2) by (simp only: unat_of_nat) simp
  have len: "length cs = min (4 * words) (unat slen)" using assms(1) by (simp add: cs_def)
  have cut: "(if (word_of_int (4 * int words) :: u32) < slen then nat (4 * int words) else unat slen)
      = min (4 * words) (unat slen)"
    unfolding word_less_nat_alt w by (simp add: min_def nat_mult_distrib)
  have n: "?n \<le> words" using len by simp
  have words: "map (\<lambda>k. pack_word ?p uc (take 4 (drop (4 * k) cs))) [0..<?n] = map ?w [0..<?n]"
  proof (rule map_cong [OF refl])
    fix k assume "k \<in> set [0..<?n]"
    then have "k < ?n" by simp
    then have "4 * k + 4 \<le> 4 * ?n" by linarith
    also have "4 * ?n \<le> length cs" by linarith
    finally have "4 * k + 4 \<le> length cs" .
    then show "pack_word ?p uc (take 4 (drop (4 * k) cs)) = ?w k"
      using len by (simp add: cs_def drop_take min_def)
  qed
  have "ext2_prep_hashbuf src slen (4 * int words) uc =
     (let dlen = 4 * int words - 4 * int ?n - 4
      in pad_loop ?p (map ?w [0..<?n] @ (if 0 \<le> dlen then [pack_word ?p uc (drop (4 * ?n) cs)] else []))
           (dlen - 4))"
    unfolding ext2_prep_hashbuf_def Let_def cut cs_def [symmetric] hash_padding_def [symmetric]
    by (simp add: Let_def prep_loop_words words del: prep_loop.simps)
  also have "\<dots> = map ?w [0..<words]"
  proof (cases "?n = words")
    case True
    then show ?thesis by (simp add: Let_def pad_loop_replicate)
  next
    case False
    with n have lt: "?n < words" by simp
    then have cs: "cs = take (unat slen) src" using len by (simp add: cs_def min_def split: if_splits)
    have rest: "length (drop (4 * ?n) cs) < 4" by simp
    have "pack_word ?p uc (drop (4 * ?n) cs) = ?w ?n"
      using rest unfolding cs by (simp add: take_all)
    moreover have "?w k = ?p" if "?n < k" for k
    proof -
      have "length (take (unat slen) src) \<le> 4 * k" using that unfolding cs by linarith
      then show ?thesis by simp
    qed
    then have "map ?w [Suc ?n..<words] = replicate (words - Suc ?n) ?p"
      by (intro replicate_eqI) auto
    moreover have "[0..<words] = [0..<?n] @ ?n # [Suc ?n..<words]"
      using lt upt_add_eq_append [of 0 ?n "words - ?n"] by (simp add: upt_conv_Cons)
    moreover have "nat ((4 * int words - 4 * int ?n - 4 - 4 + 4) div 4) = words - Suc ?n"
      using lt by linarith
    ultimately show ?thesis using lt by (simp add: Let_def pad_loop_replicate)
  qed
  finally show ?thesis unfolding hashbuf_spec_def .
qed

section \<open>What the hashes depend on\<close>

lemma char_val_ascii: "c < 128 \<Longrightarrow> char_val uc c = ucast c"
proof -
  assume "c < 128"
  then have "take_bit 7 c = c"
    by (simp only: word_less_nat_alt unat_take_bit word_unat_eq_iff) simp
  then have lt: "bit c n \<Longrightarrow> n < 7" for n by (metis bit_take_bit_iff)
  have "scast c = (ucast c :: u32)"
    by (intro bit_word_eqI) (auto simp: bit_simps min_def dest: lt)
  then show ?thesis by (simp add: char_val_def)
qed

lemma prep_loop_ascii:
  "\<forall>c\<in>set cs. c < 128 \<Longrightarrow> prep_loop padding uc cs i v dst dlen = prep_loop padding True cs i v dst dlen"
  by (induction padding uc cs i v dst dlen rule: prep_loop.induct) (auto simp: char_val_ascii Let_def)

lemma prep_hashbuf_ascii:
  "\<forall>c\<in>set cs. c < 128 \<Longrightarrow> ext2_prep_hashbuf cs slen dlen uc = ext2_prep_hashbuf cs slen dlen True"
  unfolding ext2_prep_hashbuf_def Let_def
  by (subst prep_loop_ascii) (auto dest: in_set_takeD)

lemma hash_blocks_ascii:
  "\<forall>c\<in>set cs. c < 128 \<Longrightarrow> hash_blocks f step uc cs len hash = hash_blocks f step True cs len hash"
proof (induction f step uc cs len hash rule: hash_blocks.induct)
  case (1 f step uc cs len hash)
  have "\<forall>c\<in>set (drop (nat step) cs). c < 128" using 1(2) by (auto dest: in_set_dropD)
  then show ?case
    using 1 prep_hashbuf_ascii [OF 1(2), of "word_of_int len" step uc]
    by (simp add: hash_blocks.simps [of f step _ cs len hash])
qed

lemma legacy_loop_ascii:
  "\<forall>c\<in>set cs. c < 128 \<Longrightarrow> legacy_loop uc cs h1 h2 = legacy_loop True cs h1 h2"
  by (induction uc cs h1 h2 rule: legacy_loop.induct) (auto simp: char_val_ascii Let_def)

text \<open>Only the first \<open>len\<close> bytes are read.\<close>

lemma unat_word_of_int_small:
  "0 \<le> i \<Longrightarrow> i < 2 ^ 31 \<Longrightarrow> unat (word_of_int i :: u32) = nat i"
proof -
  assume i: "0 \<le> i" "i < 2 ^ 31"
  have "(word_of_int i :: u32) = of_nat (nat i)" using i by simp
  then show ?thesis using i by (simp only: unat_of_nat) simp
qed

lemma prep_hashbuf_prefix:
  assumes "0 \<le> step" "step < 2 ^ 31" "0 \<le> len" "len < 2 ^ 31"
  shows "ext2_prep_hashbuf (take (nat len) cs) (word_of_int len) step uc =
         ext2_prep_hashbuf cs (word_of_int len) step uc"
  using assms
  by (cases "step < len")
    (simp_all add: ext2_prep_hashbuf_def word_less_nat_alt unat_word_of_int_small min_def Let_def
        del: prep_loop.simps)

lemma hash_blocks_prefix:
  "step < 2 ^ 31 \<Longrightarrow> len < 2 ^ 31 \<Longrightarrow>
   hash_blocks f step uc (take (nat len) cs) len hash = hash_blocks f step uc cs len hash"
proof (induction f step uc cs len hash rule: hash_blocks.induct)
  case (1 f step uc cs len hash)
  show ?case
  proof (cases "0 < len \<and> 0 < step")
    case True
    have "drop (nat step) (take (nat len) cs) = take (nat (len - step)) (drop (nat step) cs)"
      using True by (simp add: drop_take nat_diff_distrib')
    with True 1 show ?thesis
      by (simp add: hash_blocks.simps [of f step _ _ len hash] prep_hashbuf_prefix)
  qed (auto simp: hash_blocks.simps [of f step _ _ len hash])
qed

lemma htree_switch_prefix:
  "len < 2 ^ 31 \<Longrightarrow> htree_switch (take (nat len) cs) len hash v = htree_switch cs len hash v"
  by (simp add: htree_switch_def hash_blocks_prefix)

lemma htree_hash_prefix:
  "ext2_htree_hash (Some (take (nat len) cs)) len seed v mj = ext2_htree_hash (Some cs) len seed v mj"
  by (simp add: ext2_htree_hash_def htree_switch_prefix)

lemma htree_switch_ascii:
  assumes "\<forall>c\<in>set cs. c < 128"
  shows "htree_switch cs len hash EXT2_HTREE_TEA = htree_switch cs len hash EXT2_HTREE_TEA_UNSIGNED"
    "htree_switch cs len hash EXT2_HTREE_LEGACY = htree_switch cs len hash EXT2_HTREE_LEGACY_UNSIGNED"
    "htree_switch cs len hash EXT2_HTREE_HALF_MD4 = htree_switch cs len hash EXT2_HTREE_HALF_MD4_UNSIGNED"
proof -
  have "\<forall>c\<in>set (take (nat len) cs). c < 128" using assms by (auto dest: in_set_takeD)
  note legacy_loop_ascii [OF this, of False] hash_blocks_ascii [OF assms, of _ _ False]
  then show "htree_switch cs len hash EXT2_HTREE_TEA = htree_switch cs len hash EXT2_HTREE_TEA_UNSIGNED"
    "htree_switch cs len hash EXT2_HTREE_LEGACY = htree_switch cs len hash EXT2_HTREE_LEGACY_UNSIGNED"
    "htree_switch cs len hash EXT2_HTREE_HALF_MD4 = htree_switch cs len hash EXT2_HTREE_HALF_MD4_UNSIGNED"
    by (simp_all add: htree_switch_def htree_versions ext2_legacy_hash_def)
qed

lemma major_even: "\<not> bit ((m AND NOT 1) :: u32) 0"
  by (simp add: bit_simps)

section \<open>Properties\<close>

text \<open>
  \<open>ext2_prep_hashbuf\<close> fills the output of \<open>4 * words\<close> bytes exactly as its reference
  says: word \<open>k\<close> packs the bytes \<open>4 k ... 4 k + 3\<close> of the name that exist, big end first, over
  the padding pattern made of the length, and every word past the name is the padding. So
  exactly \<open>words\<close> words are stored: the buffer is neither overrun nor left partly unset.
\<close>

theorem prep_hashbuf_exact:
  assumes "unat slen \<le> length src" "4 * words < 2 ^ 31"
  shows "ext2_prep_hashbuf src slen (4 * int words) uc = hashbuf_spec src slen words uc \<and>
         length (ext2_prep_hashbuf src slen (4 * int words) uc) = words"
  using prep_hashbuf_words [OF assms] by (simp add: hashbuf_spec_def)

lemma prep_hashbuf_exact_witness:
  "length (ext2_prep_hashbuf [0x66, 0x6F, 0x6F, 0x2E, 0x63] 5 16 True) = 4"
  by (rule conjunct2 [OF prep_hashbuf_exact [of 5 "[0x66, 0x6F, 0x6F, 0x2E, 0x63]" 4 True, simplified],
        simplified])

text \<open>
  Every outcome of \<open>ext2_htree_hash\<close> with a name and a place for the major hash: it
  succeeds exactly for a length of 1 to 255 and one of the six versions, otherwise it returns
  \<open>ENOTSUP\<close> and stores zeroes; the major hash is always even and never the end-of-directory
  mark \<open>EXT2_HTREE_EOF << 1\<close>.
\<close>

theorem htree_hash_outcome:
  "case ext2_htree_hash (Some name) len seed version True of
     (e, None) \<Rightarrow> False
   | (e, Some (major, minor)) \<Rightarrow>
       (e = EOK \<longleftrightarrow> 1 \<le> len \<and> len \<le> 255 \<and> version \<in> {0..5}) \<and>
       (e = EOK \<or> e = ENOTSUP \<and> major = 0 \<and> minor = 0) \<and>
       \<not> bit major 0 \<and> major \<noteq> push_bit 1 EXT2_HTREE_EOF"
proof -
  have dom: "htree_switch name len hash version = None \<longleftrightarrow> version \<notin> {0..5}" for hash
    by (auto simp: htree_switch_def htree_versions Let_def)
  show ?thesis
  proof (cases "version \<in> {0..5}")
    case True
    then have "\<exists>g. \<forall>hash. htree_switch name len hash version = Some (g hash)"
      using dom by (intro choice) auto
    then obtain g where "\<And>hash. htree_switch name len hash version = Some (g hash)" by blast
    with True major_even show ?thesis
      by (auto simp: ext2_htree_hash_def Let_def EXT2_HTREE_EOF_def split: prod.split)
  next
    case False
    with dom have "\<And>hash. htree_switch name len hash version = None" by blast
    with False show ?thesis
      by (auto simp: ext2_htree_hash_def EXT2_HTREE_EOF_def)
  qed
qed

text \<open>
  The signed and the unsigned variant of each hash agree on ASCII names, and the hash
  depends on the first \<open>len\<close> bytes of the buffer only. (For other bytes the variants
  differ; a directory must be searched with the one its superblock names.)
\<close>

theorem htree_hash_ascii:
  assumes "\<forall>c\<in>set (take (nat len) name). c < 128" "version \<in> {0, 1, 2}"
  shows "ext2_htree_hash (Some name) len seed (version + 3) mj =
         ext2_htree_hash (Some (take (nat len) name)) len seed version mj"
proof -
  have "ext2_htree_hash (Some (take (nat len) name)) len seed (version + 3) mj =
        ext2_htree_hash (Some (take (nat len) name)) len seed version mj"
    using assms(2) htree_switch_ascii [OF assms(1)]
    by (auto simp: ext2_htree_hash_def htree_versions)
  then show ?thesis by (simp add: htree_hash_prefix)
qed

lemma htree_hash_ascii_witness:
  "ext2_htree_hash (Some [0x61, 0x62, 0xFF]) 2 None 4 True =
   ext2_htree_hash (Some [0x61, 0x62]) 2 None 1 True"
  using htree_hash_ascii [of 2 "[0x61, 0x62, 0xFF]" 1 None True] by simp

end
