(* ===== verification/Sblock.thy ===== *)
theory Sblock
  imports Prelude
begin

text \<open>
  The superblock of \<open>include/ext4_types.h\<close>: the packed struct as a record with the fields of
  the source in its order (prefix \<open>sb_\<close>, the source's own \<open>s_\<close> prefix dropped), the 1024
  bytes it occupies on disk and in memory, and the record read from 1024 bytes. The two maps
  are inverse to each other, so a \<open>memcpy\<close> between a block buffer and the struct loses
  nothing. An array field is a list; \<open>ext4_sblock_wf\<close> fixes the lengths.
\<close>

section \<open>Layout\<close>

record ext4_sblock =
  sb_inodes_count :: u32
  sb_blocks_count_lo :: u32
  sb_reserved_blocks_count_lo :: u32
  sb_free_blocks_count_lo :: u32
  sb_free_inodes_count :: u32
  sb_first_data_block :: u32
  sb_log_block_size :: u32
  sb_log_cluster_size :: u32
  sb_blocks_per_group :: u32
  sb_frags_per_group :: u32
  sb_inodes_per_group :: u32
  sb_mount_time :: u32
  sb_write_time :: u32
  sb_mount_count :: u16
  sb_max_mount_count :: u16
  sb_magic :: u16
  sb_state :: u16
  sb_errors :: u16
  sb_minor_rev_level :: u16
  sb_last_check_time :: u32
  sb_check_interval :: u32
  sb_creator_os :: u32
  sb_rev_level :: u32
  sb_def_resuid :: u16
  sb_def_resgid :: u16
  sb_first_inode :: u32
  sb_inode_size :: u16
  sb_block_group_index :: u16
  sb_features_compatible :: u32
  sb_features_incompatible :: u32
  sb_features_read_only :: u32
  sb_uuid :: "u8 list"
  sb_volume_name :: "u8 list"
  sb_last_mounted :: "u8 list"
  sb_algorithm_usage_bitmap :: u32
  sb_prealloc_blocks :: u8
  sb_prealloc_dir_blocks :: u8
  sb_reserved_gdt_blocks :: u16
  sb_journal_uuid :: "u8 list"
  sb_journal_inode_number :: u32
  sb_journal_dev :: u32
  sb_last_orphan :: u32
  sb_hash_seed :: "u32 list"
  sb_default_hash_version :: u8
  sb_journal_backup_type :: u8
  sb_desc_size :: u16
  sb_default_mount_opts :: u32
  sb_first_meta_bg :: u32
  sb_mkfs_time :: u32
  sb_journal_blocks :: "u32 list"
  sb_blocks_count_hi :: u32
  sb_reserved_blocks_count_hi :: u32
  sb_free_blocks_count_hi :: u32
  sb_min_extra_isize :: u16
  sb_want_extra_isize :: u16
  sb_flags :: u32
  sb_raid_stride :: u16
  sb_mmp_interval :: u16
  sb_mmp_block :: u64
  sb_raid_stripe_width :: u32
  sb_log_groups_per_flex :: u8
  sb_checksum_type :: u8
  sb_reserved_pad :: u16
  sb_kbytes_written :: u64
  sb_snapshot_inum :: u32
  sb_snapshot_id :: u32
  sb_snapshot_r_blocks_count :: u64
  sb_snapshot_list :: u32
  sb_error_count :: u32
  sb_first_error_time :: u32
  sb_first_error_ino :: u32
  sb_first_error_block :: u64
  sb_first_error_func :: "u8 list"
  sb_first_error_line :: u32
  sb_last_error_time :: u32
  sb_last_error_ino :: u32
  sb_last_error_line :: u32
  sb_last_error_block :: u64
  sb_last_error_func :: "u8 list"
  sb_mount_opts :: "u8 list"
  sb_usr_quota_inum :: u32
  sb_grp_quota_inum :: u32
  sb_overhead_clusters :: u32
  sb_backup_bgs :: "u32 list"
  sb_encrypt_algos :: "u8 list"
  sb_encrypt_pw_salt :: "u8 list"
  sb_lpf_ino :: u32
  sb_padding :: "u32 list"
  sb_checksum :: u32

definition ext4_sblock_bytes1 :: "ext4_sblock \<Rightarrow> bytes" where
  "ext4_sblock_bytes1 s =
    le_bytes 4 (sb_inodes_count s) @ le_bytes 4 (sb_blocks_count_lo s) @
    le_bytes 4 (sb_reserved_blocks_count_lo s) @ le_bytes 4 (sb_free_blocks_count_lo s) @
    le_bytes 4 (sb_free_inodes_count s) @ le_bytes 4 (sb_first_data_block s) @
    le_bytes 4 (sb_log_block_size s) @ le_bytes 4 (sb_log_cluster_size s) @
    le_bytes 4 (sb_blocks_per_group s) @ le_bytes 4 (sb_frags_per_group s) @
    le_bytes 4 (sb_inodes_per_group s) @ le_bytes 4 (sb_mount_time s) @
    le_bytes 4 (sb_write_time s) @ le_bytes 2 (sb_mount_count s) @
    le_bytes 2 (sb_max_mount_count s) @ le_bytes 2 (sb_magic s) @ le_bytes 2 (sb_state s) @
    le_bytes 2 (sb_errors s) @ le_bytes 2 (sb_minor_rev_level s) @
    le_bytes 4 (sb_last_check_time s) @ le_bytes 4 (sb_check_interval s) @
    le_bytes 4 (sb_creator_os s) @ le_bytes 4 (sb_rev_level s)"

definition ext4_sblock_bytes2 :: "ext4_sblock \<Rightarrow> bytes" where
  "ext4_sblock_bytes2 s =
    le_bytes 2 (sb_def_resuid s) @ le_bytes 2 (sb_def_resgid s) @
    le_bytes 4 (sb_first_inode s) @ le_bytes 2 (sb_inode_size s) @
    le_bytes 2 (sb_block_group_index s) @ le_bytes 4 (sb_features_compatible s) @
    le_bytes 4 (sb_features_incompatible s) @ le_bytes 4 (sb_features_read_only s) @ sb_uuid s @
    sb_volume_name s @ sb_last_mounted s @ le_bytes 4 (sb_algorithm_usage_bitmap s) @
    le_bytes 1 (sb_prealloc_blocks s) @ le_bytes 1 (sb_prealloc_dir_blocks s) @
    le_bytes 2 (sb_reserved_gdt_blocks s) @ sb_journal_uuid s @
    le_bytes 4 (sb_journal_inode_number s) @ le_bytes 4 (sb_journal_dev s) @
    le_bytes 4 (sb_last_orphan s) @ les_bytes 4 (sb_hash_seed s) @
    le_bytes 1 (sb_default_hash_version s) @ le_bytes 1 (sb_journal_backup_type s) @
    le_bytes 2 (sb_desc_size s)"

definition ext4_sblock_bytes3 :: "ext4_sblock \<Rightarrow> bytes" where
  "ext4_sblock_bytes3 s =
    le_bytes 4 (sb_default_mount_opts s) @ le_bytes 4 (sb_first_meta_bg s) @
    le_bytes 4 (sb_mkfs_time s) @ les_bytes 4 (sb_journal_blocks s) @
    le_bytes 4 (sb_blocks_count_hi s) @ le_bytes 4 (sb_reserved_blocks_count_hi s) @
    le_bytes 4 (sb_free_blocks_count_hi s) @ le_bytes 2 (sb_min_extra_isize s) @
    le_bytes 2 (sb_want_extra_isize s) @ le_bytes 4 (sb_flags s) @
    le_bytes 2 (sb_raid_stride s) @ le_bytes 2 (sb_mmp_interval s) @
    le_bytes 8 (sb_mmp_block s) @ le_bytes 4 (sb_raid_stripe_width s) @
    le_bytes 1 (sb_log_groups_per_flex s) @ le_bytes 1 (sb_checksum_type s) @
    le_bytes 2 (sb_reserved_pad s) @ le_bytes 8 (sb_kbytes_written s) @
    le_bytes 4 (sb_snapshot_inum s) @ le_bytes 4 (sb_snapshot_id s) @
    le_bytes 8 (sb_snapshot_r_blocks_count s) @ le_bytes 4 (sb_snapshot_list s) @
    le_bytes 4 (sb_error_count s)"

definition ext4_sblock_bytes4 :: "ext4_sblock \<Rightarrow> bytes" where
  "ext4_sblock_bytes4 s =
    le_bytes 4 (sb_first_error_time s) @ le_bytes 4 (sb_first_error_ino s) @
    le_bytes 8 (sb_first_error_block s) @ sb_first_error_func s @
    le_bytes 4 (sb_first_error_line s) @ le_bytes 4 (sb_last_error_time s) @
    le_bytes 4 (sb_last_error_ino s) @ le_bytes 4 (sb_last_error_line s) @
    le_bytes 8 (sb_last_error_block s) @ sb_last_error_func s @ sb_mount_opts s @
    le_bytes 4 (sb_usr_quota_inum s) @ le_bytes 4 (sb_grp_quota_inum s) @
    le_bytes 4 (sb_overhead_clusters s) @ les_bytes 4 (sb_backup_bgs s) @ sb_encrypt_algos s @
    sb_encrypt_pw_salt s @ le_bytes 4 (sb_lpf_ino s) @ les_bytes 4 (sb_padding s) @
    le_bytes 4 (sb_checksum s)"

definition ext4_sblock_bytes :: "ext4_sblock \<Rightarrow> bytes" where
  "ext4_sblock_bytes s = ext4_sblock_bytes1 s @ ext4_sblock_bytes2 s @ ext4_sblock_bytes3 s @ ext4_sblock_bytes4 s"

definition ext4_sblock_of :: "bytes \<Rightarrow> ext4_sblock" where
  "ext4_sblock_of bs =
    \<lparr>sb_inodes_count = get_le 4 0 bs, sb_blocks_count_lo = get_le 4 4 bs,
     sb_reserved_blocks_count_lo = get_le 4 8 bs, sb_free_blocks_count_lo = get_le 4 12 bs,
     sb_free_inodes_count = get_le 4 16 bs, sb_first_data_block = get_le 4 20 bs,
     sb_log_block_size = get_le 4 24 bs, sb_log_cluster_size = get_le 4 28 bs,
     sb_blocks_per_group = get_le 4 32 bs, sb_frags_per_group = get_le 4 36 bs,
     sb_inodes_per_group = get_le 4 40 bs, sb_mount_time = get_le 4 44 bs,
     sb_write_time = get_le 4 48 bs, sb_mount_count = get_le 2 52 bs,
     sb_max_mount_count = get_le 2 54 bs, sb_magic = get_le 2 56 bs, sb_state = get_le 2 58 bs,
     sb_errors = get_le 2 60 bs, sb_minor_rev_level = get_le 2 62 bs,
     sb_last_check_time = get_le 4 64 bs, sb_check_interval = get_le 4 68 bs,
     sb_creator_os = get_le 4 72 bs, sb_rev_level = get_le 4 76 bs,
     sb_def_resuid = get_le 2 80 bs, sb_def_resgid = get_le 2 82 bs,
     sb_first_inode = get_le 4 84 bs, sb_inode_size = get_le 2 88 bs,
     sb_block_group_index = get_le 2 90 bs, sb_features_compatible = get_le 4 92 bs,
     sb_features_incompatible = get_le 4 96 bs, sb_features_read_only = get_le 4 100 bs,
     sb_uuid = take 16 (drop 104 bs), sb_volume_name = take 16 (drop 120 bs),
     sb_last_mounted = take 64 (drop 136 bs), sb_algorithm_usage_bitmap = get_le 4 200 bs,
     sb_prealloc_blocks = get_le 1 204 bs, sb_prealloc_dir_blocks = get_le 1 205 bs,
     sb_reserved_gdt_blocks = get_le 2 206 bs, sb_journal_uuid = take 16 (drop 208 bs),
     sb_journal_inode_number = get_le 4 224 bs, sb_journal_dev = get_le 4 228 bs,
     sb_last_orphan = get_le 4 232 bs, sb_hash_seed = get_les 4 236 4 bs,
     sb_default_hash_version = get_le 1 252 bs, sb_journal_backup_type = get_le 1 253 bs,
     sb_desc_size = get_le 2 254 bs, sb_default_mount_opts = get_le 4 256 bs,
     sb_first_meta_bg = get_le 4 260 bs, sb_mkfs_time = get_le 4 264 bs,
     sb_journal_blocks = get_les 4 268 17 bs, sb_blocks_count_hi = get_le 4 336 bs,
     sb_reserved_blocks_count_hi = get_le 4 340 bs, sb_free_blocks_count_hi = get_le 4 344 bs,
     sb_min_extra_isize = get_le 2 348 bs, sb_want_extra_isize = get_le 2 350 bs,
     sb_flags = get_le 4 352 bs, sb_raid_stride = get_le 2 356 bs,
     sb_mmp_interval = get_le 2 358 bs, sb_mmp_block = get_le 8 360 bs,
     sb_raid_stripe_width = get_le 4 368 bs, sb_log_groups_per_flex = get_le 1 372 bs,
     sb_checksum_type = get_le 1 373 bs, sb_reserved_pad = get_le 2 374 bs,
     sb_kbytes_written = get_le 8 376 bs, sb_snapshot_inum = get_le 4 384 bs,
     sb_snapshot_id = get_le 4 388 bs, sb_snapshot_r_blocks_count = get_le 8 392 bs,
     sb_snapshot_list = get_le 4 400 bs, sb_error_count = get_le 4 404 bs,
     sb_first_error_time = get_le 4 408 bs, sb_first_error_ino = get_le 4 412 bs,
     sb_first_error_block = get_le 8 416 bs, sb_first_error_func = take 32 (drop 424 bs),
     sb_first_error_line = get_le 4 456 bs, sb_last_error_time = get_le 4 460 bs,
     sb_last_error_ino = get_le 4 464 bs, sb_last_error_line = get_le 4 468 bs,
     sb_last_error_block = get_le 8 472 bs, sb_last_error_func = take 32 (drop 480 bs),
     sb_mount_opts = take 64 (drop 512 bs), sb_usr_quota_inum = get_le 4 576 bs,
     sb_grp_quota_inum = get_le 4 580 bs, sb_overhead_clusters = get_le 4 584 bs,
     sb_backup_bgs = get_les 4 588 2 bs, sb_encrypt_algos = take 4 (drop 596 bs),
     sb_encrypt_pw_salt = take 16 (drop 600 bs), sb_lpf_ino = get_le 4 616 bs,
     sb_padding = get_les 4 620 100 bs, sb_checksum = get_le 4 1020 bs\<rparr>"

definition ext4_sblock_wf :: "ext4_sblock \<Rightarrow> bool" where
  "ext4_sblock_wf s \<longleftrightarrow>
     length (sb_uuid s) = 16 \<and>
     length (sb_volume_name s) = 16 \<and>
     length (sb_last_mounted s) = 64 \<and>
     length (sb_journal_uuid s) = 16 \<and>
     length (sb_hash_seed s) = 4 \<and>
     length (sb_journal_blocks s) = 17 \<and>
     length (sb_first_error_func s) = 32 \<and>
     length (sb_last_error_func s) = 32 \<and>
     length (sb_mount_opts s) = 64 \<and>
     length (sb_backup_bgs s) = 2 \<and>
     length (sb_encrypt_algos s) = 4 \<and>
     length (sb_encrypt_pw_salt s) = 16 \<and>
     length (sb_padding s) = 100"

section \<open>The layout is a bijection\<close>

lemmas sblock_bytes_defs =
  ext4_sblock_bytes1_def ext4_sblock_bytes2_def ext4_sblock_bytes3_def ext4_sblock_bytes4_def

lemma length_sblock_bytes_parts:
  "length (ext4_sblock_bytes1 s) = 80"
  "ext4_sblock_wf s \<Longrightarrow> length (ext4_sblock_bytes2 s) = 176"
  "ext4_sblock_wf s \<Longrightarrow> length (ext4_sblock_bytes3 s) = 152"
  "ext4_sblock_wf s \<Longrightarrow> length (ext4_sblock_bytes4 s) = 616"
  by (simp_all add: sblock_bytes_defs ext4_sblock_wf_def)

lemma length_sblock_bytes [simp]: "ext4_sblock_wf s \<Longrightarrow> length (ext4_sblock_bytes s) = 1024"
  by (simp add: ext4_sblock_bytes_def length_sblock_bytes_parts)

lemma sblock_bytes_of [byte_simps]: "length bs = 1024 \<Longrightarrow> ext4_sblock_bytes (ext4_sblock_of bs) = bs"
  by (simp add: ext4_sblock_bytes_def sblock_bytes_defs ext4_sblock_of_def byte_simps)

lemma sblock_of_bytes [byte_simps]:
  assumes "ext4_sblock_wf s"
  shows "ext4_sblock_of (ext4_sblock_bytes s) = s"
  using assms
  by (simp add: ext4_sblock_bytes_def ext4_sblock_of_def byte_simps length_sblock_bytes_parts)
    (simp add: sblock_bytes_defs ext4_sblock_wf_def byte_simps)

lemma sblock_wf_of [simp]: "length bs = 1024 \<Longrightarrow> ext4_sblock_wf (ext4_sblock_of bs)"
  by (simp add: ext4_sblock_wf_def ext4_sblock_of_def)

text \<open>The checksum field is the last word; the bytes before it do not depend on it.\<close>

lemma sblock_bytes_checksum:
  "ext4_sblock_wf s \<Longrightarrow>
     ext4_sblock_bytes s = take 1020 (ext4_sblock_bytes s) @ le_bytes 4 (sb_checksum s)"
  by (simp add: ext4_sblock_bytes_def length_sblock_bytes_parts)
    (simp add: ext4_sblock_bytes4_def ext4_sblock_wf_def)

lemma sblock_bytes_update_checksum:
  "ext4_sblock_wf s \<Longrightarrow>
     take 1020 (ext4_sblock_bytes (s\<lparr>sb_checksum := c\<rparr>)) = take 1020 (ext4_sblock_bytes s)"
  by (simp add: ext4_sblock_bytes_def sblock_bytes_defs ext4_sblock_wf_def)

lemma sblock_wf_update_checksum [simp]:
  "ext4_sblock_wf (s\<lparr>sb_checksum := c\<rparr>) = ext4_sblock_wf s"
  by (simp add: ext4_sblock_wf_def)

text \<open>
  The superblock record and its 1024 bytes determine each other: reading the bytes of a
  record gives the record back, and every 1024 byte image is the image of the record read
  from it.
\<close>

theorem sblock_roundtrip:
  assumes "ext4_sblock_wf s" "length bs = 1024"
  shows "ext4_sblock_of (ext4_sblock_bytes s) = s \<and> length (ext4_sblock_bytes s) = 1024 \<and>
         ext4_sblock_bytes (ext4_sblock_of bs) = bs \<and> ext4_sblock_wf (ext4_sblock_of bs)"
  using assms by (simp add: byte_simps)

lemma sblock_roundtrip_witness:
  "ext4_sblock_bytes (ext4_sblock_of (replicate 1024 7)) = replicate 1024 7"
  using sblock_roundtrip [of "ext4_sblock_of (replicate 1024 0)" "replicate 1024 7"] by simp

end
