(* ===== verification/Super.thy ===== *)
theory Super
  imports Sblock Crc
begin

text \<open>
  The superblock operations of \<open>include/ext4_super.h\<close> and \<open>src/ext4_super.c\<close>: counts kept
  in two halves, feature tests, the geometry of block groups (how many, how large, which of
  them hold a superblock copy and how many descriptor blocks), the validity check and the
  checksum. \<open>ext4_sb_read\<close> and \<open>ext4_sb_write\<close> use the block device and are in its theory.
  A shift of a 32-bit value by 32 or more, undefined in C, gives 0 here.
\<close>

section \<open>Constants\<close>

definition EXT4_SUPERBLOCK_MAGIC :: u16 where "EXT4_SUPERBLOCK_MAGIC = 0xEF53"
definition EXT4_SUPERBLOCK_SIZE :: nat where "EXT4_SUPERBLOCK_SIZE = 1024"
definition EXT4_SUPERBLOCK_OFFSET :: u64 where "EXT4_SUPERBLOCK_OFFSET = 1024"
definition EXT4_MIN_BLOCK_GROUP_DESCRIPTOR_SIZE :: u16 where
  "EXT4_MIN_BLOCK_GROUP_DESCRIPTOR_SIZE = 32"
definition EXT4_MAX_BLOCK_GROUP_DESCRIPTOR_SIZE :: u16 where
  "EXT4_MAX_BLOCK_GROUP_DESCRIPTOR_SIZE = 64"
definition EXT4_CHECKSUM_CRC32C :: u8 where "EXT4_CHECKSUM_CRC32C = 1"

definition EXT4_FCOM_DIR_INDEX :: u32 where "EXT4_FCOM_DIR_INDEX = 0x20"
definition EXT4_FRO_COM_SPARSE_SUPER :: u32 where "EXT4_FRO_COM_SPARSE_SUPER = 0x1"
definition EXT4_FRO_COM_HUGE_FILE :: u32 where "EXT4_FRO_COM_HUGE_FILE = 0x8"
definition EXT4_FRO_COM_GDT_CSUM :: u32 where "EXT4_FRO_COM_GDT_CSUM = 0x10"
definition EXT4_FRO_COM_METADATA_CSUM :: u32 where "EXT4_FRO_COM_METADATA_CSUM = 0x400"
definition EXT4_FINCOM_FILETYPE :: u32 where "EXT4_FINCOM_FILETYPE = 0x2"
definition EXT4_FINCOM_META_BG :: u32 where "EXT4_FINCOM_META_BG = 0x10"
definition EXT4_FINCOM_EXTENTS :: u32 where "EXT4_FINCOM_EXTENTS = 0x40"

lemmas sb_consts =
  EXT4_SUPERBLOCK_MAGIC_def EXT4_SUPERBLOCK_SIZE_def EXT4_SUPERBLOCK_OFFSET_def
  EXT4_MIN_BLOCK_GROUP_DESCRIPTOR_SIZE_def EXT4_MAX_BLOCK_GROUP_DESCRIPTOR_SIZE_def
  EXT4_CHECKSUM_CRC32C_def

section \<open>Accessors of ext4_super.h\<close>

definition ext4_sb_get_blocks_cnt :: "ext4_sblock \<Rightarrow> u64" where
  "ext4_sb_get_blocks_cnt s =
     push_bit 32 (ucast (sb_blocks_count_hi s)) OR ucast (sb_blocks_count_lo s)"

definition ext4_sb_set_blocks_cnt :: "ext4_sblock \<Rightarrow> u64 \<Rightarrow> ext4_sblock" where
  "ext4_sb_set_blocks_cnt s cnt =
     s\<lparr>sb_blocks_count_lo := ucast (drop_bit 32 (push_bit 32 cnt)),
       sb_blocks_count_hi := ucast (drop_bit 32 cnt)\<rparr>"

definition ext4_sb_get_free_blocks_cnt :: "ext4_sblock \<Rightarrow> u64" where
  "ext4_sb_get_free_blocks_cnt s =
     push_bit 32 (ucast (sb_free_blocks_count_hi s)) OR ucast (sb_free_blocks_count_lo s)"

definition ext4_sb_set_free_blocks_cnt :: "ext4_sblock \<Rightarrow> u64 \<Rightarrow> ext4_sblock" where
  "ext4_sb_set_free_blocks_cnt s cnt =
     s\<lparr>sb_free_blocks_count_lo := ucast (drop_bit 32 (push_bit 32 cnt)),
       sb_free_blocks_count_hi := ucast (drop_bit 32 cnt)\<rparr>"

definition ext4_sb_get_block_size :: "ext4_sblock \<Rightarrow> u32" where
  "ext4_sb_get_block_size s = push_bit (unat (sb_log_block_size s)) 1024"

definition ext4_sb_get_desc_size :: "ext4_sblock \<Rightarrow> u16" where
  "ext4_sb_get_desc_size s =
     (let size = sb_desc_size s
      in if size < EXT4_MIN_BLOCK_GROUP_DESCRIPTOR_SIZE
         then EXT4_MIN_BLOCK_GROUP_DESCRIPTOR_SIZE else size)"

definition ext4_sb_check_flag :: "ext4_sblock \<Rightarrow> u32 \<Rightarrow> bool" where
  "ext4_sb_check_flag s v = (sb_flags s AND v \<noteq> 0)"

definition ext4_sb_feature_com :: "ext4_sblock \<Rightarrow> u32 \<Rightarrow> bool" where
  "ext4_sb_feature_com s v = (sb_features_compatible s AND v \<noteq> 0)"

definition ext4_sb_feature_incom :: "ext4_sblock \<Rightarrow> u32 \<Rightarrow> bool" where
  "ext4_sb_feature_incom s v = (sb_features_incompatible s AND v \<noteq> 0)"

definition ext4_sb_feature_ro_com :: "ext4_sblock \<Rightarrow> u32 \<Rightarrow> bool" where
  "ext4_sb_feature_ro_com s v = (sb_features_read_only s AND v \<noteq> 0)"

definition ext4_sb_bg_to_flex :: "ext4_sblock \<Rightarrow> u32 \<Rightarrow> u32" where
  "ext4_sb_bg_to_flex s block_group = drop_bit (unat (sb_log_groups_per_flex s)) block_group"

definition ext4_sb_flex_bg_size :: "ext4_sblock \<Rightarrow> u32" where
  "ext4_sb_flex_bg_size s = push_bit (unat (sb_log_groups_per_flex s)) 1"

definition ext4_sb_first_meta_bg :: "ext4_sblock \<Rightarrow> u32" where
  "ext4_sb_first_meta_bg s = sb_first_meta_bg s"

section \<open>Group counts\<close>

definition ext4_block_group_cnt :: "ext4_sblock \<Rightarrow> u32" where
  "ext4_block_group_cnt s =
     (let blocks_count = ext4_sb_get_blocks_cnt s;
          blocks_per_group = sb_blocks_per_group s;
          block_groups_count = ucast (blocks_count div ucast blocks_per_group)
      in if blocks_count mod ucast blocks_per_group \<noteq> 0
         then block_groups_count + 1 else block_groups_count)"

definition ext4_blocks_in_group_cnt :: "ext4_sblock \<Rightarrow> u32 \<Rightarrow> u32" where
  "ext4_blocks_in_group_cnt s bgid =
     (let block_group_count = ext4_block_group_cnt s;
          blocks_per_group = sb_blocks_per_group s;
          total_blocks = ext4_sb_get_blocks_cnt s
      in if bgid < block_group_count - 1 then blocks_per_group
         else ucast (total_blocks - ucast ((block_group_count - 1) * blocks_per_group)))"

definition ext4_inodes_in_group_cnt :: "ext4_sblock \<Rightarrow> u32 \<Rightarrow> u32" where
  "ext4_inodes_in_group_cnt s bgid =
     (let block_group_count = ext4_block_group_cnt s;
          inodes_per_group = sb_inodes_per_group s;
          total_inodes = sb_inodes_count s
      in if bgid < block_group_count - 1 then inodes_per_group
         else total_inodes - ((block_group_count - 1) * inodes_per_group))"

section \<open>Checksum and validity\<close>

definition ext4_sb_csum :: "ext4_sblock \<Rightarrow> u32" where
  "ext4_sb_csum s = ext4_crc32c EXT4_CRC32_INIT (take 1020 (ext4_sblock_bytes s))"

definition ext4_sb_verify_csum :: "ext4_sblock \<Rightarrow> bool" where
  "ext4_sb_verify_csum s =
     (if \<not> ext4_sb_feature_ro_com s EXT4_FRO_COM_METADATA_CSUM then True
      else if sb_checksum_type s \<noteq> EXT4_CHECKSUM_CRC32C then False
      else sb_checksum s = ext4_sb_csum s)"

definition ext4_sb_set_csum :: "ext4_sblock \<Rightarrow> ext4_sblock" where
  "ext4_sb_set_csum s =
     (if \<not> ext4_sb_feature_ro_com s EXT4_FRO_COM_METADATA_CSUM then s
      else s\<lparr>sb_checksum := ext4_sb_csum s\<rparr>)"

definition ext4_sb_check :: "ext4_sblock \<Rightarrow> bool" where
  "ext4_sb_check s =
     (if sb_magic s \<noteq> EXT4_SUPERBLOCK_MAGIC then False
      else if sb_inodes_count s = 0 then False
      else if ext4_sb_get_blocks_cnt s = 0 then False
      else if sb_blocks_per_group s = 0 then False
      else if sb_inodes_per_group s = 0 then False
      else if sb_inode_size s < 128 then False
      else if sb_first_inode s < 11 then False
      else if ext4_sb_get_desc_size s < EXT4_MIN_BLOCK_GROUP_DESCRIPTOR_SIZE then False
      else if ext4_sb_get_desc_size s > EXT4_MAX_BLOCK_GROUP_DESCRIPTOR_SIZE then False
      else if \<not> ext4_sb_verify_csum s then False
      else True)"

section \<open>Superblock copies and group descriptors\<close>

text \<open>
  The loop of \<open>is_power_of\<close> does not stop for \<open>b = 1 < a\<close>; \<open>None\<close> is divergence.
\<close>

partial_function (option) is_power_of :: "u32 \<Rightarrow> u32 \<Rightarrow> bool option" where
  "is_power_of a b =
     (if a < b then Some False
      else if a = b then Some True
      else if a mod b \<noteq> 0 then Some False
      else is_power_of (a div b) b)"

text \<open>The disjunction \<open>||\<close> of the source evaluates from the left and stops at the first 1.\<close>

definition ext4_sb_sparse :: "u32 \<Rightarrow> bool option" where
  "ext4_sb_sparse grp =
     (if grp \<le> 1 then Some True
      else if grp AND 1 = 0 then Some False
      else case is_power_of grp 7 of None \<Rightarrow> None | Some True \<Rightarrow> Some True | Some False \<Rightarrow>
          (case is_power_of grp 5 of None \<Rightarrow> None | Some True \<Rightarrow> Some True | Some False \<Rightarrow>
             is_power_of grp 3))"

definition ext4_sb_is_super_in_bg :: "ext4_sblock \<Rightarrow> u32 \<Rightarrow> bool" where
  "ext4_sb_is_super_in_bg s grp =
     (if ext4_sb_feature_ro_com s EXT4_FRO_COM_SPARSE_SUPER \<and> ext4_sb_sparse grp = Some False
      then False else True)"

definition ext4_bg_num_gdb_meta :: "ext4_sblock \<Rightarrow> u32 \<Rightarrow> u32" where
  "ext4_bg_num_gdb_meta s grp =
     (let dsc_per_block = ext4_sb_get_block_size s div ucast (ext4_sb_get_desc_size s);
          metagroup = grp div dsc_per_block;
          first = metagroup * dsc_per_block;
          last = first + dsc_per_block - 1
      in if grp = first \<or> grp = first + 1 \<or> grp = last then 1 else 0)"

definition ext4_bg_num_gdb_nometa :: "ext4_sblock \<Rightarrow> u32 \<Rightarrow> u32" where
  "ext4_bg_num_gdb_nometa s grp =
     (if \<not> ext4_sb_is_super_in_bg s grp then 0
      else
        (let dsc_per_block = ext4_sb_get_block_size s div ucast (ext4_sb_get_desc_size s);
             db_count = (ext4_block_group_cnt s + dsc_per_block - 1) div dsc_per_block
         in if ext4_sb_feature_incom s EXT4_FINCOM_META_BG then ext4_sb_first_meta_bg s
            else db_count))"

definition ext4_bg_num_gdb :: "ext4_sblock \<Rightarrow> u32 \<Rightarrow> u32" where
  "ext4_bg_num_gdb s grp =
     (let dsc_per_block = ext4_sb_get_block_size s div ucast (ext4_sb_get_desc_size s);
          first_meta_bg = ext4_sb_first_meta_bg s;
          metagroup = grp div dsc_per_block
      in if \<not> ext4_sb_feature_incom s EXT4_FINCOM_META_BG \<or> metagroup < first_meta_bg
         then ext4_bg_num_gdb_nometa s grp else ext4_bg_num_gdb_meta s grp)"

definition ext4_num_base_meta_clusters :: "ext4_sblock \<Rightarrow> u32 \<Rightarrow> u32" where
  "ext4_num_base_meta_clusters s block_group =
     (let dsc_per_block = ext4_sb_get_block_size s div ucast (ext4_sb_get_desc_size s);
          num = (if ext4_sb_is_super_in_bg s block_group then 1 else 0);
          num = (if \<not> ext4_sb_feature_incom s EXT4_FINCOM_META_BG \<or>
                    block_group < ext4_sb_first_meta_bg s * dsc_per_block
                 then (if num \<noteq> 0
                       then num + ext4_bg_num_gdb s block_group + ucast (sb_reserved_gdt_blocks s)
                       else num)
                 else num + ext4_bg_num_gdb s block_group);
          clustersize = push_bit (unat (sb_log_cluster_size s)) 1024;
          cluster_ratio = clustersize div ext4_sb_get_block_size s
      in drop_bit (unat (sb_log_cluster_size s)) (num + cluster_ratio - 1))"

section \<open>Counts\<close>

lemma sb_blocks_cnt_set [simp]: "ext4_sb_get_blocks_cnt (ext4_sb_set_blocks_cnt s c) = c"
  by (simp add: ext4_sb_get_blocks_cnt_def ext4_sb_set_blocks_cnt_def halves_word32)

lemma sb_free_blocks_cnt_set [simp]:
  "ext4_sb_get_free_blocks_cnt (ext4_sb_set_free_blocks_cnt s c) = c"
  by (simp add: ext4_sb_get_free_blocks_cnt_def ext4_sb_set_free_blocks_cnt_def halves_word32)

lemma sb_free_blocks_cnt_frame [simp]:
  "ext4_sb_get_blocks_cnt (ext4_sb_set_free_blocks_cnt s c) = ext4_sb_get_blocks_cnt s"
  "ext4_sblock_wf (ext4_sb_set_free_blocks_cnt s c) = ext4_sblock_wf s"
  by (simp_all add: ext4_sb_get_blocks_cnt_def ext4_sb_set_free_blocks_cnt_def ext4_sblock_wf_def)

section \<open>The partition into groups\<close>

abbreviation blocks_nat :: "ext4_sblock \<Rightarrow> nat" where
  "blocks_nat s \<equiv> unat (ext4_sb_get_blocks_cnt s)"

abbreviation bpg_nat :: "ext4_sblock \<Rightarrow> nat" where
  "bpg_nat s \<equiv> unat (sb_blocks_per_group s)"

text \<open>The number of groups, \<open>blocks / blocks_per_group\<close> rounded up.\<close>

definition group_count :: "ext4_sblock \<Rightarrow> nat" where
  "group_count s = (blocks_nat s + bpg_nat s - 1) div bpg_nat s"

lemma div_round_up:
  assumes "0 < (b :: nat)"
  shows "(n + b - 1) div b = n div b + (if n mod b = 0 then 0 else 1)"
proof (cases "n mod b = 0")
  case True
  then obtain q where q: "n = q * b" by (metis mod_0_imp_dvd dvd_def mult.commute)
  with assms have eq: "n + b - 1 = q * b + (b - 1)" by linarith
  have "(b - 1) div b = 0" using assms by (intro div_less) simp
  then have "(q * b + (b - 1)) div b = q"
    using div_mult_self3 [of b q "b - 1"] assms by (metis add.right_neutral less_not_refl)
  then show ?thesis unfolding eq using assms q by simp
next
  case False
  have eq: "n + b - 1 = (n div b + 1) * b + (n mod b - 1)"
  proof -
    have "0 < n mod b" using False by simp
    moreover have "(n div b + 1) * b = b * (n div b) + b" by (simp add: mult.commute)
    ultimately show ?thesis using mult_div_mod_eq [of b n] by linarith
  qed
  have "n mod b - 1 < b" using assms mod_less_divisor [of b n] by linarith
  then have "((n div b + 1) * b + (n mod b - 1)) div b = n div b + 1"
    using div_mult_self3 [of b "n div b + 1" "n mod b - 1"] assms
    by (metis add.right_neutral div_less less_not_refl)
  with False show ?thesis by (simp only: eq) simp
qed

lemma unat_block_group_cnt:
  assumes "sb_blocks_per_group s \<noteq> 0" "blocks_nat s \<le> bpg_nat s * (2 ^ 32 - 1)"
  shows "unat (ext4_block_group_cnt s) = group_count s"
proof -
  let ?n = "blocks_nat s" and ?b = "bpg_nat s"
  have b: "0 < ?b" using assms(1) by (simp add: unat_gt_0)
  have q: "?n div ?b \<le> 2 ^ 32 - 1" using assms(2) b by (metis div_le_mono nonzero_mult_div_cancel_left less_numeral_extra(3))
  have up: "unat (ucast (sb_blocks_per_group s) :: u64) = ?b" by (rule unat_ucast_up_eq) simp
  have div: "unat (ucast (ext4_sb_get_blocks_cnt s div ucast (sb_blocks_per_group s)) :: u32) = ?n div ?b"
    using q by (simp only: unat_ucast_down_eq [where 'b = 32] unat_div up) simp
  have "unat (ext4_sb_get_blocks_cnt s mod ucast (sb_blocks_per_group s)) = ?n mod ?b"
    by (simp only: unat_mod up)
  then have mod: "ext4_sb_get_blocks_cnt s mod ucast (sb_blocks_per_group s) \<noteq> 0 \<longleftrightarrow> ?n mod ?b \<noteq> 0"
    by (metis unat_eq_zero)
  show ?thesis
  proof (cases "?n mod ?b = 0")
    case True
    then show ?thesis
      unfolding group_count_def div_round_up [OF b] using mod div by (simp add: ext4_block_group_cnt_def Let_def)
  next
    case False
    have "?n div ?b < 2 ^ 32 - 1"
    proof (rule ccontr)
      assume "\<not> ?n div ?b < 2 ^ 32 - 1"
      with q have "?n div ?b = 2 ^ 32 - 1" by linarith
      with False assms(2) mult_div_mod_eq [of ?b ?n] show False by simp
    qed
    then have "unat (ucast (ext4_sb_get_blocks_cnt s div ucast (sb_blocks_per_group s)) + 1 :: u32)
        = ?n div ?b + 1"
      using div by (simp add: unat_word_ariths)
    then show ?thesis
      unfolding group_count_def div_round_up [OF b] using False mod by (simp add: ext4_block_group_cnt_def Let_def)
  qed
qed

lemma group_count_bounds:
  assumes "0 < bpg_nat s" "0 < blocks_nat s"
  shows "0 < group_count s" "(group_count s - 1) * bpg_nat s < blocks_nat s"
    "blocks_nat s \<le> (group_count s - 1) * bpg_nat s + bpg_nat s"
proof -
  let ?n = "blocks_nat s" and ?b = "bpg_nat s"
  have c: "group_count s = ?n div ?b + (if ?n mod ?b = 0 then 0 else 1)"
    unfolding group_count_def div_round_up [OF assms(1)] ..
  have e: "?n = ?b * (?n div ?b) + ?n mod ?b" by simp
  have m: "?n mod ?b < ?b" using assms(1) by simp
  show pos: "0 < group_count s"
    using c assms div_greater_zero_iff [of ?n ?b] by (cases "?n mod ?b = 0") (auto simp: mod_eq_self_iff_div_eq_0)
  show "(group_count s - 1) * ?b < ?n"
  proof (cases "?n mod ?b = 0")
    case True
    with c pos obtain q where "?n div ?b = Suc q" "group_count s = Suc q" by (metis add.right_neutral gr0_implies_Suc)
    with e True assms(1) show ?thesis by simp
  next
    case False
    with e have "?b * (?n div ?b) < ?n" by linarith
    with False c show ?thesis by (simp add: mult.commute)
  qed
  show "?n \<le> (group_count s - 1) * ?b + ?b"
  proof (cases "?n mod ?b = 0")
    case True
    with c pos obtain q where "?n div ?b = Suc q" "group_count s = Suc q" by (metis add.right_neutral gr0_implies_Suc)
    with e True show ?thesis by simp
  next
    case False
    with c have "(group_count s - 1) * ?b = ?b * (?n div ?b)" by simp
    with e m show ?thesis by linarith
  qed
qed

lemma unat_blocks_in_group:
  assumes "sb_blocks_per_group s \<noteq> 0" "ext4_sb_get_blocks_cnt s \<noteq> 0"
    and "blocks_nat s \<le> bpg_nat s * (2 ^ 32 - 1)" "g < group_count s"
  shows "unat (ext4_blocks_in_group_cnt s (of_nat g)) =
    (if g < group_count s - 1 then bpg_nat s else blocks_nat s - (group_count s - 1) * bpg_nat s)"
proof -
  let ?c = "ext4_block_group_cnt s" and ?k = "group_count s" and ?b = "bpg_nat s"
  have b: "0 < ?b" "0 < blocks_nat s" using assms(1,2) by (simp_all add: unat_gt_0)
  note bounds = group_count_bounds [OF b]
  have c: "unat ?c = ?k" using unat_block_group_cnt [OF assms(1,3)] .
  have "?k < 2 ^ 32" using unsigned_less [of ?c, where 'a = nat] by (simp add: c)
  then have g: "unat (of_nat g :: u32) = g" using assms(4) by (simp only: unat_of_nat) simp
  have "unat (?c - 1) = ?k - 1"
  proof -
    have "unat (1 :: u32) \<le> unat ?c" using bounds(1) by (simp only: c) simp
    then have "1 \<le> ?c" by (simp only: word_le_nat_alt)
    then show ?thesis by (simp add: unat_minus c)
  qed
  then have lt: "(of_nat g < ?c - 1) \<longleftrightarrow> g < ?k - 1" by (simp only: word_less_nat_alt g)
  have ck: "?c = of_nat ?k" by (simp flip: c)
  have w: "(of_nat (?k - 1) :: u32) = ?c - 1" using bounds(1) by (simp add: ck of_nat_diff)
  have "ucast (ext4_sb_get_blocks_cnt s - ucast ((?c - 1) * sb_blocks_per_group s)) =
      (of_nat (blocks_nat s) - of_nat (?k - 1) * of_nat ?b :: u32)"
  proof -
    have "ucast (ucast ((?c - 1) * sb_blocks_per_group s) :: u64) = (?c - 1) * sb_blocks_per_group s"
      by (rule ucast_up_ucast_id) (simp add: is_up)
    moreover have "(of_nat (blocks_nat s) :: u32) = ucast (ext4_sb_get_blocks_cnt s)"
      by (rule of_nat_unat)
    moreover have "(of_nat ?b :: u32) = sb_blocks_per_group s" by simp
    moreover have "ucast (x - y :: u64) = (ucast x - ucast y :: u32)" for x y
      by (rule ucast_minus_down) simp
    ultimately show ?thesis by (simp only: w)
  qed
  also have "\<dots> = of_nat (blocks_nat s - (?k - 1) * ?b)"
    using bounds(2) by (simp add: of_nat_diff)
  finally have last: "unat (ucast (ext4_sb_get_blocks_cnt s - ucast ((?c - 1) * sb_blocks_per_group s)) :: u32)
      = blocks_nat s - (?k - 1) * ?b"
    using bounds(3) unsigned_less [of "sb_blocks_per_group s", where 'a = nat]
    by (simp only: unat_of_nat) (rule mod_less, simp)
  show ?thesis
    using lt last by (simp add: ext4_blocks_in_group_cnt_def Let_def)
qed

section \<open>Which groups hold a superblock copy\<close>

lemma is_power_of_correct:
  "1 < b \<Longrightarrow> is_power_of a b = Some (\<exists>k \<ge> 1. unat a = unat b ^ k)"
proof (induction "unat a" arbitrary: a rule: less_induct)
  case less
  let ?a = "unat a" and ?b = "unat b"
  have b: "1 < ?b" using less.prems by (simp add: word_less_nat_alt)
  consider "a < b" | "a = b" | "b < a" "a mod b \<noteq> 0" | "b < a" "a mod b = 0"
    by (meson linorder_less_linear)
  then show ?case
  proof cases
    case 1
    have "?a \<noteq> ?b ^ k" if "1 \<le> k" for k
      using 1 b that power_increasing [of 1 k ?b] by (simp add: word_less_nat_alt)
    with 1 show ?thesis by (simp add: is_power_of.simps [of a b])
  next
    case 2
    then show ?thesis by (auto simp: is_power_of.simps [of b b] intro: exI [of _ 1])
  next
    case 3
    then have m: "?a mod ?b \<noteq> 0" by (metis unat_mod unat_eq_zero)
    have "?a \<noteq> ?b ^ k" if "1 \<le> k" for k
      using m that by (metis dvd_imp_mod_0 dvd_power less_eq_Suc_le One_nat_def)
    with 3 show ?thesis by (auto simp: is_power_of.simps [of a b])
  next
    case 4
    then have m: "?a mod ?b = 0" by (metis unat_mod unsigned_0)
    have lt: "?b < ?a" using 4 by (simp add: word_less_nat_alt)
    have d: "unat (a div b) = ?a div ?b" by (rule unat_div)
    have e: "?a = ?a div ?b * ?b" using m by auto
    have "?a div ?b < ?a" using b lt by simp
    with less.hyps [of "a div b"] less.prems
    have IH: "is_power_of (a div b) b = Some (\<exists>k \<ge> 1. ?a div ?b = ?b ^ k)" by (simp add: d)
    have "(\<exists>k \<ge> 1. ?a div ?b = ?b ^ k) \<longleftrightarrow> (\<exists>k \<ge> 1. ?a = ?b ^ k)"
    proof
      assume "\<exists>k \<ge> 1. ?a div ?b = ?b ^ k"
      then obtain k where "?a div ?b = ?b ^ k" by blast
      with e have "?a = ?b ^ Suc k" by simp
      then show "\<exists>k \<ge> 1. ?a = ?b ^ k" by (intro exI [of _ "Suc k"]) simp
    next
      assume "\<exists>k \<ge> 1. ?a = ?b ^ k"
      then obtain j where j: "?a = ?b ^ Suc j" by (metis Suc_le_D One_nat_def)
      with lt have "j \<noteq> 0" by (cases j) auto
      moreover from j b have "?a div ?b = ?b ^ j" by simp
      ultimately show "\<exists>k \<ge> 1. ?a div ?b = ?b ^ k" by (intro exI [of _ j]) simp
    qed
    moreover have "a \<noteq> b" "\<not> a < b" using 4 by auto
    ultimately show ?thesis using 4 IH by (simp add: is_power_of.simps [of a b])
  qed
qed

lemma odd_power: "odd (b :: nat) \<Longrightarrow> odd (b ^ k)"
  by simp

lemma and_1_even: "((w :: u32) AND 1 = 0) \<longleftrightarrow> even (unat w)"
proof -
  have "w AND 1 = take_bit 1 w" by (simp add: take_bit_eq_mask mask_eq_exp_minus_1)
  then have "(w AND 1 = 0) \<longleftrightarrow> unat (take_bit 1 w) = 0" by (simp only: unat_eq_zero)
  also have "\<dots> \<longleftrightarrow> even (unat w)" by (simp only: unat_take_bit) (simp add: even_iff_mod_2_eq_zero)
  finally show ?thesis .
qed

lemma sb_sparse_correct:
  "ext4_sb_sparse g =
     Some (unat g \<le> 1 \<or> (\<exists>k \<ge> 1. unat g = 3 ^ k \<or> unat g = 5 ^ k \<or> unat g = 7 ^ k))"
proof -
  have "is_power_of g 3 = Some (\<exists>k \<ge> 1. unat g = 3 ^ k)" "is_power_of g 5 = Some (\<exists>k \<ge> 1. unat g = 5 ^ k)"
    "is_power_of g 7 = Some (\<exists>k \<ge> 1. unat g = 7 ^ k)"
    using is_power_of_correct [of 3 g] is_power_of_correct [of 5 g] is_power_of_correct [of 7 g]
    by simp_all
  moreover have "(g \<le> 1) = (unat g \<le> 1)" by (simp add: word_le_nat_alt)
  moreover have "\<not> even (unat g)" if "unat g = 3 ^ k \<or> unat g = 5 ^ k \<or> unat g = 7 ^ k" for k
    using that by auto
  ultimately show ?thesis
    by (auto simp: ext4_sb_sparse_def and_1_even split: option.split bool.split)
qed

section \<open>Checksum\<close>

lemma sb_csum_set [simp]: "ext4_sblock_wf s \<Longrightarrow> ext4_sb_csum (s\<lparr>sb_checksum := c\<rparr>) = ext4_sb_csum s"
  by (simp add: ext4_sb_csum_def sblock_bytes_update_checksum)

lemma sb_feature_set_csum [simp]:
  "ext4_sb_feature_ro_com (ext4_sb_set_csum s) v = ext4_sb_feature_ro_com s v"
  "ext4_sblock_wf (ext4_sb_set_csum s) = ext4_sblock_wf s"
  "sb_checksum_type (ext4_sb_set_csum s) = sb_checksum_type s"
  by (simp_all add: ext4_sb_set_csum_def ext4_sb_feature_ro_com_def)

lemma sb_set_then_verify:
  "ext4_sblock_wf s \<Longrightarrow> ext4_sb_verify_csum (ext4_sb_set_csum s) \<longleftrightarrow>
     ext4_sb_feature_ro_com s EXT4_FRO_COM_METADATA_CSUM \<longrightarrow> sb_checksum_type s = EXT4_CHECKSUM_CRC32C"
  by (auto simp: ext4_sb_verify_csum_def)
    (auto simp: ext4_sb_set_csum_def ext4_sb_feature_ro_com_def)

section \<open>Properties\<close>

text \<open>
  A group holds a superblock copy under \<open>sparse_super\<close> exactly when it is 0, 1 or a
  positive power of 3, 5 or 7, and the test always returns (the \<open>while (1)\<close> of
  \<open>is_power_of\<close> stops for these bases).
\<close>

theorem sb_sparse_exact:
  "ext4_sb_sparse g = Some (g = 0 \<or> g = 1 \<or> (\<exists>k \<ge> 1. unat g = 3 ^ k \<or> unat g = 5 ^ k \<or> unat g = 7 ^ k)) \<and>
   ext4_sb_is_super_in_bg s g =
     (if ext4_sb_feature_ro_com s EXT4_FRO_COM_SPARSE_SUPER
      then g = 0 \<or> g = 1 \<or> (\<exists>k \<ge> 1. unat g = 3 ^ k \<or> unat g = 5 ^ k \<or> unat g = 7 ^ k)
      else True)"
proof -
  have "unat g \<le> 1 \<longleftrightarrow> g = 0 \<or> g = 1"
    by (metis le_less_Suc_eq less_one One_nat_def le_less unat_1 unat_eq_zero word_unat_eq_iff zero_le)
  then show ?thesis
    unfolding ext4_sb_is_super_in_bg_def sb_sparse_correct by auto
qed

lemma sum_groups:
  fixes b n k :: nat
  assumes "0 < k" "(k - 1) * b \<le> n"
  shows "(\<Sum>g<k. if g < k - 1 then b else n - (k - 1) * b) = n"
proof -
  obtain j where k: "k = Suc j" using assms(1) by (cases k) auto
  have "(\<Sum>g<j. if g < j then b else n - j * b) = (\<Sum>g<j. b)" by (rule sum.cong) auto
  then show ?thesis using assms(2) by (simp add: k)
qed

text \<open>
  C40: The groups partition the blocks: with a non-zero group size and a group number that
  fits 32 bits, \<open>ext4_block_group_cnt\<close> is the quotient rounded up, every group has between 1
  and \<open>blocks_per_group\<close> blocks, and the group sizes add up to the block count (although
  the size of the last group is computed with a product that wraps around at 32 bits).
\<close>

theorem groups_partition_blocks:
  assumes "sb_blocks_per_group s \<noteq> 0" "ext4_sb_get_blocks_cnt s \<noteq> 0"
    and "blocks_nat s \<le> bpg_nat s * (2 ^ 32 - 1)"
  shows "unat (ext4_block_group_cnt s) = group_count s \<and>
    (\<Sum>g<group_count s. unat (ext4_blocks_in_group_cnt s (of_nat g))) = blocks_nat s \<and>
    (\<forall>g<group_count s. 0 < ext4_blocks_in_group_cnt s (of_nat g) \<and>
        ext4_blocks_in_group_cnt s (of_nat g) \<le> sb_blocks_per_group s)"
proof -
  have pos: "0 < bpg_nat s" "0 < blocks_nat s" using assms(1,2) by (simp_all add: unat_gt_0)
  note bounds = group_count_bounds [OF pos]
  note size = unat_blocks_in_group [OF assms]
  have "(\<Sum>g<group_count s. unat (ext4_blocks_in_group_cnt s (of_nat g))) =
      (\<Sum>g<group_count s. if g < group_count s - 1 then bpg_nat s
                          else blocks_nat s - (group_count s - 1) * bpg_nat s)"
    by (intro sum.cong refl size) simp
  also have "\<dots> = blocks_nat s" using bounds by (intro sum_groups) simp_all
  finally have sum: "(\<Sum>g<group_count s. unat (ext4_blocks_in_group_cnt s (of_nat g))) = blocks_nat s" .
  have each: "0 < unat (ext4_blocks_in_group_cnt s (of_nat g)) \<and>
      unat (ext4_blocks_in_group_cnt s (of_nat g)) \<le> bpg_nat s" if "g < group_count s" for g
    using bounds pos by (simp add: size [OF that] le_diff_conv add.commute del: One_nat_def)
  show ?thesis
    using unat_block_group_cnt [OF assms(1,3)] sum each
    by (simp add: word_less_nat_alt word_le_nat_alt)
qed

abbreviation sb_example :: ext4_sblock where
  "sb_example \<equiv> (ext4_sblock_of (replicate 1024 0))
     \<lparr>sb_blocks_count_lo := 20000, sb_blocks_per_group := 8192\<rparr>"

lemma groups_partition_blocks_witness:
  "(\<Sum>g<group_count sb_example. unat (ext4_blocks_in_group_cnt sb_example (of_nat g))) = 20000"
proof -
  have "ext4_sb_get_blocks_cnt sb_example = 20000"
    by (simp add: ext4_sb_get_blocks_cnt_def ext4_sblock_of_def)
  with groups_partition_blocks [of sb_example] show ?thesis by simp
qed

text \<open>
  C39: The superblock checksum detects corruption. Storing the checksum makes the
  verification succeed, and after overwriting any window of at most four bytes before the
  checksum field with different bytes it fails, as long as the image still claims to have
  metadata checksums (without that flag nothing is verified).
\<close>

theorem sb_csum_detects_corruption:
  assumes "ext4_sblock_wf s" "ext4_sb_feature_ro_com s EXT4_FRO_COM_METADATA_CSUM"
    and "sb_checksum_type s = EXT4_CHECKSUM_CRC32C"
    and "take 1020 (ext4_sblock_bytes s) = pre @ xs @ post" "length ys = length xs" "length xs \<le> 4" "ys \<noteq> xs"
    and "bad = ext4_sblock_of (pre @ ys @ post @ le_bytes 4 (ext4_sb_csum s))"
    and "ext4_sb_feature_ro_com bad EXT4_FRO_COM_METADATA_CSUM"
  shows "ext4_sb_verify_csum (ext4_sb_set_csum s) \<and>
    ext4_sblock_bytes (ext4_sb_set_csum s) = pre @ xs @ post @ le_bytes 4 (ext4_sb_csum s) \<and>
    \<not> ext4_sb_verify_csum bad"
proof -
  let ?good = "ext4_sb_set_csum s"
  have good: "?good = s\<lparr>sb_checksum := ext4_sb_csum s\<rparr>"
    using assms(2) by (simp add: ext4_sb_set_csum_def)
  have img: "ext4_sblock_bytes ?good = pre @ xs @ post @ le_bytes 4 (ext4_sb_csum s)"
    using sblock_bytes_checksum [of ?good] assms(1,4)
    by (simp add: good sblock_bytes_update_checksum)
  have "length (take 1020 (ext4_sblock_bytes s)) = 1020" using assms(1) by simp
  then have len: "length (pre @ ys @ post) = 1020" using assms(5) by (simp add: assms(4))
  let ?img = "pre @ ys @ post @ le_bytes 4 (ext4_sb_csum s)"
  have len2: "length ?img = 1024" using len by simp
  have "sb_checksum bad = get_le 4 1020 ((pre @ ys @ post) @ le_bytes 4 (ext4_sb_csum s))"
    by (simp add: assms(8) ext4_sblock_of_def)
  also have "\<dots> = ext4_sb_csum s" by (subst get_le_skip) (use len in \<open>simp_all add: byte_simps\<close>)
  finally have stored: "sb_checksum bad = ext4_sb_csum s" .
  have "take 1020 ?img = pre @ ys @ post" using len by simp
  then have "ext4_sb_csum bad = ext4_crc32c EXT4_CRC32_INIT (pre @ ys @ post)"
    unfolding assms(8) ext4_sb_csum_def [of "ext4_sblock_of _"] sblock_bytes_of [OF len2] by simp
  moreover have "ext4_sb_csum s = ext4_crc32c EXT4_CRC32_INIT (pre @ xs @ post)"
    by (simp only: ext4_sb_csum_def assms(4))
  ultimately have "ext4_sb_csum bad \<noteq> ext4_sb_csum s"
    using ext4_crc32c_inj [of ys xs EXT4_CRC32_INIT pre post] assms(5,6,7) by auto
  with stored assms(9) have "\<not> ext4_sb_verify_csum bad" by (auto simp: ext4_sb_verify_csum_def)
  with img sb_set_then_verify [OF assms(1)] assms(3) show ?thesis by simp
qed

abbreviation sb_csum_example :: ext4_sblock where
  "sb_csum_example \<equiv> (ext4_sblock_of (replicate 1024 0))
     \<lparr>sb_features_read_only := 0x400, sb_checksum_type := 1\<rparr>"

lemma sb_csum_detects_corruption_witness:
  "\<not> ext4_sb_verify_csum (ext4_sblock_of
      (take 1016 (ext4_sblock_bytes sb_csum_example) @
       map (\<lambda>b. b + 1) (take 4 (drop 1016 (ext4_sblock_bytes sb_csum_example))) @
       le_bytes 4 (ext4_sb_csum sb_csum_example)))"
proof -
  let ?s = sb_csum_example and ?img = "ext4_sblock_bytes sb_csum_example"
  let ?xs = "take 4 (drop 1016 ?img)" and ?ys = "map (\<lambda>b. b + 1) (take 4 (drop 1016 ?img))"
  let ?bad = "take 1016 ?img @ ?ys @ [] @ le_bytes 4 (ext4_sb_csum ?s)"
  have wf: "ext4_sblock_wf ?s"
    using sblock_wf_of [of "replicate 1024 0"] by (simp add: ext4_sblock_wf_def)
  have len: "length ?img = 1024" using wf by (rule length_sblock_bytes)
  have split: "take 1020 ?img = take 1016 ?img @ ?xs @ []"
    using take_add [of 1016 4 ?img] by simp
  have "length ?xs = 4" using len by simp
  then have "?ys \<noteq> ?xs" by (cases ?xs) (auto simp del: take_eq_Nil)
  moreover have "sb_features_read_only (ext4_sblock_of ?bad) = sb_features_read_only (ext4_sblock_of ?img)"
    using len by (simp add: ext4_sblock_of_def byte_simps)
  then have "ext4_sb_feature_ro_com (ext4_sblock_of ?bad) EXT4_FRO_COM_METADATA_CSUM"
    by (simp only: sblock_of_bytes [OF wf] ext4_sb_feature_ro_com_def EXT4_FRO_COM_METADATA_CSUM_def) simp
  moreover have "ext4_sb_feature_ro_com ?s EXT4_FRO_COM_METADATA_CSUM"
    "sb_checksum_type ?s = EXT4_CHECKSUM_CRC32C"
    by (simp_all add: ext4_sb_feature_ro_com_def EXT4_FRO_COM_METADATA_CSUM_def EXT4_CHECKSUM_CRC32C_def)
  ultimately show ?thesis
    using sb_csum_detects_corruption [OF wf _ _ split, of ?ys "ext4_sblock_of ?bad"] by simp
qed

end
