(* ===== verification/Block_Group.thy ===== *)
theory Block_Group
  imports Super
begin

text \<open>
  Block group descriptors: the packed 64-byte struct \<open>ext4_bgroup\<close> of \<open>ext4_types.h\<close> as a
  record with its byte image, and the accessors of \<open>include/ext4_block_group.h\<close>. A wide field
  is kept in a \<open>_lo\<close> and a \<open>_hi\<close> half; the high half is used only when the superblock
  says descriptors are larger than 32 bytes.
\<close>

section \<open>Layout\<close>

record ext4_bgroup =
  bg_block_bitmap_lo :: u32
  bg_inode_bitmap_lo :: u32
  bg_inode_table_first_block_lo :: u32
  bg_free_blocks_count_lo :: u16
  bg_free_inodes_count_lo :: u16
  bg_used_dirs_count_lo :: u16
  bg_flags :: u16
  bg_exclude_bitmap_lo :: u32
  bg_block_bitmap_csum_lo :: u16
  bg_inode_bitmap_csum_lo :: u16
  bg_itable_unused_lo :: u16
  bg_checksum :: u16
  bg_block_bitmap_hi :: u32
  bg_inode_bitmap_hi :: u32
  bg_inode_table_first_block_hi :: u32
  bg_free_blocks_count_hi :: u16
  bg_free_inodes_count_hi :: u16
  bg_used_dirs_count_hi :: u16
  bg_itable_unused_hi :: u16
  bg_exclude_bitmap_hi :: u32
  bg_block_bitmap_csum_hi :: u16
  bg_inode_bitmap_csum_hi :: u16
  bg_reserved :: u32

definition ext4_bgroup_bytes :: "ext4_bgroup \<Rightarrow> bytes" where
  "ext4_bgroup_bytes s =
    le_bytes 4 (bg_block_bitmap_lo s) @ le_bytes 4 (bg_inode_bitmap_lo s) @
    le_bytes 4 (bg_inode_table_first_block_lo s) @ le_bytes 2 (bg_free_blocks_count_lo s) @
    le_bytes 2 (bg_free_inodes_count_lo s) @ le_bytes 2 (bg_used_dirs_count_lo s) @
    le_bytes 2 (bg_flags s) @ le_bytes 4 (bg_exclude_bitmap_lo s) @
    le_bytes 2 (bg_block_bitmap_csum_lo s) @ le_bytes 2 (bg_inode_bitmap_csum_lo s) @
    le_bytes 2 (bg_itable_unused_lo s) @ le_bytes 2 (bg_checksum s) @
    le_bytes 4 (bg_block_bitmap_hi s) @ le_bytes 4 (bg_inode_bitmap_hi s) @
    le_bytes 4 (bg_inode_table_first_block_hi s) @ le_bytes 2 (bg_free_blocks_count_hi s) @
    le_bytes 2 (bg_free_inodes_count_hi s) @ le_bytes 2 (bg_used_dirs_count_hi s) @
    le_bytes 2 (bg_itable_unused_hi s) @ le_bytes 4 (bg_exclude_bitmap_hi s) @
    le_bytes 2 (bg_block_bitmap_csum_hi s) @ le_bytes 2 (bg_inode_bitmap_csum_hi s) @
    le_bytes 4 (bg_reserved s)"

definition ext4_bgroup_of :: "bytes \<Rightarrow> ext4_bgroup" where
  "ext4_bgroup_of bs =
    \<lparr>bg_block_bitmap_lo = get_le 4 0 bs, bg_inode_bitmap_lo = get_le 4 4 bs,
     bg_inode_table_first_block_lo = get_le 4 8 bs, bg_free_blocks_count_lo = get_le 2 12 bs,
     bg_free_inodes_count_lo = get_le 2 14 bs, bg_used_dirs_count_lo = get_le 2 16 bs,
     bg_flags = get_le 2 18 bs, bg_exclude_bitmap_lo = get_le 4 20 bs,
     bg_block_bitmap_csum_lo = get_le 2 24 bs, bg_inode_bitmap_csum_lo = get_le 2 26 bs,
     bg_itable_unused_lo = get_le 2 28 bs, bg_checksum = get_le 2 30 bs,
     bg_block_bitmap_hi = get_le 4 32 bs, bg_inode_bitmap_hi = get_le 4 36 bs,
     bg_inode_table_first_block_hi = get_le 4 40 bs, bg_free_blocks_count_hi = get_le 2 44 bs,
     bg_free_inodes_count_hi = get_le 2 46 bs, bg_used_dirs_count_hi = get_le 2 48 bs,
     bg_itable_unused_hi = get_le 2 50 bs, bg_exclude_bitmap_hi = get_le 4 52 bs,
     bg_block_bitmap_csum_hi = get_le 2 56 bs, bg_inode_bitmap_csum_hi = get_le 2 58 bs,
     bg_reserved = get_le 4 60 bs\<rparr>"

lemma length_bgroup_bytes [simp]: "length (ext4_bgroup_bytes bg) = 64"
  by (simp add: ext4_bgroup_bytes_def)

lemma bgroup_of_bytes [byte_simps]: "ext4_bgroup_of (ext4_bgroup_bytes bg) = bg"
  by (simp add: ext4_bgroup_bytes_def ext4_bgroup_of_def byte_simps)

lemma bgroup_bytes_of [byte_simps]: "length bs = 64 \<Longrightarrow> ext4_bgroup_bytes (ext4_bgroup_of bs) = bs"
  by (simp add: ext4_bgroup_bytes_def ext4_bgroup_of_def byte_simps)

section \<open>Accessors\<close>

definition EXT4_BLOCK_GROUP_INODE_UNINIT :: u32 where "EXT4_BLOCK_GROUP_INODE_UNINIT = 0x1"
definition EXT4_BLOCK_GROUP_BLOCK_UNINIT :: u32 where "EXT4_BLOCK_GROUP_BLOCK_UNINIT = 0x2"
definition EXT4_BLOCK_GROUP_ITABLE_ZEROED :: u32 where "EXT4_BLOCK_GROUP_ITABLE_ZEROED = 0x4"

definition ext4_bg_get_block_bitmap :: "ext4_bgroup \<Rightarrow> ext4_sblock \<Rightarrow> u64" where
  "ext4_bg_get_block_bitmap bg s =
     (let v = ucast (bg_block_bitmap_lo bg)
      in if ext4_sb_get_desc_size s > EXT4_MIN_BLOCK_GROUP_DESCRIPTOR_SIZE
         then v OR push_bit 32 (ucast (bg_block_bitmap_hi bg)) else v)"

definition ext4_bg_set_block_bitmap ::
    "ext4_bgroup \<Rightarrow> ext4_sblock \<Rightarrow> u64 \<Rightarrow> ext4_bgroup" where
  "ext4_bg_set_block_bitmap bg s blk =
     (let bg = bg\<lparr>bg_block_bitmap_lo := ucast blk\<rparr>
      in if ext4_sb_get_desc_size s > EXT4_MIN_BLOCK_GROUP_DESCRIPTOR_SIZE
         then bg\<lparr>bg_block_bitmap_hi := ucast (drop_bit 32 blk)\<rparr> else bg)"

definition ext4_bg_get_inode_bitmap :: "ext4_bgroup \<Rightarrow> ext4_sblock \<Rightarrow> u64" where
  "ext4_bg_get_inode_bitmap bg s =
     (let v = ucast (bg_inode_bitmap_lo bg)
      in if ext4_sb_get_desc_size s > EXT4_MIN_BLOCK_GROUP_DESCRIPTOR_SIZE
         then v OR push_bit 32 (ucast (bg_inode_bitmap_hi bg)) else v)"

definition ext4_bg_set_inode_bitmap ::
    "ext4_bgroup \<Rightarrow> ext4_sblock \<Rightarrow> u64 \<Rightarrow> ext4_bgroup" where
  "ext4_bg_set_inode_bitmap bg s blk =
     (let bg = bg\<lparr>bg_inode_bitmap_lo := ucast blk\<rparr>
      in if ext4_sb_get_desc_size s > EXT4_MIN_BLOCK_GROUP_DESCRIPTOR_SIZE
         then bg\<lparr>bg_inode_bitmap_hi := ucast (drop_bit 32 blk)\<rparr> else bg)"

definition ext4_bg_get_inode_table_first_block :: "ext4_bgroup \<Rightarrow> ext4_sblock \<Rightarrow> u64" where
  "ext4_bg_get_inode_table_first_block bg s =
     (let v = ucast (bg_inode_table_first_block_lo bg)
      in if ext4_sb_get_desc_size s > EXT4_MIN_BLOCK_GROUP_DESCRIPTOR_SIZE
         then v OR push_bit 32 (ucast (bg_inode_table_first_block_hi bg)) else v)"

definition ext4_bg_set_inode_table_first_block ::
    "ext4_bgroup \<Rightarrow> ext4_sblock \<Rightarrow> u64 \<Rightarrow> ext4_bgroup" where
  "ext4_bg_set_inode_table_first_block bg s blk =
     (let bg = bg\<lparr>bg_inode_table_first_block_lo := ucast blk\<rparr>
      in if ext4_sb_get_desc_size s > EXT4_MIN_BLOCK_GROUP_DESCRIPTOR_SIZE
         then bg\<lparr>bg_inode_table_first_block_hi := ucast (drop_bit 32 blk)\<rparr> else bg)"

definition ext4_bg_get_free_blocks_count :: "ext4_bgroup \<Rightarrow> ext4_sblock \<Rightarrow> u32" where
  "ext4_bg_get_free_blocks_count bg s =
     (let v = ucast (bg_free_blocks_count_lo bg)
      in if ext4_sb_get_desc_size s > EXT4_MIN_BLOCK_GROUP_DESCRIPTOR_SIZE
         then v OR push_bit 16 (ucast (bg_free_blocks_count_hi bg)) else v)"

definition ext4_bg_set_free_blocks_count ::
    "ext4_bgroup \<Rightarrow> ext4_sblock \<Rightarrow> u32 \<Rightarrow> ext4_bgroup" where
  "ext4_bg_set_free_blocks_count bg s cnt =
     (let bg = bg\<lparr>bg_free_blocks_count_lo := ucast (drop_bit 16 (push_bit 16 cnt))\<rparr>
      in if ext4_sb_get_desc_size s > EXT4_MIN_BLOCK_GROUP_DESCRIPTOR_SIZE
         then bg\<lparr>bg_free_blocks_count_hi := ucast (drop_bit 16 cnt)\<rparr> else bg)"

definition ext4_bg_get_free_inodes_count :: "ext4_bgroup \<Rightarrow> ext4_sblock \<Rightarrow> u32" where
  "ext4_bg_get_free_inodes_count bg s =
     (let v = ucast (bg_free_inodes_count_lo bg)
      in if ext4_sb_get_desc_size s > EXT4_MIN_BLOCK_GROUP_DESCRIPTOR_SIZE
         then v OR push_bit 16 (ucast (bg_free_inodes_count_hi bg)) else v)"

definition ext4_bg_set_free_inodes_count ::
    "ext4_bgroup \<Rightarrow> ext4_sblock \<Rightarrow> u32 \<Rightarrow> ext4_bgroup" where
  "ext4_bg_set_free_inodes_count bg s cnt =
     (let bg = bg\<lparr>bg_free_inodes_count_lo := ucast (drop_bit 16 (push_bit 16 cnt))\<rparr>
      in if ext4_sb_get_desc_size s > EXT4_MIN_BLOCK_GROUP_DESCRIPTOR_SIZE
         then bg\<lparr>bg_free_inodes_count_hi := ucast (drop_bit 16 cnt)\<rparr> else bg)"

definition ext4_bg_get_used_dirs_count :: "ext4_bgroup \<Rightarrow> ext4_sblock \<Rightarrow> u32" where
  "ext4_bg_get_used_dirs_count bg s =
     (let v = ucast (bg_used_dirs_count_lo bg)
      in if ext4_sb_get_desc_size s > EXT4_MIN_BLOCK_GROUP_DESCRIPTOR_SIZE
         then v OR push_bit 16 (ucast (bg_used_dirs_count_hi bg)) else v)"

definition ext4_bg_set_used_dirs_count ::
    "ext4_bgroup \<Rightarrow> ext4_sblock \<Rightarrow> u32 \<Rightarrow> ext4_bgroup" where
  "ext4_bg_set_used_dirs_count bg s cnt =
     (let bg = bg\<lparr>bg_used_dirs_count_lo := ucast (drop_bit 16 (push_bit 16 cnt))\<rparr>
      in if ext4_sb_get_desc_size s > EXT4_MIN_BLOCK_GROUP_DESCRIPTOR_SIZE
         then bg\<lparr>bg_used_dirs_count_hi := ucast (drop_bit 16 cnt)\<rparr> else bg)"

definition ext4_bg_get_itable_unused :: "ext4_bgroup \<Rightarrow> ext4_sblock \<Rightarrow> u32" where
  "ext4_bg_get_itable_unused bg s =
     (let v = ucast (bg_itable_unused_lo bg)
      in if ext4_sb_get_desc_size s > EXT4_MIN_BLOCK_GROUP_DESCRIPTOR_SIZE
         then v OR push_bit 16 (ucast (bg_itable_unused_hi bg)) else v)"

definition ext4_bg_set_itable_unused ::
    "ext4_bgroup \<Rightarrow> ext4_sblock \<Rightarrow> u32 \<Rightarrow> ext4_bgroup" where
  "ext4_bg_set_itable_unused bg s cnt =
     (let bg = bg\<lparr>bg_itable_unused_lo := ucast (drop_bit 16 (push_bit 16 cnt))\<rparr>
      in if ext4_sb_get_desc_size s > EXT4_MIN_BLOCK_GROUP_DESCRIPTOR_SIZE
         then bg\<lparr>bg_itable_unused_hi := ucast (drop_bit 16 cnt)\<rparr> else bg)"

definition ext4_bg_set_checksum :: "ext4_bgroup \<Rightarrow> u16 \<Rightarrow> ext4_bgroup" where
  "ext4_bg_set_checksum bg crc = bg\<lparr>bg_checksum := crc\<rparr>"

definition ext4_bg_has_flag :: "ext4_bgroup \<Rightarrow> u32 \<Rightarrow> bool" where
  "ext4_bg_has_flag bg f = (ucast (bg_flags bg) AND f \<noteq> 0)"

definition ext4_bg_set_flag :: "ext4_bgroup \<Rightarrow> u32 \<Rightarrow> ext4_bgroup" where
  "ext4_bg_set_flag bg f =
     (let flags = bg_flags bg; flags = ucast (ucast flags OR f) in bg\<lparr>bg_flags := flags\<rparr>)"

definition ext4_bg_clear_flag :: "ext4_bgroup \<Rightarrow> u32 \<Rightarrow> ext4_bgroup" where
  "ext4_bg_clear_flag bg f =
     (let flags = bg_flags bg; flags = ucast (ucast flags AND NOT f) in bg\<lparr>bg_flags := flags\<rparr>)"

section \<open>Reading back what was set\<close>

lemmas bg_access_defs =
  ext4_bg_get_block_bitmap_def ext4_bg_set_block_bitmap_def
  ext4_bg_get_inode_bitmap_def ext4_bg_set_inode_bitmap_def
  ext4_bg_get_inode_table_first_block_def ext4_bg_set_inode_table_first_block_def
  ext4_bg_get_free_blocks_count_def ext4_bg_set_free_blocks_count_def
  ext4_bg_get_free_inodes_count_def ext4_bg_set_free_inodes_count_def
  ext4_bg_get_used_dirs_count_def ext4_bg_set_used_dirs_count_def
  ext4_bg_get_itable_unused_def ext4_bg_set_itable_unused_def
  ext4_bg_set_flag_def ext4_bg_clear_flag_def ext4_bg_set_checksum_def

text \<open>Setting one field leaves the other fields as they were.\<close>

lemma bg_get_set_other [simp]:
  "ext4_bg_get_block_bitmap (ext4_bg_set_inode_bitmap bg s v) s = ext4_bg_get_block_bitmap bg s"
  "ext4_bg_get_block_bitmap (ext4_bg_set_inode_table_first_block bg s v) s = ext4_bg_get_block_bitmap bg s"
  "ext4_bg_get_block_bitmap (ext4_bg_set_free_blocks_count bg s c) s = ext4_bg_get_block_bitmap bg s"
  "ext4_bg_get_block_bitmap (ext4_bg_set_free_inodes_count bg s c) s = ext4_bg_get_block_bitmap bg s"
  "ext4_bg_get_block_bitmap (ext4_bg_set_used_dirs_count bg s c) s = ext4_bg_get_block_bitmap bg s"
  "ext4_bg_get_block_bitmap (ext4_bg_set_itable_unused bg s c) s = ext4_bg_get_block_bitmap bg s"
  "ext4_bg_get_block_bitmap (ext4_bg_set_flag bg f) s = ext4_bg_get_block_bitmap bg s"
  "ext4_bg_get_block_bitmap (ext4_bg_clear_flag bg f) s = ext4_bg_get_block_bitmap bg s"
  "ext4_bg_get_inode_bitmap (ext4_bg_set_block_bitmap bg s v) s = ext4_bg_get_inode_bitmap bg s"
  "ext4_bg_get_inode_bitmap (ext4_bg_set_inode_table_first_block bg s v) s = ext4_bg_get_inode_bitmap bg s"
  "ext4_bg_get_inode_bitmap (ext4_bg_set_free_blocks_count bg s c) s = ext4_bg_get_inode_bitmap bg s"
  "ext4_bg_get_inode_bitmap (ext4_bg_set_free_inodes_count bg s c) s = ext4_bg_get_inode_bitmap bg s"
  "ext4_bg_get_inode_bitmap (ext4_bg_set_used_dirs_count bg s c) s = ext4_bg_get_inode_bitmap bg s"
  "ext4_bg_get_inode_bitmap (ext4_bg_set_itable_unused bg s c) s = ext4_bg_get_inode_bitmap bg s"
  "ext4_bg_get_inode_bitmap (ext4_bg_set_flag bg f) s = ext4_bg_get_inode_bitmap bg s"
  "ext4_bg_get_inode_bitmap (ext4_bg_clear_flag bg f) s = ext4_bg_get_inode_bitmap bg s"
  "ext4_bg_get_inode_table_first_block (ext4_bg_set_block_bitmap bg s v) s = ext4_bg_get_inode_table_first_block bg s"
  "ext4_bg_get_inode_table_first_block (ext4_bg_set_inode_bitmap bg s v) s = ext4_bg_get_inode_table_first_block bg s"
  "ext4_bg_get_inode_table_first_block (ext4_bg_set_free_blocks_count bg s c) s = ext4_bg_get_inode_table_first_block bg s"
  "ext4_bg_get_inode_table_first_block (ext4_bg_set_free_inodes_count bg s c) s = ext4_bg_get_inode_table_first_block bg s"
  "ext4_bg_get_inode_table_first_block (ext4_bg_set_used_dirs_count bg s c) s = ext4_bg_get_inode_table_first_block bg s"
  "ext4_bg_get_inode_table_first_block (ext4_bg_set_itable_unused bg s c) s = ext4_bg_get_inode_table_first_block bg s"
  "ext4_bg_get_inode_table_first_block (ext4_bg_set_flag bg f) s = ext4_bg_get_inode_table_first_block bg s"
  "ext4_bg_get_inode_table_first_block (ext4_bg_clear_flag bg f) s = ext4_bg_get_inode_table_first_block bg s"
  "ext4_bg_get_free_blocks_count (ext4_bg_set_block_bitmap bg s v) s = ext4_bg_get_free_blocks_count bg s"
  "ext4_bg_get_free_blocks_count (ext4_bg_set_inode_bitmap bg s v) s = ext4_bg_get_free_blocks_count bg s"
  "ext4_bg_get_free_blocks_count (ext4_bg_set_inode_table_first_block bg s v) s = ext4_bg_get_free_blocks_count bg s"
  "ext4_bg_get_free_blocks_count (ext4_bg_set_free_inodes_count bg s c) s = ext4_bg_get_free_blocks_count bg s"
  "ext4_bg_get_free_blocks_count (ext4_bg_set_used_dirs_count bg s c) s = ext4_bg_get_free_blocks_count bg s"
  "ext4_bg_get_free_blocks_count (ext4_bg_set_itable_unused bg s c) s = ext4_bg_get_free_blocks_count bg s"
  "ext4_bg_get_free_blocks_count (ext4_bg_set_flag bg f) s = ext4_bg_get_free_blocks_count bg s"
  "ext4_bg_get_free_blocks_count (ext4_bg_clear_flag bg f) s = ext4_bg_get_free_blocks_count bg s"
  "ext4_bg_get_free_inodes_count (ext4_bg_set_block_bitmap bg s v) s = ext4_bg_get_free_inodes_count bg s"
  "ext4_bg_get_free_inodes_count (ext4_bg_set_inode_bitmap bg s v) s = ext4_bg_get_free_inodes_count bg s"
  "ext4_bg_get_free_inodes_count (ext4_bg_set_inode_table_first_block bg s v) s = ext4_bg_get_free_inodes_count bg s"
  "ext4_bg_get_free_inodes_count (ext4_bg_set_free_blocks_count bg s c) s = ext4_bg_get_free_inodes_count bg s"
  "ext4_bg_get_free_inodes_count (ext4_bg_set_used_dirs_count bg s c) s = ext4_bg_get_free_inodes_count bg s"
  "ext4_bg_get_free_inodes_count (ext4_bg_set_itable_unused bg s c) s = ext4_bg_get_free_inodes_count bg s"
  "ext4_bg_get_free_inodes_count (ext4_bg_set_flag bg f) s = ext4_bg_get_free_inodes_count bg s"
  "ext4_bg_get_free_inodes_count (ext4_bg_clear_flag bg f) s = ext4_bg_get_free_inodes_count bg s"
  "ext4_bg_get_used_dirs_count (ext4_bg_set_block_bitmap bg s v) s = ext4_bg_get_used_dirs_count bg s"
  "ext4_bg_get_used_dirs_count (ext4_bg_set_inode_bitmap bg s v) s = ext4_bg_get_used_dirs_count bg s"
  "ext4_bg_get_used_dirs_count (ext4_bg_set_inode_table_first_block bg s v) s = ext4_bg_get_used_dirs_count bg s"
  "ext4_bg_get_used_dirs_count (ext4_bg_set_free_blocks_count bg s c) s = ext4_bg_get_used_dirs_count bg s"
  "ext4_bg_get_used_dirs_count (ext4_bg_set_free_inodes_count bg s c) s = ext4_bg_get_used_dirs_count bg s"
  "ext4_bg_get_used_dirs_count (ext4_bg_set_itable_unused bg s c) s = ext4_bg_get_used_dirs_count bg s"
  "ext4_bg_get_used_dirs_count (ext4_bg_set_flag bg f) s = ext4_bg_get_used_dirs_count bg s"
  "ext4_bg_get_used_dirs_count (ext4_bg_clear_flag bg f) s = ext4_bg_get_used_dirs_count bg s"
  "ext4_bg_get_itable_unused (ext4_bg_set_block_bitmap bg s v) s = ext4_bg_get_itable_unused bg s"
  "ext4_bg_get_itable_unused (ext4_bg_set_inode_bitmap bg s v) s = ext4_bg_get_itable_unused bg s"
  "ext4_bg_get_itable_unused (ext4_bg_set_inode_table_first_block bg s v) s = ext4_bg_get_itable_unused bg s"
  "ext4_bg_get_itable_unused (ext4_bg_set_free_blocks_count bg s c) s = ext4_bg_get_itable_unused bg s"
  "ext4_bg_get_itable_unused (ext4_bg_set_free_inodes_count bg s c) s = ext4_bg_get_itable_unused bg s"
  "ext4_bg_get_itable_unused (ext4_bg_set_used_dirs_count bg s c) s = ext4_bg_get_itable_unused bg s"
  "ext4_bg_get_itable_unused (ext4_bg_set_flag bg f) s = ext4_bg_get_itable_unused bg s"
  "ext4_bg_get_itable_unused (ext4_bg_clear_flag bg f) s = ext4_bg_get_itable_unused bg s"
  by (simp_all add: bg_access_defs Let_def)

lemma bg_get_set [simp]:
  "ext4_bg_get_block_bitmap (ext4_bg_set_block_bitmap bg s v) s =
     (if ext4_sb_get_desc_size s > EXT4_MIN_BLOCK_GROUP_DESCRIPTOR_SIZE then v else take_bit 32 v)"
  "ext4_bg_get_inode_bitmap (ext4_bg_set_inode_bitmap bg s v) s =
     (if ext4_sb_get_desc_size s > EXT4_MIN_BLOCK_GROUP_DESCRIPTOR_SIZE then v else take_bit 32 v)"
  "ext4_bg_get_inode_table_first_block (ext4_bg_set_inode_table_first_block bg s v) s =
     (if ext4_sb_get_desc_size s > EXT4_MIN_BLOCK_GROUP_DESCRIPTOR_SIZE then v else take_bit 32 v)"
  "ext4_bg_get_free_blocks_count (ext4_bg_set_free_blocks_count bg s c) s =
     (if ext4_sb_get_desc_size s > EXT4_MIN_BLOCK_GROUP_DESCRIPTOR_SIZE then c else take_bit 16 c)"
  "ext4_bg_get_free_inodes_count (ext4_bg_set_free_inodes_count bg s c) s =
     (if ext4_sb_get_desc_size s > EXT4_MIN_BLOCK_GROUP_DESCRIPTOR_SIZE then c else take_bit 16 c)"
  "ext4_bg_get_used_dirs_count (ext4_bg_set_used_dirs_count bg s c) s =
     (if ext4_sb_get_desc_size s > EXT4_MIN_BLOCK_GROUP_DESCRIPTOR_SIZE then c else take_bit 16 c)"
  "ext4_bg_get_itable_unused (ext4_bg_set_itable_unused bg s c) s =
     (if ext4_sb_get_desc_size s > EXT4_MIN_BLOCK_GROUP_DESCRIPTOR_SIZE then c else take_bit 16 c)"
  by (simp_all add: bg_access_defs Let_def wide64 wide32 wide_join)

lemma ucast_or_16: "ucast (ucast (ucast (w :: u16) OR f :: u32) :: u16) = (ucast w OR take_bit 16 f :: u32)"
  by (rule bit_word_eqI) (auto simp: bit_simps dest: bit_imp_le_length)

lemma bg_has_set_flag: "take_bit 16 f = f \<Longrightarrow> f \<noteq> 0 \<Longrightarrow> ext4_bg_has_flag (ext4_bg_set_flag bg f) f"
  by (simp add: ext4_bg_has_flag_def ext4_bg_set_flag_def ucast_or_16)

lemma bg_has_clear_flag: "\<not> ext4_bg_has_flag (ext4_bg_clear_flag bg f) f"
proof -
  have "ucast (ucast (ucast (bg_flags bg) AND NOT f) :: u16) AND f = 0"
    by (rule bit_word_eqI) (auto simp: bit_simps)
  then show ?thesis by (simp add: ext4_bg_has_flag_def ext4_bg_clear_flag_def)
qed

text \<open>
  Descriptor accessors: what is set is read back, in full with 64-byte descriptors and
  truncated to the low half with 32-byte descriptors, for the three block addresses and the
  four counters; the byte image determines the descriptor, so this holds in the block buffer
  too.
\<close>

theorem bg_fields_roundtrip:
  "(let wide = ext4_sb_get_desc_size s > EXT4_MIN_BLOCK_GROUP_DESCRIPTOR_SIZE;
        a = (if wide then v else take_bit 32 v); n = (if wide then c else take_bit 16 c)
    in ext4_bg_get_block_bitmap (ext4_bg_set_block_bitmap bg s v) s = a \<and>
       ext4_bg_get_inode_bitmap (ext4_bg_set_inode_bitmap bg s v) s = a \<and>
       ext4_bg_get_inode_table_first_block (ext4_bg_set_inode_table_first_block bg s v) s = a \<and>
       ext4_bg_get_free_blocks_count (ext4_bg_set_free_blocks_count bg s c) s = n \<and>
       ext4_bg_get_free_inodes_count (ext4_bg_set_free_inodes_count bg s c) s = n \<and>
       ext4_bg_get_used_dirs_count (ext4_bg_set_used_dirs_count bg s c) s = n \<and>
       ext4_bg_get_itable_unused (ext4_bg_set_itable_unused bg s c) s = n \<and>
       ext4_bgroup_of (ext4_bgroup_bytes bg) = bg)"
  by (simp add: Let_def byte_simps)

end
