(* ===== verification/Inode.thy ===== *)
theory Inode
  imports Super
begin

text \<open>
  On-disk inodes: the packed struct \<open>ext4_inode\<close> of \<open>ext4_types.h\<close> (156 bytes) as a record
  with its byte image, and the accessors of \<open>src/ext4_inode.c\<close>. The union \<open>osd2\<close> is kept in
  its \<open>linux2\<close> view; its \<open>hurd2\<close> view lays \<open>mode_high\<close> over \<open>file_acl_high\<close>, both at offset
  118. The array \<open>blocks\<close> has 15 words; an index outside it, undefined in C, is not in the
  scope of any statement.
\<close>

section \<open>Layout\<close>

record ext4_inode =
  in_mode :: u16
  in_uid :: u16
  in_size_lo :: u32
  in_access_time :: u32
  in_change_inode_time :: u32
  in_modification_time :: u32
  in_deletion_time :: u32
  in_gid :: u16
  in_links_count :: u16
  in_blocks_count_lo :: u32
  in_flags :: u32
  in_unused_osd1 :: u32
  in_blocks :: "u32 list"
  in_generation :: u32
  in_file_acl_lo :: u32
  in_size_hi :: u32
  in_obso_faddr :: u32
  in_blocks_high :: u16
  in_file_acl_high :: u16
  in_uid_high :: u16
  in_gid_high :: u16
  in_checksum_lo :: u16
  in_reserved2 :: u16
  in_extra_isize :: u16
  in_checksum_hi :: u16
  in_ctime_extra :: u32
  in_mtime_extra :: u32
  in_atime_extra :: u32
  in_crtime :: u32
  in_crtime_extra :: u32
  in_version_hi :: u32

definition ext4_inode_bytes :: "ext4_inode \<Rightarrow> bytes" where
  "ext4_inode_bytes s =
    le_bytes 2 (in_mode s) @ le_bytes 2 (in_uid s) @ le_bytes 4 (in_size_lo s) @
    le_bytes 4 (in_access_time s) @ le_bytes 4 (in_change_inode_time s) @
    le_bytes 4 (in_modification_time s) @ le_bytes 4 (in_deletion_time s) @
    le_bytes 2 (in_gid s) @ le_bytes 2 (in_links_count s) @ le_bytes 4 (in_blocks_count_lo s) @
    le_bytes 4 (in_flags s) @ le_bytes 4 (in_unused_osd1 s) @ les_bytes 4 (in_blocks s) @
    le_bytes 4 (in_generation s) @ le_bytes 4 (in_file_acl_lo s) @ le_bytes 4 (in_size_hi s) @
    le_bytes 4 (in_obso_faddr s) @ le_bytes 2 (in_blocks_high s) @
    le_bytes 2 (in_file_acl_high s) @ le_bytes 2 (in_uid_high s) @ le_bytes 2 (in_gid_high s) @
    le_bytes 2 (in_checksum_lo s) @ le_bytes 2 (in_reserved2 s) @
    le_bytes 2 (in_extra_isize s) @ le_bytes 2 (in_checksum_hi s) @
    le_bytes 4 (in_ctime_extra s) @ le_bytes 4 (in_mtime_extra s) @
    le_bytes 4 (in_atime_extra s) @ le_bytes 4 (in_crtime s) @ le_bytes 4 (in_crtime_extra s) @
    le_bytes 4 (in_version_hi s)"

definition ext4_inode_of :: "bytes \<Rightarrow> ext4_inode" where
  "ext4_inode_of bs =
    \<lparr>in_mode = get_le 2 0 bs, in_uid = get_le 2 2 bs, in_size_lo = get_le 4 4 bs,
     in_access_time = get_le 4 8 bs, in_change_inode_time = get_le 4 12 bs,
     in_modification_time = get_le 4 16 bs, in_deletion_time = get_le 4 20 bs,
     in_gid = get_le 2 24 bs, in_links_count = get_le 2 26 bs,
     in_blocks_count_lo = get_le 4 28 bs, in_flags = get_le 4 32 bs,
     in_unused_osd1 = get_le 4 36 bs, in_blocks = get_les 4 40 15 bs,
     in_generation = get_le 4 100 bs, in_file_acl_lo = get_le 4 104 bs,
     in_size_hi = get_le 4 108 bs, in_obso_faddr = get_le 4 112 bs,
     in_blocks_high = get_le 2 116 bs, in_file_acl_high = get_le 2 118 bs,
     in_uid_high = get_le 2 120 bs, in_gid_high = get_le 2 122 bs,
     in_checksum_lo = get_le 2 124 bs, in_reserved2 = get_le 2 126 bs,
     in_extra_isize = get_le 2 128 bs, in_checksum_hi = get_le 2 130 bs,
     in_ctime_extra = get_le 4 132 bs, in_mtime_extra = get_le 4 136 bs,
     in_atime_extra = get_le 4 140 bs, in_crtime = get_le 4 144 bs,
     in_crtime_extra = get_le 4 148 bs, in_version_hi = get_le 4 152 bs\<rparr>"

definition ext4_inode_wf :: "ext4_inode \<Rightarrow> bool" where
  "ext4_inode_wf s \<longleftrightarrow>
     length (in_blocks s) = 15"

lemma length_inode_bytes [simp]: "ext4_inode_wf i \<Longrightarrow> length (ext4_inode_bytes i) = 156"
  by (simp add: ext4_inode_bytes_def ext4_inode_wf_def)

lemma inode_of_bytes [byte_simps]: "ext4_inode_wf i \<Longrightarrow> ext4_inode_of (ext4_inode_bytes i) = i"
  by (simp add: ext4_inode_bytes_def ext4_inode_of_def ext4_inode_wf_def byte_simps)

lemma inode_bytes_of [byte_simps]: "length bs = 156 \<Longrightarrow> ext4_inode_bytes (ext4_inode_of bs) = bs"
  by (simp add: ext4_inode_bytes_def ext4_inode_of_def byte_simps)

lemma inode_wf_of [simp]: "ext4_inode_wf (ext4_inode_of bs)"
  by (simp add: ext4_inode_wf_def ext4_inode_of_def)

section \<open>Constants\<close>

definition EXT4_SUPERBLOCK_OS_LINUX :: u32 where "EXT4_SUPERBLOCK_OS_LINUX = 0"
definition EXT4_SUPERBLOCK_OS_HURD :: u32 where "EXT4_SUPERBLOCK_OS_HURD = 1"
definition EXT4_GOOD_OLD_INODE_SIZE :: u16 where "EXT4_GOOD_OLD_INODE_SIZE = 128"
definition EXT4_INODE_MODE_FIFO :: u32 where "EXT4_INODE_MODE_FIFO = 0x1000"
definition EXT4_INODE_MODE_CHARDEV :: u32 where "EXT4_INODE_MODE_CHARDEV = 0x2000"
definition EXT4_INODE_MODE_DIRECTORY :: u32 where "EXT4_INODE_MODE_DIRECTORY = 0x4000"
definition EXT4_INODE_MODE_BLOCKDEV :: u32 where "EXT4_INODE_MODE_BLOCKDEV = 0x6000"
definition EXT4_INODE_MODE_FILE :: u32 where "EXT4_INODE_MODE_FILE = 0x8000"
definition EXT4_INODE_MODE_SOFTLINK :: u32 where "EXT4_INODE_MODE_SOFTLINK = 0xA000"
definition EXT4_INODE_MODE_SOCKET :: u32 where "EXT4_INODE_MODE_SOCKET = 0xC000"
definition EXT4_INODE_MODE_TYPE_MASK :: u32 where "EXT4_INODE_MODE_TYPE_MASK = 0xF000"
definition EXT4_INODE_FLAG_IMMUTABLE :: u32 where "EXT4_INODE_FLAG_IMMUTABLE = 0x10"
definition EXT4_INODE_FLAG_APPEND :: u32 where "EXT4_INODE_FLAG_APPEND = 0x20"
definition EXT4_INODE_FLAG_INDEX :: u32 where "EXT4_INODE_FLAG_INDEX = 0x1000"
definition EXT4_INODE_FLAG_HUGE_FILE :: u32 where "EXT4_INODE_FLAG_HUGE_FILE = 0x40000"
definition EXT4_INODE_FLAG_EXTENTS :: u32 where "EXT4_INODE_FLAG_EXTENTS = 0x80000"
definition EXT4_INODE_INDIRECT_BLOCK :: u32 where "EXT4_INODE_INDIRECT_BLOCK = 12"

lemmas inode_consts =
  EXT4_SUPERBLOCK_OS_LINUX_def EXT4_SUPERBLOCK_OS_HURD_def EXT4_GOOD_OLD_INODE_SIZE_def
  EXT4_INODE_MODE_FIFO_def EXT4_INODE_MODE_CHARDEV_def EXT4_INODE_MODE_DIRECTORY_def
  EXT4_INODE_MODE_BLOCKDEV_def EXT4_INODE_MODE_FILE_def EXT4_INODE_MODE_SOFTLINK_def
  EXT4_INODE_MODE_SOCKET_def EXT4_INODE_MODE_TYPE_MASK_def EXT4_INODE_FLAG_IMMUTABLE_def
  EXT4_INODE_FLAG_APPEND_def EXT4_INODE_FLAG_INDEX_def EXT4_INODE_FLAG_HUGE_FILE_def
  EXT4_INODE_FLAG_EXTENTS_def EXT4_INODE_INDIRECT_BLOCK_def

section \<open>Plain fields\<close>

text \<open>
  \<open>uid\<close> and \<open>gid\<close> are 16-bit fields read and written through \<open>to_le32\<close>: a larger id is cut.
\<close>

definition ext4_inode_get_uid :: "ext4_inode \<Rightarrow> u32" where
  "ext4_inode_get_uid inode = ucast (in_uid inode)"

definition ext4_inode_set_uid :: "ext4_inode \<Rightarrow> u32 \<Rightarrow> ext4_inode" where
  "ext4_inode_set_uid inode v = inode\<lparr>in_uid := ucast v\<rparr>"

definition ext4_inode_get_access_time :: "ext4_inode \<Rightarrow> u32" where
  "ext4_inode_get_access_time inode = in_access_time inode"

definition ext4_inode_set_access_time :: "ext4_inode \<Rightarrow> u32 \<Rightarrow> ext4_inode" where
  "ext4_inode_set_access_time inode v = inode\<lparr>in_access_time := v\<rparr>"

definition ext4_inode_get_change_inode_time :: "ext4_inode \<Rightarrow> u32" where
  "ext4_inode_get_change_inode_time inode = in_change_inode_time inode"

definition ext4_inode_set_change_inode_time :: "ext4_inode \<Rightarrow> u32 \<Rightarrow> ext4_inode" where
  "ext4_inode_set_change_inode_time inode v = inode\<lparr>in_change_inode_time := v\<rparr>"

definition ext4_inode_get_modif_time :: "ext4_inode \<Rightarrow> u32" where
  "ext4_inode_get_modif_time inode = in_modification_time inode"

definition ext4_inode_set_modif_time :: "ext4_inode \<Rightarrow> u32 \<Rightarrow> ext4_inode" where
  "ext4_inode_set_modif_time inode v = inode\<lparr>in_modification_time := v\<rparr>"

definition ext4_inode_get_del_time :: "ext4_inode \<Rightarrow> u32" where
  "ext4_inode_get_del_time inode = in_deletion_time inode"

definition ext4_inode_set_del_time :: "ext4_inode \<Rightarrow> u32 \<Rightarrow> ext4_inode" where
  "ext4_inode_set_del_time inode v = inode\<lparr>in_deletion_time := v\<rparr>"

definition ext4_inode_get_gid :: "ext4_inode \<Rightarrow> u32" where
  "ext4_inode_get_gid inode = ucast (in_gid inode)"

definition ext4_inode_set_gid :: "ext4_inode \<Rightarrow> u32 \<Rightarrow> ext4_inode" where
  "ext4_inode_set_gid inode v = inode\<lparr>in_gid := ucast v\<rparr>"

definition ext4_inode_get_links_cnt :: "ext4_inode \<Rightarrow> u16" where
  "ext4_inode_get_links_cnt inode = in_links_count inode"

definition ext4_inode_set_links_cnt :: "ext4_inode \<Rightarrow> u16 \<Rightarrow> ext4_inode" where
  "ext4_inode_set_links_cnt inode v = inode\<lparr>in_links_count := v\<rparr>"

definition ext4_inode_get_flags :: "ext4_inode \<Rightarrow> u32" where
  "ext4_inode_get_flags inode = in_flags inode"

definition ext4_inode_set_flags :: "ext4_inode \<Rightarrow> u32 \<Rightarrow> ext4_inode" where
  "ext4_inode_set_flags inode v = inode\<lparr>in_flags := v\<rparr>"

definition ext4_inode_get_generation :: "ext4_inode \<Rightarrow> u32" where
  "ext4_inode_get_generation inode = in_generation inode"

definition ext4_inode_set_generation :: "ext4_inode \<Rightarrow> u32 \<Rightarrow> ext4_inode" where
  "ext4_inode_set_generation inode v = inode\<lparr>in_generation := v\<rparr>"

section \<open>Mode, type, flags\<close>

definition ext4_inode_get_mode :: "ext4_sblock \<Rightarrow> ext4_inode \<Rightarrow> u32" where
  "ext4_inode_get_mode sb inode =
     (let v = ucast (in_mode inode)
      in if sb_creator_os sb = EXT4_SUPERBLOCK_OS_HURD
         then v OR push_bit 16 (ucast (in_file_acl_high inode)) else v)"

definition ext4_inode_set_mode :: "ext4_sblock \<Rightarrow> ext4_inode \<Rightarrow> u32 \<Rightarrow> ext4_inode" where
  "ext4_inode_set_mode sb inode mode =
     (let inode = inode\<lparr>in_mode := ucast (drop_bit 16 (push_bit 16 mode))\<rparr>
      in if sb_creator_os sb = EXT4_SUPERBLOCK_OS_HURD
         then inode\<lparr>in_file_acl_high := ucast (drop_bit 16 mode)\<rparr> else inode)"

definition ext4_inode_type :: "ext4_sblock \<Rightarrow> ext4_inode \<Rightarrow> u32" where
  "ext4_inode_type sb inode = ext4_inode_get_mode sb inode AND EXT4_INODE_MODE_TYPE_MASK"

definition ext4_inode_is_type :: "ext4_sblock \<Rightarrow> ext4_inode \<Rightarrow> u32 \<Rightarrow> bool" where
  "ext4_inode_is_type sb inode type = (ext4_inode_type sb inode = type)"

definition ext4_inode_has_flag :: "ext4_inode \<Rightarrow> u32 \<Rightarrow> bool" where
  "ext4_inode_has_flag inode f = (ext4_inode_get_flags inode AND f \<noteq> 0)"

definition ext4_inode_clear_flag :: "ext4_inode \<Rightarrow> u32 \<Rightarrow> ext4_inode" where
  "ext4_inode_clear_flag inode f =
     (let flags = ext4_inode_get_flags inode; flags = flags AND NOT f
      in ext4_inode_set_flags inode flags)"

definition ext4_inode_set_flag :: "ext4_inode \<Rightarrow> u32 \<Rightarrow> ext4_inode" where
  "ext4_inode_set_flag inode f =
     (let flags = ext4_inode_get_flags inode; flags = flags OR f
      in ext4_inode_set_flags inode flags)"

definition ext4_inode_can_truncate :: "ext4_sblock \<Rightarrow> ext4_inode \<Rightarrow> bool" where
  "ext4_inode_can_truncate sb inode =
     (if ext4_inode_has_flag inode EXT4_INODE_FLAG_APPEND \<or>
         ext4_inode_has_flag inode EXT4_INODE_FLAG_IMMUTABLE then False
      else if ext4_inode_is_type sb inode EXT4_INODE_MODE_FILE \<or>
         ext4_inode_is_type sb inode EXT4_INODE_MODE_DIRECTORY \<or>
         ext4_inode_is_type sb inode EXT4_INODE_MODE_SOFTLINK then True
      else False)"

section \<open>Sizes, checksum, counts kept in halves\<close>

definition ext4_inode_get_size :: "ext4_sblock \<Rightarrow> ext4_inode \<Rightarrow> u64" where
  "ext4_inode_get_size sb inode =
     (let v = ucast (in_size_lo inode)
      in if sb_rev_level sb > 0 \<and> ext4_inode_is_type sb inode EXT4_INODE_MODE_FILE
         then v OR push_bit 32 (ucast (in_size_hi inode)) else v)"

definition ext4_inode_set_size :: "ext4_inode \<Rightarrow> u64 \<Rightarrow> ext4_inode" where
  "ext4_inode_set_size inode sz =
     inode\<lparr>in_size_lo := ucast (drop_bit 32 (push_bit 32 sz)),
           in_size_hi := ucast (drop_bit 32 sz)\<rparr>"

definition ext4_inode_get_csum :: "ext4_sblock \<Rightarrow> ext4_inode \<Rightarrow> u32" where
  "ext4_inode_get_csum sb inode =
     (let inode_size = sb_inode_size sb; v = ucast (in_checksum_lo inode)
      in if inode_size > EXT4_GOOD_OLD_INODE_SIZE
         then v OR push_bit 16 (ucast (in_checksum_hi inode)) else v)"

definition ext4_inode_set_csum :: "ext4_sblock \<Rightarrow> ext4_inode \<Rightarrow> u32 \<Rightarrow> ext4_inode" where
  "ext4_inode_set_csum sb inode checksum =
     (let inode_size = sb_inode_size sb;
          inode = inode\<lparr>in_checksum_lo := ucast (drop_bit 16 (push_bit 16 checksum))\<rparr>
      in if inode_size > EXT4_GOOD_OLD_INODE_SIZE
         then inode\<lparr>in_checksum_hi := ucast (drop_bit 16 checksum)\<rparr> else inode)"

function block_bits_loop :: "u32 \<Rightarrow> u32 \<Rightarrow> u32" where
  "block_bits_loop bits sz =
     (let bits = bits + 1; sz = drop_bit 1 sz
      in if sz > 256 then block_bits_loop bits sz else bits)"
  by pat_completeness auto
termination
proof (relation "measure (\<lambda>(bits, sz). unat sz)")
  fix bits sz b' s' :: u32
  assume "b' = bits + 1" "s' = drop_bit 1 sz" "256 < s'"
  then have "unat s' = unat sz div 2" "0 < unat s'"
    by (simp_all only: unat_drop_bit word_less_nat_alt) simp_all
  then show "((b', s'), bits, sz) \<in> measure (\<lambda>(bits, sz). unat sz)" by simp
qed simp

declare block_bits_loop.simps [simp del]

definition ext4_inode_block_bits_count :: "u32 \<Rightarrow> u32" where
  "ext4_inode_block_bits_count block_size = block_bits_loop 8 block_size"

definition ext4_inode_get_blocks_count :: "ext4_sblock \<Rightarrow> ext4_inode \<Rightarrow> u64" where
  "ext4_inode_get_blocks_count sb inode =
     (let cnt = ucast (in_blocks_count_lo inode)
      in if ext4_sb_feature_ro_com sb EXT4_FRO_COM_HUGE_FILE
         then (let cnt = cnt OR push_bit 32 (ucast (in_blocks_high inode))
               in if ext4_inode_has_flag inode EXT4_INODE_FLAG_HUGE_FILE
                  then (let block_count = ext4_sb_get_block_size sb;
                            b = ext4_inode_block_bits_count block_count
                        in push_bit (unat (b - 9)) cnt)
                  else cnt)
         else cnt)"

definition ext4_inode_set_blocks_count ::
    "ext4_sblock \<Rightarrow> ext4_inode \<Rightarrow> u64 \<Rightarrow> errno \<times> ext4_inode" where
  "ext4_inode_set_blocks_count sb inode count =
     (let max = drop_bit 32 (NOT 0)
      in if count \<le> max
         then (let inode = inode\<lparr>in_blocks_count_lo := ucast count\<rparr>;
                   inode = inode\<lparr>in_blocks_high := 0\<rparr>;
                   inode = ext4_inode_clear_flag inode EXT4_INODE_FLAG_HUGE_FILE
               in (EOK, inode))
         else if \<not> ext4_sb_feature_ro_com sb EXT4_FRO_COM_HUGE_FILE then (EINVAL, inode)
         else
           (let max = drop_bit 16 (NOT 0)
            in if count \<le> max
               then (let inode = inode\<lparr>in_blocks_count_lo := ucast count\<rparr>;
                         inode = inode\<lparr>in_blocks_high := ucast (drop_bit 32 count)\<rparr>;
                         inode = ext4_inode_clear_flag inode EXT4_INODE_FLAG_HUGE_FILE
                     in (EOK, inode))
               else (let block_count = ext4_sb_get_block_size sb;
                         block_bits = ext4_inode_block_bits_count block_count;
                         inode = ext4_inode_set_flag inode EXT4_INODE_FLAG_HUGE_FILE;
                         count = drop_bit (unat (block_bits - 9)) count;
                         inode = inode\<lparr>in_blocks_count_lo := ucast count\<rparr>;
                         inode = inode\<lparr>in_blocks_high := ucast (drop_bit 32 count)\<rparr>
                     in (EOK, inode))))"

definition ext4_inode_get_extra_isize :: "ext4_sblock \<Rightarrow> ext4_inode \<Rightarrow> u16" where
  "ext4_inode_get_extra_isize sb inode =
     (let inode_size = sb_inode_size sb
      in if inode_size > EXT4_GOOD_OLD_INODE_SIZE then in_extra_isize inode else 0)"

definition ext4_inode_set_extra_isize :: "ext4_sblock \<Rightarrow> ext4_inode \<Rightarrow> u16 \<Rightarrow> ext4_inode" where
  "ext4_inode_set_extra_isize sb inode sz =
     (let inode_size = sb_inode_size sb
      in if inode_size > EXT4_GOOD_OLD_INODE_SIZE then inode\<lparr>in_extra_isize := sz\<rparr> else inode)"

section \<open>Attribute block, block map, device number\<close>

definition ext4_inode_get_file_acl :: "ext4_inode \<Rightarrow> ext4_sblock \<Rightarrow> u64" where
  "ext4_inode_get_file_acl inode sb =
     (let v = ucast (in_file_acl_lo inode)
      in if sb_creator_os sb = EXT4_SUPERBLOCK_OS_LINUX
         then v OR ucast (push_bit 16 (ucast (in_file_acl_high inode)) :: u32) else v)"

definition ext4_inode_set_file_acl :: "ext4_inode \<Rightarrow> ext4_sblock \<Rightarrow> u64 \<Rightarrow> ext4_inode" where
  "ext4_inode_set_file_acl inode sb acl =
     (let inode = inode\<lparr>in_file_acl_lo := ucast (drop_bit 32 (push_bit 32 acl))\<rparr>
      in if sb_creator_os sb = EXT4_SUPERBLOCK_OS_LINUX
         then inode\<lparr>in_file_acl_high := ucast (drop_bit 32 acl)\<rparr> else inode)"

definition ext4_inode_get_direct_block :: "ext4_inode \<Rightarrow> u32 \<Rightarrow> u32" where
  "ext4_inode_get_direct_block inode idx = in_blocks inode ! unat idx"

definition ext4_inode_set_direct_block :: "ext4_inode \<Rightarrow> u32 \<Rightarrow> u32 \<Rightarrow> ext4_inode" where
  "ext4_inode_set_direct_block inode idx block =
     inode\<lparr>in_blocks := (in_blocks inode)[unat idx := block]\<rparr>"

definition ext4_inode_get_indirect_block :: "ext4_inode \<Rightarrow> u32 \<Rightarrow> u32" where
  "ext4_inode_get_indirect_block inode idx = in_blocks inode ! unat (idx + EXT4_INODE_INDIRECT_BLOCK)"

definition ext4_inode_set_indirect_block :: "ext4_inode \<Rightarrow> u32 \<Rightarrow> u32 \<Rightarrow> ext4_inode" where
  "ext4_inode_set_indirect_block inode idx block =
     inode\<lparr>in_blocks := (in_blocks inode)[unat (idx + EXT4_INODE_INDIRECT_BLOCK) := block]\<rparr>"

definition ext4_inode_get_dev :: "ext4_inode \<Rightarrow> u32" where
  "ext4_inode_get_dev inode =
     (let dev_0 = ext4_inode_get_direct_block inode 0;
          dev_1 = ext4_inode_get_direct_block inode 1
      in if dev_0 \<noteq> 0 then dev_0 else dev_1)"

definition ext4_inode_set_dev :: "ext4_inode \<Rightarrow> u32 \<Rightarrow> ext4_inode" where
  "ext4_inode_set_dev inode dev =
     (if dev AND NOT 0xFFFF \<noteq> 0 then ext4_inode_set_direct_block inode 1 dev
      else ext4_inode_set_direct_block inode 0 dev)"

section \<open>Lemmas\<close>

lemma block_bits_loop_power:
  "n < 32 \<Longrightarrow> 9 \<le> n \<Longrightarrow> block_bits_loop b (2 ^ n) = b + of_nat (n - 8)"
proof (induction n arbitrary: b)
  case (Suc n)
  have d: "drop_bit 1 (2 ^ Suc n :: u32) = 2 ^ n"
    using Suc.prems(1) by (intro bit_word_eqI) (auto simp: bit_simps)
  have u: "unat (2 ^ n :: u32) = 2 ^ n" 
  proof -
    have "(2 ^ n :: u32) = of_nat (2 ^ n)" by simp
    moreover have "(2::nat) ^ n < 2 ^ 32" using Suc.prems(1) by (intro power_strict_increasing) simp_all
    ultimately show ?thesis by (simp only: unat_of_nat) simp
  qed
  show ?case
  proof (cases "n = 8")
    case True
    then show ?thesis using d by (simp add: block_bits_loop.simps [of b] Let_def)
  next
    case False
    then have n: "9 \<le> n" using Suc.prems(2) by simp
    then have "(2::nat) ^ 9 \<le> 2 ^ n" by (intro power_increasing) simp_all
    then have gt: "(2 ^ n :: u32) > 256" by (simp add: word_less_nat_alt u)
    have "Suc n - 8 = Suc (n - 8)" using n by simp
    then show ?thesis
      using Suc.IH [of "b + 1"] Suc.prems(1) n gt d
      by (simp add: block_bits_loop.simps [of b "2 ^ Suc n"] Let_def del: power_Suc)
  qed
qed simp

lemma block_bits_count:
  assumes "sb_log_block_size sb \<le> 21"
  shows "unat (ext4_inode_block_bits_count (ext4_sb_get_block_size sb) - 9) =
    unat (sb_log_block_size sb) + 1"
proof -
  let ?l = "unat (sb_log_block_size sb)"
  have l: "?l \<le> 21" using assms by (simp add: word_le_nat_alt)
  have "push_bit ?l (1024 :: u32) = 2 ^ (10 + ?l)" by (simp add: push_bit_eq_mult power_add)
  then have "ext4_inode_block_bits_count (ext4_sb_get_block_size sb) = 8 + of_nat (10 + ?l - 8)"
    using l by (simp only: ext4_inode_block_bits_count_def ext4_sb_get_block_size_def)
      (rule block_bits_loop_power; simp)
  then have "ext4_inode_block_bits_count (ext4_sb_get_block_size sb) - 9 = of_nat (?l + 1)" by simp
  also have "unat \<dots> = ?l + 1" using l by (simp only: unat_of_nat) simp
  finally show ?thesis .
qed

lemma low_high_48:
  "ucast (ucast c :: u32) OR push_bit 32 (ucast (ucast (drop_bit 32 c) :: u16)) = (take_bit 48 c :: u64)"
  by (rule bit_word_eqI) (auto simp: bit_simps)

lemma take_bit_id_iff: "take_bit n (w :: 'a::len word) = w \<longleftrightarrow> unat w < 2 ^ n"
  by (simp only: word_unat_eq_iff unat_take_bit) (simp add: mod_eq_self_iff_div_eq_0 div_eq_0_iff)

lemma le_max_iff: "c \<le> drop_bit k (NOT 0 :: u64) \<longleftrightarrow> unat c < 2 ^ (64 - k)" if "k \<le> 64"
proof -
  have "drop_bit k (NOT 0 :: u64) = mask (64 - k)"
    by (rule bit_word_eqI) (use that in \<open>auto simp: bit_simps\<close>)
  then have "c \<le> drop_bit k (NOT 0 :: u64) \<longleftrightarrow> unat c \<le> unat (mask (64 - k) :: u64)"
    by (simp only: word_le_nat_alt)
  also have "unat (mask (64 - k) :: u64) = 2 ^ (64 - k) - 1"
    by (rule unat_mask) simp
  finally show ?thesis
    using one_le_power [of "2 :: nat" "64 - k"] by linarith
qed

lemma inode_flag_simps [simp]:
  "in_flags (ext4_inode_set_flag i f) = in_flags i OR f"
  "in_flags (ext4_inode_clear_flag i f) = in_flags i AND NOT f"
  "in_blocks_count_lo (ext4_inode_set_flag i f) = in_blocks_count_lo i"
  "in_blocks_high (ext4_inode_set_flag i f) = in_blocks_high i"
  "in_blocks_count_lo (ext4_inode_clear_flag i f) = in_blocks_count_lo i"
  "in_blocks_high (ext4_inode_clear_flag i f) = in_blocks_high i"
  by (simp_all add: ext4_inode_set_flag_def ext4_inode_clear_flag_def ext4_inode_set_flags_def
      ext4_inode_get_flags_def Let_def)

lemma has_huge_simps [simp]:
  "ext4_inode_has_flag (ext4_inode_set_flag i EXT4_INODE_FLAG_HUGE_FILE) EXT4_INODE_FLAG_HUGE_FILE"
  "\<not> ext4_inode_has_flag (ext4_inode_clear_flag i f) f"
proof -
  have "bit ((in_flags i OR 0x40000) AND 0x40000) 18" by (simp add: bit_simps)
  then have "(in_flags i OR 0x40000) AND 0x40000 \<noteq> 0" by (metis bit_0_eq bot_apply bot_bool_def)
  then show "ext4_inode_has_flag (ext4_inode_set_flag i EXT4_INODE_FLAG_HUGE_FILE) EXT4_INODE_FLAG_HUGE_FILE"
    by (simp add: ext4_inode_has_flag_def ext4_inode_get_flags_def EXT4_INODE_FLAG_HUGE_FILE_def)
  have "(in_flags i AND NOT f) AND f = 0" by (rule bit_word_eqI) (auto simp: bit_simps)
  then show "\<not> ext4_inode_has_flag (ext4_inode_clear_flag i f) f"
    by (simp add: ext4_inode_has_flag_def ext4_inode_get_flags_def)
qed

lemma has_flag_update [simp]:
  "ext4_inode_has_flag (i\<lparr>in_blocks_count_lo := a\<rparr>) f = ext4_inode_has_flag i f"
  "ext4_inode_has_flag (i\<lparr>in_blocks_high := b\<rparr>) f = ext4_inode_has_flag i f"
  by (simp_all add: ext4_inode_has_flag_def ext4_inode_get_flags_def)

section \<open>Properties\<close>

text \<open>
  The block count of an inode (in 512-byte units). The setter fails with \<open>EINVAL\<close>, leaving
  the inode alone, exactly when the count needs more than 32 bits and the file system lacks
  \<open>huge_file\<close>. Otherwise the getter returns the count, up to \<open>2 ^ 48 - 1\<close> units; beyond that
  the count is kept in file system blocks, so it comes back rounded down to whole blocks (and
  cut to 48 bits of blocks).
\<close>

theorem inode_blocks_count_roundtrip:
  assumes "sb_log_block_size sb \<le> 21"
  shows "case ext4_inode_set_blocks_count sb inode count of
      (e, inode') \<Rightarrow>
        (if 2 ^ 32 \<le> unat count \<and> \<not> ext4_sb_feature_ro_com sb EXT4_FRO_COM_HUGE_FILE
         then e = EINVAL \<and> inode' = inode
         else e = EOK \<and>
           ext4_inode_get_blocks_count sb inode' =
             (if unat count < 2 ^ 48 then count
              else (let k = unat (sb_log_block_size sb) + 1
                    in push_bit k (take_bit 48 (drop_bit k count)))))"
proof -
  have m32: "count \<le> drop_bit 32 (NOT 0) \<longleftrightarrow> unat count < 2 ^ 32"
    and m48: "count \<le> drop_bit 16 (NOT 0) \<longleftrightarrow> unat count < 2 ^ 48"
    using le_max_iff [of 32 count] le_max_iff [of 16 count] by simp_all
  note bits = block_bits_count [OF assms]
  consider "unat count < 2 ^ 32"
    | "2 ^ 32 \<le> unat count" "\<not> ext4_sb_feature_ro_com sb EXT4_FRO_COM_HUGE_FILE"
    | "2 ^ 32 \<le> unat count" "unat count < 2 ^ 48" "ext4_sb_feature_ro_com sb EXT4_FRO_COM_HUGE_FILE"
    | "2 ^ 48 \<le> unat count" "ext4_sb_feature_ro_com sb EXT4_FRO_COM_HUGE_FILE"
    by linarith
  then show ?thesis
  proof cases
    case 1
    then have "take_bit 32 count = count" "unat count < 2 ^ 48" by (simp_all add: take_bit_id_iff)
    moreover have "ucast (ucast count :: u32) = take_bit 32 count"
      by (rule bit_word_eqI) (auto simp: bit_simps)
    ultimately show ?thesis
      using 1 m32
      by (simp add: ext4_inode_set_blocks_count_def ext4_inode_get_blocks_count_def Let_def)
  next
    case 2
    then show ?thesis using m32 by (simp add: ext4_inode_set_blocks_count_def Let_def)
  next
    case 3
    then have "take_bit 48 count = count" by (simp add: take_bit_id_iff)
    with 3 low_high_48 [of count] show ?thesis
      using m32 m48
      by (simp add: ext4_inode_set_blocks_count_def ext4_inode_get_blocks_count_def Let_def)
  next
    case 4
    then have "\<not> unat count < 2 ^ 32" "\<not> unat count < 2 ^ 48" by simp_all
    moreover define k where "k = unat (ext4_inode_block_bits_count (ext4_sb_get_block_size sb) - 9)"
    ultimately have "fst (ext4_inode_set_blocks_count sb inode count) = EOK \<and>
      ext4_inode_get_blocks_count sb (snd (ext4_inode_set_blocks_count sb inode count)) =
        push_bit k (take_bit 48 (drop_bit k count))"
      unfolding ext4_inode_set_blocks_count_def ext4_inode_get_blocks_count_def Let_def
        k_def [symmetric] m32 m48
      using 4(2) low_high_48 [of "drop_bit k count"] by simp
    with 4 show ?thesis
      by (cases "ext4_inode_set_blocks_count sb inode count") (simp add: k_def bits)
  qed
qed

lemma inode_blocks_count_roundtrip_witness:
  "fst (ext4_inode_set_blocks_count (ext4_sblock_of (replicate 1024 0))
      (ext4_inode_of (replicate 156 0)) (2 ^ 40)) = EINVAL"
proof -
  have "sb_log_block_size (ext4_sblock_of (replicate 1024 0)) \<le> 21"
    "\<not> ext4_sb_feature_ro_com (ext4_sblock_of (replicate 1024 0)) EXT4_FRO_COM_HUGE_FILE"
    by (simp_all add: ext4_sblock_of_def ext4_sb_feature_ro_com_def)
  with inode_blocks_count_roundtrip [where sb = "ext4_sblock_of (replicate 1024 0)"
      and inode = "ext4_inode_of (replicate 156 0)" and count = "2 ^ 40"]
  show ?thesis by (auto split: prod.splits)
qed

text \<open>
  The attribute block number does not survive above 32 bits. On a Linux file system the
  setter stores bits 32 to 47 in \<open>file_acl_high\<close>, but the getter shifts that half by 16
  instead of 32, over the low word: what is read is the low word or-ed with the high half
  moved to bit 16, so a number is read back exactly when it is below \<open>2 ^ 32\<close>.
\<close>

theorem inode_file_acl_misread:
  assumes "sb_creator_os sb = EXT4_SUPERBLOCK_OS_LINUX"
  shows "ext4_inode_get_file_acl (ext4_inode_set_file_acl inode sb acl) sb =
      take_bit 32 acl OR push_bit 16 (take_bit 16 (drop_bit 32 acl)) \<and>
    (ext4_inode_get_file_acl (ext4_inode_set_file_acl inode sb acl) sb = acl \<longleftrightarrow> unat acl < 2 ^ 32)"
proof -
  have get: "ext4_inode_get_file_acl (ext4_inode_set_file_acl inode sb acl) sb =
      take_bit 32 acl OR push_bit 16 (take_bit 16 (drop_bit 32 acl))"
    unfolding ext4_inode_get_file_acl_def ext4_inode_set_file_acl_def Let_def
    by (simp only: assms if_True ext4_inode.simps) (rule bit_word_eqI, auto simp: bit_simps)
  have "take_bit 32 acl OR push_bit 16 (take_bit 16 (drop_bit 32 acl)) = acl \<longleftrightarrow> unat acl < 2 ^ 32"
  proof
    assume eq: "take_bit 32 acl OR push_bit 16 (take_bit 16 (drop_bit 32 acl)) = acl"
    have "take_bit 32 (take_bit 32 acl OR push_bit 16 (take_bit 16 (drop_bit 32 acl))) =
        take_bit 32 acl OR push_bit 16 (take_bit 16 (drop_bit 32 acl))"
      by (rule bit_word_eqI) (auto simp: bit_simps)
    then have "take_bit 32 acl = acl" by (simp only: eq)
    then show "unat acl < 2 ^ 32" by (simp only: take_bit_id_iff)
  next
    assume "unat acl < 2 ^ 32"
    then have id: "take_bit 32 acl = acl" by (simp only: take_bit_id_iff)
    have "take_bit 16 (drop_bit 32 (take_bit 32 acl)) = 0"
      by (rule bit_word_eqI) (auto simp: bit_simps)
    then show "take_bit 32 acl OR push_bit 16 (take_bit 16 (drop_bit 32 acl)) = acl"
      by (simp only: id) simp
  qed
  with get show ?thesis by simp
qed

lemma inode_file_acl_misread_witness:
  "ext4_inode_get_file_acl (ext4_inode_set_file_acl (ext4_inode_of (replicate 156 0))
      (ext4_sblock_of (replicate 1024 0)) 0x100000000) (ext4_sblock_of (replicate 1024 0)) = 0x10000"
  using inode_file_acl_misread [where sb = "ext4_sblock_of (replicate 1024 0)" and acl = "0x100000000"
      and inode = "ext4_inode_of (replicate 156 0)"]
  by (simp add: ext4_sblock_of_def EXT4_SUPERBLOCK_OS_LINUX_def)

text \<open>
  The device number of a device inode. A number of more than 16 bits goes to
  \<open>blocks[1]\<close>, a smaller one to \<open>blocks[0]\<close>; the other word is not cleared. A small non-zero
  number is always read back, a large one exactly when \<open>blocks[0]\<close> was zero (or equal) before.
\<close>

theorem inode_dev_roundtrip:
  assumes "ext4_inode_wf inode"
  shows "ext4_inode_get_dev (ext4_inode_set_dev inode dev) =
    (if dev AND NOT 0xFFFF \<noteq> 0
     then (if in_blocks inode ! 0 \<noteq> 0 then in_blocks inode ! 0 else dev)
     else if dev \<noteq> 0 then dev else in_blocks inode ! 1)"
  using assms
  by (auto simp: ext4_inode_wf_def ext4_inode_get_dev_def ext4_inode_set_dev_def Let_def
      ext4_inode_get_direct_block_def ext4_inode_set_direct_block_def)

lemma inode_dev_roundtrip_witness:
  "ext4_inode_get_dev (ext4_inode_set_dev (ext4_inode_of (replicate 156 0)) 0x801) = 0x801"
  using inode_dev_roundtrip [where inode = "ext4_inode_of (replicate 156 0)" and dev = "0x801"] by simp

text \<open>
  Mode, size and checksum of an inode are read back as set: the mode in full on a Hurd
  file system and its low 16 bits elsewhere, the size in full for a regular file of a
  revision 1 file system and its low 32 bits otherwise, the checksum in full with large
  inodes; user and group ids keep only 16 bits; and the byte image determines the inode.
\<close>

theorem inode_fields_roundtrip:
  assumes "ext4_inode_wf inode"
  shows "ext4_inode_get_mode sb (ext4_inode_set_mode sb inode mode) =
      (if sb_creator_os sb = EXT4_SUPERBLOCK_OS_HURD then mode else take_bit 16 mode) \<and>
    ext4_inode_get_size sb (ext4_inode_set_size inode sz) =
      (if sb_rev_level sb > 0 \<and> ext4_inode_is_type sb inode EXT4_INODE_MODE_FILE
       then sz else take_bit 32 sz) \<and>
    ext4_inode_get_csum sb (ext4_inode_set_csum sb inode c) =
      (if sb_inode_size sb > EXT4_GOOD_OLD_INODE_SIZE then c else take_bit 16 c) \<and>
    ext4_inode_get_uid (ext4_inode_set_uid inode i) = take_bit 16 i \<and>
    ext4_inode_get_gid (ext4_inode_set_gid inode i) = take_bit 16 i \<and>
    ext4_inode_of (ext4_inode_bytes inode) = inode"
proof -
  have w16: "ucast (ucast v :: u16) = (take_bit 16 v :: u32)" for v
    by (rule bit_word_eqI) (auto simp: bit_simps)
  have join16: "take_bit 16 (drop_bit 16 (push_bit 16 v)) = (take_bit 16 v :: u32)"
    "take_bit 16 v OR push_bit 16 (take_bit 16 (drop_bit 16 v)) = v" for v :: u32
    by (rule bit_word_eqI; auto simp: bit_simps)+
  have join32: "take_bit 32 (drop_bit 32 (push_bit 32 v)) = (take_bit 32 v :: u64)"
    "ucast (ucast (drop_bit 32 (push_bit 32 v)) :: u32) OR push_bit 32 (ucast (ucast (drop_bit 32 v) :: u32)) = v"
    "ucast (ucast (drop_bit 32 (push_bit 32 v)) :: u32) = take_bit 32 v" for v :: u64
    by (rule bit_word_eqI; auto simp: bit_simps)+
  have type: "ext4_inode_is_type sb (ext4_inode_set_size inode sz) t = ext4_inode_is_type sb inode t" for t
    by (simp add: ext4_inode_is_type_def ext4_inode_type_def ext4_inode_get_mode_def ext4_inode_set_size_def
        Let_def)
  show ?thesis
    using assms
    by (simp add: type ext4_inode_get_mode_def ext4_inode_set_mode_def ext4_inode_get_size_def
        ext4_inode_get_csum_def ext4_inode_set_csum_def ext4_inode_get_uid_def
        ext4_inode_set_uid_def ext4_inode_get_gid_def ext4_inode_set_gid_def
        Let_def w16 join16 inode_of_bytes)
      (simp add: ext4_inode_set_size_def join32 wide64 wide_join)
qed

lemma inode_fields_roundtrip_witness:
  "ext4_inode_get_uid (ext4_inode_set_uid (ext4_inode_of (replicate 156 0)) 70000) = 4464"
  using inode_fields_roundtrip [where inode = "ext4_inode_of (replicate 156 0)" and i = 70000]
  by simp

end
