(* ===== verification/Bcache.thy ===== *)
theory Bcache
  imports Prelude
begin

text \<open>
  The block cache of \<open>include/ext4_bcache.h\<close> and \<open>src/ext4_bcache.c\<close>: buffers, the tree of all
  buffers by block address, the tree of unreferenced buffers by LRU id, and the list of dirty
  buffers. The operations that do no I/O are here; \<open>ext4_bcache_free\<close> and
  \<open>ext4_bcache_cleanup\<close>, which write buffers out, are in \<open>Blockdev\<close>.

  A live buffer is identified by its block address (at most one buffer of the tree has a given
  address), so a pointer to a buffer is that address and \<open>bc_bufs\<close> is the store it points
  into. A red-black tree is the list of its elements in order: \<open>RB_FIND\<close> looks an element up,
  \<open>RB_INSERT\<close> does nothing when an equal key is present, \<open>RB_MIN\<close> is the head. The \<open>flags\<close>
  word is the set of the enumeration's bits that are on. \<open>malloc\<close> may fail and hands out
  memory with arbitrary contents: \<open>heap_ok n\<close> and \<open>heap_junk n\<close> describe the \<open>n\<close>-th allocation.
\<close>

section \<open>Data\<close>

datatype bcache_state_bits = BC_UPTODATE | BC_DIRTY | BC_FLUSH | BC_TMP

text \<open>
  \<open>end_write\<close> is a function pointer that only the journal sets; it is kept as the number of
  the routine with its argument.
\<close>

record ext4_buf =
  buf_flags :: "bcache_state_bits set"
  buf_lba :: u64
  buf_data :: bytes
  buf_lru_prio :: u32
  buf_lru_id :: u32
  buf_refctr :: u32
  buf_on_dirty_list :: bool
  buf_end_write :: "nat option"
  buf_end_write_arg :: nat

record ext4_bcache =
  bc_cnt :: u32
  bc_itemsize :: u32
  bc_lru_ctr :: u32
  bc_ref_blocks :: u32
  bc_max_ref_blocks :: u32
  bc_dont_shake :: bool
  bc_lba_root :: "u64 list"
  bc_lru_root :: "u64 list"
  bc_dirty_list :: "u64 list"
  bc_bufs :: "u64 \<Rightarrow> ext4_buf option"
  heap_next :: nat
  heap_ok :: "nat \<Rightarrow> bool"
  heap_junk :: "nat \<Rightarrow> nat \<Rightarrow> u8"

text \<open>A block reference held by a client; \<open>blk_data\<close> tells whether \<open>data\<close> is set (to \<open>buf->data\<close>).\<close>

record ext4_block =
  blk_lb_id :: u64
  blk_buf :: "u64 option"
  blk_data :: bool

definition EXT4_BLOCK_ZERO :: ext4_block where
  "EXT4_BLOCK_ZERO = \<lparr>blk_lb_id = 0, blk_buf = None, blk_data = False\<rparr>"

section \<open>Flags and the dirty list\<close>

definition ext4_bcache_set_flag :: "ext4_buf \<Rightarrow> bcache_state_bits \<Rightarrow> ext4_buf" where
  "ext4_bcache_set_flag buf b = buf\<lparr>buf_flags := insert b (buf_flags buf)\<rparr>"

definition ext4_bcache_clear_flag :: "ext4_buf \<Rightarrow> bcache_state_bits \<Rightarrow> ext4_buf" where
  "ext4_bcache_clear_flag buf b = buf\<lparr>buf_flags := buf_flags buf - {b}\<rparr>"

definition ext4_bcache_test_flag :: "ext4_buf \<Rightarrow> bcache_state_bits \<Rightarrow> bool" where
  "ext4_bcache_test_flag buf b = (b \<in> buf_flags buf)"

definition ext4_bcache_set_dirty :: "ext4_buf \<Rightarrow> ext4_buf" where
  "ext4_bcache_set_dirty buf =
     ext4_bcache_set_flag (ext4_bcache_set_flag buf BC_UPTODATE) BC_DIRTY"

definition ext4_bcache_clear_dirty :: "ext4_buf \<Rightarrow> ext4_buf" where
  "ext4_bcache_clear_dirty buf =
     ext4_bcache_clear_flag (ext4_bcache_clear_flag buf BC_UPTODATE) BC_DIRTY"

text \<open>The buffer a pointer points to, and an update through the pointer.\<close>

definition buf_at :: "ext4_bcache \<Rightarrow> u64 \<Rightarrow> ext4_buf" where
  "buf_at bc l = the (bc_bufs bc l)"

definition upd_buf :: "u64 \<Rightarrow> (ext4_buf \<Rightarrow> ext4_buf) \<Rightarrow> ext4_bcache \<Rightarrow> ext4_bcache" where
  "upd_buf l f bc = bc\<lparr>bc_bufs := (bc_bufs bc)(l \<mapsto> f (buf_at bc l))\<rparr>"

definition ext4_bcache_inc_ref :: "ext4_buf \<Rightarrow> ext4_buf" where
  "ext4_bcache_inc_ref buf = buf\<lparr>buf_refctr := buf_refctr buf + 1\<rparr>"

definition ext4_bcache_dec_ref :: "ext4_buf \<Rightarrow> ext4_buf" where
  "ext4_bcache_dec_ref buf = buf\<lparr>buf_refctr := buf_refctr buf - 1\<rparr>"

definition ext4_bcache_insert_dirty_node :: "ext4_bcache \<Rightarrow> u64 \<Rightarrow> ext4_bcache" where
  "ext4_bcache_insert_dirty_node bc buf =
     (if \<not> buf_on_dirty_list (buf_at bc buf)
      then upd_buf buf (\<lambda>b. b\<lparr>buf_on_dirty_list := True\<rparr>)
             (bc\<lparr>bc_dirty_list := buf # bc_dirty_list bc\<rparr>)
      else bc)"

definition ext4_bcache_remove_dirty_node :: "ext4_bcache \<Rightarrow> u64 \<Rightarrow> ext4_bcache" where
  "ext4_bcache_remove_dirty_node bc buf =
     (if buf_on_dirty_list (buf_at bc buf)
      then upd_buf buf (\<lambda>b. b\<lparr>buf_on_dirty_list := False\<rparr>)
             (bc\<lparr>bc_dirty_list := remove1 buf (bc_dirty_list bc)\<rparr>)
      else bc)"

section \<open>The trees\<close>

fun rb_insert_lba :: "u64 \<Rightarrow> u64 list \<Rightarrow> u64 list" where
  "rb_insert_lba l [] = [l]"
| "rb_insert_lba l (x # xs) =
     (if l < x then l # x # xs else if l = x then x # xs else x # rb_insert_lba l xs)"

fun rb_insert_lru :: "(u64 \<Rightarrow> u32) \<Rightarrow> u64 \<Rightarrow> u64 list \<Rightarrow> u64 list" where
  "rb_insert_lru key l [] = [l]"
| "rb_insert_lru key l (x # xs) =
     (if key l < key x then l # x # xs
      else if key l = key x then x # xs else x # rb_insert_lru key l xs)"

text \<open>A removal unlinks the node it is given.\<close>

definition rb_remove :: "u64 \<Rightarrow> u64 list \<Rightarrow> u64 list" where
  "rb_remove l xs = remove1 l xs"

definition ext4_buf_lookup :: "ext4_bcache \<Rightarrow> u64 \<Rightarrow> u64 option" where
  "ext4_buf_lookup bc lba = (if lba \<in> set (bc_lba_root bc) then Some lba else None)"

definition ext4_buf_lowest_lru :: "ext4_bcache \<Rightarrow> u64 option" where
  "ext4_buf_lowest_lru bc = (case bc_lru_root bc of [] \<Rightarrow> None | l # _ \<Rightarrow> Some l)"

section \<open>Operations\<close>

text \<open>\<open>ext4_assert (bc && cnt && itemsize)\<close>; the result is the cache with every other field zero.\<close>

definition ext4_bcache_init_dynamic ::
    "ext4_bcache \<Rightarrow> u32 \<Rightarrow> u32 \<Rightarrow> (errno \<times> ext4_bcache) option" where
  "ext4_bcache_init_dynamic bc cnt itemsize =
     (if cnt = 0 \<or> itemsize = 0 then None
      else Some (EOK, bc\<lparr>bc_cnt := cnt, bc_itemsize := itemsize, bc_lru_ctr := 0,
        bc_ref_blocks := 0, bc_max_ref_blocks := 0, bc_dont_shake := False,
        bc_lba_root := [], bc_lru_root := [], bc_dirty_list := [], bc_bufs := \<lambda>_. None\<rparr>))"

definition ext4_bcache_fini_dynamic :: "ext4_bcache \<Rightarrow> errno \<times> ext4_bcache" where
  "ext4_bcache_fini_dynamic bc =
     (EOK, bc\<lparr>bc_cnt := 0, bc_itemsize := 0, bc_lru_ctr := 0,
        bc_ref_blocks := 0, bc_max_ref_blocks := 0, bc_dont_shake := False,
        bc_lba_root := [], bc_lru_root := [], bc_dirty_list := [], bc_bufs := \<lambda>_. None\<rparr>)"

text \<open>
  Two allocations: the data area and the descriptor. The result is the new buffer, which is
  not yet in the tree.
\<close>

definition ext4_buf_alloc :: "ext4_bcache \<Rightarrow> u64 \<Rightarrow> ext4_buf option \<times> ext4_bcache" where
  "ext4_buf_alloc bc lba =
     (let n = heap_next bc; bc = bc\<lparr>heap_next := n + 1\<rparr>
      in if \<not> heap_ok bc n then (None, bc)
         else (let m = n + 1; bc = bc\<lparr>heap_next := m + 1\<rparr>
               in if \<not> heap_ok bc m then (None, bc)
                  else (Some \<lparr>buf_flags = {}, buf_lba = lba,
                          buf_data = map (heap_junk bc n) [0..<unat (bc_itemsize bc)],
                          buf_lru_prio = 0, buf_lru_id = 0, buf_refctr = 0,
                          buf_on_dirty_list = False, buf_end_write = None,
                          buf_end_write_arg = 0\<rparr>, bc)))"

definition ext4_bcache_drop_buf :: "ext4_bcache \<Rightarrow> u64 \<Rightarrow> ext4_bcache" where
  "ext4_bcache_drop_buf bc buf =
     (let bc = (if buf_refctr (buf_at bc buf) \<noteq> 0 then bc
                else bc\<lparr>bc_lru_root := rb_remove buf (bc_lru_root bc)\<rparr>);
          bc = bc\<lparr>bc_lba_root := rb_remove buf (bc_lba_root bc)\<rparr>;
          bc = (if ext4_bcache_test_flag (buf_at bc buf) BC_DIRTY
                then ext4_bcache_remove_dirty_node bc buf else bc);
          bc = bc\<lparr>bc_bufs := (bc_bufs bc)(buf := None)\<rparr>
      in bc\<lparr>bc_ref_blocks := bc_ref_blocks bc - 1\<rparr>)"

definition ext4_bcache_invalidate_buf :: "ext4_bcache \<Rightarrow> u64 \<Rightarrow> ext4_bcache" where
  "ext4_bcache_invalidate_buf bc buf =
     (let bc = upd_buf buf (\<lambda>b. b\<lparr>buf_end_write := None, buf_end_write_arg := 0\<rparr>) bc;
          bc = (if ext4_bcache_test_flag (buf_at bc buf) BC_DIRTY
                then ext4_bcache_remove_dirty_node bc buf else bc)
      in upd_buf buf ext4_bcache_clear_dirty bc)"

text \<open>
  \<open>RB_FOREACH_FROM\<close> walks the tree upwards from the node found, and not at all when the
  lookup of \<open>from\<close> found nothing.
\<close>

fun invalidate_loop :: "u64 \<Rightarrow> u64 list \<Rightarrow> ext4_bcache \<Rightarrow> ext4_bcache" where
  "invalidate_loop last_lba [] bc = bc"
| "invalidate_loop last_lba (buf # bufs) bc =
     (if buf_lba (buf_at bc buf) > last_lba then bc
      else invalidate_loop last_lba bufs (ext4_bcache_invalidate_buf bc buf))"

definition ext4_bcache_invalidate_lba :: "ext4_bcache \<Rightarrow> u64 \<Rightarrow> u32 \<Rightarrow> ext4_bcache" where
  "ext4_bcache_invalidate_lba bc from cnt =
     (let last_lba = from + ucast cnt - 1
      in case ext4_buf_lookup bc from of
           None \<Rightarrow> bc
         | Some tmp \<Rightarrow> invalidate_loop last_lba (dropWhile (\<lambda>x. x \<noteq> tmp) (bc_lba_root bc)) bc)"

definition ext4_bcache_find_get ::
    "ext4_bcache \<Rightarrow> ext4_block \<Rightarrow> u64 \<Rightarrow> u64 option \<times> ext4_bcache \<times> ext4_block" where
  "ext4_bcache_find_get bc b lba =
     (case ext4_buf_lookup bc lba of
        None \<Rightarrow> (None, bc, b)
      | Some buf \<Rightarrow>
          (let bc = (if buf_refctr (buf_at bc buf) = 0
                     then (let bc = bc\<lparr>bc_lru_ctr := bc_lru_ctr bc + 1\<rparr>;
                               bc = upd_buf buf (\<lambda>bf. bf\<lparr>buf_lru_id := bc_lru_ctr bc\<rparr>) bc;
                               bc = bc\<lparr>bc_lru_root := rb_remove buf (bc_lru_root bc)\<rparr>
                           in if ext4_bcache_test_flag (buf_at bc buf) BC_DIRTY
                              then ext4_bcache_remove_dirty_node bc buf else bc)
                     else bc);
               bc = upd_buf buf ext4_bcache_inc_ref bc
           in (Some buf, bc, \<lparr>blk_lb_id = lba, blk_buf = Some buf, blk_data = True\<rparr>)))"

definition ext4_bcache_alloc ::
    "ext4_bcache \<Rightarrow> ext4_block \<Rightarrow> errno \<times> ext4_bcache \<times> ext4_block \<times> bool" where
  "ext4_bcache_alloc bc b =
     (case ext4_bcache_find_get bc b (blk_lb_id b) of
        (Some buf, bc, b) \<Rightarrow> (EOK, bc, b, False)
      | (None, bc, b) \<Rightarrow>
          (case ext4_buf_alloc bc (blk_lb_id b) of
             (None, bc) \<Rightarrow> (ENOMEM, bc, b, False)
           | (Some nbuf, bc) \<Rightarrow>
               (let l = blk_lb_id b;
                    bc = bc\<lparr>bc_bufs := (bc_bufs bc)(l \<mapsto> nbuf),
                           bc_lba_root := rb_insert_lba l (bc_lba_root bc)\<rparr>;
                    bc = bc\<lparr>bc_ref_blocks := bc_ref_blocks bc + 1\<rparr>;
                    bc = (if bc_max_ref_blocks bc < bc_ref_blocks bc
                          then bc\<lparr>bc_max_ref_blocks := bc_ref_blocks bc\<rparr> else bc);
                    bc = upd_buf l ext4_bcache_inc_ref bc;
                    bc = bc\<lparr>bc_lru_ctr := bc_lru_ctr bc + 1\<rparr>;
                    bc = upd_buf l (\<lambda>bf. bf\<lparr>buf_lru_id := bc_lru_ctr bc\<rparr>) bc
                in (EOK, bc, b\<lparr>blk_buf := Some l, blk_data := True\<rparr>, True))))"

definition ext4_bcache_is_full :: "ext4_bcache \<Rightarrow> bool" where
  "ext4_bcache_is_full bc = (bc_cnt bc \<le> bc_ref_blocks bc)"

section \<open>Invariant\<close>

text \<open>
  A buffer is well placed: it carries its own address, holds one block, is up to date when
  dirty, and is on the dirty list only when it is dirty and unreferenced. The last line says
  that no transaction is under way: only then are temporary buffers dirty, or \<open>end_write\<close> set.
\<close>

definition buf_ok :: "ext4_bcache \<Rightarrow> u64 \<Rightarrow> ext4_buf \<Rightarrow> bool" where
  "buf_ok bc l b \<longleftrightarrow>
     buf_lba b = l \<and> length (buf_data b) = unat (bc_itemsize bc) \<and>
     (BC_DIRTY \<in> buf_flags b \<longrightarrow> BC_UPTODATE \<in> buf_flags b) \<and>
     buf_lru_id b \<le> bc_lru_ctr bc \<and>
     (buf_on_dirty_list b \<longrightarrow> buf_refctr b = 0 \<and> BC_DIRTY \<in> buf_flags b) \<and>
     (BC_TMP \<in> buf_flags b \<longrightarrow> BC_DIRTY \<notin> buf_flags b) \<and> buf_end_write b = None"

abbreviation lru_key :: "ext4_bcache \<Rightarrow> u64 \<Rightarrow> u32" where
  "lru_key bc \<equiv> \<lambda>l. buf_lru_id (buf_at bc l)"

text \<open>
  The cache: the address tree holds exactly the live buffers in ascending order, the LRU tree
  the unreferenced ones in ascending order of their (distinct) LRU ids, the dirty list those
  flagged as being on it, and \<open>ref_blocks\<close> counts the live buffers.
\<close>

definition bc_inv :: "ext4_bcache \<Rightarrow> bool" where
  "bc_inv bc \<longleftrightarrow>
     sorted_wrt (<) (bc_lba_root bc) \<and> set (bc_lba_root bc) = dom (bc_bufs bc) \<and>
     (\<forall>l b. bc_bufs bc l = Some b \<longrightarrow> buf_ok bc l b) \<and>
     inj_on (lru_key bc) (dom (bc_bufs bc)) \<and>
     sorted_wrt (\<lambda>x y. lru_key bc x < lru_key bc y) (bc_lru_root bc) \<and>
     set (bc_lru_root bc) = {l \<in> dom (bc_bufs bc). buf_refctr (buf_at bc l) = 0} \<and>
     distinct (bc_dirty_list bc) \<and>
     set (bc_dirty_list bc) = {l \<in> dom (bc_bufs bc). buf_on_dirty_list (buf_at bc l)} \<and>
     bc_ref_blocks bc = of_nat (card (dom (bc_bufs bc)))"

lemma bc_invD:
  assumes "bc_inv bc"
  shows "sorted_wrt (<) (bc_lba_root bc)" "set (bc_lba_root bc) = dom (bc_bufs bc)"
    "\<And>l b. bc_bufs bc l = Some b \<Longrightarrow> buf_ok bc l b"
    "inj_on (lru_key bc) (dom (bc_bufs bc))"
    "sorted_wrt (\<lambda>x y. lru_key bc x < lru_key bc y) (bc_lru_root bc)"
    "set (bc_lru_root bc) = {l \<in> dom (bc_bufs bc). buf_refctr (buf_at bc l) = 0}"
    "distinct (bc_dirty_list bc)"
    "set (bc_dirty_list bc) = {l \<in> dom (bc_bufs bc). buf_on_dirty_list (buf_at bc l)}"
    "bc_ref_blocks bc = of_nat (card (dom (bc_bufs bc)))"
  using assms unfolding bc_inv_def by blast+

lemma finite_bufs: "bc_inv bc \<Longrightarrow> finite (dom (bc_bufs bc))"
  by (metis bc_invD(2) List.finite_set)

text \<open>What a client sees: how often a block is referenced, and its cached contents.\<close>

definition bc_refs :: "ext4_bcache \<Rightarrow> u64 \<Rightarrow> u32" where
  "bc_refs bc l = (case bc_bufs bc l of None \<Rightarrow> 0 | Some b \<Rightarrow> buf_refctr b)"

definition bc_cached :: "ext4_bcache \<Rightarrow> u64 \<Rightarrow> bytes option" where
  "bc_cached bc l =
     (case bc_bufs bc l of
        None \<Rightarrow> None
      | Some b \<Rightarrow> if BC_UPTODATE \<in> buf_flags b then Some (buf_data b) else None)"

definition bc_dirty :: "ext4_bcache \<Rightarrow> u64 \<Rightarrow> bool" where
  "bc_dirty bc l = (case bc_bufs bc l of None \<Rightarrow> False | Some b \<Rightarrow> BC_DIRTY \<in> buf_flags b)"

text \<open>A buffer that is dropped with its last reference.\<close>

definition bc_tmp :: "ext4_bcache \<Rightarrow> u64 \<Rightarrow> bool" where
  "bc_tmp bc l = (case bc_bufs bc l of None \<Rightarrow> False | Some b \<Rightarrow> BC_TMP \<in> buf_flags b)"

lemma buf_at_Some: "bc_bufs bc l = Some b \<Longrightarrow> buf_at bc l = b"
  by (simp add: buf_at_def)

section \<open>Ordered lists\<close>

lemma sorted_wrt_remove1: "sorted_wrt P xs \<Longrightarrow> sorted_wrt P (remove1 x xs)"
  by (induction xs) (auto dest: notin_set_remove1 set_remove1_subset [THEN subsetD])

lemma sorted_less_distinct: "sorted_wrt (\<lambda>x y. f x < (f y :: 'a::order)) xs \<Longrightarrow> distinct xs"
  by (induction xs) auto

lemma set_rb_remove [simp]: "distinct xs \<Longrightarrow> set (rb_remove l xs) = set xs - {l}"
  by (simp add: rb_remove_def set_remove1_eq)

lemma sorted_rb_remove [simp]: "sorted_wrt P xs \<Longrightarrow> sorted_wrt P (rb_remove l xs)"
  by (simp add: rb_remove_def sorted_wrt_remove1)

lemma set_rb_insert_lba [simp]: "set (rb_insert_lba l xs) = insert l (set xs)"
  by (induction l xs rule: rb_insert_lba.induct) auto

lemma sorted_rb_insert_lba [simp]:
  "sorted_wrt (<) xs \<Longrightarrow> sorted_wrt (<) (rb_insert_lba l xs)"
  by (induction l xs rule: rb_insert_lba.induct) (auto intro: order.strict_trans)

lemma set_rb_insert_lru:
  "\<forall>x\<in>set xs. key x \<noteq> key l \<Longrightarrow> set (rb_insert_lru key l xs) = insert l (set xs)"
  by (induction key l xs rule: rb_insert_lru.induct) auto

lemma sorted_rb_insert_lru:
  "\<forall>x\<in>set xs. key x \<noteq> key l \<Longrightarrow> sorted_wrt (\<lambda>x y. key x < key y) xs \<Longrightarrow>
     sorted_wrt (\<lambda>x y. key x < key y) (rb_insert_lru key l xs)"
  by (induction key l xs rule: rb_insert_lru.induct)
    (auto simp: set_rb_insert_lru not_less intro: order.strict_trans)

lemma sorted_wrt_key_cong:
  "(\<And>x. x \<in> set xs \<Longrightarrow> f x = g x) \<Longrightarrow>
     sorted_wrt (\<lambda>x y. f x < f y) xs = sorted_wrt (\<lambda>x y. g x < g y) xs"
  by (induction xs) auto

section \<open>The invariant is preserved\<close>

text \<open>
  An update of one buffer that keeps its address, size, LRU id, reference count and dirty
  list mark keeps the invariant.
\<close>

lemma buf_at_upd: "buf_at (upd_buf l f bc) k = (if k = l then f (buf_at bc l) else buf_at bc k)"
  by (simp add: buf_at_def upd_buf_def)

lemma upd_buf_simps [simp]:
  "bc_bufs (upd_buf l f bc) = (bc_bufs bc)(l \<mapsto> f (buf_at bc l))"
  "bc_cnt (upd_buf l f bc) = bc_cnt bc" "bc_itemsize (upd_buf l f bc) = bc_itemsize bc"
  "bc_lru_ctr (upd_buf l f bc) = bc_lru_ctr bc" "bc_ref_blocks (upd_buf l f bc) = bc_ref_blocks bc"
  "bc_dont_shake (upd_buf l f bc) = bc_dont_shake bc"
  "bc_lba_root (upd_buf l f bc) = bc_lba_root bc" "bc_lru_root (upd_buf l f bc) = bc_lru_root bc"
  "bc_dirty_list (upd_buf l f bc) = bc_dirty_list bc"
  "heap_next (upd_buf l f bc) = heap_next bc" "heap_ok (upd_buf l f bc) = heap_ok bc"
  "heap_junk (upd_buf l f bc) = heap_junk bc"
  by (simp_all add: upd_buf_def)

lemma bc_inv_upd:
  assumes inv: "bc_inv bc" and l: "bc_bufs bc l = Some b"
    and ok: "buf_ok bc l (f b)"
    and keep: "buf_lru_id (f b) = buf_lru_id b" "buf_refctr (f b) = buf_refctr b"
      "buf_on_dirty_list (f b) = buf_on_dirty_list b"
  shows "bc_inv (upd_buf l f bc)"
proof -
  note I = bc_invD [OF inv]
  have dom: "dom (bc_bufs (upd_buf l f bc)) = dom (bc_bufs bc)" using l by auto
  have at: "buf_lru_id (buf_at (upd_buf l f bc) k) = buf_lru_id (buf_at bc k)"
    "buf_refctr (buf_at (upd_buf l f bc) k) = buf_refctr (buf_at bc k)"
    "buf_on_dirty_list (buf_at (upd_buf l f bc) k) = buf_on_dirty_list (buf_at bc k)" for k
    using keep by (simp_all add: buf_at_upd buf_at_Some [OF l])
  have "buf_ok (upd_buf l f bc) k b'" if "bc_bufs (upd_buf l f bc) k = Some b'" for k b'
    using that ok I(3) [of k b'] by (auto simp: buf_at_Some [OF l] buf_ok_def split: if_splits)
  then show ?thesis
    unfolding bc_inv_def dom at using I by (simp add: dom [simplified])
qed

lemma buf_at_simps:
  "buf_at (bc\<lparr>bc_bufs := m\<rparr>) l = the (m l)"
  "buf_at (bc\<lparr>bc_lba_root := x\<rparr>) l = buf_at bc l" "buf_at (bc\<lparr>bc_lru_root := x\<rparr>) l = buf_at bc l"
  "buf_at (bc\<lparr>bc_dirty_list := x\<rparr>) l = buf_at bc l" "buf_at (bc\<lparr>bc_ref_blocks := y\<rparr>) l = buf_at bc l"
  "buf_at (bc\<lparr>bc_lru_ctr := y\<rparr>) l = buf_at bc l" "buf_at (bc\<lparr>bc_max_ref_blocks := y\<rparr>) l = buf_at bc l"
  "buf_at (bc\<lparr>heap_next := n\<rparr>) l = buf_at bc l" "buf_at (bc\<lparr>bc_dont_shake := d\<rparr>) l = buf_at bc l"
  by (simp_all add: buf_at_def)

lemma on_dirty_iff:
  "bc_inv bc \<Longrightarrow> bc_bufs bc l = Some b \<Longrightarrow> buf_on_dirty_list b \<longleftrightarrow> l \<in> set (bc_dirty_list bc)"
  using bc_invD(8) [of bc] by (auto simp: buf_at_Some)

lemma inv_lru_distinct: "bc_inv bc \<Longrightarrow> distinct (bc_lru_root bc)"
  using sorted_less_distinct [of "lru_key bc" "bc_lru_root bc"] bc_invD(5) [of bc] by simp

lemma inv_lba_distinct: "bc_inv bc \<Longrightarrow> distinct (bc_lba_root bc)"
  using bc_invD(1) [of bc] sorted_less_distinct [of id] by simp

text \<open>
  \<open>bc_inv\<close> after the buffer at one address is replaced, created or removed: the facts about
  that address, the rest being as before.
\<close>

lemma bc_invI_at:
  assumes inv: "bc_inv bc"
    and bufs: "\<And>k. k \<noteq> l \<Longrightarrow> bc_bufs bc' k = bc_bufs bc k"
    and lba: "bc_lba_root bc' = (if bc_bufs bc' l = None then rb_remove l (bc_lba_root bc)
                                 else rb_insert_lba l (bc_lba_root bc))"
    and ok: "\<And>b. bc_bufs bc' l = Some b \<Longrightarrow> buf_ok bc' l b"
    and ctr: "bc_lru_ctr bc \<le> bc_lru_ctr bc'" "bc_itemsize bc' = bc_itemsize bc"
    and fresh: "\<And>b k. bc_bufs bc' l = Some b \<Longrightarrow> k \<noteq> l \<Longrightarrow> k \<in> dom (bc_bufs bc) \<Longrightarrow>
                  buf_lru_id b \<noteq> lru_key bc k"
    and lru: "bc_lru_root bc' = (if bc_refs bc' l = 0 \<and> bc_bufs bc' l \<noteq> None
                then rb_insert_lru (lru_key bc') l (rb_remove l (bc_lru_root bc))
                else rb_remove l (bc_lru_root bc))"
    and dirty: "distinct (bc_dirty_list bc')"
      "set (bc_dirty_list bc') = (if bc_bufs bc' l \<noteq> None \<and> buf_on_dirty_list (buf_at bc' l)
         then insert l (set (bc_dirty_list bc)) else set (bc_dirty_list bc) - {l})"
    and count: "bc_ref_blocks bc' = of_nat (card (dom (bc_bufs bc')))"
  shows "bc_inv bc'"
proof -
  note I = bc_invD [OF inv]
  let ?m = "bc_bufs bc" and ?m' = "bc_bufs bc'"
  have at: "k \<noteq> l \<Longrightarrow> buf_at bc' k = buf_at bc k" for k by (simp add: buf_at_def bufs)
  have dom: "dom ?m' = (if ?m' l = None then dom ?m - {l} else insert l (dom ?m))"
  proof -
    have "?m' = ?m(l := ?m' l)" by (rule ext) (simp add: bufs)
    then show ?thesis by (cases "?m' l") (metis dom_fun_upd option.simps(3))+
  qed
  have 1: "sorted_wrt (<) (bc_lba_root bc')" using I(1) by (simp add: lba)
  have 2: "set (bc_lba_root bc') = dom ?m'"
    using I(2) inv_lba_distinct [OF inv] by (simp add: lba dom)
  have 3: "buf_ok bc' k b" if k: "?m' k = Some b" for k b
  proof (cases "k = l")
    case False
    with I(3) [of k b] k bufs [of k] have "buf_ok bc k b" by simp
    then show ?thesis using ctr by (auto simp: buf_ok_def intro: order_trans)
  qed (use k ok in simp)
  have 4: "inj_on (lru_key bc') (dom ?m')"
  proof (rule inj_onI)
    fix x y assume xy: "x \<in> dom ?m'" "y \<in> dom ?m'" "lru_key bc' x = lru_key bc' y"
    show "x = y"
    proof (rule ccontr)
      assume "x \<noteq> y"
      then consider "x = l" "y \<noteq> l" | "y = l" "x \<noteq> l" | "x \<noteq> l" "y \<noteq> l" by blast
      then show False
      proof cases
        case 1
        with xy obtain b where "?m' l = Some b" by auto
        with fresh [of b y] xy 1 dom show False by (auto simp: at buf_at_Some split: if_splits)
      next
        case 2
        with xy obtain b where "?m' l = Some b" by auto
        with fresh [of b x] xy 2 dom show False by (auto simp: at buf_at_Some split: if_splits)
      next
        case 3
        with xy dom have "x \<in> dom ?m" "y \<in> dom ?m" by (auto split: if_splits)
        with inj_onD [OF I(4)] xy(3) 3 \<open>x \<noteq> y\<close> show False by (auto simp: at)
      qed
    qed
  qed
  have dist: "distinct (bc_lru_root bc)" by (rule inv_lru_distinct [OF inv])
  have rest: "set (rb_remove l (bc_lru_root bc)) = {k \<in> dom ?m. buf_refctr (buf_at bc k) = 0} - {l}"
    using I(6) dist by simp
  have sorted: "sorted_wrt (\<lambda>x y. lru_key bc' x < lru_key bc' y) (rb_remove l (bc_lru_root bc))"
    using I(5) rest by (subst sorted_wrt_key_cong [of _ _ "lru_key bc"]) (auto simp: at)
  have sep: "\<forall>x\<in>set (rb_remove l (bc_lru_root bc)). lru_key bc' x \<noteq> lru_key bc' l" if "?m' l \<noteq> None"
  proof
    fix x assume "x \<in> set (rb_remove l (bc_lru_root bc))"
    with rest have x: "x \<in> dom ?m" "x \<noteq> l" by auto
    then have "x \<in> dom ?m'" "l \<in> dom ?m'" using that by (auto simp: dom)
    with inj_onD [OF 4, of x l] x(2) show "lru_key bc' x \<noteq> lru_key bc' l" by blast
  qed
  have 5: "sorted_wrt (\<lambda>x y. lru_key bc' x < lru_key bc' y) (bc_lru_root bc')"
    using sorted sep by (auto simp: lru sorted_rb_insert_lru)
  have 6: "set (bc_lru_root bc') = {k \<in> dom ?m'. buf_refctr (buf_at bc' k) = 0}"
  proof (cases "?m' l")
    case None
    then show ?thesis using rest dom by (auto simp: lru at)
  next
    case (Some b)
    with sep have "\<forall>x\<in>set (rb_remove l (bc_lru_root bc)). lru_key bc' x \<noteq> lru_key bc' l" by simp
    then have set: "set (bc_lru_root bc') =
        (if buf_refctr b = 0 then insert l else id) ({k \<in> dom ?m. buf_refctr (buf_at bc k) = 0} - {l})"
      by (simp add: lru set_rb_insert_lru bc_refs_def Some rest del: set_rb_remove)
    show ?thesis
    proof (rule set_eqI)
      fix k show "k \<in> set (bc_lru_root bc') \<longleftrightarrow> k \<in> {k \<in> dom ?m'. buf_refctr (buf_at bc' k) = 0}"
        using Some dom by (cases "k = l") (auto simp: set at buf_at_Some)
    qed
  qed
  have 7: "set (bc_dirty_list bc') = {k \<in> dom ?m'. buf_on_dirty_list (buf_at bc' k)}"
  proof (rule set_eqI)
    fix k show "k \<in> set (bc_dirty_list bc') \<longleftrightarrow> k \<in> {k \<in> dom ?m'. buf_on_dirty_list (buf_at bc' k)}"
      using I(8) dom by (cases "k = l") (auto simp: dirty at)
  qed
  show ?thesis
    unfolding bc_inv_def using 1 2 3 4 5 6 7 dirty(1) count by simp
qed

text \<open>Dropping an unreferenced buffer.\<close>

lemma drop_buf_bufs:
  "bc_bufs (ext4_bcache_drop_buf bc l) = (bc_bufs bc)(l := None)"
  "bc_itemsize (ext4_bcache_drop_buf bc l) = bc_itemsize bc"
  "bc_cnt (ext4_bcache_drop_buf bc l) = bc_cnt bc"
  "bc_lru_ctr (ext4_bcache_drop_buf bc l) = bc_lru_ctr bc"
  "bc_dont_shake (ext4_bcache_drop_buf bc l) = bc_dont_shake bc"
  "bc_ref_blocks (ext4_bcache_drop_buf bc l) = bc_ref_blocks bc - 1"
  "bc_lba_root (ext4_bcache_drop_buf bc l) = rb_remove l (bc_lba_root bc)"
  "bc_lru_root (ext4_bcache_drop_buf bc l) =
     (if buf_refctr (buf_at bc l) = 0 then rb_remove l (bc_lru_root bc) else bc_lru_root bc)"
  by (auto simp: ext4_bcache_drop_buf_def ext4_bcache_remove_dirty_node_def Let_def)

lemma drop_buf_dirty_list:
  assumes "bc_inv bc" "bc_bufs bc l = Some b"
  shows "bc_dirty_list (ext4_bcache_drop_buf bc l) = remove1 l (bc_dirty_list bc)"
proof (cases "buf_on_dirty_list b")
  case True
  with bc_invD(3) [OF assms] have "BC_DIRTY \<in> buf_flags b" by (simp add: buf_ok_def)
  with True assms(2) show ?thesis
    by (simp add: ext4_bcache_drop_buf_def ext4_bcache_remove_dirty_node_def Let_def
        ext4_bcache_test_flag_def buf_at_simps buf_at_Some)
next
  case False
  with on_dirty_iff [OF assms] have "l \<notin> set (bc_dirty_list bc)" by simp
  with False assms(2) show ?thesis
    by (simp add: ext4_bcache_drop_buf_def ext4_bcache_remove_dirty_node_def Let_def
        ext4_bcache_test_flag_def buf_at_simps buf_at_Some remove1_idem)
qed

lemma drop_buf_inv:
  assumes inv: "bc_inv bc" and l: "bc_bufs bc l = Some b"
  shows "bc_inv (ext4_bcache_drop_buf bc l)"
proof (rule bc_invI_at [OF inv, where l = l])
  have fin: "finite (dom (bc_bufs bc))" by (rule finite_bufs [OF inv])
  have "l \<in> dom (bc_bufs bc)" using l by auto
  then have "card (dom (bc_bufs bc)) = Suc (card (dom (bc_bufs bc) - {l}))"
    using fin by (metis card_Suc_Diff1)
  then have "(of_nat (card (dom (bc_bufs bc))) :: u32) - 1 = of_nat (card (dom (bc_bufs bc) - {l}))" by simp
  then show "bc_ref_blocks (ext4_bcache_drop_buf bc l) =
      of_nat (card (dom (bc_bufs (ext4_bcache_drop_buf bc l))))"
    by (simp add: drop_buf_bufs bc_invD(9) [OF inv])
  have "buf_refctr b \<noteq> 0 \<Longrightarrow> l \<notin> set (bc_lru_root bc)"
    using bc_invD(6) [OF inv] l by (simp add: buf_at_Some)
  then show "bc_lru_root (ext4_bcache_drop_buf bc l) =
      (if bc_refs (ext4_bcache_drop_buf bc l) l = 0 \<and> bc_bufs (ext4_bcache_drop_buf bc l) l \<noteq> None
       then rb_insert_lru (lru_key (ext4_bcache_drop_buf bc l)) l (rb_remove l (bc_lru_root bc))
       else rb_remove l (bc_lru_root bc))"
    by (auto simp: drop_buf_bufs buf_at_Some [OF l] rb_remove_def remove1_idem)
qed (use bc_invD(7) [OF inv] in
      \<open>auto simp: drop_buf_bufs drop_buf_dirty_list [OF inv l] set_remove1_eq\<close>)

text \<open>Taking a reference to a live buffer.\<close>

definition counters_ok :: "ext4_bcache \<Rightarrow> bool" where
  "counters_ok bc \<longleftrightarrow> bc_lru_ctr bc < - 1 \<and> (\<forall>l. bc_refs bc l < - 1)"

definition taken :: "ext4_bcache \<Rightarrow> ext4_buf \<Rightarrow> ext4_buf" where
  "taken bc b =
     (if buf_refctr b = 0
      then b\<lparr>buf_lru_id := bc_lru_ctr bc + 1, buf_on_dirty_list := False, buf_refctr := 1\<rparr>
      else b\<lparr>buf_refctr := buf_refctr b + 1\<rparr>)"

lemma find_get_none:
  "bc_inv bc \<Longrightarrow> bc_bufs bc lba = None \<Longrightarrow> ext4_bcache_find_get bc b lba = (None, bc, b)"
  using bc_invD(2) [of bc] by (auto simp: ext4_bcache_find_get_def ext4_buf_lookup_def)

lemma find_get_some:
  assumes inv: "bc_inv bc" and l: "bc_bufs bc lba = Some bf"
    and fg: "ext4_bcache_find_get bc b lba = (ob, bc', b')"
  shows "ob = Some lba" "b' = \<lparr>blk_lb_id = lba, blk_buf = Some lba, blk_data = True\<rparr>"
    "bc_bufs bc' = (bc_bufs bc)(lba \<mapsto> taken bc bf)"
    "bc_itemsize bc' = bc_itemsize bc"
    "bc_dont_shake bc' = bc_dont_shake bc" "bc_ref_blocks bc' = bc_ref_blocks bc"
    "bc_lba_root bc' = bc_lba_root bc"
    "bc_lru_ctr bc' = (if buf_refctr bf = 0 then bc_lru_ctr bc + 1 else bc_lru_ctr bc)"
    "bc_lru_root bc' = (if buf_refctr bf = 0 then rb_remove lba (bc_lru_root bc) else bc_lru_root bc)"
    "bc_dirty_list bc' = remove1 lba (bc_dirty_list bc)"
proof -
  have mem: "lba \<in> set (bc_lba_root bc)" using bc_invD(2) [OF inv] l by auto
  have ok: "buf_ok bc lba bf" by (rule bc_invD(3) [OF inv l])
  note dl = on_dirty_iff [OF inv l]
  have res: "ob = fst (ext4_bcache_find_get bc b lba)"
    "bc' = fst (snd (ext4_bcache_find_get bc b lba))" "b' = snd (snd (ext4_bcache_find_get bc b lba))"
    using fg by simp_all
  show "ob = Some lba" "b' = \<lparr>blk_lb_id = lba, blk_buf = Some lba, blk_data = True\<rparr>"
    "bc_bufs bc' = (bc_bufs bc)(lba \<mapsto> taken bc bf)"
    "bc_itemsize bc' = bc_itemsize bc"
    "bc_dont_shake bc' = bc_dont_shake bc" "bc_ref_blocks bc' = bc_ref_blocks bc"
    "bc_lba_root bc' = bc_lba_root bc"
    "bc_lru_ctr bc' = (if buf_refctr bf = 0 then bc_lru_ctr bc + 1 else bc_lru_ctr bc)"
    "bc_lru_root bc' = (if buf_refctr bf = 0 then rb_remove lba (bc_lru_root bc) else bc_lru_root bc)"
    "bc_dirty_list bc' = remove1 lba (bc_dirty_list bc)"
    unfolding res using mem l ok dl by (auto simp: ext4_bcache_find_get_def ext4_buf_lookup_def Let_def
        ext4_bcache_remove_dirty_node_def ext4_bcache_inc_ref_def taken_def buf_at_simps
        buf_at_upd buf_at_Some ext4_bcache_test_flag_def buf_ok_def remove1_idem fun_eq_iff)
qed

lemma rb_insert_lba_mem: "sorted_wrt (<) xs \<Longrightarrow> l \<in> set xs \<Longrightarrow> rb_insert_lba l xs = xs"
  by (induction l xs rule: rb_insert_lba.induct) (auto dest: order.asym)

lemma less_minus_1: "(w :: 'a::len word) < - 1 \<Longrightarrow> w < w + 1 \<and> w + 1 \<noteq> 0 \<and> unat (w + 1) = Suc (unat w)"
proof -
  assume "w < - 1"
  then have "unat (w + 1) = Suc (unat w)" by (rule unat_inc)
  moreover from this have "w + 1 \<noteq> 0" by (metis nat.distinct(1) unsigned_0)
  ultimately show ?thesis by (simp add: word_less_nat_alt)
qed

lemma refs_at: "bc_bufs bc l = Some b \<Longrightarrow> bc_refs bc l = buf_refctr b"
  by (simp add: bc_refs_def)

lemma find_get_spec:
  assumes inv: "bc_inv bc" and ctr: "counters_ok bc" and l: "bc_bufs bc lba = Some bf"
    and fg: "ext4_bcache_find_get bc b lba = (ob, bc', b')"
  shows "ob = Some lba" "b' = \<lparr>blk_lb_id = lba, blk_buf = Some lba, blk_data = True\<rparr>"
    "bc_inv bc'" "bc_refs bc' = (bc_refs bc)(lba := bc_refs bc lba + 1)"
    "bc_cached bc' = bc_cached bc" "bc_dirty bc' = bc_dirty bc" "bc_itemsize bc' = bc_itemsize bc"
    "\<exists>bf'. bc_bufs bc' lba = Some bf' \<and> buf_flags bf' = buf_flags bf"
    "bc_dont_shake bc' = bc_dont_shake bc"
proof -
  note I = bc_invD [OF inv]
  note simps = find_get_some [OF inv l fg]
  note bufs = simps(3)
  show "ob = Some lba" "b' = \<lparr>blk_lb_id = lba, blk_buf = Some lba, blk_data = True\<rparr>"
    by (fact simps)+
  from simps show "bc_itemsize bc' = bc_itemsize bc" "bc_dont_shake bc' = bc_dont_shake bc" by simp_all
  have mem: "lba \<in> set (bc_lba_root bc)" using I(2) l by auto
  have ok: "buf_ok bc lba bf" by (rule I(3) [OF l])
  have lru: "bc_lru_ctr bc < bc_lru_ctr bc + 1" and ref: "buf_refctr bf + 1 \<noteq> 0"
    using ctr less_minus_1 [of "bc_lru_ctr bc"] less_minus_1 [of "buf_refctr bf"] refs_at [OF l]
    by (auto simp: counters_ok_def dest!: spec [of _ lba])
  have nr: "buf_refctr (taken bc bf) \<noteq> 0" using ref by (simp add: taken_def)
  show "bc_inv bc'"
  proof (rule bc_invI_at [OF inv, where l = lba])
    show "bc_lba_root bc' = (if bc_bufs bc' lba = None then rb_remove lba (bc_lba_root bc)
        else rb_insert_lba lba (bc_lba_root bc))"
      using rb_insert_lba_mem [OF I(1) mem] by (simp add: simps(7) bufs)
    show "buf_ok bc' lba b" if "bc_bufs bc' lba = Some b" for b
      using that ok lru by (auto simp: bufs simps taken_def buf_ok_def)
    show "buf_lru_id b \<noteq> lru_key bc k"
      if k: "bc_bufs bc' lba = Some b" "k \<noteq> lba" "k \<in> dom (bc_bufs bc)" for b k
    proof -
      obtain kb where kb: "bc_bufs bc k = Some kb" using k(3) by auto
      have le: "buf_lru_id kb \<le> bc_lru_ctr bc" using I(3) [OF kb] by (simp add: buf_ok_def)
      have "lru_key bc k \<noteq> lru_key bc lba" using inj_onD [OF I(4), of k lba] k(2,3) l by auto
      then show ?thesis
        using k(1) le lru by (auto simp: bufs taken_def buf_at_Some [OF kb] buf_at_Some [OF l] split: if_splits)
    qed
    have "buf_refctr bf \<noteq> 0 \<Longrightarrow> lba \<notin> set (bc_lru_root bc)"
      using I(6) l by (simp add: buf_at_Some)
    then show "bc_lru_root bc' =
      (if bc_refs bc' lba = 0 \<and> bc_bufs bc' lba \<noteq> None
       then rb_insert_lru (lru_key bc') lba (rb_remove lba (bc_lru_root bc))
       else rb_remove lba (bc_lru_root bc))"
      using nr by (auto simp: simps bc_refs_def bufs rb_remove_def remove1_idem)
    have "buf_on_dirty_list bf \<Longrightarrow> buf_refctr bf = 0" using ok by (simp add: buf_ok_def)
    then show "set (bc_dirty_list bc') =
      (if bc_bufs bc' lba \<noteq> None \<and> buf_on_dirty_list (buf_at bc' lba)
       then insert lba (set (bc_dirty_list bc)) else set (bc_dirty_list bc) - {lba})"
      using I(7) by (auto simp: simps bufs taken_def buf_at_def set_remove1_eq)
    have "dom (bc_bufs bc') = dom (bc_bufs bc)" using l by (auto simp: bufs)
    then show "bc_ref_blocks bc' = of_nat (card (dom (bc_bufs bc')))"
      using I(9) by (simp add: simps)
  qed (use lru I(7) in \<open>auto simp: bufs simps\<close>)
  show "bc_refs bc' = (bc_refs bc)(lba := bc_refs bc lba + 1)"
    using l by (auto simp: bc_refs_def bufs taken_def fun_eq_iff)
  show "bc_cached bc' = bc_cached bc" "bc_dirty bc' = bc_dirty bc"
    using l by (auto simp: bc_cached_def bc_dirty_def bufs taken_def fun_eq_iff)
  show "\<exists>bf'. bc_bufs bc' lba = Some bf' \<and> buf_flags bf' = buf_flags bf"
    by (simp add: bufs taken_def)
qed

text \<open>Allocation: an existing buffer is referenced once more, otherwise a fresh one appears.\<close>

definition fresh_buf :: "ext4_bcache \<Rightarrow> u64 \<Rightarrow> ext4_buf" where
  "fresh_buf bc l = \<lparr>buf_flags = {}, buf_lba = l,
     buf_data = map (heap_junk bc (heap_next bc)) [0..<unat (bc_itemsize bc)],
     buf_lru_prio = 0, buf_lru_id = bc_lru_ctr bc + 1, buf_refctr = 1,
     buf_on_dirty_list = False, buf_end_write = None, buf_end_write_arg = 0\<rparr>"

lemma alloc_new:
  assumes inv: "bc_inv bc" and ctr: "counters_ok bc" and l: "bc_bufs bc (blk_lb_id b) = None"
    and al: "ext4_bcache_alloc bc b = (r, bc', b', is_new)"
  shows "r = EOK \<or> r = ENOMEM" "bc_inv bc'" "bc_itemsize bc' = bc_itemsize bc"
    "bc_bufs bc' = (if r = EOK then (bc_bufs bc)(blk_lb_id b \<mapsto> fresh_buf bc (blk_lb_id b)) else bc_bufs bc)"
    "r = EOK \<Longrightarrow> b' = b\<lparr>blk_buf := Some (blk_lb_id b), blk_data := True\<rparr> \<and> is_new"
    "bc_dont_shake bc' = bc_dont_shake bc"
proof -
  note I = bc_invD [OF inv]
  let ?l = "blk_lb_id b" and ?n = "heap_next bc"
  have res: "(r = ENOMEM \<and> bc_bufs bc' = bc_bufs bc \<and> bc_itemsize bc' = bc_itemsize bc \<and>
      bc_lru_ctr bc' = bc_lru_ctr bc \<and> bc_lba_root bc' = bc_lba_root bc \<and>
      bc_lru_root bc' = bc_lru_root bc \<and> bc_dirty_list bc' = bc_dirty_list bc \<and>
      bc_ref_blocks bc' = bc_ref_blocks bc \<and> bc_dont_shake bc' = bc_dont_shake bc) \<or>
    (r = EOK \<and> b' = b\<lparr>blk_buf := Some ?l, blk_data := True\<rparr> \<and> is_new \<and>
      bc_bufs bc' = (bc_bufs bc)(?l \<mapsto> fresh_buf bc ?l) \<and> bc_itemsize bc' = bc_itemsize bc \<and>
      bc_lru_ctr bc' = bc_lru_ctr bc + 1 \<and> bc_lba_root bc' = rb_insert_lba ?l (bc_lba_root bc) \<and>
      bc_lru_root bc' = bc_lru_root bc \<and> bc_dirty_list bc' = bc_dirty_list bc \<and>
      bc_ref_blocks bc' = bc_ref_blocks bc + 1 \<and> bc_dont_shake bc' = bc_dont_shake bc)"
    using al
    by (cases "bc_max_ref_blocks bc < bc_ref_blocks bc + 1")
      (auto simp: ext4_bcache_alloc_def find_get_none [OF inv l] ext4_buf_alloc_def Let_def
        fresh_buf_def ext4_bcache_inc_ref_def buf_at_simps buf_at_upd split: if_splits)
  then show "r = EOK \<or> r = ENOMEM" "bc_itemsize bc' = bc_itemsize bc" "bc_dont_shake bc' = bc_dont_shake bc"
    "bc_bufs bc' = (if r = EOK then (bc_bufs bc)(?l \<mapsto> fresh_buf bc ?l) else bc_bufs bc)"
    "r = EOK \<Longrightarrow> b' = b\<lparr>blk_buf := Some ?l, blk_data := True\<rparr> \<and> is_new"
    by (elim disjE; simp)+
  have lru: "bc_lru_ctr bc < bc_lru_ctr bc + 1"
    using ctr less_minus_1 by (auto simp: counters_ok_def)
  from res consider (fail) "r = ENOMEM" "bc_bufs bc' = bc_bufs bc" "bc_itemsize bc' = bc_itemsize bc"
      "bc_lru_ctr bc' = bc_lru_ctr bc" "bc_lba_root bc' = bc_lba_root bc"
      "bc_lru_root bc' = bc_lru_root bc" "bc_dirty_list bc' = bc_dirty_list bc"
      "bc_ref_blocks bc' = bc_ref_blocks bc" "bc_dont_shake bc' = bc_dont_shake bc"
    | (new) "r = EOK" "b' = b\<lparr>blk_buf := Some ?l, blk_data := True\<rparr>" "is_new"
      "bc_bufs bc' = (bc_bufs bc)(?l \<mapsto> fresh_buf bc ?l)" "bc_itemsize bc' = bc_itemsize bc"
      "bc_lru_ctr bc' = bc_lru_ctr bc + 1" "bc_lba_root bc' = rb_insert_lba ?l (bc_lba_root bc)"
      "bc_lru_root bc' = bc_lru_root bc" "bc_dirty_list bc' = bc_dirty_list bc"
      "bc_ref_blocks bc' = bc_ref_blocks bc + 1" "bc_dont_shake bc' = bc_dont_shake bc"
    by blast
  then show "bc_inv bc'"
  proof cases
    case fail
    then show ?thesis using inv by (simp add: bc_inv_def buf_ok_def buf_at_def)
  next
    case new
    have nl: "?l \<notin> set (bc_lru_root bc)" "?l \<notin> set (bc_dirty_list bc)" "?l \<notin> dom (bc_bufs bc)"
      using I(6,8) l by auto
    show ?thesis
    proof (rule bc_invI_at [OF inv, where l = ?l])
      show "buf_lru_id fb \<noteq> lru_key bc k"
        if k: "bc_bufs bc' ?l = Some fb" "k \<noteq> ?l" "k \<in> dom (bc_bufs bc)" for fb k
      proof -
        obtain kb where kb: "bc_bufs bc k = Some kb" using k(3) by auto
        have "buf_lru_id kb \<le> bc_lru_ctr bc" using I(3) [OF kb] by (simp add: buf_ok_def)
        then show ?thesis using k(1) lru by (auto simp: new fresh_buf_def buf_at_Some [OF kb])
      qed
      show "bc_ref_blocks bc' = of_nat (card (dom (bc_bufs bc')))"
        using nl(3) finite_bufs [OF inv] I(9) by (simp add: new)
    qed (use lru nl I(7) in \<open>auto simp: new fresh_buf_def buf_ok_def bc_refs_def buf_at_def
          rb_remove_def remove1_idem\<close>)
  qed
qed

text \<open>The abstract effect of an allocation: one more reference, the same contents.\<close>

lemma alloc_spec:
  assumes inv: "bc_inv bc" and ctr: "counters_ok bc"
    and al: "ext4_bcache_alloc bc b = (r, bc', b', is_new)"
  shows "r = EOK \<or> r = ENOMEM" "bc_inv bc'" "bc_itemsize bc' = bc_itemsize bc"
    "bc_cached bc' = bc_cached bc" "bc_dirty bc' = bc_dirty bc"
    "bc_refs bc' = (if r = EOK then (bc_refs bc)(blk_lb_id b := bc_refs bc (blk_lb_id b) + 1) else bc_refs bc)"
    "r = EOK \<Longrightarrow> b' = \<lparr>blk_lb_id = blk_lb_id b, blk_buf = Some (blk_lb_id b), blk_data = True\<rparr> \<and>
       bc_bufs bc' (blk_lb_id b) \<noteq> None"
    "bc_dont_shake bc' = bc_dont_shake bc"
proof -
  let ?l = "blk_lb_id b"
  let ?spec = "(r = EOK \<or> r = ENOMEM) \<and> bc_inv bc' \<and> bc_itemsize bc' = bc_itemsize bc \<and>
    bc_cached bc' = bc_cached bc \<and> bc_dirty bc' = bc_dirty bc \<and>
    bc_refs bc' = (if r = EOK then (bc_refs bc)(?l := bc_refs bc ?l + 1) else bc_refs bc) \<and>
    (r = EOK \<longrightarrow> b' = \<lparr>blk_lb_id = ?l, blk_buf = Some ?l, blk_data = True\<rparr> \<and> bc_bufs bc' ?l \<noteq> None) \<and>
    bc_dont_shake bc' = bc_dont_shake bc"
  have ?spec
  proof (cases "bc_bufs bc ?l")
    case None
    note A = alloc_new [OF inv ctr None al]
    have "bc_cached bc' = bc_cached bc \<and> bc_dirty bc' = bc_dirty bc \<and>
      bc_refs bc' = (if r = EOK then (bc_refs bc)(?l := bc_refs bc ?l + 1) else bc_refs bc)"
      using A(4) None by (auto simp: bc_cached_def bc_dirty_def bc_refs_def fresh_buf_def fun_eq_iff)
    moreover have "r = EOK \<longrightarrow> b' = \<lparr>blk_lb_id = ?l, blk_buf = Some ?l, blk_data = True\<rparr> \<and> bc_bufs bc' ?l \<noteq> None"
      using A(4,5) by (cases b) auto
    ultimately show ?thesis using A(1,2,3,6) by blast
  next
    case (Some bf)
    obtain ob bc1 b1 where fg: "ext4_bcache_find_get bc b ?l = (ob, bc1, b1)" by (metis prod_cases3)
    note F = find_get_spec [OF inv ctr Some fg]
    from al F(1,2) fg have "r = EOK" "bc' = bc1" "b' = b1" by (auto simp: ext4_bcache_alloc_def)
    then show ?thesis using F by auto
  qed
  then show "r = EOK \<or> r = ENOMEM" "bc_inv bc'" "bc_itemsize bc' = bc_itemsize bc"
    "bc_cached bc' = bc_cached bc" "bc_dirty bc' = bc_dirty bc"
    "bc_refs bc' = (if r = EOK then (bc_refs bc)(?l := bc_refs bc ?l + 1) else bc_refs bc)"
    "r = EOK \<Longrightarrow> b' = \<lparr>blk_lb_id = ?l, blk_buf = Some ?l, blk_data = True\<rparr> \<and> bc_bufs bc' ?l \<noteq> None"
    "bc_dont_shake bc' = bc_dont_shake bc"
    by simp_all
qed

text \<open>Giving a reference back: the first half of \<open>ext4_bcache_free\<close>.\<close>

definition release :: "u64 \<Rightarrow> ext4_bcache \<Rightarrow> ext4_bcache" where
  "release l bc =
     (let bc = upd_buf l ext4_bcache_dec_ref bc
      in if buf_refctr (buf_at bc l) = 0
         then bc\<lparr>bc_lru_root := rb_insert_lru (lru_key bc) l (bc_lru_root bc)\<rparr> else bc)"

lemma release_simps [simp]:
  "bc_itemsize (release l bc) = bc_itemsize bc" "bc_lru_ctr (release l bc) = bc_lru_ctr bc"
  "bc_lba_root (release l bc) = bc_lba_root bc" "bc_dirty_list (release l bc) = bc_dirty_list bc"
  "bc_ref_blocks (release l bc) = bc_ref_blocks bc" "bc_dont_shake (release l bc) = bc_dont_shake bc"
  "bc_bufs (release l bc) = (bc_bufs bc)(l \<mapsto> ext4_bcache_dec_ref (buf_at bc l))"
  by (simp_all add: release_def Let_def)

lemma release_inv:
  assumes inv: "bc_inv bc" and l: "bc_bufs bc l = Some b" and ref: "buf_refctr b \<noteq> 0"
  shows "bc_inv (release l bc)"
proof (rule bc_invI_at [OF inv, where l = l])
  note I = bc_invD [OF inv]
  have mem: "l \<in> set (bc_lba_root bc)" using I(2) l by auto
  have ok: "buf_ok bc l b" by (rule I(3) [OF l])
  have nl: "l \<notin> set (bc_lru_root bc)" using I(6) l ref by (simp add: buf_at_Some)
  have od: "\<not> buf_on_dirty_list b" using ok ref by (simp add: buf_ok_def)
  then have nd: "l \<notin> set (bc_dirty_list bc)" using I(8) l by (simp add: buf_at_Some)
  show "bc_lba_root (release l bc) = (if bc_bufs (release l bc) l = None then rb_remove l (bc_lba_root bc)
      else rb_insert_lba l (bc_lba_root bc))"
    using rb_insert_lba_mem [OF I(1) mem] by simp
  show "buf_ok (release l bc) l b'" if "bc_bufs (release l bc) l = Some b'" for b'
    using that ok od by (auto simp: buf_at_Some [OF l] ext4_bcache_dec_ref_def buf_ok_def)
  show "buf_lru_id b' \<noteq> lru_key bc k"
    if k: "bc_bufs (release l bc) l = Some b'" "k \<noteq> l" "k \<in> dom (bc_bufs bc)" for b' k
    using k inj_onD [OF I(4) _ k(3) domI [of "bc_bufs bc" l, OF l]]
    by (auto simp: buf_at_Some [OF l] ext4_bcache_dec_ref_def)
  have same: "lru_key (bc\<lparr>bc_lru_root := x\<rparr>) = lru_key bc" for bc :: ext4_bcache and x
    by (simp add: buf_at_simps)
  show "bc_lru_root (release l bc) =
      (if bc_refs (release l bc) l = 0 \<and> bc_bufs (release l bc) l \<noteq> None
       then rb_insert_lru (lru_key (release l bc)) l (rb_remove l (bc_lru_root bc))
       else rb_remove l (bc_lru_root bc))"
    using nl by (simp add: release_def Let_def bc_refs_def buf_at_upd rb_remove_def remove1_idem
        same del: upd_buf_simps(1)) (simp add: bc_refs_def)
  show "set (bc_dirty_list (release l bc)) =
    (if bc_bufs (release l bc) l \<noteq> None \<and> buf_on_dirty_list (buf_at (release l bc) l)
     then insert l (set (bc_dirty_list bc)) else set (bc_dirty_list bc) - {l})"
    using nd od by (simp add: buf_at_def l ext4_bcache_dec_ref_def)
  have "dom (bc_bufs (release l bc)) = dom (bc_bufs bc)" using l by auto
  then show "bc_ref_blocks (release l bc) = of_nat (card (dom (bc_bufs (release l bc))))"
    using I(9) by simp
qed (use bc_invD(7) [OF inv] in auto)

lemma release_views:
  assumes l: "bc_bufs bc l = Some b"
  shows "bc_refs (release l bc) = (bc_refs bc)(l := bc_refs bc l - 1)"
    "bc_cached (release l bc) = bc_cached bc" "bc_dirty (release l bc) = bc_dirty bc"
  using l by (auto simp: bc_refs_def bc_cached_def bc_dirty_def ext4_bcache_dec_ref_def buf_at_Some fun_eq_iff)

text \<open>Putting an unreferenced dirty buffer on the dirty list, and taking it off when clean.\<close>

lemma insert_dirty_inv:
  assumes inv: "bc_inv bc" and l: "bc_bufs bc l = Some b"
    and b: "buf_refctr b = 0" "BC_DIRTY \<in> buf_flags b"
  shows "bc_inv (ext4_bcache_insert_dirty_node bc l)"
proof (cases "buf_on_dirty_list b")
  case True
  then show ?thesis using inv by (simp add: ext4_bcache_insert_dirty_node_def buf_at_Some [OF l])
next
  case False
  note I = bc_invD [OF inv]
  let ?f = "\<lambda>b. b\<lparr>buf_on_dirty_list := True\<rparr>"
  have eq: "ext4_bcache_insert_dirty_node bc l = upd_buf l ?f (bc\<lparr>bc_dirty_list := l # bc_dirty_list bc\<rparr>)"
    using False by (simp add: ext4_bcache_insert_dirty_node_def buf_at_Some [OF l])
  have nd: "l \<notin> set (bc_dirty_list bc)" using False on_dirty_iff [OF inv l] by simp
  have at: "buf_at (upd_buf l ?f (bc\<lparr>bc_dirty_list := x\<rparr>)) k =
      (if k = l then ?f b else buf_at bc k)" for k x
    by (simp add: buf_at_upd buf_at_simps buf_at_Some [OF l])
  have ll: "l \<in> set (bc_lru_root bc)" using I(6) l b by (simp add: buf_at_Some domI)
  have mem: "l \<in> set (bc_lba_root bc)" using I(2) l by auto
  have dom: "dom ((bc_bufs bc)(l \<mapsto> x)) = dom (bc_bufs bc)" for x using l by auto
  have keys: "lru_key (ext4_bcache_insert_dirty_node bc l) k = lru_key bc k" for k
    by (simp add: eq at buf_at_Some [OF l])
  have refs: "buf_refctr (buf_at (ext4_bcache_insert_dirty_node bc l) k) = buf_refctr (buf_at bc k)"
    and mark: "buf_on_dirty_list (buf_at (ext4_bcache_insert_dirty_node bc l) k) \<longleftrightarrow>
      k = l \<or> buf_on_dirty_list (buf_at bc k)" for k
    by (simp_all add: eq at buf_at_Some [OF l])
  have bufs: "bc_bufs (ext4_bcache_insert_dirty_node bc l) = (bc_bufs bc)(l \<mapsto> ?f b)"
    by (simp add: eq buf_at_simps buf_at_Some [OF l])
  have oks: "buf_ok (ext4_bcache_insert_dirty_node bc l) k kb"
    if "bc_bufs (ext4_bcache_insert_dirty_node bc l) k = Some kb" for k kb
  proof (cases "k = l")
    case True
    then have "kb = ?f b" using that by (simp add: bufs)
    then show ?thesis using True I(3) [OF l] b by (simp add: eq buf_ok_def)
  next
    case False
    then have "bc_bufs bc k = Some kb" using that by (simp add: bufs)
    from I(3) [OF this] show ?thesis by (simp add: eq buf_ok_def)
  qed
  have fields: "bc_lba_root (ext4_bcache_insert_dirty_node bc l) = bc_lba_root bc"
    "bc_lru_root (ext4_bcache_insert_dirty_node bc l) = bc_lru_root bc"
    "bc_dirty_list (ext4_bcache_insert_dirty_node bc l) = l # bc_dirty_list bc"
    "bc_ref_blocks (ext4_bcache_insert_dirty_node bc l) = bc_ref_blocks bc"
    by (simp_all add: eq)
  have "insert l {k \<in> dom (bc_bufs bc). buf_on_dirty_list (buf_at bc k)} =
      {k \<in> dom (bc_bufs bc). k = l \<or> buf_on_dirty_list (buf_at bc k)}"
    using l by auto
  moreover have "dom (bc_bufs (ext4_bcache_insert_dirty_node bc l)) = dom (bc_bufs bc)"
    unfolding bufs by (rule dom)
  ultimately show ?thesis
    unfolding bc_inv_def refs mark fields keys
    using I(1,2,4,5,6,7,8,9) nd oks by simp
qed

lemma insert_dirty_views:
  assumes l: "bc_bufs bc l = Some b"
  shows "bc_refs (ext4_bcache_insert_dirty_node bc l) = bc_refs bc"
    "bc_cached (ext4_bcache_insert_dirty_node bc l) = bc_cached bc"
    "bc_dirty (ext4_bcache_insert_dirty_node bc l) = bc_dirty bc"
    "bc_itemsize (ext4_bcache_insert_dirty_node bc l) = bc_itemsize bc"
    "bc_dont_shake (ext4_bcache_insert_dirty_node bc l) = bc_dont_shake bc"
  using l by (auto simp: ext4_bcache_insert_dirty_node_def bc_refs_def bc_cached_def bc_dirty_def
      buf_at_Some buf_at_simps fun_eq_iff)

text \<open>A buffer that was written out: off the dirty list and clean.\<close>

definition cleaned :: "u64 \<Rightarrow> ext4_bcache \<Rightarrow> ext4_bcache" where
  "cleaned l bc = upd_buf l (\<lambda>b. ext4_bcache_clear_flag b BC_DIRTY) (ext4_bcache_remove_dirty_node bc l)"

lemma cleaned_fields:
  assumes inv: "bc_inv bc" and l: "bc_bufs bc l = Some b"
  shows "bc_bufs (cleaned l bc) =
      (bc_bufs bc)(l \<mapsto> b\<lparr>buf_flags := buf_flags b - {BC_DIRTY}, buf_on_dirty_list := False\<rparr>)"
    "bc_itemsize (cleaned l bc) = bc_itemsize bc" "bc_lru_ctr (cleaned l bc) = bc_lru_ctr bc"
    "bc_lba_root (cleaned l bc) = bc_lba_root bc" "bc_lru_root (cleaned l bc) = bc_lru_root bc"
    "bc_dirty_list (cleaned l bc) = remove1 l (bc_dirty_list bc)"
    "bc_ref_blocks (cleaned l bc) = bc_ref_blocks bc" "bc_dont_shake (cleaned l bc) = bc_dont_shake bc"
  using on_dirty_iff [OF inv l] l
  by (auto simp: cleaned_def ext4_bcache_remove_dirty_node_def ext4_bcache_clear_flag_def buf_at_Some
      buf_at_simps buf_at_upd remove1_idem)

lemma cleaned_inv:
  assumes inv: "bc_inv bc" and l: "bc_bufs bc l = Some b"
  shows "bc_inv (cleaned l bc)"
proof -
  note I = bc_invD [OF inv] and F = cleaned_fields [OF inv l]
  have at: "buf_at (cleaned l bc) k = (if k = l
      then b\<lparr>buf_flags := buf_flags b - {BC_DIRTY}, buf_on_dirty_list := False\<rparr> else buf_at bc k)" for k
    by (simp add: buf_at_def F)
  have keys: "lru_key (cleaned l bc) k = lru_key bc k" for k
    by (simp add: at buf_at_Some [OF l])
  have refs: "buf_refctr (buf_at (cleaned l bc) k) = buf_refctr (buf_at bc k)"
    and mark: "buf_on_dirty_list (buf_at (cleaned l bc) k) \<longleftrightarrow> k \<noteq> l \<and> buf_on_dirty_list (buf_at bc k)" for k
    by (simp_all add: at buf_at_Some [OF l])
  have oks: "buf_ok (cleaned l bc) k kb" if "bc_bufs (cleaned l bc) k = Some kb" for k kb
  proof (cases "k = l")
    case True
    then show ?thesis using that I(3) [OF l] by (auto simp: F buf_ok_def)
  next
    case False
    then have "bc_bufs bc k = Some kb" using that by (simp add: F)
    from I(3) [OF this] show ?thesis by (simp add: F buf_ok_def)
  qed
  have "dom (bc_bufs (cleaned l bc)) = dom (bc_bufs bc)" using l by (auto simp: F)
  moreover have "{k \<in> dom (bc_bufs bc). buf_on_dirty_list (buf_at bc k)} - {l} =
      {k \<in> dom (bc_bufs bc). k \<noteq> l \<and> buf_on_dirty_list (buf_at bc k)}" by auto
  ultimately show ?thesis
    unfolding bc_inv_def refs mark keys F(4,5,6,7)
    using I(1,2,4,5,6,7,8,9) oks by (simp add: set_remove1_eq)
qed

lemma cleaned_views:
  assumes inv: "bc_inv bc" and l: "bc_bufs bc l = Some b"
  shows "bc_refs (cleaned l bc) = bc_refs bc" "bc_cached (cleaned l bc) = bc_cached bc"
    "bc_dirty (cleaned l bc) = (bc_dirty bc)(l := False)"
  using l by (auto simp: bc_refs_def bc_cached_def bc_dirty_def cleaned_fields [OF inv l] fun_eq_iff)

lemma drop_buf_views:
  "bc_refs (ext4_bcache_drop_buf bc l) = (bc_refs bc)(l := 0)"
  "bc_cached (ext4_bcache_drop_buf bc l) = (bc_cached bc)(l := None)"
  "bc_dirty (ext4_bcache_drop_buf bc l) = (bc_dirty bc)(l := False)"
  by (auto simp: bc_refs_def bc_cached_def bc_dirty_def drop_buf_bufs fun_eq_iff)

lemma bc_inv_dont_shake [simp]: "bc_inv (bc\<lparr>bc_dont_shake := x\<rparr>) = bc_inv bc"
  by (simp add: bc_inv_def buf_ok_def buf_at_simps)

lemma views_dont_shake [simp]:
  "bc_refs (bc\<lparr>bc_dont_shake := x\<rparr>) = bc_refs bc" "bc_cached (bc\<lparr>bc_dont_shake := x\<rparr>) = bc_cached bc"
  "bc_dirty (bc\<lparr>bc_dont_shake := x\<rparr>) = bc_dirty bc" "counters_ok (bc\<lparr>bc_dont_shake := x\<rparr>) = counters_ok bc"
  by (simp_all add: bc_refs_def bc_cached_def bc_dirty_def counters_ok_def fun_eq_iff)

lemma init_inv: "ext4_bcache_init_dynamic bc cnt itemsize = Some (r, bc') \<Longrightarrow> bc_inv bc'"
  by (auto simp: ext4_bcache_init_dynamic_def bc_inv_def split: if_splits)

end
