(* ===== verification/Blockdev.thy ===== *)
theory Blockdev
  imports Bcache "HOL-Library.Monad_Syntax"
begin

text \<open>
  The block device of \<open>include/ext4_blockdev.h\<close> and \<open>src/ext4_blockdev.c\<close>: byte access that
  bypasses the cache, cached access to logical blocks, eviction and flushing; and the two
  operations of \<open>src/ext4_bcache.c\<close> that write buffers out.

  The low-level driver is a parameter: \<open>bdif_open\<close>, \<open>bdif_bread\<close>, \<open>bdif_bwrite\<close>, ... are the
  function pointers of the interface, over a driver state of type \<open>'d\<close>. A result of type
  \<open>option\<close> is \<open>None\<close> when an \<open>ext4_assert\<close> fails, when the 512-byte bounce buffer would be
  overrun, or when a loop does not end.
\<close>

section \<open>State\<close>

text \<open>The fields of the device and its interface that \<open>open\<close> may set.\<close>

record dev_geom =
  geom_bsize :: u32
  geom_bcnt :: u64
  geom_offset :: u64
  geom_size :: u64

record 'd ext4_blockdev_iface =
  bdif_open :: "'d \<Rightarrow> dev_geom \<Rightarrow> errno \<times> dev_geom \<times> 'd"
  bdif_bread :: "'d \<Rightarrow> u64 \<Rightarrow> u32 \<Rightarrow> errno \<times> bytes \<times> 'd"
  bdif_bwrite :: "'d \<Rightarrow> bytes \<Rightarrow> u64 \<Rightarrow> u32 \<Rightarrow> errno \<times> 'd"
  bdif_close :: "'d \<Rightarrow> errno \<times> 'd"
  bdif_lock :: "('d \<Rightarrow> errno \<times> 'd) option"
  bdif_unlock :: "('d \<Rightarrow> errno \<times> 'd) option"
  ph_bsize :: u32
  ph_bcnt :: u64
  ph_bbuf :: bytes
  ph_refctr :: u32
  bread_ctr :: u32
  bwrite_ctr :: u32
  bdif_dev :: 'd

text \<open>\<open>bdev_events\<close> records the calls of \<open>end_write\<close>: routine, argument, buffer and result.\<close>

record 'd ext4_blockdev =
  bdev_bdif :: "'d ext4_blockdev_iface"
  part_offset :: u64
  part_size :: u64
  bdev_bc :: ext4_bcache
  lg_bsize :: u32
  lg_bcnt :: u64
  cache_write_back :: u32
  bdev_events :: "(nat \<times> nat \<times> u64 \<times> errno) list"

abbreviation bdev_dev :: "'d ext4_blockdev \<Rightarrow> 'd" where
  "bdev_dev bdev \<equiv> bdif_dev (bdev_bdif bdev)"

definition upd_bdif ::
    "('d ext4_blockdev_iface \<Rightarrow> 'd ext4_blockdev_iface) \<Rightarrow> 'd ext4_blockdev \<Rightarrow> 'd ext4_blockdev" where
  "upd_bdif f bdev = bdev\<lparr>bdev_bdif := f (bdev_bdif bdev)\<rparr>"

definition upd_bc :: "(ext4_bcache \<Rightarrow> ext4_bcache) \<Rightarrow> 'd ext4_blockdev \<Rightarrow> 'd ext4_blockdev" where
  "upd_bc f bdev = bdev\<lparr>bdev_bc := f (bdev_bc bdev)\<rparr>"

section \<open>The driver interface\<close>

definition ext4_bdif_lock :: "'d ext4_blockdev \<Rightarrow> 'd ext4_blockdev option" where
  "ext4_bdif_lock bdev =
     (case bdif_lock (bdev_bdif bdev) of
        None \<Rightarrow> Some bdev
      | Some f \<Rightarrow>
          (case f (bdev_dev bdev) of
             (r, d) \<Rightarrow> if r = EOK then Some (upd_bdif (\<lambda>i. i\<lparr>bdif_dev := d\<rparr>) bdev) else None))"

definition ext4_bdif_unlock :: "'d ext4_blockdev \<Rightarrow> 'd ext4_blockdev option" where
  "ext4_bdif_unlock bdev =
     (case bdif_unlock (bdev_bdif bdev) of
        None \<Rightarrow> Some bdev
      | Some f \<Rightarrow>
          (case f (bdev_dev bdev) of
             (r, d) \<Rightarrow> if r = EOK then Some (upd_bdif (\<lambda>i. i\<lparr>bdif_dev := d\<rparr>) bdev) else None))"

definition ext4_bdif_bread ::
    "'d ext4_blockdev \<Rightarrow> u64 \<Rightarrow> u32 \<Rightarrow> (errno \<times> bytes \<times> 'd ext4_blockdev) option" where
  "ext4_bdif_bread bdev blk_id blk_cnt = do {
     bdev \<leftarrow> ext4_bdif_lock bdev;
     let (r, buf, d) = bdif_bread (bdev_bdif bdev) (bdev_dev bdev) blk_id blk_cnt;
     let bdev = upd_bdif (\<lambda>i. i\<lparr>bdif_dev := d, bread_ctr := bread_ctr i + 1\<rparr>) bdev;
     bdev \<leftarrow> ext4_bdif_unlock bdev;
     Some (r, buf, bdev)
   }"

definition ext4_bdif_bwrite ::
    "'d ext4_blockdev \<Rightarrow> bytes \<Rightarrow> u64 \<Rightarrow> u32 \<Rightarrow> (errno \<times> 'd ext4_blockdev) option" where
  "ext4_bdif_bwrite bdev buf blk_id blk_cnt = do {
     bdev \<leftarrow> ext4_bdif_lock bdev;
     let (r, d) = bdif_bwrite (bdev_bdif bdev) (bdev_dev bdev) buf blk_id blk_cnt;
     let bdev = upd_bdif (\<lambda>i. i\<lparr>bdif_dev := d, bwrite_ctr := bwrite_ctr i + 1\<rparr>) bdev;
     bdev \<leftarrow> ext4_bdif_unlock bdev;
     Some (r, bdev)
   }"

section \<open>Opening, closing, geometry\<close>

definition ext4_block_init :: "'d ext4_blockdev \<Rightarrow> errno \<times> 'd ext4_blockdev" where
  "ext4_block_init bdev =
     (if ph_refctr (bdev_bdif bdev) = 0
      then (case bdif_open (bdev_bdif bdev) (bdev_dev bdev)
                   \<lparr>geom_bsize = ph_bsize (bdev_bdif bdev), geom_bcnt = ph_bcnt (bdev_bdif bdev),
                    geom_offset = part_offset bdev, geom_size = part_size bdev\<rparr> of
              (rc, g, d) \<Rightarrow>
                (let bdev = upd_bdif (\<lambda>i. i\<lparr>bdif_dev := d, ph_bsize := geom_bsize g, ph_bcnt := geom_bcnt g\<rparr>)
                              (bdev\<lparr>part_offset := geom_offset g, part_size := geom_size g\<rparr>)
                 in if rc \<noteq> EOK then (rc, bdev)
                    else (EOK, upd_bdif (\<lambda>i. i\<lparr>ph_refctr := 1\<rparr>) bdev)))
      else (EOK, upd_bdif (\<lambda>i. i\<lparr>ph_refctr := ph_refctr i + 1\<rparr>) bdev))"

definition ext4_block_bind_bcache :: "'d ext4_blockdev \<Rightarrow> ext4_bcache \<Rightarrow> errno \<times> 'd ext4_blockdev" where
  "ext4_block_bind_bcache bdev bc = (EOK, bdev\<lparr>bdev_bc := bc\<rparr>)"

definition ext4_block_set_lb_size :: "'d ext4_blockdev \<Rightarrow> u32 \<Rightarrow> 'd ext4_blockdev option" where
  "ext4_block_set_lb_size bdev lb_bsize =
     (if lb_bsize mod ph_bsize (bdev_bdif bdev) \<noteq> 0 then None
      else Some (bdev\<lparr>lg_bsize := lb_bsize, lg_bcnt := part_size bdev div ucast lb_bsize\<rparr>))"

definition ext4_block_fini :: "'d ext4_blockdev \<Rightarrow> errno \<times> 'd ext4_blockdev" where
  "ext4_block_fini bdev =
     (if ph_refctr (bdev_bdif bdev) = 0 then (EOK, bdev)
      else (let bdev = upd_bdif (\<lambda>i. i\<lparr>ph_refctr := ph_refctr i - 1\<rparr>) bdev
            in if ph_refctr (bdev_bdif bdev) \<noteq> 0 then (EOK, bdev)
               else (case bdif_close (bdev_bdif bdev) (bdev_dev bdev) of
                       (r, d) \<Rightarrow> (r, upd_bdif (\<lambda>i. i\<lparr>bdif_dev := d\<rparr>) bdev))))"

section \<open>Direct access to logical blocks\<close>

definition ext4_blocks_get_direct ::
    "'d ext4_blockdev \<Rightarrow> u64 \<Rightarrow> u32 \<Rightarrow> (errno \<times> bytes \<times> 'd ext4_blockdev) option" where
  "ext4_blocks_get_direct bdev lba cnt =
     (let pba = (lba * ucast (lg_bsize bdev) + part_offset bdev) div ucast (ph_bsize (bdev_bdif bdev));
          pb_cnt = lg_bsize bdev div ph_bsize (bdev_bdif bdev)
      in ext4_bdif_bread bdev pba (pb_cnt * cnt))"

definition ext4_blocks_set_direct ::
    "'d ext4_blockdev \<Rightarrow> bytes \<Rightarrow> u64 \<Rightarrow> u32 \<Rightarrow> (errno \<times> 'd ext4_blockdev) option" where
  "ext4_blocks_set_direct bdev buf lba cnt =
     (let pba = (lba * ucast (lg_bsize bdev) + part_offset bdev) div ucast (ph_bsize (bdev_bdif bdev));
          pb_cnt = lg_bsize bdev div ph_bsize (bdev_bdif bdev)
      in ext4_bdif_bwrite bdev buf pba (pb_cnt * cnt))"

section \<open>Writing buffers out\<close>

text \<open>The call of \<open>end_write\<close>, between setting and clearing \<open>dont_shake\<close>.\<close>

definition call_end_write :: "'d ext4_blockdev \<Rightarrow> u64 \<Rightarrow> errno \<Rightarrow> 'd ext4_blockdev" where
  "call_end_write bdev buf r =
     (case buf_end_write (buf_at (bdev_bc bdev) buf) of
        None \<Rightarrow> bdev
      | Some f \<Rightarrow>
          upd_bc (\<lambda>bc. bc\<lparr>bc_dont_shake := False\<rparr>)
            (bdev\<lparr>bdev_events := bdev_events bdev @
                [(f, buf_end_write_arg (buf_at (bdev_bc bdev) buf), buf, r)]\<rparr>))"

definition ext4_block_flush_buf :: "'d ext4_blockdev \<Rightarrow> u64 \<Rightarrow> (errno \<times> 'd ext4_blockdev) option" where
  "ext4_block_flush_buf bdev buf =
     (if ext4_bcache_test_flag (buf_at (bdev_bc bdev) buf) BC_DIRTY \<and>
         ext4_bcache_test_flag (buf_at (bdev_bc bdev) buf) BC_UPTODATE
      then do {
        (r, bdev) \<leftarrow> ext4_blocks_set_direct bdev (buf_data (buf_at (bdev_bc bdev) buf))
                       (buf_lba (buf_at (bdev_bc bdev) buf)) 1;
        if r \<noteq> EOK then Some (r, call_end_write bdev buf r)
        else do {
          let bdev = upd_bc (\<lambda>bc. ext4_bcache_remove_dirty_node bc buf) bdev;
          let bdev = upd_bc (upd_buf buf (\<lambda>b. ext4_bcache_clear_flag b BC_DIRTY)) bdev;
          Some (EOK, call_end_write bdev buf r)
        }
      }
      else Some (EOK, bdev))"

text \<open>
  \<open>ext4_bcache_free\<close>: the asserts on the block, then the last reference decides between the
  dirty list, an immediate write, and dropping the buffer. The result of the write is not
  looked at.
\<close>

definition ext4_bcache_free ::
    "'d ext4_blockdev \<Rightarrow> ext4_block \<Rightarrow> (errno \<times> 'd ext4_blockdev \<times> ext4_block) option" where
  "ext4_bcache_free bdev b =
     (if blk_lb_id b = 0 then None
      else case blk_buf b of None \<Rightarrow> None | Some buf \<Rightarrow>
        if bc_bufs (bdev_bc bdev) buf = None then None
        else if buf_refctr (buf_at (bdev_bc bdev) buf) = 0 then None
        else do {
          let bdev = upd_bc (upd_buf buf ext4_bcache_dec_ref) bdev;
          bdev \<leftarrow>
            (if buf_refctr (buf_at (bdev_bc bdev) buf) = 0
             then do {
               let bdev = upd_bc (\<lambda>bc. bc\<lparr>bc_lru_root :=
                     rb_insert_lru (\<lambda>l. buf_lru_id (buf_at bc l)) buf (bc_lru_root bc)\<rparr>) bdev;
               bdev \<leftarrow>
                 (if ext4_bcache_test_flag (buf_at (bdev_bc bdev) buf) BC_DIRTY \<and>
                     ext4_bcache_test_flag (buf_at (bdev_bc bdev) buf) BC_UPTODATE
                  then (if cache_write_back bdev \<noteq> 0 \<and>
                           \<not> ext4_bcache_test_flag (buf_at (bdev_bc bdev) buf) BC_FLUSH \<and>
                           \<not> ext4_bcache_test_flag (buf_at (bdev_bc bdev) buf) BC_TMP
                        then Some (upd_bc (\<lambda>bc. ext4_bcache_insert_dirty_node bc buf) bdev)
                        else do {
                          (r, bdev) \<leftarrow> ext4_block_flush_buf bdev buf;
                          Some (upd_bc (upd_buf buf (\<lambda>b. ext4_bcache_clear_flag b BC_FLUSH)) bdev)
                        })
                  else Some bdev);
               if \<not> ext4_bcache_test_flag (buf_at (bdev_bc bdev) buf) BC_UPTODATE \<or>
                  ext4_bcache_test_flag (buf_at (bdev_bc bdev) buf) BC_TMP
               then Some (upd_bc (\<lambda>bc. ext4_bcache_drop_buf bc buf) bdev)
               else Some bdev
             }
             else Some bdev);
          Some (EOK, bdev, b\<lparr>blk_lb_id := 0, blk_data := False\<rparr>)
        })"

text \<open>\<open>RB_FOREACH_SAFE\<close> visits the buffers that are in the tree when it starts.\<close>

fun cleanup_loop :: "u64 list \<Rightarrow> 'd ext4_blockdev \<Rightarrow> 'd ext4_blockdev option" where
  "cleanup_loop [] bdev = Some bdev"
| "cleanup_loop (buf # bufs) bdev = do {
     (r, bdev) \<leftarrow> ext4_block_flush_buf bdev buf;
     cleanup_loop bufs (upd_bc (\<lambda>bc. ext4_bcache_drop_buf bc buf) bdev)
   }"

definition ext4_bcache_cleanup :: "'d ext4_blockdev \<Rightarrow> 'd ext4_blockdev option" where
  "ext4_bcache_cleanup bdev = cleanup_loop (bc_lba_root (bdev_bc bdev)) bdev"

definition ext4_block_flush_lba :: "'d ext4_blockdev \<Rightarrow> u64 \<Rightarrow> (errno \<times> 'd ext4_blockdev) option" where
  "ext4_block_flush_lba bdev lba =
     (case ext4_bcache_find_get (bdev_bc bdev) EXT4_BLOCK_ZERO lba of
        (None, bc, b) \<Rightarrow> Some (EOK, bdev\<lparr>bdev_bc := bc\<rparr>)
      | (Some buf, bc, b) \<Rightarrow> do {
          (r, bdev) \<leftarrow> ext4_block_flush_buf (bdev\<lparr>bdev_bc := bc\<rparr>) buf;
          (_, bdev, _) \<leftarrow> ext4_bcache_free bdev b;
          Some (r, bdev)
        })"

section \<open>Eviction\<close>

partial_function (option) shake_loop :: "'d ext4_blockdev \<Rightarrow> (errno \<times> 'd ext4_blockdev) option" where
  "shake_loop bdev =
     (if bc_lru_root (bdev_bc bdev) \<noteq> [] \<and> ext4_bcache_is_full (bdev_bc bdev)
      then (case ext4_buf_lowest_lru (bdev_bc bdev) of
              None \<Rightarrow> None
            | Some buf \<Rightarrow>
                if ext4_bcache_test_flag (buf_at (bdev_bc bdev) buf) BC_DIRTY
                then (case ext4_block_flush_buf bdev buf of
                        None \<Rightarrow> None
                      | Some (r, bdev) \<Rightarrow>
                          if r \<noteq> EOK then Some (r, bdev)
                          else shake_loop (upd_bc (\<lambda>bc. ext4_bcache_drop_buf bc buf) bdev))
                else shake_loop (upd_bc (\<lambda>bc. ext4_bcache_drop_buf bc buf) bdev))
      else Some (EOK, bdev))"

definition ext4_block_cache_shake :: "'d ext4_blockdev \<Rightarrow> (errno \<times> 'd ext4_blockdev) option" where
  "ext4_block_cache_shake bdev =
     (if bc_dont_shake (bdev_bc bdev) then Some (EOK, bdev)
      else do {
        (r, bdev) \<leftarrow> shake_loop (upd_bc (\<lambda>bc. bc\<lparr>bc_dont_shake := True\<rparr>) bdev);
        Some (r, upd_bc (\<lambda>bc. bc\<lparr>bc_dont_shake := False\<rparr>) bdev)
      })"

section \<open>Cached access\<close>

definition ext4_block_get_noread ::
    "'d ext4_blockdev \<Rightarrow> ext4_block \<Rightarrow> u64 \<Rightarrow> (errno \<times> 'd ext4_blockdev \<times> ext4_block) option" where
  "ext4_block_get_noread bdev b lba =
     (if ph_refctr (bdev_bdif bdev) = 0 then Some (EIO, bdev, b)
      else if \<not> lba < lg_bcnt bdev then Some (ENXIO, bdev, b)
      else do {
        let b = b\<lparr>blk_lb_id := lba\<rparr>;
        (r, bdev) \<leftarrow> ext4_block_cache_shake bdev;
        if r \<noteq> EOK then Some (r, bdev, b)
        else (case ext4_bcache_alloc (bdev_bc bdev) b of
                (r, bc, b, is_new) \<Rightarrow>
                  (let bdev = bdev\<lparr>bdev_bc := bc\<rparr>
                   in if r \<noteq> EOK then Some (r, bdev, b)
                      else if \<not> blk_data b then Some (ENOMEM, bdev, b)
                      else Some (EOK, bdev, b)))
      })"

definition ext4_block_get ::
    "'d ext4_blockdev \<Rightarrow> ext4_block \<Rightarrow> u64 \<Rightarrow> (errno \<times> 'd ext4_blockdev \<times> ext4_block) option" where
  "ext4_block_get bdev b lba = do {
     (r, bdev, b) \<leftarrow> ext4_block_get_noread bdev b lba;
     if r \<noteq> EOK then Some (r, bdev, b)
     else (case blk_buf b of None \<Rightarrow> None | Some buf \<Rightarrow>
       if ext4_bcache_test_flag (buf_at (bdev_bc bdev) buf) BC_UPTODATE then Some (EOK, bdev, b)
       else do {
         (r, data, bdev) \<leftarrow> ext4_blocks_get_direct bdev lba 1;
         let bdev = upd_bc (upd_buf buf (\<lambda>bf. bf\<lparr>buf_data := data\<rparr>)) bdev;
         if r \<noteq> EOK
         then do {
           (_, bdev, b) \<leftarrow> ext4_bcache_free bdev b;
           Some (r, bdev, b\<lparr>blk_lb_id := 0\<rparr>)
         }
         else Some (EOK, upd_bc (upd_buf buf (\<lambda>bf. ext4_bcache_set_flag bf BC_UPTODATE)) bdev, b)
       })
   }"

definition ext4_block_set ::
    "'d ext4_blockdev \<Rightarrow> ext4_block \<Rightarrow> (errno \<times> 'd ext4_blockdev \<times> ext4_block) option" where
  "ext4_block_set bdev b =
     (if blk_buf b = None then None
      else if ph_refctr (bdev_bdif bdev) = 0 then Some (EIO, bdev, b)
      else ext4_bcache_free bdev b)"

section \<open>Byte access\<close>

text \<open>
  \<open>ph_bbuf\<close> is the interface's bounce buffer of 512 bytes; a physical block that does not fit
  in it overruns it.
\<close>

definition bbuf_fill :: "'d ext4_blockdev \<Rightarrow> u64 \<Rightarrow> (errno \<times> 'd ext4_blockdev) option" where
  "bbuf_fill bdev blk =
     (if ph_bsize (bdev_bdif bdev) > 512 then None
      else do {
        (r, bs, bdev) \<leftarrow> ext4_bdif_bread bdev blk 1;
        Some (r, upd_bdif (\<lambda>i. i\<lparr>ph_bbuf := put_bytes 0 bs (ph_bbuf i)\<rparr>) bdev)
      })"

definition bbuf_flush :: "'d ext4_blockdev \<Rightarrow> u64 \<Rightarrow> (errno \<times> 'd ext4_blockdev) option" where
  "bbuf_flush bdev blk =
     ext4_bdif_bwrite bdev (take (unat (ph_bsize (bdev_bdif bdev))) (ph_bbuf (bdev_bdif bdev))) blk 1"

text \<open>
  The three parts of \<open>ext4_block_writebytes\<close>: the unaligned first block, the aligned blocks,
  the rest. \<open>p\<close> is the caller's buffer from the current position on.
\<close>

definition write_rest :: "'d ext4_blockdev \<Rightarrow> u64 \<Rightarrow> bytes \<Rightarrow> u32 \<Rightarrow> (errno \<times> 'd ext4_blockdev) option" where
  "write_rest bdev block_idx p len =
     (if len \<noteq> 0
      then do {
        (r, bdev) \<leftarrow> bbuf_fill bdev block_idx;
        if r \<noteq> EOK then Some (r, bdev)
        else do {
          let bdev = upd_bdif (\<lambda>i. i\<lparr>ph_bbuf := put_bytes 0 (take (unat len) p) (ph_bbuf i)\<rparr>) bdev;
          bbuf_flush bdev block_idx
        }
      }
      else Some (EOK, bdev))"

definition write_aligned :: "'d ext4_blockdev \<Rightarrow> u64 \<Rightarrow> bytes \<Rightarrow> u32 \<Rightarrow> (errno \<times> 'd ext4_blockdev) option" where
  "write_aligned bdev block_idx p len =
     (let bs = ph_bsize (bdev_bdif bdev); blen = len div bs
      in if blen \<noteq> 0
         then do {
           (r, bdev) \<leftarrow> ext4_bdif_bwrite bdev (take (unat blen * unat bs) p) block_idx blen;
           if r \<noteq> EOK then Some (r, bdev)
           else write_rest bdev (block_idx + ucast blen) (drop (unat (bs * blen)) p) (len - bs * blen)
         }
         else write_rest bdev block_idx p len)"

definition ext4_block_writebytes ::
    "'d ext4_blockdev \<Rightarrow> u64 \<Rightarrow> bytes \<Rightarrow> u32 \<Rightarrow> (errno \<times> 'd ext4_blockdev) option" where
  "ext4_block_writebytes bdev off buf len =
     (if ph_refctr (bdev_bdif bdev) = 0 then Some (EIO, bdev)
      else if off + ucast len > part_size bdev then Some (EINVAL, bdev)
      else
        (let bs = ph_bsize (bdev_bdif bdev);
             block_idx = (off + part_offset bdev) div ucast bs;
             unalg = ucast (off AND ucast (bs - 1)) :: u32
         in if unalg \<noteq> 0
            then (let wlen = (if bs - unalg > len then len else bs - unalg)
                  in do {
                    (r, bdev) \<leftarrow> bbuf_fill bdev block_idx;
                    if r \<noteq> EOK then Some (r, bdev)
                    else do {
                      let bdev = upd_bdif (\<lambda>i. i\<lparr>ph_bbuf :=
                                   put_bytes (unat unalg) (take (unat wlen) buf) (ph_bbuf i)\<rparr>) bdev;
                      (r, bdev) \<leftarrow> bbuf_flush bdev block_idx;
                      if r \<noteq> EOK then Some (r, bdev)
                      else write_aligned bdev (block_idx + 1) (drop (unat wlen) buf) (len - wlen)
                    }
                  })
            else write_aligned bdev block_idx buf len))"

text \<open>
  The three parts of \<open>ext4_block_readbytes\<close>; the bytes returned are those stored to the
  caller's buffer, from its start.
\<close>

definition read_rest ::
    "'d ext4_blockdev \<Rightarrow> u64 \<Rightarrow> bytes \<Rightarrow> u32 \<Rightarrow> (errno \<times> bytes \<times> 'd ext4_blockdev) option" where
  "read_rest bdev block_idx out len =
     (if len \<noteq> 0
      then do {
        (r, bdev) \<leftarrow> bbuf_fill bdev block_idx;
        if r \<noteq> EOK then Some (r, out, bdev)
        else Some (r, out @ take (unat len) (ph_bbuf (bdev_bdif bdev)), bdev)
      }
      else Some (EOK, out, bdev))"

definition read_aligned ::
    "'d ext4_blockdev \<Rightarrow> u64 \<Rightarrow> bytes \<Rightarrow> u32 \<Rightarrow> (errno \<times> bytes \<times> 'd ext4_blockdev) option" where
  "read_aligned bdev block_idx out len =
     (let bs = ph_bsize (bdev_bdif bdev); blen = len div bs
      in if blen \<noteq> 0
         then do {
           (r, data, bdev) \<leftarrow> ext4_bdif_bread bdev block_idx blen;
           if r \<noteq> EOK then Some (r, out @ data, bdev)
           else read_rest bdev (block_idx + ucast blen) (out @ data) (len - bs * blen)
         }
         else read_rest bdev block_idx out len)"

definition ext4_block_readbytes ::
    "'d ext4_blockdev \<Rightarrow> u64 \<Rightarrow> u32 \<Rightarrow> (errno \<times> bytes \<times> 'd ext4_blockdev) option" where
  "ext4_block_readbytes bdev off len =
     (if ph_refctr (bdev_bdif bdev) = 0 then Some (EIO, [], bdev)
      else if off + ucast len > part_size bdev then Some (EINVAL, [], bdev)
      else
        (let bs = ph_bsize (bdev_bdif bdev);
             block_idx = (off + part_offset bdev) div ucast bs;
             unalg = ucast (off AND ucast (bs - 1)) :: u32
         in if unalg \<noteq> 0
            then (let rlen = (if bs - unalg > len then len else bs - unalg)
                  in do {
                    (r, bdev) \<leftarrow> bbuf_fill bdev block_idx;
                    if r \<noteq> EOK then Some (r, [], bdev)
                    else read_aligned bdev (block_idx + 1)
                           (take (unat rlen) (drop (unat unalg) (ph_bbuf (bdev_bdif bdev)))) (len - rlen)
                  })
            else read_aligned bdev block_idx [] len))"

section \<open>Flushing the cache\<close>

partial_function (option) ext4_block_cache_flush ::
    "'d ext4_blockdev \<Rightarrow> (errno \<times> 'd ext4_blockdev) option" where
  "ext4_block_cache_flush bdev =
     (case bc_dirty_list (bdev_bc bdev) of
        [] \<Rightarrow> Some (EOK, bdev)
      | buf # _ \<Rightarrow>
          (case ext4_block_flush_buf bdev buf of
             None \<Rightarrow> None
           | Some (r, bdev) \<Rightarrow> if r \<noteq> EOK then Some (r, bdev) else ext4_block_cache_flush bdev))"

definition ext4_block_cache_write_back ::
    "'d ext4_blockdev \<Rightarrow> u8 \<Rightarrow> (errno \<times> 'd ext4_blockdev) option" where
  "ext4_block_cache_write_back bdev on_off =
     (let bdev = (if on_off \<noteq> 0 then bdev\<lparr>cache_write_back := cache_write_back bdev + 1\<rparr> else bdev);
          bdev = (if on_off = 0 \<and> cache_write_back bdev \<noteq> 0
                  then bdev\<lparr>cache_write_back := cache_write_back bdev - 1\<rparr> else bdev)
      in if cache_write_back bdev \<noteq> 0 then Some (EOK, bdev)
         else ext4_block_cache_flush bdev)"

end
