(* ===== verification/Device.thy ===== *)
theory Device
  imports Blockdev
begin

text \<open>
  What the block device component promises, given a driver that keeps the contract of
  \<open>block_driver\<close>: byte reads and writes are slices of the medium, and the cache is invisible,
  that is, a client sees one array of blocks that only its own writes change, whatever is
  read, evicted, written back or flushed on the way.
\<close>

section \<open>The medium\<close>

definition region :: "(nat \<Rightarrow> u8) \<Rightarrow> nat \<Rightarrow> nat \<Rightarrow> bytes" where
  "region c a n = map c [a..<a + n]"

definition overwrite :: "(nat \<Rightarrow> u8) \<Rightarrow> nat \<Rightarrow> bytes \<Rightarrow> nat \<Rightarrow> u8" where
  "overwrite c a data = (\<lambda>i. if a \<le> i \<and> i < a + length data then data ! (i - a) else c i)"

lemma length_region [simp]: "length (region c a n) = n"
  by (simp add: region_def)

lemma nth_region [simp]: "i < n \<Longrightarrow> region c a n ! i = c (a + i)"
  by (simp add: region_def)

lemma region_none: "region c a 0 = []"
  by (simp add: region_def)

lemma region_append: "region c a n @ region c (a + n) m = region c a (n + m)"
  by (rule nth_equalityI) (auto simp: nth_append)

lemma take_region: "take k (region c a n) = region c a (min k n)"
  by (rule nth_equalityI) auto

lemma drop_region: "drop k (region c a n) = region c (a + k) (n - k)"
  by (rule nth_equalityI) (auto simp: add.assoc)

lemma take_drop_region: "u + n \<le> m \<Longrightarrow> take n (drop u (region c a m)) = region c (a + u) n"
  by (simp add: drop_region take_region)

lemma take_drop_take: "u + n \<le> m \<Longrightarrow> take n (drop u (take m xs)) = take n (drop u xs)"
  by (simp add: drop_take)

lemma region_overwrite_same [simp]: "n = length data \<Longrightarrow> region (overwrite c a data) a n = data"
  by (rule nth_equalityI) (auto simp: overwrite_def)

lemma region_overwrite_other [simp]:
  "b + n \<le> a \<or> a + length data \<le> b \<Longrightarrow> region (overwrite c a data) b n = region c b n"
  by (rule nth_equalityI) (auto simp: overwrite_def)

lemma region_cong: "(\<And>i. a \<le> i \<Longrightarrow> i < a + n \<Longrightarrow> c i = d i) \<Longrightarrow> region c a n = region d a n"
  by (auto simp: region_def)

lemma overwrite_overwrite:
  "overwrite (overwrite c a xs) (a + length xs) ys = overwrite c a (xs @ ys)"
  by (rule ext) (auto simp: overwrite_def nth_append)

lemma overwrite_Nil [simp]: "overwrite c a [] = c"
  by (rule ext) (auto simp: overwrite_def)

section \<open>The driver contract\<close>

text \<open>
  A transfer of \<open>cnt\<close> blocks from \<open>blk\<close> on whose size fits 32 bits and that stays on a medium
  of \<open>cap\<close> bytes.
\<close>

definition transfer_ok :: "nat \<Rightarrow> nat \<Rightarrow> u64 \<Rightarrow> u32 \<Rightarrow> bool" where
  "transfer_ok bsz cap blk cnt \<longleftrightarrow>
     unat cnt * bsz < 2 ^ 32 \<and> unat blk * bsz + unat cnt * bsz \<le> cap"

text \<open>
  A read never changes the medium and, when it succeeds, returns it; a successful write
  stores the data; a failed write may leave anything in its own range, but nothing outside.
\<close>

locale block_driver =
  fixes rd :: "'d \<Rightarrow> u64 \<Rightarrow> u32 \<Rightarrow> errno \<times> bytes \<times> 'd"
    and wr :: "'d \<Rightarrow> bytes \<Rightarrow> u64 \<Rightarrow> u32 \<Rightarrow> errno \<times> 'd"
    and bsz cap :: nat
    and content :: "'d \<Rightarrow> nat \<Rightarrow> u8"
  assumes bsz: "0 < bsz" "bsz \<le> 512" "\<exists>k. bsz = 2 ^ k"
    and cap: "bsz dvd cap" "cap < 2 ^ 63"
    and read_keeps: "rd d blk cnt = (r, bs, d') \<Longrightarrow> content d' = content d"
    and read_length: "transfer_ok bsz cap blk cnt \<Longrightarrow> rd d blk cnt = (r, bs, d') \<Longrightarrow>
      length bs = unat cnt * bsz"
    and read_ok: "transfer_ok bsz cap blk cnt \<Longrightarrow> rd d blk cnt = (EOK, bs, d') \<Longrightarrow>
      bs = region (content d) (unat blk * bsz) (unat cnt * bsz)"
    and write_ok: "transfer_ok bsz cap blk cnt \<Longrightarrow> length data = unat cnt * bsz \<Longrightarrow>
      wr d data blk cnt = (EOK, d') \<Longrightarrow> content d' = overwrite (content d) (unat blk * bsz) data"
    and write_outside: "transfer_ok bsz cap blk cnt \<Longrightarrow> length data = unat cnt * bsz \<Longrightarrow>
      wr d data blk cnt = (r, d') \<Longrightarrow>
      a < unat blk * bsz \<or> unat blk * bsz + unat cnt * bsz \<le> a \<Longrightarrow> content d' a = content d a"

section \<open>Devices\<close>

definition driver_is ::
    "('d \<Rightarrow> u64 \<Rightarrow> u32 \<Rightarrow> errno \<times> bytes \<times> 'd) \<Rightarrow> ('d \<Rightarrow> bytes \<Rightarrow> u64 \<Rightarrow> u32 \<Rightarrow> errno \<times> 'd) \<Rightarrow> nat \<Rightarrow>
     'd ext4_blockdev \<Rightarrow> bool" where
  "driver_is rd wr bsz bdev \<longleftrightarrow>
     bdif_bread (bdev_bdif bdev) = rd \<and> bdif_bwrite (bdev_bdif bdev) = wr \<and>
     bdif_lock (bdev_bdif bdev) = None \<and> bdif_unlock (bdev_bdif bdev) = None \<and>
     unat (ph_bsize (bdev_bdif bdev)) = bsz \<and> length (ph_bbuf (bdev_bdif bdev)) = 512"

text \<open>The partition starts on a physical block and ends on the medium.\<close>

definition part_ok :: "nat \<Rightarrow> 'd ext4_blockdev \<Rightarrow> bool" where
  "part_ok cap bdev \<longleftrightarrow>
     unat (ph_bsize (bdev_bdif bdev)) dvd unat (part_offset bdev) \<and>
     unat (part_offset bdev) + unat (part_size bdev) \<le> cap"

text \<open>A logical block is a whole number of physical ones, and all of them are in the partition.\<close>

definition lg_ok :: "'d ext4_blockdev \<Rightarrow> bool" where
  "lg_ok bdev \<longleftrightarrow>
     0 < unat (lg_bsize bdev) \<and> unat (ph_bsize (bdev_bdif bdev)) dvd unat (lg_bsize bdev) \<and>
     unat (lg_bcnt bdev) * unat (lg_bsize bdev) \<le> unat (part_size bdev)"

text \<open>Everything of a device but the medium, the bounce buffer and the transfer counters.\<close>

definition same_setup :: "'d ext4_blockdev \<Rightarrow> 'd ext4_blockdev \<Rightarrow> bool" where
  "same_setup bdev bdev' \<longleftrightarrow>
     part_offset bdev' = part_offset bdev \<and> part_size bdev' = part_size bdev \<and>
     lg_bsize bdev' = lg_bsize bdev \<and> lg_bcnt bdev' = lg_bcnt bdev \<and>
     cache_write_back bdev' = cache_write_back bdev \<and>
     bdif_bread (bdev_bdif bdev') = bdif_bread (bdev_bdif bdev) \<and>
     bdif_bwrite (bdev_bdif bdev') = bdif_bwrite (bdev_bdif bdev) \<and>
     bdif_lock (bdev_bdif bdev') = bdif_lock (bdev_bdif bdev) \<and>
     bdif_unlock (bdev_bdif bdev') = bdif_unlock (bdev_bdif bdev) \<and>
     ph_bsize (bdev_bdif bdev') = ph_bsize (bdev_bdif bdev) \<and>
     ph_refctr (bdev_bdif bdev') = ph_refctr (bdev_bdif bdev) \<and>
     length (ph_bbuf (bdev_bdif bdev')) = length (ph_bbuf (bdev_bdif bdev))"

lemma same_setup_refl [simp]: "same_setup bdev bdev"
  by (simp add: same_setup_def)

lemma same_setup_trans: "same_setup a b \<Longrightarrow> same_setup b c \<Longrightarrow> same_setup a c"
  by (simp add: same_setup_def)

lemma same_setup_ok:
  assumes "same_setup bdev bdev'"
  shows "driver_is rd wr bsz bdev' = driver_is rd wr bsz bdev" "part_ok cap bdev' = part_ok cap bdev"
    "lg_ok bdev' = lg_ok bdev"
  using assms by (simp_all add: same_setup_def driver_is_def part_ok_def lg_ok_def)

lemma same_setup_upd_bc [simp]: "same_setup bdev (upd_bc f bdev')= same_setup bdev bdev'"
  by (simp add: same_setup_def upd_bc_def)

lemma same_setup_bc [simp]: "same_setup bdev (bdev'\<lparr>bdev_bc := bc\<rparr>) = same_setup bdev bdev'"
  by (simp add: same_setup_def)

lemma upd_bc_simps [simp]:
  "bdev_bc (upd_bc f bdev) = f (bdev_bc bdev)" "bdev_bdif (upd_bc f bdev) = bdev_bdif bdev"
  "part_offset (upd_bc f bdev) = part_offset bdev" "part_size (upd_bc f bdev) = part_size bdev"
  "lg_bsize (upd_bc f bdev) = lg_bsize bdev" "lg_bcnt (upd_bc f bdev) = lg_bcnt bdev"
  "cache_write_back (upd_bc f bdev) = cache_write_back bdev"
  by (simp_all add: upd_bc_def)

lemma upd_bdif_simps [simp]:
  "bdev_bc (upd_bdif g bdev) = bdev_bc bdev" "bdev_bdif (upd_bdif g bdev) = g (bdev_bdif bdev)"
  "part_offset (upd_bdif g bdev) = part_offset bdev" "part_size (upd_bdif g bdev) = part_size bdev"
  "lg_bsize (upd_bdif g bdev) = lg_bsize bdev" "lg_bcnt (upd_bdif g bdev) = lg_bcnt bdev"
  "cache_write_back (upd_bdif g bdev) = cache_write_back bdev"
  by (simp_all add: upd_bdif_def)

section \<open>One transfer\<close>

context block_driver
begin

lemma bread:
  assumes drv: "driver_is rd wr bsz bdev" and ok: "transfer_ok bsz cap blk cnt"
  obtains r bs bdev' where "ext4_bdif_bread bdev blk cnt = Some (r, bs, bdev')"
    "same_setup bdev bdev'" "bdev_bc bdev' = bdev_bc bdev"
    "content (bdev_dev bdev') = content (bdev_dev bdev)" "length bs = unat cnt * bsz"
    "r = EOK \<Longrightarrow> bs = region (content (bdev_dev bdev)) (unat blk * bsz) (unat cnt * bsz)"
proof -
  obtain r bs d where rd: "rd (bdev_dev bdev) blk cnt = (r, bs, d)" by (metis prod_cases3)
  show ?thesis
    by (rule that [of r bs "upd_bdif (\<lambda>i. i\<lparr>bdif_dev := d, bread_ctr := bread_ctr i + 1\<rparr>) bdev"])
      (use drv rd read_keeps [OF rd] read_length [OF ok rd] read_ok [OF ok, of "bdev_dev bdev" bs d] in
        \<open>auto simp: ext4_bdif_bread_def ext4_bdif_lock_def ext4_bdif_unlock_def driver_is_def
          same_setup_def\<close>)
qed

lemma bwrite:
  assumes drv: "driver_is rd wr bsz bdev" and ok: "transfer_ok bsz cap blk cnt"
    and len: "length data = unat cnt * bsz"
  obtains r bdev' where "ext4_bdif_bwrite bdev data blk cnt = Some (r, bdev')"
    "same_setup bdev bdev'" "bdev_bc bdev' = bdev_bc bdev"
    "r = EOK \<Longrightarrow> content (bdev_dev bdev') = overwrite (content (bdev_dev bdev)) (unat blk * bsz) data"
    "\<And>a. a < unat blk * bsz \<or> unat blk * bsz + unat cnt * bsz \<le> a \<Longrightarrow>
       content (bdev_dev bdev') a = content (bdev_dev bdev) a"
proof -
  obtain r d where wr: "wr (bdev_dev bdev) data blk cnt = (r, d)" by (metis surj_pair)
  show ?thesis
    by (rule that [of r "upd_bdif (\<lambda>i. i\<lparr>bdif_dev := d, bwrite_ctr := bwrite_ctr i + 1\<rparr>) bdev"])
      (use drv wr write_ok [OF ok len, of "bdev_dev bdev" d] write_outside [OF ok len wr] in
        \<open>auto simp: ext4_bdif_bwrite_def ext4_bdif_lock_def ext4_bdif_unlock_def driver_is_def
          same_setup_def\<close>)
qed

section \<open>Byte reads\<close>

lemma round_up:
  assumes "k * bsz < x" "x \<le> cap"
  shows "k * bsz + bsz \<le> cap"
proof -
  obtain m where m: "cap = bsz * m" using cap(1) by (elim dvdE)
  have "bsz * k < bsz * m" using assms unfolding m mult.commute [of k bsz] by (rule less_le_trans)
  then have "Suc k \<le> m" by simp
  then have "bsz * Suc k \<le> bsz * m" by (rule mult_le_mono2)
  then show ?thesis by (simp add: m mult.commute)
qed

lemma bbuf_fill:
  assumes drv: "driver_is rd wr bsz bdev" and blk: "unat blk * bsz + bsz \<le> cap"
  obtains r bdev' where "bbuf_fill bdev blk = Some (r, bdev')"
    "same_setup bdev bdev'" "bdev_bc bdev' = bdev_bc bdev"
    "content (bdev_dev bdev') = content (bdev_dev bdev)"
    "r = EOK \<Longrightarrow> take bsz (ph_bbuf (bdev_bdif bdev')) = region (content (bdev_dev bdev)) (unat blk * bsz) bsz"
proof -
  have "bsz < 2 ^ 32" using bsz(2) by simp
  then have ok: "transfer_ok bsz cap blk 1" using blk by (simp add: transfer_ok_def)
  obtain r bs bdev' where b: "ext4_bdif_bread bdev blk 1 = Some (r, bs, bdev')"
    "same_setup bdev bdev'" "bdev_bc bdev' = bdev_bc bdev"
    "content (bdev_dev bdev') = content (bdev_dev bdev)" "length bs = unat (1 :: u32) * bsz"
    "r = EOK \<Longrightarrow> bs = region (content (bdev_dev bdev)) (unat blk * bsz) (unat (1 :: u32) * bsz)"
    by (rule bread [OF drv ok]) blast
  have ps: "\<not> ph_bsize (bdev_bdif bdev) > 512"
    using drv bsz(2) by (simp add: driver_is_def word_less_nat_alt)
  have len: "length (ph_bbuf (bdev_bdif bdev')) = 512" "length bs = bsz"
    using drv b(2,5) by (simp_all add: driver_is_def same_setup_def)
  let ?b = "upd_bdif (\<lambda>i. i\<lparr>ph_bbuf := put_bytes 0 bs (ph_bbuf i)\<rparr>) bdev'"
  have "same_setup bdev ?b" using b(2) len bsz(2) by (simp add: same_setup_def)
  moreover have "take bsz (ph_bbuf (bdev_bdif ?b)) = bs" using len by (simp add: put_bytes_def)
  ultimately show ?thesis
    using b ps by (intro that [of r ?b]) (auto simp: bbuf_fill_def)
qed

lemma read_rest:
  assumes drv: "driver_is rd wr bsz bdev" and len: "unat len < bsz" and blk: "unat blk * bsz + unat len \<le> cap"
  obtains r bs bdev' where "read_rest bdev blk out len = Some (r, bs, bdev')"
    "same_setup bdev bdev'" "bdev_bc bdev' = bdev_bc bdev"
    "content (bdev_dev bdev') = content (bdev_dev bdev)"
    "r = EOK \<Longrightarrow> bs = out @ region (content (bdev_dev bdev)) (unat blk * bsz) (unat len)"
proof (cases "len = 0")
  case True
  then show ?thesis by (intro that [of EOK out bdev]) (auto simp: read_rest_def region_def)
next
  case False
  then have "unat blk * bsz < unat blk * bsz + unat len" by (simp add: unat_gt_0)
  from round_up [OF this blk] have blk1: "unat blk * bsz + bsz \<le> cap" .
  obtain r bdev' where b: "bbuf_fill bdev blk = Some (r, bdev')"
    "same_setup bdev bdev'" "bdev_bc bdev' = bdev_bc bdev"
    "content (bdev_dev bdev') = content (bdev_dev bdev)"
    "r = EOK \<Longrightarrow> take bsz (ph_bbuf (bdev_bdif bdev')) = region (content (bdev_dev bdev)) (unat blk * bsz) bsz"
    by (rule bbuf_fill [OF drv blk1]) blast
  have t: "r = EOK \<Longrightarrow> take (unat len) (ph_bbuf (bdev_bdif bdev')) =
      region (content (bdev_dev bdev)) (unat blk * bsz) (unat len)"
    using arg_cong [OF b(5), of "take (unat len)"] len by (simp add: take_region min_def)
  show ?thesis
    using b t False
    by (intro that [of r "if r \<noteq> EOK then out else out @ take (unat len) (ph_bbuf (bdev_bdif bdev'))" bdev'])
      (auto simp: read_rest_def)
qed

lemma aligned_div:
  assumes bs: "unat (w :: u32) = bsz"
  shows "unat (len div w) * bsz + unat (len - w * (len div w)) = unat (len :: u32)"
    "unat (len - w * (len div w)) < bsz" "len div w = 0 \<Longrightarrow> unat len < bsz" "unat len < 2 ^ 32"
    "unat blk * bsz + unat len \<le> cap \<Longrightarrow>
       unat ((blk :: u64) + ucast (len div w)) = unat blk + unat (len div w)"
    "unat (w * (len div w)) = unat (len div w) * bsz"
proof -
  have n: "unat (len div w) = unat len div bsz" by (simp add: unat_div bs)
  have "len - w * (len div w) = len mod w" by (simp add: minus_mult_div_eq_mod)
  then have r: "unat (len - w * (len div w)) = unat len mod bsz" by (simp add: unat_mod bs)
  show "unat (len div w) * bsz + unat (len - w * (len div w)) = unat len"
    by (simp only: n r div_mult_mod_eq)
  show "unat (len - w * (len div w)) < bsz" using bsz(1) by (simp add: r)
  show "unat len < bsz" if "len div w = 0"
    using n that bsz(1) by (simp add: div_eq_0_iff)
  show l32: "unat len < 2 ^ 32" using unsigned_less [of len, where 'a = nat] by simp
  show "unat (blk + ucast (len div w)) = unat blk + unat (len div w)"
    if "unat blk * bsz + unat len \<le> cap"
  proof -
    have "unat blk \<le> unat blk * bsz" "unat (len div w) \<le> unat len"
      using bsz(1) by (simp_all add: n)
    moreover have "(2::nat) ^ 63 < 2 ^ 64" by simp
    ultimately have "unat blk + unat (len div w) < 2 ^ 64" using that cap(2) by linarith
    then show ?thesis by (simp add: unat_word_ariths unat_ucast_up_eq)
  qed
  have "unat (len div w) * bsz \<le> unat len" by (simp add: n)
  then have "bsz * unat (len div w) < 2 ^ 32" using l32 by (simp add: mult.commute)
  then show "unat (w * (len div w)) = unat (len div w) * bsz"
    by (subst unat_word_ariths(2)) (simp add: bs mult.commute)
qed

lemma read_aligned:
  assumes drv: "driver_is rd wr bsz bdev" and blk: "unat blk * bsz + unat len \<le> cap"
  obtains r bs bdev' where "read_aligned bdev blk out len = Some (r, bs, bdev')"
    "same_setup bdev bdev'" "bdev_bc bdev' = bdev_bc bdev"
    "content (bdev_dev bdev') = content (bdev_dev bdev)"
    "r = EOK \<Longrightarrow> bs = out @ region (content (bdev_dev bdev)) (unat blk * bsz) (unat len)"
proof -
  let ?bs = "ph_bsize (bdev_bdif bdev)" and ?c = "content (bdev_dev bdev)"
  let ?n = "len div ?bs"
  have bs: "unat ?bs = bsz" using drv by (simp add: driver_is_def)
  have n: "unat ?n = unat len div bsz" by (simp add: unat_div bs)
  have nb: "unat len div bsz * bsz + unat len mod bsz = unat len" by simp
  have lt: "unat len mod bsz < bsz" using bsz(1) by simp
  have l32: "unat len < 2 ^ 32" using unsigned_less [of len, where 'a = nat] by simp
  have rest: "unat (len - ?bs * ?n) = unat len mod bsz"
  proof -
    have "len - ?bs * ?n = len mod ?bs" by (simp add: minus_mult_div_eq_mod)
    then show ?thesis by (simp add: unat_mod bs)
  qed
  show ?thesis
  proof (cases "?n = 0")
    case True
    then have "unat len div bsz = 0" using n by simp
    then have len: "unat len < bsz" using bsz(1) by (simp add: div_eq_0_iff)
    have blk': "unat blk * bsz + unat len \<le> cap" by (rule blk)
    obtain r bs bdev' where b: "read_rest bdev blk out len = Some (r, bs, bdev')"
      "same_setup bdev bdev'" "bdev_bc bdev' = bdev_bc bdev"
      "content (bdev_dev bdev') = ?c" "r = EOK \<Longrightarrow> bs = out @ region ?c (unat blk * bsz) (unat len)"
      by (rule read_rest [OF drv len blk']) blast
    show ?thesis using b True by (intro that [of r bs bdev']) (auto simp: read_aligned_def Let_def)
  next
    case False
    have le: "unat ?n * bsz \<le> unat len" by (simp add: n)
    have ok: "transfer_ok bsz cap blk ?n"
      unfolding transfer_ok_def using le l32 blk by linarith
    obtain r1 bs1 bdev1 where b1: "ext4_bdif_bread bdev blk ?n = Some (r1, bs1, bdev1)"
      "same_setup bdev bdev1" "bdev_bc bdev1 = bdev_bc bdev" "content (bdev_dev bdev1) = ?c"
      "r1 = EOK \<Longrightarrow> bs1 = region ?c (unat blk * bsz) (unat ?n * bsz)"
      by (rule bread [OF drv ok]) blast
    show ?thesis
    proof (cases "r1 = EOK")
      case False
      with b1 \<open>?n \<noteq> 0\<close> show ?thesis
        by (intro that [of r1 "out @ bs1" bdev1]) (auto simp: read_aligned_def Let_def)
    next
      case True
      have drv1: "driver_is rd wr bsz bdev1" using drv b1(2) by (simp add: same_setup_ok)
      have "unat blk + unat ?n < 2 ^ 64"
      proof -
        have "unat blk \<le> unat blk * bsz" "unat ?n \<le> unat ?n * bsz" using bsz(1) by simp_all
        moreover have "(2::nat) ^ 63 < 2 ^ 64" by simp
        ultimately show ?thesis using le blk cap(2) by linarith
      qed
      then have u: "unat (blk + ucast ?n) = unat blk + unat ?n"
        by (simp add: unat_word_ariths unat_ucast_up_eq)
      have len': "unat (len - ?bs * ?n) < bsz" using lt by (simp only: rest)
      have blk': "unat (blk + ucast ?n) * bsz + unat (len - ?bs * ?n) \<le> cap"
        using blk nb by (simp only: u rest n add_mult_distrib add.assoc)
      obtain r bs bdev' where b: "read_rest bdev1 (blk + ucast ?n) (out @ bs1) (len - ?bs * ?n) = Some (r, bs, bdev')"
        "same_setup bdev1 bdev'" "bdev_bc bdev' = bdev_bc bdev1"
        "content (bdev_dev bdev') = content (bdev_dev bdev1)"
        "r = EOK \<Longrightarrow> bs = (out @ bs1) @ region (content (bdev_dev bdev1))
            (unat (blk + ucast ?n) * bsz) (unat (len - ?bs * ?n))"
        by (rule read_rest [OF drv1 len' blk']) blast
      have "r = EOK \<Longrightarrow> bs = out @ region ?c (unat blk * bsz) (unat len)"
        using b(5) b1(4,5) True nb
        by (simp only: u rest n add_mult_distrib append_assoc region_append)
      with b b1 True \<open>?n \<noteq> 0\<close> same_setup_trans [OF b1(2) b(2)] show ?thesis
        by (intro that [of r bs bdev']) (auto simp: read_aligned_def Let_def)
    qed
  qed
qed

lemma bsz_mask: "unat (w :: u32) = bsz \<Longrightarrow> unat (ucast (off AND ucast (w - 1)) :: u32) = unat (off :: u64) mod bsz"
proof -
  assume w: "unat w = bsz"
  obtain k where k: "bsz = 2 ^ k" using bsz(3) by blast
  have "(2::nat) ^ k < 2 ^ 10" using bsz(2) k by simp
  then have k10: "k < 10" by (rule power_less_imp_less_exp [rotated]) simp
  have "(of_nat (unat w) :: u32) = of_nat (2 ^ k)" by (simp only: w k)
  then have w2: "w - 1 = mask k" by (simp add: mask_eq_exp_minus_1)
  have m: "(ucast (mask k :: u32) :: u64) = mask k"
    by (rule bit_word_eqI) (use k10 in \<open>auto simp: bit_simps\<close>)
  have "unat (off AND mask k) = unat off mod 2 ^ k" by (rule unat_and_mask)
  moreover have "unat off mod 2 ^ k < 2 ^ 32"
  proof -
    have "unat off mod 2 ^ k < 2 ^ k" by simp
    also have "(2::nat) ^ k < 2 ^ 32" using k10 by (intro power_strict_increasing) simp_all
    finally show ?thesis .
  qed
  ultimately show ?thesis by (simp add: w2 m k unat_ucast_down_eq)
qed

text \<open>The place on the medium of a byte of the partition.\<close>

lemma block_place:
  assumes drv: "driver_is rd wr bsz bdev" and part: "part_ok cap bdev"
    and range: "unat off + unat len \<le> unat (part_size bdev)"
  shows "unat ((off + part_offset bdev) div ucast (ph_bsize (bdev_bdif bdev))) * bsz + unat off mod bsz
      = unat (part_offset bdev) + unat off"
    "\<not> off + ucast (len :: u32) > part_size bdev"
proof -
  let ?P = "unat (part_offset bdev)"
  have bs: "unat (ph_bsize (bdev_bdif bdev)) = bsz" using drv by (simp add: driver_is_def)
  have P: "bsz dvd ?P" "?P + unat (part_size bdev) < 2 ^ 63"
    using part cap(2) by (simp_all add: part_ok_def bs)
  have s: "unat (off + part_offset bdev) = unat off + ?P"
    using P(2) range by (subst unat_word_ariths(1)) simp
  have q: "unat ((off + part_offset bdev) div ucast (ph_bsize (bdev_bdif bdev))) = (unat off + ?P) div bsz"
    by (simp add: unat_div s unat_ucast_up_eq bs)
  have "(unat off + ?P) mod bsz = unat off mod bsz" using P(1) by (auto simp: mod_simps elim: dvdE)
  then show "unat ((off + part_offset bdev) div ucast (ph_bsize (bdev_bdif bdev))) * bsz + unat off mod bsz
      = ?P + unat off"
    using div_mult_mod_eq [of "unat off + ?P" bsz] by (simp only: q)
  have "unat (off + ucast len) = unat off + unat len"
    using P(2) range by (subst unat_word_ariths(1)) (simp add: unat_ucast_up_eq)
  then show "\<not> off + ucast len > part_size bdev" using range by (simp add: word_less_nat_alt)
qed

lemma blk_next: "unat (blk :: u64) * bsz + bsz \<le> cap \<Longrightarrow> unat (blk + 1) = unat blk + 1"
proof -
  assume "unat blk * bsz + bsz \<le> cap"
  moreover have "unat blk \<le> unat blk * bsz" using bsz(1) by simp
  moreover have "(2::nat) ^ 63 < 2 ^ 64" by simp
  ultimately have "unat blk + 1 < 2 ^ 64" using bsz(1) cap(2) by linarith
  then show ?thesis by (simp add: unat_word_ariths)
qed

lemma readbytes:
  assumes drv: "driver_is rd wr bsz bdev" and part: "part_ok cap bdev"
    and opened: "ph_refctr (bdev_bdif bdev) \<noteq> 0"
    and range: "unat off + unat len \<le> unat (part_size bdev)"
  obtains r bs bdev' where "ext4_block_readbytes bdev off len = Some (r, bs, bdev')"
    "same_setup bdev bdev'" "bdev_bc bdev' = bdev_bc bdev"
    "content (bdev_dev bdev') = content (bdev_dev bdev)"
    "r = EOK \<Longrightarrow> bs = region (content (bdev_dev bdev)) (unat (part_offset bdev) + unat off) (unat len)"
proof -
  let ?bs = "ph_bsize (bdev_bdif bdev)" and ?c = "content (bdev_dev bdev)"
  let ?blk = "(off + part_offset bdev) div ucast ?bs"
  let ?un = "ucast (off AND ucast (?bs - 1)) :: u32"
  let ?A = "unat (part_offset bdev) + unat off"
  have bs: "unat ?bs = bsz" using drv by (simp add: driver_is_def)
  have un: "unat ?un = unat off mod bsz" by (rule bsz_mask [OF bs])
  note place = block_place [OF drv part range]
  have un_lt: "unat ?un < bsz" using bsz(1) by (simp add: un)
  have A: "unat ?blk * bsz + unat ?un = ?A" using place(1) by (simp only: un)
  have lim: "?A + unat len \<le> cap" using part range by (simp add: part_ok_def)
  show ?thesis
  proof (cases "?un = 0")
    case True
    then have A0: "unat ?blk * bsz = ?A" using A by simp
    have blk: "unat ?blk * bsz + unat len \<le> cap" using A0 lim by linarith
    obtain r bs bdev' where b: "read_aligned bdev ?blk [] len = Some (r, bs, bdev')"
      "same_setup bdev bdev'" "bdev_bc bdev' = bdev_bc bdev" "content (bdev_dev bdev') = ?c"
      "r = EOK \<Longrightarrow> bs = [] @ region ?c (unat ?blk * bsz) (unat len)"
      by (rule read_aligned [OF drv blk]) blast
    show ?thesis
      using b True opened place(2) A0
      by (intro that [of r bs bdev']) (auto simp: ext4_block_readbytes_def Let_def)
  next
    case False
    let ?rl = "if ?bs - ?un > len then len else ?bs - ?un"
    have sub: "unat (?bs - ?un) = bsz - unat ?un"
      using un_lt by (subst unat_minus) (simp_all add: word_le_nat_alt bs)
    have rl: "unat ?rl = min (bsz - unat ?un) (unat len)"
      using sub by (auto simp: word_less_nat_alt min_def)
    have blk: "unat ?blk * bsz + bsz \<le> cap"
      by (rule round_up [of _ ?A]) (use A lim False in \<open>simp_all add: unat_gt_0 [symmetric]\<close>)
    then obtain r1 bdev1 where b1: "bbuf_fill bdev ?blk = Some (r1, bdev1)"
      "same_setup bdev bdev1" "bdev_bc bdev1 = bdev_bc bdev" "content (bdev_dev bdev1) = ?c"
      "r1 = EOK \<Longrightarrow> take bsz (ph_bbuf (bdev_bdif bdev1)) = region ?c (unat ?blk * bsz) bsz"
      by (rule bbuf_fill [OF drv]) blast
    show ?thesis
    proof (cases "r1 = EOK")
      case False
      then show ?thesis using b1 \<open>?un \<noteq> 0\<close> opened place(2)
        by (intro that [of r1 "[]" bdev1]) (auto simp: ext4_block_readbytes_def Let_def)
    next
      case True
      let ?out = "take (unat ?rl) (drop (unat ?un) (ph_bbuf (bdev_bdif bdev1)))"
      have out: "?out = region ?c ?A (unat ?rl)"
      proof -
        have le: "unat ?un + unat ?rl \<le> bsz" using un_lt by (simp only: rl)
        have "?out = take (unat ?rl) (drop (unat ?un) (take bsz (ph_bbuf (bdev_bdif bdev1))))"
          by (rule take_drop_take [OF le, symmetric])
        then show ?thesis
          by (simp only: b1(5) [OF True] take_drop_region [OF le] A)
      qed
      have drv1: "driver_is rd wr bsz bdev1" using drv b1(2) by (simp add: same_setup_ok)
      have rl_le: "unat ?rl \<le> unat len" by (simp only: rl)
      then have left: "unat (len - ?rl) = unat len - unat ?rl"
        by (intro unat_minus) (simp only: word_le_nat_alt)
      have next_blk: "unat (?blk + 1) * bsz = unat ?blk * bsz + bsz"
        using blk_next [of ?blk] blk by simp
      have blk': "unat (?blk + 1) * bsz + unat (len - ?rl) \<le> cap"
        unfolding next_blk using lim A left rl un_lt blk by linarith
      obtain r bs bdev' where b: "read_aligned bdev1 (?blk + 1) ?out (len - ?rl) = Some (r, bs, bdev')"
        "same_setup bdev1 bdev'" "bdev_bc bdev' = bdev_bc bdev1"
        "content (bdev_dev bdev') = content (bdev_dev bdev1)"
        "r = EOK \<Longrightarrow> bs = ?out @ region (content (bdev_dev bdev1)) (unat (?blk + 1) * bsz) (unat (len - ?rl))"
        by (rule read_aligned [OF drv1 blk']) blast
      have fin: "?out @ region ?c (unat (?blk + 1) * bsz) (unat (len - ?rl)) = region ?c ?A (unat len)"
      proof (cases "unat ?rl = unat len")
        case True
        then show ?thesis
          using out by (simp only: left diff_self_eq_0 region_none append_Nil2)
      next
        case False
        then have "unat ?rl = bsz - unat ?un" using rl by linarith
        then have "unat (?blk + 1) * bsz = ?A + unat ?rl" using A un_lt unfolding next_blk by linarith
        then show ?thesis using rl_le by (simp only: out left region_append le_add_diff_inverse)
      qed
      show ?thesis
        using b b1 fin True \<open>?un \<noteq> 0\<close> opened place(2) same_setup_trans [OF b1(2) b(2)]
        by (intro that [of r bs bdev']) (auto simp: ext4_block_readbytes_def Let_def)
    qed
  qed
qed

section \<open>Byte writes\<close>

text \<open>Reading a physical block, patching it in the bounce buffer and writing it back.\<close>

lemma put_bytes_region:
  assumes "take n xs = region c b n" "u + length data \<le> n" "n \<le> length xs"
  shows "take n (put_bytes u data xs) = region (overwrite c (b + u) data) b n"
proof (rule nth_equalityI)
  show "length (take n (put_bytes u data xs)) = length (region (overwrite c (b + u) data) b n)"
    using assms(2,3) by (simp add: put_bytes_def)
next
  fix i assume "i < length (take n (put_bytes u data xs))"
  then have i: "i < n" by simp
  have c: "xs ! i = c (b + i)" using arg_cong [OF assms(1), of "\<lambda>l. l ! i"] i by simp
  show "take n (put_bytes u data xs) ! i = region (overwrite c (b + u) data) b n ! i"
    using assms(2,3) i c by (auto simp: put_bytes_def nth_append overwrite_def)
qed

lemma overwrite_region: "u + length data \<le> n \<Longrightarrow>
    overwrite c b (region (overwrite c (b + u) data) b n) = overwrite c (b + u) data"
  by (rule ext) (auto simp: overwrite_def)

lemma patch_block:
  assumes drv: "driver_is rd wr bsz bdev" and blk: "unat blk * bsz + bsz \<le> cap"
    and fits: "u + length data \<le> bsz"
  obtains r1 bdev1 where "bbuf_fill bdev blk = Some (r1, bdev1)"
    "same_setup bdev bdev1" "bdev_bc bdev1 = bdev_bc bdev"
    "content (bdev_dev bdev1) = content (bdev_dev bdev)"
    "r1 = EOK \<Longrightarrow> \<exists>r2 bdev2.
       bbuf_flush (upd_bdif (\<lambda>i. i\<lparr>ph_bbuf := put_bytes u data (ph_bbuf i)\<rparr>) bdev1) blk = Some (r2, bdev2) \<and>
       same_setup bdev bdev2 \<and> bdev_bc bdev2 = bdev_bc bdev \<and>
       (r2 = EOK \<longrightarrow> content (bdev_dev bdev2) =
          overwrite (content (bdev_dev bdev)) (unat blk * bsz + u) data) \<and>
       (\<forall>a. a < unat blk * bsz \<or> unat blk * bsz + bsz \<le> a \<longrightarrow>
          content (bdev_dev bdev2) a = content (bdev_dev bdev) a)"
proof -
  let ?c = "content (bdev_dev bdev)"
  obtain r1 bdev1 where b: "bbuf_fill bdev blk = Some (r1, bdev1)"
    "same_setup bdev bdev1" "bdev_bc bdev1 = bdev_bc bdev"
    "content (bdev_dev bdev1) = ?c"
    "r1 = EOK \<Longrightarrow> take bsz (ph_bbuf (bdev_bdif bdev1)) = region ?c (unat blk * bsz) bsz"
    by (rule bbuf_fill [OF drv blk]) blast
  have "\<exists>r2 bdev2.
       bbuf_flush (upd_bdif (\<lambda>i. i\<lparr>ph_bbuf := put_bytes u data (ph_bbuf i)\<rparr>) bdev1) blk = Some (r2, bdev2) \<and>
       same_setup bdev bdev2 \<and> bdev_bc bdev2 = bdev_bc bdev \<and>
       (r2 = EOK \<longrightarrow> content (bdev_dev bdev2) = overwrite ?c (unat blk * bsz + u) data) \<and>
       (\<forall>a. a < unat blk * bsz \<or> unat blk * bsz + bsz \<le> a \<longrightarrow> content (bdev_dev bdev2) a = ?c a)"
    if ok: "r1 = EOK"
  proof -
    let ?b = "upd_bdif (\<lambda>i. i\<lparr>ph_bbuf := put_bytes u data (ph_bbuf i)\<rparr>) bdev1"
    have len: "length (ph_bbuf (bdev_bdif bdev1)) = 512"
      using drv b(2) by (simp add: driver_is_def same_setup_def)
    have same: "same_setup bdev ?b" using b(2) len fits bsz(2) by (simp add: same_setup_def put_bytes_def)
    then have drv': "driver_is rd wr bsz ?b" using drv by (simp add: same_setup_ok)
    then have bs: "unat (ph_bsize (bdev_bdif ?b)) = bsz" by (simp add: driver_is_def)
    let ?data = "take bsz (ph_bbuf (bdev_bdif ?b))"
    have data: "?data = region (overwrite ?c (unat blk * bsz + u) data) (unat blk * bsz) bsz"
      using put_bytes_region [OF b(5) [OF ok] fits] len bsz(2) by simp
    have "bsz < 2 ^ 32" using bsz(2) by simp
    then have tok: "transfer_ok bsz cap blk 1" using blk by (simp add: transfer_ok_def)
    have dlen: "length ?data = unat (1 :: u32) * bsz" by (simp only: data length_region) simp
    obtain r2 bdev2 where w: "ext4_bdif_bwrite ?b ?data blk 1 = Some (r2, bdev2)"
      "same_setup ?b bdev2" "bdev_bc bdev2 = bdev_bc ?b"
      "r2 = EOK \<Longrightarrow> content (bdev_dev bdev2) = overwrite (content (bdev_dev ?b)) (unat blk * bsz) ?data"
      "\<And>a. a < unat blk * bsz \<or> unat blk * bsz + unat (1 :: u32) * bsz \<le> a \<Longrightarrow>
         content (bdev_dev bdev2) a = content (bdev_dev ?b) a"
      by (rule bwrite [OF drv' tok dlen]) blast
    have dev: "bdev_dev ?b = bdev_dev bdev1" by simp
    have ov: "overwrite ?c (unat blk * bsz) ?data = overwrite ?c (unat blk * bsz + u) data"
      unfolding data by (rule overwrite_region [OF fits])
    have "bbuf_flush ?b blk = Some (r2, bdev2)" by (simp only: bbuf_flush_def bs w(1))
    moreover have "same_setup bdev bdev2" by (rule same_setup_trans [OF same w(2)])
    moreover have "bdev_bc bdev2 = bdev_bc bdev" using w(3) b(3) by simp
    moreover have "r2 = EOK \<longrightarrow> content (bdev_dev bdev2) = overwrite ?c (unat blk * bsz + u) data"
      using w(4) unfolding dev b(4) ov by (rule impI)
    moreover have "\<forall>a. a < unat blk * bsz \<or> unat blk * bsz + bsz \<le> a \<longrightarrow> content (bdev_dev bdev2) a = ?c a"
      using w(5) unfolding dev b(4) by simp
    ultimately show ?thesis by blast
  qed
  then show ?thesis using b(1-4) by (intro that) 
qed

lemma write_rest:
  assumes drv: "driver_is rd wr bsz bdev" and len: "unat len < bsz" and blk: "unat blk * bsz + unat len \<le> cap"
    and p: "length p = unat len"
  obtains r bdev' where "write_rest bdev blk p len = Some (r, bdev')"
    "same_setup bdev bdev'" "bdev_bc bdev' = bdev_bc bdev"
    "r = EOK \<Longrightarrow> content (bdev_dev bdev') = overwrite (content (bdev_dev bdev)) (unat blk * bsz) p"
    "\<And>a. a < unat blk * bsz \<or> unat blk * bsz + unat len + bsz \<le> a \<Longrightarrow>
       content (bdev_dev bdev') a = content (bdev_dev bdev) a"
proof (cases "len = 0")
  case True
  then show ?thesis using p by (intro that [of EOK bdev]) (auto simp: write_rest_def)
next
  case False
  then have "unat blk * bsz < unat blk * bsz + unat len" by (simp add: unat_gt_0)
  from round_up [OF this blk] have blk1: "unat blk * bsz + bsz \<le> cap" .
  have fits: "0 + length p \<le> bsz" using p len by simp
  obtain r1 bdev1 where b: "bbuf_fill bdev blk = Some (r1, bdev1)"
    "same_setup bdev bdev1" "bdev_bc bdev1 = bdev_bc bdev"
    "content (bdev_dev bdev1) = content (bdev_dev bdev)"
    "r1 = EOK \<Longrightarrow> \<exists>r2 bdev2.
       bbuf_flush (upd_bdif (\<lambda>i. i\<lparr>ph_bbuf := put_bytes 0 p (ph_bbuf i)\<rparr>) bdev1) blk = Some (r2, bdev2) \<and>
       same_setup bdev bdev2 \<and> bdev_bc bdev2 = bdev_bc bdev \<and>
       (r2 = EOK \<longrightarrow> content (bdev_dev bdev2) =
          overwrite (content (bdev_dev bdev)) (unat blk * bsz + 0) p) \<and>
       (\<forall>a. a < unat blk * bsz \<or> unat blk * bsz + bsz \<le> a \<longrightarrow>
          content (bdev_dev bdev2) a = content (bdev_dev bdev) a)"
    by (rule patch_block [OF drv blk1 fits]) blast
  show ?thesis
  proof (cases "r1 = EOK")
    case ok: True
    from b(5) [OF ok] obtain r2 bdev2 where
      f: "bbuf_flush (upd_bdif (\<lambda>i. i\<lparr>ph_bbuf := put_bytes 0 p (ph_bbuf i)\<rparr>) bdev1) blk = Some (r2, bdev2)"
      "same_setup bdev bdev2" "bdev_bc bdev2 = bdev_bc bdev"
      "r2 = EOK \<longrightarrow> content (bdev_dev bdev2) = overwrite (content (bdev_dev bdev)) (unat blk * bsz + 0) p"
      "\<forall>a. a < unat blk * bsz \<or> unat blk * bsz + bsz \<le> a \<longrightarrow>
         content (bdev_dev bdev2) a = content (bdev_dev bdev) a" by blast
    have "content (bdev_dev bdev2) a = content (bdev_dev bdev) a"
      if "a < unat blk * bsz \<or> unat blk * bsz + unat len + bsz \<le> a" for a
    proof -
      have "a < unat blk * bsz \<or> unat blk * bsz + bsz \<le> a" using that by linarith
      then show ?thesis using f(5) by blast
    qed
    then show ?thesis using f(1-4) b(1) ok False p
      by (intro that [of r2 bdev2]) (simp_all add: write_rest_def)
  next
    case False
    show ?thesis using b(1-4) False \<open>len \<noteq> 0\<close>
      by (intro that [of r1 bdev1]) (simp_all add: write_rest_def)
  qed
qed

lemma write_aligned:
  assumes drv: "driver_is rd wr bsz bdev" and blk: "unat blk * bsz + unat len \<le> cap"
    and p: "length p = unat len"
  obtains r bdev' where "write_aligned bdev blk p len = Some (r, bdev')"
    "same_setup bdev bdev'" "bdev_bc bdev' = bdev_bc bdev"
    "r = EOK \<Longrightarrow> content (bdev_dev bdev') = overwrite (content (bdev_dev bdev)) (unat blk * bsz) p"
    "\<And>a. a < unat blk * bsz \<or> unat blk * bsz + unat len + bsz \<le> a \<Longrightarrow>
       content (bdev_dev bdev') a = content (bdev_dev bdev) a"
proof -
  let ?bs = "ph_bsize (bdev_bdif bdev)" and ?c = "content (bdev_dev bdev)"
  let ?n = "len div ?bs" and ?p1 = "take (unat (len div ?bs) * unat ?bs) p"
  have bs: "unat ?bs = bsz" using drv by (simp add: driver_is_def)
  note div = aligned_div [OF bs, where len = len]
  show ?thesis
  proof (cases "?n = 0")
    case True
    have len: "unat len < bsz" and blk': "unat blk * bsz + unat len \<le> cap"
      using div(1,3) True blk by simp_all
    obtain r bdev' where b: "write_rest bdev blk p len = Some (r, bdev')"
      "same_setup bdev bdev'" "bdev_bc bdev' = bdev_bc bdev"
      "r = EOK \<Longrightarrow> content (bdev_dev bdev') = overwrite ?c (unat blk * bsz) p"
      "\<And>a. a < unat blk * bsz \<or> unat blk * bsz + unat len + bsz \<le> a \<Longrightarrow> content (bdev_dev bdev') a = ?c a"
      by (rule write_rest [OF drv len blk' p]) blast
    show ?thesis using b True by (intro that [of r bdev']) (auto simp: write_aligned_def Let_def)
  next
    case False
    have le: "unat ?n * bsz \<le> unat len" using div(1) by linarith
    have ok: "transfer_ok bsz cap blk ?n"
      unfolding transfer_ok_def using le blk div(4) by linarith
    have l1: "length ?p1 = unat ?n * bsz" using le p by (simp add: bs)
    obtain r1 bdev1 where b1: "ext4_bdif_bwrite bdev ?p1 blk ?n = Some (r1, bdev1)"
      "same_setup bdev bdev1" "bdev_bc bdev1 = bdev_bc bdev"
      "r1 = EOK \<Longrightarrow> content (bdev_dev bdev1) = overwrite ?c (unat blk * bsz) ?p1"
      "\<And>a. a < unat blk * bsz \<or> unat blk * bsz + unat ?n * bsz \<le> a \<Longrightarrow> content (bdev_dev bdev1) a = ?c a"
      by (rule bwrite [OF drv ok l1]) blast
    show ?thesis
    proof (cases "r1 = EOK")
      case False
      have "content (bdev_dev bdev1) a = ?c a"
        if "a < unat blk * bsz \<or> unat blk * bsz + unat len + bsz \<le> a" for a
        by (rule b1(5)) (use that le in linarith)
      with b1(1-3) False \<open>?n \<noteq> 0\<close> show ?thesis
        by (intro that [of r1 bdev1]) (simp_all add: write_aligned_def Let_def)
    next
      case True
      let ?q = "drop (unat (?bs * ?n)) p"
      have drv1: "driver_is rd wr bsz bdev1" using drv b1(2) by (simp add: same_setup_ok)
      have u: "unat (blk + ucast ?n) * bsz = unat blk * bsz + unat ?n * bsz"
        using div(5) [of blk] blk by (simp add: add_mult_distrib)
      have blk': "unat (blk + ucast ?n) * bsz + unat (len - ?bs * ?n) \<le> cap"
        unfolding u using blk div(1) by linarith
      have q: "?q = drop (unat ?n * bsz) p" by (simp only: div(6))
      have lq: "length ?q = unat (len - ?bs * ?n)" using div(1,2) p by (simp add: q)
      obtain r bdev' where b: "write_rest bdev1 (blk + ucast ?n) ?q (len - ?bs * ?n) = Some (r, bdev')"
        "same_setup bdev1 bdev'" "bdev_bc bdev' = bdev_bc bdev1"
        "r = EOK \<Longrightarrow> content (bdev_dev bdev') =
          overwrite (content (bdev_dev bdev1)) (unat (blk + ucast ?n) * bsz) ?q"
        "\<And>a. a < unat (blk + ucast ?n) * bsz \<or>
           unat (blk + ucast ?n) * bsz + unat (len - ?bs * ?n) + bsz \<le> a \<Longrightarrow>
           content (bdev_dev bdev') a = content (bdev_dev bdev1) a"
        by (rule write_rest [OF drv1 div(2) blk' lq]) blast
      have pq: "?p1 @ ?q = p" by (simp add: q bs)
      have ok': "content (bdev_dev bdev') = overwrite ?c (unat blk * bsz) p" if "r = EOK"
        using b(4) [OF that] b1(4) [OF True] overwrite_overwrite [of ?c "unat blk * bsz" ?p1 ?q]
        by (simp only: u l1 pq)
      have out: "content (bdev_dev bdev') a = ?c a"
        if "a < unat blk * bsz \<or> unat blk * bsz + unat len + bsz \<le> a" for a
      proof -
        have "content (bdev_dev bdev') a = content (bdev_dev bdev1) a"
          by (rule b(5)) (use that div(1,2) u in linarith)
        also have "\<dots> = ?c a" by (rule b1(5)) (use that le in linarith)
        finally show ?thesis .
      qed
      have "write_aligned bdev blk p len = Some (r, bdev')"
        using b(1) b1(1) True \<open>?n \<noteq> 0\<close> by (simp add: write_aligned_def Let_def)
      then show ?thesis
        using ok' out same_setup_trans [OF b1(2) b(2)] b(3) b1(3) by (intro that [of r bdev']) simp_all
    qed
  qed
qed

lemma writebytes:
  assumes drv: "driver_is rd wr bsz bdev" and part: "part_ok cap bdev"
    and opened: "ph_refctr (bdev_bdif bdev) \<noteq> 0"
    and range: "unat off + unat len \<le> unat (part_size bdev)" and p: "length buf = unat len"
  obtains r bdev' where "ext4_block_writebytes bdev off buf len = Some (r, bdev')"
    "same_setup bdev bdev'" "bdev_bc bdev' = bdev_bc bdev"
    "r = EOK \<Longrightarrow> content (bdev_dev bdev') =
       overwrite (content (bdev_dev bdev)) (unat (part_offset bdev) + unat off) buf"
    "\<And>a. a + bsz \<le> unat (part_offset bdev) + unat off \<or>
         unat (part_offset bdev) + unat off + unat len + bsz \<le> a \<Longrightarrow>
       content (bdev_dev bdev') a = content (bdev_dev bdev) a"
proof -
  let ?bs = "ph_bsize (bdev_bdif bdev)" and ?c = "content (bdev_dev bdev)"
  let ?blk = "(off + part_offset bdev) div ucast ?bs"
  let ?un = "ucast (off AND ucast (?bs - 1)) :: u32"
  let ?A = "unat (part_offset bdev) + unat off"
  have bs: "unat ?bs = bsz" using drv by (simp add: driver_is_def)
  have un: "unat ?un = unat off mod bsz" by (rule bsz_mask [OF bs])
  note place = block_place [OF drv part range]
  have un_lt: "unat ?un < bsz" using bsz(1) by (simp add: un)
  have A: "unat ?blk * bsz + unat ?un = ?A" using place(1) by (simp only: un)
  have lim: "?A + unat len \<le> cap" using part range by (simp add: part_ok_def)
  show ?thesis
  proof (cases "?un = 0")
    case True
    then have A0: "unat ?blk * bsz = ?A" using A by simp
    have blk: "unat ?blk * bsz + unat len \<le> cap" using A0 lim by linarith
    obtain r bdev' where b: "write_aligned bdev ?blk buf len = Some (r, bdev')"
      "same_setup bdev bdev'" "bdev_bc bdev' = bdev_bc bdev"
      "r = EOK \<Longrightarrow> content (bdev_dev bdev') = overwrite ?c (unat ?blk * bsz) buf"
      "\<And>a. a < unat ?blk * bsz \<or> unat ?blk * bsz + unat len + bsz \<le> a \<Longrightarrow> content (bdev_dev bdev') a = ?c a"
      by (rule write_aligned [OF drv blk p]) blast
    have out: "content (bdev_dev bdev') a = ?c a" if "a + bsz \<le> ?A \<or> ?A + unat len + bsz \<le> a" for a
      by (rule b(5)) (use that A0 bsz(1) in linarith)
    have "ext4_block_writebytes bdev off buf len = Some (r, bdev')"
      using b(1) True opened place(2) by (simp add: ext4_block_writebytes_def Let_def)
    moreover have "content (bdev_dev bdev') = overwrite ?c ?A buf" if "r = EOK"
      using b(4) [OF that] by (simp only: A0)
    ultimately show ?thesis using b(2,3) out by (intro that [of r bdev'])
  next
    case False
    let ?wl = "if ?bs - ?un > len then len else ?bs - ?un"
    let ?p1 = "take (unat ?wl) buf"
    have sub: "unat (?bs - ?un) = bsz - unat ?un"
      using un_lt by (subst unat_minus) (simp_all add: word_le_nat_alt bs)
    have wl: "unat ?wl = min (bsz - unat ?un) (unat len)"
      using sub by (auto simp: word_less_nat_alt min_def)
    have l1: "length ?p1 = unat ?wl" using wl p by simp
    have blk: "unat ?blk * bsz + bsz \<le> cap"
      by (rule round_up [of _ ?A]) (use A lim False in \<open>simp_all add: unat_gt_0 [symmetric]\<close>)
    have fits: "unat ?un + length ?p1 \<le> bsz" using wl un_lt l1 by linarith
    obtain r1 bdev1 where b1: "bbuf_fill bdev ?blk = Some (r1, bdev1)"
      "same_setup bdev bdev1" "bdev_bc bdev1 = bdev_bc bdev" "content (bdev_dev bdev1) = ?c"
      "r1 = EOK \<Longrightarrow> \<exists>r2 bdev2.
         bbuf_flush (upd_bdif (\<lambda>i. i\<lparr>ph_bbuf := put_bytes (unat ?un) ?p1 (ph_bbuf i)\<rparr>) bdev1) ?blk = Some (r2, bdev2) \<and>
         same_setup bdev bdev2 \<and> bdev_bc bdev2 = bdev_bc bdev \<and>
         (r2 = EOK \<longrightarrow> content (bdev_dev bdev2) = overwrite ?c (unat ?blk * bsz + unat ?un) ?p1) \<and>
         (\<forall>a. a < unat ?blk * bsz \<or> unat ?blk * bsz + bsz \<le> a \<longrightarrow> content (bdev_dev bdev2) a = ?c a)"
      by (rule patch_block [OF drv blk fits]) blast
    have w0: "ext4_block_writebytes bdev off buf len = Some (r1, bdev1)" if "r1 \<noteq> EOK"
      using b1(1) that False opened place(2) by (simp add: ext4_block_writebytes_def Let_def)
    show ?thesis
    proof (cases "r1 = EOK")
      case r1: False
      show ?thesis using w0 [OF r1] b1(2-4) r1 by (intro that [of r1 bdev1]) simp_all
    next
      case r1: True
      from b1(5) [OF r1] obtain r2 bdev2 where b2:
        "bbuf_flush (upd_bdif (\<lambda>i. i\<lparr>ph_bbuf := put_bytes (unat ?un) ?p1 (ph_bbuf i)\<rparr>) bdev1) ?blk = Some (r2, bdev2)"
        "same_setup bdev bdev2" "bdev_bc bdev2 = bdev_bc bdev"
        "r2 = EOK \<longrightarrow> content (bdev_dev bdev2) = overwrite ?c (unat ?blk * bsz + unat ?un) ?p1"
        "\<forall>a. a < unat ?blk * bsz \<or> unat ?blk * bsz + bsz \<le> a \<longrightarrow> content (bdev_dev bdev2) a = ?c a" by blast
      have out2: "content (bdev_dev bdev2) a = ?c a" if "a + bsz \<le> ?A \<or> ?A + unat len + bsz \<le> a" for a
      proof -
        have "a < unat ?blk * bsz \<or> unat ?blk * bsz + bsz \<le> a" using that A un_lt by linarith
        then show ?thesis using b2(5) by blast
      qed
      have w1: "ext4_block_writebytes bdev off buf len =
          (if r2 \<noteq> EOK then Some (r2, bdev2)
           else write_aligned bdev2 (?blk + 1) (drop (unat ?wl) buf) (len - ?wl))"
        using b1(1) r1 b2(1) False opened place(2)
        by (simp only: ext4_block_writebytes_def Let_def if_not_P if_P not_False_eq_True
            Option.bind.bind_lunit prod.case simp_thms)
      show ?thesis
      proof (cases "r2 = EOK")
        case r2: False
        show ?thesis using w1 r2 b2(2,3) out2 by (intro that [of r2 bdev2]) simp_all
      next
        case r2: True
        have drv2: "driver_is rd wr bsz bdev2" using drv b2(2) by (simp add: same_setup_ok)
        have wl_le: "unat ?wl \<le> unat len" by (simp only: wl)
        then have left: "unat (len - ?wl) = unat len - unat ?wl"
          by (intro unat_minus) (simp only: word_le_nat_alt)
        have next_blk: "unat (?blk + 1) * bsz = unat ?blk * bsz + bsz"
          using blk_next [of ?blk] blk by simp
        have blk': "unat (?blk + 1) * bsz + unat (len - ?wl) \<le> cap"
          unfolding next_blk using lim A left wl un_lt blk by linarith
        have p2: "length (drop (unat ?wl) buf) = unat (len - ?wl)" by (simp only: left length_drop p)
        obtain r bdev' where b: "write_aligned bdev2 (?blk + 1) (drop (unat ?wl) buf) (len - ?wl) = Some (r, bdev')"
          "same_setup bdev2 bdev'" "bdev_bc bdev' = bdev_bc bdev2"
          "r = EOK \<Longrightarrow> content (bdev_dev bdev') =
             overwrite (content (bdev_dev bdev2)) (unat (?blk + 1) * bsz) (drop (unat ?wl) buf)"
          "\<And>a. a < unat (?blk + 1) * bsz \<or> unat (?blk + 1) * bsz + unat (len - ?wl) + bsz \<le> a \<Longrightarrow>
             content (bdev_dev bdev') a = content (bdev_dev bdev2) a"
          by (rule write_aligned [OF drv2 blk' p2]) blast
        have ok': "content (bdev_dev bdev') = overwrite ?c ?A buf" if r: "r = EOK"
        proof (cases "unat ?wl = unat len")
          case True
          then have "drop (unat ?wl) buf = []" "?p1 = buf" using p by simp_all
          then show ?thesis using b(4) [OF r] b2(4) r2 by (simp only: overwrite_Nil A simp_thms)
        next
          case False
          then have "unat ?wl = bsz - unat ?un" using wl by linarith
          then have "unat (?blk + 1) * bsz = ?A + length ?p1" using A un_lt unfolding next_blk l1 by linarith
          then show ?thesis
            using b(4) [OF r] b2(4) r2 overwrite_overwrite [of ?c ?A ?p1 "drop (unat ?wl) buf"]
            by (simp only: A append_take_drop_id simp_thms)
        qed
        have out: "content (bdev_dev bdev') a = ?c a" if a: "a + bsz \<le> ?A \<or> ?A + unat len + bsz \<le> a" for a
        proof (cases "unat ?wl = unat len")
          case True
          then have "len - ?wl = 0" using left by (simp add: unat_eq_zero)
          then have "bdev' = bdev2" using b(1) by (simp add: write_aligned_def write_rest_def)
          then show ?thesis using out2 [OF a] by simp
        next
          case False
          have "content (bdev_dev bdev') a = content (bdev_dev bdev2) a"
            by (rule b(5)) (unfold next_blk left, use False a A wl un_lt in linarith)
          then show ?thesis using out2 [OF a] by simp
        qed
        show ?thesis
          using w1 r2 b(1) ok' out same_setup_trans [OF b2(2) b(2)] b(3) b2(3)
          by (intro that [of r bdev']) simp_all
      qed
    qed
  qed
qed

end

end
