(* ===== verification/Cached.thy ===== *)
theory Cached
  imports Device
begin

text \<open>
  The cache is invisible: over any driver that keeps its contract, a client of
  \<open>ext4_block_get\<close> and \<open>ext4_block_set\<close> sees one array of blocks (\<open>bview\<close>), which reading,
  evicting, writing back and flushing leave as it is, whether the driver's writes succeed
  or fail.
\<close>

section \<open>Views\<close>

text \<open>Logical block \<open>l\<close> on the medium, and as a client sees it: its cached copy, if any, wins.\<close>

definition blk_pos :: "'d ext4_blockdev \<Rightarrow> u64 \<Rightarrow> nat" where
  "blk_pos bdev l = unat (part_offset bdev) + unat l * unat (lg_bsize bdev)"

definition dev_block :: "('d \<Rightarrow> nat \<Rightarrow> u8) \<Rightarrow> 'd ext4_blockdev \<Rightarrow> u64 \<Rightarrow> bytes" where
  "dev_block content bdev l =
     region (content (bdev_dev bdev)) (blk_pos bdev l) (unat (lg_bsize bdev))"

definition bview :: "('d \<Rightarrow> nat \<Rightarrow> u8) \<Rightarrow> 'd ext4_blockdev \<Rightarrow> u64 \<Rightarrow> bytes" where
  "bview content bdev l =
     (case bc_cached (bdev_bc bdev) l of Some data \<Rightarrow> data | None \<Rightarrow> dev_block content bdev l)"

text \<open>A device in order: the cache's invariant holds and a clean cached block is the one on the medium.\<close>

definition bdev_ok ::
    "('d \<Rightarrow> u64 \<Rightarrow> u32 \<Rightarrow> errno \<times> bytes \<times> 'd) \<Rightarrow> ('d \<Rightarrow> bytes \<Rightarrow> u64 \<Rightarrow> u32 \<Rightarrow> errno \<times> 'd) \<Rightarrow> nat \<Rightarrow> nat \<Rightarrow>
     ('d \<Rightarrow> nat \<Rightarrow> u8) \<Rightarrow> 'd ext4_blockdev \<Rightarrow> bool" where
  "bdev_ok rd wr bsz cap content bdev \<longleftrightarrow>
     driver_is rd wr bsz bdev \<and> part_ok cap bdev \<and> lg_ok bdev \<and>
     bc_inv (bdev_bc bdev) \<and> bc_itemsize (bdev_bc bdev) = lg_bsize bdev \<and>
     (\<forall>l \<in> dom (bc_bufs (bdev_bc bdev)). l < lg_bcnt bdev) \<and>
     (\<forall>l data. bc_cached (bdev_bc bdev) l = Some data \<and> \<not> bc_dirty (bdev_bc bdev) l \<longrightarrow>
        data = dev_block content bdev l)"

text \<open>
  Nothing a client can see has changed, and nothing outside the partition; blocks may only
  have become clean.
\<close>

definition same_view :: "('d \<Rightarrow> nat \<Rightarrow> u8) \<Rightarrow> 'd ext4_blockdev \<Rightarrow> 'd ext4_blockdev \<Rightarrow> bool" where
  "same_view content bdev bdev' \<longleftrightarrow>
     same_setup bdev bdev' \<and>
     (\<forall>l. l < lg_bcnt bdev \<longrightarrow> bview content bdev' l = bview content bdev l) \<and>
     (\<forall>l. bc_dirty (bdev_bc bdev') l \<longrightarrow> bc_dirty (bdev_bc bdev) l) \<and>
     (\<forall>a. a < unat (part_offset bdev) \<or> unat (part_offset bdev) + unat (part_size bdev) \<le> a \<longrightarrow>
        content (bdev_dev bdev') a = content (bdev_dev bdev) a)"

lemma same_view_refl [simp]: "same_view content bdev bdev"
  by (simp add: same_view_def)

lemma same_view_setup: "same_view content a b \<Longrightarrow> same_setup a b"
  by (simp add: same_view_def)

lemma same_setup_fields:
  "same_setup a b \<Longrightarrow> part_offset b = part_offset a \<and> part_size b = part_size a \<and>
     lg_bsize b = lg_bsize a \<and> lg_bcnt b = lg_bcnt a \<and> cache_write_back b = cache_write_back a \<and>
     ph_refctr (bdev_bdif b) = ph_refctr (bdev_bdif a)"
  by (simp add: same_setup_def)

lemma same_view_trans:
  assumes "same_view content a b" "same_view content b c"
  shows "same_view content a c"
  using assms same_setup_trans [of a b c] same_setup_fields [of a b]
  by (simp add: same_view_def)

lemma same_setup_pos: "same_setup a b \<Longrightarrow> blk_pos b l = blk_pos a l"
  by (simp add: blk_pos_def same_setup_def)

text \<open>Changing the cache only.\<close>

lemma dev_block_upd_bc [simp]: "dev_block content (upd_bc f bdev) l = dev_block content bdev l"
  by (simp add: dev_block_def blk_pos_def)

lemma bview_upd_bc:
  "bview content (upd_bc f bdev) l =
     (case bc_cached (f (bdev_bc bdev)) l of Some data \<Rightarrow> data | None \<Rightarrow> dev_block content bdev l)"
  by (simp add: bview_def cong: option.case_cong)

lemma dev_block_bc [simp]: "dev_block content (bdev\<lparr>bdev_bc := bc\<rparr>) l = dev_block content bdev l"
  by (simp add: dev_block_def blk_pos_def)

lemma dev_block_cong:
  "same_setup a b \<Longrightarrow> content (bdev_dev b) = content (bdev_dev a) \<Longrightarrow>
     dev_block content b = dev_block content a"
  by (rule ext) (simp add: dev_block_def blk_pos_def same_setup_def)

lemma bdev_okI:
  assumes ok: "bdev_ok rd wr bsz cap content bdev" and same: "same_setup bdev bdev'"
    and inv: "bc_inv (bdev_bc bdev')" "bc_itemsize (bdev_bc bdev') = lg_bsize bdev"
    and dom: "\<And>l. l \<in> dom (bc_bufs (bdev_bc bdev')) \<Longrightarrow> l < lg_bcnt bdev"
    and coh: "\<And>l data. bc_cached (bdev_bc bdev') l = Some data \<Longrightarrow> \<not> bc_dirty (bdev_bc bdev') l \<Longrightarrow>
      data = dev_block content bdev' l"
  shows "bdev_ok rd wr bsz cap content bdev'"
  using ok inv dom coh same_setup_fields [OF same]
  by (simp add: bdev_ok_def same_setup_ok [OF same] Ball_def)

text \<open>Both conclusions about a step that leaves the medium alone, from the cache's views.\<close>

lemma step_bc:
  assumes ok: "bdev_ok rd wr bsz cap content bdev"
    and dev: "same_setup bdev bdev'" "content (bdev_dev bdev') = content (bdev_dev bdev)"
    and inv: "bc_inv (bdev_bc bdev')" "bc_itemsize (bdev_bc bdev') = bc_itemsize (bdev_bc bdev)"
      "dom (bc_bufs (bdev_bc bdev')) \<subseteq> insert l (dom (bc_bufs (bdev_bc bdev)))" "l < lg_bcnt bdev"
    and cached: "\<And>k. bc_cached (bdev_bc bdev') k = bc_cached (bdev_bc bdev) k \<or>
        \<not> bc_dirty (bdev_bc bdev) k \<and> (bc_cached (bdev_bc bdev') k = None \<or>
          bc_cached (bdev_bc bdev') k = Some (dev_block content bdev k))"
    and dirty: "\<And>k. bc_dirty (bdev_bc bdev') k = bc_dirty (bdev_bc bdev) k \<or>
        \<not> bc_dirty (bdev_bc bdev') k \<and> (bc_cached (bdev_bc bdev') k = None \<or>
          bc_cached (bdev_bc bdev') k = Some (dev_block content bdev k))"
  shows "bdev_ok rd wr bsz cap content bdev'" "same_view content bdev bdev'"
proof -
  have dblk: "dev_block content bdev' k = dev_block content bdev k" for k
    by (simp add: dev_block_cong [OF dev])
  have coh: "bc_cached (bdev_bc bdev) k = Some data \<Longrightarrow> \<not> bc_dirty (bdev_bc bdev) k \<Longrightarrow>
      data = dev_block content bdev k" for k data
    using ok by (simp add: bdev_ok_def)
  have "bview content bdev' k = bview content bdev k" for k
    using cached [of k] coh [of k] by (auto simp: bview_def dblk split: option.splits)
  moreover have "bc_dirty (bdev_bc bdev') k \<Longrightarrow> bc_dirty (bdev_bc bdev) k" for k
    using dirty [of k] by auto
  ultimately show "same_view content bdev bdev'"
    using dev by (simp add: same_view_def)
  have "data = dev_block content bdev' k"
    if "bc_cached (bdev_bc bdev') k = Some data" "\<not> bc_dirty (bdev_bc bdev') k" for k data
    using that cached [of k] dirty [of k] coh [of k] by (auto simp: dblk)
  moreover have "k < lg_bcnt bdev'" if "k \<in> dom (bc_bufs (bdev_bc bdev'))" for k
  proof -
    have "k = l \<or> k \<in> dom (bc_bufs (bdev_bc bdev))" using inv(3) that by blast
    then show ?thesis
      using ok inv(4) same_setup_fields [OF dev(1)] by (auto simp: bdev_ok_def)
  qed
  ultimately show "bdev_ok rd wr bsz cap content bdev'"
    using ok inv(1,2) same_setup_fields [OF dev(1)]
    by (simp add: bdev_ok_def same_setup_ok [OF dev(1)])
qed

lemma bdev_okD:
  assumes "bdev_ok rd wr bsz cap content bdev"
  shows "driver_is rd wr bsz bdev" "part_ok cap bdev" "lg_ok bdev" "bc_inv (bdev_bc bdev)"
    "bc_itemsize (bdev_bc bdev) = lg_bsize bdev"
    "bc_bufs (bdev_bc bdev) l = Some b \<Longrightarrow> l < lg_bcnt bdev"
    "bc_cached (bdev_bc bdev) l = Some data \<Longrightarrow> \<not> bc_dirty (bdev_bc bdev) l \<Longrightarrow>
       data = dev_block content bdev l"
  using assms by (auto simp: bdev_ok_def)

text \<open>Referenced buffers outside of \<open>L\<close> stay as they are, and no buffer becomes temporary.\<close>

definition frame :: "u64 set \<Rightarrow> 'd ext4_blockdev \<Rightarrow> 'd ext4_blockdev \<Rightarrow> bool" where
  "frame L bdev bdev' \<longleftrightarrow>
     (\<forall>k. k \<notin> L \<and> bc_refs (bdev_bc bdev) k \<noteq> 0 \<longrightarrow> bc_bufs (bdev_bc bdev') k = bc_bufs (bdev_bc bdev) k) \<and>
     (\<forall>k. bc_tmp (bdev_bc bdev') k \<longrightarrow> bc_tmp (bdev_bc bdev) k)"

lemma frame_refl [simp]: "frame L a a"
  by (simp add: frame_def)

lemma frame_trans: "frame L a b \<Longrightarrow> frame L b c \<Longrightarrow> frame L a c"
  unfolding frame_def by (metis (no_types) bc_refs_def)

lemma frame_mono: "frame L a b \<Longrightarrow> L \<subseteq> L' \<Longrightarrow> frame L' a b"
  by (auto simp: frame_def)

lemma frame_bc [simp]:
  "bdev_bc b = bdev_bc a \<Longrightarrow> frame L a b"
  "frame L a (upd_bc (\<lambda>bc. bc\<lparr>bc_dont_shake := x\<rparr>) b) = frame L a b"
  "frame L (upd_bc (\<lambda>bc. bc\<lparr>bc_dont_shake := x\<rparr>) a) b = frame L a b"
  by (simp_all add: frame_def bc_refs_def bc_tmp_def)

text \<open>A step that changes one buffer, and keeps its mark.\<close>

lemma frame_at:
  assumes "\<And>k. k \<noteq> l \<Longrightarrow> bc_bufs (bdev_bc b) k = bc_bufs (bdev_bc a) k"
    and "l \<in> L \<or> bc_refs (bdev_bc a) l = 0" "bc_tmp (bdev_bc b) l \<Longrightarrow> bc_tmp (bdev_bc a) l"
  shows "frame L a b"
  unfolding frame_def
proof (intro conjI allI impI)
  fix k
  show "bc_bufs (bdev_bc b) k = bc_bufs (bdev_bc a) k" if "k \<notin> L \<and> bc_refs (bdev_bc a) k \<noteq> 0"
    using that assms(1) [of k] assms(2) by (cases "k = l") auto
  show "bc_tmp (bdev_bc a) k" if "bc_tmp (bdev_bc b) k"
    using that assms(1) [of k] assms(3) by (cases "k = l") (auto simp: bc_tmp_def)
qed

text \<open>An eviction: on top of that, the clients' references are as before.\<close>

definition evicted :: "('d \<Rightarrow> nat \<Rightarrow> u8) \<Rightarrow> 'd ext4_blockdev \<Rightarrow> 'd ext4_blockdev \<Rightarrow> bool" where
  "evicted content bdev bdev' \<longleftrightarrow>
     same_view content bdev bdev' \<and> bc_refs (bdev_bc bdev') = bc_refs (bdev_bc bdev) \<and>
     bc_lru_ctr (bdev_bc bdev') = bc_lru_ctr (bdev_bc bdev) \<and> frame {} bdev bdev'"

definition bc_dom_eq :: "'d ext4_blockdev \<Rightarrow> 'd ext4_blockdev \<Rightarrow> bool" where
  "bc_dom_eq bdev bdev' \<longleftrightarrow> dom (bc_bufs (bdev_bc bdev')) = dom (bc_bufs (bdev_bc bdev))"

lemma evicted_trans: "evicted content a b \<Longrightarrow> evicted content b c \<Longrightarrow> evicted content a c"
  using same_view_trans [of content a b c] frame_trans [of "{}" a b c] by (simp add: evicted_def)

lemma evicted_refl [simp]: "evicted content a a"
  by (simp add: evicted_def)

section \<open>Transfers of logical blocks\<close>

context block_driver
begin

lemma blk_geometry:
  assumes drv: "driver_is rd wr bsz bdev" and part: "part_ok cap bdev" and lg: "lg_ok bdev"
    and l: "l < lg_bcnt bdev"
  shows "unat ((l * ucast (lg_bsize bdev) + part_offset bdev) div ucast (ph_bsize (bdev_bdif bdev))) * bsz
      = blk_pos bdev l"
    "unat (lg_bsize bdev div ph_bsize (bdev_bdif bdev) * 1) * bsz = unat (lg_bsize bdev)"
    "transfer_ok bsz cap ((l * ucast (lg_bsize bdev) + part_offset bdev) div ucast (ph_bsize (bdev_bdif bdev)))
       (lg_bsize bdev div ph_bsize (bdev_bdif bdev) * 1)"
    "blk_pos bdev l + unat (lg_bsize bdev) \<le> unat (part_offset bdev) + unat (part_size bdev)"
proof -
  let ?L = "unat (lg_bsize bdev)" and ?P = "unat (part_offset bdev)"
  have bs: "unat (ph_bsize (bdev_bdif bdev)) = bsz" using drv by (simp add: driver_is_def)
  have "Suc (unat l) \<le> unat (lg_bcnt bdev)" using l by (simp add: word_less_nat_alt)
  then have "Suc (unat l) * ?L \<le> unat (lg_bcnt bdev) * ?L" by (rule mult_le_mono1)
  then have end1: "unat l * ?L + ?L \<le> unat (part_size bdev)" using lg by (simp add: lg_ok_def)
  then show fits: "blk_pos bdev l + ?L \<le> ?P + unat (part_size bdev)" by (simp add: blk_pos_def)
  have lim: "?P + unat (part_size bdev) \<le> cap" "cap < 2 ^ 63"
    using part cap(2) by (simp_all add: part_ok_def)
  have b64: "(2::nat) ^ 63 < 2 ^ 64" by simp
  have m: "unat (l * ucast (lg_bsize bdev)) = unat l * ?L"
    using end1 lim b64 by (subst unat_word_ariths(2)) (simp add: unat_ucast_up_eq)
  have s: "unat (l * ucast (lg_bsize bdev) + part_offset bdev) = blk_pos bdev l"
    using end1 lim b64 by (subst unat_word_ariths(1)) (simp add: m blk_pos_def)
  have d: "bsz dvd blk_pos bdev l"
    using lg part by (simp add: blk_pos_def lg_ok_def part_ok_def bs)
  show pos: "unat ((l * ucast (lg_bsize bdev) + part_offset bdev) div ucast (ph_bsize (bdev_bdif bdev))) * bsz
      = blk_pos bdev l"
    using d by (simp add: unat_div s unat_ucast_up_eq bs)
  show cnt: "unat (lg_bsize bdev div ph_bsize (bdev_bdif bdev) * 1) * bsz = ?L"
    using lg by (simp add: unat_div bs lg_ok_def)
  have "?L < 2 ^ 32" using unsigned_less [of "lg_bsize bdev", where 'a = nat] by simp
  then show "transfer_ok bsz cap ((l * ucast (lg_bsize bdev) + part_offset bdev) div ucast (ph_bsize (bdev_bdif bdev)))
       (lg_bsize bdev div ph_bsize (bdev_bdif bdev) * 1)"
    unfolding transfer_ok_def pos cnt using fits lim by linarith
qed

lemma get_direct:
  assumes drv: "driver_is rd wr bsz bdev" and part: "part_ok cap bdev" and lg: "lg_ok bdev"
    and l: "l < lg_bcnt bdev"
  obtains r bs bdev' where "ext4_blocks_get_direct bdev l 1 = Some (r, bs, bdev')"
    "same_setup bdev bdev'" "bdev_bc bdev' = bdev_bc bdev"
    "content (bdev_dev bdev') = content (bdev_dev bdev)" "length bs = unat (lg_bsize bdev)"
    "r = EOK \<Longrightarrow> bs = dev_block content bdev l"
proof -
  note G = blk_geometry [OF drv part lg l]
  obtain r bs bdev' where b: "ext4_bdif_bread bdev
      ((l * ucast (lg_bsize bdev) + part_offset bdev) div ucast (ph_bsize (bdev_bdif bdev)))
      (lg_bsize bdev div ph_bsize (bdev_bdif bdev) * 1) = Some (r, bs, bdev')"
    "same_setup bdev bdev'" "bdev_bc bdev' = bdev_bc bdev"
    "content (bdev_dev bdev') = content (bdev_dev bdev)" "length bs = unat (lg_bsize bdev)"
    "r = EOK \<Longrightarrow> bs = region (content (bdev_dev bdev)) (blk_pos bdev l) (unat (lg_bsize bdev))"
    by (rule bread [OF drv G(3)]) (unfold G(1,2), blast)
  show ?thesis
    by (rule that [of r bs bdev']) (use b in \<open>simp_all add: ext4_blocks_get_direct_def dev_block_def\<close>)
qed

lemma set_direct:
  assumes drv: "driver_is rd wr bsz bdev" and part: "part_ok cap bdev" and lg: "lg_ok bdev"
    and l: "l < lg_bcnt bdev" and len: "length data = unat (lg_bsize bdev)"
  obtains r bdev' where "ext4_blocks_set_direct bdev data l 1 = Some (r, bdev')"
    "same_setup bdev bdev'" "bdev_bc bdev' = bdev_bc bdev"
    "r = EOK \<Longrightarrow> dev_block content bdev' l = data"
    "\<And>k. k \<noteq> l \<Longrightarrow> dev_block content bdev' k = dev_block content bdev k"
    "\<And>a. a < unat (part_offset bdev) \<or> unat (part_offset bdev) + unat (part_size bdev) \<le> a \<Longrightarrow>
       content (bdev_dev bdev') a = content (bdev_dev bdev) a"
proof -
  note G = blk_geometry [OF drv part lg l]
  have dl: "length data = unat (lg_bsize bdev div ph_bsize (bdev_bdif bdev) * 1) * bsz"
    by (simp only: G(2) len)
  obtain r bdev' where b: "ext4_bdif_bwrite bdev data
      ((l * ucast (lg_bsize bdev) + part_offset bdev) div ucast (ph_bsize (bdev_bdif bdev)))
      (lg_bsize bdev div ph_bsize (bdev_bdif bdev) * 1) = Some (r, bdev')"
    "same_setup bdev bdev'" "bdev_bc bdev' = bdev_bc bdev"
    "r = EOK \<Longrightarrow> content (bdev_dev bdev') = overwrite (content (bdev_dev bdev)) (blk_pos bdev l) data"
    "\<And>a. a < blk_pos bdev l \<or> blk_pos bdev l + unat (lg_bsize bdev) \<le> a \<Longrightarrow>
       content (bdev_dev bdev') a = content (bdev_dev bdev) a"
    by (rule bwrite [OF drv G(3) dl]) (unfold G(1,2), blast)
  have other: "dev_block content bdev' k = dev_block content bdev k" if "k \<noteq> l" for k
  proof -
    have "unat k < unat l \<or> unat l < unat k" using that by (auto simp: word_unat_eq_iff)
    then have "Suc (unat k) * unat (lg_bsize bdev) \<le> unat l * unat (lg_bsize bdev) \<or>
        Suc (unat l) * unat (lg_bsize bdev) \<le> unat k * unat (lg_bsize bdev)"
      by (metis Suc_leI mult_le_mono1)
    then have apart: "blk_pos bdev k + unat (lg_bsize bdev) \<le> blk_pos bdev l \<or>
        blk_pos bdev l + unat (lg_bsize bdev) \<le> blk_pos bdev k" by (auto simp: blk_pos_def)
    have "region (content (bdev_dev bdev')) (blk_pos bdev k) (unat (lg_bsize bdev)) =
        region (content (bdev_dev bdev)) (blk_pos bdev k) (unat (lg_bsize bdev))"
      by (rule region_cong, rule b(5)) (use apart in linarith)
    then show ?thesis
      using same_setup_fields [OF b(2)] same_setup_pos [OF b(2)] by (simp add: dev_block_def)
  qed
  have "dev_block content bdev' l = data" if "r = EOK"
    using b(4) [OF that] same_setup_fields [OF b(2)] same_setup_pos [OF b(2)] len
    by (simp add: dev_block_def)
  moreover have "content (bdev_dev bdev') a = content (bdev_dev bdev) a"
    if "a < unat (part_offset bdev) \<or> unat (part_offset bdev) + unat (part_size bdev) \<le> a" for a
    by (rule b(5)) (use that G(4) in \<open>auto simp: blk_pos_def\<close>)
  moreover have "ext4_blocks_set_direct bdev data l 1 = Some (r, bdev')"
    using b(1) by (simp add: ext4_blocks_set_direct_def)
  ultimately show ?thesis using b(2,3) other by (intro that [of r bdev'])
qed

section \<open>Writing one buffer out\<close>

lemma call_end_write_none: "buf_end_write (buf_at (bdev_bc bdev) l) = None \<Longrightarrow> call_end_write bdev l r = bdev"
  by (simp add: call_end_write_def)

lemma flush_buf:
  assumes ok: "bdev_ok rd wr bsz cap content bdev" and l: "bc_bufs (bdev_bc bdev) l = Some b"
  obtains r bdev' where "ext4_block_flush_buf bdev l = Some (r, bdev')"
    "bdev_ok rd wr bsz cap content bdev'" "same_view content bdev bdev'"
    "bdev_bc bdev' = (if BC_DIRTY \<in> buf_flags b \<and> r = EOK then cleaned l (bdev_bc bdev) else bdev_bc bdev)"
    "BC_DIRTY \<notin> buf_flags b \<Longrightarrow> r = EOK"
    "r = EOK \<Longrightarrow> dev_block content bdev' l = bview content bdev l"
proof -
  note D = bdev_okD [OF ok]
  have bok: "buf_ok (bdev_bc bdev) l b" by (rule bc_invD(3) [OF D(4) l])
  have at: "buf_at (bdev_bc bdev) l = b" by (rule buf_at_Some [OF l])
  show ?thesis
  proof (cases "BC_DIRTY \<in> buf_flags b")
    case False
    then have "dev_block content bdev l = bview content bdev l"
      using D(7) [of l] l by (auto simp: bview_def bc_dirty_def split: option.splits)
    then show ?thesis using False ok l at
      by (intro that [of EOK bdev]) (simp_all add: ext4_block_flush_buf_def ext4_bcache_test_flag_def)
  next
    case True
    then have up: "BC_UPTODATE \<in> buf_flags b" and bl: "buf_lba b = l"
      and dl: "length (buf_data b) = unat (lg_bsize bdev)" and ew: "buf_end_write b = None"
      using bok D(5) by (simp_all add: buf_ok_def)
    have cl: "bc_cached (bdev_bc bdev) l = Some (buf_data b)" using up l by (simp add: bc_cached_def)
    obtain r bdev1 where w: "ext4_blocks_set_direct bdev (buf_data b) l 1 = Some (r, bdev1)"
      "same_setup bdev bdev1" "bdev_bc bdev1 = bdev_bc bdev"
      "r = EOK \<Longrightarrow> dev_block content bdev1 l = buf_data b"
      "\<And>k. k \<noteq> l \<Longrightarrow> dev_block content bdev1 k = dev_block content bdev k"
      "\<And>a. a < unat (part_offset bdev) \<or> unat (part_offset bdev) + unat (part_size bdev) \<le> a \<Longrightarrow>
         content (bdev_dev bdev1) a = content (bdev_dev bdev) a"
      by (rule set_direct [OF D(1,2,3) D(6) [OF l] dl]) blast
    have out: "\<forall>a. a < unat (part_offset bdev) \<or> unat (part_offset bdev) + unat (part_size bdev) \<le> a \<longrightarrow>
         content (bdev_dev bdev1) a = content (bdev_dev bdev) a" using w(6) by blast
    have coh: "k \<noteq> l \<Longrightarrow> bc_cached (bdev_bc bdev) k = Some data \<Longrightarrow> \<not> bc_dirty (bdev_bc bdev) k \<Longrightarrow>
      data = dev_block content bdev1 k" for k data using D(7) [of k] w(5) [of k] by simp
    have dirty: "bc_dirty (bdev_bc bdev) l" using l True by (simp add: bc_dirty_def)
    have view: "(case bc_cached (bdev_bc bdev) k of Some data \<Rightarrow> data | None \<Rightarrow> dev_block content bdev1 k) =
        bview content bdev k" for k
      using cl w(5) [of k] by (cases "k = l") (auto simp: bview_def split: option.splits)
    show ?thesis
    proof (cases "r = EOK")
      case False
      have eq: "ext4_block_flush_buf bdev l = Some (r, bdev1)"
        using w(1) False True up at bl ew w(3)
        by (simp add: ext4_block_flush_buf_def ext4_bcache_test_flag_def call_end_write_none)
      have "data = dev_block content bdev1 k"
        if "bc_cached (bdev_bc bdev) k = Some data" "\<not> bc_dirty (bdev_bc bdev) k" for k data
        by (rule coh) (use that dirty in auto)
      then have "bdev_ok rd wr bsz cap content bdev1"
        by (intro bdev_okI [OF ok w(2)]) (use D(4,5,6) in \<open>auto simp: w(3)\<close>)
      moreover have "same_view content bdev bdev1"
        using w(2,3) out view by (simp add: same_view_def bview_def)
      ultimately show ?thesis using eq False True w(3) by (intro that [of r bdev1]) simp_all
    next
      case r: True
      let ?b2 = "upd_bc (cleaned l) bdev1"
      have inv2: "bc_inv (cleaned l (bdev_bc bdev))" by (rule cleaned_inv [OF D(4) l])
      note F = cleaned_fields [OF D(4) l] and V = cleaned_views [OF D(4) l]
      have "buf_end_write (buf_at (cleaned l (bdev_bc bdev)) l) = None"
        using ew by (simp add: buf_at_def F)
      then have "call_end_write ?b2 l r = ?b2" by (intro call_end_write_none) (simp add: w(3))
      then have eq: "ext4_block_flush_buf bdev l = Some (EOK, ?b2)"
        using w(1) r True up at bl by (simp add: ext4_block_flush_buf_def ext4_bcache_test_flag_def
            upd_bc_def cleaned_def)
      have same2: "same_setup bdev ?b2" using w(2) by simp
      have "bdev_ok rd wr bsz cap content ?b2"
      proof -
        have "data = dev_block content bdev1 k"
          if "bc_cached (bdev_bc bdev) k = Some data" "\<not> bc_dirty (bdev_bc bdev) k \<or> k = l" for k data
          using that cl w(4) [OF r] coh [of k data] by (cases "k = l") auto
        then show ?thesis
          by (intro bdev_okI [OF ok same2])
            (use inv2 D(5) D(6) [OF l] D(6) in \<open>auto simp: w(3) F V split: if_splits\<close>)
      qed
      moreover have "same_view content bdev ?b2"
        using same2 out view w(3) by (auto simp: same_view_def bview_upd_bc V split: if_splits)
      moreover have "dev_block content ?b2 l = bview content bdev l"
        using w(4) [OF r] cl by (simp add: bview_def)
      ultimately show ?thesis using eq True w(3) by (intro that [of EOK ?b2]) simp_all
    qed
  qed
qed

section \<open>Eviction\<close>

lemma drop_clean:
  assumes ok: "bdev_ok rd wr bsz cap content bdev" and l: "bc_bufs (bdev_bc bdev) l = Some b"
    and clean: "BC_DIRTY \<notin> buf_flags b"
  shows "bdev_ok rd wr bsz cap content (upd_bc (\<lambda>bc. ext4_bcache_drop_buf bc l) bdev)"
    "same_view content bdev (upd_bc (\<lambda>bc. ext4_bcache_drop_buf bc l) bdev)"
  by (rule step_bc [OF ok, where l = l],
      use drop_buf_inv [OF bdev_okD(4) [OF ok] l] bdev_okD(6) [OF ok l] clean l in
        \<open>auto simp: drop_buf_bufs drop_buf_views bc_dirty_def\<close>)+

lemma drop_evicted:
  assumes "bdev_ok rd wr bsz cap content bdev" "bc_bufs (bdev_bc bdev) l = Some b"
    "BC_DIRTY \<notin> buf_flags b" "buf_refctr b = 0"
  shows "evicted content bdev (upd_bc (\<lambda>bc. ext4_bcache_drop_buf bc l) bdev)"
  using drop_clean(2) [OF assms(1-3)] assms(2,4)
    frame_at [where l = l and L = "{}" and a = bdev and b = "upd_bc (\<lambda>bc. ext4_bcache_drop_buf bc l) bdev"]
  by (auto simp: evicted_def drop_buf_views drop_buf_bufs bc_refs_def bc_tmp_def fun_eq_iff)

lemma flush_evicted:
  assumes ok: "bdev_ok rd wr bsz cap content bdev" and l: "bc_bufs (bdev_bc bdev) l = Some b"
    and ref: "buf_refctr b = 0" and sv: "same_view content bdev bdev'"
    and bc: "bdev_bc bdev' = (if P then cleaned l (bdev_bc bdev) else bdev_bc bdev)"
  shows "evicted content bdev bdev'"
proof -
  have "frame {} bdev bdev'"
    by (rule frame_at [where l = l])
      (use l ref bc cleaned_fields [OF bdev_okD(4) [OF ok] l] in \<open>auto simp: bc_refs_def bc_tmp_def split: if_splits\<close>)
  then show ?thesis
    using sv bc cleaned_views [OF bdev_okD(4) [OF ok] l] cleaned_fields [OF bdev_okD(4) [OF ok] l]
    by (auto simp: evicted_def)
qed

lemma shake_loop:
  assumes "bdev_ok rd wr bsz cap content bdev"
  shows "\<exists>r bdev'. shake_loop bdev = Some (r, bdev') \<and> bdev_ok rd wr bsz cap content bdev' \<and>
     evicted content bdev bdev' \<and>
     (r = EOK \<longrightarrow> bc_lru_root (bdev_bc bdev') = [] \<or> \<not> ext4_bcache_is_full (bdev_bc bdev'))"
  using assms
proof (induction "length (bc_lru_root (bdev_bc bdev))" arbitrary: bdev rule: less_induct)
  case (less bdev)
  let ?bc = "bdev_bc bdev"
  note D = bdev_okD [OF less.prems]
  show ?case
  proof (cases "bc_lru_root ?bc")
    case Nil
    then show ?thesis using less.prems by (subst shake_loop.simps) simp
  next
    case (Cons l ls)
    show ?thesis
    proof (cases "ext4_bcache_is_full ?bc")
      case False
      then show ?thesis using less.prems by (subst shake_loop.simps) simp
    next
      case True
      have "l \<in> set (bc_lru_root ?bc)" using Cons by simp
      then obtain b where l: "bc_bufs ?bc l = Some b" and ref: "buf_refctr b = 0"
        using bc_invD(6) [OF D(4)] by (auto simp: buf_at_Some)
      have at: "buf_at ?bc l = b" by (rule buf_at_Some [OF l])
      have low: "ext4_buf_lowest_lru ?bc = Some l" using Cons by (simp add: ext4_buf_lowest_lru_def)
      obtain r1 bdev1 where f: "ext4_block_flush_buf bdev l = Some (r1, bdev1)"
        "bdev_ok rd wr bsz cap content bdev1" "same_view content bdev bdev1"
        "bdev_bc bdev1 = (if BC_DIRTY \<in> buf_flags b \<and> r1 = EOK then cleaned l ?bc else ?bc)"
        "BC_DIRTY \<notin> buf_flags b \<Longrightarrow> r1 = EOK"
        by (rule flush_buf [OF less.prems l]) blast
      have ev1: "evicted content bdev bdev1" by (rule flush_evicted [OF less.prems l ref f(3,4)])
      show ?thesis
      proof (cases "r1 = EOK")
        case False
        then have "shake_loop bdev = Some (r1, bdev1)"
          using f(1,5) at low True Cons
          by (subst shake_loop.simps) (auto simp: ext4_bcache_test_flag_def)
        then show ?thesis using f(2) ev1 False by auto
      next
        case r1: True
        let ?bdev2 = "upd_bc (\<lambda>bc. ext4_bcache_drop_buf bc l) (if BC_DIRTY \<in> buf_flags b then bdev1 else bdev)"
        have step: "shake_loop bdev = shake_loop ?bdev2"
          using f(1) r1 at low True Cons
          by (subst shake_loop.simps) (auto simp: ext4_bcache_test_flag_def)
        let ?bdev0 = "if BC_DIRTY \<in> buf_flags b then bdev1 else bdev"
        have ok0: "bdev_ok rd wr bsz cap content ?bdev0" using f(2) less.prems by simp
        have ev0: "evicted content bdev ?bdev0" using ev1 by (auto simp: evicted_def)
        obtain b0 where b0: "bc_bufs (bdev_bc ?bdev0) l = Some b0" "BC_DIRTY \<notin> buf_flags b0" "buf_refctr b0 = 0"
          using f(4) r1 l ref by (cases "BC_DIRTY \<in> buf_flags b") (simp_all add: cleaned_fields [OF D(4) l])
        have lru0: "bc_lru_root (bdev_bc ?bdev0) = bc_lru_root ?bc"
          using f(4) r1 by (auto simp: cleaned_fields [OF D(4) l])
        have len: "length (bc_lru_root (bdev_bc ?bdev2)) < length (bc_lru_root ?bc)"
          using lru0 Cons b0(1,3) by (simp add: drop_buf_bufs buf_at_Some rb_remove_def)
        obtain r bdev' where "shake_loop ?bdev2 = Some (r, bdev')" "bdev_ok rd wr bsz cap content bdev'"
          "evicted content ?bdev2 bdev'"
          "r = EOK \<longrightarrow> bc_lru_root (bdev_bc bdev') = [] \<or> \<not> ext4_bcache_is_full (bdev_bc bdev')"
          using less.hyps [OF len drop_clean(1) [OF ok0 b0(1,2)]] by blast
        then show ?thesis
          using step evicted_trans [OF evicted_trans [OF ev0 drop_evicted [OF ok0 b0]]] by auto
      qed
    qed
  qed
qed

lemma cache_shake:
  assumes ok: "bdev_ok rd wr bsz cap content bdev"
  obtains r bdev' where "ext4_block_cache_shake bdev = Some (r, bdev')"
    "bdev_ok rd wr bsz cap content bdev'" "same_view content bdev bdev'"
    "bc_refs (bdev_bc bdev') = bc_refs (bdev_bc bdev)"
    "counters_ok (bdev_bc bdev') = counters_ok (bdev_bc bdev)"
    "frame {} bdev bdev'" "bc_lru_ctr (bdev_bc bdev') = bc_lru_ctr (bdev_bc bdev)"
proof (cases "bc_dont_shake (bdev_bc bdev)")
  case True
  then show ?thesis using ok by (intro that [of EOK bdev]) (simp_all add: ext4_block_cache_shake_def)
next
  case False
  have flag: "bdev_ok rd wr bsz cap content (upd_bc (\<lambda>bc. bc\<lparr>bc_dont_shake := x\<rparr>) a)"
    "same_view content a (upd_bc (\<lambda>bc. bc\<lparr>bc_dont_shake := x\<rparr>) a)"
    if a: "bdev_ok rd wr bsz cap content a" for a x
  proof -
    show "bdev_ok rd wr bsz cap content (upd_bc (\<lambda>bc. bc\<lparr>bc_dont_shake := x\<rparr>) a)"
      by (rule bdev_okI [OF a]) (use bdev_okD [OF a] in auto)
    show "same_view content a (upd_bc (\<lambda>bc. bc\<lparr>bc_dont_shake := x\<rparr>) a)"
      by (simp add: same_view_def bview_upd_bc) (simp add: bview_def)
  qed
  let ?a = "upd_bc (\<lambda>bc. bc\<lparr>bc_dont_shake := True\<rparr>) bdev"
  obtain r b where s: "shake_loop ?a = Some (r, b)" "bdev_ok rd wr bsz cap content b" "evicted content ?a b"
    using shake_loop [OF flag(1) [OF ok]] by blast
  let ?b = "upd_bc (\<lambda>bc. bc\<lparr>bc_dont_shake := False\<rparr>) b"
  have "same_view content bdev ?b"
    by (rule same_view_trans [OF same_view_trans [OF flag(2) [OF ok, of True]] flag(2) [OF s(2)]])
      (use s(3) in \<open>simp add: evicted_def\<close>)
  moreover have "bc_refs (bdev_bc ?b) = bc_refs (bdev_bc bdev)"
    "counters_ok (bdev_bc ?b) = counters_ok (bdev_bc bdev)"
    "frame {} bdev ?b" "bc_lru_ctr (bdev_bc ?b) = bc_lru_ctr (bdev_bc bdev)"
    using s(3) by (simp_all add: evicted_def counters_ok_def)
  ultimately show ?thesis
    using s flag(1) [OF s(2)] False
    by (intro that [of r ?b]) (simp_all add: ext4_block_cache_shake_def)
qed

section \<open>Taking and giving back blocks\<close>

lemma alloc_dom:
  assumes inv: "bc_inv bc" and ctr: "counters_ok bc"
    and al: "ext4_bcache_alloc bc b = (r, bc', b', is_new)"
  shows "dom (bc_bufs bc') \<subseteq> insert (blk_lb_id b) (dom (bc_bufs bc))"
proof (cases "bc_bufs bc (blk_lb_id b)")
  case None
  then show ?thesis using alloc_new(4) [OF inv ctr None al] by (auto split: if_splits)
next
  case (Some bf)
  obtain ob bc1 b1 where fg: "ext4_bcache_find_get bc b (blk_lb_id b) = (ob, bc1, b1)" by (metis prod_cases3)
  note F = find_get_some [OF inv Some fg]
  from al F(1,2) fg have "bc' = bc1" by (auto simp: ext4_bcache_alloc_def)
  then show ?thesis using F(3) by auto
qed

lemma alloc_frame:
  assumes inv: "bc_inv bc" and ctr: "counters_ok bc"
    and al: "ext4_bcache_alloc bc b = (r, bc', b', is_new)"
  shows "\<And>k. k \<noteq> blk_lb_id b \<Longrightarrow> bc_bufs bc' k = bc_bufs bc k"
    "bc_tmp bc' (blk_lb_id b) \<Longrightarrow> bc_tmp bc (blk_lb_id b)"
    "bc_lru_ctr bc' \<in> {bc_lru_ctr bc, bc_lru_ctr bc + 1}"
proof -
  have "(\<forall>k. k \<noteq> blk_lb_id b \<longrightarrow> bc_bufs bc' k = bc_bufs bc k) \<and>
    (bc_tmp bc' (blk_lb_id b) \<longrightarrow> bc_tmp bc (blk_lb_id b)) \<and>
    bc_lru_ctr bc' \<in> {bc_lru_ctr bc, bc_lru_ctr bc + 1}"
  proof (cases "bc_bufs bc (blk_lb_id b)")
    case None
    have "bc_lru_ctr bc' \<in> {bc_lru_ctr bc, bc_lru_ctr bc + 1}"
      using al find_get_none [OF inv None]
      by (auto simp: ext4_bcache_alloc_def ext4_buf_alloc_def Let_def split: if_splits prod.splits)
    then show ?thesis using alloc_new [OF inv ctr None al]
      by (auto simp: bc_tmp_def fresh_buf_def split: if_splits)
  next
    case (Some bf)
    obtain ob bc1 b1 where fg: "ext4_bcache_find_get bc b (blk_lb_id b) = (ob, bc1, b1)" by (metis prod_cases3)
    note F = find_get_some [OF inv Some fg]
    from al F(1,2) fg have "bc' = bc1" by (auto simp: ext4_bcache_alloc_def)
    then show ?thesis using F Some by (auto simp: bc_tmp_def taken_def)
  qed
  then show "\<And>k. k \<noteq> blk_lb_id b \<Longrightarrow> bc_bufs bc' k = bc_bufs bc k"
    "bc_tmp bc' (blk_lb_id b) \<Longrightarrow> bc_tmp bc (blk_lb_id b)"
    "bc_lru_ctr bc' \<in> {bc_lru_ctr bc, bc_lru_ctr bc + 1}" by blast+
qed

text \<open>
  What \<open>ext4_block_get_noread\<close> and \<open>ext4_block_get\<close> return for a block of the device: the
  reference that is handed out on success, and the unchanged view.
\<close>

lemma get_noread:
  assumes ok: "bdev_ok rd wr bsz cap content bdev" and ctr: "counters_ok (bdev_bc bdev)"
    and opened: "ph_refctr (bdev_bdif bdev) \<noteq> 0" and lba: "lba < lg_bcnt bdev"
  obtains r bdev' b' where "ext4_block_get_noread bdev b lba = Some (r, bdev', b')"
    "bdev_ok rd wr bsz cap content bdev'" "same_view content bdev bdev'"
    "bc_refs (bdev_bc bdev') =
       (if r = EOK then (bc_refs (bdev_bc bdev))(lba := bc_refs (bdev_bc bdev) lba + 1)
        else bc_refs (bdev_bc bdev))"
    "r = EOK \<Longrightarrow> b' = \<lparr>blk_lb_id = lba, blk_buf = Some lba, blk_data = True\<rparr>"
    "r = EOK \<Longrightarrow> bc_bufs (bdev_bc bdev') lba \<noteq> None"
    "frame {lba} bdev bdev'" "bc_lru_ctr (bdev_bc bdev') \<in> {bc_lru_ctr (bdev_bc bdev), bc_lru_ctr (bdev_bc bdev) + 1}"
proof -
  obtain r1 bdev1 where s: "ext4_block_cache_shake bdev = Some (r1, bdev1)"
    "bdev_ok rd wr bsz cap content bdev1" "same_view content bdev bdev1"
    "bc_refs (bdev_bc bdev1) = bc_refs (bdev_bc bdev)"
    "counters_ok (bdev_bc bdev1) = counters_ok (bdev_bc bdev)"
    "frame {} bdev bdev1" "bc_lru_ctr (bdev_bc bdev1) = bc_lru_ctr (bdev_bc bdev)"
    by (rule cache_shake [OF ok]) blast
  have fr1: "frame {lba} bdev bdev1" by (rule frame_mono [OF s(6)]) simp
  show ?thesis
  proof (cases "r1 = EOK")
    case False
    then show ?thesis using s fr1 opened lba
      by (intro that [of r1 bdev1 "b\<lparr>blk_lb_id := lba\<rparr>"]) (simp_all add: ext4_block_get_noread_def)
  next
    case True
    let ?b = "b\<lparr>blk_lb_id := lba\<rparr>"
    obtain r2 bc2 b2 new where al: "ext4_bcache_alloc (bdev_bc bdev1) ?b = (r2, bc2, b2, new)"
      by (metis prod_cases4)
    have ctr1: "counters_ok (bdev_bc bdev1)" using ctr s(5) by simp
    note A = alloc_spec [OF bdev_okD(4) [OF s(2)] ctr1 al]
    let ?bdev2 = "bdev1\<lparr>bdev_bc := bc2\<rparr>"
    have lba1: "lba < lg_bcnt bdev1" using lba same_setup_fields [OF same_view_setup [OF s(3)]] by simp
    have dom2: "dom (bc_bufs bc2) \<subseteq> insert lba (dom (bc_bufs (bdev_bc bdev1)))"
      using alloc_dom [OF bdev_okD(4) [OF s(2)] ctr1 al] by simp
    have ok2: "bdev_ok rd wr bsz cap content ?bdev2" and sv2: "same_view content bdev1 ?bdev2"
      by (rule step_bc [OF s(2), where l = lba]; use A dom2 lba1 in simp)+
    have fr2: "frame {lba} bdev1 ?bdev2" and lc2: "bc_lru_ctr bc2 \<in> {bc_lru_ctr (bdev_bc bdev1), bc_lru_ctr (bdev_bc bdev1) + 1}"
      using alloc_frame [OF bdev_okD(4) [OF s(2)] ctr1 al] by (auto intro: frame_at [where l = lba])
    have "r2 = EOK \<Longrightarrow> blk_data b2" using A(7) by simp
    then have "ext4_block_get_noread bdev b lba = Some (r2, ?bdev2, b2)"
      using s(1) True opened lba al by (auto simp: ext4_block_get_noread_def Let_def)
    then show ?thesis
      using ok2 same_view_trans [OF s(3) sv2] A(6,7) s(4,7) frame_trans [OF fr1 fr2] lc2
      by (intro that [of r2 ?bdev2 b2]) auto
  qed
qed

text \<open>
  Giving a reference back. A write that fails leaves the buffer cached and dirty; the result
  is \<open>EOK\<close> all the same.
\<close>

lemma bcache_free:
  assumes ok: "bdev_ok rd wr bsz cap content bdev"
    and l: "bc_refs (bdev_bc bdev) l \<noteq> 0" "l \<noteq> 0" and b: "blk_lb_id b = l" "blk_buf b = Some l"
  obtains bdev' where "ext4_bcache_free bdev b = Some (EOK, bdev', b\<lparr>blk_lb_id := 0, blk_data := False\<rparr>)"
    "bdev_ok rd wr bsz cap content bdev'" "same_view content bdev bdev'"
    "bc_refs (bdev_bc bdev') = (bc_refs (bdev_bc bdev))(l := bc_refs (bdev_bc bdev) l - 1)"
    "frame {l} bdev bdev'" "bc_lru_ctr (bdev_bc bdev') = bc_lru_ctr (bdev_bc bdev)"
proof -
  note D = bdev_okD [OF ok]
  let ?bc = "bdev_bc bdev"
  obtain bf where bf: "bc_bufs ?bc l = Some bf" "buf_refctr bf \<noteq> 0"
    using l(1) by (cases "bc_bufs ?bc l") (simp_all add: bc_refs_def)
  have at: "buf_at ?bc l = bf" by (rule buf_at_Some [OF bf(1)])
  have refs: "bc_refs ?bc l = buf_refctr bf" by (rule refs_at [OF bf(1)])
  let ?bdev1 = "upd_bc (release l) bdev"
  let ?bf1 = "ext4_bcache_dec_ref bf"
  note V = release_views [OF bf(1)]
  have ok1: "bdev_ok rd wr bsz cap content ?bdev1" and sv1: "same_view content bdev ?bdev1"
    by (rule step_bc [OF ok, where l = l]; use release_inv [OF D(4) bf] D(6) [OF bf(1)] V in auto)+
  have bf1: "bc_bufs (bdev_bc ?bdev1) l = Some ?bf1" by (simp add: at)
  have flags1: "buf_flags ?bf1 = buf_flags bf" by (simp add: ext4_bcache_dec_ref_def)
  have fr1: "frame {l} bdev ?bdev1"
    by (rule frame_at [where l = l]) (use bf flags1 in \<open>auto simp: bc_tmp_def at\<close>)
  have rel: "release l ?bc =
      (if buf_refctr ?bf1 = 0
       then (upd_buf l ext4_bcache_dec_ref ?bc)\<lparr>bc_lru_root :=
         rb_insert_lru (lru_key (upd_buf l ext4_bcache_dec_ref ?bc)) l (bc_lru_root ?bc)\<rparr>
       else upd_buf l ext4_bcache_dec_ref ?bc)"
    by (simp add: release_def Let_def buf_at_upd at)
  let ?b' = "b\<lparr>blk_lb_id := 0, blk_data := False\<rparr>"
  show ?thesis
  proof (cases "buf_refctr ?bf1 = 0")
    case False
    have "ext4_bcache_free bdev b = Some (EOK, ?bdev1, ?b')"
      using b l bf at False rel by (simp add: ext4_bcache_free_def buf_at_upd upd_bc_def)
    then show ?thesis using ok1 sv1 V fr1 by (intro that [of ?bdev1]) simp_all
  next
    case zero: True
    have rel0: "upd_bc (\<lambda>bc. bc\<lparr>bc_lru_root := rb_insert_lru (\<lambda>k. buf_lru_id (buf_at bc k)) l (bc_lru_root bc)\<rparr>)
        (upd_bc (upd_buf l ext4_bcache_dec_ref) bdev) = ?bdev1"
      using zero by (simp add: upd_bc_def rel)
    have at1: "buf_at (release l ?bc) l = ?bf1" using bf1 by (intro buf_at_Some) simp
    show ?thesis
    proof (cases "BC_DIRTY \<in> buf_flags bf")
      case False
      show ?thesis
      proof (cases "BC_UPTODATE \<in> buf_flags bf \<and> BC_TMP \<notin> buf_flags bf")
        case True
        have "ext4_bcache_free bdev b = Some (EOK, ?bdev1, ?b')"
          using b l bf at zero rel0 at1 flags1 False True
          by (simp add: ext4_bcache_free_def buf_at_upd ext4_bcache_test_flag_def)
        then show ?thesis using ok1 sv1 V fr1 by (intro that [of ?bdev1]) simp_all
      next
        case up: False
        let ?bdev2 = "upd_bc (\<lambda>bc. ext4_bcache_drop_buf bc l) ?bdev1"
        have clean1: "BC_DIRTY \<notin> buf_flags ?bf1" using False flags1 by simp
        have "ext4_bcache_free bdev b = Some (EOK, ?bdev2, ?b')"
          using b l bf at zero rel0 at1 flags1 False up
          by (auto simp: ext4_bcache_free_def buf_at_upd ext4_bcache_test_flag_def)
        moreover have "frame {} ?bdev1 ?bdev2" "bc_lru_ctr (bdev_bc ?bdev2) = bc_lru_ctr (bdev_bc ?bdev1)"
          using drop_evicted [OF ok1 bf1 clean1 zero] by (simp_all add: evicted_def)
        moreover have "bc_refs (bdev_bc ?bdev2) = bc_refs (bdev_bc ?bdev1)"
          using drop_evicted [OF ok1 bf1 clean1 zero] by (simp add: evicted_def)
        ultimately show ?thesis
          using drop_clean(1) [OF ok1 bf1 clean1] same_view_trans [OF sv1 drop_clean(2) [OF ok1 bf1 clean1]] V
            frame_trans [OF fr1 frame_mono [of "{}" ?bdev1 ?bdev2]]
          by (intro that [of ?bdev2]) simp_all
      qed
    next
      case dirty: True
      then have up: "BC_UPTODATE \<in> buf_flags bf" and tmp: "BC_TMP \<notin> buf_flags bf"
        using bc_invD(3) [OF D(4) bf(1)] by (auto simp: buf_ok_def)
      show ?thesis
      proof (cases "cache_write_back bdev \<noteq> 0 \<and> BC_FLUSH \<notin> buf_flags bf")
        case True
        let ?bdev2 = "upd_bc (\<lambda>bc. ext4_bcache_insert_dirty_node bc l) ?bdev1"
        note W = insert_dirty_views [OF bf1]
        have d1: "BC_DIRTY \<in> buf_flags ?bf1" using dirty flags1 by simp
        have ok2: "bdev_ok rd wr bsz cap content ?bdev2" and sv2: "same_view content ?bdev1 ?bdev2"
          by (rule step_bc [OF ok1, where l = l];
              use insert_dirty_inv [OF bdev_okD(4) [OF ok1] bf1 zero d1] W bf1 bdev_okD(6) [OF ok1 bf1] in
                \<open>auto simp: ext4_bcache_insert_dirty_node_def\<close>)+
        have at2: "buf_flags (buf_at (ext4_bcache_insert_dirty_node (release l ?bc) l) l) = buf_flags bf"
          using flags1 by (simp add: ext4_bcache_insert_dirty_node_def at1 buf_at_upd buf_at_simps)
        have "ext4_bcache_free bdev b = Some (EOK, ?bdev2, ?b')"
          using b l bf at zero rel0 at1 flags1 dirty up True tmp at2
          by (simp add: ext4_bcache_free_def buf_at_upd ext4_bcache_test_flag_def)
        moreover have "frame {l} ?bdev1 ?bdev2"
          by (rule frame_at [where l = l])
            (use at1 in \<open>auto simp: bc_tmp_def ext4_bcache_insert_dirty_node_def at buf_at_simps split: if_splits\<close>)
        moreover have "bc_lru_ctr (bdev_bc ?bdev2) = bc_lru_ctr (bdev_bc ?bdev1)"
          by (simp add: ext4_bcache_insert_dirty_node_def)
        ultimately show ?thesis
          using ok2 same_view_trans [OF sv1 sv2] V W frame_trans [OF fr1] by (intro that [of ?bdev2]) simp_all
      next
        case wt: False
        obtain r2 bdev2 where f: "ext4_block_flush_buf ?bdev1 l = Some (r2, bdev2)"
          "bdev_ok rd wr bsz cap content bdev2" "same_view content ?bdev1 bdev2"
          "bdev_bc bdev2 = (if BC_DIRTY \<in> buf_flags ?bf1 \<and> r2 = EOK then cleaned l (bdev_bc ?bdev1) else bdev_bc ?bdev1)"
          by (rule flush_buf [OF ok1 bf1]) blast
        have ev2: "evicted content ?bdev1 bdev2" by (rule flush_evicted [OF ok1 bf1 zero f(3,4)])
        obtain bf2 where bf2: "bc_bufs (bdev_bc bdev2) l = Some bf2" "buf_flags bf2 - {BC_DIRTY} = buf_flags bf - {BC_DIRTY}"
        proof (cases "r2 = EOK")
          case True
          then have "bc_bufs (bdev_bc bdev2) l = Some (?bf1\<lparr>buf_flags := buf_flags ?bf1 - {BC_DIRTY}, buf_on_dirty_list := False\<rparr>)"
            using f(4) dirty flags1 cleaned_fields(1) [OF bdev_okD(4) [OF ok1] bf1] by simp
          then show ?thesis by (rule that) (simp add: flags1)
        next
          case False
          then have "bc_bufs (bdev_bc bdev2) l = Some ?bf1" using f(4) bf1 by simp
          then show ?thesis by (rule that) (simp add: flags1)
        qed
        let ?clr = "\<lambda>b. ext4_bcache_clear_flag b BC_FLUSH"
        let ?bdev3 = "upd_bc (upd_buf l ?clr) bdev2"
        have at2: "buf_at (bdev_bc bdev2) l = bf2" by (rule buf_at_Some [OF bf2(1)])
        have views: "bc_cached (upd_buf l ?clr (bdev_bc bdev2)) = bc_cached (bdev_bc bdev2)"
          "bc_dirty (upd_buf l ?clr (bdev_bc bdev2)) = bc_dirty (bdev_bc bdev2)"
          "bc_refs (upd_buf l ?clr (bdev_bc bdev2)) = bc_refs (bdev_bc bdev2)"
          using bf2(1) by (auto simp: bc_cached_def bc_dirty_def bc_refs_def at2 ext4_bcache_clear_flag_def fun_eq_iff)
        have bok: "buf_ok (bdev_bc bdev2) l (?clr bf2)"
          using bc_invD(3) [OF bdev_okD(4) [OF f(2)] bf2(1)] by (auto simp: buf_ok_def ext4_bcache_clear_flag_def)
        have inv3: "bc_inv (upd_buf l ?clr (bdev_bc bdev2))"
          by (rule bc_inv_upd [where f = ?clr, OF bdev_okD(4) [OF f(2)] bf2(1) bok])
            (simp_all add: ext4_bcache_clear_flag_def)
        have ok3: "bdev_ok rd wr bsz cap content ?bdev3" and sv3: "same_view content bdev2 ?bdev3"
          by (rule step_bc [OF f(2), where l = l]; use inv3 views bdev_okD(6) [OF f(2) bf2(1)] in auto)+
        have up2: "BC_UPTODATE \<in> buf_flags bf2" "BC_TMP \<notin> buf_flags bf2" using bf2(2) up tmp by auto
        have "ext4_bcache_free bdev b = Some (EOK, ?bdev3, ?b')"
          using b l bf at zero rel0 at1 flags1 dirty up wt tmp f(1) at2 up2
          by (cases "cache_write_back bdev = 0") (simp_all add: ext4_bcache_free_def buf_at_upd ext4_bcache_test_flag_def ext4_bcache_clear_flag_def)
        moreover have "bc_refs (bdev_bc ?bdev3) = bc_refs (bdev_bc ?bdev1)"
          using ev2 views by (simp add: evicted_def)
        moreover have "frame {l} bdev2 ?bdev3"
          by (rule frame_at [where l = l]) (use bf2 at2 in \<open>auto simp: bc_tmp_def ext4_bcache_clear_flag_def\<close>)
        then have "frame {l} bdev ?bdev3"
          using frame_trans [OF fr1 frame_trans [OF frame_mono [of "{}" ?bdev1 bdev2]]] ev2 by (simp add: evicted_def)
        moreover have "bc_lru_ctr (bdev_bc ?bdev3) = bc_lru_ctr (bdev_bc bdev)"
          using ev2 by (simp add: evicted_def)
        ultimately show ?thesis
          using ok3 same_view_trans [OF sv1 same_view_trans [OF f(3) sv3]] V by (intro that [of ?bdev3]) simp_all
      qed
    qed
  qed
qed

lemma fill_buf:
  assumes ok: "bdev_ok rd wr bsz cap content bdev" and l: "bc_bufs (bdev_bc bdev) l = Some bf"
    and up: "BC_UPTODATE \<notin> buf_flags bf" and len: "length data = unat (lg_bsize bdev)"
    and f: "f = (\<lambda>bf. bf\<lparr>buf_data := data\<rparr>) \<or>
      f = (\<lambda>bf. ext4_bcache_set_flag (bf\<lparr>buf_data := data\<rparr>) BC_UPTODATE) \<and> data = dev_block content bdev l"
  shows "bdev_ok rd wr bsz cap content (upd_bc (upd_buf l f) bdev)"
    "same_view content bdev (upd_bc (upd_buf l f) bdev)"
    "bc_refs (upd_buf l f (bdev_bc bdev)) = bc_refs (bdev_bc bdev)"
    "counters_ok (upd_buf l f (bdev_bc bdev)) = counters_ok (bdev_bc bdev)"
    "frame {l} bdev (upd_bc (upd_buf l f) bdev)"
proof -
  note D = bdev_okD [OF ok]
  have at: "buf_at (bdev_bc bdev) l = bf" by (rule buf_at_Some [OF l])
  have bok0: "buf_ok (bdev_bc bdev) l bf" by (rule bc_invD(3) [OF D(4) l])
  then have clean: "BC_DIRTY \<notin> buf_flags bf" using up by (auto simp: buf_ok_def)
  have bok: "buf_ok (bdev_bc bdev) l (f bf)"
    using f bok0 len D(5) by (auto simp: buf_ok_def ext4_bcache_set_flag_def)
  have inv: "bc_inv (upd_buf l f (bdev_bc bdev))"
    by (rule bc_inv_upd [where f = f, OF D(4) l bok]) (use f in \<open>auto simp: ext4_bcache_set_flag_def\<close>)
  show refs: "bc_refs (upd_buf l f (bdev_bc bdev)) = bc_refs (bdev_bc bdev)"
    using l f by (auto simp: bc_refs_def at ext4_bcache_set_flag_def fun_eq_iff)
  then show "counters_ok (upd_buf l f (bdev_bc bdev)) = counters_ok (bdev_bc bdev)"
    by (simp add: counters_ok_def)
  show "frame {l} bdev (upd_bc (upd_buf l f) bdev)"
    by (rule frame_at [where l = l]) (use l f at in \<open>auto simp: bc_tmp_def ext4_bcache_set_flag_def\<close>)
  have dirty: "bc_dirty (upd_buf l f (bdev_bc bdev)) = bc_dirty (bdev_bc bdev)"
    using l f clean by (auto simp: bc_dirty_def at ext4_bcache_set_flag_def fun_eq_iff)
  have nd: "\<not> bc_dirty (bdev_bc bdev) l" using l clean by (simp add: bc_dirty_def)
  have cached: "bc_cached (upd_buf l f (bdev_bc bdev)) k = bc_cached (bdev_bc bdev) k \<or>
      \<not> bc_dirty (bdev_bc bdev) k \<and> (bc_cached (upd_buf l f (bdev_bc bdev)) k = None \<or>
        bc_cached (upd_buf l f (bdev_bc bdev)) k = Some (dev_block content bdev k))" for k
    using l f up nd by (cases "k = l") (auto simp: bc_cached_def at ext4_bcache_set_flag_def)
  show "bdev_ok rd wr bsz cap content (upd_bc (upd_buf l f) bdev)"
    "same_view content bdev (upd_bc (upd_buf l f) bdev)"
    by (rule step_bc [OF ok, where l = l]; use inv dirty cached D(6) [OF l] in simp)+
qed

lemma block_get:
  assumes ok: "bdev_ok rd wr bsz cap content bdev" and ctr: "counters_ok (bdev_bc bdev)"
    and opened: "ph_refctr (bdev_bdif bdev) \<noteq> 0" and lba: "lba < lg_bcnt bdev" "lba \<noteq> 0"
  obtains r bdev' b' where "ext4_block_get bdev b lba = Some (r, bdev', b')"
    "bdev_ok rd wr bsz cap content bdev'" "same_view content bdev bdev'"
    "bc_refs (bdev_bc bdev') =
       (if r = EOK then (bc_refs (bdev_bc bdev))(lba := bc_refs (bdev_bc bdev) lba + 1)
        else bc_refs (bdev_bc bdev))"
    "r = EOK \<Longrightarrow> b' = \<lparr>blk_lb_id = lba, blk_buf = Some lba, blk_data = True\<rparr>"
    "r = EOK \<Longrightarrow> bc_cached (bdev_bc bdev') lba = Some (bview content bdev lba)"
    "frame {lba} bdev bdev'" "bc_lru_ctr (bdev_bc bdev') \<in> {bc_lru_ctr (bdev_bc bdev), bc_lru_ctr (bdev_bc bdev) + 1}"
proof -
  obtain r1 bdev1 b1 where g: "ext4_block_get_noread bdev b lba = Some (r1, bdev1, b1)"
    "bdev_ok rd wr bsz cap content bdev1" "same_view content bdev bdev1"
    "bc_refs (bdev_bc bdev1) =
       (if r1 = EOK then (bc_refs (bdev_bc bdev))(lba := bc_refs (bdev_bc bdev) lba + 1)
        else bc_refs (bdev_bc bdev))"
    "r1 = EOK \<Longrightarrow> b1 = \<lparr>blk_lb_id = lba, blk_buf = Some lba, blk_data = True\<rparr>"
    "r1 = EOK \<Longrightarrow> bc_bufs (bdev_bc bdev1) lba \<noteq> None"
    "frame {lba} bdev bdev1" "bc_lru_ctr (bdev_bc bdev1) \<in> {bc_lru_ctr (bdev_bc bdev), bc_lru_ctr (bdev_bc bdev) + 1}"
    by (rule get_noread [OF ok ctr opened lba(1)]) blast
  show ?thesis
  proof (cases "r1 = EOK")
    case False
    then show ?thesis using g by (intro that [of r1 bdev1 b1]) (simp_all add: ext4_block_get_def)
  next
    case r1: True
    then obtain bf where bf: "bc_bufs (bdev_bc bdev1) lba = Some bf" using g(6) by blast
    have at: "buf_at (bdev_bc bdev1) lba = bf" by (rule buf_at_Some [OF bf])
    have b1: "b1 = \<lparr>blk_lb_id = lba, blk_buf = Some lba, blk_data = True\<rparr>" by (rule g(5) [OF r1])
    have refs1: "bc_refs (bdev_bc bdev1) = (bc_refs (bdev_bc bdev))(lba := bc_refs (bdev_bc bdev) lba + 1)"
      using g(4) r1 by simp
    have view: "bview content bdev1 lba = bview content bdev lba"
      using g(3) lba(1) by (simp add: same_view_def)
    show ?thesis
    proof (cases "BC_UPTODATE \<in> buf_flags bf")
      case True
      then have "bc_cached (bdev_bc bdev1) lba = Some (bview content bdev1 lba)"
        using bf by (simp add: bc_cached_def bview_def)
      moreover have "ext4_block_get bdev b lba = Some (EOK, bdev1, b1)"
        using g(1) r1 b1 at True by (simp add: ext4_block_get_def ext4_bcache_test_flag_def)
      ultimately show ?thesis using g(2,3,7,8) refs1 b1 view by (intro that [of EOK bdev1 b1]) simp_all
    next
      case up: False
      note D = bdev_okD [OF g(2)]
      have lba1: "lba < lg_bcnt bdev1" by (rule D(6) [OF bf])
      obtain r2 data bdev2 where d: "ext4_blocks_get_direct bdev1 lba 1 = Some (r2, data, bdev2)"
        "same_setup bdev1 bdev2" "bdev_bc bdev2 = bdev_bc bdev1"
        "content (bdev_dev bdev2) = content (bdev_dev bdev1)" "length data = unat (lg_bsize bdev1)"
        "r2 = EOK \<Longrightarrow> data = dev_block content bdev1 lba"
        by (rule get_direct [OF D(1,2,3) lba1]) blast
      have ok2: "bdev_ok rd wr bsz cap content bdev2" and sv2: "same_view content bdev1 bdev2"
        by (rule step_bc [OF g(2) d(2,4), where l = lba]; use D lba1 d(3) in auto)+
      have bf2: "bc_bufs (bdev_bc bdev2) lba = Some bf" using d(3) bf by simp
      have fr2: "frame {lba} bdev bdev2" by (rule frame_trans [OF g(7) frame_bc(1) [OF d(3)]])
      have len2: "length data = unat (lg_bsize bdev2)" using d(5) same_setup_fields [OF d(2)] by simp
      let ?f = "\<lambda>bf. bf\<lparr>buf_data := data\<rparr>" and ?g = "\<lambda>bf. ext4_bcache_set_flag (bf\<lparr>buf_data := data\<rparr>) BC_UPTODATE"
      show ?thesis
      proof (cases "r2 = EOK")
        case True
        then have dd: "data = dev_block content bdev2 lba"
          using d(6) dev_block_cong [OF d(2,4)] by simp
        note F = fill_buf [where f = ?g, OF ok2 bf2 up len2]
        let ?bdev3 = "upd_bc (upd_buf lba ?g) bdev2"
        have "upd_bc (upd_buf lba (\<lambda>bf. ext4_bcache_set_flag bf BC_UPTODATE)) (upd_bc (upd_buf lba ?f) bdev2) = ?bdev3"
          by (simp add: upd_bc_def upd_buf_def buf_at_simps)
        then have "ext4_block_get bdev b lba = Some (EOK, ?bdev3, b1)"
          using g(1) r1 b1 at up d(1) True by (simp add: ext4_block_get_def ext4_bcache_test_flag_def)
        moreover have "bc_cached (bdev_bc ?bdev3) lba = Some (bview content bdev lba)"
        proof -
          have "bc_cached (bdev_bc bdev1) lba = None" using bf up by (simp add: bc_cached_def)
          then have "bview content bdev1 lba = data"
            using d(6) True by (simp add: bview_def)
          then show ?thesis
            using bf2 view by (simp add: bc_cached_def ext4_bcache_set_flag_def buf_at_Some)
        qed
        ultimately show ?thesis
          using F dd same_view_trans [OF same_view_trans [OF g(3) sv2] F(2)] refs1 d(3) b1 g(8)
            frame_trans [OF fr2 F(5)]
          by (intro that [of EOK ?bdev3 b1]) simp_all
      next
        case r2: False
        note F = fill_buf [where f = ?f, OF ok2 bf2 up len2]
        let ?bdev3 = "upd_bc (upd_buf lba ?f) bdev2"
        have ok3: "bdev_ok rd wr bsz cap content ?bdev3" and sv3: "same_view content bdev2 ?bdev3"
          and refs3: "bc_refs (bdev_bc ?bdev3) = bc_refs (bdev_bc bdev1)" using F d(3) by simp_all
        have "bc_refs (bdev_bc bdev) lba + 1 \<noteq> 0"
          using ctr less_minus_1 by (auto simp: counters_ok_def)
        then have nz: "bc_refs (bdev_bc ?bdev3) lba \<noteq> 0" using refs3 refs1 by simp
        obtain bdev4 where fr: "ext4_bcache_free ?bdev3 b1 = Some (EOK, bdev4, b1\<lparr>blk_lb_id := 0, blk_data := False\<rparr>)"
          "bdev_ok rd wr bsz cap content bdev4" "same_view content ?bdev3 bdev4"
          "bc_refs (bdev_bc bdev4) = (bc_refs (bdev_bc ?bdev3))(lba := bc_refs (bdev_bc ?bdev3) lba - 1)"
          "frame {lba} ?bdev3 bdev4" "bc_lru_ctr (bdev_bc bdev4) = bc_lru_ctr (bdev_bc ?bdev3)"
          by (rule bcache_free [OF ok3 nz lba(2), where b = b1]) (simp_all add: b1)
        have "bc_refs (bdev_bc bdev4) = bc_refs (bdev_bc bdev)"
          using fr(4) refs3 refs1 by (auto simp: fun_eq_iff)
        moreover have "ext4_block_get bdev b lba = Some (r2, bdev4, b1\<lparr>blk_lb_id := 0, blk_data := False\<rparr>)"
          using g(1) r1 b1 at up d(1) r2 fr(1) by (simp add: ext4_block_get_def ext4_bcache_test_flag_def)
        ultimately show ?thesis
          using fr(2,6) r2 same_view_trans [OF same_view_trans [OF same_view_trans [OF g(3) sv2] sv3] fr(3)]
            frame_trans [OF frame_trans [OF fr2 F(5)] fr(5)] g(8) d(3)
          by (intro that [of r2 bdev4 "b1\<lparr>blk_lb_id := 0, blk_data := False\<rparr>"]) simp_all
      qed
    qed
  qed
qed

section \<open>Flushing\<close>

text \<open>
  A flush of the cache ends; when it succeeds the dirty list is empty and every block that
  was on it is on the medium as the client saw it.
\<close>

lemma cache_flush:
  assumes "bdev_ok rd wr bsz cap content bdev"
  shows "\<exists>r bdev'. ext4_block_cache_flush bdev = Some (r, bdev') \<and> bdev_ok rd wr bsz cap content bdev' \<and>
     evicted content bdev bdev' \<and> bc_dom_eq bdev bdev' \<and>
     (r = EOK \<longrightarrow> bc_dirty_list (bdev_bc bdev') = [] \<and>
        (\<forall>l \<in> set (bc_dirty_list (bdev_bc bdev)). \<not> bc_dirty (bdev_bc bdev') l))"
  using assms
proof (induction "length (bc_dirty_list (bdev_bc bdev))" arbitrary: bdev rule: less_induct)
  case (less bdev)
  let ?bc = "bdev_bc bdev"
  note D = bdev_okD [OF less.prems]
  show ?case
  proof (cases "bc_dirty_list ?bc")
    case Nil
    then show ?thesis using less.prems by (subst ext4_block_cache_flush.simps) (simp add: bc_dom_eq_def)
  next
    case (Cons l ls)
    have "l \<in> set (bc_dirty_list ?bc)" using Cons by simp
    then obtain b where l: "bc_bufs ?bc l = Some b" and on: "buf_on_dirty_list b"
      using bc_invD(8) [OF D(4)] by (auto simp: buf_at_Some)
    then have dirty: "BC_DIRTY \<in> buf_flags b" using bc_invD(3) [OF D(4) l] by (simp add: buf_ok_def)
    obtain r1 bdev1 where f: "ext4_block_flush_buf bdev l = Some (r1, bdev1)"
      "bdev_ok rd wr bsz cap content bdev1" "same_view content bdev bdev1"
      "bdev_bc bdev1 = (if BC_DIRTY \<in> buf_flags b \<and> r1 = EOK then cleaned l ?bc else ?bc)"
      by (rule flush_buf [OF less.prems l]) blast
    have ev1: "evicted content bdev bdev1" by (rule flush_evicted [OF less.prems l _ f(3,4)])
      (use bc_invD(3) [OF D(4) l] on in \<open>simp add: buf_ok_def\<close>)
    show ?thesis
    proof (cases "r1 = EOK")
      case False
      then have "ext4_block_cache_flush bdev = Some (r1, bdev1)"
        using f(1) Cons by (subst ext4_block_cache_flush.simps) simp
      then show ?thesis using f(2,4) ev1 False by (auto simp: bc_dom_eq_def)
    next
      case True
      have bc1: "bdev_bc bdev1 = cleaned l ?bc" using f(4) True dirty by simp
      note F = cleaned_fields [OF D(4) l] and V = cleaned_views [OF D(4) l]
      have dl1: "bc_dirty_list (bdev_bc bdev1) = ls" using Cons bc1 F(6) by simp
      then have "length (bc_dirty_list (bdev_bc bdev1)) < length (bc_dirty_list ?bc)" using Cons by simp
      from less.hyps [OF this f(2)] obtain r bdev' where
        i: "ext4_block_cache_flush bdev1 = Some (r, bdev')" "bdev_ok rd wr bsz cap content bdev'"
          "evicted content bdev1 bdev'" "bc_dom_eq bdev1 bdev'"
          "r = EOK \<longrightarrow> bc_dirty_list (bdev_bc bdev') = [] \<and>
             (\<forall>l \<in> set (bc_dirty_list (bdev_bc bdev1)). \<not> bc_dirty (bdev_bc bdev') l)" by blast
      have "ext4_block_cache_flush bdev = Some (r, bdev')"
        using f(1) True Cons i(1) by (subst ext4_block_cache_flush.simps) simp
      moreover have "\<not> bc_dirty (bdev_bc bdev1) l" by (simp add: bc1 V)
      then have "\<not> bc_dirty (bdev_bc bdev') l"
        using i(3) by (auto simp: evicted_def same_view_def)
      moreover have "bc_dom_eq bdev bdev'" using i(4) l by (auto simp: bc_dom_eq_def bc1 F(1))
      ultimately show ?thesis
        using i(2,5) evicted_trans [OF ev1 i(3)] Cons dl1 by auto
    qed
  qed
qed

text \<open>A clean block is on the medium as the client sees it.\<close>

lemma clean_block:
  "bdev_ok rd wr bsz cap content bdev \<Longrightarrow> \<not> bc_dirty (bdev_bc bdev) l \<Longrightarrow>
     dev_block content bdev l = bview content bdev l"
  using bdev_okD(7) [of rd wr bsz cap content bdev l] by (auto simp: bview_def split: option.splits)

end

end
