(* ===== verification/Io_Raw.thy ===== *)
theory Io_Raw
  imports Cached
begin

text \<open>
  The disk driver of \<open>SharpExt4/io_raw.cpp\<close>, and what the block device component guarantees
  over it.

  An open file of the platform is its contents and a file pointer, over a disk or image of a
  fixed extent of \<open>N\<close> bytes. Every call may
  fail: \<open>raw_fail n\<close> tells whether the \<open>n\<close>-th call does, \<open>raw_noise n\<close> gives the bytes that
  the \<open>n\<close>-th call leaves unspecified, which are the buffer of a read that fails or runs past
  the end of the file, and the range of a write that fails. All three are arbitrary.
\<close>

section \<open>The file\<close>

record raw_file =
  raw_img :: "nat \<Rightarrow> u8"
  raw_pos :: nat
  raw_calls :: nat
  raw_fail :: "nat \<Rightarrow> bool"
  raw_noise :: "nat \<Rightarrow> nat \<Rightarrow> u8"

text \<open>
  The 64-bit position in two halves, the high one signed; a negative position is an error.
\<close>

definition SetFilePointer :: "raw_file \<Rightarrow> u32 \<Rightarrow> u32 \<Rightarrow> bool \<times> raw_file" where
  "SetFilePointer f lopart hipart =
     (let f' = f\<lparr>raw_calls := raw_calls f + 1\<rparr>
      in if hipart \<ge> 0x80000000 \<or> raw_fail f (raw_calls f) then (False, f')
         else (True, f'\<lparr>raw_pos := unat hipart * 2 ^ 32 + unat lopart\<rparr>))"

definition ReadFile :: "nat \<Rightarrow> raw_file \<Rightarrow> u32 \<Rightarrow> bool \<times> bytes \<times> raw_file" where
  "ReadFile N f n =
     (let f' = f\<lparr>raw_calls := raw_calls f + 1\<rparr>; noise = raw_noise f (raw_calls f)
      in if raw_fail f (raw_calls f) then (False, map noise [0..<unat n], f')
         else (True, map (\<lambda>i. if raw_pos f + i < N then raw_img f (raw_pos f + i) else noise i)
                       [0..<unat n],
               f'\<lparr>raw_pos := raw_pos f + unat n\<rparr>))"

text \<open>What does not fit in the extent fails.\<close>

definition WriteFile :: "nat \<Rightarrow> raw_file \<Rightarrow> bytes \<Rightarrow> u32 \<Rightarrow> bool \<times> raw_file" where
  "WriteFile N f buf n =
     (let f' = f\<lparr>raw_calls := raw_calls f + 1\<rparr>; noise = raw_noise f (raw_calls f)
      in if raw_fail f (raw_calls f) \<or> N < raw_pos f + unat n
         then (False, f'\<lparr>raw_img := (\<lambda>a. if raw_pos f \<le> a \<and> a < raw_pos f + unat n \<and> a < N
                                     then noise (a - raw_pos f) else raw_img f a)\<rparr>)
         else (True, f'\<lparr>raw_img := overwrite (raw_img f) (raw_pos f) (take (unat n) buf),
                       raw_pos := raw_pos f + unat n\<rparr>))"

section \<open>The driver\<close>

definition io_raw_bread :: "nat \<Rightarrow> raw_file \<Rightarrow> u64 \<Rightarrow> u32 \<Rightarrow> errno \<times> bytes \<times> raw_file" where
  "io_raw_bread N f blk_id blk_cnt =
     (let hipart = ucast (drop_bit (32 - 9) blk_id); lopart = ucast (push_bit 9 blk_id)
      in case SetFilePointer f lopart hipart of
           (ok, f) \<Rightarrow>
             if \<not> ok then (EIO, map (raw_noise f (raw_calls f)) [0..<unat (blk_cnt * 512)], f)
             else (case ReadFile N f (blk_cnt * 512) of
                     (ok, buf, f) \<Rightarrow> if \<not> ok then (EIO, buf, f) else (EOK, buf, f)))"

definition io_raw_bwrite :: "nat \<Rightarrow> raw_file \<Rightarrow> bytes \<Rightarrow> u64 \<Rightarrow> u32 \<Rightarrow> errno \<times> raw_file" where
  "io_raw_bwrite N f buf blk_id blk_cnt =
     (let hipart = ucast (drop_bit (32 - 9) blk_id); lopart = ucast (push_bit 9 blk_id)
      in case SetFilePointer f lopart hipart of
           (ok, f) \<Rightarrow>
             if \<not> ok then (EIO, f)
             else (case WriteFile N f buf (blk_cnt * 512) of
                     (ok, f) \<Rightarrow> if \<not> ok then (EIO, f) else (EOK, f)))"

definition io_raw_close :: "raw_file \<Rightarrow> errno \<times> raw_file" where
  "io_raw_close f = (EOK, f)"

text \<open>
  \<open>io_raw_open\<close> on a regular file: two platform calls, which open the file and ask for its
  size, and the geometry. The path that asks a raw disk for its geometry is not modelled.
\<close>

definition io_raw_open :: "nat \<Rightarrow> raw_file \<Rightarrow> dev_geom \<Rightarrow> errno \<times> dev_geom \<times> raw_file" where
  "io_raw_open N f g =
     (let f' = f\<lparr>raw_calls := raw_calls f + 2\<rparr>
      in if raw_fail f (raw_calls f) \<or> raw_fail f (raw_calls f + 1) then (EIO, g, f')
         else (let disk_size = of_nat (N)
               in (EOK, g\<lparr>geom_bcnt := disk_size div ucast (geom_bsize g), geom_offset := 0,
                          geom_size := disk_size\<rparr>, f')))"

text \<open>\<open>ext4_io_raw_dev_get\<close>: the interface of a new device, with the given file behind it.\<close>

definition ext4_io_raw_dev_get :: "nat \<Rightarrow> raw_file \<Rightarrow> raw_file ext4_blockdev_iface" where
  "ext4_io_raw_dev_get N f =
     \<lparr>bdif_open = io_raw_open N, bdif_bread = io_raw_bread N, bdif_bwrite = io_raw_bwrite N,
      bdif_close = io_raw_close, bdif_lock = None, bdif_unlock = None,
      ph_bsize = 512, ph_bcnt = 0, ph_bbuf = replicate 512 0, ph_refctr = 0,
      bread_ctr = 0, bwrite_ctr = 0, bdif_dev = f\<rparr>"

section \<open>The contract\<close>

text \<open>The position that the two halves denote is the byte address of the block.\<close>

lemma raw_position:
  fixes blk :: u64
  assumes "unat blk * 512 < 2 ^ 63"
  shows "\<not> (ucast (drop_bit (32 - 9) blk) :: u32) \<ge> 0x80000000"
    "unat (ucast (drop_bit (32 - 9) blk) :: u32) * 2 ^ 32 + unat (ucast (push_bit 9 blk) :: u32) = unat blk * 512"
proof -
  let ?k = "unat blk"
  have "?k div 2 ^ 23 < 2 ^ 31" using assms by (simp add: div_less_iff_less_mult)
  moreover have hi: "unat (ucast (drop_bit (32 - 9) blk) :: u32) = ?k div 2 ^ 23 mod 2 ^ 32"
    by (simp add: unsigned_ucast_eq take_bit_eq_mod drop_bit_eq_div unat_div)
  ultimately have hi2: "unat (ucast (drop_bit (32 - 9) blk) :: u32) = ?k div 2 ^ 23" by simp
  then show "\<not> (ucast (drop_bit (32 - 9) blk) :: u32) \<ge> 0x80000000"
    using \<open>?k div 2 ^ 23 < 2 ^ 31\<close> by (simp add: word_le_nat_alt not_le)
  have lo: "unat (ucast (push_bit 9 blk) :: u32) = ?k * 512 mod 2 ^ 32"
    using assms by (simp add: unsigned_ucast_eq take_bit_eq_mod push_bit_eq_mult unat_word_ariths)
  have "?k div 2 ^ 23 = ?k * 512 div 2 ^ 32" by simp
  then show "unat (ucast (drop_bit (32 - 9) blk) :: u32) * 2 ^ 32 + unat (ucast (push_bit 9 blk) :: u32) = ?k * 512"
    unfolding hi2 lo by (simp only: div_mult_mod_eq)
qed

text \<open>The whole blocks of the extent.\<close>

definition raw_cap :: "nat \<Rightarrow> nat" where
  "raw_cap N = (if N < 2 ^ 63 then N div 512 * 512 else 0)"

lemma raw_transfer:
  assumes "transfer_ok 512 (raw_cap N) blk cnt"
  shows "unat cnt * 512 < 2 ^ 32" "unat (cnt * 512) = unat cnt * 512"
    "unat blk * 512 + unat cnt * 512 \<le> N" "unat blk * 512 < 2 ^ 63"
proof -
  show c: "unat cnt * 512 < 2 ^ 32" using assms by (simp add: transfer_ok_def)
  then show "unat (cnt * 512) = unat cnt * 512" by (simp add: unat_word_ariths)
  have "raw_cap N \<le> N" "raw_cap N < 2 ^ 63"
    using div_times_less_eq_dividend [of N 512] by (auto simp: raw_cap_def)
  then show "unat blk * 512 + unat cnt * 512 \<le> N" "unat blk * 512 < 2 ^ 63"
    using assms unfolding transfer_ok_def by linarith+
qed

lemmas io_raw_defs = io_raw_bread_def io_raw_bwrite_def SetFilePointer_def ReadFile_def WriteFile_def Let_def

lemma raw_read:
  assumes t: "transfer_ok 512 (raw_cap N) blk cnt" and rd: "io_raw_bread N f blk cnt = (r, bs, f')"
  shows "length bs = unat cnt * 512"
    "r = EOK \<Longrightarrow> bs = region (raw_img f) (unat blk * 512) (unat cnt * 512)"
  using rd raw_transfer [OF t] raw_position [OF raw_transfer(4) [OF t]]
  by (auto simp: io_raw_defs region_def not_le split: if_splits intro!: nth_equalityI)

lemma raw_write:
  assumes t: "transfer_ok 512 (raw_cap N) blk cnt" and len: "length data = unat cnt * 512"
    and wr: "io_raw_bwrite N f data blk cnt = (r, f')"
  shows "r = EOK \<Longrightarrow> raw_img f' = overwrite (raw_img f) (unat blk * 512) data"
    "a < unat blk * 512 \<or> unat blk * 512 + unat cnt * 512 \<le> a \<Longrightarrow> raw_img f' a = raw_img f a"
  using wr raw_transfer [OF t] raw_position [OF raw_transfer(4) [OF t]] len
  by (auto simp: io_raw_defs not_le overwrite_def split: if_splits)

interpretation raw: block_driver "io_raw_bread N" "io_raw_bwrite N" 512 "raw_cap N" raw_img for N
proof unfold_locales
  show "\<exists>k. (512::nat) = 2 ^ k" by (rule exI [of _ 9]) simp
  show "512 dvd raw_cap N" by (simp add: raw_cap_def)
  show "raw_cap N < 2 ^ 63"
    using div_times_less_eq_dividend [of N 512] by (auto simp: raw_cap_def)
  show "raw_img d' = raw_img d" if "io_raw_bread N d blk cnt = (r, bs, d')" for d d' blk cnt r bs
    using that by (auto simp: io_raw_defs split: if_splits)
qed (simp | erule (1) raw_read raw_write | erule (2) raw_write)+

section \<open>Byte access and cached access over the driver\<close>

abbreviation raw_dev :: "nat \<Rightarrow> raw_file ext4_blockdev \<Rightarrow> bool" where
  "raw_dev N \<equiv> driver_is (io_raw_bread N) (io_raw_bwrite N) 512"

abbreviation raw_ok :: "nat \<Rightarrow> raw_file ext4_blockdev \<Rightarrow> bool" where
  "raw_ok N \<equiv> bdev_ok (io_raw_bread N) (io_raw_bwrite N) 512 (raw_cap N) raw_img"

text \<open>The byte of the medium that a byte of the partition is.\<close>

abbreviation raw_byte :: "raw_file ext4_blockdev \<Rightarrow> nat \<Rightarrow> u8" where
  "raw_byte bdev a \<equiv> raw_img (bdev_dev bdev) (unat (part_offset bdev) + a)"

text \<open>A small device for the examples: 8 KiB, a partition of 6 KiB, blocks of 1 KiB.\<close>

definition sample_file :: raw_file where
  "sample_file = \<lparr>raw_img = (\<lambda>i. of_nat i), raw_pos = 0, raw_calls = 0,
     raw_fail = (\<lambda>_. False), raw_noise = (\<lambda>_ _. 0)\<rparr>"

definition sample_cache :: ext4_bcache where
  "sample_cache = \<lparr>bc_cnt = 4, bc_itemsize = 1024, bc_lru_ctr = 0, bc_ref_blocks = 0,
     bc_max_ref_blocks = 0, bc_dont_shake = False, bc_lba_root = [], bc_lru_root = [],
     bc_dirty_list = [], bc_bufs = (\<lambda>_. None), heap_next = 0, heap_ok = (\<lambda>_. True),
     heap_junk = (\<lambda>_ _. 0)\<rparr>"

definition sample_dev :: "raw_file ext4_blockdev" where
  "sample_dev = \<lparr>bdev_bdif = (ext4_io_raw_dev_get 8192 sample_file)\<lparr>ph_refctr := 1\<rparr>,
     part_offset = 1024, part_size = 6144, bdev_bc = sample_cache, lg_bsize = 1024,
     lg_bcnt = 6, cache_write_back = 1, bdev_events = []\<rparr>"

lemma sample_ok: "raw_ok 8192 sample_dev" "counters_ok (bdev_bc sample_dev)"
  "raw_dev 8192 sample_dev" "part_ok (raw_cap 8192) sample_dev"
  "ph_refctr (bdev_bdif sample_dev) \<noteq> 0" "part_size sample_dev = 6144" "lg_bcnt sample_dev = 6" "lg_bsize sample_dev = 1024"
  "bc_dirty_list (bdev_bc sample_dev) = []"
  by (simp_all add: bdev_ok_def driver_is_def part_ok_def lg_ok_def bc_inv_def bc_cached_def counters_ok_def
      bc_refs_def sample_dev_def sample_cache_def ext4_io_raw_dev_get_def raw_cap_def word_gt_0)

text \<open>
  C8: \<open>ext4_block_readbytes\<close> on an open device returns, whenever it reports success, exactly the
  bytes of the partition at the given offset, for every alignment and length inside the
  partition; and it never changes the medium.
\<close>

theorem readbytes_correct:
  assumes "raw_dev N bdev" "part_ok (raw_cap N) bdev" "ph_refctr (bdev_bdif bdev) \<noteq> 0"
    and "unat off + unat len \<le> unat (part_size bdev)"
  shows "\<exists>r bs bdev'. ext4_block_readbytes bdev off len = Some (r, bs, bdev') \<and>
    raw_img (bdev_dev bdev') = raw_img (bdev_dev bdev) \<and>
    (r = EOK \<longrightarrow> bs = map (\<lambda>i. raw_byte bdev (unat off + i)) [0..<unat len])"
proof -
  obtain r bs bdev' where "ext4_block_readbytes bdev off len = Some (r, bs, bdev')"
    "raw_img (bdev_dev bdev') = raw_img (bdev_dev bdev)"
    "r = EOK \<Longrightarrow> bs = region (raw_img (bdev_dev bdev)) (unat (part_offset bdev) + unat off) (unat len)"
    by (rule raw.readbytes [OF assms]) blast
  then show ?thesis by (auto simp: list_eq_iff_nth_eq add.assoc)
qed

theorem readbytes_correct_witness:
  "\<exists>r bs bdev'. ext4_block_readbytes sample_dev 700 900 = Some (r, bs, bdev') \<and>
    raw_img (bdev_dev bdev') = raw_img (bdev_dev sample_dev) \<and>
    (r = EOK \<longrightarrow> bs = map (\<lambda>i. raw_byte sample_dev (unat (700 :: u64) + i)) [0..<unat (900 :: u32)])"
  by (rule readbytes_correct [of 8192 sample_dev 700 900]) (simp_all add: sample_ok)

text \<open>
  C9: \<open>ext4_block_writebytes\<close> that reports success has changed the medium at the given bytes of
  the partition, to the caller's data, and nowhere else; one that fails has changed nothing
  further than one physical block away from them.
\<close>

theorem writebytes_correct:
  assumes "raw_dev N bdev" "part_ok (raw_cap N) bdev" "ph_refctr (bdev_bdif bdev) \<noteq> 0"
    and "unat off + unat len \<le> unat (part_size bdev)" "length buf = unat len"
  shows "\<exists>r bdev'. ext4_block_writebytes bdev off buf len = Some (r, bdev') \<and>
    (r = EOK \<longrightarrow> (\<forall>a. raw_byte bdev' a =
       (if unat off \<le> a \<and> a < unat off + unat len then buf ! (a - unat off) else raw_byte bdev a))) \<and>
    (\<forall>a. a + 512 \<le> unat (part_offset bdev) + unat off \<or>
         unat (part_offset bdev) + unat off + unat len + 512 \<le> a \<longrightarrow>
       raw_img (bdev_dev bdev') a = raw_img (bdev_dev bdev) a)"
proof -
  obtain r bdev' where w: "ext4_block_writebytes bdev off buf len = Some (r, bdev')"
    "same_setup bdev bdev'"
    "r = EOK \<Longrightarrow> raw_img (bdev_dev bdev') =
       overwrite (raw_img (bdev_dev bdev)) (unat (part_offset bdev) + unat off) buf"
    "\<And>a. a + 512 \<le> unat (part_offset bdev) + unat off \<or>
         unat (part_offset bdev) + unat off + unat len + 512 \<le> a \<Longrightarrow>
       raw_img (bdev_dev bdev') a = raw_img (bdev_dev bdev) a"
    by (rule raw.writebytes [OF assms]) blast
  have "r = EOK \<Longrightarrow> raw_byte bdev' a =
      (if unat off \<le> a \<and> a < unat off + unat len then buf ! (a - unat off) else raw_byte bdev a)" for a
    using w(3) same_setup_fields [OF w(2)] assms(5) by (simp add: overwrite_def)
  then show ?thesis using w(1,4) by blast
qed

theorem writebytes_correct_witness:
  "\<exists>r bdev'. ext4_block_writebytes sample_dev 500 (replicate 20 7) 20 = Some (r, bdev') \<and>
    (r = EOK \<longrightarrow> (\<forall>a. raw_byte bdev' a =
       (if unat (500 :: u64) \<le> a \<and> a < unat (500 :: u64) + unat (20 :: u32)
        then replicate 20 7 ! (a - unat (500 :: u64)) else raw_byte sample_dev a))) \<and>
    (\<forall>a. a + 512 \<le> unat (part_offset sample_dev) + unat (500 :: u64) \<or>
         unat (part_offset sample_dev) + unat (500 :: u64) + unat (20 :: u32) + 512 \<le> a \<longrightarrow>
       raw_img (bdev_dev bdev') a = raw_img (bdev_dev sample_dev) a)"
  by (rule writebytes_correct [of 8192 sample_dev 500 20 "replicate 20 7"]) (simp_all add: sample_ok)

text \<open>
  C1: \<open>ext4_block_get\<close> ends, with eviction under way or not, and when it reports success the
  client holds one more reference to the block and its buffer contains the block as clients see
  it; whether it succeeds or not, the device stays in order and no block of it looks different.
\<close>

theorem block_get_correct:
  assumes "raw_ok N bdev" "counters_ok (bdev_bc bdev)" "ph_refctr (bdev_bdif bdev) \<noteq> 0"
    and "lba < lg_bcnt bdev" "lba \<noteq> 0"
  shows "\<exists>r bdev' b'. ext4_block_get bdev b lba = Some (r, bdev', b') \<and> raw_ok N bdev' \<and>
    (\<forall>l. l < lg_bcnt bdev \<longrightarrow> bview raw_img bdev' l = bview raw_img bdev l) \<and>
    (if r = EOK
     then b' = \<lparr>blk_lb_id = lba, blk_buf = Some lba, blk_data = True\<rparr> \<and>
       buf_data (buf_at (bdev_bc bdev') lba) = bview raw_img bdev lba \<and>
       bc_refs (bdev_bc bdev') = (bc_refs (bdev_bc bdev))(lba := bc_refs (bdev_bc bdev) lba + 1)
     else bc_refs (bdev_bc bdev') = bc_refs (bdev_bc bdev))"
proof -
  obtain r bdev' b' where g: "ext4_block_get bdev b lba = Some (r, bdev', b')"
    "raw_ok N bdev'" "same_view raw_img bdev bdev'"
    "bc_refs (bdev_bc bdev') =
       (if r = EOK then (bc_refs (bdev_bc bdev))(lba := bc_refs (bdev_bc bdev) lba + 1)
        else bc_refs (bdev_bc bdev))"
    "r = EOK \<Longrightarrow> b' = \<lparr>blk_lb_id = lba, blk_buf = Some lba, blk_data = True\<rparr>"
    "r = EOK \<Longrightarrow> bc_cached (bdev_bc bdev') lba = Some (bview raw_img bdev lba)"
    by (rule raw.block_get [OF assms, where b = b]) blast
  have "r = EOK \<Longrightarrow> buf_data (buf_at (bdev_bc bdev') lba) = bview raw_img bdev lba"
    using g(6) by (auto simp: bc_cached_def buf_at_def split: option.splits if_splits)
  then show ?thesis using g by (auto simp: same_view_def)
qed

theorem block_get_correct_witness:
  "\<exists>r bdev' b'. ext4_block_get sample_dev EXT4_BLOCK_ZERO 3 = Some (r, bdev', b') \<and> raw_ok 8192 bdev' \<and>
    (\<forall>l. l < lg_bcnt sample_dev \<longrightarrow> bview raw_img bdev' l = bview raw_img sample_dev l) \<and>
    (if r = EOK
     then b' = \<lparr>blk_lb_id = 3, blk_buf = Some 3, blk_data = True\<rparr> \<and>
       buf_data (buf_at (bdev_bc bdev') 3) = bview raw_img sample_dev 3 \<and>
       bc_refs (bdev_bc bdev') = (bc_refs (bdev_bc sample_dev))(3 := bc_refs (bdev_bc sample_dev) 3 + 1)
     else bc_refs (bdev_bc bdev') = bc_refs (bdev_bc sample_dev))"
  by (rule block_get_correct [of 8192 sample_dev 3]) (simp_all add: sample_ok)

text \<open>
  C2: \<open>ext4_block_set\<close> of a referenced block other than block 0 succeeds and gives the reference
  back. Nothing is lost, even when the write that it may start fails: the device stays in order
  and every block looks as before.
\<close>

theorem block_set_correct:
  assumes "raw_ok N bdev" "ph_refctr (bdev_bdif bdev) \<noteq> 0"
    and "bc_refs (bdev_bc bdev) lba \<noteq> 0" "lba \<noteq> 0"
  shows "\<exists>bdev' b'. ext4_block_set bdev \<lparr>blk_lb_id = lba, blk_buf = Some lba, blk_data = True\<rparr> =
      Some (EOK, bdev', b') \<and> raw_ok N bdev' \<and>
    (\<forall>l. l < lg_bcnt bdev \<longrightarrow> bview raw_img bdev' l = bview raw_img bdev l) \<and>
    bc_refs (bdev_bc bdev') = (bc_refs (bdev_bc bdev))(lba := bc_refs (bdev_bc bdev) lba - 1)"
proof -
  let ?b = "\<lparr>blk_lb_id = lba, blk_buf = Some lba, blk_data = True\<rparr>"
  obtain bdev' where f: "ext4_bcache_free bdev ?b = Some (EOK, bdev', ?b\<lparr>blk_lb_id := 0, blk_data := False\<rparr>)"
    "raw_ok N bdev'" "same_view raw_img bdev bdev'"
    "bc_refs (bdev_bc bdev') = (bc_refs (bdev_bc bdev))(lba := bc_refs (bdev_bc bdev) lba - 1)"
    by (rule raw.bcache_free [OF assms(1,3,4), where b = ?b]) simp_all
  then show ?thesis using assms(2) by (simp add: ext4_block_set_def same_view_def)
qed

definition sample_held :: "raw_file ext4_blockdev" where
  "sample_held = (case ext4_block_get_noread sample_dev EXT4_BLOCK_ZERO 3 of Some (_, bdev, _) \<Rightarrow> bdev)"

lemma sample_held_ok: "raw_ok 8192 sample_held" "ph_refctr (bdev_bdif sample_held) \<noteq> 0"
  "bc_refs (bdev_bc sample_held) 3 = 1" "lg_bcnt sample_held = 6" "lg_bsize sample_held = 1024"
  "bc_dirty_list (bdev_bc sample_held) = []" "\<not> bc_tmp (bdev_bc sample_held) l"
proof -
  have opened: "ph_refctr (bdev_bdif sample_dev) \<noteq> 0" and lba: "(3 :: u64) < lg_bcnt sample_dev"
    by (simp_all add: sample_ok)
  obtain r bdev' b' where g: "ext4_block_get_noread sample_dev EXT4_BLOCK_ZERO 3 = Some (r, bdev', b')"
    "raw_ok 8192 bdev'" "same_view raw_img sample_dev bdev'"
    "bc_refs (bdev_bc bdev') =
       (if r = EOK then (bc_refs (bdev_bc sample_dev))(3 := bc_refs (bdev_bc sample_dev) 3 + 1)
        else bc_refs (bdev_bc sample_dev))"
    "frame {3} sample_dev bdev'"
    by (rule raw.get_noread [OF sample_ok(1,2) opened lba]) blast
  have "fst (the (ext4_block_get_noread sample_dev EXT4_BLOCK_ZERO 3)) = EOK \<and>
      bc_dirty_list (bdev_bc (fst (snd (the (ext4_block_get_noread sample_dev EXT4_BLOCK_ZERO 3))))) = []"
    by (simp add: ext4_block_get_noread_def ext4_block_cache_shake_def shake_loop.simps sample_dev_def
        sample_cache_def ext4_io_raw_dev_get_def ext4_bcache_alloc_def ext4_bcache_find_get_def
        ext4_buf_lookup_def ext4_buf_alloc_def EXT4_BLOCK_ZERO_def Let_def upd_bc_def
        ext4_bcache_is_full_def)
  then have r: "r = EOK" and "bc_dirty_list (bdev_bc bdev') = []" using g(1) by simp_all
  then show "bc_dirty_list (bdev_bc sample_held) = []" using g(1) by (simp add: sample_held_def)
  have "\<not> bc_tmp (bdev_bc sample_dev) l" by (simp add: sample_dev_def sample_cache_def bc_tmp_def)
  then show "\<not> bc_tmp (bdev_bc sample_held) l" using g(1,5) r by (auto simp: sample_held_def frame_def)
  have "bc_refs (bdev_bc sample_dev) 3 = 0" by (simp add: sample_dev_def sample_cache_def bc_refs_def)
  then show "bc_refs (bdev_bc sample_held) 3 = 1" using g(1,4) r by (simp add: sample_held_def)
  show "raw_ok 8192 sample_held" using g(1,2) by (simp add: sample_held_def)
  show "ph_refctr (bdev_bdif sample_held) \<noteq> 0" "lg_bcnt sample_held = 6" "lg_bsize sample_held = 1024"
    using g(1) same_setup_fields [OF same_view_setup [OF g(3)]] by (simp_all add: sample_held_def sample_ok)
qed

theorem block_set_correct_witness:
  "\<exists>bdev' b'. ext4_block_set sample_held \<lparr>blk_lb_id = 3, blk_buf = Some 3, blk_data = True\<rparr> =
      Some (EOK, bdev', b') \<and> raw_ok 8192 bdev' \<and>
    (\<forall>l. l < lg_bcnt sample_held \<longrightarrow> bview raw_img bdev' l = bview raw_img sample_held l) \<and>
    bc_refs (bdev_bc bdev') = (bc_refs (bdev_bc sample_held))(3 := bc_refs (bdev_bc sample_held) 3 - 1)"
  by (rule block_set_correct [of 8192 sample_held 3]) (simp_all add: sample_held_ok)

text \<open>
  C6: \<open>ext4_block_cache_flush\<close> ends. When it reports success the dirty list is empty and every
  block that was on it is on the medium as clients saw it; in any case no block looks different,
  no reference is lost and no byte outside the partition changes.
\<close>

theorem cache_flush_correct:
  assumes "raw_ok N bdev"
  shows "\<exists>r bdev'. ext4_block_cache_flush bdev = Some (r, bdev') \<and> raw_ok N bdev' \<and>
    (r = EOK \<longrightarrow> bc_dirty_list (bdev_bc bdev') = [] \<and>
       (\<forall>l \<in> set (bc_dirty_list (bdev_bc bdev)). dev_block raw_img bdev' l = bview raw_img bdev l)) \<and>
    (\<forall>l. l < lg_bcnt bdev \<longrightarrow> bview raw_img bdev' l = bview raw_img bdev l) \<and>
    bc_refs (bdev_bc bdev') = bc_refs (bdev_bc bdev) \<and>
    (\<forall>a. a < unat (part_offset bdev) \<or> unat (part_offset bdev) + unat (part_size bdev) \<le> a \<longrightarrow>
       raw_img (bdev_dev bdev') a = raw_img (bdev_dev bdev) a)"
proof -
  obtain r bdev' where f: "ext4_block_cache_flush bdev = Some (r, bdev')" "raw_ok N bdev'"
    "evicted raw_img bdev bdev'"
    "r = EOK \<longrightarrow> bc_dirty_list (bdev_bc bdev') = [] \<and>
       (\<forall>l \<in> set (bc_dirty_list (bdev_bc bdev)). \<not> bc_dirty (bdev_bc bdev') l)"
    using raw.cache_flush [OF assms] by blast
  have "dev_block raw_img bdev' l = bview raw_img bdev l"
    if "r = EOK" "l \<in> set (bc_dirty_list (bdev_bc bdev))" for l
  proof -
    have "l < lg_bcnt bdev"
      using that(2) bc_invD(8) [OF bdev_okD(4) [OF assms]] assms by (auto simp: bdev_ok_def)
    then show ?thesis
      using raw.clean_block [OF f(2)] f(3,4) that by (simp add: evicted_def same_view_def)
  qed
  then show ?thesis using f by (simp add: evicted_def same_view_def)
qed

theorem cache_flush_correct_witness:
  "\<exists>r bdev'. ext4_block_cache_flush sample_held = Some (r, bdev') \<and> raw_ok 8192 bdev' \<and>
    (r = EOK \<longrightarrow> bc_dirty_list (bdev_bc bdev') = [] \<and>
       (\<forall>l \<in> set (bc_dirty_list (bdev_bc sample_held)). dev_block raw_img bdev' l = bview raw_img sample_held l)) \<and>
    (\<forall>l. l < lg_bcnt sample_held \<longrightarrow> bview raw_img bdev' l = bview raw_img sample_held l) \<and>
    bc_refs (bdev_bc bdev') = bc_refs (bdev_bc sample_held) \<and>
    (\<forall>a. a < unat (part_offset sample_held) \<or>
         unat (part_offset sample_held) + unat (part_size sample_held) \<le> a \<longrightarrow>
       raw_img (bdev_dev bdev') a = raw_img (bdev_dev sample_held) a)"
  by (rule cache_flush_correct [of 8192 sample_held]) (rule sample_held_ok)

end
