(* ===== verification/Trans.thy ===== *)
theory Trans
  imports Io_Raw
begin

text \<open>
  \<open>src/ext4_trans.c\<close>: how the file system reads blocks and marks them modified. The file
  system is one without a journal attached (\<open>fs->jbd_journal\<close> is null), so no transaction is
  ever current.
\<close>

section \<open>Operations\<close>

definition ext4_trans_set_block_dirty :: "'d ext4_blockdev \<Rightarrow> u64 \<Rightarrow> errno \<times> 'd ext4_blockdev" where
  "ext4_trans_set_block_dirty bdev buf = (EOK, upd_bc (upd_buf buf ext4_bcache_set_dirty) bdev)"

definition ext4_trans_block_get_noread ::
    "'d ext4_blockdev \<Rightarrow> ext4_block \<Rightarrow> u64 \<Rightarrow> (errno \<times> 'd ext4_blockdev \<times> ext4_block) option" where
  "ext4_trans_block_get_noread bdev b lba = do {
     (r, bdev, b) \<leftarrow> ext4_block_get_noread bdev b lba;
     if r \<noteq> EOK then Some (r, bdev, b) else Some (r, bdev, b)
   }"

definition ext4_trans_block_get ::
    "'d ext4_blockdev \<Rightarrow> ext4_block \<Rightarrow> u64 \<Rightarrow> (errno \<times> 'd ext4_blockdev \<times> ext4_block) option" where
  "ext4_trans_block_get bdev b lba = do {
     (r, bdev, b) \<leftarrow> ext4_block_get bdev b lba;
     if r \<noteq> EOK then Some (r, bdev, b) else Some (r, bdev, b)
   }"

text \<open>The caller's stores to a block's data, and its data.\<close>

definition blk_put :: "'d ext4_blockdev \<Rightarrow> ext4_block \<Rightarrow> bytes \<Rightarrow> 'd ext4_blockdev" where
  "blk_put bdev b data = upd_bc (upd_buf (the (blk_buf b)) (\<lambda>bf. bf\<lparr>buf_data := data\<rparr>)) bdev"

definition blk_bytes :: "'d ext4_blockdev \<Rightarrow> ext4_block \<Rightarrow> bytes" where
  "blk_bytes bdev b = buf_data (buf_at (bdev_bc bdev) (the (blk_buf b)))"

section \<open>A modified block\<close>

lemma set_dirty_simps [simp]:
  "buf_flags (ext4_bcache_set_dirty bf) = insert BC_DIRTY (insert BC_UPTODATE (buf_flags bf))"
  "buf_lba (ext4_bcache_set_dirty bf) = buf_lba bf" "buf_data (ext4_bcache_set_dirty bf) = buf_data bf"
  "buf_lru_id (ext4_bcache_set_dirty bf) = buf_lru_id bf" "buf_refctr (ext4_bcache_set_dirty bf) = buf_refctr bf"
  "buf_on_dirty_list (ext4_bcache_set_dirty bf) = buf_on_dirty_list bf"
  "buf_end_write (ext4_bcache_set_dirty bf) = buf_end_write bf"
  by (simp_all add: ext4_bcache_set_dirty_def ext4_bcache_set_flag_def)

text \<open>Storing to a referenced block and marking it dirty changes the view at that block only.\<close>

lemma modify_block:
  assumes ok: "bdev_ok rd wr bsz cap content bdev" and l: "bc_refs (bdev_bc bdev) l \<noteq> 0"
    and tmp: "\<not> bc_tmp (bdev_bc bdev) l"
    and len: "length data = unat (lg_bsize bdev)" and b: "blk_buf b = Some l"
    and d: "ext4_trans_set_block_dirty (blk_put bdev b data) l = (r, bdev')"
  shows "r = EOK" "bdev_ok rd wr bsz cap content bdev'" "same_setup bdev bdev'"
    "bdev_dev bdev' = bdev_dev bdev"
    "bview content bdev' = (bview content bdev)(l := data)"
    "bc_refs (bdev_bc bdev') = bc_refs (bdev_bc bdev)"
    "bc_dirty (bdev_bc bdev') = (bc_dirty (bdev_bc bdev))(l := True)"
    "bc_dirty_list (bdev_bc bdev') = bc_dirty_list (bdev_bc bdev)"
    "\<And>k. k \<noteq> l \<Longrightarrow> bc_bufs (bdev_bc bdev') k = bc_bufs (bdev_bc bdev) k"
    "bc_tmp (bdev_bc bdev') = bc_tmp (bdev_bc bdev)" "bc_lru_ctr (bdev_bc bdev') = bc_lru_ctr (bdev_bc bdev)"
proof -
  note D = bdev_okD [OF ok]
  obtain bf where bf: "bc_bufs (bdev_bc bdev) l = Some bf" "buf_refctr bf \<noteq> 0"
    using l by (cases "bc_bufs (bdev_bc bdev) l") (simp_all add: bc_refs_def)
  have at: "buf_at (bdev_bc bdev) l = bf" by (rule buf_at_Some [OF bf(1)])
  let ?f = "\<lambda>bf. ext4_bcache_set_dirty (bf\<lparr>buf_data := data\<rparr>)"
  have eq: "bdev' = upd_bc (upd_buf l ?f) bdev" "r = EOK"
    using d b by (auto simp: ext4_trans_set_block_dirty_def blk_put_def upd_bc_def upd_buf_def buf_at_simps)
  show "r = EOK" by (fact eq)
  have bok: "buf_ok (bdev_bc bdev) l (?f bf)"
    using bc_invD(3) [OF D(4) bf(1)] bf tmp len D(5) by (auto simp: buf_ok_def bc_tmp_def)
  have inv: "bc_inv (upd_buf l ?f (bdev_bc bdev))"
    by (rule bc_inv_upd [where f = ?f, OF D(4) bf(1) bok]) simp_all
  have cached: "bc_cached (bdev_bc bdev') = (bc_cached (bdev_bc bdev))(l := Some data)"
    by (auto simp: eq bc_cached_def at fun_eq_iff)
  show dirty: "bc_dirty (bdev_bc bdev') = (bc_dirty (bdev_bc bdev))(l := True)"
    by (auto simp: eq bc_dirty_def at fun_eq_iff)
  show "bc_refs (bdev_bc bdev') = bc_refs (bdev_bc bdev)"
    using bf by (auto simp: eq bc_refs_def at fun_eq_iff)
  show "\<And>k. k \<noteq> l \<Longrightarrow> bc_bufs (bdev_bc bdev') k = bc_bufs (bdev_bc bdev) k"
    "bc_tmp (bdev_bc bdev') = bc_tmp (bdev_bc bdev)" "bc_lru_ctr (bdev_bc bdev') = bc_lru_ctr (bdev_bc bdev)"
    using bf by (auto simp: eq bc_tmp_def at fun_eq_iff)
  show same: "same_setup bdev bdev'" "bdev_dev bdev' = bdev_dev bdev"
    "bc_dirty_list (bdev_bc bdev') = bc_dirty_list (bdev_bc bdev)" by (simp_all add: eq)
  have blk: "dev_block content bdev' k = dev_block content bdev k" for k by (simp add: eq)
  show "bview content bdev' = (bview content bdev)(l := data)"
    by (auto simp: bview_def cached blk fun_eq_iff split: option.splits)
  show "bdev_ok rd wr bsz cap content bdev'"
  proof (rule bdev_okI [OF ok same(1)])
    show "data' = dev_block content bdev' k"
      if "bc_cached (bdev_bc bdev') k = Some data'" "\<not> bc_dirty (bdev_bc bdev') k" for k data'
      using that D(7) [of k data'] by (auto simp: cached dirty blk split: if_splits)
    show "k < lg_bcnt bdev" if "k \<in> dom (bc_bufs (bdev_bc bdev'))" for k
    proof -
      have "k \<in> dom (bc_bufs (bdev_bc bdev))" using that bf(1) by (auto simp: eq split: if_splits)
      then show ?thesis using D(6) by auto
    qed
  qed (use inv D(5) in \<open>simp_all add: eq\<close>)
qed

text \<open>
  C5: Storing new contents to a referenced block that is not temporary and marking it with \<open>ext4_trans_set_block_dirty\<close>
  makes exactly that block look modified to every client, keeps the device in order and keeps
  all references.
\<close>

theorem set_block_dirty_correct:
  assumes "raw_ok N bdev" "bc_refs (bdev_bc bdev) l \<noteq> 0" "\<not> bc_tmp (bdev_bc bdev) l"
    and "length data = unat (lg_bsize bdev)" "blk_buf b = Some l"
  shows "\<exists>bdev'. ext4_trans_set_block_dirty (blk_put bdev b data) l = (EOK, bdev') \<and> raw_ok N bdev' \<and>
    bview raw_img bdev' = (bview raw_img bdev)(l := data) \<and>
    bc_refs (bdev_bc bdev') = bc_refs (bdev_bc bdev)"
proof -
  obtain r bdev' where d: "ext4_trans_set_block_dirty (blk_put bdev b data) l = (r, bdev')"
    by (metis surj_pair)
  show ?thesis using modify_block [OF assms d] d by auto
qed

theorem set_block_dirty_correct_witness:
  "\<exists>bdev'. ext4_trans_set_block_dirty
      (blk_put sample_held \<lparr>blk_lb_id = 3, blk_buf = Some 3, blk_data = True\<rparr> (replicate 1024 5)) 3 = (EOK, bdev') \<and>
    raw_ok 8192 bdev' \<and>
    bview raw_img bdev' = (bview raw_img sample_held)(3 := replicate 1024 5) \<and>
    bc_refs (bdev_bc bdev') = bc_refs (bdev_bc sample_held)"
  by (rule set_block_dirty_correct [of 8192 sample_held 3]) (simp_all add: sample_held_ok)

section \<open>Where the cache does not do what it means to\<close>

lemma bwrite_fails:
  assumes "raw_dev N bdev" "raw_fail (bdev_dev bdev) = (\<lambda>_. True)"
  shows "\<exists>bdev'. ext4_bdif_bwrite bdev data blk cnt = Some (EIO, bdev') \<and>
    bdev_bc bdev' = bdev_bc bdev \<and> raw_img (bdev_dev bdev') = raw_img (bdev_dev bdev) \<and>
    same_setup bdev bdev'"
  using assms
  by (simp add: ext4_bdif_bwrite_def driver_is_def ext4_bdif_lock_def ext4_bdif_unlock_def
      io_raw_bwrite_def SetFilePointer_def Let_def same_setup_def)

text \<open>
  C17: In write-through mode the last \<open>ext4_block_set\<close> of a modified block drops a write error: it
  returns \<open>EOK\<close> although nothing was written, and, the block not being on the dirty list, a flush
  of the cache afterwards reports success without writing it either.
\<close>

theorem block_set_loses_write_error:
  assumes "raw_ok N bdev" "ph_refctr (bdev_bdif bdev) \<noteq> 0" "lba \<noteq> 0"
    and "bc_refs (bdev_bc bdev) lba = 1" "bc_dirty (bdev_bc bdev) lba" "cache_write_back bdev = 0"
    and "raw_fail (bdev_dev bdev) = (\<lambda>_. True)" "bc_dirty_list (bdev_bc bdev) = []"
  shows "\<exists>bdev' b'. ext4_block_set bdev \<lparr>blk_lb_id = lba, blk_buf = Some lba, blk_data = True\<rparr> =
      Some (EOK, bdev', b') \<and>
    raw_img (bdev_dev bdev') = raw_img (bdev_dev bdev) \<and> bc_dirty (bdev_bc bdev') lba \<and>
    ext4_block_cache_flush bdev' = Some (EOK, bdev')"
proof -
  note D = bdev_okD [OF assms(1)]
  let ?bc = "bdev_bc bdev" and ?b = "\<lparr>blk_lb_id = lba, blk_buf = Some lba, blk_data = True\<rparr>"
  obtain bf where bf: "bc_bufs ?bc lba = Some bf" "buf_refctr bf = 1" "BC_DIRTY \<in> buf_flags bf"
    using assms(4,5) by (auto simp: bc_refs_def bc_dirty_def split: option.splits)
  have fl: "BC_UPTODATE \<in> buf_flags bf" "BC_TMP \<notin> buf_flags bf" "buf_end_write bf = None" "buf_lba bf = lba"
    using bc_invD(3) [OF D(4) bf(1)] bf(3) by (auto simp: buf_ok_def)
  have at: "buf_at ?bc lba = bf" by (rule buf_at_Some [OF bf(1)])
  let ?bdev1 = "upd_bc (release lba) bdev" and ?bf1 = "ext4_bcache_dec_ref bf"
  have bf1: "buf_at (release lba ?bc) lba = ?bf1" using at by (intro buf_at_Some) simp
  have z: "buf_refctr ?bf1 = 0" "buf_flags ?bf1 = buf_flags bf" "buf_end_write ?bf1 = None"
    using bf fl by (simp_all add: ext4_bcache_dec_ref_def)
  have rel: "upd_bc (\<lambda>bc. bc\<lparr>bc_lru_root := rb_insert_lru (\<lambda>k. buf_lru_id (buf_at bc k)) lba (bc_lru_root bc)\<rparr>)
      (upd_bc (upd_buf lba ext4_bcache_dec_ref) bdev) = ?bdev1"
    using z(1) by (simp add: upd_bc_def release_def Let_def buf_at_upd at)
  have "raw_dev N ?bdev1" "raw_fail (bdev_dev ?bdev1) = (\<lambda>_. True)"
    using D(1) assms(7) by (simp_all add: driver_is_def)
  from bwrite_fails [OF this] obtain bdev2 where w:
    "ext4_blocks_set_direct ?bdev1 (buf_data ?bf1) (buf_lba ?bf1) 1 = Some (EIO, bdev2)"
    "bdev_bc bdev2 = release lba ?bc" "raw_img (bdev_dev bdev2) = raw_img (bdev_dev bdev)"
    unfolding ext4_blocks_set_direct_def Let_def upd_bc_simps by blast
  have flush: "ext4_block_flush_buf ?bdev1 lba = Some (EIO, bdev2)"
    using w z bf(3) fl by (simp add: ext4_block_flush_buf_def ext4_bcache_test_flag_def bf1
        raw.call_end_write_none)
  let ?bdev3 = "upd_bc (upd_buf lba (\<lambda>b. ext4_bcache_clear_flag b BC_FLUSH)) bdev2"
  have "ext4_block_set bdev ?b = Some (EOK, ?bdev3, ?b\<lparr>blk_lb_id := 0, blk_data := False\<rparr>)"
    using assms(2,3,6) bf at z fl rel flush w(2) bf1
    by (simp add: ext4_block_set_def ext4_bcache_free_def buf_at_upd ext4_bcache_test_flag_def
        ext4_bcache_clear_flag_def)
  moreover have "bc_dirty (bdev_bc ?bdev3) lba"
    using bf1 z bf(3) by (simp add: bc_dirty_def w(2) ext4_bcache_clear_flag_def)
  moreover have "ext4_block_cache_flush ?bdev3 = Some (EOK, ?bdev3)"
    using assms(8) by (subst ext4_block_cache_flush.simps) (simp add: w(2))
  ultimately show ?thesis using w(3) by simp
qed

text \<open>
  Block 0 can be read, but not given back: \<open>ext4_block_get\<close> accepts the address (0 is below
  the block count), and the release fails the assertion on \<open>lb_id\<close>.
\<close>

theorem block_zero_asserts:
  "ext4_bcache_free bdev \<lparr>blk_lb_id = 0, blk_buf = Some 0, blk_data = True\<rparr> = None"
  by (simp add: ext4_bcache_free_def)

text \<open>A device whose block 3 is referenced once and modified, and whose driver now fails.\<close>

definition sample_modified :: "raw_file ext4_blockdev" where
  "sample_modified = snd (ext4_trans_set_block_dirty
     (blk_put sample_held \<lparr>blk_lb_id = 3, blk_buf = Some 3, blk_data = True\<rparr> (replicate 1024 5)) 3)"

definition sample_failing :: "raw_file ext4_blockdev" where
  "sample_failing = upd_bdif (\<lambda>i. i\<lparr>bdif_dev := (bdif_dev i)\<lparr>raw_fail := \<lambda>_. True\<rparr>\<rparr>)
     (sample_modified\<lparr>cache_write_back := 0\<rparr>)"

lemma sample_modified_ok:
  "raw_ok 8192 sample_modified" "bc_refs (bdev_bc sample_modified) 3 = 1"
  "bc_dirty (bdev_bc sample_modified) 3" "bc_dirty_list (bdev_bc sample_modified) = []"
  "ph_refctr (bdev_bdif sample_modified) \<noteq> 0"
proof -
  let ?b = "\<lparr>blk_lb_id = 3, blk_buf = Some 3, blk_data = True\<rparr>"
  obtain r where d: "ext4_trans_set_block_dirty (blk_put sample_held ?b (replicate 1024 5)) 3 = (r, sample_modified)"
    by (simp add: sample_modified_def ext4_trans_set_block_dirty_def)
  have "bc_refs (bdev_bc sample_held) 3 \<noteq> 0" "\<not> bc_tmp (bdev_bc sample_held) 3" "length (replicate 1024 (5::u8)) = unat (lg_bsize sample_held)"
    by (simp_all add: sample_held_ok)
  note M = modify_block [OF sample_held_ok(1) this _ d, simplified]
  show "raw_ok 8192 sample_modified" "bc_refs (bdev_bc sample_modified) 3 = 1"
    "bc_dirty (bdev_bc sample_modified) 3" "bc_dirty_list (bdev_bc sample_modified) = []"
    "ph_refctr (bdev_bdif sample_modified) \<noteq> 0"
    using M sample_held_ok same_setup_fields [OF M(3)] by simp_all
qed

lemma sample_failing_ok: "raw_ok 8192 sample_failing"
proof -
  have "dev_block raw_img sample_failing l = dev_block raw_img sample_modified l" for l
    by (simp add: dev_block_def blk_pos_def sample_failing_def)
  moreover have "bdif_bread (bdev_bdif sample_failing) = bdif_bread (bdev_bdif sample_modified)"
    "bdif_bwrite (bdev_bdif sample_failing) = bdif_bwrite (bdev_bdif sample_modified)"
    "bdif_lock (bdev_bdif sample_failing) = bdif_lock (bdev_bdif sample_modified)"
    "bdif_unlock (bdev_bdif sample_failing) = bdif_unlock (bdev_bdif sample_modified)"
    "ph_bsize (bdev_bdif sample_failing) = ph_bsize (bdev_bdif sample_modified)"
    "ph_bbuf (bdev_bdif sample_failing) = ph_bbuf (bdev_bdif sample_modified)"
    "bdev_bc sample_failing = bdev_bc sample_modified" "part_offset sample_failing = part_offset sample_modified"
    "part_size sample_failing = part_size sample_modified" "lg_bsize sample_failing = lg_bsize sample_modified"
    "lg_bcnt sample_failing = lg_bcnt sample_modified"
    by (simp_all add: sample_failing_def)
  ultimately show ?thesis using sample_modified_ok(1)
    unfolding bdev_ok_def driver_is_def part_ok_def lg_ok_def by (elim conjE, intro conjI) simp_all
qed

theorem block_set_loses_write_error_witness:
  "\<exists>bdev' b'. ext4_block_set sample_failing \<lparr>blk_lb_id = 3, blk_buf = Some 3, blk_data = True\<rparr> =
      Some (EOK, bdev', b') \<and>
    raw_img (bdev_dev bdev') = raw_img (bdev_dev sample_failing) \<and> bc_dirty (bdev_bc bdev') 3 \<and>
    ext4_block_cache_flush bdev' = Some (EOK, bdev')"
  by (rule block_set_loses_write_error [OF sample_failing_ok])
    (simp_all add: sample_failing_def sample_modified_ok)

end
