(* ===== verification/Reliable.thy ===== *)
theory Reliable
  imports Trans
begin

text \<open>
  A driver that does not fail, over memory that does not run out: the operations of the block cache
  then always succeed. The interface extends the one of a driver by the state it may be in.
\<close>

locale reliable_driver = block_driver rd wr bsz cap content
  for rd :: "'d \<Rightarrow> u64 \<Rightarrow> u32 \<Rightarrow> errno \<times> bytes \<times> 'd"
    and wr :: "'d \<Rightarrow> bytes \<Rightarrow> u64 \<Rightarrow> u32 \<Rightarrow> errno \<times> 'd"
    and bsz cap :: nat
    and content :: "'d \<Rightarrow> nat \<Rightarrow> u8" +
  fixes good :: "'d \<Rightarrow> bool"
  assumes read_good: "good d \<Longrightarrow> transfer_ok bsz cap blk cnt \<Longrightarrow> rd d blk cnt = (r, bs, d') \<Longrightarrow> r = EOK \<and> good d'"
    and write_good: "good d \<Longrightarrow> transfer_ok bsz cap blk cnt \<Longrightarrow> length data = unat cnt * bsz \<Longrightarrow>
      wr d data blk cnt = (r, d') \<Longrightarrow> r = EOK \<and> good d'"

text \<open>Memory never runs out.\<close>

definition roomy :: "ext4_bcache \<Rightarrow> bool" where
  "roomy bc \<longleftrightarrow> (\<forall>n. heap_ok bc n)"

lemma roomy_upd [simp]:
  "roomy (upd_buf l f bc) = roomy bc" "roomy (ext4_bcache_drop_buf bc l) = roomy bc"
  "roomy (ext4_bcache_remove_dirty_node bc l) = roomy bc" "roomy (ext4_bcache_insert_dirty_node bc l) = roomy bc"
  "roomy (bc\<lparr>bc_dont_shake := x\<rparr>) = roomy bc" "roomy (bc\<lparr>bc_lru_root := ls\<rparr>) = roomy bc"
  "roomy (bc\<lparr>heap_next := n\<rparr>) = roomy bc" "roomy (bc\<lparr>bc_lru_ctr := c\<rparr>) = roomy bc"
  by (simp_all add: roomy_def upd_buf_def ext4_bcache_drop_buf_def ext4_bcache_remove_dirty_node_def
      ext4_bcache_insert_dirty_node_def Let_def)

lemma roomy_find_get:
  "ext4_bcache_find_get bc b l = (ob, bc', b') \<Longrightarrow> roomy bc' = roomy bc"
  by (auto simp: ext4_bcache_find_get_def Let_def split: option.splits if_splits)

lemma roomy_alloc:
  assumes "roomy bc" "ext4_bcache_alloc bc b = (r, bc', b', new)"
  shows "r = EOK \<and> roomy bc'"
proof -
  obtain ob bc1 b1 where f: "ext4_bcache_find_get bc b (blk_lb_id b) = (ob, bc1, b1)" by (metis prod_cases3)
  have "roomy bc1" using roomy_find_get [OF f] assms(1) by simp
  then show ?thesis using assms(2) f
    by (auto simp: ext4_bcache_alloc_def ext4_buf_alloc_def Let_def roomy_def upd_buf_def split: option.splits if_splits)
qed

context reliable_driver
begin

definition sound :: "'d ext4_blockdev \<Rightarrow> bool" where
  "sound bdev \<longleftrightarrow> good (bdev_dev bdev) \<and> roomy (bdev_bc bdev)"

lemma sound_bc [simp]: "roomy (f (bdev_bc bdev)) = roomy (bdev_bc bdev) \<Longrightarrow> sound (upd_bc f bdev) = sound bdev"
  by (simp add: sound_def)

lemma get_direct_sound:
  assumes ok: "bdev_ok rd wr bsz cap content bdev" "sound bdev" "l < lg_bcnt bdev"
    and g: "ext4_blocks_get_direct bdev l 1 = Some (r, bs, bdev')"
  shows "r = EOK \<and> sound bdev'"
proof -
  note D = bdev_okD [OF ok(1)]
  note G = blk_geometry [OF D(1,2,3) ok(3)]
  show ?thesis
    using g D(1) ok(2) read_good [OF _ G(3), of "bdev_dev bdev"]
    by (auto simp: ext4_blocks_get_direct_def ext4_bdif_bread_def ext4_bdif_lock_def ext4_bdif_unlock_def
        driver_is_def sound_def Let_def split: prod.splits)
qed

lemma set_direct_good:
  assumes ok: "bdev_ok rd wr bsz cap content bdev" "good (bdev_dev bdev)" "l < lg_bcnt bdev"
    and len: "length data = unat (lg_bsize bdev)"
    and g: "ext4_blocks_set_direct bdev data l 1 = Some (r, bdev')"
  shows "r = EOK \<and> good (bdev_dev bdev')"
proof -
  note D = bdev_okD [OF ok(1)]
  note G = blk_geometry [OF D(1,2,3) ok(3)]
  have "length data = unat (lg_bsize bdev div ph_bsize (bdev_bdif bdev) * 1) * bsz" by (simp only: G(2) len)
  from g D(1) ok(2) write_good [OF _ G(3) this, of "bdev_dev bdev"] show ?thesis
    by (auto simp: ext4_blocks_set_direct_def ext4_bdif_bwrite_def ext4_bdif_lock_def ext4_bdif_unlock_def
        driver_is_def Let_def split: prod.splits)
qed

lemma flush_good:
  assumes ok: "bdev_ok rd wr bsz cap content bdev" "good (bdev_dev bdev)" and l: "bc_bufs (bdev_bc bdev) l = Some b"
    and f: "ext4_block_flush_buf bdev l = Some (r, bdev')"
  shows "r = EOK \<and> good (bdev_dev bdev')"
proof (cases "BC_DIRTY \<in> buf_flags b \<and> BC_UPTODATE \<in> buf_flags b")
  case False
  then show ?thesis using f ok(2) buf_at_Some [OF l]
    by (auto simp: ext4_block_flush_buf_def ext4_bcache_test_flag_def split: if_splits)
next
  case True
  note D = bdev_okD [OF ok(1)]
  have b: "buf_lba b = l" "length (buf_data b) = unat (lg_bsize bdev)" "buf_end_write b = None"
    using bc_invD(3) [OF D(4) l] D(5) by (simp_all add: buf_ok_def)
  have at: "buf_at (bdev_bc bdev) l = b" by (rule buf_at_Some [OF l])
  obtain r1 bdev1 where w: "ext4_blocks_set_direct bdev (buf_data b) l 1 = Some (r1, bdev1)"
    "bdev_bc bdev1 = bdev_bc bdev"
    by (rule set_direct [OF D(1,2,3) D(6) [OF l] b(2)]) blast
  have s: "r1 = EOK \<and> good (bdev_dev bdev1)" by (rule set_direct_good [OF ok D(6) [OF l] b(2) w(1)])
  have "buf_end_write (buf_at (cleaned l (bdev_bc bdev)) l) = None"
    using b(3) by (simp add: buf_at_def cleaned_fields [OF D(4) l])
  then have "call_end_write (upd_bc (cleaned l) bdev1) l r1 = upd_bc (cleaned l) bdev1"
    by (intro call_end_write_none) (simp add: w(2))
  then have "r = EOK \<and> bdev' = upd_bc (cleaned l) bdev1"
    using f w s True b at by (auto simp: ext4_block_flush_buf_def ext4_bcache_test_flag_def upd_bc_def cleaned_def)
  then show ?thesis using s by simp
qed

lemma flush_sound:
  assumes ok: "bdev_ok rd wr bsz cap content bdev" "sound bdev" and l: "bc_bufs (bdev_bc bdev) l = Some b"
    and f: "ext4_block_flush_buf bdev l = Some (r, bdev')"
  shows "r = EOK \<and> sound bdev'"
proof -
  have "bdev_bc bdev' = (if BC_DIRTY \<in> buf_flags b \<and> r = EOK then cleaned l (bdev_bc bdev) else bdev_bc bdev)"
    by (rule flush_buf [OF ok(1) l]) (use f in simp)
  then have "roomy (bdev_bc bdev') = roomy (bdev_bc bdev)" by (simp add: cleaned_def)
  then show ?thesis using flush_good [OF ok(1) _ l f] ok(2) by (simp add: sound_def)
qed

text \<open>A flush of the cache comes to its end without an error.\<close>

lemma cache_flush_good:
  assumes "ext4_block_cache_flush bdev = Some y" "bdev_ok rd wr bsz cap content bdev" "good (bdev_dev bdev)"
  shows "fst y = EOK \<and> good (bdev_dev (snd y))"
proof -
  let ?P = "\<lambda>bdev y. bdev_ok rd wr bsz cap content bdev \<longrightarrow> good (bdev_dev bdev) \<longrightarrow> fst y = EOK \<and> good (bdev_dev (snd y))"
  have "?P bdev y"
  proof (rule ext4_block_cache_flush.raw_induct [where P = ?P, OF _ assms(1)], intro impI)
    fix f :: "'d ext4_blockdev \<Rightarrow> (errno \<times> 'd ext4_blockdev) option" and bdev y
    assume hyp: "\<And>bdev y. f bdev = Some y \<Longrightarrow> ?P bdev y"
      and body: "(case bc_dirty_list (bdev_bc bdev) of
          [] \<Rightarrow> Some (EOK, bdev)
        | buf # _ \<Rightarrow>
            (case ext4_block_flush_buf bdev buf of
               None \<Rightarrow> None
             | Some (r, bdev) \<Rightarrow> if r \<noteq> EOK then Some (r, bdev) else f bdev)) = Some y"
      and ok: "bdev_ok rd wr bsz cap content bdev" "good (bdev_dev bdev)"
    show "fst y = EOK \<and> good (bdev_dev (snd y))"
    proof (cases "bc_dirty_list (bdev_bc bdev)")
      case Nil
      then show ?thesis using body ok by auto
    next
      case (Cons l ls)
      then have "l \<in> set (bc_dirty_list (bdev_bc bdev))" by simp
      then obtain b where l: "bc_bufs (bdev_bc bdev) l = Some b"
        using bdev_okD(4) [OF ok(1)] by (auto simp: bc_inv_def)
      obtain r1 bdev1 where f: "ext4_block_flush_buf bdev l = Some (r1, bdev1)" "bdev_ok rd wr bsz cap content bdev1"
        by (rule flush_buf [OF ok(1) l]) blast
      have "r1 = EOK \<and> good (bdev_dev bdev1)" by (rule flush_good [OF ok l f(1)])
      then show ?thesis using hyp [of bdev1 y] body Cons f by simp
    qed
  qed
  then show ?thesis using assms(2,3) by blast
qed

lemma shake_loop_sound:
  assumes "shake_loop bdev = Some y" "bdev_ok rd wr bsz cap content bdev" "sound bdev"
  shows "fst y = EOK \<and> sound (snd y)"
proof -
  let ?P = "\<lambda>bdev y. bdev_ok rd wr bsz cap content bdev \<longrightarrow> sound bdev \<longrightarrow> fst y = EOK \<and> sound (snd y)"
  have "?P bdev y"
  proof (rule shake_loop.raw_induct [where P = ?P, OF _ assms(1)], intro impI)
    fix f :: "'d ext4_blockdev \<Rightarrow> (errno \<times> 'd ext4_blockdev) option" and bdev y
    assume hyp: "\<And>bdev y. f bdev = Some y \<Longrightarrow> ?P bdev y"
      and body: "(if bc_lru_root (bdev_bc bdev) \<noteq> [] \<and> ext4_bcache_is_full (bdev_bc bdev)
        then (case ext4_buf_lowest_lru (bdev_bc bdev) of
                None \<Rightarrow> None
              | Some buf \<Rightarrow>
                  if ext4_bcache_test_flag (buf_at (bdev_bc bdev) buf) BC_DIRTY
                  then (case ext4_block_flush_buf bdev buf of
                          None \<Rightarrow> None
                        | Some (r, bdev) \<Rightarrow>
                            if r \<noteq> EOK then Some (r, bdev)
                            else f (upd_bc (\<lambda>bc. ext4_bcache_drop_buf bc buf) bdev))
                  else f (upd_bc (\<lambda>bc. ext4_bcache_drop_buf bc buf) bdev))
        else Some (EOK, bdev)) = Some y"
      and ok: "bdev_ok rd wr bsz cap content bdev" "sound bdev"
    have IH: "f bdev = Some y \<Longrightarrow> bdev_ok rd wr bsz cap content bdev \<Longrightarrow> sound bdev \<Longrightarrow> fst y = EOK \<and> sound (snd y)"
      for bdev y using hyp by blast
    let ?bc = "bdev_bc bdev"
    note D = bdev_okD [OF ok(1)]
    show "fst y = EOK \<and> sound (snd y)"
    proof (cases "bc_lru_root ?bc \<noteq> [] \<and> ext4_bcache_is_full ?bc")
      case False
      then show ?thesis using body ok by (auto split: if_splits)
    next
      case True
      then obtain l ls where L: "bc_lru_root ?bc = l # ls" by (cases "bc_lru_root ?bc") auto
      then have "l \<in> set (bc_lru_root ?bc)" by simp
      then obtain b where l: "bc_bufs ?bc l = Some b"
        using bc_invD(6) [OF D(4)] by (auto simp: buf_at_Some)
      have low: "ext4_buf_lowest_lru ?bc = Some l" using L by (simp add: ext4_buf_lowest_lru_def)
      have at: "buf_at ?bc l = b" by (rule buf_at_Some [OF l])
      show ?thesis
      proof (cases "BC_DIRTY \<in> buf_flags b")
        case False
        then have "f (upd_bc (\<lambda>bc. ext4_bcache_drop_buf bc l) bdev) = Some y"
          using body True low at by (simp add: ext4_bcache_test_flag_def)
        from IH [OF this drop_clean(1) [OF ok(1) l False]] show ?thesis using ok(2) by simp
      next
        case dirty: True
        obtain r1 bdev1 where f: "ext4_block_flush_buf bdev l = Some (r1, bdev1)"
          "bdev_ok rd wr bsz cap content bdev1"
          "bdev_bc bdev1 = (if BC_DIRTY \<in> buf_flags b \<and> r1 = EOK then cleaned l ?bc else ?bc)"
          by (rule flush_buf [OF ok(1) l]) blast
        have s: "r1 = EOK" "sound bdev1" using flush_sound [OF ok l f(1)] by auto
        have l1: "bc_bufs (bdev_bc bdev1) l = Some (b\<lparr>buf_flags := buf_flags b - {BC_DIRTY}, buf_on_dirty_list := False\<rparr>)"
          using f(3) s dirty by (simp add: cleaned_fields [OF D(4) l])
        have "f (upd_bc (\<lambda>bc. ext4_bcache_drop_buf bc l) bdev1) = Some y"
          using body True low at dirty f(1) s by (simp add: ext4_bcache_test_flag_def)
        from IH [OF this drop_clean(1) [OF f(2) l1]] show ?thesis using s by simp
      qed
    qed
  qed
  then show ?thesis using assms(2,3) by blast
qed

lemma cache_shake_sound:
  assumes ok: "bdev_ok rd wr bsz cap content bdev" "sound bdev"
    and s: "ext4_block_cache_shake bdev = Some (r, bdev')"
  shows "r = EOK \<and> sound bdev'"
proof (cases "bc_dont_shake (bdev_bc bdev)")
  case True
  then show ?thesis using s ok by (simp add: ext4_block_cache_shake_def)
next
  case False
  let ?a = "upd_bc (\<lambda>bc. bc\<lparr>bc_dont_shake := True\<rparr>) bdev"
  have "bdev_ok rd wr bsz cap content ?a"
    by (rule bdev_okI [OF ok(1)]) (use bdev_okD [OF ok(1)] in auto)
  moreover have "sound ?a" using ok(2) by simp
  ultimately show ?thesis
    using s False shake_loop_sound [of ?a] by (auto simp: ext4_block_cache_shake_def bind_eq_Some_conv)
qed

lemma get_noread_sound:
  assumes ok: "bdev_ok rd wr bsz cap content bdev" "sound bdev" "counters_ok (bdev_bc bdev)"
    and opened: "ph_refctr (bdev_bdif bdev) \<noteq> 0" and lba: "lba < lg_bcnt bdev"
    and g: "ext4_block_get_noread bdev b lba = Some (r, bdev', b')"
  shows "r = EOK \<and> sound bdev'"
proof -
  obtain r1 bdev1 where s: "ext4_block_cache_shake bdev = Some (r1, bdev1)"
    "bdev_ok rd wr bsz cap content bdev1" "counters_ok (bdev_bc bdev1) = counters_ok (bdev_bc bdev)"
    by (rule cache_shake [OF ok(1)]) blast
  have s1: "r1 = EOK" "sound bdev1" using cache_shake_sound [OF ok(1,2) s(1)] by auto
  obtain r2 bc2 b2 new where al: "ext4_bcache_alloc (bdev_bc bdev1) (b\<lparr>blk_lb_id := lba\<rparr>) = (r2, bc2, b2, new)"
    by (metis prod_cases4)
  have a: "r2 = EOK" "roomy bc2" using roomy_alloc [OF _ al] s1(2) by (auto simp: sound_def)
  have "blk_data b2"
    using alloc_spec(7) [OF bdev_okD(4) [OF s(2)] _ al] s(3) ok(3) a(1) by simp
  then have "r = EOK \<and> bdev' = bdev1\<lparr>bdev_bc := bc2\<rparr>"
    using g s(1) s1(1) opened lba al a(1) by (auto simp: ext4_block_get_noread_def Let_def)
  then show ?thesis using a(2) s1(2) by (simp add: sound_def)
qed

lemma free_sound:
  assumes ok: "bdev_ok rd wr bsz cap content bdev" "sound bdev"
    and l: "bc_refs (bdev_bc bdev) l \<noteq> 0" and b: "blk_buf b = Some l"
    and f: "ext4_bcache_free bdev b = Some (r, bdev', b')"
  shows "sound bdev'"
proof -
  note D = bdev_okD [OF ok(1)]
  let ?bc = "bdev_bc bdev"
  obtain bf where bf: "bc_bufs ?bc l = Some bf" "buf_refctr bf \<noteq> 0"
    using l by (cases "bc_bufs ?bc l") (simp_all add: bc_refs_def)
  have at: "buf_at ?bc l = bf" by (rule buf_at_Some [OF bf(1)])
  let ?bdev1 = "upd_bc (release l) bdev" and ?bf1 = "ext4_bcache_dec_ref bf"
  have ok1: "bdev_ok rd wr bsz cap content ?bdev1"
    by (rule step_bc(1) [OF ok(1), where l = l];
        use release_inv [OF D(4) bf] D(6) [OF bf(1)] release_views [OF bf(1)] in auto)
  have s1: "sound ?bdev1" using ok(2) by (simp add: sound_def release_def Let_def)
  have bf1: "bc_bufs (bdev_bc ?bdev1) l = Some ?bf1" by (simp add: at)
  have rel: "upd_bc (\<lambda>bc. bc\<lparr>bc_lru_root := rb_insert_lru (\<lambda>k. buf_lru_id (buf_at bc k)) l (bc_lru_root bc)\<rparr>)
      (upd_bc (upd_buf l ext4_bcache_dec_ref) bdev) = ?bdev1" if "buf_refctr ?bf1 = 0"
    using that by (simp add: upd_bc_def release_def Let_def buf_at_upd at)
  have fl: "ext4_block_flush_buf ?bdev1 l = Some (r2, bdev2) \<Longrightarrow> sound bdev2" for r2 bdev2
    using flush_sound [OF ok1 s1 bf1] by blast
  have s0: "sound (upd_bc (upd_buf l ext4_bcache_dec_ref) bdev)" using ok(2) by simp
  show ?thesis
  proof (cases "buf_refctr ?bf1 = 0")
    case False
    then show ?thesis
      using f b bf at s0 by (auto simp: ext4_bcache_free_def buf_at_upd split: if_splits)
  next
    case True
    then show ?thesis
      using f b bf at s1 fl rel
      by (auto simp: ext4_bcache_free_def buf_at_upd Let_def bind_eq_Some_conv split: if_splits)
  qed
qed

lemma block_get_sound:
  assumes ok: "bdev_ok rd wr bsz cap content bdev" "sound bdev" "counters_ok (bdev_bc bdev)"
    and opened: "ph_refctr (bdev_bdif bdev) \<noteq> 0" and lba: "lba < lg_bcnt bdev"
    and g: "ext4_block_get bdev b lba = Some (r, bdev', b')"
  shows "r = EOK \<and> sound bdev'"
proof -
  obtain r1 bdev1 b1 where n: "ext4_block_get_noread bdev b lba = Some (r1, bdev1, b1)"
    "bdev_ok rd wr bsz cap content bdev1" "same_view content bdev bdev1"
    by (rule get_noread [OF ok(1,3) opened lba]) blast
  have s1: "r1 = EOK" "sound bdev1" using get_noread_sound [OF ok opened lba n(1)] by auto
  have lba1: "lba < lg_bcnt bdev1" using lba same_setup_fields [OF same_view_setup [OF n(3)]] by simp
  have d: "ext4_blocks_get_direct bdev1 lba 1 = Some (r2, data, bdev2) \<Longrightarrow> r2 = EOK \<and> sound bdev2" for r2 data bdev2
    by (rule get_direct_sound [OF n(2) s1(2) lba1])
  show ?thesis
    using g n(1) s1 d by (auto simp: ext4_block_get_def Let_def bind_eq_Some_conv split: if_splits option.splits)
qed

end

section \<open>The raw driver\<close>

text \<open>A file none of whose calls fails.\<close>

definition raw_good :: "raw_file \<Rightarrow> bool" where
  "raw_good f \<longleftrightarrow> raw_fail f = (\<lambda>_. False)"

interpretation sure: reliable_driver "io_raw_bread N" "io_raw_bwrite N" 512 "raw_cap N" raw_img raw_good for N
proof unfold_locales
  fix d blk cnt r bs d'
  assume "raw_good d" and t: "transfer_ok 512 (raw_cap N) blk cnt" and "io_raw_bread N d blk cnt = (r, bs, d')"
  then show "r = EOK \<and> raw_good d'"
    using raw_position(1) [OF raw_transfer(4) [OF t]]
    by (auto simp: io_raw_defs raw_good_def split: if_splits)
next
  fix d data blk cnt r d'
  assume "raw_good d" and t: "transfer_ok 512 (raw_cap N) blk cnt" and "length data = unat cnt * 512"
    and "io_raw_bwrite N d data blk cnt = (r, d')"
  then show "r = EOK \<and> raw_good d'"
    using raw_transfer [OF t] raw_position [OF raw_transfer(4) [OF t]]
    by (auto simp: io_raw_defs raw_good_def split: if_splits)
qed

text \<open>
  C7: On a driver that does not fail a flush of the cache always succeeds: it ends, nothing is left on the
  dirty list, and every block that was listed is on the medium with the contents that clients saw.
\<close>

theorem cache_flush_durable:
  assumes "raw_ok N bdev" "raw_good (bdev_dev bdev)"
  shows "\<exists>bdev'. ext4_block_cache_flush bdev = Some (EOK, bdev') \<and> raw_ok N bdev' \<and>
    bc_dirty_list (bdev_bc bdev') = [] \<and>
    (\<forall>l \<in> set (bc_dirty_list (bdev_bc bdev)). dev_block raw_img bdev' l = bview raw_img bdev l)"
proof -
  obtain r bdev' where f: "ext4_block_cache_flush bdev = Some (r, bdev')" "raw_ok N bdev'" "evicted raw_img bdev bdev'"
    "r = EOK \<longrightarrow> bc_dirty_list (bdev_bc bdev') = [] \<and> (\<forall>l \<in> set (bc_dirty_list (bdev_bc bdev)). \<not> bc_dirty (bdev_bc bdev') l)"
    using raw.cache_flush [OF assms(1)] by blast
  have r: "r = EOK" using sure.cache_flush_good [OF f(1) assms] by simp
  have "dev_block raw_img bdev' l = bview raw_img bdev l" if l: "l \<in> set (bc_dirty_list (bdev_bc bdev))" for l
  proof -
    have "dev_block raw_img bdev' l = bview raw_img bdev' l" using raw.clean_block [OF f(2)] f(4) r l by simp
    moreover obtain b where "bc_bufs (bdev_bc bdev) l = Some b"
      using l bdev_okD(4) [OF assms(1)] by (auto simp: bc_inv_def)
    then have "l < lg_bcnt bdev" by (rule bdev_okD(6) [OF assms(1)])
    ultimately show ?thesis using f(3) by (simp add: evicted_def same_view_def)
  qed
  then show ?thesis using f r by auto
qed

text \<open>Whole sectors at a multiple of the size of a sector go to the driver, and come from it, in one piece.\<close>

lemma whole_sectors:
  assumes D: "raw_dev N bdev" "part_ok (raw_cap N) bdev"
    and off: "512 dvd unat off" "unat off + unat len \<le> unat (part_size bdev)" and len: "unat len = 512 * m" "0 < m"
  shows "ph_bsize (bdev_bdif bdev) = 512" "ucast (off AND 511) = (0 :: u32)" "len div 512 \<noteq> 0"
    "len - 512 * (len div 512) = 0" "unat (len div 512) * 512 = unat len"
    "transfer_ok 512 (raw_cap N) ((off + part_offset bdev) div 512) (len div 512)"
proof -
  have range: "unat off + unat (len :: u32) \<le> unat (part_size bdev)" using off(2) by simp
  note place = raw.block_place [OF D range]
  show bs: "ph_bsize (bdev_bdif bdev) = 512" using D(1) by (simp add: driver_is_def word_unat_eq_iff)
  show "ucast (off AND 511) = (0 :: u32)"
    using raw.bsz_mask [of 512 off] off(1) by (simp add: word_unat_eq_iff)
  have q: "unat (len div 512) = m" using len by (simp add: unat_div)
  then show n: "unat (len div 512) * 512 = unat len" "len div 512 \<noteq> 0" using len by auto
  have "512 * (len div 512) = len"
  proof -
    have "unat (512 * (len div 512)) = unat len" using unsigned_less [of len, where 'a = nat] len q by (simp add: unat_word_ariths)
    then show ?thesis by (simp add: word_unat_eq_iff)
  qed
  then show "len - 512 * (len div 512) = 0" by simp
  have "unat ((off + part_offset bdev) div 512) * 512 = unat (part_offset bdev) + unat off" using place(1) off(1) by (simp add: bs)
  then show "transfer_ok 512 (raw_cap N) ((off + part_offset bdev) div 512) (len div 512)"
    using D(2) off(2) n(1) unsigned_less [of len, where 'a = nat] by (simp add: transfer_ok_def part_ok_def)
qed

lemma writebytes_whole:
  assumes D: "raw_dev N bdev" "part_ok (raw_cap N) bdev"
    and ok: "raw_good (bdev_dev bdev)" "ph_refctr (bdev_bdif bdev) \<noteq> 0"
    and off: "512 dvd unat off" "unat off + unat len \<le> unat (part_size bdev)" and len: "unat len = 512 * m" "0 < m"
    and buf: "length buf = unat len"
  shows "\<exists>bdev'. ext4_block_writebytes bdev off buf len = Some (EOK, bdev') \<and> same_setup bdev bdev' \<and>
    bdev_bc bdev' = bdev_bc bdev \<and> raw_good (bdev_dev bdev') \<and>
    raw_img (bdev_dev bdev') = overwrite (raw_img (bdev_dev bdev)) (unat (part_offset bdev) + unat off) buf"
proof -
  note W = whole_sectors [OF D off len]
  have range: "unat off + unat len \<le> unat (part_size bdev)" by (rule off(2))
  obtain r bdev' where w: "ext4_block_writebytes bdev off buf len = Some (r, bdev')" "same_setup bdev bdev'"
    "bdev_bc bdev' = bdev_bc bdev"
    "r = EOK \<Longrightarrow> raw_img (bdev_dev bdev') = overwrite (raw_img (bdev_dev bdev)) (unat (part_offset bdev) + unat off) buf"
    by (rule raw.writebytes [OF D ok(2) range, of buf]) (use buf in auto)
  have "ext4_bdif_bwrite bdev buf ((off + part_offset bdev) div 512) (len div 512) = Some (r, bdev')"
    using w(1) ok(2) raw.block_place(2) [OF D range] W(1-5) buf
    by (auto simp: ext4_block_writebytes_def write_aligned_def write_rest_def Let_def bind_eq_Some_conv split: if_splits)
  then have "r = EOK \<and> raw_good (bdev_dev bdev')"
    using D(1) ok(1) sure.write_good [OF ok(1) W(6), of buf] buf W(5)
    by (auto simp: ext4_bdif_bwrite_def ext4_bdif_lock_def ext4_bdif_unlock_def driver_is_def split: prod.splits)
  then show ?thesis using w by auto
qed

lemma readbytes_whole:
  assumes D: "raw_dev N bdev" "part_ok (raw_cap N) bdev"
    and ok: "raw_good (bdev_dev bdev)" "ph_refctr (bdev_bdif bdev) \<noteq> 0"
    and off: "512 dvd unat off" "unat off + unat len \<le> unat (part_size bdev)" and len: "unat len = 512 * m" "0 < m"
    and r: "ext4_block_readbytes bdev off len = Some (r, bs, bdev')"
  shows "r = EOK"
proof -
  note W = whole_sectors [OF D off len]
  have range: "unat off + unat len \<le> unat (part_size bdev)" by (rule off(2))
  have "\<exists>data bdev1. ext4_bdif_bread bdev ((off + part_offset bdev) div 512) (len div 512) = Some (r, data, bdev1)"
    using r ok(2) raw.block_place(2) [OF D range] W(1-4)
    by (auto simp: ext4_block_readbytes_def read_aligned_def read_rest_def Let_def bind_eq_Some_conv split: if_splits)
  then show ?thesis
    using D(1) ok(1) sure.read_good [OF ok(1) W(6)]
    by (auto simp: ext4_bdif_bread_def ext4_bdif_lock_def ext4_bdif_unlock_def driver_is_def split: prod.splits)
qed

text \<open>Writing a superblock.\<close>

lemma writebytes_sure:
  assumes "raw_dev N bdev" "part_ok (raw_cap N) bdev"
    and "raw_good (bdev_dev bdev)" "ph_refctr (bdev_bdif bdev) \<noteq> 0"
    and "512 dvd unat off" "unat off + 1024 \<le> unat (part_size bdev)" and "length buf = 1024"
  shows "\<exists>bdev'. ext4_block_writebytes bdev off buf 1024 = Some (EOK, bdev') \<and> same_setup bdev bdev' \<and>
    bdev_bc bdev' = bdev_bc bdev \<and> raw_good (bdev_dev bdev') \<and>
    raw_img (bdev_dev bdev') = overwrite (raw_img (bdev_dev bdev)) (unat (part_offset bdev) + unat off) buf"
  by (rule writebytes_whole [OF assms(1-5), of _ 2]) (use assms(6,7) in simp_all)

text \<open>A device with one modified block in the cache, which is not held and waits on the dirty list.\<close>

definition waiting_dev :: "raw_file ext4_blockdev" where
  "waiting_dev = sample_dev\<lparr>bdev_bc := sample_cache\<lparr>bc_lru_ctr := 1, bc_ref_blocks := 1, bc_lba_root := [3], bc_lru_root := [3],
     bc_dirty_list := [3], bc_bufs := [3 \<mapsto> \<lparr>buf_flags = {BC_UPTODATE, BC_DIRTY}, buf_lba = 3, buf_data = replicate 1024 5,
       buf_lru_prio = 0, buf_lru_id = 1, buf_refctr = 0, buf_on_dirty_list = True, buf_end_write = None,
       buf_end_write_arg = 0\<rparr>]\<rparr>\<rparr>"

lemma waiting_ok: "raw_ok 8192 waiting_dev" "raw_good (bdev_dev waiting_dev)" "bc_dirty_list (bdev_bc waiting_dev) = [3]"
  "bview raw_img waiting_dev 3 = replicate 1024 5"
proof -
  show "raw_ok 8192 waiting_dev"
    by (simp add: bdev_ok_def driver_is_def part_ok_def lg_ok_def bc_inv_def bc_cached_def bc_dirty_def buf_ok_def
        buf_at_def waiting_dev_def sample_dev_def sample_cache_def ext4_io_raw_dev_get_def raw_cap_def word_gt_0)
qed (simp_all add: waiting_dev_def raw_good_def bview_def bc_cached_def sample_dev_def sample_cache_def ext4_io_raw_dev_get_def
    sample_file_def)

theorem cache_flush_durable_witness:
  "\<exists>bdev'. ext4_block_cache_flush waiting_dev = Some (EOK, bdev') \<and> bc_dirty_list (bdev_bc bdev') = [] \<and>
    dev_block raw_img bdev' 3 = replicate 1024 5"
  using cache_flush_durable [OF waiting_ok(1,2)] by (auto simp: waiting_ok)

end
