(* ===== verification/Mbr.thy ===== *)
theory Mbr
  imports Reliable
begin

text \<open>
  The master boot record of \<open>src/ext4_mbr.c\<close>: its 512-byte image, the scan for Linux partitions
  and the writing of a new partition table. What a scan finds after a table was written is stated in natural
  numbers, from the size of the disk and the percentages alone.
\<close>

section \<open>Layout\<close>

definition MBR_SIGNATURE :: u16 where "MBR_SIGNATURE = 0xAA55"

record ext4_part_entry =
  pe_status :: u8
  pe_chs1 :: bytes
  pe_type :: u8
  pe_chs2 :: bytes
  pe_first_lba :: u32
  pe_sectors :: u32

record ext4_mbr =
  mbr_bootstrap :: bytes
  mbr_disk_id :: u32
  mbr_part_entry :: "ext4_part_entry list"
  mbr_signature :: u16

definition ext4_part_entry_bytes :: "ext4_part_entry \<Rightarrow> bytes" where
  "ext4_part_entry_bytes pe =
     pe_status pe # pe_chs1 pe @ pe_type pe # pe_chs2 pe @
     le_bytes 4 (pe_first_lba pe) @ le_bytes 4 (pe_sectors pe)"

definition ext4_part_entry_of :: "bytes \<Rightarrow> ext4_part_entry" where
  "ext4_part_entry_of bs =
     \<lparr>pe_status = bs ! 0, pe_chs1 = take 3 (drop 1 bs), pe_type = bs ! 4,
      pe_chs2 = take 3 (drop 5 bs), pe_first_lba = get_le 4 8 bs, pe_sectors = get_le 4 12 bs\<rparr>"

definition ext4_mbr_bytes :: "ext4_mbr \<Rightarrow> bytes" where
  "ext4_mbr_bytes m =
     mbr_bootstrap m @ le_bytes 4 (mbr_disk_id m) @
     concat (map ext4_part_entry_bytes (mbr_part_entry m)) @ le_bytes 2 (mbr_signature m)"

definition ext4_mbr_of :: "bytes \<Rightarrow> ext4_mbr" where
  "ext4_mbr_of bs =
     \<lparr>mbr_bootstrap = take 442 bs, mbr_disk_id = get_le 4 442 bs,
      mbr_part_entry = map (\<lambda>i. ext4_part_entry_of (take 16 (drop (446 + 16 * i) bs))) [0..<4],
      mbr_signature = get_le 2 510 bs\<rparr>"

text \<open>An all-zero record, as \<open>memset\<close> leaves it.\<close>

definition part_entry_zero :: ext4_part_entry where
  "part_entry_zero = \<lparr>pe_status = 0, pe_chs1 = [0, 0, 0], pe_type = 0, pe_chs2 = [0, 0, 0],
     pe_first_lba = 0, pe_sectors = 0\<rparr>"

definition mbr_zero :: ext4_mbr where
  "mbr_zero = \<lparr>mbr_bootstrap = replicate 442 0, mbr_disk_id = 0,
     mbr_part_entry = replicate 4 part_entry_zero, mbr_signature = 0\<rparr>"

section \<open>Scanning\<close>

text \<open>
  A partition is the pair of its offset and its size; \<open>None\<close> is a descriptor left zero. The
  bounce buffer is the buffer that the boot record is read into.
\<close>

definition mbr_partition :: "u32 \<Rightarrow> ext4_part_entry \<Rightarrow> (u64 \<times> u64) option" where
  "mbr_partition bsize pe =
     (if pe_sectors pe = 0 then None
      else if pe_type pe \<noteq> 0x83 then None
      else Some (ucast (pe_first_lba pe) * ucast bsize, ucast (pe_sectors pe) * ucast bsize))"

definition ext4_mbr_scan ::
    "'d ext4_blockdev \<Rightarrow> (errno \<times> (u64 \<times> u64) option list \<times> 'd ext4_blockdev) option" where
  "ext4_mbr_scan parent =
     (let bdevs = replicate 4 None
      in case ext4_block_init parent of
           (r, parent) \<Rightarrow>
             if r \<noteq> EOK then Some (r, bdevs, parent)
             else do {
               (r, bs, parent) \<leftarrow> ext4_block_readbytes parent 0 512;
               let parent = upd_bdif (\<lambda>i. i\<lparr>ph_bbuf := put_bytes 0 bs (ph_bbuf i)\<rparr>) parent;
               if r \<noteq> EOK then Some (r, bdevs, snd (ext4_block_fini parent))
               else do {
                 let mbr = ext4_mbr_of (ph_bbuf (bdev_bdif parent));
                 if mbr_signature mbr \<noteq> MBR_SIGNATURE
                 then Some (ENOENT, bdevs, snd (ext4_block_fini parent))
                 else Some (r, map (mbr_partition (ph_bsize (bdev_bdif parent))) (mbr_part_entry mbr),
                            snd (ext4_block_fini parent))
               }
             })"

section \<open>Writing\<close>

text \<open>
  The number of heads: at most four doublings of 16 reach 256, so a fuel of 5 is enough.
\<close>

fun chs_heads :: "nat \<Rightarrow> u64 \<Rightarrow> u32 \<Rightarrow> u32" where
  "chs_heads 0 disk_size k = k"
| "chs_heads (Suc n) disk_size k =
     (if k < 256 \<and> disk_size div ucast k div 63 > 1024 then chs_heads n disk_size (k * 2) else k)"

text \<open>One turn of the loop over the partitions; \<open>i\<close> is its number and \<open>cyl_it\<close> the next cylinder.\<close>

definition mbr_entry ::
    "u32 \<Rightarrow> u32 \<Rightarrow> u32 \<Rightarrow> nat \<Rightarrow> u32 \<Rightarrow> u32 \<Rightarrow> ext4_part_entry" where
  "mbr_entry k cyl_size bsize i cyl_it cyl_part =
     (let part_start = cyl_it * cyl_size;
          part_size = cyl_part * cyl_size;
          part_start' = (if i = 0 then part_start + 63 else part_start);
          part_size' = (if i = 0 then part_size - 63 * bsize else part_size);
          cyl_end = cyl_part + cyl_it - 1
      in \<lparr>pe_status = 0,
          pe_chs1 = [if i \<noteq> 0 then 0 else 1, ucast (drop_bit 2 cyl_it + 1), ucast cyl_it],
          pe_type = 0x83,
          pe_chs2 = [ucast (k - 1), ucast (drop_bit 2 cyl_end + 63), ucast cyl_end],
          pe_first_lba = part_start', pe_sectors = part_size' div bsize\<rparr>)"

fun mbr_entries ::
    "u32 \<Rightarrow> u32 \<Rightarrow> u32 \<Rightarrow> u32 \<Rightarrow> nat \<Rightarrow> u32 \<Rightarrow> u8 list \<Rightarrow> ext4_part_entry list" where
  "mbr_entries k cyl_size bsize cyl_count i cyl_it [] = []"
| "mbr_entries k cyl_size bsize cyl_count i cyl_it (d # ds) =
     (let cyl_part = cyl_count * ucast d div 100
      in if cyl_part = 0
         then part_entry_zero # mbr_entries k cyl_size bsize cyl_count (i + 1) cyl_it ds
         else mbr_entry k cyl_size bsize i cyl_it cyl_part #
              mbr_entries k cyl_size bsize cyl_count (i + 1) (cyl_it + cyl_part) ds)"

definition mbr_table :: "u64 \<Rightarrow> u32 \<Rightarrow> u8 list \<Rightarrow> ext4_part_entry list" where
  "mbr_table disk_size bsize division =
     (let k = chs_heads 5 disk_size 16;
          k = (if k = 256 then k - 1 else k);
          cyl_size = 63 * k;
          cyl_count = ucast (disk_size div ucast cyl_size)
      in mbr_entries k cyl_size bsize cyl_count 0 0 division)"

definition ext4_mbr_write ::
    "'d ext4_blockdev \<Rightarrow> u8 list \<Rightarrow> u32 \<Rightarrow> (errno \<times> 'd ext4_blockdev) option" where
  "ext4_mbr_write parent division disk_id =
     (let division_sum = ucast (division ! 0) + ucast (division ! 1) + ucast (division ! 2) +
                         ucast (division ! 3) :: u32
      in if division_sum > 100 then Some (EINVAL, parent)
         else
           (case ext4_block_init parent of
              (r, parent) \<Rightarrow>
                if r \<noteq> EOK then Some (r, parent)
                else do {
                  let mbr = mbr_zero\<lparr>mbr_disk_id := disk_id,
                        mbr_part_entry := mbr_table (part_size parent) (ph_bsize (bdev_bdif parent)) division,
                        mbr_signature := MBR_SIGNATURE\<rparr>;
                  let parent = upd_bdif (\<lambda>i. i\<lparr>ph_bbuf := put_bytes 0 (ext4_mbr_bytes mbr) (ph_bbuf i)\<rparr>) parent;
                  (r, parent) \<leftarrow> ext4_block_writebytes parent 0 (take 512 (ph_bbuf (bdev_bdif parent))) 512;
                  Some (r, snd (ext4_block_fini parent))
                }))"

section \<open>The image\<close>

definition part_entry_wf :: "ext4_part_entry \<Rightarrow> bool" where
  "part_entry_wf pe \<longleftrightarrow> length (pe_chs1 pe) = 3 \<and> length (pe_chs2 pe) = 3"

definition mbr_wf :: "ext4_mbr \<Rightarrow> bool" where
  "mbr_wf m \<longleftrightarrow> length (mbr_bootstrap m) = 442 \<and> length (mbr_part_entry m) = 4 \<and>
     (\<forall>pe \<in> set (mbr_part_entry m). part_entry_wf pe)"

lemma part_entry_bytes_length [simp]:
  "part_entry_wf pe \<Longrightarrow> length (ext4_part_entry_bytes pe) = 16"
  by (simp add: part_entry_wf_def ext4_part_entry_bytes_def)

lemma part_entry_of_bytes [byte_simps]:
  assumes "part_entry_wf pe"
  shows "ext4_part_entry_of (ext4_part_entry_bytes pe) = pe"
proof -
  obtain a b c d e f where "pe_chs1 pe = [a, b, c]" "pe_chs2 pe = [d, e, f]"
    using assms by (auto simp: part_entry_wf_def length_Suc_conv numeral_3_eq_3)
  then show ?thesis
    by (simp add: ext4_part_entry_bytes_def ext4_part_entry_of_def byte_simps numeral_eq_Suc get_le_def)
qed

lemma mbr_bytes_length [simp]:
  assumes "mbr_wf m"
  shows "length (ext4_mbr_bytes m) = 512"
proof -
  have "length (concat (map ext4_part_entry_bytes pes)) = 16 * length pes"
    if "\<forall>pe \<in> set pes. part_entry_wf pe" for pes
    using that by (induction pes) simp_all
  then show ?thesis using assms by (simp add: mbr_wf_def ext4_mbr_bytes_def)
qed

lemma take_drop_chunk:
  "(\<And>x. x \<in> set xs \<Longrightarrow> length (f x) = n) \<Longrightarrow> i < length xs \<Longrightarrow>
     take n (drop (n * i) (concat (map f xs) @ ys)) = f (xs ! i)"
proof (induction xs arbitrary: i)
  case (Cons x xs)
  then show ?case by (cases i) (simp_all add: add.commute [of n])
qed simp

lemma mbr_of_bytes [byte_simps]:
  assumes wf: "mbr_wf m"
  shows "ext4_mbr_of (ext4_mbr_bytes m) = m"
proof -
  let ?pes = "concat (map ext4_part_entry_bytes (mbr_part_entry m))"
  have len: "length (mbr_bootstrap m) = 442" "length (mbr_part_entry m) = 4"
    "\<And>pe. pe \<in> set (mbr_part_entry m) \<Longrightarrow> length (ext4_part_entry_bytes pe) = 16"
    using wf by (simp_all add: mbr_wf_def)
  have total: "length (ext4_mbr_bytes m) = 512" by (rule mbr_bytes_length [OF wf])
  then have lp: "length ?pes = 64" using len by (simp add: ext4_mbr_bytes_def)
  have "get_le 4 442 (ext4_mbr_bytes m) = mbr_disk_id m" "take 442 (ext4_mbr_bytes m) = mbr_bootstrap m"
    "get_le 2 510 (ext4_mbr_bytes m) = mbr_signature m"
    using len lp by (simp_all add: ext4_mbr_bytes_def byte_simps)
  moreover have "ext4_part_entry_of (take 16 (drop (446 + 16 * i) (ext4_mbr_bytes m))) = mbr_part_entry m ! i"
    if i: "i < 4" for i
  proof -
    have "drop 446 (ext4_mbr_bytes m) = ?pes @ le_bytes 2 (mbr_signature m)"
      using len by (simp add: ext4_mbr_bytes_def)
    then have "drop (446 + 16 * i) (ext4_mbr_bytes m) = drop (16 * i) (?pes @ le_bytes 2 (mbr_signature m))"
      by (simp only: add.commute [of 446] flip: drop_drop)
    moreover have "part_entry_wf (mbr_part_entry m ! i)" using wf i by (simp add: mbr_wf_def)
    ultimately show ?thesis
      using take_drop_chunk [of "mbr_part_entry m" ext4_part_entry_bytes 16 i, OF len(3)] i len(2)
      by (simp add: part_entry_of_bytes)
  qed
  then have "map (\<lambda>i. ext4_part_entry_of (take 16 (drop (446 + 16 * i) (ext4_mbr_bytes m)))) [0..<4] = mbr_part_entry m"
    using len(2) by (intro nth_equalityI) simp_all
  ultimately show ?thesis by (simp add: ext4_mbr_of_def)
qed

lemma mbr_entries_wf:
  "length (mbr_entries k cs bs cc i cit ds) = length ds"
  "\<forall>pe \<in> set (mbr_entries k cs bs cc i cit ds). part_entry_wf pe"
  by (induction k cs bs cc i cit ds rule: mbr_entries.induct)
    (auto simp: Let_def mbr_entry_def part_entry_zero_def part_entry_wf_def)

lemma mbr_table_wf:
  "length division = 4 \<Longrightarrow>
     mbr_wf (mbr_zero\<lparr>mbr_disk_id := disk_id, mbr_part_entry := mbr_table ds bs division, mbr_signature := sig\<rparr>)"
  using mbr_entries_wf by (simp add: mbr_wf_def mbr_zero_def mbr_table_def Let_def)

section \<open>Opening and closing an open device\<close>

definition hold :: "'d ext4_blockdev \<Rightarrow> 'd ext4_blockdev" where
  "hold bdev = upd_bdif (\<lambda>i. i\<lparr>ph_refctr := ph_refctr i + 1\<rparr>) bdev"

lemma init_open: "ph_refctr (bdev_bdif bdev) \<noteq> 0 \<Longrightarrow> ext4_block_init bdev = (EOK, hold bdev)"
  by (simp add: ext4_block_init_def hold_def)

lemma hold_simps [simp]:
  "driver_is rd wr bsz (hold bdev) = driver_is rd wr bsz bdev" "part_ok cap (hold bdev) = part_ok cap bdev"
  "part_offset (hold bdev) = part_offset bdev" "part_size (hold bdev) = part_size bdev"
  "bdev_dev (hold bdev) = bdev_dev bdev" "ph_bsize (bdev_bdif (hold bdev)) = ph_bsize (bdev_bdif bdev)"
  "ph_bbuf (bdev_bdif (hold bdev)) = ph_bbuf (bdev_bdif bdev)"
  "ph_refctr (bdev_bdif (hold bdev)) = ph_refctr (bdev_bdif bdev) + 1"
  by (simp_all add: hold_def driver_is_def part_ok_def)

definition set_bbuf :: "bytes \<Rightarrow> 'd ext4_blockdev \<Rightarrow> 'd ext4_blockdev" where
  "set_bbuf bs bdev = upd_bdif (\<lambda>i. i\<lparr>ph_bbuf := put_bytes 0 bs (ph_bbuf i)\<rparr>) bdev"

lemma set_bbuf_simps:
  assumes "driver_is rd wr bsz bdev" "length bs = 512"
  shows "driver_is rd wr bsz (set_bbuf bs bdev)" "ph_bbuf (bdev_bdif (set_bbuf bs bdev)) = bs"
    "same_setup bdev (set_bbuf bs bdev)" "bdev_dev (set_bbuf bs bdev) = bdev_dev bdev"
  using assms by (simp_all add: set_bbuf_def driver_is_def same_setup_def put_bytes_def)

lemma fini_open:
  assumes "same_setup (hold bdev) bdev'" "ph_refctr (bdev_bdif bdev) \<noteq> 0"
    "ph_refctr (bdev_bdif bdev) + 1 \<noteq> 0"
  shows "\<exists>bdev''. ext4_block_fini bdev' = (EOK, bdev'') \<and> bdev_dev bdev'' = bdev_dev bdev' \<and>
    same_setup bdev bdev''"
  using assms by (simp add: ext4_block_fini_def same_setup_def hold_def Let_def)

lemma fini_refs:
  "ph_refctr (bdev_bdif bdev') = ph_refctr (bdev_bdif bdev) + 1 \<Longrightarrow>
     ph_refctr (bdev_bdif bdev) \<noteq> 0 \<Longrightarrow> ph_refctr (bdev_bdif bdev) + 1 \<noteq> 0 \<Longrightarrow>
     \<exists>bdev''. ext4_block_fini bdev' = (EOK, bdev'') \<and> bdev_dev bdev'' = bdev_dev bdev' \<and>
       ph_refctr (bdev_bdif bdev'') = ph_refctr (bdev_bdif bdev)"
  by (simp add: ext4_block_fini_def Let_def)

section \<open>Writing and scanning on a device that does not fail\<close>

lemma bdif_good [simp]: "bdev_dev (set_bbuf bs bdev) = bdev_dev bdev" "bdev_dev (hold bdev) = bdev_dev bdev"
  by (simp_all add: set_bbuf_def hold_def)

lemma mbr_write_spec:
  assumes dev: "raw_dev N parent" "part_ok (raw_cap N) parent" "raw_good (bdev_dev parent)" "512 \<le> unat (part_size parent)"
    and refs: "ph_refctr (bdev_bdif parent) \<noteq> 0" "ph_refctr (bdev_bdif parent) + 1 \<noteq> 0"
    and parts: "length division = 4"
    and sum: "\<not> (ucast (division ! 0) + ucast (division ! 1) + ucast (division ! 2) + ucast (division ! 3) :: u32) > 100"
  obtains parent' where "ext4_mbr_write parent division disk_id = Some (EOK, parent')"
    "same_setup parent parent'" "raw_good (bdev_dev parent')"
    "raw_img (bdev_dev parent') = overwrite (raw_img (bdev_dev parent)) (unat (part_offset parent))
       (ext4_mbr_bytes (mbr_zero\<lparr>mbr_disk_id := disk_id, mbr_part_entry := mbr_table (part_size parent) 512 division,
          mbr_signature := MBR_SIGNATURE\<rparr>))"
proof -
  let ?m = "mbr_zero\<lparr>mbr_disk_id := disk_id, mbr_part_entry := mbr_table (part_size parent) 512 division,
          mbr_signature := MBR_SIGNATURE\<rparr>"
  let ?bs = "ext4_mbr_bytes ?m" and ?p = "set_bbuf (ext4_mbr_bytes ?m) (hold parent)"
  have bsz: "ph_bsize (bdev_bdif parent) = 512"
  proof -
    have "unat (ph_bsize (bdev_bdif parent)) = unat (512 :: u32)" using dev(1) by (simp add: driver_is_def)
    then show ?thesis by (simp only: word_unat_eq_iff)
  qed
  have len: "length ?bs = 512" by (rule mbr_bytes_length [OF mbr_table_wf [OF parts]])
  have drv: "raw_dev N (hold parent)" using dev(1) by simp
  note B = set_bbuf_simps [OF drv len]
  note F = same_setup_fields [OF B(3)]
  have part: "part_ok (raw_cap N) ?p" using dev(2) by (simp add: same_setup_ok [OF B(3)])
  have opened: "ph_refctr (bdev_bdif ?p) \<noteq> 0" using F refs(2) by simp
  have range: "unat (0 :: u64) + unat (512 :: u32) \<le> unat (part_size ?p)" using F dev(4) by simp
  obtain p2 where w: "ext4_block_writebytes ?p 0 ?bs 512 = Some (EOK, p2)" "same_setup ?p p2" "raw_good (bdev_dev p2)"
    "raw_img (bdev_dev p2) = overwrite (raw_img (bdev_dev ?p)) (unat (part_offset ?p) + unat (0 :: u64)) ?bs"
    using writebytes_whole [OF B(1) part _ opened _ range, of 1 ?bs] dev(3) len by auto
  obtain p3 where f: "ext4_block_fini p2 = (EOK, p3)" "bdev_dev p3 = bdev_dev p2" "same_setup parent p3"
    using fini_open [OF same_setup_trans [OF B(3) w(2)] refs] by blast
  have "ext4_mbr_write parent division disk_id = Some (EOK, p3)"
    unfolding ext4_mbr_write_def Let_def if_not_P [OF sum]
    using w(1) f(1) B(2) len
    by (simp add: init_open [OF refs(1)] bsz set_bbuf_def [symmetric])
  then show ?thesis using f(2,3) w(3,4) F B(4) by (intro that [of p3]) simp_all
qed

lemma mbr_scan_spec:
  assumes dev: "raw_dev N parent" "part_ok (raw_cap N) parent" "raw_good (bdev_dev parent)" "512 \<le> unat (part_size parent)"
    and refs: "ph_refctr (bdev_bdif parent) \<noteq> 0" "ph_refctr (bdev_bdif parent) + 1 \<noteq> 0"
    and sig: "mbr_signature (ext4_mbr_of (region (raw_img (bdev_dev parent)) (unat (part_offset parent)) 512)) = MBR_SIGNATURE"
  obtains parent' where "ext4_mbr_scan parent = Some (EOK,
      map (mbr_partition 512) (mbr_part_entry (ext4_mbr_of (region (raw_img (bdev_dev parent)) (unat (part_offset parent)) 512))), parent')"
    "ph_refctr (bdev_bdif parent') = ph_refctr (bdev_bdif parent)"
    "raw_img (bdev_dev parent') = raw_img (bdev_dev parent)"
proof -
  let ?bs = "region (raw_img (bdev_dev parent)) (unat (part_offset parent)) 512"
  have "unat (ph_bsize (bdev_bdif parent)) = unat (512 :: u32)" using dev(1) by (simp add: driver_is_def)
  then have bsz: "ph_bsize (bdev_bdif parent) = 512" by (simp only: word_unat_eq_iff)
  have drv: "raw_dev N (hold parent)" "part_ok (raw_cap N) (hold parent)" using dev by simp_all
  have opened: "ph_refctr (bdev_bdif (hold parent)) \<noteq> 0" using refs by simp
  have range: "unat (0 :: u64) + unat (512 :: u32) \<le> unat (part_size (hold parent))" using dev(4) by simp
  obtain r bs p2 where w: "ext4_block_readbytes (hold parent) 0 512 = Some (r, bs, p2)" "same_setup (hold parent) p2"
    "raw_img (bdev_dev p2) = raw_img (bdev_dev (hold parent))"
    "r = EOK \<Longrightarrow> bs = region (raw_img (bdev_dev (hold parent)))
       (unat (part_offset (hold parent)) + unat (0 :: u64)) (unat (512 :: u32))"
    by (rule raw.readbytes [OF drv opened range]) blast
  have r: "r = EOK"
    by (rule readbytes_whole [OF drv _ opened _ range, of 1]) (use dev(3) w(1) in simp_all)
  let ?p3 = "set_bbuf bs p2" and ?mbr = "ext4_mbr_of ?bs"
  have keep: "bdev_dev ?p3 = bdev_dev p2" "ph_refctr (bdev_bdif ?p3) = ph_refctr (bdev_bdif parent) + 1"
    using same_setup_fields [OF w(2)] by (simp_all add: set_bbuf_def)
  obtain p4 where f: "ext4_block_fini ?p3 = (EOK, p4)" "bdev_dev p4 = bdev_dev p2"
    "ph_refctr (bdev_bdif p4) = ph_refctr (bdev_bdif parent)"
    using fini_refs [OF keep(2) refs] unfolding keep(1) by blast
  have p3: "ph_bsize (bdev_bdif ?p3) = 512" using w(2) bsz by (simp add: set_bbuf_def same_setup_def)
  have img: "ext4_mbr_of (ph_bbuf (bdev_bdif ?p3)) = ?mbr"
  proof -
    have "bs = ?bs" using w(4) [OF r] by simp
    moreover have "length (ph_bbuf (bdev_bdif p2)) = 512"
      using w(2) dev(1) by (simp add: same_setup_def driver_is_def)
    ultimately show ?thesis by (simp add: set_bbuf_def put_bytes_def)
  qed
  have "ext4_mbr_scan parent = Some (EOK, map (mbr_partition 512) (mbr_part_entry ?mbr), p4)"
    unfolding ext4_mbr_scan_def Let_def init_open [OF refs(1)] prod.case
    using w(1) f(1) img p3 sig r by (simp add: set_bbuf_def [symmetric])
  then show ?thesis using f(2,3) w(3) by (intro that [of p4]) simp_all
qed

section \<open>The table in natural numbers\<close>

text \<open>
  The geometry of a disk of \<open>D\<close> bytes: as few heads as leave at most 1024 cylinders, and the bytes that a partition of
  \<open>d\<close> per cent gets, a whole number of cylinders.
\<close>

definition disk_heads :: "nat \<Rightarrow> nat" where
  "disk_heads D = (if D div (16 * 63) \<le> 1024 then 16 else if D div (32 * 63) \<le> 1024 then 32
     else if D div (64 * 63) \<le> 1024 then 64 else if D div (128 * 63) \<le> 1024 then 128 else 255)"

definition cylinder :: "nat \<Rightarrow> nat" where
  "cylinder D = 63 * disk_heads D"

definition share :: "nat \<Rightarrow> nat \<Rightarrow> nat" where
  "share D d = D div cylinder D * d div 100 * cylinder D"

text \<open>
  The offset and the size of partition \<open>i\<close> that a scan finds. The first begins behind the first track and is shorter
  by it, in 32 bits. Of every other the field for the first sector has the distance in bytes, which the scan
  multiplies by the size of a sector once more.
\<close>

definition found_partition :: "nat \<Rightarrow> nat list \<Rightarrow> nat \<Rightarrow> (nat \<times> nat) option" where
  "found_partition D ds i =
     (let bytes = share D (ds ! i);
          first = (if i = 0 then 63 else sum_list (map (share D) (take i ds)));
          sectors = (if i = 0 then (bytes + (2 ^ 32 - 63 * 512)) mod 2 ^ 32 div 512 else bytes div 512)
      in if bytes = 0 \<or> sectors = 0 then None else Some (first * 512, sectors * 512))"

lemma mbr_entries_nth:
  "j < length ds \<Longrightarrow> mbr_entries k cs bs cc i cit ds ! j =
     (let cp = cc * ucast (ds ! j) div 100
      in if cp = 0 then part_entry_zero
         else mbr_entry k cs bs (i + j) (cit + sum_list (map (\<lambda>d. cc * ucast d div 100) (take j ds))) cp)"
proof (induction ds arbitrary: i cit j)
  case (Cons d ds)
  show ?case
  proof (cases j)
    case (Suc n)
    then have "n < length ds" using Cons.prems by simp
    then show ?thesis using Suc by (simp add: Cons.IH Let_def add.assoc)
  qed (simp add: Let_def)
qed simp

lemma disk_heads_eq:
  fixes disk_size :: u64
  defines "k \<equiv> chs_heads 5 disk_size 16"
  shows "unat (if k = 256 then k - 1 else k) = disk_heads (unat disk_size)"
proof -
  let ?D = "unat disk_size"
  have c: "(disk_size div ucast (w :: u32) div 63 > 1024) = (?D div (unat w * 63) > 1024)" for w
    by (simp add: word_less_nat_alt unat_div unat_ucast_up_eq div_mult2_eq)
  have five: "(5::nat) = Suc (Suc (Suc (Suc (Suc 0))))" by simp
  have "k = (if 1024 < ?D div 1008 then if 1024 < ?D div 2016 then if 1024 < ?D div 4032
      then if 1024 < ?D div 8064 then 256 else 128 else 64 else 32 else 16)"
    unfolding k_def five chs_heads.simps(2) c by simp
  then show ?thesis by (simp add: disk_heads_def)
qed

lemma sum_shares: "sum_list (map (\<lambda>d. c * d div 100) xs) \<le> c * sum_list xs div (100 :: nat)"
proof (induction xs)
  case (Cons d xs)
  have "c * d div 100 + c * sum_list xs div 100 \<le> (c * d + c * sum_list xs) div 100"
    by (subst div_add1_eq) simp
  then show ?case using Cons.IH by (simp add: distrib_left)
qed simp

lemma unat_sum_list:
  "sum_list (map unat xs) < 2 ^ 32 \<Longrightarrow> unat (sum_list xs :: u32) = sum_list (map unat xs)"
  by (induction xs) (simp_all add: unat_word_ariths)

lemma unat_minus_track: "unat (x - 32256 :: u32) = (unat x + (2 ^ 32 - 63 * 512)) mod 2 ^ 32"
proof -
  have "x - 32256 = x + 4294935040" by simp
  then show ?thesis by (simp only: unat_word_ariths) simp
qed

lemma mbr_table_found:
  assumes size: "unat disk_size < 2 ^ 32" and ds: "length division = 4" "sum_list (map unat division) \<le> 100" and i: "i < 4"
  shows "map_option (map_prod unat unat) (mbr_partition 512 (mbr_table disk_size 512 division ! i)) =
    found_partition (unat disk_size) (map unat division) i"
proof -
  let ?D = "unat disk_size" and ?k0 = "chs_heads 5 disk_size 16"
  define k where "k = (if ?k0 = 256 then ?k0 - 1 else ?k0)"
  define cs where "cs = 63 * k"
  define cc :: u32 where "cc = ucast (disk_size div ucast cs)"
  define cp where "cp d = cc * ucast (d :: u8) div 100" for d
  have k: "unat k = disk_heads ?D" unfolding k_def by (rule disk_heads_eq)
  have h: "16 \<le> disk_heads ?D" "disk_heads ?D \<le> 255" by (simp_all add: disk_heads_def)
  then have cs: "unat cs = cylinder ?D" by (simp add: cs_def unat_word_ariths k cylinder_def)
  have "?D div cylinder ?D \<le> ?D div 1008" using h by (intro div_le_mono2) (simp_all add: cylinder_def)
  moreover have "?D div 1008 \<le> 2 ^ 32 div 1008" using size by (intro div_le_mono) simp
  ultimately have lim: "?D div cylinder ?D \<le> 4260880" by simp
  have "unat (disk_size div ucast cs) = ?D div cylinder ?D" by (simp add: unat_div unat_ucast_up_eq cs)
  then have cc: "unat cc = ?D div cylinder ?D" unfolding cc_def using lim by (subst unat_ucast_down_eq) simp_all
  have cp: "unat (cp d) = unat cc * unat d div 100" if "d \<in> set division" for d
  proof -
    have "unat d \<le> 100" using that ds(2) member_le_sum_list [of "unat d" "map unat division"] by simp
    then have "unat cc * unat d \<le> 4260880 * 100" using lim by (intro mult_le_mono) (simp_all add: cc)
    then show ?thesis by (simp add: cp_def unat_div unat_word_ariths(2) unat_ucast_up_eq)
  qed
  have part: "sum_list (map unat (map cp xs)) \<le> unat cc \<and>
      sum_list (map unat (map cp xs)) * cylinder ?D = sum_list (map (share ?D) (map unat xs))"
    if "set xs \<subseteq> set division" "sum_list (map unat xs) \<le> 100" for xs
  proof -
    have m: "map (unat \<circ> cp) xs = map ((\<lambda>d. unat cc * d div 100) \<circ> unat) xs" using that(1) cp by (intro map_cong) auto
    have "sum_list (map ((\<lambda>d. unat cc * d div 100) \<circ> unat) xs) \<le> unat cc * sum_list (map unat xs) div 100"
      using sum_shares [of "unat cc" "map unat xs"] by simp
    also have "\<dots> \<le> unat cc * 100 div 100" using that(2) by (intro div_le_mono mult_le_mono2)
    finally have "sum_list (map (unat \<circ> cp) xs) \<le> unat cc" unfolding m by simp
    moreover have "sum_list (map ((\<lambda>d. unat cc * d div 100) \<circ> unat) ys) * cylinder ?D = sum_list (map (share ?D \<circ> unat) ys)" for ys :: "u8 list"
      by (induction ys) (simp_all add: share_def cc distrib_right)
    ultimately show ?thesis by (simp add: m)
  qed
  let ?cit = "sum_list (map cp (take i division))" and ?cp = "cp (division ! i)"
  have di: "division ! i \<in> set division" using i ds(1) by simp
  have le: "sum_list (map unat (take i division)) + unat (division ! i) \<le> 100"
  proof -
    have "division = take i division @ division ! i # drop (Suc i) division" using i ds(1) by (simp add: id_take_nth_drop)
    from arg_cong [OF this, of "\<lambda>xs. sum_list (map unat xs)"] show ?thesis
      using ds(2) by (simp only: map_append list.map sum_list_append sum_list.Cons)
  qed
  have fits: "(sum_list (map unat (map cp (take i division))) + unat ?cp) * cylinder ?D \<le> ?D"
  proof -
    have "set (take i division @ [division ! i]) \<subseteq> set division" using di by (auto dest: in_set_takeD)
    then have "sum_list (map unat (map cp (take i division))) + unat ?cp \<le> unat cc"
      using part [of "take i division @ [division ! i]"] le by simp
    then have "(sum_list (map unat (map cp (take i division))) + unat ?cp) * cylinder ?D \<le> unat cc * cylinder ?D"
      by (rule mult_le_mono1)
    also have "\<dots> \<le> ?D" by (simp add: cc)
    finally show ?thesis .
  qed
  have "set (take i division) \<subseteq> set division" by (rule set_take_subset)
  then have P: "sum_list (map unat (map cp (take i division))) \<le> unat cc"
    "sum_list (map unat (map cp (take i division))) * cylinder ?D = sum_list (map (share ?D) (map unat (take i division)))"
    using part [of "take i division"] le by simp_all
  have cit: "unat ?cit = sum_list (map unat (map cp (take i division)))"
    using P(1) lim unfolding cc by (intro unat_sum_list) simp
  have start: "unat (?cit * cs) = sum_list (map (share ?D) (take i (map unat division)))"
    using fits size P(2) by (simp add: unat_word_ariths(2) cit cs distrib_right take_map)
  have bytes: "unat (?cp * cs) = share ?D (map unat division ! i)"
  proof -
    have "unat ?cp * cylinder ?D < 2 ^ 32" using fits size by (simp add: distrib_right)
    then show ?thesis using cp [OF di] i ds(1) by (simp add: unat_word_ariths(2) cs share_def cc)
  qed
  have z: "share ?D (map unat division ! i) = 0 \<longleftrightarrow> ?cp = 0"
    using cp [OF di] h i ds(1) by (simp add: share_def cc cylinder_def unat_eq_0 [symmetric])
  have entry: "mbr_table disk_size 512 division ! i =
      (if ?cp = 0 then part_entry_zero else mbr_entry k cs 512 i ?cit ?cp)"
    using i ds(1) mbr_entries_nth [of i division k cs 512 cc 0 0]
    unfolding mbr_table_def Let_def k_def [symmetric] cs_def [symmetric] cc_def [symmetric] cp_def [symmetric] by simp
  have mul: "unat (ucast (w :: u32) * 512 :: u64) = unat w * 512" for w
  proof -
    have "unat w * 512 < 2 ^ 64" using unsigned_less [of w, where 'a = nat] by simp
    then show ?thesis by (simp add: unat_word_ariths(2) unat_ucast_up_eq)
  qed
  show ?thesis
  proof (cases "?cp = 0")
    case True
    then show ?thesis using z by (simp add: entry mbr_partition_def part_entry_zero_def found_partition_def)
  next
    case False
    have p: "mbr_partition 512 (mbr_entry k cs 512 i ?cit ?cp) =
        (let first = (if i = 0 then ?cit * cs + 63 else ?cit * cs);
             sectors = (if i = 0 then ?cp * cs - 32256 else ?cp * cs) div 512
         in if sectors = 0 then None else Some (ucast first * 512, ucast sectors * 512))"
      by (simp add: mbr_partition_def mbr_entry_def Let_def)
    have n: "unat (if i = 0 then ?cit * cs + 63 else ?cit * cs) =
        (if i = 0 then 63 else sum_list (map (share ?D) (take i (map unat division))))"
      "unat ((if i = 0 then ?cp * cs - 32256 else ?cp * cs) div 512) =
        (if i = 0 then (share ?D (map unat division ! i) + (2 ^ 32 - 63 * 512)) mod 2 ^ 32 div 512
         else share ?D (map unat division ! i) div 512)"
      using start by (simp_all only: unat_div unat_minus_track bytes split: if_split) simp_all
    have y: "share ?D (map unat division ! i) \<noteq> 0" using False z by simp
    have q: "map_option (map_prod unat unat) (if w = 0 then None else Some (ucast (f :: u32) * 512 :: u64, ucast (w :: u32) * 512 :: u64)) =
        (if unat w = 0 then None else Some (unat f * 512, unat w * 512))" for f w
      by (simp add: mul unat_eq_0)
    show ?thesis
      unfolding entry if_not_P [OF False] p Let_def q found_partition_def n [symmetric] using y by simp
  qed
qed

section \<open>What is written is what is scanned\<close>

text \<open>The sum that the code tests, in natural numbers.\<close>

lemma division_sum:
  fixes division :: "u8 list"
  assumes "length division = 4" "sum_list (map unat division) \<le> 100"
  shows "\<not> (ucast (division ! 0) + ucast (division ! 1) + ucast (division ! 2) + ucast (division ! 3) :: u32) > 100"
proof -
  obtain a b c d where "division = [a, b, c, d]"
    using assms(1) by (auto simp: length_Suc_conv numeral_eq_Suc)
  moreover have "unat (ucast x :: u32) = unat x" for x :: u8 by (rule unat_ucast_up_eq) simp
  ultimately show ?thesis using assms(2) by (simp add: word_less_nat_alt unat_word_ariths(1) not_less)
qed

lemma mbr_signature_bytes:
  assumes "mbr_wf m" "mbr_signature m = MBR_SIGNATURE"
  shows "ext4_mbr_bytes m ! 510 = 0x55" "ext4_mbr_bytes m ! 511 = 0xAA"
proof -
  define xs where "xs = mbr_bootstrap m @ le_bytes 4 (mbr_disk_id m) @ concat (map ext4_part_entry_bytes (mbr_part_entry m))"
  have "le_bytes 2 (0xAA55 :: u16) = [0x55, 0xAA]" by code_simp
  then have e: "ext4_mbr_bytes m = xs @ [0x55, 0xAA]"
    by (simp add: ext4_mbr_bytes_def xs_def assms(2) MBR_SIGNATURE_def)
  have "length xs = 510" using mbr_bytes_length [OF assms(1)] by (simp add: e)
  then show "ext4_mbr_bytes m ! 510 = 0x55" "ext4_mbr_bytes m ! 511 = 0xAA" by (simp_all add: e nth_append)
qed

text \<open>
  C36: On a driver that does not fail and a disk of less than 4 GiB, \<open>ext4_mbr_write\<close> of a division of at most 100 per cent
  succeeds, and so does an \<open>ext4_mbr_scan\<close> of what it wrote. The scan finds the partitions that \<open>found_partition\<close> computes
  from the size and the percentages in natural numbers. The sector ends with the signature 0x55 0xAA, no byte outside it
  is changed, and the device is left as open as it was.
\<close>

theorem mbr_roundtrip:
  assumes dev: "raw_dev N parent" "part_ok (raw_cap N) parent" "raw_good (bdev_dev parent)"
    and size: "512 \<le> unat (part_size parent)" "unat (part_size parent) < 2 ^ 32"
    and refs: "ph_refctr (bdev_bdif parent) \<noteq> 0" "ph_refctr (bdev_bdif parent) + 1 \<noteq> 0"
    and parts: "length division = 4" "sum_list (map unat division) \<le> 100"
  shows "\<exists>parent' bdevs parent''. ext4_mbr_write parent division disk_id = Some (EOK, parent') \<and>
    ext4_mbr_scan parent' = Some (EOK, bdevs, parent'') \<and>
    map (map_option (map_prod unat unat)) bdevs = map (found_partition (unat (part_size parent)) (map unat division)) [0..<4] \<and>
    raw_img (bdev_dev parent'') (unat (part_offset parent) + 510) = 0x55 \<and>
    raw_img (bdev_dev parent'') (unat (part_offset parent) + 511) = 0xAA \<and>
    (\<forall>a. a < unat (part_offset parent) \<or> unat (part_offset parent) + 512 \<le> a \<longrightarrow>
      raw_img (bdev_dev parent'') a = raw_img (bdev_dev parent) a) \<and>
    ph_refctr (bdev_bdif parent'') = ph_refctr (bdev_bdif parent)"
proof -
  let ?m = "mbr_zero\<lparr>mbr_disk_id := disk_id, mbr_part_entry := mbr_table (part_size parent) 512 division,
          mbr_signature := MBR_SIGNATURE\<rparr>" and ?o = "unat (part_offset parent)"
  obtain p1 where w: "ext4_mbr_write parent division disk_id = Some (EOK, p1)" "same_setup parent p1" "raw_good (bdev_dev p1)"
    "raw_img (bdev_dev p1) = overwrite (raw_img (bdev_dev parent)) ?o (ext4_mbr_bytes ?m)"
    by (rule mbr_write_spec [OF dev size(1) refs parts(1) division_sum [OF parts]]) blast
  note F = same_setup_fields [OF w(2)]
  have dev1: "raw_dev N p1" "part_ok (raw_cap N) p1" "512 \<le> unat (part_size p1)"
    and refs1: "ph_refctr (bdev_bdif p1) \<noteq> 0" "ph_refctr (bdev_bdif p1) + 1 \<noteq> 0"
    using dev size refs F by (simp_all add: same_setup_ok [OF w(2)])
  have wf: "mbr_wf ?m" by (rule mbr_table_wf [OF parts(1)])
  note len = mbr_bytes_length [OF wf]
  have img: "region (raw_img (bdev_dev p1)) (unat (part_offset p1)) 512 = ext4_mbr_bytes ?m"
    using F len by (simp add: w(4))
  obtain p2 where s: "ext4_mbr_scan p1 = Some (EOK, map (mbr_partition 512) (mbr_part_entry ?m), p2)"
    "ph_refctr (bdev_bdif p2) = ph_refctr (bdev_bdif p1)" "raw_img (bdev_dev p2) = raw_img (bdev_dev p1)"
    by (rule mbr_scan_spec [OF dev1(1,2) w(3) dev1(3) refs1, unfolded img mbr_of_bytes [OF wf]]) simp_all
  have tab: "length (mbr_table (part_size parent) 512 division) = 4"
    using mbr_entries_wf(1) parts(1) by (simp add: mbr_table_def Let_def)
  have "map (map_option (map_prod unat unat)) (map (mbr_partition 512) (mbr_table (part_size parent) 512 division)) =
      map (found_partition (unat (part_size parent)) (map unat division)) [0..<4]"
    by (rule nth_equalityI) (use tab mbr_table_found [OF size(2) parts] in simp_all)
  moreover have "raw_img (bdev_dev p2) (?o + 510) = 0x55" "raw_img (bdev_dev p2) (?o + 511) = 0xAA"
    using mbr_signature_bytes [OF wf] len by (simp_all add: s(3) w(4) overwrite_def)
  moreover have "\<forall>a. a < ?o \<or> ?o + 512 \<le> a \<longrightarrow> raw_img (bdev_dev p2) a = raw_img (bdev_dev parent) a"
    using len by (auto simp: s(3) w(4) overwrite_def)
  moreover have "mbr_part_entry ?m = mbr_table (part_size parent) 512 division" by simp
  ultimately show ?thesis using w(1) s(1,2) F by auto
qed

text \<open>
  The sample device has 6 KiB: 60 per cent are three cylinders of 1008 bytes, less than the first track, so the size of the
  first partition wraps around.
\<close>

theorem mbr_roundtrip_witness:
  "\<exists>parent' bdevs parent''. ext4_mbr_write sample_dev [60, 0, 30, 10] 77 = Some (EOK, parent') \<and>
    ext4_mbr_scan parent' = Some (EOK, bdevs, parent'') \<and>
    map (map_option (map_prod unat unat)) bdevs =
      [Some (32256, 4294937600), None, Some (1548288, 512), None]"
proof -
  have g: "raw_good (bdev_dev sample_dev)"
    by (simp add: raw_good_def sample_dev_def sample_file_def ext4_io_raw_dev_get_def)
  have f: "map (found_partition 6144 [60, 0, 30, 10]) [0..<4] = [Some (32256, 4294937600), None, Some (1548288, 512), None]"
    by (simp add: found_partition_def share_def cylinder_def disk_heads_def upt_rec Let_def)
  have "unat (part_size sample_dev) = 6144" by (simp add: sample_dev_def)
  then show ?thesis
    using mbr_roundtrip [of 8192 sample_dev "[60, 0, 30, 10]" 77] f g sample_ok by (force simp: sample_dev_def)
qed

section \<open>Where later partitions end up\<close>

text \<open>For a disk of at least 1 MiB the doubling stops with at least 512 cylinders.\<close>

lemma heads_cylinders:
  fixes disk_size :: u64
  assumes "2 ^ 20 \<le> unat disk_size"
  defines "k \<equiv> chs_heads 5 disk_size 16"
  shows "k \<in> {32, 64, 128, 256}" "512 * (63 * unat k) \<le> unat disk_size"
proof -
  let ?D = "unat disk_size"
  have c: "(disk_size div ucast (w :: u32) div 63 > 1024) = (?D div (unat w * 63) > 1024)" for w
    by (simp add: word_less_nat_alt unat_div unat_ucast_up_eq div_mult2_eq)
  have five: "(5::nat) = Suc (Suc (Suc (Suc (Suc 0))))" by simp
  have k: "k = (if 1024 < ?D div 1008 then if 1024 < ?D div 2016 then if 1024 < ?D div 4032
      then if 1024 < ?D div 8064 then 256 else 128 else 64 else 32 else 16)"
    unfolding k_def five chs_heads.simps(2) c by simp
  have "1024 < ?D div 1008" using div_le_mono [OF assms(1), of 1008] by simp
  then show "k \<in> {32, 64, 128, 256}" by (simp add: k)
  have d: "512 * (2 * m) \<le> ?D" if "1024 < ?D div m" for m
  proof -
    have "1024 * m \<le> ?D div m * m" using that by (intro mult_le_mono1) simp
    also have "\<dots> \<le> ?D" by simp
    finally show ?thesis by simp
  qed
  show "512 * (63 * unat k) \<le> ?D"
    using \<open>1024 < ?D div 1008\<close> d [of 1008] d [of 2016] d [of 4032] d [of 8064] by (simp add: k)
qed

text \<open>
  The table that \<open>ext4_mbr_write\<close> computes puts the second of two partitions outside the disk:
  on any disk between 1 MiB and 4 GiB, if the first two partitions both get at least one per cent
  of it, the offset that a scan finds for the second is beyond the end. The start of a partition
  after the first is stored in bytes where the field is in sectors.
\<close>

theorem mbr_second_partition_outside:
  assumes size: "2 ^ 20 \<le> unat disk_size" "unat disk_size < 2 ^ 32"
    and div: "1 \<le> unat d0" "1 \<le> unat d1" "unat d0 + unat d1 \<le> 100"
  shows "\<exists>off sz. mbr_partition 512 (mbr_table disk_size 512 [d0, d1, d2, d3] ! 1) = Some (off, sz) \<and>
    unat disk_size \<le> unat off"
proof -
  let ?D = "unat disk_size" and ?k0 = "chs_heads 5 disk_size 16"
  define k where "k = (if ?k0 = 256 then ?k0 - 1 else ?k0)"
  define cs where "cs = 63 * k"
  define cc :: u32 where "cc = ucast (disk_size div ucast cs)"
  note H = heads_cylinders [OF size(1)]
  have k: "unat k \<le> unat ?k0" "32 \<le> unat k" "unat k \<le> 255" using H(1) by (auto simp: k_def)
  then have cs: "unat cs = 63 * unat k" by (simp add: cs_def unat_word_ariths)
  have lim: "?D div unat cs \<le> ?D div 2016" using k(2) cs by (intro div_le_mono2) simp_all
  have "?D div 2016 \<le> 2 ^ 32 div 2016" using size(2) by (intro div_le_mono) simp
  then have lim2: "?D div unat cs \<le> 2130440" using lim by simp
  have cc: "unat cc = ?D div unat cs"
  proof -
    have "unat (ucast cs :: u64) = unat cs" by (rule unat_ucast_up_eq) simp
    then have "unat (disk_size div ucast cs) = ?D div unat cs" by (simp only: unat_div)
    then show ?thesis unfolding cc_def using lim2 by (subst unat_ucast_down_eq) simp_all
  qed
  have "512 * unat cs \<le> ?D" using H(2) k(1) unfolding cs by linarith
  then have "512 * unat cs div unat cs \<le> ?D div unat cs" by (rule div_le_mono)
  then have cc512: "512 \<le> unat cc" using k(2) cs by (simp add: cc)
  have part: "unat (cc * ucast d div 100) = unat cc * unat d div 100" if "unat d \<le> 100" for d :: u8
  proof -
    have "unat cc * unat d \<le> 2130440 * 100" using lim2 that by (intro mult_le_mono) (simp_all add: cc)
    then show ?thesis by (simp add: unat_div unat_word_ariths(2) unat_ucast_up_eq)
  qed
  define p0 where "p0 = cc * ucast d0 div 100"
  define p1 where "p1 = cc * ucast d1 div 100"
  have p0: "unat p0 = unat cc * unat d0 div 100" and p1: "unat p1 = unat cc * unat d1 div 100"
    using part [of d0] part [of d1] div by (simp_all add: p0_def p1_def)
  have "unat cc * 1 div 100 \<le> unat p0" "unat cc * 1 div 100 \<le> unat p1"
    using div unfolding p0 p1 by (intro div_le_mono mult_le_mono2; simp)+
  then have q: "unat cc div 100 \<le> unat p0" "unat cc div 100 \<le> unat p1" by simp_all
  have "unat p0 + unat p1 \<le> unat cc"
  proof -
    have "unat p0 + unat p1 \<le> (unat cc * unat d0 + unat cc * unat d1) div 100"
      unfolding p0 p1 by (subst div_add1_eq) simp
    also have "\<dots> \<le> unat cc * 100 div 100"
      using div(3) by (intro div_le_mono) (simp flip: add_mult_distrib2)
    finally show ?thesis by simp
  qed
  then have "(unat p0 + unat p1) * unat cs \<le> unat cc * unat cs" by (rule mult_le_mono1)
  also have "unat cc * unat cs \<le> ?D" by (simp add: cc)
  finally have fit: "unat p0 * unat cs + unat p1 * unat cs \<le> ?D" by (simp add: add_mult_distrib)
  have nz: "p0 \<noteq> 0" "p1 \<noteq> 0" using q cc512 by (auto simp: unat_eq_zero [symmetric])
  have first: "unat (p0 * cs) = unat p0 * unat cs" and sec: "unat (p1 * cs) = unat p1 * unat cs"
    using fit size(2) by (simp_all add: unat_word_ariths)
  have "512 \<le> unat p1 * unat cs" 
  proof -
    have "1 * 2016 \<le> unat p1 * unat cs" using q cc512 k(2) cs by (intro mult_le_mono) simp_all
    then show ?thesis by simp
  qed
  then have "512 div 512 \<le> unat (p1 * cs div 512)" using div_le_mono [of 512 _ 512] by (simp add: unat_div sec)
  then have sectors: "p1 * cs div 512 \<noteq> 0" by auto
  have entry: "mbr_table disk_size 512 [d0, d1, d2, d3] ! 1 = mbr_entry k cs 512 1 p0 p1"
    using nz unfolding mbr_table_def Let_def k_def [symmetric] cs_def [symmetric] cc_def [symmetric]
    by (simp add: Let_def p0_def p1_def)
  have "mbr_partition 512 (mbr_entry k cs 512 1 p0 p1) = Some (ucast (p0 * cs) * 512, ucast (p1 * cs div 512) * 512)"
    using sectors by (simp add: mbr_partition_def mbr_entry_def Let_def)
  moreover have "?D \<le> unat (ucast (p0 * cs) * 512 :: u64)"
  proof -
    have "unat (ucast (p0 * cs) * 512 :: u64) = unat p0 * unat cs * 512"
    proof -
      have "unat p0 * unat cs < 2 ^ 32" using fit size(2) by linarith
      then have "unat p0 * unat cs * 512 < 2 ^ 32 * 512" by (rule mult_less_mono1) simp
      also have "(2::nat) ^ 32 * 512 < 2 ^ 64" by simp
      finally have "unat p0 * unat cs * 512 < 2 ^ 64" .
      then show ?thesis by (subst unat_word_ariths(2)) (simp add: unat_ucast_up_eq first)
    qed
    moreover have "?D < (unat cc + 1) * unat cs"
      using k(2) cs by (simp add: cc dividend_less_div_times add.commute)
    moreover have "(unat cc + 1) * unat cs \<le> (unat p0 * 512) * unat cs"
      using q(1) cc512 by (intro mult_le_mono1) linarith
    ultimately show ?thesis by simp
  qed
  ultimately show ?thesis unfolding entry by blast
qed

theorem mbr_second_partition_outside_witness:
  "\<exists>off sz. mbr_partition 512 (mbr_table 0x10000000 512 [50, 50, 0, 0] ! 1) = Some (off, sz) \<and>
    unat (0x10000000 :: u64) \<le> unat off"
  by (rule mbr_second_partition_outside) simp_all

end
