(* ===== verification/Fs.thy ===== *)
theory Fs
  imports Mbr Block_Group Inode Bitmap
begin

text \<open>
  The file system state of \<open>include/ext4_fs.h\<close> and the first half of \<open>src/ext4_fs.c\<close>: mounting,
  block group references with the lazy initialisation of bitmaps and inode tables, and the
  address arithmetic between blocks and groups.

  A pointer into a block's data is the block and a byte offset: a descriptor or an inode is read
  from the buffer's bytes and stored back to them. A result of type \<open>option\<close> is \<open>None\<close> when an
  assertion fails further down.
\<close>

section \<open>State\<close>

record 'd ext4_fs =
  fs_read_only :: bool
  fs_bdev :: "'d ext4_blockdev"
  fs_sb :: ext4_sblock
  inode_block_limits :: "u64 list"
  inode_blocks_per_level :: "u64 list"
  last_inode_bg_id :: u32

record ext4_block_group_ref =
  bgr_block :: ext4_block
  bgr_offset :: nat
  bgr_index :: u32
  bgr_dirty :: bool

text \<open>The block operations on the file system's device.\<close>

definition fs_block_get :: "'d ext4_fs \<Rightarrow> u64 \<Rightarrow> (errno \<times> 'd ext4_fs \<times> ext4_block) option" where
  "fs_block_get fs lba = do {
     (r, bdev, b) \<leftarrow> ext4_trans_block_get (fs_bdev fs) EXT4_BLOCK_ZERO lba;
     Some (r, fs\<lparr>fs_bdev := bdev\<rparr>, b)
   }"

definition fs_block_get_noread :: "'d ext4_fs \<Rightarrow> u64 \<Rightarrow> (errno \<times> 'd ext4_fs \<times> ext4_block) option" where
  "fs_block_get_noread fs lba = do {
     (r, bdev, b) \<leftarrow> ext4_trans_block_get_noread (fs_bdev fs) EXT4_BLOCK_ZERO lba;
     Some (r, fs\<lparr>fs_bdev := bdev\<rparr>, b)
   }"

definition fs_block_set :: "'d ext4_fs \<Rightarrow> ext4_block \<Rightarrow> (errno \<times> 'd ext4_fs) option" where
  "fs_block_set fs b = do {
     (r, bdev, _) \<leftarrow> ext4_block_set (fs_bdev fs) b;
     Some (r, fs\<lparr>fs_bdev := bdev\<rparr>)
   }"

definition fs_dirty :: "'d ext4_fs \<Rightarrow> ext4_block \<Rightarrow> 'd ext4_fs" where
  "fs_dirty fs b = fs\<lparr>fs_bdev := snd (ext4_trans_set_block_dirty (fs_bdev fs) (the (blk_buf b)))\<rparr>"

definition fs_data :: "'d ext4_fs \<Rightarrow> ext4_block \<Rightarrow> bytes" where
  "fs_data fs b = blk_bytes (fs_bdev fs) b"

definition fs_store :: "'d ext4_fs \<Rightarrow> ext4_block \<Rightarrow> bytes \<Rightarrow> 'd ext4_fs" where
  "fs_store fs b data = fs\<lparr>fs_bdev := blk_put (fs_bdev fs) b data\<rparr>"

text \<open>
  The descriptor a reference points to. The setters write the fields of the second half only
  when the superblock says that descriptors have one, so exactly that part is stored back.
\<close>

definition bgr_bytes :: "'d ext4_fs \<Rightarrow> ext4_block_group_ref \<Rightarrow> bytes" where
  "bgr_bytes fs ref = drop (bgr_offset ref) (fs_data fs (bgr_block ref))"

definition bgr_group :: "'d ext4_fs \<Rightarrow> ext4_block_group_ref \<Rightarrow> ext4_bgroup" where
  "bgr_group fs ref = ext4_bgroup_of (bgr_bytes fs ref)"

definition bgr_put :: "'d ext4_fs \<Rightarrow> ext4_block_group_ref \<Rightarrow> ext4_bgroup \<Rightarrow> 'd ext4_fs" where
  "bgr_put fs ref bg =
     (let n = (if ext4_sb_get_desc_size (fs_sb fs) > EXT4_MIN_BLOCK_GROUP_DESCRIPTOR_SIZE then 64 else 32)
      in fs_store fs (bgr_block ref)
           (put_bytes (bgr_offset ref) (take n (ext4_bgroup_bytes bg)) (fs_data fs (bgr_block ref))))"

section \<open>Superblock input and output\<close>

definition ext4_sb_write :: "'d ext4_blockdev \<Rightarrow> ext4_sblock \<Rightarrow> (errno \<times> 'd ext4_blockdev \<times> ext4_sblock) option" where
  "ext4_sb_write bdev s =
     (let s = ext4_sb_set_csum s
      in do {
        (r, bdev) \<leftarrow> ext4_block_writebytes bdev EXT4_SUPERBLOCK_OFFSET (ext4_sblock_bytes s)
                      (of_nat EXT4_SUPERBLOCK_SIZE);
        Some (r, bdev, s)
      })"

definition ext4_sb_read :: "'d ext4_blockdev \<Rightarrow> ext4_sblock \<Rightarrow> (errno \<times> 'd ext4_blockdev \<times> ext4_sblock) option" where
  "ext4_sb_read bdev s = do {
     (r, bs, bdev) \<leftarrow> ext4_block_readbytes bdev EXT4_SUPERBLOCK_OFFSET (of_nat EXT4_SUPERBLOCK_SIZE);
     Some (r, bdev, ext4_sblock_of (put_bytes 0 bs (ext4_sblock_bytes s)))
   }"

section \<open>Mounting\<close>

definition EXT4_MAX_BLOCK_SIZE :: u32 where "EXT4_MAX_BLOCK_SIZE = 65536"
definition EXT4_SUPERBLOCK_STATE_VALID_FS :: u16 where "EXT4_SUPERBLOCK_STATE_VALID_FS = 0x0001"
definition EXT4_SUPERBLOCK_STATE_ERROR_FS :: u16 where "EXT4_SUPERBLOCK_STATE_ERROR_FS = 0x0002"
definition EXT4_INODE_DIRECT_BLOCK_COUNT :: u32 where "EXT4_INODE_DIRECT_BLOCK_COUNT = 12"

definition EXT4_FINCOM_64BIT :: u32 where "EXT4_FINCOM_64BIT = 0x0080"
definition EXT4_FINCOM_FLEX_BG :: u32 where "EXT4_FINCOM_FLEX_BG = 0x0200"
definition EXT4_FINCOM_RECOVER :: u32 where "EXT4_FINCOM_RECOVER = 0x0004"
definition EXT4_FINCOM_MMP :: u32 where "EXT4_FINCOM_MMP = 0x0100"
definition EXT4_FRO_COM_LARGE_FILE :: u32 where "EXT4_FRO_COM_LARGE_FILE = 0x0002"
definition EXT4_FRO_COM_DIR_NLINK :: u32 where "EXT4_FRO_COM_DIR_NLINK = 0x0020"
definition EXT4_FRO_COM_EXTRA_ISIZE :: u32 where "EXT4_FRO_COM_EXTRA_ISIZE = 0x0040"

definition EXT4_SUPPORTED_FINCOM :: u32 where
  "EXT4_SUPPORTED_FINCOM = EXT4_FINCOM_FILETYPE OR EXT4_FINCOM_META_BG OR EXT4_FINCOM_EXTENTS OR
     EXT4_FINCOM_FLEX_BG OR EXT4_FINCOM_64BIT"

definition EXT_FINCOM_IGNORED :: u32 where
  "EXT_FINCOM_IGNORED = EXT4_FINCOM_RECOVER OR EXT4_FINCOM_MMP"

definition EXT4_SUPPORTED_FRO_COM :: u32 where
  "EXT4_SUPPORTED_FRO_COM = EXT4_FRO_COM_SPARSE_SUPER OR EXT4_FRO_COM_METADATA_CSUM OR
     EXT4_FRO_COM_LARGE_FILE OR EXT4_FRO_COM_GDT_CSUM OR EXT4_FRO_COM_DIR_NLINK OR
     EXT4_FRO_COM_EXTRA_ISIZE OR EXT4_FRO_COM_HUGE_FILE"

definition CONFIG_SUPPORTED_FINCOM :: u32 where
  "CONFIG_SUPPORTED_FINCOM = EXT4_SUPPORTED_FINCOM OR EXT_FINCOM_IGNORED"

definition CONFIG_SUPPORTED_FRO_COM :: u32 where
  "CONFIG_SUPPORTED_FRO_COM = EXT4_SUPPORTED_FRO_COM"

text \<open>The result and the value stored to \<open>read_only\<close>, which an error leaves as it was.\<close>

definition ext4_fs_check_features :: "'d ext4_fs \<Rightarrow> bool \<Rightarrow> errno \<times> bool" where
  "ext4_fs_check_features fs read_only =
     (if sb_rev_level (fs_sb fs) = 0 then (EOK, False)
      else if sb_features_incompatible (fs_sb fs) AND NOT CONFIG_SUPPORTED_FINCOM \<noteq> 0
      then (ENOTSUP, read_only)
      else if sb_features_read_only (fs_sb fs) AND NOT CONFIG_SUPPORTED_FRO_COM \<noteq> 0
      then (EOK, True)
      else (EOK, False))"

text \<open>The limits of the indirect block levels for \<open>blocks_id\<close> block numbers to a block.\<close>

definition blocks_per_level :: "u32 \<Rightarrow> u64 list" where
  "blocks_per_level blocks_id =
     (let p = ucast blocks_id in [1, p, p * p, p * p * p])"

definition block_limits :: "u32 \<Rightarrow> u64 list" where
  "block_limits blocks_id =
     (let p = ucast blocks_id; l0 = ucast EXT4_INODE_DIRECT_BLOCK_COUNT; l1 = l0 + p; l2 = l1 + p * p
      in [l0, l1, l2, l2 + p * p * p])"

definition ext4_fs_init :: "'d ext4_fs \<Rightarrow> 'd ext4_blockdev \<Rightarrow> bool \<Rightarrow> (errno \<times> 'd ext4_fs) option" where
  "ext4_fs_init fs bdev read_only = do {
     let fs = fs\<lparr>fs_bdev := bdev, fs_read_only := read_only\<rparr>;
     (r, bdev, s) \<leftarrow> ext4_sb_read (fs_bdev fs) (fs_sb fs);
     let fs = fs\<lparr>fs_bdev := bdev, fs_sb := s\<rparr>;
     if r \<noteq> EOK then Some (r, fs)
     else if \<not> ext4_sb_check (fs_sb fs) then Some (ENOTSUP, fs)
     else do {
       let bsize = ext4_sb_get_block_size (fs_sb fs);
       if bsize > EXT4_MAX_BLOCK_SIZE then Some (ENXIO, fs)
       else
         (case ext4_fs_check_features fs read_only of
            (r, read_only) \<Rightarrow>
              if r \<noteq> EOK then Some (r, fs)
              else do {
                let fs = (if read_only then fs\<lparr>fs_read_only := read_only\<rparr> else fs);
                let blocks_id = bsize div 4;
                let fs = fs\<lparr>inode_block_limits := block_limits blocks_id,
                            inode_blocks_per_level := blocks_per_level blocks_id\<rparr>;
                if \<not> fs_read_only fs
                then do {
                  (r, bdev, s) \<leftarrow> ext4_sb_write (fs_bdev fs)
                                    ((fs_sb fs)\<lparr>sb_state := EXT4_SUPERBLOCK_STATE_ERROR_FS\<rparr>);
                  let fs = fs\<lparr>fs_bdev := bdev, fs_sb := s\<rparr>;
                  if r \<noteq> EOK then Some (r, fs)
                  else Some (r, fs\<lparr>fs_sb := (fs_sb fs)\<lparr>sb_mount_count := sb_mount_count (fs_sb fs) + 1\<rparr>\<rparr>)
                }
                else Some (r, fs)
              })
     }
   }"

definition ext4_fs_fini :: "'d ext4_fs \<Rightarrow> (errno \<times> 'd ext4_fs) option" where
  "ext4_fs_fini fs =
     (let fs = fs\<lparr>fs_sb := (fs_sb fs)\<lparr>sb_state := EXT4_SUPERBLOCK_STATE_VALID_FS\<rparr>\<rparr>
      in if \<not> fs_read_only fs
         then do {
           (r, bdev, s) \<leftarrow> ext4_sb_write (fs_bdev fs) (fs_sb fs);
           Some (r, fs\<lparr>fs_bdev := bdev, fs_sb := s\<rparr>)
         }
         else Some (EOK, fs))"

section \<open>Blocks and groups\<close>

definition ext4_balloc_get_bgid_of_block :: "ext4_sblock \<Rightarrow> u64 \<Rightarrow> u32" where
  "ext4_balloc_get_bgid_of_block s baddr =
     (let baddr = (if sb_first_data_block s \<noteq> 0 \<and> baddr \<noteq> 0 then baddr - 1 else baddr)
      in ucast (baddr div ucast (sb_blocks_per_group s)))"

text \<open>The product is one of 32-bit numbers.\<close>

definition ext4_balloc_get_block_of_bgid :: "ext4_sblock \<Rightarrow> u32 \<Rightarrow> u64" where
  "ext4_balloc_get_block_of_bgid s bgid =
     (let baddr = (if sb_first_data_block s \<noteq> 0 then 0 + 1 else 0)
      in baddr + ucast (bgid * sb_blocks_per_group s))"

definition ext4_fs_addr_to_idx_bg :: "ext4_sblock \<Rightarrow> u64 \<Rightarrow> u32" where
  "ext4_fs_addr_to_idx_bg s baddr =
     (let baddr = (if sb_first_data_block s \<noteq> 0 \<and> baddr \<noteq> 0 then baddr - 1 else baddr)
      in ucast (baddr mod ucast (sb_blocks_per_group s)))"

definition ext4_fs_bg_idx_to_addr :: "ext4_sblock \<Rightarrow> u32 \<Rightarrow> u32 \<Rightarrow> u64" where
  "ext4_fs_bg_idx_to_addr s index bgid =
     (let index = (if sb_first_data_block s \<noteq> 0 then index + 1 else index)
      in ucast (sb_blocks_per_group s * bgid + index))"

definition ext4_fs_first_bg_block_no :: "ext4_sblock \<Rightarrow> u32 \<Rightarrow> u64" where
  "ext4_fs_first_bg_block_no s bgid =
     ucast bgid * ucast (sb_blocks_per_group s) + ucast (sb_first_data_block s)"

definition ext4_block_in_group :: "ext4_sblock \<Rightarrow> u64 \<Rightarrow> u32 \<Rightarrow> bool" where
  "ext4_block_in_group s baddr bgid =
     (let actual_bgid = ext4_balloc_get_bgid_of_block s baddr
      in if actual_bgid = bgid then True else False)"

section \<open>Checksums of bitmaps and descriptors\<close>

definition ext4_balloc_bitmap_csum :: "ext4_sblock \<Rightarrow> bytes \<Rightarrow> u32" where
  "ext4_balloc_bitmap_csum sb bitmap =
     (if ext4_sb_feature_ro_com sb EXT4_FRO_COM_METADATA_CSUM
      then (let checksum = ext4_crc32c EXT4_CRC32_INIT (sb_uuid sb)
            in ext4_crc32c checksum (take (unat (sb_blocks_per_group sb div 8)) bitmap))
      else 0)"

definition ext4_balloc_set_bitmap_csum :: "ext4_sblock \<Rightarrow> ext4_bgroup \<Rightarrow> bytes \<Rightarrow> ext4_bgroup" where
  "ext4_balloc_set_bitmap_csum sb bg bitmap =
     (let desc_size = ext4_sb_get_desc_size sb;
          checksum = ext4_balloc_bitmap_csum sb bitmap;
          lo_checksum = ucast (checksum AND 0xFFFF); hi_checksum = ucast (drop_bit 16 checksum)
      in if \<not> ext4_sb_feature_ro_com sb EXT4_FRO_COM_METADATA_CSUM then bg
         else (let bg = bg\<lparr>bg_block_bitmap_csum_lo := lo_checksum\<rparr>
               in if desc_size = EXT4_MAX_BLOCK_GROUP_DESCRIPTOR_SIZE
                  then bg\<lparr>bg_block_bitmap_csum_hi := hi_checksum\<rparr> else bg))"

definition ext4_balloc_verify_bitmap_csum :: "ext4_sblock \<Rightarrow> ext4_bgroup \<Rightarrow> bytes \<Rightarrow> bool" where
  "ext4_balloc_verify_bitmap_csum sb bg bitmap =
     (let desc_size = ext4_sb_get_desc_size sb;
          checksum = ext4_balloc_bitmap_csum sb bitmap;
          lo_checksum = ucast (checksum AND 0xFFFF); hi_checksum = ucast (drop_bit 16 checksum)
      in if \<not> ext4_sb_feature_ro_com sb EXT4_FRO_COM_METADATA_CSUM then True
         else if bg_block_bitmap_csum_lo bg \<noteq> lo_checksum then False
         else if desc_size = EXT4_MAX_BLOCK_GROUP_DESCRIPTOR_SIZE \<and>
                 bg_block_bitmap_csum_hi bg \<noteq> hi_checksum then False
         else True)"

definition ext4_ialloc_bitmap_csum :: "ext4_sblock \<Rightarrow> bytes \<Rightarrow> u32" where
  "ext4_ialloc_bitmap_csum sb bitmap =
     (if ext4_sb_feature_ro_com sb EXT4_FRO_COM_METADATA_CSUM
      then (let csum = ext4_crc32c EXT4_CRC32_INIT (sb_uuid sb)
            in ext4_crc32c csum (take (unat ((sb_inodes_per_group sb + 7) div 8)) bitmap))
      else 0)"

definition ext4_ialloc_set_bitmap_csum :: "ext4_sblock \<Rightarrow> ext4_bgroup \<Rightarrow> bytes \<Rightarrow> ext4_bgroup" where
  "ext4_ialloc_set_bitmap_csum sb bg bitmap =
     (let desc_size = ext4_sb_get_desc_size sb;
          csum = ext4_ialloc_bitmap_csum sb bitmap;
          lo_csum = ucast (csum AND 0xFFFF); hi_csum = ucast (drop_bit 16 csum)
      in if \<not> ext4_sb_feature_ro_com sb EXT4_FRO_COM_METADATA_CSUM then bg
         else (let bg = bg\<lparr>bg_inode_bitmap_csum_lo := lo_csum\<rparr>
               in if desc_size = EXT4_MAX_BLOCK_GROUP_DESCRIPTOR_SIZE
                  then bg\<lparr>bg_inode_bitmap_csum_hi := hi_csum\<rparr> else bg))"

definition ext4_ialloc_verify_bitmap_csum :: "ext4_sblock \<Rightarrow> ext4_bgroup \<Rightarrow> bytes \<Rightarrow> bool" where
  "ext4_ialloc_verify_bitmap_csum sb bg bitmap =
     (let desc_size = ext4_sb_get_desc_size sb;
          csum = ext4_ialloc_bitmap_csum sb bitmap;
          lo_csum = ucast (csum AND 0xFFFF); hi_csum = ucast (drop_bit 16 csum)
      in if \<not> ext4_sb_feature_ro_com sb EXT4_FRO_COM_METADATA_CSUM then True
         else if bg_inode_bitmap_csum_lo bg \<noteq> lo_csum then False
         else if desc_size = EXT4_MAX_BLOCK_GROUP_DESCRIPTOR_SIZE \<and>
                 bg_inode_bitmap_csum_hi bg \<noteq> hi_csum then False
         else True)"

text \<open>
  The checksum of a descriptor, from its bytes: the CRC-32C ones with the checksum field taken
  as zero, the CRC-16 ones with the field left out.
\<close>

definition ext4_fs_bg_checksum :: "ext4_sblock \<Rightarrow> u32 \<Rightarrow> bytes \<Rightarrow> u16" where
  "ext4_fs_bg_checksum sb bgid bg =
     (if ext4_sb_feature_ro_com sb EXT4_FRO_COM_METADATA_CSUM
      then (let bg = put_bytes 30 [0, 0] bg;
                checksum = ext4_crc32c EXT4_CRC32_INIT (sb_uuid sb);
                checksum = ext4_crc32c checksum (le_bytes 4 bgid);
                checksum = ext4_crc32c checksum (take (unat (ext4_sb_get_desc_size sb)) bg)
            in ucast (checksum AND 0xFFFF))
      else if ext4_sb_feature_ro_com sb EXT4_FRO_COM_GDT_CSUM
      then (let offset = 30;
                crc = ext4_bg_crc16 (- 1) (sb_uuid sb);
                crc = ext4_bg_crc16 crc (le_bytes 4 bgid);
                crc = ext4_bg_crc16 crc (take offset bg);
                offset = offset + 2
            in if ext4_sb_feature_incom sb EXT4_FINCOM_64BIT \<and> offset < unat (ext4_sb_get_desc_size sb)
               then ext4_bg_crc16 crc (take (unat (ext4_sb_get_desc_size sb) - offset) (drop offset bg))
               else crc)
      else 0)"

definition ext4_fs_verify_bg_csum :: "ext4_sblock \<Rightarrow> u32 \<Rightarrow> bytes \<Rightarrow> bool" where
  "ext4_fs_verify_bg_csum sb bgid bg =
     (if \<not> ext4_sb_feature_ro_com sb EXT4_FRO_COM_METADATA_CSUM then True
      else ext4_fs_bg_checksum sb bgid bg = bg_checksum (ext4_bgroup_of bg))"

section \<open>Initialising a group\<close>

text \<open>
  The loops over bits run over their numbers. The positions of \<open>mark_bitmap_end\<close> are signed,
  the loop condition is unsigned.
\<close>

definition set_bits :: "nat list \<Rightarrow> bytes \<Rightarrow> bytes" where
  "set_bits js bitmap = fold (\<lambda>j bm. ext4_bmap_bit_set bm 0 (of_nat j)) js bitmap"

definition memset :: "nat \<Rightarrow> u8 \<Rightarrow> nat \<Rightarrow> bytes \<Rightarrow> bytes" where
  "memset off v n bs = put_bytes off (replicate n v) bs"

definition ext4_fs_mark_bitmap_end :: "u32 \<Rightarrow> u32 \<Rightarrow> bytes \<Rightarrow> bytes" where
  "ext4_fs_mark_bitmap_end start_bit end_bit bitmap =
     (if end_bit \<le>s start_bit then bitmap
      else (let stop = (start_bit + 7) AND NOT 7;
                bitmap = set_bits [unat start_bit..<unat stop] bitmap;
                i = (if start_bit < stop then stop else start_bit)
            in if i <s end_bit
               then memset (unat (drop_bit 3 i)) 0xff (unat (drop_bit 3 (end_bit - i))) bitmap
               else bitmap))"

definition init_block_bitmap_bytes :: "ext4_sblock \<Rightarrow> u32 \<Rightarrow> ext4_bgroup \<Rightarrow> bytes \<Rightarrow> bytes" where
  "init_block_bitmap_bytes sb index bg data =
     (let inode_size = sb_inode_size sb;
          block_size = ext4_sb_get_block_size sb;
          inodes_per_group = sb_inodes_per_group sb;
          bmp_blk = ext4_bg_get_block_bitmap bg sb;
          bmp_inode = ext4_bg_get_inode_bitmap bg sb;
          inode_table = ext4_bg_get_inode_table_first_block bg sb;
          first_bg = ext4_balloc_get_block_of_bgid sb index;
          dsc_per_block = block_size div ucast (ext4_sb_get_desc_size sb);
          flex_bg = ext4_sb_feature_incom sb EXT4_FINCOM_FLEX_BG;
          meta_bg = ext4_sb_feature_incom sb EXT4_FINCOM_META_BG;
          inode_table_bcnt = inodes_per_group * ucast inode_size div block_size;
          data = memset 0 0 (unat block_size) data;
          bit_max = (if ext4_sb_is_super_in_bg sb index then 1 else 0) :: u32;
          count = ext4_sb_first_meta_bg sb * dsc_per_block;
          bit_max =
            (if \<not> meta_bg \<or> index < count
             then (if bit_max \<noteq> 0
                   then bit_max + ext4_bg_num_gdb sb index + ucast (sb_reserved_gdt_blocks sb) else bit_max)
             else bit_max + ext4_bg_num_gdb sb index);
          data = set_bits [0..<unat bit_max] data;
          group_blocks =
            (if index = ext4_block_group_cnt sb - 1
             then ucast (ext4_sb_get_blocks_cnt sb - ucast (sb_first_data_block sb)
                         - ucast (sb_blocks_per_group sb * (ext4_block_group_cnt sb - 1)))
             else sb_blocks_per_group sb);
          mark = (\<lambda>blk data. if \<not> flex_bg \<or> ext4_block_in_group sb blk index
                             then ext4_bmap_bit_set data 0 (ucast (blk - first_bg)) else data);
          data = mark bmp_blk data;
          data = mark bmp_inode data;
          data = (if inode_table < inode_table + ucast inode_table_bcnt
                  then fold (\<lambda>j. mark (inode_table + of_nat j)) [0..<unat inode_table_bcnt] data else data)
      in ext4_fs_mark_bitmap_end group_blocks (block_size * 8) data)"

definition ext4_fs_init_block_bitmap ::
    "'d ext4_fs \<Rightarrow> ext4_block_group_ref \<Rightarrow> (errno \<times> 'd ext4_fs \<times> ext4_block_group_ref) option" where
  "ext4_fs_init_block_bitmap fs ref = do {
     let bg = bgr_group fs ref;
     (rc, fs, b) \<leftarrow> fs_block_get_noread fs (ext4_bg_get_block_bitmap bg (fs_sb fs));
     if rc \<noteq> EOK then Some (rc, fs, ref)
     else do {
       let data = init_block_bitmap_bytes (fs_sb fs) (bgr_index ref) bg (fs_data fs b);
       let fs = fs_dirty (fs_store fs b data) b;
       let fs = bgr_put fs ref (ext4_balloc_set_bitmap_csum (fs_sb fs) (bgr_group fs ref) data);
       (rc, fs) \<leftarrow> fs_block_set fs b;
       Some (rc, fs, ref\<lparr>bgr_dirty := True\<rparr>)
     }
   }"

definition init_inode_bitmap_bytes :: "ext4_sblock \<Rightarrow> bytes \<Rightarrow> bytes" where
  "init_inode_bitmap_bytes sb data =
     (let block_size = ext4_sb_get_block_size sb;
          inodes_per_group = sb_inodes_per_group sb;
          data = memset 0 0 (unat ((inodes_per_group + 7) div 8)) data;
          start_bit = inodes_per_group;
          end_bit = block_size * 8;
          stop = (start_bit + 7) AND NOT 7;
          data = set_bits [unat start_bit..<unat stop] data;
          i = (if start_bit < stop then stop else start_bit)
      in if i < end_bit then memset (unat (drop_bit 3 i)) 0xff (unat (drop_bit 3 (end_bit - i))) data
         else data)"

definition ext4_fs_init_inode_bitmap ::
    "'d ext4_fs \<Rightarrow> ext4_block_group_ref \<Rightarrow> (errno \<times> 'd ext4_fs \<times> ext4_block_group_ref) option" where
  "ext4_fs_init_inode_bitmap fs ref = do {
     let bg = bgr_group fs ref;
     (rc, fs, b) \<leftarrow> fs_block_get_noread fs (ext4_bg_get_inode_bitmap bg (fs_sb fs));
     if rc \<noteq> EOK then Some (rc, fs, ref)
     else do {
       let data = init_inode_bitmap_bytes (fs_sb fs) (fs_data fs b);
       let fs = fs_dirty (fs_store fs b data) b;
       let fs = bgr_put fs ref (ext4_ialloc_set_bitmap_csum (fs_sb fs) (bgr_group fs ref) data);
       (rc, fs) \<leftarrow> fs_block_set fs b;
       Some (rc, fs, ref\<lparr>bgr_dirty := True\<rparr>)
     }
   }"

text \<open>The loop over the blocks of the table runs to the last block inclusive.\<close>

fun zero_blocks :: "'d ext4_fs \<Rightarrow> nat \<Rightarrow> u64 \<Rightarrow> u32 \<Rightarrow> (errno \<times> 'd ext4_fs) option" where
  "zero_blocks fs 0 fblock block_size = Some (EOK, fs)"
| "zero_blocks fs (Suc n) fblock block_size = do {
     (rc, fs, b) \<leftarrow> fs_block_get_noread fs fblock;
     if rc \<noteq> EOK then Some (rc, fs)
     else do {
       let fs = fs_dirty (fs_store fs b (memset 0 0 (unat block_size) (fs_data fs b))) b;
       (rc, fs) \<leftarrow> fs_block_set fs b;
       if rc \<noteq> EOK then Some (rc, fs) else zero_blocks fs n (fblock + 1) block_size
     }
   }"

definition ext4_fs_init_inode_table ::
    "'d ext4_fs \<Rightarrow> ext4_block_group_ref \<Rightarrow> (errno \<times> 'd ext4_fs) option" where
  "ext4_fs_init_inode_table fs ref =
     (let sb = fs_sb fs; bg = bgr_group fs ref;
          inode_size = ucast (sb_inode_size sb) :: u32;
          block_size = ext4_sb_get_block_size sb;
          inodes_per_block = block_size div inode_size;
          inodes_in_group = ext4_inodes_in_group_cnt sb (bgr_index ref);
          table_blocks = inodes_in_group div inodes_per_block;
          table_blocks = (if inodes_in_group mod inodes_per_block \<noteq> 0 then table_blocks + 1 else table_blocks);
          first_block = ext4_bg_get_inode_table_first_block bg sb;
          last_block = first_block + ucast table_blocks - 1
      in if first_block \<le> last_block
         then zero_blocks fs (unat (last_block - first_block) + 1) first_block block_size
         else Some (EOK, fs))"

section \<open>Block group references\<close>

definition ext4_fs_get_descriptor_block :: "ext4_sblock \<Rightarrow> u32 \<Rightarrow> u32 \<Rightarrow> u64" where
  "ext4_fs_get_descriptor_block s bgid dsc_per_block =
     (let dsc_id = bgid div dsc_per_block;
          first_meta_bg = ext4_sb_first_meta_bg s;
          meta_bg = ext4_sb_feature_incom s EXT4_FINCOM_META_BG
      in if \<not> meta_bg \<or> dsc_id < first_meta_bg then ucast (sb_first_data_block s + dsc_id + 1)
         else (let has_super = (if ext4_sb_is_super_in_bg s bgid then 1 else 0)
               in has_super + ext4_fs_first_bg_block_no s bgid))"

text \<open>
  The lazy part of \<open>ext4_fs_get_block_group_ref\<close>: a group marked uninitialised gets its bitmaps
  and its inode table. On an error the reference's block is given back.
\<close>

definition bgr_init_inodes ::
    "'d ext4_fs \<Rightarrow> ext4_block_group_ref \<Rightarrow> (errno \<times> 'd ext4_fs \<times> ext4_block_group_ref) option" where
  "bgr_init_inodes fs ref =
     (if ext4_bg_has_flag (bgr_group fs ref) EXT4_BLOCK_GROUP_INODE_UNINIT
      then do {
        (rc, fs, ref) \<leftarrow> ext4_fs_init_inode_bitmap fs ref;
        if rc \<noteq> EOK then do { (_, fs) \<leftarrow> fs_block_set fs (bgr_block ref); Some (rc, fs, ref) }
        else do {
          let fs = bgr_put fs ref (ext4_bg_clear_flag (bgr_group fs ref) EXT4_BLOCK_GROUP_INODE_UNINIT);
          (rc, fs) \<leftarrow>
            (if \<not> ext4_bg_has_flag (bgr_group fs ref) EXT4_BLOCK_GROUP_ITABLE_ZEROED
             then do {
               (rc, fs) \<leftarrow> ext4_fs_init_inode_table fs ref;
               if rc \<noteq> EOK then do { (_, fs) \<leftarrow> fs_block_set fs (bgr_block ref); Some (rc, fs) }
               else Some (EOK, bgr_put fs ref (ext4_bg_set_flag (bgr_group fs ref) EXT4_BLOCK_GROUP_ITABLE_ZEROED))
             }
             else Some (EOK, fs));
          if rc \<noteq> EOK then Some (rc, fs, ref) else Some (EOK, fs, ref\<lparr>bgr_dirty := True\<rparr>)
        }
      }
      else Some (EOK, fs, ref))"

definition ext4_fs_get_block_group_ref ::
    "'d ext4_fs \<Rightarrow> u32 \<Rightarrow> (errno \<times> 'd ext4_fs \<times> ext4_block_group_ref) option" where
  "ext4_fs_get_block_group_ref fs bgid = do {
     let block_size = ext4_sb_get_block_size (fs_sb fs);
     let dsc_cnt = block_size div ucast (ext4_sb_get_desc_size (fs_sb fs));
     let block_id = ext4_fs_get_descriptor_block (fs_sb fs) bgid dsc_cnt;
     let offset = (bgid mod dsc_cnt) * ucast (ext4_sb_get_desc_size (fs_sb fs));
     (rc, fs, b) \<leftarrow> fs_block_get fs block_id;
     let ref = \<lparr>bgr_block = b, bgr_offset = unat offset, bgr_index = bgid, bgr_dirty = False\<rparr>;
     if rc \<noteq> EOK then Some (rc, fs, ref)
     else if ext4_bg_has_flag (bgr_group fs ref) EXT4_BLOCK_GROUP_BLOCK_UNINIT
     then do {
       (rc, fs, ref) \<leftarrow> ext4_fs_init_block_bitmap fs ref;
       if rc \<noteq> EOK then do { (_, fs) \<leftarrow> fs_block_set fs (bgr_block ref); Some (rc, fs, ref) }
       else do {
         let fs = bgr_put fs ref (ext4_bg_clear_flag (bgr_group fs ref) EXT4_BLOCK_GROUP_BLOCK_UNINIT);
         bgr_init_inodes fs (ref\<lparr>bgr_dirty := True\<rparr>)
       }
     }
     else bgr_init_inodes fs ref
   }"

definition ext4_fs_put_block_group_ref ::
    "'d ext4_fs \<Rightarrow> ext4_block_group_ref \<Rightarrow> (errno \<times> 'd ext4_fs) option" where
  "ext4_fs_put_block_group_ref fs ref =
     (let fs = (if bgr_dirty ref
                then (let cs = ext4_fs_bg_checksum (fs_sb fs) (bgr_index ref) (bgr_bytes fs ref);
                          fs = bgr_put fs ref ((bgr_group fs ref)\<lparr>bg_checksum := cs\<rparr>)
                      in fs_dirty fs (bgr_block ref))
                else fs)
      in fs_block_set fs (bgr_block ref))"

end
