(* ===== verification/Inode_Ref.thy ===== *)
theory Inode_Ref
  imports Fs
begin

text \<open>
  Inode references of \<open>src/ext4_fs.c\<close>: reading an inode from the table, storing it back with its
  checksum, and the link counts. A reference is the block of the inode table that it holds, the
  offset of the inode in it, the inode's number and the flag that it was modified; the inode
  itself lives in the bytes of the block.
\<close>

section \<open>References\<close>

record ext4_inode_ref =
  ir_block :: ext4_block
  ir_offset :: nat
  ir_index :: u32
  ir_dirty :: bool

definition inode_ref_undef :: ext4_inode_ref where
  "inode_ref_undef = \<lparr>ir_block = EXT4_BLOCK_ZERO, ir_offset = 0, ir_index = 0, ir_dirty = False\<rparr>"

text \<open>
  The inode that a reference points to, and storing it back. An inode of the old size has no
  fields after the first 128 bytes, and no setter writes them then.
\<close>

definition ino_bytes :: "'d ext4_fs \<Rightarrow> ext4_inode_ref \<Rightarrow> bytes" where
  "ino_bytes fs ref = drop (ir_offset ref) (fs_data fs (ir_block ref))"

definition ino_get :: "'d ext4_fs \<Rightarrow> ext4_inode_ref \<Rightarrow> ext4_inode" where
  "ino_get fs ref = ext4_inode_of (ino_bytes fs ref)"

definition ino_stored :: "ext4_sblock \<Rightarrow> ext4_inode \<Rightarrow> bytes" where
  "ino_stored sb inode =
     take (if sb_inode_size sb > EXT4_GOOD_OLD_INODE_SIZE then 156 else 128) (ext4_inode_bytes inode)"

definition ino_put :: "'d ext4_fs \<Rightarrow> ext4_inode_ref \<Rightarrow> ext4_inode \<Rightarrow> 'd ext4_fs" where
  "ino_put fs ref inode =
     fs_store fs (ir_block ref)
       (put_bytes (ir_offset ref) (ino_stored (fs_sb fs) inode) (fs_data fs (ir_block ref)))"

definition ino_upd :: "(ext4_inode \<Rightarrow> ext4_inode) \<Rightarrow> 'd ext4_fs \<Rightarrow> ext4_inode_ref \<Rightarrow> 'd ext4_fs" where
  "ino_upd f fs ref = ino_put fs ref (f (ino_get fs ref))"

section \<open>Checksum\<close>

text \<open>
  The checksum of an inode, over its bytes in the table with the checksum field taken as zero.
\<close>

definition ext4_fs_inode_checksum :: "'d ext4_fs \<Rightarrow> ext4_inode_ref \<Rightarrow> u32" where
  "ext4_fs_inode_checksum fs ref =
     (let sb = fs_sb fs; inode_size = sb_inode_size sb
      in if ext4_sb_feature_ro_com sb EXT4_FRO_COM_METADATA_CSUM
         then (let ino_index = ir_index ref;
                   ino_gen = ext4_inode_get_generation (ino_get fs ref);
                   inode = ext4_inode_set_csum sb (ino_get fs ref) 0;
                   bs = put_bytes 0 (ino_stored sb inode) (ino_bytes fs ref);
                   checksum = ext4_crc32c EXT4_CRC32_INIT (sb_uuid sb);
                   checksum = ext4_crc32c checksum (le_bytes 4 ino_index);
                   checksum = ext4_crc32c checksum (le_bytes 4 ino_gen);
                   checksum = ext4_crc32c checksum (take (unat inode_size) bs)
               in if inode_size = EXT4_GOOD_OLD_INODE_SIZE then checksum AND 0xFFFF else checksum)
         else 0)"

definition ext4_fs_set_inode_checksum :: "'d ext4_fs \<Rightarrow> ext4_inode_ref \<Rightarrow> 'd ext4_fs" where
  "ext4_fs_set_inode_checksum fs ref =
     (let sb = fs_sb fs
      in if \<not> ext4_sb_feature_ro_com sb EXT4_FRO_COM_METADATA_CSUM then fs
         else (let csum = ext4_fs_inode_checksum fs ref
               in ino_put fs ref (ext4_inode_set_csum sb (ino_get fs ref) csum)))"

definition ext4_fs_verify_inode_csum :: "'d ext4_fs \<Rightarrow> ext4_inode_ref \<Rightarrow> bool" where
  "ext4_fs_verify_inode_csum fs ref =
     (let sb = fs_sb fs
      in if \<not> ext4_sb_feature_ro_com sb EXT4_FRO_COM_METADATA_CSUM then True
         else ext4_inode_get_csum sb (ino_get fs ref) = ext4_fs_inode_checksum fs ref)"

section \<open>Reading and storing an inode\<close>

text \<open>
  Where an inode lies: the block of its group's inode table and the offset in that block. The
  byte offset in the table is a 32-bit number.
\<close>

definition inode_position :: "ext4_sblock \<Rightarrow> u64 \<Rightarrow> u32 \<Rightarrow> u64 \<times> u32" where
  "inode_position sb inode_table_start offset_in_group =
     (let inode_size = sb_inode_size sb;
          block_size = ext4_sb_get_block_size sb;
          byte_offset_in_group = offset_in_group * ucast inode_size
      in (inode_table_start + ucast (byte_offset_in_group div block_size),
          byte_offset_in_group mod block_size))"

text \<open>
  \<open>__ext4_fs_get_inode_ref\<close>; its last argument only decides whether a bad checksum is reported
  in the debug output, so it is left out.
\<close>

definition fs_get_inode_ref ::
    "'d ext4_fs \<Rightarrow> u32 \<Rightarrow> (errno \<times> 'd ext4_fs \<times> ext4_inode_ref) option" where
  "fs_get_inode_ref fs index = do {
     let inodes_per_group = sb_inodes_per_group (fs_sb fs);
     let index = index - 1;
     let block_group = index div inodes_per_group;
     let offset_in_group = index mod inodes_per_group;
     (rc, fs, bg_ref) \<leftarrow> ext4_fs_get_block_group_ref fs block_group;
     if rc \<noteq> EOK then Some (rc, fs, inode_ref_undef)
     else do {
       let inode_table_start = ext4_bg_get_inode_table_first_block (bgr_group fs bg_ref) (fs_sb fs);
       (rc, fs) \<leftarrow> ext4_fs_put_block_group_ref fs bg_ref;
       if rc \<noteq> EOK then Some (rc, fs, inode_ref_undef)
       else (case inode_position (fs_sb fs) inode_table_start offset_in_group of
               (block_id, offset_in_block) \<Rightarrow> do {
                 (rc, fs, b) \<leftarrow> fs_block_get fs block_id;
                 if rc \<noteq> EOK then Some (rc, fs, inode_ref_undef)
                 else Some (EOK, fs, \<lparr>ir_block = b, ir_offset = unat offset_in_block,
                                      ir_index = index + 1, ir_dirty = False\<rparr>)
               })
     }
   }"

definition ext4_fs_get_inode_ref ::
    "'d ext4_fs \<Rightarrow> u32 \<Rightarrow> (errno \<times> 'd ext4_fs \<times> ext4_inode_ref) option" where
  "ext4_fs_get_inode_ref fs index = fs_get_inode_ref fs index"

definition ext4_fs_put_inode_ref :: "'d ext4_fs \<Rightarrow> ext4_inode_ref \<Rightarrow> (errno \<times> 'd ext4_fs) option" where
  "ext4_fs_put_inode_ref fs ref =
     (let fs = (if ir_dirty ref
                then fs_dirty (ext4_fs_set_inode_checksum fs ref) (ir_block ref) else fs)
      in fs_block_set fs (ir_block ref))"

text \<open>The block that an allocation for an inode starts at: the code returns the number of its group.\<close>

definition ext4_fs_inode_to_goal_block :: "'d ext4_fs \<Rightarrow> ext4_inode_ref \<Rightarrow> u64" where
  "ext4_fs_inode_to_goal_block fs ref = ucast ((ir_index ref - 1) div sb_inodes_per_group (fs_sb fs))"

section \<open>Link counts\<close>

definition EXT4_LINK_MAX :: u16 where "EXT4_LINK_MAX = 65000"

definition ext4_fs_inode_links_count_inc :: "'d ext4_fs \<Rightarrow> ext4_inode_ref \<Rightarrow> 'd ext4_fs" where
  "ext4_fs_inode_links_count_inc fs ref =
     (let link = ext4_inode_get_links_cnt (ino_get fs ref) + 1;
          fs = ino_upd (\<lambda>i. ext4_inode_set_links_cnt i link) fs ref;
          is_dx = ext4_sb_feature_com (fs_sb fs) EXT4_FCOM_DIR_INDEX \<and>
                  ext4_inode_has_flag (ino_get fs ref) EXT4_INODE_FLAG_INDEX
      in if is_dx \<and> link > 1 \<and> (link \<ge> EXT4_LINK_MAX \<or> link = 2)
         then (let fs = ino_upd (\<lambda>i. ext4_inode_set_links_cnt i 1) fs ref
               in fs\<lparr>fs_sb := (fs_sb fs)\<lparr>sb_features_read_only :=
                       sb_features_read_only (fs_sb fs) OR EXT4_FRO_COM_DIR_NLINK\<rparr>\<rparr>)
         else fs)"

definition ext4_fs_inode_links_count_dec :: "'d ext4_fs \<Rightarrow> ext4_inode_ref \<Rightarrow> 'd ext4_fs" where
  "ext4_fs_inode_links_count_dec fs ref =
     (let links = ext4_inode_get_links_cnt (ino_get fs ref)
      in if \<not> ext4_inode_is_type (fs_sb fs) (ino_get fs ref) EXT4_INODE_MODE_DIRECTORY
         then (if links > 0 then ino_upd (\<lambda>i. ext4_inode_set_links_cnt i (links - 1)) fs ref else fs)
         else if links > 2 then ino_upd (\<lambda>i. ext4_inode_set_links_cnt i (links - 1)) fs ref
         else fs)"

end
