(* ===== verification/Balloc.thy ===== *)
theory Balloc
  imports Inode_Ref
begin

text \<open>
  The block allocator, \<open>src/ext4_balloc.c\<close>. An operation takes the file system and an inode
  reference and returns its code with both. \<open>None\<close> is a failed assertion, or a loop over groups
  that does not stop.
\<close>

section \<open>Shared steps\<close>

definition EXT4_INODE_BLOCK_SIZE :: u32 where "EXT4_INODE_BLOCK_SIZE = 512"

text \<open>No journal is attached, so there is nothing to revoke.\<close>

definition ext4_trans_try_revoke_block :: "'d ext4_fs \<Rightarrow> u64 \<Rightarrow> errno" where
  "ext4_trans_try_revoke_block fs lba = EOK"

text \<open>Storing a modified block bitmap: the bytes, the checksum in the descriptor, the dirty mark.\<close>

definition balloc_store_bitmap ::
    "'d ext4_fs \<Rightarrow> ext4_block_group_ref \<Rightarrow> ext4_block \<Rightarrow> bytes \<Rightarrow> 'd ext4_fs" where
  "balloc_store_bitmap fs bg_ref b data =
     (let fs = fs_store fs b data;
          fs = bgr_put fs bg_ref (ext4_balloc_set_bitmap_csum (fs_sb fs) (bgr_group fs bg_ref) data)
      in fs_dirty fs b)"

text \<open>
  The three counters: \<open>sb\<close> is added to the superblock's free blocks, \<open>ino\<close> to the inode's
  512-byte blocks and \<open>bg\<close> to the group's free blocks. The subtractions of the code are those
  of the words.
\<close>

definition balloc_account ::
    "'d ext4_fs \<Rightarrow> ext4_inode_ref \<Rightarrow> ext4_block_group_ref \<Rightarrow> u64 \<Rightarrow> u64 \<Rightarrow> u32 \<Rightarrow> 'd ext4_fs" where
  "balloc_account fs ir bg_ref sb ino bg =
     (let fs = fs\<lparr>fs_sb := ext4_sb_set_free_blocks_cnt (fs_sb fs) (ext4_sb_get_free_blocks_cnt (fs_sb fs) + sb)\<rparr>;
          ino_blocks = ext4_inode_get_blocks_count (fs_sb fs) (ino_get fs ir) + ino;
          fs = ino_upd (\<lambda>i. snd (ext4_inode_set_blocks_count (fs_sb fs) i ino_blocks)) fs ir;
          free = ext4_bg_get_free_blocks_count (bgr_group fs bg_ref) (fs_sb fs) + bg
      in bgr_put fs bg_ref (ext4_bg_set_free_blocks_count (bgr_group fs bg_ref) (fs_sb fs) free))"

section \<open>Freeing\<close>

definition ext4_balloc_free_block ::
    "'d ext4_fs \<Rightarrow> ext4_inode_ref \<Rightarrow> u64 \<Rightarrow> (errno \<times> 'd ext4_fs \<times> ext4_inode_ref) option" where
  "ext4_balloc_free_block fs ir baddr = do {
     let bg_id = ext4_balloc_get_bgid_of_block (fs_sb fs) baddr;
     let index_in_group = ext4_fs_addr_to_idx_bg (fs_sb fs) baddr;
     (rc, fs, bg_ref) \<leftarrow> ext4_fs_get_block_group_ref fs bg_id;
     if rc \<noteq> EOK then Some (rc, fs, ir)
     else do {
       (rc, fs, b) \<leftarrow> fs_block_get fs (ext4_bg_get_block_bitmap (bgr_group fs bg_ref) (fs_sb fs));
       if rc \<noteq> EOK then do { (_, fs) \<leftarrow> ext4_fs_put_block_group_ref fs bg_ref; Some (rc, fs, ir) }
       else do {
         let fs = balloc_store_bitmap fs bg_ref b (ext4_bmap_bit_clr (fs_data fs b) 0 index_in_group);
         (rc, fs) \<leftarrow> fs_block_set fs b;
         if rc \<noteq> EOK then do { (_, fs) \<leftarrow> ext4_fs_put_block_group_ref fs bg_ref; Some (rc, fs, ir) }
         else do {
           let block_size = ext4_sb_get_block_size (fs_sb fs);
           let fs = balloc_account fs ir bg_ref 1 (- ucast (block_size div EXT4_INODE_BLOCK_SIZE)) 1;
           let ir = ir\<lparr>ir_dirty := True\<rparr>;
           let bg_ref = bg_ref\<lparr>bgr_dirty := True\<rparr>;
           let rc = ext4_trans_try_revoke_block fs baddr;
           if rc \<noteq> EOK
           then do {
             (_, fs) \<leftarrow> ext4_fs_put_block_group_ref fs (bg_ref\<lparr>bgr_dirty := False\<rparr>);
             Some (rc, fs, ir)
           }
           else do {
             let fs = fs\<lparr>fs_bdev := upd_bc (\<lambda>bc. ext4_bcache_invalidate_lba bc baddr 1) (fs_bdev fs)\<rparr>;
             (rc, fs) \<leftarrow> ext4_fs_put_block_group_ref fs bg_ref;
             Some (rc, fs, ir)
           }
         }
       }
     }
   }"

text \<open>
  Freeing a run of blocks. One turn of the loop frees the part of the run in the bitmap of group
  \<open>bg_first\<close>; its first result tells whether the operation returns at once, whether the loop was
  left, or whether it goes on.
\<close>

datatype free_next = Free_return | Free_break | Free_continue

definition free_blocks_group ::
    "'d ext4_fs \<Rightarrow> ext4_inode_ref \<Rightarrow> u32 \<Rightarrow> u64 \<Rightarrow> u32 \<Rightarrow>
     (free_next \<times> errno \<times> 'd ext4_fs \<times> ext4_inode_ref \<times> u64 \<times> u32) option" where
  "free_blocks_group fs ir bg_first first count = do {
     (rc, fs, bg_ref) \<leftarrow> ext4_fs_get_block_group_ref fs bg_first;
     if rc \<noteq> EOK then Some (Free_return, rc, fs, ir, first, count)
     else do {
       let idx_in_bg_first = ext4_fs_addr_to_idx_bg (fs_sb fs) first;
       (rc, fs, blk) \<leftarrow> fs_block_get fs (ext4_bg_get_block_bitmap (bgr_group fs bg_ref) (fs_sb fs));
       if rc \<noteq> EOK
       then do {
         (_, fs) \<leftarrow> ext4_fs_put_block_group_ref fs bg_ref;
         Some (Free_return, rc, fs, ir, first, count)
       }
       else do {
         let free_cnt = ext4_sb_get_block_size (fs_sb fs) * 8 - idx_in_bg_first;
         let free_cnt = (if count > free_cnt then free_cnt else count);
         let fs = balloc_store_bitmap fs bg_ref blk
                    (ext4_bmap_bits_free (fs_data fs blk) idx_in_bg_first free_cnt);
         let count = count - free_cnt;
         let first = first + ucast free_cnt;
         (rc, fs) \<leftarrow> fs_block_set fs blk;
         if rc \<noteq> EOK
         then do {
           (_, fs) \<leftarrow> ext4_fs_put_block_group_ref fs bg_ref;
           Some (Free_return, rc, fs, ir, first, count)
         }
         else do {
           let block_size = ext4_sb_get_block_size (fs_sb fs);
           let fs = balloc_account fs ir bg_ref (ucast free_cnt)
                      (- ucast (free_cnt * (block_size div EXT4_INODE_BLOCK_SIZE))) free_cnt;
           let ir = ir\<lparr>ir_dirty := True\<rparr>;
           (rc, fs) \<leftarrow> ext4_fs_put_block_group_ref fs (bg_ref\<lparr>bgr_dirty := True\<rparr>);
           Some (if rc \<noteq> EOK then Free_break else Free_continue, rc, fs, ir, first, count)
         }
       }
     }
   }"

partial_function (option) free_blocks_loop ::
    "'d ext4_fs \<Rightarrow> ext4_inode_ref \<Rightarrow> u32 \<Rightarrow> u32 \<Rightarrow> u64 \<Rightarrow> u32 \<Rightarrow> errno \<Rightarrow>
     (free_next \<times> errno \<times> 'd ext4_fs \<times> ext4_inode_ref \<times> u64 \<times> u32) option" where
  "free_blocks_loop fs ir bg_first bg_last first count rc =
     (if bg_first \<le> bg_last
      then Option.bind (free_blocks_group fs ir bg_first first count)
             (\<lambda>(next, rc, fs, ir, first, count).
                if next = Free_continue
                then free_blocks_loop fs ir (bg_first + 1) bg_last first count rc
                else Some (next, rc, fs, ir, first, count))
      else Some (Free_continue, rc, fs, ir, first, count))"

text \<open>
  The loop that revokes the freed blocks stores the code of each revocation to \<open>rc\<close>, so a run
  of at least one block ends with the code of the last one.
\<close>

fun revoke_blocks :: "'d ext4_fs \<Rightarrow> u64 \<Rightarrow> nat \<Rightarrow> errno \<Rightarrow> errno" where
  "revoke_blocks fs blk 0 rc = rc"
| "revoke_blocks fs blk (Suc n) rc =
     (let rc = ext4_trans_try_revoke_block fs blk
      in if rc \<noteq> EOK then rc else revoke_blocks fs (blk + 1) n rc)"

definition ext4_balloc_free_blocks ::
    "'d ext4_fs \<Rightarrow> ext4_inode_ref \<Rightarrow> u64 \<Rightarrow> u32 \<Rightarrow> (errno \<times> 'd ext4_fs \<times> ext4_inode_ref) option" where
  "ext4_balloc_free_blocks fs ir first count = do {
     let blk_cnt = count;
     let start_block = first;
     let bg_first = ext4_balloc_get_bgid_of_block (fs_sb fs) first;
     let bg_last = ext4_balloc_get_bgid_of_block (fs_sb fs) (first + ucast count - 1);
     (next, rc, fs, ir, first, count) \<leftarrow> free_blocks_loop fs ir bg_first bg_last first count EOK;
     if next = Free_return then Some (rc, fs, ir)
     else do {
       let rc' = revoke_blocks fs start_block (unat blk_cnt) rc;
       if blk_cnt \<noteq> 0 \<and> rc' \<noteq> EOK then Some (rc', fs, ir)
       else do {
         let fs = fs\<lparr>fs_bdev := upd_bc (\<lambda>bc. ext4_bcache_invalidate_lba bc start_block blk_cnt) (fs_bdev fs)\<rparr>;
         if count \<noteq> 0 then None else Some (rc', fs, ir)
       }
     }
   }"

section \<open>Allocating\<close>

text \<open>
  The search of one group ends with a return of the operation, with a block, or with the group
  used up; the latter two still hold the reference of the group.
\<close>

datatype 'd balloc_step =
    Balloc_return errno "'d ext4_fs"
  | Balloc_found u64 ext4_block_group_ref "'d ext4_fs"
  | Balloc_none ext4_block_group_ref "'d ext4_fs"

text \<open>
  Taking bit \<open>idx\<close> of the bitmap: \<open>keep_ref\<close> marks the two places where an error of
  \<open>ext4_block_set\<close> returns without giving the group back.
\<close>

definition balloc_take ::
    "'d ext4_fs \<Rightarrow> ext4_block_group_ref \<Rightarrow> ext4_block \<Rightarrow> u32 \<Rightarrow> u32 \<Rightarrow> bool \<Rightarrow> 'd balloc_step option" where
  "balloc_take fs bg_ref b idx bg_id keep_ref = do {
     let fs = balloc_store_bitmap fs bg_ref b (ext4_bmap_bit_set (fs_data fs b) 0 idx);
     (r, fs) \<leftarrow> fs_block_set fs b;
     if r \<noteq> EOK
     then if keep_ref then Some (Balloc_return r fs)
          else do { (_, fs) \<leftarrow> ext4_fs_put_block_group_ref fs bg_ref; Some (Balloc_return r fs) }
     else Some (Balloc_found (ext4_fs_bg_idx_to_addr (fs_sb fs) idx bg_id) bg_ref fs)
   }"

text \<open>The first clear bit near the goal, at most up to the next multiple of 64.\<close>

definition balloc_near :: "bytes \<Rightarrow> u32 \<Rightarrow> u32 \<Rightarrow> u32 option" where
  "balloc_near data idx_in_bg blk_in_bg =
     (let end_idx = (idx_in_bg + 63) AND NOT 63;
          end_idx = (if end_idx > blk_in_bg then blk_in_bg else end_idx)
      in find (\<lambda>i. ext4_bmap_is_bit_clr data 0 i) (map of_nat [unat (idx_in_bg + 1)..<unat end_idx]))"

definition balloc_goal_group ::
    "'d ext4_fs \<Rightarrow> ext4_block_group_ref \<Rightarrow> u32 \<Rightarrow> u32 \<Rightarrow> 'd balloc_step option" where
  "balloc_goal_group fs bg_ref bg_id idx_in_bg =
     (if ext4_bg_get_free_blocks_count (bgr_group fs bg_ref) (fs_sb fs) = 0
      then Some (Balloc_none bg_ref fs)
      else do {
        let sb = fs_sb fs;
        let first_in_bg_index = ext4_fs_addr_to_idx_bg sb (ext4_balloc_get_block_of_bgid sb (bgr_index bg_ref));
        let idx_in_bg = (if idx_in_bg < first_in_bg_index then first_in_bg_index else idx_in_bg);
        (r, fs, b) \<leftarrow> fs_block_get fs (ext4_bg_get_block_bitmap (bgr_group fs bg_ref) sb);
        if r \<noteq> EOK
        then do { (_, fs) \<leftarrow> ext4_fs_put_block_group_ref fs bg_ref; Some (Balloc_return r fs) }
        else if ext4_bmap_is_bit_clr (fs_data fs b) 0 idx_in_bg
        then balloc_take fs bg_ref b idx_in_bg bg_id False
        else do {
          let blk_in_bg = ext4_blocks_in_group_cnt sb bg_id;
          case balloc_near (fs_data fs b) idx_in_bg blk_in_bg of
            Some tmp_idx \<Rightarrow> balloc_take fs bg_ref b tmp_idx bg_id True
          | None \<Rightarrow>
              (case ext4_bmap_bit_find_clr (fs_data fs b) idx_in_bg blk_in_bg of
                 (EOK, Some rel_blk_idx) \<Rightarrow> balloc_take fs bg_ref b rel_blk_idx bg_id True
               | _ \<Rightarrow> do {
                   (r, fs) \<leftarrow> fs_block_set fs b;
                   if r \<noteq> EOK
                   then do { (_, fs) \<leftarrow> ext4_fs_put_block_group_ref fs bg_ref; Some (Balloc_return r fs) }
                   else Some (Balloc_none bg_ref fs)
                 })
        }
      })"

definition balloc_other_group ::
    "'d ext4_fs \<Rightarrow> ext4_block_group_ref \<Rightarrow> u32 \<Rightarrow> 'd balloc_step option" where
  "balloc_other_group fs bg_ref bgid =
     (if ext4_bg_get_free_blocks_count (bgr_group fs bg_ref) (fs_sb fs) = 0
      then Some (Balloc_none bg_ref fs)
      else do {
        let sb = fs_sb fs;
        (r, fs, b) \<leftarrow> fs_block_get fs (ext4_bg_get_block_bitmap (bgr_group fs bg_ref) sb);
        if r \<noteq> EOK
        then do { (_, fs) \<leftarrow> ext4_fs_put_block_group_ref fs bg_ref; Some (Balloc_return r fs) }
        else do {
          let idx_in_bg = ext4_fs_addr_to_idx_bg sb (ext4_balloc_get_block_of_bgid sb bgid);
          let blk_in_bg = ext4_blocks_in_group_cnt sb bgid;
          case ext4_bmap_bit_find_clr (fs_data fs b) idx_in_bg blk_in_bg of
            (EOK, Some rel_blk_idx) \<Rightarrow> balloc_take fs bg_ref b rel_blk_idx bgid False
          | _ \<Rightarrow> do {
              (r, fs) \<leftarrow> fs_block_set fs b;
              if r \<noteq> EOK
              then do { (_, fs) \<leftarrow> ext4_fs_put_block_group_ref fs bg_ref; Some (Balloc_return r fs) }
              else Some (Balloc_none bg_ref fs)
            }
        }
      })"

text \<open>The label \<open>success\<close>.\<close>

definition balloc_success ::
    "'d ext4_fs \<Rightarrow> ext4_inode_ref \<Rightarrow> ext4_block_group_ref \<Rightarrow> u64 \<Rightarrow>
     (errno \<times> 'd ext4_fs \<times> ext4_inode_ref \<times> u64 option) option" where
  "balloc_success fs ir bg_ref alloc = do {
     let block_size = ext4_sb_get_block_size (fs_sb fs);
     let fs = balloc_account fs ir bg_ref (- 1) (ucast (block_size div EXT4_INODE_BLOCK_SIZE)) (- 1);
     (r, fs) \<leftarrow> ext4_fs_put_block_group_ref fs (bg_ref\<lparr>bgr_dirty := True\<rparr>);
     Some (r, fs, ir\<lparr>ir_dirty := True\<rparr>, Some alloc)
   }"

text \<open>The loop over the groups: the first argument is \<open>count\<close>.\<close>

fun balloc_groups ::
    "nat \<Rightarrow> 'd ext4_fs \<Rightarrow> ext4_inode_ref \<Rightarrow> u32 \<Rightarrow> u32 \<Rightarrow>
     (errno \<times> 'd ext4_fs \<times> ext4_inode_ref \<times> u64 option) option" where
  "balloc_groups 0 fs ir bgid block_group_count = Some (ENOSPC, fs, ir, None)"
| "balloc_groups (Suc count) fs ir bgid block_group_count = do {
     (r, fs, bg_ref) \<leftarrow> ext4_fs_get_block_group_ref fs bgid;
     if r \<noteq> EOK then Some (r, fs, ir, None)
     else do {
       step \<leftarrow> balloc_other_group fs bg_ref bgid;
       case step of
         Balloc_return r fs \<Rightarrow> Some (r, fs, ir, None)
       | Balloc_found alloc bg_ref fs \<Rightarrow> balloc_success fs ir bg_ref alloc
       | Balloc_none bg_ref fs \<Rightarrow> do {
           (r, fs) \<leftarrow> ext4_fs_put_block_group_ref fs bg_ref;
           if r \<noteq> EOK then Some (r, fs, ir, None)
           else balloc_groups count fs ir ((bgid + 1) mod block_group_count) block_group_count
         }
     }
   }"

definition ext4_balloc_alloc_block ::
    "'d ext4_fs \<Rightarrow> ext4_inode_ref \<Rightarrow> u64 \<Rightarrow>
     (errno \<times> 'd ext4_fs \<times> ext4_inode_ref \<times> u64 option) option" where
  "ext4_balloc_alloc_block fs ir goal = do {
     let bg_id = ext4_balloc_get_bgid_of_block (fs_sb fs) goal;
     let idx_in_bg = ext4_fs_addr_to_idx_bg (fs_sb fs) goal;
     (r, fs, bg_ref) \<leftarrow> ext4_fs_get_block_group_ref fs bg_id;
     if r \<noteq> EOK then Some (r, fs, ir, None)
     else do {
       step \<leftarrow> balloc_goal_group fs bg_ref bg_id idx_in_bg;
       case step of
         Balloc_return r fs \<Rightarrow> Some (r, fs, ir, None)
       | Balloc_found alloc bg_ref fs \<Rightarrow> balloc_success fs ir bg_ref alloc
       | Balloc_none bg_ref fs \<Rightarrow> do {
           (r, fs) \<leftarrow> ext4_fs_put_block_group_ref fs bg_ref;
           if r \<noteq> EOK then Some (r, fs, ir, None)
           else do {
             let block_group_count = ext4_block_group_cnt (fs_sb fs);
             balloc_groups (unat block_group_count) fs ir ((bg_id + 1) mod block_group_count) block_group_count
           }
         }
     }
   }"

text \<open>Allocating one given block, if it is free.\<close>

definition ext4_balloc_try_alloc_block ::
    "'d ext4_fs \<Rightarrow> ext4_inode_ref \<Rightarrow> u64 \<Rightarrow> (errno \<times> 'd ext4_fs \<times> ext4_inode_ref \<times> bool) option" where
  "ext4_balloc_try_alloc_block fs ir baddr = do {
     let block_group = ext4_balloc_get_bgid_of_block (fs_sb fs) baddr;
     let index_in_group = ext4_fs_addr_to_idx_bg (fs_sb fs) baddr;
     (rc, fs, bg_ref) \<leftarrow> ext4_fs_get_block_group_ref fs block_group;
     if rc \<noteq> EOK then Some (rc, fs, ir, False)
     else do {
       (rc, fs, b) \<leftarrow> fs_block_get fs (ext4_bg_get_block_bitmap (bgr_group fs bg_ref) (fs_sb fs));
       if rc \<noteq> EOK
       then do { (_, fs) \<leftarrow> ext4_fs_put_block_group_ref fs bg_ref; Some (rc, fs, ir, False) }
       else do {
         let free = ext4_bmap_is_bit_clr (fs_data fs b) 0 index_in_group;
         let fs = (if free then balloc_store_bitmap fs bg_ref b (ext4_bmap_bit_set (fs_data fs b) 0 index_in_group)
                   else fs);
         (rc, fs) \<leftarrow> fs_block_set fs b;
         if rc \<noteq> EOK
         then do { (_, fs) \<leftarrow> ext4_fs_put_block_group_ref fs bg_ref; Some (rc, fs, ir, free) }
         else if \<not> free
         then do { (rc, fs) \<leftarrow> ext4_fs_put_block_group_ref fs bg_ref; Some (rc, fs, ir, free) }
         else do {
           let block_size = ext4_sb_get_block_size (fs_sb fs);
           let fs = balloc_account fs ir bg_ref (- 1) (ucast (block_size div EXT4_INODE_BLOCK_SIZE)) (- 1);
           (rc, fs) \<leftarrow> ext4_fs_put_block_group_ref fs (bg_ref\<lparr>bgr_dirty := True\<rparr>);
           Some (rc, fs, ir\<lparr>ir_dirty := True\<rparr>, free)
         }
       }
     }
   }"

end
