(* ===== verification/Extent_Node.thy ===== *)
theory Extent_Node
  imports Prelude
begin

text \<open>
  The nodes of the extent tree, \<open>src/ext4_extent.c\<close>: the packed structs, the accessors of their
  fields and the binary searches. A node is the run of bytes that its header pointer points to;
  entry \<open>i\<close> lies at \<open>12 + 12 * i\<close>, and a pointer to an entry is its number.
\<close>

section \<open>Structs\<close>

record ext4_extent =
  ee_first_block :: u32
  ee_block_count :: u16
  ee_start_hi :: u16
  ee_start_lo :: u32

record ext4_extent_index =
  ei_first_block :: u32
  ei_leaf_lo :: u32
  ei_leaf_hi :: u16
  ei_padding :: u16

record ext4_extent_header =
  eh_magic :: u16
  eh_entries_count :: u16
  eh_max_entries_count :: u16
  eh_depth :: u16
  eh_generation :: u32

definition ext4_extent_bytes :: "ext4_extent \<Rightarrow> bytes" where
  "ext4_extent_bytes e =
     le_bytes 4 (ee_first_block e) @ le_bytes 2 (ee_block_count e) @ le_bytes 2 (ee_start_hi e) @
     le_bytes 4 (ee_start_lo e)"

definition ext4_extent_of :: "bytes \<Rightarrow> ext4_extent" where
  "ext4_extent_of bs =
     \<lparr>ee_first_block = get_le 4 0 bs, ee_block_count = get_le 2 4 bs, ee_start_hi = get_le 2 6 bs,
      ee_start_lo = get_le 4 8 bs\<rparr>"

definition ext4_extent_index_bytes :: "ext4_extent_index \<Rightarrow> bytes" where
  "ext4_extent_index_bytes x =
     le_bytes 4 (ei_first_block x) @ le_bytes 4 (ei_leaf_lo x) @ le_bytes 2 (ei_leaf_hi x) @
     le_bytes 2 (ei_padding x)"

definition ext4_extent_index_of :: "bytes \<Rightarrow> ext4_extent_index" where
  "ext4_extent_index_of bs =
     \<lparr>ei_first_block = get_le 4 0 bs, ei_leaf_lo = get_le 4 4 bs, ei_leaf_hi = get_le 2 8 bs,
      ei_padding = get_le 2 10 bs\<rparr>"

definition ext4_extent_header_bytes :: "ext4_extent_header \<Rightarrow> bytes" where
  "ext4_extent_header_bytes h =
     le_bytes 2 (eh_magic h) @ le_bytes 2 (eh_entries_count h) @ le_bytes 2 (eh_max_entries_count h) @
     le_bytes 2 (eh_depth h) @ le_bytes 4 (eh_generation h)"

definition ext4_extent_header_of :: "bytes \<Rightarrow> ext4_extent_header" where
  "ext4_extent_header_of bs =
     \<lparr>eh_magic = get_le 2 0 bs, eh_entries_count = get_le 2 2 bs, eh_max_entries_count = get_le 2 4 bs,
      eh_depth = get_le 2 6 bs, eh_generation = get_le 4 8 bs\<rparr>"

text \<open>A node's header and entries, and storing them.\<close>

definition hdr_upd :: "(ext4_extent_header \<Rightarrow> ext4_extent_header) \<Rightarrow> bytes \<Rightarrow> bytes" where
  "hdr_upd f bs = put_bytes 0 (ext4_extent_header_bytes (f (ext4_extent_header_of bs))) bs"

definition node_count :: "bytes \<Rightarrow> nat" where
  "node_count bs = unat (eh_entries_count (ext4_extent_header_of bs))"

definition node_max :: "bytes \<Rightarrow> nat" where
  "node_max bs = unat (eh_max_entries_count (ext4_extent_header_of bs))"

definition ext_at :: "bytes \<Rightarrow> nat \<Rightarrow> ext4_extent" where
  "ext_at bs i = ext4_extent_of (drop (12 + 12 * i) bs)"

definition ext_put :: "nat \<Rightarrow> ext4_extent \<Rightarrow> bytes \<Rightarrow> bytes" where
  "ext_put i e bs = put_bytes (12 + 12 * i) (ext4_extent_bytes e) bs"

definition idx_at :: "bytes \<Rightarrow> nat \<Rightarrow> ext4_extent_index" where
  "idx_at bs i = ext4_extent_index_of (drop (12 + 12 * i) bs)"

definition idx_put :: "nat \<Rightarrow> ext4_extent_index \<Rightarrow> bytes \<Rightarrow> bytes" where
  "idx_put i x bs = put_bytes (12 + 12 * i) (ext4_extent_index_bytes x) bs"

text \<open>\<open>memmove\<close> of \<open>len\<close> entries inside a node; both kinds of entries have 12 bytes.\<close>

definition entries_move :: "nat \<Rightarrow> nat \<Rightarrow> nat \<Rightarrow> bytes \<Rightarrow> bytes" where
  "entries_move dst src len bs =
     put_bytes (12 + 12 * dst) (take (12 * len) (drop (12 + 12 * src) bs)) bs"

section \<open>Accessors\<close>

definition EXT4_EXTENT_MAGIC :: u16 where "EXT4_EXTENT_MAGIC = 0xF30A"
definition EXT_INIT_MAX_LEN :: u16 where "EXT_INIT_MAX_LEN = 0x8000"
definition EXT_UNWRITTEN_MAX_LEN :: u16 where "EXT_UNWRITTEN_MAX_LEN = EXT_INIT_MAX_LEN - 1"
definition EXT_MAX_BLOCKS :: u32 where "EXT_MAX_BLOCKS = - 1"
definition EXT4_EXT_MARK_UNWRIT1 :: u32 where "EXT4_EXT_MARK_UNWRIT1 = 0x02"
definition EXT4_EXT_MARK_UNWRIT2 :: u32 where "EXT4_EXT_MARK_UNWRIT2 = 0x04"
definition EXT4_EXT_NO_COMBINE :: u32 where "EXT4_EXT_NO_COMBINE = 0x20"

definition EXT4_EXTENT_TAIL_OFFSET :: "bytes \<Rightarrow> nat" where
  "EXT4_EXTENT_TAIL_OFFSET hdr = 12 + 12 * node_max hdr"

definition EXT4_EXT_IS_UNWRITTEN :: "ext4_extent \<Rightarrow> bool" where
  "EXT4_EXT_IS_UNWRITTEN ex \<longleftrightarrow> ee_block_count ex > 0x8000"

definition ext4_extent_get_block_count :: "ext4_extent \<Rightarrow> u16" where
  "ext4_extent_get_block_count ex =
     (if EXT4_EXT_IS_UNWRITTEN ex then ee_block_count ex AND NOT 0x8000 else ee_block_count ex)"

definition ext4_extent_set_block_count :: "ext4_extent \<Rightarrow> u16 \<Rightarrow> bool \<Rightarrow> ext4_extent" where
  "ext4_extent_set_block_count ex count unwritten =
     (let ex = ex\<lparr>ee_block_count := count\<rparr>
      in if unwritten then ex\<lparr>ee_block_count := ee_block_count ex OR 0x8000\<rparr> else ex)"

definition ext4_extent_get_start :: "ext4_extent \<Rightarrow> u64" where
  "ext4_extent_get_start ex = push_bit 32 (ucast (ee_start_hi ex)) OR ucast (ee_start_lo ex)"

definition ext4_extent_set_start :: "ext4_extent \<Rightarrow> u64 \<Rightarrow> ext4_extent" where
  "ext4_extent_set_start ex fblock =
     ex\<lparr>ee_start_lo := ucast (drop_bit 32 (push_bit 32 fblock)),
        ee_start_hi := ucast (drop_bit 32 fblock)\<rparr>"

definition ext4_extent_index_get_leaf :: "ext4_extent_index \<Rightarrow> u64" where
  "ext4_extent_index_get_leaf x = push_bit 32 (ucast (ei_leaf_hi x)) OR ucast (ei_leaf_lo x)"

definition ext4_extent_index_set_leaf :: "ext4_extent_index \<Rightarrow> u64 \<Rightarrow> ext4_extent_index" where
  "ext4_extent_index_set_leaf x fblock =
     x\<lparr>ei_leaf_lo := ucast (drop_bit 32 (push_bit 32 fblock)),
       ei_leaf_hi := ucast (drop_bit 32 fblock)\<rparr>"

definition ext4_ext_get_actual_len :: "ext4_extent \<Rightarrow> u16" where
  "ext4_ext_get_actual_len ext =
     (if ee_block_count ext \<le> EXT_INIT_MAX_LEN then ee_block_count ext
      else ee_block_count ext - EXT_INIT_MAX_LEN)"

definition ext4_ext_mark_initialized :: "ext4_extent \<Rightarrow> ext4_extent" where
  "ext4_ext_mark_initialized ext = ext\<lparr>ee_block_count := ext4_ext_get_actual_len ext\<rparr>"

definition ext4_ext_mark_unwritten :: "ext4_extent \<Rightarrow> ext4_extent" where
  "ext4_ext_mark_unwritten ext = ext\<lparr>ee_block_count := ee_block_count ext OR EXT_INIT_MAX_LEN\<rparr>"

definition ext4_ext_is_unwritten :: "ext4_extent \<Rightarrow> bool" where
  "ext4_ext_is_unwritten ext \<longleftrightarrow> ee_block_count ext > EXT_INIT_MAX_LEN"

definition ext4_ext_pblock :: "ext4_extent \<Rightarrow> u64" where
  "ext4_ext_pblock ex = ucast (ee_start_lo ex) OR push_bit 1 (push_bit 31 (ucast (ee_start_hi ex)))"

definition ext4_idx_pblock :: "ext4_extent_index \<Rightarrow> u64" where
  "ext4_idx_pblock ix = ucast (ei_leaf_lo ix) OR push_bit 1 (push_bit 31 (ucast (ei_leaf_hi ix)))"

definition ext4_ext_store_pblock :: "ext4_extent \<Rightarrow> u64 \<Rightarrow> ext4_extent" where
  "ext4_ext_store_pblock ex pb =
     ex\<lparr>ee_start_lo := ucast (pb AND 0xffffffff), ee_start_hi := ucast (drop_bit 32 pb) AND 0xffff\<rparr>"

definition ext4_idx_store_pblock :: "ext4_extent_index \<Rightarrow> u64 \<Rightarrow> ext4_extent_index" where
  "ext4_idx_store_pblock ix pb =
     ix\<lparr>ei_leaf_lo := ucast (pb AND 0xffffffff), ei_leaf_hi := ucast (drop_bit 32 pb) AND 0xffff\<rparr>"

section \<open>Joining extents\<close>

text \<open>
  The lengths are promoted to \<open>int\<close>, so their sum does not wrap; the addition to a block number
  is one of its width.
\<close>

definition lens_too_long :: "ext4_extent \<Rightarrow> ext4_extent \<Rightarrow> bool" where
  "lens_too_long ex1 ex2 \<longleftrightarrow>
     (if ext4_ext_is_unwritten ex1
      then unat (ext4_ext_get_actual_len ex1) + unat (ext4_ext_get_actual_len ex2) > unat EXT_UNWRITTEN_MAX_LEN
      else unat (ext4_ext_get_actual_len ex1) + unat (ext4_ext_get_actual_len ex2) > unat EXT_INIT_MAX_LEN)"

definition ext4_ext_can_prepend :: "ext4_extent \<Rightarrow> ext4_extent \<Rightarrow> bool" where
  "ext4_ext_can_prepend ex1 ex2 =
     (if ext4_ext_pblock ex2 + ucast (ext4_ext_get_actual_len ex2) \<noteq> ext4_ext_pblock ex1 then False
      else if lens_too_long ex1 ex2 then False
      else if ee_first_block ex2 + ucast (ext4_ext_get_actual_len ex2) \<noteq> ee_first_block ex1 then False
      else True)"

definition ext4_ext_can_append :: "ext4_extent \<Rightarrow> ext4_extent \<Rightarrow> bool" where
  "ext4_ext_can_append ex1 ex2 =
     (if ext4_ext_pblock ex1 + ucast (ext4_ext_get_actual_len ex1) \<noteq> ext4_ext_pblock ex2 then False
      else if lens_too_long ex1 ex2 then False
      else if ee_first_block ex1 + ucast (ext4_ext_get_actual_len ex1) \<noteq> ee_first_block ex2 then False
      else True)"

text \<open>The extent that absorbs another one, in the two branches of \<open>ext4_ext_insert_leaf\<close>.\<close>

definition ext_appended :: "ext4_extent \<Rightarrow> ext4_extent \<Rightarrow> ext4_extent" where
  "ext_appended ex newext =
     (let unwritten = ext4_ext_is_unwritten ex;
          ex = ex\<lparr>ee_block_count := ext4_ext_get_actual_len ex + ext4_ext_get_actual_len newext\<rparr>
      in if unwritten then ext4_ext_mark_unwritten ex else ex)"

definition ext_prepended :: "ext4_extent \<Rightarrow> ext4_extent \<Rightarrow> ext4_extent" where
  "ext_prepended ex newext =
     (let unwritten = ext4_ext_is_unwritten ex;
          ex = ex\<lparr>ee_first_block := ee_first_block newext\<rparr>;
          ex = ex\<lparr>ee_block_count := ext4_ext_get_actual_len ex + ext4_ext_get_actual_len newext\<rparr>
      in if unwritten then ext4_ext_mark_unwritten ex else ex)"

section \<open>Binary search\<close>

text \<open>
  The loop of both searches, over the first blocks \<open>key\<close> of the entries; \<open>l\<close> and \<open>r\<close> are
  pointers, so \<open>r\<close> may be one before the first entry.
\<close>

function binsearch_loop :: "(nat \<Rightarrow> u32) \<Rightarrow> u32 \<Rightarrow> int \<Rightarrow> int \<Rightarrow> int" where
  "binsearch_loop key block l r =
     (if l \<le> r
      then let m = l + (r - l) div 2
           in if block < key (nat m) then binsearch_loop key block l (m - 1)
              else binsearch_loop key block (m + 1) r
      else l)"
  by pat_completeness auto
termination
  by (relation "measure (\<lambda>(key, block, l, r). nat (r + 1 - l))") auto

declare binsearch_loop.simps [simp del]

definition ext4_ext_binsearch_idx :: "bytes \<Rightarrow> u32 \<Rightarrow> nat" where
  "ext4_ext_binsearch_idx eh block =
     nat (binsearch_loop (\<lambda>i. ei_first_block (idx_at eh i)) block 1 (int (node_count eh) - 1) - 1)"

definition ext4_ext_binsearch :: "bytes \<Rightarrow> u32 \<Rightarrow> nat option" where
  "ext4_ext_binsearch eh block =
     (if node_count eh = 0 then None
      else Some (nat (binsearch_loop (\<lambda>i. ee_first_block (ext_at eh i)) block 1 (int (node_count eh) - 1) - 1)))"

end
