(* ===== verification/Extent.thy ===== *)
theory Extent
  imports Balloc Extent_Node
begin

text \<open>
  The operations of the extent tree, \<open>src/ext4_extent.c\<close>. A header pointer is a block and a
  byte offset in it (the root lies in the inode, at offset 40), a path is the array of
  \<open>struct ext4_extent_path\<close>. \<open>None\<close> is a failed assertion, a null or dangling pointer that is
  used, or a loop that does not stop.
\<close>

section \<open>Memory\<close>

text \<open>
  \<open>malloc\<close> and \<open>calloc\<close>, which may fail: the answer of the heap to its next request.
\<close>

definition fs_can_malloc :: "'d ext4_fs \<Rightarrow> bool" where
  "fs_can_malloc fs = (let bc = bdev_bc (fs_bdev fs) in heap_ok bc (heap_next bc))"

definition fs_asked :: "'d ext4_fs \<Rightarrow> 'd ext4_fs" where
  "fs_asked fs = fs\<lparr>fs_bdev := upd_bc (\<lambda>bc. bc\<lparr>heap_next := heap_next bc + 1\<rparr>) (fs_bdev fs)\<rparr>"

definition fs_malloc :: "'d ext4_fs \<Rightarrow> bool \<times> 'd ext4_fs" where
  "fs_malloc fs = (fs_can_malloc fs, fs_asked fs)"

section \<open>Paths and nodes\<close>

record ext_node =
  en_block :: ext4_block
  en_off :: nat

record ext4_extent_path =
  p_block :: u64
  p_blk :: ext4_block
  p_depth :: nat
  p_maxdepth :: nat
  p_header :: "ext_node option"
  p_index :: "nat option"
  p_extent :: "nat option"

type_synonym ext_path = "ext4_extent_path list"

definition path_zero :: ext4_extent_path where
  "path_zero = \<lparr>p_block = 0, p_blk = EXT4_BLOCK_ZERO, p_depth = 0, p_maxdepth = 0,
     p_header = None, p_index = None, p_extent = None\<rparr>"

definition node_bytes :: "'d ext4_fs \<Rightarrow> ext_node \<Rightarrow> bytes" where
  "node_bytes fs nd = drop (en_off nd) (fs_data fs (en_block nd))"

definition node_upd :: "(bytes \<Rightarrow> bytes) \<Rightarrow> 'd ext4_fs \<Rightarrow> ext_node \<Rightarrow> 'd ext4_fs" where
  "node_upd f fs nd =
     fs_store fs (en_block nd) (take (en_off nd) (fs_data fs (en_block nd)) @ f (node_bytes fs nd))"

definition ext_inode_hdr :: "ext4_inode_ref \<Rightarrow> ext_node" where
  "ext_inode_hdr ir = \<lparr>en_block = ir_block ir, en_off = ir_offset ir + 40\<rparr>"

definition ext_block_hdr :: "ext4_block \<Rightarrow> ext_node" where
  "ext_block_hdr b = \<lparr>en_block = b, en_off = 0\<rparr>"

definition ext_depth :: "'d ext4_fs \<Rightarrow> ext4_inode_ref \<Rightarrow> u16" where
  "ext_depth fs ir = eh_depth (ext4_extent_header_of (node_bytes fs (ext_inode_hdr ir)))"

definition path_upd :: "nat \<Rightarrow> (ext4_extent_path \<Rightarrow> ext4_extent_path) \<Rightarrow> ext_path \<Rightarrow> ext_path" where
  "path_upd i f path = path[i := f (path ! i)]"

text \<open>The block operations with the caller's descriptor passed in and out.\<close>

definition fs_block_get_into ::
    "'d ext4_fs \<Rightarrow> ext4_block \<Rightarrow> u64 \<Rightarrow> (errno \<times> 'd ext4_fs \<times> ext4_block) option" where
  "fs_block_get_into fs b lba = do {
     (r, bdev, b) \<leftarrow> ext4_trans_block_get (fs_bdev fs) b lba;
     Some (r, fs\<lparr>fs_bdev := bdev\<rparr>, b)
   }"

definition fs_block_put :: "'d ext4_fs \<Rightarrow> ext4_block \<Rightarrow> (errno \<times> 'd ext4_fs \<times> ext4_block) option" where
  "fs_block_put fs b = do {
     (r, bdev, b) \<leftarrow> ext4_block_set (fs_bdev fs) b;
     Some (r, fs\<lparr>fs_bdev := bdev\<rparr>, b)
   }"

section \<open>Sizes, goals and checksums\<close>

definition ext4_extent_tree_init :: "'d ext4_fs \<Rightarrow> ext4_inode_ref \<Rightarrow> 'd ext4_fs \<times> ext4_inode_ref" where
  "ext4_extent_tree_init fs ir =
     (node_upd (hdr_upd (\<lambda>h. \<lparr>eh_magic = EXT4_EXTENT_MAGIC, eh_entries_count = 0,
                               eh_max_entries_count = (15 * 4 - 12) div 12, eh_depth = 0, eh_generation = 0\<rparr>))
        fs (ext_inode_hdr ir), ir\<lparr>ir_dirty := True\<rparr>)"

definition ext4_ext_space_block :: "ext4_sblock \<Rightarrow> u16" where
  "ext4_ext_space_block sb = ucast ((ext4_sb_get_block_size sb - 12) div 12)"

definition ext4_ext_space_block_idx :: "ext4_sblock \<Rightarrow> u16" where
  "ext4_ext_space_block_idx sb = ucast ((ext4_sb_get_block_size sb - 12) div 12)"

definition ext4_ext_space_root :: u16 where
  "ext4_ext_space_root = (let size = 60; size = size - 12 in size div 12)"

definition ext4_ext_space_root_idx :: u16 where
  "ext4_ext_space_root_idx = (let size = 60; size = size - 12 in size div 12)"

definition ext4_ext_max_entries :: "'d ext4_fs \<Rightarrow> ext4_inode_ref \<Rightarrow> nat \<Rightarrow> u16" where
  "ext4_ext_max_entries fs ir depth =
     (if depth = unat (ext_depth fs ir)
      then if depth = 0 then ext4_ext_space_root else ext4_ext_space_root_idx
      else if depth = 0 then ext4_ext_space_block (fs_sb fs) else ext4_ext_space_block_idx (fs_sb fs))"

text \<open>\<open>ext4_ext_find_goal\<close>, for a path that is not null.\<close>

definition ext4_ext_find_goal ::
    "'d ext4_fs \<Rightarrow> ext4_inode_ref \<Rightarrow> ext_path \<Rightarrow> u32 \<Rightarrow> u64 option" where
  "ext4_ext_find_goal fs ir path block =
     (let depth = p_depth (path ! 0)
      in case p_extent (path ! depth) of
           Some ex \<Rightarrow> do {
             nd \<leftarrow> p_header (path ! depth);
             let e = ext_at (node_bytes fs nd) ex;
             let ext_pblk = ext4_ext_pblock e;
             let ext_block = ee_first_block e;
             Some (if block > ext_block then ext_pblk + ucast (block - ext_block)
                   else ext_pblk - ucast (ext_block - block))
           }
         | None \<Rightarrow>
             if blk_lb_id (p_blk (path ! depth)) \<noteq> 0 then Some (blk_lb_id (p_blk (path ! depth)))
             else Some (ext4_fs_inode_to_goal_block fs ir))"

text \<open>The allocated block, 0 when none was stored.\<close>

definition ext4_new_meta_blocks ::
    "'d ext4_fs \<Rightarrow> ext4_inode_ref \<Rightarrow> u64 \<Rightarrow> (errno \<times> 'd ext4_fs \<times> ext4_inode_ref \<times> u64) option" where
  "ext4_new_meta_blocks fs ir goal = do {
     (err, fs, ir, blk) \<leftarrow> ext4_balloc_alloc_block fs ir goal;
     Some (err, fs, ir, case blk of None \<Rightarrow> 0 | Some block \<Rightarrow> block)
   }"

definition ext4_ext_new_meta_block ::
    "'d ext4_fs \<Rightarrow> ext4_inode_ref \<Rightarrow> ext_path \<Rightarrow> ext4_extent \<Rightarrow>
     (errno \<times> 'd ext4_fs \<times> ext4_inode_ref \<times> u64) option" where
  "ext4_ext_new_meta_block fs ir path ex = do {
     goal \<leftarrow> ext4_ext_find_goal fs ir path (ee_first_block ex);
     ext4_new_meta_blocks fs ir goal
   }"

definition ext4_ext_free_blocks ::
    "'d ext4_fs \<Rightarrow> ext4_inode_ref \<Rightarrow> u64 \<Rightarrow> u32 \<Rightarrow> ('d ext4_fs \<times> ext4_inode_ref) option" where
  "ext4_ext_free_blocks fs ir block count = do {
     (_, fs, ir) \<leftarrow> ext4_balloc_free_blocks fs ir block count;
     Some (fs, ir)
   }"

definition ext4_ext_block_csum :: "'d ext4_fs \<Rightarrow> ext4_inode_ref \<Rightarrow> bytes \<Rightarrow> u32" where
  "ext4_ext_block_csum fs ir eh =
     (if ext4_sb_feature_ro_com (fs_sb fs) EXT4_FRO_COM_METADATA_CSUM
      then (let checksum = ext4_crc32c EXT4_CRC32_INIT (sb_uuid (fs_sb fs));
                checksum = ext4_crc32c checksum (le_bytes 4 (ir_index ir));
                checksum = ext4_crc32c checksum (le_bytes 4 (ext4_inode_get_generation (ino_get fs ir)))
            in ext4_crc32c checksum (take (EXT4_EXTENT_TAIL_OFFSET eh) eh))
      else 0)"

definition ext4_extent_block_csum_set :: "'d ext4_fs \<Rightarrow> ext4_inode_ref \<Rightarrow> ext_node \<Rightarrow> 'd ext4_fs" where
  "ext4_extent_block_csum_set fs ir nd =
     node_upd (\<lambda>eh. put_bytes (EXT4_EXTENT_TAIL_OFFSET eh) (le_bytes 4 (ext4_ext_block_csum fs ir eh)) eh) fs nd"

definition ext4_ext_dirty ::
    "'d ext4_fs \<Rightarrow> ext4_inode_ref \<Rightarrow> ext4_extent_path \<Rightarrow> ('d ext4_fs \<times> ext4_inode_ref) option" where
  "ext4_ext_dirty fs ir p =
     (if blk_lb_id (p_blk p) \<noteq> 0
      then (case blk_buf (p_blk p) of None \<Rightarrow> None | Some _ \<Rightarrow> Some (fs_dirty fs (p_blk p), ir))
      else Some (fs, ir\<lparr>ir_dirty := True\<rparr>))"

text \<open>
  \<open>ext4_ext_drop_refs\<close> for the \<open>n\<close> elements of the path from \<open>at\<close> on: with \<open>keep_other\<close> that is
  one, otherwise one more than the depth of the first of them.
\<close>

fun drop_refs_from ::
    "'d ext4_fs \<Rightarrow> ext4_inode_ref \<Rightarrow> ext_path \<Rightarrow> nat \<Rightarrow> nat \<Rightarrow> ('d ext4_fs \<times> ext_path) option" where
  "drop_refs_from fs ir path at 0 = Some (fs, path)"
| "drop_refs_from fs ir path at (Suc n) =
     (if blk_lb_id (p_blk (path ! at)) \<noteq> 0
      then do {
        buf \<leftarrow> blk_buf (p_blk (path ! at));
        nd \<leftarrow> p_header (path ! at);
        let fs = (if ext4_bcache_test_flag (buf_at (bdev_bc (fs_bdev fs)) buf) BC_DIRTY
                  then ext4_extent_block_csum_set fs ir nd else fs);
        (_, fs, b) \<leftarrow> fs_block_put fs (p_blk (path ! at));
        drop_refs_from fs ir (path_upd at (\<lambda>p. p\<lparr>p_blk := b\<rparr>) path) (at + 1) n
      }
      else drop_refs_from fs ir path (at + 1) n)"

definition ext4_ext_drop_refs ::
    "'d ext4_fs \<Rightarrow> ext4_inode_ref \<Rightarrow> ext_path \<Rightarrow> nat \<Rightarrow> bool \<Rightarrow> ('d ext4_fs \<times> ext_path) option" where
  "ext4_ext_drop_refs fs ir path at keep_other =
     drop_refs_from fs ir path at (if keep_other then 1 else p_depth (path ! at) + 1)"

section \<open>Searching\<close>

text \<open>A bad checksum of a node is only reported in the debug output.\<close>

definition ext4_ext_check :: "bytes \<Rightarrow> nat \<Rightarrow> errno" where
  "ext4_ext_check eh depth =
     (let h = ext4_extent_header_of eh
      in if eh_magic h \<noteq> EXT4_EXTENT_MAGIC then EIO
         else if unat (eh_depth h) \<noteq> depth mod 65536 then EIO
         else if eh_max_entries_count h = 0 then EIO
         else if eh_entries_count h > eh_max_entries_count h then EIO
         else EOK)"

definition read_extent_tree_block ::
    "'d ext4_fs \<Rightarrow> u64 \<Rightarrow> nat \<Rightarrow> ext4_block \<Rightarrow> (errno \<times> 'd ext4_fs \<times> ext4_block) option" where
  "read_extent_tree_block fs pblk depth bh = do {
     (err, fs, bh) \<leftarrow> fs_block_get_into fs bh pblk;
     let err = (if err \<noteq> EOK then err else ext4_ext_check (node_bytes fs (ext_block_hdr bh)) depth);
     if err \<noteq> EOK
     then if blk_lb_id bh \<noteq> 0
          then do { (_, fs, bh) \<leftarrow> fs_block_put fs bh; Some (err, fs, bh) }
          else Some (err, fs, bh)
     else Some (EOK, fs, bh)
   }"

text \<open>The walk down the tree: \<open>i\<close> levels are left below the node at \<open>ppos\<close>.\<close>

fun find_extent_walk ::
    "nat \<Rightarrow> 'd ext4_fs \<Rightarrow> u32 \<Rightarrow> nat \<Rightarrow> nat \<Rightarrow> ext4_block \<Rightarrow> ext_path \<Rightarrow>
     (errno \<times> 'd ext4_fs \<times> nat \<times> ext_path) option" where
  "find_extent_walk 0 fs block depth ppos bh path = Some (EOK, fs, ppos, path)"
| "find_extent_walk (Suc i) fs block depth ppos bh path = do {
     nd \<leftarrow> p_header (path ! ppos);
     let ix = ext4_ext_binsearch_idx (node_bytes fs nd) block;
     let buf_block = ext4_idx_pblock (idx_at (node_bytes fs nd) ix);
     let path = path_upd ppos (\<lambda>p. p\<lparr>p_index := Some ix, p_block := buf_block, p_depth := Suc i,
                                    p_extent := None\<rparr>) path;
     let ppos = ppos + 1;
     if blk_lb_id (p_blk (path ! ppos)) = 0 \<or> blk_lb_id (p_blk (path ! ppos)) \<noteq> buf_block
     then do {
       (ret, fs, bh) \<leftarrow> read_extent_tree_block fs buf_block i bh;
       if ret \<noteq> EOK then Some (ret, fs, ppos, path)
       else if ppos > depth
       then do { (_, fs, bh) \<leftarrow> fs_block_put fs bh; Some (EIO, fs, ppos, path) }
       else find_extent_walk i fs block depth ppos bh
              (path_upd ppos (\<lambda>p. p\<lparr>p_blk := bh, p_header := Some (ext_block_hdr bh)\<rparr>) path)
     }
     else find_extent_walk i fs block depth ppos bh path
   }"

definition ext4_find_extent ::
    "'d ext4_fs \<Rightarrow> ext4_inode_ref \<Rightarrow> u32 \<Rightarrow> ext_path option \<Rightarrow>
     (errno \<times> 'd ext4_fs \<times> ext_path option) option" where
  "ext4_find_extent fs ir block orig_path = do {
     let eh = ext_inode_hdr ir;
     let depth = unat (ext_depth fs ir);
     (fs, path) \<leftarrow>
       (case orig_path of
          None \<Rightarrow> Some (fs, None)
        | Some path \<Rightarrow> do {
            (fs, path) \<leftarrow> ext4_ext_drop_refs fs ir path 0 False;
            Some (fs, if depth > p_maxdepth (path ! 0) then None else Some path)
          });
     let (ok, fs) = (case path of Some _ \<Rightarrow> (True, fs) | None \<Rightarrow> fs_malloc fs);
     if \<not> ok then Some (ENOMEM, fs, None)
     else do {
       let path = (case path of
                     Some path \<Rightarrow> path
                   | None \<Rightarrow> path_upd 0 (\<lambda>p. p\<lparr>p_maxdepth := depth + 1\<rparr>) (replicate (depth + 2) path_zero));
       let path = path_upd 0 (\<lambda>p. p\<lparr>p_header := Some eh, p_blk := EXT4_BLOCK_ZERO\<rparr>) path;
       (ret, fs, ppos, path) \<leftarrow> find_extent_walk depth fs block depth 0 EXT4_BLOCK_ZERO path;
       if ret \<noteq> EOK
       then do { (fs, path) \<leftarrow> ext4_ext_drop_refs fs ir path 0 False; Some (ret, fs, None) }
       else do {
         nd \<leftarrow> p_header (path ! ppos);
         let leaf = node_bytes fs nd;
         let ex = ext4_ext_binsearch leaf block;
         let path = path_upd ppos (\<lambda>p. p\<lparr>p_depth := 0, p_extent := ex, p_index := None\<rparr>) path;
         let path = (case ex of None \<Rightarrow> path
                     | Some e \<Rightarrow> path_upd ppos (\<lambda>p. p\<lparr>p_block := ext4_ext_pblock (ext_at leaf e)\<rparr>) path);
         Some (EOK, fs, Some path)
       }
     }
   }"

section \<open>Inserting into a node\<close>

definition ext4_ext_init_header :: "'d ext4_fs \<Rightarrow> ext4_inode_ref \<Rightarrow> nat \<Rightarrow> bytes \<Rightarrow> bytes" where
  "ext4_ext_init_header fs ir depth eh =
     hdr_upd (\<lambda>h. h\<lparr>eh_entries_count := 0, eh_max_entries_count := ext4_ext_max_entries fs ir depth,
                    eh_magic := EXT4_EXTENT_MAGIC, eh_depth := of_nat depth\<rparr>) eh"

text \<open>
  Opening a gap at entry \<open>ix\<close> of a node with \<open>n\<close> entries, storing the new entry and counting it.
\<close>

definition idx_insert :: "nat \<Rightarrow> u32 \<Rightarrow> u64 \<Rightarrow> bytes \<Rightarrow> bytes" where
  "idx_insert ix insert_index insert_block eh =
     (let len = node_count eh - ix;
          eh = (if len > 0 then entries_move (ix + 1) ix len eh else eh);
          eh = idx_put ix (ext4_idx_store_pblock ((idx_at eh ix)\<lparr>ei_first_block := insert_index\<rparr>) insert_block) eh
      in hdr_upd (\<lambda>h. h\<lparr>eh_entries_count := eh_entries_count h + 1\<rparr>) eh)"

definition ext4_ext_insert_index ::
    "'d ext4_fs \<Rightarrow> ext4_inode_ref \<Rightarrow> ext_path \<Rightarrow> nat \<Rightarrow> u32 \<Rightarrow> u64 \<Rightarrow> bool \<Rightarrow>
     (errno \<times> 'd ext4_fs \<times> ext4_inode_ref \<times> ext_path) option" where
  "ext4_ext_insert_index fs ir path at insert_index insert_block set_to_ix = do {
     let curp = path ! at;
     nd \<leftarrow> p_header curp;
     let eh = node_bytes fs nd;
     let key = (\<lambda>ix. ei_first_block (idx_at eh ix));
     if (case p_index curp of None \<Rightarrow> False | Some ix \<Rightarrow> insert_index = key ix) then Some (EIO, fs, ir, path)
     else if node_count eh = node_max eh then Some (EIO, fs, ir, path)
     else do {
       let ix = (case p_index curp of None \<Rightarrow> 0
                 | Some i \<Rightarrow> if insert_index > key i then i + 1 else i);
       let path = path_upd at (\<lambda>p. p\<lparr>p_index := (case p_index p of None \<Rightarrow> Some ix | Some i \<Rightarrow> Some i)\<rparr>) path;
       if ix + 1 > node_max eh then Some (EIO, fs, ir, path)
       else if ix > node_count eh then None
       else do {
         let fs = node_upd (idx_insert ix insert_index insert_block) fs nd;
         if ix + 1 > node_count (node_bytes fs nd) then Some (EIO, fs, ir, path)
         else do {
           (fs, ir) \<leftarrow> ext4_ext_dirty fs ir (path ! at);
           let path = (if set_to_ix
                       then path_upd at (\<lambda>p. p\<lparr>p_index := Some ix,
                              p_block := ext4_idx_pblock (idx_at (node_bytes fs nd) ix)\<rparr>) path
                       else path);
           Some (EOK, fs, ir, path)
         }
       }
     }
   }"

text \<open>Correcting the indexes above a leaf whose first extent has changed; \<open>k\<close> counts down.\<close>

fun correct_left ::
    "nat \<Rightarrow> 'd ext4_fs \<Rightarrow> ext4_inode_ref \<Rightarrow> ext_path \<Rightarrow> u32 \<Rightarrow> (errno \<times> 'd ext4_fs \<times> ext4_inode_ref) option" where
  "correct_left 0 fs ir path border = Some (EOK, fs, ir)"
| "correct_left (Suc k) fs ir path border =
     (if p_index (path ! (k + 1)) \<noteq> Some 0 then Some (EOK, fs, ir)
      else do {
        nd \<leftarrow> p_header (path ! k);
        ix \<leftarrow> p_index (path ! k);
        let fs = node_upd (\<lambda>eh. idx_put ix ((idx_at eh ix)\<lparr>ei_first_block := border\<rparr>) eh) fs nd;
        (fs, ir) \<leftarrow> ext4_ext_dirty fs ir (path ! k);
        correct_left k fs ir path border
      })"

definition ext4_ext_correct_indexes ::
    "'d ext4_fs \<Rightarrow> ext4_inode_ref \<Rightarrow> ext_path \<Rightarrow> (errno \<times> 'd ext4_fs \<times> ext4_inode_ref) option" where
  "ext4_ext_correct_indexes fs ir path =
     (let depth = unat (ext_depth fs ir)
      in case (p_extent (path ! depth), p_header (path ! depth)) of
           (Some ex, Some eh) \<Rightarrow>
             if depth = 0 then Some (EOK, fs, ir)
             else if ex \<noteq> 0 then Some (EOK, fs, ir)
             else do {
               let k = depth - 1;
               let border = ee_first_block (ext_at (node_bytes fs eh) ex);
               nd \<leftarrow> p_header (path ! k);
               ix \<leftarrow> p_index (path ! k);
               let fs = node_upd (\<lambda>eh. idx_put ix ((idx_at eh ix)\<lparr>ei_first_block := border\<rparr>) eh) fs nd;
               (fs, ir) \<leftarrow> ext4_ext_dirty fs ir (path ! k);
               correct_left k fs ir path border
             }
         | _ \<Rightarrow> Some (EIO, fs, ir))"

definition ext_insert :: "nat \<Rightarrow> ext4_extent \<Rightarrow> bytes \<Rightarrow> bytes" where
  "ext_insert ex newext eh =
     (let eh = ext_put ex (ext4_ext_store_pblock
                 ((ext_at eh ex)\<lparr>ee_first_block := ee_first_block newext, ee_block_count := ee_block_count newext\<rparr>)
                 (ext4_ext_pblock newext)) eh
      in hdr_upd (\<lambda>h. h\<lparr>eh_entries_count := eh_entries_count h + 1\<rparr>) eh)"

text \<open>The end of \<open>ext4_ext_insert_leaf\<close> on success: the path points to the extent \<open>ex\<close>.\<close>

definition leaf_done ::
    "'d ext4_fs \<Rightarrow> ext_node \<Rightarrow> nat \<Rightarrow> nat \<Rightarrow> ext_path \<Rightarrow> ext_path" where
  "leaf_done fs nd at ex path =
     path_upd at (\<lambda>p. p\<lparr>p_extent := Some ex, p_block := ext4_ext_pblock (ext_at (node_bytes fs nd) ex)\<rparr>) path"

definition ext4_ext_insert_leaf ::
    "'d ext4_fs \<Rightarrow> ext4_inode_ref \<Rightarrow> ext_path \<Rightarrow> nat \<Rightarrow> ext4_extent \<Rightarrow> u32 \<Rightarrow>
     (errno \<times> 'd ext4_fs \<times> ext4_inode_ref \<times> ext_path \<times> bool) option" where
  "ext4_ext_insert_leaf fs ir path at newext flags = do {
     nd \<leftarrow> p_header (path ! at);
     let eh = node_bytes fs nd;
     let cur = map_option (ext_at eh) (p_extent (path ! at));
     let combine = (flags AND EXT4_EXT_NO_COMBINE = 0);
     if (case cur of None \<Rightarrow> False | Some e \<Rightarrow> ee_first_block newext = ee_first_block e)
     then Some (EIO, fs, ir, path, False)
     else if combine \<and> (case cur of None \<Rightarrow> False | Some e \<Rightarrow> ext4_ext_can_append e newext)
     then do {
       ex \<leftarrow> p_extent (path ! at);
       let fs = node_upd (\<lambda>eh. ext_put ex (ext_appended (ext_at eh ex) newext) eh) fs nd;
       (fs, ir) \<leftarrow> ext4_ext_dirty fs ir (path ! at);
       Some (EOK, fs, ir, leaf_done fs nd at ex path, False)
     }
     else if combine \<and> (case cur of None \<Rightarrow> False | Some e \<Rightarrow> ext4_ext_can_prepend e newext)
     then do {
       ex \<leftarrow> p_extent (path ! at);
       let fs = node_upd (\<lambda>eh. ext_put ex (ext_prepended (ext_at eh ex) newext) eh) fs nd;
       (fs, ir) \<leftarrow> ext4_ext_dirty fs ir (path ! at);
       Some (EOK, fs, ir, leaf_done fs nd at ex path, False)
     }
     else if node_count eh = node_max eh then Some (EIO, fs, ir, path, True)
     else do {
       let ex = (case p_extent (path ! at) of None \<Rightarrow> 0
                 | Some i \<Rightarrow> if ee_first_block newext > ee_first_block (ext_at eh i) then i + 1 else i);
       let path = path_upd at (\<lambda>p. p\<lparr>p_extent := (case p_extent p of None \<Rightarrow> Some ex | Some i \<Rightarrow> Some i)\<rparr>) path;
       if ex > node_count eh then None
       else do {
         let len = node_count eh - ex;
         let fs = (if len > 0 then node_upd (entries_move (ex + 1) ex len) fs nd else fs);
         if ex + 1 > node_max eh then Some (EIO, fs, ir, path, False)
         else do {
           let fs = node_upd (ext_insert ex newext) fs nd;
           if ex + 1 > node_count (node_bytes fs nd) then Some (EIO, fs, ir, path, False)
           else do {
             (err, fs, ir) \<leftarrow> ext4_ext_correct_indexes fs ir path;
             if err \<noteq> EOK then Some (err, fs, ir, path, False)
             else do {
               (fs, ir) \<leftarrow> ext4_ext_dirty fs ir (path ! at);
               Some (EOK, fs, ir, leaf_done fs nd at ex path, False)
             }
           }
         }
       }
     }
   }"

end
