(* ===== verification/Extent_Ops.thy ===== *)
theory Extent_Ops
  imports Extent
begin

text \<open>
  The operations of \<open>src/ext4_extent.c\<close> that change the shape of the tree: splitting nodes,
  growing, inserting and removing extents, and mapping a logical block. The conventions are those
  of \<open>Extent\<close>; reading an entry through a path that was freed is \<open>None\<close>.
\<close>

section \<open>Splitting\<close>

text \<open>
  The end of a failed split: the new blocks of levels \<open>k - 1\<close> down to 0 are released and freed.
\<close>

fun split_cleanup ::
    "nat \<Rightarrow> 'd ext4_fs \<Rightarrow> ext4_inode_ref \<Rightarrow> ext_path \<Rightarrow> ('d ext4_fs \<times> ext4_inode_ref \<times> ext_path) option" where
  "split_cleanup 0 fs ir npath = Some (fs, ir, npath)"
| "split_cleanup (Suc k) fs ir npath =
     (if blk_lb_id (p_blk (npath ! k)) \<noteq> 0
      then do {
        let newblock = blk_lb_id (p_blk (npath ! k));
        (_, fs, _) \<leftarrow> fs_block_put fs (p_blk (npath ! k));
        (fs, ir) \<leftarrow> ext4_ext_free_blocks fs ir newblock 1;
        split_cleanup k fs ir (path_upd k (\<lambda>p. p\<lparr>p_blk := EXT4_BLOCK_ZERO\<rparr>) npath)
      }
      else split_cleanup k fs ir npath)"

text \<open>
  Moving the entries after the current one to the new node \<open>neh\<close>, of level \<open>i\<close>: \<open>m\<close> entries to
  its positions from \<open>dst\<close> on.
\<close>

definition split_move ::
    "'d ext4_fs \<Rightarrow> ext4_inode_ref \<Rightarrow> ext4_extent_path \<Rightarrow> ext_node \<Rightarrow> ext_node \<Rightarrow> nat \<Rightarrow> nat \<Rightarrow> nat \<Rightarrow>
     ('d ext4_fs \<times> ext4_inode_ref) option" where
  "split_move fs ir p nd neh src dst m =
     (if m = 0 then Some (fs, ir)
      else do {
        let moved = take (12 * m) (drop (12 + 12 * src) (node_bytes fs nd));
        let fs = node_upd (\<lambda>bs. hdr_upd (\<lambda>h. h\<lparr>eh_entries_count := eh_entries_count h + of_nat m\<rparr>)
                                  (put_bytes (12 + 12 * dst) moved bs)) fs neh;
        let fs = node_upd (hdr_upd (\<lambda>h. h\<lparr>eh_entries_count := eh_entries_count h - of_nat m\<rparr>)) fs nd;
        ext4_ext_dirty fs ir p
      })"

definition split_leaf ::
    "'d ext4_fs \<Rightarrow> ext4_inode_ref \<Rightarrow> ext_path \<Rightarrow> nat \<Rightarrow> ext_path \<Rightarrow> nat \<Rightarrow> ext4_block \<Rightarrow>
     ('d ext4_fs \<times> ext4_inode_ref \<times> ext_path) option" where
  "split_leaf fs ir path i npath npath_at bh = do {
     nd \<leftarrow> p_header (path ! i);
     ex \<leftarrow> p_extent (path ! i);
     let neh = ext_block_hdr bh;
     let fs = node_upd (ext4_ext_init_header fs ir 0) fs neh;
     if ex + 1 > node_max (node_bytes fs nd) then None
     else do {
       let m = node_max (node_bytes fs nd) - 1 - ex;
       (fs, ir) \<leftarrow> split_move fs ir (path ! i) nd neh (ex + 1) 0 m;
       let np = (npath ! npath_at)\<lparr>
                  p_block := (if m \<noteq> 0 then ext4_ext_pblock (ext_at (node_bytes fs neh) 0) else 0),
                  p_extent := (if m \<noteq> 0 then Some 0 else None),
                  p_depth := unat (eh_depth (ext4_extent_header_of (node_bytes fs neh))),
                  p_maxdepth := 0, p_index := None, p_header := Some neh, p_blk := bh\<rparr>;
       Some (fs_dirty fs bh, ir, npath[npath_at := np])
     }
   }"

definition split_index ::
    "'d ext4_fs \<Rightarrow> ext4_inode_ref \<Rightarrow> ext_path \<Rightarrow> nat \<Rightarrow> nat \<Rightarrow> u32 \<Rightarrow> ext_path \<Rightarrow> nat \<Rightarrow> ext4_block \<Rightarrow>
     ('d ext4_fs \<times> ext4_inode_ref \<times> ext_path) option" where
  "split_index fs ir path depth i insert_index npath npath_at bh = do {
     nd \<leftarrow> p_header (path ! i);
     ix \<leftarrow> p_index (path ! i);
     let neh = ext_block_hdr bh;
     let below = blk_lb_id (p_blk (npath ! (npath_at + 1)));
     let fs = node_upd (\<lambda>bs.
                (let bs = ext4_ext_init_header fs ir (depth - i) bs;
                     bs = idx_put 0 (ext4_idx_store_pblock ((idx_at bs 0)\<lparr>ei_first_block := insert_index\<rparr>) below) bs
                 in hdr_upd (\<lambda>h. h\<lparr>eh_entries_count := 1\<rparr>) bs)) fs neh;
     if ix + 1 > node_max (node_bytes fs nd) then None
     else do {
       let m = node_max (node_bytes fs nd) - 1 - ix;
       (fs, ir) \<leftarrow> split_move fs ir (path ! i) nd neh (ix + 1) 1 m;
       let np = (npath ! npath_at)\<lparr>
                  p_block := ext4_idx_pblock (idx_at (node_bytes fs neh) 0),
                  p_depth := unat (eh_depth (ext4_extent_header_of (node_bytes fs neh))),
                  p_maxdepth := 0, p_extent := None, p_index := Some 0, p_header := Some neh, p_blk := bh\<rparr>;
       Some (fs_dirty fs bh, ir, npath[npath_at := np])
     }
   }"

text \<open>
  The loop from the leaf up to level \<open>at\<close>, with \<open>k\<close> levels left. The second result is the block
  that an error leaves allocated without a path element.
\<close>

fun split_levels ::
    "nat \<Rightarrow> 'd ext4_fs \<Rightarrow> ext4_inode_ref \<Rightarrow> ext_path \<Rightarrow> nat \<Rightarrow> nat \<Rightarrow> ext4_extent \<Rightarrow> u32 \<Rightarrow> ext_path \<Rightarrow>
     (errno \<times> u64 \<times> 'd ext4_fs \<times> ext4_inode_ref \<times> ext_path) option" where
  "split_levels 0 fs ir path depth at newext insert_index npath = Some (EOK, 0, fs, ir, npath)"
| "split_levels (Suc k) fs ir path depth at newext insert_index npath = do {
     let i = at + k;
     (ret, fs, ir, newblock) \<leftarrow> ext4_ext_new_meta_block fs ir path newext;
     if ret \<noteq> EOK then Some (ret, newblock, fs, ir, npath)
     else do {
       (ret, fs, bh) \<leftarrow> fs_block_get_noread fs newblock;
       if ret \<noteq> EOK then Some (ret, newblock, fs, ir, npath)
       else do {
         (fs, ir, npath) \<leftarrow>
           (if i = depth then split_leaf fs ir path i npath k bh
            else split_index fs ir path depth i insert_index npath k bh);
         split_levels k fs ir path depth at newext insert_index npath
       }
     }
   }"

definition ext4_ext_split_node ::
    "'d ext4_fs \<Rightarrow> ext4_inode_ref \<Rightarrow> ext_path \<Rightarrow> nat \<Rightarrow> ext4_extent \<Rightarrow> ext_path \<Rightarrow>
     (errno \<times> 'd ext4_fs \<times> ext4_inode_ref \<times> ext_path \<times> ext_path \<times> bool) option" where
  "ext4_ext_split_node fs ir path at newext npath = do {
     let depth = unat (ext_depth fs ir);
     if \<not> at > 0 then None
     else do {
       nd \<leftarrow> p_header (path ! depth);
       ex \<leftarrow> p_extent (path ! depth);
       let insert_index = (if ex + 1 \<noteq> node_max (node_bytes fs nd)
                           then ee_first_block (ext_at (node_bytes fs nd) (ex + 1)) else ee_first_block newext);
       (ret, newblock, fs, ir, npath) \<leftarrow> split_levels (depth + 1 - at) fs ir path depth at newext insert_index npath;
       let ins_right_leaf = \<not> ee_first_block newext < insert_index;
       (ret, fs, ir, path) \<leftarrow>
         (if ret \<noteq> EOK then Some (ret, fs, ir, path)
          else ext4_ext_insert_index fs ir path (at - 1) insert_index (blk_lb_id (p_blk (npath ! 0))) ins_right_leaf);
       if ret \<noteq> EOK
       then do {
         (fs, ir) \<leftarrow> (if newblock \<noteq> 0 then ext4_ext_free_blocks fs ir newblock 1 else Some (fs, ir));
         (fs, ir, npath) \<leftarrow> split_cleanup (depth + 1 - at) fs ir npath;
         Some (ret, fs, ir, path, npath, ins_right_leaf)
       }
       else Some (ret, fs, ir, path, npath, ins_right_leaf)
     }
   }"

section \<open>Growing\<close>

definition ext4_ext_grow_indepth ::
    "'d ext4_fs \<Rightarrow> ext4_inode_ref \<Rightarrow> (errno \<times> 'd ext4_fs \<times> ext4_inode_ref) option" where
  "ext4_ext_grow_indepth fs ir = do {
     let root = ext_inode_hdr ir;
     let goal = (if ext_depth fs ir \<noteq> 0 then ext4_idx_pblock (idx_at (node_bytes fs root) 0)
                 else ext4_fs_inode_to_goal_block fs ir);
     (err, fs, ir, newblock) \<leftarrow> ext4_new_meta_blocks fs ir goal;
     if newblock = 0 then Some (err, fs, ir)
     else do {
       (err, fs, bh) \<leftarrow> fs_block_get_noread fs newblock;
       if err \<noteq> EOK
       then do { (fs, ir) \<leftarrow> ext4_ext_free_blocks fs ir newblock 1; Some (err, fs, ir) }
       else do {
         let neh = ext_block_hdr bh;
         let fs = node_upd (put_bytes 0 (take 60 (node_bytes fs root))) fs neh;
         let space = (if ext_depth fs ir \<noteq> 0 then ext4_ext_space_block_idx (fs_sb fs)
                      else ext4_ext_space_block (fs_sb fs));
         let fs = node_upd (hdr_upd (\<lambda>h. h\<lparr>eh_max_entries_count := space, eh_magic := EXT4_EXTENT_MAGIC\<rparr>)) fs neh;
         let fs = ext4_extent_block_csum_set fs ir neh;
         let fs = node_upd (\<lambda>bs.
                    (let bs = hdr_upd (\<lambda>h. h\<lparr>eh_entries_count := 1\<rparr>) bs;
                         bs = idx_put 0 (ext4_idx_store_pblock (idx_at bs 0) newblock) bs;
                         bs = (if eh_depth (ext4_extent_header_of bs) = 0
                               then (let bs = hdr_upd (\<lambda>h. h\<lparr>eh_max_entries_count := ext4_ext_space_root_idx\<rparr>) bs
                                     in idx_put 0 ((idx_at bs 0)\<lparr>ei_first_block := ee_first_block (ext_at bs 0)\<rparr>) bs)
                               else bs)
                     in hdr_upd (\<lambda>h. h\<lparr>eh_depth := eh_depth h + 1\<rparr>) bs)) fs root;
         let fs = fs_dirty fs bh;
         (_, fs) \<leftarrow> fs_block_set fs bh;
         Some (err, fs, ir\<lparr>ir_dirty := True\<rparr>)
       }
     }
   }"

section \<open>Inserting an extent\<close>

definition EXT_HAS_FREE_INDEX :: "'d ext4_fs \<Rightarrow> ext4_extent_path \<Rightarrow> bool option" where
  "EXT_HAS_FREE_INDEX fs p = do {
     nd \<leftarrow> p_header p;
     Some (node_count (node_bytes fs nd) < node_max (node_bytes fs nd))
   }"

text \<open>The lowest level with a free entry: \<open>Some None\<close> when every node of the path is full.\<close>

fun free_level :: "'d ext4_fs \<Rightarrow> ext_path \<Rightarrow> nat \<Rightarrow> nat option option" where
  "free_level fs path 0 = Some None"
| "free_level fs path (Suc i) = do {
     free \<leftarrow> EXT_HAS_FREE_INDEX fs (path ! i);
     if free then Some (Some i) else free_level fs path i
   }"

text \<open>The new nodes of the levels below \<open>level\<close> replace those of the path, or are given back.\<close>

fun install_path ::
    "nat \<Rightarrow> 'd ext4_fs \<Rightarrow> ext4_inode_ref \<Rightarrow> ext_path \<Rightarrow> ext_path \<Rightarrow> nat \<Rightarrow> bool \<Rightarrow>
     ('d ext4_fs \<times> ext_path \<times> ext_path) option" where
  "install_path 0 fs ir path npath i right = Some (fs, path, npath)"
| "install_path (Suc level) fs ir path npath i right =
     (if right
      then do {
        (fs, path) \<leftarrow> ext4_ext_drop_refs fs ir path (i + level) True;
        install_path level fs ir (path[i + level := npath ! level]) (npath[level := path_zero]) i right
      }
      else if blk_lb_id (p_blk (npath ! level)) \<noteq> 0
      then do {
        (fs, npath) \<leftarrow> ext4_ext_drop_refs fs ir npath level True;
        install_path level fs ir path npath i right
      }
      else install_path level fs ir path npath i right)"

text \<open>
  What one turn of the code's \<open>again\<close> loop does: finish with a code, or go round again. A failed
  search after growing frees the path that the exit then uses. The new elements left in \<open>npath\<close>
  hold no block when the loop is left, so the exit has nothing to do for them.
\<close>

definition insert_extent_turn ::
    "'d ext4_fs \<Rightarrow> ext4_inode_ref \<Rightarrow> ext_path \<Rightarrow> ext4_extent \<Rightarrow> u32 \<Rightarrow>
     (bool \<times> errno \<times> 'd ext4_fs \<times> ext4_inode_ref \<times> ext_path) option" where
  "insert_extent_turn fs ir path newext flags = do {
     let depth = unat (ext_depth fs ir);
     (ret, fs, ir, path, need_split) \<leftarrow> ext4_ext_insert_leaf fs ir path depth newext flags;
     if \<not> (ret = EIO \<and> need_split) then Some (False, ret, fs, ir, path)
     else do {
       found \<leftarrow> free_level fs path (depth + 1);
       (ret, fs, ir, path, depth, level) \<leftarrow>
         (case found of
            Some i \<Rightarrow> Some (EOK, fs, ir, path, depth, depth - i)
          | None \<Rightarrow> do {
              (ret, fs, ir) \<leftarrow> ext4_ext_grow_indepth fs ir;
              if ret \<noteq> EOK then Some (ret, fs, ir, path, depth, 0)
              else do {
                (ret, fs, found) \<leftarrow> ext4_find_extent fs ir (ee_first_block newext) (Some path);
                path \<leftarrow> found;
                Some (ret, fs, ir, path, depth + 1, depth)
              }
            });
       if ret \<noteq> EOK then Some (False, ret, fs, ir, path)
       else if level = 0 then Some (True, EOK, fs, ir, path)
       else do {
         let i = depth + 1 - level;
         let (ok, fs) = fs_malloc fs;
         if \<not> ok then Some (False, ENOMEM, fs, ir, path)
         else do {
           (ret, fs, ir, path, npath, right) \<leftarrow>
             ext4_ext_split_node fs ir path i newext (replicate level path_zero);
           if ret \<noteq> EOK then Some (False, ret, fs, ir, path)
           else do {
             (fs, path, npath) \<leftarrow> install_path level fs ir path npath i right;
             Some (True, EOK, fs, ir, path)
           }
         }
       }
     }
   }"

partial_function (option) insert_extent_loop ::
    "'d ext4_fs \<Rightarrow> ext4_inode_ref \<Rightarrow> ext_path \<Rightarrow> ext4_extent \<Rightarrow> u32 \<Rightarrow>
     (errno \<times> 'd ext4_fs \<times> ext4_inode_ref \<times> ext_path) option" where
  "insert_extent_loop fs ir path newext flags =
     Option.bind (insert_extent_turn fs ir path newext flags)
       (\<lambda>(again, ret, fs, ir, path).
          if again then insert_extent_loop fs ir path newext flags else Some (ret, fs, ir, path))"

definition ext4_ext_insert_extent ::
    "'d ext4_fs \<Rightarrow> ext4_inode_ref \<Rightarrow> ext_path \<Rightarrow> ext4_extent \<Rightarrow> u32 \<Rightarrow>
     (errno \<times> 'd ext4_fs \<times> ext4_inode_ref \<times> ext_path) option" where
  "ext4_ext_insert_extent fs ir path newext flags = do {
     (ret, fs, ir, path) \<leftarrow> insert_extent_loop fs ir path newext flags;
     if ret \<noteq> EOK
     then do { (fs, path) \<leftarrow> ext4_ext_drop_refs fs ir path 0 False; Some (ret, fs, ir, path) }
     else Some (ret, fs, ir, path)
   }"

section \<open>Removing\<close>

definition ext4_ext_remove_blocks ::
    "'d ext4_fs \<Rightarrow> ext4_inode_ref \<Rightarrow> ext4_extent \<Rightarrow> u32 \<Rightarrow> u32 \<Rightarrow> ('d ext4_fs \<times> ext4_inode_ref) option" where
  "ext4_ext_remove_blocks fs ir ex from to =
     (let len = to - from + 1;
          num = from - ee_first_block ex;
          start = ext4_ext_pblock ex + ucast num
      in ext4_ext_free_blocks fs ir start len)"

text \<open>The correction of the indexes above a removed one, going up from level \<open>i\<close>.\<close>

fun remove_idx_up ::
    "nat \<Rightarrow> 'd ext4_fs \<Rightarrow> ext4_inode_ref \<Rightarrow> ext_path \<Rightarrow> (errno \<times> 'd ext4_fs \<times> ext4_inode_ref) option" where
  "remove_idx_up 0 fs ir path = Some (EOK, fs, ir)"
| "remove_idx_up (Suc i) fs ir path =
     (if p_index (path ! Suc i) \<noteq> Some 0 then Some (EOK, fs, ir)
      else do {
        nd \<leftarrow> p_header (path ! Suc i);
        up \<leftarrow> p_header (path ! i);
        ix \<leftarrow> p_index (path ! i);
        let first = ei_first_block (idx_at (node_bytes fs nd) 0);
        let fs = node_upd (\<lambda>eh. idx_put ix ((idx_at eh ix)\<lparr>ei_first_block := first\<rparr>) eh) fs up;
        (fs, ir) \<leftarrow> ext4_ext_dirty fs ir (path ! i);
        remove_idx_up i fs ir path
      })"

definition ext4_ext_remove_idx ::
    "'d ext4_fs \<Rightarrow> ext4_inode_ref \<Rightarrow> ext_path \<Rightarrow> nat \<Rightarrow> (errno \<times> 'd ext4_fs \<times> ext4_inode_ref) option" where
  "ext4_ext_remove_idx fs ir path i = do {
     nd \<leftarrow> p_header (path ! i);
     ix \<leftarrow> p_index (path ! i);
     let leaf = ext4_idx_pblock (idx_at (node_bytes fs nd) ix);
     if ix + 1 > node_count (node_bytes fs nd) then None
     else do {
       let fs = node_upd (\<lambda>eh.
                  (let n = node_count eh;
                       eh = (if ix + 1 \<noteq> n then entries_move ix (ix + 1) (n - 1 - ix) eh else eh)
                   in hdr_upd (\<lambda>h. h\<lparr>eh_entries_count := eh_entries_count h - 1\<rparr>) eh)) fs nd;
       (fs, ir) \<leftarrow> ext4_ext_dirty fs ir (path ! i);
       (fs, ir) \<leftarrow> ext4_ext_free_blocks fs ir leaf 1;
       remove_idx_up i fs ir path
     }
   }"

text \<open>
  The loop of \<open>ext4_ext_remove_leaf\<close>: \<open>todo\<close> extents are left from \<open>ex\<close> on. It returns where the
  loop stopped, the first extent that is removed, the extent whose end stays, and the count.
\<close>

fun remove_leaf_loop ::
    "nat \<Rightarrow> 'd ext4_fs \<Rightarrow> ext4_inode_ref \<Rightarrow> ext_node \<Rightarrow> nat \<Rightarrow> u32 \<Rightarrow> u32 \<Rightarrow> nat \<Rightarrow> nat option \<Rightarrow> u16 \<Rightarrow>
     ('d ext4_fs \<times> ext4_inode_ref \<times> nat \<times> nat \<times> nat option \<times> u16) option" where
  "remove_leaf_loop 0 fs ir nd ex from to start_ex ex2 new_entries = Some (fs, ir, ex, start_ex, ex2, new_entries)"
| "remove_leaf_loop (Suc todo) fs ir nd ex from to start_ex ex2 new_entries =
     (let e = ext_at (node_bytes fs nd) ex; start = ee_first_block e
      in if \<not> start \<le> to then Some (fs, ir, ex, start_ex, ex2, new_entries)
         else do {
           let len = (ucast (ext4_ext_get_actual_len e) :: u32);
           let head = (start < from);
           let tail = (\<not> head \<and> start + len - 1 > to);
           let new_len = (if head then from - start else if tail then start + len - 1 - to else 0);
           let len' = (if head then len - (from - start) else if tail then len - new_len else len);
           let new_start = (if tail then to + 1 else start);
           let newblock = (if tail then ext4_ext_pblock e + ucast (to + 1 - start) else ext4_ext_pblock e);
           let from' = (if head then from else start);
           (fs, ir) \<leftarrow> ext4_ext_remove_blocks fs ir e from' (from' + len' - 1);
           let fs = node_upd (\<lambda>eh.
                      (let e = (ext_at eh ex)\<lparr>ee_first_block := new_start\<rparr>;
                           unwritten = ext4_ext_is_unwritten e;
                           e = (if new_len = 0 then e
                                else (let e = ext4_ext_store_pblock (e\<lparr>ee_block_count := ucast new_len\<rparr>) newblock
                                      in if unwritten then ext4_ext_mark_unwritten e else e))
                       in ext_put ex e eh)) fs nd;
           remove_leaf_loop todo fs ir nd (ex + 1) from to (if head then start_ex + 1 else start_ex)
             (if tail then Some ex else ex2) (if new_len = 0 then new_entries - 1 else new_entries)
         })"

definition ext4_ext_remove_leaf ::
    "'d ext4_fs \<Rightarrow> ext4_inode_ref \<Rightarrow> ext_path \<Rightarrow> u32 \<Rightarrow> u32 \<Rightarrow>
     (errno \<times> 'd ext4_fs \<times> ext4_inode_ref \<times> ext_path) option" where
  "ext4_ext_remove_leaf fs ir path from to = do {
     let depth = unat (ext_depth fs ir);
     nd \<leftarrow> p_header (path ! depth);
     ex \<leftarrow> p_extent (path ! depth);
     let n = node_count (node_bytes fs nd);
     (fs, ir, stop, start_ex, ex2, new_entries) \<leftarrow>
       remove_leaf_loop (n - ex) fs ir nd ex from to ex None (of_nat n);
     let ex2 = (case ex2 of None \<Rightarrow> stop | Some e \<Rightarrow> e);
     let fs = node_upd (\<lambda>eh.
                (let eh = (if ex2 < n then entries_move start_ex ex2 (n - ex2) eh else eh)
                 in hdr_upd (\<lambda>h. h\<lparr>eh_entries_count := new_entries\<rparr>) eh)) fs nd;
     (fs, ir) \<leftarrow> ext4_ext_dirty fs ir (path ! depth);
     (err, fs, ir) \<leftarrow>
       (if ex = 0 \<and> new_entries \<noteq> 0 then ext4_ext_correct_indexes fs ir path else Some (EOK, fs, ir));
     if err \<noteq> EOK then Some (err, fs, ir, path)
     else if new_entries = 0 \<and> blk_lb_id (p_blk (path ! depth)) \<noteq> 0
     then do {
       (err, fs, ir) \<leftarrow> ext4_ext_remove_idx fs ir path (depth - 1);
       Some (err, fs, ir, path)
     }
     else if depth > 0
     then Some (EOK, fs, ir, path_upd (depth - 1) (\<lambda>p. p\<lparr>p_index := map_option Suc (p_index p)\<rparr>) path)
     else Some (EOK, fs, ir, path)
   }"

definition ext4_ext_more_to_rm :: "'d ext4_fs \<Rightarrow> ext4_extent_path \<Rightarrow> u32 \<Rightarrow> bool option" where
  "ext4_ext_more_to_rm fs p to = do {
     nd \<leftarrow> p_header p;
     let eh = node_bytes fs nd;
     if node_count eh = 0 then Some False
     else do {
       ix \<leftarrow> p_index p;
       if ix + 1 > node_count eh then Some False
       else Some (\<not> ei_first_block (idx_at eh ix) > to)
     }
   }"

text \<open>The leaf of the path: its extents in the range are removed and its block is given back.\<close>

definition remove_space_leaf ::
    "'d ext4_fs \<Rightarrow> ext4_inode_ref \<Rightarrow> ext_path \<Rightarrow> nat \<Rightarrow> u32 \<Rightarrow> u32 \<Rightarrow>
     ('d ext4_fs \<times> ext4_inode_ref \<times> ext_path) option" where
  "remove_space_leaf fs ir path i from to = do {
     nd \<leftarrow> p_header (path ! i);
     let eh = node_bytes fs nd;
     if node_count eh = 0 then None
     else do {
       let last_ex = ext_at eh (node_count eh - 1);
       let leaf_from = ee_first_block (ext_at eh 0);
       let leaf_to = ee_first_block last_ex + ucast (ext4_ext_get_actual_len last_ex) - 1;
       let leaf_from = (if leaf_from < from then from else leaf_from);
       let leaf_to = (if leaf_to > to then to else leaf_to);
       (_, fs, ir, path) \<leftarrow> ext4_ext_remove_leaf fs ir path leaf_from leaf_to;
       (fs, path) \<leftarrow> ext4_ext_drop_refs fs ir path i False;
       Some (fs, ir, path)
     }
   }"

text \<open>
  One turn at an inner node: down to the child under the current index, or up. The first result
  is the level to go on with, \<open>None\<close> for a return with the code.
\<close>

definition remove_space_inner ::
    "'d ext4_fs \<Rightarrow> ext4_inode_ref \<Rightarrow> ext_path \<Rightarrow> nat \<Rightarrow> nat \<Rightarrow> u32 \<Rightarrow> errno \<Rightarrow>
     (int option \<times> errno \<times> 'd ext4_fs \<times> ext4_inode_ref \<times> ext_path) option" where
  "remove_space_inner fs ir path depth i to ret = do {
     nd \<leftarrow> p_header (path ! i);
     more \<leftarrow> ext4_ext_more_to_rm fs (path ! i) to;
     if more
     then do {
       (fs, path) \<leftarrow> (if blk_lb_id (p_blk (path ! (i + 1))) \<noteq> 0 then ext4_ext_drop_refs fs ir path (i + 1) False
                     else Some (fs, path));
       ix \<leftarrow> p_index (path ! i);
       let child = ext4_idx_pblock (idx_at (node_bytes fs nd) ix);
       (ret, fs, bh) \<leftarrow> read_extent_tree_block fs child (depth - i - 1) EXT4_BLOCK_ZERO;
       if ret \<noteq> EOK then Some (None, ret, fs, ir, path)
       else do {
         let path = path_upd i (\<lambda>p. p\<lparr>p_block := child\<rparr>) path;
         let path = path_upd (i + 1) (\<lambda>p. p\<lparr>p_blk := bh, p_header := Some (ext_block_hdr bh),
                                          p_depth := depth - i - 1\<rparr>) path;
         let path = path_upd (i + 1) (\<lambda>p. if i + 1 = depth then p\<lparr>p_extent := Some 0\<rparr>
                                          else p\<lparr>p_index := Some 0\<rparr>) path;
         Some (Some (int i + 1), ret, fs, ir, path)
       }
     }
     else do {
       (ret, fs, ir, path) \<leftarrow>
         (if i > 0
          then if node_count (node_bytes fs nd) = 0
               then do { (ret, fs, ir) \<leftarrow> ext4_ext_remove_idx fs ir path (i - 1); Some (ret, fs, ir, path) }
               else Some (ret, fs, ir, path_upd (i - 1) (\<lambda>p. p\<lparr>p_index := map_option Suc (p_index p)\<rparr>) path)
          else Some (ret, fs, ir, path));
       (fs, path) \<leftarrow>
         (if i > 0
          then do {
            (_, fs, b) \<leftarrow> fs_block_put fs (p_blk (path ! i));
            Some (fs, path_upd i (\<lambda>p. p\<lparr>p_blk := b\<rparr>) path)
          }
          else Some (fs, path));
       Some (Some (int i - 1), ret, fs, ir, path)
     }
   }"

partial_function (option) remove_space_loop ::
    "'d ext4_fs \<Rightarrow> ext4_inode_ref \<Rightarrow> ext_path \<Rightarrow> nat \<Rightarrow> int \<Rightarrow> u32 \<Rightarrow> u32 \<Rightarrow> errno \<Rightarrow>
     (bool \<times> errno \<times> 'd ext4_fs \<times> ext4_inode_ref \<times> ext_path) option" where
  "remove_space_loop fs ir path depth i from to ret =
     (if i < 0 then Some (True, ret, fs, ir, path)
      else if i = int depth
      then Option.bind (remove_space_leaf fs ir path depth from to)
             (\<lambda>(fs, ir, path). remove_space_loop fs ir path depth (i - 1) from to ret)
      else Option.bind (remove_space_inner fs ir path depth (nat i) to ret)
             (\<lambda>(next, ret, fs, ir, path).
                case next of None \<Rightarrow> Some (False, ret, fs, ir, path)
                | Some i \<Rightarrow> remove_space_loop fs ir path depth i from to ret))"

text \<open>\<open>IN_RANGE\<close> of \<open>ext4_types.h\<close>, on 32-bit block numbers.\<close>

definition IN_RANGE :: "u32 \<Rightarrow> u32 \<Rightarrow> u32 \<Rightarrow> bool" where
  "IN_RANGE b first len \<longleftrightarrow> b \<ge> first \<and> b \<le> first + len - 1"

definition ext4_extent_remove_space ::
    "'d ext4_fs \<Rightarrow> ext4_inode_ref \<Rightarrow> u32 \<Rightarrow> u32 \<Rightarrow> (errno \<times> 'd ext4_fs \<times> ext4_inode_ref) option" where
  "ext4_extent_remove_space fs ir from to = do {
     let depth = unat (ext_depth fs ir);
     (ret, fs, found) \<leftarrow> ext4_find_extent fs ir from None;
     case found of None \<Rightarrow> Some (ret, fs, ir)
     | Some path \<Rightarrow> do {
         nd \<leftarrow> p_header (path ! depth);
         (ret, fs, ir, path) \<leftarrow>
           (case p_extent (path ! depth) of
              None \<Rightarrow> Some (EOK, fs, ir, path)
            | Some ex \<Rightarrow> do {
                let e = ext_at (node_bytes fs nd) ex;
                let ee_block = ee_first_block e;
                let len = (ucast (ext4_ext_get_actual_len e) :: u32);
                if \<not> IN_RANGE from ee_block len then Some (EOK, fs, ir, path)
                else if ee_block < from \<and> to < ee_block + len - 1
                then do {
                  let unwritten = ext4_ext_is_unwritten e;
                  let newblock = ucast (to + 1 - ee_block) + ext4_ext_pblock e;
                  let mark = (\<lambda>e. if unwritten then ext4_ext_mark_unwritten e else e);
                  let fs = node_upd (ext_put ex (mark (e\<lparr>ee_block_count := ucast (from - ee_block)\<rparr>))) fs nd;
                  (fs, ir) \<leftarrow> ext4_ext_dirty fs ir (path ! depth);
                  let newex = mark (ext4_ext_store_pblock
                                (e\<lparr>ee_first_block := to + 1,
                                   ee_block_count := ucast (ee_block + len - 1 - to)\<rparr>) newblock);
                  ext4_ext_insert_extent fs ir path newex 0
                }
                else do {
                  (to_end, ret, fs, ir, path) \<leftarrow> remove_space_loop fs ir path depth (int depth) from to ret;
                  root \<leftarrow> p_header (path ! 0);
                  if to_end \<and> node_count (node_bytes fs root) = 0
                  then do {
                    let fs = node_upd (hdr_upd (\<lambda>h. h\<lparr>eh_depth := 0, eh_max_entries_count := ext4_ext_space_root\<rparr>))
                               fs (ext_inode_hdr ir);
                    (fs, ir) \<leftarrow> ext4_ext_dirty fs ir (path ! 0);
                    Some (EOK, fs, ir, path)
                  }
                  else Some (ret, fs, ir, path)
                }
              });
         (fs, path) \<leftarrow> ext4_ext_drop_refs fs ir path 0 False;
         Some (ret, fs, ir)
       }
   }"

section \<open>Mapping a block\<close>

text \<open>
  \<open>ext4_ext_split_extent_at\<close>. When the insertion fails the length is stored back through a
  pointer into a block that was released; that is \<open>None\<close> unless the block is still cached.
\<close>

definition node_live :: "'d ext4_fs \<Rightarrow> ext_node \<Rightarrow> bool" where
  "node_live fs nd \<longleftrightarrow>
     (case blk_buf (en_block nd) of None \<Rightarrow> False
      | Some buf \<Rightarrow> bc_bufs (bdev_bc (fs_bdev fs)) buf \<noteq> None)"

definition ext4_ext_split_extent_at ::
    "'d ext4_fs \<Rightarrow> ext4_inode_ref \<Rightarrow> ext_path \<Rightarrow> u32 \<Rightarrow> u32 \<Rightarrow>
     (errno \<times> 'd ext4_fs \<times> ext4_inode_ref \<times> ext_path) option" where
  "ext4_ext_split_extent_at fs ir path split split_flag = do {
     let depth = unat (ext_depth fs ir);
     nd \<leftarrow> p_header (path ! depth);
     ex \<leftarrow> p_extent (path ! depth);
     let e = ext_at (node_bytes fs nd) ex;
     let ee_block = ee_first_block e;
     let ee_len = ext4_ext_get_actual_len e;
     let newblock = ucast (split - ee_block) + ext4_ext_pblock e;
     if split = ee_block
     then do {
       let e = (if split_flag AND EXT4_EXT_MARK_UNWRIT2 \<noteq> 0 then ext4_ext_mark_unwritten e
                else ext4_ext_mark_initialized e);
       let fs = node_upd (ext_put ex e) fs nd;
       (fs, ir) \<leftarrow> ext4_ext_dirty fs ir (path ! depth);
       Some (EOK, fs, ir, path)
     }
     else do {
       let e1 = e\<lparr>ee_block_count := ucast (split - ee_block)\<rparr>;
       let e1 = (if split_flag AND EXT4_EXT_MARK_UNWRIT1 \<noteq> 0 then ext4_ext_mark_unwritten e1 else e1);
       let fs = node_upd (ext_put ex e1) fs nd;
       (fs, ir) \<leftarrow> ext4_ext_dirty fs ir (path ! depth);
       let newex = ext4_ext_store_pblock
                     (e\<lparr>ee_first_block := split, ee_block_count := ucast (ucast ee_len - (split - ee_block))\<rparr>) newblock;
       let newex = (if split_flag AND EXT4_EXT_MARK_UNWRIT2 \<noteq> 0 then ext4_ext_mark_unwritten newex else newex);
       (err, fs, ir, path) \<leftarrow> ext4_ext_insert_extent fs ir path newex EXT4_EXT_NO_COMBINE;
       if err \<noteq> EOK
       then if \<not> node_live fs nd then None
            else do {
              let fs = node_upd (\<lambda>eh. ext_put ex ((ext_at eh ex)\<lparr>ee_block_count := ee_len\<rparr>) eh) fs nd;
              (fs, ir) \<leftarrow> ext4_ext_dirty fs ir (path ! depth);
              Some (EOK, fs, ir, path)
            }
       else Some (EOK, fs, ir, path)
     }
   }"

definition ext4_ext_convert_to_initialized ::
    "'d ext4_fs \<Rightarrow> ext4_inode_ref \<Rightarrow> ext_path \<Rightarrow> u32 \<Rightarrow> u32 \<Rightarrow>
     (errno \<times> 'd ext4_fs \<times> ext4_inode_ref \<times> ext_path) option" where
  "ext4_ext_convert_to_initialized fs ir path split blocks = do {
     let depth = unat (ext_depth fs ir);
     nd \<leftarrow> p_header (path ! depth);
     ex \<leftarrow> p_extent (path ! depth);
     let e = ext_at (node_bytes fs nd) ex;
     if \<not> ee_first_block e \<le> split then None
     else if split + blocks = ee_first_block e + ucast (ext4_ext_get_actual_len e)
     then ext4_ext_split_extent_at fs ir path split EXT4_EXT_MARK_UNWRIT1
     else if ee_first_block e = split
     then ext4_ext_split_extent_at fs ir path (split + blocks) EXT4_EXT_MARK_UNWRIT2
     else do {
       (err, fs, ir, path) \<leftarrow> ext4_ext_split_extent_at fs ir path (split + blocks)
                                (EXT4_EXT_MARK_UNWRIT1 OR EXT4_EXT_MARK_UNWRIT2);
       if err = EOK then ext4_ext_split_extent_at fs ir path split EXT4_EXT_MARK_UNWRIT1
       else Some (err, fs, ir, path)
     }
   }"

text \<open>The search of the next mapped block goes from the leaf, level \<open>depth\<close>, to the root.\<close>

fun next_allocated :: "'d ext4_fs \<Rightarrow> ext_path \<Rightarrow> nat \<Rightarrow> nat \<Rightarrow> u32 option" where
  "next_allocated fs path leaf 0 = Some EXT_MAX_BLOCKS"
| "next_allocated fs path leaf (Suc depth) = do {
     nd \<leftarrow> p_header (path ! depth);
     let eh = node_bytes fs nd;
     if depth = leaf
     then (case p_extent (path ! depth) of
             Some ex \<Rightarrow> if ex + 1 \<noteq> node_count eh then Some (ee_first_block (ext_at eh (ex + 1)))
                        else next_allocated fs path leaf depth
           | None \<Rightarrow> next_allocated fs path leaf depth)
     else do {
       ix \<leftarrow> p_index (path ! depth);
       if ix + 1 \<noteq> node_count eh then Some (ei_first_block (idx_at eh (ix + 1)))
       else next_allocated fs path leaf depth
     }
   }"

definition ext4_ext_next_allocated_block :: "'d ext4_fs \<Rightarrow> ext_path \<Rightarrow> u32 option" where
  "ext4_ext_next_allocated_block fs path =
     (let depth = p_depth (path ! 0)
      in if depth = 0 \<and> p_extent (path ! 0) = None then Some EXT_MAX_BLOCKS
         else next_allocated fs path depth (depth + 1))"

fun zero_unwritten :: "nat \<Rightarrow> 'd ext4_fs \<Rightarrow> u64 \<Rightarrow> (errno \<times> 'd ext4_fs) option" where
  "zero_unwritten 0 fs block = Some (EOK, fs)"
| "zero_unwritten (Suc n) fs block = do {
     (err, fs, bh) \<leftarrow> fs_block_get_noread fs block;
     if err \<noteq> EOK then Some (err, fs)
     else do {
       let fs = fs_dirty (fs_store fs bh (memset 0 0 (unat (ext4_sb_get_block_size (fs_sb fs))) (fs_data fs bh))) bh;
       (err, fs) \<leftarrow> fs_block_set fs bh;
       if err \<noteq> EOK then Some (err, fs) else zero_unwritten n fs (block + 1)
     }
   }"

definition ext4_ext_zero_unwritten_range :: "'d ext4_fs \<Rightarrow> u64 \<Rightarrow> u32 \<Rightarrow> (errno \<times> 'd ext4_fs) option" where
  "ext4_ext_zero_unwritten_range fs block blocks_count = zero_unwritten (unat blocks_count) fs block"

text \<open>
  \<open>ext4_extent_get_blocks\<close>; the last two results are the mapped block, 0 for none, and the number
  of blocks mapped from it on. \<open>get_blocks_new\<close> is the part that maps a new block,
  \<open>get_blocks_out\<close> the labels \<open>out\<close> and \<open>out2\<close>.
\<close>

definition get_blocks_out ::
    "errno \<Rightarrow> 'd ext4_fs \<Rightarrow> ext4_inode_ref \<Rightarrow> ext_path \<Rightarrow> u64 \<Rightarrow> u32 \<Rightarrow>
     (errno \<times> 'd ext4_fs \<times> ext4_inode_ref \<times> u64 \<times> u32) option" where
  "get_blocks_out err fs ir path result blocks = do {
     (fs, path) \<leftarrow> ext4_ext_drop_refs fs ir path 0 False;
     Some (err, fs, ir, result, blocks)
   }"

definition get_blocks_new ::
    "'d ext4_fs \<Rightarrow> ext4_inode_ref \<Rightarrow> ext_path \<Rightarrow> u32 \<Rightarrow> u32 \<Rightarrow>
     (errno \<times> 'd ext4_fs \<times> ext4_inode_ref \<times> u64 \<times> u32) option" where
  "get_blocks_new fs ir path iblock max_blocks = do {
     next \<leftarrow> ext4_ext_next_allocated_block fs path;
     goal \<leftarrow> ext4_ext_find_goal fs ir path iblock;
     (err, fs, ir, newblock) \<leftarrow> ext4_new_meta_blocks fs ir goal;
     if newblock = 0 then get_blocks_out err fs ir path 0 0
     else do {
       let newex = ext4_ext_store_pblock
                     \<lparr>ee_first_block = iblock, ee_block_count = 1, ee_start_hi = 0, ee_start_lo = 0\<rparr> newblock;
       (err, fs, ir, path) \<leftarrow> ext4_ext_insert_extent fs ir path newex 0;
       if err \<noteq> EOK
       then do {
         (fs, ir) \<leftarrow> ext4_ext_free_blocks fs ir (ext4_ext_pblock newex) (ucast (ee_block_count newex));
         get_blocks_out err fs ir path 0 0
       }
       else get_blocks_out err fs ir path (ext4_ext_pblock newex) (if 1 > max_blocks then max_blocks else 1)
     }
   }"

definition ext4_extent_get_blocks ::
    "'d ext4_fs \<Rightarrow> ext4_inode_ref \<Rightarrow> u32 \<Rightarrow> u32 \<Rightarrow> bool \<Rightarrow>
     (errno \<times> 'd ext4_fs \<times> ext4_inode_ref \<times> u64 \<times> u32) option" where
  "ext4_extent_get_blocks fs ir iblock max_blocks create = do {
     (err, fs, found) \<leftarrow> ext4_find_extent fs ir iblock None;
     case found of None \<Rightarrow> Some (err, fs, ir, 0, 0)
     | Some path \<Rightarrow> do {
         let depth = unat (ext_depth fs ir);
         nd \<leftarrow> p_header (path ! depth);
         let e = map_option (ext_at (node_bytes fs nd)) (p_extent (path ! depth));
         case (case e of None \<Rightarrow> None
               | Some e \<Rightarrow> if IN_RANGE iblock (ee_first_block e) (ucast (ext4_ext_get_actual_len e))
                          then Some e else None) of
           Some e \<Rightarrow> do {
             let allocated = ucast (ext4_ext_get_actual_len e) - (iblock - ee_first_block e);
             let newblock = ucast (iblock - ee_first_block e) + ext4_ext_pblock e;
             let range = (if allocated > max_blocks then max_blocks else allocated);
             if \<not> ext4_ext_is_unwritten e then get_blocks_out EOK fs ir path newblock range
             else if \<not> create then get_blocks_out EOK fs ir path 0 range
             else do {
               (err, fs) \<leftarrow> ext4_ext_zero_unwritten_range fs newblock range;
               if err \<noteq> EOK then get_blocks_out err fs ir path 0 0
               else do {
                 (err, fs, ir, path) \<leftarrow> ext4_ext_convert_to_initialized fs ir path iblock range;
                 if err \<noteq> EOK then get_blocks_out err fs ir path 0 0
                 else get_blocks_out EOK fs ir path newblock range
               }
             }
           }
         | None \<Rightarrow>
             if \<not> create then get_blocks_out EOK fs ir path 0 0
             else get_blocks_new fs ir path iblock max_blocks
       }
   }"

end
