(* ===== verification/Extent_List.thy ===== *)
theory Extent_List
  imports Extent
begin

text \<open>
  A leaf of the extent tree as a list of extents. The lemmas say what storing an entry, storing the
  header and moving entries do to that list, what the binary search finds in it, and which map of
  logical to physical blocks a list in order stands for.
\<close>

named_theorems node_simps \<open>reading a node back after a store\<close>

section \<open>Stores to a node\<close>

lemma extent_bytes_length [simp]:
  "length (ext4_extent_bytes e) = 12" "length (ext4_extent_index_bytes x) = 12"
  "length (ext4_extent_header_bytes h) = 12"
  by (simp_all add: ext4_extent_bytes_def ext4_extent_index_bytes_def ext4_extent_header_bytes_def)

lemma extent_roundtrip [simp]:
  "ext4_extent_of (ext4_extent_bytes e @ ys) = e"
  "ext4_extent_index_of (ext4_extent_index_bytes x @ ys) = x"
  "ext4_extent_header_of (ext4_extent_header_bytes h @ ys) = h"
  by (simp_all add: ext4_extent_bytes_def ext4_extent_of_def ext4_extent_index_bytes_def
      ext4_extent_index_of_def ext4_extent_header_bytes_def ext4_extent_header_of_def byte_simps)

lemma extent_of_take: "ext4_extent_of bs = ext4_extent_of (take 12 bs)"
  by (simp add: ext4_extent_of_def byte_simps)

lemma header_of_take: "ext4_extent_header_of bs = ext4_extent_header_of (take 12 bs)"
  by (simp add: ext4_extent_header_of_def byte_simps)

lemma ext_at_take: "ext_at bs j = ext4_extent_of (take 12 (drop (12 + 12 * j) bs))"
  unfolding ext_at_def by (rule extent_of_take)

lemma ext_at_ext_put [node_simps]:
  assumes "24 + 12 * i \<le> length bs"
  shows "ext_at (ext_put i e bs) j = (if j = i then e else ext_at bs j)"
proof (cases "j = i")
  case True
  then show ?thesis using assms by (simp add: ext_at_def ext_put_def put_bytes_def)
next
  case False
  then have "12 + 12 * j + 12 \<le> 12 + 12 * i \<or> 12 + 12 * i + 12 \<le> 12 + 12 * j" by arith
  with assms False show ?thesis
    unfolding ext_at_take ext_put_def by (simp add: put_bytes_other)
qed

lemma node_length [node_simps]:
  "24 + 12 * i \<le> length bs \<Longrightarrow> length (ext_put i e bs) = length bs"
  "12 \<le> length bs \<Longrightarrow> length (hdr_upd f bs) = length bs"
  "12 + 12 * dst + 12 * len \<le> length bs \<Longrightarrow> 12 + 12 * src + 12 * len \<le> length bs \<Longrightarrow>
     length (entries_move dst src len bs) = length bs"
  by (simp_all add: ext_put_def hdr_upd_def entries_move_def)

lemma header_simps [node_simps]:
  "24 + 12 * i \<le> length bs \<Longrightarrow> ext4_extent_header_of (ext_put i e bs) = ext4_extent_header_of bs"
  "12 \<le> length bs \<Longrightarrow> ext4_extent_header_of (hdr_upd f bs) = f (ext4_extent_header_of bs)"
  "12 + 12 * dst + 12 * len \<le> length bs \<Longrightarrow> 12 + 12 * src + 12 * len \<le> length bs \<Longrightarrow>
     ext4_extent_header_of (entries_move dst src len bs) = ext4_extent_header_of bs"
proof -
  show "24 + 12 * i \<le> length bs \<Longrightarrow> ext4_extent_header_of (ext_put i e bs) = ext4_extent_header_of bs"
    using put_bytes_other [of "12 + 12 * i" "ext4_extent_bytes e" bs 0 12]
    by (subst (1 2) header_of_take) (simp add: ext_put_def)
  show "12 \<le> length bs \<Longrightarrow> ext4_extent_header_of (hdr_upd f bs) = f (ext4_extent_header_of bs)"
    by (simp add: hdr_upd_def put_bytes_def)
  show "12 + 12 * dst + 12 * len \<le> length bs \<Longrightarrow> 12 + 12 * src + 12 * len \<le> length bs \<Longrightarrow>
     ext4_extent_header_of (entries_move dst src len bs) = ext4_extent_header_of bs"
    using put_bytes_other [of "12 + 12 * dst" "take (12 * len) (drop (12 + 12 * src) bs)" bs 0 12]
    by (subst (1 2) header_of_take) (simp add: entries_move_def)
qed

lemma ext_at_hdr_upd [node_simps]:
  "12 \<le> length bs \<Longrightarrow> ext_at (hdr_upd f bs) j = ext_at bs j"
  by (simp add: ext_at_def hdr_upd_def put_bytes_def add.commute)

lemma ext_at_entries_move [node_simps]:
  assumes "12 + 12 * dst + 12 * len \<le> length bs" "12 + 12 * src + 12 * len \<le> length bs"
  shows "ext_at (entries_move dst src len bs) j =
    (if dst \<le> j \<and> j < dst + len then ext_at bs (src + (j - dst)) else ext_at bs j)"
proof (cases "dst \<le> j \<and> j < dst + len")
  case True
  then obtain k where k: "j = dst + k" "k < len" using le_iff_add by auto
  let ?m = "take (12 * len) (drop (12 + 12 * src) bs)"
  have lm: "length ?m = 12 * len" using assms by simp
  have k12: "12 * k + 12 \<le> 12 * len" using k(2) by simp
  have "drop (12 + 12 * j) (entries_move dst src len bs) =
      drop (12 * k) ?m @ drop (12 + 12 * dst + 12 * len) bs"
    using assms lm k k12 by (simp add: entries_move_def put_bytes_def)
  then have "take 12 (drop (12 + 12 * j) (entries_move dst src len bs)) = take 12 (drop (12 * k) ?m)"
    using lm k12 by simp
  also have "\<dots> = take 12 (drop (12 + 12 * (src + k)) bs)"
    using k12 by (simp add: drop_take min_def ac_simps)
  finally have "ext_at (entries_move dst src len bs) j = ext_at bs (src + k)"
    unfolding ext_at_take by simp
  then show ?thesis using True k by simp
next
  case False
  then have "12 + 12 * j + 12 \<le> 12 + 12 * dst \<or> 12 + 12 * dst + 12 * len \<le> 12 + 12 * j" by arith
  then have "take 12 (drop (12 + 12 * j) (entries_move dst src len bs)) = take 12 (drop (12 + 12 * j) bs)"
    unfolding entries_move_def using assms by (intro put_bytes_other) simp_all
  then have "ext_at (entries_move dst src len bs) j = ext_at bs j" unfolding ext_at_take by simp
  then show ?thesis using False by auto
qed

section \<open>The extents of a leaf\<close>

text \<open>A node whose entries lie in its bytes and in its room.\<close>

definition node_ok :: "bytes \<Rightarrow> bool" where
  "node_ok bs \<longleftrightarrow> node_count bs \<le> node_max bs \<and> 12 + 12 * node_max bs \<le> length bs"

definition node_exts :: "bytes \<Rightarrow> ext4_extent list" where
  "node_exts bs = map (ext_at bs) [0..<node_count bs]"

lemma length_node_exts [simp]: "length (node_exts bs) = node_count bs"
  by (simp add: node_exts_def)

lemma node_exts_nth: "i < node_count bs \<Longrightarrow> node_exts bs ! i = ext_at bs i"
  by (simp add: node_exts_def)

lemma node_okD: "node_ok bs \<Longrightarrow> 12 \<le> length bs"
  "node_ok bs \<Longrightarrow> i < node_max bs \<Longrightarrow> 24 + 12 * i \<le> length bs"
  by (simp_all add: node_ok_def)

text \<open>Replacing one entry.\<close>

lemma node_put:
  assumes "node_ok bs" "i < node_count bs"
  shows "node_ok (ext_put i e bs)" "node_exts (ext_put i e bs) = (node_exts bs)[i := e]"
    "node_max (ext_put i e bs) = node_max bs" "node_count (ext_put i e bs) = node_count bs"
    "eh_depth (ext4_extent_header_of (ext_put i e bs)) = eh_depth (ext4_extent_header_of bs)"
proof -
  have i: "24 + 12 * i \<le> length bs" using assms by (simp add: node_ok_def)
  show c: "node_count (ext_put i e bs) = node_count bs" "node_max (ext_put i e bs) = node_max bs"
    by (simp_all add: node_count_def node_max_def header_simps i)
  show "eh_depth (ext4_extent_header_of (ext_put i e bs)) = eh_depth (ext4_extent_header_of bs)"
    by (simp add: header_simps i)
  show "node_ok (ext_put i e bs)" using assms(1) by (simp add: node_ok_def c node_length i)
  show "node_exts (ext_put i e bs) = (node_exts bs)[i := e]"
    by (rule nth_equalityI) (simp_all add: c node_exts_nth ext_at_ext_put i nth_list_update)
qed

text \<open>Opening a gap and storing an entry in it, as \<open>ext4_ext_insert_leaf\<close> does.\<close>

lemma store_extent [simp]:
  "ext4_ext_store_pblock (x\<lparr>ee_first_block := ee_first_block e, ee_block_count := ee_block_count e\<rparr>)
     (ext4_ext_pblock e) = e"
proof -
  have m: "(0xffffffff :: u64) = mask 32" "(0xffff :: u16) = mask 16" by (simp_all add: mask_eq_exp_minus_1)
  have "ucast (ext4_ext_pblock e AND 0xffffffff) = ee_start_lo e"
    unfolding ext4_ext_pblock_def m by (rule bit_word_eqI) (auto simp: bit_simps)
  moreover have "ucast (drop_bit 32 (ext4_ext_pblock e)) AND 0xffff = ee_start_hi e"
    unfolding ext4_ext_pblock_def m
    by (rule bit_word_eqI) (auto simp: bit_simps dest: bit_imp_le_length)
  ultimately show ?thesis by (simp add: ext4_ext_store_pblock_def)
qed

lemma node_insert:
  assumes ok: "node_ok bs" and i: "i \<le> node_count bs" and room: "node_count bs < node_max bs"
  defines "bs1 \<equiv> (if node_count bs - i > 0 then entries_move (i + 1) i (node_count bs - i) bs else bs)"
  shows "node_ok (ext_insert i e bs1)"
    "node_exts (ext_insert i e bs1) = take i (node_exts bs) @ e # drop i (node_exts bs)"
    "node_max (ext_insert i e bs1) = node_max bs" "node_count (ext_insert i e bs1) = node_count bs + 1"
    "node_ok bs1"
    "eh_depth (ext4_extent_header_of (ext_insert i e bs1)) = eh_depth (ext4_extent_header_of bs)"
proof -
  have len: "12 + 12 * node_max bs \<le> length bs" using ok by (simp add: node_ok_def)
  have l: "24 + 12 * i \<le> length bs" "12 \<le> length bs"
    "12 + 12 * (i + 1) + 12 * (node_count bs - i) \<le> length bs" "12 + 12 * i + 12 * (node_count bs - i) \<le> length bs"
    using len i room by simp_all
  have b1: "length bs1 = length bs" "ext4_extent_header_of bs1 = ext4_extent_header_of bs"
    "ext_at bs1 j = (if i + 1 \<le> j \<and> j < node_count bs + 1 then ext_at bs (j - 1) else ext_at bs j)" for j
    using l i by (auto simp: bs1_def node_length header_simps ext_at_entries_move)
  let ?e = "ext4_ext_store_pblock ((ext_at bs1 i)\<lparr>ee_first_block := ee_first_block e, ee_block_count := ee_block_count e\<rparr>)
              (ext4_ext_pblock e)"
  have ins: "ext_insert i e bs1 = hdr_upd (\<lambda>h. h\<lparr>eh_entries_count := eh_entries_count h + 1\<rparr>) (ext_put i e bs1)"
    by (simp add: ext_insert_def Let_def)
  have lp: "length (ext_put i e bs1) = length bs" using l by (simp add: node_length b1)
  have h: "ext4_extent_header_of (ext_insert i e bs1) =
      (ext4_extent_header_of bs)\<lparr>eh_entries_count := eh_entries_count (ext4_extent_header_of bs) + 1\<rparr>"
    using l by (simp add: ins header_simps lp b1)
  have lt: "unat (eh_entries_count (ext4_extent_header_of bs)) < unat (eh_max_entries_count (ext4_extent_header_of bs))"
    using room by (simp add: node_count_def node_max_def)
  show m: "node_max (ext_insert i e bs1) = node_max bs" by (simp add: node_max_def h)
  show c: "node_count (ext_insert i e bs1) = node_count bs + 1"
    using unat_inc [of "eh_entries_count (ext4_extent_header_of bs)" "eh_max_entries_count (ext4_extent_header_of bs)"] lt
    by (simp add: node_count_def h word_less_nat_alt)
  show "node_ok (ext_insert i e bs1)"
    using room len l by (simp add: node_ok_def m c) (simp add: ins node_length lp)
  have at: "ext_at (ext_insert i e bs1) j =
      (if j = i then e else if i < j \<and> j < node_count bs + 1 then ext_at bs (j - 1) else ext_at bs j)" for j
    using l by (simp add: ins ext_at_hdr_upd lp ext_at_ext_put b1)
  have pre: "j - Suc 0 = i + k" if "j - i = Suc k" for j k using that by simp
  show "node_exts (ext_insert i e bs1) = take i (node_exts bs) @ e # drop i (node_exts bs)"
    by (rule nth_equalityI)
      (use i in \<open>auto simp: c node_exts_nth at nth_append nth_Cons min_def pre split: nat.splits\<close>)
  show "eh_depth (ext4_extent_header_of (ext_insert i e bs1)) = eh_depth (ext4_extent_header_of bs)"
    by (simp add: h)
  show "node_ok bs1" using ok by (simp add: node_ok_def node_max_def node_count_def b1)
qed

section \<open>Binary search\<close>

text \<open>
  Over keys in order the loop ends one after the last key that is not above the block, if the
  entries before \<open>l\<close> have such keys and those after \<open>r\<close> have not.
\<close>

lemma binsearch_loop_spec:
  assumes "\<And>i j. i \<le> j \<Longrightarrow> j < n \<Longrightarrow> key i \<le> (key j :: u32)"
    and "0 \<le> l" "l \<le> r + 1" "r < int n"
    and "\<And>i. 0 < i \<Longrightarrow> int i < l \<Longrightarrow> key i \<le> block" "\<And>i. r < int i \<Longrightarrow> i < n \<Longrightarrow> block < key i"
  shows "l \<le> binsearch_loop key block l r \<and> binsearch_loop key block l r \<le> r + 1 \<and>
    (\<forall>i. 0 < i \<and> int i < binsearch_loop key block l r \<longrightarrow> key i \<le> block) \<and>
    (\<forall>i < n. binsearch_loop key block l r \<le> int i \<longrightarrow> block < key i)"
  using assms
proof (induction key block l r rule: binsearch_loop.induct)
  case (1 key block l r)
  note mono = "1.prems"(1)
  show ?case
  proof (cases "l \<le> r")
    case False
    then have "l = r + 1" using "1.prems"(3) by simp
    then show ?thesis
      using "1.prems"(5,6) by (subst (1 2 3 4) binsearch_loop.simps) auto
  next
    case lr: True
    define m where "m = l + (r - l) div 2"
    have m: "l \<le> m" "m \<le> r" "nat m < n" "int (nat m) = m"
      using lr "1.prems"(2,4) by (auto simp: m_def)
    show ?thesis
    proof (cases "block < key (nat m)")
      case True
      have above: "block < key i" if "m - 1 < int i" "i < n" for i
      proof -
        have "nat m \<le> i" using that(1) by simp
        with mono [OF this that(2)] True show ?thesis by simp
      qed
      have eq: "binsearch_loop key block l r = binsearch_loop key block l (m - 1)"
        using lr True by (subst binsearch_loop.simps) (simp add: m_def Let_def)
      show ?thesis
        using "1.IH"(1) [OF lr m_def True mono "1.prems"(2) _ _ "1.prems"(5) above] m "1.prems"(4)
        unfolding eq by simp
    next
      case False
      have below: "key i \<le> block" if "int i < m + 1" for i
      proof -
        have "i \<le> nat m" using that by simp
        from mono [OF this m(3)] False show ?thesis by simp
      qed
      have eq: "binsearch_loop key block l r = binsearch_loop key block (m + 1) r"
        using lr False by (subst binsearch_loop.simps) (simp add: m_def Let_def)
      show ?thesis
        using "1.IH"(2) [OF lr m_def False mono _ _ "1.prems"(4) below "1.prems"(6)] m "1.prems"(2)
        unfolding eq by simp
    qed
  qed
qed

section \<open>Extents in order\<close>

definition ext_first :: "ext4_extent \<Rightarrow> nat" where
  "ext_first e = unat (ee_first_block e)"

definition ext_len :: "ext4_extent \<Rightarrow> nat" where
  "ext_len e = unat (ext4_ext_get_actual_len e)"

definition ext_end :: "ext4_extent \<Rightarrow> nat" where
  "ext_end e = ext_first e + ext_len e"

text \<open>
  Extents of at least one block, ascending, without overlap, and within the logical blocks
  that a 32-bit number counts.
\<close>

definition exts_ok :: "ext4_extent list \<Rightarrow> bool" where
  "exts_ok es \<longleftrightarrow> sorted_wrt (\<lambda>a b. ext_end a \<le> ext_first b) es \<and>
     (\<forall>e \<in> set es. 0 < ext_len e \<and> ext_end e < 2 ^ 32)"

text \<open>The block that an extent maps a logical block to, and whether it is unwritten.\<close>

definition ext_covers :: "ext4_extent \<Rightarrow> nat \<Rightarrow> bool" where
  "ext_covers e b \<longleftrightarrow> ext_first e \<le> b \<and> b < ext_end e"

definition ext_block :: "ext4_extent \<Rightarrow> nat \<Rightarrow> u64 \<times> bool" where
  "ext_block e b = (ext4_ext_pblock e + of_nat (b - ext_first e), ext4_ext_is_unwritten e)"

definition leaf_map :: "ext4_extent list \<Rightarrow> nat \<rightharpoonup> u64 \<times> bool" where
  "leaf_map es b = map_option (\<lambda>e. ext_block e b) (find (\<lambda>e. ext_covers e b) es)"

lemma leaf_map_Nil [simp]: "leaf_map [] b = None"
  by (simp add: leaf_map_def)

lemma leaf_map_Cons: "leaf_map (e # es) b = (if ext_covers e b then Some (ext_block e b) else leaf_map es b)"
  by (simp add: leaf_map_def)

lemma find_append_if: "find P (xs @ ys) = (case find P xs of None \<Rightarrow> find P ys | Some x \<Rightarrow> Some x)"
  by (induction xs) simp_all

lemma leaf_map_append:
  "leaf_map (es @ es') b = (case leaf_map es b of None \<Rightarrow> leaf_map es' b | Some x \<Rightarrow> Some x)"
  by (simp add: leaf_map_def find_append_if split: option.split)

lemma leaf_map_None_iff: "leaf_map es b = None \<longleftrightarrow> (\<forall>e \<in> set es. \<not> ext_covers e b)"
  by (auto simp: leaf_map_def find_None_iff)

lemma exts_ok_append:
  "exts_ok (es @ es') \<longleftrightarrow>
     exts_ok es \<and> exts_ok es' \<and> (\<forall>e \<in> set es. \<forall>e' \<in> set es'. ext_end e \<le> ext_first e')"
  by (auto simp: exts_ok_def sorted_wrt_append)

lemma exts_ok_Cons:
  "exts_ok (e # es) \<longleftrightarrow>
     0 < ext_len e \<and> ext_end e < 2 ^ 32 \<and> (\<forall>e' \<in> set es. ext_end e \<le> ext_first e') \<and> exts_ok es"
  by (auto simp: exts_ok_def)

lemma exts_ok_nth:
  assumes "exts_ok es" "i < j" "j < length es"
  shows "ext_end (es ! i) \<le> ext_first (es ! j)"
  using assms by (simp add: exts_ok_def sorted_wrt_iff_nth_less)

lemma exts_ok_first_mono:
  assumes "exts_ok es" "i \<le> j" "j < length es"
  shows "ee_first_block (es ! i) \<le> ee_first_block (es ! j)"
proof (cases "i = j")
  case False
  with assms exts_ok_nth [of es i j] show ?thesis
    by (simp add: ext_end_def ext_first_def word_le_nat_alt)
qed simp

text \<open>In a list in order the extent that covers a block is found at its position.\<close>

lemma find_covering:
  assumes ok: "exts_ok es" and i: "i < length es" "ext_covers (es ! i) b"
  shows "find (\<lambda>e. ext_covers e b) es = Some (es ! i)"
proof -
  have "\<forall>e \<in> set (take i es). \<not> ext_covers e b"
  proof
    fix e assume "e \<in> set (take i es)"
    then obtain k where k: "k < i" "e = es ! k" using i(1) by (auto simp: in_set_conv_nth)
    with exts_ok_nth [OF ok k(1) i(1)] i(2) show "\<not> ext_covers e b" by (simp add: ext_covers_def)
  qed
  then have "find (\<lambda>e. ext_covers e b) (take i es) = None" by (auto simp: find_None_iff)
  moreover have "es = take i es @ es ! i # drop (Suc i) es" using i(1) by (rule id_take_nth_drop)
  ultimately show ?thesis using i(2) by (metis find.simps(2) find_append_if option.simps(4))
qed

lemma leaf_map_nth:
  assumes "exts_ok es" "i < length es" "ext_covers (es ! i) b"
  shows "leaf_map es b = Some (ext_block (es ! i) b)"
  by (simp add: leaf_map_def find_covering [OF assms])

text \<open>What the search of a leaf finds: the last extent that starts at or before the block.\<close>

lemma binsearch_spec:
  assumes ok: "exts_ok (node_exts eh)"
  shows "case ext4_ext_binsearch eh block of
      None \<Rightarrow> node_count eh = 0
    | Some i \<Rightarrow> i < node_count eh \<and>
        (\<forall>j. 0 < j \<and> j \<le> i \<longrightarrow> ee_first_block (ext_at eh j) \<le> block) \<and>
        (\<forall>j. i < j \<and> j < node_count eh \<longrightarrow> block < ee_first_block (ext_at eh j))"
proof (cases "node_count eh = 0")
  case True
  then show ?thesis by (simp add: ext4_ext_binsearch_def)
next
  case False
  let ?key = "\<lambda>i. ee_first_block (ext_at eh i)"
  define p where "p = binsearch_loop ?key block 1 (int (node_count eh) - 1)"
  have mono: "?key i \<le> ?key j" if "i \<le> j" "j < node_count eh" for i j
    using exts_ok_first_mono [OF ok that(1)] that by (simp add: node_exts_nth)
  have spec: "1 \<le> p" "p \<le> int (node_count eh)" "\<And>i. 0 < i \<Longrightarrow> int i < p \<Longrightarrow> ?key i \<le> block"
    "\<And>i. i < node_count eh \<Longrightarrow> p \<le> int i \<Longrightarrow> block < ?key i"
    using binsearch_loop_spec [of "node_count eh" ?key 1 "int (node_count eh) - 1" block, OF mono] False
    unfolding p_def by auto
  have "ext4_ext_binsearch eh block = Some (nat (p - 1))"
    using False by (simp add: ext4_ext_binsearch_def p_def)
  then show ?thesis using spec by auto
qed

lemma binsearch_lookup:
  assumes ok: "exts_ok (node_exts eh)"
  shows "leaf_map (node_exts eh) (unat block) =
    (case ext4_ext_binsearch eh block of
       None \<Rightarrow> None
     | Some i \<Rightarrow> if ext_covers (ext_at eh i) (unat block) then Some (ext_block (ext_at eh i) (unat block)) else None)"
proof (cases "ext4_ext_binsearch eh block")
  case None
  then have "node_exts eh = []" using binsearch_spec [OF ok, of block] by (simp add: node_exts_def)
  then show ?thesis by (simp add: None)
next
  case (Some i)
  note B = binsearch_spec [OF ok, of block, unfolded Some, simplified]
  show ?thesis
  proof (cases "ext_covers (ext_at eh i) (unat block)")
    case True
    then show ?thesis using leaf_map_nth [OF ok, of i] B by (simp add: Some node_exts_nth)
  next
    case False
    have "\<not> ext_covers (ext_at eh j) (unat block)" if j: "j < node_count eh" for j
    proof (cases j i rule: linorder_cases)
      case less
      have "ext_end (ext_at eh j) \<le> ext_first (ext_at eh i)"
        using exts_ok_nth [OF ok less] B j by (simp add: node_exts_nth)
      moreover have "ee_first_block (ext_at eh i) \<le> block" using B less by simp
      ultimately show ?thesis by (simp add: ext_covers_def ext_first_def word_le_nat_alt)
    next
      case greater
      with B j have "block < ee_first_block (ext_at eh j)" by simp
      then show ?thesis by (simp add: ext_covers_def ext_first_def word_less_nat_alt)
    qed (use False in simp)
    then have "leaf_map (node_exts eh) (unat block) = None"
      unfolding leaf_map_None_iff by (auto simp: in_set_conv_nth node_exts_nth)
    then show ?thesis using False by (simp add: Some)
  qed
qed

section \<open>Adding an extent to a list\<close>

text \<open>An extent that covers no block of a list lies before or after each extent of it.\<close>

definition ext_fresh :: "ext4_extent \<Rightarrow> ext4_extent list \<Rightarrow> bool" where
  "ext_fresh e es \<longleftrightarrow> 0 < ext_len e \<and> ext_end e < 2 ^ 32 \<and> (\<forall>b. ext_covers e b \<longrightarrow> leaf_map es b = None)"

lemma ext_fresh_disjoint:
  assumes "ext_fresh e es" "exts_ok es" "x \<in> set es"
  shows "ext_end e \<le> ext_first x \<or> ext_end x \<le> ext_first e"
proof (rule ccontr)
  assume "\<not> ?thesis"
  then have "ext_covers e (max (ext_first e) (ext_first x))" "ext_covers x (max (ext_first e) (ext_first x))"
    using assms by (auto simp: ext_covers_def ext_fresh_def exts_ok_def ext_end_def max_def)
  then show False using assms by (auto simp: ext_fresh_def leaf_map_None_iff)
qed

text \<open>A new element at its place.\<close>

lemma leaf_map_insert:
  assumes ok: "exts_ok (xs @ ys)" and e: "ext_fresh e (xs @ ys)"
    and place: "\<forall>x \<in> set xs. ext_first x \<le> ext_first e" "\<forall>y \<in> set ys. ext_first e \<le> ext_first y"
  shows "exts_ok (xs @ e # ys)"
    "leaf_map (xs @ e # ys) b = (if ext_covers e b then Some (ext_block e b) else leaf_map (xs @ ys) b)"
proof -
  have pos: "0 < ext_len e" "ext_end e < 2 ^ 32" using e by (simp_all add: ext_fresh_def)
  have x: "ext_end x \<le> ext_first e" if "x \<in> set xs" for x
    using ext_fresh_disjoint [OF e ok, of x] place(1) that pos by (auto simp: ext_end_def)
  have y: "ext_end e \<le> ext_first y" if "y \<in> set ys" for y
  proof -
    have "0 < ext_len y" using ok that by (simp add: exts_ok_def)
    then show ?thesis
      using ext_fresh_disjoint [OF e ok, of y] place(2) that by (auto simp: ext_end_def)
  qed
  show new: "exts_ok (xs @ e # ys)" using ok pos x y by (auto simp: exts_ok_append exts_ok_Cons)
  have "leaf_map xs b = None" if "ext_covers e b"
    using x that by (fastforce simp: leaf_map_None_iff ext_covers_def)
  then show "leaf_map (xs @ e # ys) b = (if ext_covers e b then Some (ext_block e b) else leaf_map (xs @ ys) b)"
    by (auto simp: leaf_map_append leaf_map_Cons split: option.split)
qed

text \<open>An element that grows by the new blocks.\<close>

lemma leaf_map_grow:
  assumes ok: "exts_ok (xs @ e # ys)" and new: "ext_fresh n (xs @ e # ys)"
    and m: "ext_first m = min (ext_first e) (ext_first n)" "ext_end m = max (ext_end e) (ext_end n)"
      "ext_len m = ext_len e + ext_len n"
  shows "exts_ok (xs @ m # ys)"
    "leaf_map (xs @ m # ys) b = (if ext_covers n b \<or> ext_covers e b then Some (ext_block m b)
                                 else leaf_map (xs @ e # ys) b)"
proof -
  have pos: "0 < ext_len n" "ext_end n < 2 ^ 32" using new by (simp_all add: ext_fresh_def)
  have E: "0 < ext_len e" "ext_end e < 2 ^ 32" using ok by (auto simp: exts_ok_append exts_ok_Cons)
  have en: "ext_end e \<le> ext_first n \<or> ext_end n \<le> ext_first e"
    using ext_fresh_disjoint [OF new ok, of e] by auto
  have adj: "ext_end e = ext_first n \<or> ext_end n = ext_first e"
    using m en pos E by (auto simp: ext_end_def min_def max_def split: if_splits)
  have x: "ext_end x \<le> ext_first m" if "x \<in> set xs" for x
  proof -
    have "ext_end x \<le> ext_first e" using ok that by (simp add: exts_ok_append exts_ok_Cons)
    moreover have "0 < ext_len x" using ok that by (simp add: exts_ok_def)
    ultimately show ?thesis
      using ext_fresh_disjoint [OF new ok, of x] that pos E adj by (auto simp: m(1) ext_end_def)
  qed
  have y: "ext_end m \<le> ext_first y" if "y \<in> set ys" for y
  proof -
    have "ext_end e \<le> ext_first y" using ok that by (simp add: exts_ok_append exts_ok_Cons)
    moreover have "0 < ext_len y" using ok that by (simp add: exts_ok_def)
    ultimately show ?thesis
      using ext_fresh_disjoint [OF new ok, of y] that pos E adj unfolding m(2) by (auto simp: ext_end_def)
  qed
  show okm: "exts_ok (xs @ m # ys)"
    using ok x y m pos E by (auto simp: exts_ok_append exts_ok_Cons)
  have cov: "ext_covers m b \<longleftrightarrow> ext_covers e b \<or> ext_covers n b"
    using adj m E pos by (auto simp: ext_covers_def ext_end_def)
  have xs: "leaf_map xs b = None" if "ext_covers n b \<or> ext_covers e b"
    using x that cov by (fastforce simp: leaf_map_None_iff ext_covers_def)
  show "leaf_map (xs @ m # ys) b = (if ext_covers n b \<or> ext_covers e b then Some (ext_block m b)
                                 else leaf_map (xs @ e # ys) b)"
    using xs cov by (auto simp: leaf_map_append leaf_map_Cons split: option.split)
qed

section \<open>Merging two extents\<close>

text \<open>An extent with the unwritten mark stored for a length that leaves room for it.\<close>

lemma mark_unwritten:
  assumes "0 < n" "n < 0x8000"
  shows "ext4_ext_is_unwritten (ext4_ext_mark_unwritten (e\<lparr>ee_block_count := of_nat n\<rparr>))"
    "ext_len (ext4_ext_mark_unwritten (e\<lparr>ee_block_count := of_nat n\<rparr>)) = n"
proof -
  have n: "unat (of_nat n :: u16) = n" using assms by (simp add: unat_of_nat)
  have "(of_nat n :: u16) OR 0x8000 = of_nat n + 0x8000"
  proof -
    have "drop_bit 15 (of_nat n :: u16) = 0"
      by (rule word_unat_eq_iff [THEN iffD2]) (use assms n in \<open>simp add: unat_drop_bit\<close>)
    then have "\<not> bit (of_nat n :: u16) 15" by (simp add: bit_iff_odd_drop_bit)
    then have "(of_nat n :: u16) AND 0x8000 = 0"
      using and_exp_eq_0_iff_not_bit [of "of_nat n :: u16" 15] by simp
    then show ?thesis using disjunctive_add_eq_or [of "of_nat n :: u16" "0x8000"] by simp
  qed
  moreover have "unat (of_nat n + 0x8000 :: u16) = n + 0x8000"
    using assms n by (simp add: unat_word_ariths(1))
  ultimately have u: "unat ((of_nat n :: u16) OR 0x8000) = n + 0x8000" by simp
  then show "ext4_ext_is_unwritten (ext4_ext_mark_unwritten (e\<lparr>ee_block_count := of_nat n\<rparr>))"
    using assms(1) by (simp add: ext4_ext_is_unwritten_def ext4_ext_mark_unwritten_def EXT_INIT_MAX_LEN_def
        word_less_nat_alt)
  then show "ext_len (ext4_ext_mark_unwritten (e\<lparr>ee_block_count := of_nat n\<rparr>)) = n"
    using u assms(1) by (simp add: ext_len_def ext4_ext_get_actual_len_def ext4_ext_is_unwritten_def
        ext4_ext_mark_unwritten_def EXT_INIT_MAX_LEN_def not_le unat_minus word_le_nat_alt)
qed

lemma written_len:
  assumes "n \<le> 0x8000"
  shows "\<not> ext4_ext_is_unwritten (e\<lparr>ee_block_count := of_nat n\<rparr>)" "ext_len (e\<lparr>ee_block_count := of_nat n\<rparr>) = n"
  using assms
  by (simp_all add: ext4_ext_is_unwritten_def ext_len_def ext4_ext_get_actual_len_def EXT_INIT_MAX_LEN_def
      word_less_nat_alt word_le_nat_alt unat_of_nat)

text \<open>What both merged extents have: the length of both, and the state of the first one.\<close>

lemma merged_len:
  fixes f :: u32
  assumes "\<not> lens_too_long e n" "0 < ext_len e"
  defines "m \<equiv> (\<lambda>e'. if ext4_ext_is_unwritten e then ext4_ext_mark_unwritten e' else e')
     (e\<lparr>ee_first_block := f, ee_block_count := ext4_ext_get_actual_len e + ext4_ext_get_actual_len n\<rparr>)"
  shows "ext_len m = ext_len e + ext_len n" "ext4_ext_is_unwritten m = ext4_ext_is_unwritten e"
    "ext4_ext_pblock m = ext4_ext_pblock e" "ee_first_block m = f"
proof -
  let ?n = "ext_len e + ext_len n" and ?e = "e\<lparr>ee_first_block := f\<rparr>"
  have sum: "ext4_ext_get_actual_len e + ext4_ext_get_actual_len n = of_nat ?n"
    by (simp add: ext_len_def)
  have le: "?n \<le> 0x8000" "ext4_ext_is_unwritten e \<Longrightarrow> ?n < 0x8000"
    using assms(1) by (auto simp: lens_too_long_def ext_len_def EXT_UNWRITTEN_MAX_LEN_def EXT_INIT_MAX_LEN_def split: if_splits)
  show "ext_len m = ?n" "ext4_ext_is_unwritten m = ext4_ext_is_unwritten e"
    using mark_unwritten [of ?n ?e] written_len [of ?n ?e] le assms(2) by (auto simp: m_def sum)
  show "ext4_ext_pblock m = ext4_ext_pblock e" "ee_first_block m = f"
    by (simp_all add: m_def ext4_ext_mark_unwritten_def ext4_ext_pblock_def)
qed

lemma appended:
  assumes can: "ext4_ext_can_append e n" and e: "0 < ext_len e" "ext_end e < 2 ^ 32"
  shows "ext_first (ext_appended e n) = ext_first e" "ext_len (ext_appended e n) = ext_len e + ext_len n"
    "ext4_ext_pblock (ext_appended e n) = ext4_ext_pblock e"
    "ext4_ext_is_unwritten (ext_appended e n) = ext4_ext_is_unwritten e"
    "ext_first n = ext_end e" "ext4_ext_pblock n = ext4_ext_pblock e + of_nat (ext_len e)"
proof -
  have c: "\<not> lens_too_long e n" "ee_first_block e + ucast (ext4_ext_get_actual_len e) = ee_first_block n"
    "ext4_ext_pblock e + ucast (ext4_ext_get_actual_len e) = ext4_ext_pblock n"
    using can by (auto simp: ext4_ext_can_append_def split: if_splits)
  have "ext_appended e n = (\<lambda>e'. if ext4_ext_is_unwritten e then ext4_ext_mark_unwritten e' else e')
     (e\<lparr>ee_first_block := ee_first_block e, ee_block_count := ext4_ext_get_actual_len e + ext4_ext_get_actual_len n\<rparr>)"
    by (simp add: ext_appended_def Let_def)
  then show "ext_first (ext_appended e n) = ext_first e" "ext_len (ext_appended e n) = ext_len e + ext_len n"
    "ext4_ext_pblock (ext_appended e n) = ext4_ext_pblock e"
    "ext4_ext_is_unwritten (ext_appended e n) = ext4_ext_is_unwritten e"
    using merged_len [OF c(1) e(1), of "ee_first_block e"] by (simp_all add: ext_first_def)
  show "ext_first n = ext_end e"
    using c(2) [symmetric] e(2) by (simp add: ext_first_def ext_end_def ext_len_def unat_word_ariths(1) unat_ucast_up_eq)
  show "ext4_ext_pblock n = ext4_ext_pblock e + of_nat (ext_len e)"
    using c(3) [symmetric] by (simp add: ext_len_def)
qed

text \<open>The other merge keeps the first physical block of the extent that starts earlier now.\<close>

lemma prepended:
  assumes can: "ext4_ext_can_prepend e n" and e: "0 < ext_len e" "ext_end n < 2 ^ 32"
  shows "ext_first (ext_prepended e n) = ext_first n" "ext_len (ext_prepended e n) = ext_len e + ext_len n"
    "ext4_ext_pblock (ext_prepended e n) = ext4_ext_pblock e"
    "ext4_ext_is_unwritten (ext_prepended e n) = ext4_ext_is_unwritten e"
    "ext_first e = ext_end n" "ext4_ext_pblock e = ext4_ext_pblock n + of_nat (ext_len n)"
proof -
  have c: "\<not> lens_too_long e n" "ee_first_block n + ucast (ext4_ext_get_actual_len n) = ee_first_block e"
    "ext4_ext_pblock n + ucast (ext4_ext_get_actual_len n) = ext4_ext_pblock e"
    using can by (auto simp: ext4_ext_can_prepend_def split: if_splits)
  have "ext_prepended e n = (\<lambda>e'. if ext4_ext_is_unwritten e then ext4_ext_mark_unwritten e' else e')
     (e\<lparr>ee_first_block := ee_first_block n, ee_block_count := ext4_ext_get_actual_len e + ext4_ext_get_actual_len n\<rparr>)"
    by (simp add: ext_prepended_def Let_def ext4_ext_get_actual_len_def)
  then show "ext_first (ext_prepended e n) = ext_first n" "ext_len (ext_prepended e n) = ext_len e + ext_len n"
    "ext4_ext_pblock (ext_prepended e n) = ext4_ext_pblock e"
    "ext4_ext_is_unwritten (ext_prepended e n) = ext4_ext_is_unwritten e"
    using merged_len [OF c(1) e(1), of "ee_first_block n"] by (simp_all add: ext_first_def)
  show "ext_first e = ext_end n"
    using c(2) [symmetric] e(2) by (simp add: ext_first_def ext_end_def ext_len_def unat_word_ariths(1) unat_ucast_up_eq)
  show "ext4_ext_pblock e = ext4_ext_pblock n + of_nat (ext_len n)"
    using c(3) [symmetric] by (simp add: ext_len_def)
qed

end
