(* ===== verification/Extent_Root.thy ===== *)
theory Extent_Root
  imports Extent_Ops Extent_List
begin

text \<open>
  The extent tree of an inode whose extents all lie in the inode itself: what looking a block up,
  inserting an extent and converting part of an unwritten extent do to the map that the tree
  stands for. No block has to be read for such a tree, so the operations have no I/O errors.
\<close>

section \<open>The root node\<close>

definition root_bytes :: "'d ext4_fs \<Rightarrow> ext4_inode_ref \<Rightarrow> bytes" where
  "root_bytes fs ir = node_bytes fs (ext_inode_hdr ir)"

definition root_ok :: "'d ext4_fs \<Rightarrow> ext4_inode_ref \<Rightarrow> bool" where
  "root_ok fs ir \<longleftrightarrow> ext_depth fs ir = 0 \<and> node_ok (root_bytes fs ir) \<and> exts_ok (node_exts (root_bytes fs ir))"

lemma root_okD:
  "root_ok fs ir \<Longrightarrow> ext_depth fs ir = 0" "root_ok fs ir \<Longrightarrow> node_ok (root_bytes fs ir)"
  "root_ok fs ir \<Longrightarrow> exts_ok (node_exts (root_bytes fs ir))"
  by (simp_all add: root_ok_def)

text \<open>A store to a node is read back.\<close>

lemma fs_data_store [simp]: "fs_data (fs_store fs b data) b = data"
  by (simp add: fs_data_def fs_store_def blk_bytes_def blk_put_def buf_at_upd)

lemma node_bytes_upd:
  assumes "node_bytes fs nd \<noteq> []"
  shows "node_bytes (node_upd f fs nd) nd = f (node_bytes fs nd)"
proof -
  have "en_off nd < length (fs_data fs (en_block nd))" using assms by (simp add: node_bytes_def)
  then show ?thesis by (simp add: node_bytes_def node_upd_def)
qed

lemma node_upd_fields [simp]: "fs_sb (node_upd f fs nd) = fs_sb fs"
  by (simp add: node_upd_def fs_store_def)

lemma node_upd_heap [simp]: "fs_can_malloc (node_upd f fs nd) = fs_can_malloc fs"
  by (simp add: fs_can_malloc_def node_upd_def fs_store_def blk_put_def upd_bc_def upd_buf_def Let_def split: option.split)

lemma root_dirty [simp]:
  "ext_inode_hdr (ir\<lparr>ir_dirty := d\<rparr>) = ext_inode_hdr ir" "root_bytes fs (ir\<lparr>ir_dirty := d\<rparr>) = root_bytes fs ir"
  by (simp_all add: ext_inode_hdr_def root_bytes_def)

lemma root_bytes_upd:
  assumes "node_ok (root_bytes fs ir)"
  shows "root_bytes (node_upd f fs (ext_inode_hdr ir)) ir = f (root_bytes fs ir)"
proof -
  have "node_bytes fs (ext_inode_hdr ir) \<noteq> []" using node_okD(1) [OF assms] by (auto simp: root_bytes_def)
  then show ?thesis by (simp add: root_bytes_def node_bytes_upd)
qed

lemma ext_depth_root: "ext_depth fs ir = eh_depth (ext4_extent_header_of (root_bytes fs ir))"
  by (simp add: ext_depth_def root_bytes_def)

section \<open>Paths in the root\<close>

definition root_path :: "'d ext4_fs \<Rightarrow> ext4_inode_ref \<Rightarrow> nat option \<Rightarrow> ext_path" where
  "root_path fs ir ex =
     [\<lparr>p_block = (case ex of None \<Rightarrow> 0 | Some e \<Rightarrow> ext4_ext_pblock (ext_at (root_bytes fs ir) e)),
       p_blk = EXT4_BLOCK_ZERO, p_depth = 0, p_maxdepth = 1, p_header = Some (ext_inode_hdr ir),
       p_index = None, p_extent = ex\<rparr>, path_zero]"

text \<open>A request for memory leaves everything but the heap.\<close>

lemma fs_asked_simps [simp]:
  "fs_sb (fs_asked fs) = fs_sb fs" "fs_data (fs_asked fs) = fs_data fs" "node_bytes (fs_asked fs) = node_bytes fs"
  "root_bytes (fs_asked fs) = root_bytes fs" "ext_depth (fs_asked fs) = ext_depth fs"
  "root_path (fs_asked fs) = root_path fs" "root_ok (fs_asked fs) = root_ok fs"
proof -
  show d: "fs_data (fs_asked fs) = fs_data fs"
    by (simp add: fs_data_def blk_bytes_def fs_asked_def buf_at_def fun_eq_iff)
  show n: "node_bytes (fs_asked fs) = node_bytes fs" by (simp add: node_bytes_def d fun_eq_iff)
  show "fs_sb (fs_asked fs) = fs_sb fs" by (simp add: fs_asked_def)
  show r: "root_bytes (fs_asked fs) = root_bytes fs" by (simp add: root_bytes_def n fun_eq_iff)
  show e: "ext_depth (fs_asked fs) = ext_depth fs" by (simp add: ext_depth_root r fun_eq_iff)
  show "root_path (fs_asked fs) = root_path fs" by (intro ext) (simp add: root_path_def r split: option.split)
  show "root_ok (fs_asked fs) = root_ok fs" by (simp add: root_ok_def e r fun_eq_iff)
qed

lemma find_extent_root:
  assumes "ext_depth fs ir = 0"
  shows "ext4_find_extent fs ir block None =
    Some (if fs_can_malloc fs
          then (EOK, fs_asked fs, Some (root_path fs ir (ext4_ext_binsearch (root_bytes fs ir) block)))
          else (ENOMEM, fs_asked fs, None))"
  using assms
  by (simp add: ext4_find_extent_def fs_malloc_def path_upd_def path_zero_def root_path_def root_bytes_def [symmetric]
      numeral_2_eq_2 Let_def split: option.split)

lemma root_path_simps [simp]:
  "p_header (root_path fs ir ex ! 0) = Some (ext_inode_hdr ir)"
  "p_extent (root_path fs ir ex ! 0) = ex" "p_depth (root_path fs ir ex ! 0) = 0"
  "blk_lb_id (p_blk (root_path fs ir ex ! 0)) = 0"
  by (simp_all add: root_path_def EXT4_BLOCK_ZERO_def)

lemma drop_refs_root:
  assumes "p_depth (path ! 0) = 0" "blk_lb_id (p_blk (path ! 0)) = 0"
  shows "ext4_ext_drop_refs fs ir path 0 False = Some (fs, path)"
  using assms by (simp add: ext4_ext_drop_refs_def)

section \<open>Looking a block up\<close>

lemma unat_len32 [simp]: "unat (ucast (ext4_ext_get_actual_len e) :: u32) = ext_len e"
  by (simp add: ext_len_def unat_ucast_up_eq)

lemma in_range_covers:
  assumes "0 < ext_len e" "ext_end e < 2 ^ 32"
  shows "IN_RANGE b (ee_first_block e) (ucast (ext4_ext_get_actual_len e)) \<longleftrightarrow> ext_covers e (unat b)"
proof -
  let ?f = "ee_first_block e" and ?l = "ucast (ext4_ext_get_actual_len e) :: u32"
  have sum: "unat (?f + ?l) = ext_end e"
    using assms by (simp add: unat_word_ariths(1) ext_end_def ext_first_def)
  have "1 \<le> ?f + ?l" using assms(1) sum by (simp add: word_le_nat_alt ext_end_def)
  then have "unat (?f + ?l - 1) = ext_end e - 1" using unat_minus [of 1 "?f + ?l"] sum by simp
  then show ?thesis
    using assms by (auto simp: IN_RANGE_def ext_covers_def ext_first_def word_le_nat_alt ext_end_def)
qed

text \<open>The number of blocks from \<open>b\<close> to the end of its extent.\<close>

definition leaf_run :: "ext4_extent list \<Rightarrow> nat \<Rightarrow> nat" where
  "leaf_run es b = (case find (\<lambda>e. ext_covers e b) es of None \<Rightarrow> 0 | Some e \<Rightarrow> ext_end e - b)"

lemma leaf_run_nth:
  assumes ok: "exts_ok es" and i: "i < length es" "ext_covers (es ! i) b"
  shows "leaf_run es b = ext_end (es ! i) - b"
  using leaf_map_nth [OF assms] find_covering [OF assms] by (simp add: leaf_run_def)

lemma lookup_root:
  assumes ok: "root_ok fs ir"
  shows "ext4_extent_get_blocks fs ir iblock max_blocks False = Some
    (if \<not> fs_can_malloc fs then (ENOMEM, fs_asked fs, ir, 0, 0)
     else (EOK, fs_asked fs, ir,
      (case leaf_map (node_exts (root_bytes fs ir)) (unat iblock) of
         Some (pblock, unwritten) \<Rightarrow> if unwritten then 0 else pblock
       | None \<Rightarrow> 0),
      min max_blocks (of_nat (leaf_run (node_exts (root_bytes fs ir)) (unat iblock)))))"
proof -
  let ?bs = "root_bytes fs ir"
  note D = root_okD [OF ok]
  let ?ex = "ext4_ext_binsearch ?bs iblock"
  note S = binsearch_spec [OF D(3), of iblock]
  have drop: "ext4_ext_drop_refs (fs_asked fs) ir (root_path fs ir ?ex) 0 False = Some (fs_asked fs, root_path fs ir ?ex)"
    by (rule drop_refs_root) simp_all
  have d0: "unat (ext_depth fs ir) = 0" using D(1) by simp
  show ?thesis
  proof (cases "fs_can_malloc fs")
    case False
    then show ?thesis by (simp add: ext4_extent_get_blocks_def find_extent_root D(1))
  next
    case heap: True
    show ?thesis
  proof (cases "\<exists>i. ?ex = Some i \<and> ext_covers (ext_at ?bs i) (unat iblock)")
    case True
    then obtain i where i: "?ex = Some i" "ext_covers (ext_at ?bs i) (unat iblock)" by blast
    let ?e = "ext_at ?bs i"
    have n: "i < node_count ?bs" using S i by simp
    then have e: "0 < ext_len ?e" "ext_end ?e < 2 ^ 32"
      using D(3) by (auto simp: exts_ok_def node_exts_def)
    have le: "ee_first_block ?e \<le> iblock" "unat iblock < ext_end ?e"
      using i(2) by (auto simp: ext_covers_def ext_first_def word_le_nat_alt)
    have off: "unat (iblock - ee_first_block ?e) = unat iblock - ext_first ?e"
      using le(1) by (simp add: unat_minus ext_first_def)
    have "iblock - ee_first_block ?e \<le> ucast (ext4_ext_get_actual_len ?e)"
      using le e by (simp add: word_le_nat_alt off ext_end_def)
    then have "unat (ucast (ext4_ext_get_actual_len ?e) - (iblock - ee_first_block ?e)) = ext_end ?e - unat iblock"
      using le i(2) by (simp add: unat_minus off ext_end_def ext_covers_def)
    from this [symmetric] have run: "ucast (ext4_ext_get_actual_len ?e) - (iblock - ee_first_block ?e)
        = of_nat (ext_end ?e - unat iblock)" by simp
    have pb: "ucast (iblock - ee_first_block ?e) + ext4_ext_pblock ?e =
        ext4_ext_pblock ?e + of_nat (unat iblock - ext_first ?e)"
      by (simp add: off [symmetric] add.commute)
    have map: "leaf_map (node_exts ?bs) (unat iblock) = Some (ext_block ?e (unat iblock))"
      "leaf_run (node_exts ?bs) (unat iblock) = ext_end ?e - unat iblock"
      using leaf_map_nth [OF D(3), of i "unat iblock"] leaf_run_nth [OF D(3), of i "unat iblock"] n i(2)
      by (simp_all add: node_exts_nth)
    have mn: "(if max_blocks < r then max_blocks else r) = min max_blocks r" for r by (auto simp: min_def)
    show ?thesis
      using i(2) e
      by (simp add: heap ext4_extent_get_blocks_def find_extent_root D(1) i(1) d0 in_range_covers run pb map ext_block_def
          get_blocks_out_def drop [unfolded i(1)] mn root_bytes_def [symmetric])
  next
    case False
    then have none: "leaf_map (node_exts ?bs) (unat iblock) = None"
      using binsearch_lookup [OF D(3), of iblock] by (auto split: option.splits)
    then have run: "leaf_run (node_exts ?bs) (unat iblock) = 0" by (simp add: leaf_run_def leaf_map_def)
    show ?thesis
    proof (cases ?ex)
      case None
      then show ?thesis
        by (simp add: heap ext4_extent_get_blocks_def find_extent_root D(1) none run d0 get_blocks_out_def drop [unfolded None])
    next
      case (Some i)
      then have "\<not> IN_RANGE iblock (ee_first_block (ext_at ?bs i)) (ucast (ext4_ext_get_actual_len (ext_at ?bs i)))"
        using False S D(3) by (auto simp: in_range_covers exts_ok_def node_exts_def)
      then show ?thesis
        by (simp add: heap ext4_extent_get_blocks_def find_extent_root D(1) none run d0 get_blocks_out_def Some
            drop [unfolded Some] root_bytes_def [symmetric])
    qed
  qed
qed
qed

section \<open>Inserting an extent\<close>

text \<open>
  C10: For an inode whose extents lie in the inode itself (a tree of depth 0), \<open>ext4_extent_get_blocks\<close>
  without \<open>create\<close> is the lookup in the map that these extents stand for: a written block is answered with
  its physical block and the number of blocks that follow in its extent, at most as many as asked for, an
  unwritten one with block 0, a hole with no block at all. The search ends and needs no block of the device;
  it asks the heap once, for the path, and answers \<open>ENOMEM\<close> and no block exactly when that fails. Nothing but
  the heap is changed.
\<close>

theorem extent_lookup_root:
  assumes ok: "root_ok fs ir"
  shows "ext4_extent_get_blocks fs ir iblock max_blocks False = Some
    (if \<not> fs_can_malloc fs then (ENOMEM, fs_asked fs, ir, 0, 0)
     else (EOK, fs_asked fs, ir,
      (case leaf_map (node_exts (root_bytes fs ir)) (unat iblock) of
         Some (pblock, unwritten) \<Rightarrow> if unwritten then 0 else pblock
       | None \<Rightarrow> 0),
      min max_blocks (of_nat (leaf_run (node_exts (root_bytes fs ir)) (unat iblock)))))"
  by (rule lookup_root [OF ok])

text \<open>The three outcomes of \<open>ext4_ext_insert_leaf\<close> in a root with room.\<close>

lemma insert_leaf_merge:
  assumes ok: "node_ok (root_bytes fs ir)" and ex: "ex = Some i" "i < node_count (root_bytes fs ir)"
    and first: "ee_first_block new \<noteq> ee_first_block (ext_at (root_bytes fs ir) i)"
    and combine: "flags AND EXT4_EXT_NO_COMBINE = 0"
  shows "ext4_ext_can_append (ext_at (root_bytes fs ir) i) new \<Longrightarrow>
    \<exists>fs' path'. ext4_ext_insert_leaf fs ir (root_path fs ir ex) 0 new flags =
        Some (EOK, fs', ir\<lparr>ir_dirty := True\<rparr>, path', False) \<and>
      root_bytes fs' ir = ext_put i (ext_appended (ext_at (root_bytes fs ir) i) new) (root_bytes fs ir) \<and>
      fs_can_malloc fs' = fs_can_malloc fs"
    and "\<not> ext4_ext_can_append (ext_at (root_bytes fs ir) i) new \<Longrightarrow>
      ext4_ext_can_prepend (ext_at (root_bytes fs ir) i) new \<Longrightarrow>
    \<exists>fs' path'. ext4_ext_insert_leaf fs ir (root_path fs ir ex) 0 new flags =
        Some (EOK, fs', ir\<lparr>ir_dirty := True\<rparr>, path', False) \<and>
      root_bytes fs' ir = ext_put i (ext_prepended (ext_at (root_bytes fs ir) i) new) (root_bytes fs ir) \<and>
      fs_can_malloc fs' = fs_can_malloc fs"
  using first combine
  by (simp_all add: ext4_ext_insert_leaf_def ex(1) root_bytes_def [symmetric] ext4_ext_dirty_def root_bytes_upd [OF ok]
      Let_def)

definition leaf_slot :: "bytes \<Rightarrow> nat option \<Rightarrow> ext4_extent \<Rightarrow> nat" where
  "leaf_slot eh ex new =
     (case ex of None \<Rightarrow> 0
      | Some i \<Rightarrow> if ee_first_block new > ee_first_block (ext_at eh i) then i + 1 else i)"

lemma insert_leaf_new:
  assumes ok: "node_ok (root_bytes fs ir)" and d: "ext_depth fs ir = 0"
    and ex: "case ex of None \<Rightarrow> node_count (root_bytes fs ir) = 0
             | Some i \<Rightarrow> i < node_count (root_bytes fs ir) \<and>
                 ee_first_block new \<noteq> ee_first_block (ext_at (root_bytes fs ir) i) \<and>
                 (flags AND EXT4_EXT_NO_COMBINE = 0 \<longrightarrow>
                    \<not> ext4_ext_can_append (ext_at (root_bytes fs ir) i) new \<and>
                    \<not> ext4_ext_can_prepend (ext_at (root_bytes fs ir) i) new)"
    and room: "node_count (root_bytes fs ir) < node_max (root_bytes fs ir)"
  defines "k \<equiv> leaf_slot (root_bytes fs ir) ex new"
  shows "\<exists>fs'. ext4_ext_insert_leaf fs ir (root_path fs ir ex) 0 new flags =
        Some (EOK, fs', ir\<lparr>ir_dirty := True\<rparr>, root_path fs' ir (Some k), False) \<and>
      k \<le> node_count (root_bytes fs ir) \<and>
      root_bytes fs' ir = ext_insert k new
        (if node_count (root_bytes fs ir) - k > 0
         then entries_move (k + 1) k (node_count (root_bytes fs ir) - k) (root_bytes fs ir)
         else root_bytes fs ir)"
proof -
  let ?bs = "root_bytes fs ir"
  define bs1 where
    "bs1 = (if node_count ?bs - k > 0 then entries_move (k + 1) k (node_count ?bs - k) ?bs else ?bs)"
  define fs1 where "fs1 = (if node_count ?bs - k > 0
     then node_upd (entries_move (k + 1) k (node_count ?bs - k)) fs (ext_inode_hdr ir) else fs)"
  define fs2 where "fs2 = node_upd (ext_insert k new) fs1 (ext_inode_hdr ir)"
  let ?path = "path_upd 0 (\<lambda>p. p\<lparr>p_extent := (case p_extent p of None \<Rightarrow> Some k | Some i \<Rightarrow> Some i)\<rparr>) (root_path fs ir ex)"
  have k: "k \<le> node_count ?bs" using ex by (auto simp: k_def leaf_slot_def split: option.splits)
  note N = node_insert(1-4,6) [OF ok k room, of new, folded bs1_def] node_insert(5) [OF ok k room, folded bs1_def]
  have b1: "root_bytes fs1 ir = bs1" by (simp add: fs1_def bs1_def root_bytes_upd [OF ok])
  have b2: "root_bytes fs2 ir = ext_insert k new bs1"
    using root_bytes_upd [of fs1 ir "ext_insert k new"] N(6) by (simp add: b1 fs2_def)
  have depth: "ext_depth fs2 ir = 0" using d by (simp add: ext_depth_root b2 N(5))
  have ci: "ext4_ext_correct_indexes fs2 ir ?path = Some (EOK, fs2, ir)"
    by (simp add: ext4_ext_correct_indexes_def depth path_upd_def root_path_def split: option.split)
  have cnt: "\<not> k + 1 > node_count (root_bytes fs2 ir)" "\<not> k + 1 > node_max ?bs" "\<not> k > node_count ?bs"
    using k room by (simp_all add: b2 N(4))
  have "ext4_ext_insert_leaf fs ir (root_path fs ir ex) 0 new flags =
      Some (EOK, fs2, ir\<lparr>ir_dirty := True\<rparr>, root_path fs2 ir (Some k), False)"
  proof -
    have path: "leaf_done fs2 (ext_inode_hdr ir) 0 k ?path = root_path fs2 ir (Some k)"
      by (simp add: leaf_done_def path_upd_def root_path_def root_bytes_def)
    have slot: "(case ex of None \<Rightarrow> 0 | Some i \<Rightarrow>
        if ee_first_block (ext_at ?bs i) < ee_first_block new then i + 1 else i) = k"
      by (simp add: k_def leaf_slot_def)
    have no: "\<not> (case map_option (ext_at ?bs) ex of None \<Rightarrow> False | Some e \<Rightarrow> ee_first_block new = ee_first_block e)"
      "\<not> (flags AND EXT4_EXT_NO_COMBINE = 0 \<and>
          (case map_option (ext_at ?bs) ex of None \<Rightarrow> False | Some e \<Rightarrow> ext4_ext_can_append e new))"
      "\<not> (flags AND EXT4_EXT_NO_COMBINE = 0 \<and>
          (case map_option (ext_at ?bs) ex of None \<Rightarrow> False | Some e \<Rightarrow> ext4_ext_can_prepend e new))"
      using ex by (auto split: option.splits)
    have full: "node_count ?bs \<noteq> node_max ?bs" using room by simp
    have dirty: "ext4_ext_dirty fs2 ir (?path ! 0) = Some (fs2, ir\<lparr>ir_dirty := True\<rparr>)"
      by (simp add: ext4_ext_dirty_def path_upd_def root_path_def EXT4_BLOCK_ZERO_def)
    show ?thesis
      unfolding ext4_ext_insert_leaf_def root_path_simps root_bytes_def [symmetric] Let_def Option.bind.bind_lunit if_not_P [OF no(1)]
        if_not_P [OF no(2)] if_not_P [OF no(3)] if_not_P [OF full] slot if_not_P [OF cnt(3)] if_not_P [OF cnt(2)]
        fs1_def [symmetric] fs2_def [symmetric] if_not_P [OF cnt(1)] ci
      by (simp add: dirty path)
  qed
  with k b2 show ?thesis by (auto simp: bs1_def)
qed

lemma insert_extent_done:
  assumes "ext_depth fs ir = 0" "ext4_ext_insert_leaf fs ir path 0 new flags = Some (EOK, fs', ir', path', False)"
  shows "ext4_ext_insert_extent fs ir path new flags = Some (EOK, fs', ir', path')"
  using assms by (simp add: ext4_ext_insert_extent_def insert_extent_loop.simps insert_extent_turn_def)

text \<open>The search stops at the extent before the place of a new extent.\<close>

lemma split_at_nth: "i < length xs \<Longrightarrow> xs = take i xs @ xs ! i # drop (Suc i) xs"
  by (rule id_take_nth_drop)

lemma slot_place:
  assumes ok: "exts_ok (node_exts eh)" and new: "ext_fresh new (node_exts eh)"
    and ex: "ex = ext4_ext_binsearch eh (ee_first_block new)"
  defines "k \<equiv> leaf_slot eh ex new"
  shows "\<forall>x \<in> set (take k (node_exts eh)). ext_first x \<le> ext_first new"
    "\<forall>y \<in> set (drop k (node_exts eh)). ext_first new \<le> ext_first y"
    "ex = Some i \<Longrightarrow> ee_first_block new \<noteq> ee_first_block (ext_at eh i)"
proof -
  note S = binsearch_spec [OF ok, of "ee_first_block new", folded ex]
  show ne: "ee_first_block new \<noteq> ee_first_block (ext_at eh i)" if "ex = Some i" for i
  proof
    assume "ee_first_block new = ee_first_block (ext_at eh i)"
    moreover have "ext_at eh i \<in> set (node_exts eh)" using S that by (auto simp: node_exts_def)
    ultimately show False
      using ext_fresh_disjoint [OF new ok, of "ext_at eh i"] new ok
      by (auto simp: ext_fresh_def exts_ok_def ext_end_def ext_first_def)
  qed
  have below: "ext_first (ext_at eh j) \<le> ext_first new" if j: "j < k" "j < node_count eh" for j
  proof (cases ex)
    case (Some i)
    show ?thesis
    proof (cases "j = 0")
      case True
      then have "i = 0 \<Longrightarrow> ee_first_block (ext_at eh 0) < ee_first_block new"
        using j(1) by (auto simp: k_def leaf_slot_def Some split: if_splits)
      moreover have "ee_first_block (ext_at eh 0) \<le> ee_first_block (ext_at eh i)"
        using exts_ok_first_mono [OF ok, of 0 i] S Some by (simp add: node_exts_nth)
      moreover have "0 < i \<Longrightarrow> ee_first_block (ext_at eh i) \<le> ee_first_block new" using S Some by simp
      ultimately show ?thesis using True by (cases "i = 0") (auto simp: ext_first_def word_le_nat_alt word_less_nat_alt)
    next
      case False
      have "j \<le> i" using j(1) by (auto simp: k_def leaf_slot_def Some split: if_splits)
      then show ?thesis using S Some False by (simp add: ext_first_def word_le_nat_alt)
    qed
  qed (use j in \<open>simp add: k_def leaf_slot_def\<close>)
  have above: "ext_first new \<le> ext_first (ext_at eh j)" if j: "k \<le> j" "j < node_count eh" for j
  proof (cases ex)
    case None
    then show ?thesis using S j by simp
  next
    case (Some i)
    then consider "i < j" | "j = i" "ee_first_block new \<le> ee_first_block (ext_at eh i)"
      using j(1) by (force simp: k_def leaf_slot_def split: if_splits)
    then show ?thesis
    proof cases
      case 1
      with S Some j(2) have "ee_first_block new < ee_first_block (ext_at eh j)" by simp
      then show ?thesis by (simp add: ext_first_def word_less_nat_alt)
    next
      case 2
      then show ?thesis by (simp add: ext_first_def word_le_nat_alt)
    qed
  qed
  show "\<forall>x \<in> set (take k (node_exts eh)). ext_first x \<le> ext_first new"
    using below by (auto simp: in_set_conv_nth node_exts_nth)
  show "\<forall>y \<in> set (drop k (node_exts eh)). ext_first new \<le> ext_first y"
    using above by (auto simp: in_set_conv_nth node_exts_nth)
qed

text \<open>The state after a store that made \<open>bs'\<close> of the root.\<close>

lemma root_okI:
  assumes "ext_depth fs ir = 0" "eh_depth (ext4_extent_header_of bs') = eh_depth (ext4_extent_header_of (root_bytes fs ir))"
    and "root_bytes fs' ir = bs'" "node_ok bs'" "exts_ok (node_exts bs')"
  shows "root_ok fs' (ir\<lparr>ir_dirty := d\<rparr>)" "ext_depth fs' ir = 0"
  using assms by (simp_all add: root_ok_def ext_depth_root)

definition may_combine :: "u32 \<Rightarrow> ext4_extent \<Rightarrow> ext4_extent \<Rightarrow> bool" where
  "may_combine flags e new \<longleftrightarrow> flags AND EXT4_EXT_NO_COMBINE = 0 \<and>
     (ext4_ext_can_append e new \<or> ext4_ext_can_prepend e new)"

text \<open>
  Merging: the blocks of both extents are mapped from the start of the extent that was there, in
  its state.
\<close>

lemma insert_merge:
  assumes ok: "root_ok fs ir" and new: "ext_fresh new (node_exts (root_bytes fs ir))"
    and ex: "ext4_ext_binsearch (root_bytes fs ir) (ee_first_block new) = Some i"
    and can: "flags AND EXT4_EXT_NO_COMBINE = 0"
      "ext4_ext_can_append (ext_at (root_bytes fs ir) i) new \<and> m = ext_appended (ext_at (root_bytes fs ir) i) new \<or>
       \<not> ext4_ext_can_append (ext_at (root_bytes fs ir) i) new \<and>
         ext4_ext_can_prepend (ext_at (root_bytes fs ir) i) new \<and> m = ext_prepended (ext_at (root_bytes fs ir) i) new"
  obtains fs' path' where
    "ext4_ext_insert_extent fs ir (root_path fs ir (Some i)) new flags = Some (EOK, fs', ir\<lparr>ir_dirty := True\<rparr>, path')"
    "root_ok fs' (ir\<lparr>ir_dirty := True\<rparr>)"
    "\<And>b. leaf_map (node_exts (root_bytes fs' ir)) b =
       (if ext_covers new b \<or> ext_covers (ext_at (root_bytes fs ir) i) b then Some (ext_block m b)
        else leaf_map (node_exts (root_bytes fs ir)) b)"
    "\<And>b. ext_covers (ext_at (root_bytes fs ir) i) b \<Longrightarrow>
       leaf_map (node_exts (root_bytes fs ir)) b = Some (ext_block (ext_at (root_bytes fs ir) i) b)"
    "fs_can_malloc fs' = fs_can_malloc fs"
proof -
  let ?bs = "root_bytes fs ir" and ?e = "ext_at (root_bytes fs ir) i"
  note D = root_okD [OF ok]
  have i: "i < node_count ?bs" using binsearch_spec [OF D(3), of "ee_first_block new"] ex by simp
  obtain xs ys where es: "node_exts ?bs = xs @ ?e # ys" and xs: "length xs = i"
    using split_at_nth [of i "node_exts ?bs"] i by (force simp: node_exts_nth)
  have e: "0 < ext_len ?e" "ext_end ?e < 2 ^ 32" using D(3) i by (auto simp: exts_ok_def node_exts_def)
  have n: "ext_end new < 2 ^ 32" using new by (simp add: ext_fresh_def)
  have m: "ext_first m = min (ext_first ?e) (ext_first new)" "ext_end m = max (ext_end ?e) (ext_end new)"
    "ext_len m = ext_len ?e + ext_len new"
  proof (atomize (full), cases "ext4_ext_can_append ?e new")
    case True
    then show "ext_first m = min (ext_first ?e) (ext_first new) \<and> ext_end m = max (ext_end ?e) (ext_end new) \<and>
        ext_len m = ext_len ?e + ext_len new"
      using can(2) appended [OF True e] by (simp add: ext_end_def)
  next
    case False
    then have "ext4_ext_can_prepend ?e new" "m = ext_prepended ?e new" using can(2) by simp_all
    with prepended [OF this(1) e(1) n]
    show "ext_first m = min (ext_first ?e) (ext_first new) \<and> ext_end m = max (ext_end ?e) (ext_end new) \<and>
        ext_len m = ext_len ?e + ext_len new"
      by (simp add: ext_end_def)
  qed
  obtain fs' path' where leaf: "ext4_ext_insert_leaf fs ir (root_path fs ir (Some i)) 0 new flags =
      Some (EOK, fs', ir\<lparr>ir_dirty := True\<rparr>, path', False)" and bs': "root_bytes fs' ir = ext_put i m ?bs"
    and heap: "fs_can_malloc fs' = fs_can_malloc fs"
    using insert_leaf_merge [OF D(2) refl i slot_place(3) [OF D(3) new ex [symmetric] refl] can(1)] can(2) by blast
  note P = node_put [OF D(2) i, of m]
  have es': "node_exts (ext_put i m ?bs) = xs @ m # ys"
    using list_update_length [of xs ?e ys m] by (simp add: P(2) es xs)
  note G = leaf_map_grow [OF D(3) [unfolded es] new [unfolded es] m, folded es es']
  show ?thesis
  proof (rule that [OF insert_extent_done [OF D(1) leaf]])
    show "root_ok fs' (ir\<lparr>ir_dirty := True\<rparr>)" by (rule root_okI [OF D(1) P(5) bs' P(1) G(1)])
    show "leaf_map (node_exts (root_bytes fs' ir)) b =
       (if ext_covers new b \<or> ext_covers ?e b then Some (ext_block m b) else leaf_map (node_exts ?bs) b)" for b
      using G(2) by (simp add: bs')
    show "leaf_map (node_exts ?bs) b = Some (ext_block ?e b)" if "ext_covers ?e b" for b
      using leaf_map_nth [OF D(3), of i b] i that by (simp add: node_exts_nth)
    show "fs_can_malloc fs' = fs_can_malloc fs" by (rule heap)
  qed
qed

text \<open>Storing a new entry.\<close>

lemma insert_new:
  assumes ok: "root_ok fs ir" and new: "ext_fresh new (node_exts (root_bytes fs ir))"
    and room: "node_count (root_bytes fs ir) < node_max (root_bytes fs ir)"
    and ex: "ex = ext4_ext_binsearch (root_bytes fs ir) (ee_first_block new)"
    and no: "\<And>i. ex = Some i \<Longrightarrow> \<not> may_combine flags (ext_at (root_bytes fs ir) i) new"
  obtains fs' path' where
    "ext4_ext_insert_extent fs ir (root_path fs ir ex) new flags = Some (EOK, fs', ir\<lparr>ir_dirty := True\<rparr>, path')"
    "root_ok fs' (ir\<lparr>ir_dirty := True\<rparr>)"
    "\<And>b. leaf_map (node_exts (root_bytes fs' ir)) b =
       (if ext_covers new b then Some (ext_block new b) else leaf_map (node_exts (root_bytes fs ir)) b)"
proof -
  let ?bs = "root_bytes fs ir" and ?k = "leaf_slot (root_bytes fs ir) ex new"
  note D = root_okD [OF ok]
  note S = slot_place [OF D(3) new ex]
  have case_ex: "case ex of None \<Rightarrow> node_count ?bs = 0
             | Some i \<Rightarrow> i < node_count ?bs \<and> ee_first_block new \<noteq> ee_first_block (ext_at ?bs i) \<and>
                 (flags AND EXT4_EXT_NO_COMBINE = 0 \<longrightarrow>
                    \<not> ext4_ext_can_append (ext_at ?bs i) new \<and> \<not> ext4_ext_can_prepend (ext_at ?bs i) new)"
    using binsearch_spec [OF D(3), of "ee_first_block new", folded ex] S(3) no
    by (auto simp: may_combine_def split: option.splits)
  obtain fs' where leaf: "ext4_ext_insert_leaf fs ir (root_path fs ir ex) 0 new flags =
      Some (EOK, fs', ir\<lparr>ir_dirty := True\<rparr>, root_path fs' ir (Some ?k), False)" and k: "?k \<le> node_count ?bs"
    and bs': "root_bytes fs' ir = ext_insert ?k new
        (if node_count ?bs - ?k > 0 then entries_move (?k + 1) ?k (node_count ?bs - ?k) ?bs else ?bs)"
    using insert_leaf_new [OF D(2,1) case_ex room] by blast
  note N = node_insert(1-4,6) [OF D(2) k room, of new, folded bs']
  note M = leaf_map_insert [of "take ?k (node_exts ?bs)" "drop ?k (node_exts ?bs)" new, unfolded append_take_drop_id, OF D(3) new S(1,2), folded N(2)]
  show ?thesis
    by (rule that [OF insert_extent_done [OF D(1) leaf] root_okI(1) [OF D(1) N(5) refl N(1) M(1)] M(2)])
qed

text \<open>
  C12: Inserting an extent of blocks that the tree does not map, into a tree of depth 0 whose root has room (so that nothing
  is split and nothing allocated), at the place
  that the search has found, succeeds; the tree stays in order, the inode is marked modified, and
  the new tree maps exactly the new blocks in addition. Merging with a neighbour is part of it,
  except for the two cases that the next two properties are about: a neighbour that starts where
  the new extent ends, and one in the other state.
\<close>

theorem extent_insert_root:
  assumes ok: "root_ok fs ir" and new: "ext_fresh new (node_exts (root_bytes fs ir))"
    and room: "node_count (root_bytes fs ir) < node_max (root_bytes fs ir)"
    and merge: "\<forall>e \<in> set (node_exts (root_bytes fs ir)). may_combine flags e new \<longrightarrow>
      ext4_ext_can_append e new \<and> ext4_ext_is_unwritten e = ext4_ext_is_unwritten new"
  shows "\<exists>fs' ir' path'.
    ext4_ext_insert_extent fs ir (root_path fs ir (ext4_ext_binsearch (root_bytes fs ir) (ee_first_block new))) new flags =
      Some (EOK, fs', ir', path') \<and>
    root_ok fs' ir' \<and> ir_dirty ir' \<and>
    leaf_map (node_exts (root_bytes fs' ir')) =
      (\<lambda>b. if ext_covers new b then Some (ext_block new b) else leaf_map (node_exts (root_bytes fs ir)) b)"
proof (cases "\<exists>i. ext4_ext_binsearch (root_bytes fs ir) (ee_first_block new) = Some i \<and>
    may_combine flags (ext_at (root_bytes fs ir) i) new")
  case True
  then obtain i where i: "ext4_ext_binsearch (root_bytes fs ir) (ee_first_block new) = Some i"
    "may_combine flags (ext_at (root_bytes fs ir) i) new" by blast
  let ?e = "ext_at (root_bytes fs ir) i"
  have n: "i < node_count (root_bytes fs ir)"
    using binsearch_spec [OF root_okD(3) [OF ok], of "ee_first_block new"] i by simp
  then have mem: "?e \<in> set (node_exts (root_bytes fs ir))" by (auto simp: node_exts_def)
  with merge i(2) have can: "ext4_ext_can_append ?e new" "ext4_ext_is_unwritten ?e = ext4_ext_is_unwritten new" by auto
  have e: "0 < ext_len ?e" "ext_end ?e < 2 ^ 32" using root_okD(3) [OF ok] mem by (auto simp: exts_ok_def)
  note A = appended [OF can(1) e]
  have comb: "flags AND EXT4_EXT_NO_COMBINE = 0" using i(2) by (simp add: may_combine_def)
  obtain fs' path' where R:
    "ext4_ext_insert_extent fs ir (root_path fs ir (Some i)) new flags = Some (EOK, fs', ir\<lparr>ir_dirty := True\<rparr>, path')"
    "root_ok fs' (ir\<lparr>ir_dirty := True\<rparr>)"
    "\<And>b. leaf_map (node_exts (root_bytes fs' ir)) b =
       (if ext_covers new b \<or> ext_covers ?e b then Some (ext_block (ext_appended ?e new) b)
        else leaf_map (node_exts (root_bytes fs ir)) b)"
    "\<And>b. ext_covers ?e b \<Longrightarrow> leaf_map (node_exts (root_bytes fs ir)) b = Some (ext_block ?e b)"
    by (rule insert_merge [OF ok new i(1) comb disjI1 [OF conjI [OF can(1) refl]]]) blast
  have blk: "ext_block (ext_appended ?e new) b = ext_block new b" if "ext_covers new b" for b
  proof -
    have "b - ext_first ?e = ext_len ?e + (b - ext_first new)"
      using that A(5) by (simp add: ext_covers_def ext_end_def)
    then show ?thesis using A can by (simp add: ext_block_def)
  qed
  have old: "ext_block (ext_appended ?e new) b = ext_block ?e b" for b using A by (simp add: ext_block_def)
  have "leaf_map (node_exts (root_bytes fs' ir)) =
      (\<lambda>b. if ext_covers new b then Some (ext_block new b) else leaf_map (node_exts (root_bytes fs ir)) b)"
  proof (rule ext)
    fix b
    show "leaf_map (node_exts (root_bytes fs' ir)) b =
        (if ext_covers new b then Some (ext_block new b) else leaf_map (node_exts (root_bytes fs ir)) b)"
      using R(3,4) [of b] blk [of b] old [of b] by (cases "ext_covers new b") auto
  qed
  with R(1,2) show ?thesis unfolding i(1) by (intro exI conjI) (assumption, simp_all)
next
  case False
  then obtain fs' path' where R:
    "ext4_ext_insert_extent fs ir (root_path fs ir (ext4_ext_binsearch (root_bytes fs ir) (ee_first_block new))) new flags =
      Some (EOK, fs', ir\<lparr>ir_dirty := True\<rparr>, path')" "root_ok fs' (ir\<lparr>ir_dirty := True\<rparr>)"
    "\<And>b. leaf_map (node_exts (root_bytes fs' ir)) b =
       (if ext_covers new b then Some (ext_block new b) else leaf_map (node_exts (root_bytes fs ir)) b)"
    using insert_new [OF ok new room refl] by blast
  then show ?thesis by (intro exI conjI) (assumption, simp_all add: fun_eq_iff)
qed

text \<open>
  C31: When an extent of the root starts where a new one ends, and the blocks of the new one come
  right before its own, \<open>ext4_ext_insert_extent\<close> merges the two without moving the start of the
  physical run: afterwards every logical block of both maps to the physical block that lies
  \<open>ext_len new\<close> blocks behind the right one.
\<close>

theorem extent_prepend_shifts:
  assumes ok: "root_ok fs ir" and new: "ext_fresh new (node_exts (root_bytes fs ir))"
    and ex: "ext4_ext_binsearch (root_bytes fs ir) (ee_first_block new) = Some i"
    and can: "flags AND EXT4_EXT_NO_COMBINE = 0" "\<not> ext4_ext_can_append (ext_at (root_bytes fs ir) i) new"
      "ext4_ext_can_prepend (ext_at (root_bytes fs ir) i) new"
  shows "\<exists>fs' ir' path'.
    ext4_ext_insert_extent fs ir (root_path fs ir (Some i)) new flags = Some (EOK, fs', ir', path') \<and>
    (\<forall>b. if ext_covers new b
         then map_option fst (leaf_map (node_exts (root_bytes fs' ir')) b) =
              Some (fst (ext_block new b) + of_nat (ext_len new))
         else if ext_covers (ext_at (root_bytes fs ir) i) b
         then map_option fst (leaf_map (node_exts (root_bytes fs' ir')) b) =
              map_option (\<lambda>(p, _). p + of_nat (ext_len new)) (leaf_map (node_exts (root_bytes fs ir)) b)
         else leaf_map (node_exts (root_bytes fs' ir')) b = leaf_map (node_exts (root_bytes fs ir)) b)"
proof -
  let ?e = "ext_at (root_bytes fs ir) i"
  have n: "i < node_count (root_bytes fs ir)"
    using binsearch_spec [OF root_okD(3) [OF ok], of "ee_first_block new"] ex by simp
  then have mem: "?e \<in> set (node_exts (root_bytes fs ir))" by (auto simp: node_exts_def)
  have e: "0 < ext_len ?e" using root_okD(3) [OF ok] mem by (auto simp: exts_ok_def)
  have len: "ext_end new < 2 ^ 32" using new by (simp add: ext_fresh_def)
  note A = prepended [OF can(3) e len]
  obtain fs' path' where R:
    "ext4_ext_insert_extent fs ir (root_path fs ir (Some i)) new flags = Some (EOK, fs', ir\<lparr>ir_dirty := True\<rparr>, path')"
    "\<And>b. leaf_map (node_exts (root_bytes fs' ir)) b =
       (if ext_covers new b \<or> ext_covers ?e b then Some (ext_block (ext_prepended ?e new) b)
        else leaf_map (node_exts (root_bytes fs ir)) b)"
    "\<And>b. ext_covers ?e b \<Longrightarrow> leaf_map (node_exts (root_bytes fs ir)) b = Some (ext_block ?e b)"
    by (rule insert_merge [OF ok new ex can(1) disjI2 [OF conjI [OF can(2) conjI [OF can(3) refl]]]]) blast
  have blk: "fst (ext_block (ext_prepended ?e new) b) = fst (ext_block new b) + of_nat (ext_len new)" for b
    using A by (simp add: ext_block_def)
  have old: "fst (ext_block (ext_prepended ?e new) b) = fst (ext_block ?e b) + of_nat (ext_len new)" if "ext_covers ?e b" for b
  proof -
    have "b - ext_first new = ext_len new + (b - ext_first ?e)"
      using that A(5) by (simp add: ext_covers_def ext_end_def)
    then show ?thesis using A by (simp add: ext_block_def)
  qed
  show ?thesis
  proof (intro exI conjI allI)
    show "ext4_ext_insert_extent fs ir (root_path fs ir (Some i)) new flags = Some (EOK, fs', ir\<lparr>ir_dirty := True\<rparr>, path')"
      by (fact R)
    fix b
    show "if ext_covers new b
         then map_option fst (leaf_map (node_exts (root_bytes fs' (ir\<lparr>ir_dirty := True\<rparr>))) b) =
              Some (fst (ext_block new b) + of_nat (ext_len new))
         else if ext_covers ?e b
         then map_option fst (leaf_map (node_exts (root_bytes fs' (ir\<lparr>ir_dirty := True\<rparr>))) b) =
              map_option (\<lambda>(p, _). p + of_nat (ext_len new)) (leaf_map (node_exts (root_bytes fs ir)) b)
         else leaf_map (node_exts (root_bytes fs' (ir\<lparr>ir_dirty := True\<rparr>))) b = leaf_map (node_exts (root_bytes fs ir)) b"
      using R(2,3) [of b] blk [of b] old [of b] by (auto simp: split_beta)
  qed
qed

text \<open>
  C32: When an unwritten extent of the root ends where a new, written one starts, logically and
  physically, the new extent is merged into it and loses its state: looking up a block that was
  just inserted answers block 0, so its data reads as zeroes, unless the heap has no room for the path
  of the search, when the lookup fails.
\<close>

theorem extent_append_loses_written:
  assumes ok: "root_ok fs ir" and new: "ext_fresh new (node_exts (root_bytes fs ir))"
    and ex: "ext4_ext_binsearch (root_bytes fs ir) (ee_first_block new) = Some i"
    and can: "flags AND EXT4_EXT_NO_COMBINE = 0" "ext4_ext_can_append (ext_at (root_bytes fs ir) i) new"
    and state: "ext4_ext_is_unwritten (ext_at (root_bytes fs ir) i)" "\<not> ext4_ext_is_unwritten new"
    and b: "ext_covers new (unat iblock)"
  shows "\<exists>fs' ir' path' blocks.
    ext4_ext_insert_extent fs ir (root_path fs ir (Some i)) new flags = Some (EOK, fs', ir', path') \<and>
    ext4_extent_get_blocks fs' ir' iblock max_blocks False = Some
      (if fs_can_malloc fs then (EOK, fs_asked fs', ir', 0, blocks) else (ENOMEM, fs_asked fs', ir', 0, 0))"
proof -
  let ?e = "ext_at (root_bytes fs ir) i"
  have n: "i < node_count (root_bytes fs ir)"
    using binsearch_spec [OF root_okD(3) [OF ok], of "ee_first_block new"] ex by simp
  then have "?e \<in> set (node_exts (root_bytes fs ir))" by (auto simp: node_exts_def)
  then have e: "0 < ext_len ?e" "ext_end ?e < 2 ^ 32" using root_okD(3) [OF ok] by (auto simp: exts_ok_def)
  obtain fs' path' where R:
    "ext4_ext_insert_extent fs ir (root_path fs ir (Some i)) new flags = Some (EOK, fs', ir\<lparr>ir_dirty := True\<rparr>, path')"
    "root_ok fs' (ir\<lparr>ir_dirty := True\<rparr>)"
    "\<And>b. leaf_map (node_exts (root_bytes fs' ir)) b =
       (if ext_covers new b \<or> ext_covers ?e b then Some (ext_block (ext_appended ?e new) b)
        else leaf_map (node_exts (root_bytes fs ir)) b)" "fs_can_malloc fs' = fs_can_malloc fs"
    by (rule insert_merge [OF ok new ex can(1) disjI1 [OF conjI [OF can(2) refl]]]) blast
  have "leaf_map (node_exts (root_bytes fs' (ir\<lparr>ir_dirty := True\<rparr>))) (unat iblock) =
      Some (ext_block (ext_appended ?e new) (unat iblock))" using R(3) b by simp
  moreover have "snd (ext_block (ext_appended ?e new) (unat iblock))"
    using appended(4) [OF can(2) e] state by (simp add: ext_block_def)
  ultimately have "ext4_extent_get_blocks fs' (ir\<lparr>ir_dirty := True\<rparr>) iblock max_blocks False = Some
      (if fs_can_malloc fs then (EOK, fs_asked fs', ir\<lparr>ir_dirty := True\<rparr>, 0,
         min max_blocks (of_nat (leaf_run (node_exts (root_bytes fs' (ir\<lparr>ir_dirty := True\<rparr>))) (unat iblock))))
       else (ENOMEM, fs_asked fs', ir\<lparr>ir_dirty := True\<rparr>, 0, 0))"
    using lookup_root [OF R(2), of iblock max_blocks] by (simp add: split_beta R(4))
  with R(1) show ?thesis by blast
qed

section \<open>Converting part of an unwritten extent\<close>

text \<open>
  One split in the root: the entry keeps the blocks before \<open>split\<close> and a new entry gets the rest.
  The lengths are those that the code computes, also for a \<open>split\<close> before the extent.
\<close>

definition split_left :: "u32 \<Rightarrow> u32 \<Rightarrow> ext4_extent \<Rightarrow> ext4_extent" where
  "split_left split flag e =
     (let e = e\<lparr>ee_block_count := ucast (split - ee_first_block e)\<rparr>
      in if flag AND EXT4_EXT_MARK_UNWRIT1 \<noteq> 0 then ext4_ext_mark_unwritten e else e)"

definition split_right :: "u32 \<Rightarrow> u32 \<Rightarrow> ext4_extent \<Rightarrow> ext4_extent" where
  "split_right split flag e =
     (let off = split - ee_first_block e;
          n = ext4_ext_store_pblock
                (e\<lparr>ee_first_block := split, ee_block_count := ucast (ucast (ext4_ext_get_actual_len e) - off)\<rparr>)
                (ucast off + ext4_ext_pblock e)
      in if flag AND EXT4_EXT_MARK_UNWRIT2 \<noteq> 0 then ext4_ext_mark_unwritten n else n)"

lemma split_fields [simp]:
  "ee_first_block (split_left split flag e) = ee_first_block e" "ext4_ext_pblock (split_left split flag e) = ext4_ext_pblock e"
  "ee_first_block (split_right split flag e) = split"
  by (simp_all add: split_left_def split_right_def ext4_ext_mark_unwritten_def ext4_ext_store_pblock_def
      ext4_ext_pblock_def Let_def)

lemma split_extent_root:
  assumes ok: "node_ok (root_bytes fs ir)" and d: "ext_depth fs ir = 0"
    and i: "i < node_count (root_bytes fs ir)" and room: "node_count (root_bytes fs ir) < node_max (root_bytes fs ir)"
    and ne: "split \<noteq> ee_first_block (ext_at (root_bytes fs ir) i)"
  defines "e \<equiv> ext_at (root_bytes fs ir) i"
  defines "k \<equiv> (if ee_first_block e < split then i + 1 else i)"
  obtains fs' where
    "ext4_ext_split_extent_at fs ir (root_path fs ir (Some i)) split flag =
       Some (EOK, fs', ir\<lparr>ir_dirty := True\<rparr>, root_path fs' ir (Some k))"
    "node_exts (root_bytes fs' ir) = take k ((node_exts (root_bytes fs ir))[i := split_left split flag e]) @
       split_right split flag e # drop k ((node_exts (root_bytes fs ir))[i := split_left split flag e])"
    "node_ok (root_bytes fs' ir)" "ext_depth fs' ir = 0"
    "node_count (root_bytes fs' ir) = node_count (root_bytes fs ir) + 1"
    "node_max (root_bytes fs' ir) = node_max (root_bytes fs ir)"
proof -
  let ?bs = "root_bytes fs ir" and ?l = "split_left split flag e" and ?r = "split_right split flag e"
  let ?ir = "ir\<lparr>ir_dirty := True\<rparr>"
  define fs1 where "fs1 = node_upd (ext_put i ?l) fs (ext_inode_hdr ir)"
  have b1: "root_bytes fs1 ir = ext_put i ?l ?bs" by (simp add: fs1_def root_bytes_upd [OF ok])
  note P = node_put [OF ok i, of ?l]
  have at: "ext_at (ext_put i ?l ?bs) i = ?l"
    using ok i by (simp add: ext_at_ext_put node_ok_def)
  have slot: "leaf_slot (root_bytes fs1 ?ir) (Some i) ?r = k"
    by (simp add: leaf_slot_def b1 at k_def)
  have d1: "ext_depth fs1 ?ir = 0" using d by (simp add: ext_depth_root b1 P(5))
  have path1: "root_path fs ir (Some i) = root_path fs1 ?ir (Some i)"
    by (simp add: root_path_def b1 at flip: e_def)
  have case_ex: "case Some i of None \<Rightarrow> node_count (root_bytes fs1 ?ir) = 0
             | Some i \<Rightarrow> i < node_count (root_bytes fs1 ?ir) \<and> ee_first_block ?r \<noteq> ee_first_block (ext_at (root_bytes fs1 ?ir) i) \<and>
                 (EXT4_EXT_NO_COMBINE AND EXT4_EXT_NO_COMBINE = 0 \<longrightarrow>
                    \<not> ext4_ext_can_append (ext_at (root_bytes fs1 ?ir) i) ?r \<and>
                    \<not> ext4_ext_can_prepend (ext_at (root_bytes fs1 ?ir) i) ?r)"
    using i ne [folded e_def] by (simp add: b1 at P(4) EXT4_EXT_NO_COMBINE_def)
  have ok1: "node_ok (root_bytes fs1 ?ir)" and room1: "node_count (root_bytes fs1 ?ir) < node_max (root_bytes fs1 ?ir)"
    using room by (simp_all add: b1 P)
  obtain fs' where R: "ext4_ext_insert_leaf fs1 ?ir (root_path fs1 ?ir (Some i)) 0 ?r EXT4_EXT_NO_COMBINE =
        Some (EOK, fs', ?ir, root_path fs' ?ir (Some k), False)" "k \<le> node_count (root_bytes fs1 ?ir)"
    "root_bytes fs' ?ir = ext_insert k ?r
        (if node_count (root_bytes fs1 ?ir) - k > 0
         then entries_move (k + 1) k (node_count (root_bytes fs1 ?ir) - k) (root_bytes fs1 ?ir)
         else root_bytes fs1 ?ir)"
    using insert_leaf_new [OF ok1 d1 case_ex room1] unfolding slot by auto
  have path2: "root_path fs' ?ir (Some k) = root_path fs' ir (Some k)" by (simp add: root_path_def)
  note N = node_insert(1-4,6) [OF ok1 R(2) room1, of ?r, folded R(3)]
  note I = insert_extent_done [OF d1 R(1)]
  have split: "ext4_ext_split_extent_at fs ir (root_path fs ir (Some i)) split flag =
       Some (EOK, fs', ?ir, root_path fs' ir (Some k))"
  proof -
    have "ext4_ext_insert_extent fs1 ?ir (root_path fs ir (Some i)) ?r EXT4_EXT_NO_COMBINE =
        Some (EOK, fs', ?ir, root_path fs' ir (Some k))"
      by (simp add: path1 I path2)
    then show ?thesis
      using ne [folded e_def] d
      by (simp add: ext4_ext_split_extent_at_def Let_def root_bytes_def [symmetric] e_def [symmetric] ext4_ext_dirty_def
          split_left_def [unfolded Let_def, symmetric] split_right_def [unfolded Let_def, symmetric] fs1_def [symmetric])
  qed
  show ?thesis
    by (rule that [OF split])
      (use N d in \<open>simp_all add: b1 P ext_depth_root\<close>)
qed

lemma pblock_store:
  assumes "p < 2 ^ 48"
  shows "ext4_ext_pblock (ext4_ext_store_pblock x p) = p"
proof -
  have m: "(0xffffffff :: u64) = mask 32" "(0xffff :: u16) = mask 16" by (simp_all add: mask_eq_exp_minus_1)
  have "take_bit 48 p = p"
    using assms by (intro word_unat_eq_iff [THEN iffD2]) (simp add: unat_take_bit word_less_nat_alt)
  then have high: "bit p n \<Longrightarrow> n < 48" for n by (metis bit_take_bit_iff)
  show ?thesis
    unfolding ext4_ext_store_pblock_def ext4_ext_pblock_def m
    by (rule bit_word_eqI) (auto simp: bit_simps dest: high)
qed

lemma ext_len_le: "ext_len e \<le> 0x8000"
proof (cases "ee_block_count e \<le> EXT_INIT_MAX_LEN")
  case False
  have "unat (ee_block_count e) < 2 ^ 16" using unsigned_less [of "ee_block_count e", where 'a = nat] by simp
  then show ?thesis
    using False by (simp add: ext_len_def ext4_ext_get_actual_len_def EXT_INIT_MAX_LEN_def word_le_nat_alt unat_minus)
qed (simp add: ext_len_def ext4_ext_get_actual_len_def EXT_INIT_MAX_LEN_def word_le_nat_alt)

lemma pblock_mark [simp]: "ext4_ext_pblock (ext4_ext_mark_unwritten e) = ext4_ext_pblock e"
  by (simp add: ext4_ext_mark_unwritten_def ext4_ext_pblock_def)

lemma unat_uminus: "0 < w \<Longrightarrow> unat (- w) = 2 ^ LENGTH('a) - unat (w :: 'a::len word)"
proof -
  assume w: "0 < w"
  then have "1 \<le> w" by (simp add: word_le_nat_alt word_less_nat_alt)
  then have "unat (w - 1) = unat w - 1" by (simp add: unat_minus)
  moreover have "unat (- 1 - (w - 1)) = unat (- 1 :: 'a word) - unat (w - 1)"
    by (rule unat_minus) (rule word_order.extremum)
  moreover have "- 1 - (w - 1) = - w" by simp
  moreover have "0 < unat w" using w by (simp add: word_less_nat_alt)
  ultimately show ?thesis by (simp add: unsigned_minus_1_eq_mask mask_eq_exp_minus_1)
qed

lemma store_pblock_count:
  "ext4_ext_store_pblock (x\<lparr>ee_block_count := c\<rparr>) p = (ext4_ext_store_pblock x p)\<lparr>ee_block_count := c\<rparr>"
  by (cases x) (simp add: ext4_ext_store_pblock_def)

lemma split_right_spec:
  assumes len: "ucast (ucast (ext4_ext_get_actual_len e) - (split - ee_first_block e)) = (of_nat m :: u16)"
    and m: "0 < m" "if flag AND EXT4_EXT_MARK_UNWRIT2 \<noteq> 0 then m < 0x8000 else m \<le> 0x8000"
  shows "ext_len (split_right split flag e) = m"
    "ext4_ext_is_unwritten (split_right split flag e) \<longleftrightarrow> flag AND EXT4_EXT_MARK_UNWRIT2 \<noteq> 0"
    "ucast (split - ee_first_block e) + ext4_ext_pblock e < 2 ^ 48 \<Longrightarrow>
       ext4_ext_pblock (split_right split flag e) = ucast (split - ee_first_block e) + ext4_ext_pblock e"
proof -
  let ?p = "ucast (split - ee_first_block e) + ext4_ext_pblock e"
  have eq: "split_right split flag e =
      (if flag AND EXT4_EXT_MARK_UNWRIT2 \<noteq> 0
       then ext4_ext_mark_unwritten ((ext4_ext_store_pblock (e\<lparr>ee_first_block := split\<rparr>) ?p)\<lparr>ee_block_count := of_nat m\<rparr>)
       else (ext4_ext_store_pblock (e\<lparr>ee_first_block := split\<rparr>) ?p)\<lparr>ee_block_count := of_nat m\<rparr>)"
    by (simp add: split_right_def len store_pblock_count Let_def)
  show "ext_len (split_right split flag e) = m"
    "ext4_ext_is_unwritten (split_right split flag e) \<longleftrightarrow> flag AND EXT4_EXT_MARK_UNWRIT2 \<noteq> 0"
    using m mark_unwritten [of m] written_len [of m] by (simp_all add: eq)
  show "ext4_ext_pblock (split_right split flag e) = ?p" if "?p < 2 ^ 48"
    using pblock_store [OF that] by (simp add: split_right_def Let_def)
qed

text \<open>
  C33: Writing to blocks in the middle of an unwritten extent damages the tree: the second of the
  two splits starts from the new right part instead of the extent, so \<open>split\<close> lies before it and
  the distance wraps. The operation answers \<open>EOK\<close>, but the written entry names a physical block
  \<open>2 ^ 32\<close> blocks behind the one that was zeroed, and it overlaps the entry after it.
\<close>

theorem convert_middle_corrupts:
  assumes ok: "root_ok fs ir" and i: "i < node_count (root_bytes fs ir)"
    and room: "node_count (root_bytes fs ir) + 2 \<le> node_max (root_bytes fs ir)"
    and e: "e = ext_at (root_bytes fs ir) i" "unat (ext4_ext_pblock e) < 2 ^ 47"
    and mid: "ext_first e < unat split" "0 < blocks" "unat split + unat blocks < ext_end e"
  shows "\<exists>fs' ir' path'.
    ext4_ext_convert_to_initialized fs ir (root_path fs ir (Some i)) split blocks = Some (EOK, fs', ir', path') \<and>
    ee_first_block (node_exts (root_bytes fs' ir') ! (i + 1)) = split \<and>
    \<not> ext4_ext_is_unwritten (node_exts (root_bytes fs' ir') ! (i + 1)) \<and>
    ext4_ext_pblock (node_exts (root_bytes fs' ir') ! (i + 1)) = fst (ext_block e (unat split)) + 2 ^ 32 \<and>
    \<not> exts_ok (node_exts (root_bytes fs' ir'))"
proof -
  let ?bs = "root_bytes fs ir" and ?fl = "EXT4_EXT_MARK_UNWRIT1 OR EXT4_EXT_MARK_UNWRIT2"
  note D = root_okD [OF ok]
  have elen: "0 < ext_len e" "ext_end e < 2 ^ 32" using D(3) i by (auto simp: e(1) exts_ok_def node_exts_def)
  have n: "ext_len e \<le> 0x8000" by (rule ext_len_le)
  have sb: "unat (split + blocks) = unat split + unat blocks"
    using mid(3) elen(2) by (simp add: unat_word_ariths(1))
  have f: "ext_first e = unat (ee_first_block e)" by (simp add: ext_first_def)
  have neq: "split + blocks \<noteq> ee_first_block e" "ee_first_block e \<noteq> split" "ee_first_block e < split + blocks" "ee_first_block e \<le> split"
    using mid by (auto simp: f word_less_nat_alt word_le_nat_alt sb dest: arg_cong [where f = unat])
  define r1 where "r1 = split_right (split + blocks) ?fl e"
  define r2 where "r2 = split_right split EXT4_EXT_MARK_UNWRIT1 r1"
  have flags: "?fl AND EXT4_EXT_MARK_UNWRIT2 \<noteq> 0" "EXT4_EXT_MARK_UNWRIT1 AND EXT4_EXT_MARK_UNWRIT2 = 0"
    by (simp_all add: EXT4_EXT_MARK_UNWRIT1_def EXT4_EXT_MARK_UNWRIT2_def)
  let ?off = "unat split + unat blocks - ext_first e"
  have off: "unat (split + blocks - ee_first_block e) = ?off"
    using neq(3) by (simp add: unat_minus sb f)
  have rest: "0 < ext_len e - ?off" "?off \<le> ext_len e" "0 < ?off" using mid by (auto simp: ext_end_def)
  have c1: "ucast (ucast (ext4_ext_get_actual_len e) - (split + blocks - ee_first_block e)) = (of_nat (ext_len e - ?off) :: u16)"
  proof -
    have "unat (ucast (ext4_ext_get_actual_len e) - (split + blocks - ee_first_block e)) = ext_len e - ?off"
      using rest(2) off by (simp add: unat_minus word_le_nat_alt)
    from this [symmetric] show ?thesis by simp
  qed
  have p1: "unat (ucast (split + blocks - ee_first_block e) + ext4_ext_pblock e) = ?off + unat (ext4_ext_pblock e)"
    using e(2) off mid elen by (simp add: unat_word_ariths(1) unat_ucast_up_eq ext_end_def)
  have r1: "ext_len r1 = ext_len e - ?off" "ext4_ext_is_unwritten r1" "ee_first_block r1 = split + blocks"
    "unat (ext4_ext_pblock r1) = ?off + unat (ext4_ext_pblock e)"
    using split_right_spec [OF c1 rest(1), of ?fl] flags n rest(3) p1 e(2) mid elen
    by (auto simp: r1_def word_less_nat_alt ext_end_def)
  have minus: "unat (- blocks) = 2 ^ 32 - unat blocks"
    using unat_uminus [OF mid(2)] by simp
  have c2: "ucast (ucast (ext4_ext_get_actual_len r1) - (split - ee_first_block r1)) = (of_nat (ext_len r1 + unat blocks) :: u16)"
  proof -
    have "unat (ucast (ext4_ext_get_actual_len r1) + blocks) = ext_len r1 + unat blocks"
      using r1(1) rest mid n elen by (simp add: unat_word_ariths(1) ext_end_def)
    from this [symmetric] show ?thesis by (simp add: r1(3))
  qed
  have p2: "unat (ucast (split - ee_first_block r1) + ext4_ext_pblock r1) =
      2 ^ 32 - unat blocks + unat (ext4_ext_pblock r1)"
    using e(2) mid elen r1(4) by (simp add: r1(3) unat_word_ariths(1) unat_ucast_up_eq minus ext_end_def)
  have r2: "ext_len r2 = ext_len r1 + unat blocks" "\<not> ext4_ext_is_unwritten r2" "ee_first_block r2 = split"
    "ext4_ext_pblock r2 = fst (ext_block e (unat split)) + 2 ^ 32"
  proof -
    have len: "0 < ext_len r1 + unat blocks" "ext_len r1 + unat blocks \<le> 0x8000"
      using r1(1) rest n mid by (auto simp: ext_end_def)
    note S = split_right_spec [OF c2 len(1), of EXT4_EXT_MARK_UNWRIT1, folded r2_def]
    show "ext_len r2 = ext_len r1 + unat blocks" "\<not> ext4_ext_is_unwritten r2" "ee_first_block r2 = split"
      using S(1,2) flags(2) len(2) by (simp_all add: r2_def)
    have "ext4_ext_pblock r2 = ucast (split - ee_first_block r1) + ext4_ext_pblock r1"
      using S(3) flags(2) len(2) p2 r1(4) e(2) mid elen by (simp add: word_less_nat_alt ext_end_def)
    moreover have "unat (fst (ext_block e (unat split)) + 2 ^ 32) = unat (ext4_ext_pblock e) + (unat split - ext_first e) + 2 ^ 32"
    proof -
      have "unat (ext4_ext_pblock e + of_nat k + 2 ^ 32) = unat (ext4_ext_pblock e) + k + 2 ^ 32" if "k < 2 ^ 32" for k
        using e(2) that by (simp add: unat_word_ariths(1) unat_of_nat)
      then show ?thesis using mid elen by (simp add: ext_block_def ext_end_def del: of_nat_diff)
    qed
    ultimately show "ext4_ext_pblock r2 = fst (ext_block e (unat split)) + 2 ^ 32"
      using p2 r1(4) mid elen by (intro word_unat_eq_iff [THEN iffD2]) (simp add: ext_end_def)
  qed
  obtain fs1 where S1:
    "ext4_ext_split_extent_at fs ir (root_path fs ir (Some i)) (split + blocks) ?fl =
       Some (EOK, fs1, ir\<lparr>ir_dirty := True\<rparr>, root_path fs1 ir (Some (i + 1)))"
    "node_exts (root_bytes fs1 ir) = take (i + 1) ((node_exts ?bs)[i := split_left (split + blocks) ?fl e]) @
       r1 # drop (i + 1) ((node_exts ?bs)[i := split_left (split + blocks) ?fl e])"
    "node_ok (root_bytes fs1 ir)" "ext_depth fs1 ir = 0"
    "node_count (root_bytes fs1 ir) = node_count ?bs + 1" "node_max (root_bytes fs1 ir) = node_max ?bs"
    using split_extent_root [OF D(2,1) i _ neq(1) [unfolded e(1)], of ?fl] room neq(3)
    unfolding e(1) [symmetric] r1_def by auto
  let ?ir = "ir\<lparr>ir_dirty := True\<rparr>"
  have at: "ext_at (root_bytes fs1 ?ir) (i + 1) = r1"
    using S1(2,5) i by (simp add: nth_append min_def flip: node_exts_nth)
  have path: "root_path fs1 ir (Some (i + 1)) = root_path fs1 ?ir (Some (i + 1))" by (simp add: root_path_def)
  have le: "blocks \<noteq> 0" "\<not> split + blocks < split" using mid(2) sb by (auto simp: word_less_nat_alt)
  obtain fs2 where S2:
    "ext4_ext_split_extent_at fs1 ?ir (root_path fs1 ?ir (Some (i + 1))) split EXT4_EXT_MARK_UNWRIT1 =
       Some (EOK, fs2, ?ir, root_path fs2 ?ir (Some (i + 1)))"
    "node_exts (root_bytes fs2 ?ir) = take (i + 1) ((node_exts (root_bytes fs1 ?ir))[i + 1 := split_left split EXT4_EXT_MARK_UNWRIT1 r1]) @
       r2 # drop (i + 1) ((node_exts (root_bytes fs1 ?ir))[i + 1 := split_left split EXT4_EXT_MARK_UNWRIT1 r1])"
    "node_count (root_bytes fs2 ?ir) = node_count (root_bytes fs1 ?ir) + 1"
    using split_extent_root [of fs1 ?ir "i + 1" split EXT4_EXT_MARK_UNWRIT1, unfolded at] S1(3-6) i room le
    unfolding r2_def [symmetric] by (auto simp: r1(3) ext_depth_root)
  let ?es = "node_exts (root_bytes fs2 ?ir)"
  have conv: "ext4_ext_convert_to_initialized fs ir (root_path fs ir (Some i)) split blocks =
      Some (EOK, fs2, ?ir, root_path fs2 ?ir (Some (i + 1)))"
  proof -
    have "unat (ee_first_block e + ucast (ext4_ext_get_actual_len e)) = ext_end e"
      using elen by (simp add: unat_word_ariths(1) ext_end_def ext_first_def)
    then have "split + blocks \<noteq> ee_first_block e + ucast (ext4_ext_get_actual_len e)"
      using mid(3) sb by (metis less_irrefl)
    then show ?thesis
      using neq D(1) S1(1) S2(1)
      by (simp add: ext4_ext_convert_to_initialized_def root_bytes_def [symmetric] e(1) [symmetric] path [simplified])
  qed
  have len: "length (node_exts (root_bytes fs1 ?ir)) = node_count ?bs + 1" by (simp add: S1(5))
  have at1: "?es ! (i + 1) = r2" and at2: "?es ! (i + 2) = split_left split EXT4_EXT_MARK_UNWRIT1 r1"
    and more: "i + 2 < length ?es"
    using i len by (simp_all add: S2(2,3) [unfolded root_dirty] nth_append min_def S1(5))
  have "\<not> exts_ok ?es"
  proof
    assume "exts_ok ?es"
    from exts_ok_nth [OF this, of "i + 1" "i + 2"] more
    have "ext_end r2 \<le> ext_first r1" unfolding at1 at2 by (simp add: ext_first_def)
    then show False using r2(1,3) r1 rest sb by (simp add: ext_end_def ext_first_def)
  qed
  with conv at1 r2 show ?thesis by auto
qed

section \<open>Examples\<close>

text \<open>An inode in a cached block whose root holds one extent.\<close>

definition ext_sample :: "ext4_extent \<Rightarrow> raw_file ext4_fs" where
  "ext_sample e =
     fs_store \<lparr>fs_read_only = False, fs_bdev = sample_held, fs_sb = sb_example, inode_block_limits = [],
               inode_blocks_per_level = [], last_inode_bg_id = 0\<rparr>
       \<lparr>blk_lb_id = 3, blk_buf = Some 3, blk_data = True\<rparr>
       (replicate 40 0 @
        ext4_extent_header_bytes \<lparr>eh_magic = EXT4_EXTENT_MAGIC, eh_entries_count = 1, eh_max_entries_count = 4,
                                  eh_depth = 0, eh_generation = 0\<rparr> @
        ext4_extent_bytes e @ replicate 960 0)"

definition ext_sample_ref :: ext4_inode_ref where
  "ext_sample_ref = \<lparr>ir_block = \<lparr>blk_lb_id = 3, blk_buf = Some 3, blk_data = True\<rparr>, ir_offset = 0, ir_index = 12,
     ir_dirty = False\<rparr>"

definition sample_extent :: "u32 \<Rightarrow> u16 \<Rightarrow> u32 \<Rightarrow> ext4_extent" where
  "sample_extent first count start =
     \<lparr>ee_first_block = first, ee_block_count = count, ee_start_hi = 0, ee_start_lo = start\<rparr>"

lemma ext_sample_root:
  "root_bytes (ext_sample e) ext_sample_ref =
     ext4_extent_header_bytes \<lparr>eh_magic = EXT4_EXTENT_MAGIC, eh_entries_count = 1, eh_max_entries_count = 4,
                               eh_depth = 0, eh_generation = 0\<rparr> @
     ext4_extent_bytes e @ replicate 960 0"
  by (simp add: root_bytes_def ext_inode_hdr_def node_bytes_def ext_sample_def ext_sample_ref_def)

lemma ext_sample_node:
  "node_count (root_bytes (ext_sample e) ext_sample_ref) = 1" "node_max (root_bytes (ext_sample e) ext_sample_ref) = 4"
  "node_exts (root_bytes (ext_sample e) ext_sample_ref) = [e]" "ext_at (root_bytes (ext_sample e) ext_sample_ref) 0 = e"
  "ext_depth (ext_sample e) ext_sample_ref = 0"
  by (simp_all add: ext_sample_root node_count_def node_max_def node_exts_def ext_at_def ext_depth_root)

lemma ext_sample_ok:
  assumes "0 < ext_len e" "ext_end e < 2 ^ 32"
  shows "root_ok (ext_sample e) ext_sample_ref"
  using assms by (simp add: root_ok_def ext_sample_node node_ok_def exts_ok_def) (simp add: ext_sample_root)

lemmas sample_simps = sample_extent_def ext_len_def ext_end_def ext_first_def ext4_ext_get_actual_len_def
  EXT_INIT_MAX_LEN_def ext_covers_def ext_block_def ext4_ext_pblock_def ext4_ext_is_unwritten_def

lemma ext_sample_search: "ext4_ext_binsearch (root_bytes (ext_sample e) ext_sample_ref) b = Some 0"
  by (simp add: ext4_ext_binsearch_def ext_sample_node binsearch_loop.simps)

lemma ext_sample_heap: "fs_can_malloc (ext_sample e)"
  by (simp add: fs_can_malloc_def ext_sample_def fs_store_def blk_put_def sample_held_def ext4_block_get_noread_def
      ext4_block_cache_shake_def shake_loop.simps sample_dev_def sample_cache_def ext4_io_raw_dev_get_def ext4_bcache_alloc_def
      ext4_bcache_find_get_def ext4_buf_lookup_def ext4_buf_alloc_def EXT4_BLOCK_ZERO_def Let_def upd_bc_def upd_buf_def
      ext4_bcache_is_full_def)

theorem extent_lookup_root_witness:
  "ext4_extent_get_blocks (ext_sample (sample_extent 10 5 100)) ext_sample_ref 12 10 False =
     Some (EOK, fs_asked (ext_sample (sample_extent 10 5 100)), ext_sample_ref, 102, 3)"
proof -
  have "root_ok (ext_sample (sample_extent 10 5 100)) ext_sample_ref"
    by (rule ext_sample_ok) (simp_all add: sample_simps)
  from extent_lookup_root [OF this, of 12 10] ext_sample_heap [of "sample_extent 10 5 100"] show ?thesis
    by (simp add: ext_sample_node leaf_map_def leaf_run_def sample_simps)
qed

lemma fresh_sample:
  assumes "0 < ext_len n" "ext_end n < 2 ^ 32"
    and "ext_end e \<le> ext_first n \<or> ext_end n \<le> ext_first e"
  shows "ext_fresh n (node_exts (root_bytes (ext_sample e) ext_sample_ref))"
  using assms by (auto simp: ext_sample_node ext_fresh_def leaf_map_def ext_covers_def)

theorem extent_insert_root_witness:
  "\<exists>fs' ir' path'.
    ext4_ext_insert_extent (ext_sample (sample_extent 10 5 100)) ext_sample_ref
      (root_path (ext_sample (sample_extent 10 5 100)) ext_sample_ref (Some 0)) (sample_extent 15 2 105) 0 =
      Some (EOK, fs', ir', path') \<and>
    root_ok fs' ir' \<and> ir_dirty ir' \<and>
    leaf_map (node_exts (root_bytes fs' ir')) 16 = Some (106, False) \<and>
    leaf_map (node_exts (root_bytes fs' ir')) 14 = Some (104, False)"
proof -
  have "root_ok (ext_sample (sample_extent 10 5 100)) ext_sample_ref"
    "ext_fresh (sample_extent 15 2 105) (node_exts (root_bytes (ext_sample (sample_extent 10 5 100)) ext_sample_ref))"
    by (rule ext_sample_ok fresh_sample; simp add: sample_simps)+
  from extent_insert_root [OF this, of 0] show ?thesis
    by (auto simp: ext_sample_node ext_sample_search may_combine_def ext4_ext_can_append_def ext4_ext_can_prepend_def
        lens_too_long_def EXT_UNWRITTEN_MAX_LEN_def leaf_map_Cons sample_simps)
qed

theorem extent_prepend_shifts_witness:
  "\<exists>fs' ir' path'.
    ext4_ext_insert_extent (ext_sample (sample_extent 10 5 100)) ext_sample_ref
      (root_path (ext_sample (sample_extent 10 5 100)) ext_sample_ref (Some 0)) (sample_extent 8 2 98) 0 =
      Some (EOK, fs', ir', path') \<and>
    map_option fst (leaf_map (node_exts (root_bytes fs' ir')) 8) = Some 100 \<and>
    map_option fst (leaf_map (node_exts (root_bytes fs' ir')) 10) = Some 102"
proof -
  have "root_ok (ext_sample (sample_extent 10 5 100)) ext_sample_ref"
    "ext_fresh (sample_extent 8 2 98) (node_exts (root_bytes (ext_sample (sample_extent 10 5 100)) ext_sample_ref))"
    by (rule ext_sample_ok fresh_sample; simp add: sample_simps)+
  from extent_prepend_shifts [OF this ext_sample_search, of 0]
  obtain fs' ir' path' where
    "ext4_ext_insert_extent (ext_sample (sample_extent 10 5 100)) ext_sample_ref
      (root_path (ext_sample (sample_extent 10 5 100)) ext_sample_ref (Some 0)) (sample_extent 8 2 98) 0 =
      Some (EOK, fs', ir', path')"
    and m: "\<And>b. if ext_covers (sample_extent 8 2 98) b
         then map_option fst (leaf_map (node_exts (root_bytes fs' ir')) b) =
              Some (fst (ext_block (sample_extent 8 2 98) b) + of_nat (ext_len (sample_extent 8 2 98)))
         else if ext_covers (sample_extent 10 5 100) b
         then map_option fst (leaf_map (node_exts (root_bytes fs' ir')) b) =
              map_option (\<lambda>(p, _). p + of_nat (ext_len (sample_extent 8 2 98))) (leaf_map [sample_extent 10 5 100] b)
         else leaf_map (node_exts (root_bytes fs' ir')) b = leaf_map [sample_extent 10 5 100] b"
    by (auto simp: ext_sample_node ext4_ext_can_append_def ext4_ext_can_prepend_def lens_too_long_def sample_simps)
  moreover have "map_option fst (leaf_map (node_exts (root_bytes fs' ir')) 8) = Some 100"
    using m [of 8] by (simp add: sample_simps)
  moreover have "map_option fst (leaf_map (node_exts (root_bytes fs' ir')) 10) = Some 102"
    using m [of 10] by (simp add: leaf_map_Cons sample_simps)
  ultimately show ?thesis by blast
qed

theorem extent_append_loses_written_witness:
  "\<exists>fs' ir' path' blocks.
    ext4_ext_insert_extent (ext_sample (sample_extent 10 0x8005 100)) ext_sample_ref
      (root_path (ext_sample (sample_extent 10 0x8005 100)) ext_sample_ref (Some 0)) (sample_extent 15 2 105) 0 =
      Some (EOK, fs', ir', path') \<and>
    ext4_extent_get_blocks fs' ir' 15 1 False = Some (EOK, fs_asked fs', ir', 0, blocks)"
proof -
  have "root_ok (ext_sample (sample_extent 10 0x8005 100)) ext_sample_ref"
    "ext_fresh (sample_extent 15 2 105) (node_exts (root_bytes (ext_sample (sample_extent 10 0x8005 100)) ext_sample_ref))"
    by (rule ext_sample_ok fresh_sample; simp add: sample_simps)+
  from extent_append_loses_written [OF this ext_sample_search, of 0 15 1] show ?thesis
    by (simp add: ext_sample_heap ext_sample_node ext4_ext_can_append_def lens_too_long_def EXT_UNWRITTEN_MAX_LEN_def sample_simps)
qed

theorem convert_middle_corrupts_witness:
  "\<exists>fs' ir' path'.
    ext4_ext_convert_to_initialized (ext_sample (sample_extent 10 0x8005 100)) ext_sample_ref
      (root_path (ext_sample (sample_extent 10 0x8005 100)) ext_sample_ref (Some 0)) 12 1 = Some (EOK, fs', ir', path') \<and>
    ext4_ext_pblock (node_exts (root_bytes fs' ir') ! 1) = 0x100000066 \<and>
    \<not> exts_ok (node_exts (root_bytes fs' ir'))"
proof -
  have "root_ok (ext_sample (sample_extent 10 0x8005 100)) ext_sample_ref"
    by (rule ext_sample_ok) (simp_all add: sample_simps)
  from convert_middle_corrupts [OF this, of 0 "sample_extent 10 0x8005 100" 12 1] show ?thesis
    by (auto simp: ext_sample_node sample_simps)
qed

end
