(* ===== verification/Ialloc.thy ===== *)
theory Ialloc
  imports Inode_Ref
begin

text \<open>
  The inode allocator, \<open>src/ext4_ialloc.c\<close>, and the allocation of an inode in
  \<open>src/ext4_fs.c\<close>. \<open>None\<close> is a failed assertion or a search that does not stop.
\<close>

section \<open>Numbers of inodes\<close>

definition ext4_ialloc_inode_to_bgidx :: "ext4_sblock \<Rightarrow> u32 \<Rightarrow> u32" where
  "ext4_ialloc_inode_to_bgidx sb inode = (inode - 1) mod sb_inodes_per_group sb"

definition ext4_ialloc_bgidx_to_inode :: "ext4_sblock \<Rightarrow> u32 \<Rightarrow> u32 \<Rightarrow> u32" where
  "ext4_ialloc_bgidx_to_inode sb index bgid = bgid * sb_inodes_per_group sb + (index + 1)"

definition ext4_ialloc_get_bgid_of_inode :: "ext4_sblock \<Rightarrow> u32 \<Rightarrow> u32" where
  "ext4_ialloc_get_bgid_of_inode sb inode = (inode - 1) div sb_inodes_per_group sb"

section \<open>Freeing and allocating\<close>

definition ialloc_store_bitmap ::
    "'d ext4_fs \<Rightarrow> ext4_block_group_ref \<Rightarrow> ext4_block \<Rightarrow> bytes \<Rightarrow> 'd ext4_fs" where
  "ialloc_store_bitmap fs bg_ref b data =
     (let fs = fs_store fs b data;
          fs = bgr_put fs bg_ref (ext4_ialloc_set_bitmap_csum (fs_sb fs) (bgr_group fs bg_ref) data)
      in fs_dirty fs b)"

definition bgr_upd :: "(ext4_bgroup \<Rightarrow> ext4_bgroup) \<Rightarrow> 'd ext4_fs \<Rightarrow> ext4_block_group_ref \<Rightarrow> 'd ext4_fs" where
  "bgr_upd f fs bg_ref = bgr_put fs bg_ref (f (bgr_group fs bg_ref))"

definition ext4_ialloc_free_inode :: "'d ext4_fs \<Rightarrow> u32 \<Rightarrow> bool \<Rightarrow> (errno \<times> 'd ext4_fs) option" where
  "ext4_ialloc_free_inode fs index is_dir = do {
     let block_group = ext4_ialloc_get_bgid_of_inode (fs_sb fs) index;
     (rc, fs, bg_ref) \<leftarrow> ext4_fs_get_block_group_ref fs block_group;
     if rc \<noteq> EOK then Some (rc, fs)
     else do {
       (rc, fs, b) \<leftarrow> fs_block_get fs (ext4_bg_get_inode_bitmap (bgr_group fs bg_ref) (fs_sb fs));
       if rc \<noteq> EOK then Some (rc, fs)
       else do {
         let index_in_group = ext4_ialloc_inode_to_bgidx (fs_sb fs) index;
         let fs = ialloc_store_bitmap fs bg_ref b (ext4_bmap_bit_clr (fs_data fs b) 0 index_in_group);
         (rc, fs) \<leftarrow> fs_block_set fs b;
         if rc \<noteq> EOK then do { (_, fs) \<leftarrow> ext4_fs_put_block_group_ref fs bg_ref; Some (rc, fs) }
         else do {
           let fs = (if is_dir
                     then bgr_upd (\<lambda>bg. ext4_bg_set_used_dirs_count bg (fs_sb fs)
                                          (ext4_bg_get_used_dirs_count bg (fs_sb fs) - 1)) fs bg_ref
                     else fs);
           let fs = bgr_upd (\<lambda>bg. ext4_bg_set_free_inodes_count bg (fs_sb fs)
                                    (ext4_bg_get_free_inodes_count bg (fs_sb fs) + 1)) fs bg_ref;
           (rc, fs) \<leftarrow> ext4_fs_put_block_group_ref fs (bg_ref\<lparr>bgr_dirty := True\<rparr>);
           if rc \<noteq> EOK then Some (rc, fs)
           else Some (EOK, fs\<lparr>fs_sb := (fs_sb fs)\<lparr>sb_free_inodes_count := sb_free_inodes_count (fs_sb fs) + 1\<rparr>\<rparr>)
         }
       }
     }
   }"

text \<open>
  The part of the loop that looks at one group: it returns, it goes to the next group, or it
  looks at the same group again, which is what the code's \<open>continue\<close> does when the group counts
  a free inode that its bitmap does not have. \<open>sb_free\<close> is the superblock's counter as read at
  the start.
\<close>

datatype 'd ialloc_step =
    Ialloc_return errno "u32 option" "'d ext4_fs"
  | Ialloc_again "'d ext4_fs"
  | Ialloc_next "'d ext4_fs"

definition ialloc_take ::
    "'d ext4_fs \<Rightarrow> ext4_block_group_ref \<Rightarrow> ext4_block \<Rightarrow> u32 \<Rightarrow> u32 \<Rightarrow> u32 \<Rightarrow> bool \<Rightarrow> u32 \<Rightarrow>
     'd ialloc_step option" where
  "ialloc_take fs bg_ref b bgid inodes_in_bg idx_in_bg is_dir sb_free = do {
     let free_inodes = ext4_bg_get_free_inodes_count (bgr_group fs bg_ref) (fs_sb fs);
     let used_dirs = ext4_bg_get_used_dirs_count (bgr_group fs bg_ref) (fs_sb fs);
     let fs = ialloc_store_bitmap fs bg_ref b (ext4_bmap_bit_set (fs_data fs b) 0 idx_in_bg);
     (_, fs) \<leftarrow> fs_block_set fs b;
     let fs = bgr_upd (\<lambda>bg. ext4_bg_set_free_inodes_count bg (fs_sb fs) (free_inodes - 1)) fs bg_ref;
     let fs = (if is_dir then bgr_upd (\<lambda>bg. ext4_bg_set_used_dirs_count bg (fs_sb fs) (used_dirs + 1)) fs bg_ref
               else fs);
     let unused = ext4_bg_get_itable_unused (bgr_group fs bg_ref) (fs_sb fs);
     let free = inodes_in_bg - unused;
     let fs = (if idx_in_bg \<ge> free
               then bgr_upd (\<lambda>bg. ext4_bg_set_itable_unused bg (fs_sb fs) (inodes_in_bg - (idx_in_bg + 1))) fs bg_ref
               else fs);
     (rc, fs) \<leftarrow> ext4_fs_put_block_group_ref fs (bg_ref\<lparr>bgr_dirty := True\<rparr>);
     if rc \<noteq> EOK then Some (Ialloc_return rc None fs)
     else Some (Ialloc_return EOK (Some (ext4_ialloc_bgidx_to_inode (fs_sb fs) idx_in_bg bgid))
                  (fs\<lparr>fs_sb := (fs_sb fs)\<lparr>sb_free_inodes_count := sb_free - 1\<rparr>, last_inode_bg_id := bgid\<rparr>))
   }"

definition ialloc_group :: "'d ext4_fs \<Rightarrow> u32 \<Rightarrow> bool \<Rightarrow> u32 \<Rightarrow> 'd ialloc_step option" where
  "ialloc_group fs bgid is_dir sb_free = do {
     (rc, fs, bg_ref) \<leftarrow> ext4_fs_get_block_group_ref fs bgid;
     if rc \<noteq> EOK then Some (Ialloc_return rc None fs)
     else if ext4_bg_get_free_inodes_count (bgr_group fs bg_ref) (fs_sb fs) > 0
     then do {
       (rc, fs, b) \<leftarrow> fs_block_get fs (ext4_bg_get_inode_bitmap (bgr_group fs bg_ref) (fs_sb fs));
       if rc \<noteq> EOK
       then do { (_, fs) \<leftarrow> ext4_fs_put_block_group_ref fs bg_ref; Some (Ialloc_return rc None fs) }
       else do {
         let inodes_in_bg = ext4_inodes_in_group_cnt (fs_sb fs) bgid;
         case ext4_bmap_bit_find_clr (fs_data fs b) 0 inodes_in_bg of
           (_, Some idx_in_bg) \<Rightarrow> ialloc_take fs bg_ref b bgid inodes_in_bg idx_in_bg is_dir sb_free
         | (_, None) \<Rightarrow> do {
             (rc, fs) \<leftarrow> fs_block_set fs b;
             if rc \<noteq> EOK
             then do { (_, fs) \<leftarrow> ext4_fs_put_block_group_ref fs bg_ref; Some (Ialloc_return rc None fs) }
             else do {
               (rc, fs) \<leftarrow> ext4_fs_put_block_group_ref fs bg_ref;
               if rc \<noteq> EOK then Some (Ialloc_return rc None fs) else Some (Ialloc_again fs)
             }
           }
       }
     }
     else do { (_, fs) \<leftarrow> ext4_fs_put_block_group_ref fs bg_ref; Some (Ialloc_next fs) }
   }"

partial_function (option) ialloc_loop ::
    "'d ext4_fs \<Rightarrow> u32 \<Rightarrow> u32 \<Rightarrow> bool \<Rightarrow> bool \<Rightarrow> u32 \<Rightarrow> (errno \<times> u32 option \<times> 'd ext4_fs) option" where
  "ialloc_loop fs bgid bg_count rewind is_dir sb_free =
     (if bgid \<le> bg_count
      then if bgid = bg_count
           then if rewind then Some (ENOSPC, None, fs)
                else ialloc_loop fs 0 (last_inode_bg_id fs) True is_dir sb_free
           else Option.bind (ialloc_group fs bgid is_dir sb_free)
                  (\<lambda>step. case step of
                     Ialloc_return rc idx fs \<Rightarrow> Some (rc, idx, fs)
                   | Ialloc_again fs \<Rightarrow> ialloc_loop fs bgid bg_count rewind is_dir sb_free
                   | Ialloc_next fs \<Rightarrow> ialloc_loop fs (bgid + 1) bg_count rewind is_dir sb_free)
      else Some (ENOSPC, None, fs))"

definition ext4_ialloc_alloc_inode :: "'d ext4_fs \<Rightarrow> bool \<Rightarrow> (errno \<times> u32 option \<times> 'd ext4_fs) option" where
  "ext4_ialloc_alloc_inode fs is_dir =
     (let bgid = last_inode_bg_id fs;
          bg_count = ext4_block_group_cnt (fs_sb fs);
          sb_free_inodes = sb_free_inodes_count (fs_sb fs)
      in ialloc_loop fs bgid bg_count False is_dir sb_free_inodes)"

section \<open>A new inode\<close>

definition EXT4_DE_UNKNOWN :: u8 where "EXT4_DE_UNKNOWN = 0"
definition EXT4_DE_REG_FILE :: u8 where "EXT4_DE_REG_FILE = 1"
definition EXT4_DE_DIR :: u8 where "EXT4_DE_DIR = 2"
definition EXT4_DE_CHRDEV :: u8 where "EXT4_DE_CHRDEV = 3"
definition EXT4_DE_BLKDEV :: u8 where "EXT4_DE_BLKDEV = 4"
definition EXT4_DE_FIFO :: u8 where "EXT4_DE_FIFO = 5"
definition EXT4_DE_SOCK :: u8 where "EXT4_DE_SOCK = 6"
definition EXT4_DE_SYMLINK :: u8 where "EXT4_DE_SYMLINK = 7"

definition ext4_fs_correspond_inode_mode :: "u8 \<Rightarrow> u32" where
  "ext4_fs_correspond_inode_mode filetype =
     (if filetype = EXT4_DE_DIR then EXT4_INODE_MODE_DIRECTORY
      else if filetype = EXT4_DE_REG_FILE then EXT4_INODE_MODE_FILE
      else if filetype = EXT4_DE_SYMLINK then EXT4_INODE_MODE_SOFTLINK
      else if filetype = EXT4_DE_CHRDEV then EXT4_INODE_MODE_CHARDEV
      else if filetype = EXT4_DE_BLKDEV then EXT4_INODE_MODE_BLOCKDEV
      else if filetype = EXT4_DE_FIFO then EXT4_INODE_MODE_FIFO
      else if filetype = EXT4_DE_SOCK then EXT4_INODE_MODE_SOCKET
      else EXT4_INODE_MODE_FILE)"

text \<open>The stores to the inode, all over zeroed memory; 0o777 is 511, 0o666 is 438.\<close>

definition init_inode :: "ext4_sblock \<Rightarrow> u8 \<Rightarrow> ext4_inode \<Rightarrow> ext4_inode" where
  "init_inode sb filetype inode =
     (let mode = (if filetype = EXT4_DE_DIR then 511 OR EXT4_INODE_MODE_DIRECTORY
                  else if filetype = EXT4_DE_SYMLINK then 511 OR EXT4_INODE_MODE_SOFTLINK
                  else 438 OR ext4_fs_correspond_inode_mode filetype);
          inode = ext4_inode_set_mode sb inode mode;
          inode = ext4_inode_set_links_cnt inode 0;
          inode = ext4_inode_set_uid inode 0;
          inode = ext4_inode_set_gid inode 0;
          inode = ext4_inode_set_size inode 0;
          inode = ext4_inode_set_access_time inode 0;
          inode = ext4_inode_set_change_inode_time inode 0;
          inode = ext4_inode_set_modif_time inode 0;
          inode = ext4_inode_set_del_time inode 0;
          inode = snd (ext4_inode_set_blocks_count sb inode 0);
          inode = ext4_inode_set_flags inode 0;
          inode = ext4_inode_set_generation inode 0;
          inode = (if sb_inode_size sb > EXT4_GOOD_OLD_INODE_SIZE
                   then ext4_inode_set_extra_isize sb inode (sb_want_extra_isize sb) else inode)
      in inode\<lparr>in_blocks := replicate 15 0\<rparr>)"

definition ext4_fs_alloc_inode ::
    "'d ext4_fs \<Rightarrow> u8 \<Rightarrow> (errno \<times> 'd ext4_fs \<times> ext4_inode_ref) option" where
  "ext4_fs_alloc_inode fs filetype = do {
     let inode_size = sb_inode_size (fs_sb fs);
     let is_dir = (filetype = EXT4_DE_DIR);
     (rc, idx, fs) \<leftarrow> ext4_ialloc_alloc_inode fs is_dir;
     if rc \<noteq> EOK then Some (rc, fs, inode_ref_undef)
     else (case idx of None \<Rightarrow> None | Some index \<Rightarrow> do {
       (rc, fs, ref) \<leftarrow> fs_get_inode_ref fs index;
       if rc \<noteq> EOK
       then do { (_, fs) \<leftarrow> ext4_ialloc_free_inode fs index is_dir; Some (rc, fs, ref) }
       else do {
         let fs = fs_store fs (ir_block ref)
                    (memset (ir_offset ref) 0 (unat inode_size) (fs_data fs (ir_block ref)));
         let fs = ino_upd (init_inode (fs_sb fs) filetype) fs ref;
         Some (EOK, fs, ref\<lparr>ir_dirty := True\<rparr>)
       }
     })
   }"

end
