(* ===== verification/Fs_Inode.thy ===== *)
theory Fs_Inode
  imports Extent_Ops Ialloc
begin

text \<open>
  The second half of \<open>src/ext4_fs.c\<close>: the data blocks of an inode through the map of direct and
  indirect blocks or through the extent tree, appending to an inode, truncating and freeing it.
\<close>

section \<open>Shared tests\<close>

text \<open>An inode whose blocks are in an extent tree.\<close>

definition uses_extents :: "'d ext4_fs \<Rightarrow> ext4_inode_ref \<Rightarrow> bool" where
  "uses_extents fs ir \<longleftrightarrow>
     ext4_sb_feature_incom (fs_sb fs) EXT4_FINCOM_EXTENTS \<and>
     ext4_inode_has_flag (ino_get fs ir) EXT4_INODE_FLAG_EXTENTS"

definition ext4_fs_inode_blocks_init :: "'d ext4_fs \<Rightarrow> ext4_inode_ref \<Rightarrow> 'd ext4_fs \<times> ext4_inode_ref" where
  "ext4_fs_inode_blocks_init fs ir =
     (let t = ext4_inode_type (fs_sb fs) (ino_get fs ir)
      in if t \<noteq> EXT4_INODE_MODE_FILE \<and> t \<noteq> EXT4_INODE_MODE_DIRECTORY then (fs, ir)
         else (let (fs, ir) =
                     (if ext4_sb_feature_incom (fs_sb fs) EXT4_FINCOM_EXTENTS
                      then ext4_extent_tree_init
                             (ino_upd (\<lambda>i. ext4_inode_set_flag i EXT4_INODE_FLAG_EXTENTS) fs ir) ir
                      else (fs, ir))
               in (fs, ir\<lparr>ir_dirty := True\<rparr>)))"

text \<open>Entry \<open>off\<close> of an indirect block, and storing one.\<close>

definition ind_get :: "bytes \<Rightarrow> u32 \<Rightarrow> u64" where
  "ind_get data off = ucast (get_le 4 (4 * unat off) data :: u32)"

definition ind_put :: "u32 \<Rightarrow> u32 \<Rightarrow> bytes \<Rightarrow> bytes" where
  "ind_put off v data = put_bytes (4 * unat off) (le_bytes 4 v) data"

text \<open>
  The level of indirection of a logical block, 0 when it is beyond the third one, and the
  offsets in the top level block.
\<close>

definition indirect_level :: "'d ext4_fs \<Rightarrow> u32 \<Rightarrow> nat" where
  "indirect_level fs iblock =
     (if ucast iblock < inode_block_limits fs ! 1 then 1
      else if ucast iblock < inode_block_limits fs ! 2 then 2
      else if ucast iblock < inode_block_limits fs ! 3 then 3
      else 0)"

definition level_offset :: "'d ext4_fs \<Rightarrow> nat \<Rightarrow> u32 \<Rightarrow> u32" where
  "level_offset fs l iblock = ucast (ucast iblock - inode_block_limits fs ! (l - 1))"

definition block_offset :: "'d ext4_fs \<Rightarrow> nat \<Rightarrow> u32 \<Rightarrow> u32" where
  "block_offset fs l blk_off_in_lvl = ucast (ucast blk_off_in_lvl div inode_blocks_per_level fs ! (l - 1))"

definition next_offset :: "'d ext4_fs \<Rightarrow> nat \<Rightarrow> u32 \<Rightarrow> u32" where
  "next_offset fs l blk_off_in_lvl = ucast (ucast blk_off_in_lvl mod inode_blocks_per_level fs ! l)"

section \<open>Looking a block up\<close>

text \<open>The walk through the indirect blocks, with \<open>l\<close> levels left.\<close>

fun indirect_walk ::
    "nat \<Rightarrow> 'd ext4_fs \<Rightarrow> u64 \<Rightarrow> u32 \<Rightarrow> (errno \<times> 'd ext4_fs \<times> u64 option) option" where
  "indirect_walk 0 fs current_block blk_off = Some (EOK, fs, Some current_block)"
| "indirect_walk (Suc l) fs current_block blk_off = do {
     (rc, fs, b) \<leftarrow> fs_block_get fs current_block;
     if rc \<noteq> EOK then Some (rc, fs, None)
     else do {
       let current_block = ind_get (fs_data fs b) (block_offset fs (Suc l) blk_off);
       (rc, fs) \<leftarrow> fs_block_set fs b;
       if rc \<noteq> EOK then Some (rc, fs, None)
       else if current_block = 0 then Some (EOK, fs, Some 0)
       else indirect_walk l fs current_block (next_offset fs l blk_off)
     }
   }"

definition get_inode_dblk_idx ::
    "'d ext4_fs \<Rightarrow> ext4_inode_ref \<Rightarrow> u32 \<Rightarrow> bool \<Rightarrow> bool \<Rightarrow>
     (errno \<times> 'd ext4_fs \<times> ext4_inode_ref \<times> u64 option) option" where
  "get_inode_dblk_idx fs ir iblock extent_create support_unwritten =
     (if ext4_inode_get_size (fs_sb fs) (ino_get fs ir) = 0 then Some (EOK, fs, ir, Some 0)
      else if uses_extents fs ir
      then do {
        (rc, fs, ir, current_fsblk, _) \<leftarrow> ext4_extent_get_blocks fs ir iblock 1 extent_create;
        if rc \<noteq> EOK then Some (rc, fs, ir, None)
        else if current_fsblk = 0 \<and> \<not> support_unwritten then None
        else Some (EOK, fs, ir, Some current_fsblk)
      }
      else if iblock < EXT4_INODE_DIRECT_BLOCK_COUNT
      then Some (EOK, fs, ir, Some (ucast (ext4_inode_get_direct_block (ino_get fs ir) iblock)))
      else do {
        let l = indirect_level fs iblock;
        if l = 0 then Some (EIO, fs, ir, None)
        else do {
          let current_block = ucast (ext4_inode_get_indirect_block (ino_get fs ir) (of_nat (l - 1)));
          if current_block = 0 then Some (EOK, fs, ir, Some 0)
          else do {
            (rc, fs, fblock) \<leftarrow> indirect_walk l fs current_block (level_offset fs l iblock);
            Some (rc, fs, ir, fblock)
          }
        }
      })"

definition ext4_fs_get_inode_dblk_idx ::
    "'d ext4_fs \<Rightarrow> ext4_inode_ref \<Rightarrow> u32 \<Rightarrow> bool \<Rightarrow> (errno \<times> 'd ext4_fs \<times> ext4_inode_ref \<times> u64 option) option" where
  "ext4_fs_get_inode_dblk_idx fs ir iblock support_unwritten =
     get_inode_dblk_idx fs ir iblock False support_unwritten"

definition ext4_fs_init_inode_dblk_idx ::
    "'d ext4_fs \<Rightarrow> ext4_inode_ref \<Rightarrow> u32 \<Rightarrow> (errno \<times> 'd ext4_fs \<times> ext4_inode_ref \<times> u64 option) option" where
  "ext4_fs_init_inode_dblk_idx fs ir iblock = get_inode_dblk_idx fs ir iblock True True"

section \<open>Where to allocate\<close>

text \<open>The size of an inode in blocks, as both loops of the code compute it.\<close>

definition size_blocks :: "ext4_sblock \<Rightarrow> u64 \<Rightarrow> u32" where
  "size_blocks sb inode_size =
     (let block_size = ucast (ext4_sb_get_block_size sb); n = ucast (inode_size div block_size)
      in if inode_size mod block_size \<noteq> 0 then n + 1 else n)"

definition inode_table_end :: "ext4_sblock \<Rightarrow> ext4_bgroup \<Rightarrow> u32 \<Rightarrow> u64" where
  "inode_table_end sb bg block_group =
     (let inodes_per_bg = sb_inodes_per_group sb;
          bg_count = ext4_block_group_cnt sb;
          itab_item_size = ucast (sb_inode_size sb);
          block_size = ext4_sb_get_block_size sb;
          itab_bytes = (if block_group < bg_count - 1 then inodes_per_bg * itab_item_size
                        else (sb_inodes_count sb - (bg_count - 1) * inodes_per_bg) * itab_item_size);
          inode_table_blocks = ucast (itab_bytes div block_size);
          inode_table_blocks = (if itab_bytes mod block_size \<noteq> 0 then inode_table_blocks + 1
                                else inode_table_blocks)
      in ext4_bg_get_inode_table_first_block bg sb + inode_table_blocks)"

definition ext4_fs_indirect_find_goal ::
    "'d ext4_fs \<Rightarrow> ext4_inode_ref \<Rightarrow> (errno \<times> 'd ext4_fs \<times> ext4_inode_ref \<times> u64) option" where
  "ext4_fs_indirect_find_goal fs ir = do {
     let iblock_cnt = size_blocks (fs_sb fs) (ext4_inode_get_size (fs_sb fs) (ino_get fs ir));
     (r, fs, ir, last) \<leftarrow>
       (if iblock_cnt > 0 then ext4_fs_get_inode_dblk_idx fs ir (iblock_cnt - 1) False
        else Some (EOK, fs, ir, Some 0));
     let goal = (case last of None \<Rightarrow> 0 | Some g \<Rightarrow> g);
     if r \<noteq> EOK then Some (r, fs, ir, goal)
     else if goal \<noteq> 0 then Some (EOK, fs, ir, goal + 1)
     else do {
       let block_group = (ir_index ir - 1) div sb_inodes_per_group (fs_sb fs);
       (r, fs, bg_ref) \<leftarrow> ext4_fs_get_block_group_ref fs block_group;
       if r \<noteq> EOK then Some (r, fs, ir, goal)
       else do {
         let goal = inode_table_end (fs_sb fs) (bgr_group fs bg_ref) block_group;
         (r, fs) \<leftarrow> ext4_fs_put_block_group_ref fs bg_ref;
         Some (r, fs, ir, goal)
       }
     }
   }"

section \<open>Setting a block\<close>

text \<open>
  A new indirect block: found and allocated, then read into the cache and zeroed. The code frees
  it when it cannot be read at the inode's level, and keeps it allocated below.
\<close>

definition new_indirect ::
    "'d ext4_fs \<Rightarrow> ext4_inode_ref \<Rightarrow> (errno \<times> 'd ext4_fs \<times> ext4_inode_ref \<times> u64) option" where
  "new_indirect fs ir = do {
     (rc, fs, ir, goal) \<leftarrow> ext4_fs_indirect_find_goal fs ir;
     if rc \<noteq> EOK then Some (rc, fs, ir, 0)
     else do {
       (rc, fs, ir, blk) \<leftarrow> ext4_balloc_alloc_block fs ir goal;
       if rc \<noteq> EOK then Some (rc, fs, ir, 0)
       else (case blk of None \<Rightarrow> None | Some new_blk \<Rightarrow> Some (EOK, fs, ir, new_blk))
     }
   }"

definition zero_indirect ::
    "'d ext4_fs \<Rightarrow> u64 \<Rightarrow> (errno \<times> bool \<times> 'd ext4_fs) option" where
  "zero_indirect fs new_blk = do {
     (rc, fs, b) \<leftarrow> fs_block_get_noread fs new_blk;
     if rc \<noteq> EOK then Some (rc, False, fs)
     else do {
       let fs = fs_dirty (fs_store fs b (memset 0 0 (unat (ext4_sb_get_block_size (fs_sb fs))) (fs_data fs b))) b;
       (rc, fs) \<leftarrow> fs_block_set fs b;
       Some (rc, True, fs)
     }
   }"

text \<open>The walk that stores \<open>fblock\<close>, with \<open>l\<close> levels left.\<close>

fun indirect_set ::
    "nat \<Rightarrow> 'd ext4_fs \<Rightarrow> ext4_inode_ref \<Rightarrow> u64 \<Rightarrow> u32 \<Rightarrow> u64 \<Rightarrow>
     (errno \<times> 'd ext4_fs \<times> ext4_inode_ref) option" where
  "indirect_set 0 fs ir current_block blk_off fblock = Some (EOK, fs, ir)"
| "indirect_set (Suc l) fs ir current_block blk_off fblock = do {
     let off = block_offset fs (Suc l) blk_off;
     (rc, fs, b) \<leftarrow> fs_block_get fs current_block;
     if rc \<noteq> EOK then Some (rc, fs, ir)
     else do {
       let current_block = ind_get (fs_data fs b) off;
       (rc, fs, ir, current_block) \<leftarrow>
         (if l > 0 \<and> current_block = 0
          then do {
            (rc, fs, ir, new_blk) \<leftarrow> new_indirect fs ir;
            if rc \<noteq> EOK then Some (rc, fs, ir, 0)
            else do {
              (rc, _, fs) \<leftarrow> zero_indirect fs new_blk;
              if rc \<noteq> EOK then Some (rc, fs, ir, 0)
              else Some (EOK, fs_dirty (fs_store fs b (ind_put off (ucast new_blk) (fs_data fs b))) b, ir, new_blk)
            }
          }
          else Some (EOK, fs, ir, current_block));
       if rc \<noteq> EOK then do { (_, fs) \<leftarrow> fs_block_set fs b; Some (rc, fs, ir) }
       else do {
         let fs = (if l = 0 then fs_dirty (fs_store fs b (ind_put off (ucast fblock) (fs_data fs b))) b else fs);
         (rc, fs) \<leftarrow> fs_block_set fs b;
         if rc \<noteq> EOK then Some (rc, fs, ir)
         else indirect_set l fs ir current_block (next_offset fs l blk_off) fblock
       }
     }
   }"

definition ext4_fs_set_inode_data_block_index ::
    "'d ext4_fs \<Rightarrow> ext4_inode_ref \<Rightarrow> u32 \<Rightarrow> u64 \<Rightarrow> (errno \<times> 'd ext4_fs \<times> ext4_inode_ref) option" where
  "ext4_fs_set_inode_data_block_index fs ir iblock fblock =
     (if uses_extents fs ir then Some (ENOTSUP, fs, ir)
      else if iblock < EXT4_INODE_DIRECT_BLOCK_COUNT
      then Some (EOK, ino_upd (\<lambda>i. ext4_inode_set_direct_block i iblock (ucast fblock)) fs ir, ir\<lparr>ir_dirty := True\<rparr>)
      else do {
        let l = indirect_level fs iblock;
        if l = 0 then Some (EIO, fs, ir)
        else do {
          let current_block = ucast (ext4_inode_get_indirect_block (ino_get fs ir) (of_nat (l - 1)));
          (rc, fs, ir, current_block) \<leftarrow>
            (if current_block = 0
             then do {
               (rc, fs, ir, new_blk) \<leftarrow> new_indirect fs ir;
               if rc \<noteq> EOK then Some (rc, fs, ir, 0)
               else do {
                 let fs = ino_upd (\<lambda>i. ext4_inode_set_indirect_block i (of_nat (l - 1)) (ucast new_blk)) fs ir;
                 let ir = ir\<lparr>ir_dirty := True\<rparr>;
                 (rc, loaded, fs) \<leftarrow> zero_indirect fs new_blk;
                 if rc \<noteq> EOK \<and> \<not> loaded
                 then do { (_, fs, ir) \<leftarrow> ext4_balloc_free_block fs ir new_blk; Some (rc, fs, ir, 0) }
                 else Some (rc, fs, ir, new_blk)
               }
             }
             else Some (EOK, fs, ir, current_block));
          if rc \<noteq> EOK then Some (rc, fs, ir)
          else indirect_set l fs ir current_block (level_offset fs l iblock) fblock
        }
      })"

definition ext4_fs_append_inode_dblk ::
    "'d ext4_fs \<Rightarrow> ext4_inode_ref \<Rightarrow>
     (errno \<times> 'd ext4_fs \<times> ext4_inode_ref \<times> (u64 \<times> u32) option) option" where
  "ext4_fs_append_inode_dblk fs ir = do {
     let inode_size = ext4_inode_get_size (fs_sb fs) (ino_get fs ir);
     let block_size = (ucast (ext4_sb_get_block_size (fs_sb fs)) :: u64);
     if uses_extents fs ir
     then do {
       let iblock = ucast ((inode_size + block_size - 1) div block_size);
       (rc, fs, ir, current_fsblk, _) \<leftarrow> ext4_extent_get_blocks fs ir iblock 1 True;
       if rc \<noteq> EOK then Some (rc, fs, ir, None)
       else if current_fsblk = 0 then None
       else Some (rc, ino_upd (\<lambda>i. ext4_inode_set_size i (inode_size + block_size)) fs ir,
                  ir\<lparr>ir_dirty := True\<rparr>, Some (current_fsblk, iblock))
     }
     else do {
       let inode_size = (if inode_size mod block_size \<noteq> 0
                         then inode_size + (block_size - inode_size mod block_size) else inode_size);
       let new_block_idx = ucast (inode_size div block_size);
       (rc, fs, ir, goal) \<leftarrow> ext4_fs_indirect_find_goal fs ir;
       if rc \<noteq> EOK then Some (rc, fs, ir, None)
       else do {
         (rc, fs, ir, blk) \<leftarrow> ext4_balloc_alloc_block fs ir goal;
         if rc \<noteq> EOK then Some (rc, fs, ir, None)
         else (case blk of None \<Rightarrow> None | Some phys_block \<Rightarrow> do {
           (rc, fs, ir) \<leftarrow> ext4_fs_set_inode_data_block_index fs ir new_block_idx phys_block;
           if rc \<noteq> EOK
           then do { (_, fs, ir) \<leftarrow> ext4_balloc_free_block fs ir phys_block; Some (rc, fs, ir, None) }
           else Some (EOK, ino_upd (\<lambda>i. ext4_inode_set_size i (inode_size + block_size)) fs ir,
                      ir\<lparr>ir_dirty := True\<rparr>, Some (phys_block, new_block_idx))
         })
       }
     }
   }"

section \<open>Releasing blocks\<close>

text \<open>The walk that clears the entry of a block; it ends with the block that the entry held.\<close>

fun indirect_clear ::
    "nat \<Rightarrow> 'd ext4_fs \<Rightarrow> u64 \<Rightarrow> u32 \<Rightarrow> (errno \<times> 'd ext4_fs \<times> u64) option" where
  "indirect_clear 0 fs current_block blk_off = Some (EOK, fs, current_block)"
| "indirect_clear (Suc l) fs current_block blk_off =
     (if current_block = 0 then Some (EOK, fs, 0)
      else do {
        let off = block_offset fs (Suc l) blk_off;
        (rc, fs, b) \<leftarrow> fs_block_get fs current_block;
        if rc \<noteq> EOK then Some (rc, fs, 0)
        else do {
          let current_block = ind_get (fs_data fs b) off;
          let fs = (if l = 0 then fs_dirty (fs_store fs b (ind_put off 0 (fs_data fs b))) b else fs);
          (rc, fs) \<leftarrow> fs_block_set fs b;
          if rc \<noteq> EOK then Some (rc, fs, 0)
          else indirect_clear l fs current_block (next_offset fs l blk_off)
        }
      })"

definition ext4_fs_release_inode_block ::
    "'d ext4_fs \<Rightarrow> ext4_inode_ref \<Rightarrow> u32 \<Rightarrow> (errno \<times> 'd ext4_fs \<times> ext4_inode_ref) option" where
  "ext4_fs_release_inode_block fs ir iblock =
     (if uses_extents fs ir then None
      else if iblock < EXT4_INODE_DIRECT_BLOCK_COUNT
      then do {
        let fblock = ext4_inode_get_direct_block (ino_get fs ir) iblock;
        if fblock = 0 then Some (EOK, fs, ir)
        else ext4_balloc_free_block (ino_upd (\<lambda>i. ext4_inode_set_direct_block i iblock 0) fs ir) ir (ucast fblock)
      }
      else do {
        let level = indirect_level fs iblock;
        if level = 0 then Some (EIO, fs, ir)
        else do {
          let current_block = ucast (ext4_inode_get_indirect_block (ino_get fs ir) (of_nat (level - 1)));
          (rc, fs, fblock) \<leftarrow> indirect_clear level fs current_block (level_offset fs level iblock);
          if rc \<noteq> EOK then Some (rc, fs, ir)
          else if fblock = 0 then Some (EOK, fs, ir)
          else ext4_balloc_free_block fs ir fblock
        }
      })"

fun release_blocks ::
    "nat \<Rightarrow> 'd ext4_fs \<Rightarrow> ext4_inode_ref \<Rightarrow> u32 \<Rightarrow> (errno \<times> 'd ext4_fs \<times> ext4_inode_ref) option" where
  "release_blocks 0 fs ir iblock = Some (EOK, fs, ir)"
| "release_blocks (Suc n) fs ir iblock = do {
     (r, fs, ir) \<leftarrow> ext4_fs_release_inode_block fs ir iblock;
     if r \<noteq> EOK then Some (r, fs, ir) else release_blocks n fs ir (iblock + 1)
   }"

text \<open>Clearing the end of a symbolic link that is kept in the inode.\<close>

definition clear_symlink :: "nat \<Rightarrow> ext4_inode \<Rightarrow> ext4_inode" where
  "clear_symlink new_size inode =
     inode\<lparr>in_blocks := get_les 4 0 15 (memset new_size 0 (60 - new_size) (les_bytes 4 (in_blocks inode)))\<rparr>"

definition ext4_fs_truncate_inode ::
    "'d ext4_fs \<Rightarrow> ext4_inode_ref \<Rightarrow> u64 \<Rightarrow> (errno \<times> 'd ext4_fs \<times> ext4_inode_ref) option" where
  "ext4_fs_truncate_inode fs ir new_size =
     (let sb = fs_sb fs; inode = ino_get fs ir
      in if \<not> ext4_inode_can_truncate sb inode then Some (EINVAL, fs, ir)
         else do {
           let old_size = ext4_inode_get_size sb inode;
           if old_size = new_size then Some (EOK, fs, ir)
           else if old_size < new_size then Some (EINVAL, fs, ir)
           else if ext4_inode_is_type sb inode EXT4_INODE_MODE_SOFTLINK \<and> old_size < 60 \<and>
                   ext4_inode_get_blocks_count sb inode = 0
           then Some (EOK, ino_upd (\<lambda>i. ext4_inode_set_size (clear_symlink (unat new_size) i) new_size) fs ir,
                      ir\<lparr>ir_dirty := True\<rparr>)
           else do {
             let t = ext4_inode_type sb inode;
             if t = EXT4_INODE_MODE_CHARDEV \<or> t = EXT4_INODE_MODE_BLOCKDEV \<or> t = EXT4_INODE_MODE_SOCKET
             then Some (EOK, ino_upd (\<lambda>i. i\<lparr>in_blocks := (in_blocks i)[0 := 0, 1 := 0]\<rparr>) fs ir, ir\<lparr>ir_dirty := True\<rparr>)
             else do {
               let block_size = ucast (ext4_sb_get_block_size sb);
               let new_blocks_cnt = (ucast ((new_size + block_size - 1) div block_size) :: u32);
               let old_blocks_cnt = (ucast ((old_size + block_size - 1) div block_size) :: u32);
               let diff_blocks_cnt = old_blocks_cnt - new_blocks_cnt;
               (r, fs, ir) \<leftarrow>
                 (if uses_extents fs ir
                  then if diff_blocks_cnt \<noteq> 0 then ext4_extent_remove_space fs ir new_blocks_cnt EXT_MAX_BLOCKS
                       else Some (EOK, fs, ir)
                  else release_blocks (unat diff_blocks_cnt) fs ir new_blocks_cnt);
               if r \<noteq> EOK then Some (r, fs, ir)
               else Some (EOK, ino_upd (\<lambda>i. ext4_inode_set_size i new_size) fs ir, ir\<lparr>ir_dirty := True\<rparr>)
             }
           }
         })"

section \<open>Freeing an inode\<close>

text \<open>
  Freeing the blocks that entries \<open>off, off + 1, ..\<close> of an indirect block name, \<open>n\<close> of them.
\<close>

fun free_entries ::
    "nat \<Rightarrow> 'd ext4_fs \<Rightarrow> ext4_inode_ref \<Rightarrow> ext4_block \<Rightarrow> u32 \<Rightarrow> (errno \<times> 'd ext4_fs \<times> ext4_inode_ref) option" where
  "free_entries 0 fs ir b off = Some (EOK, fs, ir)"
| "free_entries (Suc n) fs ir b off = do {
     let ind_block = ind_get (fs_data fs b) off;
     if ind_block = 0 then free_entries n fs ir b (off + 1)
     else do {
       (rc, fs, ir) \<leftarrow> ext4_balloc_free_block fs ir ind_block;
       if rc \<noteq> EOK then Some (rc, fs, ir) else free_entries n fs ir b (off + 1)
     }
   }"

text \<open>The same one level up: the blocks below each entry, then the block of the entry.\<close>

fun free_subtrees ::
    "nat \<Rightarrow> 'd ext4_fs \<Rightarrow> ext4_inode_ref \<Rightarrow> ext4_block \<Rightarrow> u32 \<Rightarrow> nat \<Rightarrow>
     (errno \<times> 'd ext4_fs \<times> ext4_inode_ref) option" where
  "free_subtrees 0 fs ir b off count = Some (EOK, fs, ir)"
| "free_subtrees (Suc n) fs ir b off count = do {
     let ind_block = ind_get (fs_data fs b) off;
     if ind_block = 0 then free_subtrees n fs ir b (off + 1) count
     else do {
       (rc, fs, subblock) \<leftarrow> fs_block_get fs ind_block;
       if rc \<noteq> EOK then Some (rc, fs, ir)
       else do {
         (rc, fs, ir) \<leftarrow> free_entries count fs ir subblock 0;
         (_, fs) \<leftarrow> fs_block_set fs subblock;
         if rc \<noteq> EOK then Some (rc, fs, ir)
         else do {
           (rc, fs, ir) \<leftarrow> ext4_balloc_free_block fs ir ind_block;
           if rc \<noteq> EOK then Some (rc, fs, ir) else free_subtrees n fs ir b (off + 1) count
         }
       }
     }
   }"

text \<open>
  One of the three indirect blocks of the inode: the blocks below it by \<open>below\<close>, then itself.
\<close>

definition free_indirect ::
    "('d ext4_fs \<Rightarrow> ext4_inode_ref \<Rightarrow> ext4_block \<Rightarrow> (errno \<times> 'd ext4_fs \<times> ext4_inode_ref) option) \<Rightarrow>
     'd ext4_fs \<Rightarrow> ext4_inode_ref \<Rightarrow> u32 \<Rightarrow> (errno \<times> 'd ext4_fs \<times> ext4_inode_ref) option" where
  "free_indirect below fs ir k = do {
     let fblock = ucast (ext4_inode_get_indirect_block (ino_get fs ir) k);
     if fblock = 0 then Some (EOK, fs, ir)
     else do {
       (rc, fs, block) \<leftarrow> fs_block_get fs fblock;
       if rc \<noteq> EOK then Some (rc, fs, ir)
       else do {
         (rc, fs, ir) \<leftarrow> below fs ir block;
         (_, fs) \<leftarrow> fs_block_set fs block;
         if rc \<noteq> EOK then Some (rc, fs, ir)
         else do {
           (rc, fs, ir) \<leftarrow> ext4_balloc_free_block fs ir fblock;
           if rc \<noteq> EOK then Some (rc, fs, ir)
           else Some (EOK, ino_upd (\<lambda>i. ext4_inode_set_indirect_block i k 0) fs ir, ir)
         }
       }
     }
   }"

definition free_single ::
    "'d ext4_fs \<Rightarrow> ext4_inode_ref \<Rightarrow> (errno \<times> 'd ext4_fs \<times> ext4_inode_ref) option" where
  "free_single fs ir = do {
     let fblock = ucast (ext4_inode_get_indirect_block (ino_get fs ir) 0);
     if fblock = 0 then Some (EOK, fs, ir)
     else do {
       (rc, fs, ir) \<leftarrow> ext4_balloc_free_block fs ir fblock;
       if rc \<noteq> EOK then Some (rc, fs, ir)
       else Some (EOK, ino_upd (\<lambda>i. ext4_inode_set_indirect_block i 0 0) fs ir, ir)
     }
   }"

definition ext4_fs_free_inode ::
    "'d ext4_fs \<Rightarrow> ext4_inode_ref \<Rightarrow> (errno \<times> 'd ext4_fs \<times> ext4_inode_ref) option" where
  "ext4_fs_free_inode fs ir = do {
     let count = unat (ext4_sb_get_block_size (fs_sb fs) div 4);
     (rc, fs, ir) \<leftarrow>
       (if uses_extents fs ir then Some (EOK, fs, ir)
        else do {
          (rc, fs, ir) \<leftarrow> free_single fs ir;
          if rc \<noteq> EOK then Some (rc, fs, ir)
          else do {
            (rc, fs, ir) \<leftarrow> free_indirect (\<lambda>fs ir b. free_entries count fs ir b 0) fs ir 1;
            if rc \<noteq> EOK then Some (rc, fs, ir)
            else free_indirect (\<lambda>fs ir b. free_subtrees count fs ir b 0 count) fs ir 2
          }
        });
     if rc \<noteq> EOK then Some (rc, fs, ir)
     else do {
       let ir = ir\<lparr>ir_dirty := True\<rparr>;
       let xattr_block = ext4_inode_get_file_acl (ino_get fs ir) (fs_sb fs);
       (rc, fs, ir) \<leftarrow>
         (if xattr_block \<noteq> 0
          then do {
            (rc, fs, ir) \<leftarrow> ext4_balloc_free_block fs ir xattr_block;
            if rc \<noteq> EOK then Some (rc, fs, ir)
            else Some (EOK, ino_upd (\<lambda>i. ext4_inode_set_file_acl i (fs_sb fs) 0) fs ir, ir)
          }
          else Some (EOK, fs, ir));
       if rc \<noteq> EOK then Some (rc, fs, ir)
       else do {
         (rc, fs) \<leftarrow> ext4_ialloc_free_inode fs (ir_index ir)
                       (ext4_inode_is_type (fs_sb fs) (ino_get fs ir) EXT4_INODE_MODE_DIRECTORY);
         Some (rc, fs, ir)
       }
     }
   }"

end
