(* ===== verification/Dir_Block.thy ===== *)
theory Dir_Block
  imports Super Inode "HOL-Library.Monad_Syntax" "HOL-Library.Multiset"
begin

text \<open>
  The blocks of a linear directory, \<open>src/ext4_dir.c\<close> and \<open>include/ext4_dir.h\<close>: entries, searching a
  name, inserting and removing an entry. A block is its bytes, a pointer to an entry its offset.
\<close>

section \<open>Entries\<close>

record ext4_dir_en =
  en_inode :: u32
  en_entry_len :: u16
  en_name_len :: u8
  en_in :: u8

definition ext4_dir_en_bytes :: "ext4_dir_en \<Rightarrow> bytes" where
  "ext4_dir_en_bytes de =
     le_bytes 4 (en_inode de) @ le_bytes 2 (en_entry_len de) @ [en_name_len de, en_in de]"

definition ext4_dir_en_of :: "bytes \<Rightarrow> ext4_dir_en" where
  "ext4_dir_en_of bs =
     \<lparr>en_inode = get_le 4 0 bs, en_entry_len = get_le 2 4 bs, en_name_len = get_le 1 6 bs,
      en_in = get_le 1 7 bs\<rparr>"

definition de_at :: "bytes \<Rightarrow> nat \<Rightarrow> ext4_dir_en" where
  "de_at data off = ext4_dir_en_of (drop off data)"

definition de_put :: "nat \<Rightarrow> ext4_dir_en \<Rightarrow> bytes \<Rightarrow> bytes" where
  "de_put off de data = put_bytes off (ext4_dir_en_bytes de) data"

text \<open>The first \<open>n\<close> bytes of the name of an entry.\<close>

definition de_name :: "bytes \<Rightarrow> nat \<Rightarrow> nat \<Rightarrow> bytes" where
  "de_name data off n = take n (drop (off + 8) data)"

definition EXT4_DIRENTRY_DIR_CSUM :: u8 where "EXT4_DIRENTRY_DIR_CSUM = 0xDE"

text \<open>Revision 0.0 to 0.4 keeps the high byte of the name length in the place of the type.\<close>

definition old_rev :: "ext4_sblock \<Rightarrow> bool" where
  "old_rev sb \<longleftrightarrow> sb_rev_level sb = 0 \<and> sb_minor_rev_level sb < 5"

definition ext4_dir_en_get_name_len :: "ext4_sblock \<Rightarrow> ext4_dir_en \<Rightarrow> u16" where
  "ext4_dir_en_get_name_len sb de =
     (let v = ucast (en_name_len de)
      in if sb_rev_level sb = 0 \<and> sb_minor_rev_level sb < 5 then v OR push_bit 8 (ucast (en_in de)) else v)"

definition ext4_dir_en_set_name_len :: "ext4_sblock \<Rightarrow> ext4_dir_en \<Rightarrow> u16 \<Rightarrow> ext4_dir_en" where
  "ext4_dir_en_set_name_len sb de len =
     (let de = de\<lparr>en_name_len := ucast len\<rparr>
      in if sb_rev_level sb = 0 \<and> sb_minor_rev_level sb < 5 then de\<lparr>en_in := ucast (drop_bit 8 len)\<rparr> else de)"

definition ext4_dir_en_get_inode_type :: "ext4_sblock \<Rightarrow> ext4_dir_en \<Rightarrow> u8" where
  "ext4_dir_en_get_inode_type sb de =
     (if sb_rev_level sb > 0 \<or> sb_minor_rev_level sb \<ge> 5 then en_in de else 0)"

definition ext4_dir_en_set_inode_type :: "ext4_sblock \<Rightarrow> ext4_dir_en \<Rightarrow> u8 \<Rightarrow> ext4_dir_en" where
  "ext4_dir_en_set_inode_type sb de t =
     (if sb_rev_level sb > 0 \<or> sb_minor_rev_level sb \<ge> 5 then de\<lparr>en_in := t\<rparr> else de)"

text \<open>The type of an entry for an inode with mode type \<open>t\<close>.\<close>

definition de_type_of_mode :: "u32 \<Rightarrow> u8" where
  "de_type_of_mode t =
     (if t = EXT4_INODE_MODE_DIRECTORY then 2
      else if t = EXT4_INODE_MODE_FILE then 1
      else if t = EXT4_INODE_MODE_SOFTLINK then 7
      else if t = EXT4_INODE_MODE_CHARDEV then 3
      else if t = EXT4_INODE_MODE_BLOCKDEV then 4
      else if t = EXT4_INODE_MODE_FIFO then 5
      else if t = EXT4_INODE_MODE_SOCKET then 6
      else 0)"

text \<open>
  \<open>ext4_dir_write_entry\<close> for the child inode \<open>child\<close> of mode type \<open>t\<close>; \<open>None\<close> is its assertion.
\<close>

definition ext4_dir_write_entry ::
    "ext4_sblock \<Rightarrow> nat \<Rightarrow> u16 \<Rightarrow> u32 \<Rightarrow> u32 \<Rightarrow> bytes \<Rightarrow> bytes \<Rightarrow> bytes option" where
  "ext4_dir_write_entry sb off entry_len t child name data =
     (if \<not> ucast entry_len \<le> ext4_sb_get_block_size sb then None
      else (let de = de_at data off;
                de = ext4_dir_en_set_inode_type sb de (de_type_of_mode t);
                de = de\<lparr>en_inode := child\<rparr>;
                de = de\<lparr>en_entry_len := entry_len\<rparr>;
                de = ext4_dir_en_set_name_len sb de (of_nat (length name))
            in Some (put_bytes (off + 8) name (de_put off de data))))"

section \<open>Searching a block\<close>

text \<open>The limits are computed from the block size; \<open>Inl\<close> is the error code.\<close>

function find_in_block_loop :: "ext4_sblock \<Rightarrow> nat \<Rightarrow> bytes \<Rightarrow> bytes \<Rightarrow> nat \<Rightarrow> errno + nat" where
  "find_in_block_loop sb limit name data off =
     (if off < limit
      then if off + length name > limit then Inl ENOENT
           else (let de = de_at data off
                 in if en_inode de \<noteq> 0 \<and> unat (ext4_dir_en_get_name_len sb de) = length name \<and>
                       de_name data off (length name) = name then Inr off
                    else if en_entry_len de = 0 then Inl EINVAL
                    else find_in_block_loop sb limit name data (off + unat (en_entry_len de)))
      else Inl ENOENT)"
  by pat_completeness auto
termination
  by (relation "measure (\<lambda>(sb, limit, name, data, off). limit - off)") (auto intro!: diff_less_mono2 simp: unat_gt_0)

declare find_in_block_loop.simps [simp del]

definition ext4_dir_find_in_block :: "ext4_sblock \<Rightarrow> bytes \<Rightarrow> bytes \<Rightarrow> errno + nat" where
  "ext4_dir_find_in_block sb name data =
     find_in_block_loop sb (unat (ext4_sb_get_block_size sb)) name data 0"

section \<open>Inserting into a block\<close>

text \<open>
  The walk of \<open>ext4_dir_try_insert_entry\<close>, without the checksum: \<open>Some None\<close> is \<open>ENOSPC\<close>. An entry
  of length 0 that has no room keeps the loop where it is.
\<close>

definition align4 :: "u16 \<Rightarrow> u16 \<Rightarrow> u16" where
  "align4 len base = (if base mod 4 \<noteq> 0 then len + (4 - base mod 4) else len)"

partial_function (option) insert_loop ::
    "ext4_sblock \<Rightarrow> u16 \<Rightarrow> u32 \<Rightarrow> u32 \<Rightarrow> bytes \<Rightarrow> bytes \<Rightarrow> nat \<Rightarrow> bytes option option" where
  "insert_loop sb required_len t child name data start =
     (if start < unat (ext4_sb_get_block_size sb)
      then let de = de_at data start;
               rec_len = en_entry_len de;
               itype = ext4_dir_en_get_inode_type sb de;
               used_len = ext4_dir_en_get_name_len sb de;
               sz = align4 (8 + used_len) used_len;
               free_space = rec_len - sz
           in if en_inode de = 0 \<and> itype \<noteq> EXT4_DIRENTRY_DIR_CSUM \<and> rec_len \<ge> required_len
              then map_option Some (ext4_dir_write_entry sb start rec_len t child name data)
              else if en_inode de \<noteq> 0 \<and> free_space \<ge> required_len
              then map_option Some
                     (ext4_dir_write_entry sb (start + unat sz) free_space t child name
                        (de_put start (de\<lparr>en_entry_len := sz\<rparr>) data))
              else insert_loop sb required_len t child name data (start + unat rec_len)
      else Some None)"

definition insert_in_block ::
    "ext4_sblock \<Rightarrow> u32 \<Rightarrow> u32 \<Rightarrow> bytes \<Rightarrow> bytes \<Rightarrow> bytes option option" where
  "insert_in_block sb t child name data =
     (let required_len = 8 + of_nat (length name)
      in insert_loop sb (align4 required_len required_len) t child name data 0)"

section \<open>Removing from a block\<close>

text \<open>
  The part of \<open>ext4_dir_remove_entry\<close> that unlinks the entry at \<open>pos\<close>: the predecessor is the
  entry whose end is not before \<open>pos\<close>.
\<close>

partial_function (option) predecessor :: "bytes \<Rightarrow> nat \<Rightarrow> nat \<Rightarrow> nat option" where
  "predecessor data pos offset =
     (let de_len = unat (en_entry_len (de_at data offset))
      in if offset + de_len < pos then predecessor data pos (offset + de_len) else Some offset)"

definition remove_in_block :: "bytes \<Rightarrow> nat \<Rightarrow> bytes option" where
  "remove_in_block data pos = do {
     let data = de_put pos ((de_at data pos)\<lparr>en_inode := 0\<rparr>) data;
     if pos = 0 then Some data
     else do {
       offset \<leftarrow> predecessor data pos 0;
       let tmp_de = de_at data offset;
       let de_len = en_entry_len tmp_de;
       if unat de_len + offset \<noteq> pos then None
       else do {
         let del_len = en_entry_len (de_at data pos);
         Some (de_put offset (tmp_de\<lparr>en_entry_len := de_len + del_len\<rparr>) data)
       }
     }
   }"

section \<open>A block as its records\<close>

text \<open>
  A block is in order when it is the concatenation of records, each as long as its own length
  field says: a multiple of four, at least the header, and with room for the name when it is in
  use. \<open>entries\<close> is what the block stands for, its names and inodes in order.
\<close>

definition rec_name :: "ext4_sblock \<Rightarrow> bytes \<Rightarrow> bytes" where
  "rec_name sb c = take (unat (ext4_dir_en_get_name_len sb (ext4_dir_en_of c))) (drop 8 c)"

definition round4 :: "nat \<Rightarrow> nat" where
  "round4 n = 4 * ((n + 3) div 4)"

definition rec_used :: "ext4_sblock \<Rightarrow> bytes \<Rightarrow> nat" where
  "rec_used sb c = 8 + round4 (unat (ext4_dir_en_get_name_len sb (ext4_dir_en_of c)))"

definition rec_ok :: "ext4_sblock \<Rightarrow> bytes \<Rightarrow> bool" where
  "rec_ok sb c \<longleftrightarrow>
     8 \<le> length c \<and> length c mod 4 = 0 \<and> length c = unat (en_entry_len (ext4_dir_en_of c)) \<and>
     (en_inode (ext4_dir_en_of c) \<noteq> 0 \<longrightarrow> rec_used sb c \<le> length c)"

definition block_ok :: "ext4_sblock \<Rightarrow> bytes list \<Rightarrow> bool" where
  "block_ok sb cs \<longleftrightarrow>
     (\<forall>c \<in> set cs. rec_ok sb c) \<and> length (concat cs) = unat (ext4_sb_get_block_size sb)"

definition entries :: "ext4_sblock \<Rightarrow> bytes list \<Rightarrow> (bytes \<times> u32) list" where
  "entries sb cs =
     map (\<lambda>c. (rec_name sb c, en_inode (ext4_dir_en_of c)))
       (filter (\<lambda>c. en_inode (ext4_dir_en_of c) \<noteq> 0) cs)"

lemma entries_simps:
  "entries sb [] = []" "entries sb (as @ bs) = entries sb as @ entries sb bs"
  "entries sb (c # cs) =
     (if en_inode (ext4_dir_en_of c) \<noteq> 0 then [(rec_name sb c, en_inode (ext4_dir_en_of c))] else []) @ entries sb cs"
  by (simp_all add: entries_def)

lemma dir_en_bytes_length [simp]: "length (ext4_dir_en_bytes de) = 8"
  by (simp add: ext4_dir_en_bytes_def)

lemma get_le_byte: "get_le (Suc 0) 0 (b # bs) = (b :: u8)" "get_le (Suc 0) (Suc 0) (a # b # bs) = b"
  by (simp_all add: get_le_def)

lemma dir_en_of_bytes [byte_simps]: "ext4_dir_en_of (ext4_dir_en_bytes de @ rest) = de"
  by (simp add: ext4_dir_en_bytes_def ext4_dir_en_of_def byte_simps get_le_byte numeral_eq_Suc take_Suc)

lemma get_le_prefix: "off + n \<le> length c \<Longrightarrow> get_le n off (c @ post) = get_le n off c"
  by (rule get_le_in)

lemma dir_en_of_prefix: "8 \<le> length c \<Longrightarrow> ext4_dir_en_of (c @ post) = ext4_dir_en_of c"
  by (simp add: ext4_dir_en_of_def get_le_prefix)

lemma dir_en_of_take: "8 \<le> n \<Longrightarrow> ext4_dir_en_of (take n c) = ext4_dir_en_of c"
  by (simp add: ext4_dir_en_of_def get_le_take)

lemma de_at_mid: "8 \<le> length c \<Longrightarrow> de_at (pre @ c @ post) (length pre) = ext4_dir_en_of c"
  by (simp add: de_at_def dir_en_of_prefix)

lemma put_bytes_mid:
  assumes "k + length x \<le> length c"
  shows "put_bytes (length pre + k) x (pre @ c @ post) = pre @ put_bytes k x c @ post"
  using assms by (simp add: put_bytes_def)

lemma put_bytes_mid0:
  assumes "length x \<le> length c"
  shows "put_bytes (length pre) x (pre @ c @ post) = pre @ put_bytes 0 x c @ post"
  using put_bytes_mid [of 0 x c pre post] assms by simp

lemma de_name_mid:
  "8 + n \<le> length c \<Longrightarrow> de_name (pre @ c @ post) (length pre) n = take n (drop 8 c)"
  by (simp add: de_name_def)

section \<open>Searching\<close>

text \<open>The records before the first one in use with the given name.\<close>

definition has_name :: "ext4_sblock \<Rightarrow> bytes \<Rightarrow> bytes \<Rightarrow> bool" where
  "has_name sb name c \<longleftrightarrow> en_inode (ext4_dir_en_of c) \<noteq> 0 \<and> rec_name sb c = name"

lemma rec_used_name: "8 + unat (ext4_dir_en_get_name_len sb (ext4_dir_en_of c)) \<le> rec_used sb c"
  by (simp add: rec_used_def round4_def)

lemma has_name_test:
  assumes "rec_ok sb c"
  shows "has_name sb name c \<longleftrightarrow>
    en_inode (ext4_dir_en_of c) \<noteq> 0 \<and>
    unat (ext4_dir_en_get_name_len sb (ext4_dir_en_of c)) = length name \<and>
    de_name (pre @ c @ post) (length pre) (length name) = name"
proof (cases "en_inode (ext4_dir_en_of c) = 0")
  case False
  with assms rec_used_name [of sb c]
  have len: "8 + unat (ext4_dir_en_get_name_len sb (ext4_dir_en_of c)) \<le> length c"
    by (simp add: rec_ok_def)
  then have "length (rec_name sb c) = unat (ext4_dir_en_get_name_len sb (ext4_dir_en_of c))"
    by (simp add: rec_name_def)
  with False len show ?thesis
    by (auto simp: has_name_def rec_name_def de_name_mid)
qed (simp add: has_name_def)

lemma has_name_fits: "rec_ok sb c \<Longrightarrow> has_name sb name c \<Longrightarrow> 8 + length name \<le> length c"
  using rec_used_name [of sb c] by (auto simp: has_name_def rec_ok_def rec_name_def)

lemma find_loop:
  assumes "\<forall>c \<in> set cs. rec_ok sb c"
  shows "find_in_block_loop sb (length pre + length (concat cs)) name (pre @ concat cs) (length pre) =
    (if \<exists>c \<in> set cs. has_name sb name c
     then Inr (length pre + length (concat (takeWhile (\<lambda>c. \<not> has_name sb name c) cs))) else Inl ENOENT)"
  using assms
proof (induction cs arbitrary: pre)
  case Nil
  then show ?case by (simp add: find_in_block_loop.simps)
next
  case (Cons c cs)
  have c: "rec_ok sb c" and cs: "\<forall>c \<in> set cs. rec_ok sb c" using Cons.prems by simp_all
  have len: "8 \<le> length c" "length c = unat (en_entry_len (ext4_dir_en_of c))"
    using c by (simp_all add: rec_ok_def)
  have at: "de_at (pre @ c @ concat cs) (length pre) = ext4_dir_en_of c" by (rule de_at_mid [OF len(1)])
  have nz: "en_entry_len (ext4_dir_en_of c) \<noteq> 0" using len by (auto simp: unat_eq_zero)
  have lt: "length pre < length pre + length (concat (c # cs))" using len(1) by (cases c) auto
  show ?case
  proof (cases "length name > length (concat (c # cs))")
    case True
    have "\<not> has_name sb name d" if "d \<in> set (c # cs)" for d
    proof
      assume "has_name sb name d"
      with that Cons.prems have "8 + length name \<le> length d" by (auto dest: has_name_fits)
      moreover have "length d \<le> length (concat (c # cs))"
        using that by (induction "c # cs" arbitrary: c cs) (auto simp: in_set_conv_decomp)
      ultimately show False using True by simp
    qed
    then have none: "\<not> (\<exists>d \<in> set (c # cs). has_name sb name d)" by blast
    show ?thesis
      by (subst find_in_block_loop.simps) (use lt True none in simp)
  next
    case False
    have test: "has_name sb name c \<longleftrightarrow>
        en_inode (ext4_dir_en_of c) \<noteq> 0 \<and>
        unat (ext4_dir_en_get_name_len sb (ext4_dir_en_of c)) = length name \<and>
        de_name (pre @ c @ concat cs) (length pre) (length name) = name"
      by (rule has_name_test [OF c])
    show ?thesis
    proof (cases "has_name sb name c")
      case hit: True
      then have t: "en_inode (ext4_dir_en_of c) \<noteq> 0"
        "unat (ext4_dir_en_get_name_len sb (ext4_dir_en_of c)) = length name"
        "de_name (pre @ c @ concat cs) (length pre) (length name) = name" by (simp_all add: test)
      show ?thesis
        by (subst find_in_block_loop.simps) (use lt False t hit in \<open>simp add: Let_def at\<close>)
    next
      case miss: False
      have step: "find_in_block_loop sb (length pre + length (concat (c # cs))) name (pre @ concat (c # cs)) (length pre) =
          find_in_block_loop sb (length (pre @ c) + length (concat cs)) name ((pre @ c) @ concat cs) (length (pre @ c))"
        by (subst find_in_block_loop.simps)
          (use lt False miss [unfolded test] nz len(2) in \<open>auto simp: Let_def at add.assoc\<close>)
      show ?thesis
        unfolding step Cons.IH [OF cs, of "pre @ c"] using miss by simp
    qed
  qed
qed

section \<open>Inserting\<close>

lemma unat_mod4: "unat ((w :: u16) mod 4) = unat w mod 4"
  by (simp add: unat_mod)

lemma align4_len:
  assumes "8 + round4 (unat w) < 65536"
  shows "unat (align4 (8 + w) w) = 8 + round4 (unat w)" "unat (align4 (8 + w) (8 + w)) = 8 + round4 (unat w)"
proof -
  have add: "unat (a + b) = unat a + unat b" if "unat a + unat b < 65536" for a b :: u16
    using that by (simp add: unat_word_ariths(1))
  have 8: "unat (8 + w) = 8 + unat w"
    using assms by (simp add: round4_def unat_word_ariths(1))
  have m: "unat (4 - v mod 4) = 4 - unat v mod 4" for v :: u16
  proof -
    have "v mod 4 \<le> 4" by (simp add: word_le_nat_alt unat_mod4 less_imp_le)
    then show ?thesis by (simp add: unat_minus unat_mod4)
  qed
  have z: "(v mod 4 \<noteq> 0) \<longleftrightarrow> (unat v mod 4 \<noteq> 0)" for v :: u16
    by (metis unat_0 unat_mod4 word_unat_eq_iff)
  have sum: "unat (8 + w + (4 - v mod 4)) = 8 + unat w + (4 - unat v mod 4)"
    if "unat v mod 4 = unat w mod 4" "unat v mod 4 \<noteq> 0" for v :: u16
  proof -
    have "8 + unat w + (4 - unat v mod 4) \<le> 8 + round4 (unat w)"
      using that unfolding round4_def by presburger
    then have le: "unat (8 + w) + unat (4 - v mod 4) < 65536" unfolding 8 m using assms by linarith
    show ?thesis unfolding add [OF le] 8 m ..
  qed
  have r: "8 + unat w + (if unat w mod 4 \<noteq> 0 then 4 - unat w mod 4 else 0) = 8 + round4 (unat w)"
    unfolding round4_def by presburger
  have e: "unat (8 + w) mod 4 = unat w mod 4" unfolding 8 by presburger
  show "unat (align4 (8 + w) w) = 8 + round4 (unat w)"
    using sum [of w] r by (auto simp: align4_def z 8)
  show "unat (align4 (8 + w) (8 + w)) = 8 + round4 (unat w)"
    using sum [of "8 + w"] r e by (auto simp: align4_def z 8)
qed

text \<open>The header that a new record gets, and the record.\<close>

definition new_en :: "ext4_sblock \<Rightarrow> u16 \<Rightarrow> u32 \<Rightarrow> u32 \<Rightarrow> bytes \<Rightarrow> ext4_dir_en \<Rightarrow> ext4_dir_en" where
  "new_en sb entry_len t child name de =
     ext4_dir_en_set_name_len sb
       ((ext4_dir_en_set_inode_type sb de (de_type_of_mode t))\<lparr>en_inode := child, en_entry_len := entry_len\<rparr>)
       (of_nat (length name))"

definition new_rec :: "ext4_sblock \<Rightarrow> u16 \<Rightarrow> u32 \<Rightarrow> u32 \<Rightarrow> bytes \<Rightarrow> bytes \<Rightarrow> bytes" where
  "new_rec sb entry_len t child name c =
     put_bytes 8 name (put_bytes 0 (ext4_dir_en_bytes (new_en sb entry_len t child name (ext4_dir_en_of c))) c)"

lemma new_en_fields:
  "en_inode (new_en sb el t child name de) = child" "en_entry_len (new_en sb el t child name de) = el"
  by (simp_all add: new_en_def ext4_dir_en_set_name_len_def Let_def)

lemma new_en_name_len:
  assumes "length name \<le> 255"
  shows "unat (ext4_dir_en_get_name_len sb (new_en sb el t child name de)) = length name"
proof -
  have "ucast (ucast v :: u8) OR push_bit 8 (ucast (ucast (drop_bit 8 v) :: u8)) = v" for v :: u16
    by (rule bit_word_eqI) (auto simp: bit_simps)
  moreover have "ucast (ucast (of_nat (length name) :: u16) :: u8) = (of_nat (length name) :: u16)"
    using assms by (intro word_unat_eq_iff [THEN iffD2]) (simp add: unat_ucast_up_eq unat_ucast_down_eq unat_of_nat)
  moreover have "unat (of_nat (length name) :: u16) = length name"
    using assms by (simp add: unat_of_nat)
  moreover from calculation have "of_nat (length name) OR
      push_bit 8 (ucast (ucast (drop_bit 8 (of_nat (length name) :: u16)) :: u8)) = (of_nat (length name) :: u16)"
    by metis
  ultimately show ?thesis
    by (simp add: new_en_def ext4_dir_en_set_name_len_def ext4_dir_en_get_name_len_def Let_def)
qed

lemma new_rec:
  assumes "8 + length name \<le> length c" "length name \<le> 255"
  shows "length (new_rec sb el t child name c) = length c"
    "ext4_dir_en_of (new_rec sb el t child name c) = new_en sb el t child name (ext4_dir_en_of c)"
    "rec_name sb (new_rec sb el t child name c) = name"
proof -
  let ?de = "new_en sb el t child name (ext4_dir_en_of c)"
  have eq: "new_rec sb el t child name c = ext4_dir_en_bytes ?de @ name @ drop (8 + length name) c"
    using assms(1) by (simp add: new_rec_def put_bytes_def add.commute)
  show "length (new_rec sb el t child name c) = length c" using assms(1) by (simp add: eq)
  show en: "ext4_dir_en_of (new_rec sb el t child name c) = ?de" by (simp add: eq dir_en_of_bytes)
  show "rec_name sb (new_rec sb el t child name c) = name"
    by (simp add: rec_name_def en new_en_name_len [OF assms(2)]) (simp add: eq)
qed

lemma new_rec_ok:
  assumes "8 + round4 (length name) \<le> length c" "length name \<le> 255" "length c mod 4 = 0"
    and "length c = unat el" "child \<noteq> 0"
  shows "rec_ok sb (new_rec sb el t child name c)"
    "entries sb [new_rec sb el t child name c] = [(name, child)]"
proof -
  have le: "8 + length name \<le> length c" using assms(1) by (simp add: round4_def)
  note n = new_rec [OF le assms(2), of sb el t child]
  show "rec_ok sb (new_rec sb el t child name c)"
    using assms by (simp add: rec_ok_def n rec_used_def new_en_fields new_en_name_len)
  show "entries sb [new_rec sb el t child name c] = [(name, child)]"
    using assms(5) by (simp add: entries_simps n new_en_fields)
qed

lemma write_entry_mid:
  assumes "8 + length name \<le> length c" "unat el \<le> unat (ext4_sb_get_block_size sb)"
  shows "ext4_dir_write_entry sb (length pre) el t child name (pre @ c @ post) =
    Some (pre @ new_rec sb el t child name c @ post)"
proof -
  have "unat (ucast el :: u32) = unat el" by (rule unat_ucast_up_eq) simp
  then have le: "ucast el \<le> ext4_sb_get_block_size sb" using assms(2) by (simp add: word_le_nat_alt)
  have at: "de_at (pre @ c @ post) (length pre) = ext4_dir_en_of c"
    by (rule de_at_mid) (use assms(1) in simp)
  let ?de = "new_en sb el t child name (ext4_dir_en_of c)"
  have put: "de_put (length pre) ?de (pre @ c @ post) = pre @ put_bytes 0 (ext4_dir_en_bytes ?de) c @ post"
    using assms(1) by (simp add: de_put_def put_bytes_mid0)
  show ?thesis
    using assms(1) le put_bytes_mid [of 8 name "put_bytes 0 (ext4_dir_en_bytes ?de) c" pre post]
    by (simp add: ext4_dir_write_entry_def Let_def at new_rec_def put flip: new_en_def)
qed

text \<open>Which records have room, and what becomes of the first one that has.\<close>

definition has_room :: "ext4_sblock \<Rightarrow> nat \<Rightarrow> bytes \<Rightarrow> bool" where
  "has_room sb n c \<longleftrightarrow>
     (if en_inode (ext4_dir_en_of c) = 0
      then ext4_dir_en_get_inode_type sb (ext4_dir_en_of c) \<noteq> EXT4_DIRENTRY_DIR_CSUM \<and> 8 + round4 n \<le> length c
      else 8 + round4 n \<le> length c - rec_used sb c)"

definition insert_rec :: "ext4_sblock \<Rightarrow> u32 \<Rightarrow> u32 \<Rightarrow> bytes \<Rightarrow> bytes \<Rightarrow> bytes list" where
  "insert_rec sb t child name c =
     (if en_inode (ext4_dir_en_of c) = 0
      then [new_rec sb (en_entry_len (ext4_dir_en_of c)) t child name c]
      else let sz = rec_used sb c
           in [put_bytes 0 (ext4_dir_en_bytes ((ext4_dir_en_of c)\<lparr>en_entry_len := of_nat sz\<rparr>)) (take sz c),
               new_rec sb (of_nat (length c - sz)) t child name (drop sz c)])"

lemma rec_ok_bound: "rec_ok sb c \<Longrightarrow> length c < 65536"
  using unsigned_less [of "en_entry_len (ext4_dir_en_of c)", where 'a = nat] by (simp add: rec_ok_def)

lemma cut_rec:
  assumes c: "rec_ok sb c" and used: "en_inode (ext4_dir_en_of c) \<noteq> 0"
  defines "front \<equiv> put_bytes 0 (ext4_dir_en_bytes ((ext4_dir_en_of c)\<lparr>en_entry_len := of_nat (rec_used sb c)\<rparr>))
                  (take (rec_used sb c) c)"
  shows "length front = rec_used sb c" "rec_ok sb front" "entries sb [front] = entries sb [c]"
proof -
  let ?en = "ext4_dir_en_of c" and ?sz = "rec_used sb c"
  have sz: "8 \<le> ?sz" "?sz \<le> length c" "?sz mod 4 = 0" "?sz < 65536"
    using c used rec_ok_bound [OF c] by (auto simp: rec_ok_def rec_used_def round4_def)
  have eq: "front = ext4_dir_en_bytes (?en\<lparr>en_entry_len := of_nat ?sz\<rparr>) @ take (?sz - 8) (drop 8 c)"
    using sz by (simp add: front_def put_bytes_def drop_take)
  show len: "length front = ?sz" using sz by (simp add: eq)
  have en: "ext4_dir_en_of front = ?en\<lparr>en_entry_len := of_nat ?sz\<rparr>" by (simp add: eq dir_en_of_bytes)
  have nl: "ext4_dir_en_get_name_len sb (ext4_dir_en_of front) = ext4_dir_en_get_name_len sb ?en"
    by (simp add: en ext4_dir_en_get_name_len_def Let_def)
  have used: "rec_used sb front = ?sz" by (simp add: rec_used_def nl)
  have "unat (of_nat ?sz :: u16) = ?sz" using sz(4) by (simp add: unat_of_nat)
  then show "rec_ok sb front" unfolding rec_ok_def used len using sz by (simp add: en)
  have "rec_name sb front = rec_name sb c"
    using rec_used_name [of sb c] by (simp add: rec_name_def nl) (simp add: eq min_def)
  then show "entries sb [front] = entries sb [c]" by (simp add: entries_simps en)
qed

lemma insert_rec_ok:
  assumes c: "rec_ok sb c" and room: "has_room sb (length name) c"
    and name: "length name \<le> 255" and child: "child \<noteq> 0"
  shows "\<forall>d \<in> set (insert_rec sb t child name c). rec_ok sb d"
    "length (concat (insert_rec sb t child name c)) = length c"
    "entries sb (insert_rec sb t child name c) = entries sb [c] @ [(name, child)]"
proof -
  have len: "length c mod 4 = 0" "length c = unat (en_entry_len (ext4_dir_en_of c))"
    using c unfolding rec_ok_def by blast+
  have "(\<forall>d \<in> set (insert_rec sb t child name c). rec_ok sb d) \<and>
    length (concat (insert_rec sb t child name c)) = length c \<and>
    entries sb (insert_rec sb t child name c) = entries sb [c] @ [(name, child)]"
  proof (cases "en_inode (ext4_dir_en_of c) = 0")
    case True
    with room have fit: "8 + round4 (length name) \<le> length c" by (simp add: has_room_def)
    then have "8 + length name \<le> length c" by (simp add: round4_def)
    then show ?thesis
      using new_rec_ok [OF fit name len child, of sb t] new_rec(1) [OF _ name] True
      by (simp add: insert_rec_def entries_simps)
  next
    case False
    let ?sz = "rec_used sb c" and ?d = "drop (rec_used sb c) c"
    have sz: "?sz \<le> length c" "?sz mod 4 = 0"
      using c False by (auto simp: rec_ok_def rec_used_def round4_def)
    have fit: "8 + round4 (length name) \<le> length ?d" using room False by (simp add: has_room_def)
    then have fit': "8 + length name \<le> length ?d" by (simp add: round4_def)
    have dm: "length ?d mod 4 = 0" using sz len(1) by simp presburger
    have dl: "length ?d = unat (of_nat (length c - ?sz) :: u16)"
      using rec_ok_bound [OF c] by (simp add: unat_of_nat)
    note new = new_rec_ok [OF fit name dm dl child, of sb t]
    note front = cut_rec [OF c False]
    show ?thesis
      using new front new_rec(1) [OF fit' name, of sb "of_nat (length c - ?sz)" t child] sz False
      by (simp add: insert_rec_def Let_def entries_simps)
  qed
  then show "\<forall>d \<in> set (insert_rec sb t child name c). rec_ok sb d"
    "length (concat (insert_rec sb t child name c)) = length c"
    "entries sb (insert_rec sb t child name c) = entries sb [c] @ [(name, child)]" by blast+
qed

lemma insert_step:
  assumes c: "rec_ok sb c" and name: "length name \<le> 255" and req: "unat req = 8 + round4 (length name)"
    and size: "length pre + length c \<le> unat (ext4_sb_get_block_size sb)"
  shows "insert_loop sb req t child name (pre @ c @ post) (length pre) =
    (if has_room sb (length name) c
     then Some (Some (pre @ concat (insert_rec sb t child name c) @ post))
     else insert_loop sb req t child name (pre @ c @ post) (length pre + length c))"
proof -
  let ?en = "ext4_dir_en_of c"
  have len: "8 \<le> length c" "length c = unat (en_entry_len ?en)"
    using c unfolding rec_ok_def by blast+
  have at: "de_at (pre @ c @ post) (length pre) = ?en" by (rule de_at_mid [OF len(1)])
  have lt: "length pre < unat (ext4_sb_get_block_size sb)" using size len(1) by linarith
  have r: "en_entry_len ?en \<ge> req \<longleftrightarrow> 8 + round4 (length name) \<le> length c"
    by (simp add: word_le_nat_alt req len(2))
  show ?thesis
  proof (cases "en_inode ?en = 0")
    case True
    have w: "ext4_dir_write_entry sb (length pre) (en_entry_len ?en) t child name (pre @ c @ post) =
        Some (pre @ new_rec sb (en_entry_len ?en) t child name c @ post)"
      if "8 + round4 (length name) \<le> length c"
      by (rule write_entry_mid) (use that size len in \<open>simp_all add: round4_def\<close>)
    show ?thesis
      by (subst insert_loop.simps) (simp add: lt at Let_def True r has_room_def w insert_rec_def flip: len(2))
  next
    case False
    let ?sz = "rec_used sb c" and ?w = "ext4_dir_en_get_name_len sb ?en"
    have sz: "?sz \<le> length c" "?sz < 65536" "?sz = 8 + round4 (unat ?w)" "8 \<le> ?sz"
      using c False rec_ok_bound [OF c] by (auto simp: rec_ok_def rec_used_def)
    have a: "unat (align4 (8 + ?w) ?w) = ?sz"
      using align4_len(1) [of ?w] sz by simp
    have u: "unat (of_nat n :: u16) = n" if "n < 65536" for n using that by (simp add: unat_of_nat)
    have aw: "align4 (8 + ?w) ?w = of_nat ?sz"
      by (rule word_unat_eq_iff [THEN iffD2]) (simp only: a u [OF sz(2)])
    have "align4 (8 + ?w) ?w \<le> en_entry_len ?en" using sz(1) by (simp add: word_le_nat_alt a flip: len(2))
    then have fr: "unat (en_entry_len ?en - align4 (8 + ?w) ?w) = length c - ?sz"
      by (simp add: unat_minus a flip: len(2))
    have small: "length c - ?sz < 65536" using rec_ok_bound [OF c] by linarith
    have fw: "en_entry_len ?en - align4 (8 + ?w) ?w = of_nat (length c - ?sz)"
      by (rule word_unat_eq_iff [THEN iffD2]) (simp only: fr u [OF small])
    have room: "en_entry_len ?en - align4 (8 + ?w) ?w \<ge> req \<longleftrightarrow> has_room sb (length name) c"
      unfolding word_le_nat_alt fr req using False by (simp add: has_room_def)
    show ?thesis
    proof (cases "has_room sb (length name) c")
      case True
      let ?en' = "?en\<lparr>en_entry_len := of_nat ?sz\<rparr>"
      let ?front = "put_bytes 0 (ext4_dir_en_bytes ?en') (take ?sz c)"
      have fl: "length ?front = ?sz" using sz by simp
      have "de_put (length pre) ?en' (pre @ c @ post) = pre @ put_bytes 0 (ext4_dir_en_bytes ?en') c @ post"
        using len(1) by (simp add: de_put_def put_bytes_mid0)
      also have "put_bytes 0 (ext4_dir_en_bytes ?en') c = ?front @ drop ?sz c"
        using sz len(1) by (simp add: put_bytes_def drop_take) (simp add: take_drop_join)
      finally have put: "de_put (length pre) ?en' (pre @ c @ post) = (pre @ ?front) @ drop ?sz c @ post"
        by simp
      have "8 + length name \<le> length (drop ?sz c)"
        using True False by (simp add: has_room_def round4_def)
      moreover have "unat (of_nat (length c - ?sz) :: u16) \<le> unat (ext4_sb_get_block_size sb)"
        unfolding u [OF small] using size by linarith
      ultimately have "ext4_dir_write_entry sb (length (pre @ ?front)) (of_nat (length c - ?sz)) t child name
            ((pre @ ?front) @ drop ?sz c @ post) =
          Some ((pre @ ?front) @ new_rec sb (of_nat (length c - ?sz)) t child name (drop ?sz c) @ post)"
        by (rule write_entry_mid)
      then have w: "ext4_dir_write_entry sb (length pre + ?sz) (of_nat (length c - ?sz)) t child name
            (de_put (length pre) ?en' (pre @ c @ post)) =
          Some (pre @ concat (insert_rec sb t child name c) @ post)"
        unfolding put using fl False by (simp add: insert_rec_def Let_def)
      from room True have "req \<le> of_nat (length c - ?sz)" unfolding fw by simp
      then show ?thesis
        by (subst insert_loop.simps) (simp add: lt at Let_def False True aw fw [unfolded aw] u [OF sz(2)] w)
    next
      case no: False
      then have "\<not> req \<le> en_entry_len ?en - align4 (8 + ?w) ?w" using room by simp
      then show ?thesis
        by (subst insert_loop.simps) (simp add: lt at Let_def False no flip: len(2))
    qed
  qed
qed

lemma insert_loop_spec:
  assumes "\<forall>c \<in> set cs. rec_ok sb c" "length name \<le> 255" "unat req = 8 + round4 (length name)"
    and "length pre + length (concat cs) = unat (ext4_sb_get_block_size sb)"
  shows "insert_loop sb req t child name (pre @ concat cs) (length pre) =
    (case dropWhile (\<lambda>c. \<not> has_room sb (length name) c) cs of
       [] \<Rightarrow> Some None
     | c # rest \<Rightarrow> Some (Some (pre @ concat (takeWhile (\<lambda>c. \<not> has_room sb (length name) c) cs) @
                            concat (insert_rec sb t child name c) @ concat rest)))"
  using assms(1,4)
proof (induction cs arbitrary: pre)
  case Nil
  then show ?case by (subst insert_loop.simps) simp
next
  case (Cons c cs)
  have c: "rec_ok sb c" using Cons.prems by simp
  have sz: "length pre + length c \<le> unat (ext4_sb_get_block_size sb)" using Cons.prems(2) by simp
  note step = insert_step [OF c assms(2,3) sz, of t child "concat cs"]
  show ?case
    using step Cons.IH [of "pre @ c"] Cons.prems
    by (cases "has_room sb (length name) c"; cases "dropWhile (\<lambda>c. \<not> has_room sb (length name) c) cs")
      (simp_all del: dropWhile_eq_Nil_conv)
qed

lemma insert_in_block_spec:
  assumes "block_ok sb cs" "length name \<le> 255" "child \<noteq> 0"
  shows "if \<exists>c \<in> set cs. has_room sb (length name) c
    then \<exists>cs' as bs. insert_in_block sb t child name (concat cs) = Some (Some (concat cs')) \<and> block_ok sb cs' \<and>
      entries sb cs = as @ bs \<and> entries sb cs' = as @ (name, child) # bs
    else insert_in_block sb t child name (concat cs) = Some None"
proof -
  let ?P = "has_room sb (length name)"
  have cs: "\<forall>c \<in> set cs. rec_ok sb c" "length (concat cs) = unat (ext4_sb_get_block_size sb)"
    using assms(1) by (simp_all add: block_ok_def)
  have n: "unat (of_nat (length name) :: u16) = length name" using assms(2) by (simp add: unat_of_nat)
  have "8 + round4 (length name) < 65536" using assms(2) by (simp add: round4_def)
  then have req: "unat (align4 (8 + of_nat (length name)) (8 + of_nat (length name))) = 8 + round4 (length name)"
    using align4_len(2) [of "of_nat (length name)"] n by simp
  note loop = insert_loop_spec [OF cs(1) assms(2) req, of "[]" t child, simplified, OF cs(2)]
  show ?thesis
  proof (cases "\<exists>c \<in> set cs. ?P c")
    case True
    then obtain c rest where d: "dropWhile (\<lambda>c. \<not> ?P c) cs = c # rest"
      by (cases "dropWhile (\<lambda>c. \<not> ?P c) cs") (auto simp: dropWhile_eq_Nil_conv)
    define front where "front = takeWhile (\<lambda>c. \<not> ?P c) cs"
    have split: "cs = front @ c # rest" using takeWhile_dropWhile_id [of "\<lambda>c. \<not> ?P c" cs] d front_def by simp
    have c: "rec_ok sb c" using cs(1) split by simp
    have room: "?P c" using d by (simp add: dropWhile_eq_Cons_conv)
    note ins = insert_rec_ok [OF c room assms(2,3), of t]
    let ?cs = "front @ insert_rec sb t child name c @ rest"
    have "insert_in_block sb t child name (concat cs) = Some (Some (concat ?cs))"
      using loop by (simp add: insert_in_block_def Let_def d front_def)
    moreover have "block_ok sb ?cs"
      using cs ins unfolding block_ok_def split by auto
    moreover have "entries sb cs = (entries sb front @ entries sb [c]) @ entries sb rest"
      unfolding split by (simp add: entries_simps)
    moreover have "entries sb ?cs = (entries sb front @ entries sb [c]) @ (name, child) # entries sb rest"
      using ins(3) by (simp add: entries_simps)
    ultimately show ?thesis using True by meson
  next
    case False
    then have "dropWhile (\<lambda>c. \<not> ?P c) cs = []" by (simp add: dropWhile_eq_Nil_conv)
    then show ?thesis using False loop by (simp add: insert_in_block_def Let_def del: dropWhile_eq_Nil_conv)
  qed
qed

section \<open>A block as a map from names to inodes\<close>

definition dir_lookup :: "ext4_sblock \<Rightarrow> bytes \<Rightarrow> bytes \<Rightarrow> u32 option" where
  "dir_lookup sb data name =
     (case ext4_dir_find_in_block sb name data of
        Inl _ \<Rightarrow> None | Inr off \<Rightarrow> Some (en_inode (de_at data off)))"

lemma find_in_block_spec:
  assumes "block_ok sb cs"
  shows "ext4_dir_find_in_block sb name (concat cs) =
    (if \<exists>c \<in> set cs. has_name sb name c
     then Inr (length (concat (takeWhile (\<lambda>c. \<not> has_name sb name c) cs))) else Inl ENOENT)"
  using assms find_loop [of cs sb "[]" name] by (simp add: ext4_dir_find_in_block_def block_ok_def)

lemma map_of_entries:
  "map_of (entries sb cs) name =
    (case dropWhile (\<lambda>c. \<not> has_name sb name c) cs of [] \<Rightarrow> None | c # _ \<Rightarrow> Some (en_inode (ext4_dir_en_of c)))"
  by (induction cs) (auto simp: entries_simps has_name_def)

lemma dir_lookup_entries:
  assumes "block_ok sb cs"
  shows "dir_lookup sb (concat cs) = map_of (entries sb cs)"
proof
  fix name
  let ?P = "has_name sb name"
  show "dir_lookup sb (concat cs) name = map_of (entries sb cs) name"
  proof (cases "\<exists>c \<in> set cs. ?P c")
    case True
    then obtain c rest where d: "dropWhile (\<lambda>c. \<not> ?P c) cs = c # rest"
      by (cases "dropWhile (\<lambda>c. \<not> ?P c) cs") (auto simp: dropWhile_eq_Nil_conv)
    define front where "front = takeWhile (\<lambda>c. \<not> ?P c) cs"
    have split: "cs = front @ c # rest" using takeWhile_dropWhile_id [of "\<lambda>c. \<not> ?P c" cs] d front_def by simp
    have "8 \<le> length c" using assms split by (auto simp: block_ok_def rec_ok_def)
    then have "de_at (concat cs) (length (concat front)) = ext4_dir_en_of c"
      using de_at_mid [of c "concat front" "concat rest"] by (simp add: split)
    then show ?thesis
      using True by (simp add: dir_lookup_def find_in_block_spec [OF assms] map_of_entries d flip: front_def)
  next
    case False
    then have "dropWhile (\<lambda>c. \<not> ?P c) cs = []" by (simp add: dropWhile_eq_Nil_conv)
    then show ?thesis
      using False by (simp add: dir_lookup_def find_in_block_spec [OF assms] map_of_entries del: dropWhile_eq_Nil_conv)
  qed
qed

lemma map_of_insert:
  assumes "name \<notin> fst ` set (as @ bs)"
  shows "map_of (as @ (name, child) # bs) = (map_of (as @ bs))(name \<mapsto> child)"
proof -
  have "map_of as name = None" using assms by (auto simp: map_of_eq_None_iff)
  then show ?thesis by (auto simp: fun_eq_iff map_add_def split: option.split)
qed

section \<open>Removing\<close>

lemma predecessor_spec:
  assumes "\<forall>c \<in> set (ds @ [p]). rec_ok sb c"
  shows "predecessor (pre @ concat (ds @ [p]) @ post) (length pre + length (concat (ds @ [p]))) (length pre) =
    Some (length pre + length (concat ds))"
  using assms
proof (induction ds arbitrary: pre)
  case Nil
  then have len: "8 \<le> length p" "length p = unat (en_entry_len (ext4_dir_en_of p))"
    unfolding rec_ok_def by auto
  have "de_at (pre @ p @ post) (length pre) = ext4_dir_en_of p" by (rule de_at_mid [OF len(1)])
  then show ?case by (subst predecessor.simps) (simp flip: len(2))
next
  case (Cons d ds)
  have len: "8 \<le> length d" "length d = unat (en_entry_len (ext4_dir_en_of d))"
    using Cons.prems unfolding rec_ok_def by auto
  have at: "de_at (pre @ d @ concat ds @ p @ post) (length pre) = ext4_dir_en_of d"
    by (rule de_at_mid [OF len(1)])
  have p: "8 \<le> length p" using Cons.prems unfolding rec_ok_def by auto
  show ?case
    using Cons.IH [of "pre @ d"] Cons.prems p
    by (subst predecessor.simps) (auto simp add: at add.assoc simp flip: len(2))
qed

definition unlinked :: "bytes \<Rightarrow> bytes" where
  "unlinked c = put_bytes 0 (ext4_dir_en_bytes ((ext4_dir_en_of c)\<lparr>en_inode := 0\<rparr>)) c"

definition merged :: "bytes \<Rightarrow> bytes \<Rightarrow> bytes" where
  "merged p c =
     put_bytes 0 (ext4_dir_en_bytes
       ((ext4_dir_en_of p)\<lparr>en_entry_len := en_entry_len (ext4_dir_en_of p) + en_entry_len (ext4_dir_en_of c)\<rparr>)) p
     @ unlinked c"

lemma unlinked:
  assumes "rec_ok sb c"
  shows "length (unlinked c) = length c" "rec_ok sb (unlinked c)" "entries sb [unlinked c] = []"
    "en_entry_len (ext4_dir_en_of (unlinked c)) = en_entry_len (ext4_dir_en_of c)"
proof -
  have len: "8 \<le> length c" "length c = unat (en_entry_len (ext4_dir_en_of c))" "length c mod 4 = 0"
    using assms unfolding rec_ok_def by blast+
  have eq: "unlinked c = ext4_dir_en_bytes ((ext4_dir_en_of c)\<lparr>en_inode := 0\<rparr>) @ drop 8 c"
    by (simp add: unlinked_def put_bytes_def)
  show l: "length (unlinked c) = length c" using len(1) by (simp add: eq)
  have en: "ext4_dir_en_of (unlinked c) = (ext4_dir_en_of c)\<lparr>en_inode := 0\<rparr>" by (simp add: eq dir_en_of_bytes)
  show "en_entry_len (ext4_dir_en_of (unlinked c)) = en_entry_len (ext4_dir_en_of c)" by (simp add: en)
  show "rec_ok sb (unlinked c)" "entries sb [unlinked c] = []"
    using len unfolding rec_ok_def l by (simp_all add: en entries_simps)
qed

lemma merged:
  assumes p: "rec_ok sb p" and c: "rec_ok sb c" and small: "length p + length c < 65536"
  shows "length (merged p c) = length p + length c" "rec_ok sb (merged p c)"
    "entries sb [merged p c] = entries sb [p]"
proof -
  let ?l = "en_entry_len (ext4_dir_en_of p) + en_entry_len (ext4_dir_en_of c)"
  let ?en = "(ext4_dir_en_of p)\<lparr>en_entry_len := ?l\<rparr>"
  have len: "8 \<le> length p" "length p = unat (en_entry_len (ext4_dir_en_of p))" "length p mod 4 = 0"
    "length c = unat (en_entry_len (ext4_dir_en_of c))" "length c mod 4 = 0"
    using p c unfolding rec_ok_def by auto
  have eq: "merged p c = ext4_dir_en_bytes ?en @ drop 8 p @ unlinked c"
    by (simp add: merged_def put_bytes_def)
  show l: "length (merged p c) = length p + length c" using len unlinked(1) [OF c] by (simp add: eq)
  have en: "ext4_dir_en_of (merged p c) = ?en" by (simp add: eq dir_en_of_bytes)
  have ul: "unat ?l = length p + length c"
    using small by (simp add: unat_word_ariths(1) flip: len(2,4))
  have nl: "ext4_dir_en_get_name_len sb (ext4_dir_en_of (merged p c)) = ext4_dir_en_get_name_len sb (ext4_dir_en_of p)"
    by (simp add: en ext4_dir_en_get_name_len_def Let_def)
  have used: "rec_used sb (merged p c) = rec_used sb p" by (simp add: rec_used_def nl)
  have m: "(length p + length c) mod 4 = 0" using len(3,5) by presburger
  have inode: "en_inode (ext4_dir_en_of p) \<noteq> 0 \<Longrightarrow> rec_used sb p \<le> length p" using p by (simp add: rec_ok_def)
  show "rec_ok sb (merged p c)"
    unfolding rec_ok_def l used using len(1) m inode by (auto simp: en ul intro: trans_le_add1)
  show "entries sb [merged p c] = entries sb [p]"
  proof (cases "en_inode (ext4_dir_en_of p) = 0")
    case False
    then have "8 + unat (ext4_dir_en_get_name_len sb (ext4_dir_en_of p)) \<le> length p"
      using rec_used_name [of sb p] inode by simp
    then have "rec_name sb (merged p c) = rec_name sb p" by (simp add: rec_name_def nl) (simp add: eq)
    then show ?thesis by (simp add: entries_simps en)
  qed (simp add: entries_simps en)
qed

lemma remove_in_block_spec:
  assumes ok: "block_ok sb (as @ c # bs)" and size: "unat (ext4_sb_get_block_size sb) < 65536"
  shows "\<exists>cs'. remove_in_block (concat (as @ c # bs)) (length (concat as)) = Some (concat cs') \<and>
    block_ok sb cs' \<and> entries sb cs' = entries sb as @ entries sb bs"
proof -
  have c: "rec_ok sb c" and all: "\<forall>d \<in> set (as @ c # bs). rec_ok sb d"
    and len: "length (concat (as @ c # bs)) = unat (ext4_sb_get_block_size sb)"
    using ok by (auto simp: block_ok_def)
  have c8: "8 \<le> length c" using c by (simp add: rec_ok_def)
  have at: "de_at (concat (as @ c # bs)) (length (concat as)) = ext4_dir_en_of c"
    using de_at_mid [OF c8, of "concat as" "concat bs"] by simp
  have put: "de_put (length (concat as)) ((ext4_dir_en_of c)\<lparr>en_inode := 0\<rparr>) (concat (as @ c # bs)) =
      concat as @ unlinked c @ concat bs"
    using put_bytes_mid0 [of "ext4_dir_en_bytes ((ext4_dir_en_of c)\<lparr>en_inode := 0\<rparr>)" c "concat as" "concat bs"] c8
    by (simp add: de_put_def unlinked_def)
  note u = unlinked [OF c]
  show ?thesis
  proof (cases as rule: rev_cases)
    case Nil
    have "remove_in_block (concat (as @ c # bs)) (length (concat as)) = Some (concat (unlinked c # bs))"
      using Nil at put by (simp add: remove_in_block_def Let_def)
    moreover have "block_ok sb (unlinked c # bs)"
      using all len u Nil by (simp add: block_ok_def)
    moreover have "entries sb (unlinked c # bs) = entries sb as @ entries sb bs"
      using u(3) Nil by (simp add: entries_simps split: if_splits)
    ultimately show ?thesis by blast
  next
    case (snoc ds p)
    have p: "rec_ok sb p" using all snoc by simp
    then have p8: "8 \<le> length p" "unat (en_entry_len (ext4_dir_en_of p)) = length p" by (simp_all add: rec_ok_def)
    have small: "length p + length c < 65536" using len size snoc by simp
    let ?data = "concat as @ unlinked c @ concat bs"
    have pos: "length (concat as) \<noteq> 0" "p \<noteq> []" using snoc p8 by auto
    have "\<forall>d \<in> set (ds @ [p]). rec_ok sb d" using all snoc by simp
    from predecessor_spec [OF this, of "[]" "unlinked c @ concat bs"]
    have pred: "predecessor ?data (length (concat as)) 0 = Some (length (concat ds))" by (simp add: snoc)
    have atp: "de_at ?data (length (concat ds)) = ext4_dir_en_of p"
      using de_at_mid [OF p8(1), of "concat ds" "unlinked c @ concat bs"] by (simp add: snoc)
    have "8 \<le> length (unlinked c)" using c8 u(1) by simp
    from de_at_mid [OF this, of "concat as" "concat bs"]
    have atc: "en_entry_len (de_at ?data (length (concat as))) = en_entry_len (ext4_dir_en_of c)" using u(4) by simp
    have putp: "de_put (length (concat ds)) en ?data =
        concat ds @ put_bytes 0 (ext4_dir_en_bytes en) p @ unlinked c @ concat bs" for en
      using put_bytes_mid0 [of "ext4_dir_en_bytes en" p "concat ds" "unlinked c @ concat bs"] p8(1)
      by (simp add: de_put_def snoc)
    note m = merged [OF p c small]
    have "remove_in_block (concat (as @ c # bs)) (length (concat as)) = Some (concat (ds @ merged p c # bs))"
      unfolding remove_in_block_def Let_def at put using pos pred
      by (simp add: atp atc putp p8(2) merged_def) (simp add: snoc)
    moreover have "block_ok sb (ds @ merged p c # bs)"
      using all len m snoc by (auto simp: block_ok_def)
    moreover have "entries sb (ds @ merged p c # bs) = entries sb as @ entries sb bs"
      using m(3) by (simp add: snoc entries_simps(1,2)) (simp only: entries_simps(3) append_Nil2 entries_simps(1) append_assoc)
    ultimately show ?thesis by blast
  qed
qed

section \<open>The properties\<close>

text \<open>
  C18: Inserting a name that a block in order does not hold: when a record has room for it, in the
  unused record itself or behind the name of a used one, the new block is again in order and
  stands for the old map extended by the new name; otherwise the insertion ends with no space and
  writes nothing. It always ends.
\<close>

theorem dir_block_insert:
  assumes "block_ok sb cs" "length name \<le> 255" "child \<noteq> 0"
    and "dir_lookup sb (concat cs) name = None"
  shows "if \<exists>c \<in> set cs. has_room sb (length name) c
    then \<exists>cs'. insert_in_block sb t child name (concat cs) = Some (Some (concat cs')) \<and> block_ok sb cs' \<and>
       dir_lookup sb (concat cs') = (dir_lookup sb (concat cs))(name \<mapsto> child)
    else insert_in_block sb t child name (concat cs) = Some None"
proof (cases "\<exists>c \<in> set cs. has_room sb (length name) c")
  case True
  with insert_in_block_spec [OF assms(1-3), of t] obtain cs' as bs where
    i: "insert_in_block sb t child name (concat cs) = Some (Some (concat cs'))" "block_ok sb cs'"
      "entries sb cs = as @ bs" "entries sb cs' = as @ (name, child) # bs" by auto
  have "name \<notin> fst ` set (as @ bs)"
    using assms(4) by (auto simp: dir_lookup_entries [OF assms(1)] i(3) map_of_eq_None_iff)
  then have "dir_lookup sb (concat cs') = (dir_lookup sb (concat cs))(name \<mapsto> child)"
    unfolding dir_lookup_entries [OF assms(1)] dir_lookup_entries [OF i(2)] i(3,4) by (rule map_of_insert)
  with i True show ?thesis by auto
next
  case False
  with insert_in_block_spec [OF assms(1-3), of t] show ?thesis by simp
qed

text \<open>
  C19: Removing the record that a search has found leaves a block in order that stands for the map
  without that name, when the names of the block are distinct and blocks are below 64 kB.
\<close>

theorem dir_block_remove:
  assumes "block_ok sb cs" "distinct (map fst (entries sb cs))"
    and "unat (ext4_sb_get_block_size sb) < 65536"
    and "ext4_dir_find_in_block sb name (concat cs) = Inr pos"
  shows "\<exists>cs'. remove_in_block (concat cs) pos = Some (concat cs') \<and> block_ok sb cs' \<and>
    dir_lookup sb (concat cs') = (dir_lookup sb (concat cs))(name := None)"
proof -
  let ?P = "has_name sb name"
  define as where "as = takeWhile (\<lambda>c. \<not> ?P c) cs"
  have "\<exists>c \<in> set cs. ?P c" and pos: "pos = length (concat as)"
    using assms(4) by (simp_all add: find_in_block_spec [OF assms(1)] as_def split: if_splits)
  then obtain c bs where d: "dropWhile (\<lambda>c. \<not> ?P c) cs = c # bs"
    by (cases "dropWhile (\<lambda>c. \<not> ?P c) cs") auto
  have split: "cs = as @ c # bs" using takeWhile_dropWhile_id [of "\<lambda>c. \<not> ?P c" cs] d as_def by simp
  have c: "?P c" using d by (simp add: dropWhile_eq_Cons_conv)
  obtain cs' where r: "remove_in_block (concat cs) pos = Some (concat cs')" "block_ok sb cs'"
    "entries sb cs' = entries sb as @ entries sb bs"
    using remove_in_block_spec [OF assms(1) [unfolded split] assms(3)] split pos by metis
  have e: "entries sb cs = entries sb as @ (name, en_inode (ext4_dir_en_of c)) # entries sb bs"
    using c by (simp add: split entries_simps has_name_def)
  then have "name \<notin> fst ` set (entries sb as @ entries sb bs)" using assms(2) by auto
  then have "map_of (entries sb as @ entries sb bs) name = None" by (auto simp: map_of_eq_None_iff)
  moreover have "map_of (entries sb cs) = (map_of (entries sb as @ entries sb bs))(name \<mapsto> en_inode (ext4_dir_en_of c))"
    unfolding e by (rule map_of_insert) fact
  ultimately have "dir_lookup sb (concat cs') = (dir_lookup sb (concat cs))(name := None)"
    unfolding dir_lookup_entries [OF assms(1)] dir_lookup_entries [OF r(2)] r(3) by auto
  with r show ?thesis by blast
qed

text \<open>
  With blocks of 64 kB the lengths of the records overflow: removing the second of two
  records that fill a block stores the length 0 in the first one, and a search for a name that is
  not there then fails with \<open>EINVAL\<close> instead of \<open>ENOENT\<close>.
\<close>

theorem dir_block_64k_overflow:
  assumes "block_ok sb [p, c]" "unat (ext4_sb_get_block_size sb) = 65536"
    and "\<not> has_name sb name p" "length name \<le> 255"
  shows "\<exists>data. remove_in_block (p @ c) (length p) = Some data \<and> en_entry_len (de_at data 0) = 0 \<and>
    ext4_dir_find_in_block sb name data = Inl EINVAL"
proof -
  let ?en = "(ext4_dir_en_of p)\<lparr>en_entry_len := 0\<rparr>"
  have p: "rec_ok sb p" and c: "rec_ok sb c" and len: "length p + length c = 65536"
    using assms(1,2) by (simp_all add: block_ok_def)
  have p8: "8 \<le> length p" "unat (en_entry_len (ext4_dir_en_of p)) = length p"
    and c8: "8 \<le> length c" "unat (en_entry_len (ext4_dir_en_of c)) = length c"
    using p c by (simp_all add: rec_ok_def)
  have zero: "en_entry_len (ext4_dir_en_of p) + en_entry_len (ext4_dir_en_of c) = 0"
    by (rule word_unat_eq_iff [THEN iffD2]) (simp add: unat_word_ariths(1) p8 c8 len)
  note u = unlinked [OF c]
  have at: "de_at (p @ c) (length p) = ext4_dir_en_of c" using de_at_mid [OF c8(1), of p "[]"] by simp
  have put: "de_put (length p) ((ext4_dir_en_of c)\<lparr>en_inode := 0\<rparr>) (p @ c) = p @ unlinked c"
    using put_bytes_mid0 [of "ext4_dir_en_bytes ((ext4_dir_en_of c)\<lparr>en_inode := 0\<rparr>)" c p "[]"] c8
    by (simp add: de_put_def unlinked_def)
  have pred: "predecessor (p @ unlinked c) (length p) 0 = Some 0"
    using predecessor_spec [of "[]" p sb "[]" "unlinked c"] p by simp
  have atp: "de_at (p @ unlinked c) 0 = ext4_dir_en_of p" using de_at_mid [OF p8(1), of "[]" "unlinked c"] by simp
  have "8 \<le> length (unlinked c)" using c8 u(1) by simp
  from de_at_mid [OF this, of p "[]"]
  have atc: "en_entry_len (de_at (p @ unlinked c) (length p)) = en_entry_len (ext4_dir_en_of c)" using u(4) by simp
  have r: "remove_in_block (p @ c) (length p) = Some (merged p c)"
    unfolding remove_in_block_def Let_def at put using p8 pred
    by (auto simp: atp atc p8(2) merged_def de_put_def put_bytes_def)
  have eq: "merged p c = ext4_dir_en_bytes ?en @ drop 8 p @ unlinked c"
    using zero by (simp add: merged_def put_bytes_def)
  have en: "de_at (merged p c) 0 = ?en" by (simp add: eq de_at_def dir_en_of_bytes)
  have nl: "ext4_dir_en_get_name_len sb ?en = ext4_dir_en_get_name_len sb (ext4_dir_en_of p)"
    by (simp add: ext4_dir_en_get_name_len_def Let_def)
  have "\<not> (en_inode ?en \<noteq> 0 \<and> unat (ext4_dir_en_get_name_len sb ?en) = length name \<and>
      de_name (merged p c) 0 (length name) = name)"
  proof
    assume a: "en_inode ?en \<noteq> 0 \<and> unat (ext4_dir_en_get_name_len sb ?en) = length name \<and>
      de_name (merged p c) 0 (length name) = name"
    then have "8 + length name \<le> length p"
      using p rec_used_name [of sb p] by (simp add: rec_ok_def nl)
    then have "has_name sb name p" using a by (simp add: has_name_def rec_name_def nl de_name_def eq)
    with assms(3) show False ..
  qed
  then have "ext4_dir_find_in_block sb name (merged p c) = Inl EINVAL"
    unfolding ext4_dir_find_in_block_def assms(2)
    by (subst find_in_block_loop.simps) (use assms(4) in \<open>simp add: en Let_def\<close>)
  with r en show ?thesis by simp
qed

section \<open>Witnesses\<close>

text \<open>The block of a fresh directory, with 1 kB and with 64 kB blocks.\<close>

definition dir_sb :: "u32 \<Rightarrow> ext4_sblock" where
  "dir_sb log = (ext4_sblock_of (replicate 1024 0))\<lparr>sb_rev_level := 1, sb_log_block_size := log\<rparr>"

definition dot_rec :: "u16 \<Rightarrow> u32 \<Rightarrow> bytes \<Rightarrow> nat \<Rightarrow> bytes" where
  "dot_rec len inode name pad =
     ext4_dir_en_bytes \<lparr>en_inode = inode, en_entry_len = len, en_name_len = of_nat (length name), en_in = 2\<rparr>
     @ name @ replicate pad 0"

lemma dir_sb_fields:
  "sb_rev_level (dir_sb log) = 1" "ext4_sb_get_block_size (dir_sb log) = push_bit (unat log) 1024"
  by (simp_all add: dir_sb_def ext4_sb_get_block_size_def)

lemma dot_rec_fields:
  "ext4_dir_en_of (dot_rec len inode name pad) =
     \<lparr>en_inode = inode, en_entry_len = len, en_name_len = of_nat (length name), en_in = 2\<rparr>"
  "length (dot_rec len inode name pad) = 8 + length name + pad"
  by (simp_all add: dot_rec_def dir_en_of_bytes)

lemma dot_rec_name:
  "length name \<le> 255 \<Longrightarrow> rec_name (dir_sb log) (dot_rec len inode name pad) = name"
  by (simp add: rec_name_def dot_rec_fields ext4_dir_en_get_name_len_def dir_sb_fields Let_def
        unat_ucast_up_eq unat_of_nat) (simp add: dot_rec_def)

definition dir_sample :: "bytes list" where
  "dir_sample = [dot_rec 12 2 [0x2e] 3, dot_rec 1012 2 [0x2e, 0x2e] 1002]"

definition dir_sample64 :: "bytes list" where
  "dir_sample64 = [dot_rec 0x8000 2 [0x2e] 32759, dot_rec 0x8000 2 [0x2e, 0x2e] 32758]"

lemma dir_sample_ok: "block_ok (dir_sb 0) dir_sample" "block_ok (dir_sb 6) dir_sample64"
  by (simp_all add: block_ok_def dir_sample_def dir_sample64_def rec_ok_def rec_used_def dot_rec_fields dir_sb_fields
        ext4_dir_en_get_name_len_def round4_def unat_ucast_up_eq Let_def)

lemma dir_sample_entries: "entries (dir_sb 0) dir_sample = [([0x2e], 2), ([0x2e, 0x2e], 2)]"
  by (simp add: entries_def dir_sample_def dot_rec_fields dot_rec_name)

theorem dir_block_insert_witness:
  "\<exists>cs'. insert_in_block (dir_sb 0) 0x8000 12 [0x61] (concat dir_sample) = Some (Some (concat cs')) \<and>
    block_ok (dir_sb 0) cs' \<and>
    dir_lookup (dir_sb 0) (concat cs') = (dir_lookup (dir_sb 0) (concat dir_sample))([0x61] \<mapsto> 12)"
proof -
  have "dir_lookup (dir_sb 0) (concat dir_sample) [0x61] = None"
    by (simp add: dir_lookup_entries [OF dir_sample_ok(1)] dir_sample_entries)
  moreover have "\<exists>c \<in> set dir_sample. has_room (dir_sb 0) 1 c"
    by (simp add: dir_sample_def has_room_def dot_rec_fields rec_used_def ext4_dir_en_get_name_len_def
          dir_sb_fields round4_def unat_ucast_up_eq Let_def)
  ultimately show ?thesis
    using dir_block_insert [OF dir_sample_ok(1), where name = "[0x61]" and child = 12 and t = "0x8000"] by simp
qed

lemma dir_sample_find: "ext4_dir_find_in_block (dir_sb 0) [0x2e, 0x2e] (concat dir_sample) = Inr 12"
  unfolding find_in_block_spec [OF dir_sample_ok(1)]
  by (simp add: dir_sample_def has_name_def dot_rec_fields dot_rec_name)

theorem dir_block_remove_witness:
  "\<exists>cs'. remove_in_block (concat dir_sample) 12 = Some (concat cs') \<and> block_ok (dir_sb 0) cs' \<and>
    dir_lookup (dir_sb 0) (concat cs') = (dir_lookup (dir_sb 0) (concat dir_sample))([0x2e, 0x2e] := None)"
  by (rule dir_block_remove [OF dir_sample_ok(1) _ _ dir_sample_find]) (simp_all add: dir_sample_entries dir_sb_fields)

theorem dir_block_64k_overflow_witness:
  "\<exists>data. remove_in_block (dot_rec 0x8000 2 [0x2e] 32759 @ dot_rec 0x8000 2 [0x2e, 0x2e] 32758) 32768 = Some data \<and>
    en_entry_len (de_at data 0) = 0 \<and> ext4_dir_find_in_block (dir_sb 6) [0x61] data = Inl EINVAL"
proof -
  have "\<not> has_name (dir_sb 6) [0x61] (dot_rec 0x8000 2 [0x2e] 32759)"
    by (simp add: has_name_def dot_rec_name)
  from dir_block_64k_overflow [OF dir_sample_ok(2) [unfolded dir_sample64_def] _ this]
  show ?thesis by (simp add: dir_sb_fields dot_rec_fields)
qed

end
