(* ===== verification/Dir.thy ===== *)
theory Dir
  imports Fs_Inode Dir_Block
begin

text \<open>
  The operations of \<open>src/ext4_dir.c\<close> on a directory: the checksums of its blocks, the iterator,
  and searching, adding and unlinking an entry by the linear algorithm, over the block functions
  of \<open>Dir_Block\<close>. \<open>None\<close> is a failed assertion or a walk through a block that does not stop.
\<close>

section \<open>Checksums\<close>

definition EXT4_DIRENT_TAIL :: "ext4_sblock \<Rightarrow> nat" where
  "EXT4_DIRENT_TAIL sb = unat (ext4_sb_get_block_size sb - 12)"

text \<open>The offset of the checksum record of a block, if it has one.\<close>

definition ext4_dir_get_tail :: "ext4_sblock \<Rightarrow> bytes \<Rightarrow> nat option" where
  "ext4_dir_get_tail sb data =
     (let t = EXT4_DIRENT_TAIL sb
      in if (get_le 4 t data :: u32) \<noteq> 0 \<or> (get_le 1 (t + 6) data :: u8) \<noteq> 0 then None
         else if (get_le 2 (t + 4) data :: u16) \<noteq> 12 then None
         else if get_le 1 (t + 7) data \<noteq> EXT4_DIRENTRY_DIR_CSUM then None
         else Some t)"

definition ext4_dir_csum :: "'d ext4_fs \<Rightarrow> ext4_inode_ref \<Rightarrow> bytes \<Rightarrow> u32" where
  "ext4_dir_csum fs ir dirent =
     (let csum = ext4_crc32c EXT4_CRC32_INIT (sb_uuid (fs_sb fs));
          csum = ext4_crc32c csum (le_bytes 4 (ir_index ir));
          csum = ext4_crc32c csum (le_bytes 4 (ext4_inode_get_generation (ino_get fs ir)))
      in ext4_crc32c csum dirent)"

definition ext4_dir_csum_verify :: "'d ext4_fs \<Rightarrow> ext4_inode_ref \<Rightarrow> bytes \<Rightarrow> bool" where
  "ext4_dir_csum_verify fs ir data =
     (if ext4_sb_feature_ro_com (fs_sb fs) EXT4_FRO_COM_METADATA_CSUM
      then (case ext4_dir_get_tail (fs_sb fs) data of
              None \<Rightarrow> False
            | Some t \<Rightarrow> get_le 4 (t + 8) data = ext4_dir_csum fs ir (take t data))
      else True)"

definition ext4_dir_init_entry_tail :: "nat \<Rightarrow> bytes \<Rightarrow> bytes" where
  "ext4_dir_init_entry_tail t data =
     put_bytes t (le_bytes 4 (0 :: u32) @ le_bytes 2 (12 :: u16) @ [0, EXT4_DIRENTRY_DIR_CSUM] @
                  le_bytes 4 (0 :: u32)) data"

definition ext4_dir_set_csum :: "'d ext4_fs \<Rightarrow> ext4_inode_ref \<Rightarrow> bytes \<Rightarrow> bytes" where
  "ext4_dir_set_csum fs ir data =
     (if ext4_sb_feature_ro_com (fs_sb fs) EXT4_FRO_COM_METADATA_CSUM
      then (case ext4_dir_get_tail (fs_sb fs) data of
              None \<Rightarrow> data
            | Some t \<Rightarrow> put_bytes (t + 8) (le_bytes 4 (ext4_dir_csum fs ir (take t data))) data)
      else data)"

section \<open>The iterator\<close>

record ext4_dir_iter =
  it_blk :: ext4_block
  it_off :: u64
  it_curr :: "nat option"

text \<open>The entry at the current offset is only published when it lies inside its block.\<close>

definition ext4_dir_iterator_set ::
    "'d ext4_fs \<Rightarrow> ext4_dir_iter \<Rightarrow> u32 \<Rightarrow> errno \<times> ext4_dir_iter" where
  "ext4_dir_iterator_set fs it block_size =
     (let off_in_block = ucast (it_off it mod ucast block_size) :: u32;
          it = it\<lparr>it_curr := None\<rparr>
      in if off_in_block mod 4 \<noteq> 0 then (EIO, it)
         else if off_in_block > block_size - 8 then (EIO, it)
         else (let en = de_at (fs_data fs (it_blk it)) (unat off_in_block);
                   len = en_entry_len en
               in if off_in_block + ucast len > block_size then (EIO, it)
                  else if int (unat (ext4_dir_en_get_name_len (fs_sb fs) en)) > int (unat len) - 8 then (EIO, it)
                  else (EOK, it\<lparr>it_curr := Some (unat off_in_block)\<rparr>)))"

definition iter_release ::
    "'d ext4_fs \<Rightarrow> ext4_dir_iter \<Rightarrow> (errno \<times> 'd ext4_fs \<times> ext4_dir_iter) option" where
  "iter_release fs it =
     (if blk_lb_id (it_blk it) \<noteq> 0
      then do {
        (r, fs) \<leftarrow> fs_block_set fs (it_blk it);
        Some (r, fs, it\<lparr>it_blk := (it_blk it)\<lparr>blk_lb_id := 0\<rparr>\<rparr>)
      }
      else Some (EOK, fs, it))"

definition ext4_dir_iterator_seek ::
    "'d ext4_fs \<Rightarrow> ext4_inode_ref \<Rightarrow> ext4_dir_iter \<Rightarrow> u64 \<Rightarrow>
     (errno \<times> 'd ext4_fs \<times> ext4_inode_ref \<times> ext4_dir_iter) option" where
  "ext4_dir_iterator_seek fs ir it pos = do {
     let size = ext4_inode_get_size (fs_sb fs) (ino_get fs ir);
     let it = it\<lparr>it_curr := None\<rparr>;
     if pos \<ge> size
     then do {
       (r, fs, it) \<leftarrow> iter_release fs it;
       if r \<noteq> EOK then Some (r, fs, ir, it) else Some (EOK, fs, ir, it\<lparr>it_off := pos\<rparr>)
     }
     else do {
       let block_size = ext4_sb_get_block_size (fs_sb fs);
       let current_blk_idx = it_off it div ucast block_size;
       let next_blk_idx = (ucast (pos div ucast block_size) :: u32);
       if blk_lb_id (it_blk it) = 0 \<or> current_blk_idx \<noteq> ucast next_blk_idx
       then do {
         (r, fs, it) \<leftarrow> iter_release fs it;
         if r \<noteq> EOK then Some (r, fs, ir, it)
         else do {
           (r, fs, ir, next_blk) \<leftarrow> ext4_fs_get_inode_dblk_idx fs ir next_blk_idx False;
           if r \<noteq> EOK then Some (r, fs, ir, it)
           else (case next_blk of None \<Rightarrow> None | Some next_blk \<Rightarrow> do {
             (r, fs, b) \<leftarrow> fs_block_get_into fs (it_blk it) next_blk;
             let it = it\<lparr>it_blk := b\<rparr>;
             if r \<noteq> EOK then Some (r, fs, ir, it\<lparr>it_blk := b\<lparr>blk_lb_id := 0\<rparr>\<rparr>)
             else (case ext4_dir_iterator_set fs (it\<lparr>it_off := pos\<rparr>) block_size of
                     (r, it) \<Rightarrow> Some (r, fs, ir, it))
           })
         }
       }
       else (case ext4_dir_iterator_set fs (it\<lparr>it_off := pos\<rparr>) block_size of
               (r, it) \<Rightarrow> Some (r, fs, ir, it))
     }
   }"

definition ext4_dir_iterator_init ::
    "'d ext4_fs \<Rightarrow> ext4_inode_ref \<Rightarrow> u64 \<Rightarrow>
     (errno \<times> 'd ext4_fs \<times> ext4_inode_ref \<times> ext4_dir_iter) option" where
  "ext4_dir_iterator_init fs ir pos =
     ext4_dir_iterator_seek fs ir \<lparr>it_blk = EXT4_BLOCK_ZERO, it_off = 0, it_curr = None\<rparr> pos"

text \<open>The entry that the iterator stands on; without one the code reads through a null pointer.\<close>

partial_function (option) iterator_next_loop ::
    "'d ext4_fs \<Rightarrow> ext4_inode_ref \<Rightarrow> ext4_dir_iter \<Rightarrow>
     (errno \<times> 'd ext4_fs \<times> ext4_inode_ref \<times> ext4_dir_iter) option" where
  "iterator_next_loop fs ir it =
     Option.bind (it_curr it)
       (\<lambda>curr. Option.bind
          (ext4_dir_iterator_seek fs ir it (it_off it + ucast (en_entry_len (de_at (fs_data fs (it_blk it)) curr))))
          (\<lambda>(r, fs, ir, it).
             (case it_curr it of
                None \<Rightarrow> Some (r, fs, ir, it)
              | Some curr \<Rightarrow>
                  if en_inode (de_at (fs_data fs (it_blk it)) curr) \<noteq> 0 then Some (r, fs, ir, it)
                  else if r \<noteq> EOK then Some (r, fs, ir, it)
                  else iterator_next_loop fs ir it)))"

definition ext4_dir_iterator_next ::
    "'d ext4_fs \<Rightarrow> ext4_inode_ref \<Rightarrow> ext4_dir_iter \<Rightarrow>
     (errno \<times> 'd ext4_fs \<times> ext4_inode_ref \<times> ext4_dir_iter) option" where
  "ext4_dir_iterator_next fs ir it = iterator_next_loop fs ir it"

definition ext4_dir_iterator_fini :: "'d ext4_fs \<Rightarrow> ext4_dir_iter \<Rightarrow> (errno \<times> 'd ext4_fs) option" where
  "ext4_dir_iterator_fini fs it =
     (if blk_lb_id (it_blk it) \<noteq> 0 then fs_block_set fs (it_blk it) else Some (EOK, fs))"

section \<open>Adding an entry\<close>

definition ext4_dir_try_insert_entry ::
    "'d ext4_fs \<Rightarrow> ext4_inode_ref \<Rightarrow> ext4_block \<Rightarrow> ext4_inode_ref \<Rightarrow> bytes \<Rightarrow> (errno \<times> 'd ext4_fs) option" where
  "ext4_dir_try_insert_entry fs ir dst_blk child name = do {
     let t = ext4_inode_type (fs_sb fs) (ino_get fs child);
     res \<leftarrow> insert_in_block (fs_sb fs) t (ir_index child) name (fs_data fs dst_blk);
     case res of
       None \<Rightarrow> Some (ENOSPC, fs)
     | Some data \<Rightarrow> do {
         let fs = fs_store fs dst_blk data;
         let fs = fs_store fs dst_blk (ext4_dir_set_csum fs ir (fs_data fs dst_blk));
         Some (EOK, fs_dirty fs dst_blk)
       }
   }"

text \<open>The blocks of the directory from \<open>iblock\<close> on, \<open>n\<close> of them.\<close>

fun add_in_blocks ::
    "nat \<Rightarrow> 'd ext4_fs \<Rightarrow> ext4_inode_ref \<Rightarrow> u32 \<Rightarrow> bytes \<Rightarrow> ext4_inode_ref \<Rightarrow>
     (bool \<times> errno \<times> 'd ext4_fs \<times> ext4_inode_ref) option" where
  "add_in_blocks 0 fs parent iblock name child = Some (False, EOK, fs, parent)"
| "add_in_blocks (Suc n) fs parent iblock name child = do {
     (r, fs, parent, fblock) \<leftarrow> ext4_fs_get_inode_dblk_idx fs parent iblock False;
     if r \<noteq> EOK then Some (True, r, fs, parent)
     else (case fblock of None \<Rightarrow> None | Some fblock \<Rightarrow> do {
       (r, fs, b) \<leftarrow> fs_block_get fs fblock;
       if r \<noteq> EOK then Some (True, r, fs, parent)
       else do {
         (r, fs) \<leftarrow> ext4_dir_try_insert_entry fs parent b child name;
         let success = (r = EOK);
         (r, fs) \<leftarrow> fs_block_set fs b;
         if r \<noteq> EOK then Some (True, r, fs, parent)
         else if success then Some (True, EOK, fs, parent)
         else add_in_blocks n fs parent (iblock + 1) name child
       }
     })
   }"

text \<open>
  The linear algorithm of \<open>ext4_dir_add_entry\<close>: the first block with room, or a new block whose
  only entry takes all of it.
\<close>

definition dir_add_linear ::
    "'d ext4_fs \<Rightarrow> ext4_inode_ref \<Rightarrow> bytes \<Rightarrow> ext4_inode_ref \<Rightarrow> (errno \<times> 'd ext4_fs \<times> ext4_inode_ref) option" where
  "dir_add_linear fs parent name child = do {
     let block_size = ext4_sb_get_block_size (fs_sb fs);
     let inode_size = ext4_inode_get_size (fs_sb fs) (ino_get fs parent);
     let total_blocks = (ucast (inode_size div ucast block_size) :: u32);
     (done, r, fs, parent) \<leftarrow> add_in_blocks (unat total_blocks) fs parent 0 name child;
     if done then Some (r, fs, parent)
     else do {
       (r, fs, parent, blk) \<leftarrow> ext4_fs_append_inode_dblk fs parent;
       if r \<noteq> EOK then Some (r, fs, parent)
       else (case blk of None \<Rightarrow> None | Some (fblock, iblock) \<Rightarrow> do {
         (r, fs, b) \<leftarrow> fs_block_get_noread fs fblock;
         if r \<noteq> EOK then Some (r, fs, parent)
         else do {
           let sb = fs_sb fs;
           let t = ext4_inode_type sb (ino_get fs child);
           let data = memset 0 0 (unat block_size) (fs_data fs b);
           data \<leftarrow>
             (if ext4_sb_feature_ro_com sb EXT4_FRO_COM_METADATA_CSUM
              then map_option (ext4_dir_init_entry_tail (EXT4_DIRENT_TAIL sb))
                     (ext4_dir_write_entry sb 0 (ucast (block_size - 12)) t (ir_index child) name data)
              else ext4_dir_write_entry sb 0 (ucast block_size) t (ir_index child) name data);
           let fs = fs_store fs b data;
           let fs = fs_store fs b (ext4_dir_set_csum fs parent (fs_data fs b));
           (r, fs) \<leftarrow> fs_block_set (fs_dirty fs b) b;
           Some (r, fs, parent)
         }
       })
     }
   }"

section \<open>Finding and removing an entry\<close>

record ext4_dir_search_result =
  sr_block :: ext4_block
  sr_dentry :: "nat option"

fun find_in_blocks ::
    "nat \<Rightarrow> 'd ext4_fs \<Rightarrow> ext4_inode_ref \<Rightarrow> u32 \<Rightarrow> bytes \<Rightarrow>
     (errno \<times> 'd ext4_fs \<times> ext4_inode_ref \<times> ext4_dir_search_result) option" where
  "find_in_blocks 0 fs parent iblock name =
     Some (ENOENT, fs, parent, \<lparr>sr_block = EXT4_BLOCK_ZERO, sr_dentry = None\<rparr>)"
| "find_in_blocks (Suc n) fs parent iblock name = do {
     let none = \<lparr>sr_block = EXT4_BLOCK_ZERO, sr_dentry = None\<rparr>;
     (r, fs, parent, fblock) \<leftarrow> ext4_fs_get_inode_dblk_idx fs parent iblock False;
     if r \<noteq> EOK then Some (r, fs, parent, none)
     else (case fblock of None \<Rightarrow> None | Some fblock \<Rightarrow> do {
       (r, fs, b) \<leftarrow> fs_block_get fs fblock;
       if r \<noteq> EOK then Some (r, fs, parent, none)
       else (case ext4_dir_find_in_block (fs_sb fs) name (fs_data fs b) of
               Inr res_entry \<Rightarrow> Some (EOK, fs, parent, \<lparr>sr_block = b, sr_dentry = Some res_entry\<rparr>)
             | Inl _ \<Rightarrow> do {
                 (r, fs) \<leftarrow> fs_block_set fs b;
                 if r \<noteq> EOK then Some (r, fs, parent, none)
                 else find_in_blocks n fs parent (iblock + 1) name
               })
     })
   }"

definition dir_find_linear ::
    "'d ext4_fs \<Rightarrow> ext4_inode_ref \<Rightarrow> bytes \<Rightarrow>
     (errno \<times> 'd ext4_fs \<times> ext4_inode_ref \<times> ext4_dir_search_result) option" where
  "dir_find_linear fs parent name = do {
     let block_size = ext4_sb_get_block_size (fs_sb fs);
     let inode_size = ext4_inode_get_size (fs_sb fs) (ino_get fs parent);
     let total_blocks = (ucast (inode_size div ucast block_size) :: u32);
     find_in_blocks (unat total_blocks) fs parent 0 name
   }"

definition ext4_dir_destroy_result ::
    "'d ext4_fs \<Rightarrow> ext4_dir_search_result \<Rightarrow> (errno \<times> 'd ext4_fs) option" where
  "ext4_dir_destroy_result fs result =
     (if blk_lb_id (sr_block result) \<noteq> 0 then fs_block_set fs (sr_block result) else Some (EOK, fs))"

text \<open>The part of \<open>ext4_dir_remove_entry\<close> after the search.\<close>

definition dir_unlink ::
    "'d ext4_fs \<Rightarrow> ext4_inode_ref \<Rightarrow> ext4_dir_search_result \<Rightarrow> (errno \<times> 'd ext4_fs) option" where
  "dir_unlink fs parent result = do {
     pos \<leftarrow> sr_dentry result;
     data \<leftarrow> remove_in_block (fs_data fs (sr_block result)) pos;
     let fs = fs_store fs (sr_block result) data;
     let fs = fs_store fs (sr_block result) (ext4_dir_set_csum fs parent (fs_data fs (sr_block result)));
     ext4_dir_destroy_result (fs_dirty fs (sr_block result)) result
   }"

end
