(* ===== verification/Dx_Node.thy ===== *)
theory Dx_Node
  imports Dir
begin

text \<open>
  The nodes of a directory index, \<open>src/ext4_dir_idx.c\<close>, as the bytes of their blocks: the root
  information, the array of entries with its count and limit in the place of the first hash, the
  binary search, and the checksum. The entries of the root begin at byte 32, those of an inner
  node at byte 8; a pointer to an entry is the index of the entry in its array.
\<close>

section \<open>Fields\<close>

definition ext4_dir_dx_rinfo_get_hash_version :: "bytes \<Rightarrow> u8" where
  "ext4_dir_dx_rinfo_get_hash_version root = get_le 1 28 root"

definition ext4_dir_dx_rinfo_set_hash_version :: "u8 \<Rightarrow> bytes \<Rightarrow> bytes" where
  "ext4_dir_dx_rinfo_set_hash_version v root = put_bytes 28 (le_bytes 1 v) root"

definition ext4_dir_dx_rinfo_get_info_length :: "bytes \<Rightarrow> u8" where
  "ext4_dir_dx_rinfo_get_info_length root = get_le 1 29 root"

definition ext4_dir_dx_root_info_set_info_length :: "u8 \<Rightarrow> bytes \<Rightarrow> bytes" where
  "ext4_dir_dx_root_info_set_info_length len root = put_bytes 29 (le_bytes 1 len) root"

definition ext4_dir_dx_rinfo_get_indirect_levels :: "bytes \<Rightarrow> u8" where
  "ext4_dir_dx_rinfo_get_indirect_levels root = get_le 1 30 root"

definition ext4_dir_dx_rinfo_set_indirect_levels :: "u8 \<Rightarrow> bytes \<Rightarrow> bytes" where
  "ext4_dir_dx_rinfo_set_indirect_levels l root = put_bytes 30 (le_bytes 1 l) root"

definition ext4_dir_dx_climit_get_limit :: "bytes \<Rightarrow> nat \<Rightarrow> u16" where
  "ext4_dir_dx_climit_get_limit node en = get_le 2 en node"

definition ext4_dir_dx_climit_set_limit :: "nat \<Rightarrow> u16 \<Rightarrow> bytes \<Rightarrow> bytes" where
  "ext4_dir_dx_climit_set_limit en limit node = put_bytes en (le_bytes 2 limit) node"

definition ext4_dir_dx_climit_get_count :: "bytes \<Rightarrow> nat \<Rightarrow> u16" where
  "ext4_dir_dx_climit_get_count node en = get_le 2 (en + 2) node"

definition ext4_dir_dx_climit_set_count :: "nat \<Rightarrow> u16 \<Rightarrow> bytes \<Rightarrow> bytes" where
  "ext4_dir_dx_climit_set_count en cnt node = put_bytes (en + 2) (le_bytes 2 cnt) node"

definition ext4_dir_dx_entry_get_hash :: "bytes \<Rightarrow> nat \<Rightarrow> nat \<Rightarrow> u32" where
  "ext4_dir_dx_entry_get_hash node en k = get_le 4 (en + 8 * k) node"

definition ext4_dir_dx_entry_set_hash :: "nat \<Rightarrow> nat \<Rightarrow> u32 \<Rightarrow> bytes \<Rightarrow> bytes" where
  "ext4_dir_dx_entry_set_hash en k hash node = put_bytes (en + 8 * k) (le_bytes 4 hash) node"

definition ext4_dir_dx_entry_get_block :: "bytes \<Rightarrow> nat \<Rightarrow> nat \<Rightarrow> u32" where
  "ext4_dir_dx_entry_get_block node en k = get_le 4 (en + 8 * k + 4) node"

definition ext4_dir_dx_entry_set_block :: "nat \<Rightarrow> nat \<Rightarrow> u32 \<Rightarrow> bytes \<Rightarrow> bytes" where
  "ext4_dir_dx_entry_set_block en k block node = put_bytes (en + 8 * k + 4) (le_bytes 4 block) node"

section \<open>The binary search\<close>

text \<open>
  The loop of \<open>ext4_dir_dx_get_leaf\<close> on the pointers \<open>p\<close> and \<open>q\<close>; the answer is \<open>p - 1\<close>.
\<close>

function dx_search :: "bytes \<Rightarrow> nat \<Rightarrow> u32 \<Rightarrow> int \<Rightarrow> int \<Rightarrow> nat" where
  "dx_search node en hash p q =
     (if p \<le> q
      then let m = p + (q - p) div 2
           in if ext4_dir_dx_entry_get_hash node en (nat m) > hash
              then dx_search node en hash p (m - 1)
              else dx_search node en hash (m + 1) q
      else nat (p - 1))"
  by pat_completeness auto
termination
  by (relation "measure (\<lambda>(_, _, _, p, q). nat (q + 1 - p))") auto

declare dx_search.simps [simp del]

section \<open>The checksum\<close>

text \<open>Where the count and the limit of a node are, unless the node is damaged.\<close>

definition ext4_dir_dx_get_climit :: "ext4_sblock \<Rightarrow> bytes \<Rightarrow> nat option" where
  "ext4_dir_dx_get_climit sb node =
     (let block_size = ext4_sb_get_block_size sb;
          entry_len = en_entry_len (de_at node 0)
      in if entry_len = 12
         then (if ucast (en_entry_len (de_at node 12)) \<noteq> block_size - 12 then None
               else if (get_le 4 24 node :: u32) \<noteq> 0 then None
               else if ext4_dir_dx_rinfo_get_info_length node \<noteq> 8 then None
               else Some 32)
         else if ucast entry_len = block_size then Some 8
         else None)"

text \<open>The tail after \<open>limit\<close> entries, if the block has room for it.\<close>

definition dx_tail :: "ext4_sblock \<Rightarrow> bytes \<Rightarrow> nat \<Rightarrow> nat option" where
  "dx_tail sb node coff =
     (let limit = unat (ext4_dir_dx_climit_get_limit node coff)
      in if coff + limit * 8 > unat (ext4_sb_get_block_size sb) - 8 then None
         else Some (coff + limit * 8))"

definition ext4_dir_dx_checksum ::
    "'d ext4_fs \<Rightarrow> ext4_inode_ref \<Rightarrow> bytes \<Rightarrow> nat \<Rightarrow> nat \<Rightarrow> nat \<Rightarrow> u32" where
  "ext4_dir_dx_checksum fs ir node count_offset cnt t =
     (if ext4_sb_feature_ro_com (fs_sb fs) EXT4_FRO_COM_METADATA_CSUM
      then (let sz = count_offset + cnt * 8;
                node = put_bytes (t + 4) (le_bytes 4 (0 :: u32)) node;
                csum = ext4_crc32c EXT4_CRC32_INIT (sb_uuid (fs_sb fs));
                csum = ext4_crc32c csum (le_bytes 4 (ir_index ir));
                csum = ext4_crc32c csum (le_bytes 4 (ext4_inode_get_generation (ino_get fs ir)));
                csum = ext4_crc32c csum (take sz node)
            in ext4_crc32c csum (take 8 (drop t node)))
      else 0)"

definition ext4_dir_dx_csum_verify :: "'d ext4_fs \<Rightarrow> ext4_inode_ref \<Rightarrow> bytes \<Rightarrow> bool" where
  "ext4_dir_dx_csum_verify fs ir node =
     (if ext4_sb_feature_ro_com (fs_sb fs) EXT4_FRO_COM_METADATA_CSUM
      then (case ext4_dir_dx_get_climit (fs_sb fs) node of
              None \<Rightarrow> True
            | Some coff \<Rightarrow>
                (case dx_tail (fs_sb fs) node coff of
                   None \<Rightarrow> True
                 | Some t \<Rightarrow>
                     get_le 4 (t + 4) node =
                       ext4_dir_dx_checksum fs ir node coff (unat (ext4_dir_dx_climit_get_count node coff)) t))
      else True)"

definition ext4_dir_set_dx_csum :: "'d ext4_fs \<Rightarrow> ext4_inode_ref \<Rightarrow> bytes \<Rightarrow> bytes" where
  "ext4_dir_set_dx_csum fs ir node =
     (if ext4_sb_feature_ro_com (fs_sb fs) EXT4_FRO_COM_METADATA_CSUM
      then (case ext4_dir_dx_get_climit (fs_sb fs) node of
              None \<Rightarrow> node
            | Some coff \<Rightarrow>
                (case dx_tail (fs_sb fs) node coff of
                   None \<Rightarrow> node
                 | Some t \<Rightarrow>
                     put_bytes (t + 4)
                       (le_bytes 4 (ext4_dir_dx_checksum fs ir node coff
                          (unat (ext4_dir_dx_climit_get_count node coff)) t)) node))
      else node)"

section \<open>Changing a node\<close>

text \<open>\<open>ext4_dir_dx_insert_entry\<close> on the bytes: the entry goes after \<open>pos\<close>.\<close>

definition dx_insert :: "nat \<Rightarrow> nat \<Rightarrow> u32 \<Rightarrow> u32 \<Rightarrow> bytes \<Rightarrow> bytes" where
  "dx_insert en pos hash iblock node =
     (let cnt = unat (ext4_dir_dx_climit_get_count node en);
          moved = take (8 * (cnt - (pos + 1))) (drop (en + 8 * (pos + 1)) node);
          node = put_bytes (en + 8 * (pos + 2)) moved node;
          node = ext4_dir_dx_entry_set_block en (pos + 1) iblock node;
          node = ext4_dir_dx_entry_set_hash en (pos + 1) hash node
      in ext4_dir_dx_climit_set_count en (of_nat (cnt + 1)) node)"

text \<open>
  The limits: what the root and the inner nodes must have, and what a new inner node gets
  (\<open>node_limit\<close> of \<open>ext4_dir_dx_split_index\<close>).
\<close>

definition dx_root_limit :: "ext4_sblock \<Rightarrow> u32" where
  "dx_root_limit sb =
     (let entry_space = ext4_sb_get_block_size sb - 2 * 12 - 8;
          entry_space = (if ext4_sb_feature_ro_com sb EXT4_FRO_COM_METADATA_CSUM then entry_space - 8 else entry_space)
      in entry_space div 8)"

definition dx_node_limit :: "ext4_sblock \<Rightarrow> u16" where
  "dx_node_limit sb =
     (let entry_space = (ucast (ext4_sb_get_block_size sb - 8) :: u16);
          entry_space = (if ext4_sb_feature_ro_com sb EXT4_FRO_COM_METADATA_CSUM then entry_space - 8 else entry_space)
      in entry_space div 8)"

definition dx_split_limit :: "ext4_sblock \<Rightarrow> u32" where
  "dx_split_limit sb = (ext4_sb_get_block_size sb - 8) div 8"

text \<open>The fake directory entry that begins an inner node.\<close>

definition dx_fake :: "ext4_sblock \<Rightarrow> bytes \<Rightarrow> bytes" where
  "dx_fake sb node =
     put_bytes 4 (le_bytes 2 (ucast (ext4_sb_get_block_size sb) :: u16)) (memset 0 0 8 node)"

text \<open>Copying \<open>n\<close> entries of a node, from entry \<open>k\<close> on, to the entries of an inner node.\<close>

definition dx_copy :: "bytes \<Rightarrow> nat \<Rightarrow> nat \<Rightarrow> nat \<Rightarrow> bytes \<Rightarrow> bytes" where
  "dx_copy src en k n node = put_bytes 8 (take (8 * n) (drop (en + 8 * k) src)) node"

end
