(* ===== verification/Dir_Index.thy ===== *)
theory Dir_Index
  imports Dx_Node Hash
begin

text \<open>
  The operations of \<open>src/ext4_dir_idx.c\<close>: creating an index, walking from the root to a leaf,
  finding and adding an entry, splitting leaves and nodes. \<open>None\<close> is a failed assertion, the use
  of an uninitialised variable, an access outside a buffer, or a loop that does not stop.

  The array \<open>dx_blocks\<close> is the list of its filled elements and \<open>dx_block\<close> the last of them. The
  library's \<open>qsort\<close>, which promises nothing about equal keys, is an argument of the operations
  that sort.
\<close>

section \<open>Data\<close>

record ext4_hash_info =
  hi_hash :: u32
  hi_minor_hash :: u32
  hi_hash_version :: u32
  hi_seed :: "u32 list"

record ext4_dir_idx_block =
  dxb_b :: ext4_block
  dxb_entries :: nat
  dxb_position :: nat

record ext4_dx_sort_entry =
  se_hash :: u32
  se_rec_len :: u32
  se_dentry :: bytes

definition EXT4_FCOM_DIR_INDEX :: u32 where "EXT4_FCOM_DIR_INDEX = 0x0020"
definition EXT4_SUPERBLOCK_FLAGS_UNSIGNED_HASH :: u32 where "EXT4_SUPERBLOCK_FLAGS_UNSIGNED_HASH = 0x0002"
definition EXT4_DIR_DX_INIT_BCNT :: u64 where "EXT4_DIR_DX_INIT_BCNT = 2"

definition ext4_sb_feature_com :: "ext4_sblock \<Rightarrow> u32 \<Rightarrow> bool" where
  "ext4_sb_feature_com s v = (sb_features_compatible s AND v \<noteq> 0)"

definition ext4_sb_check_flag :: "ext4_sblock \<Rightarrow> u32 \<Rightarrow> bool" where
  "ext4_sb_check_flag s v = (sb_flags s AND v \<noteq> 0)"

text \<open>A change of the bytes of a block through its pointer, and a node after its checksum.\<close>

definition fs_modify :: "(bytes \<Rightarrow> bytes) \<Rightarrow> 'd ext4_fs \<Rightarrow> ext4_block \<Rightarrow> 'd ext4_fs" where
  "fs_modify f fs b = fs_store fs b (f (fs_data fs b))"

definition dx_set_csum :: "'d ext4_fs \<Rightarrow> ext4_inode_ref \<Rightarrow> ext4_block \<Rightarrow> 'd ext4_fs" where
  "dx_set_csum fs ir b = fs_modify (ext4_dir_set_dx_csum fs ir) fs b"

definition dx_csum_dirty :: "'d ext4_fs \<Rightarrow> ext4_inode_ref \<Rightarrow> ext4_block \<Rightarrow> 'd ext4_fs" where
  "dx_csum_dirty fs ir b = fs_dirty (dx_set_csum fs ir b) b"

section \<open>Hashes\<close>

definition ext4_dir_dx_hash_string :: "ext4_hash_info \<Rightarrow> nat \<Rightarrow> bytes \<Rightarrow> errno \<times> ext4_hash_info" where
  "ext4_dir_dx_hash_string hinfo len name =
     (case ext2_htree_hash (Some name) (int len) (Some (hi_seed hinfo)) (int (unat (hi_hash_version hinfo))) True of
        (r, Some (h, m)) \<Rightarrow> (r, hinfo\<lparr>hi_hash := h, hi_minor_hash := m\<rparr>)
      | (r, None) \<Rightarrow> (r, hinfo))"

definition ext4_dir_hinfo_init :: "ext4_sblock \<Rightarrow> bytes \<Rightarrow> bytes option \<Rightarrow> errno \<times> ext4_hash_info" where
  "ext4_dir_hinfo_init sb root name =
     (let undef = \<lparr>hi_hash = 0, hi_minor_hash = 0, hi_hash_version = 0, hi_seed = []\<rparr>;
          version = ext4_dir_dx_rinfo_get_hash_version root
      in if version \<noteq> 0 \<and> version \<noteq> 1 \<and> version \<noteq> 2 then (EXT4_ERR_BAD_DX_DIR, undef)
         else if (get_le 1 31 root :: u8) \<noteq> 0 then (EXT4_ERR_BAD_DX_DIR, undef)
         else if ext4_dir_dx_rinfo_get_indirect_levels root > 1 then (EXT4_ERR_BAD_DX_DIR, undef)
         else if ucast (ext4_dir_dx_climit_get_limit root 32) \<noteq> dx_root_limit sb then (EXT4_ERR_BAD_DX_DIR, undef)
         else (let hash_version = (ucast version :: u32);
                   hash_version =
                     (if hash_version \<le> 2 \<and> ext4_sb_check_flag sb EXT4_SUPERBLOCK_FLAGS_UNSIGNED_HASH
                      then hash_version + 3 else hash_version);
                   hinfo = undef\<lparr>hi_hash_version := hash_version, hi_seed := sb_hash_seed sb\<rparr>
               in case name of
                    Some name \<Rightarrow> ext4_dir_dx_hash_string hinfo (length name) name
                  | None \<Rightarrow> (EOK, hinfo)))"

section \<open>Creating an index\<close>

text \<open>A block of the directory: appended, or the one of the given number.\<close>

definition dx_init_block ::
    "'d ext4_fs \<Rightarrow> ext4_inode_ref \<Rightarrow> bool \<Rightarrow> u32 \<Rightarrow>
     (errno \<times> 'd ext4_fs \<times> ext4_inode_ref \<times> (u64 \<times> u32) option) option" where
  "dx_init_block fs dir need_append iblock =
     (if \<not> need_append
      then do {
        (rc, fs, dir, fblock) \<leftarrow> ext4_fs_init_inode_dblk_idx fs dir iblock;
        Some (rc, fs, dir, map_option (\<lambda>f. (f, iblock)) fblock)
      }
      else ext4_fs_append_inode_dblk fs dir)"

text \<open>The root with its two dot entries and one entry of the index.\<close>

definition dx_root_bytes ::
    "ext4_sblock \<Rightarrow> u32 \<times> u32 \<Rightarrow> u32 \<times> u32 \<Rightarrow> bytes \<Rightarrow> bytes option" where
  "dx_root_bytes sb dir parent root = do {
     let block_size = ext4_sb_get_block_size sb;
     let root = memset 0 0 32 root;
     root \<leftarrow> ext4_dir_write_entry sb 0 12 (snd dir) (fst dir) [0x2E] root;
     root \<leftarrow> ext4_dir_write_entry sb 12 (ucast (block_size - 12)) (snd parent) (fst parent) [0x2E, 0x2E] root;
     let root = ext4_dir_dx_rinfo_set_hash_version (sb_default_hash_version sb) root;
     let root = ext4_dir_dx_rinfo_set_indirect_levels 0 root;
     let root = ext4_dir_dx_root_info_set_info_length 8 root;
     let root = ext4_dir_dx_climit_set_count 32 1 root;
     Some (ext4_dir_dx_climit_set_limit 32 (ucast (dx_root_limit sb)) root)
   }"

text \<open>The empty leaf; its checksum is set before its inode number is cleared.\<close>

definition dx_leaf_bytes :: "'d ext4_fs \<Rightarrow> ext4_inode_ref \<Rightarrow> bytes \<Rightarrow> bytes" where
  "dx_leaf_bytes fs dir leaf =
     (let sb = fs_sb fs;
          block_size = ext4_sb_get_block_size sb;
          leaf =
            (if ext4_sb_feature_ro_com sb EXT4_FRO_COM_METADATA_CSUM
             then (let de = (de_at leaf 0)\<lparr>en_entry_len := ucast (block_size - 12)\<rparr>;
                       de = ext4_dir_en_set_name_len sb de 0;
                       de = ext4_dir_en_set_inode_type sb de EXT4_DE_UNKNOWN;
                       leaf = ext4_dir_init_entry_tail (EXT4_DIRENT_TAIL sb) (de_put 0 de leaf)
                   in ext4_dir_set_csum fs dir leaf)
             else de_put 0 ((de_at leaf 0)\<lparr>en_entry_len := ucast block_size\<rparr>) leaf)
      in de_put 0 ((de_at leaf 0)\<lparr>en_inode := 0\<rparr>) leaf)"

definition ext4_dir_dx_init ::
    "'d ext4_fs \<Rightarrow> ext4_inode_ref \<Rightarrow> ext4_inode_ref \<Rightarrow> (errno \<times> 'd ext4_fs \<times> ext4_inode_ref) option" where
  "ext4_dir_dx_init fs dir parent = do {
     let need_append = ext4_inode_get_size (fs_sb fs) (ino_get fs dir) < EXT4_DIR_DX_INIT_BCNT;
     (rc, fs, dir, blk) \<leftarrow> dx_init_block fs dir need_append 0;
     if rc \<noteq> EOK then Some (rc, fs, dir)
     else (case blk of None \<Rightarrow> None | Some (fblock, iblock) \<Rightarrow> do {
       (rc, fs, block) \<leftarrow> fs_block_get_noread fs fblock;
       if rc \<noteq> EOK then Some (rc, fs, dir)
       else do {
         let sb = fs_sb fs;
         root \<leftarrow> dx_root_bytes sb
                  (ir_index dir, ext4_inode_type sb (ino_get fs dir))
                  (ir_index parent, ext4_inode_type sb (ino_get fs parent)) (fs_data fs block);
         let fs = fs_store fs block root;
         (rc, fs, dir, blk) \<leftarrow> dx_init_block fs dir need_append (iblock + 1);
         if rc \<noteq> EOK
         then do { (_, fs) \<leftarrow> fs_block_set fs block; Some (rc, fs, dir) }
         else (case blk of None \<Rightarrow> None | Some (fblock, iblock) \<Rightarrow> do {
           (rc, fs, new_block) \<leftarrow> fs_block_get_noread fs fblock;
           if rc \<noteq> EOK
           then do { (_, fs) \<leftarrow> fs_block_set fs block; Some (rc, fs, dir) }
           else do {
             let fs = fs_dirty (fs_modify (dx_leaf_bytes fs dir) fs new_block) new_block;
             (rc, fs) \<leftarrow> fs_block_set fs new_block;
             if rc \<noteq> EOK
             then do { (_, fs) \<leftarrow> fs_block_set fs block; Some (rc, fs, dir) }
             else do {
               let fs = fs_modify (ext4_dir_dx_entry_set_block 32 0 iblock) fs block;
               (rc, fs) \<leftarrow> fs_block_set (dx_csum_dirty fs dir block) block;
               Some (rc, fs, dir)
             }
           }
         })
       }
     })
   }"

section \<open>From the root to a leaf\<close>

text \<open>The search of one node, unless its count is out of range.\<close>

definition dx_descend ::
    "'d ext4_fs \<Rightarrow> u32 \<Rightarrow> ext4_block \<Rightarrow> nat \<Rightarrow> u16 \<Rightarrow> ext4_dir_idx_block option" where
  "dx_descend fs hash b en limit =
     (let node = fs_data fs b;
          cnt = ext4_dir_dx_climit_get_count node en
      in if cnt = 0 \<or> cnt > limit then None
         else Some \<lparr>dxb_b = b, dxb_entries = en,
                    dxb_position = dx_search node en hash 1 (int (unat cnt) - 1)\<rparr>)"

text \<open>
  With \<open>l\<close> levels left; \<open>tmp_blk\<close> is the caller's variable \<open>root_block\<close> all the way.
\<close>

fun dx_walk ::
    "nat \<Rightarrow> 'd ext4_fs \<Rightarrow> ext4_inode_ref \<Rightarrow> u32 \<Rightarrow> ext4_block \<Rightarrow> nat \<Rightarrow> u16 \<Rightarrow> ext4_dir_idx_block list \<Rightarrow>
     (errno \<times> 'd ext4_fs \<times> ext4_inode_ref \<times> ext4_block \<times> ext4_dir_idx_block list) option" where
  "dx_walk 0 fs ir hash tmp_blk en limit path =
     (case dx_descend fs hash tmp_blk en limit of
        None \<Rightarrow> Some (EXT4_ERR_BAD_DX_DIR, fs, ir, tmp_blk, path)
      | Some dxb \<Rightarrow> Some (EOK, fs, ir, tmp_blk, path @ [dxb]))"
| "dx_walk (Suc l) fs ir hash tmp_blk en limit path =
     (case dx_descend fs hash tmp_blk en limit of
        None \<Rightarrow> Some (EXT4_ERR_BAD_DX_DIR, fs, ir, tmp_blk, path)
      | Some dxb \<Rightarrow> do {
          let path = path @ [dxb];
          let n_blk = ext4_dir_dx_entry_get_block (fs_data fs tmp_blk) en (dxb_position dxb);
          (r, fs, ir, fblk) \<leftarrow> ext4_fs_get_inode_dblk_idx fs ir n_blk False;
          if r \<noteq> EOK then Some (r, fs, ir, tmp_blk, path)
          else (case fblk of None \<Rightarrow> None | Some fblk \<Rightarrow> do {
            (r, fs, tmp_blk) \<leftarrow> fs_block_get_into fs tmp_blk fblk;
            if r \<noteq> EOK then Some (r, fs, ir, tmp_blk, path)
            else do {
              let limit = ext4_dir_dx_climit_get_limit (fs_data fs tmp_blk) 8;
              if limit \<noteq> dx_node_limit (fs_sb fs)
              then do {
                (_, fs, tmp_blk) \<leftarrow> fs_block_put fs tmp_blk;
                Some (EXT4_ERR_BAD_DX_DIR, fs, ir, tmp_blk, path)
              }
              else dx_walk l fs ir hash tmp_blk 8 limit path
            }
          })
        })"

definition ext4_dir_dx_get_leaf ::
    "'d ext4_fs \<Rightarrow> ext4_inode_ref \<Rightarrow> ext4_hash_info \<Rightarrow> ext4_block \<Rightarrow>
     (errno \<times> 'd ext4_fs \<times> ext4_inode_ref \<times> ext4_block \<times> ext4_dir_idx_block list) option" where
  "ext4_dir_dx_get_leaf fs ir hinfo root_block =
     (let root = fs_data fs root_block
      in dx_walk (unat (ext4_dir_dx_rinfo_get_indirect_levels root)) fs ir (hi_hash hinfo) root_block
           32 (ext4_dir_dx_climit_get_limit root 32) [])"

section \<open>The next leaf\<close>

text \<open>
  Up from level \<open>i\<close> to the first level with a further entry; the positions of the levels passed
  are left behind their last entry.
\<close>

fun dx_climb :: "'d ext4_fs \<Rightarrow> ext4_dir_idx_block list \<Rightarrow> nat \<Rightarrow> ext4_dir_idx_block list \<times> nat option" where
  "dx_climb fs path i =
     (let p = path ! i;
          cnt = ext4_dir_dx_climit_get_count (fs_data fs (dxb_b p)) (dxb_entries p);
          p = p\<lparr>dxb_position := dxb_position p + 1\<rparr>;
          path = path[i := p]
      in if dxb_position p < unat cnt then (path, Some i)
         else (case i of 0 \<Rightarrow> (path, None) | Suc j \<Rightarrow> dx_climb fs path j))"

text \<open>An entry that a damaged count places outside the block is read out of bounds.\<close>

definition dx_entry_inside :: "'d ext4_fs \<Rightarrow> ext4_dir_idx_block \<Rightarrow> bool" where
  "dx_entry_inside fs p =
     (dxb_entries p + 8 * dxb_position p + 8 \<le> unat (ext4_sb_get_block_size (fs_sb fs)))"

fun dx_refill ::
    "nat \<Rightarrow> 'd ext4_fs \<Rightarrow> ext4_inode_ref \<Rightarrow> ext4_dir_idx_block list \<Rightarrow> nat \<Rightarrow>
     (errno \<times> 'd ext4_fs \<times> ext4_inode_ref \<times> ext4_dir_idx_block list) option" where
  "dx_refill 0 fs ir path i = Some (ENOENT, fs, ir, path)"
| "dx_refill (Suc num_handles) fs ir path i = do {
     let p = path ! i;
     let blk = ext4_dir_dx_entry_get_block (fs_data fs (dxb_b p)) (dxb_entries p) (dxb_position p);
     (r, fs, ir, blk_adr) \<leftarrow> ext4_fs_get_inode_dblk_idx fs ir blk False;
     if r \<noteq> EOK then Some (r, fs, ir, path)
     else (case blk_adr of None \<Rightarrow> None | Some blk_adr \<Rightarrow> do {
       (r, fs, b) \<leftarrow> fs_block_get fs blk_adr;
       if r \<noteq> EOK then Some (r, fs, ir, path)
       else do {
         let p = path ! (i + 1);
         (r, fs, old) \<leftarrow> fs_block_put fs (dxb_b p);
         if r \<noteq> EOK then Some (r, fs, ir, path[i + 1 := p\<lparr>dxb_b := old\<rparr>])
         else dx_refill num_handles fs ir (path[i + 1 := \<lparr>dxb_b = b, dxb_entries = 8, dxb_position = 0\<rparr>]) (i + 1)
       }
     })
   }"

definition ext4_dir_dx_next_block ::
    "'d ext4_fs \<Rightarrow> ext4_inode_ref \<Rightarrow> u32 \<Rightarrow> ext4_dir_idx_block list \<Rightarrow>
     (errno \<times> 'd ext4_fs \<times> ext4_inode_ref \<times> ext4_dir_idx_block list) option" where
  "ext4_dir_dx_next_block fs ir hash path =
     (case dx_climb fs path (length path - 1) of
        (path, None) \<Rightarrow> Some (EOK, fs, ir, path)
      | (path, Some i) \<Rightarrow>
          (let p = path ! i
           in if \<not> dx_entry_inside fs p then None
              else let current_hash = ext4_dir_dx_entry_get_hash (fs_data fs (dxb_b p)) (dxb_entries p) (dxb_position p)
                   in if hash AND 1 = 0 \<and> current_hash AND NOT 1 \<noteq> hash then Some (EOK, fs, ir, path)
                      else dx_refill (length path - 1 - i) fs ir path i))"

section \<open>Finding an entry\<close>

text \<open>
  One leaf: \<open>Inl rc\<close> leaves the loop, with the entry when \<open>rc\<close> is \<open>EOK\<close>, \<open>Inr ()\<close> goes on.
\<close>

definition dx_find_leaf ::
    "'d ext4_fs \<Rightarrow> ext4_inode_ref \<Rightarrow> bytes \<Rightarrow> ext4_dir_idx_block \<Rightarrow>
     ((errno \<times> ext4_dir_search_result option + unit) \<times> 'd ext4_fs \<times> ext4_inode_ref) option" where
  "dx_find_leaf fs ir name dx_block = do {
     let leaf_blk_idx = ext4_dir_dx_entry_get_block (fs_data fs (dxb_b dx_block)) (dxb_entries dx_block) (dxb_position dx_block);
     (rc, fs, ir, leaf_block_addr) \<leftarrow> ext4_fs_get_inode_dblk_idx fs ir leaf_blk_idx False;
     if rc \<noteq> EOK then Some (Inl (rc, None), fs, ir)
     else (case leaf_block_addr of None \<Rightarrow> None | Some leaf_block_addr \<Rightarrow> do {
       (rc, fs, b) \<leftarrow> fs_block_get fs leaf_block_addr;
       if rc \<noteq> EOK then Some (Inl (rc, None), fs, ir)
       else (case ext4_dir_find_in_block (fs_sb fs) name (fs_data fs b) of
               Inr de \<Rightarrow> Some (Inl (EOK, Some \<lparr>sr_block = b, sr_dentry = Some de\<rparr>), fs, ir)
             | Inl rc \<Rightarrow> do {
                 (rc2, fs) \<leftarrow> fs_block_set fs b;
                 if rc2 \<noteq> EOK then Some (Inl (rc, None), fs, ir)
                 else if rc \<noteq> ENOENT then Some (Inl (rc, None), fs, ir)
                 else Some (Inr (), fs, ir)
               })
     })
   }"

text \<open>
  The loop over the leaves that may hold the hash. An error of the step to the next leaf is a
  positive number, so that the test \<open>rc < 0\<close> does not see it and the loop ends with \<open>ENOENT\<close>.
\<close>

partial_function (option) dx_find_loop ::
    "'d ext4_fs \<Rightarrow> ext4_inode_ref \<Rightarrow> bytes \<Rightarrow> u32 \<Rightarrow> ext4_dir_idx_block list \<Rightarrow>
     (errno \<times> ext4_dir_search_result option \<times> 'd ext4_fs \<times> ext4_inode_ref \<times> ext4_dir_idx_block list) option" where
  "dx_find_loop fs ir name hash path =
     Option.bind (dx_find_leaf fs ir name (last path))
       (\<lambda>(res, fs, ir).
          (case res of
             Inl (rc, found) \<Rightarrow> Some (rc, found, fs, ir, path)
           | Inr _ \<Rightarrow>
               Option.bind (ext4_dir_dx_next_block fs ir hash path)
                 (\<lambda>(rc, fs, ir, path).
                    if rc = EXT4_ERR_BAD_DX_DIR \<or> rc = E_minus_one then Some (rc, None, fs, ir, path)
                    else if rc = ENOENT then dx_find_loop fs ir name hash path
                    else Some (ENOENT, None, fs, ir, path))))"

text \<open>The whole path is released; an error counts when there was none before.\<close>

fun dx_release :: "'d ext4_fs \<Rightarrow> errno \<Rightarrow> ext4_dir_idx_block list \<Rightarrow> (errno \<times> 'd ext4_fs) option" where
  "dx_release fs rc [] = Some (rc, fs)"
| "dx_release fs rc (p # path) = do {
     (rc2, fs) \<leftarrow> fs_block_set fs (dxb_b p);
     dx_release fs (if rc = EOK \<and> rc2 \<noteq> EOK then rc2 else rc) path
   }"

definition ext4_dir_dx_find_entry ::
    "'d ext4_fs \<Rightarrow> ext4_inode_ref \<Rightarrow> ext4_dir_search_result \<Rightarrow> bytes \<Rightarrow>
     (errno \<times> 'd ext4_fs \<times> ext4_inode_ref \<times> ext4_dir_search_result) option" where
  "ext4_dir_dx_find_entry fs ir result name = do {
     (rc, fs, ir, root_block_addr) \<leftarrow> ext4_fs_get_inode_dblk_idx fs ir 0 False;
     if rc \<noteq> EOK then Some (rc, fs, ir, result)
     else (case root_block_addr of None \<Rightarrow> None | Some root_block_addr \<Rightarrow> do {
       (rc, fs, root_block) \<leftarrow> fs_block_get fs root_block_addr;
       if rc \<noteq> EOK then Some (rc, fs, ir, result)
       else (case ext4_dir_hinfo_init (fs_sb fs) (fs_data fs root_block) (Some name) of (rc, hinfo) \<Rightarrow>
         if rc \<noteq> EOK
         then do { (_, fs) \<leftarrow> fs_block_set fs root_block; Some (EXT4_ERR_BAD_DX_DIR, fs, ir, result) }
         else do {
           (rc, fs, ir, root_block, path) \<leftarrow> ext4_dir_dx_get_leaf fs ir hinfo root_block;
           if rc \<noteq> EOK
           then do { (_, fs) \<leftarrow> fs_block_set fs root_block; Some (EXT4_ERR_BAD_DX_DIR, fs, ir, result) }
           else do {
             (rc, found, fs, ir, path) \<leftarrow> dx_find_loop fs ir name (hi_hash hinfo) path;
             (rc, fs) \<leftarrow> dx_release fs rc path;
             Some (rc, fs, ir, case found of None \<Rightarrow> result | Some r \<Rightarrow> r)
           }
         })
     })
   }"

section \<open>A new parent\<close>

definition ext4_dx_dot_en_set_inode :: "nat \<Rightarrow> u32 \<Rightarrow> bytes \<Rightarrow> bytes" where
  "ext4_dx_dot_en_set_inode off inode data = put_bytes off (le_bytes 4 inode) data"

definition ext4_dir_dx_reset_parent_inode ::
    "'d ext4_fs \<Rightarrow> ext4_inode_ref \<Rightarrow> u32 \<Rightarrow> (errno \<times> 'd ext4_fs \<times> ext4_inode_ref) option" where
  "ext4_dir_dx_reset_parent_inode fs dir parent_inode = do {
     (rc, fs, dir, fblock) \<leftarrow> ext4_fs_get_inode_dblk_idx fs dir 0 False;
     if rc \<noteq> EOK then Some (rc, fs, dir)
     else (case fblock of None \<Rightarrow> None | Some fblock \<Rightarrow> do {
       (rc, fs, block) \<leftarrow> fs_block_get fs fblock;
       if rc \<noteq> EOK then Some (rc, fs, dir)
       else do {
         let fs = fs_modify (ext4_dx_dot_en_set_inode 12 parent_inode) fs block;
         (rc, fs) \<leftarrow> fs_block_set (dx_csum_dirty fs dir block) block;
         Some (rc, fs, dir)
       }
     })
   }"

end
