(* ===== verification/Dir_Split.thy ===== *)
theory Dir_Split
  imports Dir_Index
begin

text \<open>
  Adding to an indexed directory, \<open>src/ext4_dir_idx.c\<close>: a full leaf is split by hash, a full node
  in the middle, a full root becomes a child of itself. The directory operations of
  \<open>src/ext4_dir.c\<close> that choose between the index and the linear algorithm are at the end.
\<close>

section \<open>Splitting a leaf\<close>

text \<open>
  The entries of a leaf that are in use, copied one after the other to a buffer of one block; the
  array for sorting has room for \<open>block_size / 12\<close> of them.
\<close>

definition ext4_dir_dx_entry_comparator :: "ext4_dx_sort_entry \<Rightarrow> ext4_dx_sort_entry \<Rightarrow> int" where
  "ext4_dir_dx_entry_comparator entry1 entry2 =
     (if se_hash entry1 = se_hash entry2 then 0
      else if se_hash entry1 < se_hash entry2 then - 1 else 1)"

definition dx_rec_len :: "u16 \<Rightarrow> u32" where
  "dx_rec_len len =
     (let rec_len = 8 + ucast len in if rec_len mod 4 \<noteq> 0 then rec_len + (4 - rec_len mod 4) else rec_len)"

partial_function (option) dx_load ::
    "ext4_sblock \<Rightarrow> ext4_hash_info \<Rightarrow> bytes \<Rightarrow> nat \<Rightarrow> u32 \<Rightarrow> ext4_dx_sort_entry list \<Rightarrow>
     (errno \<times> ext4_dx_sort_entry list) option" where
  "dx_load sb hinfo data off real_size srt =
     (if off < unat (ext4_sb_get_block_size sb)
      then let block_size = unat (ext4_sb_get_block_size sb);
               de = de_at data off;
               elen = unat (en_entry_len de)
           in if en_inode de \<noteq> 0 \<and> en_name_len de \<noteq> 0
              then let len = ext4_dir_en_get_name_len sb de
                   in (case ext4_dir_dx_hash_string hinfo (unat len) (de_name data off (unat len)) of (rc, hinfo) \<Rightarrow>
                         if rc \<noteq> EOK then Some (rc, srt)
                         else let rec_len = dx_rec_len len
                              in if off + unat rec_len > block_size \<or> unat real_size + unat rec_len > block_size \<or>
                                    length srt \<ge> block_size div 12 then None
                                 else dx_load sb hinfo data (off + elen) (real_size + rec_len)
                                        (srt @ [\<lparr>se_hash = hi_hash hinfo, se_rec_len = rec_len,
                                                  se_dentry = take (unat rec_len) (drop off data)\<rparr>]))
              else dx_load sb hinfo data (off + elen) real_size srt
      else Some (EOK, srt))"

text \<open>The first entry of the second half and its hash, 0 and 0 when half a block holds them all.\<close>

fun dx_half :: "u32 \<Rightarrow> u32 \<Rightarrow> nat \<Rightarrow> ext4_dx_sort_entry list \<Rightarrow> u32 \<times> nat" where
  "dx_half block_size current_size i [] = (0, 0)"
| "dx_half block_size current_size i (e # srt) =
     (if current_size + se_rec_len e > block_size div 2 then (se_hash e, i)
      else dx_half block_size (current_size + se_rec_len e) (i + 1) srt)"

text \<open>Entries stored one after the other, the last one up to \<open>block_size\<close>.\<close>

fun dx_pack :: "u32 \<Rightarrow> u32 \<Rightarrow> ext4_dx_sort_entry list \<Rightarrow> bytes \<Rightarrow> bytes" where
  "dx_pack block_size off [] data = data"
| "dx_pack block_size off (e # srt) data =
     (let data = put_bytes (unat off) (se_dentry e) data;
          len = (if srt = [] then block_size - off else se_rec_len e);
          data = de_put (unat off) ((de_at data (unat off))\<lparr>en_entry_len := ucast len\<rparr>) data
      in dx_pack block_size (off + se_rec_len e) srt data)"

text \<open>The end of a half: its checksum record.\<close>

definition dx_finish_leaf :: "'d ext4_fs \<Rightarrow> ext4_inode_ref \<Rightarrow> ext4_block \<Rightarrow> 'd ext4_fs" where
  "dx_finish_leaf fs ir b =
     (let fs = (if ext4_sb_feature_ro_com (fs_sb fs) EXT4_FRO_COM_METADATA_CSUM
                then fs_modify (ext4_dir_init_entry_tail (EXT4_DIRENT_TAIL (fs_sb fs))) fs b else fs)
      in fs_modify (ext4_dir_set_csum fs ir) fs b)"

definition ext4_dir_dx_insert_entry ::
    "'d ext4_fs \<Rightarrow> ext4_inode_ref \<Rightarrow> ext4_dir_idx_block \<Rightarrow> u32 \<Rightarrow> u32 \<Rightarrow> 'd ext4_fs" where
  "ext4_dir_dx_insert_entry fs ir index_block hash iblock =
     dx_csum_dirty
       (fs_modify (dx_insert (dxb_entries index_block) (dxb_position index_block) hash iblock) fs (dxb_b index_block))
       ir (dxb_b index_block)"

definition ext4_dir_dx_split_data ::
    "(ext4_dx_sort_entry list \<Rightarrow> ext4_dx_sort_entry list) \<Rightarrow> 'd ext4_fs \<Rightarrow> ext4_inode_ref \<Rightarrow> ext4_hash_info \<Rightarrow>
     ext4_block \<Rightarrow> ext4_dir_idx_block \<Rightarrow> (errno \<times> 'd ext4_fs \<times> ext4_inode_ref \<times> ext4_block option) option" where
  "ext4_dir_dx_split_data qsort fs ir hinfo old_data_block index_block = do {
     let block_size = ext4_sb_get_block_size (fs_sb fs);
     let (ok, fs) = fs_malloc fs;
     if \<not> ok then Some (ENOMEM, fs, ir, None)
     else do {
       let (ok, fs) = fs_malloc fs;
       if \<not> ok then Some (ENOMEM, fs, ir, None)
       else do {
         (rc, srt) \<leftarrow> dx_load (fs_sb fs) hinfo (fs_data fs old_data_block) 0 0 [];
         if rc \<noteq> EOK then Some (rc, fs, ir, None)
         else do {
           let srt = qsort srt;
           (rc, fs, ir, blk) \<leftarrow> ext4_fs_append_inode_dblk fs ir;
           if rc \<noteq> EOK then Some (rc, fs, ir, None)
           else (case blk of None \<Rightarrow> None | Some (new_fblock, new_iblock) \<Rightarrow> do {
             (rc, fs, new_block) \<leftarrow> fs_block_get_noread fs new_fblock;
             if rc \<noteq> EOK then Some (rc, fs, ir, None)
             else do {
               let (new_hash, mid) = dx_half block_size 0 0 srt;
               if mid = 0 then None
               else do {
                 let continued = (if new_hash = se_hash (srt ! (mid - 1)) then 1 else 0);
                 let stop = (if ext4_sb_feature_ro_com (fs_sb fs) EXT4_FRO_COM_METADATA_CSUM
                             then block_size - 12 else block_size);
                 let fs = fs_modify (dx_pack stop 0 (take mid srt)) fs old_data_block;
                 let fs = fs_modify (dx_pack stop 0 (drop mid srt)) fs new_block;
                 let fs = dx_finish_leaf fs ir old_data_block;
                 let fs = dx_finish_leaf fs ir new_block;
                 let fs = fs_dirty (fs_dirty fs old_data_block) new_block;
                 let fs = ext4_dir_dx_insert_entry fs ir index_block (new_hash + continued) new_iblock;
                 Some (EOK, fs, ir, Some new_block)
               }
             }
           })
         }
       }
     }
   }"

section \<open>Splitting a node\<close>

text \<open>
  A full inner node: its upper half goes to the new block \<open>b\<close>, whose number becomes an entry of
  the root. \<open>dx_blks\<close> are the root and the node.
\<close>

definition dx_split_inner ::
    "'d ext4_fs \<Rightarrow> ext4_inode_ref \<Rightarrow> ext4_dir_idx_block \<Rightarrow> ext4_dir_idx_block \<Rightarrow> ext4_block \<Rightarrow> u32 \<Rightarrow>
     (errno \<times> 'd ext4_fs \<times> ext4_dir_idx_block list) option" where
  "dx_split_inner fs ir root dxb b new_iblk = do {
     let e = fs_data fs (dxb_b dxb);
     let leaf_count = unat (ext4_dir_dx_climit_get_count e 8);
     let count_left = leaf_count div 2;
     let count_right = leaf_count - count_left;
     let hash_right = ext4_dir_dx_entry_get_hash e 8 count_left;
     let fs = fs_modify (dx_copy e 8 count_left count_right) fs b;
     let fs = fs_modify (ext4_dir_dx_climit_set_count 8 (of_nat count_left)) fs (dxb_b dxb);
     let fs = fs_modify (ext4_dir_dx_climit_set_count 8 (of_nat count_right)) fs b;
     let fs = fs_modify (ext4_dir_dx_climit_set_limit 8 (ucast (dx_split_limit (fs_sb fs)))) fs b;
     let (fs, dxb, b) =
       (if dxb_position dxb \<ge> count_left
        then (dx_csum_dirty fs ir (dxb_b dxb),
              \<lparr>dxb_b = b, dxb_entries = 8, dxb_position = dxb_position dxb - count_left\<rparr>, dxb_b dxb)
        else (fs, dxb, b));
     let fs = ext4_dir_dx_insert_entry fs ir root hash_right new_iblk;
     let fs = dx_set_csum (dx_set_csum fs ir (dxb_b root)) ir (dxb_b dxb);
     let fs = fs_dirty (fs_dirty fs (dxb_b root)) (dxb_b dxb);
     let fs = dx_csum_dirty fs ir b;
     (r, fs) \<leftarrow> fs_block_set fs b;
     Some (r, fs, [root, dxb])
   }"

text \<open>A full root: its entries go to the new block, and it keeps one entry for it.\<close>

definition dx_split_root ::
    "'d ext4_fs \<Rightarrow> ext4_inode_ref \<Rightarrow> ext4_dir_idx_block \<Rightarrow> ext4_block \<Rightarrow> u32 \<Rightarrow>
     'd ext4_fs \<times> ext4_dir_idx_block list" where
  "dx_split_root fs ir root b new_iblk =
     (let e = fs_data fs (dxb_b root);
          leaf_count = unat (ext4_dir_dx_climit_get_count e 32);
          fs = fs_modify (dx_copy e 32 0 leaf_count) fs b;
          fs = fs_modify (ext4_dir_dx_climit_set_limit 8 (ucast (dx_split_limit (fs_sb fs)))) fs b;
          fs = fs_modify (ext4_dir_dx_climit_set_count 32 1) fs (dxb_b root);
          fs = fs_modify (ext4_dir_dx_entry_set_block 32 0 new_iblk) fs (dxb_b root);
          fs = fs_modify (ext4_dir_dx_rinfo_set_indirect_levels 1) fs (dxb_b root);
          dxb = \<lparr>dxb_b = b, dxb_entries = 8, dxb_position = dxb_position root\<rparr>;
          fs = dx_set_csum (dx_set_csum fs ir (dxb_b root)) ir b
      in (fs_dirty (fs_dirty fs (dxb_b root)) b, [root, dxb]))"

definition ext4_dir_dx_split_index ::
    "'d ext4_fs \<Rightarrow> ext4_inode_ref \<Rightarrow> ext4_dir_idx_block list \<Rightarrow>
     (errno \<times> 'd ext4_fs \<times> ext4_inode_ref \<times> ext4_dir_idx_block list) option" where
  "ext4_dir_dx_split_index fs ir dx_blks = do {
     let dxb = last dx_blks;
     let levels = length dx_blks - 1;
     let en = (if levels = 0 then 32 else 8);
     let e = fs_data fs (dxb_b dxb);
     if ext4_dir_dx_climit_get_limit e en = ext4_dir_dx_climit_get_count e en
     then do {
       let ren = fs_data fs (dxb_b (hd dx_blks));
       if levels > 0 \<and> ext4_dir_dx_climit_get_limit ren 32 = ext4_dir_dx_climit_get_count ren 32
       then Some (ENOSPC, fs, ir, dx_blks)
       else do {
         (r, fs, ir, blk) \<leftarrow> ext4_fs_append_inode_dblk fs ir;
         if r \<noteq> EOK then Some (r, fs, ir, dx_blks)
         else (case blk of None \<Rightarrow> None | Some (new_fblk, new_iblk) \<Rightarrow> do {
           (r, fs, b) \<leftarrow> fs_block_get_noread fs new_fblk;
           if r \<noteq> EOK then Some (r, fs, ir, dx_blks)
           else do {
             let fs = fs_modify (dx_fake (fs_sb fs)) fs b;
             if levels > 0
             then do {
               (r, fs, dx_blks) \<leftarrow> dx_split_inner fs ir (hd dx_blks) dxb b new_iblk;
               Some (r, fs, ir, dx_blks)
             }
             else (case dx_split_root fs ir dxb b new_iblk of (fs, dx_blks) \<Rightarrow> Some (EOK, fs, ir, dx_blks))
           }
         })
       }
     }
     else Some (EOK, fs, ir, dx_blks)
   }"

section \<open>Adding an entry\<close>

text \<open>
  The exits of \<open>ext4_dir_dx_add_entry\<close>: the path is released until a release fails, whose error
  is then the answer; the target block is released before it.
\<close>

fun dx_release_index :: "'d ext4_fs \<Rightarrow> errno \<Rightarrow> ext4_dir_idx_block list \<Rightarrow> (errno \<times> 'd ext4_fs) option" where
  "dx_release_index fs rc2 [] = Some (rc2, fs)"
| "dx_release_index fs rc2 (p # path) = do {
     (r, fs) \<leftarrow> fs_block_set fs (dxb_b p);
     if r \<noteq> EOK then Some (r, fs) else dx_release_index fs rc2 path
   }"

definition dx_release_target ::
    "'d ext4_fs \<Rightarrow> errno \<Rightarrow> ext4_block \<Rightarrow> ext4_dir_idx_block list \<Rightarrow> (errno \<times> 'd ext4_fs) option" where
  "dx_release_target fs r target path = do {
     (r', fs) \<leftarrow> fs_block_set fs target;
     if r' \<noteq> EOK then Some (r', fs) else dx_release_index fs r path
   }"

text \<open>
  With the leaf \<open>target\<close> in hand. The result of the second attempt is overwritten by that of the
  release of the new block.
\<close>

definition dx_add_to_leaf ::
    "(ext4_dx_sort_entry list \<Rightarrow> ext4_dx_sort_entry list) \<Rightarrow> 'd ext4_fs \<Rightarrow> ext4_inode_ref \<Rightarrow> ext4_inode_ref \<Rightarrow> bytes \<Rightarrow>
     ext4_hash_info \<Rightarrow> ext4_dir_idx_block list \<Rightarrow> ext4_block \<Rightarrow> (errno \<times> 'd ext4_fs \<times> ext4_inode_ref) option" where
  "dx_add_to_leaf qsort fs parent child name hinfo path target = do {
     (r, fs) \<leftarrow> ext4_dir_try_insert_entry fs parent target child name;
     if r = EOK then do { (r, fs) \<leftarrow> dx_release_target fs r target path; Some (r, fs, parent) }
     else do {
       (r, fs, parent, new_block) \<leftarrow> ext4_dir_dx_split_data qsort fs parent hinfo target (last path);
       if r \<noteq> EOK then do { (r, fs) \<leftarrow> dx_release_target fs r target path; Some (r, fs, parent) }
       else (case new_block of None \<Rightarrow> None | Some new_block \<Rightarrow> do {
         let dx_blk = last path;
         let blk_hash = ext4_dir_dx_entry_get_hash (fs_data fs (dxb_b dx_blk)) (dxb_entries dx_blk) (dxb_position dx_blk + 1);
         (_, fs) \<leftarrow> ext4_dir_try_insert_entry fs parent (if hi_hash hinfo \<ge> blk_hash then new_block else target) child name;
         (r, fs) \<leftarrow> fs_block_set fs new_block;
         if r \<noteq> EOK then Some (r, fs, parent)
         else do { (r, fs) \<leftarrow> dx_release_target fs r target path; Some (r, fs, parent) }
       })
     }
   }"

text \<open>
  When the walk to the leaf fails, \<open>dx_blk\<close> is not set, and when the split of the index fails,
  \<open>target_block\<close> is not: the exits that the code takes then use them.
\<close>

definition ext4_dir_dx_add_entry ::
    "(ext4_dx_sort_entry list \<Rightarrow> ext4_dx_sort_entry list) \<Rightarrow> 'd ext4_fs \<Rightarrow> ext4_inode_ref \<Rightarrow> ext4_inode_ref \<Rightarrow> bytes \<Rightarrow>
     (errno \<times> 'd ext4_fs \<times> ext4_inode_ref) option" where
  "ext4_dir_dx_add_entry qsort fs parent child name = do {
     (r, fs, parent, rblock_addr) \<leftarrow> ext4_fs_get_inode_dblk_idx fs parent 0 False;
     if r \<noteq> EOK then Some (r, fs, parent)
     else (case rblock_addr of None \<Rightarrow> None | Some rblock_addr \<Rightarrow> do {
       (r, fs, root_blk) \<leftarrow> fs_block_get fs rblock_addr;
       if r \<noteq> EOK then Some (r, fs, parent)
       else (case ext4_dir_hinfo_init (fs_sb fs) (fs_data fs root_blk) (Some name) of (r, hinfo) \<Rightarrow>
         if r \<noteq> EOK
         then do { (_, fs) \<leftarrow> fs_block_set fs root_blk; Some (EXT4_ERR_BAD_DX_DIR, fs, parent) }
         else do {
           (r, fs, parent, root_blk, path) \<leftarrow> ext4_dir_dx_get_leaf fs parent hinfo root_blk;
           if r \<noteq> EOK then None
           else do {
             let dx_blk = last path;
             let leaf_block_idx = ext4_dir_dx_entry_get_block (fs_data fs (dxb_b dx_blk)) (dxb_entries dx_blk) (dxb_position dx_blk);
             (r, fs, parent, leaf_block_addr) \<leftarrow> ext4_fs_get_inode_dblk_idx fs parent leaf_block_idx False;
             if r \<noteq> EOK then do { (r, fs) \<leftarrow> dx_release_index fs r path; Some (r, fs, parent) }
             else (case leaf_block_addr of None \<Rightarrow> None | Some leaf_block_addr \<Rightarrow> do {
               (r, fs, parent, path) \<leftarrow> ext4_dir_dx_split_index fs parent path;
               if r \<noteq> EOK then None
               else do {
                 (r, fs, target) \<leftarrow> fs_block_get fs leaf_block_addr;
                 if r \<noteq> EOK then do { (r, fs) \<leftarrow> dx_release_index fs r path; Some (r, fs, parent) }
                 else dx_add_to_leaf qsort fs parent child name hinfo path target
               }
             })
           }
         })
     })
   }"

section \<open>The operations of a directory\<close>

definition has_index :: "'d ext4_fs \<Rightarrow> ext4_inode_ref \<Rightarrow> bool" where
  "has_index fs parent \<longleftrightarrow>
     ext4_sb_feature_com (fs_sb fs) EXT4_FCOM_DIR_INDEX \<and>
     ext4_inode_has_flag (ino_get fs parent) EXT4_INODE_FLAG_INDEX"

text \<open>A damaged index is dropped from the inode, and the linear algorithm takes over.\<close>

definition drop_index :: "'d ext4_fs \<Rightarrow> ext4_inode_ref \<Rightarrow> 'd ext4_fs \<times> ext4_inode_ref" where
  "drop_index fs parent =
     (ino_upd (\<lambda>i. ext4_inode_clear_flag i EXT4_INODE_FLAG_INDEX) fs parent, parent\<lparr>ir_dirty := True\<rparr>)"

definition ext4_dir_add_entry ::
    "(ext4_dx_sort_entry list \<Rightarrow> ext4_dx_sort_entry list) \<Rightarrow> 'd ext4_fs \<Rightarrow> ext4_inode_ref \<Rightarrow> bytes \<Rightarrow> ext4_inode_ref \<Rightarrow>
     (errno \<times> 'd ext4_fs \<times> ext4_inode_ref) option" where
  "ext4_dir_add_entry qsort fs parent name child =
     (if has_index fs parent
      then do {
        (r, fs, parent) \<leftarrow> ext4_dir_dx_add_entry qsort fs parent child name;
        if r \<noteq> EXT4_ERR_BAD_DX_DIR then Some (r, fs, parent)
        else (case drop_index fs parent of (fs, parent) \<Rightarrow> dir_add_linear fs parent name child)
      }
      else dir_add_linear fs parent name child)"

definition ext4_dir_find_entry ::
    "'d ext4_fs \<Rightarrow> ext4_inode_ref \<Rightarrow> bytes \<Rightarrow>
     (errno \<times> 'd ext4_fs \<times> ext4_inode_ref \<times> ext4_dir_search_result) option" where
  "ext4_dir_find_entry fs parent name =
     (if has_index fs parent
      then do {
        (r, fs, parent, result) \<leftarrow>
          ext4_dir_dx_find_entry fs parent \<lparr>sr_block = EXT4_BLOCK_ZERO, sr_dentry = None\<rparr> name;
        if r \<noteq> EXT4_ERR_BAD_DX_DIR then Some (r, fs, parent, result)
        else (case drop_index fs parent of (fs, parent) \<Rightarrow> dir_find_linear fs parent name)
      }
      else dir_find_linear fs parent name)"

definition ext4_dir_remove_entry ::
    "'d ext4_fs \<Rightarrow> ext4_inode_ref \<Rightarrow> bytes \<Rightarrow> (errno \<times> 'd ext4_fs \<times> ext4_inode_ref) option" where
  "ext4_dir_remove_entry fs parent name =
     (if \<not> ext4_inode_is_type (fs_sb fs) (ino_get fs parent) EXT4_INODE_MODE_DIRECTORY
      then Some (ENOTDIR, fs, parent)
      else do {
        (rc, fs, parent, result) \<leftarrow> ext4_dir_find_entry fs parent name;
        if rc \<noteq> EOK then Some (rc, fs, parent)
        else do {
          (rc, fs) \<leftarrow> dir_unlink fs parent result;
          Some (rc, fs, parent)
        }
      })"

end
