(* ===== verification/Dx_Map.thy ===== *)
theory Dx_Map
  imports Dir_Split
begin

text \<open>
  A node of a directory index as the map it stands for: the hashes of its entries divide the
  hashes into intervals, and each interval belongs to a block. The binary search finds the
  interval, and inserting an entry divides one.
\<close>

section \<open>Nodes in order\<close>

abbreviation dx_count :: "bytes \<Rightarrow> nat \<Rightarrow> nat" where
  "dx_count node en \<equiv> unat (ext4_dir_dx_climit_get_count node en)"

definition dx_ok :: "bytes \<Rightarrow> nat \<Rightarrow> bool" where
  "dx_ok node en \<longleftrightarrow>
     0 < dx_count node en \<and> en + 8 * dx_count node en \<le> length node \<and>
     (\<forall>i j. 1 \<le> i \<longrightarrow> i \<le> j \<longrightarrow> j < dx_count node en \<longrightarrow>
        ext4_dir_dx_entry_get_hash node en i \<le> ext4_dir_dx_entry_get_hash node en j)"

text \<open>The entry whose interval holds a hash, as \<open>ext4_dir_dx_get_leaf\<close> finds it, and its block.\<close>

definition dx_pos :: "bytes \<Rightarrow> nat \<Rightarrow> u32 \<Rightarrow> nat" where
  "dx_pos node en hash = dx_search node en hash 1 (int (dx_count node en) - 1)"

definition dx_child :: "bytes \<Rightarrow> nat \<Rightarrow> u32 \<Rightarrow> u32" where
  "dx_child node en hash = ext4_dir_dx_entry_get_block node en (dx_pos node en hash)"

definition dx_at :: "bytes \<Rightarrow> nat \<Rightarrow> u32 \<Rightarrow> nat \<Rightarrow> bool" where
  "dx_at node en h r \<longleftrightarrow>
     r < dx_count node en \<and>
     (\<forall>i. 1 \<le> i \<longrightarrow> i \<le> r \<longrightarrow> ext4_dir_dx_entry_get_hash node en i \<le> h) \<and>
     (\<forall>i. r < i \<longrightarrow> i < dx_count node en \<longrightarrow> h < ext4_dir_dx_entry_get_hash node en i)"

lemma dx_at_unique:
  assumes "dx_at node en h r" "dx_at node en h s"
  shows "r = s"
proof -
  have False if "a < b" "dx_at node en h a" "dx_at node en h b" for a b
  proof -
    from that(2) [unfolded dx_at_def] that(1) that(3) [unfolded dx_at_def]
    have "h < ext4_dir_dx_entry_get_hash node en b" by blast
    moreover from that(3) that(1) have "ext4_dir_dx_entry_get_hash node en b \<le> h"
      by (auto simp: dx_at_def)
    ultimately show False by simp
  qed
  with assms show ?thesis by (meson linorder_neqE_nat)
qed

lemma dx_search_at:
  assumes ok: "dx_ok node en" and "1 \<le> p" "p \<le> q + 1" "q < int (dx_count node en)"
    and "\<And>i. 1 \<le> i \<Longrightarrow> int i < p \<Longrightarrow> ext4_dir_dx_entry_get_hash node en i \<le> h"
    and "\<And>i. q < int i \<Longrightarrow> i < dx_count node en \<Longrightarrow> h < ext4_dir_dx_entry_get_hash node en i"
  shows "dx_at node en h (dx_search node en h p q)"
  using assms
proof (induction node en h p q rule: dx_search.induct)
  case (1 node en h p q)
  have mono: "ext4_dir_dx_entry_get_hash node en i \<le> ext4_dir_dx_entry_get_hash node en j"
    if "1 \<le> i" "i \<le> j" "j < dx_count node en" for i j
    using "1.prems"(1) that unfolding dx_ok_def by blast
  show ?case
  proof (cases "p \<le> q")
    case False
    then have pq: "p = q + 1" using "1.prems" by simp
    then show ?thesis
      using "1.prems" by (subst dx_search.simps) (auto simp: dx_at_def nat_less_iff)
  next
    case True
    define m where "m = p + (q - p) div 2"
    have m: "p \<le> m" "m \<le> q" using True by (auto simp: m_def)
    show ?thesis
    proof (cases "ext4_dir_dx_entry_get_hash node en (nat m) > h")
      case gt: True
      have "dx_at node en h (dx_search node en h p (m - 1))"
      proof (rule "1.IH"(1) [OF True m_def gt])
        fix i assume i: "m - 1 < int i" "i < dx_count node en"
        have "ext4_dir_dx_entry_get_hash node en (nat m) \<le> ext4_dir_dx_entry_get_hash node en i"
          by (rule mono) (use i m "1.prems"(2) in linarith)+
        with gt show "h < ext4_dir_dx_entry_get_hash node en i" by (rule less_le_trans)
      qed (use m "1.prems" in auto)
      then show ?thesis by (subst dx_search.simps) (simp add: True gt Let_def flip: m_def)
    next
      case le: False
      have "dx_at node en h (dx_search node en h (m + 1) q)"
      proof (rule "1.IH"(2) [OF True m_def le])
        fix i assume i: "1 \<le> i" "int i < m + 1"
        have "ext4_dir_dx_entry_get_hash node en i \<le> ext4_dir_dx_entry_get_hash node en (nat m)"
          by (rule mono) (use i m "1.prems" in linarith)+
        with le show "ext4_dir_dx_entry_get_hash node en i \<le> h" by simp
      qed (use m "1.prems" in auto)
      then show ?thesis by (subst dx_search.simps) (simp add: True le Let_def flip: m_def)
    qed
  qed
qed

lemma dx_pos_at:
  assumes "dx_ok node en"
  shows "dx_at node en h (dx_pos node en h)"
proof -
  have "0 < dx_count node en" using assms by (simp add: dx_ok_def)
  then have "(1 :: int) \<le> int (dx_count node en) - 1 + 1" by linarith
  then show ?thesis
    unfolding dx_pos_def by (intro dx_search_at [OF assms]) linarith+
qed

lemma dx_pos_eq: "dx_ok node en \<Longrightarrow> dx_at node en h r \<Longrightarrow> dx_pos node en h = r"
  by (rule dx_at_unique [OF dx_pos_at])

section \<open>Inserting an entry\<close>

definition dx_insertable :: "bytes \<Rightarrow> nat \<Rightarrow> nat \<Rightarrow> u32 \<Rightarrow> bool" where
  "dx_insertable node en pos hs \<longleftrightarrow>
     dx_ok node en \<and> en + 8 * (dx_count node en + 1) \<le> length node \<and> dx_count node en < 65535 \<and>
     pos < dx_count node en \<and>
     (1 \<le> pos \<longrightarrow> ext4_dir_dx_entry_get_hash node en pos \<le> hs) \<and>
     (pos + 1 < dx_count node en \<longrightarrow> hs \<le> ext4_dir_dx_entry_get_hash node en (pos + 1))"

text \<open>What is read from the node after \<open>dx_insert\<close>.\<close>

lemma dx_insert_reads:
  fixes blk :: u32
  assumes "dx_insertable node en pos hs"
  defines "node' \<equiv> dx_insert en pos hs blk node"
  shows "length node' = length node"
    "dx_count node' en = dx_count node en + 1"
    "ext4_dir_dx_climit_get_limit node' en = ext4_dir_dx_climit_get_limit node en"
    "1 \<le> i \<Longrightarrow> i \<le> dx_count node en \<Longrightarrow> ext4_dir_dx_entry_get_hash node' en i =
       (if i \<le> pos then ext4_dir_dx_entry_get_hash node en i else if i = pos + 1 then hs
        else ext4_dir_dx_entry_get_hash node en (i - 1))"
    "i \<le> dx_count node en \<Longrightarrow> ext4_dir_dx_entry_get_block node' en i =
       (if i \<le> pos then ext4_dir_dx_entry_get_block node en i else if i = pos + 1 then blk
        else ext4_dir_dx_entry_get_block node en (i - 1))"
proof -
  note defs = ext4_dir_dx_entry_get_hash_def ext4_dir_dx_entry_get_block_def ext4_dir_dx_entry_set_hash_def
    ext4_dir_dx_entry_set_block_def ext4_dir_dx_climit_set_count_def ext4_dir_dx_climit_get_count_def
    ext4_dir_dx_climit_get_limit_def
  define c where "c = dx_count node en"
  define moved where "moved = take (8 * (c - (pos + 1))) (drop (en + 8 * (pos + 1)) node)"
  have c: "pos < c" "en + 8 * (c + 1) \<le> length node" "c < 65535"
    using assms by (simp_all add: dx_insertable_def c_def)
  have lm: "length moved = 8 * (c - (pos + 1))" using c by (simp add: moved_def)
  have inside: "en + 8 * (pos + 2) + length moved \<le> length node" using c lm by simp
  define n1 where "n1 = put_bytes (en + 8 * (pos + 2)) moved node"
  define n2 where "n2 = put_bytes (en + 8 * (pos + 1) + 4) (le_bytes 4 blk) n1"
  define n3 where "n3 = put_bytes (en + 8 * (pos + 1)) (le_bytes 4 hs) n2"
  have len: "length n1 = length node" "length n2 = length node" "length n3 = length node"
    using inside c by (simp_all add: n1_def n2_def n3_def)
  have n': "node' = put_bytes (en + 2) (le_bytes 2 (of_nat (c + 1) :: u16)) n3"
    unfolding node'_def dx_insert_def n3_def n2_def n1_def moved_def c_def
    by (simp add: Let_def defs)
  show "length node' = length node" using c by (simp add: n' len)
  have "(get_le 2 (en + 2) node' :: u16) = of_nat (c + 1)"
    unfolding n' using c len by (intro get_le_put_same) simp_all
  moreover have "unat (of_nat (c + 1) :: u16) = c + 1"
    unfolding unat_of_nat using c by (simp add: mod_less)
  ultimately show "dx_count node' en = dx_count node en + 1" by (simp add: defs c_def)
  have r: "get_le n a node' = get_le n a n3" if "en + 4 \<le> a \<or> a + n \<le> en + 2" for n a
    unfolding n' using that c len by (intro get_le_put_other) auto
  have r3: "get_le n a n3 = get_le n a node" if "a + n \<le> en + 8 * (pos + 1)" for n a
    using that c len inside by (simp add: n3_def n2_def n1_def get_le_put_other)
  have r4: "get_le 4 (en + 8 * i + k) n3 = get_le 4 (en + 8 * (i - 1) + k) node"
    if "pos + 2 \<le> i" "i \<le> c" "k \<le> 4" for i k
  proof -
    have "get_le 4 (en + 8 * i + k) n3 = get_le 4 (en + 8 * i + k) n1"
      using that c len by (simp add: n3_def n2_def get_le_put_other)
    also have "\<dots> = get_le 4 (en + 8 * i + k - (en + 8 * (pos + 2))) moved"
      unfolding n1_def using that inside lm by (intro get_le_put_copy) auto
    also have "\<dots> = get_le 4 (en + 8 * (pos + 1) + (en + 8 * i + k - (en + 8 * (pos + 2)))) node"
      unfolding moved_def using that by (intro get_le_slice) auto
    also have "en + 8 * (pos + 1) + (en + 8 * i + k - (en + 8 * (pos + 2))) = en + 8 * (i - 1) + k"
      using that by auto
    finally show ?thesis .
  qed
  have new: "get_le 4 (en + 8 * (pos + 1)) n3 = hs" "get_le 4 (en + 8 * (pos + 1) + 4) n3 = blk"
    using c len by (simp_all add: n3_def get_le_put_same get_le_put_other n2_def)
  show "ext4_dir_dx_climit_get_limit node' en = ext4_dir_dx_climit_get_limit node en"
    unfolding ext4_dir_dx_climit_get_limit_def by (subst r) (simp_all add: r3)
  show "ext4_dir_dx_entry_get_hash node' en i =
       (if i \<le> pos then ext4_dir_dx_entry_get_hash node en i else if i = pos + 1 then hs
        else ext4_dir_dx_entry_get_hash node en (i - 1))" if "1 \<le> i" "i \<le> dx_count node en"
    using that new(1) r4 [of i 0] r3 [of "en + 8 * i" 4]
    by (auto simp: ext4_dir_dx_entry_get_hash_def r c_def)
  show "ext4_dir_dx_entry_get_block node' en i =
       (if i \<le> pos then ext4_dir_dx_entry_get_block node en i else if i = pos + 1 then blk
        else ext4_dir_dx_entry_get_block node en (i - 1))" if "i \<le> dx_count node en"
    using that new(2) r4 [of i 4] r3 [of "en + 8 * i + 4" 4]
    by (auto simp: ext4_dir_dx_entry_get_block_def r c_def)
qed

lemma dx_insert_ok:
  assumes "dx_insertable node en pos hs"
  shows "dx_ok (dx_insert en pos hs blk node) en"
proof -
  note rd = dx_insert_reads [OF assms]
  have mono: "ext4_dir_dx_entry_get_hash node en i \<le> ext4_dir_dx_entry_get_hash node en j"
    if "1 \<le> i" "i \<le> j" "j < dx_count node en" for i j
    using assms that unfolding dx_insertable_def dx_ok_def by blast
  have lo: "ext4_dir_dx_entry_get_hash node en i \<le> hs" if "1 \<le> i" "i \<le> pos" for i
    using assms that mono [of i pos] unfolding dx_insertable_def by force
  have hi: "hs \<le> ext4_dir_dx_entry_get_hash node en i" if "pos < i" "i < dx_count node en" for i
    using assms that mono [of "pos + 1" i] unfolding dx_insertable_def by force
  have all: "ext4_dir_dx_entry_get_hash (dx_insert en pos hs blk node) en i \<le>
      ext4_dir_dx_entry_get_hash (dx_insert en pos hs blk node) en j"
    if ij: "1 \<le> i" "i \<le> j" "j \<le> dx_count node en" for i j
  proof -
    have ij': "1 \<le> j" "i \<le> dx_count node en" using ij by auto
    note rr = rd(4) [OF ij(1) ij'(2)] rd(4) [OF ij'(1) ij(3)]
    consider "j \<le> pos" | "j = pos + 1" "i \<le> pos" | "j = pos + 1" "i = pos + 1" | "pos + 1 < j" "i \<le> pos"
      | "pos + 1 < j" "i = pos + 1" | "pos + 1 < i"
      using ij by linarith
    then show ?thesis
    proof cases
      case 1
      then have "j < dx_count node en" "i \<le> pos" using assms ij by (auto simp: dx_insertable_def)
      with 1 mono [OF ij(1,2)] show ?thesis by (simp add: rr)
    next
      case 2
      with lo [OF ij(1)] show ?thesis using rr by simp
    next
      case 3
      then show ?thesis by simp
    next
      case 4
      have "i \<le> j - 1" "j - 1 < dx_count node en" using 4 ij by auto
      with 4 mono [OF ij(1)] show ?thesis by (simp add: rr)
    next
      case 5
      have "pos < j - 1" "j - 1 < dx_count node en" using 5 ij by auto
      with 5 hi show ?thesis using rr by simp
    next
      case 6
      have "1 \<le> i - 1" "i - 1 \<le> j - 1" "j - 1 < dx_count node en" using 6 ij by auto
      from mono [OF this] 6 ij(2) show ?thesis by (simp add: rr)
    qed
  qed
  have "dx_count (dx_insert en pos hs blk node) en = dx_count node en + 1" "length (dx_insert en pos hs blk node) = length node"
    by (rule rd)+
  with assms all show ?thesis unfolding dx_ok_def dx_insertable_def by simp
qed

lemma dx_insert_pos:
  assumes ins: "dx_insertable node en pos hs"
  shows "dx_pos (dx_insert en pos hs blk node) en h =
    (if dx_pos node en h < pos \<or> dx_pos node en h = pos \<and> h < hs then dx_pos node en h
     else dx_pos node en h + 1)"
proof (rule dx_pos_eq [OF dx_insert_ok [OF ins]])
  note rd = dx_insert_reads [OF ins]
  define s where "s = dx_pos node en h"
  have ok: "dx_ok node en" using ins by (simp add: dx_insertable_def)
  have at: "dx_at node en h s" unfolding s_def by (rule dx_pos_at [OF ok])
  then have s: "s < dx_count node en" "\<And>i. 1 \<le> i \<Longrightarrow> i \<le> s \<Longrightarrow> ext4_dir_dx_entry_get_hash node en i \<le> h"
    "\<And>i. s < i \<Longrightarrow> i < dx_count node en \<Longrightarrow> h < ext4_dir_dx_entry_get_hash node en i"
    by (simp_all add: dx_at_def)
  have p: "pos < dx_count node en" "1 \<le> pos \<Longrightarrow> ext4_dir_dx_entry_get_hash node en pos \<le> hs"
    "pos + 1 < dx_count node en \<Longrightarrow> hs \<le> ext4_dir_dx_entry_get_hash node en (pos + 1)"
    using ins by (auto simp: dx_insertable_def)
  have below: "h < hs" if "s < pos"
    using s(3) [OF that p(1)] p(2) that by (metis less_le_trans Suc_leI One_nat_def gr0_conv_Suc gr_implies_not0 neq0_conv)
  have above: "hs \<le> h" if "pos < s"
  proof -
    have "pos + 1 < dx_count node en" "1 \<le> pos + 1" "pos + 1 \<le> s" using that s(1) by auto
    from p(3) [OF this(1)] s(2) [OF this(2,3)] show ?thesis by (rule order.trans)
  qed
  show "dx_at (dx_insert en pos hs blk node) en h
      (if dx_pos node en h < pos \<or> dx_pos node en h = pos \<and> h < hs then dx_pos node en h
       else dx_pos node en h + 1)"
    unfolding dx_at_def rd(2) s_def [symmetric]
  proof (intro conjI allI impI)
    show "(if s < pos \<or> s = pos \<and> h < hs then s else s + 1) < dx_count node en + 1" using s(1) by simp
    fix i
    show "ext4_dir_dx_entry_get_hash (dx_insert en pos hs blk node) en i \<le> h"
      if "1 \<le> i" "i \<le> (if s < pos \<or> s = pos \<and> h < hs then s else s + 1)"
      using that s(1) s(2) [of i] s(2) [of "i - 1"] above p(1)
      by (auto simp: rd(4) split: if_splits)
    show "h < ext4_dir_dx_entry_get_hash (dx_insert en pos hs blk node) en i"
      if "(if s < pos \<or> s = pos \<and> h < hs then s else s + 1) < i" "i < dx_count node en + 1"
      using that s(1) s(3) [of i] s(3) [of "i - 1"] below p(1)
      by (auto simp: rd(4) split: if_splits)
  qed
qed

text \<open>
  C22: A node of the index whose hashes are in order stands for a map from hashes to blocks. After
  \<open>ext4_dir_dx_insert_entry\<close> puts a hash after an entry whose interval holds it, the node is in
  order again, has one entry more and the same limit, and stands for the same map, except that
  the upper part of that interval belongs to the new block.
\<close>

theorem dx_insert_divides_interval:
  assumes "dx_insertable node en pos hs"
  shows "dx_ok (dx_insert en pos hs blk node) en \<and>
    dx_count (dx_insert en pos hs blk node) en = dx_count node en + 1 \<and>
    ext4_dir_dx_climit_get_limit (dx_insert en pos hs blk node) en = ext4_dir_dx_climit_get_limit node en \<and>
    (\<forall>h. dx_child (dx_insert en pos hs blk node) en h =
      (if dx_pos node en h = pos \<and> hs \<le> h then blk else dx_child node en h))"
proof -
  have ok: "dx_ok node en" using assms by (simp add: dx_insertable_def)
  have "dx_child (dx_insert en pos hs blk node) en h =
      (if dx_pos node en h = pos \<and> hs \<le> h then blk else dx_child node en h)" for h
    using dx_pos_at [OF ok, of h] assms
    by (auto simp: dx_child_def dx_insert_pos [OF assms] dx_insert_reads(5) [OF assms] dx_at_def)
  then show ?thesis
    by (simp add: dx_insert_ok [OF assms] dx_insert_reads(2,3) [OF assms])
qed

section \<open>Stores to the blocks of a directory\<close>

lemma fs_store_data:
  "fs_data (fs_store fs b data) b = data"
  "the (blk_buf a) \<noteq> the (blk_buf b) \<Longrightarrow> fs_data (fs_store fs b data) a = fs_data fs a"
  by (simp_all add: fs_data_def fs_store_def blk_bytes_def blk_put_def buf_at_upd)

lemma fs_modify_data [simp]:
  "fs_data (fs_modify f fs b) b = f (fs_data fs b)" "fs_sb (fs_modify f fs b) = fs_sb fs"
  by (simp_all add: fs_modify_def fs_store_data) (simp add: fs_store_def)

lemma fs_modify_other [simp]:
  "the (blk_buf a) \<noteq> the (blk_buf b) \<Longrightarrow> fs_data (fs_modify f fs b) a = fs_data fs a"
  by (simp add: fs_modify_def fs_store_data)

lemma fs_dirty_data [simp]: "fs_data (fs_dirty fs b) a = fs_data fs a" "fs_sb (fs_dirty fs b) = fs_sb fs"
  by (simp_all add: fs_data_def fs_dirty_def blk_bytes_def ext4_trans_set_block_dirty_def upd_bc_def buf_at_upd)

section \<open>The checksum of a new leaf\<close>

lemma csum_tail_split:
  assumes "EXT4_DIRENT_TAIL (fs_sb fs) = t" "t + 12 = length data"
  shows "ext4_dir_get_tail (fs_sb fs) (ext4_dir_init_entry_tail t data) = Some t"
    "take t (ext4_dir_init_entry_tail t data) = take t data"
    "length (ext4_dir_init_entry_tail t data) = length data"
proof -
  have d: "ext4_dir_init_entry_tail t data = take t data @ le_bytes 4 (0 :: u32) @ le_bytes 2 (12 :: u16) @
      [0, EXT4_DIRENTRY_DIR_CSUM] @ le_bytes 4 (0 :: u32)"
    using assms by (simp add: ext4_dir_init_entry_tail_def put_bytes_def)
  show "take t (ext4_dir_init_entry_tail t data) = take t data" "length (ext4_dir_init_entry_tail t data) = length data"
    using assms by (simp_all add: d)
  show "ext4_dir_get_tail (fs_sb fs) (ext4_dir_init_entry_tail t data) = Some t"
    using assms by (simp add: ext4_dir_get_tail_def d byte_simps get_le_byte)
qed

lemma de_put_inode:
  assumes "8 \<le> length z"
  shows "de_put 0 ((de_at z 0)\<lparr>en_inode := w\<rparr>) z = le_bytes 4 w @ drop 4 z"
proof -
  have "le_bytes 2 (get_le 2 4 z :: u16) @ [get_le 1 6 z :: u8, get_le 1 7 z] @ drop 8 z = drop 4 z"
  proof -
    have one: "[get_le 1 k z :: u8] = take 1 (drop k z)" if "k < 8" for k
    proof -
      have "[get_le 1 k z :: u8] = le_bytes 1 (get_le 1 k z :: u8)"
        by (simp add: le_bytes_def)
      also have "\<dots> = take 1 (drop k z)" using that assms by (intro le_bytes_get_le) auto
      finally show ?thesis .
    qed
    have two: "le_bytes 2 (get_le 2 4 z :: u16) = take 2 (drop 4 z)"
      using assms by (intro le_bytes_get_le) auto
    have "le_bytes 2 (get_le 2 4 z :: u16) @ [get_le 1 6 z :: u8, get_le 1 7 z] @ drop 8 z =
        take 2 (drop 4 z) @ take 1 (drop 6 z) @ take 1 (drop 7 z) @ drop 8 z"
      unfolding two one [symmetric, of 6] one [symmetric, of 7]
      by (simp flip: one [of 6, simplified] one [of 7, simplified])
    also have "\<dots> = drop 4 z" by (simp add: take_drop_join)
    finally show ?thesis .
  qed
  then show ?thesis
    by (simp add: de_put_def de_at_def put_bytes_def ext4_dir_en_bytes_def ext4_dir_en_of_def)
qed

lemma dir_get_tail_cong:
  assumes "take 8 (drop (EXT4_DIRENT_TAIL sb) d) = take 8 (drop (EXT4_DIRENT_TAIL sb) d')"
  shows "ext4_dir_get_tail sb d = ext4_dir_get_tail sb d'"
proof -
  let ?t = "EXT4_DIRENT_TAIL sb"
  have r: "take n (drop (?t + k) d) = take n (drop (?t + k) d')" if "k + n \<le> 8" for n k
  proof -
    have "take n (drop (?t + k) z) = take n (drop k (take 8 (drop ?t z)))" for z :: bytes
      using that by (simp add: drop_take add.commute)
    then show ?thesis using assms by simp
  qed
  show ?thesis
    unfolding ext4_dir_get_tail_def Let_def get_le_def
    using r [of 0 4] r [of 6 1] r [of 4 2] r [of 7 1] by simp
qed

text \<open>
  C24: \<open>ext4_dir_dx_init\<close> sets the checksum of the first leaf before it clears the inode number of
  the leaf's only entry, in a buffer that was not read: with metadata checksums the leaf passes
  \<open>ext4_dir_csum_verify\<close> exactly when the buffer happened to hold 0 there.
\<close>

theorem dx_leaf_checksum:
  assumes csum: "ext4_sb_feature_ro_com (fs_sb fs) EXT4_FRO_COM_METADATA_CSUM"
    and len: "length leaf = unat (ext4_sb_get_block_size (fs_sb fs))" "20 \<le> length leaf"
  shows "ext4_dir_csum_verify fs dir (dx_leaf_bytes fs dir leaf) \<longleftrightarrow> get_le 4 0 leaf = (0 :: u32)"
proof -
  define t where "t = EXT4_DIRENT_TAIL (fs_sb fs)"
  have "(12 :: u32) \<le> ext4_sb_get_block_size (fs_sb fs)" using len by (simp add: word_le_nat_alt)
  then have t: "t + 12 = length leaf" "8 \<le> t"
    using len by (simp_all add: t_def EXT4_DIRENT_TAIL_def unat_minus)
  define de where "de = ext4_dir_en_set_inode_type (fs_sb fs)
    (ext4_dir_en_set_name_len (fs_sb fs) ((de_at leaf 0)\<lparr>en_entry_len := ucast (ext4_sb_get_block_size (fs_sb fs) - 12)\<rparr>) 0)
    EXT4_DE_UNKNOWN"
  define d0 where "d0 = de_put 0 de leaf"
  have d0: "length d0 = length leaf" "take 4 d0 = le_bytes 4 (get_le 4 0 leaf :: u32)"
    using t by (simp_all add: d0_def de_put_def put_bytes_def ext4_dir_en_bytes_def de_def de_at_def ext4_dir_en_of_def
        ext4_dir_en_set_inode_type_def ext4_dir_en_set_name_len_def Let_def)
  define d where "d = ext4_dir_init_entry_tail t d0"
  have d: "ext4_dir_get_tail (fs_sb fs) d = Some t" "take t d = take t d0" "length d = length leaf"
    using csum_tail_split [of fs t d0] t d0(1) by (simp_all add: d_def t_def)
  define x where "x = put_bytes (t + 8) (le_bytes 4 (ext4_dir_csum fs dir (take t d))) d"
  have x: "length x = length leaf" "take t x = take t d0" "take 8 (drop t x) = take 8 (drop t d)"
    "(get_le 4 (t + 8) x :: u32) = ext4_dir_csum fs dir (take t d0)"
    using t d by (simp_all add: x_def put_bytes_other get_le_put_same) (simp add: put_bytes_def d(2))
  define y where "y = le_bytes 4 (0 :: u32) @ drop 4 x"
  have leaf: "dx_leaf_bytes fs dir leaf = y"
  proof -
    have "dx_leaf_bytes fs dir leaf = de_put 0 ((de_at x 0)\<lparr>en_inode := 0\<rparr>) x"
      unfolding dx_leaf_bytes_def Let_def if_P [OF csum] de_def [symmetric] d0_def [symmetric] t_def [symmetric]
        d_def [symmetric]
      by (simp add: ext4_dir_set_csum_def csum d x_def)
    also have "\<dots> = y" using x(1) t by (simp add: de_put_inode y_def)
    finally show ?thesis .
  qed
  have y: "get_le 4 (t + 8) y = (get_le 4 (t + 8) x :: u32)" "drop t y = drop t x" "take t y = le_bytes 4 (0 :: u32) @ take (t - 4) (drop 4 d0)"
  proof -
    have s: "drop k y = drop k x" if "4 \<le> k" for k using that t x(1) by (simp add: y_def drop_append)
    show "get_le 4 (t + 8) y = (get_le 4 (t + 8) x :: u32)" "drop t y = drop t x"
      using t by (simp_all add: get_le_def s)
    have "take (t - 4) (drop 4 x) = drop 4 (take t x)" by (simp add: drop_take)
    then show "take t y = le_bytes 4 (0 :: u32) @ take (t - 4) (drop 4 d0)"
      using t by (simp add: y_def x(2) drop_take)
  qed
  have tail: "ext4_dir_get_tail (fs_sb fs) y = Some t"
    using dir_get_tail_cong [of "fs_sb fs" y d] d(1) x(3) y(2) by (simp add: t_def)
  have dt: "take t d0 = le_bytes 4 (get_le 4 0 leaf :: u32) @ take (t - 4) (drop 4 d0)"
  proof -
    have "take t d0 = take 4 d0 @ take (t - 4) (drop 4 d0)"
      using t by (simp flip: take_add)
    then show ?thesis by (simp add: d0(2))
  qed
  have inj: "le_bytes 4 v = le_bytes 4 w \<longleftrightarrow> v = w" for v w :: u32
  proof
    assume "le_bytes 4 v = le_bytes 4 w"
    then have "get_le 4 0 (le_bytes 4 v) = (get_le 4 0 (le_bytes 4 w) :: u32)" by simp
    then show "v = w" by (simp add: get_le_here)
  qed simp
  have "ext4_dir_csum_verify fs dir y \<longleftrightarrow>
      ext4_dir_csum fs dir (take t d0) = ext4_dir_csum fs dir (take t y)"
    by (simp add: ext4_dir_csum_verify_def csum tail y(1) x(4))
  also have "\<dots> \<longleftrightarrow> le_bytes 4 (get_le 4 0 leaf :: u32) = le_bytes 4 (0 :: u32)"
    unfolding ext4_dir_csum_def Let_def dt y(3)
    using ext4_crc32c_inj [of "le_bytes 4 (get_le 4 0 leaf :: u32)" "le_bytes 4 (0 :: u32)" _ "[]"] by auto
  finally show ?thesis unfolding leaf inj .
qed

section \<open>The limit of a new node\<close>

lemma block_size_cases:
  assumes "sb_log_block_size sb \<le> 6"
  shows "ext4_sb_get_block_size sb \<in> {1024, 2048, 4096, 8192, 16384, 32768, 65536}"
proof -
  have "unat (sb_log_block_size sb) \<le> 6" using assms by (simp add: word_le_nat_alt)
  then have "unat (sb_log_block_size sb) \<in> set [0..<7]" by simp
  then show ?thesis unfolding ext4_sb_get_block_size_def by (auto simp: upt_rec)
qed

lemma dx_limits:
  assumes "sb_log_block_size sb \<le> 6"
  shows "(ucast (dx_split_limit sb) :: u16) =
      (if ext4_sb_feature_ro_com sb EXT4_FRO_COM_METADATA_CSUM then dx_node_limit sb + 1 else dx_node_limit sb)"
    "8 + 8 * unat (ucast (dx_split_limit sb) :: u16) = unat (ext4_sb_get_block_size sb)"
  using block_size_cases [OF assms] by (auto simp: dx_split_limit_def dx_node_limit_def Let_def)

lemma length_put_bytes_ge: "off \<le> length bs \<Longrightarrow> length bs \<le> length (put_bytes off new bs)"
  by (simp add: put_bytes_def)

text \<open>
  C23: With metadata checksums, a root that is full becomes an index with a child that the code
  itself refuses: the limit stored in the child leaves no room for the checksum record and is one
  more than the limit that \<open>ext4_dir_dx_get_leaf\<close> demands, so that every later lookup in the
  directory finds the index damaged. Without them the two limits are the same.
\<close>

theorem split_root_limit:
  assumes log: "sb_log_block_size (fs_sb fs) \<le> 6"
    and new: "the (blk_buf (dxb_b root)) \<noteq> the (blk_buf b)"
      "fs_data fs b = dx_fake (fs_sb fs) junk" "length junk = unat (ext4_sb_get_block_size (fs_sb fs))"
    and split: "dx_split_root fs ir root b new_iblk = (fs', path)"
  shows "ext4_dir_dx_climit_get_limit (fs_data fs' b) 8 =
    (if ext4_sb_feature_ro_com (fs_sb fs') EXT4_FRO_COM_METADATA_CSUM
     then dx_node_limit (fs_sb fs') + 1 else dx_node_limit (fs_sb fs'))"
proof -
  let ?limit = "ucast (dx_split_limit (fs_sb fs)) :: u16"
  define root_data where "root_data = fs_data fs (dxb_b root)"
  define node where "node = ext4_dir_dx_climit_set_limit 8 ?limit
    (dx_copy root_data 32 0 (unat (ext4_dir_dx_climit_get_count root_data 32)) (fs_data fs b))"
  have bs: "1024 \<le> length junk" using block_size_cases [OF log] new(3) by auto
  have fake: "length (fs_data fs b) = length junk"
    using bs by (simp add: new(2) dx_fake_def memset_def)
  have copied: "length (fs_data fs b) \<le> length (dx_copy root_data 32 0 n (fs_data fs b))" for n
    unfolding dx_copy_def by (rule length_put_bytes_ge) (use fake bs in simp)
  have limit: "ext4_dir_dx_climit_get_limit node 8 = ?limit"
    unfolding node_def ext4_dir_dx_climit_get_limit_def ext4_dir_dx_climit_set_limit_def
    by (rule get_le_put_same) (use copied [of "dx_count root_data 32"] bs fake in simp_all)
  have tail: "dx_tail (fs_sb fs) node 8 = None"
    using dx_limits(2) [OF log] bs new(3) by (simp add: dx_tail_def limit Let_def mult.commute)
  have "take 8 node = take 8 (fs_data fs b)"
    using bs fake by (simp add: node_def ext4_dir_dx_climit_set_limit_def dx_copy_def put_bytes_def)
  then have "en_entry_len (de_at node 0) = en_entry_len (de_at (fs_data fs b) 0)"
    unfolding de_at_def drop_0 by (metis dir_en_of_take order.refl)
  also have "\<dots> = ucast (ext4_sb_get_block_size (fs_sb fs))"
    using bs by (simp add: new(2) dx_fake_def de_at_def ext4_dir_en_of_def memset_def get_le_put_same)
  finally have "en_entry_len (de_at node 0) \<noteq> 12"
    using block_size_cases [OF log] by auto
  then have keep: "ext4_dir_set_dx_csum fs2 ir node = node" if "fs_sb fs2 = fs_sb fs" for fs2 :: "'a ext4_fs"
    using that tail by (simp add: ext4_dir_set_dx_csum_def ext4_dir_dx_get_climit_def Let_def)
  note new(1) [simp] new(1) [symmetric, simp]
  have sb: "fs_sb fs' = fs_sb fs"
    using split by (auto simp: dx_split_root_def Let_def dx_set_csum_def)
  have "fs_data fs' b = node"
    using split by (auto simp: dx_split_root_def Let_def dx_set_csum_def keep node_def [symmetric] root_data_def [symmetric])
  then show ?thesis
    using limit dx_limits(1) [OF log] by (simp add: sb)
qed

section \<open>Witnesses\<close>

text \<open>A node with two entries, and a file system with metadata checksums.\<close>

definition dx_sample_node :: bytes where
  "dx_sample_node =
     replicate 8 0 @ le_bytes 2 (10 :: u16) @ le_bytes 2 (2 :: u16) @ le_bytes 4 (5 :: u32) @
     le_bytes 4 (100 :: u32) @ le_bytes 4 (6 :: u32) @ replicate 64 0"

definition dx_sample_fs :: "raw_file ext4_fs" where
  "dx_sample_fs =
     \<lparr>fs_read_only = False, fs_bdev = sample_held,
      fs_sb = (dir_sb 0)\<lparr>sb_features_read_only := EXT4_FRO_COM_METADATA_CSUM\<rparr>,
      inode_block_limits = [], inode_blocks_per_level = [], last_inode_bg_id = 0\<rparr>"

definition dx_sample_ref :: ext4_inode_ref where
  "dx_sample_ref = \<lparr>ir_block = \<lparr>blk_lb_id = 3, blk_buf = Some 3, blk_data = True\<rparr>, ir_offset = 0, ir_index = 12,
     ir_dirty = False\<rparr>"

lemma dx_sample_reads:
  "ext4_dir_dx_climit_get_count dx_sample_node 8 = 2" "length dx_sample_node = 88"
  "ext4_dir_dx_entry_get_hash dx_sample_node 8 (Suc 0) = 100"
  "ext4_dir_dx_entry_get_block dx_sample_node 8 0 = 5" "ext4_dir_dx_entry_get_block dx_sample_node 8 (Suc 0) = 6"
  by (simp_all add: dx_sample_node_def ext4_dir_dx_climit_get_count_def ext4_dir_dx_entry_get_hash_def
      ext4_dir_dx_entry_get_block_def byte_simps)

lemma dx_sample_insertable: "dx_insertable dx_sample_node 8 1 200"
proof -
  have "ext4_dir_dx_entry_get_hash dx_sample_node 8 i \<le> ext4_dir_dx_entry_get_hash dx_sample_node 8 j"
    if "1 \<le> i" "i \<le> j" "j < 2" for i j
    using that by (cases "i = j") auto
  then have "dx_ok dx_sample_node 8" by (simp add: dx_ok_def dx_sample_reads)
  then show ?thesis by (simp add: dx_insertable_def dx_sample_reads)
qed

lemma dx_sample_pos: "dx_pos dx_sample_node 8 150 = 1" "dx_pos dx_sample_node 8 250 = 1" "dx_pos dx_sample_node 8 50 = 0"
  by (simp_all add: dx_pos_def dx_sample_reads dx_search.simps)

theorem dx_insert_divides_interval_witness:
  "dx_child (dx_insert 8 1 200 7 dx_sample_node) 8 250 = 7 \<and>
   dx_child (dx_insert 8 1 200 7 dx_sample_node) 8 150 = 6 \<and>
   dx_child (dx_insert 8 1 200 7 dx_sample_node) 8 50 = 5"
  using dx_insert_divides_interval [OF dx_sample_insertable, of 7]
  by (simp add: dx_sample_pos) (simp add: dx_child_def dx_sample_pos dx_sample_reads)

lemma dx_sample_fs_sb:
  "ext4_sb_feature_ro_com (fs_sb dx_sample_fs) EXT4_FRO_COM_METADATA_CSUM"
  "ext4_sb_get_block_size (fs_sb dx_sample_fs) = 1024" "sb_log_block_size (fs_sb dx_sample_fs) = 0"
  by (simp_all add: dx_sample_fs_def ext4_sb_feature_ro_com_def EXT4_FRO_COM_METADATA_CSUM_def
      ext4_sb_get_block_size_def dir_sb_def)

theorem dx_leaf_checksum_witness:
  "\<not> ext4_dir_csum_verify dx_sample_fs dx_sample_ref
       (dx_leaf_bytes dx_sample_fs dx_sample_ref (replicate 1024 1))"
proof -
  have "replicate 4 (1 :: u8) = [1, 1, 1, 1]" by (simp add: numeral_eq_Suc)
  then have "get_le 4 0 (replicate 1024 (1 :: u8)) = (0x01010101 :: u32)" by (simp add: get_le_def)
  with dx_leaf_checksum [OF dx_sample_fs_sb(1), of "replicate 1024 1" dx_sample_ref] show ?thesis
    by (simp add: dx_sample_fs_sb)
qed

theorem split_root_limit_witness:
  "\<exists>fs' path.
     dx_split_root
       (fs_store dx_sample_fs \<lparr>blk_lb_id = 4, blk_buf = Some 4, blk_data = True\<rparr>
          (dx_fake (fs_sb dx_sample_fs) (replicate 1024 0)))
       dx_sample_ref \<lparr>dxb_b = \<lparr>blk_lb_id = 3, blk_buf = Some 3, blk_data = True\<rparr>, dxb_entries = 32, dxb_position = 0\<rparr>
       \<lparr>blk_lb_id = 4, blk_buf = Some 4, blk_data = True\<rparr> 9 = (fs', path) \<and>
     ext4_dir_dx_climit_get_limit (fs_data fs' \<lparr>blk_lb_id = 4, blk_buf = Some 4, blk_data = True\<rparr>) 8 \<noteq>
       dx_node_limit (fs_sb fs')"
proof -
  let ?b = "\<lparr>blk_lb_id = 4, blk_buf = Some 4, blk_data = True\<rparr>"
  let ?fs = "fs_store dx_sample_fs ?b (dx_fake (fs_sb dx_sample_fs) (replicate 1024 0))"
  let ?root = "\<lparr>dxb_b = \<lparr>blk_lb_id = 3, blk_buf = Some 3, blk_data = True\<rparr>, dxb_entries = 32, dxb_position = 0\<rparr>"
  obtain fs' path where s: "dx_split_root ?fs dx_sample_ref ?root ?b 9 = (fs', path)" by fastforce
  have sb: "fs_sb ?fs = fs_sb dx_sample_fs" by (simp add: fs_store_def)
  have "fs_sb fs' = fs_sb dx_sample_fs"
    using s by (auto simp: dx_split_root_def Let_def dx_set_csum_def sb)
  then have "ext4_dir_dx_climit_get_limit (fs_data fs' ?b) 8 = dx_node_limit (fs_sb fs') + 1"
    using split_root_limit [OF _ _ _ _ s, of "replicate 1024 0"]
    by (simp add: sb dx_sample_fs_sb fs_store_data)
  with s show ?thesis by auto
qed

end
