(* ===== verification/Dx_Leaf.thy ===== *)
theory Dx_Leaf
  imports Dx_Map
begin

text \<open>
  Splitting a leaf of a directory index: the two blocks that \<open>ext4_dir_dx_split_data\<close> writes hold
  the entries of the old one, divided by hash.
\<close>

section \<open>Loading the entries\<close>

abbreviation rec_live :: "bytes \<Rightarrow> bool" where
  "rec_live c \<equiv> en_inode (ext4_dir_en_of c) \<noteq> 0"

definition name_hash :: "ext4_hash_info \<Rightarrow> bytes \<Rightarrow> u32" where
  "name_hash hinfo name = hi_hash (snd (ext4_dir_dx_hash_string hinfo (length name) name))"

definition dx_item :: "ext4_sblock \<Rightarrow> ext4_hash_info \<Rightarrow> bytes \<Rightarrow> ext4_dx_sort_entry" where
  "dx_item sb hinfo c =
     \<lparr>se_hash = name_hash hinfo (rec_name sb c), se_rec_len = of_nat (rec_used sb c),
      se_dentry = take (rec_used sb c) c\<rparr>"

text \<open>The hash versions that exist; every name of 1 to 255 bytes then has a hash.\<close>

lemma hash_string_ok:
  assumes "hi_hash_version hinfo \<le> 5" "1 \<le> length name" "length name \<le> 255"
  shows "fst (ext4_dir_dx_hash_string hinfo (length name) name) = EOK"
proof -
  have "unat (hi_hash_version hinfo) \<le> 5" using assms(1) by (simp add: word_le_nat_alt)
  moreover define v where v: "v = int (unat (hi_hash_version hinfo))"
  ultimately have "0 \<le> v" "v \<le> 5" by linarith+
  then have "v = 0 \<or> v = 1 \<or> v = 2 \<or> v = 3 \<or> v = 4 \<or> v = 5" by linarith
  then have "htree_switch name (int (length name)) hash (int (unat (hi_hash_version hinfo))) \<noteq> None" for hash
    unfolding v [symmetric] by (auto simp: htree_switch_def htree_versions Let_def)
  then show ?thesis
    using assms(2,3)
    by (auto simp: ext4_dir_dx_hash_string_def ext2_htree_hash_def Let_def split: option.splits prod.splits)
qed

lemma hash_string_shape: "\<exists>h m. snd (ext4_dir_dx_hash_string hinfo len name) = hinfo\<lparr>hi_hash := h, hi_minor_hash := m\<rparr>"
proof -
  have "\<exists>h m. hinfo = hinfo\<lparr>hi_hash := h, hi_minor_hash := m\<rparr>"
    by (rule exI [of _ "hi_hash hinfo"], rule exI [of _ "hi_minor_hash hinfo"]) simp
  then show ?thesis unfolding ext4_dir_dx_hash_string_def by (auto split: prod.splits option.splits)
qed

lemma hash_string_state:
  assumes "fst (ext4_dir_dx_hash_string hinfo (length name) name) = EOK"
  shows "ext4_dir_dx_hash_string (hinfo\<lparr>hi_hash := h, hi_minor_hash := m\<rparr>) (length name) name =
    ext4_dir_dx_hash_string hinfo (length name) name"
  using assms by (auto simp: ext4_dir_dx_hash_string_def ext2_htree_hash_def Let_def split: option.splits prod.splits)

text \<open>
  A record in use of a leaf that can be split: the superblock says that names have at most 255
  bytes, and the name is not empty.
\<close>

definition rec_named :: "ext4_sblock \<Rightarrow> bytes \<Rightarrow> bool" where
  "rec_named sb c \<longleftrightarrow> rec_ok sb c \<and> (rec_live c \<longrightarrow> en_name_len (ext4_dir_en_of c) \<noteq> 0)"

lemma dx_rec_len_round:
  assumes "unat w \<le> 255"
  shows "unat (dx_rec_len w) = 8 + round4 (unat w)"
proof -
  define r where "r = 8 + (ucast w :: u32)"
  have r: "unat r = 8 + unat w" using assms by (simp add: r_def unat_word_ariths(1) unat_ucast_up_eq)
  have m: "unat (r mod 4) = (8 + unat w) mod 4" by (simp only: unat_mod r unat_numeral) simp
  show ?thesis
  proof (cases "(8 + unat w) mod 4 = 0")
    case True
    with m have "r mod 4 = 0" by (simp only: unat_eq_zero)
    then have "dx_rec_len w = r" by (simp add: dx_rec_len_def r_def)
    moreover have "8 + unat w = 8 + round4 (unat w)" using True unfolding round4_def by presburger
    ultimately show ?thesis using r by simp
  next
    case False
    with m have "r mod 4 \<noteq> 0" by (metis unat_0)
    then have d: "dx_rec_len w = r + (4 - r mod 4)" by (simp add: dx_rec_len_def r_def)
    have "r mod 4 \<le> 4" by (simp add: word_le_nat_alt m)
    then have "unat (4 - r mod 4) = 4 - (8 + unat w) mod 4" by (simp add: unat_minus m)
    moreover have "8 + unat w + (4 - (8 + unat w) mod 4) = 8 + round4 (unat w)"
      using False unfolding round4_def by presburger
    moreover have "8 + round4 (unat w) < 2 ^ 32" using assms unfolding round4_def by simp
    ultimately show ?thesis by (simp add: d unat_word_ariths(1) r)
  qed
qed

lemma rec_named_live:
  assumes new: "sb_rev_level sb > 0" and c: "rec_named sb c" "rec_live c"
  defines "n \<equiv> unat (en_name_len (ext4_dir_en_of c))"
  shows "unat (ext4_dir_en_get_name_len sb (ext4_dir_en_of c)) = n" "1 \<le> n" "n \<le> 255"
    "rec_used sb c = 8 + round4 n" "rec_used sb c \<le> length c" "length (rec_name sb c) = n"
    "unat (dx_rec_len (ext4_dir_en_get_name_len sb (ext4_dir_en_of c))) = rec_used sb c"
    "dx_rec_len (ext4_dir_en_get_name_len sb (ext4_dir_en_of c)) = of_nat (rec_used sb c)"
    "12 \<le> rec_used sb c" "rec_used sb c \<le> 264" "rec_used sb c mod 4 = 0"
proof -
  have "\<not> old_rev sb" using new by (auto simp: old_rev_def)
  then have len: "ext4_dir_en_get_name_len sb (ext4_dir_en_of c) = ucast (en_name_len (ext4_dir_en_of c))"
    by (auto simp: ext4_dir_en_get_name_len_def old_rev_def Let_def)
  then show 1: "unat (ext4_dir_en_get_name_len sb (ext4_dir_en_of c)) = n"
    by (simp add: n_def unat_ucast_up_eq)
  show n: "1 \<le> n" "n \<le> 255"
    using c unsigned_less [of "en_name_len (ext4_dir_en_of c)", where 'a = nat]
    by (auto simp: rec_named_def n_def Suc_le_eq unat_gt_0)
  show used: "rec_used sb c = 8 + round4 n" by (simp add: rec_used_def 1)
  show fit: "rec_used sb c \<le> length c" using c by (auto simp: rec_named_def rec_ok_def)
  show "length (rec_name sb c) = n"
    using fit rec_used_name [of sb c] by (simp add: rec_name_def 1)
  show "12 \<le> rec_used sb c" "rec_used sb c \<le> 264" "rec_used sb c mod 4 = 0"
    using n unfolding used round4_def by presburger+
  show u: "unat (dx_rec_len (ext4_dir_en_get_name_len sb (ext4_dir_en_of c))) = rec_used sb c"
    using n by (simp add: dx_rec_len_round 1 used)
  have "of_nat (unat (dx_rec_len (ext4_dir_en_get_name_len sb (ext4_dir_en_of c)))) = (of_nat (rec_used sb c) :: u32)"
    unfolding u ..
  then show "dx_rec_len (ext4_dir_en_get_name_len sb (ext4_dir_en_of c)) = of_nat (rec_used sb c)"
    by simp
qed

lemma dx_load_spec:
  assumes new: "sb_rev_level sb > 0" and v: "hi_hash_version hinfo \<le> 5"
    and cs: "\<forall>c \<in> set cs. rec_named sb c"
    and len: "length pre + length (concat cs) = unat (ext4_sb_get_block_size sb)"
    and acc: "unat real \<le> length pre" "12 * length acc \<le> unat real"
  shows "dx_load sb (hinfo\<lparr>hi_hash := h, hi_minor_hash := m\<rparr>) (pre @ concat cs) (length pre) real acc =
    Some (EOK, acc @ map (dx_item sb hinfo) (filter rec_live cs))"
  using cs len acc
proof (induction cs arbitrary: pre real acc h m)
  case Nil
  then show ?case by (subst dx_load.simps) simp
next
  case (Cons c cs)
  let ?bs = "unat (ext4_sb_get_block_size sb)"
  have c: "rec_named sb c" and cs: "\<forall>c \<in> set cs. rec_named sb c" using Cons.prems(1) by simp_all
  have rc: "8 \<le> length c" "length c = unat (en_entry_len (ext4_dir_en_of c))"
    using c by (simp_all add: rec_named_def rec_ok_def)
  have at: "de_at (pre @ c @ concat cs) (length pre) = ext4_dir_en_of c" by (rule de_at_mid [OF rc(1)])
  have lt: "length pre < ?bs" using Cons.prems(2) rc(1) by simp
  have IH: "dx_load sb (hinfo\<lparr>hi_hash := h', hi_minor_hash := m'\<rparr>) (pre @ c @ concat cs) (length pre + length c) real' acc' =
      Some (EOK, acc' @ map (dx_item sb hinfo) (filter rec_live cs))"
    if "unat real' \<le> length pre + length c" "12 * length acc' \<le> unat real'" for h' m' real' acc'
    using Cons.IH [OF cs, of "pre @ c" real' acc' m' h'] that Cons.prems(2) by simp
  show ?case
  proof (cases "rec_live c")
    case False
    have "dx_load sb (hinfo\<lparr>hi_hash := h, hi_minor_hash := m\<rparr>) (pre @ c @ concat cs) (length pre) real acc =
        dx_load sb (hinfo\<lparr>hi_hash := h, hi_minor_hash := m\<rparr>) (pre @ c @ concat cs) (length pre + length c) real acc"
      using lt False by (subst dx_load.simps) (simp add: Let_def at rc(2))
    also have "\<dots> = Some (EOK, acc @ map (dx_item sb hinfo) (filter rec_live cs))"
      by (rule IH) (use Cons.prems(3,4) in simp_all)
    finally show ?thesis using False by simp
  next
    case True
    note live = rec_named_live [OF new c True]
    have nz: "en_name_len (ext4_dir_en_of c) \<noteq> 0" using c True by (simp add: rec_named_def)
    have name: "de_name (pre @ c @ concat cs) (length pre) (unat (ext4_dir_en_get_name_len sb (ext4_dir_en_of c))) = rec_name sb c"
      using live(5) rec_used_name [of sb c] by (simp add: de_name_mid rec_name_def)
    have nl: "unat (ext4_dir_en_get_name_len sb (ext4_dir_en_of c)) = length (rec_name sb c)"
      using live(1,6) by simp
    obtain hi where hs: "ext4_dir_dx_hash_string hinfo (length (rec_name sb c)) (rec_name sb c) = (EOK, hi)"
      using hash_string_ok [OF v, of "rec_name sb c"] live(2,3,6) by (metis prod.collapse)
    obtain h' m' where hi: "hi = hinfo\<lparr>hi_hash := h', hi_minor_hash := m'\<rparr>"
      using hash_string_shape [of hinfo "length (rec_name sb c)" "rec_name sb c"] hs by auto
    have hs': "ext4_dir_dx_hash_string (hinfo\<lparr>hi_hash := h, hi_minor_hash := m\<rparr>) (length (rec_name sb c)) (rec_name sb c) = (EOK, hi)"
      using hash_string_state [of hinfo "rec_name sb c" m h] hs by simp
    let ?used = "rec_used sb c"
    have item: "dx_item sb hinfo c = \<lparr>se_hash = hi_hash hi, se_rec_len = of_nat ?used, se_dentry = take ?used c\<rparr>"
      by (simp add: dx_item_def name_hash_def hs)
    have bound: "length pre + ?used \<le> ?bs" using live(5) Cons.prems(2) by simp
    have sum: "unat (real + of_nat ?used) = unat real + ?used"
    proof -
      have "?bs < 2 ^ 32" using unsigned_less [of "ext4_sb_get_block_size sb", where 'a = nat] by simp
      then have "unat real + ?used < 2 ^ 32" using bound Cons.prems(3) by linarith
      moreover have "unat (of_nat ?used :: u32) = ?used" using live(10) by (simp add: unat_of_nat)
      ultimately show ?thesis by (simp add: unat_word_ariths(1))
    qed
    have u: "unat (of_nat ?used :: u32) = ?used" using live(10) by (simp add: unat_of_nat)
    have room: "length acc < ?bs div 12" using Cons.prems(3,4) bound live(9) by linarith
    have "dx_load sb (hinfo\<lparr>hi_hash := h, hi_minor_hash := m\<rparr>) (pre @ c @ concat cs) (length pre) real acc =
        dx_load sb hi (pre @ c @ concat cs) (length pre + length c) (real + of_nat ?used) (acc @ [dx_item sb hinfo c])"
      using lt True nz bound room Cons.prems(3) live(5)
      by (subst dx_load.simps) (simp add: Let_def at nl name [unfolded nl] hs' live(8) u item flip: rc(2))
    also have "\<dots> = Some (EOK, (acc @ [dx_item sb hinfo c]) @ map (dx_item sb hinfo) (filter rec_live cs))"
      unfolding hi by (rule IH) (use sum Cons.prems(3,4) live(5,9) in simp_all)
    finally show ?thesis using True by simp
  qed
qed

section \<open>Choosing the half\<close>

abbreviation se_size :: "ext4_dx_sort_entry \<Rightarrow> nat" where
  "se_size e \<equiv> unat (se_rec_len e)"

lemma dx_half_spec:
  assumes "unat cur + sum_list (map se_size es) < 2 ^ 32"
  shows "if unat block_size div 2 < unat cur + sum_list (map se_size es) \<and> es \<noteq> []
    then \<exists>k < length es. dx_half block_size cur i es = (se_hash (es ! k), i + k) \<and>
           (k = 0 \<longrightarrow> unat block_size div 2 < unat cur + se_size (hd es))
    else dx_half block_size cur i es = (0, 0)"
  using assms
proof (induction es arbitrary: cur i)
  case Nil
  then show ?case by simp
next
  case (Cons e es)
  have u: "unat (cur + se_rec_len e) = unat cur + se_size e"
    using Cons.prems by (simp add: unat_word_ariths(1))
  have gt: "cur + se_rec_len e > block_size div 2 \<longleftrightarrow> unat block_size div 2 < unat cur + se_size e"
    by (simp add: word_less_nat_alt u unat_div)
  have pre: "unat (cur + se_rec_len e) + sum_list (map se_size es) < 2 ^ 32"
    using Cons.prems by (simp add: u)
  show ?case
  proof (cases "unat block_size div 2 < unat cur + se_size e")
    case True
    then show ?thesis by (auto simp: gt intro: exI [of _ 0])
  next
    case False
    note IH = Cons.IH [OF pre, of "i + 1"]
    show ?thesis
    proof (cases "unat block_size div 2 < unat cur + sum_list (map se_size (e # es))")
      case big: True
      with False have "es \<noteq> []" by (cases es) auto
      with IH big obtain k where "k < length es"
        "dx_half block_size (cur + se_rec_len e) (i + 1) es = (se_hash (es ! k), i + 1 + k)"
        by (auto simp: u add.assoc)
      then have "Suc k < length (e # es)" "dx_half block_size cur i (e # es) = (se_hash ((e # es) ! Suc k), i + Suc k)"
        using False by (simp_all add: gt)
      then show ?thesis using big by (metis Zero_not_Suc list.distinct(1))
    next
      case small: False
      with IH False show ?thesis by (simp add: gt u add.assoc)
    qed
  qed
qed

section \<open>Storing the entries\<close>

definition relen :: "nat \<Rightarrow> bytes \<Rightarrow> bytes" where
  "relen n d = de_put 0 ((de_at d 0)\<lparr>en_entry_len := of_nat n\<rparr>) d"

fun packed :: "ext4_dx_sort_entry list \<Rightarrow> bytes \<Rightarrow> bytes list" where
  "packed [] rest = []"
| "packed (e # es) rest =
     (if es = [] then [relen (length rest) (se_dentry e) @ drop (se_size e) rest]
      else relen (se_size e) (se_dentry e) # packed es (drop (se_size e) rest))"

lemma relen_simps:
  assumes "8 \<le> length d"
  shows "length (relen n d) = length d" "drop 8 (relen n d) = drop 8 d"
    "ext4_dir_en_of (relen n d) = (ext4_dir_en_of d)\<lparr>en_entry_len := of_nat n\<rparr>"
  using assms by (simp_all add: relen_def de_put_def de_at_def put_bytes_def dir_en_of_bytes)

lemma relen_mid:
  assumes "8 \<le> length d"
  shows "de_put (length pre) ((de_at (pre @ d @ post) (length pre))\<lparr>en_entry_len := of_nat n\<rparr>) (pre @ d @ post) =
    pre @ relen n d @ post"
proof -
  have "de_at d 0 = ext4_dir_en_of d" by (simp add: de_at_def)
  then show ?thesis using assms by (simp add: de_at_mid relen_def de_put_def put_bytes_mid0)
qed

definition item_ok :: "ext4_dx_sort_entry \<Rightarrow> bool" where
  "item_ok e \<longleftrightarrow> length (se_dentry e) = se_size e \<and> 12 \<le> se_size e \<and> se_size e mod 4 = 0"

lemma dx_pack_spec:
  assumes "\<forall>e \<in> set es. item_ok e" "unat off = length pre" "length pre + length rest = unat stop"
    "sum_list (map se_size es) \<le> length rest" "es \<noteq> []"
  shows "dx_pack stop off es (pre @ rest @ post) = pre @ concat (packed es rest) @ post"
  using assms
proof (induction es arbitrary: off pre rest)
  case Nil
  then show ?case by simp
next
  case (Cons e es)
  have e: "length (se_dentry e) = se_size e" "12 \<le> se_size e" "8 \<le> length (se_dentry e)"
    using Cons.prems(1) by (auto simp: item_ok_def)
  have fit: "se_size e \<le> length rest" using Cons.prems(4) by simp
  have "put_bytes (length pre) (se_dentry e) (pre @ rest @ post) = pre @ put_bytes 0 (se_dentry e) rest @ post"
    by (rule put_bytes_mid0) (use e fit in simp)
  then have put: "put_bytes (unat off) (se_dentry e) (pre @ rest @ post) = pre @ se_dentry e @ drop (se_size e) rest @ post"
    by (simp add: Cons.prems(2) put_bytes_def e)
  show ?case
  proof (cases "es = []")
    case True
    have "off \<le> stop" using Cons.prems(2,3) by (simp add: word_le_nat_alt)
    then have "unat (stop - off) = length rest" using Cons.prems(2,3) by (simp add: unat_minus)
    moreover have "(ucast (stop - off) :: u16) = of_nat (unat (stop - off))" by simp
    ultimately have n: "(ucast (stop - off) :: u16) = of_nat (length rest)" by simp
    show ?thesis
      using relen_mid [OF e(3), where pre = pre and post = "drop (se_size e) rest @ post" and n = "length rest"]
      by (simp add: put [unfolded Cons.prems(2)] True n Cons.prems(2) Let_def)
  next
    case False
    have step: "dx_pack stop off (e # es) (pre @ rest @ post) =
        dx_pack stop (off + se_rec_len e) es ((pre @ relen (se_size e) (se_dentry e)) @ drop (se_size e) rest @ post)"
      using relen_mid [OF e(3), where pre = pre and post = "drop (se_size e) rest @ post" and n = "se_size e"]
      by (simp add: put [unfolded Cons.prems(2)] False Cons.prems(2) Let_def)
    have "unat off + se_size e < 2 ^ 32"
      using fit Cons.prems(2,3) unsigned_less [of stop, where 'a = nat] by simp
    then have off: "unat (off + se_rec_len e) = length (pre @ relen (se_size e) (se_dentry e))"
      using Cons.prems(2) by (simp add: unat_word_ariths(1) relen_simps [OF e(3)] e)
    have "dx_pack stop (off + se_rec_len e) es ((pre @ relen (se_size e) (se_dentry e)) @ drop (se_size e) rest @ post) =
        (pre @ relen (se_size e) (se_dentry e)) @ concat (packed es (drop (se_size e) rest)) @ post"
      by (rule Cons.IH)
        (use Cons.prems off False fit in \<open>auto simp: relen_simps [OF e(3)] e\<close>)
    then show ?thesis using step False by simp
  qed
qed

text \<open>What the records of a packed half are.\<close>

definition item_entry :: "ext4_sblock \<Rightarrow> ext4_dx_sort_entry \<Rightarrow> bytes \<times> u32" where
  "item_entry sb e = (rec_name sb (se_dentry e), en_inode (ext4_dir_en_of (se_dentry e)))"

definition item_rec :: "ext4_sblock \<Rightarrow> ext4_dx_sort_entry \<Rightarrow> bool" where
  "item_rec sb e \<longleftrightarrow> item_ok e \<and> rec_live (se_dentry e) \<and> rec_used sb (se_dentry e) = se_size e"

lemma name_len_relen:
  "ext4_dir_en_get_name_len sb (de\<lparr>en_entry_len := n\<rparr>) = ext4_dir_en_get_name_len sb de"
  by (simp add: ext4_dir_en_get_name_len_def Let_def)

lemma relen_record:
  assumes e: "item_rec sb e" and n: "n = se_size e + length x" "n < 65536" "length x mod 4 = 0"
  shows "rec_ok sb (relen n (se_dentry e) @ x)"
    "(rec_name sb (relen n (se_dentry e) @ x), en_inode (ext4_dir_en_of (relen n (se_dentry e) @ x))) = item_entry sb e"
    "rec_live (relen n (se_dentry e) @ x)"
proof -
  let ?d = "se_dentry e"
  have d: "length ?d = se_size e" "8 \<le> length ?d" "se_size e mod 4 = 0" "rec_live ?d" "rec_used sb ?d = se_size e"
    using e by (auto simp: item_rec_def item_ok_def)
  have en: "ext4_dir_en_of (relen n ?d @ x) = (ext4_dir_en_of ?d)\<lparr>en_entry_len := of_nat n\<rparr>"
    using d(2) by (simp add: dir_en_of_prefix relen_simps)
  have un: "unat (of_nat n :: u16) = n" using n(2) by (simp add: unat_of_nat)
  have used: "rec_used sb (relen n ?d @ x) = se_size e"
    by (simp add: rec_used_def en name_len_relen d(5) [unfolded rec_used_def])
  show "rec_ok sb (relen n ?d @ x)"
  proof -
    have "length (relen n ?d @ x) = n" "se_size e \<le> n" "8 \<le> n" using n(1) d by (simp_all add: relen_simps)
    moreover have "n mod 4 = 0" using n(1,3) d(3) by presburger
    moreover have "unat (en_entry_len (ext4_dir_en_of (relen n ?d @ x))) = n" by (simp add: en un)
    ultimately show ?thesis unfolding rec_ok_def used by simp
  qed
  show "rec_live (relen n ?d @ x)" using d(4) by (simp add: en)
  have "8 + unat (ext4_dir_en_get_name_len sb (ext4_dir_en_of ?d)) \<le> length ?d"
    using rec_used_name [of sb ?d] d(1,5) by simp
  then have "rec_name sb (relen n ?d @ x) = rec_name sb ?d"
    using d(2) by (simp add: rec_name_def en name_len_relen relen_simps)
  then show "(rec_name sb (relen n ?d @ x), en_inode (ext4_dir_en_of (relen n ?d @ x))) = item_entry sb e"
    by (simp add: item_entry_def en)
qed

lemma packed_spec:
  assumes "\<forall>e \<in> set es. item_rec sb e" "sum_list (map se_size es) \<le> length rest" "length rest < 65536"
    "length rest mod 4 = 0" "es \<noteq> []"
  shows "(\<forall>c \<in> set (packed es rest). rec_ok sb c) \<and> length (concat (packed es rest)) = length rest \<and>
    entries sb (packed es rest) = map (item_entry sb) es"
  using assms
proof (induction es arbitrary: rest)
  case Nil
  then show ?case by simp
next
  case (Cons e es)
  have e: "item_rec sb e" "se_size e \<le> length rest" "se_size e mod 4 = 0" "length (se_dentry e) = se_size e"
    "8 \<le> length (se_dentry e)"
    using Cons.prems by (auto simp: item_rec_def item_ok_def)
  have m: "length (drop (se_size e) rest) mod 4 = 0"
    using e(2,3) Cons.prems(4) by (simp add: mod_eq_0_iff_dvd dvd_diff_nat)
  show ?case
  proof (cases "es = []")
    case True
    have "length rest = se_size e + length (drop (se_size e) rest)" using e(2) by simp
    note r = relen_record [OF e(1) this Cons.prems(3) m]
    show ?thesis
      using r e by (simp add: True entries_def relen_simps)
  next
    case False
    have "se_size e < 65536" using e(2) Cons.prems(3) by simp
    note r = relen_record [OF e(1), of "se_size e" "[]", simplified, OF this]
    have "(\<forall>c \<in> set (packed es (drop (se_size e) rest)). rec_ok sb c) \<and>
        length (concat (packed es (drop (se_size e) rest))) = length (drop (se_size e) rest) \<and>
        entries sb (packed es (drop (se_size e) rest)) = map (item_entry sb) es"
      by (rule Cons.IH) (use Cons.prems m False in auto)
    then show ?thesis
      using r e False by (auto simp: entries_simps relen_simps)
  qed
qed

section \<open>The split\<close>

lemma dx_item_rec:
  assumes "sb_rev_level sb > 0" "rec_named sb c" "rec_live c"
  shows "item_rec sb (dx_item sb hinfo c)" "se_size (dx_item sb hinfo c) = rec_used sb c"
    "item_entry sb (dx_item sb hinfo c) = (rec_name sb c, en_inode (ext4_dir_en_of c))"
    "se_hash (dx_item sb hinfo c) = name_hash hinfo (rec_name sb (se_dentry (dx_item sb hinfo c)))"
proof -
  note live = rec_named_live [OF assms]
  let ?d = "take (rec_used sb c) c"
  have d: "length ?d = rec_used sb c" "8 \<le> rec_used sb c" using live(5,9) by simp_all
  have en: "ext4_dir_en_of ?d = ext4_dir_en_of c" using d(2) by (rule dir_en_of_take)
  have name: "rec_name sb ?d = rec_name sb c"
    using rec_used_name [of sb c] d(2) by (simp add: rec_name_def en drop_take min_def)
  have used: "rec_used sb ?d = rec_used sb c"
    unfolding rec_used_def [of sb ?d] en unfolding rec_used_def ..
  show u: "se_size (dx_item sb hinfo c) = rec_used sb c"
    using live(10) by (simp add: dx_item_def unat_of_nat)
  show "item_rec sb (dx_item sb hinfo c)"
    using u live(9,11) d assms(3) used by (simp add: item_rec_def item_ok_def) (simp add: dx_item_def en used)
  show "item_entry sb (dx_item sb hinfo c) = (rec_name sb c, en_inode (ext4_dir_en_of c))"
    by (simp add: item_entry_def dx_item_def en name)
  show "se_hash (dx_item sb hinfo c) = name_hash hinfo (rec_name sb (se_dentry (dx_item sb hinfo c)))"
    by (simp add: dx_item_def name)
qed

text \<open>A library sort: a permutation in the order of the comparison function, which is that of the hashes.\<close>

definition is_qsort :: "(ext4_dx_sort_entry list \<Rightarrow> ext4_dx_sort_entry list) \<Rightarrow> bool" where
  "is_qsort qsort \<longleftrightarrow> (\<forall>es. mset (qsort es) = mset es \<and>
     sorted_wrt (\<lambda>a b. ext4_dir_dx_entry_comparator a b \<le> 0) (qsort es))"

lemma is_qsort_eq:
  "is_qsort qsort \<longleftrightarrow> (\<forall>es. mset (qsort es) = mset es \<and> sorted (map se_hash (qsort es)))"
proof -
  have "(\<lambda>a b. ext4_dir_dx_entry_comparator a b \<le> 0) = (\<lambda>a b. se_hash a \<le> se_hash b)"
    by (auto simp: ext4_dir_dx_entry_comparator_def fun_eq_iff)
  then show ?thesis by (simp add: is_qsort_def sorted_wrt_map)
qed

text \<open>
  C21: Splitting a leaf whose entries take more than half a block. The entries are all loaded, the
  sorted array is cut at a place that is not its start, and the two blocks that are written are
  blocks of records up to \<open>stop\<close>, unchanged from there on; together they hold the entries of the
  old leaf, each once, those with a smaller hash than the entry at the cut in the old block and
  those with a greater one in the new block.
\<close>

theorem split_leaf_divides:
  assumes sb: "sb_rev_level sb > 0" "sb_log_block_size sb \<le> 6" "hi_hash_version hinfo \<le> 5"
    and cs: "\<forall>c \<in> set cs. rec_named sb c" "length (concat cs) = unat (ext4_sb_get_block_size sb)"
    and qsort: "is_qsort qsort"
    and stop: "unat stop \<le> length (concat cs)" "unat stop < 65536" "unat stop mod 4 = 0"
      "sum_list (map (rec_used sb) (filter rec_live cs)) \<le> unat stop"
    and half: "length (concat cs) div 2 < sum_list (map (rec_used sb) (filter rec_live cs))"
    and new: "length new = length (concat cs)"
  shows "\<exists>es nh mid cs1 cs2.
    dx_load sb hinfo (concat cs) 0 0 [] = Some (EOK, es) \<and>
    dx_half (ext4_sb_get_block_size sb) 0 0 (qsort es) = (nh, mid) \<and> mid \<noteq> 0 \<and>
    dx_pack stop 0 (take mid (qsort es)) (concat cs) = concat cs1 @ drop (unat stop) (concat cs) \<and>
    dx_pack stop 0 (drop mid (qsort es)) new = concat cs2 @ drop (unat stop) new \<and>
    (\<forall>c \<in> set cs1 \<union> set cs2. rec_ok sb c) \<and>
    length (concat cs1) = unat stop \<and> length (concat cs2) = unat stop \<and>
    mset (entries sb cs1) + mset (entries sb cs2) = mset (entries sb cs) \<and>
    (\<forall>(n, i) \<in> set (entries sb cs1). name_hash hinfo n \<le> nh) \<and>
    (\<forall>(n, i) \<in> set (entries sb cs2). nh \<le> name_hash hinfo n)"
proof -
  let ?bs = "ext4_sb_get_block_size sb"
  define es where "es = map (dx_item sb hinfo) (filter rec_live cs)"
  have load: "dx_load sb hinfo (concat cs) 0 0 [] = Some (EOK, es)"
    using dx_load_spec [OF sb(1,3) cs(1), of "[]" 0 "[]" "hi_minor_hash hinfo" "hi_hash hinfo"] cs(2)
    by (simp add: es_def)
  have items: "item_rec sb e \<and> se_hash e = name_hash hinfo (rec_name sb (se_dentry e)) \<and> se_size e \<le> 264"
    if "e \<in> set es" for e
  proof -
    from that obtain c where c: "c \<in> set cs" "rec_live c" "e = dx_item sb hinfo c" by (auto simp: es_def)
    with cs(1) have n: "rec_named sb c" by blast
    show ?thesis
      using dx_item_rec [OF sb(1) n c(2), of hinfo] rec_named_live(10) [OF sb(1) n c(2)] by (simp add: c(3))
  qed
  have sizes: "map se_size es = map (rec_used sb) (filter rec_live cs)"
    unfolding es_def map_map using cs(1) by (intro map_cong refl) (auto simp: dx_item_rec(2) [OF sb(1)])
  have ents: "map (item_entry sb) es = entries sb cs"
    unfolding es_def entries_def map_map using cs(1) by (intro map_cong refl) (auto simp: dx_item_rec(3) [OF sb(1)])
  have perm: "mset (qsort es) = mset es" and srt: "sorted (map se_hash (qsort es))"
    using qsort by (auto simp: is_qsort_eq)
  have set_q: "set (qsort es) = set es" using perm by (rule mset_eq_setD)
  have sum_q: "sum_list (map se_size (qsort es)) = sum_list (map se_size es)"
    using perm by (metis mset_map sum_mset_sum_list)
  let ?total = "sum_list (map se_size (qsort es))"
  have total: "unat ?bs div 2 < ?total" "?total \<le> unat stop" using half stop(4) cs(2) sizes sum_q by simp_all
  have bs: "1024 \<le> unat ?bs" using block_size_cases [OF sb(2)] by auto
  have ne: "qsort es \<noteq> []" using total bs by (cases "qsort es") auto
  have hd_small: "\<not> unat ?bs div 2 < unat (0 :: u32) + se_size (hd (qsort es))"
  proof -
    have "hd (qsort es) \<in> set es" using ne set_q by (metis hd_in_set)
    then have "se_size (hd (qsort es)) \<le> 264" using items by blast
    moreover have "1024 div 2 \<le> unat ?bs div 2" using bs by (rule div_le_mono)
    ultimately show ?thesis by simp
  qed
  have "unat (0 :: u32) + ?total < 2 ^ 32" using total(2) stop(2) by simp
  from dx_half_spec [OF this, of ?bs 0] total(1) ne hd_small
  obtain mid where mid: "mid < length (qsort es)" "dx_half ?bs 0 0 (qsort es) = (se_hash (qsort es ! mid), mid)" "mid \<noteq> 0"
    by (auto simp del: add_0)
  define lo hi where "lo = take mid (qsort es)" and "hi = drop mid (qsort es)"
  have split: "qsort es = lo @ hi" "lo \<noteq> []" "hi \<noteq> []" using mid(1,3) by (auto simp: lo_def hi_def)
  have fit: "sum_list (map se_size lo) \<le> unat stop" "sum_list (map se_size hi) \<le> unat stop"
    using total(2) unfolding split(1) by simp_all
  have recs: "\<forall>e \<in> set lo. item_rec sb e" "\<forall>e \<in> set hi. item_rec sb e"
    using items set_q unfolding split(1) by auto
  have ok: "\<forall>e \<in> set lo. item_ok e" "\<forall>e \<in> set hi. item_ok e" using recs by (auto simp: item_rec_def)
  have pack: "dx_pack stop 0 part data = concat (packed part (take (unat stop) data)) @ drop (unat stop) data \<and>
      (\<forall>c \<in> set (packed part (take (unat stop) data)). rec_ok sb c) \<and>
      length (concat (packed part (take (unat stop) data))) = unat stop \<and>
      entries sb (packed part (take (unat stop) data)) = map (item_entry sb) part"
    if "\<forall>e \<in> set part. item_rec sb e" "\<forall>e \<in> set part. item_ok e" "sum_list (map se_size part) \<le> unat stop"
      "part \<noteq> []" "unat stop \<le> length data" for part data
    using that stop
      dx_pack_spec [OF that(2), of 0 "[]" "take (unat stop) data" stop "drop (unat stop) data"]
      packed_spec [OF that(1), of "take (unat stop) data"]
    by simp
  note lo = pack [OF recs(1) ok(1) fit(1) split(2), of "concat cs"]
  note hi = pack [OF recs(2) ok(2) fit(2) split(3), of new]
  have hash: "name_hash hinfo n = se_hash e" if "e \<in> set (qsort es)" "item_entry sb e = (n, i)" for e n i
    using that items set_q by (auto simp: item_entry_def)
  have below: "name_hash hinfo n \<le> se_hash (qsort es ! mid)" if n: "(n, i) \<in> set (map (item_entry sb) lo)" for n i
  proof -
    obtain k where k: "k < mid" "item_entry sb (qsort es ! k) = (n, i)"
      using n mid(1) by (auto simp: lo_def in_set_conv_nth)
    have "map se_hash (qsort es) ! k \<le> map se_hash (qsort es) ! mid"
      by (rule sorted_nth_mono [OF srt]) (use k mid(1) in simp_all)
    then show ?thesis using hash [of "qsort es ! k" n i] k mid(1) by simp
  qed
  have above: "se_hash (qsort es ! mid) \<le> name_hash hinfo n" if n: "(n, i) \<in> set (map (item_entry sb) hi)" for n i
  proof -
    obtain j where j: "j < length hi" "item_entry sb (hi ! j) = (n, i)"
      using n by (auto simp: in_set_conv_nth)
    then obtain k where k: "mid + k < length (qsort es)" "item_entry sb (qsort es ! (mid + k)) = (n, i)"
      by (simp add: hi_def) (metis add.commute less_diff_conv)
    have "map se_hash (qsort es) ! mid \<le> map se_hash (qsort es) ! (mid + k)"
      by (rule sorted_nth_mono [OF srt]) (use k in simp_all)
    then show ?thesis using hash [of "qsort es ! (mid + k)" n i] k mid(1) by simp
  qed
  have "mset (map (item_entry sb) lo) + mset (map (item_entry sb) hi) = mset (entries sb cs)"
    using perm unfolding split(1) ents [symmetric] by (metis mset_append mset_map image_mset_union)
  then show ?thesis
    using load mid lo hi stop(1) new below above
    by (intro exI [of _ es] exI [of _ "se_hash (qsort es ! mid)"] exI [of _ mid]
        exI [of _ "packed lo (take (unat stop) (concat cs))"] exI [of _ "packed hi (take (unat stop) new)"])
      (auto simp: lo_def [symmetric] hi_def [symmetric] simp del: set_map)
qed

section \<open>Witness\<close>

text \<open>A full leaf with three long names.\<close>

definition leaf_sample :: "bytes list" where
  "leaf_sample =
     [dot_rec 208 11 (replicate 200 0x61) 0, dot_rec 208 12 (replicate 200 0x62) 0,
      dot_rec 608 13 (replicate 200 0x63) 400]"

definition leaf_hinfo :: ext4_hash_info where
  "leaf_hinfo = \<lparr>hi_hash = 0, hi_minor_hash = 0, hi_hash_version = 1, hi_seed = [1, 2, 3, 4]\<rparr>"

lemma leaf_sample_used:
  "rec_used (dir_sb 0) (dot_rec len inode (replicate 200 x) pad) = 208"
  by (simp add: rec_used_def dot_rec_fields ext4_dir_en_get_name_len_def dir_sb_fields round4_def Let_def)

lemma leaf_sample_named: "\<forall>c \<in> set leaf_sample. rec_named (dir_sb 0) c"
  by (simp add: leaf_sample_def rec_named_def rec_ok_def leaf_sample_used dot_rec_fields)

theorem split_leaf_divides_witness:
  "\<exists>es nh mid cs1 cs2.
    dx_load (dir_sb 0) leaf_hinfo (concat leaf_sample) 0 0 [] = Some (EOK, es) \<and> mid \<noteq> 0 \<and>
    dx_pack 1024 0 (take mid (sort_key se_hash es)) (concat leaf_sample) = concat cs1 \<and>
    dx_pack 1024 0 (drop mid (sort_key se_hash es)) (replicate 1024 0) = concat cs2 \<and>
    mset (entries (dir_sb 0) cs1) + mset (entries (dir_sb 0) cs2) =
      {#(replicate 200 0x61, 11), (replicate 200 0x62, 12), (replicate 200 0x63, 13)#} \<and>
    (\<forall>(n, i) \<in> set (entries (dir_sb 0) cs1). name_hash leaf_hinfo n \<le> nh) \<and>
    (\<forall>(n, i) \<in> set (entries (dir_sb 0) cs2). nh \<le> name_hash leaf_hinfo n)"
proof -
  have len: "length (concat leaf_sample) = 1024"
    by (simp add: leaf_sample_def dot_rec_fields)
  have ents: "entries (dir_sb 0) leaf_sample =
      [(replicate 200 0x61, 11), (replicate 200 0x62, 12), (replicate 200 0x63, 13)]"
    by (simp add: entries_def leaf_sample_def dot_rec_fields dot_rec_name)
  have used: "sum_list (map (rec_used (dir_sb 0)) (filter rec_live leaf_sample)) = 624"
    by (simp add: leaf_sample_def dot_rec_fields leaf_sample_used)
  have "is_qsort (sort_key se_hash)" by (simp add: is_qsort_eq)
  from split_leaf_divides [where sb = "dir_sb 0" and hinfo = leaf_hinfo and cs = leaf_sample
      and qsort = "sort_key se_hash" and stop = 1024 and new = "replicate 1024 0",
      OF _ _ _ leaf_sample_named _ this]
  obtain es nh mid cs1 cs2 where
    "dx_load (dir_sb 0) leaf_hinfo (concat leaf_sample) 0 0 [] = Some (EOK, es)" "mid \<noteq> 0"
    "dx_pack 1024 0 (take mid (sort_key se_hash es)) (concat leaf_sample) = concat cs1"
    "dx_pack 1024 0 (drop mid (sort_key se_hash es)) (replicate 1024 0) = concat cs2"
    "mset (entries (dir_sb 0) cs1) + mset (entries (dir_sb 0) cs2) = mset (entries (dir_sb 0) leaf_sample)"
    "\<forall>(n, i) \<in> set (entries (dir_sb 0) cs1). name_hash leaf_hinfo n \<le> nh"
    "\<forall>(n, i) \<in> set (entries (dir_sb 0) cs2). nh \<le> name_hash leaf_hinfo n"
    by (simp add: len used dir_sb_fields) (auto simp: dir_sb_def leaf_hinfo_def len)
  then show ?thesis
    unfolding ents by (intro exI conjI) (assumption | simp)+
qed

end
