(* ===== verification/Xattr_Entry.thy ===== *)
theory Xattr_Entry
  imports Super Inode "HOL-Library.Monad_Syntax"
begin

text \<open>
  Lists of extended attributes, \<open>src/ext4_xattr.c\<close>: the entries of an attribute block or of the
  space behind an inode, searching, inserting, replacing and removing an attribute, and the
  hashes. The region is part of a buffer, and pointers into it are offsets. \<open>None\<close> is a walk that
  leaves the buffer.
\<close>

section \<open>Entries\<close>

definition EXT4_XATTR_MAGIC :: u32 where "EXT4_XATTR_MAGIC = 0xEA020000"

record ext4_xattr_header =
  h_magic :: u32
  h_refcount :: u32
  h_blocks :: u32
  h_hash :: u32
  h_checksum :: u32

definition ext4_xattr_header_of :: "bytes \<Rightarrow> ext4_xattr_header" where
  "ext4_xattr_header_of bs =
     \<lparr>h_magic = get_le 4 0 bs, h_refcount = get_le 4 4 bs, h_blocks = get_le 4 8 bs, h_hash = get_le 4 12 bs,
      h_checksum = get_le 4 16 bs\<rparr>"

definition ext4_xattr_header_bytes :: "ext4_xattr_header \<Rightarrow> bytes" where
  "ext4_xattr_header_bytes h =
     le_bytes 4 (h_magic h) @ le_bytes 4 (h_refcount h) @ le_bytes 4 (h_blocks h) @ le_bytes 4 (h_hash h) @
     le_bytes 4 (h_checksum h)"

definition xh_upd :: "(ext4_xattr_header \<Rightarrow> ext4_xattr_header) \<Rightarrow> bytes \<Rightarrow> bytes" where
  "xh_upd f data = put_bytes 0 (ext4_xattr_header_bytes (f (ext4_xattr_header_of data))) data"

record ext4_xattr_entry =
  e_name_len :: u8
  e_name_index :: u8
  e_value_offs :: u16
  e_value_block :: u32
  e_value_size :: u32
  e_hash :: u32

definition ext4_xattr_entry_of :: "bytes \<Rightarrow> ext4_xattr_entry" where
  "ext4_xattr_entry_of bs =
     \<lparr>e_name_len = get_le 1 0 bs, e_name_index = get_le 1 1 bs, e_value_offs = get_le 2 2 bs,
      e_value_block = get_le 4 4 bs, e_value_size = get_le 4 8 bs, e_hash = get_le 4 12 bs\<rparr>"

definition ext4_xattr_entry_bytes :: "ext4_xattr_entry \<Rightarrow> bytes" where
  "ext4_xattr_entry_bytes e =
     le_bytes 1 (e_name_len e) @ le_bytes 1 (e_name_index e) @ le_bytes 2 (e_value_offs e) @
     le_bytes 4 (e_value_block e) @ le_bytes 4 (e_value_size e) @ le_bytes 4 (e_hash e)"

definition xe_at :: "bytes \<Rightarrow> nat \<Rightarrow> ext4_xattr_entry" where
  "xe_at data off = ext4_xattr_entry_of (drop off data)"

definition xe_upd :: "(ext4_xattr_entry \<Rightarrow> ext4_xattr_entry) \<Rightarrow> nat \<Rightarrow> bytes \<Rightarrow> bytes" where
  "xe_upd f off data = put_bytes off (ext4_xattr_entry_bytes (f (xe_at data off))) data"

definition EXT4_XATTR_LEN :: "nat \<Rightarrow> nat" where
  "EXT4_XATTR_LEN name_len = 4 * ((name_len + 3 + 16) div 4)"

definition EXT4_XATTR_SIZE :: "nat \<Rightarrow> nat" where
  "EXT4_XATTR_SIZE sz = 4 * ((sz + 3) div 4)"

definition EXT4_XATTR_NEXT :: "bytes \<Rightarrow> nat \<Rightarrow> nat" where
  "EXT4_XATTR_NEXT data off = off + EXT4_XATTR_LEN (unat (e_name_len (xe_at data off)))"

definition EXT4_XATTR_NAME :: "bytes \<Rightarrow> nat \<Rightarrow> nat \<Rightarrow> bytes" where
  "EXT4_XATTR_NAME data off n = take n (drop (off + 16) data)"

definition EXT4_XATTR_IS_LAST_ENTRY :: "bytes \<Rightarrow> nat \<Rightarrow> bool" where
  "EXT4_XATTR_IS_LAST_ENTRY data off = ((get_le 4 off data :: u32) = 0)"

text \<open>
  The offsets of the entries from \<open>off\<close> on and the offset of the last one, the four zero bytes:
  what every loop \<open>for (; !EXT4_XATTR_IS_LAST_ENTRY(e); e = EXT4_XATTR_NEXT(e))\<close> runs over.
\<close>

function xattr_walk :: "bytes \<Rightarrow> nat \<Rightarrow> (nat list \<times> nat) option" where
  "xattr_walk data off =
     (if off + 4 > length data then None
      else if EXT4_XATTR_IS_LAST_ENTRY data off then Some ([], off)
      else (case xattr_walk data (EXT4_XATTR_NEXT data off) of
              None \<Rightarrow> None
            | Some (offs, lst) \<Rightarrow> Some (off # offs, lst)))"
  by pat_completeness auto
termination
  by (relation "measure (\<lambda>(data, off). length data + 1 - off)")
    (auto simp: EXT4_XATTR_NEXT_def EXT4_XATTR_LEN_def)

declare xattr_walk.simps [simp del]

section \<open>Searching\<close>

record ext4_xattr_info =
  xi_name_index :: u8
  xi_name :: bytes
  xi_value :: "bytes option"

definition xi_value_len :: "ext4_xattr_info \<Rightarrow> nat" where
  "xi_value_len i = (case xi_value i of None \<Rightarrow> 0 | Some v \<Rightarrow> length v)"

record ext4_xattr_search =
  s_first :: nat
  s_base :: nat
  s_end :: nat
  s_here :: "nat option"
  s_not_found :: bool

definition xe_match :: "bytes \<Rightarrow> ext4_xattr_info \<Rightarrow> nat \<Rightarrow> bool" where
  "xe_match data i off =
     (let e = xe_at data off; name_len = unat (e_name_len e)
      in name_len = length (xi_name i) \<and> e_name_index e = xi_name_index i \<and>
         EXT4_XATTR_NAME data off name_len = xi_name i)"

text \<open>
  \<open>ext4_xattr_find_entry\<close>; the value of the entry found is put into the info, none for an empty one.
\<close>

definition xe_value :: "bytes \<Rightarrow> nat \<Rightarrow> nat \<Rightarrow> bytes" where
  "xe_value data base off =
     take (unat (e_value_size (xe_at data off))) (drop (base + unat (e_value_offs (xe_at data off))) data)"

definition ext4_xattr_find_entry ::
    "bytes \<Rightarrow> ext4_xattr_info \<Rightarrow> ext4_xattr_search \<Rightarrow> (ext4_xattr_info \<times> ext4_xattr_search) option" where
  "ext4_xattr_find_entry data i s = do {
     let s = s\<lparr>s_not_found := True, s_here := None\<rparr>;
     (offs, _) \<leftarrow> xattr_walk data (s_first s);
     (case List.find (xe_match data i) offs of
        None \<Rightarrow> Some (i, s)
      | Some off \<Rightarrow>
          Some (i\<lparr>xi_value := (if e_value_size (xe_at data off) \<noteq> 0 then Some (xe_value data (s_base s) off) else None)\<rparr>,
                s\<lparr>s_here := Some off, s_not_found := False\<rparr>))
   }"

section \<open>Validity\<close>

text \<open>
  The loop of both validity checks, with the smallest offset of a value so far; \<open>Inl ()\<close> is the
  early answer that the entries are not valid.
\<close>

function valid_walk :: "bytes \<Rightarrow> nat \<Rightarrow> nat \<Rightarrow> nat \<Rightarrow> nat \<Rightarrow> (unit + nat \<times> nat) option" where
  "valid_walk data base stop off min_offs =
     (if off + 4 > length data then None
      else if EXT4_XATTR_IS_LAST_ENTRY data off then Some (Inr (off, min_offs))
      else (let e = xe_at data off; offs = unat (e_value_offs e); sz = unat (e_value_size e)
            in if sz = 0 \<and> offs \<noteq> 0 then Some (Inl ())
               else if base + offs + sz > stop then Some (Inl ())
               else if EXT4_XATTR_NEXT data off + 4 > stop then Some (Inl ())
               else valid_walk data base stop (EXT4_XATTR_NEXT data off)
                      (if sz \<noteq> 0 \<and> offs < min_offs then offs else min_offs)))"
  by pat_completeness auto
termination
  by (relation "measure (\<lambda>(data, base, stop, off, m). length data + 1 - off)")
    (auto simp: EXT4_XATTR_NEXT_def EXT4_XATTR_LEN_def)

declare valid_walk.simps [simp del]

definition xattr_valid :: "bytes \<Rightarrow> nat \<Rightarrow> nat \<Rightarrow> nat \<Rightarrow> bool option" where
  "xattr_valid data base stop first =
     (case valid_walk data base stop first (stop - base) of
        None \<Rightarrow> None
      | Some (Inl _) \<Rightarrow> Some False
      | Some (Inr (lst, min_offs)) \<Rightarrow> Some (\<not> base + min_offs < lst + 4))"

section \<open>Setting an entry\<close>

text \<open>The smallest offset of a value.\<close>

definition xattr_min_offs :: "bytes \<Rightarrow> nat list \<Rightarrow> nat \<Rightarrow> nat" where
  "xattr_min_offs data offs m =
     fold (\<lambda>off m. if e_value_size (xe_at data off) \<noteq> 0 \<and> unat (e_value_offs (xe_at data off)) < m
                   then unat (e_value_offs (xe_at data off)) else m) offs m"

text \<open>
  The first part of the change: the value of the entry at \<open>here\<close> leaves the area of values, whose
  part in front of it moves up, and the offsets of the values that moved are adjusted.
\<close>

definition xattr_drop_value :: "bytes \<Rightarrow> nat \<Rightarrow> nat list \<Rightarrow> nat \<Rightarrow> nat \<Rightarrow> bytes \<times> nat" where
  "xattr_drop_value data base offs min_offs here =
     (let value_offs = unat (e_value_offs (xe_at data here));
          value_size = EXT4_XATTR_SIZE (unat (e_value_size (xe_at data here)));
          (data, min_offs) =
            (if value_offs \<noteq> 0
             then (let moved = take (value_offs - min_offs) (drop (base + min_offs) data);
                       data = put_bytes (base + min_offs + value_size) moved data;
                       data = put_bytes (base + min_offs) (replicate value_size 0) data
                   in (data, min_offs + value_size))
             else (data, min_offs));
          data = fold (\<lambda>off data.
                   if unat (e_value_offs (xe_at data off)) < value_offs
                   then xe_upd (\<lambda>e. e\<lparr>e_value_offs := of_nat (unat (e_value_offs e) + value_size)\<rparr>) off data
                   else data) offs data
      in (data, min_offs))"

text \<open>The second part with a value: the entry is reused or appended, and the value is stored.\<close>

definition xattr_store ::
    "bytes \<Rightarrow> nat \<Rightarrow> nat \<Rightarrow> nat \<Rightarrow> nat option \<Rightarrow> ext4_xattr_info \<Rightarrow> bytes \<Rightarrow> bytes \<times> nat" where
  "xattr_store data base lst min_offs here i value =
     (let value_offs = (if value \<noteq> [] then min_offs - EXT4_XATTR_SIZE (length value) else 0);
          (data, here) =
            (case here of
               Some here \<Rightarrow>
                 (xe_upd (\<lambda>e. e\<lparr>e_value_offs := of_nat value_offs, e_value_size := of_nat (length value)\<rparr>) here data, here)
             | None \<Rightarrow>
                 (let data = xe_upd (\<lambda>e. e\<lparr>e_name_len := of_nat (length (xi_name i)), e_name_index := xi_name_index i,
                               e_value_offs := of_nat value_offs, e_value_block := 0,
                               e_value_size := of_nat (length value)\<rparr>) lst data;
                      data = put_bytes (lst + 16) (xi_name i) data;
                      data = put_bytes (EXT4_XATTR_NEXT data lst) (le_bytes 4 (0 :: u32)) data
                  in (data, lst)));
          data = (if value_offs \<noteq> 0
                  then put_bytes (base + value_offs)
                         (value @ replicate (EXT4_XATTR_SIZE (length value) - length value) 0) data
                  else data)
      in (data, here))"

text \<open>The second part without a value: the entry is cut out of the list.\<close>

definition xattr_cut :: "bytes \<Rightarrow> nat \<Rightarrow> nat \<Rightarrow> bytes" where
  "xattr_cut data lst here =
     (let nxt = EXT4_XATTR_NEXT data here;
          shift_offs = nxt - here;
          data = put_bytes here (take (lst + 4 - nxt) (drop nxt data)) data
      in put_bytes (lst + 4 - shift_offs) (replicate shift_offs 0) data)"

definition ext4_xattr_set_entry ::
    "bytes \<Rightarrow> ext4_xattr_info \<Rightarrow> ext4_xattr_search \<Rightarrow> bool \<Rightarrow> (errno \<times> bytes \<times> ext4_xattr_search) option" where
  "ext4_xattr_set_entry data i s dry_run =
     (if xi_value i = None \<and> s_not_found s then Some (EOK, data, s)
      else do {
        (offs, lst) \<leftarrow> xattr_walk data (s_first s);
        let min_offs = xattr_min_offs data offs (s_end s - s_base s);
        let free = int min_offs - (int lst - int (s_base s)) - 4;
        let free = (if s_not_found s then free
                    else free + int (EXT4_XATTR_SIZE (unat (e_value_size (xe_at data (the (s_here s)))))) +
                         int (EXT4_XATTR_LEN (unat (e_name_len (xe_at data (the (s_here s)))))));
        if xi_value i \<noteq> None \<and> nat (free mod 2 ^ 64) < EXT4_XATTR_SIZE (xi_value_len i) + EXT4_XATTR_LEN (length (xi_name i))
        then Some (ENOSPC, data, s)
        else if dry_run then Some (EOK, data, s)
        else do {
          let here = (if s_not_found s then None else s_here s);
          let (data, min_offs) =
            (case here of
               None \<Rightarrow> (data, min_offs)
             | Some h \<Rightarrow> xattr_drop_value data (s_base s) offs min_offs h);
          (case xi_value i of
             Some value \<Rightarrow>
               (case xattr_store data (s_base s) lst min_offs here i value of
                  (data, h) \<Rightarrow> Some (EOK, data, s\<lparr>s_here := Some h\<rparr>))
           | None \<Rightarrow> Some (EOK, xattr_cut data lst (the here), s\<lparr>s_here := None\<rparr>))
        }
      })"

definition ext4_xattr_is_empty :: "bytes \<Rightarrow> ext4_xattr_search \<Rightarrow> bool" where
  "ext4_xattr_is_empty data s = EXT4_XATTR_IS_LAST_ENTRY data (s_first s)"

section \<open>Hashes\<close>

text \<open>A \<open>char\<close> of a name is signed.\<close>

definition xattr_name_hash :: "bytes \<Rightarrow> u32" where
  "xattr_name_hash name =
     fold (\<lambda>c hash. push_bit 5 hash XOR drop_bit 27 hash XOR scast c) name 0"

definition xattr_value_hash :: "u32 list \<Rightarrow> u32 \<Rightarrow> u32" where
  "xattr_value_hash ws hash = fold (\<lambda>w hash. push_bit 16 hash XOR drop_bit 16 hash XOR w) ws hash"

definition ext4_xattr_compute_hash :: "bytes \<Rightarrow> nat \<Rightarrow> bytes" where
  "ext4_xattr_compute_hash data off =
     (let e = xe_at data off;
          hash = xattr_name_hash (EXT4_XATTR_NAME data off (unat (e_name_len e)));
          hash = (if e_value_block e = 0 \<and> e_value_size e \<noteq> 0
                  then xattr_value_hash
                         (get_les 4 (unat (e_value_offs e)) (unat (drop_bit 2 (e_value_size e + 3))) data) hash
                  else hash)
      in xe_upd (\<lambda>e. e\<lparr>e_hash := hash\<rparr>) off data)"

definition xattr_block_hash :: "bytes \<Rightarrow> nat list \<Rightarrow> u32" where
  "xattr_block_hash data offs =
     (if \<exists>off \<in> set offs. e_hash (xe_at data off) = 0 then 0
      else fold (\<lambda>off hash. push_bit 16 hash XOR drop_bit 16 hash XOR e_hash (xe_at data off)) offs 0)"

definition ext4_xattr_rehash :: "bytes \<Rightarrow> nat \<Rightarrow> bytes option" where
  "ext4_xattr_rehash data entry = do {
     let data = ext4_xattr_compute_hash data entry;
     (offs, _) \<leftarrow> xattr_walk data 32;
     Some (xh_upd (\<lambda>h. h\<lparr>h_hash := xattr_block_hash data offs\<rparr>) data)
   }"

section \<open>Names\<close>

text \<open>
  The table of prefixes, in its order, as bytes: \<open>user.\<close>, \<open>system.posix_acl_access\<close>,
  \<open>system.posix_acl_default\<close>, \<open>trusted.\<close>, \<open>security.\<close>, \<open>system.\<close>, \<open>system.richacl\<close>.
\<close>

definition prefix_tbl :: "(bytes \<times> u8) list" where
  "prefix_tbl =
     [(map of_char ''user.'', 1), (map of_char ''system.posix_acl_access'', 2),
      (map of_char ''system.posix_acl_default'', 3), (map of_char ''trusted.'', 4),
      (map of_char ''security.'', 6), (map of_char ''system.'', 7), (map of_char ''system.richacl'', 8)]"

text \<open>
  The answer of \<open>ext4_extract_xattr_name\<close>: whether the prefix was found, the name after it (\<open>None\<close>
  is \<open>NULL\<close>), its length and the index, if it was set.
\<close>

definition ext4_extract_xattr_name :: "bytes \<Rightarrow> bool \<times> bytes option \<times> nat \<times> u8 option" where
  "ext4_extract_xattr_name full_name =
     (if full_name = [] then (False, None, 0, None)
      else (case List.find (\<lambda>(prefix, _). length full_name \<ge> length prefix \<and> take (length prefix) full_name = prefix) prefix_tbl of
              None \<Rightarrow> (False, None, 0, None)
            | Some (prefix, index) \<Rightarrow>
                (let require_name = last prefix = 0x2E;
                     rest = drop (length prefix) full_name
                 in if rest = [] \<and> require_name then (False, None, 0, Some index)
                    else if require_name then (True, Some rest, length rest, Some index)
                    else (True, None, length rest, Some index))))"

definition ext4_get_xattr_name_prefix :: "u8 \<Rightarrow> bytes option \<times> nat" where
  "ext4_get_xattr_name_prefix name_index =
     (case List.find (\<lambda>(_, index). index = name_index) prefix_tbl of
        None \<Rightarrow> (None, 0)
      | Some (prefix, _) \<Rightarrow> (Some prefix, length prefix))"

end
