(* ===== verification/Xattr.thy ===== *)
theory Xattr
  imports Xattr_Entry Extent
begin

text \<open>
  The operations of \<open>src/ext4_xattr.c\<close> on an inode: attributes live behind the inode in its table
  block and in one attribute block. \<open>None\<close> is a failed assertion, the use of an uninitialised
  variable, or a null pointer: the data of a block that was released is one.
\<close>

section \<open>The attribute block\<close>

definition ext4_xattr_block_checksum :: "'d ext4_fs \<Rightarrow> u64 \<Rightarrow> bytes \<Rightarrow> u32" where
  "ext4_xattr_block_checksum fs blocknr header =
     (if ext4_sb_feature_ro_com (fs_sb fs) EXT4_FRO_COM_METADATA_CSUM
      then (let header = xh_upd (\<lambda>h. h\<lparr>h_checksum := 0\<rparr>) header;
                checksum = ext4_crc32c EXT4_CRC32_INIT (sb_uuid (fs_sb fs));
                checksum = ext4_crc32c checksum (le_bytes 8 blocknr)
            in ext4_crc32c checksum (take (unat (ext4_sb_get_block_size (fs_sb fs))) header))
      else 0)"

definition ext4_xattr_set_block_checksum :: "'d ext4_fs \<Rightarrow> u64 \<Rightarrow> bytes \<Rightarrow> bytes" where
  "ext4_xattr_set_block_checksum fs blocknr header =
     (if \<not> ext4_sb_feature_ro_com (fs_sb fs) EXT4_FRO_COM_METADATA_CSUM then header
      else xh_upd (\<lambda>h. h\<lparr>h_checksum := ext4_xattr_block_checksum fs blocknr header\<rparr>) header)"

definition ext4_xattr_is_block_valid :: "'d ext4_fs \<Rightarrow> bytes \<Rightarrow> bool option" where
  "ext4_xattr_is_block_valid fs data =
     (if h_magic (ext4_xattr_header_of data) \<noteq> EXT4_XATTR_MAGIC then Some False
      else if h_blocks (ext4_xattr_header_of data) \<noteq> 1 then Some False
      else xattr_valid data 0 (unat (ext4_sb_get_block_size (fs_sb fs))) 32)"

definition ext4_xattr_block_initialize :: "'d ext4_fs \<Rightarrow> ext4_block \<Rightarrow> 'd ext4_fs" where
  "ext4_xattr_block_initialize fs block =
     (let data = memset 0 0 (unat (ext4_sb_get_block_size (fs_sb fs))) (fs_data fs block);
          data = xh_upd (\<lambda>h. h\<lparr>h_magic := EXT4_XATTR_MAGIC, h_refcount := 1, h_blocks := 1\<rparr>) data
      in fs_dirty (fs_store fs block data) block)"

definition ext4_xattr_block_init_search :: "'d ext4_fs \<Rightarrow> ext4_xattr_search" where
  "ext4_xattr_block_init_search fs =
     \<lparr>s_first = 32, s_base = 0, s_end = unat (ext4_sb_get_block_size (fs_sb fs)), s_here = None, s_not_found = True\<rparr>"

text \<open>\<open>Inl\<close> is the error code.\<close>

definition ext4_xattr_block_find_entry ::
    "'d ext4_fs \<Rightarrow> ext4_xattr_info \<Rightarrow> ext4_block \<Rightarrow> (errno + ext4_xattr_info \<times> ext4_xattr_search) option" where
  "ext4_xattr_block_find_entry fs i block =
     (if \<not> blk_data block then None
      else do {
        let data = fs_data fs block;
        valid \<leftarrow> ext4_xattr_is_block_valid fs data;
        if \<not> valid then Some (Inl EIO)
        else map_option Inr (ext4_xattr_find_entry data i (ext4_xattr_block_init_search fs))
      })"

section \<open>The space behind the inode\<close>

definition xattr_extra_isize :: "'d ext4_fs \<Rightarrow> ext4_inode_ref \<Rightarrow> nat" where
  "xattr_extra_isize fs ir = unat (ext4_inode_get_extra_isize (fs_sb fs) (ino_get fs ir))"

definition EXT4_XATTR_IHDR :: "'d ext4_fs \<Rightarrow> ext4_inode_ref \<Rightarrow> nat" where
  "EXT4_XATTR_IHDR fs ir = 128 + xattr_extra_isize fs ir"

definition ino_raw_put :: "'d ext4_fs \<Rightarrow> ext4_inode_ref \<Rightarrow> bytes \<Rightarrow> 'd ext4_fs" where
  "ino_raw_put fs ir data =
     fs_store fs (ir_block ir) (take (ir_offset ir) (fs_data fs (ir_block ir)) @ data)"

text \<open>The check counts the offsets of values from the header, the search from the first entry.\<close>

definition ext4_xattr_is_ibody_valid :: "'d ext4_fs \<Rightarrow> ext4_inode_ref \<Rightarrow> bool option" where
  "ext4_xattr_is_ibody_valid fs ir =
     (let iheader = EXT4_XATTR_IHDR fs ir; data = ino_bytes fs ir
      in if (get_le 4 iheader data :: u32) \<noteq> EXT4_XATTR_MAGIC then Some False
         else xattr_valid data iheader (unat (sb_inode_size (fs_sb fs))) (iheader + 4))"

definition ext4_xattr_ibody_initialize ::
    "'d ext4_fs \<Rightarrow> ext4_inode_ref \<Rightarrow> 'd ext4_fs \<times> ext4_inode_ref" where
  "ext4_xattr_ibody_initialize fs ir =
     (let extra_isize = xattr_extra_isize fs ir; header = EXT4_XATTR_IHDR fs ir
      in if extra_isize = 0 then (fs, ir)
         else (let data = memset header 0 (unat (sb_inode_size (fs_sb fs)) - 128 - extra_isize) (ino_bytes fs ir);
                   data = put_bytes header (le_bytes 4 EXT4_XATTR_MAGIC) data
               in (ino_raw_put fs ir data, ir\<lparr>ir_dirty := True\<rparr>)))"

definition ibody_search :: "'d ext4_fs \<Rightarrow> ext4_inode_ref \<Rightarrow> ext4_xattr_search" where
  "ibody_search fs ir =
     \<lparr>s_first = EXT4_XATTR_IHDR fs ir + 4, s_base = EXT4_XATTR_IHDR fs ir + 4,
      s_end = unat (sb_inode_size (fs_sb fs)), s_here = None, s_not_found = False\<rparr>"

definition ext4_xattr_ibody_find_entry ::
    "'d ext4_fs \<Rightarrow> ext4_inode_ref \<Rightarrow> ext4_xattr_info \<Rightarrow> (errno + ext4_xattr_info \<times> ext4_xattr_search) option" where
  "ext4_xattr_ibody_find_entry fs ir i =
     (if xattr_extra_isize fs ir = 0
      then Some (Inr (i, \<lparr>s_first = 0, s_base = 0, s_end = 0, s_here = None, s_not_found = True\<rparr>))
      else do {
        valid \<leftarrow> ext4_xattr_is_ibody_valid fs ir;
        if \<not> valid then Some (Inl EIO)
        else map_option Inr (ext4_xattr_find_entry (ino_bytes fs ir) i (ibody_search fs ir))
      })"

section \<open>Allocating and freeing the block\<close>

abbreviation file_acl :: "'d ext4_fs \<Rightarrow> ext4_inode_ref \<Rightarrow> u64" where
  "file_acl fs ir \<equiv> ext4_inode_get_file_acl (ino_get fs ir) (fs_sb fs)"

definition set_file_acl :: "'d ext4_fs \<Rightarrow> ext4_inode_ref \<Rightarrow> u64 \<Rightarrow> 'd ext4_fs" where
  "set_file_acl fs ir acl = ino_upd (\<lambda>ino. ext4_inode_set_file_acl ino (fs_sb fs) acl) fs ir"

definition ext4_xattr_try_alloc_block ::
    "'d ext4_fs \<Rightarrow> ext4_inode_ref \<Rightarrow> (errno \<times> 'd ext4_fs \<times> ext4_inode_ref) option" where
  "ext4_xattr_try_alloc_block fs ir =
     (if file_acl fs ir = 0
      then do {
        (ret, fs, ir, xattr_block) \<leftarrow> ext4_balloc_alloc_block fs ir (ext4_fs_inode_to_goal_block fs ir);
        if ret \<noteq> EOK then Some (ret, fs, ir)
        else (case xattr_block of None \<Rightarrow> None | Some xattr_block \<Rightarrow> Some (EOK, set_file_acl fs ir xattr_block, ir))
      }
      else Some (EOK, fs, ir))"

definition ext4_xattr_try_free_block ::
    "'d ext4_fs \<Rightarrow> ext4_inode_ref \<Rightarrow> ('d ext4_fs \<times> ext4_inode_ref) option" where
  "ext4_xattr_try_free_block fs ir =
     (let xattr_block = file_acl fs ir
      in if xattr_block \<noteq> 0
         then do {
           (_, fs, ir) \<leftarrow> ext4_balloc_free_block (set_file_acl fs ir 0) ir xattr_block;
           Some (fs, ir\<lparr>ir_dirty := True\<rparr>)
         }
         else Some (fs, ir))"

section \<open>Listing and reading\<close>

definition sizeof_xattr_list_entry :: nat where "sizeof_xattr_list_entry = 32"

definition xattr_names :: "bytes \<Rightarrow> nat list \<Rightarrow> (u8 \<times> bytes) list" where
  "xattr_names data offs =
     map (\<lambda>off. (e_name_index (xe_at data off), EXT4_XATTR_NAME data off (unat (e_name_len (xe_at data off))))) offs"

definition xattr_list_len :: "(u8 \<times> bytes) list \<Rightarrow> nat" where
  "xattr_list_len ns = sum_list (map (\<lambda>(_, name). sizeof_xattr_list_entry + length name + 1) ns)"

text \<open>The attributes that are put into the caller's list, and the length of the list.\<close>

definition ext4_xattr_list ::
    "'d ext4_fs \<Rightarrow> ext4_inode_ref \<Rightarrow> (errno \<times> 'd ext4_fs \<times> (u8 \<times> bytes) list \<times> nat) option" where
  "ext4_xattr_list fs ir = do {
     let xattr_block = file_acl fs ir;
     valid \<leftarrow> (if xattr_extra_isize fs ir \<noteq> 0 then ext4_xattr_is_ibody_valid fs ir else Some False);
     list \<leftarrow> (if valid
              then map_option (\<lambda>(offs, _). xattr_names (ino_bytes fs ir) offs)
                     (xattr_walk (ino_bytes fs ir) (EXT4_XATTR_IHDR fs ir + 4))
              else Some []);
     if xattr_block \<noteq> 0
     then do {
       (ret, fs, block) \<leftarrow> fs_block_get fs xattr_block;
       if ret \<noteq> EOK then Some (ret, fs, list, 0)
       else do {
         valid \<leftarrow> ext4_xattr_is_block_valid fs (fs_data fs block);
         if \<not> valid
         then do { (_, fs) \<leftarrow> fs_block_set fs block; Some (EIO, fs, list, 0) }
         else do {
           (offs, _) \<leftarrow> xattr_walk (fs_data fs block) 32;
           let list = list @ xattr_names (fs_data fs block) offs;
           (_, fs) \<leftarrow> fs_block_set fs block;
           Some (EOK, fs, list, xattr_list_len list)
         }
       }
     }
     else Some (EOK, fs, list, xattr_list_len list)
   }"

text \<open>The value of the entry found, as much of it as the caller's buffer of \<open>buf_len\<close> bytes takes.\<close>

definition xattr_copy_value :: "bytes \<Rightarrow> ext4_xattr_search \<Rightarrow> nat \<Rightarrow> (bytes \<times> nat) option" where
  "xattr_copy_value data s buf_len = do {
     here \<leftarrow> s_here s;
     let e = xe_at data here;
     let value_len = unat (e_value_size e);
     let off = s_base s + unat (e_value_offs e);
     let n = min buf_len value_len;
     if off + n > length data then None else Some (take n (drop off data), value_len)
   }"

definition ext4_xattr_get ::
    "'d ext4_fs \<Rightarrow> ext4_inode_ref \<Rightarrow> u8 \<Rightarrow> bytes \<Rightarrow> nat \<Rightarrow> (errno \<times> 'd ext4_fs \<times> bytes \<times> nat) option" where
  "ext4_xattr_get fs ir name_index name buf_len = do {
     let xattr_block = file_acl fs ir;
     let i = \<lparr>xi_name_index = name_index, xi_name = name, xi_value = None\<rparr>;
     res \<leftarrow> ext4_xattr_ibody_find_entry fs ir i;
     (case res of
        Inl ret \<Rightarrow> Some (ret, fs, [], 0)
      | Inr (_, s) \<Rightarrow>
          if \<not> s_not_found s
          then do {
            (buf, value_len) \<leftarrow> xattr_copy_value (ino_bytes fs ir) s buf_len;
            Some (EOK, fs, buf, value_len)
          }
          else if xattr_block = 0 then Some (ENODATA, fs, [], 0)
          else do {
            (ret, fs, block) \<leftarrow> fs_block_get fs xattr_block;
            if ret \<noteq> EOK then Some (ret, fs, [], 0)
            else do {
              res \<leftarrow> ext4_xattr_block_find_entry fs i block;
              (case res of
                 Inl ret \<Rightarrow> do { (_, fs) \<leftarrow> fs_block_set fs block; Some (ret, fs, [], 0) }
               | Inr (_, s) \<Rightarrow>
                   if s_not_found s
                   then do { (_, fs) \<leftarrow> fs_block_set fs block; Some (ENODATA, fs, [], 0) }
                   else do {
                     (buf, value_len) \<leftarrow> xattr_copy_value (fs_data fs block) s buf_len;
                     (_, fs) \<leftarrow> fs_block_set fs block;
                     Some (EOK, fs, buf, value_len)
                   })
            }
          })
   }"

section \<open>A block of one's own\<close>

text \<open>
  \<open>ext4_xattr_copy_new_block\<close>: a block that other inodes use is copied; the answer has the new
  block when there is one.
\<close>

definition ext4_xattr_copy_new_block ::
    "'d ext4_fs \<Rightarrow> ext4_inode_ref \<Rightarrow> ext4_block \<Rightarrow>
     (errno \<times> 'd ext4_fs \<times> ext4_inode_ref \<times> ext4_block option) option" where
  "ext4_xattr_copy_new_block fs ir block =
     (if h_refcount (ext4_xattr_header_of (fs_data fs block)) > 1
      then do {
        (ret, fs, ir, xattr_block) \<leftarrow> ext4_balloc_alloc_block fs ir (ext4_fs_inode_to_goal_block fs ir);
        if ret \<noteq> EOK then Some (ret, fs, ir, None)
        else (case xattr_block of None \<Rightarrow> None | Some xattr_block \<Rightarrow> do {
          (ret, fs, new_block) \<leftarrow> fs_block_get fs xattr_block;
          if ret \<noteq> EOK
          then do { (_, fs, ir) \<leftarrow> ext4_balloc_free_block fs ir xattr_block; Some (ret, fs, ir, None) }
          else do {
            let n = unat (ext4_sb_get_block_size (fs_sb fs));
            let fs = fs_store fs new_block (put_bytes 0 (take n (fs_data fs block)) (fs_data fs new_block));
            let fs = fs_store fs block (xh_upd (\<lambda>h. h\<lparr>h_refcount := h_refcount h - 1\<rparr>) (fs_data fs block));
            let fs = fs_dirty (fs_dirty fs block) new_block;
            let fs = fs_store fs new_block (xh_upd (\<lambda>h. h\<lparr>h_refcount := 1\<rparr>) (fs_data fs new_block));
            Some (EOK, set_file_acl fs ir xattr_block, ir\<lparr>ir_dirty := True\<rparr>, Some new_block)
          }
        })
      }
      else Some (EOK, fs, ir, None))"

text \<open>The hash and the checksum of a changed block; \<open>blocknr\<close> is what the caller passes.\<close>

definition xattr_finish_block :: "'d ext4_fs \<Rightarrow> ext4_block \<Rightarrow> u64 \<Rightarrow> bytes \<Rightarrow> 'd ext4_fs option" where
  "xattr_finish_block fs block blocknr data = do {
     data \<leftarrow> ext4_xattr_rehash data 32;
     Some (fs_dirty (fs_store fs block (ext4_xattr_set_block_checksum fs blocknr data)) block)
   }"

section \<open>Removing\<close>

text \<open>
  When the attribute is not in the block, the code changes the entry that \<open>block_finder.s\<close> says,
  which was never set.
\<close>

definition ext4_xattr_remove ::
    "'d ext4_fs \<Rightarrow> ext4_inode_ref \<Rightarrow> u8 \<Rightarrow> bytes \<Rightarrow> (errno \<times> 'd ext4_fs \<times> ext4_inode_ref) option" where
  "ext4_xattr_remove fs ir name_index name = do {
     let xattr_block = file_acl fs ir;
     let i = \<lparr>xi_name_index = name_index, xi_name = name, xi_value = None\<rparr>;
     res \<leftarrow> ext4_xattr_ibody_find_entry fs ir i;
     (case res of
        Inl ret \<Rightarrow> Some (ret, fs, ir)
      | Inr (_, s) \<Rightarrow>
          if \<not> (s_not_found s \<and> xattr_block \<noteq> 0) then None
          else do {
            (ret, fs, block) \<leftarrow> fs_block_get fs xattr_block;
            if ret \<noteq> EOK then Some (ret, fs, ir)
            else do {
              res \<leftarrow> ext4_xattr_block_find_entry fs i block;
              (case res of
                 Inl ret \<Rightarrow> do { (_, fs) \<leftarrow> fs_block_set fs block; Some (ret, fs, ir) }
               | Inr (_, s) \<Rightarrow>
                   if s_not_found s
                   then do { (_, fs) \<leftarrow> fs_block_set fs block; Some (ENODATA, fs, ir) }
                   else do {
                     (ret, fs, ir, copy) \<leftarrow> ext4_xattr_copy_new_block fs ir block;
                     if ret \<noteq> EOK then do { (_, fs) \<leftarrow> fs_block_set fs block; Some (ret, fs, ir) }
                     else do {
                       let new_block = (case copy of None \<Rightarrow> block | Some b \<Rightarrow> b);
                       res \<leftarrow> ext4_xattr_block_find_entry fs i new_block;
                       (ret, fs, ir) \<leftarrow>
                         (case res of
                            Inl ret \<Rightarrow> Some (ret, fs, ir)
                          | Inr (_, s) \<Rightarrow> do {
                              (_, data, s) \<leftarrow> ext4_xattr_set_entry (fs_data fs new_block) i s False;
                              let fs = fs_store fs new_block data;
                              if ext4_xattr_is_empty data s
                              then do {
                                (_, fs) \<leftarrow> fs_block_set fs new_block;
                                (fs, ir) \<leftarrow> ext4_xattr_try_free_block fs ir;
                                Some (EOK, fs, ir)
                              }
                              else do {
                                fs \<leftarrow> xattr_finish_block fs new_block (blk_lb_id block) data;
                                (_, fs) \<leftarrow> fs_block_set fs new_block;
                                Some (EOK, fs, ir)
                              }
                            });
                       (case copy of
                          None \<Rightarrow> Some (ret, fs, ir)
                        | Some _ \<Rightarrow> do { (_, fs) \<leftarrow> fs_block_set fs block; Some (ret, fs, ir) })
                     }
                   })
            }
          })
   }"

section \<open>Setting\<close>

text \<open>The block of an inode that has none: allocated, emptied, and given the entry.\<close>

definition xattr_block_set_new ::
    "'d ext4_fs \<Rightarrow> ext4_inode_ref \<Rightarrow> ext4_xattr_info \<Rightarrow> bool \<Rightarrow>
     (errno \<times> 'd ext4_fs \<times> ext4_inode_ref) option" where
  "xattr_block_set_new fs ir i no_insert =
     (if no_insert then Some (ENODATA, fs, ir)
      else do {
        (ret, fs, ir) \<leftarrow> ext4_xattr_try_alloc_block fs ir;
        if ret \<noteq> EOK then Some (ret, fs, ir)
        else do {
          (ret, fs, block) \<leftarrow> fs_block_get fs (file_acl fs ir);
          if ret \<noteq> EOK then do { (fs, ir) \<leftarrow> ext4_xattr_try_free_block fs ir; Some (ret, fs, ir) }
          else do {
            let fs = ext4_xattr_block_initialize fs block;
            (ret, data, s) \<leftarrow> ext4_xattr_set_entry (fs_data fs block) i (ext4_xattr_block_init_search fs) False;
            let fs = fs_store fs block data;
            fs \<leftarrow> (if ret = EOK
                   then do {
                     here \<leftarrow> s_here s;
                     xattr_finish_block fs block (blk_lb_id block) (ext4_xattr_compute_hash data here)
                   }
                   else Some fs);
            (_, fs) \<leftarrow> fs_block_set fs block;
            if ret \<noteq> EOK then do { (fs, ir) \<leftarrow> ext4_xattr_try_free_block fs ir; Some (ret, fs, ir) }
            else Some (ret, fs, ir)
          }
        }
      })"

text \<open>
  The block of an inode that has one. After a shared block was copied the code releases the old
  block and stores it over the new one, and goes on with the released block.
\<close>

definition xattr_block_set_old ::
    "'d ext4_fs \<Rightarrow> ext4_inode_ref \<Rightarrow> ext4_xattr_info \<Rightarrow> bool \<Rightarrow>
     (errno \<times> 'd ext4_fs \<times> ext4_inode_ref) option" where
  "xattr_block_set_old fs ir i no_insert = do {
     (ret, fs, block) \<leftarrow> fs_block_get fs (file_acl fs ir);
     if ret \<noteq> EOK then Some (ret, fs, ir)
     else do {
       (ret, fs) \<leftarrow>
         (if h_refcount (ext4_xattr_header_of (fs_data fs block)) > 1 \<and> no_insert
          then do {
            res \<leftarrow> ext4_xattr_block_find_entry fs i block;
            (case res of
               Inl ret \<Rightarrow> do { (_, fs) \<leftarrow> fs_block_set fs block; Some (ret, fs) }
             | Inr (_, s) \<Rightarrow>
                 if s_not_found s then do { (_, fs) \<leftarrow> fs_block_set fs block; Some (ENODATA, fs) }
                 else Some (EOK, fs))
          }
          else Some (EOK, fs));
       if ret \<noteq> EOK then Some (ret, fs, ir)
       else do {
         (ret, fs, ir, copy) \<leftarrow> ext4_xattr_copy_new_block fs ir block;
         if ret \<noteq> EOK then do { (_, fs) \<leftarrow> fs_block_set fs block; Some (ret, fs, ir) }
         else do {
           (fs, block) \<leftarrow>
             (case copy of
                None \<Rightarrow> Some (fs, block)
              | Some _ \<Rightarrow> do { (_, fs, block) \<leftarrow> fs_block_put fs block; Some (fs, block) });
           res \<leftarrow> ext4_xattr_block_find_entry fs i block;
           (case res of
              Inl ret \<Rightarrow> do { (_, fs) \<leftarrow> fs_block_set fs block; Some (ret, fs, ir) }
            | Inr (_, s) \<Rightarrow> do {
                (ret, data, s) \<leftarrow> ext4_xattr_set_entry (fs_data fs block) i s False;
                let fs = fs_store fs block data;
                fs \<leftarrow> (if ret = EOK
                       then do {
                         here \<leftarrow> s_here s;
                         xattr_finish_block fs block (blk_lb_id block) (ext4_xattr_compute_hash data here)
                       }
                       else Some fs);
                (_, fs) \<leftarrow> fs_block_set fs block;
                Some (ret, fs, ir)
              })
         }
       }
     }
   }"

definition ext4_xattr_block_set ::
    "'d ext4_fs \<Rightarrow> ext4_inode_ref \<Rightarrow> ext4_xattr_info \<Rightarrow> bool \<Rightarrow>
     (errno \<times> 'd ext4_fs \<times> ext4_inode_ref) option" where
  "ext4_xattr_block_set fs ir i no_insert =
     (if xi_value i = None then None
      else if file_acl fs ir = 0 then xattr_block_set_new fs ir i no_insert
      else xattr_block_set_old fs ir i no_insert)"

text \<open>
  The search of \<open>ext4_xattr_block_remove\<close> is for an attribute that was never filled in: it only
  ends well in a block without entries, where it finds nothing.
\<close>

definition ext4_xattr_block_remove ::
    "'d ext4_fs \<Rightarrow> ext4_inode_ref \<Rightarrow> (errno \<times> 'd ext4_fs \<times> ext4_inode_ref) option" where
  "ext4_xattr_block_remove fs ir =
     (if file_acl fs ir = 0 then None
      else do {
        (ret, fs, block) \<leftarrow> fs_block_get fs (file_acl fs ir);
        if ret \<noteq> EOK then Some (ret, fs, ir)
        else do {
          (ret, fs, ir, copy) \<leftarrow> ext4_xattr_copy_new_block fs ir block;
          if ret \<noteq> EOK then do { (_, fs) \<leftarrow> fs_block_set fs block; Some (ret, fs, ir) }
          else do {
            (fs, block) \<leftarrow>
              (case copy of
                 None \<Rightarrow> Some (fs, block)
               | Some new_block \<Rightarrow> do { (_, fs) \<leftarrow> fs_block_set fs block; Some (fs, new_block) });
            valid \<leftarrow> ext4_xattr_is_block_valid fs (fs_data fs block);
            if \<not> valid \<or> \<not> EXT4_XATTR_IS_LAST_ENTRY (fs_data fs block) 32 then None
            else do { (_, fs) \<leftarrow> fs_block_set fs block; Some (EOK, fs, ir) }
          }
        }
      })"

text \<open>From \<open>try_insert\<close> on: the attribute goes behind the inode, or into the block.\<close>

definition xattr_try_insert ::
    "'d ext4_fs \<Rightarrow> ext4_inode_ref \<Rightarrow> ext4_xattr_info \<Rightarrow> ext4_xattr_info \<Rightarrow> ext4_xattr_search \<Rightarrow> bool \<Rightarrow>
     (errno \<times> 'd ext4_fs \<times> ext4_inode_ref) option" where
  "xattr_try_insert fs ir i found s block_found = do {
     (ret, fs) \<leftarrow>
       (if xattr_extra_isize fs ir \<noteq> 0
        then do {
          (ret, data, _) \<leftarrow> ext4_xattr_set_entry (ino_bytes fs ir) i s False;
          Some (ret, ino_raw_put fs ir data)
        }
        else Some (ENOSPC, fs));
     if ret = ENOSPC
     then (if \<not> block_found
           then do {
             (ret, fs, ir) \<leftarrow> ext4_xattr_block_set fs ir i False;
             (_, data, _) \<leftarrow> ext4_xattr_set_entry (ino_bytes fs ir) (found\<lparr>xi_value := None\<rparr>) s False;
             Some (ret, ino_raw_put fs ir data, ir\<lparr>ir_dirty := True\<rparr>)
           }
           else Some (ret, fs, ir))
     else if ret = EOK
     then do {
       (ret, fs, ir) \<leftarrow> (if block_found then ext4_xattr_block_remove fs ir else Some (EOK, fs, ir));
       Some (ret, fs, ir\<lparr>ir_dirty := True\<rparr>)
     }
     else Some (ret, fs, ir)
   }"

definition ext4_xattr_set ::
    "'d ext4_fs \<Rightarrow> ext4_inode_ref \<Rightarrow> u8 \<Rightarrow> bytes \<Rightarrow> bytes \<Rightarrow> (errno \<times> 'd ext4_fs \<times> ext4_inode_ref) option" where
  "ext4_xattr_set fs ir name_index name value = do {
     let i = \<lparr>xi_name_index = name_index, xi_name = name, xi_value = Some value\<rparr>;
     let orig_xattr_block = file_acl fs ir;
     res \<leftarrow> ext4_xattr_ibody_find_entry fs ir i;
     (found, s, fs, ir) \<leftarrow>
       (case res of
          Inr (found, s) \<Rightarrow> Some (found, s, fs, ir)
        | Inl _ \<Rightarrow>
            (case ext4_xattr_ibody_initialize fs ir of (fs, ir) \<Rightarrow> do {
               res \<leftarrow> ext4_xattr_ibody_find_entry fs ir i;
               (case res of Inl _ \<Rightarrow> None | Inr (found, s) \<Rightarrow> Some (found, s, fs, ir))
             }));
     if s_not_found s \<and> orig_xattr_block \<noteq> 0
     then do {
       (ret, fs, ir) \<leftarrow> ext4_xattr_block_set fs ir i True;
       if ret = ENOSPC \<or> ret = ENODATA then xattr_try_insert fs ir i found s True
       else Some (ret, fs, ir)
     }
     else xattr_try_insert fs ir i found s False
   }"

end
