(* ===== verification/Xattr_Map.thy ===== *)
theory Xattr_Map
  imports Xattr
begin

text \<open>
  A region of extended attributes as the map it stands for, from a name index and a name to a
  value; inserting a new attribute extends that map, as long as the region has room.
\<close>

section \<open>Reading what was not changed\<close>

definition same_on :: "nat \<Rightarrow> nat \<Rightarrow> bytes \<Rightarrow> bytes \<Rightarrow> bool" where
  "same_on lo hi d d' \<longleftrightarrow> length d = length d' \<and> (\<forall>i. lo \<le> i \<longrightarrow> i < hi \<longrightarrow> i < length d \<longrightarrow> d ! i = d' ! i)"

lemma same_on_take:
  assumes "same_on lo hi d d'" "lo \<le> a" "a + n \<le> hi"
  shows "take n (drop a d) = take n (drop a d')"
  using assms by (intro nth_equalityI) (auto simp: same_on_def)

lemma same_on_get: "same_on lo hi d d' \<Longrightarrow> lo \<le> a \<Longrightarrow> a + n \<le> hi \<Longrightarrow> get_le n a d = get_le n a d'"
  by (simp add: get_le_def same_on_take)

lemma same_on_mono: "same_on lo hi d d' \<Longrightarrow> lo \<le> lo' \<Longrightarrow> hi' \<le> hi \<Longrightarrow> same_on lo' hi' d d'"
  by (auto simp: same_on_def)

lemma same_on_trans [trans]: "same_on lo hi d d' \<Longrightarrow> same_on lo hi d' d'' \<Longrightarrow> same_on lo hi d d''"
  by (auto simp: same_on_def)

lemma same_on_refl [simp]: "same_on lo hi d d"
  by (simp add: same_on_def)

lemma length_put_in: "off + length new \<le> length d \<Longrightarrow> length (put_bytes off new d) = length d"
  by (simp add: put_bytes_def)

lemma same_on_put:
  "off + length new \<le> length d \<Longrightarrow> off + length new \<le> lo \<or> hi \<le> off \<Longrightarrow> same_on lo hi d (put_bytes off new d)"
  by (auto simp: same_on_def length_put_in nth_put_bytes)

lemma take_put_here: "off + length new \<le> length d \<Longrightarrow> take (length new) (drop off (put_bytes off new d)) = new"
  by (simp add: put_bytes_def)

lemma xe_at_slice: "xe_at d off = ext4_xattr_entry_of (take 16 (drop off d))"
  by (simp add: xe_at_def ext4_xattr_entry_of_def get_le_take)

lemma same_on_entry: "same_on lo hi d d' \<Longrightarrow> lo \<le> off \<Longrightarrow> off + 16 \<le> hi \<Longrightarrow> xe_at d off = xe_at d' off"
  by (simp only: xe_at_slice same_on_take)

lemma length_entry_bytes [simp]: "length (ext4_xattr_entry_bytes e) = 16"
  by (simp add: ext4_xattr_entry_bytes_def)

lemma entry_of_bytes: "ext4_xattr_entry_of (ext4_xattr_entry_bytes e) = e"
  by (simp add: ext4_xattr_entry_of_def ext4_xattr_entry_bytes_def byte_simps)

lemma xe_at_upd: "off + 16 \<le> length d \<Longrightarrow> xe_at (xe_upd f off d) off = f (xe_at d off)"
  using take_put_here [of off "ext4_xattr_entry_bytes (f (xe_at d off))" d]
  by (simp add: xe_upd_def xe_at_slice [of "put_bytes off x d" for x] entry_of_bytes)

lemma of_le_bytes_0:
  assumes "(of_le_bytes xs :: 'a::len word) = 0" "8 * length xs \<le> LENGTH('a)"
  shows "xs = replicate (length xs) 0"
proof (rule of_le_bytes_inj [where 'a = 'a])
  show "(of_le_bytes xs :: 'a word) = of_le_bytes (replicate (length xs) 0)" by (simp add: assms(1))
qed (simp_all add: assms(2))

lemma last_entry_head:
  assumes "EXT4_XATTR_IS_LAST_ENTRY d off"
  shows "e_name_len (xe_at d off) = 0 \<and> e_name_index (xe_at d off) = 0"
proof -
  let ?xs = "take 4 (drop off d)"
  have z: "?xs = replicate (length ?xs) 0"
    by (rule of_le_bytes_0 [where 'a = 32])
      (use assms in \<open>simp_all add: EXT4_XATTR_IS_LAST_ENTRY_def get_le_def\<close>)
  obtain n where n: "?xs = replicate n 0" using z by blast
  have "take 1 (drop k (drop off d)) = take 1 (drop k ?xs)" if "k < 4" for k
    using that by (simp add: drop_take min_def)
  then have "of_le_bytes (take 1 (drop k (drop off d))) = (0 :: u8)" if "k < 4" for k
    using that by (simp only: n) simp
  from this [of 0] this [of 1] show ?thesis
    by (simp add: xe_at_def ext4_xattr_entry_of_def get_le_def)
qed

section \<open>Walks\<close>

lemma XATTR_LEN_ge: "16 + n \<le> EXT4_XATTR_LEN n"
  by (simp add: EXT4_XATTR_LEN_def)

lemma XATTR_SIZE_ge: "n \<le> EXT4_XATTR_SIZE n"
  by (simp add: EXT4_XATTR_SIZE_def)

lemma next_gt: "off + 16 + unat (e_name_len (xe_at d off)) \<le> EXT4_XATTR_NEXT d off"
  using XATTR_LEN_ge by (simp add: EXT4_XATTR_NEXT_def add.assoc)

lemma walk_step:
  assumes "xattr_walk d off = Some (offs, lst)"
  obtains "off + 4 \<le> length d" "EXT4_XATTR_IS_LAST_ENTRY d off" "offs = []" "lst = off"
  | offs' where "off + 4 \<le> length d" "\<not> EXT4_XATTR_IS_LAST_ENTRY d off" "offs = off # offs'"
      "xattr_walk d (EXT4_XATTR_NEXT d off) = Some (offs', lst)"
  using assms by (subst (asm) xattr_walk.simps) (auto split: if_splits option.splits)

lemma walk_bounds:
  "xattr_walk d off = Some (offs, lst) \<Longrightarrow>
     off \<le> lst \<and> lst + 4 \<le> length d \<and> (\<forall>e \<in> set offs. off \<le> e \<and> EXT4_XATTR_NEXT d e \<le> lst)"
proof (induction d off arbitrary: offs rule: xattr_walk.induct)
  case (1 d off)
  from 1(2) show ?case
  proof (cases rule: walk_step)
    case (2 offs')
    with 1(1) [of offs'] next_gt [of off d] show ?thesis by fastforce
  qed simp
qed

lemma walk_append:
  assumes "xattr_walk d off = Some (offs, lst)" "same_on off lst d d'"
    and "\<not> EXT4_XATTR_IS_LAST_ENTRY d' lst" "EXT4_XATTR_NEXT d' lst + 4 \<le> length d"
      "EXT4_XATTR_IS_LAST_ENTRY d' (EXT4_XATTR_NEXT d' lst)"
  shows "xattr_walk d' off = Some (offs @ [lst], EXT4_XATTR_NEXT d' lst)"
  using assms
proof (induction d off arbitrary: offs rule: xattr_walk.induct)
  case (1 d off)
  have l: "length d' = length d" using 1(3) by (simp add: same_on_def)
  from 1(2) show ?case
  proof (cases rule: walk_step)
    case 1
    then show ?thesis using l \<open>\<not> EXT4_XATTR_IS_LAST_ENTRY d' lst\<close>
        \<open>EXT4_XATTR_NEXT d' lst + 4 \<le> length d\<close> \<open>EXT4_XATTR_IS_LAST_ENTRY d' (EXT4_XATTR_NEXT d' lst)\<close>
      by (simp add: xattr_walk.simps [of d' off] xattr_walk.simps [of d' "EXT4_XATTR_NEXT d' off"])
  next
    case (2 offs')
    have b: "off + 16 \<le> lst" "EXT4_XATTR_NEXT d off \<le> lst"
      using walk_bounds [OF 2(4)] next_gt [of off d] by auto
    have e: "xe_at d off = xe_at d' off" by (rule same_on_entry [OF 1(3)]) (use b in auto)
    have g: "EXT4_XATTR_IS_LAST_ENTRY d' off = EXT4_XATTR_IS_LAST_ENTRY d off"
      using same_on_get [OF 1(3), of off 4, where 'a = 32] b by (simp add: EXT4_XATTR_IS_LAST_ENTRY_def)
    have n: "EXT4_XATTR_NEXT d' off = EXT4_XATTR_NEXT d off" using e by (simp add: EXT4_XATTR_NEXT_def)
    have s: "same_on (EXT4_XATTR_NEXT d off) lst d d'"
      by (rule same_on_mono [OF 1(3)]) (use next_gt [of off d] in auto)
    have "xattr_walk d' (EXT4_XATTR_NEXT d off) = Some (offs' @ [lst], EXT4_XATTR_NEXT d' lst)"
      by (rule 1(1) [OF _ _ 2(4) s 1(4,5,6)]) (use 2 in auto)
    then show ?thesis using 2 l g n by (simp add: xattr_walk.simps [of d' off])
  qed
qed

section \<open>The smallest value offset\<close>

lemma min_offs_snoc:
  "xattr_min_offs d (offs @ [e]) m =
     (if e_value_size (xe_at d e) \<noteq> 0 \<and> unat (e_value_offs (xe_at d e)) < xattr_min_offs d offs m
      then unat (e_value_offs (xe_at d e)) else xattr_min_offs d offs m)"
  by (simp add: xattr_min_offs_def)

lemma min_offs_le:
  "xattr_min_offs d offs m \<le> m \<and>
   (\<forall>e \<in> set offs. e_value_size (xe_at d e) \<noteq> 0 \<longrightarrow> xattr_min_offs d offs m \<le> unat (e_value_offs (xe_at d e)))"
  by (induction offs rule: rev_induct)
    (auto simp: min_offs_snoc xattr_min_offs_def [of _ "[]"] intro: le_trans less_imp_le)

lemma min_offs_cong:
  "(\<And>e. e \<in> set offs \<Longrightarrow> xe_at d e = xe_at d' e) \<Longrightarrow> xattr_min_offs d offs m = xattr_min_offs d' offs m"
  by (induction offs rule: rev_induct) (simp_all add: min_offs_snoc xattr_min_offs_def [of _ "[]"])

section \<open>Storing a new entry\<close>

definition xe_new :: "ext4_xattr_info \<Rightarrow> bytes \<Rightarrow> nat \<Rightarrow> u32 \<Rightarrow> ext4_xattr_entry" where
  "xe_new i value value_offs h =
     \<lparr>e_name_len = of_nat (length (xi_name i)), e_name_index = xi_name_index i,
      e_value_offs = of_nat value_offs, e_value_block = 0, e_value_size = of_nat (length value), e_hash = h\<rparr>"

lemma unat_of_nat8: "n < 256 \<Longrightarrow> unat (of_nat n :: u8) = n"
  by (simp add: unat_of_nat)

lemma store_new:
  fixes i :: ext4_xattr_info
  defines "len \<equiv> EXT4_XATTR_LEN (length (xi_name i))"
  assumes room: "lst + len + 4 + EXT4_XATTR_SIZE (length v) \<le> base + mo" "base + mo \<le> length d"
    and name: "length (xi_name i) < 256" and base: "base \<le> lst" and mo: "mo \<le> 65536"
  obtains d' where "xattr_store d base lst mo None i v = (d', lst)" "same_on 0 lst d d'"
    "same_on (base + mo) (length d) d d'"
    "xe_at d' lst = xe_new i v (if v \<noteq> [] then mo - EXT4_XATTR_SIZE (length v) else 0) (e_hash (xe_at d lst))"
    "EXT4_XATTR_NAME d' lst (length (xi_name i)) = xi_name i"
    "EXT4_XATTR_NEXT d' lst = lst + len" "EXT4_XATTR_IS_LAST_ENTRY d' (lst + len)" "xe_value d' base lst = v"
proof -
  define vo where "vo = (if v \<noteq> [] then mo - EXT4_XATTR_SIZE (length v) else 0)"
  define e where "e = xe_new i v vo (e_hash (xe_at d lst))"
  define d1 where "d1 = put_bytes lst (ext4_xattr_entry_bytes e) d"
  define d2 where "d2 = put_bytes (lst + 16) (xi_name i) d1"
  define d3 where "d3 = put_bytes (lst + len) (le_bytes 4 (0 :: u32)) d2"
  define pad where "pad = v @ replicate (EXT4_XATTR_SIZE (length v) - length v) 0"
  define d4 where "d4 = (if vo \<noteq> 0 then put_bytes (base + vo) pad d3 else d3)"
  have len: "16 + length (xi_name i) \<le> len" unfolding len_def by (rule XATTR_LEN_ge)
  have sz: "length v \<le> EXT4_XATTR_SIZE (length v)" by (rule XATTR_SIZE_ge)
  have pad: "length pad = EXT4_XATTR_SIZE (length v)" using sz by (simp add: pad_def)
  have vo: "v \<noteq> [] \<Longrightarrow> base + vo + length pad = base + mo \<and> lst + len + 4 \<le> base + vo \<and> vo \<noteq> 0"
    using room len base by (auto simp: vo_def pad)
  have vo0: "v = [] \<Longrightarrow> vo = 0" by (simp add: vo_def)
  have l1: "length d1 = length d" unfolding d1_def using room len by (intro length_put_in) simp
  have l2: "length d2 = length d" unfolding d2_def using room len l1 by (subst length_put_in) simp_all
  have l3: "length d3 = length d" unfolding d3_def using room len l2 by (subst length_put_in) simp_all
  have l4: "length d4 = length d" unfolding d4_def using room vo vo0 l3 by (cases "v = []") (simp_all add: length_put_in)
  have s1: "same_on lo hi d d1" if "hi \<le> lst \<or> base + mo \<le> lo" for lo hi
    unfolding d1_def using that room len by (intro same_on_put) auto
  have s2: "same_on lo hi d1 d2" if "hi \<le> lst + 16 \<or> base + mo \<le> lo" for lo hi
    unfolding d2_def using that room len l1 by (intro same_on_put) auto
  have s3: "same_on lo hi d2 d3" if "hi \<le> lst + len \<or> base + mo \<le> lo" for lo hi
    unfolding d3_def using that room len l2 by (intro same_on_put) auto
  have s4: "same_on lo hi d3 d4" if "hi \<le> lst + len + 4 \<or> base + mo \<le> lo" for lo hi
    unfolding d4_def using that room vo vo0 l3 by (cases "v = []") (auto intro!: same_on_put)
  have s: "same_on lo hi d d4" if "hi \<le> lst \<or> base + mo \<le> lo" for lo hi
    by (rule same_on_trans [OF same_on_trans [OF same_on_trans [OF s1 s2] s3] s4]) (use that len in auto)
  have e1: "xe_at d1 lst = e"
    using take_put_here [of lst "ext4_xattr_entry_bytes e" d] room len
    by (simp add: d1_def xe_at_slice [of "put_bytes lst x d" for x] entry_of_bytes)
  have e2: "xe_at d2 lst = e" using same_on_entry [OF s2, of "lst + 16" 0 lst] e1 by simp
  have e4: "xe_at d4 lst = e"
    using same_on_entry [OF same_on_trans [OF s3 s4], of "lst + len" 0 lst] e2 len by simp
  have nl: "unat (e_name_len e) = length (xi_name i)" using name by (simp add: e_def xe_new_def unat_of_nat8)
  have n2: "EXT4_XATTR_NEXT d2 lst = lst + len" by (simp add: EXT4_XATTR_NEXT_def e2 nl len_def)
  have n4: "EXT4_XATTR_NEXT d4 lst = lst + len" by (simp add: EXT4_XATTR_NEXT_def e4 nl len_def)
  have nm: "EXT4_XATTR_NAME d4 lst (length (xi_name i)) = xi_name i"
    using same_on_take [OF same_on_trans [OF s3 s4], of "lst + len" 0 "lst + 16" "length (xi_name i)"]
      take_put_here [of "lst + 16" "xi_name i" d1] room len l1
    by (simp add: EXT4_XATTR_NAME_def d2_def)
  have "take 4 (drop (lst + len) d3) = le_bytes 4 (0 :: u32)"
    using take_put_here [of "lst + len" "le_bytes 4 (0 :: u32)" d2] room l2 by (simp add: d3_def)
  then have "(get_le 4 (lst + len) d4 :: u32) = 0"
    using same_on_take [OF s4, of "lst + len + 4" 0 "lst + len" 4] by (simp add: get_le_def of_le_bytes_le_bytes)
  then have il: "EXT4_XATTR_IS_LAST_ENTRY d4 (lst + len)" by (simp add: EXT4_XATTR_IS_LAST_ENTRY_def)
  have val: "xe_value d4 base lst = v"
  proof (cases "v = []")
    case True
    then show ?thesis by (simp add: xe_value_def e4 e_def xe_new_def)
  next
    case False
    have "length v \<le> 65536" using room mo vo [OF False] pad sz by simp
    then have "unat (of_nat (length v) :: u32) = length v" by (simp add: unat_of_nat)
    moreover have "vo < 65536" using mo vo [OF False] pad sz False by (cases v) auto
    then have "unat (of_nat vo :: u16) = vo" by (simp add: unat_of_nat)
    moreover have "take (length pad) (drop (base + vo) d4) = pad"
      using take_put_here [of "base + vo" pad d3] room l3 vo [OF False] by (simp add: d4_def)
    then have "take (length v) (take (length pad) (drop (base + vo) d4)) = v" by (simp add: pad_def)
    ultimately show ?thesis using sz pad by (simp add: xe_value_def e4 e_def xe_new_def min_def)
  qed
  have u: "xe_upd (\<lambda>e. e\<lparr>e_name_len := of_nat (length (xi_name i)), e_name_index := xi_name_index i,
      e_value_offs := of_nat vo, e_value_block := 0, e_value_size := of_nat (length v)\<rparr>) lst d = d1"
    by (cases "xe_at d lst") (simp add: xe_upd_def d1_def e_def xe_new_def)
  have st: "xattr_store d base lst mo None i v = (d4, lst)"
    by (simp only: xattr_store_def Let_def option.case prod.case vo_def [symmetric] u d2_def [symmetric] n2
        d3_def [symmetric] pad_def [symmetric] d4_def [symmetric])
  show ?thesis
    by (rule that [OF st s s _ nm n4 il val]) (simp_all add: e4 e_def vo_def)
qed

section \<open>Regions as maps\<close>

text \<open>
  A region is well formed when its entries end in four zero bytes in front of the values, and the
  values lie in the region; the room is what is left between the two.
\<close>

definition xattr_region :: "bytes \<Rightarrow> ext4_xattr_search \<Rightarrow> bool" where
  "xattr_region data s \<longleftrightarrow>
     s_base s \<le> s_first s \<and> s_base s \<le> s_end s \<and> s_end s \<le> length data \<and> s_end s - s_base s \<le> 65536 \<and>
     (case xattr_walk data (s_first s) of
        None \<Rightarrow> False
      | Some (offs, lst) \<Rightarrow>
          lst + 4 \<le> s_base s + xattr_min_offs data offs (s_end s - s_base s) \<and>
          (\<forall>e \<in> set offs. e_value_size (xe_at data e) \<noteq> 0 \<longrightarrow>
             s_base s + unat (e_value_offs (xe_at data e)) + unat (e_value_size (xe_at data e)) \<le> s_end s))"

definition xattr_room :: "bytes \<Rightarrow> ext4_xattr_search \<Rightarrow> nat" where
  "xattr_room data s =
     (case xattr_walk data (s_first s) of
        None \<Rightarrow> 0
      | Some (offs, lst) \<Rightarrow> s_base s + xattr_min_offs data offs (s_end s - s_base s) - (lst + 4))"

definition xattr_map :: "bytes \<Rightarrow> ext4_xattr_search \<Rightarrow> u8 \<times> bytes \<Rightarrow> bytes option" where
  "xattr_map data s k =
     (case xattr_walk data (s_first s) of
        None \<Rightarrow> None
      | Some (offs, _) \<Rightarrow>
          map_option (xe_value data (s_base s))
            (List.find (xe_match data \<lparr>xi_name_index = fst k, xi_name = snd k, xi_value = None\<rparr>) offs))"

lemma xe_match_value: "xe_match d (i\<lparr>xi_value := v\<rparr>) = xe_match d i"
  by (simp add: xe_match_def fun_eq_iff)

lemma xe_match_key:
  "xe_match d \<lparr>xi_name_index = xi_name_index i, xi_name = xi_name i, xi_value = None\<rparr> = xe_match d i"
  by (simp add: xe_match_def fun_eq_iff)

lemma find_cong_map:
  "(\<And>x. x \<in> set xs \<Longrightarrow> P x = Q x \<and> (P x \<longrightarrow> f x = g x)) \<Longrightarrow> map_option f (List.find P xs) = map_option g (List.find Q xs)"
  by (induction xs) auto

lemma same_on_match:
  assumes s: "same_on 0 lst d d'" and n: "EXT4_XATTR_NEXT d e \<le> lst"
  shows "xe_at d' e = xe_at d e" "xe_match d' i e = xe_match d i e"
proof -
  have b: "e + 16 + unat (e_name_len (xe_at d e)) \<le> lst" using next_gt [of e d] n by simp
  show xe: "xe_at d' e = xe_at d e" by (rule same_on_entry [OF s, symmetric]) (use b in auto)
  have "EXT4_XATTR_NAME d e (unat (e_name_len (xe_at d e))) = EXT4_XATTR_NAME d' e (unat (e_name_len (xe_at d e)))"
    unfolding EXT4_XATTR_NAME_def by (rule same_on_take [OF s]) (use b in auto)
  then show "xe_match d' i e = xe_match d i e" by (simp add: xe_match_def xe)
qed

lemma same_on_value:
  assumes s: "same_on lo (length d) d d'" and xe: "xe_at d' e = xe_at d e"
    and b: "e_value_size (xe_at d e) \<noteq> 0 \<Longrightarrow>
      lo \<le> base + unat (e_value_offs (xe_at d e)) \<and>
      base + unat (e_value_offs (xe_at d e)) + unat (e_value_size (xe_at d e)) \<le> length d"
  shows "xe_value d' base e = xe_value d base e"
proof (cases "e_value_size (xe_at d e) = 0")
  case True
  then show ?thesis by (simp add: xe_value_def xe)
next
  case False
  then show ?thesis
    using same_on_take [OF s, of "base + unat (e_value_offs (xe_at d e))" "unat (e_value_size (xe_at d e))"] b
    by (simp add: xe_value_def xe)
qed

lemma value_words:
  assumes "EXT4_XATTR_SIZE (length v) \<le> mo" "mo \<le> 65536"
  shows "unat (of_nat (length v) :: u32) = length v" "v \<noteq> [] \<Longrightarrow> (of_nat (length v) :: u32) \<noteq> 0"
    "v \<noteq> [] \<Longrightarrow> unat (of_nat (mo - EXT4_XATTR_SIZE (length v)) :: u16) = mo - EXT4_XATTR_SIZE (length v)"
proof -
  have sz: "length v \<le> EXT4_XATTR_SIZE (length v)" by (rule XATTR_SIZE_ge)
  have "length v < 2 ^ 32" using assms sz by simp
  then show l: "unat (of_nat (length v) :: u32) = length v" by (simp only: unat_of_nat) simp
  show "(of_nat (length v) :: u32) \<noteq> 0" if "v \<noteq> []"
    using that l by (metis length_0_conv unsigned_0)
  show "unat (of_nat (mo - EXT4_XATTR_SIZE (length v)) :: u16) = mo - EXT4_XATTR_SIZE (length v)" if "v \<noteq> []"
  proof -
    have "length v \<noteq> 0" using that by simp
    then have "mo - EXT4_XATTR_SIZE (length v) < 65536" using assms sz by linarith
    then show ?thesis by (simp add: unat_of_nat)
  qed
qed

text \<open>One more entry behind entries that read as before.\<close>

lemma xattr_map_snoc:
  assumes w: "xattr_walk d (s_first s) = Some (offs, lst)" "xattr_walk d' (s_first s) = Some (offs @ [e], lst')"
    and same: "\<And>x i. x \<in> set offs \<Longrightarrow> xe_match d' i x = xe_match d i x"
      "\<And>x. x \<in> set offs \<Longrightarrow> xe_value d' (s_base s) x = xe_value d (s_base s) x"
    and key: "\<And>j. xe_match d' j e \<longleftrightarrow> (xi_name_index j, xi_name j) = k"
    and new: "xattr_map d s k = None"
  shows "xattr_map d' s = (xattr_map d s)(k \<mapsto> xe_value d' (s_base s) e)"
proof
  fix j
  let ?P = "\<lambda>d. xe_match d \<lparr>xi_name_index = fst j, xi_name = snd j, xi_value = None\<rparr>"
  have old: "map_option (xe_value d' (s_base s)) (List.find (?P d') offs) = xattr_map d s j"
    by (simp only: xattr_map_def w option.case prod.case) (rule find_cong_map, use same in simp)
  show "xattr_map d' s j = ((xattr_map d s)(k \<mapsto> xe_value d' (s_base s) e)) j"
  proof (cases "j = k")
    case True
    have "List.find (?P d') offs = None" using old new True by simp
    then show ?thesis using True by (cases j) (simp add: xattr_map_def [of d'] w(2) find_append key)
  next
    case False
    then show ?thesis
      by (cases "List.find (?P d') offs")
        (simp_all add: old [symmetric] xattr_map_def [of d'] w(2) find_append key)
  qed
qed

text \<open>What inserting leaves: the same entries in front, the new one, and the region well formed.\<close>

lemma insert_region:
  fixes i :: ext4_xattr_info
  defines "len \<equiv> EXT4_XATTR_LEN (length (xi_name i))"
  assumes reg: "xattr_region data s" and w: "xattr_walk data (s_first s) = Some (offs, lst)"
    and room: "len + EXT4_XATTR_SIZE (length v) \<le> xattr_room data s"
    and name: "length (xi_name i) < 256" "xi_name i \<noteq> [] \<or> xi_name_index i \<noteq> 0"
    and new: "xattr_map data s (xi_name_index i, xi_name i) = None"
  obtains data' where
    "xattr_store data (s_base s) lst (xattr_min_offs data offs (s_end s - s_base s)) None i v = (data', lst)"
    "length data' = length data" "xattr_region data' s"
    "xattr_map data' s = (xattr_map data s)((xi_name_index i, xi_name i) \<mapsto> v)"
proof -
  define mo where "mo = xattr_min_offs data offs (s_end s - s_base s)"
  have wb: "s_first s \<le> lst" "lst + 4 \<le> length data" "\<And>e. e \<in> set offs \<Longrightarrow> s_first s \<le> e \<and> EXT4_XATTR_NEXT data e \<le> lst"
    using walk_bounds [OF w] by auto
  have r: "s_base s \<le> s_first s" "s_base s \<le> s_end s" "s_end s \<le> length data" "s_end s - s_base s \<le> 65536"
      "lst + 4 \<le> s_base s + mo"
      "\<And>e. e \<in> set offs \<Longrightarrow> e_value_size (xe_at data e) \<noteq> 0 \<Longrightarrow>
         s_base s + unat (e_value_offs (xe_at data e)) + unat (e_value_size (xe_at data e)) \<le> s_end s"
    using reg by (auto simp: xattr_region_def w mo_def)
  have mo: "mo \<le> s_end s - s_base s" "\<And>e. e \<in> set offs \<Longrightarrow> e_value_size (xe_at data e) \<noteq> 0 \<Longrightarrow> mo \<le> unat (e_value_offs (xe_at data e))"
    using min_offs_le [of data offs "s_end s - s_base s"] by (auto simp: mo_def)
  have rm: "lst + len + 4 + EXT4_XATTR_SIZE (length v) \<le> s_base s + mo"
    using room r(5) by (simp add: xattr_room_def w mo_def)
  have le: "s_base s + mo \<le> length data" "s_base s \<le> lst" "mo \<le> 65536" using r mo(1) wb(1) by auto
  obtain data' where st: "xattr_store data (s_base s) lst mo None i v = (data', lst)"
    and s0: "same_on 0 lst data data'" and s1: "same_on (s_base s + mo) (length data) data data'"
    and xl: "xe_at data' lst = xe_new i v (if v \<noteq> [] then mo - EXT4_XATTR_SIZE (length v) else 0) (e_hash (xe_at data lst))"
    and nm: "EXT4_XATTR_NAME data' lst (length (xi_name i)) = xi_name i"
    and nx: "EXT4_XATTR_NEXT data' lst = lst + len" and il: "EXT4_XATTR_IS_LAST_ENTRY data' (lst + len)"
    and val: "xe_value data' (s_base s) lst = v"
    using store_new [OF rm [unfolded len_def] le(1) name(1) le(2,3)] unfolding len_def by blast
  have len': "length data' = length data" using s0 by (simp add: same_on_def)
  have sz: "length v \<le> EXT4_XATTR_SIZE (length v)" by (rule XATTR_SIZE_ge)
  have xe: "xe_at data' e = xe_at data e" "xe_match data' j e = xe_match data j e" if "e \<in> set offs" for e j
    using same_on_match [OF s0] wb(3) [OF that] by auto
  have nl: "unat (e_name_len (xe_at data' lst)) = length (xi_name i)" using name by (simp add: xl xe_new_def unat_of_nat8)
  have "\<not> EXT4_XATTR_IS_LAST_ENTRY data' lst"
    using last_entry_head [of data' lst] name nl by (auto simp: xl xe_new_def)
  then have w': "xattr_walk data' (s_first s) = Some (offs @ [lst], lst + len)"
    using walk_append [OF w same_on_mono [OF s0]] nx il rm le by simp
  have key: "xe_match data' j lst \<longleftrightarrow> (xi_name_index j, xi_name j) = (xi_name_index i, xi_name i)" for j
    using nl nm by (auto simp: xe_match_def Let_def xl xe_new_def)
  have vs: "xe_value data' (s_base s) e = xe_value data (s_base s) e" if "e \<in> set offs" for e
    by (rule same_on_value [OF s1 xe(1) [OF that]]) (use r(3,6) mo(2) that in \<open>auto intro: le_trans\<close>)
  have mp: "xattr_map data' s = (xattr_map data s)((xi_name_index i, xi_name i) \<mapsto> v)"
    using xattr_map_snoc [OF w w' xe(2) vs key new] val by simp
  have v32: "unat (of_nat (length v) :: u32) = length v" "v \<noteq> [] \<Longrightarrow> (of_nat (length v) :: u32) \<noteq> 0"
    and v16: "v \<noteq> [] \<Longrightarrow> unat (of_nat (mo - EXT4_XATTR_SIZE (length v)) :: u16) = mo - EXT4_XATTR_SIZE (length v)"
    using value_words [of v mo] rm le by auto
  have mo': "xattr_min_offs data' offs (s_end s - s_base s) = mo"
    unfolding mo_def by (rule min_offs_cong) (rule xe)
  have mn: "xattr_min_offs data' (offs @ [lst]) (s_end s - s_base s) = (if v \<noteq> [] then mo - EXT4_XATTR_SIZE (length v) else mo)"
    using v32(2) v16 rm sz le(2) by (cases v) (auto simp: min_offs_snoc mo' xl xe_new_def)
  have inside: "s_base s + unat (e_value_offs (xe_at data' e)) + unat (e_value_size (xe_at data' e)) \<le> s_end s"
    if e: "e \<in> set (offs @ [lst])" "e_value_size (xe_at data' e) \<noteq> 0" for e
  proof (cases "e \<in> set offs")
    case True
    then show ?thesis using r(6) e xe by simp
  next
    case False
    then have "e = lst" using e by simp
    then have "v \<noteq> []" using e by (auto simp: xl xe_new_def)
    with \<open>e = lst\<close> show ?thesis using v32(1) v16 rm sz mo(1) r(2) le(2) by (simp add: xl xe_new_def)
  qed
  have rg: "xattr_region data' s"
    using r(1-4) rm sz inside by (auto simp: xattr_region_def w' mn len')
  show ?thesis using that st [unfolded mo_def] len' rg mp by blast
qed

lemma find_not_found:
  assumes "ext4_xattr_find_entry data i s = Some (i', t)" "s_not_found t"
  shows "t = s\<lparr>s_not_found := True, s_here := None\<rparr>" "xattr_map data s (xi_name_index i, xi_name i) = None"
proof -
  obtain offs lst where w: "xattr_walk data (s_first s) = Some (offs, lst)"
    and f: "List.find (xe_match data i) offs = None" and t: "t = s\<lparr>s_not_found := True, s_here := None\<rparr>"
    using assms by (auto simp: ext4_xattr_find_entry_def Let_def split: Option.bind_splits option.splits)
  show "t = s\<lparr>s_not_found := True, s_here := None\<rparr>" by (rule t)
  show "xattr_map data s (xi_name_index i, xi_name i) = None" using f by (simp add: xattr_map_def w xe_match_key)
qed

lemma set_entry_new:
  assumes w: "xattr_walk data (s_first t) = Some (offs, lst)" and v: "xi_value i = Some v" and t: "s_not_found t"
    and l: "lst + 4 \<le> s_base t + xattr_min_offs data offs (s_end t - s_base t)" "s_end t - s_base t \<le> 65536" "s_base t \<le> s_first t"
  shows "ext4_xattr_set_entry data i t False =
      (if xattr_room data t < EXT4_XATTR_SIZE (length v) + EXT4_XATTR_LEN (length (xi_name i)) then Some (ENOSPC, data, t)
       else (case xattr_store data (s_base t) lst (xattr_min_offs data offs (s_end t - s_base t)) None i v of
               (data, h) \<Rightarrow> Some (EOK, data, t\<lparr>s_here := Some h\<rparr>)))"
proof -
  have "s_base t \<le> lst" using walk_bounds [OF w] l(3) by simp
  then have free: "nat ((int (xattr_min_offs data offs (s_end t - s_base t)) - (int lst - int (s_base t)) - 4) mod 18446744073709551616) = xattr_room data t"
    using l min_offs_le [of data offs "s_end t - s_base t"]
    by (subst mod_pos_pos_trivial) (simp_all add: xattr_room_def w)
  show ?thesis by (simp add: ext4_xattr_set_entry_def Let_def t w v free xi_value_len_def)
qed

text \<open>
  C20: \<open>ext4_xattr_set_entry\<close> for an attribute that \<open>ext4_xattr_find_entry\<close> did not find, in a
  well-formed list: when the entry and the value, both rounded up to four bytes, do not fit between
  the last entry and the first value it answers \<open>ENOSPC\<close> and changes nothing; otherwise the list is
  well formed again and stands for the old map with the new attribute.
\<close>

theorem set_entry_inserts:
  assumes "xattr_region data s" "ext4_xattr_find_entry data i s = Some (i', t)" "s_not_found t"
    and "xi_value i = Some v" "length (xi_name i) < 256" "xi_name i \<noteq> [] \<or> xi_name_index i \<noteq> 0"
  shows "if EXT4_XATTR_LEN (length (xi_name i)) + EXT4_XATTR_SIZE (length v) \<le> xattr_room data s
    then \<exists>data' u. ext4_xattr_set_entry data i t False = Some (EOK, data', u) \<and> length data' = length data \<and>
           xattr_region data' s \<and> xattr_map data' s = (xattr_map data s)((xi_name_index i, xi_name i) \<mapsto> v)
    else ext4_xattr_set_entry data i t False = Some (ENOSPC, data, t)"
proof -
  note t = find_not_found [OF assms(2,3)]
  have room: "xattr_room data (s\<lparr>s_not_found := True, s_here := None\<rparr>) = xattr_room data s"
    by (simp add: xattr_room_def split: option.split)
  obtain offs lst where w: "xattr_walk data (s_first s) = Some (offs, lst)"
    and l: "lst + 4 \<le> s_base s + xattr_min_offs data offs (s_end s - s_base s)" "s_end s - s_base s \<le> 65536" "s_base s \<le> s_first s"
    using assms(1) by (auto simp: xattr_region_def split: option.splits)
  note eq = set_entry_new [of data t offs lst i v, unfolded t(1), simplified, OF w assms(4) l(1,2,3)]
  show ?thesis
  proof (cases "EXT4_XATTR_LEN (length (xi_name i)) + EXT4_XATTR_SIZE (length v) \<le> xattr_room data s")
    case True
    obtain data' where
      "xattr_store data (s_base s) lst (xattr_min_offs data offs (s_end s - s_base s)) None i v = (data', lst)"
      "length data' = length data" "xattr_region data' s"
      "xattr_map data' s = (xattr_map data s)((xi_name_index i, xi_name i) \<mapsto> v)"
      using insert_region [OF assms(1) w True assms(5,6) t(2)] by blast
    then show ?thesis using True by (simp add: t(1) eq room)
  qed (simp add: t(1) eq room)
qed

text \<open>
  C34: the space behind an inode. \<open>ext4_xattr_ibody_find_entry\<close> gives the search a base behind the
  header of four bytes, and \<open>ext4_xattr_set_entry\<close> stores offsets that count from there;
  \<open>ext4_xattr_is_ibody_valid\<close> counts the same offsets from the header. The first attribute is
  accepted when it fits, and the check then holds exactly when four more bytes are free: an
  attribute that fills the space leaves a list that the next access rejects with \<open>EIO\<close>.
\<close>

theorem ibody_full_invalid:
  fixes i :: ext4_xattr_info and v :: bytes
  defines "need \<equiv> EXT4_XATTR_LEN (length (xi_name i)) + EXT4_XATTR_SIZE (length v)"
  assumes "stop \<le> length data" "stop - first \<le> 65532" "EXT4_XATTR_IS_LAST_ENTRY data first" "first = hdr + 4"
    and "xi_value i = Some v" "v \<noteq> []" "length (xi_name i) < 256" "xi_name i \<noteq> [] \<or> xi_name_index i \<noteq> 0"
    and "first + need + 4 \<le> stop"
  shows "\<exists>data' u. ext4_xattr_set_entry data i
             \<lparr>s_first = first, s_base = first, s_end = stop, s_here = None, s_not_found = True\<rparr> False =
           Some (EOK, data', u) \<and>
         xattr_valid data' hdr stop first = Some (first + need + 8 \<le> stop)"
proof -
  let ?t = "\<lparr>s_first = first, s_base = first, s_end = stop, s_here = None, s_not_found = True\<rparr>"
  define mo where "mo = stop - first"
  have w: "xattr_walk data first = Some ([], first)"
    using assms by (subst xattr_walk.simps) simp
  have mo: "xattr_min_offs data [] (stop - first) = mo" by (simp add: xattr_min_offs_def mo_def)
  have rm: "first + EXT4_XATTR_LEN (length (xi_name i)) + 4 + EXT4_XATTR_SIZE (length v) \<le> first + mo" "first + mo \<le> length data"
      "mo \<le> 65536"
    using assms by (auto simp: mo_def need_def)
  obtain data' where st: "xattr_store data first first mo None i v = (data', first)" and s0: "same_on 0 first data data'"
    and xl: "xe_at data' first = xe_new i v (if v \<noteq> [] then mo - EXT4_XATTR_SIZE (length v) else 0) (e_hash (xe_at data first))"
    and nx: "EXT4_XATTR_NEXT data' first = first + EXT4_XATTR_LEN (length (xi_name i))"
    and il: "EXT4_XATTR_IS_LAST_ENTRY data' (first + EXT4_XATTR_LEN (length (xi_name i)))"
    using store_new [OF rm(1,2) assms(8) _ rm(3)] by blast
  have len': "length data' = length data" using s0 by (simp add: same_on_def)
  have sz: "length v \<le> EXT4_XATTR_SIZE (length v)" by (rule XATTR_SIZE_ge)
  have v: "unat (of_nat (length v) :: u32) = length v" "(of_nat (length v) :: u32) \<noteq> 0"
      "unat (of_nat (mo - EXT4_XATTR_SIZE (length v)) :: u16) = mo - EXT4_XATTR_SIZE (length v)"
    using value_words [of v mo] rm assms(7) by auto
  have nl: "\<not> EXT4_XATTR_IS_LAST_ENTRY data' first"
    using last_entry_head [of data' first] assms(8,9) unat_of_nat8 [of "length (xi_name i)"] by (auto simp: xl xe_new_def)
  have "ext4_xattr_set_entry data i ?t False = Some (EOK, data', ?t\<lparr>s_here := Some first\<rparr>)"
    using set_entry_new [of data ?t "[]" first i v] w assms mo st rm by (simp add: xattr_room_def need_def mo_def)
  moreover have "xattr_valid data' hdr stop first = Some (first + need + 8 \<le> stop)"
  proof -
    have "valid_walk data' hdr stop (first + EXT4_XATTR_LEN (length (xi_name i))) m =
        Some (Inr (first + EXT4_XATTR_LEN (length (xi_name i)), m))" for m
      using rm len' il by (subst valid_walk.simps) simp
    moreover have "mo - EXT4_XATTR_SIZE (length v) < stop - hdr" "hdr + 4 + mo = stop" "first + mo = stop" using assms by (auto simp: mo_def)
    ultimately have "valid_walk data' hdr stop first (stop - hdr) =
        Some (Inr (first + EXT4_XATTR_LEN (length (xi_name i)), mo - EXT4_XATTR_SIZE (length v)))"
      using nl nx rm len' v assms(7) sz by (subst valid_walk.simps) (simp add: xl xe_new_def Let_def del: of_nat_diff)
    then show ?thesis using assms(5,10) by (auto simp: xattr_valid_def mo_def need_def)
  qed
  ultimately show ?thesis by blast
qed

section \<open>Witnesses\<close>

text \<open>A space of 40 bytes behind a header of 4 bytes, empty, and an attribute of one byte, \<open>user.a\<close>.\<close>

definition x_space :: bytes where "x_space = replicate 44 0"
definition x_info :: "nat \<Rightarrow> ext4_xattr_info" where
  "x_info n = \<lparr>xi_name_index = 1, xi_name = [0x61], xi_value = Some (replicate n 7)\<rparr>"
definition x_search :: ext4_xattr_search where
  "x_search = \<lparr>s_first = 4, s_base = 4, s_end = 44, s_here = None, s_not_found = True\<rparr>"

lemma x_last: "EXT4_XATTR_IS_LAST_ENTRY x_space 4"
  by (simp add: EXT4_XATTR_IS_LAST_ENTRY_def x_space_def get_le_def)

lemma x_walk: "xattr_walk x_space 4 = Some ([], 4)"
  using x_last by (subst xattr_walk.simps) (simp add: x_space_def)

lemma set_entry_inserts_witness:
  "\<exists>data' u. ext4_xattr_set_entry x_space (x_info 16) x_search False = Some (EOK, data', u) \<and>
     xattr_map data' x_search (1, [0x61]) = Some (replicate 16 7)"
proof -
  have r: "xattr_region x_space x_search"
    by (simp add: xattr_region_def x_search_def x_walk xattr_min_offs_def) (simp add: x_space_def)
  have f: "ext4_xattr_find_entry x_space (x_info 16) x_search = Some (x_info 16, x_search)"
    by (simp add: ext4_xattr_find_entry_def x_search_def x_walk)
  have m: "EXT4_XATTR_LEN (length (xi_name (x_info 16))) + EXT4_XATTR_SIZE (length (replicate 16 (7 :: u8))) \<le> xattr_room x_space x_search"
    by (simp add: xattr_room_def x_search_def x_walk xattr_min_offs_def x_info_def EXT4_XATTR_LEN_def EXT4_XATTR_SIZE_def)
  show ?thesis
    using set_entry_inserts [OF r f, of "replicate 16 7"] m
    by (auto simp: x_info_def x_search_def)
qed

lemma ibody_full_invalid_witness:
  "\<exists>data' u. ext4_xattr_set_entry x_space (x_info 16) x_search False = Some (EOK, data', u) \<and>
     xattr_valid data' 0 44 4 = Some False"
  using ibody_full_invalid [of 44 x_space 4 0 "x_info 16" "replicate 16 7"] x_last
  by (simp add: x_search_def x_info_def EXT4_XATTR_LEN_def EXT4_XATTR_SIZE_def) (simp add: x_space_def)

end
