(* ===== verification/Mount.thy ===== *)
theory Mount
  imports Fs
begin

text \<open>
  The device and mount tables of \<open>src/ext4.c\<close>: registering devices, mounting and unmounting, and
  what can be asked of a mount point.

  The file system of a mount point refers to a block device by a pointer, and two mount points may
  share one, so the devices are kept apart from the file systems: \<open>mp_bd\<close> is the pointer
  \<open>fs.bdev\<close>, and \<open>mp_load\<close> and \<open>mp_save\<close> put a device in and take it out again around an operation.
  The cache \<open>mp->bc\<close> is only reached through \<open>bdev->bc\<close>, where the block device model keeps it.
  Names are C strings, here lists of bytes without the terminator. Transactions do nothing while no
  journal is attached, which is how the model runs, so the calls of \<open>ext4_trans_start\<close>,
  \<open>ext4_trans_stop\<close> and \<open>ext4_trans_abort\<close> are left out.
\<close>

section \<open>State\<close>

record 'd ext4_mountpoint =
  mp_mounted :: bool
  mp_name :: bytes
  mp_os_locks :: "nat option"
  mp_fs :: "'d ext4_fs"
  mp_bd :: "nat option"

record ext4_block_devices =
  bdv_name :: bytes
  bdv_bd :: "nat option"

record 'd ext4_api =
  s_bdevices :: "ext4_block_devices list"
  s_mp :: "'d ext4_mountpoint list"
  s_bd :: "nat \<Rightarrow> 'd ext4_blockdev"

definition CONFIG_EXT4_MAX_BLOCKDEV_NAME :: nat where "CONFIG_EXT4_MAX_BLOCKDEV_NAME = 32"
definition CONFIG_EXT4_MAX_MP_NAME :: nat where "CONFIG_EXT4_MAX_MP_NAME = 32"
definition CONFIG_BLOCK_DEV_CACHE_SIZE :: u32 where "CONFIG_BLOCK_DEV_CACHE_SIZE = 8"

definition slash :: u8 where "slash = 0x2F"

section \<open>Devices\<close>

definition ext4_device_register :: "'d ext4_api \<Rightarrow> nat \<Rightarrow> bytes \<Rightarrow> errno \<times> 'd ext4_api" where
  "ext4_device_register st bd dev_name =
     (if length dev_name > CONFIG_EXT4_MAX_BLOCKDEV_NAME then (EINVAL, st)
      else if \<exists>d \<in> set (s_bdevices st). bdv_name d = dev_name then (EEXIST, st)
      else (case List.find (\<lambda>i. bdv_bd (s_bdevices st ! i) = None) [0..<length (s_bdevices st)] of
              None \<Rightarrow> (ENOSPC, st)
            | Some i \<Rightarrow>
                (EOK, st\<lparr>s_bdevices := (s_bdevices st)[i := \<lparr>bdv_name = dev_name, bdv_bd = Some bd\<rparr>]\<rparr>)))"

text \<open>The answer is \<open>ENOENT\<close> also when the device was there.\<close>

definition ext4_device_unregister :: "'d ext4_api \<Rightarrow> bytes \<Rightarrow> errno \<times> 'd ext4_api" where
  "ext4_device_unregister st dev_name =
     (ENOENT, st\<lparr>s_bdevices := map (\<lambda>d. if bdv_name d \<noteq> dev_name then d else \<lparr>bdv_name = [], bdv_bd = None\<rparr>)
                                 (s_bdevices st)\<rparr>)"

definition ext4_device_unregister_all :: "'d ext4_api \<Rightarrow> errno \<times> 'd ext4_api" where
  "ext4_device_unregister_all st =
     (EOK, st\<lparr>s_bdevices := map (\<lambda>_. \<lparr>bdv_name = [], bdv_bd = None\<rparr>) (s_bdevices st)\<rparr>)"

section \<open>Mount points\<close>

definition mp_load :: "'d ext4_api \<Rightarrow> nat \<Rightarrow> 'd ext4_fs option" where
  "mp_load st i =
     (case mp_bd (s_mp st ! i) of
        None \<Rightarrow> None
      | Some bd \<Rightarrow> Some ((mp_fs (s_mp st ! i))\<lparr>fs_bdev := s_bd st bd\<rparr>))"

definition mp_save :: "'d ext4_api \<Rightarrow> nat \<Rightarrow> 'd ext4_fs \<Rightarrow> 'd ext4_api" where
  "mp_save st i fs =
     (case mp_bd (s_mp st ! i) of
        None \<Rightarrow> st
      | Some bd \<Rightarrow>
          st\<lparr>s_mp := (s_mp st)[i := (s_mp st ! i)\<lparr>mp_fs := fs\<rparr>],
             s_bd := (s_bd st)(bd := fs_bdev fs)\<rparr>)"

text \<open>
  The loop of \<open>ext4_mount\<close> over the slots from \<open>i\<close> on: the first slot that is not mounted is taken;
  a mounted slot with the name before it ends the call.
\<close>

fun mount_slot :: "'d ext4_mountpoint list \<Rightarrow> bytes \<Rightarrow> nat \<Rightarrow> unit + nat option" where
  "mount_slot [] name i = Inr None"
| "mount_slot (mp # mps) name i =
     (if \<not> mp_mounted mp then Inr (Some i)
      else if mp_name mp = name then Inl ()
      else mount_slot mps name (i + 1))"

definition mount_fs ::
    "'d ext4_fs \<Rightarrow> 'd ext4_blockdev \<Rightarrow> bool \<Rightarrow> (errno \<times> 'd ext4_fs) option" where
  "mount_fs fs bd read_only = do {
     (r, fs) \<leftarrow> ext4_fs_init fs bd read_only;
     if r \<noteq> EOK then Some (r, fs\<lparr>fs_bdev := snd (ext4_block_fini (fs_bdev fs))\<rparr>)
     else do {
       let bsize = ext4_sb_get_block_size (fs_sb fs);
       bd \<leftarrow> ext4_block_set_lb_size (fs_bdev fs) bsize;
       (r, bc) \<leftarrow> ext4_bcache_init_dynamic (bdev_bc bd) CONFIG_BLOCK_DEV_CACHE_SIZE bsize;
       if r \<noteq> EOK then Some (r, fs\<lparr>fs_bdev := snd (ext4_block_fini bd)\<rparr>)
       else if bsize \<noteq> bc_itemsize bc then Some (ENOTSUP, fs\<lparr>fs_bdev := bd\<rparr>)
       else (case ext4_block_bind_bcache bd bc of (r, bd) \<Rightarrow> Some (r, fs\<lparr>fs_bdev := bd\<rparr>))
     }
   }"

definition ext4_mount ::
    "'d ext4_api \<Rightarrow> bytes \<Rightarrow> bytes \<Rightarrow> bool \<Rightarrow> (errno \<times> 'd ext4_api) option" where
  "ext4_mount st dev_name mount_point read_only =
     (if length mount_point > CONFIG_EXT4_MAX_MP_NAME then Some (EINVAL, st)
      else if mount_point = [] then None
      else if last mount_point \<noteq> slash then Some (ENOTSUP, st)
      else (case Option.bind (List.find (\<lambda>d. bdv_name d = dev_name) (s_bdevices st)) bdv_bd of
              None \<Rightarrow> Some (ENODEV, st)
            | Some bd \<Rightarrow>
                (case mount_slot (s_mp st) mount_point 0 of
                   Inl _ \<Rightarrow> Some (EOK, st)
                 | Inr None \<Rightarrow> Some (ENOMEM, st)
                 | Inr (Some i) \<Rightarrow> do {
                     let st = st\<lparr>s_mp := (s_mp st)[i := (s_mp st ! i)\<lparr>mp_name := mount_point, mp_mounted := True\<rparr>]\<rparr>;
                     let (r, bdev) = ext4_block_init (s_bd st bd);
                     let st = st\<lparr>s_bd := (s_bd st)(bd := bdev)\<rparr>;
                     if r \<noteq> EOK then Some (r, st)
                     else do {
                       (r, fs) \<leftarrow> mount_fs (mp_fs (s_mp st ! i)) bdev read_only;
                       Some (r, mp_save (st\<lparr>s_mp := (s_mp st)[i := (s_mp st ! i)\<lparr>mp_bd := Some bd\<rparr>]\<rparr>) i fs)
                     }
                   })))"

text \<open>The slot is found by its name, whether it is mounted or not.\<close>

definition ext4_umount :: "'d ext4_api \<Rightarrow> bytes \<Rightarrow> (errno \<times> 'd ext4_api) option" where
  "ext4_umount st mount_point =
     (case List.find (\<lambda>i. mp_name (s_mp st ! i) = mount_point) [0..<length (s_mp st)] of
        None \<Rightarrow> Some (ENODEV, st)
      | Some i \<Rightarrow> do {
          fs \<leftarrow> mp_load st i;
          (r, fs) \<leftarrow> ext4_fs_fini fs;
          if r \<noteq> EOK then Some (r, mp_save st i fs)
          else do {
            let st = st\<lparr>s_mp := (s_mp st)[i := (s_mp st ! i)\<lparr>mp_mounted := False\<rparr>]\<rparr>;
            bdev \<leftarrow> ext4_bcache_cleanup (fs_bdev fs);
            let bdev = bdev\<lparr>bdev_bc := snd (ext4_bcache_fini_dynamic (bdev_bc bdev))\<rparr>;
            let (r, bdev) = ext4_block_fini bdev;
            Some (r, mp_save st i (fs\<lparr>fs_bdev := bdev\<rparr>))
          }
        })"

definition ext4_get_mount :: "'d ext4_api \<Rightarrow> bytes \<Rightarrow> nat option" where
  "ext4_get_mount st path =
     List.find (\<lambda>i. mp_mounted (s_mp st ! i) \<and>
                    take (length (mp_name (s_mp st ! i))) path = mp_name (s_mp st ! i)) [0..<length (s_mp st)]"

definition ext4_mount_setup_locks :: "'d ext4_api \<Rightarrow> bytes \<Rightarrow> nat option \<Rightarrow> errno \<times> 'd ext4_api" where
  "ext4_mount_setup_locks st mount_point locks =
     (case List.find (\<lambda>i. mp_name (s_mp st ! i) = mount_point) [0..<length (s_mp st)] of
        None \<Rightarrow> (ENOENT, st)
      | Some i \<Rightarrow> (EOK, st\<lparr>s_mp := (s_mp st)[i := (s_mp st ! i)\<lparr>mp_os_locks := locks\<rparr>]\<rparr>))"

section \<open>Questions about a mount point\<close>

record ext4_mount_stats =
  ms_inodes_count :: u32
  ms_free_inodes_count :: u32
  ms_blocks_count :: u64
  ms_free_blocks_count :: u64
  ms_block_size :: u32
  ms_block_group_count :: u32
  ms_blocks_per_group :: u32
  ms_inodes_per_group :: u32
  ms_volume_name :: bytes

definition ext4_mount_point_stats :: "'d ext4_api \<Rightarrow> bytes \<Rightarrow> errno + ext4_mount_stats" where
  "ext4_mount_point_stats st mount_point =
     (case ext4_get_mount st mount_point of
        None \<Rightarrow> Inl ENOENT
      | Some i \<Rightarrow>
          (let sb = fs_sb (mp_fs (s_mp st ! i))
           in Inr \<lparr>ms_inodes_count = sb_inodes_count sb,
                   ms_free_inodes_count = sb_free_inodes_count sb,
                   ms_blocks_count = ext4_sb_get_blocks_cnt sb,
                   ms_free_blocks_count = ext4_sb_get_free_blocks_cnt sb,
                   ms_block_size = ext4_sb_get_block_size sb,
                   ms_block_group_count = ext4_block_group_cnt sb,
                   ms_blocks_per_group = sb_blocks_per_group sb,
                   ms_inodes_per_group = sb_inodes_per_group sb,
                   ms_volume_name = sb_volume_name sb\<rparr>))"

definition ext4_get_sblock :: "'d ext4_api \<Rightarrow> bytes \<Rightarrow> errno + ext4_sblock" where
  "ext4_get_sblock st mount_point =
     (case ext4_get_mount st mount_point of
        None \<Rightarrow> Inl ENOENT
      | Some i \<Rightarrow> Inr (fs_sb (mp_fs (s_mp st ! i))))"

text \<open>Write-back mode and flushing, on the file system of a mount point and by path.\<close>

definition fs_write_back :: "'d ext4_fs \<Rightarrow> bool \<Rightarrow> (errno \<times> 'd ext4_fs) option" where
  "fs_write_back fs on = do {
     (r, bdev) \<leftarrow> ext4_block_cache_write_back (fs_bdev fs) (if on then 1 else 0);
     Some (r, fs\<lparr>fs_bdev := bdev\<rparr>)
   }"

definition ext4_cache_write_back :: "'d ext4_api \<Rightarrow> bytes \<Rightarrow> bool \<Rightarrow> (errno \<times> 'd ext4_api) option" where
  "ext4_cache_write_back st path on =
     (case ext4_get_mount st path of
        None \<Rightarrow> Some (ENOENT, st)
      | Some i \<Rightarrow> do {
          fs \<leftarrow> mp_load st i;
          (r, fs) \<leftarrow> fs_write_back fs on;
          Some (r, mp_save st i fs)
        })"

definition ext4_cache_flush :: "'d ext4_api \<Rightarrow> bytes \<Rightarrow> (errno \<times> 'd ext4_api) option" where
  "ext4_cache_flush st path =
     (case ext4_get_mount st path of
        None \<Rightarrow> Some (ENOENT, st)
      | Some i \<Rightarrow> do {
          fs \<leftarrow> mp_load st i;
          (r, bdev) \<leftarrow> ext4_block_cache_flush (fs_bdev fs);
          Some (r, mp_save st i (fs\<lparr>fs_bdev := bdev\<rparr>))
        })"

end
