(* ===== verification/Path.thy ===== *)
theory Path
  imports Mount Dir_Split
begin

text \<open>
  The middle of \<open>src/ext4.c\<close>: linking and unlinking directory entries, truncating by inode number,
  and walking a path. All of it works on the file system of one mount point. A path is the rest of
  a C string, a list of bytes without its terminator; \<open>qsort\<close> is the sort of the C library that
  directory indices use.
\<close>

section \<open>Children\<close>

definition dot :: bytes where "dot = [0x2E]"
definition dotdot :: bytes where "dotdot = [0x2E, 0x2E]"

definition ext4_is_dots :: "bytes \<Rightarrow> bool" where
  "ext4_is_dots name = (name = dot \<or> name = dotdot)"

text \<open>The entry an iterator stands on, with the first \<open>n\<close> bytes of its name.\<close>

definition it_en :: "'d ext4_fs \<Rightarrow> ext4_dir_iter \<Rightarrow> nat \<Rightarrow> ext4_dir_en" where
  "it_en fs it pos = de_at (fs_data fs (it_blk it)) pos"

definition it_name :: "'d ext4_fs \<Rightarrow> ext4_dir_iter \<Rightarrow> nat \<Rightarrow> nat \<Rightarrow> bytes" where
  "it_name fs it pos n = de_name (fs_data fs (it_blk it)) pos n"

text \<open>\<open>Inl\<close> is the error of an iterator step, after which the iterator was closed.\<close>

partial_function (option) children_loop ::
    "'d ext4_fs \<Rightarrow> ext4_inode_ref \<Rightarrow> ext4_dir_iter \<Rightarrow>
     ((errno + bool) \<times> 'd ext4_fs \<times> ext4_inode_ref \<times> ext4_dir_iter) option" where
  "children_loop fs ir it =
     (case it_curr it of
        None \<Rightarrow> Some (Inr False, fs, ir, it)
      | Some pos \<Rightarrow>
          if en_inode (it_en fs it pos) \<noteq> 0 \<and>
             \<not> ext4_is_dots (it_name fs it pos (unat (ext4_dir_en_get_name_len (fs_sb fs) (it_en fs it pos))))
          then Some (Inr True, fs, ir, it)
          else Option.bind (ext4_dir_iterator_next fs ir it)
                 (\<lambda>(rc, fs, ir, it).
                    if rc \<noteq> EOK
                    then Option.bind (ext4_dir_iterator_fini fs it) (\<lambda>(_, fs). Some (Inl rc, fs, ir, it))
                    else children_loop fs ir it))"

definition ext4_has_children ::
    "'d ext4_fs \<Rightarrow> ext4_inode_ref \<Rightarrow> (errno \<times> bool option \<times> 'd ext4_fs \<times> ext4_inode_ref) option" where
  "ext4_has_children fs enode =
     (if \<not> ext4_inode_is_type (fs_sb fs) (ino_get fs enode) EXT4_INODE_MODE_DIRECTORY
      then Some (EOK, Some False, fs, enode)
      else do {
        (rc, fs, enode, it) \<leftarrow> ext4_dir_iterator_init fs enode 0;
        if rc \<noteq> EOK then Some (rc, None, fs, enode)
        else do {
          (res, fs, enode, it) \<leftarrow> children_loop fs enode it;
          (case res of
             Inl rc \<Rightarrow> Some (rc, None, fs, enode)
           | Inr found \<Rightarrow> do {
               (rc, fs) \<leftarrow> ext4_dir_iterator_fini fs it;
               if rc \<noteq> EOK then Some (rc, None, fs, enode) else Some (EOK, Some found, fs, enode)
             })
        }
      })"

section \<open>Linking\<close>

type_synonym sorter = "ext4_dx_sort_entry list \<Rightarrow> ext4_dx_sort_entry list"

text \<open>
  A new directory gets its entries \<open>.\<close> and \<open>..\<close>. When that fails the code takes the entry out of the
  parent again, under the name up to the end of the path (\<open>strlen(n)\<close>) instead of \<open>len\<close> bytes of it.
\<close>

definition link_new_dir ::
    "sorter \<Rightarrow> 'd ext4_fs \<Rightarrow> ext4_inode_ref \<Rightarrow> ext4_inode_ref \<Rightarrow> bytes \<Rightarrow>
     (errno \<times> 'd ext4_fs \<times> ext4_inode_ref \<times> ext4_inode_ref) option" where
  "link_new_dir qsort fs parent ch n = do {
     (r, fs, parent, ch) \<leftarrow>
       (if ext4_sb_feature_com (fs_sb fs) EXT4_FCOM_DIR_INDEX
        then do {
          (r, fs, ch) \<leftarrow> ext4_dir_dx_init fs ch parent;
          if r \<noteq> EOK then Some (r, fs, parent, ch)
          else Some (r, ino_upd (\<lambda>i. ext4_inode_set_flag i EXT4_INODE_FLAG_INDEX) fs ch, parent, ch\<lparr>ir_dirty := True\<rparr>)
        }
        else do {
          (r, fs, ch) \<leftarrow> ext4_dir_add_entry qsort fs ch dot ch;
          if r \<noteq> EOK
          then do {
            (_, fs, parent) \<leftarrow> ext4_dir_remove_entry fs parent n;
            Some (r, fs, parent, ch)
          }
          else do {
            (r, fs, ch) \<leftarrow> ext4_dir_add_entry qsort fs ch dotdot parent;
            if r \<noteq> EOK
            then do {
              (_, fs, parent) \<leftarrow> ext4_dir_remove_entry fs parent n;
              (_, fs, ch) \<leftarrow> ext4_dir_remove_entry fs ch dot;
              Some (r, fs, parent, ch)
            }
            else Some (r, fs, parent, ch)
          }
        });
     if r \<noteq> EOK then Some (r, fs, parent, ch)
     else do {
       let fs = ino_upd (\<lambda>i. ext4_inode_set_links_cnt i 2) fs ch;
       let fs = ext4_fs_inode_links_count_inc fs parent;
       Some (r, fs, parent\<lparr>ir_dirty := True\<rparr>, ch\<lparr>ir_dirty := True\<rparr>)
     }
   }"

text \<open>A directory that moves: its entry \<open>..\<close> is pointed to the new parent.\<close>

definition link_moved_dir ::
    "'d ext4_fs \<Rightarrow> ext4_inode_ref \<Rightarrow> ext4_inode_ref \<Rightarrow>
     (errno \<times> 'd ext4_fs \<times> ext4_inode_ref \<times> ext4_inode_ref) option" where
  "link_moved_dir fs parent ch = do {
     (r, fs, ch) \<leftarrow>
       (if \<not> ext4_inode_has_flag (ino_get fs ch) EXT4_INODE_FLAG_INDEX
        then do {
          (r, fs, ch, res) \<leftarrow> ext4_dir_find_entry fs ch dotdot;
          if r \<noteq> EOK then Some (EIO, fs, ch)
          else do {
            pos \<leftarrow> sr_dentry res;
            let data = fs_data fs (sr_block res);
            let fs = fs_dirty (fs_store fs (sr_block res) (put_bytes pos (le_bytes 4 (ir_index parent)) data)) (sr_block res);
            (r, fs) \<leftarrow> ext4_dir_destroy_result fs res;
            Some (r, fs, ch)
          }
        }
        else ext4_dir_dx_reset_parent_inode fs ch (ir_index parent));
     if r \<noteq> EOK then Some (r, fs, parent, ch)
     else Some (r, ext4_fs_inode_links_count_inc fs parent, parent\<lparr>ir_dirty := True\<rparr>, ch)
   }"

definition ext4_link ::
    "sorter \<Rightarrow> 'd ext4_fs \<Rightarrow> ext4_inode_ref \<Rightarrow> ext4_inode_ref \<Rightarrow> bytes \<Rightarrow> nat \<Rightarrow> bool \<Rightarrow>
     (errno \<times> 'd ext4_fs \<times> ext4_inode_ref \<times> ext4_inode_ref) option" where
  "ext4_link qsort fs parent ch n len rename =
     (if len > 255 then Some (EINVAL, fs, parent, ch)
      else do {
        (r, fs, parent) \<leftarrow> ext4_dir_add_entry qsort fs parent (take len n) ch;
        if r \<noteq> EOK then Some (r, fs, parent, ch)
        else do {
          let is_dir = ext4_inode_is_type (fs_sb fs) (ino_get fs ch) EXT4_INODE_MODE_DIRECTORY;
          if is_dir \<and> \<not> rename then link_new_dir qsort fs parent ch n
          else do {
            (r, fs, parent, ch) \<leftarrow> (if is_dir then link_moved_dir fs parent ch else Some (r, fs, parent, ch));
            if r \<noteq> EOK then Some (r, fs, parent, ch)
            else if \<not> rename then Some (r, ext4_fs_inode_links_count_inc fs ch, parent, ch\<lparr>ir_dirty := True\<rparr>)
            else Some (r, fs, parent, ch)
          }
        }
      })"

definition ext4_unlink ::
    "'d ext4_fs \<Rightarrow> ext4_inode_ref \<Rightarrow> ext4_inode_ref \<Rightarrow> bytes \<Rightarrow>
     (errno \<times> 'd ext4_fs \<times> ext4_inode_ref \<times> ext4_inode_ref) option" where
  "ext4_unlink fs parent child name = do {
     (rc, has_children, fs, child) \<leftarrow> ext4_has_children fs child;
     if rc \<noteq> EOK then Some (rc, fs, parent, child)
     else if has_children = Some True then Some (ENOTEMPTY, fs, parent, child)
     else do {
       (rc, fs, parent) \<leftarrow> ext4_dir_remove_entry fs parent name;
       if rc \<noteq> EOK then Some (rc, fs, parent, child)
       else do {
         let is_dir = ext4_inode_is_type (fs_sb fs) (ino_get fs child) EXT4_INODE_MODE_DIRECTORY;
         let (fs, parent) = (if is_dir then (ext4_fs_inode_links_count_dec fs parent, parent\<lparr>ir_dirty := True\<rparr>)
                             else (fs, parent));
         let (fs, child) = (if ext4_inode_get_links_cnt (ino_get fs child) \<noteq> 0
                            then (ext4_fs_inode_links_count_dec fs child, child\<lparr>ir_dirty := True\<rparr>)
                            else (fs, child));
         Some (EOK, fs, parent, child)
       }
     }
   }"

section \<open>Truncating\<close>

definition CONFIG_MAX_TRUNCATE_SIZE :: u64 where "CONFIG_MAX_TRUNCATE_SIZE = 16 * 1024 * 1024"

text \<open>One step: the inode is loaded, truncated and released; the truncation's error wins.\<close>

definition trunc_step :: "'d ext4_fs \<Rightarrow> ext4_inode_ref \<Rightarrow> u64 \<Rightarrow> (errno \<times> 'd ext4_fs) option" where
  "trunc_step fs ir new_size = do {
     (r, fs, ir) \<leftarrow> ext4_fs_truncate_inode fs ir new_size;
     (r', fs) \<leftarrow> ext4_fs_put_inode_ref fs ir;
     Some (if r \<noteq> EOK then r else r', fs)
   }"

text \<open>
  The loop in steps of \<open>CONFIG_MAX_TRUNCATE_SIZE\<close>. \<open>Inl\<close> is an error that ends the function; an inode
  that cannot be loaded ends only the loop.
\<close>

partial_function (option) trunc_loop ::
    "'d ext4_fs \<Rightarrow> u32 \<Rightarrow> u64 \<Rightarrow> u64 \<Rightarrow> errno \<Rightarrow> ((errno + errno \<times> u64) \<times> 'd ext4_fs) option" where
  "trunc_loop fs index inode_size new_size r =
     (if inode_size > new_size + CONFIG_MAX_TRUNCATE_SIZE
      then let inode_size = inode_size - CONFIG_MAX_TRUNCATE_SIZE
           in Option.bind (ext4_fs_get_inode_ref fs index)
                (\<lambda>(r, fs, ir).
                   if r \<noteq> EOK then Some (Inr (r, inode_size), fs)
                   else Option.bind (trunc_step fs ir inode_size)
                          (\<lambda>(r, fs). if r \<noteq> EOK then Some (Inl r, fs)
                                     else trunc_loop fs index inode_size new_size r))
      else Some (Inr (r, inode_size), fs))"

definition ext4_trunc_inode :: "'d ext4_fs \<Rightarrow> u32 \<Rightarrow> u64 \<Rightarrow> (errno \<times> 'd ext4_fs) option" where
  "ext4_trunc_inode fs index new_size = do {
     (r, fs, ir) \<leftarrow> ext4_fs_get_inode_ref fs index;
     if r \<noteq> EOK then Some (r, fs)
     else do {
       let inode_size = ext4_inode_get_size (fs_sb fs) (ino_get fs ir);
       (_, fs) \<leftarrow> ext4_fs_put_inode_ref fs ir;
       (res, fs) \<leftarrow> trunc_loop fs index inode_size new_size r;
       (case res of
          Inl r \<Rightarrow> Some (r, fs)
        | Inr (r, inode_size) \<Rightarrow>
            if inode_size > new_size
            then do {
              (r, fs, ir) \<leftarrow> ext4_fs_get_inode_ref fs index;
              if r \<noteq> EOK then Some (r, fs) else trunc_step fs ir new_size
            }
            else Some (r, fs))
     }
   }"

definition ext4_trunc_dir ::
    "'d ext4_fs \<Rightarrow> ext4_inode_ref \<Rightarrow> ext4_inode_ref \<Rightarrow> (errno \<times> 'd ext4_fs \<times> ext4_inode_ref) option" where
  "ext4_trunc_dir fs parent dir =
     (if \<not> ext4_inode_is_type (fs_sb fs) (ino_get fs dir) EXT4_INODE_MODE_DIRECTORY then Some (EINVAL, fs, dir)
      else do {
        let block_size = ext4_sb_get_block_size (fs_sb fs);
        (r, fs, dir) \<leftarrow>
          (if ext4_sb_feature_com (fs_sb fs) EXT4_FCOM_DIR_INDEX
           then do {
             (r, fs, dir) \<leftarrow> ext4_dir_dx_init fs dir parent;
             if r \<noteq> EOK then Some (r, fs, dir)
             else do {
               (r, fs) \<leftarrow> ext4_trunc_inode fs (ir_index dir) (EXT4_DIR_DX_INIT_BCNT * ucast block_size);
               Some (r, fs, dir)
             }
           }
           else do {
             (r, fs) \<leftarrow> ext4_trunc_inode fs (ir_index dir) (ucast block_size);
             Some (r, fs, dir)
           });
        if r \<noteq> EOK then Some (r, fs, dir) else ext4_fs_truncate_inode fs dir 0
      })"

section \<open>Paths\<close>

text \<open>
  \<open>ext4_path_check\<close>: the length of the first component and whether it ends the path. After 255 bytes
  without an end the answer is 0 and \<open>is_goal\<close> stays what it was, \<open>None\<close>.
\<close>

fun path_scan :: "nat \<Rightarrow> bytes \<Rightarrow> nat \<Rightarrow> nat \<times> bool option" where
  "path_scan 0 path i = (0, None)"
| "path_scan (Suc n) [] i = (i, Some True)"
| "path_scan (Suc n) (c # path) i = (if c = slash then (i, Some False) else path_scan n path (i + 1))"

definition ext4_path_check :: "bytes \<Rightarrow> nat \<times> bool option" where
  "ext4_path_check path = path_scan 255 path 0"

definition O_RDONLY :: u32 where "O_RDONLY = 0"
definition O_WRONLY :: u32 where "O_WRONLY = 1"
definition O_RDWR :: u32 where "O_RDWR = 2"
definition O_CREAT :: u32 where "O_CREAT = 64"
definition O_TRUNC :: u32 where "O_TRUNC = 512"
definition O_APPEND :: u32 where "O_APPEND = 1024"

definition ext4_parse_flags :: "string \<Rightarrow> u32 option" where
  "ext4_parse_flags flags =
     (if flags \<in> {''r'', ''rb''} then Some O_RDONLY
      else if flags \<in> {''w'', ''wb''} then Some (O_WRONLY OR O_CREAT OR O_TRUNC)
      else if flags \<in> {''a'', ''ab''} then Some (O_WRONLY OR O_CREAT OR O_APPEND)
      else if flags \<in> {''r+'', ''rb+'', ''r+b''} then Some O_RDWR
      else if flags \<in> {''w+'', ''wb+'', ''w+b''} then Some (O_RDWR OR O_CREAT OR O_TRUNC)
      else if flags \<in> {''a+'', ''ab+'', ''a+b''} then Some (O_RDWR OR O_CREAT OR O_APPEND)
      else None)"

text \<open>The type of the inode that an entry names, from the entry or from the inode itself.\<close>

definition entry_mode ::
    "'d ext4_fs \<Rightarrow> ext4_dir_en \<Rightarrow> (errno \<times> u32 \<times> 'd ext4_fs) option" where
  "entry_mode fs en =
     (if ext4_sb_feature_incom (fs_sb fs) EXT4_FINCOM_FILETYPE
      then Some (EOK, ext4_fs_correspond_inode_mode (ext4_dir_en_get_inode_type (fs_sb fs) en), fs)
      else do {
        (r, fs, child) \<leftarrow> ext4_fs_get_inode_ref fs (en_inode en);
        if r \<noteq> EOK then Some (r, 0, fs)
        else do {
          let imode = ext4_inode_type (fs_sb fs) (ino_get fs child);
          (_, fs) \<leftarrow> ext4_fs_put_inode_ref fs child;
          Some (EOK, imode, fs)
        }
      })"

text \<open>A missing component with \<open>O_CREAT\<close>: a new inode, linked into the directory.\<close>

definition open_create ::
    "sorter \<Rightarrow> 'd ext4_fs \<Rightarrow> ext4_inode_ref \<Rightarrow> bytes \<Rightarrow> nat \<Rightarrow> u8 \<Rightarrow>
     (errno \<times> 'd ext4_fs \<times> ext4_inode_ref) option" where
  "open_create qsort fs ref path len filetype = do {
     (r, fs, child) \<leftarrow> ext4_fs_alloc_inode fs filetype;
     if r \<noteq> EOK then Some (r, fs, ref)
     else (case ext4_fs_inode_blocks_init fs child of (fs, child) \<Rightarrow> do {
       (r, fs, ref, child) \<leftarrow> ext4_link qsort fs ref child path len False;
       if r \<noteq> EOK
       then do {
         (_, fs, child) \<leftarrow> ext4_fs_free_inode fs child;
         (_, fs) \<leftarrow> ext4_fs_put_inode_ref fs (child\<lparr>ir_dirty := False\<rparr>);
         Some (r, fs, ref)
       }
       else do {
         (_, fs) \<leftarrow> ext4_fs_put_inode_ref fs child;
         Some (EOK, fs, ref)
       }
     })
   }"

text \<open>
  What a walk has reached: the directory or file, the type of its inode, the directory that the
  last component was looked up in, and the offset of that component. A reference that was put
  back and not loaded again is \<open>inode_ref_undef\<close>; putting it back a second time fails.
\<close>

record walk =
  w_ref :: ext4_inode_ref
  w_imode :: u32
  w_parent :: u32
  w_name_off :: nat

definition open_step ::
    "'d ext4_fs \<Rightarrow> walk \<Rightarrow> ext4_dir_search_result \<Rightarrow> u8 \<Rightarrow> bool \<Rightarrow> (errno \<times> 'd ext4_fs \<times> walk) option" where
  "open_step fs w result ftype is_goal = do {
     let w = w\<lparr>w_parent := ir_index (w_ref w)\<rparr>;
     pos \<leftarrow> sr_dentry result;
     let en = de_at (fs_data fs (sr_block result)) pos;
     (r, imode, fs) \<leftarrow> entry_mode fs en;
     if r \<noteq> EOK then Some (r, fs, w)
     else do {
       let w = w\<lparr>w_imode := imode\<rparr>;
       (r, fs) \<leftarrow> ext4_dir_destroy_result fs result;
       if r \<noteq> EOK then Some (r, fs, w)
       else if imode \<noteq> EXT4_INODE_MODE_DIRECTORY \<and> \<not> is_goal then Some (ENOENT, fs, w)
       else if ftype \<noteq> EXT4_DE_UNKNOWN \<and> imode \<noteq> ext4_fs_correspond_inode_mode ftype \<and> is_goal
       then Some (ENOENT, fs, w)
       else do {
         (r, fs) \<leftarrow> ext4_fs_put_inode_ref fs (w_ref w);
         let w = w\<lparr>w_ref := inode_ref_undef\<rparr>;
         if r \<noteq> EOK then Some (r, fs, w)
         else do {
           (r, fs, ref) \<leftarrow> ext4_fs_get_inode_ref fs (en_inode en);
           Some (r, fs, w\<lparr>w_ref := ref\<rparr>)
         }
       }
     }
   }"

partial_function (option) open_walk ::
    "sorter \<Rightarrow> 'd ext4_fs \<Rightarrow> walk \<Rightarrow> u32 \<Rightarrow> u8 \<Rightarrow> bytes \<Rightarrow> bool \<Rightarrow> (errno \<times> 'd ext4_fs \<times> walk) option" where
  "open_walk qsort fs w flags ftype path is_goal =
     (case ext4_path_check path of (len, goal) \<Rightarrow>
        let is_goal = (case goal of None \<Rightarrow> is_goal | Some g \<Rightarrow> g)
        in if len = 0
           then (if (ftype = EXT4_DE_DIR \<or> ftype = EXT4_DE_UNKNOWN) \<and> is_goal then Some (EOK, fs, w)
                 else Some (ENOENT, fs, w))
           else Option.bind (ext4_dir_find_entry fs (w_ref w) (take len path))
             (\<lambda>(r, fs, ref, result).
                let w = w\<lparr>w_ref := ref\<rparr>
                in if r \<noteq> EOK
                   then Option.bind (ext4_dir_destroy_result fs result)
                          (\<lambda>(_, fs).
                             if r \<noteq> ENOENT then Some (r, fs, w)
                             else if flags AND O_CREAT = 0 then Some (r, fs, w)
                             else Option.bind
                                    (open_create qsort fs (w_ref w) path len (if is_goal then ftype else EXT4_DE_DIR))
                                    (\<lambda>(r, fs, ref).
                                       if r \<noteq> EOK then Some (r, fs, w\<lparr>w_ref := ref\<rparr>)
                                       else open_walk qsort fs (w\<lparr>w_ref := ref\<rparr>) flags ftype path is_goal))
                   else Option.bind (open_step fs w result ftype is_goal)
                          (\<lambda>(r, fs, w).
                             if r \<noteq> EOK then Some (r, fs, w)
                             else if is_goal then Some (EOK, fs, w)
                             else open_walk qsort fs (w\<lparr>w_name_off := w_name_off w + len + 1\<rparr>) flags ftype
                                    (drop (len + 1) path) is_goal)))"

end
