(* ===== verification/Open.thy ===== *)
theory Open
  imports Path
begin

text \<open>
  Opening by path, links, renaming and removing files: the functions of \<open>src/ext4.c\<close> that begin
  with \<open>ext4_generic_open2\<close>. The functions \<open>fs_*\<close> are their parts on one file system; the functions
  with the names of the code find the mount point, run the part and put the file system back.
  A rename to another mount point has no answer here (\<open>None\<close>): the code links the inode number into
  a file system that it does not belong to.
\<close>

section \<open>Opening\<close>

record ext4_file =
  f_mp :: "nat option"
  f_inode :: u32
  f_flags :: u32
  f_fsize :: u64
  f_fpos :: u64

text \<open>
  The answer has the file when it was filled in, which can go with an error of the last release,
  the directory of the last component and the offset of its name in the path.
\<close>

definition fs_open2 ::
    "sorter \<Rightarrow> 'd ext4_fs \<Rightarrow> nat \<Rightarrow> nat \<Rightarrow> bytes \<Rightarrow> u32 \<Rightarrow> u8 \<Rightarrow>
     (errno \<times> 'd ext4_fs \<times> ext4_file option \<times> u32 \<times> nat) option" where
  "fs_open2 qsort fs mp name_off path flags ftype =
     (if fs_read_only fs \<and> flags AND O_CREAT \<noteq> 0 then Some (EROFS, fs, None, 0, 0)
      else do {
        (r, fs, ref) \<leftarrow> ext4_fs_get_inode_ref fs 2;
        if r \<noteq> EOK then Some (r, fs, None, 0, name_off)
        else do {
          (r, fs, w) \<leftarrow> open_walk qsort fs
            \<lparr>w_ref = ref, w_imode = EXT4_INODE_MODE_DIRECTORY, w_parent = ir_index ref, w_name_off = name_off\<rparr>
            flags ftype path False;
          if r \<noteq> EOK
          then do {
            (_, fs) \<leftarrow> ext4_fs_put_inode_ref fs (w_ref w);
            Some (r, fs, None, w_parent w, w_name_off w)
          }
          else do {
            let ref = w_ref w;
            (r, fs) \<leftarrow> (if flags AND O_TRUNC \<noteq> 0 \<and> w_imode w = EXT4_INODE_MODE_FILE
                        then ext4_trunc_inode fs (ir_index ref) 0 else Some (EOK, fs));
            if r \<noteq> EOK
            then do {
              (_, fs) \<leftarrow> ext4_fs_put_inode_ref fs ref;
              Some (r, fs, None, w_parent w, w_name_off w)
            }
            else do {
              let fsize = ext4_inode_get_size (fs_sb fs) (ino_get fs ref);
              let f = \<lparr>f_mp = Some mp, f_inode = ir_index ref, f_flags = flags, f_fsize = fsize,
                       f_fpos = (if flags AND O_APPEND \<noteq> 0 then fsize else 0)\<rparr>;
              (r, fs) \<leftarrow> ext4_fs_put_inode_ref fs ref;
              Some (r, fs, Some f, w_parent w, w_name_off w)
            }
          }
        }
      })"

definition ext4_generic_open2 ::
    "sorter \<Rightarrow> 'd ext4_api \<Rightarrow> bytes \<Rightarrow> u32 \<Rightarrow> u8 \<Rightarrow>
     (errno \<times> 'd ext4_api \<times> ext4_file option \<times> u32 \<times> nat) option" where
  "ext4_generic_open2 qsort st path flags ftype =
     (case ext4_get_mount st path of
        None \<Rightarrow> Some (ENOENT, st, None, 0, 0)
      | Some mp \<Rightarrow> do {
          fs \<leftarrow> mp_load st mp;
          let name_off = length (mp_name (s_mp st ! mp));
          (r, fs, f, parent, name_off) \<leftarrow> fs_open2 qsort fs mp name_off (drop name_off path) flags ftype;
          Some (r, mp_save st mp fs, f, parent, name_off)
        })"

definition ext4_generic_open ::
    "sorter \<Rightarrow> 'd ext4_api \<Rightarrow> bytes \<Rightarrow> string \<Rightarrow> bool \<Rightarrow>
     (errno \<times> 'd ext4_api \<times> ext4_file option \<times> u32 \<times> nat) option" where
  "ext4_generic_open qsort st path flags file_expect =
     (case ext4_parse_flags flags of
        None \<Rightarrow> Some (EINVAL, st, None, 0, 0)
      | Some iflags \<Rightarrow>
          ext4_generic_open2 qsort st path iflags (if file_expect then EXT4_DE_REG_FILE else EXT4_DE_DIR))"

text \<open>A step on the file system of mount point \<open>mp\<close>.\<close>

definition mp_write_back :: "'d ext4_api \<Rightarrow> nat \<Rightarrow> bool \<Rightarrow> 'd ext4_api option" where
  "mp_write_back st mp on = do {
     fs \<leftarrow> mp_load st mp;
     (_, fs) \<leftarrow> fs_write_back fs on;
     Some (mp_save st mp fs)
   }"

definition ext4_fopen ::
    "sorter \<Rightarrow> 'd ext4_api \<Rightarrow> bytes \<Rightarrow> string \<Rightarrow> (errno \<times> 'd ext4_api \<times> ext4_file option) option" where
  "ext4_fopen qsort st path flags =
     (case ext4_get_mount st path of
        None \<Rightarrow> Some (ENOENT, st, None)
      | Some mp \<Rightarrow> do {
          st \<leftarrow> mp_write_back st mp True;
          (r, st, f, _) \<leftarrow> ext4_generic_open qsort st path flags True;
          st \<leftarrow> mp_write_back st mp False;
          Some (r, st, f)
        })"

definition ext4_fopen2 ::
    "sorter \<Rightarrow> 'd ext4_api \<Rightarrow> bytes \<Rightarrow> u32 \<Rightarrow> (errno \<times> 'd ext4_api \<times> ext4_file option) option" where
  "ext4_fopen2 qsort st path flags =
     (case ext4_get_mount st path of
        None \<Rightarrow> Some (ENOENT, st, None)
      | Some mp \<Rightarrow> do {
          st \<leftarrow> mp_write_back st mp True;
          (r, st, f, _) \<leftarrow> ext4_generic_open2 qsort st path flags EXT4_DE_REG_FILE;
          st \<leftarrow> mp_write_back st mp False;
          Some (r, st, f)
        })"

definition ext4_fclose :: "ext4_file \<Rightarrow> (errno \<times> ext4_file) option" where
  "ext4_fclose file =
     (if f_mp file = None then None
      else Some (EOK, \<lparr>f_mp = None, f_inode = 0, f_flags = 0, f_fsize = 0, f_fpos = 0\<rparr>))"

section \<open>Hard links\<close>

text \<open>The walk to the directory of a new name; the name must not be there.\<close>

partial_function (option) link_walk ::
    "sorter \<Rightarrow> 'd ext4_fs \<Rightarrow> ext4_inode_ref \<Rightarrow> ext4_inode_ref \<Rightarrow> bytes \<Rightarrow> bool \<Rightarrow> bool \<Rightarrow>
     (errno \<times> 'd ext4_fs \<times> ext4_inode_ref \<times> ext4_inode_ref) option" where
  "link_walk qsort fs ref child path rename is_goal =
     (case ext4_path_check path of (len, goal) \<Rightarrow>
        let is_goal = (case goal of None \<Rightarrow> is_goal | Some g \<Rightarrow> g)
        in if len = 0 then Some (if is_goal then EINVAL else ENOENT, fs, ref, child)
           else Option.bind (ext4_dir_find_entry fs ref (take len path))
             (\<lambda>(r, fs, ref, result).
                if r \<noteq> EOK
                then Option.bind (ext4_dir_destroy_result fs result)
                       (\<lambda>(_, fs).
                          if r \<noteq> ENOENT \<or> \<not> is_goal then Some (r, fs, ref, child)
                          else ext4_link qsort fs ref child path len rename)
                else if is_goal
                then Option.bind (ext4_dir_destroy_result fs result) (\<lambda>(_, fs). Some (EEXIST, fs, ref, child))
                else Option.bind (sr_dentry result)
                  (\<lambda>pos. let en = de_at (fs_data fs (sr_block result)) pos
                   in Option.bind (entry_mode fs en)
                     (\<lambda>(r, inode_mode, fs).
                        if r \<noteq> EOK then Some (r, fs, ref, child)
                        else Option.bind (ext4_dir_destroy_result fs result)
                          (\<lambda>(r, fs).
                             if r \<noteq> EOK then Some (r, fs, ref, child)
                             else if inode_mode \<noteq> EXT4_INODE_MODE_DIRECTORY then Some (ENOENT, fs, ref, child)
                             else Option.bind (ext4_fs_put_inode_ref fs ref)
                               (\<lambda>(r, fs).
                                  if r \<noteq> EOK then Some (r, fs, inode_ref_undef, child)
                                  else Option.bind (ext4_fs_get_inode_ref fs (en_inode en))
                                    (\<lambda>(r, fs, ref).
                                       if r \<noteq> EOK then Some (r, fs, ref, child)
                                       else link_walk qsort fs ref child (drop (len + 1) path) rename is_goal)))))))"

definition fs_create_hardlink ::
    "sorter \<Rightarrow> 'd ext4_fs \<Rightarrow> bytes \<Rightarrow> ext4_inode_ref \<Rightarrow> bool \<Rightarrow>
     (errno \<times> 'd ext4_fs \<times> ext4_inode_ref) option" where
  "fs_create_hardlink qsort fs path child rename = do {
     (r, fs, ref) \<leftarrow> ext4_fs_get_inode_ref fs 2;
     if r \<noteq> EOK then Some (r, fs, child)
     else do {
       (r, fs, ref, child) \<leftarrow> link_walk qsort fs ref child path rename False;
       (r', fs) \<leftarrow> ext4_fs_put_inode_ref fs ref;
       Some (if r \<noteq> EOK then r else r', fs, child)
     }
   }"

text \<open>\<open>None\<close> for a path on another mount point than \<open>mp\<close>, which only a rename gets to.\<close>

definition ext4_create_hardlink ::
    "sorter \<Rightarrow> 'd ext4_api \<Rightarrow> nat \<Rightarrow> 'd ext4_fs \<Rightarrow> bytes \<Rightarrow> ext4_inode_ref \<Rightarrow> bool \<Rightarrow>
     (errno \<times> 'd ext4_fs \<times> ext4_inode_ref) option" where
  "ext4_create_hardlink qsort st mp fs path child rename =
     (case ext4_get_mount st path of
        None \<Rightarrow> Some (ENOENT, fs, child)
      | Some mp' \<Rightarrow>
          if mp' \<noteq> mp then None
          else fs_create_hardlink qsort fs (drop (length (mp_name (s_mp st ! mp))) path) child rename)"

definition ext4_remove_orig_reference ::
    "'d ext4_fs \<Rightarrow> bytes \<Rightarrow> nat \<Rightarrow> ext4_inode_ref \<Rightarrow> ext4_inode_ref \<Rightarrow>
     (errno \<times> 'd ext4_fs \<times> ext4_inode_ref) option" where
  "ext4_remove_orig_reference fs path name_off parent child = do {
     let path = drop name_off path;
     let len = fst (ext4_path_check path);
     (r, fs, parent) \<leftarrow> ext4_dir_remove_entry fs parent (take len path);
     if r \<noteq> EOK then Some (r, fs, parent)
     else if ext4_inode_is_type (fs_sb fs) (ino_get fs child) EXT4_INODE_MODE_DIRECTORY
     then Some (r, ext4_fs_inode_links_count_dec fs parent, parent\<lparr>ir_dirty := True\<rparr>)
     else Some (r, fs, parent)
   }"

text \<open>The path is opened and closed again; what follows works with the number of the inode.\<close>

definition resolve ::
    "sorter \<Rightarrow> 'd ext4_api \<Rightarrow> bytes \<Rightarrow> (errno \<times> 'd ext4_api \<times> u32 \<times> u32 \<times> nat) option" where
  "resolve qsort st path = do {
     (r, st, f, parent, name_off) \<leftarrow> ext4_generic_open2 qsort st path O_RDONLY EXT4_DE_UNKNOWN;
     if r \<noteq> EOK then Some (r, st, 0, parent, name_off)
     else do {
       f \<leftarrow> f;
       _ \<leftarrow> ext4_fclose f;
       Some (r, st, f_inode f, parent, name_off)
     }
   }"

definition ext4_flink ::
    "sorter \<Rightarrow> 'd ext4_api \<Rightarrow> bytes \<Rightarrow> bytes \<Rightarrow> (errno \<times> 'd ext4_api) option" where
  "ext4_flink qsort st path hardlink_path =
     (case ext4_get_mount st path of
        None \<Rightarrow> Some (ENOENT, st)
      | Some mp \<Rightarrow>
          if fs_read_only (mp_fs (s_mp st ! mp)) then Some (EROFS, st)
          else if ext4_get_mount st hardlink_path \<noteq> Some mp then Some (EINVAL, st)
          else do {
            (r, st, child_inode, _) \<leftarrow> resolve qsort st path;
            if r \<noteq> EOK then Some (r, st)
            else do {
              fs \<leftarrow> mp_load st mp;
              (r, fs, child) \<leftarrow> ext4_fs_get_inode_ref fs child_inode;
              if r \<noteq> EOK then Some (r, mp_save st mp fs)
              else do {
                (r, fs, child) \<leftarrow>
                  (if ext4_inode_is_type (fs_sb fs) (ino_get fs child) EXT4_INODE_MODE_DIRECTORY
                   then Some (EINVAL, fs, child)
                   else ext4_create_hardlink qsort st mp fs hardlink_path child False);
                (_, fs) \<leftarrow> ext4_fs_put_inode_ref fs child;
                Some (r, mp_save st mp fs)
              }
            }
          })"

definition ext4_frename ::
    "sorter \<Rightarrow> 'd ext4_api \<Rightarrow> bytes \<Rightarrow> bytes \<Rightarrow> (errno \<times> 'd ext4_api) option" where
  "ext4_frename qsort st path new_path =
     (case ext4_get_mount st path of
        None \<Rightarrow> Some (ENOENT, st)
      | Some mp \<Rightarrow>
          if fs_read_only (mp_fs (s_mp st ! mp)) then Some (EROFS, st)
          else do {
            (r, st, child_inode, parent_inode, name_off) \<leftarrow> resolve qsort st path;
            if r \<noteq> EOK then Some (r, st)
            else do {
              fs \<leftarrow> mp_load st mp;
              (r, fs, parent) \<leftarrow> ext4_fs_get_inode_ref fs parent_inode;
              if r \<noteq> EOK then Some (r, mp_save st mp fs)
              else do {
                (r, fs, child) \<leftarrow> ext4_fs_get_inode_ref fs child_inode;
                if r \<noteq> EOK
                then do {
                  (_, fs) \<leftarrow> ext4_fs_put_inode_ref fs parent;
                  Some (r, mp_save st mp fs)
                }
                else do {
                  (r, fs, child) \<leftarrow> ext4_create_hardlink qsort st mp fs new_path child True;
                  (r, fs, parent) \<leftarrow>
                    (if r \<noteq> EOK then Some (r, fs, parent)
                     else ext4_remove_orig_reference fs path name_off parent child);
                  (_, fs) \<leftarrow> ext4_fs_put_inode_ref fs parent;
                  (_, fs) \<leftarrow> ext4_fs_put_inode_ref fs child;
                  Some (r, mp_save st mp fs)
                }
              }
            }
          })"

section \<open>Removing a file\<close>

text \<open>A directory is left alone and the answer is the \<open>EOK\<close> of loading it.\<close>

definition fs_remove ::
    "'d ext4_fs \<Rightarrow> u32 \<Rightarrow> u32 \<Rightarrow> bytes \<Rightarrow> (errno \<times> 'd ext4_fs) option" where
  "fs_remove fs parent_inode child_inode path = do {
     (r, fs, parent) \<leftarrow> ext4_fs_get_inode_ref fs parent_inode;
     if r \<noteq> EOK then Some (r, fs)
     else do {
       (r, fs, child) \<leftarrow> ext4_fs_get_inode_ref fs child_inode;
       if r \<noteq> EOK
       then do { (_, fs) \<leftarrow> ext4_fs_put_inode_ref fs parent; Some (r, fs) }
       else if ext4_inode_type (fs_sb fs) (ino_get fs child) = EXT4_INODE_MODE_DIRECTORY
       then do {
         (_, fs) \<leftarrow> ext4_fs_put_inode_ref fs parent;
         (_, fs) \<leftarrow> ext4_fs_put_inode_ref fs child;
         Some (r, fs)
       }
       else do {
         (r, fs) \<leftarrow>
           (if ext4_inode_get_links_cnt (ino_get fs child) = 1
            then do {
              (_, fs) \<leftarrow> fs_write_back fs True;
              (r, fs) \<leftarrow> ext4_trunc_inode fs (ir_index child) 0;
              if r \<noteq> EOK then Some (r, fs)
              else do { (_, fs) \<leftarrow> fs_write_back fs False; Some (EOK, fs) }
            }
            else Some (EOK, fs));
         if r \<noteq> EOK
         then do {
           (_, fs) \<leftarrow> ext4_fs_put_inode_ref fs parent;
           (_, fs) \<leftarrow> ext4_fs_put_inode_ref fs child;
           Some (r, fs)
         }
         else do {
           let len = fst (ext4_path_check path);
           (r, fs, parent, child) \<leftarrow> ext4_unlink fs parent child (take len path);
           (r, fs, child) \<leftarrow>
             (if r = EOK \<and> ext4_inode_get_links_cnt (ino_get fs child) = 0
              then ext4_fs_free_inode (ino_upd (\<lambda>i. ext4_inode_set_del_time i (- 1)) fs child) child
              else Some (r, fs, child));
           (_, fs) \<leftarrow> ext4_fs_put_inode_ref fs child;
           (_, fs) \<leftarrow> ext4_fs_put_inode_ref fs parent;
           Some (r, fs)
         }
       }
     }
   }"

definition ext4_fremove :: "sorter \<Rightarrow> 'd ext4_api \<Rightarrow> bytes \<Rightarrow> (errno \<times> 'd ext4_api) option" where
  "ext4_fremove qsort st path =
     (case ext4_get_mount st path of
        None \<Rightarrow> Some (ENOENT, st)
      | Some mp \<Rightarrow>
          if fs_read_only (mp_fs (s_mp st ! mp)) then Some (EROFS, st)
          else do {
            (r, st, child_inode, parent_inode, name_off) \<leftarrow> resolve qsort st path;
            if r \<noteq> EOK then Some (r, st)
            else do {
              fs \<leftarrow> mp_load st mp;
              (r, fs) \<leftarrow> fs_remove fs parent_inode child_inode (drop name_off path);
              Some (r, mp_save st mp fs)
            }
          })"

end
