(* ===== verification/File.thy ===== *)
theory File
  imports Open
begin

text \<open>
  Reading, writing, seeking and truncating open files, \<open>src/ext4.c\<close>. The functions \<open>fs_*\<close> work on
  the file system of the file's mount point. What a read has stored in the caller's buffer is the
  list of bytes in its answer; the counts \<open>rcnt\<close> and \<open>wcnt\<close> are \<open>None\<close> when they are not stored.
  \<open>None\<close> as a whole is the use of a variable without a value.
\<close>

section \<open>Truncating\<close>

text \<open>Write-back mode stays on when truncating the inode fails.\<close>

definition fs_ftruncate ::
    "'d ext4_fs \<Rightarrow> ext4_file \<Rightarrow> u64 \<Rightarrow> (errno \<times> 'd ext4_fs \<times> ext4_file) option" where
  "fs_ftruncate fs file new_size = do {
     (r, fs, ref) \<leftarrow> ext4_fs_get_inode_ref fs (f_inode file);
     if r \<noteq> EOK then Some (r, fs, file)
     else do {
       let file = file\<lparr>f_fsize := ext4_inode_get_size (fs_sb fs) (ino_get fs ref)\<rparr>;
       (r, fs, file) \<leftarrow>
         (if f_fsize file \<le> new_size then Some (EOK, fs, file)
          else do {
            (r, fs) \<leftarrow> fs_write_back fs True;
            if r \<noteq> EOK then Some (r, fs, file)
            else do {
              (r, fs) \<leftarrow> ext4_trunc_inode fs (ir_index ref) new_size;
              if r \<noteq> EOK then Some (r, fs, file)
              else do {
                let file = file\<lparr>f_fsize := new_size, f_fpos := min (f_fpos file) new_size\<rparr>;
                (_, fs) \<leftarrow> fs_write_back fs False;
                Some (r, fs, file)
              }
            }
          });
       (_, fs) \<leftarrow> ext4_fs_put_inode_ref fs ref;
       Some (r, fs, file)
     }
   }"

text \<open>\<open>O_RDONLY\<close> is 0, so the test of the flags never refuses a file.\<close>

definition ext4_ftruncate ::
    "'d ext4_api \<Rightarrow> ext4_file \<Rightarrow> u64 \<Rightarrow> (errno \<times> 'd ext4_api \<times> ext4_file) option" where
  "ext4_ftruncate st f new_size = do {
     mp \<leftarrow> f_mp f;
     if fs_read_only (mp_fs (s_mp st ! mp)) then Some (EROFS, st, f)
     else if f_flags f AND O_RDONLY \<noteq> 0 then Some (EPERM, st, f)
     else do {
       fs \<leftarrow> mp_load st mp;
       (r, fs, f) \<leftarrow> fs_ftruncate fs f new_size;
       Some (r, mp_save st mp fs, f)
     }
   }"

section \<open>Reading\<close>

text \<open>
  The state of a transfer: file system, inode, the next logical block, the physical block looked
  up last, the run of physical blocks collected so far.
\<close>

record 'd transfer =
  t_fs :: "'d ext4_fs"
  t_ref :: ext4_inode_ref
  t_iblock :: u32
  t_fblock :: "u64 option"
  t_start :: u64
  t_count :: u32

text \<open>The inner loop of a read: the run grows while the blocks are adjacent.\<close>

fun read_run :: "nat \<Rightarrow> 'd transfer \<Rightarrow> u32 \<Rightarrow> (errno \<times> 'd transfer) option" where
  "read_run 0 t iblock_last = Some (EOK, t)"
| "read_run (Suc n) t iblock_last =
     (if t_iblock t < iblock_last
      then do {
        (r, fs, ref, fblock) \<leftarrow> ext4_fs_get_inode_dblk_idx (t_fs t) (t_ref t) (t_iblock t) True;
        let t = t\<lparr>t_fs := fs, t_ref := ref\<rparr>;
        if r \<noteq> EOK then Some (r, t)
        else (case fblock of None \<Rightarrow> None | Some fblock \<Rightarrow>
          (let t = t\<lparr>t_fblock := Some fblock, t_iblock := t_iblock t + 1,
                     t_start := (if t_start t = 0 then fblock else t_start t)\<rparr>
           in if t_start t + ucast (t_count t) \<noteq> fblock then Some (EOK, t)
              else read_run n (t\<lparr>t_count := t_count t + 1\<rparr>) iblock_last))
      }
      else Some (EOK, t))"

text \<open>\<open>run_bytes\<close> is \<open>block_size * fblock_count\<close>, a product of 32-bit numbers.\<close>

definition run_bytes :: "u32 \<Rightarrow> 'd transfer \<Rightarrow> u64" where
  "run_bytes block_size t = ucast (block_size * t_count t)"

partial_function (option) read_blocks ::
    "'d transfer \<Rightarrow> u32 \<Rightarrow> u32 \<Rightarrow> u64 \<Rightarrow> bytes \<Rightarrow> u64 \<Rightarrow>
     (errno \<times> 'd transfer \<times> u64 \<times> bytes \<times> u64) option" where
  "read_blocks t block_size iblock_last left buf done =
     (if left \<ge> ucast block_size
      then Option.bind (read_run (unat (iblock_last - t_iblock t)) t iblock_last)
        (\<lambda>(r, t).
           if r \<noteq> EOK then Some (r, t, left, buf, done)
           else Option.bind (ext4_blocks_get_direct (fs_bdev (t_fs t)) (t_start t) (t_count t))
             (\<lambda>(r, data, bdev).
                let t = t\<lparr>t_fs := (t_fs t)\<lparr>fs_bdev := bdev\<rparr>\<rparr>
                in if r \<noteq> EOK then Some (r, t, left, buf, done)
                   else let n = run_bytes block_size t
                        in Option.bind (t_fblock t)
                             (\<lambda>fblock. read_blocks (t\<lparr>t_start := fblock, t_count := 1\<rparr>) block_size iblock_last
                                          (left - n) (buf @ data) (done + n))))
      else Some (EOK, t, left, buf, done))"

text \<open>
  The part before the first block boundary: a block without a place on the device reads as zeros.
  The answer has the bytes.
\<close>

definition read_head ::
    "'d transfer \<Rightarrow> u32 \<Rightarrow> u32 \<Rightarrow> u64 \<Rightarrow> (errno \<times> 'd transfer \<times> bytes) option" where
  "read_head t block_size unalg len = do {
     (r, fs, ref, fblock) \<leftarrow> ext4_fs_get_inode_dblk_idx (t_fs t) (t_ref t) (t_iblock t) True;
     let t = t\<lparr>t_fs := fs, t_ref := ref, t_fblock := fblock\<rparr>;
     if r \<noteq> EOK then Some (r, t, [])
     else (case fblock of None \<Rightarrow> None | Some fblock \<Rightarrow>
       if fblock \<noteq> 0
       then do {
         let off = fblock * ucast block_size + ucast unalg;
         (r, data, bdev) \<leftarrow> ext4_block_readbytes (fs_bdev fs) off (ucast len);
         Some (r, t\<lparr>t_fs := fs\<lparr>fs_bdev := bdev\<rparr>, t_iblock := t_iblock t + 1\<rparr>, data)
       }
       else Some (EOK, t\<lparr>t_iblock := t_iblock t + 1\<rparr>, replicate (unat len) 0))
   }"

text \<open>The part behind the last block boundary; a block without a place is read from block 0.\<close>

definition read_tail ::
    "'d transfer \<Rightarrow> u32 \<Rightarrow> u64 \<Rightarrow> (errno \<times> 'd transfer \<times> bytes) option" where
  "read_tail t block_size left = do {
     (r, fs, ref, fblock) \<leftarrow> ext4_fs_get_inode_dblk_idx (t_fs t) (t_ref t) (t_iblock t) True;
     let t = t\<lparr>t_fs := fs, t_ref := ref\<rparr>;
     if r \<noteq> EOK then Some (r, t, [])
     else (case fblock of None \<Rightarrow> None | Some fblock \<Rightarrow> do {
       (r, data, bdev) \<leftarrow> ext4_block_readbytes (fs_bdev fs) (fblock * ucast block_size) (ucast left);
       Some (r, t\<lparr>t_fs := fs\<lparr>fs_bdev := bdev\<rparr>\<rparr>, data)
     })
   }"

text \<open>From a block boundary on: whole blocks and the tail, behind the bytes already in \<open>buf\<close>.\<close>

definition read_blocks_tail ::
    "'d transfer \<Rightarrow> u32 \<Rightarrow> u32 \<Rightarrow> u64 \<Rightarrow> bytes \<Rightarrow> u64 \<Rightarrow> (errno \<times> 'd transfer \<times> bytes \<times> u64) option" where
  "read_blocks_tail t block_size iblock_last left buf done = do {
     (r, t, left, buf, done) \<leftarrow>
       read_blocks (t\<lparr>t_start := 0, t_count := 0\<rparr>) block_size iblock_last left buf done;
     if r \<noteq> EOK \<or> left = 0 then Some (r, t, buf, done)
     else do {
       (r, t, data) \<leftarrow> read_tail t block_size left;
       if r \<noteq> EOK then Some (r, t, buf, done) else Some (r, t, buf @ data, done + left)
     }
   }"

text \<open>Head, blocks and tail of \<open>left\<close> bytes; the answer has the bytes and how many they are.\<close>

definition read_range ::
    "'d transfer \<Rightarrow> u32 \<Rightarrow> u32 \<Rightarrow> u32 \<Rightarrow> u64 \<Rightarrow> (errno \<times> 'd transfer \<times> bytes \<times> u64) option" where
  "read_range t block_size iblock_last unalg left = do {
     (r, t, buf, done) \<leftarrow>
       (if unalg \<noteq> 0
        then do {
          let len = (if left > ucast (block_size - unalg) then ucast (block_size - unalg) else left);
          (r, t, data) \<leftarrow> read_head t block_size unalg len;
          Some (r, t, data, if r = EOK then len else 0)
        }
        else Some (EOK, t, [], 0));
     if r \<noteq> EOK then Some (r, t, [], 0)
     else read_blocks_tail t block_size iblock_last (left - done) buf done
   }"

text \<open>A symbolic link of less than 60 bytes is kept in the inode; the position is not advanced.\<close>

definition fs_fread ::
    "'d ext4_fs \<Rightarrow> ext4_file \<Rightarrow> u64 \<Rightarrow> (errno \<times> 'd ext4_fs \<times> ext4_file \<times> bytes \<times> u64) option" where
  "fs_fread fs file len = do {
     (r, fs, ref) \<leftarrow> ext4_fs_get_inode_ref fs (f_inode file);
     if r \<noteq> EOK then Some (r, fs, file, [], 0)
     else do {
       let inode = ino_get fs ref;
       let file = file\<lparr>f_fsize := ext4_inode_get_size (fs_sb fs) inode\<rparr>;
       let block_size = ext4_sb_get_block_size (fs_sb fs);
       let len = (if len > f_fsize file - f_fpos file then f_fsize file - f_fpos file else len);
       let iblock_idx = (ucast (f_fpos file div ucast block_size) :: u32);
       let iblock_last = (ucast ((f_fpos file + len) div ucast block_size) :: u32);
       let unalg = (ucast (f_fpos file mod ucast block_size) :: u32);
       if ext4_inode_is_type (fs_sb fs) inode EXT4_INODE_MODE_SOFTLINK \<and> f_fsize file < 60 \<and>
          ext4_inode_get_blocks_count (fs_sb fs) inode = 0
       then do {
         let n = (if ucast unalg + len > ucast (ucast (f_fsize file) :: u32)
                  then ucast (ucast (f_fsize file) - unalg) else len);
         let data = take (unat n) (drop (unat unalg) (les_bytes 4 (in_blocks inode)));
         (_, fs) \<leftarrow> ext4_fs_put_inode_ref fs ref;
         if f_fpos file < f_fsize file then Some (EOK, fs, file, data, n) else Some (EOK, fs, file, [], 0)
       }
       else do {
         (r, t, buf, done) \<leftarrow>
           read_range \<lparr>t_fs = fs, t_ref = ref, t_iblock = iblock_idx, t_fblock = None, t_start = 0, t_count = 0\<rparr>
             block_size iblock_last unalg len;
         (_, fs) \<leftarrow> ext4_fs_put_inode_ref (t_fs t) (t_ref t);
         Some (r, fs, file\<lparr>f_fpos := f_fpos file + done\<rparr>, buf, done)
       }
     }
   }"

definition ext4_fread ::
    "'d ext4_api \<Rightarrow> ext4_file \<Rightarrow> u64 \<Rightarrow> (errno \<times> 'd ext4_api \<times> ext4_file \<times> bytes \<times> u64 option) option" where
  "ext4_fread st file len = do {
     mp \<leftarrow> f_mp file;
     if f_flags file AND O_WRONLY \<noteq> 0 then Some (EPERM, st, file, [], None)
     else if len = 0 then Some (EOK, st, file, [], None)
     else do {
       fs \<leftarrow> mp_load st mp;
       (r, fs, file, buf, rcnt) \<leftarrow> fs_fread fs file len;
       Some (r, mp_save st mp fs, file, buf, Some rcnt)
     }
   }"

section \<open>Writing\<close>

text \<open>
  The inner loop of a write: blocks inside the file are mapped, blocks behind its end are appended.
  The second error is the one of appending, which ends the loop but not the write.
\<close>

fun write_run ::
    "nat \<Rightarrow> 'd transfer \<Rightarrow> u32 \<Rightarrow> u32 \<Rightarrow> (errno \<times> errno \<times> 'd transfer) option" where
  "write_run 0 t iblock_last ifile_blocks = Some (EOK, EOK, t)"
| "write_run (Suc n) t iblock_last ifile_blocks =
     (if t_iblock t < iblock_last
      then do {
        (r, rr, t) \<leftarrow>
          (if t_iblock t < ifile_blocks
           then do {
             (r, fs, ref, fblk) \<leftarrow> ext4_fs_init_inode_dblk_idx (t_fs t) (t_ref t) (t_iblock t);
             Some (r, EOK, t\<lparr>t_fs := fs, t_ref := ref, t_fblock := fblk\<rparr>)
           }
           else do {
             (rr, fs, ref, res) \<leftarrow> ext4_fs_append_inode_dblk (t_fs t) (t_ref t);
             let t = t\<lparr>t_fs := fs, t_ref := ref\<rparr>;
             Some (EOK, rr, case res of None \<Rightarrow> t
                            | Some (fblk, iblk) \<Rightarrow> t\<lparr>t_fblock := Some fblk, t_iblock := iblk\<rparr>)
           });
        if r \<noteq> EOK \<or> rr \<noteq> EOK then Some (r, rr, t)
        else (case t_fblock t of None \<Rightarrow> None | Some fblk \<Rightarrow>
          (let t = t\<lparr>t_iblock := t_iblock t + 1, t_start := (if t_start t = 0 then fblk else t_start t)\<rparr>
           in if t_start t + ucast (t_count t) \<noteq> fblk then Some (EOK, EOK, t)
              else write_run n (t\<lparr>t_count := t_count t + 1\<rparr>) iblock_last ifile_blocks))
      }
      else Some (EOK, EOK, t))"

text \<open>How the loop over whole blocks ends: normally, with an error, or with \<open>goto out_fsize\<close>.\<close>

datatype write_end = Write_done | Write_stop errno | Write_finish errno | Write_fsize

partial_function (option) write_blocks ::
    "'d transfer \<Rightarrow> u32 \<Rightarrow> u32 \<Rightarrow> u32 \<Rightarrow> bytes \<Rightarrow> u64 \<Rightarrow> u64 \<Rightarrow>
     (write_end \<times> 'd transfer \<times> bytes \<times> u64 \<times> u64) option" where
  "write_blocks t block_size iblock_last ifile_blocks buf left done =
     (if left \<ge> ucast block_size
      then Option.bind (write_run (unat (iblock_last - t_iblock t)) t iblock_last ifile_blocks)
        (\<lambda>(r, rr, t).
           if r \<noteq> EOK then Some (Write_finish r, t, buf, left, done)
           else Option.bind (ext4_blocks_set_direct (fs_bdev (t_fs t)) buf (t_start t) (t_count t))
             (\<lambda>(r, bdev).
                let t = t\<lparr>t_fs := (t_fs t)\<lparr>fs_bdev := bdev\<rparr>\<rparr>
                in if r \<noteq> EOK then Some (Write_stop r, t, buf, left, done)
                   else let n = run_bytes block_size t
                        in if rr \<noteq> EOK then Some (Write_fsize, t, drop (unat n) buf, left - n, done + n)
                           else Option.bind (t_fblock t)
                             (\<lambda>fblk. write_blocks (t\<lparr>t_start := fblk, t_count := 1\<rparr>) block_size iblock_last
                                        ifile_blocks (drop (unat n) buf) (left - n) (done + n))))
      else Some (Write_done, t, buf, left, done))"

definition write_head ::
    "'d transfer \<Rightarrow> u32 \<Rightarrow> u32 \<Rightarrow> bytes \<Rightarrow> u64 \<Rightarrow> (errno \<times> 'd transfer) option" where
  "write_head t block_size unalg buf len = do {
     (r, fs, ref, fblk) \<leftarrow> ext4_fs_init_inode_dblk_idx (t_fs t) (t_ref t) (t_iblock t);
     let t = t\<lparr>t_fs := fs, t_ref := ref, t_fblock := fblk\<rparr>;
     if r \<noteq> EOK then Some (r, t)
     else (case fblk of None \<Rightarrow> None | Some fblk \<Rightarrow> do {
       let off = fblk * ucast block_size + ucast unalg;
       (r, bdev) \<leftarrow> ext4_block_writebytes (fs_bdev fs) off buf (ucast len);
       Some (r, t\<lparr>t_fs := fs\<lparr>fs_bdev := bdev\<rparr>, t_iblock := t_iblock t + 1\<rparr>)
     })
   }"

definition write_tail ::
    "'d transfer \<Rightarrow> u32 \<Rightarrow> u32 \<Rightarrow> bytes \<Rightarrow> u64 \<Rightarrow> (write_end \<times> 'd transfer) option" where
  "write_tail t block_size ifile_blocks buf left = do {
     (e, t) \<leftarrow>
       (if t_iblock t < ifile_blocks
        then do {
          (r, fs, ref, fblk) \<leftarrow> ext4_fs_init_inode_dblk_idx (t_fs t) (t_ref t) (t_iblock t);
          Some (if r \<noteq> EOK then Write_finish r else Write_done, t\<lparr>t_fs := fs, t_ref := ref, t_fblock := fblk\<rparr>)
        }
        else do {
          (r, fs, ref, res) \<leftarrow> ext4_fs_append_inode_dblk (t_fs t) (t_ref t);
          Some (if r \<noteq> EOK then Write_fsize else Write_done,
                t\<lparr>t_fs := fs, t_ref := ref, t_fblock := map_option fst res\<rparr>)
        });
     if e \<noteq> Write_done then Some (e, t)
     else (case t_fblock t of None \<Rightarrow> None | Some fblk \<Rightarrow> do {
       (r, bdev) \<leftarrow> ext4_block_writebytes (fs_bdev (t_fs t)) (fblk * ucast block_size) buf (ucast left);
       Some (if r \<noteq> EOK then Write_finish r else Write_done, t\<lparr>t_fs := (t_fs t)\<lparr>fs_bdev := bdev\<rparr>\<rparr>)
     })
   }"

definition transfer_write_back :: "'d transfer \<Rightarrow> bool \<Rightarrow> (errno \<times> 'd transfer) option" where
  "transfer_write_back t on = do {
     (r, fs) \<leftarrow> fs_write_back (t_fs t) on;
     Some (r, t\<lparr>t_fs := fs\<rparr>)
   }"

text \<open>
  Head, blocks and tail. Write-back mode is left on where the code jumps over the call that ends
  it. The answer has the bytes written so far.
\<close>

definition write_range ::
    "'d transfer \<Rightarrow> u32 \<Rightarrow> u32 \<Rightarrow> u32 \<Rightarrow> u32 \<Rightarrow> bytes \<Rightarrow> (write_end \<times> 'd transfer \<times> u64) option" where
  "write_range t block_size iblock_last ifile_blocks unalg buf = do {
     let left = of_nat (length buf);
     (r, t, done) \<leftarrow>
       (if unalg \<noteq> 0
        then do {
          let len = (if left > ucast (block_size - unalg) then ucast (block_size - unalg) else left);
          (r, t) \<leftarrow> write_head t block_size unalg (take (unat len) buf) len;
          Some (r, t, if r = EOK then len else 0)
        }
        else Some (EOK, t, 0));
     if r \<noteq> EOK then Some (Write_finish r, t, 0)
     else do {
       (r, t) \<leftarrow> transfer_write_back t True;
       if r \<noteq> EOK then Some (Write_finish r, t, done)
       else do {
         (e, t, buf, left, done) \<leftarrow>
           write_blocks (t\<lparr>t_start := 0, t_count := 0\<rparr>) block_size iblock_last ifile_blocks
             (drop (unat done) buf) (left - done) done;
         (case e of
            Write_finish r \<Rightarrow> Some (e, t, done)
          | Write_fsize \<Rightarrow> Some (e, t, done)
          | Write_stop r \<Rightarrow> do { (_, t) \<leftarrow> transfer_write_back t False; Some (Write_finish r, t, done) }
          | Write_done \<Rightarrow> do {
              (_, t) \<leftarrow> transfer_write_back t False;
              if left = 0 then Some (Write_done, t, done)
              else do {
                (e, t) \<leftarrow> write_tail t block_size ifile_blocks buf left;
                Some (e, t, if e = Write_done then done + left else done)
              }
            })
       }
     }
   }"

text \<open>The answer is that of the last release; what went wrong before only shows in the count.\<close>

definition fs_fwrite ::
    "'d ext4_fs \<Rightarrow> ext4_file \<Rightarrow> bytes \<Rightarrow> (errno \<times> 'd ext4_fs \<times> ext4_file \<times> u64) option" where
  "fs_fwrite fs file buf = do {
     (r, fs, ref) \<leftarrow> ext4_fs_get_inode_ref fs (f_inode file);
     if r \<noteq> EOK then Some (r, fs, file, 0)
     else do {
       let file = file\<lparr>f_fsize := ext4_inode_get_size (fs_sb fs) (ino_get fs ref)\<rparr>;
       let block_size = ext4_sb_get_block_size (fs_sb fs);
       let bs = ucast block_size;
       let iblock_last = (ucast ((f_fpos file + of_nat (length buf)) div bs) :: u32);
       let iblk_idx = (ucast (f_fpos file div bs) :: u32);
       let ifile_blocks = (ucast ((f_fsize file + bs - 1) div bs) :: u32);
       let unalg = (ucast (f_fpos file mod bs) :: u32);
       (e, t, done) \<leftarrow>
         write_range \<lparr>t_fs = fs, t_ref = ref, t_iblock = iblk_idx, t_fblock = None, t_start = 0, t_count = 0\<rparr>
           block_size iblock_last ifile_blocks unalg buf;
       let file = file\<lparr>f_fpos := f_fpos file + done\<rparr>;
       let grow = ((e = Write_done \<or> e = Write_fsize) \<and> f_fpos file > f_fsize file);
       let file = (if grow then file\<lparr>f_fsize := f_fpos file\<rparr> else file);
       let fs = (if grow then ino_upd (\<lambda>i. ext4_inode_set_size i (f_fsize file)) (t_fs t) (t_ref t) else t_fs t);
       let ref = (if grow then (t_ref t)\<lparr>ir_dirty := True\<rparr> else t_ref t);
       (r, fs) \<leftarrow> ext4_fs_put_inode_ref fs ref;
       Some (r, fs, file, done)
     }
   }"

definition ext4_fwrite ::
    "'d ext4_api \<Rightarrow> ext4_file \<Rightarrow> bytes \<Rightarrow> (errno \<times> 'd ext4_api \<times> ext4_file \<times> u64 option) option" where
  "ext4_fwrite st file buf = do {
     mp \<leftarrow> f_mp file;
     if fs_read_only (mp_fs (s_mp st ! mp)) then Some (EROFS, st, file, None)
     else if f_flags file AND O_RDONLY \<noteq> 0 then Some (EPERM, st, file, None)
     else if buf = [] then Some (EOK, st, file, None)
     else do {
       fs \<leftarrow> mp_load st mp;
       (r, fs, file, wcnt) \<leftarrow> fs_fwrite fs file buf;
       Some (r, mp_save st mp fs, file, Some wcnt)
     }
   }"

section \<open>The position\<close>

datatype seek_origin = SEEK_SET | SEEK_CUR | SEEK_END | SEEK_other

text \<open>\<open>offset\<close> is signed; \<open>(uint64_t)(-offset)\<close> is \<open>- offset\<close> on words.\<close>

definition ext4_fseek :: "ext4_file \<Rightarrow> u64 \<Rightarrow> seek_origin \<Rightarrow> errno \<times> ext4_file" where
  "ext4_fseek file offset origin =
     (case origin of
        SEEK_SET \<Rightarrow>
          if offset <s 0 \<or> offset > f_fsize file then (EINVAL, file)
          else (EOK, file\<lparr>f_fpos := offset\<rparr>)
      | SEEK_CUR \<Rightarrow>
          if offset <s 0 \<and> - offset > f_fpos file \<or>
             0 <s offset \<and> offset > f_fsize file - f_fpos file then (EINVAL, file)
          else (EOK, file\<lparr>f_fpos := f_fpos file + offset\<rparr>)
      | SEEK_END \<Rightarrow>
          if offset <s 0 \<or> offset > f_fsize file then (EINVAL, file)
          else (EOK, file\<lparr>f_fpos := f_fsize file - offset\<rparr>)
      | SEEK_other \<Rightarrow> (EINVAL, file))"

definition ext4_ftell :: "ext4_file \<Rightarrow> u64" where "ext4_ftell file = f_fpos file"
definition ext4_fsize :: "ext4_file \<Rightarrow> u64" where "ext4_fsize file = f_fsize file"

end
