(* ===== verification/File_Map.thy ===== *)
theory File_Map
  imports File Extent_Root
begin

text \<open>
  What reading a file returns. The interface \<open>file_blocks\<close> says what \<open>ext4_fread\<close> needs of the
  components below it: lookups that either fail or answer from a map of the blocks of the file to
  blocks of the device, and reads of the device that leave that map alone. Over it the transfer of a read is the list of the bytes of the
  file. It is interpreted for files whose extents lie in the inode, on the raw disk driver.
\<close>

lemma unat_ucast_le_32: "unat (x :: u64) < 4294967296 \<Longrightarrow> unat (ucast x :: u32) = unat x"
  by (simp add: unsigned_ucast_eq take_bit_eq_mod)

lemma sub_mult_div: "k * b \<le> (x :: nat) \<Longrightarrow> 0 < b \<Longrightarrow> (x - k * b) div b = x div b - k"
  by (auto dest!: le_Suc_ex)

lemma of_nat_unat_u64: "of_nat (unat x) = (x :: u64)"
  by simp

section \<open>The interface\<close>

text \<open>
  \<open>c\<close> stands for everything about the file and the device that stays the same during a read;
  \<open>place c i\<close> is the device block of block \<open>i\<close> of the file, \<open>byte c a\<close> the byte at \<open>a\<close> of the
  partition.
\<close>

locale file_blocks =
  fixes ok :: "'c \<Rightarrow> 'd ext4_fs \<Rightarrow> ext4_inode_ref \<Rightarrow> bool"
    and place :: "'c \<Rightarrow> nat \<Rightarrow> u64"
    and byte_at :: "'c \<Rightarrow> nat \<Rightarrow> u8"
    and bsz psize :: "'c \<Rightarrow> nat"
  assumes geometry: "ok c fs ir \<Longrightarrow> 0 < bsz c \<and> psize c < 2 ^ 63"
    and lookup: "ok c fs ir \<Longrightarrow>
      \<exists>r fs' fb. ext4_fs_get_inode_dblk_idx fs ir i True = Some (r, fs', ir, fb) \<and> ok c fs' ir \<and>
        (r = EOK \<longrightarrow> fb = Some (place c (unat i)))"
    and readbytes: "ok c fs ir \<Longrightarrow> unat off + unat len \<le> psize c \<Longrightarrow>
      \<exists>r data bdev. ext4_block_readbytes (fs_bdev fs) off len = Some (r, data, bdev) \<and>
        ok c (fs\<lparr>fs_bdev := bdev\<rparr>) ir \<and> (r = EOK \<longrightarrow> data = map (byte_at c) [unat off..<unat off + unat len])"
    and direct: "ok c fs ir \<Longrightarrow> (unat lba + unat cnt) * bsz c \<le> psize c \<Longrightarrow> unat cnt * bsz c < 2 ^ 32 \<Longrightarrow>
      \<exists>r data bdev. ext4_blocks_get_direct (fs_bdev fs) lba cnt = Some (r, data, bdev) \<and>
        ok c (fs\<lparr>fs_bdev := bdev\<rparr>) ir \<and>
        (r = EOK \<longrightarrow> data = map (byte_at c) [unat lba * bsz c..<(unat lba + unat cnt) * bsz c])"
begin

definition file_byte :: "'c \<Rightarrow> nat \<Rightarrow> u8" where
  "file_byte c i = byte_at c (unat (place c (i div bsz c)) * bsz c + i mod bsz c)"

text \<open>The blocks from \<open>a\<close> up to \<open>b\<close> have places, all of them inside the partition.\<close>

definition mapped :: "'c \<Rightarrow> nat \<Rightarrow> nat \<Rightarrow> bool" where
  "mapped c a b \<longleftrightarrow> (\<forall>i. a \<le> i \<and> i < b \<longrightarrow> place c i \<noteq> 0 \<and> (unat (place c i) + 1) * bsz c \<le> psize c)"

text \<open>\<open>k\<close> blocks from \<open>b\<close> on lie one after the other from \<open>s\<close> on.\<close>

definition run :: "'c \<Rightarrow> nat \<Rightarrow> nat \<Rightarrow> u64 \<Rightarrow> bool" where
  "run c b k s \<longleftrightarrow> (k = 0 \<and> s = 0) \<or> (0 < k \<and> (\<forall>j < k. place c (b + j) = s + of_nat j))"

lemma run_0: "run c b 0 s \<longleftrightarrow> s = 0"
  by (auto simp: run_def)

lemma run_1: "run c b 1 (place c b)"
  by (simp add: run_def)

lemma run_Suc:
  assumes "run c b k s" "s' = (if s = 0 then place c (b + k) else s)" "s' + of_nat k = place c (b + k)"
    and "0 < k \<Longrightarrow> s \<noteq> 0"
  shows "run c b (Suc k) s'"
  using assms by (auto simp: run_def less_Suc_eq split: if_splits)

lemma run_start: "run c b k s \<Longrightarrow> 0 < k \<Longrightarrow> s = place c b"
  by (auto simp: run_def dest: spec [of _ 0])

text \<open>The block of the file at \<open>t\<close> and those that follow it, when no lookup fails.\<close>

definition run_to :: "'c \<Rightarrow> nat \<Rightarrow> u32 \<Rightarrow> 'd transfer \<Rightarrow> 'd transfer \<Rightarrow> bool" where
  "run_to c b l t t' \<longleftrightarrow>
    run c b (unat (t_count t')) (t_start t') \<and> unat (t_count t) \<le> unat (t_count t') \<and>
    (if unat (t_iblock t') = b + unat (t_count t')
     then t_iblock t' = l \<and> (t_fblock t' = None \<longrightarrow> t_fblock t = None \<and> t_count t' = t_count t)
     else unat (t_iblock t') = b + unat (t_count t') + 1 \<and> unat (t_iblock t') \<le> unat l \<and> 0 < unat (t_count t') \<and>
          t_fblock t' = Some (place c (b + unat (t_count t'))))"

lemma read_run_spec:
  assumes "ok c (t_fs t) (t_ref t)" "unat (t_iblock t) = b + unat (t_count t)"
    and "run c b (unat (t_count t)) (t_start t)" "mapped c b (unat l)" "unat (t_iblock t) \<le> unat l"
    and "n = unat l - unat (t_iblock t)"
  shows "\<exists>r t'. read_run n t l = Some (r, t') \<and> ok c (t_fs t') (t_ref t') \<and> (r = EOK \<longrightarrow> run_to c b l t t')"
  using assms
proof (induction n arbitrary: t)
  case 0
  then have "t_iblock t = l" by (simp add: word_unat_eq_iff)
  then show ?case using 0 by (simp add: run_to_def)
next
  case (Suc n)
  let ?i = "unat (t_iblock t)" and ?k = "unat (t_count t)"
  have il: "?i < unat l" using Suc.prems(6) by simp
  have lt: "t_iblock t < l" using il by (simp add: word_less_nat_alt)
  have m: "place c ?i \<noteq> 0" using Suc.prems(2,4) il by (auto simp: mapped_def)
  have s0: "0 < ?k \<Longrightarrow> t_start t \<noteq> 0"
  proof -
    assume "0 < ?k"
    then have "b < unat l" "t_start t = place c b" using Suc.prems(2) il run_start [OF Suc.prems(3)] by auto
    then show "t_start t \<noteq> 0" using Suc.prems(4) by (simp add: mapped_def)
  qed
  obtain r fs' fb where L: "ext4_fs_get_inode_dblk_idx (t_fs t) (t_ref t) (t_iblock t) True = Some (r, fs', t_ref t, fb)"
    "ok c fs' (t_ref t)" "r = EOK \<Longrightarrow> fb = Some (place c ?i)"
    using lookup [OF Suc.prems(1), of "t_iblock t"] by blast
  define t1 where "t1 = t\<lparr>t_fs := fs', t_fblock := Some (place c ?i), t_iblock := t_iblock t + 1,
    t_start := (if t_start t = 0 then place c ?i else t_start t)\<rparr>"
  have i1: "unat (t_iblock t + 1) = Suc ?i" by (rule unat_inc [OF lt])
  show ?case
  proof (cases "r = EOK")
    case False
    then show ?thesis using lt L(1,2) by (simp add: Let_def)
  next
    case r: True
    have step: "read_run (Suc n) t l =
        (if t_start t1 + ucast (t_count t1) \<noteq> place c ?i then Some (EOK, t1)
         else read_run n (t1\<lparr>t_count := t_count t1 + 1\<rparr>) l)"
      using lt L(1) L(3) [OF r] r by (simp add: t1_def Let_def)
    have ok1: "ok c (t_fs t1) (t_ref t1)" using L(2) by (simp add: t1_def)
    show ?thesis
    proof (cases "t_start t1 + ucast (t_count t1) = place c ?i")
      case False
      have k0: "0 < ?k"
      proof (rule ccontr)
        assume "\<not> 0 < ?k"
        then have "t_count t = 0" "t_start t = 0" using Suc.prems(3) by (simp_all add: run_0 unat_eq_0)
        then show False using False by (simp add: t1_def)
      qed
      have "t_start t1 = t_start t" using s0 [OF k0] by (simp add: t1_def)
      then show ?thesis
        using False step ok1 Suc.prems k0 il i1 by (simp add: t1_def run_to_def)
    next
      case True
      have kl: "t_count t < l" using Suc.prems(2) il by (simp add: word_less_nat_alt)
      have k1: "unat (t_count t + 1) = Suc ?k" by (rule unat_inc [OF kl])
      have "run c b (Suc ?k) (t_start t1)"
        by (rule run_Suc [OF Suc.prems(3)]) (use True s0 Suc.prems(2) in \<open>simp_all add: t1_def\<close>)
      moreover define t2 where "t2 = t1\<lparr>t_count := t_count t1 + 1\<rparr>"
      ultimately have F: "unat (t_iblock t2) = Suc ?i" "unat (t_count t2) = Suc ?k"
        "t_fblock t2 \<noteq> None" "run c b (unat (t_count t2)) (t_start t2)" "ok c (t_fs t2) (t_ref t2)"
        using i1 k1 ok1 by (simp_all add: t1_def)
      have G: "unat (t_iblock t2) = b + unat (t_count t2)" "unat (t_iblock t2) \<le> unat l" "n = unat l - unat (t_iblock t2)"
        using F(1,2) Suc.prems(2,6) il by simp_all
      obtain r' t' where T: "read_run n t2 l = Some (r', t')" "ok c (t_fs t') (t_ref t')"
        "r' = EOK \<Longrightarrow> run_to c b l t2 t'"
        using Suc.IH [OF F(5) G(1) F(4) Suc.prems(4) G(2,3)] by blast
      have "run_to c b l t t'" if h: "r' = EOK"
        using T(3) [OF h] F(2,3) unfolding run_to_def
        by (cases "unat (t_iblock t') = b + unat (t_count t')") auto
      then show ?thesis using step True T(1,2) by (simp add: t2_def del: read_run.simps)
    qed
  qed
qed

section \<open>Runs of blocks\<close>

lemma run_unat:
  assumes "ok c fs ir" "run c b k s" "mapped c b (b + k)" "j < k"
  shows "unat (s + of_nat j) = unat s + j \<and> unat (place c (b + j)) = unat s + j \<and>
    (unat s + j + 1) * bsz c \<le> psize c"
  using assms(4)
proof (induction j)
  case 0
  have "place c b = s" using run_start [OF assms(2)] assms(4) by simp
  moreover have "(unat (place c b) + 1) * bsz c \<le> psize c" using assms(3,4) by (simp add: mapped_def)
  ultimately show ?case by simp
next
  case (Suc j)
  then have IH: "unat (s + of_nat j) = unat s + j" "(unat s + j + 1) * bsz c \<le> psize c" by auto
  have g: "0 < bsz c" "psize c < 2 ^ 63" using geometry [OF assms(1)] by auto
  have "(unat s + j + 1) * 1 \<le> (unat s + j + 1) * bsz c" by (rule mult_le_mono2) (use g(1) in simp)
  then have "unat s + j + 1 \<le> psize c" using le_trans [OF _ IH(2)] by simp
  then have "unat s + j + 1 < 2 ^ 63" by (rule le_less_trans [OF _ g(2)])
  moreover have "s + of_nat (Suc j) = (s + of_nat j) + 1" by (simp add: ac_simps)
  ultimately have u: "unat (s + of_nat (Suc j)) = unat s + Suc j"
    using IH(1) by (simp only: unat_word_ariths) simp
  have p: "place c (b + Suc j) = s + of_nat (Suc j)"
    using assms(2) Suc.prems unfolding run_def by blast
  have "(unat (place c (b + Suc j)) + 1) * bsz c \<le> psize c"
    using assms(3) Suc.prems unfolding mapped_def by (metis add_Suc_right le_add1 nat_add_left_cancel_less)
  then show ?case using u p by simp
qed

lemma run_end:
  assumes "ok c fs ir" "run c b k s" "mapped c b (b + k)" "0 < k"
  shows "(unat s + k) * bsz c \<le> psize c"
  using run_unat [OF assms(1,2,3), of "k - 1"] assms(4) by (simp add: add.commute add.left_commute)

lemma run_file_bytes:
  assumes "ok c fs ir" "run c b k s" "mapped c b (b + k)"
  shows "map (byte_at c) [unat s * bsz c..<(unat s + k) * bsz c] = map (file_byte c) [b * bsz c..<b * bsz c + k * bsz c]"
proof (rule nth_equalityI)
  show "length (map (byte_at c) [unat s * bsz c..<(unat s + k) * bsz c]) =
      length (map (file_byte c) [b * bsz c..<b * bsz c + k * bsz c])" by (simp add: algebra_simps)
next
  fix i assume "i < length (map (byte_at c) [unat s * bsz c..<(unat s + k) * bsz c])"
  then have i: "i < k * bsz c" by (simp add: algebra_simps)
  have g: "0 < bsz c" using geometry [OF assms(1)] by simp
  have "i div bsz c < k" using i g by (simp add: less_mult_imp_div_less)
  then have "unat (place c (b + i div bsz c)) = unat s + i div bsz c" using run_unat [OF assms] by blast
  moreover have "(b * bsz c + i) div bsz c = b + i div bsz c" "(b * bsz c + i) mod bsz c = i mod bsz c" using g by simp_all
  moreover have "(unat s + i div bsz c) * bsz c + i mod bsz c = unat s * bsz c + i"
    by (simp add: distrib_right)
  ultimately have "file_byte c (b * bsz c + i) = byte_at c (unat s * bsz c + i)" by (simp add: file_byte_def)
  then show "map (byte_at c) [unat s * bsz c..<(unat s + k) * bsz c] ! i =
      map (file_byte c) [b * bsz c..<b * bsz c + k * bsz c] ! i"
    using i by (simp add: algebra_simps)
qed

lemma mapped_sub: "mapped c a b \<Longrightarrow> a \<le> a' \<Longrightarrow> b' \<le> b \<Longrightarrow> mapped c a' b'"
  by (simp add: mapped_def)

section \<open>Whole blocks\<close>

text \<open>The state at the head of the loop: \<open>b\<close> is the first block that is not in the buffer.\<close>

definition at_block :: "'c \<Rightarrow> 'd transfer \<Rightarrow> nat \<Rightarrow> u32 \<Rightarrow> bool" where
  "at_block c t b l \<longleftrightarrow> ok c (t_fs t) (t_ref t) \<and> unat (t_iblock t) = b + unat (t_count t) \<and>
     run c b (unat (t_count t)) (t_start t) \<and> unat (t_iblock t) \<le> unat l \<and>
     (0 < unat (t_count t) \<longrightarrow> t_fblock t \<noteq> None) \<and> mapped c b (unat l)"

text \<open>A run with its block; what follows it in the file is the last block looked up.\<close>

definition run_block :: "'c \<Rightarrow> nat \<Rightarrow> u32 \<Rightarrow> 'd transfer \<Rightarrow> bool" where
  "run_block c b l t' \<longleftrightarrow>
    run c b (unat (t_count t')) (t_start t') \<and> 0 < unat (t_count t') \<and> b + unat (t_count t') \<le> unat l \<and>
    (\<exists>f. t_fblock t' = Some f \<and>
      (if unat (t_iblock t') = b + unat (t_count t') then t_iblock t' = l
       else unat (t_iblock t') = b + unat (t_count t') + 1 \<and> unat (t_iblock t') \<le> unat l \<and>
            f = place c (b + unat (t_count t'))))"

lemma read_run_block:
  assumes "at_block c t b l" "b < unat l"
  shows "\<exists>r t'. read_run (unat (l - t_iblock t)) t l = Some (r, t') \<and> ok c (t_fs t') (t_ref t') \<and>
    (r = EOK \<longrightarrow> run_block c b l t')"
proof -
  have A: "ok c (t_fs t) (t_ref t)" "unat (t_iblock t) = b + unat (t_count t)" "run c b (unat (t_count t)) (t_start t)"
    "unat (t_iblock t) \<le> unat l" "0 < unat (t_count t) \<longrightarrow> t_fblock t \<noteq> None" "mapped c b (unat l)"
    using assms(1) by (simp_all add: at_block_def)
  have n: "unat (l - t_iblock t) = unat l - unat (t_iblock t)"
    using A(4) by (simp add: unat_sub word_le_nat_alt)
  obtain r t' where T: "read_run (unat (l - t_iblock t)) t l = Some (r, t')" "ok c (t_fs t') (t_ref t')"
    "r = EOK \<Longrightarrow> run_to c b l t t'"
    using read_run_spec [OF A(1-3,6,4) n] by blast
  have "run_block c b l t'" if h: "r = EOK"
  proof (cases "unat (t_iblock t') = b + unat (t_count t')")
    case True
    then have k: "0 < unat (t_count t')" "t_iblock t' = l" "run c b (unat (t_count t')) (t_start t')"
      using T(3) [OF h] assms(2) by (auto simp: run_to_def)
    then obtain f where "t_fblock t' = Some f"
      using T(3) [OF h] A(5) True by (cases "t_fblock t'") (auto simp: run_to_def)
    then show ?thesis using True k by (auto simp: run_block_def)
  next
    case False
    then show ?thesis using T(3) [OF h] by (auto simp: run_to_def run_block_def)
  qed
  then show ?thesis using T(1,2) by blast
qed

lemma read_blocks_spec:
  assumes "at_block c t b l" "unat l = b + unat left div bsz c" "unat left < 2 ^ 32" "unat block_size = bsz c"
  shows "\<exists>r t' d. read_blocks t block_size l left buf done =
      Some (r, t', left - of_nat d, buf @ map (file_byte c) [b * bsz c..<b * bsz c + d], done + of_nat d) \<and>
    ok c (t_fs t') (t_ref t') \<and> d \<le> unat left \<and>
    (r = EOK \<longrightarrow> d = unat left div bsz c * bsz c \<and> t_iblock t' = l)"
  using assms
proof (induction "unat left" arbitrary: t b left buf "done" rule: less_induct)
  case less
  have ok: "ok c (t_fs t) (t_ref t)" using less.prems(1) by (simp add: at_block_def)
  have bs: "0 < bsz c" "psize c < 2 ^ 63" using geometry [OF ok] by auto
  have ge: "(ucast block_size \<le> left) = (bsz c \<le> unat left)"
    using less.prems(4) by (simp add: word_le_nat_alt unat_ucast_up_eq)
  show ?case
  proof (cases "bsz c \<le> unat left")
    case False
    then have "b = unat l" "t_iblock t = l"
      using less.prems(1,2) by (auto simp: at_block_def word_unat_eq_iff)
    then show ?thesis
      using False ge ok by (subst read_blocks.simps) (auto intro!: exI [of _ 0])
  next
    case True
    have q: "0 < unat left div bsz c" using True bs(1) by (simp add: div_greater_zero_iff)
    then have bl: "b < unat l" using less.prems(2) by simp
    obtain r0 t' where T0: "read_run (unat (l - t_iblock t)) t l = Some (r0, t')" "ok c (t_fs t') (t_ref t')"
      "r0 = EOK \<longrightarrow> run_block c b l t'"
      using read_run_block [OF less.prems(1) bl] by blast
    show ?thesis
    proof (cases "r0 = EOK")
      case False
      then show ?thesis
        using True ge T0(1,2) by (subst read_blocks.simps) (auto intro!: exI [of _ 0])
    next
      case r0: True
      obtain f where T: "read_run (unat (l - t_iblock t)) t l = Some (EOK, t')" "ok c (t_fs t') (t_ref t')"
          "run c b (unat (t_count t')) (t_start t')" "0 < unat (t_count t')" "b + unat (t_count t') \<le> unat l"
          "t_fblock t' = Some f"
        and U: "if unat (t_iblock t') = b + unat (t_count t') then t_iblock t' = l
          else unat (t_iblock t') = b + unat (t_count t') + 1 \<and> unat (t_iblock t') \<le> unat l \<and>
            f = place c (b + unat (t_count t'))"
        using T0 r0 by (auto simp: run_block_def)
      let ?k = "unat (t_count t')"
      have m: "mapped c b (unat l)" using less.prems(1) by (simp add: at_block_def)
      have m': "mapped c b (b + ?k)" by (rule mapped_sub [OF m]) (use T(5) in simp_all)
      have kq: "?k \<le> unat left div bsz c" using T(5) less.prems(2) by simp
      then have "?k * bsz c \<le> unat left div bsz c * bsz c" by simp
      also have "\<dots> \<le> unat left" by simp
      finally have kl: "?k * bsz c \<le> unat left" .
      then have k32: "?k * bsz c < 2 ^ 32" using less.prems(3) by simp
      obtain r data bdev where D: "ext4_blocks_get_direct (fs_bdev (t_fs t')) (t_start t') (t_count t') = Some (r, data, bdev)"
        "ok c ((t_fs t')\<lparr>fs_bdev := bdev\<rparr>) (t_ref t')"
        "r = EOK \<longrightarrow> data = map (byte_at c) [unat (t_start t') * bsz c..<(unat (t_start t') + ?k) * bsz c]"
        using direct [OF T(2) run_end [OF T(2,3) m' T(4)] k32] by blast
      let ?t1 = "t'\<lparr>t_fs := (t_fs t')\<lparr>fs_bdev := bdev\<rparr>\<rparr>"
      show ?thesis
      proof (cases "r = EOK")
        case False
        then show ?thesis
          using True ge T(1) D(1,2)
          by (subst read_blocks.simps) (auto simp: Let_def intro!: exI [of _ 0])
      next
        case rok: True
        then have data: "data = map (file_byte c) [b * bsz c..<b * bsz c + ?k * bsz c]"
          using D(3) rok run_file_bytes [OF T(2,3) m'] by simp
        have n: "unat (run_bytes block_size ?t1) = ?k * bsz c"
          using k32 less.prems(4) by (simp add: run_bytes_def unat_ucast_up_eq unat_word_ariths mult.commute)
        then have nn: "run_bytes block_size ?t1 = of_nat (?k * bsz c)" by (metis of_nat_unat_u64)
        let ?t2 = "?t1\<lparr>t_start := f, t_count := 1\<rparr>" and ?left = "left - of_nat (?k * bsz c)"
          and ?buf = "buf @ data" and ?done = "done + of_nat (?k * bsz c)"
        have step: "read_blocks t block_size l left buf done = read_blocks ?t2 block_size l ?left ?buf ?done"
          using True ge T(1,6) D(1) rok nn
          by (subst read_blocks.simps) (simp add: Let_def del: of_nat_mult)
        have ul: "unat ?left = unat left - ?k * bsz c"
          using kl n nn by (metis unat_sub word_le_nat_alt)
        show ?thesis
        proof (cases "unat (t_iblock t') = b + ?k")
          case fin: True
          then have l: "t_iblock t' = l" "?k = unat left div bsz c" using U less.prems(2) by auto
          have "unat left - ?k * bsz c < bsz c" using bs(1) l(2) by (simp add: minus_div_mult_eq_mod)
          then have "read_blocks ?t2 block_size l ?left ?buf ?done = Some (EOK, ?t2, ?left, ?buf, ?done)"
            using ul less.prems(4)
            by (subst read_blocks.simps) (auto simp: word_le_nat_alt unat_ucast_up_eq simp del: of_nat_mult)
          then show ?thesis
            unfolding step using data l D(2) kl
            by (intro exI [of _ EOK] exI [of _ ?t2] exI [of _ "?k * bsz c"]) (simp del: of_nat_mult)
        next
          case False
          then have V: "unat (t_iblock t') = b + ?k + 1" "unat (t_iblock t') \<le> unat l" "f = place c (b + ?k)" using U by auto
          have atb: "at_block c ?t2 (b + ?k) l"
            using V D(2) run_1 mapped_sub [OF m] T(6) by (simp add: at_block_def)
          have "(unat left - ?k * bsz c) div bsz c = unat left div bsz c - ?k" using kl bs(1) by (rule sub_mult_div)
          then have lq: "unat l = (b + ?k) + unat ?left div bsz c" using less.prems(2) ul kq by simp
          have lt: "unat ?left < unat left" using ul T(4) bs(1) kl True by simp
          have "unat ?left < 2 ^ 32" using lt less.prems(3) by simp
          from less.hyps [OF lt atb lq this less.prems(4), of ?buf ?done]
          obtain r' t'' d where R: "read_blocks ?t2 block_size l ?left ?buf ?done =
              Some (r', t'', ?left - of_nat d, ?buf @ map (file_byte c) [(b + ?k) * bsz c..<(b + ?k) * bsz c + d], ?done + of_nat d)"
            "ok c (t_fs t'') (t_ref t'')" "d \<le> unat ?left"
            "r' = EOK \<longrightarrow> d = unat ?left div bsz c * bsz c \<and> t_iblock t'' = l" by blast
          have bytes: "data @ map (file_byte c) [(b + ?k) * bsz c..<(b + ?k) * bsz c + d] =
              map (file_byte c) [b * bsz c..<b * bsz c + (?k * bsz c + d)]"
            unfolding data map_append [symmetric] using upt_add_eq_append [of "b * bsz c" "b * bsz c + ?k * bsz c" d]
            by (simp add: distrib_right add.assoc)
          have dd: "r' = EOK \<longrightarrow> ?k * bsz c + d = unat left div bsz c * bsz c"
            using R(4) lq less.prems(2) by (simp add: add.commute flip: distrib_right)
          show ?thesis
            unfolding step R(1)
            using R(2,3,4) bytes dd ul kl
            by (intro exI [of _ r'] exI [of _ t''] exI [of _ "?k * bsz c + d"]) (simp add: algebra_simps)
        qed
      qed
    qed
  qed
qed

section \<open>Parts of blocks\<close>

lemma part_file_bytes:
  assumes "ok c fs ir" "u + n \<le> bsz c"
  shows "map (byte_at c) [unat (place c i) * bsz c + u..<unat (place c i) * bsz c + u + n] =
    map (file_byte c) [i * bsz c + u..<i * bsz c + u + n]"
proof (rule nth_equalityI)
  fix j assume "j < length (map (byte_at c) [unat (place c i) * bsz c + u..<unat (place c i) * bsz c + u + n])"
  then have j: "j < n" "u + j < bsz c" using assms(2) by auto
  then have "(i * bsz c + u + j) div bsz c = i" "(i * bsz c + u + j) mod bsz c = u + j"
    by (simp_all add: add.assoc)
  then show "map (byte_at c) [unat (place c i) * bsz c + u..<unat (place c i) * bsz c + u + n] ! j =
      map (file_byte c) [i * bsz c + u..<i * bsz c + u + n] ! j"
    using j by (simp add: file_byte_def add.assoc)
qed simp

lemma part_offset:
  assumes "ok c fs ir" "mapped c i (Suc i)" "u < bsz c"
  shows "unat (place c i * of_nat (bsz c) + of_nat u) = unat (place c i) * bsz c + u \<and>
    unat (place c i) * bsz c + bsz c \<le> psize c \<and> place c i \<noteq> 0"
proof -
  have p: "unat (place c i) * bsz c + bsz c \<le> psize c" "place c i \<noteq> 0"
    using assms(2) by (simp_all add: mapped_def add.commute)
  moreover have "psize c < 2 ^ 63" using geometry [OF assms(1)] by simp
  ultimately have "unat (place c i) * bsz c + u < 2 ^ 63" using assms(3) by linarith
  moreover have "place c i * of_nat (bsz c) + of_nat u = of_nat (unat (place c i) * bsz c + u)" by simp
  ultimately show ?thesis using p by (simp add: unat_of_nat del: of_nat_mult of_nat_add)
qed

lemma read_head_spec:
  assumes "ok c (t_fs t) (t_ref t)" "mapped c (unat (t_iblock t)) (Suc (unat (t_iblock t)))"
    and "unat block_size = bsz c" "unat unalg < bsz c" "unat unalg + unat len \<le> bsz c"
  shows "\<exists>r t' data. read_head t block_size unalg len = Some (r, t', data) \<and> ok c (t_fs t') (t_ref t') \<and>
    (r = EOK \<longrightarrow> t_iblock t' = t_iblock t + 1 \<and> data = map (file_byte c)
      [unat (t_iblock t) * bsz c + unat unalg..<unat (t_iblock t) * bsz c + unat unalg + unat len])"
proof -
  let ?i = "unat (t_iblock t)"
  have b: "bsz c < 2 ^ 32" using assms(3) unsigned_less [of block_size, where 'a = nat] by simp
  have w: "(ucast block_size :: u64) = of_nat (bsz c)" "(ucast unalg :: u64) = of_nat (unat unalg)"
    unfolding assms(3) [symmetric] by simp_all
  have o: "unat (place c ?i * ucast block_size + ucast unalg) = unat (place c ?i) * bsz c + unat unalg"
    "unat (place c ?i) * bsz c + bsz c \<le> psize c" "place c ?i \<noteq> 0"
    unfolding w using part_offset [OF assms(1,2,4)] by auto
  have n: "unat (ucast len :: u32) = unat len"
    using assms(5) b by (simp add: unat_ucast_le_32)
  obtain r0 fs' fb where L: "ext4_fs_get_inode_dblk_idx (t_fs t) (t_ref t) (t_iblock t) True = Some (r0, fs', t_ref t, fb)"
    "ok c fs' (t_ref t)" "r0 = EOK \<Longrightarrow> fb = Some (place c ?i)"
    using lookup [OF assms(1), of "t_iblock t"] by blast
  obtain r data bdev where R: "ext4_block_readbytes (fs_bdev fs') (place c ?i * ucast block_size + ucast unalg) (ucast len) =
      Some (r, data, bdev)" "ok c (fs'\<lparr>fs_bdev := bdev\<rparr>) (t_ref t)"
    "r = EOK \<longrightarrow> data = map (byte_at c) [unat (place c ?i) * bsz c + unat unalg..<
       unat (place c ?i) * bsz c + unat unalg + unat len]"
    using readbytes [OF L(2), of "place c ?i * ucast block_size + ucast unalg" "ucast len"] o n assms(5) by auto
  show ?thesis
    using R o(3) L part_file_bytes [OF assms(1,5)]
    by (cases "r0 = EOK") (simp_all add: read_head_def Let_def)
qed

lemma read_tail_spec:
  assumes "ok c (t_fs t) (t_ref t)" "mapped c (unat (t_iblock t)) (Suc (unat (t_iblock t)))"
    and "unat block_size = bsz c" "unat left \<le> bsz c"
  shows "\<exists>r t' data. read_tail t block_size left = Some (r, t', data) \<and> ok c (t_fs t') (t_ref t') \<and>
    (r = EOK \<longrightarrow> data = map (file_byte c) [unat (t_iblock t) * bsz c..<unat (t_iblock t) * bsz c + unat left])"
proof -
  let ?i = "unat (t_iblock t)"
  have b: "bsz c < 2 ^ 32" "0 < bsz c" using assms(3) unsigned_less [of block_size, where 'a = nat] geometry [OF assms(1)] by simp_all
  have w: "(ucast block_size :: u64) = of_nat (bsz c)" unfolding assms(3) [symmetric] by simp
  have o: "unat (place c ?i * ucast block_size) = unat (place c ?i) * bsz c"
    "unat (place c ?i) * bsz c + bsz c \<le> psize c" "place c ?i \<noteq> 0"
    unfolding w using part_offset [OF assms(1,2) b(2)] by auto
  have n: "unat (ucast left :: u32) = unat left"
    using assms(4) b by (simp add: unat_ucast_le_32)
  obtain r0 fs' fb where L: "ext4_fs_get_inode_dblk_idx (t_fs t) (t_ref t) (t_iblock t) True = Some (r0, fs', t_ref t, fb)"
    "ok c fs' (t_ref t)" "r0 = EOK \<Longrightarrow> fb = Some (place c ?i)"
    using lookup [OF assms(1), of "t_iblock t"] by blast
  obtain r data bdev where R: "ext4_block_readbytes (fs_bdev fs') (place c ?i * ucast block_size) (ucast left) =
      Some (r, data, bdev)" "ok c (fs'\<lparr>fs_bdev := bdev\<rparr>) (t_ref t)"
    "r = EOK \<longrightarrow> data = map (byte_at c) [unat (place c ?i) * bsz c..<unat (place c ?i) * bsz c + unat left]"
    using readbytes [OF L(2), of "place c ?i * ucast block_size" "ucast left"] o n assms(4) by auto
  show ?thesis
    using R o(3) L assms(4) part_file_bytes [OF assms(1), of 0 "unat left" ?i]
    by (cases "r0 = EOK") (simp_all add: read_tail_def Let_def)
qed

section \<open>The whole transfer\<close>

lemma read_blocks_tail_spec:
  assumes "ok c (t_fs t) (t_ref t)" "unat (t_iblock t) = b" "unat l = b + unat left div bsz c" "unat left < 2 ^ 32"
    and "mapped c b e" "b * bsz c + unat left \<le> e * bsz c" "unat block_size = bsz c"
  shows "\<exists>r t' d. read_blocks_tail t block_size l left buf done =
      Some (r, t', buf @ map (file_byte c) [b * bsz c..<b * bsz c + d], done + of_nat d) \<and>
    ok c (t_fs t') (t_ref t') \<and> d \<le> unat left \<and> (r = EOK \<longrightarrow> d = unat left)"
proof -
  let ?t = "t\<lparr>t_start := 0, t_count := 0\<rparr>"
  have bs: "0 < bsz c" using geometry [OF assms(1)] by simp
  have "b + unat left div bsz c = (b * bsz c + unat left) div bsz c" using bs by simp
  also have "\<dots> \<le> e * bsz c div bsz c" using assms(6) by (rule div_le_mono)
  finally have le: "unat l \<le> e" using bs assms(3) by simp
  have "mapped c b (unat l)" using mapped_sub [OF assms(5)] le by blast
  then have "at_block c ?t b l" using assms(1-3) by (simp add: at_block_def run_0)
  from read_blocks_spec [OF this assms(3,4,7), of buf "done"]
  obtain r t' d where R: "read_blocks ?t block_size l left buf done =
      Some (r, t', left - of_nat d, buf @ map (file_byte c) [b * bsz c..<b * bsz c + d], done + of_nat d)"
    "ok c (t_fs t') (t_ref t')" "d \<le> unat left"
    "r = EOK \<longrightarrow> d = unat left div bsz c * bsz c \<and> t_iblock t' = l" by blast
  have u: "unat (left - of_nat d) = unat left - d"
  proof -
    have "unat (of_nat d :: u64) = d" using R(3) unsigned_less [of left, where 'a = nat] by (simp add: unat_of_nat)
    then show ?thesis using R(3) by (simp add: unat_sub word_le_nat_alt)
  qed
  show ?thesis
  proof (cases "r \<noteq> EOK \<or> left - of_nat d = 0")
    case True
    then have "r = EOK \<longrightarrow> d = unat left" using u R(3) by auto
    then show ?thesis using R True by (auto simp: read_blocks_tail_def)
  next
    case False
    then have d: "d = unat left div bsz c * bsz c" "t_iblock t' = l" using R(4) by auto
    then have m: "unat (left - of_nat d) = unat left mod bsz c" using u by (simp add: minus_div_mult_eq_mod)
    then have m0: "0 < unat left mod bsz c" using False by (metis neq0_conv unat_eq_0)
    have lb: "unat l * bsz c = b * bsz c + d" using assms(3) d(1) by (simp add: distrib_right)
    have "unat l * bsz c < e * bsz c"
      using lb d(1) m0 assms(6) div_mult_mod_eq [of "unat left" "bsz c"] by linarith
    then have "unat l < e" by simp
    then have ml: "mapped c (unat l) (Suc (unat l))" using mapped_sub [OF assms(5)] assms(3) by simp
    have "unat (left - of_nat d) \<le> bsz c" using m bs by (simp add: less_imp_le)
    from read_tail_spec [OF R(2) ml [folded d(2)] assms(7) this]
    obtain r' t'' data where S: "read_tail t' block_size (left - of_nat d) = Some (r', t'', data)" "ok c (t_fs t'') (t_ref t'')"
      "r' = EOK \<longrightarrow> data = map (file_byte c) [unat l * bsz c..<unat l * bsz c + (unat left - d)]"
      using u d(2) by auto
    show ?thesis
    proof (cases "r' = EOK")
      case False
      then show ?thesis
        using R(1,3) S(1,2) \<open>\<not> (r \<noteq> EOK \<or> left - of_nat d = 0)\<close> by (auto simp: read_blocks_tail_def)
    next
      case rok: True
      have "map (file_byte c) [b * bsz c..<b * bsz c + d] @ data = map (file_byte c) [b * bsz c..<b * bsz c + unat left]"
        using S(3) rok lb R(3) upt_add_eq_append [of "b * bsz c" "b * bsz c + d" "unat left - d"]
        by (simp flip: map_append)
      then have "read_blocks_tail t block_size l left buf done =
          Some (EOK, t'', buf @ map (file_byte c) [b * bsz c..<b * bsz c + unat left], done + of_nat (unat left))"
        using R(1) S(1) False rok by (simp add: read_blocks_tail_def)
      then show ?thesis using S(2) by blast
    qed
  qed
qed

lemma read_range_spec:
  assumes "ok c (t_fs t) (t_ref t)" "unat (t_iblock t) = p div bsz c" "unat unalg = p mod bsz c"
    and "unat l = (p + unat left) div bsz c" "0 < unat left" "unat left < 2 ^ 32"
    and "mapped c (p div bsz c) e" "p + unat left \<le> e * bsz c" "unat block_size = bsz c"
  shows "\<exists>r t' d. read_range t block_size l unalg left = Some (r, t', map (file_byte c) [p..<p + d], of_nat d) \<and>
    ok c (t_fs t') (t_ref t') \<and> d \<le> unat left \<and> (r = EOK \<longrightarrow> d = unat left)"
proof (cases "unalg = 0")
  case True
  have bs: "0 < bsz c" using geometry [OF assms(1)] by simp
  have p: "p div bsz c * bsz c = p" using True assms(3) div_mult_mod_eq [of p "bsz c"] by simp
  have l: "unat l = p div bsz c + unat left div bsz c"
    using assms(4) p bs div_mult_self1 [of "bsz c" "unat left" "p div bsz c"] by (simp add: add.commute)
  show ?thesis
    using read_blocks_tail_spec [OF assms(1,2) l assms(6,7) _ assms(9), of "[]" 0] True p assms(8)
    by (simp add: read_range_def)
next
  case False
  have bs: "0 < bsz c" using geometry [OF assms(1)] by simp
  let ?u = "p mod bsz c" and ?q = "p div bsz c"
  have u: "?u < bsz c" "0 < ?u" using bs False assms(3) by (auto simp: unat_eq_0 [symmetric])
  have p: "p = ?q * bsz c + ?u" by simp
  have bu: "unat (ucast (block_size - unalg) :: u64) = bsz c - ?u"
    using assms(3,9) u(1) by (simp add: unat_ucast_up_eq unat_sub word_le_nat_alt)
  define len where "len = (if left > ucast (block_size - unalg) then ucast (block_size - unalg) else left)"
  have len: "unat len = min (unat left) (bsz c - ?u)" using bu by (auto simp: len_def word_less_nat_alt)
  have "?q * bsz c < e * bsz c" using assms(5,8) p by linarith
  then have "?q < e" by simp
  then have mq: "mapped c (unat (t_iblock t)) (Suc (unat (t_iblock t)))"
    using mapped_sub [OF assms(7)] assms(2) by simp
  have ul: "unat unalg < bsz c" "unat unalg + unat len \<le> bsz c" using u(1) len assms(3) by auto
  from read_head_spec [OF assms(1) mq assms(9) ul]
  obtain r t' data where R: "read_head t block_size unalg len = Some (r, t', data)" "ok c (t_fs t') (t_ref t')"
    "r = EOK \<longrightarrow> t_iblock t' = t_iblock t + 1 \<and> data = map (file_byte c) [p..<p + unat len]"
    using assms(2,3) by auto
  have eq: "read_range t block_size l unalg left =
      (if r \<noteq> EOK then Some (r, t', [], 0) else read_blocks_tail t' block_size l (left - len) data len)"
    using False R(1) by (simp add: read_range_def len_def Let_def)
  have lsub: "unat (left - len) = unat left - unat len" using len by (simp add: unat_sub word_le_nat_alt)
  show ?thesis
  proof (cases "r = EOK")
    case False
    then show ?thesis unfolding eq using R(2) by (intro exI [of _ r] exI [of _ t'] exI [of _ 0]) simp
  next
    case rok: True
    then have D: "t_iblock t' = t_iblock t + 1" "data = map (file_byte c) [p..<p + unat len]" using R(3) by auto
    show ?thesis
    proof (cases "unat left \<le> bsz c - ?u")
      case True
      then have l0: "left = len" using len by (simp add: word_unat_eq_iff)
      have b: "\<not> ucast block_size \<le> (0 :: u64)" using bs assms(9) by (auto simp: word_le_nat_alt unat_ucast_up_eq)
      have "read_blocks_tail t' block_size l 0 data len = Some (EOK, t'\<lparr>t_start := 0, t_count := 0\<rparr>, data, len)"
        unfolding read_blocks_tail_def by (subst read_blocks.simps) (use b in simp)
      then show ?thesis
        unfolding eq using rok l0 D(2) R(2)
        by (intro exI [of _ EOK] exI [of _ "t'\<lparr>t_start := 0, t_count := 0\<rparr>"] exI [of _ "unat left"]) simp
    next
      case big: False
      then have le: "unat len = bsz c - ?u" using len by simp
      have pl: "p + unat len = Suc ?q * bsz c" using le u(1) div_mult_mod_eq [of p "bsz c"] unfolding mult_Suc by linarith
      have "?q + 1 \<le> unat l"
        using assms(4) div_le_mono [of "Suc ?q * bsz c" "p + unat left" "bsz c"] bs big pl le by simp
      then have ib: "unat (t_iblock t') = Suc ?q"
        using D(1) assms(2) unat_inc [of "t_iblock t" l] by (simp add: word_less_nat_alt)
      have tot: "Suc ?q * bsz c + unat (left - len) = p + unat left" using pl lsub le big by simp
      have l: "unat l = Suc ?q + unat (left - len) div bsz c"
        using assms(4) unfolding tot [symmetric] using bs div_mult_self3 [of "bsz c" "Suc ?q" "unat (left - len)"] by (simp del: mult_Suc)
      have m: "mapped c (Suc ?q) e" using mapped_sub [OF assms(7)] by simp
      have l32: "unat (left - len) < 2 ^ 32" using lsub assms(6) by simp
      have e: "Suc ?q * bsz c + unat (left - len) \<le> e * bsz c" using tot assms(8) by simp
      from read_blocks_tail_spec [OF R(2) ib l l32 m e assms(9), of data len]
      obtain r' t'' d where S: "read_blocks_tail t' block_size l (left - len) data len =
          Some (r', t'', data @ map (file_byte c) [Suc ?q * bsz c..<Suc ?q * bsz c + d], len + of_nat d)"
        "ok c (t_fs t'') (t_ref t'')" "d \<le> unat (left - len)" "r' = EOK \<longrightarrow> d = unat (left - len)" by blast
      have "data @ map (file_byte c) [Suc ?q * bsz c..<Suc ?q * bsz c + d] = map (file_byte c) [p..<p + (unat len + d)]"
        unfolding D(2) pl [symmetric] using upt_add_eq_append [of p "p + unat len" d]
        by (simp add: add.assoc flip: map_append)
      moreover have "len + of_nat d = of_nat (unat len + d)" by simp
      moreover have "unat len + d \<le> unat left" "r' = EOK \<longrightarrow> unat len + d = unat left"
        using S(3,4) lsub le big by auto
      ultimately show ?thesis unfolding eq using rok S(1,2) by (metis (no_types, lifting))
    qed
  qed
qed

end

section \<open>Runs of blocks on the device\<close>

context block_driver
begin

lemma get_direct_many:
  assumes drv: "driver_is rd wr bsz bdev" and part: "part_ok cap bdev"
    and lg: "bsz dvd unat (lg_bsize bdev)"
    and inside: "(unat lba + unat cnt) * unat (lg_bsize bdev) \<le> unat (part_size bdev)"
    and small: "unat cnt * unat (lg_bsize bdev) < 2 ^ 32"
  obtains r bs bdev' where "ext4_blocks_get_direct bdev lba cnt = Some (r, bs, bdev')"
    "same_setup bdev bdev'" "bdev_bc bdev' = bdev_bc bdev"
    "content (bdev_dev bdev') = content (bdev_dev bdev)"
    "r = EOK \<Longrightarrow> bs = region (content (bdev_dev bdev))
       (unat (part_offset bdev) + unat lba * unat (lg_bsize bdev)) (unat cnt * unat (lg_bsize bdev))"
proof -
  let ?L = "unat (lg_bsize bdev)" and ?P = "unat (part_offset bdev)"
  let ?pba = "(lba * ucast (lg_bsize bdev) + part_offset bdev) div ucast (ph_bsize (bdev_bdif bdev))"
    and ?n = "lg_bsize bdev div ph_bsize (bdev_bdif bdev) * cnt"
  have bs: "unat (ph_bsize (bdev_bdif bdev)) = bsz" using drv by (simp add: driver_is_def)
  have lim: "?P + unat (part_size bdev) \<le> cap" "cap < 2 ^ 63" using part cap(2) by (simp_all add: part_ok_def)
  have fits: "unat lba * ?L + unat cnt * ?L \<le> unat (part_size bdev)" using inside by (simp add: distrib_right)
  have b64: "(2::nat) ^ 63 < 2 ^ 64" by simp
  have m: "unat (lba * ucast (lg_bsize bdev)) = unat lba * ?L"
    using fits lim b64 by (subst unat_word_ariths(2)) (simp add: unat_ucast_up_eq)
  have s: "unat (lba * ucast (lg_bsize bdev) + part_offset bdev) = ?P + unat lba * ?L"
    using fits lim b64 by (subst unat_word_ariths(1)) (simp add: m)
  have d: "bsz dvd ?P + unat lba * ?L" using lg part by (simp add: part_ok_def bs)
  have pos: "unat ?pba * bsz = ?P + unat lba * ?L" using d by (simp add: unat_div s unat_ucast_up_eq bs)
  have e: "?L div bsz * unat cnt * bsz = unat cnt * ?L" using lg by (simp add: mult.commute mult.left_commute)
  have "?L div bsz * unat cnt * 1 \<le> ?L div bsz * unat cnt * bsz" by (rule mult_le_mono2) (use bsz in simp)
  then have "?L div bsz * unat cnt < 2 ^ 32" using e small by linarith
  then have "unat ?n = ?L div bsz * unat cnt"
    by (subst unat_word_ariths(2)) (simp add: unat_div bs)
  then have n: "unat ?n * bsz = unat cnt * ?L" using e by simp
  have "transfer_ok bsz cap ?pba ?n" unfolding transfer_ok_def pos n using fits lim small by linarith
  then obtain r bs bdev' where b: "ext4_bdif_bread bdev ?pba ?n = Some (r, bs, bdev')"
    "same_setup bdev bdev'" "bdev_bc bdev' = bdev_bc bdev" "content (bdev_dev bdev') = content (bdev_dev bdev)"
    "r = EOK \<Longrightarrow> bs = region (content (bdev_dev bdev)) (?P + unat lba * ?L) (unat cnt * ?L)"
    by (rule bread [OF drv]) (unfold pos n, blast)
  show ?thesis by (rule that [of r bs bdev']) (use b in \<open>simp_all add: ext4_blocks_get_direct_def Let_def\<close>)
qed

end

section \<open>Files whose extents lie in the inode\<close>

text \<open>What a lookup needs of the inode: extents in the root and a size that is not zero.\<close>

definition extent_file :: "'d ext4_fs \<Rightarrow> ext4_inode_ref \<Rightarrow> bool" where
  "extent_file fs ir \<longleftrightarrow> root_ok fs ir \<and> uses_extents fs ir \<and> ext4_inode_get_size (fs_sb fs) (ino_get fs ir) \<noteq> 0"

definition extent_place :: "'d ext4_fs \<Rightarrow> ext4_inode_ref \<Rightarrow> nat \<Rightarrow> u64" where
  "extent_place fs ir i =
     (case leaf_map (node_exts (root_bytes fs ir)) i of
        Some (pblock, unwritten) \<Rightarrow> if unwritten then 0 else pblock
      | None \<Rightarrow> 0)"

text \<open>The raw driver, an open device and a partition of whole blocks.\<close>

definition extent_device :: "nat \<Rightarrow> raw_file ext4_blockdev \<Rightarrow> bool" where
  "extent_device N bdev \<longleftrightarrow>
     raw_dev N bdev \<and> part_ok (raw_cap N) bdev \<and> ph_refctr (bdev_bdif bdev) \<noteq> 0 \<and>
     0 < unat (lg_bsize bdev) \<and> 512 dvd unat (lg_bsize bdev)"

text \<open>Reads keep everything but the driver's own state and the addresses of the heap.\<close>

fun same_file :: "nat \<times> raw_file ext4_fs \<times> ext4_inode_ref \<Rightarrow> raw_file ext4_fs \<Rightarrow> ext4_inode_ref \<Rightarrow> bool" where
  "same_file (N, fs0, ir0) fs ir \<longleftrightarrow>
     extent_file fs0 ir0 \<and> extent_device N (fs_bdev fs0) \<and> ir = ir0 \<and> fs_sb fs = fs_sb fs0 \<and>
     same_setup (fs_bdev fs0) (fs_bdev fs) \<and> bc_bufs (bdev_bc (fs_bdev fs)) = bc_bufs (bdev_bc (fs_bdev fs0)) \<and>
     raw_img (bdev_dev (fs_bdev fs)) = raw_img (bdev_dev (fs_bdev fs0))"

lemma same_inode:
  assumes "fs_sb fs = fs_sb fs0" "bc_bufs (bdev_bc (fs_bdev fs)) = bc_bufs (bdev_bc (fs_bdev fs0))"
  shows "root_bytes fs ir = root_bytes fs0 ir" "ino_get fs ir = ino_get fs0 ir"
    "uses_extents fs ir = uses_extents fs0 ir" "root_ok fs ir = root_ok fs0 ir"
proof -
  have "fs_data fs b = fs_data fs0 b" for b using assms(2) by (simp add: fs_data_def blk_bytes_def buf_at_def)
  then show "root_bytes fs ir = root_bytes fs0 ir" and i: "ino_get fs ir = ino_get fs0 ir"
    by (simp_all add: root_bytes_def node_bytes_def ino_get_def ino_bytes_def)
  then show "root_ok fs ir = root_ok fs0 ir" by (simp add: root_ok_def ext_depth_root)
  show "uses_extents fs ir = uses_extents fs0 ir" using assms(1) i by (simp add: uses_extents_def)
qed

lemma lookup_extent_file:
  assumes "extent_file fs ir"
  shows "ext4_fs_get_inode_dblk_idx fs ir i True =
    Some (if fs_can_malloc fs then (EOK, fs_asked fs, ir, Some (extent_place fs ir (unat i)))
          else (ENOMEM, fs_asked fs, ir, None))"
  using assms lookup_root [of fs ir i 1]
  by (simp add: ext4_fs_get_inode_dblk_idx_def get_inode_dblk_idx_def extent_file_def extent_place_def)

lemma same_file_device:
  assumes "same_file (N, fs0, ir0) fs ir"
  shows "extent_device N (fs_bdev fs)" "part_size (fs_bdev fs) = part_size (fs_bdev fs0)"
    "part_offset (fs_bdev fs) = part_offset (fs_bdev fs0)" "lg_bsize (fs_bdev fs) = lg_bsize (fs_bdev fs0)"
  using assms same_setup_ok [of "fs_bdev fs0" "fs_bdev fs"]
  by (auto simp: extent_device_def same_setup_def)

lemma same_file_read:
  assumes "same_file (N, fs0, ir0) fs ir" "same_setup (fs_bdev fs) bdev" "bdev_bc bdev = bdev_bc (fs_bdev fs)"
    and "raw_img (bdev_dev bdev) = raw_img (bdev_dev (fs_bdev fs))"
  shows "same_file (N, fs0, ir0) (fs\<lparr>fs_bdev := bdev\<rparr>) ir"
  using assms same_setup_trans [OF _ assms(2), of "fs_bdev fs0"] by simp

lemma same_file_asked:
  assumes "same_file (N, fs0, ir0) fs ir"
  shows "same_file (N, fs0, ir0) (fs_asked fs) ir"
  using assms by (simp add: fs_asked_def upd_bc_def same_setup_def)

definition extent_byte :: "raw_file ext4_fs \<Rightarrow> nat \<Rightarrow> u8" where
  "extent_byte fs a = raw_byte (fs_bdev fs) a"

lemma part_bound:
  assumes "extent_device N bdev"
  shows "unat (part_size bdev) < 2 ^ 63"
  using assms raw.cap(2) [of N] by (simp add: extent_device_def part_ok_def)

interpretation root_file: file_blocks same_file "\<lambda>(N, fs, ir). extent_place fs ir"
  "\<lambda>(N, fs, ir). extent_byte fs" "\<lambda>(N, fs, ir). unat (lg_bsize (fs_bdev fs))"
  "\<lambda>(N, fs, ir). unat (part_size (fs_bdev fs))"
proof (unfold_locales, goal_cases)
  case (1 c fs ir)
  then show ?case using part_bound by (cases c) (auto simp: extent_device_def)
next
  case (2 c fs ir i)
  obtain N fs0 ir0 where c: "c = (N, fs0, ir0)" by (cases c) auto
  have s: "fs_sb fs = fs_sb fs0" "bc_bufs (bdev_bc (fs_bdev fs)) = bc_bufs (bdev_bc (fs_bdev fs0))" using 2 c by auto
  have "extent_file fs ir" "extent_place fs ir = extent_place fs0 ir0"
    using 2 c same_inode [OF s, of ir] s(1) by (auto simp: extent_file_def extent_place_def)
  then show ?case
    using lookup_extent_file [of fs ir i] same_file_asked [OF 2 [unfolded c]] c by (cases "fs_can_malloc fs") auto
next
  case (3 c fs ir off len)
  obtain N fs0 ir0 where c: "c = (N, fs0, ir0)" by (cases c) auto
  note D = same_file_device [OF 3(1) [unfolded c]]
  have r: "unat off + unat len \<le> unat (part_size (fs_bdev fs))" using 3(2) c D(2) by simp
  obtain r bs bdev' where R: "ext4_block_readbytes (fs_bdev fs) off len = Some (r, bs, bdev')"
    "same_setup (fs_bdev fs) bdev'" "bdev_bc bdev' = bdev_bc (fs_bdev fs)"
    "raw_img (bdev_dev bdev') = raw_img (bdev_dev (fs_bdev fs))"
    "r = EOK \<Longrightarrow> bs = region (raw_img (bdev_dev (fs_bdev fs))) (unat (part_offset (fs_bdev fs)) + unat off) (unat len)"
    by (rule raw.readbytes [of N "fs_bdev fs" off len]) (use D(1) r in \<open>auto simp: extent_device_def\<close>)
  have "r = EOK \<Longrightarrow> bs = map (extent_byte fs0) [unat off..<unat off + unat len]"
    using R(5) 3(1) c D(3) by (auto simp: extent_byte_def add.assoc intro!: nth_equalityI)
  then show ?case using R(1) same_file_read [OF 3(1) [unfolded c] R(2-4)] c by auto
next
  case (4 c fs ir lba cnt)
  obtain N fs0 ir0 where c: "c = (N, fs0, ir0)" by (cases c) auto
  note D = same_file_device [OF 4(1) [unfolded c]]
  obtain r bs bdev' where R: "ext4_blocks_get_direct (fs_bdev fs) lba cnt = Some (r, bs, bdev')"
    "same_setup (fs_bdev fs) bdev'" "bdev_bc bdev' = bdev_bc (fs_bdev fs)"
    "raw_img (bdev_dev bdev') = raw_img (bdev_dev (fs_bdev fs))"
    "r = EOK \<Longrightarrow> bs = region (raw_img (bdev_dev (fs_bdev fs)))
      (unat (part_offset (fs_bdev fs)) + unat lba * unat (lg_bsize (fs_bdev fs))) (unat cnt * unat (lg_bsize (fs_bdev fs)))"
    by (rule raw.get_direct_many [of N "fs_bdev fs" lba cnt])
      (use D 4(2,3) c in \<open>auto simp: extent_device_def\<close>)
  have "r = EOK \<Longrightarrow> bs = map (extent_byte fs0) [unat lba * unat (lg_bsize (fs_bdev fs0))..<
      (unat lba + unat cnt) * unat (lg_bsize (fs_bdev fs0))]"
    using R(5) 4(1) c D(3,4) by (auto simp: extent_byte_def add.assoc distrib_right intro!: nth_equalityI)
  then show ?case using R(1) same_file_read [OF 4(1) [unfolded c] R(2-4)] c by auto
qed


section \<open>Reading such a file\<close>

text \<open>Byte \<open>i\<close> of the file.\<close>

definition extent_file_byte :: "raw_file ext4_fs \<Rightarrow> ext4_inode_ref \<Rightarrow> nat \<Rightarrow> u8" where
  "extent_file_byte fs ir i =
     (let n = unat (lg_bsize (fs_bdev fs)) in extent_byte fs (unat (extent_place fs ir (i div n)) * n + i mod n))"

text \<open>
  C11: A read of \<open>left\<close> bytes at \<open>p\<close> from a file whose extents lie in the inode and have written
  blocks inside the partition for all of the range, on an open raw device: \<open>read_range\<close>, the body of
  \<open>ext4_fread\<close>, always returns. It has stored the bytes of the file from \<open>p\<close> on, in their order
  and as many as it reports, whatever the alignment, the runs of adjacent blocks and the failures of
  the driver and of the heap are; when it reports success these are all bytes asked for. The medium is unchanged.
\<close>

theorem file_read_correct:
  assumes "extent_file (t_fs t) (t_ref t)" "extent_device N (fs_bdev (t_fs t))"
    and "bs = unat (lg_bsize (fs_bdev (t_fs t)))" "unat block_size = bs"
    and "0 < unat left" "unat left < 2 ^ 32" "(p + unat left) div bs < 2 ^ 32"
    and "t_iblock t = of_nat (p div bs)" "l = of_nat ((p + unat left) div bs)" "unalg = of_nat (p mod bs)"
    and "\<forall>i. p div bs \<le> i \<and> i * bs < p + unat left \<longrightarrow> extent_place (t_fs t) (t_ref t) i \<noteq> 0 \<and>
      (unat (extent_place (t_fs t) (t_ref t) i) + 1) * bs \<le> unat (part_size (fs_bdev (t_fs t)))"
  shows "\<exists>r t' d. read_range t block_size l unalg left =
      Some (r, t', map (extent_file_byte (t_fs t) (t_ref t)) [p..<p + d], of_nat d) \<and>
    d \<le> unat left \<and> (r = EOK \<longrightarrow> d = unat left) \<and>
    raw_img (bdev_dev (fs_bdev (t_fs t'))) = raw_img (bdev_dev (fs_bdev (t_fs t)))"
proof -
  let ?c = "(N, t_fs t, t_ref t)"
  have ok: "same_file ?c (t_fs t) (t_ref t)" using assms(1,2) by simp
  have b: "0 < bs" "bs < 2 ^ 32" using assms(2,3) unsigned_less [of "lg_bsize (fs_bdev (t_fs t))", where 'a = nat]
    by (simp_all add: extent_device_def)
  have "p div bs \<le> (p + unat left) div bs" by (rule div_le_mono) simp
  moreover have "p mod bs < 2 ^ 32" using mod_less_divisor [OF b(1)] b(2) by (rule less_trans)
  ultimately have n: "unat (t_iblock t) = p div bs" "unat l = (p + unat left) div bs" "unat unalg = p mod bs"
    using assms(7-10) by (simp_all add: unat_of_nat)
  let ?e = "(p + unat left + (bs - 1)) div bs"
  have e: "p + unat left \<le> ?e * bs"
    using div_mult_mod_eq [of "p + unat left + (bs - 1)" bs] mod_less_divisor [OF b(1), of "p + unat left + (bs - 1)"]
    by linarith
  have in_range: "i * bs < p + unat left" if "i < ?e" for i
  proof -
    have "Suc i * bs \<le> ?e * bs" using that by (intro mult_le_mono1) simp
    also have "\<dots> \<le> p + unat left + (bs - 1)" by simp
    finally show ?thesis using b(1) by simp
  qed
  have "root_file.mapped ?c (p div bs) ?e"
    using assms(3,11) in_range by (simp add: root_file.mapped_def)
  from root_file.read_range_spec [OF ok _ _ _ assms(5,6), of p unalg l ?e block_size] this
  obtain r t' d where R: "read_range t block_size l unalg left =
      Some (r, t', map (root_file.file_byte ?c) [p..<p + d], of_nat d)"
    "same_file ?c (t_fs t') (t_ref t')" "d \<le> unat left" "r = EOK \<longrightarrow> d = unat left"
    using n e assms(3,4) by auto
  have "root_file.file_byte ?c = extent_file_byte (t_fs t) (t_ref t)"
    by (rule ext) (simp add: root_file.file_byte_def extent_file_byte_def Let_def)
  then show ?thesis using R by auto
qed

text \<open>
  A file of 2500 bytes in blocks 2, 3 and 4 of the sample device, written as an inode with one
  extent.
\<close>

definition file_sample :: "raw_file ext4_fs" where
  "file_sample =
     fs_store \<lparr>fs_read_only = False, fs_bdev = sample_held,
               fs_sb = sb_example\<lparr>sb_features_incompatible := EXT4_FINCOM_EXTENTS\<rparr>, inode_block_limits = [],
               inode_blocks_per_level = [], last_inode_bg_id = 0\<rparr>
       \<lparr>blk_lb_id = 3, blk_buf = Some 3, blk_data = True\<rparr>
       (replicate 4 0 @ le_bytes 4 (2500 :: u32) @ replicate 24 0 @ le_bytes 4 (EXT4_INODE_FLAG_EXTENTS :: u32) @ replicate 4 0 @
        ext4_extent_header_bytes \<lparr>eh_magic = EXT4_EXTENT_MAGIC, eh_entries_count = 1, eh_max_entries_count = 4,
                                  eh_depth = 0, eh_generation = 0\<rparr> @
        ext4_extent_bytes (sample_extent 0 3 2) @ replicate 960 0)"

definition file_transfer :: "raw_file transfer" where
  "file_transfer = \<lparr>t_fs = file_sample, t_ref = ext_sample_ref, t_iblock = 0, t_fblock = None, t_start = 0, t_count = 0\<rparr>"

lemma file_sample_root:
  "root_bytes file_sample ext_sample_ref = root_bytes (ext_sample (sample_extent 0 3 2)) ext_sample_ref"
  by (simp add: ext_sample_root) (simp add: root_bytes_def ext_inode_hdr_def node_bytes_def file_sample_def ext_sample_ref_def)

lemma file_sample_place: "extent_place file_sample ext_sample_ref i = (if i < 3 then of_nat (i + 2) else 0)"
  by (simp add: extent_place_def file_sample_root ext_sample_node leaf_map_def sample_simps)

lemma file_sample_ino:
  "ino_bytes file_sample ext_sample_ref = replicate 4 0 @ le_bytes 4 (2500 :: u32) @ replicate 24 0 @
     le_bytes 4 (EXT4_INODE_FLAG_EXTENTS :: u32) @ replicate 4 0 @ root_bytes file_sample ext_sample_ref"
  by (simp add: ino_bytes_def root_bytes_def ext_inode_hdr_def node_bytes_def file_sample_def ext_sample_ref_def)

lemma file_sample_fields:
  "ext4_sb_feature_incom (fs_sb file_sample) EXT4_FINCOM_EXTENTS"
  "ext4_inode_has_flag (ino_get file_sample ext_sample_ref) EXT4_INODE_FLAG_EXTENTS"
  "ext4_inode_get_size (fs_sb file_sample) (ino_get file_sample ext_sample_ref) \<noteq> 0"
proof -
  show "ext4_sb_feature_incom (fs_sb file_sample) EXT4_FINCOM_EXTENTS"
    by (simp add: file_sample_def fs_store_def ext4_sb_feature_incom_def EXT4_FINCOM_EXTENTS_def)
  have r: "length (root_bytes file_sample ext_sample_ref) = 984" by (simp add: file_sample_root ext_sample_root)
  have "in_flags (ino_get file_sample ext_sample_ref) = EXT4_INODE_FLAG_EXTENTS"
    by (simp add: ino_get_def file_sample_ino ext4_inode_of_def byte_simps)
  then show "ext4_inode_has_flag (ino_get file_sample ext_sample_ref) EXT4_INODE_FLAG_EXTENTS"
    by (simp add: ext4_inode_has_flag_def ext4_inode_get_flags_def EXT4_INODE_FLAG_EXTENTS_def)
  have "in_size_lo (ino_get file_sample ext_sample_ref) = 2500" "in_mode (ino_get file_sample ext_sample_ref) = 0"
    by (simp_all add: ino_get_def file_sample_ino ext4_inode_of_def byte_simps)
  moreover have "sb_rev_level (fs_sb file_sample) = 0"
    by (simp add: file_sample_def fs_store_def ext4_sblock_of_def)
  ultimately show "ext4_inode_get_size (fs_sb file_sample) (ino_get file_sample ext_sample_ref) \<noteq> 0"
    by (simp add: ext4_inode_get_size_def)
qed

lemma file_sample_file: "extent_file file_sample ext_sample_ref"
proof -
  have r: "root_ok (ext_sample (sample_extent 0 3 2)) ext_sample_ref"
    by (rule ext_sample_ok) (simp_all add: sample_simps)
  have "root_ok file_sample ext_sample_ref"
    using r by (simp add: root_ok_def file_sample_root ext_depth_root)
  moreover have "uses_extents file_sample ext_sample_ref"
    by (simp add: uses_extents_def file_sample_fields)
  moreover have "ext4_inode_get_size (fs_sb file_sample) (ino_get file_sample ext_sample_ref) \<noteq> 0"
    by (simp add: file_sample_fields)
  ultimately show ?thesis by (simp add: extent_file_def)
qed


lemma sample_held_fields:
  "bdev_bdif sample_held = bdev_bdif sample_dev" "part_offset sample_held = part_offset sample_dev"
  "part_size sample_held = part_size sample_dev" "lg_bsize sample_held = lg_bsize sample_dev"
  by (simp_all add: sample_held_def ext4_block_get_noread_def ext4_block_cache_shake_def shake_loop.simps sample_dev_def
      sample_cache_def ext4_io_raw_dev_get_def ext4_bcache_alloc_def ext4_bcache_find_get_def
      ext4_buf_lookup_def ext4_buf_alloc_def EXT4_BLOCK_ZERO_def Let_def upd_bc_def ext4_bcache_is_full_def)

lemma file_sample_bdev:
  "bdev_bdif (fs_bdev file_sample) = bdev_bdif sample_dev" "part_offset (fs_bdev file_sample) = part_offset sample_dev"
  "part_size (fs_bdev file_sample) = part_size sample_dev" "lg_bsize (fs_bdev file_sample) = lg_bsize sample_dev"
  by (simp_all add: file_sample_def fs_store_def blk_put_def sample_held_fields)

lemma file_sample_device:
  "extent_device 8192 (fs_bdev file_sample)" "lg_bsize (fs_bdev file_sample) = 1024" "part_size (fs_bdev file_sample) = 6144"
  "raw_byte (fs_bdev file_sample) a = of_nat (1024 + a)"
proof -
  show "extent_device 8192 (fs_bdev file_sample)"
    using sample_ok(3-5,8) by (simp add: extent_device_def driver_is_def part_ok_def file_sample_bdev)
  show "lg_bsize (fs_bdev file_sample) = 1024" "part_size (fs_bdev file_sample) = 6144"
    "raw_byte (fs_bdev file_sample) a = of_nat (1024 + a)"
    by (simp_all add: file_sample_bdev sample_dev_def ext4_io_raw_dev_get_def sample_file_def)
qed

theorem file_read_correct_witness:
  "\<exists>r t' d. read_range file_transfer 1024 2 700 1500 =
      Some (r, t', map (\<lambda>i. of_nat (3072 + i)) [700..<700 + d], of_nat d) \<and>
    d \<le> 1500 \<and> (r = EOK \<longrightarrow> d = 1500)"
proof -
  have t: "t_fs file_transfer = file_sample" "t_ref file_transfer = ext_sample_ref" "t_iblock file_transfer = 0"
    by (simp_all add: file_transfer_def)
  have b: "extent_file_byte file_sample ext_sample_ref i = of_nat (3072 + i)" if "i < 3072" for i
  proof -
    have "i div 1024 < 3" using that by (simp add: less_mult_imp_div_less)
    then have "unat (of_nat (i div 1024 + 2) :: u64) = i div 1024 + 2" by (subst unat_of_nat) simp
    then show ?thesis
      using \<open>i div 1024 < 3\<close>
      by (simp add: extent_file_byte_def file_sample_device file_sample_place extent_byte_def del: of_nat_add) 
  qed
  have m: "\<forall>i. 700 div 1024 \<le> i \<and> i * 1024 < 700 + unat (1500 :: u64) \<longrightarrow>
      extent_place (t_fs file_transfer) (t_ref file_transfer) i \<noteq> 0 \<and>
      (unat (extent_place (t_fs file_transfer) (t_ref file_transfer) i) + 1) * 1024 \<le>
        unat (part_size (fs_bdev (t_fs file_transfer)))"
  proof (intro allI impI)
    fix i :: nat assume "700 div 1024 \<le> i \<and> i * 1024 < 700 + unat (1500 :: u64)"
    then have "i = 0 \<or> i = 1 \<or> i = 2" by auto
    then show "extent_place (t_fs file_transfer) (t_ref file_transfer) i \<noteq> 0 \<and>
        (unat (extent_place (t_fs file_transfer) (t_ref file_transfer) i) + 1) * 1024 \<le>
          unat (part_size (fs_bdev (t_fs file_transfer)))"
      by (auto simp: t file_sample_place file_sample_device)
  qed
  have "\<exists>r t' d. read_range file_transfer 1024 2 700 1500 =
      Some (r, t', map (extent_file_byte (t_fs file_transfer) (t_ref file_transfer)) [700..<700 + d], of_nat d) \<and>
    d \<le> unat (1500 :: u64) \<and> (r = EOK \<longrightarrow> d = unat (1500 :: u64)) \<and>
    raw_img (bdev_dev (fs_bdev (t_fs t'))) = raw_img (bdev_dev (fs_bdev (t_fs file_transfer)))"
  proof (rule file_read_correct [OF _ _ _ _ _ _ _ _ _ _ m])
    show "extent_file (t_fs file_transfer) (t_ref file_transfer)" unfolding t by (rule file_sample_file)
    show "extent_device 8192 (fs_bdev (t_fs file_transfer))" unfolding t by (rule file_sample_device)
    show "1024 = unat (lg_bsize (fs_bdev (t_fs file_transfer)))" unfolding t by (simp add: file_sample_device(2))
    show "t_iblock file_transfer = of_nat (700 div 1024)" by (simp only: t) simp
  qed simp_all
  then obtain r t' d where R: "read_range file_transfer 1024 2 700 1500 =
      Some (r, t', map (extent_file_byte file_sample ext_sample_ref) [700..<700 + d], of_nat d)"
    "d \<le> 1500" "r = EOK \<longrightarrow> d = 1500" by (auto simp: t)
  have "map (extent_file_byte file_sample ext_sample_ref) [700..<700 + d] = map (\<lambda>i. of_nat (3072 + i)) [700..<700 + d]"
    using R(2) b by (intro map_cong) auto
  with R show ?thesis by metis
qed


section \<open>Holes\<close>

lemma asked_device:
  "raw_byte (fs_bdev (fs_asked fs)) = raw_byte (fs_bdev fs)" "extent_device N (fs_bdev (fs_asked fs)) = extent_device N (fs_bdev fs)"
  "part_size (fs_bdev (fs_asked fs)) = part_size (fs_bdev fs)"
  by (simp_all add: fs_asked_def upd_bc_def extent_device_def driver_is_def part_ok_def fun_eq_iff)

lemma read_hole:
  assumes "extent_device N (fs_bdev fs)" "unat left \<le> unat (part_size (fs_bdev fs))" "unat left < 2 ^ 32"
  obtains r bs bdev where "ext4_block_readbytes (fs_bdev fs) 0 (ucast (left :: u64)) = Some (r, bs, bdev)"
    "r = EOK \<Longrightarrow> bs = map (raw_byte (fs_bdev fs)) [0..<unat left]"
proof -
  have n: "unat (ucast left :: u32) = unat left" using assms(3) by (simp add: unat_ucast_le_32)
  obtain r bs bdev where R: "ext4_block_readbytes (fs_bdev fs) 0 (ucast left) = Some (r, bs, bdev)"
    "r = EOK \<Longrightarrow> bs = region (raw_img (bdev_dev (fs_bdev fs))) (unat (part_offset (fs_bdev fs)) + unat (0 :: u64)) (unat left)"
    by (rule raw.readbytes [of N "fs_bdev fs" 0 "ucast left", unfolded n])
      (use assms(1,2) in \<open>auto simp: extent_device_def\<close>)
  show ?thesis by (rule that [OF R(1)]) (use R(2) in \<open>auto intro!: nth_equalityI\<close>)
qed

text \<open>
  C30: A hole reads as zeros in the first partial block of a transfer (\<open>read_head\<close>), but as the first
  bytes of the partition in the last one: \<open>read_tail\<close> does not test the block number for 0. Both look
  the block up first and fail with \<open>ENOMEM\<close> when the heap has no room for the path.
\<close>

theorem hole_reads_differ:
  assumes "extent_file (t_fs t) (t_ref t)" "extent_device N (fs_bdev (t_fs t))"
    and "extent_place (t_fs t) (t_ref t) (unat (t_iblock t)) = 0"
    and "unat left \<le> unat (part_size (fs_bdev (t_fs t)))" "unat left < 2 ^ 32"
  shows "(\<exists>t'. read_head t block_size unalg len =
      Some (if fs_can_malloc (t_fs t) then (EOK, t', replicate (unat len) 0) else (ENOMEM, t', []))) \<and>
    (\<exists>r t' data. read_tail t block_size left = Some (r, t', data) \<and>
      (\<not> fs_can_malloc (t_fs t) \<longrightarrow> r = ENOMEM) \<and>
      (r = EOK \<longrightarrow> data = map (raw_byte (fs_bdev (t_fs t))) [0..<unat left]))"
proof (cases "fs_can_malloc (t_fs t)")
  case True
  note look = lookup_extent_file [OF assms(1), of "t_iblock t"]
  obtain r bs bdev' where R: "ext4_block_readbytes (fs_bdev (fs_asked (t_fs t))) 0 (ucast left) = Some (r, bs, bdev')"
    "r = EOK \<Longrightarrow> bs = map (raw_byte (fs_bdev (t_fs t))) [0..<unat left]"
    by (rule read_hole [of N "fs_asked (t_fs t)" left, unfolded asked_device]) (use assms(2,4,5) in auto)
  have "\<exists>r t' data. read_tail t block_size left = Some (r, t', data) \<and>
      (r = EOK \<longrightarrow> data = map (raw_byte (fs_bdev (t_fs t))) [0..<unat left])"
    using R look assms(3) True by (simp add: read_tail_def Let_def)
  moreover have "\<exists>t'. read_head t block_size unalg len = Some (EOK, t', replicate (unat len) 0)"
    using look assms(3) True by (simp add: read_head_def Let_def)
  ultimately show ?thesis using True by simp
next
  case False
  then show ?thesis
    using lookup_extent_file [OF assms(1), of "t_iblock t"] by (simp add: read_head_def read_tail_def Let_def)
qed

lemma file_sample_heap: "fs_can_malloc file_sample"
  by (simp add: fs_can_malloc_def file_sample_def fs_store_def blk_put_def sample_held_def ext4_block_get_noread_def
      ext4_block_cache_shake_def shake_loop.simps sample_dev_def sample_cache_def ext4_io_raw_dev_get_def ext4_bcache_alloc_def
      ext4_bcache_find_get_def ext4_buf_lookup_def ext4_buf_alloc_def EXT4_BLOCK_ZERO_def Let_def upd_bc_def upd_buf_def
      ext4_bcache_is_full_def)

theorem hole_reads_differ_witness:
  "(\<exists>t'. read_head (file_transfer\<lparr>t_iblock := 7\<rparr>) 1024 1021 3 = Some (EOK, t', [0, 0, 0])) \<and>
   (\<exists>r t' data. read_tail (file_transfer\<lparr>t_iblock := 7\<rparr>) 1024 3 = Some (r, t', data) \<and>
     (r = EOK \<longrightarrow> data = [0, 1, 2]))"
proof -
  have t: "t_fs (file_transfer\<lparr>t_iblock := 7\<rparr>) = file_sample" "t_ref (file_transfer\<lparr>t_iblock := 7\<rparr>) = ext_sample_ref"
    "t_iblock (file_transfer\<lparr>t_iblock := 7\<rparr>) = 7"
    by (simp_all add: file_transfer_def)
  have u: "unat (3 :: u64) = Suc (Suc (Suc 0))" "(1024 :: u8) = 0" by simp_all
  have "(\<exists>t'. read_head (file_transfer\<lparr>t_iblock := 7\<rparr>) 1024 1021 3 =
      Some (if fs_can_malloc (t_fs (file_transfer\<lparr>t_iblock := 7\<rparr>))
            then (EOK, t', replicate (unat (3 :: u64)) 0) else (ENOMEM, t', []))) \<and>
    (\<exists>r t' data. read_tail (file_transfer\<lparr>t_iblock := 7\<rparr>) 1024 3 = Some (r, t', data) \<and>
      (\<not> fs_can_malloc (t_fs (file_transfer\<lparr>t_iblock := 7\<rparr>)) \<longrightarrow> r = ENOMEM) \<and>
      (r = EOK \<longrightarrow> data = map (raw_byte (fs_bdev (t_fs (file_transfer\<lparr>t_iblock := 7\<rparr>)))) [0..<unat (3 :: u64)]))"
  proof (rule hole_reads_differ)
    show "extent_file (t_fs (file_transfer\<lparr>t_iblock := 7\<rparr>)) (t_ref (file_transfer\<lparr>t_iblock := 7\<rparr>))"
      unfolding t by (rule file_sample_file)
    show "extent_device 8192 (fs_bdev (t_fs (file_transfer\<lparr>t_iblock := 7\<rparr>)))"
      unfolding t by (rule file_sample_device)
  qed (simp_all add: t file_sample_place file_sample_device)
  then show ?thesis unfolding u(1) t file_sample_device by (simp add: u(2) file_sample_heap)
qed

end
