(* ===== verification/Attr.thy ===== *)
theory Attr
  imports File Xattr
begin

text \<open>
  Functions of \<open>src/ext4.c\<close> on what a path names: mode, owner and times, symbolic links, device
  nodes and extended attributes.
\<close>

section \<open>Attributes of an inode\<close>

text \<open>
  The setters open the path (\<open>ext4_trans_get_inode_ref\<close>), change the inode and put it back
  (\<open>ext4_trans_put_inode_ref\<close>); the getters read it. \<open>None\<close> inside is the error before the value is
  stored.
\<close>

definition ext4_trans_get_inode_ref ::
    "sorter \<Rightarrow> 'd ext4_api \<Rightarrow> nat \<Rightarrow> bytes \<Rightarrow> (errno \<times> 'd ext4_api \<times> ext4_inode_ref) option" where
  "ext4_trans_get_inode_ref qsort st mp path = do {
     (r, st, f, _) \<leftarrow> ext4_generic_open2 qsort st path O_RDONLY EXT4_DE_UNKNOWN;
     if r \<noteq> EOK then Some (r, st, inode_ref_undef)
     else do {
       f \<leftarrow> f;
       fs \<leftarrow> mp_load st mp;
       (r, fs, ref) \<leftarrow> ext4_fs_get_inode_ref fs (f_inode f);
       Some (r, mp_save st mp fs, ref)
     }
   }"

definition ext4_trans_put_inode_ref ::
    "'d ext4_api \<Rightarrow> nat \<Rightarrow> ext4_inode_ref \<Rightarrow> (errno \<times> 'd ext4_api) option" where
  "ext4_trans_put_inode_ref st mp ref = do {
     fs \<leftarrow> mp_load st mp;
     (r, fs) \<leftarrow> ext4_fs_put_inode_ref fs ref;
     Some (r, mp_save st mp fs)
   }"

definition path_set ::
    "(ext4_sblock \<Rightarrow> ext4_inode \<Rightarrow> ext4_inode) \<Rightarrow> sorter \<Rightarrow> 'd ext4_api \<Rightarrow> bytes \<Rightarrow> (errno \<times> 'd ext4_api) option" where
  "path_set change qsort st path =
     (case ext4_get_mount st path of
        None \<Rightarrow> Some (ENOENT, st)
      | Some mp \<Rightarrow>
          if fs_read_only (mp_fs (s_mp st ! mp)) then Some (EROFS, st)
          else do {
            (r, st, ref) \<leftarrow> ext4_trans_get_inode_ref qsort st mp path;
            if r \<noteq> EOK then Some (r, st)
            else do {
              fs \<leftarrow> mp_load st mp;
              let st = mp_save st mp (ino_upd (change (fs_sb fs)) fs ref);
              ext4_trans_put_inode_ref st mp (ref\<lparr>ir_dirty := True\<rparr>)
            }
          })"

definition path_get ::
    "(ext4_sblock \<Rightarrow> ext4_inode \<Rightarrow> 'a) \<Rightarrow> sorter \<Rightarrow> 'd ext4_api \<Rightarrow> bytes \<Rightarrow>
     (errno \<times> 'd ext4_api \<times> 'a option) option" where
  "path_get val qsort st path =
     (case ext4_get_mount st path of
        None \<Rightarrow> Some (ENOENT, st, None)
      | Some mp \<Rightarrow> do {
          (r, st, ref) \<leftarrow> ext4_trans_get_inode_ref qsort st mp path;
          if r \<noteq> EOK then Some (r, st, None)
          else do {
            fs \<leftarrow> mp_load st mp;
            let v = val (fs_sb fs) (ino_get fs ref);
            (r, fs) \<leftarrow> ext4_fs_put_inode_ref fs ref;
            Some (r, mp_save st mp fs, Some v)
          }
        })"

definition ext4_mode_set :: "sorter \<Rightarrow> 'd ext4_api \<Rightarrow> bytes \<Rightarrow> u32 \<Rightarrow> (errno \<times> 'd ext4_api) option" where
  "ext4_mode_set qsort st path mode =
     path_set (\<lambda>sb i. ext4_inode_set_mode sb i ((ext4_inode_get_mode sb i AND NOT 0xFFF) OR (mode AND 0xFFF))) qsort st path"

definition ext4_owner_set :: "sorter \<Rightarrow> 'd ext4_api \<Rightarrow> bytes \<Rightarrow> u32 \<Rightarrow> u32 \<Rightarrow> (errno \<times> 'd ext4_api) option" where
  "ext4_owner_set qsort st path uid gid =
     path_set (\<lambda>sb i. ext4_inode_set_gid (ext4_inode_set_uid i uid) gid) qsort st path"

definition ext4_atime_set :: "sorter \<Rightarrow> 'd ext4_api \<Rightarrow> bytes \<Rightarrow> u32 \<Rightarrow> (errno \<times> 'd ext4_api) option" where
  "ext4_atime_set qsort st path atime = path_set (\<lambda>sb i. ext4_inode_set_access_time i atime) qsort st path"

definition ext4_mtime_set :: "sorter \<Rightarrow> 'd ext4_api \<Rightarrow> bytes \<Rightarrow> u32 \<Rightarrow> (errno \<times> 'd ext4_api) option" where
  "ext4_mtime_set qsort st path mtime = path_set (\<lambda>sb i. ext4_inode_set_modif_time i mtime) qsort st path"

definition ext4_ctime_set :: "sorter \<Rightarrow> 'd ext4_api \<Rightarrow> bytes \<Rightarrow> u32 \<Rightarrow> (errno \<times> 'd ext4_api) option" where
  "ext4_ctime_set qsort st path ctime = path_set (\<lambda>sb i. ext4_inode_set_change_inode_time i ctime) qsort st path"

definition ext4_mode_get :: "sorter \<Rightarrow> 'd ext4_api \<Rightarrow> bytes \<Rightarrow> (errno \<times> 'd ext4_api \<times> u32 option) option" where
  "ext4_mode_get = path_get ext4_inode_get_mode"

definition ext4_owner_get ::
    "sorter \<Rightarrow> 'd ext4_api \<Rightarrow> bytes \<Rightarrow> (errno \<times> 'd ext4_api \<times> (u32 \<times> u32) option) option" where
  "ext4_owner_get = path_get (\<lambda>sb i. (ext4_inode_get_uid i, ext4_inode_get_gid i))"

definition ext4_atime_get :: "sorter \<Rightarrow> 'd ext4_api \<Rightarrow> bytes \<Rightarrow> (errno \<times> 'd ext4_api \<times> u32 option) option" where
  "ext4_atime_get = path_get (\<lambda>sb i. ext4_inode_get_access_time i)"

definition ext4_mtime_get :: "sorter \<Rightarrow> 'd ext4_api \<Rightarrow> bytes \<Rightarrow> (errno \<times> 'd ext4_api \<times> u32 option) option" where
  "ext4_mtime_get = path_get (\<lambda>sb i. ext4_inode_get_modif_time i)"

definition ext4_ctime_get :: "sorter \<Rightarrow> 'd ext4_api \<Rightarrow> bytes \<Rightarrow> (errno \<times> 'd ext4_api \<times> u32 option) option" where
  "ext4_ctime_get = path_get (\<lambda>sb i. ext4_inode_get_change_inode_time i)"

text \<open>The raw inode; the result of the release is ignored here. The second value is its number.\<close>

definition ext4_raw_inode_fill ::
    "sorter \<Rightarrow> 'd ext4_api \<Rightarrow> bytes \<Rightarrow> (errno \<times> 'd ext4_api \<times> (u32 \<times> ext4_inode) option) option" where
  "ext4_raw_inode_fill qsort st path =
     (case ext4_get_mount st path of
        None \<Rightarrow> Some (ENOENT, st, None)
      | Some mp \<Rightarrow> do {
          (r, st, ref) \<leftarrow> ext4_trans_get_inode_ref qsort st mp path;
          if r \<noteq> EOK then Some (r, st, None)
          else do {
            fs \<leftarrow> mp_load st mp;
            let inode = ino_get fs ref;
            (_, fs) \<leftarrow> ext4_fs_put_inode_ref fs ref;
            Some (r, mp_save st mp fs, Some (ir_index ref, inode))
          }
        })"

definition ext4_inode_exist ::
    "sorter \<Rightarrow> 'd ext4_api \<Rightarrow> bytes \<Rightarrow> u8 \<Rightarrow> (errno \<times> 'd ext4_api) option" where
  "ext4_inode_exist qsort st path ftype = do {
     (r, st, _) \<leftarrow> ext4_generic_open2 qsort st path O_RDONLY ftype;
     Some (r, st)
   }"

section \<open>Symbolic links\<close>

text \<open>
  Short targets are stored in place of the block pointers. Write-back mode is left on when
  appending or writing the block fails.
\<close>

definition fs_symlink_set ::
    "'d ext4_fs \<Rightarrow> ext4_file \<Rightarrow> bytes \<Rightarrow> (errno \<times> 'd ext4_fs \<times> ext4_file) option" where
  "fs_symlink_set fs f buf =
     (if buf = [] then Some (EOK, fs, f)
      else do {
        (r, fs, ref) \<leftarrow> ext4_fs_get_inode_ref fs (f_inode f);
        if r \<noteq> EOK then Some (r, fs, f)
        else do {
          let block_size = ext4_sb_get_block_size (fs_sb fs);
          (r, fs, ref, f) \<leftarrow>
            (if of_nat (length buf) > block_size then Some (EINVAL, fs, ref, f)
             else do {
               (r, fs, f) \<leftarrow> fs_ftruncate fs f 0;
               if r \<noteq> EOK then Some (r, fs, ref, f)
               else do {
                 (r, fs) \<leftarrow> fs_write_back fs True;
                 if r \<noteq> EOK then Some (r, fs, ref, f)
                 else do {
                   (r, fs, ref) \<leftarrow>
                     (if length buf < 60
                      then Some (EOK, ino_upd (\<lambda>i. ext4_inode_clear_flag
                                  (i\<lparr>in_blocks := get_les 4 0 15 (put_bytes 0 buf (replicate 60 0))\<rparr>)
                                  EXT4_INODE_FLAG_EXTENTS) fs ref, ref)
                      else (case ext4_fs_inode_blocks_init fs ref of (fs, ref) \<Rightarrow> do {
                        (r, fs, ref, res) \<leftarrow> ext4_fs_append_inode_dblk fs ref;
                        if r \<noteq> EOK then Some (r, fs, ref)
                        else (case res of None \<Rightarrow> None | Some (fblock, _) \<Rightarrow> do {
                          (r, bdev) \<leftarrow> ext4_block_writebytes (fs_bdev fs) (fblock * ucast block_size) buf
                                          (of_nat (length buf));
                          Some (r, fs\<lparr>fs_bdev := bdev\<rparr>, ref)
                        })
                      }));
                   if r \<noteq> EOK then Some (r, fs, ref, f)
                   else do {
                     (_, fs) \<leftarrow> fs_write_back fs False;
                     let fs = ino_upd (\<lambda>i. ext4_inode_set_size i (of_nat (length buf))) fs ref;
                     let n = of_nat (length buf);
                     Some (EOK, fs, ref\<lparr>ir_dirty := True\<rparr>, f\<lparr>f_fsize := n, f_fpos := min (f_fpos f) n\<rparr>)
                   }
                 }
               }
             });
          (_, fs) \<leftarrow> ext4_fs_put_inode_ref fs ref;
          Some (r, fs, f)
        }
      })"

text \<open>The calls around a creation: write-back mode on, the path opened with \<open>O_CREAT\<close>, a part on the file.\<close>

definition with_created ::
    "sorter \<Rightarrow> 'd ext4_api \<Rightarrow> nat \<Rightarrow> bytes \<Rightarrow> u32 \<Rightarrow> u8 \<Rightarrow>
     ('d ext4_fs \<Rightarrow> ext4_file \<Rightarrow> (errno \<times> 'd ext4_fs \<times> 'a) option) \<Rightarrow>
     (errno \<times> 'd ext4_api \<times> 'a option) option" where
  "with_created qsort st mp path flags filetype part = do {
     st \<leftarrow> mp_write_back st mp True;
     (r, st, f, _) \<leftarrow> ext4_generic_open2 qsort st path flags filetype;
     (r, st, v) \<leftarrow>
       (if r \<noteq> EOK then Some (r, st, None)
        else do {
          f \<leftarrow> f;
          fs \<leftarrow> mp_load st mp;
          (r, fs, v) \<leftarrow> part fs f;
          Some (r, mp_save st mp fs, Some v)
        });
     st \<leftarrow> mp_write_back st mp False;
     Some (r, st, v)
   }"

definition ext4_fsymlink :: "sorter \<Rightarrow> 'd ext4_api \<Rightarrow> bytes \<Rightarrow> bytes \<Rightarrow> (errno \<times> 'd ext4_api) option" where
  "ext4_fsymlink qsort st target path =
     (case ext4_get_mount st path of
        None \<Rightarrow> Some (ENOENT, st)
      | Some mp \<Rightarrow>
          if fs_read_only (mp_fs (s_mp st ! mp)) then Some (EROFS, st)
          else do {
            (r, st, _) \<leftarrow> with_created qsort st mp path (O_RDWR OR O_CREAT) EXT4_DE_SYMLINK
              (\<lambda>fs f. fs_symlink_set fs f target);
            Some (r, st)
          })"

text \<open>The bytes read and their number; the buffer of the caller has \<open>bufsize\<close> bytes.\<close>

definition ext4_readlink ::
    "sorter \<Rightarrow> 'd ext4_api \<Rightarrow> bytes \<Rightarrow> u64 \<Rightarrow> (errno \<times> 'd ext4_api \<times> (bytes \<times> u64 option) option) option" where
  "ext4_readlink qsort st path bufsize =
     (case ext4_get_mount st path of
        None \<Rightarrow> Some (ENOENT, st, None)
      | Some mp \<Rightarrow>
          with_created qsort st mp path O_RDONLY EXT4_DE_SYMLINK
            (\<lambda>fs f. if bufsize = 0 then Some (EOK, fs, [], None)
                    else do {
                      (r, fs, f, buf, rcnt) \<leftarrow> fs_fread fs f bufsize;
                      Some (r, fs, buf, Some rcnt)
                    }))"

section \<open>Device nodes\<close>

definition fs_mknod_set ::
    "'d ext4_fs \<Rightarrow> ext4_file \<Rightarrow> u32 \<Rightarrow> (errno \<times> 'd ext4_fs \<times> ext4_file) option" where
  "fs_mknod_set fs f dev = do {
     (r, fs, ref) \<leftarrow> ext4_fs_get_inode_ref fs (f_inode f);
     if r \<noteq> EOK then Some (r, fs, f)
     else do {
       let fs = ino_upd (\<lambda>i. ext4_inode_set_size (ext4_inode_set_dev i dev) 0) fs ref;
       (r, fs) \<leftarrow> ext4_fs_put_inode_ref fs (ref\<lparr>ir_dirty := True\<rparr>);
       Some (r, fs, f\<lparr>f_fsize := 0, f_fpos := 0\<rparr>)
     }
   }"

definition ext4_mknod ::
    "sorter \<Rightarrow> 'd ext4_api \<Rightarrow> bytes \<Rightarrow> u8 \<Rightarrow> u32 \<Rightarrow> (errno \<times> 'd ext4_api) option" where
  "ext4_mknod qsort st path filetype dev =
     (case ext4_get_mount st path of
        None \<Rightarrow> Some (ENOENT, st)
      | Some mp \<Rightarrow>
          if fs_read_only (mp_fs (s_mp st ! mp)) then Some (EROFS, st)
          else if filetype \<in> {EXT4_DE_UNKNOWN, EXT4_DE_REG_FILE, EXT4_DE_DIR, EXT4_DE_SYMLINK} then Some (EINVAL, st)
          else if filetype \<notin> {EXT4_DE_CHRDEV, EXT4_DE_BLKDEV, EXT4_DE_FIFO, EXT4_DE_SOCK} then Some (EINVAL, st)
          else do {
            (r, st, _) \<leftarrow> with_created qsort st mp path (O_RDWR OR O_CREAT) filetype
              (\<lambda>fs f. if filetype = EXT4_DE_CHRDEV \<or> filetype = EXT4_DE_BLKDEV then fs_mknod_set fs f dev
                      else Some (EOK, fs, f));
            Some (r, st)
          })"

end
