(* ===== verification/Api_Dir.thy ===== *)
theory Api_Dir
  imports Attr
begin

text \<open>
  The rest of \<open>src/ext4.c\<close>: extended attributes by path, and making, listing and removing
  directories.
\<close>

section \<open>Extended attributes\<close>

text \<open>The name behind the prefix; using a null pointer as a name of some length has no answer.\<close>

definition dissect :: "bytes \<Rightarrow> (u8 \<times> bytes) option option" where
  "dissect name =
     (case ext4_extract_xattr_name name of
        (True, Some rest, _, Some index) \<Rightarrow> Some (Some (index, rest))
      | (True, None, n, Some index) \<Rightarrow> if n = 0 then Some (Some (index, [])) else None
      | _ \<Rightarrow> Some None)"

text \<open>Opening the path, loading the inode, a part on it, and putting it back.\<close>

definition with_inode ::
    "sorter \<Rightarrow> 'd ext4_api \<Rightarrow> nat \<Rightarrow> bytes \<Rightarrow>
     ('d ext4_fs \<Rightarrow> ext4_inode_ref \<Rightarrow> (errno \<times> 'd ext4_fs \<times> ext4_inode_ref \<times> 'a) option) \<Rightarrow>
     (errno \<times> 'd ext4_api \<times> 'a option) option" where
  "with_inode qsort st mp path part = do {
     (r, st, inode, _) \<leftarrow> resolve qsort st path;
     if r \<noteq> EOK then Some (r, st, None)
     else do {
       fs \<leftarrow> mp_load st mp;
       (r, fs, ref) \<leftarrow> ext4_fs_get_inode_ref fs inode;
       if r \<noteq> EOK then Some (r, mp_save st mp fs, None)
       else do {
         (r, fs, ref, v) \<leftarrow> part fs ref;
         (_, fs) \<leftarrow> ext4_fs_put_inode_ref fs ref;
         Some (r, mp_save st mp fs, Some v)
       }
     }
   }"

definition ext4_setxattr ::
    "sorter \<Rightarrow> 'd ext4_api \<Rightarrow> bytes \<Rightarrow> bytes \<Rightarrow> bytes \<Rightarrow> (errno \<times> 'd ext4_api) option" where
  "ext4_setxattr qsort st path name data =
     (case ext4_get_mount st path of
        None \<Rightarrow> Some (ENOENT, st)
      | Some mp \<Rightarrow>
          if fs_read_only (mp_fs (s_mp st ! mp)) then Some (EROFS, st)
          else do {
            found \<leftarrow> dissect name;
            (case found of
               None \<Rightarrow> Some (EINVAL, st)
             | Some (index, rest) \<Rightarrow> do {
                 (r, st, _) \<leftarrow> with_inode qsort st mp path
                   (\<lambda>fs ref. do { (r, fs, ref) \<leftarrow> ext4_xattr_set fs ref index rest data; Some (r, fs, ref, ()) });
                 Some (r, st)
               })
          })"

definition ext4_getxattr ::
    "sorter \<Rightarrow> 'd ext4_api \<Rightarrow> bytes \<Rightarrow> bytes \<Rightarrow> nat \<Rightarrow> (errno \<times> 'd ext4_api \<times> (bytes \<times> nat) option) option" where
  "ext4_getxattr qsort st path name buf_size =
     (case ext4_get_mount st path of
        None \<Rightarrow> Some (ENOENT, st, None)
      | Some mp \<Rightarrow> do {
          found \<leftarrow> dissect name;
          (case found of
             None \<Rightarrow> Some (EINVAL, st, None)
           | Some (index, rest) \<Rightarrow>
               with_inode qsort st mp path
                 (\<lambda>fs ref. do { (r, fs, buf, n) \<leftarrow> ext4_xattr_get fs ref index rest buf_size; Some (r, fs, ref, buf, n) }))
        })"

definition ext4_removexattr ::
    "sorter \<Rightarrow> 'd ext4_api \<Rightarrow> bytes \<Rightarrow> bytes \<Rightarrow> (errno \<times> 'd ext4_api) option" where
  "ext4_removexattr qsort st path name =
     (case ext4_get_mount st path of
        None \<Rightarrow> Some (ENOENT, st)
      | Some mp \<Rightarrow>
          if fs_read_only (mp_fs (s_mp st ! mp)) then Some (EROFS, st)
          else do {
            found \<leftarrow> dissect name;
            (case found of
               None \<Rightarrow> Some (EINVAL, st)
             | Some (index, rest) \<Rightarrow> do {
                 (r, st, _) \<leftarrow> with_inode qsort st mp path
                   (\<lambda>fs ref. do { (r, fs, ref) \<leftarrow> ext4_xattr_remove fs ref index rest; Some (r, fs, ref, ()) });
                 Some (r, st)
               })
          })"

text \<open>
  The names, each with its prefix and a terminator, into a buffer of which \<open>room\<close> bytes are left.
  With no room left the check and the copy are skipped.
\<close>

fun list_names :: "(u8 \<times> bytes) list \<Rightarrow> bool \<Rightarrow> nat \<Rightarrow> errno \<times> bytes \<times> nat" where
  "list_names [] has_list room = (EOK, [], 0)"
| "list_names ((index, name) # ns) has_list room =
     (let (prefix, prefix_len) = ext4_get_xattr_name_prefix index;
          text = (case prefix of None \<Rightarrow> [] | Some p \<Rightarrow> p) @ name @ [0];
          n = prefix_len + length name + 1
      in if room \<noteq> 0 \<and> n > room then (ERANGE, [], 0)
         else if has_list \<and> room \<noteq> 0
         then (case list_names ns has_list (room - n) of (r, out, tot) \<Rightarrow> (r, text @ out, n + tot))
         else (case list_names ns has_list room of (r, out, tot) \<Rightarrow> (r, out, n + tot)))"

text \<open>The size is \<open>None\<close> when it is not stored: on an error and when there are no attributes.\<close>

definition fs_listxattr ::
    "'d ext4_fs \<Rightarrow> ext4_inode_ref \<Rightarrow> bool \<Rightarrow> nat \<Rightarrow>
     (errno \<times> 'd ext4_fs \<times> ext4_inode_ref \<times> bytes \<times> nat option) option" where
  "fs_listxattr fs ref has_list room = do {
     (r, fs, _, list_len) \<leftarrow> ext4_xattr_list fs ref;
     if r = EOK \<and> list_len \<noteq> 0
     then (case fs_malloc fs of (ok, fs) \<Rightarrow>
       if \<not> ok then Some (ENOMEM, fs, ref, [], None)
       else do {
         (r, fs, names, _) \<leftarrow> ext4_xattr_list fs ref;
         if r \<noteq> EOK then Some (r, fs, ref, [], None)
         else (case list_names names has_list room of
                 (r, out, tot) \<Rightarrow> Some (r, fs, ref, out, if r = EOK then Some tot else None))
       })
     else Some (r, fs, ref, [], None)
   }"

definition ext4_listxattr ::
    "sorter \<Rightarrow> 'd ext4_api \<Rightarrow> bytes \<Rightarrow> bool \<Rightarrow> nat \<Rightarrow>
     (errno \<times> 'd ext4_api \<times> (bytes \<times> nat option) option) option" where
  "ext4_listxattr qsort st path has_list room =
     (case ext4_get_mount st path of
        None \<Rightarrow> Some (ENOENT, st, None)
      | Some mp \<Rightarrow> with_inode qsort st mp path (\<lambda>fs ref. fs_listxattr fs ref has_list room))"

section \<open>Making, opening and listing directories\<close>

definition ext4_dir_mv :: "sorter \<Rightarrow> 'd ext4_api \<Rightarrow> bytes \<Rightarrow> bytes \<Rightarrow> (errno \<times> 'd ext4_api) option" where
  "ext4_dir_mv qsort st path new_path = ext4_frename qsort st path new_path"

definition ext4_dir_mk :: "sorter \<Rightarrow> 'd ext4_api \<Rightarrow> bytes \<Rightarrow> (errno \<times> 'd ext4_api) option" where
  "ext4_dir_mk qsort st path =
     (case ext4_get_mount st path of
        None \<Rightarrow> Some (ENOENT, st)
      | Some mp \<Rightarrow>
          if fs_read_only (mp_fs (s_mp st ! mp)) then Some (EROFS, st)
          else do {
            (r, st, _) \<leftarrow> ext4_generic_open qsort st path ''r'' False;
            if r = EOK then Some (r, st)
            else do {
              (r, st, _) \<leftarrow> ext4_generic_open qsort st path ''w'' False;
              Some (r, st)
            }
          })"

record ext4_direntry =
  dir_inode :: u32
  dir_entry_length :: u16
  dir_name_length :: u8
  dir_inode_type :: u8
  dir_name :: bytes

record ext4_dir =
  d_f :: ext4_file
  d_de :: ext4_direntry
  d_next_off :: u64

definition EXT4_DIR_ENTRY_OFFSET_TERM :: u64 where "EXT4_DIR_ENTRY_OFFSET_TERM = - 1"

text \<open>The directory handle: the file when it was opened, and the offset 0 in any case.\<close>

definition ext4_dir_open ::
    "sorter \<Rightarrow> 'd ext4_api \<Rightarrow> bytes \<Rightarrow> (errno \<times> 'd ext4_api \<times> ext4_file option \<times> u64) option" where
  "ext4_dir_open qsort st path =
     (case ext4_get_mount st path of
        None \<Rightarrow> Some (ENOENT, st, None, 0)
      | Some mp \<Rightarrow> do {
          (r, st, f, _) \<leftarrow> ext4_generic_open qsort st path ''r'' False;
          Some (r, st, f, 0)
        })"

definition ext4_dir_close :: "ext4_dir \<Rightarrow> (errno \<times> ext4_dir) option" where
  "ext4_dir_close dir = do {
     (r, f) \<leftarrow> ext4_fclose (d_f dir);
     Some (r, dir\<lparr>d_f := f\<rparr>)
   }"

definition ext4_dir_entry_rewind :: "ext4_dir \<Rightarrow> ext4_dir" where
  "ext4_dir_entry_rewind dir = dir\<lparr>d_next_off := 0\<rparr>"

text \<open>
  The next entry, if there is one. The handle takes a byte for the length of the name; the errors
  of going on are not looked at. An iterator without an entry is a null pointer here.
\<close>

definition fs_entry_next ::
    "'d ext4_fs \<Rightarrow> ext4_dir \<Rightarrow> ('d ext4_fs \<times> ext4_dir \<times> ext4_direntry option) option" where
  "fs_entry_next fs dir = do {
     (r, fs, ir) \<leftarrow> ext4_fs_get_inode_ref fs (f_inode (d_f dir));
     if r \<noteq> EOK then Some (fs, dir, None)
     else do {
       (r, fs, ir, it) \<leftarrow> ext4_dir_iterator_init fs ir (d_next_off dir);
       if r \<noteq> EOK
       then do { (_, fs) \<leftarrow> ext4_fs_put_inode_ref fs ir; Some (fs, dir, None) }
       else do {
         pos \<leftarrow> it_curr it;
         let en = it_en fs it pos;
         let name_length = ext4_dir_en_get_name_len (fs_sb fs) en;
         let de = \<lparr>dir_inode = en_inode en, dir_entry_length = en_entry_len en, dir_name_length = ucast name_length,
                   dir_inode_type = ext4_dir_en_get_inode_type (fs_sb fs) en,
                   dir_name = it_name fs it pos (unat name_length)\<rparr>;
         (_, fs, ir, it) \<leftarrow> ext4_dir_iterator_next fs ir it;
         let off = (case it_curr it of None \<Rightarrow> EXT4_DIR_ENTRY_OFFSET_TERM | Some _ \<Rightarrow> it_off it);
         (_, fs) \<leftarrow> ext4_dir_iterator_fini fs it;
         (_, fs) \<leftarrow> ext4_fs_put_inode_ref fs ir;
         Some (fs, dir\<lparr>d_de := de, d_next_off := off\<rparr>, Some de)
       }
     }
   }"

definition ext4_dir_entry_next ::
    "'d ext4_api \<Rightarrow> ext4_dir \<Rightarrow> ('d ext4_api \<times> ext4_dir \<times> ext4_direntry option) option" where
  "ext4_dir_entry_next st dir = do {
     mp \<leftarrow> f_mp (d_f dir);
     if d_next_off dir = EXT4_DIR_ENTRY_OFFSET_TERM then Some (st, dir, None)
     else do {
       fs \<leftarrow> mp_load st mp;
       (fs, dir, de) \<leftarrow> fs_entry_next fs dir;
       Some (mp_save st mp fs, dir, de)
     }
   }"

section \<open>Removing a directory tree\<close>

text \<open>
  Where the removal stands: the directory that is emptied, the one above it, how deep it is below
  the start, the position in it, and whether the last step went into a child or reached the end.
\<close>

record rm_state =
  rm_current :: u32
  rm_up :: u32
  rm_depth :: u32
  rm_pos :: u64
  rm_has_children :: bool
  rm_dir_end :: bool

text \<open>A child without children of its own: truncated, unlinked and freed.\<close>

definition rm_child ::
    "'d ext4_fs \<Rightarrow> ext4_inode_ref \<Rightarrow> ext4_inode_ref \<Rightarrow> bytes \<Rightarrow> (errno \<times> 'd ext4_fs \<times> ext4_inode_ref) option" where
  "rm_child fs act child name = do {
     (r, fs, child) \<leftarrow>
       (if ext4_inode_type (fs_sb fs) (ino_get fs child) \<noteq> EXT4_INODE_MODE_DIRECTORY
        then do { (r, fs) \<leftarrow> ext4_trunc_inode fs (ir_index child) 0; Some (r, fs, child) }
        else ext4_trunc_dir fs act child);
     (r, fs, act, child) \<leftarrow> (if r \<noteq> EOK then Some (r, fs, act, child) else ext4_unlink fs act child name);
     (r, fs, child) \<leftarrow>
       (if r \<noteq> EOK then Some (r, fs, child)
        else ext4_fs_free_inode
               (ino_upd (\<lambda>i. ext4_inode_set_links_cnt (ext4_inode_set_del_time i (- 1)) 0) fs child)
               (child\<lparr>ir_dirty := True\<rparr>));
     (r', fs) \<leftarrow> ext4_fs_put_inode_ref fs child;
     Some (if r \<noteq> EOK then r else r', fs, act)
   }"

text \<open>The entry that the iterator stands on; then the iterator goes on to the next one.\<close>

definition rm_entry ::
    "'d ext4_fs \<Rightarrow> ext4_inode_ref \<Rightarrow> ext4_dir_iter \<Rightarrow> nat \<Rightarrow> rm_state \<Rightarrow>
     (errno \<times> 'd ext4_fs \<times> ext4_inode_ref \<times> ext4_dir_iter \<times> rm_state) option" where
  "rm_entry fs act it pos s = do {
     let en = it_en fs it pos;
     let name = it_name fs it pos (unat (en_name_len en));
     let s = (if en_name_len en = 2 \<and> ext4_is_dots name then s\<lparr>rm_up := en_inode en\<rparr> else s);
     (r, fs, act, s) \<leftarrow>
       (if ext4_is_dots name then Some (EOK, fs, act, s)
        else do {
          (r, fs, child) \<leftarrow> ext4_fs_get_inode_ref fs (en_inode en);
          if r \<noteq> EOK then Some (r, fs, act, s)
          else do {
            (r, has, fs, child) \<leftarrow> ext4_has_children fs child;
            if r \<noteq> EOK
            then do { (_, fs) \<leftarrow> ext4_fs_put_inode_ref fs child; Some (r, fs, act, s) }
            else if has = Some True
            then do {
              let s = s\<lparr>rm_up := rm_current s, rm_current := en_inode en, rm_depth := rm_depth s + 1,
                        rm_has_children := True\<rparr>;
              (_, fs) \<leftarrow> ext4_fs_put_inode_ref fs child;
              Some (EOK, fs, act, s)
            }
            else do {
              (r, fs, act) \<leftarrow> rm_child fs act child name;
              Some (r, fs, act, s)
            }
          }
        });
     if r \<noteq> EOK \<or> rm_has_children s then Some (r, fs, act, it, s)
     else do {
       (r, fs, act, it) \<leftarrow> ext4_dir_iterator_next fs act it;
       Some (r, fs, act, it, if r = EOK then s\<lparr>rm_pos := it_off it\<rparr> else s)
     }
   }"

text \<open>One turn of the inner loop.\<close>

definition rm_step :: "'d ext4_fs \<Rightarrow> rm_state \<Rightarrow> (errno \<times> 'd ext4_fs \<times> rm_state) option" where
  "rm_step fs s = do {
     (r, fs, act) \<leftarrow> ext4_fs_get_inode_ref fs (rm_current s);
     if r \<noteq> EOK then Some (r, fs, s)
     else do {
       (r, fs, act, it) \<leftarrow> ext4_dir_iterator_init fs act (rm_pos s);
       if r \<noteq> EOK
       then do { (_, fs) \<leftarrow> ext4_fs_put_inode_ref fs act; Some (r, fs, s) }
       else do {
         (r, fs, act, it, s) \<leftarrow>
           (case it_curr it of
              None \<Rightarrow> Some (EOK, fs, act, it, s\<lparr>rm_dir_end := True\<rparr>)
            | Some pos \<Rightarrow> rm_entry fs act it pos s);
         (_, fs) \<leftarrow> ext4_dir_iterator_fini fs it;
         (r', fs) \<leftarrow> ext4_fs_put_inode_ref fs act;
         Some (if r = EOK then r' else r, fs, s)
       }
     }
   }"

partial_function (option) rm_inner :: "'d ext4_fs \<Rightarrow> rm_state \<Rightarrow> (errno \<times> 'd ext4_fs \<times> rm_state) option" where
  "rm_inner fs s =
     Option.bind (rm_step fs s)
       (\<lambda>(r, fs, s). if r = EOK \<and> \<not> rm_has_children s \<and> \<not> rm_dir_end s then rm_inner fs s else Some (r, fs, s))"

partial_function (option) rm_outer :: "'d ext4_fs \<Rightarrow> rm_state \<Rightarrow> (errno \<times> 'd ext4_fs \<times> rm_state) option" where
  "rm_outer fs s =
     Option.bind (rm_inner fs (s\<lparr>rm_pos := 0, rm_has_children := False, rm_dir_end := False\<rparr>))
       (\<lambda>(r, fs, s).
          let s = (if rm_dir_end s then s\<lparr>rm_depth := rm_depth s - 1\<rparr> else s);
              s = (if rm_dir_end s \<and> rm_depth s \<noteq> 0 then s\<lparr>rm_current := rm_up s\<rparr> else s)
          in if r \<noteq> EOK \<or> rm_depth s = 0 then Some (r, fs, s) else rm_outer fs s)"

text \<open>
  The last unlinking, of the start of the tree from its parent. When the directory itself cannot be
  loaded the code releases it instead of its parent, which has no answer.
\<close>

definition rm_last :: "'d ext4_fs \<Rightarrow> rm_state \<Rightarrow> bytes \<Rightarrow> (errno \<times> 'd ext4_fs) option" where
  "rm_last fs s name = do {
     (r, fs, parent) \<leftarrow> ext4_fs_get_inode_ref fs (rm_up s);
     if r \<noteq> EOK then Some (r, fs)
     else do {
       (r, fs, act) \<leftarrow> ext4_fs_get_inode_ref fs (rm_current s);
       if r \<noteq> EOK then do { (_, fs) \<leftarrow> ext4_fs_put_inode_ref fs act; Some (r, fs) }
       else do {
         (r, fs, parent, act) \<leftarrow> ext4_unlink fs parent act name;
         (r, fs, act) \<leftarrow>
           (if r = EOK \<and> ext4_inode_get_links_cnt (ino_get fs act) = 2
            then do {
              let fs = ino_upd (\<lambda>i. ext4_inode_set_links_cnt (ext4_inode_set_del_time i (- 1)) 0) fs act;
              (r, fs, act) \<leftarrow> ext4_trunc_dir fs parent (act\<lparr>ir_dirty := True\<rparr>);
              if r \<noteq> EOK then Some (r, fs, act) else ext4_fs_free_inode fs act
            }
            else Some (r, fs, act));
         if r \<noteq> EOK
         then do {
           (_, fs) \<leftarrow> ext4_fs_put_inode_ref fs parent;
           (_, fs) \<leftarrow> ext4_fs_put_inode_ref fs act;
           Some (r, fs)
         }
         else do {
           (r, fs) \<leftarrow> ext4_fs_put_inode_ref fs parent;
           if r \<noteq> EOK then Some (r, fs) else ext4_fs_put_inode_ref fs act
         }
       }
     }
   }"

definition fs_dir_rm ::
    "'d ext4_fs \<Rightarrow> u32 \<Rightarrow> u32 \<Rightarrow> bytes \<Rightarrow> (errno \<times> 'd ext4_fs) option" where
  "fs_dir_rm fs inode_current inode_up name = do {
     (_, fs) \<leftarrow> fs_write_back fs True;
     (r, fs, s) \<leftarrow> rm_outer fs
       \<lparr>rm_current = inode_current, rm_up = inode_up, rm_depth = 1, rm_pos = 0, rm_has_children = False,
        rm_dir_end = False\<rparr>;
     (r, fs) \<leftarrow> (if r = EOK \<and> rm_depth s = 0 then rm_last fs s name else Some (r, fs));
     (_, fs) \<leftarrow> fs_write_back fs False;
     Some (r, fs)
   }"

definition ext4_dir_rm :: "sorter \<Rightarrow> 'd ext4_api \<Rightarrow> bytes \<Rightarrow> (errno \<times> 'd ext4_api) option" where
  "ext4_dir_rm qsort st path =
     (case ext4_get_mount st path of
        None \<Rightarrow> Some (ENOENT, st)
      | Some mp \<Rightarrow>
          if fs_read_only (mp_fs (s_mp st ! mp)) then Some (EROFS, st)
          else do {
            (r, st, f, inode_up, name_off) \<leftarrow> ext4_generic_open qsort st path ''r'' False;
            if r \<noteq> EOK then Some (r, st)
            else do {
              f \<leftarrow> f;
              fs \<leftarrow> mp_load st mp;
              let rest = drop name_off path;
              let len = fst (ext4_path_check rest);
              (r, fs) \<leftarrow> fs_dir_rm fs (f_inode f) inode_up (take len rest);
              Some (r, mp_save st mp fs)
            }
          })"

end
