(* ===== verification/Api_Facts.thy ===== *)
theory Api_Facts
  imports Api_Dir Extent_Root
begin

text \<open>
  Properties of the public functions that need no lower component: paths, positions, open flags
  and the table of mount points.
\<close>

section \<open>Paths\<close>

lemma path_scan_spec:
  "path_scan n path i =
     (let comp = takeWhile (\<lambda>c. c \<noteq> slash) path
      in if length comp < n then (i + length comp, Some (comp = path)) else (0, None))"
  by (induction n path i rule: path_scan.induct) (auto simp: Let_def)

text \<open>
  \<open>ext4_path_check\<close> cuts the first component off a path: its length and whether it is the whole
  path, for components of less than 255 bytes. A component of 255 bytes, the longest name that a
  directory entry can hold, is refused like a longer one.
\<close>

theorem path_check_exact:
  "ext4_path_check path =
     (let comp = takeWhile (\<lambda>c. c \<noteq> slash) path
      in if length comp < 255 then (length comp, Some (comp = path)) else (0, None))"
  by (simp add: ext4_path_check_def path_scan_spec Let_def)

section \<open>Positions\<close>

text \<open>Where a seek wants to go, as an integer; the offset of \<open>SEEK_END\<close> counts backwards.\<close>

definition seek_target :: "ext4_file \<Rightarrow> u64 \<Rightarrow> seek_origin \<Rightarrow> int option" where
  "seek_target f offset origin =
     (case origin of
        SEEK_SET \<Rightarrow> Some (sint offset)
      | SEEK_CUR \<Rightarrow> Some (uint (f_fpos f) + sint offset)
      | SEEK_END \<Rightarrow> Some (uint (f_fsize f) - sint offset)
      | SEEK_other \<Rightarrow> None)"

lemma sint_u64:
  "sint (w :: u64) = (if uint w < 9223372036854775808 then uint w else uint w - 18446744073709551616)"
proof -
  have b: "bit (uint w) 63 \<longleftrightarrow> 9223372036854775808 \<le> uint w"
  proof -
    have w: "0 \<le> uint w" "uint w < 18446744073709551616" using uint_lt2p [of w] by simp_all
    have "bit (uint w) 63 \<longleftrightarrow> odd (uint w div 9223372036854775808)" by (simp add: bit_iff_odd)
    moreover have "uint w div 9223372036854775808 = (if uint w < 9223372036854775808 then 0 else 1)"
    proof (cases "uint w < 9223372036854775808")
      case True
      then show ?thesis using w by simp
    next
      case False
      have "uint w div 9223372036854775808 = (uint w - 9223372036854775808 + 9223372036854775808) div 9223372036854775808"
        by simp
      also have "\<dots> = (uint w - 9223372036854775808) div 9223372036854775808 + 1" by (rule div_add_self2) simp
      also have "(uint w - 9223372036854775808) div 9223372036854775808 = 0" using w False by simp
      finally show ?thesis using False by simp
    qed
    ultimately show ?thesis by (simp add: not_less)
  qed
  have "sint w = signed_take_bit 63 (uint w)" by (simp add: sint_uint)
  also have "\<dots> = take_bit (Suc 63) (uint w) - 2 ^ Suc 63 * of_bool (bit (uint w) 63)"
    by (rule signed_take_bit_eq_take_bit_minus)
  also have "take_bit (Suc 63) (uint w) = uint w"
    using uint_lt2p [of w] by (simp add: take_bit_int_eq_self_iff)
  finally show ?thesis unfolding b by simp
qed

text \<open>
  C35: \<open>ext4_fseek\<close> moves the position to its target exactly when the target lies between 0 and the
  size of the file, and refuses every other offset with \<open>EINVAL\<close>: no signed or unsigned wrap-around
  of the offset makes it accept a wrong one, and the position stays inside the file.
\<close>

theorem fseek_exact:
  assumes "f_fpos f \<le> f_fsize f"
  shows "ext4_fseek f offset origin =
      (case seek_target f offset origin of
         Some p \<Rightarrow> if 0 \<le> p \<and> p \<le> uint (f_fsize f) then (EOK, f\<lparr>f_fpos := word_of_int p\<rparr>) else (EINVAL, f)
       | None \<Rightarrow> (EINVAL, f)) \<and>
    f_fpos (snd (ext4_fseek f offset origin)) \<le> f_fsize (snd (ext4_fseek f offset origin))"
proof -
  note le = assms [unfolded word_le_def]
  have r: "0 \<le> uint offset" "uint offset < 18446744073709551616" "uint (f_fsize f) < 18446744073709551616"
    "0 \<le> uint (f_fpos f)"
    using uint_lt2p [of offset] uint_lt2p [of "f_fsize f"] by simp_all
  have neg: "offset <s 0 \<longleftrightarrow> 9223372036854775808 \<le> uint offset"
    using r by (simp add: word_sless_alt sint_u64)
  have pos: "0 <s offset \<longleftrightarrow> 0 < uint offset \<and> uint offset < 9223372036854775808"
    using r by (simp add: word_sless_alt sint_u64)
  have minus: "uint offset \<noteq> 0 \<Longrightarrow> uint (- offset) = 18446744073709551616 - uint offset"
    using r by (simp add: uint_word_ariths zmod_zminus1_eq_if)
  have diff: "uint (f_fsize f - f_fpos f) = uint (f_fsize f) - uint (f_fpos f)"
    using le by (simp add: uint_sub_if')
  have eq: "ext4_fseek f offset origin =
      (case seek_target f offset origin of
         Some p \<Rightarrow> if 0 \<le> p \<and> p \<le> uint (f_fsize f) then (EOK, f\<lparr>f_fpos := word_of_int p\<rparr>) else (EINVAL, f)
       | None \<Rightarrow> (EINVAL, f))"
  proof (cases origin)
    case SEEK_SET
    then show ?thesis using r neg
      by (auto simp: ext4_fseek_def seek_target_def sint_u64 word_less_def)
  next
    case SEEK_CUR
    have w: "word_of_int (uint (f_fpos f) + uint offset) = f_fpos f + offset"
      "word_of_int (uint (f_fpos f) + (uint offset - 18446744073709551616)) = f_fpos f + offset"
      by simp_all
    show ?thesis using SEEK_CUR r neg pos minus diff le w
      by (auto simp: ext4_fseek_def seek_target_def sint_u64 word_less_def)
  next
    case SEEK_END
    have w: "word_of_int (uint (f_fsize f) - uint offset) = f_fsize f - offset" by simp
    show ?thesis using SEEK_END r neg w
      by (auto simp: ext4_fseek_def seek_target_def sint_u64 word_less_def)
  next
    case SEEK_other
    then show ?thesis by (simp add: ext4_fseek_def seek_target_def)
  qed
  show ?thesis unfolding eq using assms r(3)
    by (auto simp: word_le_def uint_word_of_int split: option.splits)
qed

theorem fseek_exact_witness:
  "ext4_fseek \<lparr>f_mp = Some 0, f_inode = 12, f_flags = 0, f_fsize = 100, f_fpos = 40\<rparr> (- 41) SEEK_CUR =
     (EINVAL, \<lparr>f_mp = Some 0, f_inode = 12, f_flags = 0, f_fsize = 100, f_fpos = 40\<rparr>)"
  using fseek_exact [of "\<lparr>f_mp = Some 0, f_inode = 12, f_flags = 0, f_fsize = 100, f_fpos = 40\<rparr>" "- 41" SEEK_CUR]
  by (simp add: seek_target_def)


section \<open>Open flags\<close>

lemma fs_ftruncate_flags:
  "fs_ftruncate fs (f\<lparr>f_flags := fl\<rparr>) n =
     map_option (\<lambda>(r, fs, f). (r, fs, f\<lparr>f_flags := fl\<rparr>)) (fs_ftruncate fs f n)"
  by (auto simp: fs_ftruncate_def Let_def split: Option.bind_splits if_splits prod.splits)

text \<open>
  \<open>ext4_ftruncate\<close> works the same whatever flags the file was opened with: the test
  \<open>flags & O_RDONLY\<close> never holds because \<open>O_RDONLY\<close> is 0, so a file that was opened read-only is
  truncated as well.
\<close>

theorem ftruncate_ignores_flags:
  "ext4_ftruncate st (f\<lparr>f_flags := fl\<rparr>) n =
     map_option (\<lambda>(r, st, f). (r, st, f\<lparr>f_flags := fl\<rparr>)) (ext4_ftruncate st f n)"
  by (auto simp: ext4_ftruncate_def O_RDONLY_def fs_ftruncate_flags Let_def split: Option.bind_splits if_splits prod.splits)

section \<open>Mount points\<close>

lemma mount_slot_taken:
  assumes "mount_slot mps m k = Inr (Some i)" "mp_mounted x" "mp_name x = m"
  shows "k \<le> i \<and> i - k < length mps \<and> mount_slot (mps[i - k := x]) m k = Inl ()"
  using assms
proof (induction mps m k rule: mount_slot.induct)
  case (2 mp mps name j)
  then show ?case by (auto dest!: le_Suc_ex split: if_splits)
qed simp

text \<open>
  C29: \<open>ext4_mount\<close> takes a free slot before anything can fail and never gives it back: whatever the
  answer of the call was, \<open>EOK\<close> or an error of the device or of the file system on it, calling it
  again for the same mount point reports success and does nothing.
\<close>

theorem failed_mount_blocks_slot:
  assumes "length m \<le> CONFIG_EXT4_MAX_MP_NAME" "m \<noteq> []" "last m = slash"
    and "Option.bind (List.find (\<lambda>x. bdv_name x = d) (s_bdevices st)) bdv_bd = Some bd"
    and "mount_slot (s_mp st) m 0 = Inr (Some i)"
    and "ext4_mount st d m read_only = Some (r, st')"
  shows "ext4_mount st' d m read_only' = Some (EOK, st')"
proof -
  have "\<exists>x. s_mp st' = (s_mp st)[i := x] \<and> mp_mounted x \<and> mp_name x = m \<and> s_bdevices st' = s_bdevices st"
    using assms mount_slot_taken [OF assms(5), of "(s_mp st ! i)\<lparr>mp_name := m, mp_mounted := True\<rparr>"]
    by (auto simp: ext4_mount_def mp_save_def Let_def split: Option.bind_splits if_splits prod.splits option.splits)
  then obtain x where x: "s_mp st' = (s_mp st)[i := x]" "mp_mounted x" "mp_name x = m" "s_bdevices st' = s_bdevices st"
    by blast
  have "mount_slot (s_mp st') m 0 = Inl ()" using mount_slot_taken [OF assms(5) x(2,3)] x(1) by simp
  then show ?thesis using assms(1-4) x(4) by (simp add: ext4_mount_def)
qed

text \<open>One free slot, and a device that cannot be opened.\<close>

definition mount_sample :: "raw_file ext4_api" where
  "mount_sample =
     \<lparr>s_bdevices = [\<lparr>bdv_name = [0x61], bdv_bd = Some 0\<rparr>],
      s_mp = [\<lparr>mp_mounted = False, mp_name = [], mp_os_locks = None,
               mp_fs = ext_sample (sample_extent 0 3 2), mp_bd = None\<rparr>],
      s_bd = (\<lambda>_. sample_dev\<lparr>bdev_bdif := ext4_io_raw_dev_get 8192 (sample_file\<lparr>raw_fail := \<lambda>_. True\<rparr>)\<rparr>)\<rparr>"

theorem failed_mount_blocks_slot_witness:
  "\<exists>st'. ext4_mount mount_sample [0x61] [0x2F] False = Some (EIO, st') \<and>
    ext4_mount st' [0x61] [0x2F] False = Some (EOK, st')"
proof -
  have "fst (the (ext4_mount mount_sample [0x61] [0x2F] False)) = EIO \<and> ext4_mount mount_sample [0x61] [0x2F] False \<noteq> None"
    by (simp add: ext4_mount_def mount_sample_def CONFIG_EXT4_MAX_MP_NAME_def slash_def ext4_block_init_def
        ext4_io_raw_dev_get_def io_raw_open_def sample_file_def Let_def)
  then obtain st' where m: "ext4_mount mount_sample [0x61] [0x2F] False = Some (EIO, st')" by auto
  have "ext4_mount st' [0x61] [0x2F] False = Some (EOK, st')"
    by (rule failed_mount_blocks_slot [OF _ _ _ _ _ m, of 0 0])
      (simp_all add: CONFIG_EXT4_MAX_MP_NAME_def slash_def mount_sample_def)
  with m show ?thesis by blast
qed

end
