(* ===== verification/Jbd_Sb.thy ===== *)
theory Jbd_Sb
  imports Prelude
begin

text \<open>
  The superblock of the journal, \<open>struct jbd_sb\<close> of \<open>include/ext4_types.h\<close>. Its integers are big endian:
  the record holds the words that a load of the host sees, and \<open>to_be32\<close> converts as it does in the
  code.
\<close>

record jbd_sb =
  js_h_magic :: u32
  js_h_blocktype :: u32
  js_h_sequence :: u32
  js_blocksize :: u32
  js_maxlen :: u32
  js_first :: u32
  js_sequence :: u32
  js_start :: u32
  js_error_val :: u32
  js_feature_compat :: u32
  js_feature_incompat :: u32
  js_feature_ro_compat :: u32
  js_uuid :: "u8 list"
  js_nr_users :: u32
  js_dynsuper :: u32
  js_max_transaction :: u32
  js_max_trandata :: u32
  js_checksum_type :: u8
  js_padding2 :: "u8 list"
  js_padding :: "u32 list"
  js_checksum :: u32
  js_users :: "u8 list"

definition jbd_sb_wf :: "jbd_sb \<Rightarrow> bool" where
  "jbd_sb_wf s \<longleftrightarrow>
     length (js_uuid s) = 16 \<and> length (js_padding2 s) = 3 \<and> length (js_padding s) = 42 \<and> length (js_users s) = 768"

definition jbd_sb_bytes :: "jbd_sb \<Rightarrow> bytes" where
  "jbd_sb_bytes s =
    le_bytes 4 (js_h_magic s) @ le_bytes 4 (js_h_blocktype s) @ le_bytes 4 (js_h_sequence s) @
    le_bytes 4 (js_blocksize s) @ le_bytes 4 (js_maxlen s) @ le_bytes 4 (js_first s) @
    le_bytes 4 (js_sequence s) @ le_bytes 4 (js_start s) @ le_bytes 4 (js_error_val s) @
    le_bytes 4 (js_feature_compat s) @ le_bytes 4 (js_feature_incompat s) @
    le_bytes 4 (js_feature_ro_compat s) @ js_uuid s @ le_bytes 4 (js_nr_users s) @
    le_bytes 4 (js_dynsuper s) @ le_bytes 4 (js_max_transaction s) @ le_bytes 4 (js_max_trandata s) @
    le_bytes 1 (js_checksum_type s) @ js_padding2 s @ les_bytes 4 (js_padding s) @
    le_bytes 4 (js_checksum s) @ js_users s"

definition jbd_sb_of :: "bytes \<Rightarrow> jbd_sb" where
  "jbd_sb_of bs =
    \<lparr>js_h_magic = get_le 4 0 bs, js_h_blocktype = get_le 4 4 bs, js_h_sequence = get_le 4 8 bs,
     js_blocksize = get_le 4 12 bs, js_maxlen = get_le 4 16 bs, js_first = get_le 4 20 bs,
     js_sequence = get_le 4 24 bs, js_start = get_le 4 28 bs, js_error_val = get_le 4 32 bs,
     js_feature_compat = get_le 4 36 bs, js_feature_incompat = get_le 4 40 bs,
     js_feature_ro_compat = get_le 4 44 bs, js_uuid = take 16 (drop 48 bs), js_nr_users = get_le 4 64 bs,
     js_dynsuper = get_le 4 68 bs, js_max_transaction = get_le 4 72 bs, js_max_trandata = get_le 4 76 bs,
     js_checksum_type = get_le 1 80 bs, js_padding2 = take 3 (drop 81 bs), js_padding = get_les 4 84 42 bs,
     js_checksum = get_le 4 252 bs, js_users = take 768 (drop 256 bs)\<rparr>"

lemma length_jbd_sb_bytes: "jbd_sb_wf s \<Longrightarrow> length (jbd_sb_bytes s) = 1024"
  by (simp add: jbd_sb_bytes_def jbd_sb_wf_def)

lemma jbd_sb_of_bytes: "jbd_sb_wf s \<Longrightarrow> jbd_sb_of (jbd_sb_bytes s) = s"
  by (simp add: jbd_sb_bytes_def jbd_sb_of_def jbd_sb_wf_def byte_simps)

definition to_be32 :: "u32 \<Rightarrow> u32" where "to_be32 n = reorder32 n"

definition EXT4_FCOM_HAS_JOURNAL :: u32 where "EXT4_FCOM_HAS_JOURNAL = 4"

definition JBD_MAGIC_NUMBER :: u32 where "JBD_MAGIC_NUMBER = 0xc03b3998"
definition JBD_DESCRIPTOR_BLOCK :: u32 where "JBD_DESCRIPTOR_BLOCK = 1"
definition JBD_COMMIT_BLOCK :: u32 where "JBD_COMMIT_BLOCK = 2"
definition JBD_SUPERBLOCK :: u32 where "JBD_SUPERBLOCK = 3"
definition JBD_SUPERBLOCK_V2 :: u32 where "JBD_SUPERBLOCK_V2 = 4"
definition JBD_REVOKE_BLOCK :: u32 where "JBD_REVOKE_BLOCK = 5"

end
