(* ===== verification/Mkfs.thy ===== *)
theory Mkfs
  imports Api_Dir Jbd_Sb
begin

text \<open>
  Creating a file system, \<open>src/ext4_mkfs.c\<close>. \<open>ext4_calloc\<close> and \<open>ext4_malloc\<close> ask the same heap as the
  block cache. \<open>None\<close> is a failed assertion, a division by zero or the use of freed memory.
\<close>

section \<open>Parameters\<close>

text \<open>The label is a C string; \<open>ext4_mkfs_read_info\<close> leaves a pointer into memory that it has freed.\<close>

datatype label_ptr = Label_null | Label_str bytes | Label_freed

record ext4_mkfs_info =
  mi_len :: u64
  mi_block_size :: u32
  mi_blocks_per_group :: u32
  mi_inodes_per_group :: u32
  mi_inode_size :: u32
  mi_inodes :: u32
  mi_journal_blocks :: u32
  mi_feat_ro_compat :: u32
  mi_feat_compat :: u32
  mi_feat_incompat :: u32
  mi_bg_desc_reserve_blocks :: u32
  mi_dsc_size :: u16
  mi_uuid :: bytes
  mi_journal :: bool
  mi_label :: label_ptr

record fs_aux_info =
  ax_sb :: ext4_sblock
  ax_bg_desc_blk :: bytes
  ax_first_data_block :: u32
  ax_len_blocks :: u64
  ax_inode_table_blocks :: u32
  ax_groups :: u32
  ax_bg_desc_blocks :: u32
  ax_default_i_flags :: u32
  ax_blocks_per_ind :: u32
  ax_blocks_per_dind :: u32
  ax_blocks_per_tind :: u32

definition EXT4_SUPERBLOCK_ERRORS_RO :: u16 where "EXT4_SUPERBLOCK_ERRORS_RO = 2"
definition EXT4_SUPERBLOCK_FLAGS_SIGNED_HASH :: u32 where "EXT4_SUPERBLOCK_FLAGS_SIGNED_HASH = 1"
definition EXT4_ROOT_INO :: u32 where "EXT4_ROOT_INO = 2"
definition EXT4_JOURNAL_INO :: u32 where "EXT4_JOURNAL_INO = 8"
definition EXT4_GOOD_OLD_FIRST_INO :: u32 where "EXT4_GOOD_OLD_FIRST_INO = 11"
definition EXT4_INODE_FLAG_NOATIME :: u32 where "EXT4_INODE_FLAG_NOATIME = 0x80"
definition F_SET_EXT2 :: int where "F_SET_EXT2 = 2"
definition F_SET_EXT3 :: int where "F_SET_EXT3 = 3"
definition F_SET_EXT4 :: int where "F_SET_EXT4 = 4"

definition EXT2_SUPPORTED_FCOM :: u32 where "EXT2_SUPPORTED_FCOM = 0"
definition EXT2_SUPPORTED_FINCOM :: u32 where
  "EXT2_SUPPORTED_FINCOM = EXT4_FINCOM_FILETYPE OR EXT4_FINCOM_META_BG"
definition EXT2_SUPPORTED_FRO_COM :: u32 where
  "EXT2_SUPPORTED_FRO_COM = EXT4_FRO_COM_SPARSE_SUPER OR EXT4_FRO_COM_LARGE_FILE"
definition EXT3_SUPPORTED_FCOM :: u32 where "EXT3_SUPPORTED_FCOM = EXT4_FCOM_DIR_INDEX"
definition EXT3_SUPPORTED_FINCOM :: u32 where
  "EXT3_SUPPORTED_FINCOM = EXT4_FINCOM_FILETYPE OR EXT4_FINCOM_META_BG"
definition EXT3_SUPPORTED_FRO_COM :: u32 where
  "EXT3_SUPPORTED_FRO_COM = EXT4_FRO_COM_SPARSE_SUPER OR EXT4_FRO_COM_LARGE_FILE"
definition EXT4_SUPPORTED_FCOM :: u32 where "EXT4_SUPPORTED_FCOM = EXT4_FCOM_DIR_INDEX"

lemmas mkfs_consts = EXT4_SUPERBLOCK_ERRORS_RO_def EXT4_SUPERBLOCK_FLAGS_SIGNED_HASH_def EXT4_FCOM_HAS_JOURNAL_def
  EXT4_ROOT_INO_def EXT4_JOURNAL_INO_def EXT4_GOOD_OLD_FIRST_INO_def EXT4_INODE_FLAG_NOATIME_def

text \<open>The loop stops when the number is 0; \<open>log_2 0\<close> is -1.\<close>

fun log_2_loop :: "nat \<Rightarrow> nat \<Rightarrow> nat" where
  "log_2_loop j i = (if j > 0 then log_2_loop (j div 2) (i + 1) else i)"

declare log_2_loop.simps [simp del]

definition log_2 :: "nat \<Rightarrow> u32" where
  "log_2 j = of_nat (log_2_loop j 0) - 1"

definition sb2info :: "ext4_sblock \<Rightarrow> ext4_mkfs_info \<Rightarrow> errno \<times> ext4_mkfs_info" where
  "sb2info sb info =
     (if sb_magic sb \<noteq> EXT4_SUPERBLOCK_MAGIC then (EINVAL, info)
      else
        (let block_size = push_bit (unat (sb_log_block_size sb)) 1024
         in (EOK, info\<lparr>mi_block_size := block_size,
             mi_blocks_per_group := sb_blocks_per_group sb,
             mi_inodes_per_group := sb_inodes_per_group sb,
             mi_inode_size := ucast (sb_inode_size sb),
             mi_inodes := sb_inodes_count sb,
             mi_feat_ro_compat := sb_features_read_only sb,
             mi_feat_compat := sb_features_compatible sb,
             mi_feat_incompat := sb_features_incompatible sb,
             mi_bg_desc_reserve_blocks := ucast (sb_reserved_gdt_blocks sb),
             mi_label := Label_str (takeWhile (\<lambda>c. c \<noteq> 0) (drop 120 (ext4_sblock_bytes sb))),
             mi_len := ucast block_size * ext4_sb_get_blocks_cnt sb,
             mi_dsc_size := sb_desc_size sb,
             mi_uuid := sb_uuid sb\<rparr>)))"

definition compute_blocks_per_group :: "ext4_mkfs_info \<Rightarrow> u32" where
  "compute_blocks_per_group info = mi_block_size info * 8"

definition info_blocks :: "ext4_mkfs_info \<Rightarrow> u32" where
  "info_blocks info = ucast (EXT4_DIV_ROUND_UP (mi_len info) (ucast (mi_block_size info)))"

definition compute_inodes :: "ext4_mkfs_info \<Rightarrow> u32" where
  "compute_inodes info = info_blocks info div 4"

text \<open>Three divisions whose divisors can be 0.\<close>

definition compute_inodes_per_group :: "ext4_mkfs_info \<Rightarrow> (u32 \<times> ext4_mkfs_info) option" where
  "compute_inodes_per_group info =
     (if mi_blocks_per_group info = 0 then None
      else
        (let blocks = info_blocks info;
             block_groups = EXT4_DIV_ROUND_UP blocks (mi_blocks_per_group info)
         in if block_groups = 0 \<or> mi_inode_size info = 0 \<or> mi_block_size info div mi_inode_size info = 0 then None
            else
              (let inodes = EXT4_DIV_ROUND_UP (mi_inodes info) block_groups;
                   inodes = EXT4_ALIGN inodes (mi_block_size info div mi_inode_size info)
               in Some (inodes, info\<lparr>mi_inodes := inodes * block_groups\<rparr>))))"

definition compute_journal_blocks :: "ext4_mkfs_info \<Rightarrow> u32" where
  "compute_journal_blocks info =
     (let journal_blocks = info_blocks info div 64;
          journal_blocks = (if journal_blocks < 1024 then 1024 else journal_blocks)
      in if journal_blocks > 32768 then 32768 else journal_blocks)"

definition has_superblock :: "ext4_mkfs_info \<Rightarrow> u32 \<Rightarrow> bool" where
  "has_superblock info bgid \<longleftrightarrow>
     mi_feat_ro_compat info AND EXT4_FRO_COM_SPARSE_SUPER = 0 \<or> ext4_sb_sparse bgid = Some True"

section \<open>The geometry\<close>

definition dev_malloc :: "'d ext4_blockdev \<Rightarrow> bool \<times> 'd ext4_blockdev" where
  "dev_malloc bdev =
     (let bc = bdev_bc bdev
      in (heap_ok bc (heap_next bc), upd_bc (\<lambda>bc. bc\<lparr>heap_next := heap_next bc + 1\<rparr>) bdev))"

text \<open>
  The numbers of \<open>create_fs_aux_info\<close> up to the last group, whose size is cut off when its header
  does not fit. All products are 32 bits wide.
\<close>

definition aux_geometry :: "ext4_mkfs_info \<Rightarrow> fs_aux_info \<Rightarrow> fs_aux_info" where
  "aux_geometry info aux =
     (let fdb = (if mi_block_size info > 1024 then 0 else (1 :: u32));
          len_blocks = mi_len info div ucast (mi_block_size info);
          ind = mi_block_size info div 4;
          groups = ucast (EXT4_DIV_ROUND_UP (len_blocks - ucast fdb) (ucast (mi_blocks_per_group info)))
      in aux\<lparr>ax_first_data_block := fdb, ax_len_blocks := len_blocks,
             ax_inode_table_blocks :=
               EXT4_DIV_ROUND_UP (mi_inodes_per_group info * mi_inode_size info) (mi_block_size info),
             ax_groups := groups,
             ax_blocks_per_ind := ind, ax_blocks_per_dind := ind * ind, ax_blocks_per_tind := ind * ind * ind,
             ax_bg_desc_blocks := EXT4_DIV_ROUND_UP (groups * ucast (mi_dsc_size info)) (mi_block_size info),
             ax_default_i_flags := EXT4_INODE_FLAG_NOATIME\<rparr>)"

definition last_header_size :: "ext4_mkfs_info \<Rightarrow> fs_aux_info \<Rightarrow> u32" where
  "last_header_size info aux =
     2 + ax_inode_table_blocks aux +
     (if has_superblock info (ax_groups aux - 1)
      then 1 + ax_bg_desc_blocks aux + mi_bg_desc_reserve_blocks info else 0)"

definition cut_last_group :: "ext4_mkfs_info \<Rightarrow> fs_aux_info \<Rightarrow> fs_aux_info" where
  "cut_last_group info aux =
     (let last_group_size = (ucast (ax_len_blocks aux mod ucast (mi_blocks_per_group info)) :: u32)
      in if last_group_size > 0 \<and> last_group_size < last_header_size info aux
         then aux\<lparr>ax_groups := ax_groups aux - 1, ax_len_blocks := ax_len_blocks aux - ucast last_group_size\<rparr>
         else aux)"

definition create_fs_aux_info ::
    "'d ext4_blockdev \<Rightarrow> fs_aux_info \<Rightarrow> ext4_mkfs_info \<Rightarrow> (errno \<times> 'd ext4_blockdev \<times> fs_aux_info) option" where
  "create_fs_aux_info bdev aux info =
     (if mi_block_size info = 0 \<or> mi_blocks_per_group info = 0 then None
      else
        (let aux = cut_last_group info (aux_geometry info aux);
             (ok, bdev) = dev_malloc bdev
         in if \<not> ok then Some (ENOMEM, bdev, aux)
            else
              (let aux = aux\<lparr>ax_sb := ext4_sblock_of (replicate 1024 0)\<rparr>;
                   (ok, bdev) = dev_malloc bdev
               in if \<not> ok then Some (ENOMEM, bdev, aux)
                  else Some (EOK, bdev, aux\<lparr>ax_bg_desc_blk := replicate (unat (mi_block_size info)) 0\<rparr>))))"

section \<open>The superblock\<close>

text \<open>\<open>strncpy\<close> into 16 zeroed bytes.\<close>

definition volume_label :: "bytes \<Rightarrow> bytes" where
  "volume_label label = take 16 (label @ replicate 16 0)"

definition fill_sb :: "fs_aux_info \<Rightarrow> ext4_mkfs_info \<Rightarrow> fs_aux_info option" where
  "fill_sb aux info =
     (case mi_label info of
        Label_str label \<Rightarrow>
          (let sb = ax_sb aux;
               inodes = mi_inodes_per_group info * ax_groups aux;
               log_size = log_2 (unat (mi_block_size info div 1024));
               sb = sb\<lparr>sb_inodes_count := inodes\<rparr>;
               sb = ext4_sb_set_blocks_cnt sb (ax_len_blocks aux);
               sb = ext4_sb_set_free_blocks_cnt sb (ax_len_blocks aux);
               sb = sb\<lparr>sb_free_inodes_count := inodes, sb_reserved_blocks_count_lo := 0,
                       sb_first_data_block := ax_first_data_block aux,
                       sb_log_block_size := log_size, sb_log_cluster_size := log_size,
                       sb_blocks_per_group := mi_blocks_per_group info,
                       sb_frags_per_group := mi_blocks_per_group info,
                       sb_inodes_per_group := mi_inodes_per_group info,
                       sb_mount_time := 0, sb_write_time := 0, sb_mount_count := 0,
                       sb_max_mount_count := 0xFFFF, sb_magic := EXT4_SUPERBLOCK_MAGIC,
                       sb_state := EXT4_SUPERBLOCK_STATE_VALID_FS, sb_errors := EXT4_SUPERBLOCK_ERRORS_RO,
                       sb_minor_rev_level := 0, sb_last_check_time := 0, sb_check_interval := 0,
                       sb_creator_os := EXT4_SUPERBLOCK_OS_LINUX, sb_rev_level := 1,
                       sb_def_resuid := 0, sb_def_resgid := 0,
                       sb_first_inode := EXT4_GOOD_OLD_FIRST_INO, sb_inode_size := ucast (mi_inode_size info),
                       sb_block_group_index := 0,
                       sb_features_compatible := mi_feat_compat info,
                       sb_features_incompatible := mi_feat_incompat info,
                       sb_features_read_only := mi_feat_ro_compat info,
                       sb_uuid := mi_uuid info, sb_volume_name := volume_label label,
                       sb_last_mounted := replicate 64 0, sb_algorithm_usage_bitmap := 0,
                       sb_prealloc_blocks := 0, sb_prealloc_dir_blocks := 0,
                       sb_reserved_gdt_blocks := ucast (mi_bg_desc_reserve_blocks info)\<rparr>;
               sb = (if mi_feat_compat info AND EXT4_FCOM_HAS_JOURNAL \<noteq> 0
                     then sb\<lparr>sb_journal_inode_number := EXT4_JOURNAL_INO\<rparr> else sb);
               sb = sb\<lparr>sb_journal_backup_type := 1, sb_journal_dev := 0, sb_last_orphan := 0,
                       sb_hash_seed := [0x11111111, 0x22222222, 0x33333333, 0x44444444],
                       sb_default_hash_version := word_of_int EXT2_HTREE_HALF_MD4, sb_checksum_type := 1,
                       sb_desc_size := mi_dsc_size info, sb_default_mount_opts := 0, sb_first_meta_bg := 0,
                       sb_mkfs_time := 0, sb_reserved_blocks_count_hi := 0,
                       sb_min_extra_isize := 156 - 128, sb_want_extra_isize := 156 - 128,
                       sb_flags := EXT4_SUPERBLOCK_FLAGS_SIGNED_HASH\<rparr>
           in Some (aux\<lparr>ax_sb := sb\<rparr>))
      | _ \<Rightarrow> None)"

section \<open>The groups\<close>

definition dev_put_dirty :: "'d ext4_blockdev \<Rightarrow> ext4_block \<Rightarrow> bytes \<Rightarrow> 'd ext4_blockdev" where
  "dev_put_dirty bdev b data = upd_bc (upd_buf (the (blk_buf b)) ext4_bcache_set_dirty) (blk_put bdev b data)"

text \<open>One copy of a descriptor block, in group \<open>j\<close>; \<open>blk_off\<close> of the code is not used.\<close>

definition descriptor_home :: "ext4_mkfs_info \<Rightarrow> fs_aux_info \<Rightarrow> u32 \<Rightarrow> u32 \<Rightarrow> u64" where
  "descriptor_home info aux blk j =
     ucast (ax_first_data_block aux + j * mi_blocks_per_group info) +
     (if has_superblock info j then 1 else 0) + ucast blk"

fun write_bgroup_copies ::
    "nat \<Rightarrow> 'd ext4_blockdev \<Rightarrow> fs_aux_info \<Rightarrow> ext4_mkfs_info \<Rightarrow> u32 \<Rightarrow> u32 \<Rightarrow> (errno \<times> 'd ext4_blockdev) option" where
  "write_bgroup_copies 0 bdev aux info blk j = Some (EOK, bdev)"
| "write_bgroup_copies (Suc n) bdev aux info blk j = do {
     (r, bdev, b) \<leftarrow> ext4_block_get_noread bdev EXT4_BLOCK_ZERO (descriptor_home info aux blk j);
     if r \<noteq> EOK then Some (r, bdev)
     else do {
       let data = put_bytes 0 (take (unat (ext4_sb_get_block_size (ax_sb aux))) (ax_bg_desc_blk aux)) (blk_bytes bdev b);
       (r, bdev, _) \<leftarrow> ext4_block_set (dev_put_dirty bdev b data) b;
       if r \<noteq> EOK then Some (r, bdev) else write_bgroup_copies n bdev aux info blk (j + 1)
     }
   }"

definition write_bgroup_block ::
    "'d ext4_blockdev \<Rightarrow> fs_aux_info \<Rightarrow> ext4_mkfs_info \<Rightarrow> u32 \<Rightarrow> (errno \<times> 'd ext4_blockdev) option" where
  "write_bgroup_block bdev aux info blk = write_bgroup_copies (unat (ax_groups aux)) bdev aux info blk 0"

text \<open>
  Where the metadata of a group starts: \<open>first_data_block\<close> is added twice, and the block bitmap
  is the block behind the next one.
\<close>

definition group_meta :: "ext4_mkfs_info \<Rightarrow> fs_aux_info \<Rightarrow> u32 \<Rightarrow> u64" where
  "group_meta info aux i =
     ucast (ax_first_data_block aux + ax_first_data_block aux + i * mi_blocks_per_group info) +
     (if has_superblock info i then 1 else 0) +
     ucast (ax_bg_desc_blocks aux + (if has_superblock info i then mi_bg_desc_reserve_blocks info else 0))"

definition group_free :: "ext4_mkfs_info \<Rightarrow> fs_aux_info \<Rightarrow> u32 \<Rightarrow> u32" where
  "group_free info aux i =
     mi_blocks_per_group info - ax_inode_table_blocks aux - 2 -
     (if i = ax_groups aux - 1 then ax_first_data_block aux else 0) -
     (if has_superblock info i then mi_bg_desc_reserve_blocks info + 1 + ax_bg_desc_blocks aux else 0)"

definition group_desc :: "ext4_mkfs_info \<Rightarrow> fs_aux_info \<Rightarrow> u32 \<Rightarrow> ext4_bgroup \<Rightarrow> ext4_bgroup" where
  "group_desc info aux i bg =
     (let sb = ax_sb aux; meta = group_meta info aux i;
          bg = ext4_bg_set_block_bitmap bg sb (meta + 1);
          bg = ext4_bg_set_inode_bitmap bg sb (meta + 2);
          bg = ext4_bg_set_inode_table_first_block bg sb (meta + 3);
          bg = ext4_bg_set_free_blocks_count bg sb (group_free info aux i);
          bg = ext4_bg_set_free_inodes_count bg sb (sb_inodes_per_group sb);
          bg = ext4_bg_set_used_dirs_count bg sb 0
      in ext4_bg_set_flag bg (EXT4_BLOCK_GROUP_BLOCK_UNINIT OR EXT4_BLOCK_GROUP_INODE_UNINIT))"

text \<open>Storing to the descriptor at \<open>off\<close> of the descriptor block.\<close>

definition desc_blk_upd :: "ext4_sblock \<Rightarrow> nat \<Rightarrow> (ext4_bgroup \<Rightarrow> ext4_bgroup) \<Rightarrow> bytes \<Rightarrow> bytes" where
  "desc_blk_upd sb off f blk =
     (let n = (if ext4_sb_get_desc_size sb > EXT4_MIN_BLOCK_GROUP_DESCRIPTOR_SIZE then 64 else 32)
      in put_bytes off (take n (ext4_bgroup_bytes (f (ext4_bgroup_of (drop off blk))))) blk)"

definition write_zero_block :: "'d ext4_blockdev \<Rightarrow> u64 \<Rightarrow> u32 \<Rightarrow> (errno \<times> 'd ext4_blockdev) option" where
  "write_zero_block bdev lba block_size = do {
     (r, bdev, b) \<leftarrow> ext4_block_get_noread bdev EXT4_BLOCK_ZERO lba;
     if r \<noteq> EOK then Some (r, bdev)
     else do {
       let data = put_bytes 0 (replicate (unat block_size) 0) (blk_bytes bdev b);
       (r, bdev, _) \<leftarrow> ext4_block_set (dev_put_dirty bdev b data) b;
       Some (r, bdev)
     }
   }"

text \<open>The loop over the groups; \<open>k\<close> counts the descriptors in the block.\<close>

fun write_bgroups_loop ::
    "nat \<Rightarrow> 'd ext4_blockdev \<Rightarrow> fs_aux_info \<Rightarrow> ext4_mkfs_info \<Rightarrow> u32 \<Rightarrow> u32 \<Rightarrow> u64 \<Rightarrow>
     (errno \<times> 'd ext4_blockdev \<times> fs_aux_info \<times> u64) option" where
  "write_bgroups_loop 0 bdev aux info i k sb_free = Some (EOK, bdev, aux, sb_free)"
| "write_bgroups_loop (Suc n) bdev aux info i k sb_free = do {
     let block_size = ext4_sb_get_block_size (ax_sb aux);
     let dsc_size = (ucast (ext4_sb_get_desc_size (ax_sb aux)) :: u32);
     let dsc_per_block = block_size div dsc_size;
     let aux = aux\<lparr>ax_bg_desc_blk :=
                 desc_blk_upd (ax_sb aux) (unat (k * dsc_size)) (group_desc info aux i) (ax_bg_desc_blk aux)\<rparr>;
     let sb_free = sb_free + ucast (group_free info aux i);
     (r, bdev) \<leftarrow> write_zero_block bdev (group_meta info aux i + 1) block_size;
     if r \<noteq> EOK then Some (r, bdev, aux, sb_free)
     else do {
       (r, bdev) \<leftarrow> write_zero_block bdev (group_meta info aux i + 2) block_size;
       if r \<noteq> EOK then Some (r, bdev, aux, sb_free)
       else if k + 1 \<noteq> dsc_per_block then write_bgroups_loop n bdev aux info (i + 1) (k + 1) sb_free
       else do {
         (r, bdev) \<leftarrow> write_bgroup_block bdev aux info (i div dsc_per_block);
         if r \<noteq> EOK then Some (r, bdev, aux, sb_free)
         else write_bgroups_loop n bdev aux info (i + 1) 0 sb_free
       }
     }
   }"

definition write_bgroups ::
    "'d ext4_blockdev \<Rightarrow> fs_aux_info \<Rightarrow> ext4_mkfs_info \<Rightarrow> (errno \<times> 'd ext4_blockdev \<times> fs_aux_info) option" where
  "write_bgroups bdev aux info = do {
     let dsc_per_block = ext4_sb_get_block_size (ax_sb aux) div ucast (ext4_sb_get_desc_size (ax_sb aux));
     (r, bdev, aux, sb_free) \<leftarrow> write_bgroups_loop (unat (ax_groups aux)) bdev aux info 0 0 0;
     if r \<noteq> EOK then Some (r, bdev, aux)
     else if dsc_per_block = 0 then None
     else do {
       (r, bdev) \<leftarrow> write_bgroup_block bdev aux info (ax_groups aux div dsc_per_block);
       if r \<noteq> EOK then Some (r, bdev, aux)
       else Some (r, bdev, aux\<lparr>ax_sb := ext4_sb_set_free_blocks_cnt (ax_sb aux) sb_free\<rparr>)
     }
   }"

text \<open>The byte address of a backup superblock, a product of 32-bit numbers.\<close>

definition backup_offset :: "ext4_mkfs_info \<Rightarrow> fs_aux_info \<Rightarrow> u32 \<Rightarrow> u64" where
  "backup_offset info aux i =
     ucast (mi_block_size info * (ax_first_data_block aux + i * mi_blocks_per_group info))"

fun write_backups ::
    "nat \<Rightarrow> 'd ext4_blockdev \<Rightarrow> fs_aux_info \<Rightarrow> ext4_mkfs_info \<Rightarrow> u32 \<Rightarrow>
     (errno \<times> 'd ext4_blockdev \<times> fs_aux_info) option" where
  "write_backups 0 bdev aux info i = Some (EOK, bdev, aux)"
| "write_backups (Suc n) bdev aux info i =
     (if has_superblock info i
      then do {
        let aux = aux\<lparr>ax_sb := (ax_sb aux)\<lparr>sb_block_group_index := ucast i\<rparr>\<rparr>;
        (r, bdev) \<leftarrow> ext4_block_writebytes bdev (backup_offset info aux i) (ext4_sblock_bytes (ax_sb aux))
                      (of_nat EXT4_SUPERBLOCK_SIZE);
        if r \<noteq> EOK then Some (r, bdev, aux) else write_backups n bdev aux info (i + 1)
      }
      else write_backups n bdev aux info (i + 1))"

definition write_sblocks ::
    "'d ext4_blockdev \<Rightarrow> fs_aux_info \<Rightarrow> ext4_mkfs_info \<Rightarrow> (errno \<times> 'd ext4_blockdev \<times> fs_aux_info) option" where
  "write_sblocks bdev aux info = do {
     (r, bdev, aux) \<leftarrow> write_backups (unat (ax_groups aux) - 1) bdev aux info 1;
     if r \<noteq> EOK then Some (r, bdev, aux)
     else do {
       let aux = aux\<lparr>ax_sb := (ax_sb aux)\<lparr>sb_block_group_index := 0\<rparr>\<rparr>;
       (r, bdev) \<leftarrow> ext4_block_writebytes bdev 1024 (ext4_sblock_bytes (ax_sb aux)) (of_nat EXT4_SUPERBLOCK_SIZE);
       Some (r, bdev, aux)
     }
   }"

definition aux_zero :: fs_aux_info where
  "aux_zero = \<lparr>ax_sb = ext4_sblock_of (replicate 1024 0), ax_bg_desc_blk = [], ax_first_data_block = 0, ax_len_blocks = 0,
     ax_inode_table_blocks = 0, ax_groups = 0, ax_bg_desc_blocks = 0, ax_default_i_flags = 0,
     ax_blocks_per_ind = 0, ax_blocks_per_dind = 0, ax_blocks_per_tind = 0\<rparr>"

definition mkfs_init :: "'d ext4_blockdev \<Rightarrow> ext4_mkfs_info \<Rightarrow> (errno \<times> 'd ext4_blockdev) option" where
  "mkfs_init bdev info = do {
     (r, bdev, aux) \<leftarrow> create_fs_aux_info bdev aux_zero info;
     if r \<noteq> EOK then Some (r, bdev)
     else do {
       aux \<leftarrow> fill_sb aux info;
       (r, bdev, aux) \<leftarrow> write_bgroups bdev aux info;
       if r \<noteq> EOK then Some (r, bdev)
       else do {
         (r, bdev, _) \<leftarrow> write_sblocks bdev aux info;
         Some (r, bdev)
       }
     }
   }"

text \<open>
  Without memory for the superblock the answer is the \<open>EOK\<close> of \<open>ext4_block_init\<close>. The label of
  the answer points into the superblock, which is freed.
\<close>

definition ext4_mkfs_read_info ::
    "'d ext4_blockdev \<Rightarrow> ext4_mkfs_info \<Rightarrow> (errno \<times> 'd ext4_blockdev \<times> ext4_mkfs_info) option" where
  "ext4_mkfs_read_info bdev info =
     (let (r, bdev) = ext4_block_init bdev
      in if r \<noteq> EOK then Some (r, bdev, info)
         else
           (let (ok, bdev) = dev_malloc bdev
            in if \<not> ok then Some (EOK, snd (ext4_block_fini bdev), info)
               else do {
                 (r, bdev, sb) \<leftarrow> ext4_sb_read bdev (ext4_sblock_of (replicate 1024 0));
                 if r \<noteq> EOK then Some (r, snd (ext4_block_fini bdev), info)
                 else (case sb2info sb info of
                         (r, info') \<Rightarrow>
                           Some (r, snd (ext4_block_fini bdev),
                                 if r = EOK then info'\<lparr>mi_label := Label_freed\<rparr> else info'))
               }))"

section \<open>The first inodes\<close>

fun init_bgs :: "nat \<Rightarrow> 'd ext4_fs \<Rightarrow> u32 \<Rightarrow> (errno \<times> 'd ext4_fs) option" where
  "init_bgs 0 fs i = Some (EOK, fs)"
| "init_bgs (Suc n) fs i = do {
     (r, fs, ref) \<leftarrow> ext4_fs_get_block_group_ref fs i;
     if r \<noteq> EOK then Some (r, fs)
     else do {
       (r, fs) \<leftarrow> ext4_fs_put_block_group_ref fs ref;
       if r \<noteq> EOK then Some (r, fs) else init_bgs n fs (i + 1)
     }
   }"

text \<open>
  The mode is cleared before the blocks of the root and the journal are initialised. The result
  of putting an inode is not looked at.
\<close>

definition alloc_one :: "'d ext4_fs \<Rightarrow> u32 \<Rightarrow> (errno \<times> 'd ext4_fs) option" where
  "alloc_one fs i = do {
     let filetype = (if i = EXT4_ROOT_INO \<or> i = EXT4_GOOD_OLD_FIRST_INO then EXT4_DE_DIR else EXT4_DE_REG_FILE);
     (r, fs, ref) \<leftarrow> ext4_fs_alloc_inode fs filetype;
     if r \<noteq> EOK then Some (r, fs)
     else do {
       let fs = ino_upd (\<lambda>ino. ext4_inode_set_mode (fs_sb fs) ino 0) fs ref;
       let (fs, ref) = (if i = EXT4_ROOT_INO \<or> i = EXT4_JOURNAL_INO then ext4_fs_inode_blocks_init fs ref else (fs, ref));
       (_, fs) \<leftarrow> ext4_fs_put_inode_ref fs ref;
       Some (r, fs)
     }
   }"

fun alloc_inodes :: "nat \<Rightarrow> 'd ext4_fs \<Rightarrow> u32 \<Rightarrow> (errno \<times> 'd ext4_fs) option" where
  "alloc_inodes 0 fs i = Some (EOK, fs)"
| "alloc_inodes (Suc n) fs i = do {
     (r, fs) \<leftarrow> alloc_one fs i;
     if r \<noteq> EOK then Some (r, fs) else alloc_inodes n fs (i + 1)
   }"

definition lost_found_name :: bytes where
  "lost_found_name = [0x6C, 0x6F, 0x73, 0x74, 0x2B, 0x66, 0x6F, 0x75, 0x6E, 0x64]"

definition dir_links ::
    "sorter \<Rightarrow> 'd ext4_fs \<Rightarrow> ext4_inode_ref \<Rightarrow> ext4_inode_ref \<Rightarrow>
     (errno \<times> 'd ext4_fs \<times> ext4_inode_ref \<times> ext4_inode_ref) option" where
  "dir_links qsort fs root child =
     (if ext4_sb_feature_com (fs_sb fs) EXT4_FCOM_DIR_INDEX
      then do {
        (r, fs, root) \<leftarrow> ext4_dir_dx_init fs root root;
        if r \<noteq> EOK then Some (r, fs, root, child)
        else do {
          (r, fs, child) \<leftarrow> ext4_dir_dx_init fs child root;
          if r \<noteq> EOK then Some (r, fs, root, child)
          else
            (let fs = ino_upd (\<lambda>i. ext4_inode_set_flag i EXT4_INODE_FLAG_INDEX) fs root;
                 fs = ino_upd (\<lambda>i. ext4_inode_set_flag i EXT4_INODE_FLAG_INDEX) fs child
             in Some (r, fs, root, child))
        }
      }
      else do {
        (r, fs, root) \<leftarrow> ext4_dir_add_entry qsort fs root dot root;
        if r \<noteq> EOK then Some (r, fs, root, child)
        else do {
          (r, fs, root) \<leftarrow> ext4_dir_add_entry qsort fs root dotdot root;
          if r \<noteq> EOK then Some (r, fs, root, child)
          else do {
            (r, fs, child) \<leftarrow> ext4_dir_add_entry qsort fs child dot child;
            if r \<noteq> EOK then Some (r, fs, root, child)
            else do {
              (r, fs, child) \<leftarrow> ext4_dir_add_entry qsort fs child dotdot root;
              Some (r, fs, root, child)
            }
          }
        }
      })"

text \<open>An error leaves the references held that were taken so far.\<close>

definition create_dirs :: "sorter \<Rightarrow> 'd ext4_fs \<Rightarrow> (errno \<times> 'd ext4_fs) option" where
  "create_dirs qsort fs = do {
     (r, fs, root) \<leftarrow> ext4_fs_get_inode_ref fs EXT4_ROOT_INO;
     if r \<noteq> EOK then Some (r, fs)
     else do {
       (r, fs, child) \<leftarrow> ext4_fs_get_inode_ref fs EXT4_GOOD_OLD_FIRST_INO;
       if r \<noteq> EOK then Some (r, fs)
       else do {
         let fs = ino_upd (\<lambda>i. ext4_inode_set_mode (fs_sb fs) i (EXT4_INODE_MODE_DIRECTORY OR 511)) fs child;
         let fs = ino_upd (\<lambda>i. ext4_inode_set_mode (fs_sb fs) i (EXT4_INODE_MODE_DIRECTORY OR 511)) fs root;
         (r, fs, root, child) \<leftarrow> dir_links qsort fs root child;
         if r \<noteq> EOK then Some (r, fs)
         else do {
           (r, fs, root) \<leftarrow> ext4_dir_add_entry qsort fs root lost_found_name child;
           if r \<noteq> EOK then Some (r, fs)
           else do {
             let fs = ino_upd (\<lambda>i. ext4_inode_set_links_cnt i 3) fs root;
             let fs = ino_upd (\<lambda>i. ext4_inode_set_links_cnt i 2) fs child;
             (_, fs) \<leftarrow> ext4_fs_put_inode_ref fs (child\<lparr>ir_dirty := True\<rparr>);
             (_, fs) \<leftarrow> ext4_fs_put_inode_ref fs (root\<lparr>ir_dirty := True\<rparr>);
             Some (r, fs)
           }
         }
       }
     }
   }"

definition journal_sb :: "ext4_mkfs_info \<Rightarrow> jbd_sb" where
  "journal_sb info =
     (jbd_sb_of (replicate 1024 0))
       \<lparr>js_h_magic := to_be32 JBD_MAGIC_NUMBER, js_h_blocktype := to_be32 JBD_SUPERBLOCK_V2,
        js_blocksize := to_be32 (mi_block_size info), js_maxlen := to_be32 (mi_journal_blocks info),
        js_nr_users := to_be32 1, js_first := to_be32 1, js_sequence := to_be32 1\<rparr>"

text \<open>The blocks of the journal; the first one gets the superblock.\<close>

fun journal_loop ::
    "nat \<Rightarrow> 'd ext4_fs \<Rightarrow> ext4_inode_ref \<Rightarrow> ext4_mkfs_info \<Rightarrow> (errno \<times> 'd ext4_fs \<times> ext4_inode_ref) option" where
  "journal_loop 0 fs ref info = Some (EOK, fs, ref)"
| "journal_loop (Suc n) fs ref info = do {
     (r, fs, ref, res) \<leftarrow> ext4_fs_append_inode_dblk fs ref;
     if r \<noteq> EOK then Some (r, fs, ref)
     else (case res of None \<Rightarrow> None | Some (fblock, iblock) \<Rightarrow>
       if iblock \<noteq> 0 then journal_loop n fs ref info
       else do {
         (r, bdev, b) \<leftarrow> ext4_block_get (fs_bdev fs) EXT4_BLOCK_ZERO fblock;
         let fs = fs\<lparr>fs_bdev := bdev\<rparr>;
         if r \<noteq> EOK then Some (r, fs, ref)
         else do {
           let data = put_bytes 0 (jbd_sb_bytes (journal_sb info)) (fs_data fs b);
           (r, bdev, _) \<leftarrow> ext4_block_set (dev_put_dirty (fs_bdev fs) b data) b;
           let fs = fs\<lparr>fs_bdev := bdev\<rparr>;
           if r \<noteq> EOK then Some (r, fs, ref) else journal_loop n fs ref info
         }
       })
   }"

definition create_journal_inode :: "'d ext4_fs \<Rightarrow> ext4_mkfs_info \<Rightarrow> (errno \<times> 'd ext4_fs) option" where
  "create_journal_inode fs info =
     (if \<not> mi_journal info then Some (EOK, fs)
      else do {
        (r, fs, ref) \<leftarrow> ext4_fs_get_inode_ref fs EXT4_JOURNAL_INO;
        if r \<noteq> EOK then Some (r, fs)
        else do {
          let fs = ino_upd (\<lambda>i. ext4_inode_set_mode (fs_sb fs) i (EXT4_INODE_MODE_FILE OR 384)) fs ref;
          let fs = ino_upd (\<lambda>i. ext4_inode_set_links_cnt i 1) fs ref;
          let blocks_count = ext4_inode_get_blocks_count (fs_sb fs) (ino_get fs ref);
          (r, fs, ref) \<leftarrow> journal_loop (unat (mi_journal_blocks info) - unat blocks_count) fs ref info;
          let fs = (if r \<noteq> EOK then fs
                    else fs\<lparr>fs_sb := (fs_sb fs)\<lparr>sb_journal_blocks :=
                              in_blocks (ino_get fs ref) @ drop 15 (sb_journal_blocks (fs_sb fs))\<rparr>\<rparr>);
          (_, fs) \<leftarrow> ext4_fs_put_inode_ref fs ref;
          Some (r, fs)
        }
      })"

section \<open>The whole\<close>

definition mkfs_features :: "int \<Rightarrow> ext4_mkfs_info \<Rightarrow> ext4_mkfs_info" where
  "mkfs_features fs_type info =
     (let info =
        (if fs_type = F_SET_EXT2
         then info\<lparr>mi_feat_compat := EXT2_SUPPORTED_FCOM, mi_feat_ro_compat := EXT2_SUPPORTED_FRO_COM,
                   mi_feat_incompat := EXT2_SUPPORTED_FINCOM\<rparr>
         else if fs_type = F_SET_EXT3
         then info\<lparr>mi_feat_compat := EXT3_SUPPORTED_FCOM, mi_feat_ro_compat := EXT3_SUPPORTED_FRO_COM,
                   mi_feat_incompat := EXT3_SUPPORTED_FINCOM\<rparr>
         else if fs_type = F_SET_EXT4
         then info\<lparr>mi_feat_compat := EXT4_SUPPORTED_FCOM, mi_feat_ro_compat := EXT4_SUPPORTED_FRO_COM,
                   mi_feat_incompat := EXT4_SUPPORTED_FINCOM\<rparr>
         else info);
        incompat = mi_feat_incompat info AND NOT EXT4_FINCOM_META_BG AND NOT EXT4_FINCOM_FLEX_BG
                     AND NOT EXT4_FINCOM_64BIT;
        ro_compat = mi_feat_ro_compat info AND NOT EXT4_FRO_COM_METADATA_CSUM AND NOT EXT4_FRO_COM_GDT_CSUM
                      AND NOT EXT4_FRO_COM_DIR_NLINK AND NOT EXT4_FRO_COM_EXTRA_ISIZE AND NOT EXT4_FRO_COM_HUGE_FILE;
        compat = (if mi_journal info then mi_feat_compat info OR EXT4_FCOM_HAS_JOURNAL else mi_feat_compat info);
        dsc_size = (if mi_dsc_size info = 0
                    then if incompat AND EXT4_FINCOM_64BIT \<noteq> 0 then EXT4_MAX_BLOCK_GROUP_DESCRIPTOR_SIZE
                         else EXT4_MIN_BLOCK_GROUP_DESCRIPTOR_SIZE
                    else mi_dsc_size info)
      in info\<lparr>mi_feat_incompat := incompat, mi_feat_ro_compat := ro_compat, mi_feat_compat := compat,
             mi_dsc_size := dsc_size, mi_bg_desc_reserve_blocks := 0\<rparr>)"

text \<open>The defaults of the parameters that are 0, in the order of the code.\<close>

definition mkfs_params :: "u64 \<Rightarrow> int \<Rightarrow> ext4_mkfs_info \<Rightarrow> ext4_mkfs_info option" where
  "mkfs_params dev_size fs_type info =
     (let info = (if mi_len info = 0 then info\<lparr>mi_len := dev_size\<rparr> else info);
          info = (if mi_block_size info = 0 then info\<lparr>mi_block_size := 4096\<rparr> else info);
          info = info\<lparr>mi_len := mi_len info AND NOT (ucast (mi_block_size info) - 1)\<rparr>;
          info = (if mi_journal_blocks info = 0 then info\<lparr>mi_journal_blocks := compute_journal_blocks info\<rparr> else info);
          info = (if mi_blocks_per_group info = 0
                  then info\<lparr>mi_blocks_per_group := compute_blocks_per_group info\<rparr> else info);
          info = (if mi_inodes info = 0 then info\<lparr>mi_inodes := compute_inodes info\<rparr> else info);
          info = (if mi_inode_size info = 0 then info\<lparr>mi_inode_size := 256\<rparr> else info);
          info = (if mi_label info = Label_null then info\<lparr>mi_label := Label_str []\<rparr> else info)
      in do {
        (inodes, info) \<leftarrow> compute_inodes_per_group info;
        Some (mkfs_features fs_type (info\<lparr>mi_inodes_per_group := inodes\<rparr>))
      })"

text \<open>The part between \<open>ext4_fs_init\<close> and \<open>ext4_fs_fini\<close>, and the end, whose errors are not reported.\<close>

definition mkfs_populate :: "sorter \<Rightarrow> 'd ext4_fs \<Rightarrow> ext4_mkfs_info \<Rightarrow> (errno \<times> 'd ext4_fs) option" where
  "mkfs_populate qsort fs info = do {
     (r, fs) \<leftarrow> init_bgs (unat (ext4_block_group_cnt (fs_sb fs))) fs 0;
     if r \<noteq> EOK then Some (r, fs)
     else do {
       (r, fs) \<leftarrow> alloc_inodes 11 fs 1;
       if r \<noteq> EOK then Some (r, fs)
       else do {
         (r, fs) \<leftarrow> create_dirs qsort fs;
         if r \<noteq> EOK then Some (r, fs) else create_journal_inode fs info
       }
     }
   }"

definition mkfs_finish :: "'d ext4_fs \<Rightarrow> 'd ext4_fs option" where
  "mkfs_finish fs = do {
     (_, bdev) \<leftarrow> ext4_block_cache_write_back (fs_bdev fs) 0;
     let bdev = bdev\<lparr>bdev_bc := snd (ext4_bcache_fini_dynamic (bdev_bc bdev))\<rparr>;
     Some (fs\<lparr>fs_bdev := snd (ext4_block_fini bdev)\<rparr>)
   }"

definition ext4_mkfs ::
    "sorter \<Rightarrow> 'd ext4_fs \<Rightarrow> 'd ext4_blockdev \<Rightarrow> ext4_mkfs_info \<Rightarrow> int \<Rightarrow>
     (errno \<times> 'd ext4_fs \<times> ext4_mkfs_info) option" where
  "ext4_mkfs qsort fs bdev info fs_type =
     (case ext4_block_init bdev of
        (r, bdev) \<Rightarrow>
          if r \<noteq> EOK then Some (r, fs\<lparr>fs_bdev := bdev\<rparr>, info)
          else do {
            info \<leftarrow> mkfs_params (part_size bdev) fs_type info;
            bdev \<leftarrow> ext4_block_set_lb_size bdev (mi_block_size info);
            (r, bc) \<leftarrow> ext4_bcache_init_dynamic (bdev_bc bdev) CONFIG_BLOCK_DEV_CACHE_SIZE (mi_block_size info);
            let (_, bdev) = ext4_block_bind_bcache bdev bc;
            (r, bdev) \<leftarrow> ext4_block_cache_write_back bdev 1;
            if r \<noteq> EOK
            then do { fs \<leftarrow> mkfs_finish (fs\<lparr>fs_bdev := bdev\<rparr>); Some (r, fs, info) }
            else do {
              (r, bdev) \<leftarrow> mkfs_init bdev info;
              if r \<noteq> EOK
              then do { fs \<leftarrow> mkfs_finish (fs\<lparr>fs_bdev := bdev\<rparr>); Some (r, fs, info) }
              else do {
                (r, fs) \<leftarrow> ext4_fs_init fs bdev False;
                if r \<noteq> EOK then do { fs \<leftarrow> mkfs_finish fs; Some (r, fs, info) }
                else do {
                  (r, fs) \<leftarrow> mkfs_populate qsort fs info;
                  (_, fs) \<leftarrow> ext4_fs_fini fs;
                  fs \<leftarrow> mkfs_finish fs;
                  Some (r, fs, info)
                }
              }
            }
          })"

end
