(* ===== verification/Mkfs_Facts.thy ===== *)
theory Mkfs_Facts
  imports Mkfs File_Map
begin

text \<open>What a new file system looks like: its superblock, and where the metadata of its groups lies.\<close>

section \<open>The superblock\<close>

lemma log_2_loop_pow: "log_2_loop (2 ^ k) i = Suc (k + i)"
proof (induction k arbitrary: i)
  case 0
  show ?case by (simp add: log_2_loop.simps [of "Suc 0"] log_2_loop.simps [of 0])
next
  case (Suc k)
  show ?case by (subst log_2_loop.simps) (simp add: Suc)
qed

lemma log_2_pow: "k < 32 \<Longrightarrow> unat (log_2 (2 ^ k)) = k"
  by (simp add: log_2_def log_2_loop_pow unat_of_nat)

lemma block_size_log:
  assumes "k \<le> 21" "unat (bs :: u32) = 2 ^ (10 + k)"
  shows "push_bit (unat (log_2 (unat (bs div 1024)))) 1024 = bs"
proof -
  have "unat (bs div 1024) = 2 ^ k" using assms(2) by (simp add: unat_div power_add)
  then have l: "unat (log_2 (unat (bs div 1024))) = k" using assms(1) by (simp add: log_2_pow)
  have "push_bit k (1024 :: u32) = of_nat (2 ^ (10 + k))"
    by (simp add: push_bit_eq_mult power_add mult.commute)
  then have "unat (push_bit k (1024 :: u32)) = 2 ^ (10 + k) mod 2 ^ 32"
    by (simp only: unat_of_nat) simp
  also have "\<dots> = 2 ^ (10 + k)" using assms(1) power_strict_increasing [of "10 + k" 32 "2 :: nat"] by simp
  finally show ?thesis using l assms(2) by (simp add: word_unat_eq_iff)
qed

lemma label_read:
  assumes "length label < 16" "0 \<notin> set label"
  shows "takeWhile (\<lambda>c. c \<noteq> 0) (volume_label label @ rest) = label"
proof -
  obtain n where n: "16 - length label = Suc n" using assms(1) by (cases "16 - length label") auto
  then have "n \<le> 15" by simp
  then have "volume_label label = label @ 0 # replicate n 0"
    using assms(1) n by (simp add: volume_label_def min_def)
  moreover have "takeWhile (\<lambda>c. c \<noteq> 0) (label @ 0 # replicate n 0 @ rest) = label"
    using assms(2) by (subst takeWhile_append2) auto
  ultimately show ?thesis by simp
qed

lemma label_in_bytes:
  assumes "length (sb_uuid s) = 16"
  shows "\<exists>rest. drop 120 (ext4_sblock_bytes s) = sb_volume_name s @ rest"
  using assms by (simp add: ext4_sblock_bytes_def ext4_sblock_bytes1_def ext4_sblock_bytes2_def)

lemma blocks_cnt_halves:
  "ext4_sb_get_blocks_cnt s = c"
  if "sb_blocks_count_lo s = ucast (drop_bit 32 (push_bit 32 c))" "sb_blocks_count_hi s = ucast (drop_bit 32 c)"
  using that by (simp add: ext4_sb_get_blocks_cnt_def halves_word32)

lemma fill_sb_fields:
  assumes "fill_sb aux info = Some aux'"
  shows "sb_magic (ax_sb aux') = EXT4_SUPERBLOCK_MAGIC"
    "sb_inodes_count (ax_sb aux') = mi_inodes_per_group info * ax_groups aux"
    "ext4_sb_get_blocks_cnt (ax_sb aux') = ax_len_blocks aux"
    "sb_log_block_size (ax_sb aux') = log_2 (unat (mi_block_size info div 1024))"
    "sb_blocks_per_group (ax_sb aux') = mi_blocks_per_group info"
    "sb_inodes_per_group (ax_sb aux') = mi_inodes_per_group info"
    "sb_first_inode (ax_sb aux') = 11" "sb_inode_size (ax_sb aux') = ucast (mi_inode_size info)"
    "sb_features_compatible (ax_sb aux') = mi_feat_compat info"
    "sb_features_incompatible (ax_sb aux') = mi_feat_incompat info"
    "sb_features_read_only (ax_sb aux') = mi_feat_ro_compat info"
    "sb_uuid (ax_sb aux') = mi_uuid info" "sb_desc_size (ax_sb aux') = mi_dsc_size info"
    "sb_reserved_gdt_blocks (ax_sb aux') = ucast (mi_bg_desc_reserve_blocks info)"
    "\<exists>label. mi_label info = Label_str label \<and> sb_volume_name (ax_sb aux') = volume_label label"
  using assms unfolding fill_sb_def
  by (auto simp: Let_def EXT4_GOOD_OLD_FIRST_INO_def blocks_cnt_halves ext4_sb_set_blocks_cnt_def
      ext4_sb_set_free_blocks_cnt_def split: label_ptr.splits if_splits)

text \<open>
  C13: The superblock that \<open>fill_sb\<close> makes for valid parameters passes the check of a mount, and
  \<open>sb2info\<close> reads the parameters back from it. The block size is a power of two from 1 KiB to 2 GiB.
\<close>

theorem mkfs_superblock_roundtrip:
  assumes "fill_sb aux info = Some aux'"
    and "unat (mi_block_size info) = 2 ^ (10 + k)" "k \<le> 21"
    and "128 \<le> mi_inode_size info" "mi_inode_size info < 65536" "mi_bg_desc_reserve_blocks info < 65536"
    and "32 \<le> mi_dsc_size info" "mi_dsc_size info \<le> 64"
    and "mi_feat_ro_compat info AND EXT4_FRO_COM_METADATA_CSUM = 0"
    and "mi_blocks_per_group info \<noteq> 0" "mi_inodes_per_group info * ax_groups aux \<noteq> 0" "ax_len_blocks aux \<noteq> 0"
    and "mi_label info = Label_str label" "length label < 16" "0 \<notin> set label" "length (mi_uuid info) = 16"
  shows "ext4_sb_check (ax_sb aux') \<and>
    sb2info (ax_sb aux') info0 = (EOK, info\<lparr>mi_inodes := mi_inodes_per_group info * ax_groups aux,
      mi_len := ucast (mi_block_size info) * ax_len_blocks aux,
      mi_journal := mi_journal info0, mi_journal_blocks := mi_journal_blocks info0\<rparr>)"
proof -
  note F = fill_sb_fields [OF assms(1)]
  have bs: "push_bit (unat (sb_log_block_size (ax_sb aux'))) 1024 = mi_block_size info"
    unfolding F(4) by (rule block_size_log [OF assms(3,2)])
  have isz: "(ucast (sb_inode_size (ax_sb aux')) :: u32) = mi_inode_size info"
    "128 \<le> sb_inode_size (ax_sb aux')"
    "(ucast (sb_reserved_gdt_blocks (ax_sb aux')) :: u32) = mi_bg_desc_reserve_blocks info"
    using assms(4-6) unfolding F by (simp_all add: word_unat_eq_iff word_le_nat_alt word_less_nat_alt unsigned_ucast_eq take_bit_eq_mod unat_mod)
  have ipg: "mi_inodes_per_group info \<noteq> 0" using assms(11) by auto
  have d: "ext4_sb_get_desc_size (ax_sb aux') = mi_dsc_size info"
    using assms(7) unfolding F ext4_sb_get_desc_size_def EXT4_MIN_BLOCK_GROUP_DESCRIPTOR_SIZE_def by (auto simp: Let_def dest: leD)
  have v: "ext4_sb_verify_csum (ax_sb aux')"
    using assms(9) by (simp add: ext4_sb_verify_csum_def ext4_sb_feature_ro_com_def F(11))
  have chk: "ext4_sb_check (ax_sb aux')"
    unfolding ext4_sb_check_def d EXT4_MIN_BLOCK_GROUP_DESCRIPTOR_SIZE_def EXT4_MAX_BLOCK_GROUP_DESCRIPTOR_SIZE_def
    using isz(2) assms(7,8,10-12) ipg v F(1-3,5-7) by (auto dest: leD)
  obtain rest where "drop 120 (ext4_sblock_bytes (ax_sb aux')) = volume_label label @ rest"
    using label_in_bytes [of "ax_sb aux'"] F(12,15) assms(13,16) by auto
  then have lab: "takeWhile (\<lambda>c. c \<noteq> 0) (drop 120 (ext4_sblock_bytes (ax_sb aux'))) = label"
    using label_read [OF assms(14,15)] by simp
  have "sb2info (ax_sb aux') info0 = (EOK, info\<lparr>mi_inodes := mi_inodes_per_group info * ax_groups aux,
      mi_len := ucast (mi_block_size info) * ax_len_blocks aux,
      mi_journal := mi_journal info0, mi_journal_blocks := mi_journal_blocks info0\<rparr>)"
    using F(1-3,5,6,9-13) bs isz(1,3) lab assms(13)
    by (simp add: sb2info_def Let_def)
  with chk show ?thesis by blast
qed

section \<open>Where the groups lie\<close>

text \<open>The blocks in front of the block bitmap of a group, as natural numbers.\<close>

definition meta_blocks :: "ext4_mkfs_info \<Rightarrow> fs_aux_info \<Rightarrow> u32 \<Rightarrow> nat" where
  "meta_blocks info aux i =
     2 * unat (ax_first_data_block aux) + unat (ax_bg_desc_blocks aux) +
     (if has_superblock info i then 1 + unat (mi_bg_desc_reserve_blocks info) else 0)"

text \<open>No block number of the layout exceeds 32 bits.\<close>

definition layout_fits :: "ext4_mkfs_info \<Rightarrow> fs_aux_info \<Rightarrow> bool" where
  "layout_fits info aux \<longleftrightarrow>
     2 * unat (ax_first_data_block aux) + unat (ax_groups aux) * unat (mi_blocks_per_group info) +
     unat (ax_bg_desc_blocks aux) + unat (mi_bg_desc_reserve_blocks info) + unat (ax_inode_table_blocks aux) + 4 < 2 ^ 32"

lemma group_start_bound:
  assumes "layout_fits info aux" "i < ax_groups aux"
  shows "unat i * unat (mi_blocks_per_group info) + unat (mi_blocks_per_group info) \<le>
    unat (ax_groups aux) * unat (mi_blocks_per_group info)"
proof -
  have "Suc (unat i) \<le> unat (ax_groups aux)" using assms(2) by (simp add: word_less_nat_alt)
  then have "Suc (unat i) * unat (mi_blocks_per_group info) \<le> unat (ax_groups aux) * unat (mi_blocks_per_group info)"
    by (rule mult_le_mono1)
  then show ?thesis by simp
qed

lemma unat_plus_u32: "unat (a :: u32) + unat b < 2 ^ 32 \<Longrightarrow> unat (a + b) = unat a + unat b"
  by (simp add: unat_word_ariths(1))

lemma unat_plus_le: "unat (a + b) \<le> unat (a :: u32) + unat b"
  by (simp add: unat_word_ariths(1))

lemma of_nat_unat_u32: "(ucast (w :: u32) :: u64) = of_nat (unat w)"
  by simp

lemma unat_group_meta:
  assumes "layout_fits info aux" "i < ax_groups aux" "k \<le> unat (ax_inode_table_blocks aux) + 3"
  shows "unat (group_meta info aux i + of_nat k) = unat i * unat (mi_blocks_per_group info) + meta_blocks info aux i + k"
proof -
  note b = group_start_bound [OF assms(1,2)]
  let ?f = "unat (ax_first_data_block aux)" and ?p = "unat i * unat (mi_blocks_per_group info)"
  have m: "unat (i * mi_blocks_per_group info) = ?p"
    using assms(1) b by (subst unat_word_ariths(2)) (simp add: layout_fits_def)
  have ff: "unat (ax_first_data_block aux + ax_first_data_block aux) = 2 * ?f"
    using unat_plus_u32 [of "ax_first_data_block aux" "ax_first_data_block aux"] assms(1) by (simp add: layout_fits_def)
  have "unat (ax_first_data_block aux + ax_first_data_block aux + i * mi_blocks_per_group info) = 2 * ?f + ?p"
    using unat_plus_u32 [of "ax_first_data_block aux + ax_first_data_block aux" "i * mi_blocks_per_group info"]
      assms(1) b unfolding ff m layout_fits_def by linarith
  then have s: "(ucast (ax_first_data_block aux + ax_first_data_block aux + i * mi_blocks_per_group info) :: u64) = of_nat (2 * ?f + ?p)"
    by (metis of_nat_unat_u32)
  have "unat (ax_bg_desc_blocks aux + (if has_superblock info i then mi_bg_desc_reserve_blocks info else 0)) =
      unat (ax_bg_desc_blocks aux) + (if has_superblock info i then unat (mi_bg_desc_reserve_blocks info) else 0)"
    using assms(1) unat_plus_u32 [of "ax_bg_desc_blocks aux" "mi_bg_desc_reserve_blocks info"] by (simp add: layout_fits_def)
  then have d: "(ucast (ax_bg_desc_blocks aux + (if has_superblock info i then mi_bg_desc_reserve_blocks info else 0)) :: u64) =
      of_nat (unat (ax_bg_desc_blocks aux) + (if has_superblock info i then unat (mi_bg_desc_reserve_blocks info) else 0))"
    by (metis of_nat_unat_u32)
  have e: "group_meta info aux i + of_nat k = of_nat (?p + meta_blocks info aux i + k)"
    unfolding group_meta_def meta_blocks_def s d by (cases "has_superblock info i") (simp_all add: ac_simps)
  have "?p + meta_blocks info aux i + k < 2 ^ 64"
    using assms(1,3) b by (auto simp: layout_fits_def meta_blocks_def)
  then show ?thesis unfolding e by (simp only: unat_of_nat) simp
qed

text \<open>
  C16: Where \<open>write_bgroups\<close> puts the metadata of a group that is large enough for it: no copy of a
  descriptor block, not even the one too many that it writes when the descriptors fill the last
  block, reaches the bitmaps, and bitmaps and inode table stay in the group.
\<close>

theorem mkfs_group_layout:
  assumes "layout_fits info aux" "i < ax_groups aux" "unat blk \<le> unat (ax_bg_desc_blocks aux)"
    and "unat (ax_first_data_block aux) + unat (ax_bg_desc_blocks aux) + unat (mi_bg_desc_reserve_blocks info) +
      unat (ax_inode_table_blocks aux) + 4 \<le> unat (mi_blocks_per_group info)"
  shows "unat (ax_first_data_block aux) + unat i * unat (mi_blocks_per_group info) \<le> unat (descriptor_home info aux blk i) \<and>
    descriptor_home info aux blk i < group_meta info aux i + 1 \<and>
    unat (group_meta info aux i + of_nat (unat (ax_inode_table_blocks aux) + 3)) \<le>
      unat (ax_first_data_block aux) + (unat i + 1) * unat (mi_blocks_per_group info)"
proof -
  note b = group_start_bound [OF assms(1,2)]
  let ?p = "unat i * unat (mi_blocks_per_group info)" and ?f = "unat (ax_first_data_block aux)"
    and ?s = "if has_superblock info i then 1 else 0 :: nat"
  have m: "unat (i * mi_blocks_per_group info) = ?p"
    using assms(1) b by (subst unat_word_ariths(2)) (simp add: layout_fits_def)
  have "unat (ax_first_data_block aux + i * mi_blocks_per_group info) = ?f + ?p"
    using unat_plus_u32 [of "ax_first_data_block aux" "i * mi_blocks_per_group info"] assms(1) b
    unfolding m layout_fits_def by linarith
  then have "(ucast (ax_first_data_block aux + i * mi_blocks_per_group info) :: u64) = of_nat (?f + ?p)"
    by (metis of_nat_unat_u32)
  then have e: "descriptor_home info aux blk i = of_nat (?f + ?p + ?s + unat blk)"
    unfolding descriptor_home_def by simp
  have "?f + ?p + ?s + unat blk < 2 ^ 64" using assms(1,3) b by (auto simp: layout_fits_def)
  then have h: "unat (descriptor_home info aux blk i) = ?f + ?p + ?s + unat blk"
    unfolding e by (simp only: unat_of_nat) simp
  have g: "unat (group_meta info aux i + 1) = ?p + meta_blocks info aux i + 1"
    using unat_group_meta [OF assms(1,2), of 1] by simp
  have t: "unat (group_meta info aux i + of_nat (unat (ax_inode_table_blocks aux) + 3)) =
      ?p + meta_blocks info aux i + (unat (ax_inode_table_blocks aux) + 3)"
    by (rule unat_group_meta [OF assms(1,2)]) simp
  have "descriptor_home info aux blk i < group_meta info aux i + 1"
    using h g assms(3) by (simp add: word_less_nat_alt meta_blocks_def)
  moreover have "unat (group_meta info aux i + of_nat (unat (ax_inode_table_blocks aux) + 3)) \<le>
      ?f + (unat i + 1) * unat (mi_blocks_per_group info)"
    unfolding t using assms(4) by (auto simp: meta_blocks_def)
  ultimately show ?thesis using h by simp
qed

text \<open>
  C25: \<open>create_fs_aux_info\<close> keeps the last group when its size is that of its header. The header it
  counts is too short: the inode table of such a group ends behind the file system.
\<close>

theorem mkfs_last_group_outside:
  assumes "layout_fits info aux" "0 < ax_groups aux"
    and "last_header_size info aux < mi_blocks_per_group info"
    and "unat (ax_len_blocks aux) =
      unat (ax_groups aux - 1) * unat (mi_blocks_per_group info) + unat (last_header_size info aux)"
  shows "cut_last_group info aux = aux \<and>
    ax_len_blocks aux < group_meta info aux (ax_groups aux - 1) + of_nat (unat (ax_inode_table_blocks aux) + 3)"
proof -
  let ?i = "ax_groups aux - 1" and ?h = "unat (last_header_size info aux)" and ?b = "unat (mi_blocks_per_group info)"
  have i: "?i < ax_groups aux"
    using assms(2) unat_minus [of 1 "ax_groups aux"] by (simp add: word_less_nat_alt word_le_nat_alt)
  have h: "?h < ?b" using assms(3) by (simp add: word_less_nat_alt)
  have "unat (ax_len_blocks aux mod ucast (mi_blocks_per_group info)) = ?h"
    using assms(4) h by (simp add: unat_mod unat_ucast_up_eq)
  then have "unat (ucast (ax_len_blocks aux mod ucast (mi_blocks_per_group info)) :: u32) = ?h"
    using unsigned_less [of "last_header_size info aux", where 'a = nat] by (simp add: unat_ucast_le_32)
  then have "(ucast (ax_len_blocks aux mod ucast (mi_blocks_per_group info)) :: u32) = last_header_size info aux"
    by (simp add: word_unat_eq_iff)
  then have cut: "cut_last_group info aux = aux" by (simp add: cut_last_group_def Let_def)
  have "?h \<le> 2 + unat (ax_inode_table_blocks aux) +
      (if has_superblock info ?i then 1 + unat (ax_bg_desc_blocks aux) + unat (mi_bg_desc_reserve_blocks info) else 0)"
    unfolding last_header_size_def by (auto intro!: order.trans [OF unat_plus_le] add_mono)
  then have "unat (ax_len_blocks aux) < unat (group_meta info aux ?i + of_nat (unat (ax_inode_table_blocks aux) + 3))"
    unfolding assms(4) by (subst unat_group_meta [OF assms(1) i]) (auto simp: meta_blocks_def split: if_splits)
  with cut show ?thesis by (simp only: word_less_nat_alt simp_thms)
qed

text \<open>
  The byte address of a backup superblock is computed in 32 bits: for a group that starts at 4 GiB
  or behind it, the copy is written to its address modulo 4 GiB, which is in another group.
\<close>

theorem mkfs_backup_wraps:
  assumes "unat (ax_first_data_block aux) + unat i * unat (mi_blocks_per_group info) < 2 ^ 32"
  shows "unat (backup_offset info aux i) =
    unat (mi_block_size info) * (unat (ax_first_data_block aux) + unat i * unat (mi_blocks_per_group info)) mod 2 ^ 32"
proof -
  have "unat (ax_first_data_block aux + i * mi_blocks_per_group info) =
      unat (ax_first_data_block aux) + unat i * unat (mi_blocks_per_group info)"
    using assms by (simp add: unat_word_ariths)
  then show ?thesis by (simp add: backup_offset_def unat_ucast_up_eq unat_word_ariths(2))
qed

section \<open>The first inodes\<close>

lemma hurd_mask: "push_bit 16 (w :: u32) AND 0xF000 = 0"
proof (rule bit_word_eqI)
  fix n :: nat
  have "bit (0xF000 :: u32) n = bit (take_bit 16 (0xF000 :: u32)) n" by simp
  then show "bit (push_bit 16 w AND 0xF000) n = bit (0 :: u32) n" by (simp only: bit_simps) auto
qed

text \<open>
  \<open>ext4_fs_inode_blocks_init\<close> does nothing for an inode that is neither a file nor a directory. \<open>alloc_one\<close> clears the
  mode of an inode before it lets it prepare the blocks.
\<close>

theorem mkfs_inodes_without_extents:
  assumes "ir_offset ref \<le> length (fs_data fs (ir_block ref))"
  shows "(let fs = ino_upd (\<lambda>ino. ext4_inode_set_mode (fs_sb fs) ino 0) fs ref
          in ext4_fs_inode_blocks_init fs ref) =
    (ino_upd (\<lambda>ino. ext4_inode_set_mode (fs_sb fs) ino 0) fs ref, ref)"
proof -
  let ?fs = "ino_upd (\<lambda>ino. ext4_inode_set_mode (fs_sb fs) ino 0) fs ref"
  let ?i = "ext4_inode_set_mode (fs_sb fs) (ino_get fs ref) 0"
  obtain rest where "ext4_inode_bytes ?i = le_bytes 2 (in_mode ?i) @ rest" by (auto simp: ext4_inode_bytes_def)
  then have s: "get_le 2 0 (ino_stored (fs_sb fs) ?i) = in_mode ?i" "2 \<le> length (ino_stored (fs_sb fs) ?i)"
    by (simp_all add: ino_stored_def get_le_take get_le_here)
  have "ino_bytes ?fs ref = ino_stored (fs_sb fs) ?i @ drop (ir_offset ref + length (ino_stored (fs_sb fs) ?i)) (fs_data fs (ir_block ref))"
    using assms by (simp add: ino_bytes_def ino_upd_def ino_put_def put_bytes_def)
  then have "in_mode (ino_get ?fs ref) = get_le 2 0 (ino_stored (fs_sb fs) ?i)"
    using s(2) by (simp add: ino_get_def ext4_inode_of_def get_le_in)
  then have "in_mode (ino_get ?fs ref) = 0" using s(1) by (simp add: ext4_inode_set_mode_def Let_def)
  then have "ext4_inode_type (fs_sb ?fs) (ino_get ?fs ref) = 0"
    by (simp add: ext4_inode_type_def ext4_inode_get_mode_def EXT4_INODE_MODE_TYPE_MASK_def Let_def hurd_mask)
  then show ?thesis by (simp add: ext4_fs_inode_blocks_init_def Let_def inode_consts)
qed

section \<open>An example\<close>

text \<open>4 KiB blocks, 33284 of them: one full group and one of 516 blocks, exactly its header.\<close>

definition mkfs_sample :: ext4_mkfs_info where
  "mkfs_sample = \<lparr>mi_len = 136331264, mi_block_size = 4096, mi_blocks_per_group = 32768, mi_inodes_per_group = 8192,
     mi_inode_size = 256, mi_inodes = 16384, mi_journal_blocks = 1024, mi_feat_ro_compat = 1, mi_feat_compat = 0x20,
     mi_feat_incompat = 0x42, mi_bg_desc_reserve_blocks = 0, mi_dsc_size = 32, mi_uuid = replicate 16 0,
     mi_journal = False, mi_label = Label_str [0x61]\<rparr>"

definition mkfs_sample_aux :: fs_aux_info where
  "mkfs_sample_aux = aux_geometry mkfs_sample aux_zero"

lemma mkfs_sample_fields:
  "ax_first_data_block mkfs_sample_aux = 0" "ax_len_blocks mkfs_sample_aux = 33284"
  "ax_inode_table_blocks mkfs_sample_aux = 512" "ax_groups mkfs_sample_aux = 2" "ax_bg_desc_blocks mkfs_sample_aux = 1"
  "mi_blocks_per_group mkfs_sample = 32768" "mi_bg_desc_reserve_blocks mkfs_sample = 0" "mi_block_size mkfs_sample = 4096"
  "has_superblock mkfs_sample 1"
  by (simp_all add: mkfs_sample_aux_def mkfs_sample_def aux_geometry_def EXT4_DIV_ROUND_UP_def Let_def
      has_superblock_def ext4_sb_sparse_def)

lemma mkfs_sample_header: "last_header_size mkfs_sample mkfs_sample_aux = 516"
  by (simp add: last_header_size_def mkfs_sample_fields)

theorem mkfs_superblock_roundtrip_witness:
  "\<exists>aux'. fill_sb mkfs_sample_aux mkfs_sample = Some aux' \<and> ext4_sb_check (ax_sb aux')"
proof -
  obtain aux' where f: "fill_sb mkfs_sample_aux mkfs_sample = Some aux'"
    by (simp add: fill_sb_def mkfs_sample_def Let_def)
  have "ext4_sb_check (ax_sb aux') \<and>
    sb2info (ax_sb aux') mkfs_sample = (EOK, mkfs_sample\<lparr>mi_inodes := mi_inodes_per_group mkfs_sample * ax_groups mkfs_sample_aux,
      mi_len := ucast (mi_block_size mkfs_sample) * ax_len_blocks mkfs_sample_aux,
      mi_journal := mi_journal mkfs_sample, mi_journal_blocks := mi_journal_blocks mkfs_sample\<rparr>)"
    by (rule mkfs_superblock_roundtrip [OF f, where k = 2 and label = "[0x61]"])
      (simp_all add: mkfs_sample_fields, simp_all add: mkfs_sample_def EXT4_FRO_COM_METADATA_CSUM_def)
  with f show ?thesis by blast
qed

theorem mkfs_group_layout_witness:
  "descriptor_home mkfs_sample mkfs_sample_aux 1 0 < group_meta mkfs_sample mkfs_sample_aux 0 + 1"
proof -
  have "layout_fits mkfs_sample mkfs_sample_aux" by (simp add: layout_fits_def mkfs_sample_fields)
  from mkfs_group_layout [OF this, of 0 1] show ?thesis by (simp add: mkfs_sample_fields)
qed

theorem mkfs_last_group_outside_witness:
  "cut_last_group mkfs_sample mkfs_sample_aux = mkfs_sample_aux \<and>
    33284 < group_meta mkfs_sample mkfs_sample_aux 1 + 515"
proof -
  have "layout_fits mkfs_sample mkfs_sample_aux" by (simp add: layout_fits_def mkfs_sample_fields)
  from mkfs_last_group_outside [OF this] show ?thesis by (simp add: mkfs_sample_fields mkfs_sample_header)
qed

text \<open>The copy for group 49, 6272 MiB into the file system, goes to 2176 MiB, the start of group 17.\<close>

theorem mkfs_backup_wraps_witness:
  "unat (backup_offset mkfs_sample mkfs_sample_aux 49) = 17 * 32768 * 4096 \<and> (49 * 32768 * 4096 :: nat) \<noteq> 17 * 32768 * 4096"
  using mkfs_backup_wraps [of mkfs_sample_aux 49 mkfs_sample] by (simp add: mkfs_sample_fields)

theorem mkfs_inodes_without_extents_witness:
  "(let fs = ino_upd (\<lambda>ino. ext4_inode_set_mode (fs_sb file_sample) ino 0) file_sample ext_sample_ref
    in ext4_fs_inode_blocks_init fs ext_sample_ref) =
   (ino_upd (\<lambda>ino. ext4_inode_set_mode (fs_sb file_sample) ino 0) file_sample ext_sample_ref, ext_sample_ref)"
  by (rule mkfs_inodes_without_extents) (simp add: ext_sample_ref_def)

end
