(* ===== verification/Jbd.thy ===== *)
theory Jbd
  imports Jbd_Sb Fs_Inode Dir_Split
begin

text \<open>
  The format of the log, the first part of \<open>src/ext4_journal.c\<close>: features, checksums, the superblock
  of the journal on disk, access to the blocks of the journal file, and block tags.

  The buffer that holds a block is a list of bytes. A result is \<open>None\<close> where the code reads or writes
  outside of it, or where an operation on the device ends in a failed assertion.
\<close>

section \<open>Constants and features\<close>

definition to_be16 :: "u16 \<Rightarrow> u16" where "to_be16 n = reorder16 n"
definition to_be64 :: "u64 \<Rightarrow> u64" where "to_be64 n = reorder64 n"

definition JBD_FEATURE_COMPAT_CHECKSUM :: u32 where "JBD_FEATURE_COMPAT_CHECKSUM = 1"
definition JBD_FEATURE_INCOMPAT_REVOKE :: u32 where "JBD_FEATURE_INCOMPAT_REVOKE = 1"
definition JBD_FEATURE_INCOMPAT_64BIT :: u32 where "JBD_FEATURE_INCOMPAT_64BIT = 2"
definition JBD_FEATURE_INCOMPAT_CSUM_V2 :: u32 where "JBD_FEATURE_INCOMPAT_CSUM_V2 = 8"
definition JBD_FEATURE_INCOMPAT_CSUM_V3 :: u32 where "JBD_FEATURE_INCOMPAT_CSUM_V3 = 0x10"

definition JBD_FLAG_ESCAPE :: u32 where "JBD_FLAG_ESCAPE = 1"
definition JBD_FLAG_SAME_UUID :: u32 where "JBD_FLAG_SAME_UUID = 2"
definition JBD_FLAG_LAST_TAG :: u32 where "JBD_FLAG_LAST_TAG = 8"

definition UUID_SIZE :: nat where "UUID_SIZE = 16"

text \<open>\<open>sizeof\<close> of the packed structures of the log.\<close>

definition sizeof_bhdr :: nat where "sizeof_bhdr = 12"
definition sizeof_block_tag3 :: nat where "sizeof_block_tag3 = 16"
definition sizeof_block_tag :: nat where "sizeof_block_tag = 12"
definition sizeof_block_tail :: nat where "sizeof_block_tail = 4"
definition sizeof_revoke_header :: nat where "sizeof_revoke_header = 16"

lemmas jbd_sizes = UUID_SIZE_def sizeof_bhdr_def sizeof_block_tag3_def sizeof_block_tag_def
  sizeof_block_tail_def sizeof_revoke_header_def

text \<open>The comparison of the block type is one of the stored words, on both sides.\<close>

definition JBD_HAS_INCOMPAT_FEATURE :: "jbd_sb \<Rightarrow> u32 \<Rightarrow> bool" where
  "JBD_HAS_INCOMPAT_FEATURE jsb m \<longleftrightarrow>
     to_be32 2 \<le> js_h_blocktype jsb \<and> js_feature_incompat jsb AND to_be32 m \<noteq> 0"

definition jbd_has_csum :: "jbd_sb \<Rightarrow> int" where
  "jbd_has_csum jsb =
     (if JBD_HAS_INCOMPAT_FEATURE jsb JBD_FEATURE_INCOMPAT_CSUM_V2 then 2
      else if JBD_HAS_INCOMPAT_FEATURE jsb JBD_FEATURE_INCOMPAT_CSUM_V3 then 3
      else 0)"

text \<open>The block size that the journal records.\<close>

definition jbd_bsize :: "jbd_sb \<Rightarrow> u32" where "jbd_bsize jsb = to_be32 (js_blocksize jsb)"

section \<open>Checksums\<close>

definition jbd_sb_csum :: "jbd_sb \<Rightarrow> u32" where
  "jbd_sb_csum jsb =
     (if jbd_has_csum jsb \<noteq> 0
      then ext4_crc32c EXT4_CRC32_INIT (jbd_sb_bytes (jsb\<lparr>js_checksum := to_be32 0\<rparr>))
      else 0)"

definition jbd_sb_csum_set :: "jbd_sb \<Rightarrow> jbd_sb" where
  "jbd_sb_csum_set jsb =
     (if jbd_has_csum jsb = 0 then jsb else jsb\<lparr>js_checksum := to_be32 (jbd_sb_csum jsb)\<rparr>)"

definition jbd_verify_sb_csum :: "jbd_sb \<Rightarrow> bool" where
  "jbd_verify_sb_csum jsb \<longleftrightarrow>
     (if jbd_has_csum jsb = 0 then True else jbd_sb_csum jsb = to_be32 (js_checksum jsb))"

text \<open>The tail of a block of the log: the last four bytes of the block size that the journal records.\<close>

definition tail_offset :: "jbd_sb \<Rightarrow> bytes \<Rightarrow> nat option" where
  "tail_offset jsb data =
     (if unat (jbd_bsize jsb) < sizeof_block_tail \<or> length data < unat (jbd_bsize jsb) then None
      else Some (unat (jbd_bsize jsb) - sizeof_block_tail))"

definition jbd_meta_csum :: "jbd_sb \<Rightarrow> bytes \<Rightarrow> u32 option" where
  "jbd_meta_csum jsb data =
     (if jbd_has_csum jsb \<noteq> 0
      then do {
        tail \<leftarrow> tail_offset jsb data;
        let checksum = ext4_crc32c EXT4_CRC32_INIT (js_uuid jsb);
        Some (ext4_crc32c checksum
          (take (unat (jbd_bsize jsb)) (put_bytes tail (le_bytes 4 (0 :: u32)) data)))
      }
      else Some 0)"

definition jbd_meta_csum_set :: "jbd_sb \<Rightarrow> bytes \<Rightarrow> bytes option" where
  "jbd_meta_csum_set jsb data =
     (if jbd_has_csum jsb = 0 then Some data
      else do {
        tail \<leftarrow> tail_offset jsb data;
        checksum \<leftarrow> jbd_meta_csum jsb data;
        Some (put_bytes tail (le_bytes 4 (to_be32 checksum)) data)
      })"

definition jbd_verify_meta_csum :: "jbd_sb \<Rightarrow> bytes \<Rightarrow> bool option" where
  "jbd_verify_meta_csum jsb data =
     (if jbd_has_csum jsb = 0 then Some True
      else do {
        tail \<leftarrow> tail_offset jsb data;
        checksum \<leftarrow> jbd_meta_csum jsb data;
        Some (checksum = to_be32 (get_le 4 tail data))
      })"

text \<open>
  The commit block: \<open>chksum_type\<close> and \<open>chksum_size\<close> are the bytes 12 and 13, \<open>chksum[0]\<close> is the word at 16.
  Setting stores the checksum as it is, verifying compares the stored word with its big-endian image.
\<close>

definition jbd_commit_csum :: "jbd_sb \<Rightarrow> bytes \<Rightarrow> u32 option" where
  "jbd_commit_csum jsb data =
     (if jbd_has_csum jsb \<noteq> 0
      then if length data < unat (jbd_bsize jsb) \<or> length data < 20 then None
      else Some (ext4_crc32c (ext4_crc32c EXT4_CRC32_INIT (js_uuid jsb))
        (take (unat (jbd_bsize jsb)) (put_bytes 12 [0, 0] (put_bytes 16 (le_bytes 4 (0 :: u32)) data))))
      else Some 0)"

definition jbd_commit_csum_set :: "jbd_sb \<Rightarrow> bytes \<Rightarrow> bytes option" where
  "jbd_commit_csum_set jsb data =
     (if jbd_has_csum jsb = 0 then Some data
      else if length data < 20 then None
      else do {
        let data = put_bytes 12 [0, 0] data;
        checksum \<leftarrow> jbd_commit_csum jsb data;
        Some (put_bytes 16 (le_bytes 4 checksum) data)
      })"

definition jbd_verify_commit_csum :: "jbd_sb \<Rightarrow> bytes \<Rightarrow> bool option" where
  "jbd_verify_commit_csum jsb data =
     (if jbd_has_csum jsb = 0 then Some True
      else if length data < 20 then None
      else do {
        checksum \<leftarrow> jbd_commit_csum jsb data;
        Some (get_le 4 16 data = to_be32 checksum)
      })"

text \<open>
  The checksum of a logged block. \<open>JBD_FEATURE_COMPAT_CHECKSUM\<close> is a flag of the compatible features,
  the code looks for it among the incompatible ones. The sequence number is hashed in host order.
\<close>

definition jbd_block_csum :: "jbd_sb \<Rightarrow> bytes \<Rightarrow> u32 \<Rightarrow> u32 \<Rightarrow> u32 option" where
  "jbd_block_csum jsb buf csum sequence =
     (if jbd_has_csum jsb \<noteq> 0
      then if length buf < unat (jbd_bsize jsb) then None
        else Some (ext4_crc32c
          (ext4_crc32c (ext4_crc32c EXT4_CRC32_INIT (js_uuid jsb)) (le_bytes 4 sequence))
          (take (unat (jbd_bsize jsb)) buf))
      else if JBD_HAS_INCOMPAT_FEATURE jsb JBD_FEATURE_COMPAT_CHECKSUM
      then if length buf < unat (jbd_bsize jsb) then None
        else Some (ext4_crc32 csum (take (unat (jbd_bsize jsb)) buf))
      else Some 0)"

text \<open>The tag starts at \<open>off\<close>. A version 2 tag keeps the low half of the swapped checksum.\<close>

definition jbd_block_tag_csum_set :: "jbd_sb \<Rightarrow> nat \<Rightarrow> u32 \<Rightarrow> bytes \<Rightarrow> bytes" where
  "jbd_block_tag_csum_set jsb off checksum data =
     (let ver = jbd_has_csum jsb
      in if ver = 0 then data
         else if ver = 2 then put_bytes (off + 4) (le_bytes 2 (ucast (to_be32 checksum) :: u16)) data
         else put_bytes (off + 12) (le_bytes 4 (to_be32 checksum)) data)"

section \<open>The journal file\<close>

text \<open>
  \<open>struct jbd_fs\<close>. Its device and the file system of its inode reference are those of the file system
  that is passed beside it.
\<close>

record jbd_fs =
  jf_ref :: ext4_inode_ref
  jf_sb :: jbd_sb
  jf_dirty :: bool

definition jbd_fs_zero :: jbd_fs where
  "jbd_fs_zero = \<lparr>jf_ref = inode_ref_undef, jf_sb = jbd_sb_of (replicate 1024 0), jf_dirty = False\<rparr>"

definition jbd_inode_bmap ::
    "'d ext4_fs \<Rightarrow> jbd_fs \<Rightarrow> u32 \<Rightarrow> (errno \<times> 'd ext4_fs \<times> jbd_fs \<times> u64 option) option" where
  "jbd_inode_bmap fs jf iblock = do {
     (rc, fs, ref, fblock) \<leftarrow> ext4_fs_get_inode_dblk_idx fs (jf_ref jf) iblock False;
     Some (rc, fs, jf\<lparr>jf_ref := ref\<rparr>, fblock)
   }"

definition jbd_sb_write :: "'d ext4_fs \<Rightarrow> jbd_fs \<Rightarrow> (errno \<times> 'd ext4_fs \<times> jbd_fs) option" where
  "jbd_sb_write fs jf = do {
     (rc, fs, jf, fblock) \<leftarrow> jbd_inode_bmap fs jf 0;
     if rc \<noteq> EOK then Some (rc, fs, jf)
     else do {
       fblock \<leftarrow> fblock;
       let jf = jf\<lparr>jf_sb := jbd_sb_csum_set (jf_sb jf)\<rparr>;
       let offset = fblock * ucast (ext4_sb_get_block_size (fs_sb fs));
       (rc, bdev) \<leftarrow> ext4_block_writebytes (fs_bdev fs) offset (jbd_sb_bytes (jf_sb jf)) (of_nat EXT4_SUPERBLOCK_SIZE);
       Some (rc, fs\<lparr>fs_bdev := bdev\<rparr>, jf)
     }
   }"

definition jbd_sb_read :: "'d ext4_fs \<Rightarrow> jbd_fs \<Rightarrow> (errno \<times> 'd ext4_fs \<times> jbd_fs) option" where
  "jbd_sb_read fs jf = do {
     (rc, fs, jf, fblock) \<leftarrow> jbd_inode_bmap fs jf 0;
     if rc \<noteq> EOK then Some (rc, fs, jf)
     else do {
       fblock \<leftarrow> fblock;
       let offset = fblock * ucast (ext4_sb_get_block_size (fs_sb fs));
       (rc, bs, bdev) \<leftarrow> ext4_block_readbytes (fs_bdev fs) offset (of_nat EXT4_SUPERBLOCK_SIZE);
       Some (rc, fs\<lparr>fs_bdev := bdev\<rparr>, jf\<lparr>jf_sb := jbd_sb_of (put_bytes 0 bs (jbd_sb_bytes (jf_sb jf)))\<rparr>)
     }
   }"

definition jbd_verify_sb :: "jbd_sb \<Rightarrow> bool" where
  "jbd_verify_sb jsb \<longleftrightarrow>
     (if to_be32 (js_h_magic jsb) \<noteq> JBD_MAGIC_NUMBER then False
      else if to_be32 (js_h_blocktype jsb) \<noteq> JBD_SUPERBLOCK \<and> to_be32 (js_h_blocktype jsb) \<noteq> JBD_SUPERBLOCK_V2 then False
      else jbd_verify_sb_csum jsb)"

definition jbd_write_sb :: "'d ext4_fs \<Rightarrow> jbd_fs \<Rightarrow> (errno \<times> 'd ext4_fs \<times> jbd_fs) option" where
  "jbd_write_sb fs jf =
     (if jf_dirty jf
      then do {
        (rc, fs, jf) \<leftarrow> jbd_sb_write fs jf;
        if rc \<noteq> EOK then Some (rc, fs, jf) else Some (rc, fs, jf\<lparr>jf_dirty := False\<rparr>)
      }
      else Some (EOK, fs, jf))"

definition jbd_get_fs :: "'d ext4_fs \<Rightarrow> (errno \<times> 'd ext4_fs \<times> jbd_fs) option" where
  "jbd_get_fs fs = do {
     let journal_ino = sb_journal_inode_number (fs_sb fs);
     (rc, fs, ref) \<leftarrow> ext4_fs_get_inode_ref fs journal_ino;
     if rc \<noteq> EOK then Some (rc, fs, jbd_fs_zero\<lparr>jf_ref := ref\<rparr>)
     else do {
       (rc, fs, jf) \<leftarrow> jbd_sb_read fs (jbd_fs_zero\<lparr>jf_ref := ref\<rparr>);
       let rc = (if rc = EOK \<and> \<not> jbd_verify_sb (jf_sb jf) then EIO else rc);
       if rc \<noteq> EOK
       then do {
         (_, fs) \<leftarrow> ext4_fs_put_inode_ref fs (jf_ref jf);
         Some (rc, fs, jbd_fs_zero)
       }
       else Some (rc, fs, jf)
     }
   }"

definition jbd_put_fs :: "'d ext4_fs \<Rightarrow> jbd_fs \<Rightarrow> (errno \<times> 'd ext4_fs \<times> jbd_fs) option" where
  "jbd_put_fs fs jf = do {
     (rc, fs, jf) \<leftarrow> jbd_write_sb fs jf;
     (_, fs) \<leftarrow> ext4_fs_put_inode_ref fs (jf_ref jf);
     Some (rc, fs, jf)
   }"

section \<open>The blocks of the journal\<close>

definition buf_flag :: "'d ext4_fs \<Rightarrow> ext4_block \<Rightarrow> bcache_state_bits \<Rightarrow> 'd ext4_fs" where
  "buf_flag fs b f =
     fs\<lparr>fs_bdev := upd_bc (upd_buf (the (blk_buf b)) (\<lambda>bf. ext4_bcache_set_flag bf f)) (fs_bdev fs)\<rparr>"

text \<open>A block of the journal is written when it is given back, and not kept in the cache.\<close>

definition jbd_block_get ::
    "'d ext4_fs \<Rightarrow> jbd_fs \<Rightarrow> u64 \<Rightarrow> (errno \<times> 'd ext4_fs \<times> jbd_fs \<times> ext4_block) option" where
  "jbd_block_get fs jf fblock = do {
     let iblock = ucast fblock;
     (rc, fs, jf, fblock) \<leftarrow> jbd_inode_bmap fs jf iblock;
     if rc \<noteq> EOK then Some (rc, fs, jf, EXT4_BLOCK_ZERO)
     else do {
       fblock \<leftarrow> fblock;
       (rc, bdev, b) \<leftarrow> ext4_block_get (fs_bdev fs) EXT4_BLOCK_ZERO fblock;
       let fs = fs\<lparr>fs_bdev := bdev\<rparr>;
       if rc = EOK then Some (rc, buf_flag (buf_flag fs b BC_FLUSH) b BC_TMP, jf, b)
       else Some (rc, fs, jf, b)
     }
   }"

definition jbd_block_get_noread ::
    "'d ext4_fs \<Rightarrow> jbd_fs \<Rightarrow> u64 \<Rightarrow> (errno \<times> 'd ext4_fs \<times> jbd_fs \<times> ext4_block) option" where
  "jbd_block_get_noread fs jf fblock = do {
     let iblock = ucast fblock;
     (rc, fs, jf, fblock) \<leftarrow> jbd_inode_bmap fs jf iblock;
     if rc \<noteq> EOK then Some (rc, fs, jf, EXT4_BLOCK_ZERO)
     else do {
       fblock \<leftarrow> fblock;
       (rc, bdev, b) \<leftarrow> ext4_block_get_noread (fs_bdev fs) EXT4_BLOCK_ZERO fblock;
       let fs = fs\<lparr>fs_bdev := bdev\<rparr>;
       if rc = EOK then Some (rc, buf_flag fs b BC_FLUSH, jf, b) else Some (rc, fs, jf, b)
     }
   }"

definition jbd_block_set :: "'d ext4_fs \<Rightarrow> ext4_block \<Rightarrow> (errno \<times> 'd ext4_fs) option" where
  "jbd_block_set fs b = fs_block_set fs b"

section \<open>Block tags\<close>

definition jbd_tag_bytes :: "jbd_sb \<Rightarrow> nat" where
  "jbd_tag_bytes jsb =
     (if JBD_HAS_INCOMPAT_FEATURE jsb JBD_FEATURE_INCOMPAT_CSUM_V3 then sizeof_block_tag3
      else
        (let size = sizeof_block_tag +
               (if JBD_HAS_INCOMPAT_FEATURE jsb JBD_FEATURE_INCOMPAT_CSUM_V2 then 2 else 0)
         in if JBD_HAS_INCOMPAT_FEATURE jsb JBD_FEATURE_INCOMPAT_64BIT then size else size - 4))"

record tag_info =
  tag_bytes :: nat
  tag_block :: u64
  is_escape :: bool
  uuid_exist :: bool
  tag_uuid :: bytes
  last_tag :: bool
  tag_checksum :: u32

definition tag_undef :: tag_info where
  "tag_undef = \<lparr>tag_bytes = 0, tag_block = 0, is_escape = False, uuid_exist = False,
     tag_uuid = replicate 16 0, last_tag = False, tag_checksum = 0\<rparr>"

text \<open>The flags of the tag at \<open>off\<close>: a 32-bit word in version 3, a 16-bit word behind the checksum before.\<close>

definition tag_flags :: "jbd_sb \<Rightarrow> nat \<Rightarrow> bytes \<Rightarrow> u32" where
  "tag_flags jsb off data =
     (if JBD_HAS_INCOMPAT_FEATURE jsb JBD_FEATURE_INCOMPAT_CSUM_V3 then to_be32 (get_le 4 (off + 4) data)
      else ucast (to_be16 (get_le 2 (off + 6) data)))"

definition tag_blocknr :: "jbd_sb \<Rightarrow> nat \<Rightarrow> bytes \<Rightarrow> u64" where
  "tag_blocknr jsb off data =
     (let low = ucast (to_be32 (get_le 4 off data))
      in if JBD_HAS_INCOMPAT_FEATURE jsb JBD_FEATURE_INCOMPAT_64BIT
         then low OR push_bit 32 (ucast (to_be32 (get_le 4 (off + 8) data)))
         else low)"

text \<open>The tag starts at byte \<open>off\<close> of the block; \<open>remain\<close> bytes of the table are left.\<close>

definition jbd_extract_block_tag ::
    "jbd_sb \<Rightarrow> bytes \<Rightarrow> nat \<Rightarrow> nat \<Rightarrow> int \<Rightarrow> tag_info \<Rightarrow> (errno \<times> tag_info) option" where
  "jbd_extract_block_tag jsb data off bytes remain ti = do {
     let ti = ti\<lparr>tag_bytes := bytes, uuid_exist := False, last_tag := False, is_escape := False\<rparr>;
     if remain - int bytes < 0 then Some (EINVAL, ti)
     else if length data < off + bytes then None
     else do {
       let flags = tag_flags jsb off data;
       let ti = ti\<lparr>tag_block := tag_blocknr jsb off data, is_escape := flags AND JBD_FLAG_ESCAPE \<noteq> 0\<rparr>;
       if flags AND JBD_FLAG_SAME_UUID = 0
       then if remain - int bytes < int UUID_SIZE then Some (EINVAL, ti)
         else if length data < off + bytes + UUID_SIZE then None
         else Some (EOK, ti\<lparr>uuid_exist := True, tag_bytes := bytes + UUID_SIZE,
           tag_uuid := take UUID_SIZE (drop (off + bytes) data), last_tag := flags AND JBD_FLAG_LAST_TAG \<noteq> 0\<rparr>)
       else Some (EOK, ti\<lparr>last_tag := flags AND JBD_FLAG_LAST_TAG \<noteq> 0\<rparr>)
     }
   }"

text \<open>Storing a flag: reading the flags of the tag, and writing them back with one more bit.\<close>

definition tag_set_flag :: "jbd_sb \<Rightarrow> nat \<Rightarrow> u32 \<Rightarrow> bytes \<Rightarrow> bytes" where
  "tag_set_flag jsb off flag data =
     (let flags = tag_flags jsb off data OR flag
      in if JBD_HAS_INCOMPAT_FEATURE jsb JBD_FEATURE_INCOMPAT_CSUM_V3
         then put_bytes (off + 4) (le_bytes 4 (to_be32 flags)) data
         else put_bytes (off + 6) (le_bytes 2 (to_be16 (ucast flags))) data)"

text \<open>
  The whole structure is cleared first, which is up to four bytes more than the tag has when block
  numbers are 32 bits wide.
\<close>

definition jbd_write_block_tag ::
    "jbd_sb \<Rightarrow> bytes \<Rightarrow> nat \<Rightarrow> int \<Rightarrow> tag_info \<Rightarrow> (errno \<times> bytes \<times> tag_info) option" where
  "jbd_write_block_tag jsb data off remain ti = do {
     let bytes = jbd_tag_bytes jsb;
     let ti = ti\<lparr>tag_bytes := bytes\<rparr>;
     if remain - int bytes < 0 then Some (EINVAL, data, ti)
     else do {
       let cleared = (if JBD_HAS_INCOMPAT_FEATURE jsb JBD_FEATURE_INCOMPAT_CSUM_V3
                      then sizeof_block_tag3 else sizeof_block_tag);
       if length data < off + cleared \<or> length data < off + bytes then None
       else do {
         let data = put_bytes off (replicate cleared 0) data;
         let data = put_bytes off (le_bytes 4 (to_be32 (ucast (tag_block ti)))) data;
         let data = (if JBD_HAS_INCOMPAT_FEATURE jsb JBD_FEATURE_INCOMPAT_64BIT
                     then put_bytes (off + 8) (le_bytes 4 (to_be32 (ucast (drop_bit 32 (tag_block ti))))) data
                     else data);
         if uuid_exist ti \<and> remain - int bytes < int UUID_SIZE then Some (EINVAL, data, ti)
         else if uuid_exist ti \<and> length data < off + bytes + UUID_SIZE then None
         else do {
           let (data, ti) = (if uuid_exist ti
                  then (put_bytes (off + bytes) (take UUID_SIZE (tag_uuid ti)) data, ti\<lparr>tag_bytes := bytes + UUID_SIZE\<rparr>)
                  else (tag_set_flag jsb off JBD_FLAG_SAME_UUID data, ti));
           let data = jbd_block_tag_csum_set jsb off (tag_checksum ti) data;
           let data = (if last_tag ti then tag_set_flag jsb off JBD_FLAG_LAST_TAG data else data);
           let data = (if is_escape ti then tag_set_flag jsb off JBD_FLAG_ESCAPE data else data);
           Some (EOK, data, ti)
         }
       }
     }
   }"

lemma jbd_tag_bytes_ge: "8 \<le> jbd_tag_bytes jsb"
  by (simp add: jbd_tag_bytes_def jbd_sizes Let_def)

lemma extract_tag_bytes:
  assumes "jbd_extract_block_tag jsb data off bytes remain ti0 = Some (EOK, ti)"
  shows "tag_bytes ti \<in> {bytes, bytes + 16} \<and> int (tag_bytes ti) \<le> remain"
  using assms by (auto simp: jbd_extract_block_tag_def Let_def jbd_sizes split: if_splits)

text \<open>
  The loop of \<open>jbd_iterate_block_table\<close> over the tags from \<open>off\<close> on. The callback may change the state
  \<open>s\<close>, and with it the block, which \<open>data\<close> reads.
\<close>

function block_table_loop ::
    "jbd_sb \<Rightarrow> ('s \<Rightarrow> bytes) \<Rightarrow> ('s \<Rightarrow> tag_info \<Rightarrow> 's option) \<Rightarrow> 's \<Rightarrow> nat \<Rightarrow> int \<Rightarrow> 's option" where
  "block_table_loop jsb data func s off tbl_size =
     (if tbl_size = 0 then Some s
      else (case jbd_extract_block_tag jsb (data s) off (jbd_tag_bytes jsb) tbl_size tag_undef of
              None \<Rightarrow> None
            | Some (rc, ti) \<Rightarrow>
                if rc \<noteq> EOK then Some s
                else (case func s ti of
                        None \<Rightarrow> None
                      | Some s' \<Rightarrow>
                          if last_tag ti then Some s'
                          else block_table_loop jsb data func s' (off + tag_bytes ti) (tbl_size - int (tag_bytes ti)))))"
  by pat_completeness auto

termination
proof (relation "measure (\<lambda>(jsb, data, func, s, off, tbl_size). nat tbl_size)", goal_cases)
  case (2 jsb data func s off tbl_size x a b)
  then have "tag_bytes b \<in> {jbd_tag_bytes jsb, jbd_tag_bytes jsb + 16} \<and> int (tag_bytes b) \<le> tbl_size"
    using extract_tag_bytes [of jsb "data s" off "jbd_tag_bytes jsb" tbl_size tag_undef b] by auto
  then show ?case using jbd_tag_bytes_ge [of jsb] by auto
qed simp

declare block_table_loop.simps [simp del]

text \<open>The table starts behind the header of the block, \<open>tbl_size\<close> is a signed 32-bit number.\<close>

definition jbd_iterate_block_table ::
    "jbd_sb \<Rightarrow> ('s \<Rightarrow> bytes) \<Rightarrow> ('s \<Rightarrow> tag_info \<Rightarrow> 's option) \<Rightarrow> 's \<Rightarrow> 's option" where
  "jbd_iterate_block_table jsb data func s =
     (let tbl_size = sint (jbd_bsize jsb - of_nat sizeof_bhdr);
          tbl_size = (if JBD_HAS_INCOMPAT_FEATURE jsb JBD_FEATURE_INCOMPAT_CSUM_V2 \<or>
                         JBD_HAS_INCOMPAT_FEATURE jsb JBD_FEATURE_INCOMPAT_CSUM_V3
                      then tbl_size - int sizeof_block_tail else tbl_size)
      in block_table_loop jsb data func s sizeof_bhdr tbl_size)"

end
