(* ===== verification/Jbd_Recover.thy ===== *)
theory Jbd_Recover
  imports Jbd Mount
begin

text \<open>
  Replaying the log: the recovery part of \<open>src/ext4_journal.c\<close> and \<open>ext4_recover\<close> of \<open>src/ext4.c\<close>.

  The red-black tree of revoked blocks is the list of its entries in the order of the blocks. The
  loop over the log need not end, so it is a partial function: \<open>None\<close> is also the value of a loop that
  runs forever.
\<close>

section \<open>State\<close>

record recover_info =
  start_trans_id :: u32
  last_trans_id :: u32
  this_trans_id :: u32
  trans_cnt :: u32
  revoke_root :: "(u64 \<times> u32) list"

definition recover_info_undef :: recover_info where
  "recover_info_undef = \<lparr>start_trans_id = 0, last_trans_id = 0, this_trans_id = 0, trans_cnt = 0, revoke_root = []\<rparr>"

definition ACTION_SCAN :: nat where "ACTION_SCAN = 0"
definition ACTION_REVOKE :: nat where "ACTION_REVOKE = 1"
definition ACTION_RECOVER :: nat where "ACTION_RECOVER = 2"

definition wrap_log :: "jbd_sb \<Rightarrow> u32 \<Rightarrow> u32" where
  "wrap_log jsb v =
     (if to_be32 (js_maxlen jsb) \<le> v then v - (to_be32 (js_maxlen jsb) - to_be32 (js_first jsb)) else v)"

definition trans_id_diff :: "u32 \<Rightarrow> u32 \<Rightarrow> int" where
  "trans_id_diff x y = sint (x - y)"

section \<open>Revoked blocks\<close>

definition jbd_revoke_entry_lookup :: "recover_info \<Rightarrow> u64 \<Rightarrow> u32 option" where
  "jbd_revoke_entry_lookup info block = map_of (revoke_root info) block"

text \<open>The insertion into the tree, at the place of the block in the order.\<close>

fun rb_insert_revoke :: "u64 \<Rightarrow> u32 \<Rightarrow> (u64 \<times> u32) list \<Rightarrow> (u64 \<times> u32) list" where
  "rb_insert_revoke block tid [] = [(block, tid)]"
| "rb_insert_revoke block tid (e # es) =
     (if block < fst e then (block, tid) # e # es else e # rb_insert_revoke block tid es)"

text \<open>An entry that exists gets the current transaction, a new one is allocated.\<close>

definition jbd_add_revoke_block_tags ::
    "'d ext4_fs \<Rightarrow> recover_info \<Rightarrow> u64 \<Rightarrow> ('d ext4_fs \<times> recover_info) option" where
  "jbd_add_revoke_block_tags fs info block =
     (case jbd_revoke_entry_lookup info block of
        Some _ \<Rightarrow> Some (fs, info\<lparr>revoke_root :=
          map (\<lambda>e. if fst e = block then (block, this_trans_id info) else e) (revoke_root info)\<rparr>)
      | None \<Rightarrow>
          (case fs_malloc fs of (ok, fs) \<Rightarrow>
             if \<not> ok then None
             else Some (fs, info\<lparr>revoke_root := rb_insert_revoke block (this_trans_id info) (revoke_root info)\<rparr>)))"

text \<open>The entry at byte \<open>off\<close> of a revoke block.\<close>

definition revoke_entry_at :: "nat \<Rightarrow> bytes \<Rightarrow> nat \<Rightarrow> u64 option" where
  "revoke_entry_at record_len data off =
     (if length data < off + record_len then None
      else Some (if record_len = 8 then to_be64 (get_le 8 off data) else ucast (to_be32 (get_le 4 off data))))"

fun revoke_loop ::
    "nat \<Rightarrow> bytes \<Rightarrow> nat \<Rightarrow> nat \<Rightarrow> 'd ext4_fs \<Rightarrow> recover_info \<Rightarrow> ('d ext4_fs \<times> recover_info) option" where
  "revoke_loop record_len data off 0 fs info = Some (fs, info)"
| "revoke_loop record_len data off (Suc n) fs info = do {
     block \<leftarrow> revoke_entry_at record_len data off;
     (fs, info) \<leftarrow> jbd_add_revoke_block_tags fs info block;
     revoke_loop record_len data (off + record_len) n fs info
   }"

text \<open>
  The count of a revoke block is in bytes and includes its header. The subtraction is 64 bits wide, the
  quotient is cut to 32 bits.
\<close>

definition revoke_entries :: "nat \<Rightarrow> bytes \<Rightarrow> u32" where
  "revoke_entries record_len data =
     ucast ((ucast (to_be32 (get_le 4 12 data)) - of_nat sizeof_revoke_header :: u64) div of_nat record_len)"

definition jbd_build_revoke_tree ::
    "'d ext4_fs \<Rightarrow> jbd_sb \<Rightarrow> bytes \<Rightarrow> recover_info \<Rightarrow> ('d ext4_fs \<times> recover_info) option" where
  "jbd_build_revoke_tree fs jsb data info =
     (let record_len = (if JBD_HAS_INCOMPAT_FEATURE jsb JBD_FEATURE_INCOMPAT_64BIT then 8 else 4)
      in revoke_loop record_len data sizeof_revoke_header (unat (revoke_entries record_len data)) fs info)"

section \<open>Replaying a block\<close>

text \<open>
  The block with number 0 is taken for the superblock: it is copied from the second KiB of the logged
  block, the mount state and the mount count are kept. When writing it fails, the logged block is
  not given back.
\<close>

definition replay_superblock ::
    "'d ext4_fs \<Rightarrow> ext4_block \<Rightarrow> (bool \<times> 'd ext4_fs) option" where
  "replay_superblock fs journal_block =
     (if length (fs_data fs journal_block) < unat EXT4_SUPERBLOCK_OFFSET + EXT4_SUPERBLOCK_SIZE then None
      else do {
        let mount_count = sb_mount_count (fs_sb fs);
        let state = sb_state (fs_sb fs);
        let sb = ext4_sblock_of (drop (unat EXT4_SUPERBLOCK_OFFSET) (fs_data fs journal_block));
        let sb = sb\<lparr>sb_state := state\<rparr>;
        (r, bdev, sb) \<leftarrow> ext4_sb_write (fs_bdev fs) sb;
        let fs = fs\<lparr>fs_bdev := bdev, fs_sb := sb\<rparr>;
        if r \<noteq> EOK then Some (False, fs)
        else Some (True, fs\<lparr>fs_sb := (fs_sb fs)\<lparr>sb_mount_count := mount_count\<rparr>\<rparr>)
      })"

definition replay_copy ::
    "'d ext4_fs \<Rightarrow> jbd_fs \<Rightarrow> tag_info \<Rightarrow> ext4_block \<Rightarrow> ext4_block \<Rightarrow> 'd ext4_fs option" where
  "replay_copy fs jf ti journal_block b =
     (let n = unat (jbd_bsize (jf_sb jf))
      in if length (fs_data fs journal_block) < n \<or> length (fs_data fs b) < n then None
         else do {
           let fs = fs_store fs b (put_bytes 0 (take n (fs_data fs journal_block)) (fs_data fs b));
           fs \<leftarrow> (if is_escape ti
                  then if length (fs_data fs b) < 4 then None
                    else Some (fs_store fs b (put_bytes 0 (le_bytes 4 (to_be32 JBD_MAGIC_NUMBER)) (fs_data fs b)))
                  else Some fs);
           let fs = fs\<lparr>fs_bdev := upd_bc (upd_buf (the (blk_buf b)) ext4_bcache_set_dirty) (fs_bdev fs)\<rparr>;
           (_, fs) \<leftarrow> fs_block_set fs b;
           Some fs
         })"

definition jbd_replay_block_tags ::
    "recover_info \<Rightarrow> u32 \<Rightarrow> 'd ext4_fs \<times> jbd_fs \<times> u32 \<Rightarrow> tag_info \<Rightarrow> ('d ext4_fs \<times> jbd_fs \<times> u32) option" where
  "jbd_replay_block_tags info tid st ti =
     (case st of (fs, jf, this_block) \<Rightarrow> do {
        let this_block = wrap_log (jf_sb jf) (this_block + 1);
        if (case jbd_revoke_entry_lookup info (tag_block ti) of
              Some t \<Rightarrow> trans_id_diff tid t \<le> 0 | None \<Rightarrow> False)
        then Some (fs, jf, this_block)
        else do {
          (r, fs, jf, journal_block) \<leftarrow> jbd_block_get fs jf (ucast this_block);
          if r \<noteq> EOK then Some (fs, jf, this_block)
          else if tag_block ti \<noteq> 0
          then do {
            (r, bdev, b) \<leftarrow> ext4_block_get_noread (fs_bdev fs) EXT4_BLOCK_ZERO (tag_block ti);
            let fs = fs\<lparr>fs_bdev := bdev\<rparr>;
            if r \<noteq> EOK
            then do {
              (_, fs) \<leftarrow> jbd_block_set fs journal_block;
              Some (fs, jf, this_block)
            }
            else do {
              fs \<leftarrow> replay_copy fs jf ti journal_block b;
              (_, fs) \<leftarrow> jbd_block_set fs journal_block;
              Some (fs, jf, this_block)
            }
          }
          else do {
            (written, fs) \<leftarrow> replay_superblock fs journal_block;
            if \<not> written then Some (fs, jf, this_block)
            else do {
              (_, fs) \<leftarrow> jbd_block_set fs journal_block;
              Some (fs, jf, this_block)
            }
          }
        }
      })"

definition jbd_replay_descriptor_block ::
    "recover_info \<Rightarrow> u32 \<Rightarrow> 'd ext4_fs \<Rightarrow> jbd_fs \<Rightarrow> ext4_block \<Rightarrow> u32 \<Rightarrow> ('d ext4_fs \<times> jbd_fs \<times> u32) option" where
  "jbd_replay_descriptor_block info tid fs jf b this_block =
     jbd_iterate_block_table (jf_sb jf) (\<lambda>(fs, jf, this_block). fs_data fs b)
       (jbd_replay_block_tags info tid) (fs, jf, this_block)"

text \<open>The passes that do not replay only count the logged blocks.\<close>

definition jbd_display_block_tags :: "jbd_sb \<Rightarrow> u32 \<Rightarrow> tag_info \<Rightarrow> u32 option" where
  "jbd_display_block_tags jsb iblock ti = Some (wrap_log jsb (iblock + 1))"

definition jbd_debug_descriptor_block :: "jbd_sb \<Rightarrow> bytes \<Rightarrow> u32 \<Rightarrow> u32 option" where
  "jbd_debug_descriptor_block jsb data iblock =
     jbd_iterate_block_table jsb (\<lambda>_. data) (jbd_display_block_tags jsb) iblock"

section \<open>The passes over the log\<close>

text \<open>What the loop carries: the state, the current transaction and block, and whether the log has ended.\<close>

record 'd log_state =
  lg_fs :: "'d ext4_fs"
  lg_jf :: jbd_fs
  lg_info :: recover_info
  lg_tid :: u32
  lg_block :: u32
  lg_end :: bool

text \<open>The \<open>switch\<close> over the type of a block whose header is that of the current transaction.\<close>

definition log_switch :: "nat \<Rightarrow> 'd log_state \<Rightarrow> ext4_block \<Rightarrow> 'd log_state option" where
  "log_switch action st b = do {
     let data = fs_data (lg_fs st) b;
     let jsb = jf_sb (lg_jf st);
     let blocktype = to_be32 (get_le 4 4 data);
     if blocktype = JBD_DESCRIPTOR_BLOCK
     then do {
       valid \<leftarrow> jbd_verify_meta_csum jsb data;
       if \<not> valid then Some (st\<lparr>lg_end := True\<rparr>)
       else if action = ACTION_RECOVER
       then do {
         (fs, jf, this_block) \<leftarrow> jbd_replay_descriptor_block (lg_info st) (lg_tid st) (lg_fs st) (lg_jf st) b (lg_block st);
         Some (st\<lparr>lg_fs := fs, lg_jf := jf, lg_block := this_block\<rparr>)
       }
       else do {
         this_block \<leftarrow> jbd_debug_descriptor_block jsb data (lg_block st);
         Some (st\<lparr>lg_block := this_block\<rparr>)
       }
     }
     else if blocktype = JBD_COMMIT_BLOCK
     then do {
       valid \<leftarrow> jbd_verify_commit_csum jsb data;
       if \<not> valid then Some (st\<lparr>lg_end := True\<rparr>)
       else do {
         let st = st\<lparr>lg_tid := lg_tid st + 1\<rparr>;
         Some (if action = ACTION_SCAN
               then st\<lparr>lg_info := (lg_info st)\<lparr>trans_cnt := trans_cnt (lg_info st) + 1\<rparr>\<rparr> else st)
       }
     }
     else if blocktype = JBD_REVOKE_BLOCK
     then do {
       valid \<leftarrow> jbd_verify_meta_csum jsb data;
       if \<not> valid then Some (st\<lparr>lg_end := True\<rparr>)
       else if action = ACTION_REVOKE
       then do {
         let info = (lg_info st)\<lparr>this_trans_id := lg_tid st\<rparr>;
         (fs, info) \<leftarrow> jbd_build_revoke_tree (lg_fs st) jsb data info;
         Some (st\<lparr>lg_fs := fs, lg_info := info\<rparr>)
       }
       else Some st
     }
     else Some (st\<lparr>lg_end := True\<rparr>)
   }"

text \<open>
  One round of the loop. The result says, beside the error code, whether the loop was left by \<open>break\<close>;
  a \<open>continue\<close> leaves it through \<open>log_end\<close>.
\<close>

definition log_round :: "nat \<Rightarrow> u32 \<Rightarrow> 'd log_state \<Rightarrow> (errno \<times> bool \<times> 'd log_state) option" where
  "log_round action start_block st =
     (if action \<noteq> ACTION_SCAN \<and> trans_id_diff (lg_tid st) (last_trans_id (lg_info st)) > 0
      then Some (EOK, False, st\<lparr>lg_end := True\<rparr>)
      else do {
        (r, fs, jf, b) \<leftarrow> jbd_block_get (lg_fs st) (lg_jf st) (ucast (lg_block st));
        let st = st\<lparr>lg_fs := fs, lg_jf := jf\<rparr>;
        if r \<noteq> EOK then Some (r, True, st)
        else do {
          let data = fs_data fs b;
          if to_be32 (get_le 4 0 data) \<noteq> JBD_MAGIC_NUMBER
          then do {
            (_, fs) \<leftarrow> jbd_block_set fs b;
            Some (EOK, False, st\<lparr>lg_fs := fs, lg_end := True\<rparr>)
          }
          else if to_be32 (get_le 4 8 data) \<noteq> lg_tid st
          then do {
            (_, fs) \<leftarrow> jbd_block_set fs b;
            Some (if action \<noteq> ACTION_SCAN then EIO else EOK, False, st\<lparr>lg_fs := fs, lg_end := True\<rparr>)
          }
          else do {
            st \<leftarrow> log_switch action st b;
            (_, fs) \<leftarrow> jbd_block_set (lg_fs st) b;
            let this_block = wrap_log (jf_sb (lg_jf st)) (lg_block st + 1);
            Some (EOK, False, st\<lparr>lg_fs := fs, lg_block := this_block,
              lg_end := lg_end st \<or> this_block = start_block\<rparr>)
          }
        }
      })"

text \<open>
  \<open>r\<close> is the error code so far. Every round that starts sees \<open>EOK\<close>: the two that set another code end
  the loop.
\<close>

partial_function (option) log_loop ::
    "nat \<Rightarrow> u32 \<Rightarrow> errno \<Rightarrow> 'd log_state \<Rightarrow> (errno \<times> 'd log_state) option" where
  "log_loop action start_block r st =
     (if lg_end st then Some (r, st)
      else Option.bind (log_round action start_block st)
        (\<lambda>(r, left, st). if left then Some (r, st) else log_loop action start_block r st))"

definition jbd_iterate_log ::
    "'d ext4_fs \<Rightarrow> jbd_fs \<Rightarrow> recover_info \<Rightarrow> nat \<Rightarrow> (errno \<times> 'd ext4_fs \<times> jbd_fs \<times> recover_info) option" where
  "jbd_iterate_log fs jf info action = do {
     let start_tid = to_be32 (js_sequence (jf_sb jf));
     let start_block = to_be32 (js_start (jf_sb jf));
     let log_end = (action \<noteq> ACTION_SCAN \<and> trans_cnt info = 0);
     let info = (if action = ACTION_SCAN then info\<lparr>trans_cnt := 0\<rparr> else info);
     (r, st) \<leftarrow> log_loop action start_block EOK
       \<lparr>lg_fs = fs, lg_jf = jf, lg_info = info, lg_tid = start_tid, lg_block = start_block, lg_end = log_end\<rparr>;
     let info = lg_info st;
     let info = (if r = EOK \<and> action = ACTION_SCAN
       then info\<lparr>start_trans_id := start_tid,
         last_trans_id := (if trans_id_diff (lg_tid st) start_tid > 0 then lg_tid st - 1 else lg_tid st)\<rparr>
       else info);
     Some (r, lg_fs st, lg_jf st, info)
   }"

text \<open>
  The end of a recovery: the log is marked empty, the flag of the file system is cleared and its
  superblock written.
\<close>

definition recover_done :: "'d ext4_fs \<Rightarrow> jbd_fs \<Rightarrow> u32 \<Rightarrow> (errno \<times> 'd ext4_fs \<times> jbd_fs) option" where
  "recover_done fs jf last_tid = do {
     let features = sb_features_incompatible (fs_sb fs) AND NOT EXT4_FINCOM_RECOVER;
     let jf = jf\<lparr>jf_sb := (jf_sb jf)\<lparr>js_start := to_be32 0, js_sequence := to_be32 last_tid\<rparr>, jf_dirty := True\<rparr>;
     let sb = (fs_sb fs)\<lparr>sb_features_incompatible := features\<rparr>;
     (r, bdev, sb) \<leftarrow> ext4_sb_write (fs_bdev fs) sb;
     Some (r, fs\<lparr>fs_bdev := bdev, fs_sb := sb\<rparr>, jf)
   }"

text \<open>
  Recovery. The entries of the revoke tree are only freed when all three passes were run, which the
  model does not show: nothing depends on memory that is never freed.
\<close>

definition jbd_recover :: "'d ext4_fs \<Rightarrow> jbd_fs \<Rightarrow> (errno \<times> 'd ext4_fs \<times> jbd_fs) option" where
  "jbd_recover fs jf =
     (if js_start (jf_sb jf) = 0 then Some (EOK, fs, jf)
      else do {
        (r, fs, jf, info) \<leftarrow> jbd_iterate_log fs jf recover_info_undef ACTION_SCAN;
        if r \<noteq> EOK then Some (r, fs, jf)
        else do {
          (r, fs, jf, info) \<leftarrow> jbd_iterate_log fs jf info ACTION_REVOKE;
          if r \<noteq> EOK then Some (r, fs, jf)
          else do {
            (r, fs, jf, info) \<leftarrow> jbd_iterate_log fs jf info ACTION_RECOVER;
            if r \<noteq> EOK then Some (r, fs, jf) else recover_done fs jf (last_trans_id info)
          }
        }
      })"

section \<open>Recovering a mount point\<close>

text \<open>The free counts of all groups from \<open>bgid\<close> on; the result of putting a group is not looked at.\<close>

fun sum_groups ::
    "nat \<Rightarrow> 'd ext4_fs \<Rightarrow> u32 \<Rightarrow> u64 \<Rightarrow> u32 \<Rightarrow> (errno \<times> 'd ext4_fs \<times> u64 \<times> u32) option" where
  "sum_groups 0 fs bgid blocks inodes = Some (EOK, fs, blocks, inodes)"
| "sum_groups (Suc n) fs bgid blocks inodes = do {
     (r, fs, bg_ref) \<leftarrow> ext4_fs_get_block_group_ref fs bgid;
     if r \<noteq> EOK then Some (r, fs, blocks, inodes)
     else do {
       let blocks = blocks + ucast (ext4_bg_get_free_blocks_count (bgr_group fs bg_ref) (fs_sb fs));
       let inodes = inodes + ext4_bg_get_free_inodes_count (bgr_group fs bg_ref) (fs_sb fs);
       (_, fs) \<leftarrow> ext4_fs_put_block_group_ref fs bg_ref;
       sum_groups n fs (bgid + 1) blocks inodes
     }
   }"

definition recover_stats :: "'d ext4_fs \<Rightarrow> (errno \<times> 'd ext4_fs) option" where
  "recover_stats fs = do {
     (r, fs, blocks, inodes) \<leftarrow> sum_groups (unat (ext4_block_group_cnt (fs_sb fs))) fs 0 0 0;
     if r \<noteq> EOK then Some (r, fs)
     else Some (r, fs\<lparr>fs_sb := (ext4_sb_set_free_blocks_cnt (fs_sb fs) blocks)\<lparr>sb_free_inodes_count := inodes\<rparr>\<rparr>)
   }"

definition fs_recover :: "'d ext4_fs \<Rightarrow> (errno \<times> 'd ext4_fs) option" where
  "fs_recover fs = do {
     (r, fs) \<leftarrow>
       (if ext4_sb_feature_com (fs_sb fs) EXT4_FCOM_HAS_JOURNAL
        then (case fs_malloc fs of (ok, fs) \<Rightarrow>
          if \<not> ok then Some (ENOMEM, fs)
          else do {
            (r, fs, jf) \<leftarrow> jbd_get_fs fs;
            if r \<noteq> EOK then Some (r, fs)
            else do {
              (r, fs, jf) \<leftarrow> jbd_recover fs jf;
              (_, fs, jf) \<leftarrow> jbd_put_fs fs jf;
              Some (r, fs)
            }
          })
        else Some (ENOTSUP, fs));
     if r = EOK \<and> \<not> fs_read_only fs then recover_stats fs else Some (r, fs)
   }"

definition ext4_recover :: "'d ext4_api \<Rightarrow> bytes \<Rightarrow> (errno \<times> 'd ext4_api) option" where
  "ext4_recover st mount_point =
     (case ext4_get_mount st mount_point of
        None \<Rightarrow> Some (ENOENT, st)
      | Some i \<Rightarrow> do {
          fs \<leftarrow> mp_load st i;
          (r, fs) \<leftarrow> fs_recover fs;
          Some (r, mp_save st i fs)
        })"

end
