(* ===== verification/Jbd_Log.thy ===== *)
theory Jbd_Log
  imports Jbd_Recover
begin

text \<open>
  What a log says, and that the passes of the recovery read it: a log is a list of records, each of them
  a block of the log (with the logged blocks behind a descriptor); replaying it writes the blocks of
  the committed transactions in their order, but for those that were revoked later.

  The blocks of the journal and of the file system are behind an interface, the locale \<open>journal_store\<close>.
\<close>

section \<open>Positions in the log\<close>

abbreviation log_first :: "jbd_sb \<Rightarrow> nat" where "log_first jsb \<equiv> unat (to_be32 (js_first jsb))"
abbreviation log_last :: "jbd_sb \<Rightarrow> nat" where "log_last jsb \<equiv> unat (to_be32 (js_maxlen jsb))"

definition in_log :: "jbd_sb \<Rightarrow> u32 \<Rightarrow> bool" where
  "in_log jsb p \<longleftrightarrow> log_first jsb \<le> unat p \<and> unat p < log_last jsb"

definition log_size :: "jbd_sb \<Rightarrow> nat" where "log_size jsb = log_last jsb - log_first jsb"

text \<open>The position \<open>k\<close> blocks behind \<open>p\<close>.\<close>

fun log_pos :: "jbd_sb \<Rightarrow> u32 \<Rightarrow> nat \<Rightarrow> u32" where
  "log_pos jsb p 0 = p"
| "log_pos jsb p (Suc k) = log_pos jsb (wrap_log jsb (p + 1)) k"

lemma log_pos_add: "log_pos jsb p (m + n) = log_pos jsb (log_pos jsb p m) n"
  by (induction m arbitrary: p) simp_all

lemma wrap_next:
  assumes "in_log jsb p"
  shows "unat (wrap_log jsb (p + 1)) = (if unat p + 1 = log_last jsb then log_first jsb else unat p + 1)"
proof -
  let ?m = "to_be32 (js_maxlen jsb)" and ?f = "to_be32 (js_first jsb)"
  have b: "unat ?f \<le> unat p" "unat p < unat ?m" using assms by (simp_all add: in_log_def)
  have m: "unat ?m < 2 ^ 32" using unsigned_less [of ?m, where 'a = nat] by simp
  then have p1: "unat (p + 1) = unat p + 1" using b by (simp add: unat_word_ariths)
  show ?thesis
  proof (cases "unat p + 1 = unat ?m")
    case True
    then have e: "p + 1 = ?m" by (simp add: word_unat_eq_iff p1)
    then show ?thesis using True by (simp add: wrap_log_def e)
  next
    case False
    then have "\<not> ?m \<le> p + 1" using b by (simp add: word_le_nat_alt p1)
    then show ?thesis using False by (simp add: wrap_log_def p1)
  qed
qed

lemma in_log_next: "in_log jsb p \<Longrightarrow> in_log jsb (wrap_log jsb (p + 1))"
  using wrap_next [of jsb p] by (auto simp: in_log_def)

lemma in_log_pos: "in_log jsb p \<Longrightarrow> in_log jsb (log_pos jsb p k)"
  by (induction k arbitrary: p) (simp_all add: in_log_next)

lemma log_pos_unat:
  assumes "in_log jsb p"
  shows "unat (log_pos jsb p k) = log_first jsb + (unat p - log_first jsb + k) mod log_size jsb"
  using assms
proof (induction k arbitrary: p)
  case 0
  then show ?case by (auto simp: in_log_def log_size_def)
next
  case (Suc k)
  let ?q = "wrap_log jsb (p + 1)" and ?f = "log_first jsb" and ?n = "log_size jsb"
  have b: "?f \<le> unat p" "unat p < log_last jsb" using Suc.prems by (simp_all add: in_log_def)
  have "(unat ?q - ?f) mod ?n = (unat p - ?f + 1) mod ?n"
  proof (cases "unat p + 1 = log_last jsb")
    case True
    then have "unat p - ?f + 1 = ?n" using b by (simp add: log_size_def)
    then show ?thesis using wrap_next [OF Suc.prems] True by simp
  next
    case False
    then show ?thesis using wrap_next [OF Suc.prems] b by (simp add: Suc_diff_le)
  qed
  then have "(unat ?q - ?f + k) mod ?n = (unat p - ?f + 1 + k) mod ?n"
    by (metis mod_add_left_eq)
  then show ?case using Suc.IH [OF in_log_next [OF Suc.prems]] by simp
qed

lemma log_pos_apart:
  assumes "in_log jsb p" "0 < k" "k < log_size jsb"
  shows "log_pos jsb p k \<noteq> p"
proof
  assume "log_pos jsb p k = p"
  then have e: "unat p - log_first jsb = (unat p - log_first jsb + k) mod log_size jsb"
    using log_pos_unat [OF assms(1), of k] by (metis add_diff_cancel_left')
  have "unat p - log_first jsb < log_size jsb" using assms(1) by (auto simp: in_log_def log_size_def)
  then have "(unat p - log_first jsb + k) mod log_size jsb = (unat p - log_first jsb) mod log_size jsb"
    using e by simp
  then have "log_size jsb dvd k"
    by (metis add_diff_cancel_left' le_add1 mod_eq_dvd_iff_nat)
  then show False using assms(2,3) by (simp add: nat_dvd_not_less)
qed

section \<open>Records\<close>

datatype log_record = Log_Descriptor "tag_info list" | Log_Commit | Log_Revoke "u64 list"

text \<open>The tags of a descriptor block, and the blocks of a revoke block.\<close>

definition block_tags :: "jbd_sb \<Rightarrow> bytes \<Rightarrow> tag_info list option" where
  "block_tags jsb data = jbd_iterate_block_table jsb (\<lambda>_. data) (\<lambda>ts ti. Some (ts @ [ti])) []"

fun revoke_list :: "nat \<Rightarrow> bytes \<Rightarrow> nat \<Rightarrow> nat \<Rightarrow> u64 list option" where
  "revoke_list len data off 0 = Some []"
| "revoke_list len data off (Suc n) = do {
     b \<leftarrow> revoke_entry_at len data off;
     bs \<leftarrow> revoke_list len data (off + len) n;
     Some (b # bs)
   }"

definition revoked_blocks :: "jbd_sb \<Rightarrow> bytes \<Rightarrow> u64 list option" where
  "revoked_blocks jsb data =
     (let len = (if JBD_HAS_INCOMPAT_FEATURE jsb JBD_FEATURE_INCOMPAT_64BIT then 8 else 4)
      in revoke_list len data sizeof_revoke_header (unat (revoke_entries len data)))"

definition header_ok :: "bytes \<Rightarrow> u32 \<Rightarrow> bool" where
  "header_ok data tid \<longleftrightarrow> to_be32 (get_le 4 0 data) = JBD_MAGIC_NUMBER \<and> to_be32 (get_le 4 8 data) = tid"

definition record_at :: "jbd_sb \<Rightarrow> bytes \<Rightarrow> u32 \<Rightarrow> log_record option" where
  "record_at jsb data tid =
     (let t = to_be32 (get_le 4 4 data)
      in if \<not> header_ok data tid then None
         else if t = JBD_DESCRIPTOR_BLOCK
         then if jbd_verify_meta_csum jsb data = Some True then map_option Log_Descriptor (block_tags jsb data) else None
         else if t = JBD_COMMIT_BLOCK
         then if jbd_verify_commit_csum jsb data = Some True then Some Log_Commit else None
         else if t = JBD_REVOKE_BLOCK
         then if jbd_verify_meta_csum jsb data = Some True then map_option Log_Revoke (revoked_blocks jsb data) else None
         else None)"

text \<open>A block that ends the log: not of the expected transaction, or damaged, or of an unknown type.\<close>

definition log_stops :: "jbd_sb \<Rightarrow> bytes \<Rightarrow> u32 \<Rightarrow> bool" where
  "log_stops jsb data tid \<longleftrightarrow>
     (let t = to_be32 (get_le 4 4 data)
      in \<not> header_ok data tid \<or>
         (if t = JBD_DESCRIPTOR_BLOCK then jbd_verify_meta_csum jsb data = Some False
          else if t = JBD_COMMIT_BLOCK then jbd_verify_commit_csum jsb data = Some False
          else if t = JBD_REVOKE_BLOCK then jbd_verify_meta_csum jsb data = Some False
          else True))"

fun logged :: "log_record \<Rightarrow> tag_info list" where
  "logged (Log_Descriptor ts) = ts"
| "logged _ = []"

definition next_tid :: "log_record \<Rightarrow> u32 \<Rightarrow> u32" where
  "next_tid r tid = (if r = Log_Commit then tid + 1 else tid)"

definition next_pos :: "jbd_sb \<Rightarrow> log_record \<Rightarrow> u32 \<Rightarrow> u32" where
  "next_pos jsb r p = log_pos jsb p (Suc (length (logged r)))"

text \<open>
  The log from block \<open>p\<close> on, in transaction \<open>tid\<close>: its records, up to a block that ends it or the
  block \<open>s\<close> where it starts. No descriptor logs more blocks than there are.
\<close>

fun log_from :: "jbd_sb \<Rightarrow> (u32 \<Rightarrow> bytes) \<Rightarrow> u32 \<Rightarrow> u32 \<Rightarrow> u32 \<Rightarrow> log_record list \<Rightarrow> bool" where
  "log_from jsb L s tid p [] \<longleftrightarrow> in_log jsb p \<and> log_stops jsb (L p) tid"
| "log_from jsb L s tid p (r # rs) \<longleftrightarrow>
     in_log jsb p \<and> record_at jsb (L p) tid = Some r \<and> length (logged r) < log_size jsb \<and>
     (if next_pos jsb r p = s then rs = [] else log_from jsb L s (next_tid r tid) (next_pos jsb r p) rs)"

section \<open>Replaying\<close>

definition commits :: "log_record list \<Rightarrow> nat" where
  "commits rs = length (filter (\<lambda>r. r = Log_Commit) rs)"

lemma commits_simps [simp]:
  "commits [] = 0" "commits (r # rs) = (if r = Log_Commit then 1 else 0) + commits rs"
  by (simp_all add: commits_def)

text \<open>The records of the transactions that are complete.\<close>

fun committed :: "log_record list \<Rightarrow> log_record list" where
  "committed [] = []"
| "committed (r # rs) = (if commits (r # rs) = 0 then [] else r # committed rs)"

text \<open>How often the three passes take a block: what the counter of the block cache must have left.\<close>

definition cost :: "log_record list \<Rightarrow> nat" where
  "cost rs = length rs + 1 + 2 * length (committed rs) + 2 * length (concat (map logged (committed rs)))"

text \<open>For each block, the last transaction that revokes it.\<close>

fun revoke_map :: "(u64 \<rightharpoonup> u32) \<Rightarrow> u32 \<Rightarrow> log_record list \<Rightarrow> (u64 \<rightharpoonup> u32)" where
  "revoke_map R tid [] = R"
| "revoke_map R tid (Log_Revoke bs # rs) = revoke_map (\<lambda>b. if b \<in> set bs then Some tid else R b) tid rs"
| "revoke_map R tid (Log_Commit # rs) = revoke_map R (tid + 1) rs"
| "revoke_map R tid (Log_Descriptor ts # rs) = revoke_map R tid rs"

definition is_revoked :: "(u64 \<rightharpoonup> u32) \<Rightarrow> u32 \<Rightarrow> u64 \<Rightarrow> bool" where
  "is_revoked R tid b \<longleftrightarrow> (case R b of Some t \<Rightarrow> trans_id_diff tid t \<le> 0 | None \<Rightarrow> False)"

text \<open>An escaped block has lost its first word, which was the magic number.\<close>

definition unescaped :: "tag_info \<Rightarrow> bytes \<Rightarrow> bytes" where
  "unescaped ti data =
     (if is_escape ti then put_bytes 0 (le_bytes 4 (to_be32 JBD_MAGIC_NUMBER)) data else data)"

fun replay_tags ::
    "jbd_sb \<Rightarrow> (u64 \<rightharpoonup> u32) \<Rightarrow> (u32 \<Rightarrow> bytes) \<Rightarrow> u32 \<Rightarrow> u32 \<Rightarrow> (u64 \<Rightarrow> bytes) \<Rightarrow> tag_info list \<Rightarrow> (u64 \<Rightarrow> bytes)" where
  "replay_tags jsb R L tid p V [] = V"
| "replay_tags jsb R L tid p V (t # ts) =
     (let p = wrap_log jsb (p + 1)
      in replay_tags jsb R L tid p
           (if is_revoked R tid (tag_block t) then V else V(tag_block t := unescaped t (L p))) ts)"

fun replay_log ::
    "jbd_sb \<Rightarrow> (u64 \<rightharpoonup> u32) \<Rightarrow> (u32 \<Rightarrow> bytes) \<Rightarrow> u32 \<Rightarrow> u32 \<Rightarrow> (u64 \<Rightarrow> bytes) \<Rightarrow> log_record list \<Rightarrow> (u64 \<Rightarrow> bytes)" where
  "replay_log jsb R L tid p V [] = V"
| "replay_log jsb R L tid p V (r # rs) =
     replay_log jsb R L (next_tid r tid) (next_pos jsb r p) (replay_tags jsb R L tid p V (logged r)) rs"

text \<open>Every block that is replayed is one of \<open>T\<close>.\<close>

fun tags_in :: "(u64 \<rightharpoonup> u32) \<Rightarrow> u64 set \<Rightarrow> u32 \<Rightarrow> log_record list \<Rightarrow> bool" where
  "tags_in R T tid [] \<longleftrightarrow> True"
| "tags_in R T tid (r # rs) \<longleftrightarrow>
     (\<forall>t \<in> set (logged r). is_revoked R tid (tag_block t) \<or> tag_block t \<in> T) \<and> tags_in R T (next_tid r tid) rs"

section \<open>Tables of tags\<close>

fun fold_opt :: "('s \<Rightarrow> 'a \<Rightarrow> 's option) \<Rightarrow> 's \<Rightarrow> 'a list \<Rightarrow> 's option" where
  "fold_opt f s [] = Some s"
| "fold_opt f s (x # xs) = (case f s x of None \<Rightarrow> None | Some s' \<Rightarrow> fold_opt f s' xs)"

lemma fold_opt_append:
  "fold_opt f s (xs @ ys) = (case fold_opt f s xs of None \<Rightarrow> None | Some s' \<Rightarrow> fold_opt f s' ys)"
  by (induction xs arbitrary: s) (simp_all split: option.splits)

text \<open>
  A walk over a table is a fold over its tags, as long as the block that holds the table does not
  change on the way.
\<close>

lemma table_collect:
  assumes "block_table_loop jsb (\<lambda>_. data) (\<lambda>ts ti. Some (ts @ [ti])) acc off sz = Some out"
  shows "\<exists>ts. out = acc @ ts \<and>
    (\<forall>(g :: 's \<Rightarrow> bytes) func s. (\<forall>i \<le> length ts. \<exists>s'. fold_opt func s (take i ts) = Some s' \<and> g s' = data) \<longrightarrow>
      block_table_loop jsb g func s off sz = fold_opt func s ts)"
  using assms
proof (induction "nat sz" arbitrary: acc off sz rule: less_induct)
  case (less sz)
  let ?ex = "jbd_extract_block_tag jsb data off (jbd_tag_bytes jsb) sz tag_undef"
  show ?case
  proof (cases "sz = 0")
    case True
    then show ?thesis using less.prems by (simp add: block_table_loop.simps [where tbl_size = 0])
  next
    case nz: False
    then obtain rc ti where x: "?ex = Some (rc, ti)"
      using less.prems by (subst (asm) block_table_loop.simps) (auto split: option.splits)
    show ?thesis
    proof (cases "rc = EOK")
      case False
      have "out = acc" using less.prems nz x False by (subst (asm) block_table_loop.simps) simp
      moreover have "block_table_loop jsb g func s off sz = Some s" if "g s = data" for g :: "'s \<Rightarrow> bytes" and func s
        using nz x False that by (subst block_table_loop.simps) simp
      ultimately show ?thesis by (intro exI [of _ "[]"]) auto
    next
      case True
      show ?thesis
      proof (cases "last_tag ti")
        case last: True
        have "out = acc @ [ti]" using less.prems nz x True last by (subst (asm) block_table_loop.simps) simp
        moreover have "block_table_loop jsb g func s off sz = fold_opt func s [ti]"
          if "g s = data" for g :: "'s \<Rightarrow> bytes" and func s
          using nz x True that last by (subst block_table_loop.simps) (simp split: option.splits)
        ultimately show ?thesis by (intro exI [of _ "[ti]"]) (force split: option.splits)
      next
        case more: False
        let ?off = "off + tag_bytes ti" and ?sz = "sz - int (tag_bytes ti)"
        have step: "block_table_loop jsb (\<lambda>_. data) (\<lambda>ts ti. Some (ts @ [ti])) (acc @ [ti]) ?off ?sz = Some out"
          using less.prems nz x True more by (subst (asm) block_table_loop.simps) simp
        have "nat ?sz < nat sz"
          using extract_tag_bytes [of jsb data off "jbd_tag_bytes jsb" sz tag_undef ti] x True jbd_tag_bytes_ge [of jsb] by auto
        from less.hyps [OF this step] obtain ts where ts: "out = (acc @ [ti]) @ ts"
          "\<And>(g :: 's \<Rightarrow> bytes) func s. (\<forall>i \<le> length ts. \<exists>s'. fold_opt func s (take i ts) = Some s' \<and> g s' = data) \<Longrightarrow>
            block_table_loop jsb g func s ?off ?sz = fold_opt func s ts" by blast
        have "block_table_loop jsb g func s off sz = fold_opt func s (ti # ts)"
          if h: "\<forall>i \<le> length (ti # ts). \<exists>s'. fold_opt func s (take i (ti # ts)) = Some s' \<and> g s' = data"
          for g :: "'s \<Rightarrow> bytes" and func s
        proof -
          have gs: "g s = data" using h [rule_format, of 0] by simp
          obtain s1 where s1: "func s ti = Some s1" using h [rule_format, of 1] by (auto split: option.splits)
          have "\<exists>s'. fold_opt func s1 (take i ts) = Some s' \<and> g s' = data" if "i \<le> length ts" for i
            using h [rule_format, of "Suc i"] s1 that by simp
          then have "block_table_loop jsb g func s1 ?off ?sz = fold_opt func s1 ts" by (intro ts(2)) blast
          then show ?thesis using nz x True gs s1 more by (subst block_table_loop.simps) simp
        qed
        then show ?thesis using ts(1) by (intro exI [of _ "ti # ts"]) simp
      qed
    qed
  qed
qed

lemma iterate_tags:
  assumes "block_tags jsb data = Some ts"
    and "\<And>i. i \<le> length ts \<Longrightarrow> \<exists>s'. fold_opt func s (take i ts) = Some s' \<and> g s' = data"
  shows "jbd_iterate_block_table jsb g func s = fold_opt func s ts"
  using table_collect [of jsb data "[]"] assms
  unfolding block_tags_def jbd_iterate_block_table_def Let_def by fastforce

lemmas action_defs = ACTION_SCAN_def ACTION_REVOKE_def ACTION_RECOVER_def
lemma action_apart: "ACTION_REVOKE \<noteq> ACTION_SCAN" "ACTION_RECOVER \<noteq> ACTION_SCAN"
  by (simp_all add: action_defs)

lemmas block_types = JBD_DESCRIPTOR_BLOCK_def JBD_COMMIT_BLOCK_def JBD_REVOKE_BLOCK_def

lemma record_atD:
  assumes "record_at jsb data tid = Some r"
  shows "header_ok data tid"
    "to_be32 (get_le 4 4 data) = (case r of Log_Descriptor ts \<Rightarrow> JBD_DESCRIPTOR_BLOCK
       | Log_Commit \<Rightarrow> JBD_COMMIT_BLOCK | Log_Revoke bs \<Rightarrow> JBD_REVOKE_BLOCK)"
    "(if r = Log_Commit then jbd_verify_commit_csum jsb data else jbd_verify_meta_csum jsb data) = Some True"
    "case r of Log_Descriptor ts \<Rightarrow> block_tags jsb data = Some ts | Log_Commit \<Rightarrow> True
       | Log_Revoke bs \<Rightarrow> revoked_blocks jsb data = Some bs"
  using assms by (auto simp: record_at_def Let_def split: if_splits)

lemma map_of_insert_revoke:
  "map_of es b = None \<Longrightarrow> map_of (rb_insert_revoke b t es) = (map_of es)(b \<mapsto> t)"
  by (induction es) (auto simp: fun_eq_iff split: if_splits)

lemma map_of_update_revoke:
  "map_of (map (\<lambda>e. if fst e = b then (b, t) else e) es) =
    (if map_of es b = None then map_of es else (map_of es)(b \<mapsto> t))"
  by (induction es) (auto simp: fun_eq_iff)

section \<open>The interface to the blocks\<close>

definition blk :: "u64 \<Rightarrow> ext4_block" where
  "blk l = \<lparr>blk_lb_id = l, blk_buf = Some l, blk_data = True\<rparr>"

text \<open>
  \<open>st n V H fs\<close>: at least \<open>n\<close> more blocks can be taken, the blocks of the file system are \<open>V\<close>, and the
  blocks \<open>H\<close> of the journal are held. Block \<open>j\<close> of the journal is block \<open>place j\<close> of the file system; \<open>targets\<close>
  are the blocks that may be replayed.
\<close>

locale journal_store =
  fixes st :: "nat \<Rightarrow> (u64 \<Rightarrow> bytes) \<Rightarrow> u32 set \<Rightarrow> 'd ext4_fs \<Rightarrow> bool"
    and jf :: jbd_fs
    and place :: "u32 \<Rightarrow> u64"
    and targets :: "u64 set"
  assumes fewer: "st (Suc n) V H fs \<Longrightarrow> st n V H fs"
    and get: "st (Suc n) V H fs \<Longrightarrow> in_log (jf_sb jf) j \<Longrightarrow> j \<notin> H \<Longrightarrow>
      \<exists>fs'. jbd_block_get fs jf (ucast j) = Some (EOK, fs', jf, blk (place j)) \<and> st n V (insert j H) fs'"
    and read: "st n V H fs \<Longrightarrow> j \<in> H \<Longrightarrow> fs_data fs (blk (place j)) = V (place j)"
    and put: "st n V H fs \<Longrightarrow> j \<in> H \<Longrightarrow>
      \<exists>fs'. jbd_block_set fs (blk (place j)) = Some (EOK, fs') \<and> st n V (H - {j}) fs'"
    and copy: "st (Suc n) V H fs \<Longrightarrow> j \<in> H \<Longrightarrow> tag_block ti \<in> targets \<Longrightarrow>
      \<exists>bdev b fs'. ext4_block_get_noread (fs_bdev fs) EXT4_BLOCK_ZERO (tag_block ti) = Some (EOK, bdev, b) \<and>
        replay_copy (fs\<lparr>fs_bdev := bdev\<rparr>) jf ti (blk (place j)) b = Some fs' \<and>
        st n (V(tag_block ti := unescaped ti (V (place j)))) H fs'"
    and malloc: "st n V H fs \<Longrightarrow> \<exists>fs'. fs_malloc fs = (True, fs') \<and> st n V H fs'"
    and apart: "in_log (jf_sb jf) j \<Longrightarrow> place j \<notin> targets" "0 \<notin> targets"
begin

abbreviation jsb :: jbd_sb where "jsb \<equiv> jf_sb jf"

lemma fewer_add: "st (n + m) V H fs \<Longrightarrow> st n V H fs"
  by (induction m) (auto intro: fewer)

subsection \<open>Replaying the blocks of a descriptor\<close>

lemma replay_tag:
  assumes st: "st (n + 2) V {d} fs" and pos: "in_log jsb q" "wrap_log jsb (q + 1) \<noteq> d"
    and tgt: "is_revoked (map_of (revoke_root info)) tid (tag_block t) \<or> tag_block t \<in> targets"
  shows "\<exists>fs'. jbd_replay_block_tags info tid (fs, jf, q) t = Some (fs', jf, wrap_log jsb (q + 1)) \<and>
    st n (if is_revoked (map_of (revoke_root info)) tid (tag_block t) then V
          else V(tag_block t := unescaped t (V (place (wrap_log jsb (q + 1)))))) {d} fs'"
proof (cases "is_revoked (map_of (revoke_root info)) tid (tag_block t)")
  case True
  then show ?thesis using fewer_add [OF st]
    by (auto simp: jbd_replay_block_tags_def is_revoked_def jbd_revoke_entry_lookup_def Let_def)
next
  case False
  let ?q = "wrap_log jsb (q + 1)"
  have inq: "in_log jsb ?q" by (rule in_log_next [OF pos(1)])
  obtain fs1 where g: "jbd_block_get fs jf (ucast ?q) = Some (EOK, fs1, jf, blk (place ?q))"
    "st (n + 1) V (insert ?q {d}) fs1"
    using get [of "n + 1" V "{d}" fs ?q] st inq pos(2) by auto
  have t: "tag_block t \<in> targets" "tag_block t \<noteq> 0" using tgt False apart(2) by auto
  obtain bdev b fs2 where c: "ext4_block_get_noread (fs_bdev fs1) EXT4_BLOCK_ZERO (tag_block t) = Some (EOK, bdev, b)"
    "replay_copy (fs1\<lparr>fs_bdev := bdev\<rparr>) jf t (blk (place ?q)) b = Some fs2"
    "st n (V(tag_block t := unescaped t (V (place ?q)))) (insert ?q {d}) fs2"
    using copy [of n V "insert ?q {d}" fs1 ?q t] g(2) t(1) by auto
  obtain fs3 where p: "jbd_block_set fs2 (blk (place ?q)) = Some (EOK, fs3)"
    "st n (V(tag_block t := unescaped t (V (place ?q)))) (insert ?q {d} - {?q}) fs3"
    using put [OF c(3), of ?q] by auto
  have "insert ?q {d} - {?q} = {d}" using pos(2) by auto
  then show ?thesis
    using g(1) c(1,2) p t(2) False
    by (auto simp: jbd_replay_block_tags_def is_revoked_def jbd_revoke_entry_lookup_def Let_def split: option.splits)
qed

lemma replay_fold:
  assumes "st (n + 2 * length ts) V {d} fs" "in_log jsb d" "q = log_pos jsb d i" "i + length ts < log_size jsb"
    and "\<forall>t \<in> set ts. is_revoked (map_of (revoke_root info)) tid (tag_block t) \<or> tag_block t \<in> targets"
    and "\<And>j. in_log jsb j \<Longrightarrow> V (place j) = L j"
  shows "\<exists>fs'. fold_opt (jbd_replay_block_tags info tid) (fs, jf, q) ts = Some (fs', jf, log_pos jsb q (length ts)) \<and>
    st n (replay_tags jsb (map_of (revoke_root info)) L tid q V ts) {d} fs' \<and>
    (\<forall>j. in_log jsb j \<longrightarrow> replay_tags jsb (map_of (revoke_root info)) L tid q V ts (place j) = L j)"
  using assms
proof (induction ts arbitrary: V fs q i)
  case Nil
  then show ?case by simp
next
  case (Cons t ts)
  let ?R = "map_of (revoke_root info)" and ?q = "wrap_log jsb (q + 1)"
  let ?V = "if is_revoked ?R tid (tag_block t) then V else V(tag_block t := unescaped t (L ?q))"
  have inq: "in_log jsb q" unfolding Cons.prems(3) by (rule in_log_pos [OF Cons.prems(2)])
  have q: "?q = log_pos jsb d (Suc i)" using log_pos_add [of jsb d i 1] Cons.prems(3) by simp
  have qd: "?q \<noteq> d" unfolding q by (rule log_pos_apart [OF Cons.prems(2)]) (use Cons.prems(4) in auto)
  have VL: "V (place ?q) = L ?q" by (rule Cons.prems(6) [OF in_log_next [OF inq]])
  have "st (n + 2 * length ts + 2) V {d} fs" using Cons.prems(1) by simp
  from replay_tag [OF this inq qd, of info tid t, unfolded VL] obtain fs1 where
    t: "jbd_replay_block_tags info tid (fs, jf, q) t = Some (fs1, jf, ?q)" "st (n + 2 * length ts) ?V {d} fs1"
    using Cons.prems(5) by auto
  have L: "?V (place j) = L j" if "in_log jsb j" for j
    using Cons.prems(5,6) apart(1) [OF that] that by auto
  show ?case
    using Cons.IH [OF t(2) Cons.prems(2) q, OF _ _ L] Cons.prems(4,5) t(1) by (auto simp: Let_def)
qed

subsection \<open>One round\<close>

lemma round_core:
  assumes st: "st (Suc n) V {} fs" and pos: "in_log jsb p" and hdr: "header_ok (V (place p)) tid"
    and notlast: "action \<noteq> ACTION_SCAN \<Longrightarrow> trans_id_diff tid (last_trans_id info) \<le> 0"
  obtains fs1 where "st n V {p} fs1" "fs_data fs1 (blk (place p)) = V (place p)"
    "\<And>fs2 info' tid' q e m V'. log_switch action
        \<lparr>lg_fs = fs1, lg_jf = jf, lg_info = info, lg_tid = tid, lg_block = p, lg_end = False\<rparr> (blk (place p)) =
        Some \<lparr>lg_fs = fs2, lg_jf = jf, lg_info = info', lg_tid = tid', lg_block = q, lg_end = e\<rparr> \<Longrightarrow>
      st m V' {p} fs2 \<Longrightarrow>
      \<exists>fs3. log_round action s
          \<lparr>lg_fs = fs, lg_jf = jf, lg_info = info, lg_tid = tid, lg_block = p, lg_end = False\<rparr> =
        Some (EOK, False, \<lparr>lg_fs = fs3, lg_jf = jf, lg_info = info', lg_tid = tid',
          lg_block = wrap_log jsb (q + 1), lg_end = e \<or> wrap_log jsb (q + 1) = s\<rparr>) \<and>
        st m V' {} fs3"
proof -
  obtain fs1 where g: "jbd_block_get fs jf (ucast p) = Some (EOK, fs1, jf, blk (place p))" "st n V {p} fs1"
    using get [OF st pos] by auto
  have data: "fs_data fs1 (blk (place p)) = V (place p)" by (rule read [OF g(2)]) simp
  show ?thesis
  proof (rule that [OF g(2) data])
    fix fs2 info' tid' q e m V'
    assume sw: "log_switch action
        \<lparr>lg_fs = fs1, lg_jf = jf, lg_info = info, lg_tid = tid, lg_block = p, lg_end = False\<rparr> (blk (place p)) =
        Some \<lparr>lg_fs = fs2, lg_jf = jf, lg_info = info', lg_tid = tid', lg_block = q, lg_end = e\<rparr>"
      and st2: "st m V' {p} fs2"
    obtain fs3 where p: "jbd_block_set fs2 (blk (place p)) = Some (EOK, fs3)" "st m V' {} fs3"
      using put [OF st2, of p] by auto
    show "\<exists>fs3. log_round action s
          \<lparr>lg_fs = fs, lg_jf = jf, lg_info = info, lg_tid = tid, lg_block = p, lg_end = False\<rparr> =
        Some (EOK, False, \<lparr>lg_fs = fs3, lg_jf = jf, lg_info = info', lg_tid = tid',
          lg_block = wrap_log jsb (q + 1), lg_end = e \<or> wrap_log jsb (q + 1) = s\<rparr>) \<and>
        st m V' {} fs3"
      using notlast g(1) data hdr sw p by (auto simp: log_round_def header_ok_def Let_def)
  qed
qed

lemma round_stops:
  assumes st: "st (Suc n) V {} fs" and pos: "in_log jsb p" and stops: "log_stops jsb (V (place p)) tid"
  shows "\<exists>fs' q. log_round ACTION_SCAN s
      \<lparr>lg_fs = fs, lg_jf = jf, lg_info = info, lg_tid = tid, lg_block = p, lg_end = False\<rparr> =
    Some (EOK, False, \<lparr>lg_fs = fs', lg_jf = jf, lg_info = info, lg_tid = tid, lg_block = q, lg_end = True\<rparr>) \<and>
    st n V {} fs'"
proof (cases "header_ok (V (place p)) tid")
  case False
  obtain fs1 where g: "jbd_block_get fs jf (ucast p) = Some (EOK, fs1, jf, blk (place p))" "st n V {p} fs1"
    using get [OF st pos] by auto
  have data: "fs_data fs1 (blk (place p)) = V (place p)" by (rule read [OF g(2)]) simp
  obtain fs3 where p: "jbd_block_set fs1 (blk (place p)) = Some (EOK, fs3)" "st n V {} fs3"
    using put [OF g(2), of p] by auto
  show ?thesis using g(1) data False p by (auto simp: log_round_def header_ok_def Let_def)
next
  case True
  obtain fs1 where c: "st n V {p} fs1" "fs_data fs1 (blk (place p)) = V (place p)"
    "\<And>fs2 info' tid' q e m V'. log_switch ACTION_SCAN
        \<lparr>lg_fs = fs1, lg_jf = jf, lg_info = info, lg_tid = tid, lg_block = p, lg_end = False\<rparr> (blk (place p)) =
        Some \<lparr>lg_fs = fs2, lg_jf = jf, lg_info = info', lg_tid = tid', lg_block = q, lg_end = e\<rparr> \<Longrightarrow>
      st m V' {p} fs2 \<Longrightarrow>
      \<exists>fs3. log_round ACTION_SCAN s
          \<lparr>lg_fs = fs, lg_jf = jf, lg_info = info, lg_tid = tid, lg_block = p, lg_end = False\<rparr> =
        Some (EOK, False, \<lparr>lg_fs = fs3, lg_jf = jf, lg_info = info', lg_tid = tid',
          lg_block = wrap_log jsb (q + 1), lg_end = e \<or> wrap_log jsb (q + 1) = s\<rparr>) \<and>
        st m V' {} fs3"
    by (rule round_core [OF st pos True, of ACTION_SCAN info s]) simp_all
  have "log_switch ACTION_SCAN
      \<lparr>lg_fs = fs1, lg_jf = jf, lg_info = info, lg_tid = tid, lg_block = p, lg_end = False\<rparr> (blk (place p)) =
      Some \<lparr>lg_fs = fs1, lg_jf = jf, lg_info = info, lg_tid = tid, lg_block = p, lg_end = True\<rparr>"
    using stops True c(2) by (auto simp: log_switch_def log_stops_def Let_def split: if_splits)
  from c(3) [OF this c(1)] show ?thesis by auto
qed

subsection \<open>One record\<close>

lemma debug_fold: "fold_opt (jbd_display_block_tags jsb) p ts = Some (log_pos jsb p (length ts))"
  by (induction ts arbitrary: p) (simp_all add: jbd_display_block_tags_def)

lemma debug_descriptor:
  "block_tags jsb data = Some ts \<Longrightarrow> jbd_debug_descriptor_block jsb data p = Some (log_pos jsb p (length ts))"
  unfolding jbd_debug_descriptor_block_def using debug_fold
  by (subst iterate_tags [of _ data ts]) auto

lemma next_pos_wrap: "next_pos jsb r p = wrap_log jsb (log_pos jsb p (length (logged r)) + 1)"
  using log_pos_add [of jsb p "length (logged r)" 1] by (simp add: next_pos_def)

lemma scan_record:
  assumes st: "st (Suc n) V {} fs" and pos: "in_log jsb p" and r: "record_at jsb (V (place p)) tid = Some r"
  shows "\<exists>fs'. log_round ACTION_SCAN s
      \<lparr>lg_fs = fs, lg_jf = jf, lg_info = info, lg_tid = tid, lg_block = p, lg_end = False\<rparr> =
    Some (EOK, False, \<lparr>lg_fs = fs', lg_jf = jf,
      lg_info = info\<lparr>trans_cnt := trans_cnt info + (if r = Log_Commit then 1 else 0)\<rparr>,
      lg_tid = next_tid r tid, lg_block = next_pos jsb r p, lg_end = next_pos jsb r p = s\<rparr>) \<and> st n V {} fs'"
proof -
  note R = record_atD [OF r]
  obtain fs1 where c: "st n V {p} fs1" "fs_data fs1 (blk (place p)) = V (place p)"
    "\<And>fs2 info' tid' q e m V'. log_switch ACTION_SCAN
        \<lparr>lg_fs = fs1, lg_jf = jf, lg_info = info, lg_tid = tid, lg_block = p, lg_end = False\<rparr> (blk (place p)) =
        Some \<lparr>lg_fs = fs2, lg_jf = jf, lg_info = info', lg_tid = tid', lg_block = q, lg_end = e\<rparr> \<Longrightarrow>
      st m V' {p} fs2 \<Longrightarrow>
      \<exists>fs3. log_round ACTION_SCAN s
          \<lparr>lg_fs = fs, lg_jf = jf, lg_info = info, lg_tid = tid, lg_block = p, lg_end = False\<rparr> =
        Some (EOK, False, \<lparr>lg_fs = fs3, lg_jf = jf, lg_info = info', lg_tid = tid',
          lg_block = wrap_log jsb (q + 1), lg_end = e \<or> wrap_log jsb (q + 1) = s\<rparr>) \<and>
        st m V' {} fs3"
    by (rule round_core [OF st pos R(1), of ACTION_SCAN info s]) simp_all
  have "log_switch ACTION_SCAN
      \<lparr>lg_fs = fs1, lg_jf = jf, lg_info = info, lg_tid = tid, lg_block = p, lg_end = False\<rparr> (blk (place p)) =
      Some \<lparr>lg_fs = fs1, lg_jf = jf,
        lg_info = info\<lparr>trans_cnt := trans_cnt info + (if r = Log_Commit then 1 else 0)\<rparr>,
        lg_tid = next_tid r tid, lg_block = log_pos jsb p (length (logged r)), lg_end = False\<rparr>"
    using R(2-) c(2)
    by (cases r) (simp_all add: log_switch_def debug_descriptor next_tid_def action_defs block_types Let_def)
  from c(3) [OF this c(1)] show ?thesis by (simp add: next_pos_wrap)
qed

lemma revoke_add:
  assumes "st n V H fs"
  shows "\<exists>fs' es. jbd_add_revoke_block_tags fs info b = Some (fs', info\<lparr>revoke_root := es\<rparr>) \<and> st n V H fs' \<and>
    map_of es = (map_of (revoke_root info))(b \<mapsto> this_trans_id info)"
proof (cases "map_of (revoke_root info) b")
  case None
  obtain fs' where m: "fs_malloc fs = (True, fs')" "st n V H fs'" using malloc [OF assms] by blast
  show ?thesis
    using m None
    by (intro exI [of _ fs'] exI [of _ "rb_insert_revoke b (this_trans_id info) (revoke_root info)"])
      (simp add: jbd_add_revoke_block_tags_def jbd_revoke_entry_lookup_def map_of_insert_revoke)
next
  case (Some t)
  then show ?thesis
    using assms
    by (intro exI [of _ fs] exI [of _ "map (\<lambda>e. if fst e = b then (b, this_trans_id info) else e) (revoke_root info)"])
      (simp add: jbd_add_revoke_block_tags_def jbd_revoke_entry_lookup_def map_of_update_revoke)
qed

lemma revoke_loop_spec:
  assumes "revoke_list len data off k = Some bs" "st n V H fs"
    and "this_trans_id info = tid" "revoke_root info = es0"
  shows "\<exists>fs' es. revoke_loop len data off k fs info = Some (fs', info\<lparr>revoke_root := es\<rparr>) \<and> st n V H fs' \<and>
    map_of es = (\<lambda>b. if b \<in> set bs then Some tid else map_of es0 b)"
  using assms
proof (induction k arbitrary: off bs fs info es0)
  case 0
  then show ?case by (intro exI [of _ fs] exI [of _ es0]) auto
next
  case (Suc k)
  then obtain b bs' where b: "revoke_entry_at len data off = Some b" "revoke_list len data (off + len) k = Some bs'"
    "bs = b # bs'" by (auto simp: bind_eq_Some_conv)
  obtain fs1 es1 where a: "jbd_add_revoke_block_tags fs info b = Some (fs1, info\<lparr>revoke_root := es1\<rparr>)"
    "st n V H fs1" "map_of es1 = (map_of (revoke_root info))(b \<mapsto> this_trans_id info)"
    using revoke_add [OF Suc.prems(2)] by blast
  from Suc.IH [OF b(2) a(2), of "info\<lparr>revoke_root := es1\<rparr>" es1] Suc.prems(3) obtain fs2 es2 where
    "revoke_loop len data (off + len) k fs1 (info\<lparr>revoke_root := es1\<rparr>) = Some (fs2, info\<lparr>revoke_root := es2\<rparr>)"
    "st n V H fs2"
    "map_of es2 = (\<lambda>b. if b \<in> set bs' then Some tid else map_of es1 b)" by auto
  then show ?case using a(1,3) b Suc.prems(3,4) by (auto simp: fun_eq_iff)
qed

lemma revoke_record:
  assumes st: "st (Suc n) V {} fs" and pos: "in_log jsb p" and r: "record_at jsb (V (place p)) tid = Some r"
    and notlast: "trans_id_diff tid (last_trans_id info) \<le> 0"
  shows "\<exists>fs' info'. log_round ACTION_REVOKE s
      \<lparr>lg_fs = fs, lg_jf = jf, lg_info = info, lg_tid = tid, lg_block = p, lg_end = False\<rparr> =
    Some (EOK, False, \<lparr>lg_fs = fs', lg_jf = jf, lg_info = info',
      lg_tid = next_tid r tid, lg_block = next_pos jsb r p, lg_end = next_pos jsb r p = s\<rparr>) \<and> st n V {} fs' \<and>
    last_trans_id info' = last_trans_id info \<and> trans_cnt info' = trans_cnt info \<and>
    map_of (revoke_root info') = revoke_map (map_of (revoke_root info)) tid [r]"
proof -
  note R = record_atD [OF r]
  obtain fs1 where c: "st n V {p} fs1" "fs_data fs1 (blk (place p)) = V (place p)"
    "\<And>fs2 info' tid' q e m V'. log_switch ACTION_REVOKE
        \<lparr>lg_fs = fs1, lg_jf = jf, lg_info = info, lg_tid = tid, lg_block = p, lg_end = False\<rparr> (blk (place p)) =
        Some \<lparr>lg_fs = fs2, lg_jf = jf, lg_info = info', lg_tid = tid', lg_block = q, lg_end = e\<rparr> \<Longrightarrow>
      st m V' {p} fs2 \<Longrightarrow>
      \<exists>fs3. log_round ACTION_REVOKE s
          \<lparr>lg_fs = fs, lg_jf = jf, lg_info = info, lg_tid = tid, lg_block = p, lg_end = False\<rparr> =
        Some (EOK, False, \<lparr>lg_fs = fs3, lg_jf = jf, lg_info = info', lg_tid = tid',
          lg_block = wrap_log jsb (q + 1), lg_end = e \<or> wrap_log jsb (q + 1) = s\<rparr>) \<and>
        st m V' {} fs3"
    by (rule round_core [OF st pos R(1), of ACTION_REVOKE info s]) (use notlast in simp_all)
  have "\<exists>fs2 info'. log_switch ACTION_REVOKE
      \<lparr>lg_fs = fs1, lg_jf = jf, lg_info = info, lg_tid = tid, lg_block = p, lg_end = False\<rparr> (blk (place p)) =
      Some \<lparr>lg_fs = fs2, lg_jf = jf, lg_info = info', lg_tid = next_tid r tid,
        lg_block = log_pos jsb p (length (logged r)), lg_end = False\<rparr> \<and> st n V {p} fs2 \<and>
      last_trans_id info' = last_trans_id info \<and> trans_cnt info' = trans_cnt info \<and>
      map_of (revoke_root info') = revoke_map (map_of (revoke_root info)) tid [r]"
  proof (cases r)
    case (Log_Revoke bs)
    then have "revoked_blocks jsb (V (place p)) = Some bs" using R(4) by simp
    from revoke_loop_spec [OF this [unfolded revoked_blocks_def Let_def] c(1), of "info\<lparr>this_trans_id := tid\<rparr>" tid "revoke_root info"]
    show ?thesis
      using R(2-) c(2) Log_Revoke
      by (auto simp: log_switch_def jbd_build_revoke_tree_def next_tid_def action_defs block_types Let_def)
  qed (use R(2-) c(1,2) in
      \<open>simp_all add: log_switch_def debug_descriptor next_tid_def action_defs block_types Let_def\<close>)
  then obtain fs2 info' where sw: "log_switch ACTION_REVOKE
      \<lparr>lg_fs = fs1, lg_jf = jf, lg_info = info, lg_tid = tid, lg_block = p, lg_end = False\<rparr> (blk (place p)) =
      Some \<lparr>lg_fs = fs2, lg_jf = jf, lg_info = info', lg_tid = next_tid r tid,
        lg_block = log_pos jsb p (length (logged r)), lg_end = False\<rparr>" and i: "st n V {p} fs2"
      "last_trans_id info' = last_trans_id info" "trans_cnt info' = trans_cnt info"
      "map_of (revoke_root info') = revoke_map (map_of (revoke_root info)) tid [r]" by blast
  from c(3) [OF sw i(1)] show ?thesis using i(2-) unfolding next_pos_wrap by auto
qed

lemma recover_record:
  assumes st: "st (Suc (n + 2 * length (logged r))) V {} fs" and pos: "in_log jsb p"
    and r: "record_at jsb (V (place p)) tid = Some r" "length (logged r) < log_size jsb"
    and notlast: "trans_id_diff tid (last_trans_id info) \<le> 0"
    and tags: "\<forall>t \<in> set (logged r). is_revoked (map_of (revoke_root info)) tid (tag_block t) \<or> tag_block t \<in> targets"
    and L: "\<And>j. in_log jsb j \<Longrightarrow> V (place j) = L j"
  shows "\<exists>fs'. log_round ACTION_RECOVER s
      \<lparr>lg_fs = fs, lg_jf = jf, lg_info = info, lg_tid = tid, lg_block = p, lg_end = False\<rparr> =
    Some (EOK, False, \<lparr>lg_fs = fs', lg_jf = jf, lg_info = info,
      lg_tid = next_tid r tid, lg_block = next_pos jsb r p, lg_end = next_pos jsb r p = s\<rparr>) \<and>
    st n (replay_tags jsb (map_of (revoke_root info)) L tid p V (logged r)) {} fs' \<and>
    (\<forall>j. in_log jsb j \<longrightarrow> replay_tags jsb (map_of (revoke_root info)) L tid p V (logged r) (place j) = L j)"
proof -
  note R = record_atD [OF r(1)]
  let ?V = "replay_tags jsb (map_of (revoke_root info)) L tid p V (logged r)"
  obtain fs1 where c: "st (n + 2 * length (logged r)) V {p} fs1" "fs_data fs1 (blk (place p)) = V (place p)"
    "\<And>fs2 info' tid' q e m V'. log_switch ACTION_RECOVER
        \<lparr>lg_fs = fs1, lg_jf = jf, lg_info = info, lg_tid = tid, lg_block = p, lg_end = False\<rparr> (blk (place p)) =
        Some \<lparr>lg_fs = fs2, lg_jf = jf, lg_info = info', lg_tid = tid', lg_block = q, lg_end = e\<rparr> \<Longrightarrow>
      st m V' {p} fs2 \<Longrightarrow>
      \<exists>fs3. log_round ACTION_RECOVER s
          \<lparr>lg_fs = fs, lg_jf = jf, lg_info = info, lg_tid = tid, lg_block = p, lg_end = False\<rparr> =
        Some (EOK, False, \<lparr>lg_fs = fs3, lg_jf = jf, lg_info = info', lg_tid = tid',
          lg_block = wrap_log jsb (q + 1), lg_end = e \<or> wrap_log jsb (q + 1) = s\<rparr>) \<and>
        st m V' {} fs3"
    by (rule round_core [OF st pos R(1), of ACTION_RECOVER info s]) (use notlast in simp_all)
  have fold: "\<exists>fs'. fold_opt (jbd_replay_block_tags info tid) (fs1, jf, p) (take i (logged r)) =
      Some (fs', jf, log_pos jsb p i) \<and>
      st (n + 2 * (length (logged r) - i)) (replay_tags jsb (map_of (revoke_root info)) L tid p V (take i (logged r))) {p} fs' \<and>
      (\<forall>j. in_log jsb j \<longrightarrow> replay_tags jsb (map_of (revoke_root info)) L tid p V (take i (logged r)) (place j) = L j)"
    if "i \<le> length (logged r)" for i
  proof -
    have e: "n + 2 * (length (logged r) - i) + 2 * length (take i (logged r)) = n + 2 * length (logged r)"
      using that by simp
    have "st (n + 2 * (length (logged r) - i) + 2 * length (take i (logged r))) V {p} fs1"
      unfolding e by (rule c(1))
    from replay_fold [OF this pos, of p 0 info tid L] that r(2) tags L show ?thesis
      by (auto dest: in_set_takeD)
  qed
  have "\<exists>fs2. log_switch ACTION_RECOVER
      \<lparr>lg_fs = fs1, lg_jf = jf, lg_info = info, lg_tid = tid, lg_block = p, lg_end = False\<rparr> (blk (place p)) =
      Some \<lparr>lg_fs = fs2, lg_jf = jf, lg_info = info, lg_tid = next_tid r tid,
        lg_block = log_pos jsb p (length (logged r)), lg_end = False\<rparr> \<and> st n ?V {p} fs2"
  proof (cases r)
    case (Log_Descriptor ts)
    have ts: "block_tags jsb (V (place p)) = Some ts" using R(4) Log_Descriptor by simp
    have "jbd_replay_descriptor_block info tid fs1 jf (blk (place p)) p =
        fold_opt (jbd_replay_block_tags info tid) (fs1, jf, p) ts"
      unfolding jbd_replay_descriptor_block_def
    proof (rule iterate_tags [OF ts])
      fix i assume "i \<le> length ts"
      then obtain fs' V' where f: "fold_opt (jbd_replay_block_tags info tid) (fs1, jf, p) (take i ts) = Some (fs', jf, log_pos jsb p i)"
        "st (n + 2 * (length ts - i)) V' {p} fs'" "V' (place p) = L p"
        using fold [of i] Log_Descriptor pos by auto
      then show "\<exists>s'. fold_opt (jbd_replay_block_tags info tid) (fs1, jf, p) (take i ts) = Some s' \<and>
          (case s' of (fs, jf, this_block) \<Rightarrow> fs_data fs (blk (place p))) = V (place p)"
        using read [OF f(2), of p] L [OF pos] by simp
    qed
    then show ?thesis
      using fold [of "length ts"] R(2-) c(2) Log_Descriptor
      by (auto simp: log_switch_def next_tid_def action_defs block_types Let_def)
  qed (use R(2-) c(1,2) in \<open>simp_all add: log_switch_def next_tid_def action_defs block_types Let_def\<close>)
  then obtain fs2 where sw: "log_switch ACTION_RECOVER
      \<lparr>lg_fs = fs1, lg_jf = jf, lg_info = info, lg_tid = tid, lg_block = p, lg_end = False\<rparr> (blk (place p)) =
      Some \<lparr>lg_fs = fs2, lg_jf = jf, lg_info = info, lg_tid = next_tid r tid,
        lg_block = log_pos jsb p (length (logged r)), lg_end = False\<rparr>" and s2: "st n ?V {p} fs2" by blast
  have "\<forall>j. in_log jsb j \<longrightarrow> ?V (place j) = L j" using fold [of "length (logged r)"] by auto
  with c(3) [OF sw s2] show ?thesis unfolding next_pos_wrap by auto
qed

subsection \<open>The passes\<close>

lemma scan_pass:
  assumes "log_from jsb L s tid p rs" "\<And>j. in_log jsb j \<Longrightarrow> V (place j) = L j" "st (length rs + 1 + n) V {} fs"
  shows "\<exists>ls. log_loop ACTION_SCAN s EOK
      \<lparr>lg_fs = fs, lg_jf = jf, lg_info = info, lg_tid = tid, lg_block = p, lg_end = False\<rparr> = Some (EOK, ls) \<and>
    lg_jf ls = jf \<and> st n V {} (lg_fs ls) \<and> lg_tid ls = tid + of_nat (commits rs) \<and>
    lg_info ls = info\<lparr>trans_cnt := trans_cnt info + of_nat (commits rs)\<rparr>"
  using assms
proof (induction rs arbitrary: tid p fs info)
  case Nil
  then have "log_stops jsb (V (place p)) tid" "in_log jsb p" "st (Suc n) V {} fs" by auto
  from round_stops [OF this(3,2,1), of s info] obtain fs' q where r: "log_round ACTION_SCAN s
      \<lparr>lg_fs = fs, lg_jf = jf, lg_info = info, lg_tid = tid, lg_block = p, lg_end = False\<rparr> =
    Some (EOK, False, \<lparr>lg_fs = fs', lg_jf = jf, lg_info = info, lg_tid = tid, lg_block = q, lg_end = True\<rparr>)"
    "st n V {} fs'" by blast
  show ?case
    using r by (subst log_loop.simps) (simp add: log_loop.simps [where st = "\<lparr>lg_fs = fs', lg_jf = jf, lg_info = info, lg_tid = tid, lg_block = q, lg_end = True\<rparr>"])
next
  case (Cons r rs)
  have pos: "in_log jsb p" and rec: "record_at jsb (V (place p)) tid = Some r" using Cons.prems(1,2) by auto
  have st1: "st (Suc (length rs + 1 + n)) V {} fs" using Cons.prems(3) by simp
  let ?info = "info\<lparr>trans_cnt := trans_cnt info + (if r = Log_Commit then 1 else 0)\<rparr>"
  let ?ls = "\<lambda>fs'. \<lparr>lg_fs = fs', lg_jf = jf, lg_info = ?info, lg_tid = next_tid r tid,
    lg_block = next_pos jsb r p, lg_end = next_pos jsb r p = s\<rparr>"
  obtain fs' where R: "log_round ACTION_SCAN s
      \<lparr>lg_fs = fs, lg_jf = jf, lg_info = info, lg_tid = tid, lg_block = p, lg_end = False\<rparr> = Some (EOK, False, ?ls fs')"
    "st (length rs + 1 + n) V {} fs'"
    using scan_record [OF st1 pos rec, of s info] by blast
  have step: "log_loop ACTION_SCAN s EOK
      \<lparr>lg_fs = fs, lg_jf = jf, lg_info = info, lg_tid = tid, lg_block = p, lg_end = False\<rparr> =
      log_loop ACTION_SCAN s EOK (?ls fs')"
    by (subst log_loop.simps) (simp add: R(1))
  show ?case
  proof (cases "next_pos jsb r p = s")
    case True
    then have "rs = []" using Cons.prems(1) by simp
    moreover have "log_loop ACTION_SCAN s EOK (?ls fs') = Some (EOK, ?ls fs')"
      using True by (subst log_loop.simps) simp
    ultimately show ?thesis
      using step fewer_add [of n 1] R(2) by (auto simp: next_tid_def)
  next
    case False
    then have "log_from jsb L s (next_tid r tid) (next_pos jsb r p) rs" using Cons.prems(1) by simp
    from Cons.IH [OF this Cons.prems(2) R(2), of ?info] False show ?thesis
      unfolding step by (auto simp: next_tid_def add.assoc)
  qed
qed

lemma sint_small: "- (2 ^ 31) \<le> i \<Longrightarrow> i < 2 ^ 31 \<Longrightarrow> sint (word_of_int i :: u32) = i"
  by (simp add: signed_of_int signed_take_bit_int_eq_self)

lemma diff_last: "c < 2 ^ 31 \<Longrightarrow> trans_id_diff tid (tid + of_nat c - 1) = 1 - int c"
proof -
  assume c: "c < 2 ^ 31"
  have "tid - (tid + of_nat c - 1) = (word_of_int (1 - int c) :: u32)" by simp
  then show ?thesis using c sint_small [of "1 - int c"] by (simp add: trans_id_diff_def del: of_int_diff)
qed

lemma diff_next: "c < 2 ^ 31 \<Longrightarrow> trans_id_diff (tid + of_nat c) tid = int c"
  using sint_small [of "int c"] by (simp add: trans_id_diff_def)

lemma revoke_map_Cons: "revoke_map R tid (r # rs) = revoke_map (revoke_map R tid [r]) (next_tid r tid) rs"
  by (cases r) (simp_all add: next_tid_def)

text \<open>When the transactions are used up, a pass ends before it looks at the next block.\<close>

lemma pass_ends:
  assumes "action \<noteq> ACTION_SCAN" "last_trans_id info = tid - 1"
  shows "log_loop action s EOK \<lparr>lg_fs = fs, lg_jf = jf, lg_info = info, lg_tid = tid, lg_block = p, lg_end = e\<rparr> =
    Some (EOK, \<lparr>lg_fs = fs, lg_jf = jf, lg_info = info, lg_tid = tid, lg_block = p, lg_end = True\<rparr>)"
proof (cases e)
  case True
  then show ?thesis by (subst log_loop.simps) simp
next
  case False
  have "log_round action s \<lparr>lg_fs = fs, lg_jf = jf, lg_info = info, lg_tid = tid, lg_block = p, lg_end = False\<rparr> =
    Some (EOK, False, \<lparr>lg_fs = fs, lg_jf = jf, lg_info = info, lg_tid = tid, lg_block = p, lg_end = True\<rparr>)"
    using assms diff_last [of 0 tid] by (simp add: log_round_def)
  then show ?thesis
    using False by (subst log_loop.simps) (simp add: log_loop.simps [where st =
      "\<lparr>lg_fs = fs, lg_jf = jf, lg_info = info, lg_tid = tid, lg_block = p, lg_end = True\<rparr>"])
qed

lemma revoke_pass:
  assumes "log_from jsb L s tid p rs" "\<And>j. in_log jsb j \<Longrightarrow> V (place j) = L j"
    and "st (length (committed rs) + n) V {} fs"
    and "commits rs < 2 ^ 31" "last_trans_id info = tid + of_nat (commits rs) - 1"
  shows "\<exists>ls. log_loop ACTION_REVOKE s EOK
      \<lparr>lg_fs = fs, lg_jf = jf, lg_info = info, lg_tid = tid, lg_block = p, lg_end = False\<rparr> = Some (EOK, ls) \<and>
    lg_jf ls = jf \<and> st n V {} (lg_fs ls) \<and> last_trans_id (lg_info ls) = last_trans_id info \<and>
    trans_cnt (lg_info ls) = trans_cnt info \<and>
    map_of (revoke_root (lg_info ls)) = revoke_map (map_of (revoke_root info)) tid (committed rs)"
  using assms
proof (induction rs arbitrary: tid p fs info)
  case Nil
  then show ?case using pass_ends [of ACTION_REVOKE info tid s fs p False] by (simp add: action_defs)
next
  case (Cons r rs)
  show ?case
  proof (cases "commits (r # rs) = 0")
    case True
    then show ?thesis
      using Cons.prems pass_ends [of ACTION_REVOKE info tid s fs p False] by (simp add: action_defs)
  next
    case False
    have pos: "in_log jsb p" and rec: "record_at jsb (V (place p)) tid = Some r" using Cons.prems(1,2) by auto
    have e: "committed (r # rs) = r # committed rs" using False by (simp del: commits_simps)
    have st1: "st (Suc (length (committed rs) + n)) V {} fs" using Cons.prems(3) unfolding e by simp
    have nl: "trans_id_diff tid (last_trans_id info) \<le> 0"
      unfolding Cons.prems(5) diff_last [OF Cons.prems(4)] using False by (simp del: commits_simps)
    let ?ls = "\<lambda>fs' info'. \<lparr>lg_fs = fs', lg_jf = jf, lg_info = info', lg_tid = next_tid r tid,
      lg_block = next_pos jsb r p, lg_end = next_pos jsb r p = s\<rparr>"
    obtain fs' info' where R: "log_round ACTION_REVOKE s
        \<lparr>lg_fs = fs, lg_jf = jf, lg_info = info, lg_tid = tid, lg_block = p, lg_end = False\<rparr> =
        Some (EOK, False, ?ls fs' info')" "st (length (committed rs) + n) V {} fs'"
      "last_trans_id info' = last_trans_id info" "trans_cnt info' = trans_cnt info"
      "map_of (revoke_root info') = revoke_map (map_of (revoke_root info)) tid [r]"
      using revoke_record [OF st1 pos rec nl, of s] by blast
    have step: "log_loop ACTION_REVOKE s EOK
        \<lparr>lg_fs = fs, lg_jf = jf, lg_info = info, lg_tid = tid, lg_block = p, lg_end = False\<rparr> =
        log_loop ACTION_REVOKE s EOK (?ls fs' info')"
      by (subst log_loop.simps) (simp add: R(1))
    have l': "last_trans_id info' = next_tid r tid + of_nat (commits rs) - 1"
      using Cons.prems(5) R(3) by (simp add: next_tid_def add.assoc)
    have c': "commits rs < 2 ^ 31" using Cons.prems(4) by (simp split: if_splits)
    show ?thesis
    proof (cases "next_pos jsb r p = s")
      case True
      then have "rs = []" using Cons.prems(1) by simp
      moreover have "log_loop ACTION_REVOKE s EOK (?ls fs' info') = Some (EOK, ?ls fs' info')"
        using True by (subst log_loop.simps) simp
      ultimately show ?thesis using step R unfolding e by simp
    next
      case more: False
      then have lf: "log_from jsb L s (next_tid r tid) (next_pos jsb r p) rs" using Cons.prems(1) by simp
      have eq: "revoke_map (map_of (revoke_root info)) tid (committed (r # rs)) =
          revoke_map (map_of (revoke_root info')) (next_tid r tid) (committed rs)"
        unfolding e by (subst revoke_map_Cons) (simp only: R(5))
      from Cons.IH [OF lf Cons.prems(2) R(2) c' l'] more show ?thesis
        unfolding step eq R(3,4) [symmetric] by simp
    qed
  qed
qed

lemma recover_pass:
  assumes "log_from jsb L s tid p rs" "\<And>j. in_log jsb j \<Longrightarrow> V (place j) = L j"
    and "st (length (committed rs) + 2 * length (concat (map logged (committed rs))) + n) V {} fs"
    and "commits rs < 2 ^ 31" "last_trans_id info = tid + of_nat (commits rs) - 1"
    and "tags_in (map_of (revoke_root info)) targets tid (committed rs)"
  shows "\<exists>ls. log_loop ACTION_RECOVER s EOK
      \<lparr>lg_fs = fs, lg_jf = jf, lg_info = info, lg_tid = tid, lg_block = p, lg_end = False\<rparr> = Some (EOK, ls) \<and>
    lg_jf ls = jf \<and> lg_info ls = info \<and>
    st n (replay_log jsb (map_of (revoke_root info)) L tid p V (committed rs)) {} (lg_fs ls)"
  using assms
proof (induction rs arbitrary: tid p fs V)
  case Nil
  then show ?case using pass_ends [of ACTION_RECOVER info tid s fs p False] by (simp add: action_defs)
next
  case (Cons r rs)
  let ?R = "map_of (revoke_root info)"
  show ?case
  proof (cases "commits (r # rs) = 0")
    case True
    then show ?thesis
      using Cons.prems pass_ends [of ACTION_RECOVER info tid s fs p False] by (simp add: action_defs)
  next
    case False
    have pos: "in_log jsb p" and rec: "record_at jsb (V (place p)) tid = Some r" "length (logged r) < log_size jsb"
      using Cons.prems(1,2) by auto
    let ?n = "length (committed rs) + 2 * length (concat (map logged (committed rs))) + n"
    have cm: "committed (r # rs) = r # committed rs" using False by (simp del: commits_simps)
    have e: "length (committed (r # rs)) + 2 * length (concat (map logged (committed (r # rs)))) + n =
        Suc (?n + 2 * length (logged r))" unfolding cm by simp
    have st1: "st (Suc (?n + 2 * length (logged r))) V {} fs" using Cons.prems(3) unfolding e .
    have nl: "trans_id_diff tid (last_trans_id info) \<le> 0"
      unfolding Cons.prems(5) diff_last [OF Cons.prems(4)] using False by (simp del: commits_simps)
    have tg: "\<forall>t \<in> set (logged r). is_revoked ?R tid (tag_block t) \<or> tag_block t \<in> targets"
      "tags_in ?R targets (next_tid r tid) (committed rs)"
      using Cons.prems(6) unfolding cm by auto
    let ?ls = "\<lambda>fs'. \<lparr>lg_fs = fs', lg_jf = jf, lg_info = info, lg_tid = next_tid r tid,
      lg_block = next_pos jsb r p, lg_end = next_pos jsb r p = s\<rparr>"
    let ?V = "replay_tags jsb ?R L tid p V (logged r)"
    obtain fs' where R: "log_round ACTION_RECOVER s
        \<lparr>lg_fs = fs, lg_jf = jf, lg_info = info, lg_tid = tid, lg_block = p, lg_end = False\<rparr> =
        Some (EOK, False, ?ls fs')" "st ?n ?V {} fs'" "\<And>j. in_log jsb j \<Longrightarrow> ?V (place j) = L j"
      using recover_record [OF st1 pos rec nl tg(1) Cons.prems(2), of s] by blast
    have step: "log_loop ACTION_RECOVER s EOK
        \<lparr>lg_fs = fs, lg_jf = jf, lg_info = info, lg_tid = tid, lg_block = p, lg_end = False\<rparr> =
        log_loop ACTION_RECOVER s EOK (?ls fs')"
      by (subst log_loop.simps) (simp add: R(1))
    have l': "last_trans_id info = next_tid r tid + of_nat (commits rs) - 1"
      using Cons.prems(5) by (simp add: next_tid_def add.assoc)
    have c': "commits rs < 2 ^ 31" using Cons.prems(4) by (simp split: if_splits)
    show ?thesis
    proof (cases "next_pos jsb r p = s")
      case True
      then have "rs = []" using Cons.prems(1) by simp
      moreover have "log_loop ACTION_RECOVER s EOK (?ls fs') = Some (EOK, ?ls fs')"
        using True by (subst log_loop.simps) simp
      ultimately show ?thesis using step R(2) unfolding cm by simp
    next
      case more: False
      then have lf: "log_from jsb L s (next_tid r tid) (next_pos jsb r p) rs" using Cons.prems(1) by simp
      from Cons.IH [OF lf R(3) R(2) c' l' tg(2)] more show ?thesis
        unfolding step cm by simp
    qed
  qed
qed

subsection \<open>Recovery\<close>

theorem recovery:
  assumes start: "js_start jsb \<noteq> 0" "s = to_be32 (js_start jsb)" "tid = to_be32 (js_sequence jsb)"
    and log: "log_from jsb L s tid s rs" "\<And>j. in_log jsb j \<Longrightarrow> V (place j) = L j" "commits rs < 2 ^ 31"
    and R: "R = revoke_map (\<lambda>_. None) tid (committed rs)" and tags: "tags_in R targets tid (committed rs)"
    and st: "st (cost rs + n) V {} fs"
  shows "\<exists>fs'. jbd_recover fs jf =
      recover_done fs' jf (if commits rs = 0 then tid else tid + of_nat (commits rs) - 1) \<and>
    st n (replay_log jsb R L tid s V (committed rs)) {} fs'"
proof -
  let ?c = "commits rs" and ?k = "length (committed rs)"
    and ?m = "length (committed rs) + 2 * length (concat (map logged (committed rs)))"
  have e: "cost rs + n = length rs + 1 + (?k + (?m + n))" by (simp add: cost_def)
  have st0: "st (length rs + 1 + (?k + (?m + n))) V {} fs" using st unfolding e .
  let ?info0 = "recover_info_undef\<lparr>trans_cnt := 0\<rparr>"
  obtain ls1 where s1: "log_loop ACTION_SCAN s EOK
      \<lparr>lg_fs = fs, lg_jf = jf, lg_info = ?info0, lg_tid = tid, lg_block = s, lg_end = False\<rparr> = Some (EOK, ls1)"
    "lg_jf ls1 = jf" "st (?k + (?m + n)) V {} (lg_fs ls1)" "lg_tid ls1 = tid + of_nat ?c"
    "lg_info ls1 = ?info0\<lparr>trans_cnt := of_nat ?c\<rparr>"
    using scan_pass [OF log(1,2) st0, of ?info0] by auto
  let ?last = "if ?c = 0 then tid else tid + of_nat ?c - 1"
  let ?info1 = "\<lparr>start_trans_id = tid, last_trans_id = ?last, this_trans_id = 0, trans_cnt = of_nat ?c, revoke_root = []\<rparr>"
  have it1: "jbd_iterate_log fs jf recover_info_undef ACTION_SCAN = Some (EOK, lg_fs ls1, jf, ?info1)"
    using s1 start(2,3) diff_next [OF log(3), of tid]
    by (simp add: jbd_iterate_log_def Let_def recover_info_undef_def)
  show ?thesis
  proof (cases "?c = 0")
    case True
    have skip: "jbd_iterate_log (lg_fs ls1) jf ?info1 action = Some (EOK, lg_fs ls1, jf, ?info1)"
      if "action \<noteq> ACTION_SCAN" for action
      using that True by (simp add: jbd_iterate_log_def Let_def) (subst log_loop.simps, simp)
    have "committed rs = []" using True by (cases rs) auto
    then have "st n (replay_log jsb R L tid s V (committed rs)) {} (lg_fs ls1)"
      using s1(3) fewer_add [of n ?m] by (simp add: add.commute)
    then show ?thesis
      using start(1) it1 skip [OF action_apart(1)] skip [OF action_apart(2)] True
      by (intro exI [of _ "lg_fs ls1"]) (simp add: jbd_recover_def)
  next
    case False
    then have nz: "(of_nat ?c :: u32) \<noteq> 0" using log(3) by (simp add: of_nat_eq_0_iff word_unat_eq_iff unat_of_nat)
    have last1: "last_trans_id ?info1 = tid + of_nat ?c - 1" using False by simp
    obtain ls2 where s2: "log_loop ACTION_REVOKE s EOK
        \<lparr>lg_fs = lg_fs ls1, lg_jf = jf, lg_info = ?info1, lg_tid = tid, lg_block = s, lg_end = False\<rparr> = Some (EOK, ls2)"
      "lg_jf ls2 = jf" "st (?m + n) V {} (lg_fs ls2)" "last_trans_id (lg_info ls2) = ?last"
      "trans_cnt (lg_info ls2) = of_nat ?c" "map_of (revoke_root (lg_info ls2)) = R"
      using revoke_pass [OF log(1,2) s1(3) log(3) last1] R by (auto simp: fun_eq_iff)
    have it2: "jbd_iterate_log (lg_fs ls1) jf ?info1 ACTION_REVOKE = Some (EOK, lg_fs ls2, jf, lg_info ls2)"
      using s2(1,2) start(2,3) nz by (simp add: jbd_iterate_log_def Let_def action_defs)
    have last2: "last_trans_id (lg_info ls2) = tid + of_nat ?c - 1" using s2(4) False by simp
    have t2: "tags_in (map_of (revoke_root (lg_info ls2))) targets tid (committed rs)" using tags s2(6) by simp
    obtain ls3 where s3: "log_loop ACTION_RECOVER s EOK
        \<lparr>lg_fs = lg_fs ls2, lg_jf = jf, lg_info = lg_info ls2, lg_tid = tid, lg_block = s, lg_end = False\<rparr> = Some (EOK, ls3)"
      "lg_jf ls3 = jf" "lg_info ls3 = lg_info ls2" "st n (replay_log jsb R L tid s V (committed rs)) {} (lg_fs ls3)"
      using recover_pass [OF log(1,2) s2(3) log(3) last2 t2] s2(6) by auto
    have it3: "jbd_iterate_log (lg_fs ls2) jf (lg_info ls2) ACTION_RECOVER = Some (EOK, lg_fs ls3, jf, lg_info ls2)"
      using s3(1-3) start(2,3) nz s2(5) by (simp add: jbd_iterate_log_def Let_def action_defs)
    show ?thesis
      using start(1) it1 it2 it3 s3(4) s2(4) False by (auto simp: jbd_recover_def)
  qed
qed

end

end
