(* ===== verification/Jbd_Raw.thy ===== *)
theory Jbd_Raw
  imports Jbd_Log Reliable File_Map
begin

text \<open>
  Recovery on the raw driver: the blocks of the journal are those of an inode whose extents lie in its
  root. The interface \<open>journal_store\<close> of the log is discharged for the block cache over a file that does not
  fail, and recovery is shown to replay the log.
\<close>

section \<open>Temporary buffers\<close>

context reliable_driver
begin

lemma flag_clean:
  assumes ok: "bdev_ok rd wr bsz cap content bdev" and l: "bc_bufs (bdev_bc bdev) l = Some bf"
    and clean: "BC_DIRTY \<notin> buf_flags bf" and f: "f = BC_FLUSH \<or> f = BC_TMP"
    and d: "bdev' = upd_bc (upd_buf l (\<lambda>bf. ext4_bcache_set_flag bf f)) bdev"
  shows "bdev_ok rd wr bsz cap content bdev'" "same_view content bdev bdev'"
    "bc_refs (bdev_bc bdev') = bc_refs (bdev_bc bdev)" "bc_cached (bdev_bc bdev') = bc_cached (bdev_bc bdev)"
    "bc_dirty (bdev_bc bdev') = bc_dirty (bdev_bc bdev)"
    "bc_lru_ctr (bdev_bc bdev') = bc_lru_ctr (bdev_bc bdev)" "sound bdev' = sound bdev"
    "bc_bufs (bdev_bc bdev') l = Some (ext4_bcache_set_flag bf f)"
    "k \<noteq> l \<Longrightarrow> bc_bufs (bdev_bc bdev') k = bc_bufs (bdev_bc bdev) k"
    "bc_tmp (bdev_bc bdev') k \<longleftrightarrow> bc_tmp (bdev_bc bdev) k \<or> k = l \<and> f = BC_TMP"
proof -
  note D = bdev_okD [OF ok]
  let ?f = "\<lambda>bf. ext4_bcache_set_flag bf f"
  have at: "buf_at (bdev_bc bdev) l = bf" by (rule buf_at_Some [OF l])
  have bok: "buf_ok (bdev_bc bdev) l (?f bf)"
    using bc_invD(3) [OF D(4) l] clean f by (auto simp: buf_ok_def ext4_bcache_set_flag_def)
  have inv: "bc_inv (upd_buf l ?f (bdev_bc bdev))"
    by (rule bc_inv_upd [where f = ?f, OF D(4) l bok]) (simp_all add: ext4_bcache_set_flag_def)
  show cached: "bc_cached (bdev_bc bdev') = bc_cached (bdev_bc bdev)"
    using l f by (auto simp: d bc_cached_def at fun_eq_iff ext4_bcache_set_flag_def)
  show dirty: "bc_dirty (bdev_bc bdev') = bc_dirty (bdev_bc bdev)"
    using l f by (auto simp: d bc_dirty_def at fun_eq_iff ext4_bcache_set_flag_def)
  show "bc_refs (bdev_bc bdev') = bc_refs (bdev_bc bdev)"
    using l by (auto simp: d bc_refs_def at fun_eq_iff ext4_bcache_set_flag_def)
  show "bdev_ok rd wr bsz cap content bdev'" "same_view content bdev bdev'"
    by (rule step_bc [OF ok, where l = l]; use inv D(6) [OF l] cached dirty in \<open>simp add: d\<close>)+
  show "bc_bufs (bdev_bc bdev') l = Some (ext4_bcache_set_flag bf f)"
    "k \<noteq> l \<Longrightarrow> bc_bufs (bdev_bc bdev') k = bc_bufs (bdev_bc bdev) k" for k
    by (simp_all add: d at)
  show "bc_lru_ctr (bdev_bc bdev') = bc_lru_ctr (bdev_bc bdev)" "sound bdev' = sound bdev" by (simp_all add: d)
  show "bc_tmp (bdev_bc bdev') k \<longleftrightarrow> bc_tmp (bdev_bc bdev) k \<or> k = l \<and> f = BC_TMP"
    using l f by (auto simp: d bc_tmp_def at ext4_bcache_set_flag_def)
qed

text \<open>A temporary buffer goes with its last reference.\<close>

lemma free_tmp:
  assumes ok: "bdev_ok rd wr bsz cap content bdev" and l: "bc_bufs (bdev_bc bdev) l = Some bf"
    and bf: "buf_refctr bf = 1" "BC_TMP \<in> buf_flags bf" and b: "blk_lb_id b = l" "blk_buf b = Some l"
    and f: "ext4_bcache_free bdev b = Some (r, bdev', b')"
  shows "bc_bufs (bdev_bc bdev') l = None"
proof -
  have at: "buf_at (bdev_bc bdev) l = bf" by (rule buf_at_Some [OF l])
  have "BC_DIRTY \<notin> buf_flags bf"
    using bc_invD(3) [OF bdev_okD(4) [OF ok] l] bf(2) by (auto simp: buf_ok_def)
  then show ?thesis
    using f b bf l
    by (auto simp: ext4_bcache_free_def buf_at_upd at ext4_bcache_dec_ref_def ext4_bcache_test_flag_def
        ext4_bcache_drop_buf_def Let_def buf_at_simps split: if_splits)
qed

end

section \<open>The blocks of the journal\<close>

lemma lookup_mapped_file:
  assumes "extent_file fs ir" "extent_place fs ir (unat i) \<noteq> 0"
  shows "ext4_fs_get_inode_dblk_idx fs ir i False =
    Some (if fs_can_malloc fs then (EOK, fs_asked fs, ir, Some (extent_place fs ir (unat i)))
          else (ENOMEM, fs_asked fs, ir, None))"
  using assms lookup_root [of fs ir i 1]
  by (simp add: ext4_fs_get_inode_dblk_idx_def get_inode_dblk_idx_def extent_file_def extent_place_def)

text \<open>The buffer that holds the inode of the journal.\<close>

abbreviation jinode :: "jbd_fs \<Rightarrow> u64" where "jinode jf \<equiv> the (blk_buf (ir_block (jf_ref jf)))"

lemma same_inode_buf:
  assumes "fs_sb fs = fs_sb fs0"
    and "bc_bufs (bdev_bc (fs_bdev fs)) (the (blk_buf (ir_block ir))) = bc_bufs (bdev_bc (fs_bdev fs0)) (the (blk_buf (ir_block ir)))"
  shows "extent_file fs ir = extent_file fs0 ir" "extent_place fs ir = extent_place fs0 ir"
proof -
  have "fs_data fs (ir_block ir) = fs_data fs0 (ir_block ir)"
    using assms(2) by (simp add: fs_data_def blk_bytes_def buf_at_def)
  then have r: "root_bytes fs ir = root_bytes fs0 ir" and i: "ino_get fs ir = ino_get fs0 ir"
    by (simp_all add: root_bytes_def node_bytes_def ino_get_def ino_bytes_def ext_inode_hdr_def)
  then have "root_ok fs ir = root_ok fs0 ir" by (simp add: root_ok_def ext_depth_root)
  moreover have "uses_extents fs ir = uses_extents fs0 ir" using assms(1) i by (simp add: uses_extents_def)
  ultimately show "extent_file fs ir = extent_file fs0 ir" using assms(1) i by (simp add: extent_file_def)
  show "extent_place fs ir = extent_place fs0 ir" using r by (simp add: extent_place_def fun_eq_iff)
qed

definition jplace :: "raw_file ext4_fs \<Rightarrow> jbd_fs \<Rightarrow> u32 \<Rightarrow> u64" where
  "jplace fs0 jf j = extent_place fs0 (jf_ref jf) (unat j)"

text \<open>The blocks that may be replayed: not those of the log, and not the one the inode of the journal is in.\<close>

definition jtargets :: "raw_file ext4_fs \<Rightarrow> jbd_fs \<Rightarrow> u64 set" where
  "jtargets fs0 jf =
     {l. l \<noteq> 0 \<and> l < lg_bcnt (fs_bdev fs0) \<and> l \<noteq> jinode jf \<and> (\<forall>j. in_log (jf_sb jf) j \<longrightarrow> jplace fs0 jf j \<noteq> l)}"

definition journal_setup :: "raw_file ext4_fs \<Rightarrow> jbd_fs \<Rightarrow> bool" where
  "journal_setup fs0 jf \<longleftrightarrow>
     ph_refctr (bdev_bdif (fs_bdev fs0)) \<noteq> 0 \<and> jbd_bsize (jf_sb jf) = lg_bsize (fs_bdev fs0) \<and>
     extent_file fs0 (jf_ref jf) \<and> bc_refs (bdev_bc (fs_bdev fs0)) (jinode jf) \<noteq> 0 \<and>
     (\<forall>l. bc_refs (bdev_bc (fs_bdev fs0)) l < - 2) \<and>
     (\<forall>j. in_log (jf_sb jf) j \<longrightarrow> jplace fs0 jf j \<noteq> 0 \<and> jplace fs0 jf j < lg_bcnt (fs_bdev fs0) \<and>
        bc_refs (bdev_bc (fs_bdev fs0)) (jplace fs0 jf j) = 0) \<and>
     (\<forall>i j. in_log (jf_sb jf) i \<longrightarrow> in_log (jf_sb jf) j \<longrightarrow> jplace fs0 jf i = jplace fs0 jf j \<longrightarrow> i = j)"

text \<open>
  The state during a recovery that started in \<open>fs0\<close>: \<open>n\<close> more blocks can be taken before the counter of
  the cache is used up, the blocks are \<open>V\<close>, and beside what was held at the start only the blocks \<open>H\<close> of the log are.
\<close>

definition jrefs :: "raw_file ext4_fs \<Rightarrow> jbd_fs \<Rightarrow> u32 set \<Rightarrow> u64 \<Rightarrow> u32" where
  "jrefs fs0 jf H l = bc_refs (bdev_bc (fs_bdev fs0)) l + (if l \<in> jplace fs0 jf ` H then 1 else 0)"

definition jst ::
    "nat \<Rightarrow> raw_file ext4_fs \<Rightarrow> jbd_fs \<Rightarrow> nat \<Rightarrow> (u64 \<Rightarrow> bytes) \<Rightarrow> u32 set \<Rightarrow> raw_file ext4_fs \<Rightarrow> bool" where
  "jst N fs0 jf n V H fs \<longleftrightarrow>
     journal_setup fs0 jf \<and> fs_sb fs = fs_sb fs0 \<and>
     raw_ok N (fs_bdev fs) \<and> sure.sound (fs_bdev fs) \<and> same_setup (fs_bdev fs0) (fs_bdev fs) \<and>
     unat (bc_lru_ctr (bdev_bc (fs_bdev fs))) + n < 2 ^ 32 - 1 \<and>
     bc_refs (bdev_bc (fs_bdev fs)) = jrefs fs0 jf H \<and>
     (\<forall>l. l < lg_bcnt (fs_bdev fs0) \<longrightarrow> bview raw_img (fs_bdev fs) l = V l) \<and>
     (\<forall>l. bc_tmp (bdev_bc (fs_bdev fs)) l \<longrightarrow> l \<in> jplace fs0 jf ` H) \<and>
     (\<forall>j \<in> H. in_log (jf_sb jf) j \<and>
        bc_tmp (bdev_bc (fs_bdev fs)) (jplace fs0 jf j) \<and>
        bc_cached (bdev_bc (fs_bdev fs)) (jplace fs0 jf j) = Some (V (jplace fs0 jf j))) \<and>
     (\<forall>j. in_log (jf_sb jf) j \<longrightarrow> \<not> bc_dirty (bdev_bc (fs_bdev fs)) (jplace fs0 jf j)) \<and>
     bc_bufs (bdev_bc (fs_bdev fs)) (jinode jf) = bc_bufs (bdev_bc (fs_bdev fs0)) (jinode jf)"

lemma journal_setupD:
  assumes "journal_setup fs0 jf"
  shows "ph_refctr (bdev_bdif (fs_bdev fs0)) \<noteq> 0" "jbd_bsize (jf_sb jf) = lg_bsize (fs_bdev fs0)"
    "extent_file fs0 (jf_ref jf)" "bc_refs (bdev_bc (fs_bdev fs0)) (jinode jf) \<noteq> 0"
    "bc_refs (bdev_bc (fs_bdev fs0)) l < - 2"
    "in_log (jf_sb jf) j \<Longrightarrow> jplace fs0 jf j \<noteq> 0" "in_log (jf_sb jf) j \<Longrightarrow> jplace fs0 jf j < lg_bcnt (fs_bdev fs0)"
    "in_log (jf_sb jf) j \<Longrightarrow> bc_refs (bdev_bc (fs_bdev fs0)) (jplace fs0 jf j) = 0"
    "in_log (jf_sb jf) j \<Longrightarrow> jplace fs0 jf j \<noteq> jinode jf"
    "in_log (jf_sb jf) i \<Longrightarrow> in_log (jf_sb jf) j \<Longrightarrow> jplace fs0 jf i = jplace fs0 jf j \<Longrightarrow> i = j"
  using assms unfolding journal_setup_def by metis+

lemma jstD:
  assumes "jst N fs0 jf n V H fs"
  shows "journal_setup fs0 jf" "fs_sb fs = fs_sb fs0" "raw_ok N (fs_bdev fs)" "sure.sound (fs_bdev fs)"
    "same_setup (fs_bdev fs0) (fs_bdev fs)" "unat (bc_lru_ctr (bdev_bc (fs_bdev fs))) + n < 2 ^ 32 - 1"
    "bc_refs (bdev_bc (fs_bdev fs)) = jrefs fs0 jf H"
    "l < lg_bcnt (fs_bdev fs0) \<Longrightarrow> bview raw_img (fs_bdev fs) l = V l"
    "bc_tmp (bdev_bc (fs_bdev fs)) l \<Longrightarrow> l \<in> jplace fs0 jf ` H"
    "j \<in> H \<Longrightarrow> in_log (jf_sb jf) j" "j \<in> H \<Longrightarrow> bc_tmp (bdev_bc (fs_bdev fs)) (jplace fs0 jf j)"
    "j \<in> H \<Longrightarrow> bc_cached (bdev_bc (fs_bdev fs)) (jplace fs0 jf j) = Some (V (jplace fs0 jf j))"
    "in_log (jf_sb jf) j \<Longrightarrow> \<not> bc_dirty (bdev_bc (fs_bdev fs)) (jplace fs0 jf j)"
    "bc_bufs (bdev_bc (fs_bdev fs)) (jinode jf) = bc_bufs (bdev_bc (fs_bdev fs0)) (jinode jf)"
  using assms unfolding jst_def by blast+

lemma jst_counters:
  assumes "jst N fs0 jf n V H fs"
  shows "counters_ok (bdev_bc (fs_bdev fs))"
proof -
  note D = jstD [OF assms]
  have m: "unat (- 1 :: u32) = 2 ^ 32 - 1" "unat (- 2 :: u32) = 2 ^ 32 - 2"
    by (simp_all add: unsigned_minus_1_eq_mask mask_eq_exp_minus_1)
  have "bc_lru_ctr (bdev_bc (fs_bdev fs)) < - 1" using D(6) unfolding word_less_nat_alt m by linarith
  moreover have "bc_refs (bdev_bc (fs_bdev fs)) l < - 1" for l
  proof -
    have "unat (bc_refs (bdev_bc (fs_bdev fs0)) l) < 2 ^ 32 - 2"
      using journal_setupD(5) [OF D(1), of l] unfolding word_less_nat_alt m .
    then have "unat (jrefs fs0 jf H l) < 2 ^ 32 - 1" unfolding jrefs_def by (auto simp: unat_word_ariths)
    then show ?thesis unfolding D(7) word_less_nat_alt m .
  qed
  ultimately show ?thesis by (simp add: counters_ok_def)
qed

text \<open>The heap gives what it is asked for.\<close>

lemma jst_asked:
  assumes st: "jst N fs0 jf n V H fs"
  shows "fs_can_malloc fs" "jst N fs0 jf n V H (fs_asked fs)"
proof -
  note D = jstD [OF st]
  define bdev where "bdev = upd_bc (\<lambda>bc. bc\<lparr>heap_next := heap_next bc + 1\<rparr>) (fs_bdev fs)"
  have bc: "bc_bufs (bdev_bc bdev) = bc_bufs (bdev_bc (fs_bdev fs))" "bc_lru_ctr (bdev_bc bdev) = bc_lru_ctr (bdev_bc (fs_bdev fs))"
    "same_setup (fs_bdev fs) bdev" "sure.sound bdev = sure.sound (fs_bdev fs)" by (simp_all add: bdev_def)
  have views: "bc_refs (bdev_bc bdev) = bc_refs (bdev_bc (fs_bdev fs))" "bc_cached (bdev_bc bdev) = bc_cached (bdev_bc (fs_bdev fs))"
    "bc_dirty (bdev_bc bdev) = bc_dirty (bdev_bc (fs_bdev fs))" "bc_tmp (bdev_bc bdev) = bc_tmp (bdev_bc (fs_bdev fs))"
    by (simp_all add: bc_refs_def bc_cached_def bc_dirty_def bc_tmp_def fun_eq_iff bc)
  have inv: "bc_inv (bdev_bc bdev)"
    using bdev_okD(4) [OF D(3)] by (simp add: bdev_def bc_inv_def buf_ok_def buf_at_def)
  have dblk: "dev_block raw_img bdev l = dev_block raw_img (fs_bdev fs) l" for l by (simp add: bdev_def)
  have ok: "raw_ok N bdev"
    by (rule bdev_okI [OF D(3) bc(3) inv])
      (use bdev_okD [OF D(3)] views dblk bc in \<open>auto simp: bdev_def\<close>)
  have bv: "bview raw_img bdev l = bview raw_img (fs_bdev fs) l" for l
    by (simp add: bview_def views dblk split: option.split)
  have "fs_asked fs = fs\<lparr>fs_bdev := bdev\<rparr>" by (simp add: fs_asked_def bdev_def)
  then show "jst N fs0 jf n V H (fs_asked fs)"
    using st ok same_setup_trans [OF D(5) bc(3)] by (simp add: jst_def views bv bc)
  show "fs_can_malloc fs"
    using D(4) by (simp add: fs_can_malloc_def sure.sound_def roomy_def Let_def)
qed

lemma bmap_place:
  assumes "jst N fs0 jf n V H fs" "in_log (jf_sb jf) j"
  shows "jbd_inode_bmap fs jf j = Some (EOK, fs_asked fs, jf, Some (jplace fs0 jf j))"
proof -
  note D = jstD [OF assms(1)]
  note J = journal_setupD [OF D(1)]
  note S = same_inode_buf [OF D(2,14)]
  show ?thesis
    using lookup_mapped_file [of fs "jf_ref jf" j] J(3) J(6) [OF assms(2)] jst_asked(1) [OF assms(1)]
    unfolding jbd_inode_bmap_def jplace_def S by simp
qed

lemma ucast_up_down: "ucast (ucast j :: u64) = (j :: u32)"
  by (rule bit_word_eqI) (simp add: bit_simps)

lemma jrefs_held:
  "j \<in> H \<Longrightarrow> journal_setup fs0 jf \<Longrightarrow> in_log (jf_sb jf) j \<Longrightarrow> jrefs fs0 jf H (jplace fs0 jf j) = 1"
  by (auto simp: jrefs_def journal_setupD)

lemma jst_get:
  assumes before: "jst N fs0 jf (Suc n) V H fs1" and j: "in_log (jf_sb jf) j" "j \<notin> H"
  shows "\<exists>fs'. jbd_block_get fs1 jf (ucast j) = Some (EOK, fs', jf, blk (jplace fs0 jf j)) \<and>
    jst N fs0 jf n V (insert j H) fs'"
proof -
  define fs where "fs = fs_asked fs1"
  have st: "jst N fs0 jf (Suc n) V H fs" unfolding fs_def by (rule jst_asked(2) [OF before])
  note D = jstD [OF st]
  note J = journal_setupD [OF D(1)]
  note F = same_setup_fields [OF D(5)]
  let ?l = "jplace fs0 jf j" and ?bc = "bdev_bc (fs_bdev fs)"
  have opened: "ph_refctr (bdev_bdif (fs_bdev fs)) \<noteq> 0" and l: "?l < lg_bcnt (fs_bdev fs)"
    using J(1) J(7) [OF j(1)] F by simp_all
  have nl: "?l \<notin> jplace fs0 jf ` H" using J(10) [OF _ j(1)] D(10) j(2) by (metis imageE)
  obtain r bdev b where g: "ext4_block_get (fs_bdev fs) EXT4_BLOCK_ZERO ?l = Some (r, bdev, b)"
    "raw_ok N bdev" "same_view raw_img (fs_bdev fs) bdev"
    "bc_refs (bdev_bc bdev) = (if r = EOK then (bc_refs ?bc)(?l := bc_refs ?bc ?l + 1) else bc_refs ?bc)"
    "r = EOK \<Longrightarrow> b = \<lparr>blk_lb_id = ?l, blk_buf = Some ?l, blk_data = True\<rparr>"
    "r = EOK \<Longrightarrow> bc_cached (bdev_bc bdev) ?l = Some (bview raw_img (fs_bdev fs) ?l)"
    "frame {?l} (fs_bdev fs) bdev" "bc_lru_ctr (bdev_bc bdev) \<in> {bc_lru_ctr ?bc, bc_lru_ctr ?bc + 1}"
    by (rule raw.block_get [OF D(3) jst_counters [OF st] opened l J(6) [OF j(1)]]) blast
  have r: "r = EOK" "sure.sound bdev"
    using sure.block_get_sound [OF D(3,4) jst_counters [OF st] opened l g(1)] by auto
  obtain bf where bf: "bc_bufs (bdev_bc bdev) ?l = Some bf" "BC_UPTODATE \<in> buf_flags bf"
    using g(6) [OF r(1)] by (auto simp: bc_cached_def split: option.splits if_splits)
  have "\<not> bc_dirty (bdev_bc bdev) ?l" using g(3) D(13) [OF j(1)] by (auto simp: same_view_def)
  then have clean: "BC_DIRTY \<notin> buf_flags bf" using bf(1) by (simp add: bc_dirty_def)
  define bdev1 where "bdev1 = upd_bc (upd_buf ?l (\<lambda>bf. ext4_bcache_set_flag bf BC_FLUSH)) bdev"
  define bdev2 where "bdev2 = upd_bc (upd_buf ?l (\<lambda>bf. ext4_bcache_set_flag bf BC_TMP)) bdev1"
  note A = sure.flag_clean [OF g(2) bf(1) clean disjI1 [OF refl] bdev1_def]
  have "BC_DIRTY \<notin> buf_flags (ext4_bcache_set_flag bf BC_FLUSH)" using clean by (simp add: ext4_bcache_set_flag_def)
  note B = sure.flag_clean [OF A(1) A(8) this disjI2 [OF refl] bdev2_def]
  have sv: "same_view raw_img (fs_bdev fs) bdev2" by (rule same_view_trans [OF same_view_trans [OF g(3) A(2)] B(2)])
  have keep: "bc_bufs (bdev_bc bdev2) k = bc_bufs ?bc k" if "k \<noteq> ?l" "bc_refs ?bc k \<noteq> 0" for k
    using g(7) that A(9) B(9) by (simp add: frame_def)
  have cached: "bc_cached (bdev_bc bdev2) ?l = Some (V ?l)"
    using g(6) [OF r(1)] A(4) B(4) D(8) [of ?l] l F by simp
  have refs: "bc_refs (bdev_bc bdev2) = jrefs fs0 jf (insert j H)"
    using g(4) r(1) A(3) B(3) D(7) nl by (auto simp: jrefs_def fun_eq_iff)
  have tmp: "bc_tmp (bdev_bc bdev2) k \<longleftrightarrow> bc_tmp (bdev_bc bdev) k \<or> k = ?l" for k using A(10) B(10) by auto
  have tmpk: "bc_tmp (bdev_bc bdev) k \<Longrightarrow> bc_tmp ?bc k" for k using g(7) by (simp add: frame_def)
  have held: "bc_tmp (bdev_bc bdev2) (jplace fs0 jf i)" "bc_cached (bdev_bc bdev2) (jplace fs0 jf i) = Some (V (jplace fs0 jf i))"
    if "i \<in> H" for i
  proof -
    have i: "in_log (jf_sb jf) i" by (rule D(10) [OF that])
    have "jplace fs0 jf i \<noteq> ?l" using that nl by (metis image_eqI)
    moreover have "bc_refs ?bc (jplace fs0 jf i) \<noteq> 0" unfolding D(7) using jrefs_held [OF that D(1) i] by simp
    ultimately have e: "bc_bufs (bdev_bc bdev2) (jplace fs0 jf i) = bc_bufs ?bc (jplace fs0 jf i)" by (rule keep)
    show "bc_tmp (bdev_bc bdev2) (jplace fs0 jf i)" using D(11) [OF that] by (simp add: bc_tmp_def e)
    show "bc_cached (bdev_bc bdev2) (jplace fs0 jf i) = Some (V (jplace fs0 jf i))"
      using D(12) [OF that] by (simp add: bc_cached_def e)
  qed
  have ino: "bc_bufs (bdev_bc bdev2) (jinode jf) = bc_bufs (bdev_bc (fs_bdev fs0)) (jinode jf)"
  proof -
    have "bc_refs ?bc (jinode jf) \<noteq> 0" using J(4) D(14) by (simp add: bc_refs_def)
    from keep [OF J(9) [OF j(1), symmetric] this] show ?thesis using D(14) by simp
  qed
  have lru: "unat (bc_lru_ctr (bdev_bc bdev2)) + n < 2 ^ 32 - 1"
    using g(8) A(6) B(6) D(6) by (auto simp: unat_word_ariths)
  have "jst N fs0 jf n V (insert j H) (fs\<lparr>fs_bdev := bdev2\<rparr>)"
    unfolding jst_def
  proof (intro conjI allI impI ballI, goal_cases)
    case (5) then show ?case using same_setup_trans [OF D(5) same_view_setup [OF sv]] by simp
  next
    case (8 l) then show ?case using D(8) [of l] sv F by (simp add: same_view_def)
  next
    case (9 l) then show ?case using tmp tmpk D(9) by auto
  next
    case (13 i)
    then show ?case using D(13) sv by (auto simp: same_view_def)
  qed (use D(1,2,10) B(1,7) A(7) r lru refs j(1) held ino cached tmp in auto)
  moreover have "jbd_block_get fs1 jf (ucast j) = Some (EOK, fs\<lparr>fs_bdev := bdev2\<rparr>, jf, blk ?l)"
    using bmap_place [OF before j(1), folded fs_def] g(1) g(5) [OF r(1)] r(1)
    by (simp add: jbd_block_get_def buf_flag_def bdev1_def bdev2_def blk_def ucast_up_down)
  ultimately show ?thesis by blast
qed

lemma jst_read:
  assumes "jst N fs0 jf n V H fs" "j \<in> H"
  shows "fs_data fs (blk (jplace fs0 jf j)) = V (jplace fs0 jf j)"
  using jstD(12) [OF assms]
  by (auto simp: fs_data_def blk_bytes_def blk_def bc_cached_def buf_at_def split: option.splits if_splits)

lemma jst_put:
  assumes st: "jst N fs0 jf n V H fs" and j: "j \<in> H"
  shows "\<exists>fs'. jbd_block_set fs (blk (jplace fs0 jf j)) = Some (EOK, fs') \<and> jst N fs0 jf n V (H - {j}) fs'"
proof -
  note D = jstD [OF st]
  note J = journal_setupD [OF D(1)]
  note F = same_setup_fields [OF D(5)]
  let ?l = "jplace fs0 jf j" and ?bc = "bdev_bc (fs_bdev fs)"
  have ij: "in_log (jf_sb jf) j" by (rule D(10) [OF j])
  have opened: "ph_refctr (bdev_bdif (fs_bdev fs)) \<noteq> 0" using J(1) F by simp
  have one: "bc_refs ?bc ?l = 1" unfolding D(7) by (rule jrefs_held [OF j D(1) ij])
  obtain bdev where f: "ext4_bcache_free (fs_bdev fs) (blk ?l) =
      Some (EOK, bdev, (blk ?l)\<lparr>blk_lb_id := 0, blk_data := False\<rparr>)"
    "raw_ok N bdev" "same_view raw_img (fs_bdev fs) bdev"
    "bc_refs (bdev_bc bdev) = (bc_refs ?bc)(?l := bc_refs ?bc ?l - 1)"
    "frame {?l} (fs_bdev fs) bdev" "bc_lru_ctr (bdev_bc bdev) = bc_lru_ctr ?bc"
    by (rule raw.bcache_free [OF D(3), of ?l "blk ?l"]) (use one J(6) [OF ij] in \<open>auto simp: blk_def\<close>)
  have s: "sure.sound bdev"
    by (rule sure.free_sound [OF D(3,4) _ _ f(1), of ?l]) (use one in \<open>simp_all add: blk_def\<close>)
  obtain bf where bf: "bc_bufs ?bc ?l = Some bf" "buf_refctr bf = 1" "BC_TMP \<in> buf_flags bf"
    using one D(11) [OF j] by (auto simp: bc_refs_def bc_tmp_def split: option.splits)
  have gone: "bc_bufs (bdev_bc bdev) ?l = None"
    by (rule sure.free_tmp [OF D(3) bf _ _ f(1)]) (simp_all add: blk_def)
  have keep: "bc_bufs (bdev_bc bdev) k = bc_bufs ?bc k" if "k \<noteq> ?l" "bc_refs ?bc k \<noteq> 0" for k
    using f(5) that by (simp add: frame_def)
  have img: "jplace fs0 jf ` (H - {j}) = jplace fs0 jf ` H - {?l}" using J(10) [OF _ ij] D(10) by auto
  have refs: "bc_refs (bdev_bc bdev) = jrefs fs0 jf (H - {j})"
    using f(4) one D(7) J(8) [OF ij] imageI [OF j, of "jplace fs0 jf"] unfolding jrefs_def img by (auto simp: fun_eq_iff)
  have tmp: "k \<in> jplace fs0 jf ` (H - {j})" if "bc_tmp (bdev_bc bdev) k" for k
  proof -
    have "k \<noteq> ?l" using that gone by (auto simp: bc_tmp_def)
    moreover have "bc_tmp ?bc k" using that f(5) by (simp add: frame_def)
    ultimately show ?thesis unfolding img using D(9) by auto
  qed
  have held: "bc_bufs (bdev_bc bdev) (jplace fs0 jf i) = bc_bufs ?bc (jplace fs0 jf i)" if "i \<in> H - {j}" for i
  proof (rule keep)
    show "jplace fs0 jf i \<noteq> ?l" using that J(10) [OF _ ij] D(10) by auto
    show "bc_refs ?bc (jplace fs0 jf i) \<noteq> 0"
      unfolding D(7) using jrefs_held [of i H] that D(1) D(10) [of i] by simp
  qed
  have ino: "bc_bufs (bdev_bc bdev) (jinode jf) = bc_bufs (bdev_bc (fs_bdev fs0)) (jinode jf)"
  proof -
    have "bc_refs ?bc (jinode jf) \<noteq> 0" using J(4) D(14) by (simp add: bc_refs_def)
    from keep [OF J(9) [OF ij, symmetric] this] show ?thesis using D(14) by simp
  qed
  have "jst N fs0 jf n V (H - {j}) (fs\<lparr>fs_bdev := bdev\<rparr>)"
    unfolding jst_def
  proof (intro conjI allI impI ballI, goal_cases)
    case (5) then show ?case using same_setup_trans [OF D(5) same_view_setup [OF f(3)]] by simp
  next
    case (8 l) then show ?case using D(8) [of l] f(3) F by (simp add: same_view_def)
  next
    case (9 l) then show ?case using tmp by simp
  next
    case (11 i) then show ?case using held [OF 11] D(11) [of i] by (simp add: bc_tmp_def)
  next
    case (12 i) then show ?case using held [OF 12] D(12) [of i] by (simp add: bc_cached_def)
  next
    case (13 i) then show ?case using D(13) f(3) by (auto simp: same_view_def)
  qed (use D(1,2,6,10) f(2,6) s refs ino in auto)
  moreover have "jbd_block_set fs (blk ?l) = Some (EOK, fs\<lparr>fs_bdev := bdev\<rparr>)"
    using f(1) opened by (simp add: jbd_block_set_def fs_block_set_def ext4_block_set_def) (simp add: blk_def)
  ultimately show ?thesis by blast
qed

lemma jst_malloc:
  assumes "jst N fs0 jf n V H fs"
  shows "\<exists>fs'. fs_malloc fs = (True, fs') \<and> jst N fs0 jf n V H fs'"
  using jst_asked [OF assms] by (simp add: fs_malloc_def)

text \<open>The stores of \<open>replay_copy\<close>, as one.\<close>

lemma replay_copy_stores:
  assumes len: "length (fs_data fs journal_block) = unat (jbd_bsize (jf_sb jf))"
      "length (fs_data fs (blk t)) = unat (jbd_bsize (jf_sb jf))" "4 \<le> unat (jbd_bsize (jf_sb jf))"
    and t: "bc_bufs (bdev_bc (fs_bdev fs)) t \<noteq> None"
    and s: "ext4_block_set (snd (ext4_trans_set_block_dirty
        (blk_put (fs_bdev fs) (blk t) (unescaped ti (fs_data fs journal_block))) t)) (blk t) = Some (r, bdev, b)"
  shows "replay_copy fs jf ti journal_block (blk t) = Some (fs\<lparr>fs_bdev := bdev\<rparr>)"
proof -
  let ?D = "fs_data fs journal_block"
  have p: "put_bytes 0 ?D (fs_data fs (blk t)) = ?D"
    using len by (simp add: put_bytes_def)
  have d: "fs_data (fs_store fs (blk t) x) (blk t) = x" for x
    by (simp add: fs_data_def fs_store_def blk_bytes_def blk_put_def buf_at_upd blk_def)
  have tw: "fs_store (fs_store fs (blk t) x) (blk t) y = fs_store fs (blk t) y" for x y
    by (simp add: fs_store_def blk_put_def upd_bc_def upd_buf_def buf_at_def blk_def)
  have dirty: "fs_block_set ((fs_store fs (blk t) x)\<lparr>fs_bdev := upd_bc (upd_buf (the (blk_buf (blk t))) ext4_bcache_set_dirty)
      (fs_bdev (fs_store fs (blk t) x))\<rparr>) (blk t) =
    (case ext4_block_set (snd (ext4_trans_set_block_dirty (blk_put (fs_bdev fs) (blk t) x) t)) (blk t) of
       None \<Rightarrow> None | Some (r, bdev, b) \<Rightarrow> Some (r, fs\<lparr>fs_bdev := bdev\<rparr>))" for x
    by (simp add: fs_block_set_def fs_store_def ext4_trans_set_block_dirty_def blk_def split: option.splits)
  show ?thesis
    using len s by (simp add: replay_copy_def Let_def p d tw dirty unescaped_def split: if_splits)
qed

lemma unescaped_length: "4 \<le> length data \<Longrightarrow> length (unescaped ti data) = length data"
  by (simp add: unescaped_def)

lemma jst_copy:
  assumes st: "jst N fs0 jf (Suc n) V H fs" and j: "j \<in> H" and t: "tag_block ti \<in> jtargets fs0 jf"
  shows "\<exists>bdev b fs'. ext4_block_get_noread (fs_bdev fs) EXT4_BLOCK_ZERO (tag_block ti) = Some (EOK, bdev, b) \<and>
    replay_copy (fs\<lparr>fs_bdev := bdev\<rparr>) jf ti (blk (jplace fs0 jf j)) b = Some fs' \<and>
    jst N fs0 jf n (V(tag_block ti := unescaped ti (V (jplace fs0 jf j)))) H fs'"
proof -
  note D = jstD [OF st]
  note J = journal_setupD [OF D(1)]
  note F = same_setup_fields [OF D(5)]
  let ?l = "jplace fs0 jf j" and ?t = "tag_block ti" and ?bc = "bdev_bc (fs_bdev fs)"
  let ?new = "unescaped ti (V ?l)" and ?b = "\<lparr>blk_lb_id = ?t, blk_buf = Some ?t, blk_data = True\<rparr>"
  have T: "?t \<noteq> 0" "?t \<noteq> jinode jf" "\<And>i. in_log (jf_sb jf) i \<Longrightarrow> jplace fs0 jf i \<noteq> ?t"
    using t by (auto simp: jtargets_def)
  have opened: "ph_refctr (bdev_bdif (fs_bdev fs)) \<noteq> 0" and lt: "?t < lg_bcnt (fs_bdev fs)"
    using J(1) F t by (simp_all add: jtargets_def)
  have ij: "in_log (jf_sb jf) j" by (rule D(10) [OF j])
  have refs_held: "bc_refs ?bc (jplace fs0 jf i) \<noteq> 0" if "i \<in> H" for i
    unfolding D(7) using jrefs_held [OF that D(1) D(10) [OF that]] by simp
  have refs_ino: "bc_refs ?bc (jinode jf) \<noteq> 0" using J(4) D(14) by (simp add: bc_refs_def)
  obtain r bdev1 b1 where g: "ext4_block_get_noread (fs_bdev fs) EXT4_BLOCK_ZERO ?t = Some (r, bdev1, b1)"
    "raw_ok N bdev1" "same_view raw_img (fs_bdev fs) bdev1"
    "bc_refs (bdev_bc bdev1) = (if r = EOK then (bc_refs ?bc)(?t := bc_refs ?bc ?t + 1) else bc_refs ?bc)"
    "r = EOK \<Longrightarrow> b1 = ?b" "r = EOK \<Longrightarrow> bc_bufs (bdev_bc bdev1) ?t \<noteq> None"
    "frame {?t} (fs_bdev fs) bdev1" "bc_lru_ctr (bdev_bc bdev1) \<in> {bc_lru_ctr ?bc, bc_lru_ctr ?bc + 1}"
    by (rule raw.get_noread [OF D(3) jst_counters [OF st] opened lt]) blast
  have r: "r = EOK" and s1: "sure.sound bdev1"
    using sure.get_noread_sound [OF D(3,4) jst_counters [OF st] opened lt g(1)] by auto
  note F1 = same_setup_fields [OF same_view_setup [OF g(3)]]
  have keep1: "bc_bufs (bdev_bc bdev1) k = bc_bufs ?bc k" if "k \<noteq> ?t" "bc_refs ?bc k \<noteq> 0" for k
    using g(7) that by (simp add: frame_def)
  have tmp1: "bc_tmp (bdev_bc bdev1) k \<Longrightarrow> bc_tmp ?bc k" for k using g(7) by (simp add: frame_def)
  have lens: "length (buf_data bf) = unat (lg_bsize (fs_bdev fs0))" if "bc_bufs (bdev_bc bdev1) k = Some bf" for k bf
    using bc_invD(3) [OF bdev_okD(4) [OF g(2)] that] bdev_okD(5) [OF g(2)] F F1 by (simp add: buf_ok_def)
  have src: "fs_data (fs\<lparr>fs_bdev := bdev1\<rparr>) (blk ?l) = V ?l" "length (V ?l) = unat (lg_bsize (fs_bdev fs0))"
  proof -
    have "bc_cached (bdev_bc bdev1) ?l = Some (V ?l)"
      using D(12) [OF j] keep1 [OF T(3) [OF ij] refs_held [OF j]] by (simp add: bc_cached_def)
    then obtain bf where "bc_bufs (bdev_bc bdev1) ?l = Some bf" "buf_data bf = V ?l"
      by (auto simp: bc_cached_def split: option.splits if_splits)
    then show "fs_data (fs\<lparr>fs_bdev := bdev1\<rparr>) (blk ?l) = V ?l" "length (V ?l) = unat (lg_bsize (fs_bdev fs0))"
      using lens [of ?l bf] by (auto simp: fs_data_def blk_bytes_def blk_def buf_at_def)
  qed
  obtain bf where bf: "bc_bufs (bdev_bc bdev1) ?t = Some bf" using g(6) [OF r] by auto
  have four: "4 \<le> unat (lg_bsize (fs_bdev fs0))"
    using bdev_okD(1,3) [OF D(3)] F by (auto simp: lg_ok_def driver_is_def dest: dvd_imp_le)
  have nlen: "length ?new = unat (lg_bsize bdev1)" using unescaped_length four src(2) F F1 by simp
  have refs1: "bc_refs (bdev_bc bdev1) ?t \<noteq> 0"
  proof -
    have "bc_refs ?bc ?t \<noteq> - 1" using jst_counters [OF st] unfolding counters_ok_def by (metis less_irrefl)
    then have "bc_refs ?bc ?t + 1 \<noteq> 0" unfolding eq_neg_iff_add_eq_0 .
    then show ?thesis using g(4) r by simp
  qed
  have ntmp: "\<not> bc_tmp (bdev_bc bdev1) ?t"
  proof
    assume "bc_tmp (bdev_bc bdev1) ?t"
    then have "?t \<in> jplace fs0 jf ` H" by (rule D(9) [OF tmp1])
    then show False using T(3) [OF D(10)] by (metis imageE)
  qed
  obtain r2 bdev2 where d: "ext4_trans_set_block_dirty (blk_put bdev1 ?b ?new) ?t = (r2, bdev2)"
    by (metis surj_pair)
  note M = modify_block [OF g(2) refs1 ntmp nlen _ d, simplified]
  have s2: "sure.sound bdev2"
    using d s1 by (auto simp: ext4_trans_set_block_dirty_def blk_put_def)
  have refs2: "bc_refs (bdev_bc bdev2) ?t \<noteq> 0" using refs1 M(6) by simp
  obtain bdev3 where f: "ext4_bcache_free bdev2 ?b = Some (EOK, bdev3, ?b\<lparr>blk_lb_id := 0, blk_data := False\<rparr>)"
    "raw_ok N bdev3" "same_view raw_img bdev2 bdev3"
    "bc_refs (bdev_bc bdev3) = (bc_refs (bdev_bc bdev2))(?t := bc_refs (bdev_bc bdev2) ?t - 1)"
    "frame {?t} bdev2 bdev3" "bc_lru_ctr (bdev_bc bdev3) = bc_lru_ctr (bdev_bc bdev2)"
    by (rule raw.bcache_free [OF M(2) refs2 T(1), of ?b]) simp_all
  have s3: "sure.sound bdev3" by (rule sure.free_sound [OF M(2) s2 refs2 _ f(1)]) simp
  note F2 = same_setup_fields [OF M(3)]
  have same: "same_setup (fs_bdev fs0) bdev3"
    using same_setup_trans [OF D(5)] same_view_setup [OF g(3)] M(3) same_view_setup [OF f(3)]
    by (meson same_setup_trans)
  have refs: "bc_refs (bdev_bc bdev3) = jrefs fs0 jf H"
    using f(4) M(6) g(4) r D(7) by (simp add: fun_eq_iff)
  have keep: "bc_bufs (bdev_bc bdev3) k = bc_bufs ?bc k" if "k \<noteq> ?t" "bc_refs ?bc k \<noteq> 0" for k
  proof -
    have "bc_refs (bdev_bc bdev2) k \<noteq> 0" using that g(4) M(6) by auto
    then have "bc_bufs (bdev_bc bdev3) k = bc_bufs (bdev_bc bdev2) k" using f(5) that(1) by (simp add: frame_def)
    then show ?thesis using M(9) [OF that(1)] keep1 [OF that] by simp
  qed
  have tmp: "l \<in> jplace fs0 jf ` H" if "bc_tmp (bdev_bc bdev3) l" for l
    using that f(5) M(10) tmp1 D(9) by (simp add: frame_def)
  have clean: "\<not> bc_dirty (bdev_bc bdev3) (jplace fs0 jf i)" if "in_log (jf_sb jf) i" for i
    using D(13) [OF that] g(3) M(7) f(3) T(3) [OF that] by (auto simp: same_view_def)
  have view: "bview raw_img bdev3 l = (V(?t := ?new)) l" if "l < lg_bcnt (fs_bdev fs0)" for l
    using that D(8) [OF that] g(3) M(5) f(3) F F1 F2 by (simp add: same_view_def)
  have lru: "unat (bc_lru_ctr (bdev_bc bdev3)) + n < 2 ^ 32 - 1"
    using g(8) M(11) f(6) D(6) by (auto simp: unat_word_ariths)
  have held: "bc_bufs (bdev_bc bdev3) (jplace fs0 jf i) = bc_bufs ?bc (jplace fs0 jf i)" if "i \<in> H" for i
    by (rule keep [OF T(3) [OF D(10) [OF that]] refs_held [OF that]])
  have "jst N fs0 jf n (V(?t := ?new)) H (fs\<lparr>fs_bdev := bdev3\<rparr>)"
    unfolding jst_def
  proof (intro conjI allI impI ballI, goal_cases)
    case (8 l) then show ?case using view by simp
  next
    case (9 l) then show ?case using tmp by simp
  next
    case (11 i) then show ?case using held [OF 11] D(11) [of i] by (simp add: bc_tmp_def)
  next
    case (12 i) then show ?case using held [OF 12] D(12) [of i] T(3) [OF D(10) [OF 12]] by (simp add: bc_cached_def)
  next
    case (13 i) then show ?case using clean by simp
  next
    case 14 then show ?case using keep [OF T(2) [symmetric] refs_ino] D(14) by simp
  qed (use D(1,2,10) f(2) s3 same refs lru in auto)
  moreover have "replay_copy (fs\<lparr>fs_bdev := bdev1\<rparr>) jf ti (blk ?l) (blk ?t) = Some (fs\<lparr>fs_bdev := bdev3\<rparr>)"
  proof -
    have "ext4_block_set bdev2 ?b = Some (EOK, bdev3, ?b\<lparr>blk_lb_id := 0, blk_data := False\<rparr>)"
      using f(1) opened F1 F2 by (simp add: ext4_block_set_def)
    then have set2: "ext4_block_set (snd (ext4_trans_set_block_dirty (blk_put (fs_bdev (fs\<lparr>fs_bdev := bdev1\<rparr>)) (blk ?t)
        (unescaped ti (fs_data (fs\<lparr>fs_bdev := bdev1\<rparr>) (blk ?l)))) ?t)) (blk ?t) =
        Some (EOK, bdev3, ?b\<lparr>blk_lb_id := 0, blk_data := False\<rparr>)"
      unfolding src(1) using d by (simp add: blk_def)
    have old: "fs_data (fs\<lparr>fs_bdev := bdev1\<rparr>) (blk ?t) = buf_data bf"
      using bf by (simp add: fs_data_def blk_bytes_def blk_def buf_at_def)
    from replay_copy_stores [OF _ _ _ _ set2, of jf] show ?thesis
      using old src lens [OF bf] J(2) four bf by simp
  qed
  moreover have "ext4_block_get_noread (fs_bdev fs) EXT4_BLOCK_ZERO ?t = Some (EOK, bdev1, blk ?t)"
    using g(1) g(5) [OF r] r by (simp add: blk_def)
  ultimately show ?thesis by blast
qed

text \<open>The blocks of the journal are what recovery expects.\<close>

interpretation raw_journal: journal_store "jst N fs0 jf" jf "jplace fs0 jf" "jtargets fs0 jf" for N fs0 jf
proof (unfold_locales, goal_cases)
  case (1 n V H fs) then show ?case by (auto simp: jst_def)
next
  case (2 n V H fs j) then show ?case by (rule jst_get)
next
  case (3 n V H fs j) then show ?case by (rule jst_read)
next
  case (4 n V H fs j) then show ?case by (rule jst_put)
next
  case (5 n V H fs j ti) then show ?case by (rule jst_copy)
next
  case (6 n V H fs) then show ?case by (rule jst_malloc)
qed (auto simp: jtargets_def)

section \<open>Recovery\<close>

text \<open>The state a recovery starts in: nothing of the log is held, and no buffer of it is modified or temporary.\<close>

definition recoverable :: "nat \<Rightarrow> nat \<Rightarrow> raw_file ext4_fs \<Rightarrow> jbd_fs \<Rightarrow> bool" where
  "recoverable N n fs jf \<longleftrightarrow>
     journal_setup fs jf \<and> raw_ok N (fs_bdev fs) \<and> raw_good (bdev_dev (fs_bdev fs)) \<and> roomy (bdev_bc (fs_bdev fs)) \<and>
     2048 \<le> unat (part_size (fs_bdev fs)) \<and> ext4_sblock_wf (fs_sb fs) \<and>
     unat (bc_lru_ctr (bdev_bc (fs_bdev fs))) + n < 2 ^ 32 - 1 \<and>
     (\<forall>l. \<not> bc_tmp (bdev_bc (fs_bdev fs)) l) \<and>
     (\<forall>j. in_log (jf_sb jf) j \<longrightarrow> \<not> bc_dirty (bdev_bc (fs_bdev fs)) (jplace fs jf j))"

lemma recoverable_jst:
  "recoverable N n fs jf \<Longrightarrow> jst N fs jf n (bview raw_img (fs_bdev fs)) {} fs"
  by (simp add: recoverable_def jst_def jrefs_def sure.sound_def fun_eq_iff)

text \<open>Writing the superblock leaves all blocks alone but those it lies in.\<close>

lemma set_csum_wf: "ext4_sblock_wf s \<Longrightarrow> ext4_sblock_wf (ext4_sb_set_csum s)"
  by (simp add: ext4_sb_set_csum_def ext4_sblock_wf_def)

lemma sb_write_sure:
  assumes ok: "raw_ok N bdev" "raw_good (bdev_dev bdev)" "ph_refctr (bdev_bdif bdev) \<noteq> 0"
    and size: "2048 \<le> unat (part_size bdev)" and wf: "ext4_sblock_wf s"
  shows "\<exists>bdev'. ext4_sb_write bdev s = Some (EOK, bdev', ext4_sb_set_csum s) \<and> same_setup bdev bdev' \<and>
    region (raw_img (bdev_dev bdev')) (unat (part_offset bdev') + 1024) 1024 = ext4_sblock_bytes (ext4_sb_set_csum s) \<and>
    (\<forall>l. (unat l + 1) * unat (lg_bsize bdev) \<le> 1024 \<or> 2048 \<le> unat l * unat (lg_bsize bdev) \<longrightarrow>
      bview raw_img bdev' l = bview raw_img bdev l)"
proof -
  let ?bs = "ext4_sblock_bytes (ext4_sb_set_csum s)" and ?P = "unat (part_offset bdev)"
  have len: "length ?bs = 1024" using set_csum_wf [OF wf] by simp
  obtain bdev' where w: "ext4_block_writebytes bdev 1024 ?bs 1024 = Some (EOK, bdev')" "same_setup bdev bdev'"
    "bdev_bc bdev' = bdev_bc bdev" "raw_img (bdev_dev bdev') = overwrite (raw_img (bdev_dev bdev)) (?P + 1024) ?bs"
    using writebytes_sure [OF bdev_okD(1,2) [OF ok(1)] ok(2,3), of 1024 ?bs] size len by auto
  note F = same_setup_fields [OF w(2)]
  have view: "bview raw_img bdev' l = bview raw_img bdev l"
    if "(unat l + 1) * unat (lg_bsize bdev) \<le> 1024 \<or> 2048 \<le> unat l * unat (lg_bsize bdev)" for l
  proof -
    have "region (raw_img (bdev_dev bdev')) (blk_pos bdev l) (unat (lg_bsize bdev)) =
        region (raw_img (bdev_dev bdev)) (blk_pos bdev l) (unat (lg_bsize bdev))"
      unfolding region_def w(4) using that len by (intro map_cong) (auto simp: overwrite_def blk_pos_def)
    then show ?thesis using w(3) F by (simp add: bview_def dev_block_def same_setup_pos [OF w(2)] split: option.split)
  qed
  have "region (raw_img (bdev_dev bdev')) (?P + 1024) 1024 = ?bs"
    unfolding w(4) using len by (auto simp: list_eq_iff_nth_eq overwrite_def)
  moreover have "ext4_sb_write bdev s = Some (EOK, bdev', ext4_sb_set_csum s)"
    using w(1) by (simp add: ext4_sb_write_def EXT4_SUPERBLOCK_OFFSET_def EXT4_SUPERBLOCK_SIZE_def Let_def)
  ultimately show ?thesis using w(2) view F by auto
qed

text \<open>The blocks of the file system, and those of the log.\<close>

abbreviation fs_view :: "raw_file ext4_fs \<Rightarrow> u64 \<Rightarrow> bytes" where
  "fs_view fs \<equiv> bview raw_img (fs_bdev fs)"

definition log_view :: "raw_file ext4_fs \<Rightarrow> jbd_fs \<Rightarrow> u32 \<Rightarrow> bytes" where
  "log_view fs jf j = fs_view fs (jplace fs jf j)"

text \<open>The blocks the superblock does not lie in, and the bytes on the medium where it lies.\<close>

definition beside_sb :: "raw_file ext4_fs \<Rightarrow> u64 \<Rightarrow> bool" where
  "beside_sb fs l \<longleftrightarrow> l < lg_bcnt (fs_bdev fs) \<and>
     ((unat l + 1) * unat (lg_bsize (fs_bdev fs)) \<le> 1024 \<or> 2048 \<le> unat l * unat (lg_bsize (fs_bdev fs)))"

definition sb_area :: "raw_file ext4_fs \<Rightarrow> bytes" where
  "sb_area fs = region (raw_img (bdev_dev (fs_bdev fs))) (unat (part_offset (fs_bdev fs)) + 1024) 1024"

text \<open>
  C3: Recovery replays the log. On a driver that does not fail, whenever the log reads as the records \<open>rs\<close>,
  \<open>jbd_recover\<close> succeeds; every block beside the superblock is then what writing the blocks of the committed
  transactions in their order, without those that are revoked by the same or a later transaction,
  makes of it, and all other blocks are as before. The superblock on the medium no longer asks for
  recovery, and the superblock of the journal says that the log is empty and names the last
  transaction that was committed.
\<close>

theorem recovery_correct:
  assumes "recoverable N (cost rs) fs jf" "js_start (jf_sb jf) \<noteq> 0"
    and "log_from (jf_sb jf) (log_view fs jf) (to_be32 (js_start (jf_sb jf))) (to_be32 (js_sequence (jf_sb jf)))
      (to_be32 (js_start (jf_sb jf))) rs" "commits rs < 2 ^ 31"
    and "R = revoke_map (\<lambda>_. None) (to_be32 (js_sequence (jf_sb jf))) (committed rs)"
    and "tags_in R (jtargets fs jf) (to_be32 (js_sequence (jf_sb jf))) (committed rs)"
  shows "\<exists>fs'. jbd_recover fs jf = Some (EOK, fs', jf\<lparr>jf_sb := (jf_sb jf)\<lparr>js_start := 0, js_sequence := to_be32
        (if commits rs = 0 then to_be32 (js_sequence (jf_sb jf))
         else to_be32 (js_sequence (jf_sb jf)) + of_nat (commits rs) - 1)\<rparr>, jf_dirty := True\<rparr>) \<and>
    (\<forall>l. beside_sb fs l \<longrightarrow>
      fs_view fs' l = replay_log (jf_sb jf) R (log_view fs jf) (to_be32 (js_sequence (jf_sb jf)))
        (to_be32 (js_start (jf_sb jf))) (fs_view fs) (committed rs) l) \<and>
    sb_area fs' = ext4_sblock_bytes (fs_sb fs') \<and>
    fs_sb fs' = ext4_sb_set_csum ((fs_sb fs)
      \<lparr>sb_features_incompatible := sb_features_incompatible (fs_sb fs) AND NOT EXT4_FINCOM_RECOVER\<rparr>)"
proof -
  let ?V = "replay_log (jf_sb jf) R (log_view fs jf) (to_be32 (js_sequence (jf_sb jf)))
        (to_be32 (js_start (jf_sb jf))) (fs_view fs) (committed rs)"
    and ?last = "if commits rs = 0 then to_be32 (js_sequence (jf_sb jf))
       else to_be32 (js_sequence (jf_sb jf)) + of_nat (commits rs) - 1"
    and ?sb = "(fs_sb fs)\<lparr>sb_features_incompatible := sb_features_incompatible (fs_sb fs) AND NOT EXT4_FINCOM_RECOVER\<rparr>"
  have "jst N fs jf (cost rs + 0) (fs_view fs) {} fs" using recoverable_jst [OF assms(1)] by simp
  from raw_journal.recovery [OF assms(2) refl refl assms(3) log_view_def [symmetric] assms(4-6) this]
  obtain fs1 where r: "jbd_recover fs jf = recover_done fs1 jf ?last" and st: "jst N fs jf 0 ?V {} fs1" by blast
  note D = jstD [OF st]
  note F = same_setup_fields [OF D(5)]
  have R: "ph_refctr (bdev_bdif (fs_bdev fs)) \<noteq> 0" "2048 \<le> unat (part_size (fs_bdev fs))" "ext4_sblock_wf (fs_sb fs)"
    using assms(1) journal_setupD(1) by (auto simp: recoverable_def)
  then have "ext4_sblock_wf ?sb" by (simp add: ext4_sblock_wf_def)
  then obtain bdev where w: "ext4_sb_write (fs_bdev fs1) ?sb = Some (EOK, bdev, ext4_sb_set_csum ?sb)"
    "same_setup (fs_bdev fs1) bdev"
    "region (raw_img (bdev_dev bdev)) (unat (part_offset bdev) + 1024) 1024 = ext4_sblock_bytes (ext4_sb_set_csum ?sb)"
    "\<And>l. (unat l + 1) * unat (lg_bsize (fs_bdev fs1)) \<le> 1024 \<or> 2048 \<le> unat l * unat (lg_bsize (fs_bdev fs1)) \<Longrightarrow>
      bview raw_img bdev l = bview raw_img (fs_bdev fs1) l"
    using sb_write_sure [OF D(3), of ?sb] D(4) R(1,2) F by (auto simp: sure.sound_def)
  have z: "to_be32 0 = 0" by (simp add: to_be32_def reorder32_def)
  have "jbd_recover fs jf = Some (EOK, fs1\<lparr>fs_bdev := bdev, fs_sb := ext4_sb_set_csum ?sb\<rparr>,
      jf\<lparr>jf_sb := (jf_sb jf)\<lparr>js_start := 0, js_sequence := to_be32 ?last\<rparr>, jf_dirty := True\<rparr>)"
    unfolding r recover_done_def using w(1) D(2) by (simp add: Let_def z)
  moreover have "bview raw_img bdev l = ?V l" if "beside_sb fs l" for l
    using w(4) [of l] D(8) [of l] that F by (simp add: beside_sb_def)
  ultimately show ?thesis using w(3) by (auto simp: sb_area_def)
qed

section \<open>A log on a sample device\<close>

text \<open>
  A partition of seven blocks of 1 KiB. Block 1 is in the cache and holds the inode of the journal, whose four
  blocks are 2 to 5. The log has one transaction, number 1: block 3 is a descriptor that logs block 6, block 4
  its contents, and block 5 the commit block.
\<close>

definition rec_desc :: bytes where
  "rec_desc = [0xC0, 0x3B, 0x39, 0x98, 0, 0, 0, 1, 0, 0, 0, 1, 0, 0, 0, 6, 0, 0, 0, 10] @ replicate 1004 0"

definition rec_data :: bytes where "rec_data = replicate 1024 5"

definition rec_commit :: bytes where
  "rec_commit = [0xC0, 0x3B, 0x39, 0x98, 0, 0, 0, 2, 0, 0, 0, 1] @ replicate 1012 0"

definition rec_image :: "nat \<Rightarrow> u8" where
  "rec_image a = (if a < 4096 then 0 else if a < 5120 then rec_desc ! (a - 4096)
     else if a < 6144 then rec_data ! (a - 5120) else if a < 7168 then rec_commit ! (a - 6144) else 0)"

definition rec_buf :: ext4_buf where
  "rec_buf = \<lparr>buf_flags = {BC_UPTODATE, BC_DIRTY}, buf_lba = 1,
     buf_data = replicate 4 0 @ le_bytes 4 (4096 :: u32) @ replicate 24 0 @ le_bytes 4 (EXT4_INODE_FLAG_EXTENTS :: u32) @
        replicate 4 0 @
        ext4_extent_header_bytes \<lparr>eh_magic = EXT4_EXTENT_MAGIC, eh_entries_count = 1, eh_max_entries_count = 4,
                                  eh_depth = 0, eh_generation = 0\<rparr> @
        ext4_extent_bytes (sample_extent 0 4 2) @ replicate 960 0,
     buf_lru_prio = 0, buf_lru_id = 1, buf_refctr = 1, buf_on_dirty_list = False, buf_end_write = None,
     buf_end_write_arg = 0\<rparr>"

definition rec_dev :: "raw_file ext4_blockdev" where
  "rec_dev = sample_dev
     \<lparr>bdev_bdif := (ext4_io_raw_dev_get 8192 (sample_file\<lparr>raw_img := rec_image\<rparr>))\<lparr>ph_refctr := 1\<rparr>,
      part_size := 7168, lg_bcnt := 7,
      bdev_bc := sample_cache\<lparr>bc_lru_ctr := 1, bc_ref_blocks := 1, bc_lba_root := [1], bc_bufs := [1 \<mapsto> rec_buf]\<rparr>\<rparr>"

definition rec_fs :: "raw_file ext4_fs" where
  "rec_fs = \<lparr>fs_read_only = False, fs_bdev = rec_dev,
     fs_sb = sb_example\<lparr>sb_features_incompatible := EXT4_FINCOM_EXTENTS\<rparr>, inode_block_limits = [],
     inode_blocks_per_level = [], last_inode_bg_id = 0\<rparr>"

definition rec_jf :: jbd_fs where
  "rec_jf = \<lparr>jf_ref = \<lparr>ir_block = \<lparr>blk_lb_id = 1, blk_buf = Some 1, blk_data = True\<rparr>, ir_offset = 0, ir_index = 8,
       ir_dirty = False\<rparr>,
     jf_sb = (jbd_sb_of (replicate 1024 0))\<lparr>js_blocksize := to_be32 1024, js_maxlen := to_be32 4, js_first := to_be32 1,
       js_sequence := to_be32 1, js_start := to_be32 1\<rparr>,
     jf_dirty = False\<rparr>"

lemma rec_root: "root_bytes rec_fs (jf_ref rec_jf) = root_bytes (ext_sample (sample_extent 0 4 2)) ext_sample_ref"
  by (simp add: ext_sample_root)
    (simp add: root_bytes_def ext_inode_hdr_def node_bytes_def fs_data_def blk_bytes_def buf_at_def rec_fs_def rec_jf_def
      rec_dev_def rec_buf_def)

lemma rec_place: "extent_place rec_fs (jf_ref rec_jf) i = (if i < 4 then of_nat (i + 2) else 0)"
  by (simp add: extent_place_def rec_root ext_sample_node leaf_map_def sample_simps)

lemma rec_ino:
  "ino_bytes rec_fs (jf_ref rec_jf) = replicate 4 0 @ le_bytes 4 (4096 :: u32) @ replicate 24 0 @
     le_bytes 4 (EXT4_INODE_FLAG_EXTENTS :: u32) @ replicate 4 0 @ root_bytes rec_fs (jf_ref rec_jf)"
  by (simp add: ino_bytes_def root_bytes_def ext_inode_hdr_def node_bytes_def fs_data_def blk_bytes_def buf_at_def
      rec_fs_def rec_jf_def rec_dev_def rec_buf_def)

lemma rec_file: "extent_file rec_fs (jf_ref rec_jf)"
proof -
  have "root_ok (ext_sample (sample_extent 0 4 2)) ext_sample_ref"
    by (rule ext_sample_ok) (simp_all add: sample_simps)
  then have "root_ok rec_fs (jf_ref rec_jf)" by (simp add: root_ok_def rec_root ext_depth_root)
  moreover have "ext4_sb_feature_incom (fs_sb rec_fs) EXT4_FINCOM_EXTENTS"
    by (simp add: rec_fs_def ext4_sb_feature_incom_def EXT4_FINCOM_EXTENTS_def)
  moreover have r: "length (root_bytes rec_fs (jf_ref rec_jf)) = 984" by (simp add: rec_root ext_sample_root)
  have i: "in_flags (ino_get rec_fs (jf_ref rec_jf)) = EXT4_INODE_FLAG_EXTENTS"
    "in_size_lo (ino_get rec_fs (jf_ref rec_jf)) = 4096" "in_mode (ino_get rec_fs (jf_ref rec_jf)) = 0"
    by (simp_all add: ino_get_def rec_ino ext4_inode_of_def byte_simps r)
  moreover have "sb_rev_level (fs_sb rec_fs) = 0" by (simp add: rec_fs_def ext4_sblock_of_def)
  ultimately show ?thesis
    by (simp add: extent_file_def uses_extents_def ext4_inode_get_size_def ext4_inode_has_flag_def ext4_inode_get_flags_def
        EXT4_INODE_FLAG_EXTENTS_def)
qed

lemma rec_dev_ok: "raw_ok 8192 rec_dev" "sure.sound rec_dev" "bc_refs (bdev_bc rec_dev) l = (if l = 1 then 1 else 0)"
  "\<not> bc_tmp (bdev_bc rec_dev) l" "bc_dirty (bdev_bc rec_dev) l \<longleftrightarrow> l = 1" "bc_lru_ctr (bdev_bc rec_dev) = 1"
  "part_size rec_dev = 7168" "lg_bcnt rec_dev = 7" "lg_bsize rec_dev = 1024" "ph_refctr (bdev_bdif rec_dev) = 1" "part_offset rec_dev = 1024"
proof -
  have len: "length (buf_data rec_buf) = 1024" by (simp add: rec_buf_def ext4_extent_header_bytes_def ext4_extent_bytes_def)
  show "raw_ok 8192 rec_dev"
    using len by (simp add: bdev_ok_def driver_is_def part_ok_def lg_ok_def bc_inv_def bc_cached_def bc_dirty_def buf_ok_def
        buf_at_def rec_dev_def sample_dev_def sample_cache_def ext4_io_raw_dev_get_def raw_cap_def word_gt_0)
      (auto simp: rec_buf_def)
  show "sure.sound rec_dev"
    by (simp add: sure.sound_def roomy_def raw_good_def rec_dev_def sample_dev_def sample_cache_def ext4_io_raw_dev_get_def sample_file_def)
qed (auto simp: bc_refs_def bc_tmp_def bc_dirty_def rec_dev_def rec_buf_def sample_dev_def sample_cache_def ext4_io_raw_dev_get_def)

lemma byte_masks: "(0xff :: u32) = mask 8" "(0xff00 :: u32) = push_bit 8 (mask 8)" "(0xff0000 :: u32) = push_bit 16 (mask 8)"
  "(0xff000000 :: u32) = push_bit 24 (mask 8)" by (simp_all add: mask_eq_exp_minus_1 push_bit_eq_mult)

lemma bit_reorder32:
  "bit (reorder32 n) k \<longleftrightarrow> k < 32 \<and> bit n (if k < 8 then 24 + k else if k < 16 then 8 + k else if k < 24 then k - 8 else k - 24)"
  unfolding reorder32_def byte_masks by (auto simp: bit_simps not_less)

lemma to_be32_twice: "to_be32 (to_be32 n) = n"
  by (rule bit_word_eqI) (auto simp: to_be32_def bit_reorder32)

lemma rec_sb: "log_first (jf_sb rec_jf) = 1" "log_last (jf_sb rec_jf) = 4" "to_be32 (js_start (jf_sb rec_jf)) = 1"
  "to_be32 (js_sequence (jf_sb rec_jf)) = 1" "jbd_bsize (jf_sb rec_jf) = 1024" "js_start (jf_sb rec_jf) \<noteq> 0"
  "js_first (jf_sb rec_jf) = to_be32 1" "js_maxlen (jf_sb rec_jf) = to_be32 4"
  by (simp_all add: rec_jf_def to_be32_twice jbd_bsize_def) (simp add: to_be32_def reorder32_def)

lemma rec_in_log: "in_log (jf_sb rec_jf) j \<longleftrightarrow> j = 1 \<or> j = 2 \<or> j = 3"
proof -
  have "in_log (jf_sb rec_jf) j \<longleftrightarrow> unat j = 1 \<or> unat j = 2 \<or> unat j = 3" by (auto simp: in_log_def rec_sb(1,2))
  then show ?thesis by (simp add: word_unat_eq_iff)
qed

lemma rec_jplace: "jplace rec_fs rec_jf 1 = 3" "jplace rec_fs rec_jf 2 = 4" "jplace rec_fs rec_jf 3 = 5"
  by (simp_all add: jplace_def rec_place)

lemma rec_setup: "journal_setup rec_fs rec_jf"
proof -
  have "fs_bdev rec_fs = rec_dev" "jinode rec_jf = 1" by (simp_all add: rec_fs_def rec_jf_def)
  then show ?thesis
    using rec_file by (auto simp: journal_setup_def rec_dev_ok rec_sb(5) rec_in_log rec_jplace word_less_nat_alt)
qed

lemma rec_sb_wf: "ext4_sblock_wf (fs_sb rec_fs)"
  by (simp add: rec_fs_def ext4_sblock_wf_def ext4_sblock_of_def)

lemma rec_recoverable: "recoverable 8192 n rec_fs rec_jf" if "n < 1000"
proof -
  have "fs_bdev rec_fs = rec_dev" by (simp add: rec_fs_def)
  then show ?thesis using rec_setup that rec_dev_ok(2)
    by (auto simp: recoverable_def sure.sound_def rec_dev_ok rec_in_log rec_jplace rec_sb_wf)
qed

lemma rec_view:
  assumes "l \<noteq> 1"
  shows "fs_view rec_fs l = map rec_image [1024 + unat l * 1024..<1024 + unat l * 1024 + 1024]"
proof -
  have "bc_cached (bdev_bc rec_dev) l = None" using assms by (simp add: rec_dev_def bc_cached_def)
  then show ?thesis
    by (simp add: rec_fs_def bview_def dev_block_def blk_pos_def region_def rec_dev_ok)
      (simp add: rec_dev_def ext4_io_raw_dev_get_def)
qed

lemma map_window:
  "(\<And>a. k \<le> a \<Longrightarrow> a < k + n \<Longrightarrow> f a = xs ! (a - k)) \<Longrightarrow> length xs = n \<Longrightarrow> map f [k..<k + n] = xs"
  by (simp add: list_eq_iff_nth_eq)

lemma rec_logs: "log_view rec_fs rec_jf 1 = rec_desc" "log_view rec_fs rec_jf 2 = rec_data" "log_view rec_fs rec_jf 3 = rec_commit"
  "fs_view rec_fs 6 = replicate 1024 0"
proof -
  have l: "length rec_desc = 1024" "length rec_data = 1024" "length rec_commit = 1024"
    by (simp_all add: rec_desc_def rec_data_def rec_commit_def)
  have m: "map rec_image [4096..<4096 + 1024] = rec_desc" "map rec_image [5120..<5120 + 1024] = rec_data"
    "map rec_image [6144..<6144 + 1024] = rec_commit" "map rec_image [7168..<7168 + 1024] = replicate 1024 0"
    by (rule map_window; simp add: rec_image_def l)+
  show "log_view rec_fs rec_jf 1 = rec_desc" "log_view rec_fs rec_jf 2 = rec_data" "log_view rec_fs rec_jf 3 = rec_commit"
    "fs_view rec_fs 6 = replicate 1024 0"
    unfolding log_view_def rec_jplace using m rec_view [of 3] rec_view [of 4] rec_view [of 5] rec_view [of 6]
    by (simp_all del: upt_conv_Cons_Cons upt_rec_numeral)
qed

lemma rec_features: "JBD_HAS_INCOMPAT_FEATURE (jf_sb rec_jf) m \<longleftrightarrow> False" "jbd_has_csum (jf_sb rec_jf) = 0"
  by (simp_all add: JBD_HAS_INCOMPAT_FEATURE_def jbd_has_csum_def rec_jf_def jbd_sb_of_def get_le_def)

definition rec_tag :: tag_info where
  "rec_tag = \<lparr>tag_bytes = 8, tag_block = 6, is_escape = False, uuid_exist = False, tag_uuid = replicate 16 0,
     last_tag = True, tag_checksum = 0\<rparr>"

lemma rec_words: "reorder16 2560 = 10" "reorder32 100663296 = 6" "reorder32 16777216 = 1" "reorder32 33554432 = 2"
  "reorder32 2553887680 = 0xc03b3998"
  by (simp_all add: reorder16_def reorder32_def)

lemma rec_tag_at: "jbd_extract_block_tag (jf_sb rec_jf) rec_desc 12 8 1012 tag_undef = Some (EOK, rec_tag)"
  by (simp add: jbd_extract_block_tag_def rec_features jbd_sizes tag_flags_def tag_blocknr_def rec_desc_def get_le_def
      to_be32_def to_be16_def JBD_FLAG_ESCAPE_def JBD_FLAG_SAME_UUID_def JBD_FLAG_LAST_TAG_def rec_tag_def tag_undef_def
      Let_def rec_words)

lemma rec_tags: "block_tags (jf_sb rec_jf) rec_desc = Some [rec_tag]"
proof -
  have b: "jbd_tag_bytes (jf_sb rec_jf) = 8" by (simp add: jbd_tag_bytes_def rec_features jbd_sizes)
  show ?thesis
    by (simp add: block_tags_def jbd_iterate_block_table_def jbd_sizes rec_features rec_sb Let_def)
      (subst block_table_loop.simps, simp add: b rec_tag_at, simp add: rec_tag_def)
qed

lemma rec_log:
  "log_from (jf_sb rec_jf) (log_view rec_fs rec_jf) 1 1 1 [Log_Descriptor [rec_tag], Log_Commit]"
proof -
  have hd: "to_be32 (get_le 4 0 rec_desc) = JBD_MAGIC_NUMBER" "to_be32 (get_le 4 4 rec_desc) = 1" "to_be32 (get_le 4 8 rec_desc) = 1"
    "to_be32 (get_le 4 0 rec_commit) = JBD_MAGIC_NUMBER" "to_be32 (get_le 4 4 rec_commit) = 2" "to_be32 (get_le 4 8 rec_commit) = 1"
    by (simp_all add: rec_desc_def rec_commit_def get_le_def to_be32_def rec_words JBD_MAGIC_NUMBER_def)
  have w: "wrap_log (jf_sb rec_jf) 2 = 2" "wrap_log (jf_sb rec_jf) 3 = 3" "wrap_log (jf_sb rec_jf) 4 = 1"
    by (simp_all add: wrap_log_def rec_sb to_be32_twice)
  show ?thesis
    by (simp add: rec_in_log rec_logs record_at_def header_ok_def hd block_types jbd_verify_meta_csum_def
        jbd_verify_commit_csum_def rec_features rec_tags next_pos_def next_tid_def log_size_def rec_sb to_be32_twice w)
qed

theorem recovery_correct_witness:
  "\<exists>fs' jf'. jbd_recover rec_fs rec_jf = Some (EOK, fs', jf') \<and> js_start (jf_sb jf') = 0 \<and>
    to_be32 (js_sequence (jf_sb jf')) = 1 \<and> fs_view rec_fs 6 = replicate 1024 0 \<and> fs_view fs' 6 = replicate 1024 5"
proof -
  let ?rs = "[Log_Descriptor [rec_tag], Log_Commit]"
  have f: "fs_bdev rec_fs = rec_dev" "jinode rec_jf = 1" by (simp_all add: rec_fs_def rec_jf_def)
  have w: "wrap_log (jf_sb rec_jf) 2 = 2" by (simp add: wrap_log_def rec_sb to_be32_twice)
  have V: "replay_log (jf_sb rec_jf) (\<lambda>_. None) (log_view rec_fs rec_jf) 1 1 (fs_view rec_fs) ?rs 6 = replicate 1024 5"
    by (simp add: w is_revoked_def unescaped_def rec_tag_def rec_logs rec_data_def Let_def)
  have b: "beside_sb rec_fs 6" by (simp add: beside_sb_def f rec_dev_ok)
  obtain fs' jf' where "jbd_recover rec_fs rec_jf = Some (EOK, fs', jf')" "js_start (jf_sb jf') = 0"
    "to_be32 (js_sequence (jf_sb jf')) = 1"
    "fs_view fs' 6 = replay_log (jf_sb rec_jf) (\<lambda>_. None) (log_view rec_fs rec_jf) 1 1 (fs_view rec_fs) ?rs 6"
    using recovery_correct [OF rec_recoverable [of "cost ?rs"] rec_sb(6), where R = "\<lambda>_. None", unfolded rec_sb(3,4)] rec_log b
    by (force simp: cost_def rec_tag_def jtargets_def rec_dev_ok rec_in_log rec_jplace f to_be32_twice)
  then show ?thesis using V rec_logs(4) by auto
qed

end
