(* ===== verification/Jbd_Facts.thy ===== *)
theory Jbd_Facts
  imports Jbd_Raw
begin

text \<open>The format of the log: what is written to it is read back, and where it is not.\<close>

section \<open>Byte order\<close>

lemma byte_masks16: "(0xff :: u16) = mask 8" "(0xff00 :: u16) = push_bit 8 (mask 8)"
  by (simp_all add: mask_eq_exp_minus_1 push_bit_eq_mult)

lemma to_be16_twice: "to_be16 (to_be16 n) = n"
  unfolding to_be16_def reorder16_def byte_masks16 by (rule bit_word_eqI) (auto simp: bit_simps not_less)

section \<open>Checksums\<close>

lemma put_bytes_twice:
  "off + length y \<le> length bs \<Longrightarrow> length x = length y \<Longrightarrow> put_bytes off x (put_bytes off y bs) = put_bytes off x bs"
  by (cases y) (auto simp: put_bytes_def min_def)

text \<open>
  C15: A descriptor or revoke block whose checksum \<open>jbd_meta_csum_set\<close> has filled in passes
  \<open>jbd_verify_meta_csum\<close>, with and without checksums, and differs from the block before in its last four
  bytes only.
\<close>

theorem meta_csum_verifies:
  assumes "jbd_meta_csum_set jsb data = Some data'"
  shows "jbd_verify_meta_csum jsb data' = Some True \<and> length data' = length data \<and>
    take (unat (jbd_bsize jsb) - 4) data' = take (unat (jbd_bsize jsb) - 4) data"
proof (cases "jbd_has_csum jsb = 0")
  case True
  then show ?thesis using assms by (simp add: jbd_meta_csum_set_def jbd_verify_meta_csum_def)
next
  case False
  let ?t = "unat (jbd_bsize jsb) - 4"
  have t: "tail_offset jsb data = Some ?t" "4 \<le> unat (jbd_bsize jsb)" "unat (jbd_bsize jsb) \<le> length data"
    using assms False by (auto simp: jbd_meta_csum_set_def tail_offset_def jbd_sizes split: if_splits)
  obtain c where c: "jbd_meta_csum jsb data = Some c" "data' = put_bytes ?t (le_bytes 4 (to_be32 c)) data"
    using assms False t(1) by (auto simp: jbd_meta_csum_set_def bind_eq_Some_conv)
  have l: "length data' = length data" using c(2) t by simp
  then have t': "tail_offset jsb data' = Some ?t" using t(2,3) by (simp add: tail_offset_def jbd_sizes)
  have "put_bytes ?t (le_bytes 4 (0 :: u32)) data' = put_bytes ?t (le_bytes 4 (0 :: u32)) data"
    unfolding c(2) using t by (simp add: put_bytes_twice)
  then have "jbd_meta_csum jsb data' = Some c" using c(1) False t(1) t' by (simp add: jbd_meta_csum_def)
  moreover have "(get_le 4 ?t data' :: u32) = to_be32 c" unfolding c(2) using t by (simp add: get_le_put_same)
  moreover have "take ?t data' = take ?t data"
    using put_bytes_other [of ?t "le_bytes 4 (to_be32 c)" data 0 ?t] t(2,3) unfolding c(2) by simp
  ultimately show ?thesis using False t' l by (simp add: jbd_verify_meta_csum_def to_be32_twice)
qed

text \<open>
  C26: With checksums, the checksum that \<open>jbd_commit_csum_set\<close> stores in a commit block passes
  \<open>jbd_verify_commit_csum\<close> only if it reads the same from both ends: it is stored in the order of the host and
  compared in big-endian order.
\<close>

theorem commit_csum_order:
  assumes "jbd_has_csum jsb \<noteq> 0" "20 \<le> unat (jbd_bsize jsb)" "jbd_commit_csum_set jsb data = Some data'"
  shows "\<exists>c. jbd_commit_csum jsb data' = Some c \<and> get_le 4 16 data' = c \<and>
    jbd_verify_commit_csum jsb data' = Some (c = to_be32 c)"
proof -
  let ?d = "put_bytes 12 [0, 0] data"
  obtain c where c: "jbd_commit_csum jsb ?d = Some c" "data' = put_bytes 16 (le_bytes 4 c) ?d" "20 \<le> length data"
    using assms by (auto simp: jbd_commit_csum_set_def bind_eq_Some_conv Let_def split: if_splits)
  have l: "length ?d = length data" "length data' = length data" using c(2,3) by simp_all
  have z: "put_bytes 16 (le_bytes 4 (0 :: u32)) data' = put_bytes 16 (le_bytes 4 (0 :: u32)) ?d"
    unfolding c(2) using c(3) by (simp add: put_bytes_twice)
  have "jbd_commit_csum jsb data' = Some c"
    using c(1,3) assms(1) l z by (simp add: jbd_commit_csum_def split: if_splits)
  moreover have "get_le 4 16 data' = c" unfolding c(2) using c(3) by (simp add: get_le_put_same)
  ultimately show ?thesis using assms(1) c(3) l by (simp add: jbd_verify_commit_csum_def)
qed

section \<open>Tags\<close>

text \<open>The bytes of a tag with its first twelve or sixteen bytes inside the block.\<close>

abbreviation has_64 :: "jbd_sb \<Rightarrow> bool" where "has_64 jsb \<equiv> JBD_HAS_INCOMPAT_FEATURE jsb JBD_FEATURE_INCOMPAT_64BIT"
abbreviation has_v2 :: "jbd_sb \<Rightarrow> bool" where "has_v2 jsb \<equiv> JBD_HAS_INCOMPAT_FEATURE jsb JBD_FEATURE_INCOMPAT_CSUM_V2"
abbreviation has_v3 :: "jbd_sb \<Rightarrow> bool" where "has_v3 jsb \<equiv> JBD_HAS_INCOMPAT_FEATURE jsb JBD_FEATURE_INCOMPAT_CSUM_V3"

definition tag_room :: "jbd_sb \<Rightarrow> nat \<Rightarrow> bytes \<Rightarrow> bool" where
  "tag_room jsb off data \<longleftrightarrow> off + (if has_v3 jsb then 16 else 12) \<le> length data"

text \<open>What a tag says: its flags, its block, and the bytes behind it.\<close>

definition tag_says :: "jbd_sb \<Rightarrow> nat \<Rightarrow> bytes \<Rightarrow> u32 \<Rightarrow> u64 \<Rightarrow> bytes \<Rightarrow> bool" where
  "tag_says jsb off data flags b uuid \<longleftrightarrow>
     tag_room jsb off data \<and> tag_flags jsb off data = flags \<and> tag_blocknr jsb off data = b \<and>
     take 16 (drop (off + jbd_tag_bytes jsb) data) = uuid"

lemma ucast_16_32: "ucast (ucast x :: u32) = (x :: u16)"
  by (rule bit_word_eqI) (simp add: bit_simps)

lemma small_flag:
  assumes "flag \<in> {JBD_FLAG_ESCAPE, JBD_FLAG_SAME_UUID, JBD_FLAG_LAST_TAG}"
  shows "ucast (ucast (ucast (x :: u16) OR flag) :: u16) = (ucast x OR flag :: u32)"
proof -
  have "flag = ucast (ucast flag :: u16)"
    using assms unfolding JBD_FLAG_ESCAPE_def JBD_FLAG_SAME_UUID_def JBD_FLAG_LAST_TAG_def by auto
  then obtain f :: u16 where "flag = ucast f" by blast
  then show ?thesis by (simp add: unsigned_or_eq [symmetric] ucast_16_32)
qed

lemma set_flag_says:
  assumes "tag_says jsb off data flags b uuid" "flag \<in> {JBD_FLAG_ESCAPE, JBD_FLAG_SAME_UUID, JBD_FLAG_LAST_TAG}"
  shows "tag_says jsb off (tag_set_flag jsb off flag data) (flags OR flag) b uuid \<and>
    length (tag_set_flag jsb off flag data) = length data"
  using assms jbd_tag_bytes_ge [of jsb]
  by (auto simp: tag_says_def tag_room_def tag_set_flag_def tag_flags_def tag_blocknr_def Let_def get_le_put_same
      get_le_put_other put_bytes_other to_be32_twice to_be16_twice small_flag)

lemma csum_set_says:
  assumes "tag_says jsb off data flags b uuid" "\<not> (has_v2 jsb \<and> has_v3 jsb)"
  shows "tag_says jsb off (jbd_block_tag_csum_set jsb off c data) flags b uuid \<and>
    length (jbd_block_tag_csum_set jsb off c data) = length data"
proof -
  have "has_v3 jsb \<Longrightarrow> jbd_tag_bytes jsb = 16" by (simp add: jbd_tag_bytes_def jbd_sizes)
  then show ?thesis
    using assms jbd_tag_bytes_ge [of jsb]
    by (auto simp: tag_says_def tag_room_def jbd_block_tag_csum_set_def jbd_has_csum_def tag_flags_def tag_blocknr_def Let_def
        get_le_put_other put_bytes_other)
qed

text \<open>The block number of a tag keeps its low half only when block numbers are 32 bits wide.\<close>

definition tag_number :: "jbd_sb \<Rightarrow> u64 \<Rightarrow> u64" where
  "tag_number jsb b = (if has_64 jsb then b else ucast (ucast b :: u32))"

lemma join_halves: "ucast (ucast b :: u32) OR push_bit 32 (ucast (ucast (drop_bit 32 b) :: u32)) = (b :: u64)"
  by (rule bit_word_eqI) (auto simp: bit_simps not_less)

lemma cleared_says:
  assumes "tag_room jsb off data" and n: "n = (if has_v3 jsb then 16 else 12)"
    and d: "d = put_bytes off (le_bytes 4 (to_be32 (ucast b))) (put_bytes off (replicate n 0) data)"
    and e: "e = (if has_64 jsb then put_bytes (off + 8) (le_bytes 4 (to_be32 (ucast (drop_bit 32 b)))) d else d)"
  shows "\<exists>uuid. tag_says jsb off e 0 (tag_number jsb b) uuid \<and> length e = length data"
proof -
  have n': "off + n \<le> length data" "12 \<le> n" using assms(1) n by (auto simp: tag_room_def)
  have len: "length d = length data" "length e = length data" using n' by (auto simp: d e)
  have z: "get_le 4 (off + 4) (put_bytes off (replicate n 0) data) = (0 :: u32)"
    "get_le 2 (off + 6) (put_bytes off (replicate n 0) data) = (0 :: u16)"
    using n' by (simp_all add: get_le_put_copy get_le_zeros)
  have be0: "to_be32 0 = 0" "to_be16 0 = 0" by (simp_all add: to_be32_def to_be16_def reorder32_def reorder16_def)
  have "tag_flags jsb off e = 0"
    using n' len by (simp add: tag_flags_def e d z be0 get_le_put_other)
  moreover have "tag_blocknr jsb off e = tag_number jsb b"
    using n' len
    by (simp add: tag_blocknr_def tag_number_def e d get_le_put_other get_le_put_same to_be32_twice join_halves)
  ultimately show ?thesis using assms(1) len by (auto simp: tag_says_def tag_room_def)
qed

lemma put_uuid_says:
  assumes "tag_says jsb off data flags b u" "length uuid = 16" "off + jbd_tag_bytes jsb + 16 \<le> length data"
  shows "tag_says jsb off (put_bytes (off + jbd_tag_bytes jsb) uuid data) flags b uuid"
proof -
  have "has_v3 jsb \<Longrightarrow> 16 \<le> jbd_tag_bytes jsb" "has_64 jsb \<Longrightarrow> 12 \<le> jbd_tag_bytes jsb"
    by (simp_all add: jbd_tag_bytes_def jbd_sizes)
  then show ?thesis
    using assms jbd_tag_bytes_ge [of jsb]
    by (auto simp: tag_says_def tag_room_def tag_flags_def tag_blocknr_def Let_def get_le_put_other put_bytes_same)
qed

lemma says_extract:
  assumes "tag_says jsb off data flags b uuid" "off + jbd_tag_bytes jsb \<le> length data" "int (jbd_tag_bytes jsb) \<le> remain"
    and "flags AND JBD_FLAG_SAME_UUID = 0 \<Longrightarrow>
      int (jbd_tag_bytes jsb) + 16 \<le> remain \<and> off + jbd_tag_bytes jsb + 16 \<le> length data"
  shows "jbd_extract_block_tag jsb data off (jbd_tag_bytes jsb) remain ti = Some (EOK, ti
    \<lparr>tag_bytes := jbd_tag_bytes jsb + (if flags AND JBD_FLAG_SAME_UUID = 0 then 16 else 0), tag_block := b,
      is_escape := flags AND JBD_FLAG_ESCAPE \<noteq> 0, uuid_exist := flags AND JBD_FLAG_SAME_UUID = 0,
      tag_uuid := (if flags AND JBD_FLAG_SAME_UUID = 0 then uuid else tag_uuid ti),
      last_tag := flags AND JBD_FLAG_LAST_TAG \<noteq> 0\<rparr>)"
  using assms
  by (cases "flags AND JBD_FLAG_SAME_UUID = 0") (auto simp: jbd_extract_block_tag_def tag_says_def jbd_sizes Let_def)

lemma flag_bits:
  "JBD_FLAG_SAME_UUID AND JBD_FLAG_ESCAPE = 0" "JBD_FLAG_SAME_UUID AND JBD_FLAG_LAST_TAG = 0"
  "JBD_FLAG_ESCAPE AND JBD_FLAG_SAME_UUID = 0" "JBD_FLAG_ESCAPE AND JBD_FLAG_LAST_TAG = 0"
  "JBD_FLAG_LAST_TAG AND JBD_FLAG_SAME_UUID = 0" "JBD_FLAG_LAST_TAG AND JBD_FLAG_ESCAPE = 0"
  "JBD_FLAG_SAME_UUID \<noteq> 0" "JBD_FLAG_LAST_TAG \<noteq> 0" "JBD_FLAG_ESCAPE \<noteq> 0"
  by (simp_all add: JBD_FLAG_ESCAPE_def JBD_FLAG_SAME_UUID_def JBD_FLAG_LAST_TAG_def)

text \<open>
  C14: A tag that \<open>jbd_write_block_tag\<close> writes is read back by \<open>jbd_extract_block_tag\<close>: the block number (its low
  half when the log has 32-bit block numbers), the flags, the UUID and the size of the tag, for every
  version of the tag. A log with the flags of both checksum versions is left out.
\<close>

theorem tag_roundtrip:
  assumes w: "jbd_write_block_tag jsb data off remain ti = Some (EOK, data', ti')"
    and ver: "\<not> (has_v2 jsb \<and> has_v3 jsb)" and uuid: "length (tag_uuid ti) = 16"
  shows "\<exists>t. jbd_extract_block_tag jsb data' off (jbd_tag_bytes jsb) remain tag_undef = Some (EOK, t) \<and>
    tag_bytes t = tag_bytes ti' \<and> tag_block t = tag_number jsb (tag_block ti) \<and> is_escape t = is_escape ti \<and>
    uuid_exist t = uuid_exist ti \<and> (uuid_exist ti \<longrightarrow> tag_uuid t = tag_uuid ti) \<and> last_tag t = last_tag ti \<and>
    length data' = length data"
proof -
  let ?n = "if has_v3 jsb then 16 else 12" and ?b = "tag_number jsb (tag_block ti)" and ?bytes = "jbd_tag_bytes jsb"
  define d1 where "d1 = put_bytes off (le_bytes 4 (to_be32 (ucast (tag_block ti)))) (put_bytes off (replicate ?n 0) data)"
  define d2 where "d2 = (if has_64 jsb then put_bytes (off + 8) (le_bytes 4 (to_be32 (ucast (drop_bit 32 (tag_block ti))))) d1 else d1)"
  define d3 where "d3 = (if uuid_exist ti then put_bytes (off + ?bytes) (tag_uuid ti) d2 else tag_set_flag jsb off JBD_FLAG_SAME_UUID d2)"
  define d4 where "d4 = jbd_block_tag_csum_set jsb off (tag_checksum ti) d3"
  define d5 where "d5 = (if last_tag ti then tag_set_flag jsb off JBD_FLAG_LAST_TAG d4 else d4)"
  define d6 where "d6 = (if is_escape ti then tag_set_flag jsb off JBD_FLAG_ESCAPE d5 else d5)"
  have W: "tag_room jsb off data" "off + ?bytes \<le> length data" "int ?bytes \<le> remain"
    "uuid_exist ti \<Longrightarrow> int ?bytes + 16 \<le> remain \<and> off + ?bytes + 16 \<le> length data"
    "data' = d6" "tag_bytes ti' = ?bytes + (if uuid_exist ti then 16 else 0)"
    using w uuid
    by (auto simp: jbd_write_block_tag_def jbd_sizes Let_def tag_room_def d1_def d2_def d3_def d4_def d5_def d6_def
        split: if_splits)
  let ?same = "if uuid_exist ti then 0 else JBD_FLAG_SAME_UUID"
    and ?last = "if last_tag ti then JBD_FLAG_LAST_TAG else 0" and ?esc = "if is_escape ti then JBD_FLAG_ESCAPE else 0"
  obtain u where s2: "tag_says jsb off d2 0 ?b u" "length d2 = length data"
    using cleared_says [OF W(1) refl d1_def d2_def] by blast
  have s3: "\<exists>u. tag_says jsb off d3 ?same ?b u \<and> (uuid_exist ti \<longrightarrow> u = tag_uuid ti) \<and> length d3 = length data"
  proof (cases "uuid_exist ti")
    case True
    then show ?thesis using put_uuid_says [OF s2(1) uuid] s2(2) W(4) uuid by (simp add: d3_def)
  next
    case False
    then show ?thesis using set_flag_says [OF s2(1), of JBD_FLAG_SAME_UUID] s2(2) by (auto simp: d3_def)
  qed
  then obtain u3 where s3: "tag_says jsb off d3 ?same ?b u3" "uuid_exist ti \<Longrightarrow> u3 = tag_uuid ti" "length d3 = length data"
    by blast
  have s4: "tag_says jsb off d4 ?same ?b u3" "length d4 = length data"
    using csum_set_says [OF s3(1) ver, of "tag_checksum ti"] s3(3) by (simp_all add: d4_def)
  have s5: "tag_says jsb off d5 (?same OR ?last) ?b u3" "length d5 = length data"
    using set_flag_says [OF s4(1), of JBD_FLAG_LAST_TAG] s4 by (simp_all add: d5_def)
  have s6: "tag_says jsb off d6 (?same OR ?last OR ?esc) ?b u3" "length d6 = length data"
    using set_flag_says [OF s5(1), of JBD_FLAG_ESCAPE] s5 by (simp_all add: d6_def or.assoc)
  have f: "(?same OR ?last OR ?esc) AND JBD_FLAG_SAME_UUID = 0 \<longleftrightarrow> uuid_exist ti"
    "(?same OR ?last OR ?esc) AND JBD_FLAG_LAST_TAG \<noteq> 0 \<longleftrightarrow> last_tag ti"
    "(?same OR ?last OR ?esc) AND JBD_FLAG_ESCAPE \<noteq> 0 \<longleftrightarrow> is_escape ti"
    by (simp_all add: bit.conj_disj_distrib2 flag_bits)
  show ?thesis
    using says_extract [OF s6(1), of remain tag_undef, unfolded f] s6(2) W s3(2) by auto
qed

theorem tag_roundtrip_witness:
  "\<exists>data' ti' t. jbd_write_block_tag (jf_sb rec_jf) (replicate 1024 0) 12 1012 (rec_tag\<lparr>is_escape := True\<rparr>) = Some (EOK, data', ti') \<and>
    jbd_extract_block_tag (jf_sb rec_jf) data' 12 8 1012 tag_undef = Some (EOK, t) \<and>
    tag_block t = 6 \<and> is_escape t \<and> last_tag t \<and> \<not> uuid_exist t"
proof -
  have b: "jbd_tag_bytes (jf_sb rec_jf) = 8" by (simp add: jbd_tag_bytes_def rec_features jbd_sizes)
  have "\<exists>data' ti'. jbd_write_block_tag (jf_sb rec_jf) (replicate 1024 0) 12 1012 (rec_tag\<lparr>is_escape := True\<rparr>) = Some (EOK, data', ti')"
    by (simp add: jbd_write_block_tag_def b rec_features jbd_sizes rec_tag_def Let_def)
  then obtain data' ti' where
    w: "jbd_write_block_tag (jf_sb rec_jf) (replicate 1024 0) 12 1012 (rec_tag\<lparr>is_escape := True\<rparr>) = Some (EOK, data', ti')"
    by blast
  show ?thesis using w tag_roundtrip [OF w] by (simp add: rec_features b tag_number_def) (auto simp: rec_tag_def)
qed

text \<open>A log with checksums.\<close>

definition csum_sb :: jbd_sb where
  "csum_sb = (jf_sb rec_jf)\<lparr>js_h_blocktype := to_be32 JBD_SUPERBLOCK_V2, js_feature_incompat := to_be32 JBD_FEATURE_INCOMPAT_CSUM_V3\<rparr>"

lemma csum_sb_has: "jbd_has_csum csum_sb \<noteq> 0" "unat (jbd_bsize csum_sb) = 1024"
  using rec_sb(5)
  by (simp_all add: csum_sb_def jbd_has_csum_def JBD_HAS_INCOMPAT_FEATURE_def JBD_SUPERBLOCK_V2_def jbd_bsize_def
      JBD_FEATURE_INCOMPAT_CSUM_V2_def JBD_FEATURE_INCOMPAT_CSUM_V3_def to_be32_def reorder32_def)

theorem meta_csum_verifies_witness:
  "\<exists>data'. jbd_meta_csum_set csum_sb (replicate 1024 7) = Some data' \<and> jbd_verify_meta_csum csum_sb data' = Some True \<and>
    take 1020 data' = replicate 1020 7"
proof -
  have "\<exists>data'. jbd_meta_csum_set csum_sb (replicate 1024 7) = Some data'"
    by (simp add: jbd_meta_csum_set_def jbd_meta_csum_def tail_offset_def csum_sb_has jbd_sizes)
  then obtain data' where w: "jbd_meta_csum_set csum_sb (replicate 1024 7) = Some data'" by blast
  show ?thesis using w meta_csum_verifies [OF w] by (simp add: csum_sb_has)
qed

theorem commit_csum_order_witness:
  "\<exists>data' c. jbd_commit_csum_set csum_sb (replicate 1024 7) = Some data' \<and> get_le 4 16 data' = c \<and>
    jbd_verify_commit_csum csum_sb data' = Some (c = to_be32 c)"
proof -
  have "\<exists>data'. jbd_commit_csum_set csum_sb (replicate 1024 7) = Some data'"
    by (simp add: jbd_commit_csum_set_def jbd_commit_csum_def csum_sb_has Let_def)
  then obtain data' where w: "jbd_commit_csum_set csum_sb (replicate 1024 7) = Some data'" by blast
  show ?thesis using w commit_csum_order [OF csum_sb_has(1) _ w] by (simp add: csum_sb_has)
qed

end
