(* ===== verification/Jbd_Trans.thy ===== *)
theory Jbd_Trans
  imports Jbd
begin

text \<open>
  The part of \<open>src/ext4_journal.c\<close> that keeps the books of transactions: starting a session of the
  journal, a new transaction, and what it records when blocks are modified or revoked. Nothing here writes a
  block that belongs to a transaction, so no end of write is reported.

  The structures point to each other. An object is a number, the count of the call of the allocator that made
  it; the journal holds the objects that are alive. A list or a queue is the list of its objects from its head
  on, a red-black tree is the list of its objects in ascending order, and a revoke record, which only its tree
  refers to, is the block that it names. A result of type \<open>option\<close> is \<open>None\<close> where a pointer is followed
  that points to nothing.
\<close>

section \<open>State\<close>

record jbd_buf =
  jb_lba :: u32
  jb_block :: ext4_block
  jb_trans :: nat
  jb_rec :: nat

record jbd_block_rec =
  br_lba :: u64
  br_trans :: "nat option"
  br_dirty :: "nat list"

record jbd_trans =
  tr_id :: u32
  tr_start_iblock :: u32
  tr_alloc_blocks :: int
  tr_data_cnt :: int
  tr_data_csum :: u32
  tr_written_cnt :: int
  tr_error :: errno
  tr_bufs :: "nat list"
  tr_revoke :: "u64 list"
  tr_recs :: "nat list"

record jbd_journal =
  jo_first :: u32
  jo_start :: u32
  jo_last :: u32
  jo_trans_id :: u32
  jo_alloc_trans_id :: u32
  jo_block_size :: u32
  jo_cp_queue :: "nat list"
  jo_rec_root :: "nat list"
  jo_bufs :: "nat \<rightharpoonup> jbd_buf"
  jo_recs :: "nat \<rightharpoonup> jbd_block_rec"
  jo_trans :: "nat \<rightharpoonup> jbd_trans"

definition journal_zero :: jbd_journal where
  "journal_zero = \<lparr>jo_first = 0, jo_start = 0, jo_last = 0, jo_trans_id = 0, jo_alloc_trans_id = 0, jo_block_size = 0,
     jo_cp_queue = [], jo_rec_root = [], jo_bufs = (\<lambda>_. None), jo_recs = (\<lambda>_. None), jo_trans = (\<lambda>_. None)\<rparr>"

definition upd_trans :: "nat \<Rightarrow> (jbd_trans \<Rightarrow> jbd_trans) \<Rightarrow> jbd_journal \<Rightarrow> jbd_journal" where
  "upd_trans t f j = j\<lparr>jo_trans := (jo_trans j)(t := map_option f (jo_trans j t))\<rparr>"

definition upd_rec :: "nat \<Rightarrow> (jbd_block_rec \<Rightarrow> jbd_block_rec) \<Rightarrow> jbd_journal \<Rightarrow> jbd_journal" where
  "upd_rec i f j = j\<lparr>jo_recs := (jo_recs j)(i := map_option f (jo_recs j i))\<rparr>"

text \<open>\<open>ext4_calloc\<close>: the address of the object, or null.\<close>

definition fs_calloc :: "'d ext4_fs \<Rightarrow> nat option \<times> 'd ext4_fs" where
  "fs_calloc fs =
     (case fs_malloc fs of (ok, fs') \<Rightarrow> (if ok then Some (heap_next (bdev_bc (fs_bdev fs'))) else None, fs'))"

section \<open>Sessions\<close>

definition jbd_journal_write_sb :: "jbd_fs \<Rightarrow> jbd_journal \<Rightarrow> jbd_fs" where
  "jbd_journal_write_sb jf j =
     jf\<lparr>jf_sb := (jf_sb jf)\<lparr>js_start := to_be32 (jo_start j), js_sequence := to_be32 (jo_trans_id j)\<rparr>, jf_dirty := True\<rparr>"

text \<open>The pointer to the journal that the device gets is never read.\<close>

definition jbd_journal_start ::
    "'d ext4_fs \<Rightarrow> jbd_fs \<Rightarrow> jbd_journal \<Rightarrow> (errno \<times> 'd ext4_fs \<times> jbd_fs \<times> jbd_journal) option" where
  "jbd_journal_start fs jf j = do {
     let sb = (fs_sb fs)\<lparr>sb_features_incompatible := sb_features_incompatible (fs_sb fs) OR EXT4_FINCOM_RECOVER\<rparr>;
     (r, bdev, sb) \<leftarrow> ext4_sb_write (fs_bdev fs) sb;
     let fs = fs\<lparr>fs_bdev := bdev, fs_sb := sb\<rparr>;
     if r \<noteq> EOK then Some (r, fs, jf, j)
     else do {
       let first = to_be32 (js_first (jf_sb jf));
       let trans_id = to_be32 (js_sequence (jf_sb jf)) + 1;
       let j = j\<lparr>jo_first := first, jo_start := first, jo_last := first, jo_trans_id := trans_id,
         jo_alloc_trans_id := trans_id, jo_block_size := to_be32 (js_blocksize (jf_sb jf)),
         jo_cp_queue := [], jo_rec_root := []\<rparr>;
       let jf = jbd_journal_write_sb jf j;
       (r, fs, jf) \<leftarrow> jbd_write_sb fs jf;
       Some (r, fs, jf, j)
     }
   }"

text \<open>
  The end of \<open>jbd_journal_stop\<close>, behind the call that brings the checkpoint queue to the disk.
\<close>

definition journal_close ::
    "'d ext4_fs \<Rightarrow> jbd_fs \<Rightarrow> jbd_journal \<Rightarrow> (errno \<times> 'd ext4_fs \<times> jbd_fs \<times> jbd_journal) option" where
  "journal_close fs jf j = do {
     let sb = (fs_sb fs)\<lparr>sb_features_incompatible := sb_features_incompatible (fs_sb fs) AND NOT EXT4_FINCOM_RECOVER\<rparr>;
     (r, bdev, sb) \<leftarrow> ext4_sb_write (fs_bdev fs) sb;
     let fs = fs\<lparr>fs_bdev := bdev, fs_sb := sb\<rparr>;
     if r \<noteq> EOK then Some (r, fs, jf, j)
     else do {
       let j = j\<lparr>jo_start := 0, jo_trans_id := 0\<rparr>;
       let jf = jbd_journal_write_sb jf j;
       (r, fs, jf) \<leftarrow> jbd_write_sb fs jf;
       Some (r, fs, jf, j)
     }
   }"

text \<open>
  \<open>__ext4_journal_start\<close> for the mount point that was found: the journal is attached when the last component
  is \<open>True\<close>.
\<close>

definition fs_journal_start ::
    "'d ext4_fs \<Rightarrow> jbd_fs \<Rightarrow> jbd_journal \<Rightarrow> (errno \<times> 'd ext4_fs \<times> jbd_fs \<times> jbd_journal \<times> bool) option" where
  "fs_journal_start fs jf j =
     (if fs_read_only fs then Some (EOK, fs, jf, j, False)
      else if ext4_sb_feature_com (fs_sb fs) EXT4_FCOM_HAS_JOURNAL
      then do {
        (r, fs, jf) \<leftarrow> jbd_get_fs fs;
        if r \<noteq> EOK then Some (r, fs, jf, j, False)
        else do {
          (r, fs, jf, j) \<leftarrow> jbd_journal_start fs jf j;
          if r \<noteq> EOK
          then do {
            (_, fs, jf) \<leftarrow> jbd_put_fs fs (jf\<lparr>jf_dirty := False\<rparr>);
            Some (r, fs, jf, j, False)
          }
          else Some (EOK, fs, jf, j, True)
        }
      }
      else Some (EOK, fs, jf, j, False))"

section \<open>Transactions\<close>

definition jbd_journal_new_trans :: "'d ext4_fs \<Rightarrow> jbd_journal \<Rightarrow> nat option \<times> 'd ext4_fs \<times> jbd_journal" where
  "jbd_journal_new_trans fs j =
     (case fs_calloc fs of
        (None, fs) \<Rightarrow> (None, fs, j)
      | (Some t, fs) \<Rightarrow> (Some t, fs, j\<lparr>jo_trans := (jo_trans j)(t \<mapsto>
          \<lparr>tr_id = 0, tr_start_iblock = 0, tr_alloc_blocks = 0, tr_data_cnt = 0, tr_data_csum = EXT4_CRC32_INIT,
           tr_written_cnt = 0, tr_error = EOK, tr_bufs = [], tr_revoke = [], tr_recs = []\<rparr>)\<rparr>))"

definition rec_lba :: "jbd_journal \<Rightarrow> nat \<Rightarrow> u64" where
  "rec_lba j i = br_lba (the (jo_recs j i))"

definition jbd_trans_block_rec_lookup :: "jbd_journal \<Rightarrow> u64 \<Rightarrow> nat option" where
  "jbd_trans_block_rec_lookup j lba = List.find (\<lambda>i. rec_lba j i = lba) (jo_rec_root j)"

text \<open>A record without an owner that is alive is in no list, and \<open>LIST_REMOVE\<close> would follow stale pointers.\<close>

definition jbd_trans_change_ownership :: "jbd_journal \<Rightarrow> nat \<Rightarrow> nat option \<Rightarrow> jbd_journal option" where
  "jbd_trans_change_ownership j i new_trans = do {
     r \<leftarrow> jo_recs j i;
     old \<leftarrow> br_trans r;
     _ \<leftarrow> jo_trans j old;
     let j = upd_trans old (\<lambda>t. t\<lparr>tr_recs := remove1 i (tr_recs t)\<rparr>) j;
     let j = (case new_trans of None \<Rightarrow> j | Some n \<Rightarrow> upd_trans n (\<lambda>t. t\<lparr>tr_recs := i # tr_recs t\<rparr>) j);
     Some (upd_rec i (\<lambda>r. r\<lparr>br_trans := new_trans\<rparr>) j)
   }"

text \<open>\<open>RB_INSERT\<close> by block number.\<close>

fun rb_insert_rec :: "(nat \<Rightarrow> u64) \<Rightarrow> nat \<Rightarrow> nat list \<Rightarrow> nat list" where
  "rb_insert_rec key x [] = [x]"
| "rb_insert_rec key x (y # ys) = (if key x < key y then x # y # ys else y # rb_insert_rec key x ys)"

definition jbd_trans_insert_block_rec ::
    "'d ext4_fs \<Rightarrow> jbd_journal \<Rightarrow> nat \<Rightarrow> u64 \<Rightarrow> (nat option \<times> 'd ext4_fs \<times> jbd_journal) option" where
  "jbd_trans_insert_block_rec fs j tid lba = do {
     _ \<leftarrow> jo_trans j tid;
     case jbd_trans_block_rec_lookup j lba of
       Some i \<Rightarrow> do {
         j \<leftarrow> jbd_trans_change_ownership j i (Some tid);
         Some (Some i, fs, j)
       }
     | None \<Rightarrow>
         (case fs_calloc fs of
            (None, fs) \<Rightarrow> Some (None, fs, j)
          | (Some i, fs) \<Rightarrow>
              let j = j\<lparr>jo_recs := (jo_recs j)(i \<mapsto> \<lparr>br_lba = lba, br_trans = Some tid, br_dirty = []\<rparr>)\<rparr>;
                  j = upd_trans tid (\<lambda>t. t\<lparr>tr_recs := i # tr_recs t\<rparr>) j;
                  j = j\<lparr>jo_rec_root := rb_insert_rec (rec_lba j) i (jo_rec_root j)\<rparr>
              in Some (Some i, fs, j))
   }"

text \<open>The callback that a buffer of a transaction carries.\<close>

definition JBD_TRANS_END_WRITE :: nat where "JBD_TRANS_END_WRITE = 1"

definition owned_by :: "jbd_journal \<Rightarrow> nat \<Rightarrow> ext4_buf \<Rightarrow> bool option" where
  "owned_by j tid bf =
     (if buf_end_write bf = Some JBD_TRANS_END_WRITE \<and> buf_end_write_arg bf \<noteq> 0
      then do { jb \<leftarrow> jo_bufs j (buf_end_write_arg bf); Some (jb_trans jb = tid) }
      else Some False)"

definition jbd_trans_set_block_dirty ::
    "'d ext4_fs \<Rightarrow> jbd_journal \<Rightarrow> nat \<Rightarrow> ext4_block \<Rightarrow> (errno \<times> 'd ext4_fs \<times> jbd_journal) option" where
  "jbd_trans_set_block_dirty fs j tid block = do {
     buf \<leftarrow> blk_buf block;
     bf \<leftarrow> bc_bufs (bdev_bc (fs_bdev fs)) buf;
     owned \<leftarrow> owned_by j tid bf;
     if owned then Some (EOK, fs, j)
     else (case fs_calloc fs of
             (None, fs) \<Rightarrow> Some (ENOMEM, fs, j)
           | (Some jb, fs) \<Rightarrow> do {
               (block_rec, fs, j) \<leftarrow> jbd_trans_insert_block_rec fs j tid (blk_lb_id block);
               case block_rec of
                 None \<Rightarrow> Some (ENOMEM, fs, j)
               | Some i \<Rightarrow> do {
                   let j = upd_rec i (\<lambda>r. r\<lparr>br_dirty := br_dirty r @ [jb]\<rparr>) j;
                   let j = j\<lparr>jo_bufs := (jo_bufs j)(jb \<mapsto>
                     \<lparr>jb_lba = 0, jb_block = block, jb_trans = tid, jb_rec = i\<rparr>)\<rparr>;
                   let fs = fs\<lparr>fs_bdev := upd_bc (upd_buf buf ext4_bcache_inc_ref) (fs_bdev fs)\<rparr>;
                   let fs = fs\<lparr>fs_bdev := upd_bc (upd_buf buf
                     (\<lambda>bf. bf\<lparr>buf_end_write := Some JBD_TRANS_END_WRITE, buf_end_write_arg := jb\<rparr>)) (fs_bdev fs)\<rparr>;
                   let j = upd_trans tid (\<lambda>t. t\<lparr>tr_data_cnt := tr_data_cnt t + 1, tr_bufs := jb # tr_bufs t\<rparr>) j;
                   let fs = fs\<lparr>fs_bdev := upd_bc (upd_buf buf ext4_bcache_set_dirty) (fs_bdev fs)\<rparr>;
                   let j = upd_trans tid (\<lambda>t. t\<lparr>tr_revoke := filter (\<lambda>b. b \<noteq> blk_lb_id block) (tr_revoke t)\<rparr>) j;
                   Some (EOK, fs, j)
                 }
             })
   }"

definition jbd_trans_revoke_block ::
    "'d ext4_fs \<Rightarrow> jbd_journal \<Rightarrow> nat \<Rightarrow> u64 \<Rightarrow> (errno \<times> 'd ext4_fs \<times> jbd_journal) option" where
  "jbd_trans_revoke_block fs j tid lba = do {
     t \<leftarrow> jo_trans j tid;
     if lba \<in> set (tr_revoke t) then Some (EOK, fs, j)
     else (case fs_calloc fs of
             (None, fs) \<Rightarrow> Some (ENOMEM, fs, j)
           | (Some _, fs) \<Rightarrow> Some (EOK, fs, upd_trans tid (\<lambda>t. t\<lparr>tr_revoke := insort lba (tr_revoke t)\<rparr>) j))
   }"

text \<open>The result of revoking is not looked at.\<close>

definition jbd_trans_try_revoke_block ::
    "'d ext4_fs \<Rightarrow> jbd_journal \<Rightarrow> nat \<Rightarrow> u64 \<Rightarrow> (errno \<times> 'd ext4_fs \<times> jbd_journal) option" where
  "jbd_trans_try_revoke_block fs j tid lba =
     (case jbd_trans_block_rec_lookup j lba of
        None \<Rightarrow> Some (EOK, fs, j)
      | Some i \<Rightarrow> do {
          r \<leftarrow> jo_recs j i;
          if br_trans r = Some tid \<and> length (br_dirty r) \<le> 1
          then Some (EOK, fs, j)
          else do {
            (_, fs, j) \<leftarrow> jbd_trans_revoke_block fs j tid lba;
            Some (EOK, fs, j)
          }
        })"

section \<open>The front end\<close>

text \<open>
  \<open>__ext4_trans_start\<close>, and \<open>ext4_trans_set_block_dirty\<close> of a file system that may have a journal attached and
  a current transaction.
\<close>

definition fs_trans_start ::
    "'d ext4_fs \<Rightarrow> jbd_journal option \<Rightarrow> nat option \<Rightarrow> errno \<times> 'd ext4_fs \<times> jbd_journal option \<times> nat option" where
  "fs_trans_start fs journal curr_trans =
     (case (journal, curr_trans) of
        (Some j, None) \<Rightarrow>
          (case jbd_journal_new_trans fs j of
             (None, fs, j) \<Rightarrow> (ENOMEM, fs, Some j, None)
           | (Some t, fs, j) \<Rightarrow> (EOK, fs, Some j, Some t))
      | _ \<Rightarrow> (EOK, fs, journal, curr_trans))"

definition fs_trans_set_block_dirty ::
    "'d ext4_fs \<Rightarrow> jbd_journal option \<Rightarrow> nat option \<Rightarrow> u64 \<Rightarrow> (errno \<times> 'd ext4_fs \<times> jbd_journal option) option" where
  "fs_trans_set_block_dirty fs journal curr_trans buf = do {
     bf \<leftarrow> bc_bufs (bdev_bc (fs_bdev fs)) buf;
     case (journal, curr_trans) of
       (Some j, Some t) \<Rightarrow> do {
         (r, fs, j) \<leftarrow> jbd_trans_set_block_dirty fs j t \<lparr>blk_lb_id = buf_lba bf, blk_buf = Some buf, blk_data = True\<rparr>;
         Some (r, fs, Some j)
       }
     | _ \<Rightarrow> Some (EOK, fs\<lparr>fs_bdev := upd_bc (upd_buf buf ext4_bcache_set_dirty) (fs_bdev fs)\<rparr>, journal)
   }"

text \<open>With no journal, it is the operation that the rest of the development uses.\<close>

lemma trans_without_journal:
  "bc_bufs (bdev_bc (fs_bdev fs)) buf \<noteq> None \<Longrightarrow> fs_trans_set_block_dirty fs None None buf =
     (case ext4_trans_set_block_dirty (fs_bdev fs) buf of (r, bdev) \<Rightarrow> Some (r, fs\<lparr>fs_bdev := bdev\<rparr>, None))"
  by (auto simp: fs_trans_set_block_dirty_def ext4_trans_set_block_dirty_def)

text \<open>
  A buffer that is in the transaction already stays as it is, also when its block was revoked since then: the
  record of the revocation is not taken back.
\<close>

lemma dirty_again_stays_revoked:
  "blk_buf block = Some buf \<Longrightarrow> bc_bufs (bdev_bc (fs_bdev fs)) buf = Some bf \<Longrightarrow> owned_by j t bf = Some True \<Longrightarrow>
     jbd_trans_set_block_dirty fs j t block = Some (EOK, fs, j)"
  by (simp add: jbd_trans_set_block_dirty_def)

section \<open>Well-formed books\<close>

text \<open>
  Every block record in the tree is in the list of its owner, and a transaction that is alive. The records are in
  ascending order of their blocks, so there is one for a block at most.
\<close>

definition owns :: "jbd_journal \<Rightarrow> nat \<Rightarrow> nat \<Rightarrow> bool" where
  "owns j t i \<longleftrightarrow> (\<exists>r. jo_recs j i = Some r \<and> br_trans r = Some t)"

definition buf_logged :: "jbd_journal \<Rightarrow> nat \<Rightarrow> nat \<Rightarrow> bool" where
  "buf_logged j t b \<longleftrightarrow> (\<exists>jb r. jo_bufs j b = Some jb \<and> jb_trans jb = t \<and> jo_recs j (jb_rec jb) = Some r \<and>
     br_lba r = blk_lb_id (jb_block jb) \<and> b \<in> set (br_dirty r))"

definition trans_ok :: "jbd_journal \<Rightarrow> nat \<Rightarrow> jbd_trans \<Rightarrow> bool" where
  "trans_ok j t tr \<longleftrightarrow>
     distinct (tr_recs tr) \<and> (\<forall>i \<in> set (tr_recs tr). i \<in> set (jo_rec_root j) \<and> owns j t i) \<and>
     distinct (tr_bufs tr) \<and> (\<forall>b \<in> set (tr_bufs tr). buf_logged j t b) \<and>
     tr_data_cnt tr = int (length (tr_bufs tr)) + tr_written_cnt tr \<and> sorted_wrt (<) (tr_revoke tr)"

definition journal_ok :: "nat \<Rightarrow> jbd_journal \<Rightarrow> bool" where
  "journal_ok h j \<longleftrightarrow>
     sorted_wrt (\<lambda>a b. rec_lba j a < rec_lba j b) (jo_rec_root j) \<and>
     (\<forall>i \<in> set (jo_rec_root j). \<exists>t tr. owns j t i \<and> jo_trans j t = Some tr \<and> i \<in> set (tr_recs tr)) \<and>
     (\<forall>t tr. jo_trans j t = Some tr \<longrightarrow> trans_ok j t tr) \<and>
     dom (jo_bufs j) \<union> dom (jo_recs j) \<union> dom (jo_trans j) \<subseteq> {..h}"

lemma journal_okD:
  assumes "journal_ok h j"
  shows "sorted_wrt (\<lambda>a b. rec_lba j a < rec_lba j b) (jo_rec_root j)"
    "i \<in> set (jo_rec_root j) \<Longrightarrow> \<exists>t tr. owns j t i \<and> jo_trans j t = Some tr \<and> i \<in> set (tr_recs tr)"
    "jo_trans j t = Some tr \<Longrightarrow> trans_ok j t tr"
    "h < k \<Longrightarrow> jo_bufs j k = None" "h < k \<Longrightarrow> jo_recs j k = None" "h < k \<Longrightarrow> jo_trans j k = None"
  using assms unfolding journal_ok_def by (blast, blast, blast) (use assms in \<open>force simp: journal_ok_def\<close>)+

abbreviation fs_heap :: "'d ext4_fs \<Rightarrow> nat" where
  "fs_heap fs \<equiv> heap_next (bdev_bc (fs_bdev fs))"

lemma fs_calloc_heap:
  assumes "fs_calloc fs = (r, fs')"
  shows "fs_heap fs' = fs_heap fs + 1" "r = Some i \<Longrightarrow> i = fs_heap fs + 1"
  using assms by (auto simp: fs_calloc_def fs_malloc_def fs_asked_def Let_def split: if_splits)

lemma fs_calloc_bufs:
  "fs_calloc fs = (r, fs') \<Longrightarrow> bc_bufs (bdev_bc (fs_bdev fs')) = bc_bufs (bdev_bc (fs_bdev fs))"
  by (auto simp: fs_calloc_def fs_malloc_def fs_asked_def Let_def split: if_splits)

lemma journal_ok_mono: "journal_ok h j \<Longrightarrow> h \<le> h' \<Longrightarrow> journal_ok h' j"
  unfolding journal_ok_def by auto

lemma upd_trans_simps [simp]:
  "jo_recs (upd_trans t f j) = jo_recs j" "jo_bufs (upd_trans t f j) = jo_bufs j"
  "jo_rec_root (upd_trans t f j) = jo_rec_root j" "rec_lba (upd_trans t f j) = rec_lba j"
  "jo_trans (upd_trans t f j) k = (if k = t then map_option f (jo_trans j k) else jo_trans j k)"
  "owns (upd_trans t f j) = owns j" "buf_logged (upd_trans t f j) = buf_logged j"
  "trans_ok (upd_trans t f j) = trans_ok j"
  by (simp_all add: upd_trans_def rec_lba_def owns_def buf_logged_def trans_ok_def fun_eq_iff)

lemma upd_trans_dom: "dom (jo_trans (upd_trans t f j)) = dom (jo_trans j)"
  by (auto simp: dom_def)

text \<open>A change of one transaction that leaves its records.\<close>

lemma upd_trans_ok:
  assumes "journal_ok h j"
    and "\<And>tr. jo_trans j t = Some tr \<Longrightarrow> trans_ok j t tr \<Longrightarrow> trans_ok j t (f tr) \<and> set (tr_recs (f tr)) = set (tr_recs tr)"
  shows "journal_ok h (upd_trans t f j)"
proof -
  have "\<exists>t' tr. owns j t' i \<and> jo_trans (upd_trans t f j) t' = Some tr \<and> i \<in> set (tr_recs tr)"
    if i: "i \<in> set (jo_rec_root j)" for i
  proof -
    obtain t' tr where a: "owns j t' i" "jo_trans j t' = Some tr" "i \<in> set (tr_recs tr)"
      using journal_okD(2) [OF assms(1) i] by blast
    then show ?thesis using assms(2) journal_okD(3) [OF assms(1) a(2)] by (intro exI [of _ t']) auto
  qed
  moreover have "trans_ok j t' tr" if "jo_trans (upd_trans t f j) t' = Some tr" for t' tr
    using that journal_okD(3) [OF assms(1)] assms(2) by (auto split: if_splits)
  ultimately show ?thesis
    using assms(1) unfolding journal_ok_def upd_trans_dom by auto
qed

text \<open>The transaction a record is moved to.\<close>

lemma change_ownership_ok:
  assumes ok: "journal_ok h j" and i: "i \<in> set (jo_rec_root j)" and t: "jo_trans j t = Some tr"
    and c: "jbd_trans_change_ownership j i (Some t) = Some j'"
  shows "journal_ok h j'" "jo_rec_root j' = jo_rec_root j" "jo_bufs j' = jo_bufs j" "rec_lba j' = rec_lba j"
    "owns j' t i" "\<exists>tr. jo_trans j' t = Some tr"
proof -
  obtain r old otr where r: "jo_recs j i = Some r" "br_trans r = Some old" "jo_trans j old = Some otr"
    and j': "j' = upd_rec i (\<lambda>r. r\<lparr>br_trans := Some t\<rparr>) (upd_trans t (\<lambda>t. t\<lparr>tr_recs := i # tr_recs t\<rparr>)
      (upd_trans old (\<lambda>t. t\<lparr>tr_recs := remove1 i (tr_recs t)\<rparr>) j))"
    using c by (auto simp: jbd_trans_change_ownership_def Let_def bind_eq_Some_conv)
  have owner: "owns j k i \<longleftrightarrow> k = old" for k using r by (auto simp: owns_def)
  have own: "owns j' k m \<longleftrightarrow> (if m = i then k = t else owns j k m)" for k m
    using r by (auto simp: j' owns_def upd_rec_def)
  show lba: "rec_lba j' = rec_lba j" using r(1) by (auto simp: j' rec_lba_def upd_rec_def fun_eq_iff)
  show root: "jo_rec_root j' = jo_rec_root j" and bufs: "jo_bufs j' = jo_bufs j" by (simp_all add: j' upd_rec_def)
  show "owns j' t i" by (simp add: own)
  have trans: "jo_trans j' k = (case jo_trans j k of None \<Rightarrow> None | Some x \<Rightarrow>
      Some (x\<lparr>tr_recs := (if k = t then [i] else []) @ (if k = old then remove1 i (tr_recs x) else tr_recs x)\<rparr>))" for k
    by (auto simp: j' upd_rec_def split: option.split)
  then show "\<exists>tr. jo_trans j' t = Some tr" using t by simp
  have "(\<exists>x. jo_recs j' m = Some x \<and> br_lba x = l \<and> b \<in> set (br_dirty x)) \<longleftrightarrow>
      (\<exists>x. jo_recs j m = Some x \<and> br_lba x = l \<and> b \<in> set (br_dirty x))" for m l b
    by (cases "m = i") (simp_all add: j' upd_rec_def r(1))
  then have log: "buf_logged j' k b = buf_logged j k b" for k b
    by (simp add: buf_logged_def bufs)
  have ok': "trans_ok j' k x'" if "jo_trans j' k = Some x'" for k x'
  proof -
    from that obtain x where x: "jo_trans j k = Some x"
      "x' = x\<lparr>tr_recs := (if k = t then [i] else []) @ (if k = old then remove1 i (tr_recs x) else tr_recs x)\<rparr>"
      unfolding trans by (auto split: option.splits)
    have T: "trans_ok j k x" by (rule journal_okD(3) [OF ok x(1)])
    then have "k \<noteq> old \<Longrightarrow> i \<notin> set (tr_recs x)" using owner by (auto simp: trans_ok_def)
    then show ?thesis
      using T i owner by (auto simp: trans_ok_def x(2) log own root distinct_remove1 set_remove1_eq)
  qed
  have cover: "\<exists>k x. owns j' k m \<and> jo_trans j' k = Some x \<and> m \<in> set (tr_recs x)" if m: "m \<in> set (jo_rec_root j)" for m
  proof (cases "m = i")
    case True then show ?thesis using t by (intro exI [of _ t]) (simp add: own trans)
  next
    case False
    obtain k x where "owns j k m" "jo_trans j k = Some x" "m \<in> set (tr_recs x)"
      using journal_okD(2) [OF ok m] by blast
    then show ?thesis using False by (intro exI [of _ k]) (simp add: own trans in_set_remove1)
  qed
  have "dom (jo_trans j') = dom (jo_trans j)" by (auto simp: trans dom_def split: option.splits)
  moreover have "dom (jo_recs j') = dom (jo_recs j)" by (auto simp: j' upd_rec_def r(1))
  ultimately show "journal_ok h j'"
    using ok ok' cover unfolding journal_ok_def root lba bufs by auto
qed

lemma rec_lookup_Some:
  assumes "jbd_trans_block_rec_lookup j lba = Some i"
  shows "i \<in> set (jo_rec_root j)" "rec_lba j i = lba"
  using assms by (auto simp: jbd_trans_block_rec_lookup_def find_Some_iff)

lemma rec_lookup_None: "jbd_trans_block_rec_lookup j lba = None \<longleftrightarrow> lba \<notin> rec_lba j ` set (jo_rec_root j)"
  by (auto simp: jbd_trans_block_rec_lookup_def find_None_iff)

lemma set_rb_insert_rec [simp]: "set (rb_insert_rec key x ys) = insert x (set ys)"
  by (induction ys) auto

lemma rb_insert_rec_sorted:
  fixes key :: "nat \<Rightarrow> u64"
  assumes "sorted_wrt (\<lambda>a b. key a < key b) ys" "key x \<notin> key ` set ys"
  shows "sorted_wrt (\<lambda>a b. key a < key b) (rb_insert_rec key x ys)"
  using assms by (induction ys) (auto simp: not_less order.strict_iff_order)

text \<open>A record that was just allocated.\<close>

lemma insert_new_rec_ok:
  assumes ok: "journal_ok h j" and t: "jo_trans j t = Some tr" and fresh: "h < i"
    and new: "jbd_trans_block_rec_lookup j lba = None"
    and d: "j1 = upd_trans t (\<lambda>t. t\<lparr>tr_recs := i # tr_recs t\<rparr>)
        (j\<lparr>jo_recs := (jo_recs j)(i \<mapsto> \<lparr>br_lba = lba, br_trans = Some t, br_dirty = []\<rparr>)\<rparr>)"
      "j' = j1\<lparr>jo_rec_root := rb_insert_rec (rec_lba j1) i (jo_rec_root j1)\<rparr>"
  shows "journal_ok i j'" "i \<in> set (jo_rec_root j')" "jo_bufs j' = jo_bufs j" "rec_lba j' i = lba" "owns j' t i"
    "\<exists>tr. jo_trans j' t = Some tr"
proof -
  have none: "jo_recs j i = None" by (rule journal_okD(5) [OF ok fresh])
  have recs: "jo_recs j' = (jo_recs j)(i \<mapsto> \<lparr>br_lba = lba, br_trans = Some t, br_dirty = []\<rparr>)"
    and bufs: "jo_bufs j' = jo_bufs j" by (simp_all add: d)
  have "rec_lba j' = rec_lba j1" by (simp add: d(2) rec_lba_def fun_eq_iff)
  then have root: "jo_rec_root j' = rb_insert_rec (rec_lba j') i (jo_rec_root j)" by (simp add: d)
  have trans: "jo_trans j' k = (if k = t then Some (tr\<lparr>tr_recs := i # tr_recs tr\<rparr>) else jo_trans j k)" for k
    using t by (simp add: d)
  have lba: "rec_lba j' m = (if m = i then lba else rec_lba j m)" for m by (simp add: rec_lba_def recs)
  have own: "owns j' k m \<longleftrightarrow> (if m = i then k = t else owns j k m)" for k m
    by (simp add: owns_def recs eq_commute)
  have out: "i \<notin> set (jo_rec_root j)"
  proof
    assume "i \<in> set (jo_rec_root j)"
    from journal_okD(2) [OF ok this] show False using none by (auto simp: owns_def)
  qed
  have log: "buf_logged j' k b" if "buf_logged j k b" for k b
    using that none by (force simp: buf_logged_def recs bufs)
  have "sorted_wrt (\<lambda>a b. rec_lba j' a < rec_lba j' b) (jo_rec_root j)"
    using journal_okD(1) [OF ok] by (rule sorted_wrt_mono_rel [rotated]) (use out in \<open>auto simp: lba\<close>)
  moreover have "rec_lba j' i \<notin> rec_lba j' ` set (jo_rec_root j)"
    using new out by (auto simp: rec_lookup_None lba)
  ultimately have srt: "sorted_wrt (\<lambda>a b. rec_lba j' a < rec_lba j' b) (jo_rec_root j')"
    unfolding root by (rule rb_insert_rec_sorted)
  have ok': "trans_ok j' k x'" if x': "jo_trans j' k = Some x'" for k x'
  proof -
    obtain x where x: "jo_trans j k = Some x" "x' = (if k = t then x\<lparr>tr_recs := i # tr_recs x\<rparr> else x)"
      using x' t by (auto simp: trans split: if_splits)
    have T: "trans_ok j k x" by (rule journal_okD(3) [OF ok x(1)])
    then have "i \<notin> set (tr_recs x)" using out by (auto simp: trans_ok_def)
    then show ?thesis using T log out by (auto simp: trans_ok_def x(2) own root)
  qed
  have cover: "\<exists>k x. owns j' k m \<and> jo_trans j' k = Some x \<and> m \<in> set (tr_recs x)" if m: "m \<in> set (jo_rec_root j')" for m
  proof (cases "m = i")
    case True then show ?thesis by (intro exI [of _ t]) (simp add: own trans)
  next
    case False
    then have "m \<in> set (jo_rec_root j)" using m by (simp add: root)
    then obtain k x where "owns j k m" "jo_trans j k = Some x" "m \<in> set (tr_recs x)"
      using journal_okD(2) [OF ok] by blast
    then show ?thesis using False t by (intro exI [of _ k]) (auto simp: own trans)
  qed
  have "dom (jo_bufs j') \<union> dom (jo_recs j') \<union> dom (jo_trans j') \<subseteq> {..i}"
    using ok t fresh by (auto simp: journal_ok_def bufs recs trans dom_def split: if_splits)
  then show "journal_ok i j'" using srt ok' cover by (simp add: journal_ok_def)
  show "i \<in> set (jo_rec_root j')" "jo_bufs j' = jo_bufs j" "rec_lba j' i = lba" "owns j' t i" "\<exists>tr. jo_trans j' t = Some tr"
    by (simp_all add: root bufs lba own trans)
qed

lemma insert_block_rec_ok:
  assumes ok: "journal_ok (fs_heap fs) j"
    and c: "jbd_trans_insert_block_rec fs j t lba = Some (r, fs', j')"
  shows "journal_ok (fs_heap fs') j'" "fs_heap fs \<le> fs_heap fs'" "jo_bufs j' = jo_bufs j" "\<exists>tr. jo_trans j' t = Some tr"
    "r = Some i \<Longrightarrow> i \<in> set (jo_rec_root j') \<and> rec_lba j' i = lba \<and> owns j' t i"
proof -
  obtain tr where t: "jo_trans j t = Some tr"
    using c by (auto simp: jbd_trans_insert_block_rec_def bind_eq_Some_conv)
  have "journal_ok (fs_heap fs') j' \<and> fs_heap fs \<le> fs_heap fs' \<and> jo_bufs j' = jo_bufs j \<and> (\<exists>tr. jo_trans j' t = Some tr) \<and>
    (\<forall>i. r = Some i \<longrightarrow> i \<in> set (jo_rec_root j') \<and> rec_lba j' i = lba \<and> owns j' t i)"
  proof (cases "jbd_trans_block_rec_lookup j lba")
    case (Some i)
    then have "jbd_trans_change_ownership j i (Some t) = Some j'" "fs' = fs" "r = Some i"
      using c t by (auto simp: jbd_trans_insert_block_rec_def bind_eq_Some_conv)
    then show ?thesis
      using change_ownership_ok [OF ok rec_lookup_Some(1) [OF Some] t] rec_lookup_Some [OF Some] by simp
  next
    case None
    obtain a fs1 where a: "fs_calloc fs = (a, fs1)" by (metis surj_pair)
    note H = fs_calloc_heap [OF a]
    show ?thesis
    proof (cases a)
      assume "a = None"
      then show ?thesis
        using c t None a H journal_ok_mono [OF ok] by (auto simp: jbd_trans_insert_block_rec_def)
    next
      fix i assume i: "a = Some i"
      define j1 where "j1 = upd_trans t (\<lambda>t. t\<lparr>tr_recs := i # tr_recs t\<rparr>)
        (j\<lparr>jo_recs := (jo_recs j)(i \<mapsto> \<lparr>br_lba = lba, br_trans = Some t, br_dirty = []\<rparr>)\<rparr>)"
      have e: "r = Some i" "fs' = fs1" "j' = j1\<lparr>jo_rec_root := rb_insert_rec (rec_lba j1) i (jo_rec_root j1)\<rparr>"
        using c t None a i by (auto simp: jbd_trans_insert_block_rec_def Let_def j1_def)
      have "fs_heap fs < i" using H i by simp
      note N = insert_new_rec_ok [OF ok t this None j1_def e(3)]
      show ?thesis using N H i e by simp
    qed
  qed
  then show "journal_ok (fs_heap fs') j'" "fs_heap fs \<le> fs_heap fs'" "jo_bufs j' = jo_bufs j" "\<exists>tr. jo_trans j' t = Some tr"
    "r = Some i \<Longrightarrow> i \<in> set (jo_rec_root j') \<and> rec_lba j' i = lba \<and> owns j' t i"
    by auto
qed

text \<open>A buffer of a transaction that was just allocated.\<close>

lemma insert_buf_ok:
  assumes ok: "journal_ok h j" and i: "i \<in> set (jo_rec_root j)" "rec_lba j i = blk_lb_id block"
    and fresh: "jo_bufs j jb = None" "jb \<le> h"
    and d: "j' = upd_trans t (\<lambda>t. t\<lparr>tr_data_cnt := tr_data_cnt t + 1, tr_bufs := jb # tr_bufs t\<rparr>)
      ((upd_rec i (\<lambda>r. r\<lparr>br_dirty := br_dirty r @ [jb]\<rparr>) j)
        \<lparr>jo_bufs := (jo_bufs j)(jb \<mapsto> \<lparr>jb_lba = 0, jb_block = block, jb_trans = t, jb_rec = i\<rparr>)\<rparr>)"
  shows "journal_ok h j'"
proof -
  obtain r where r: "jo_recs j i = Some r" "br_lba r = blk_lb_id block"
    using journal_okD(2) [OF ok i(1)] i(2) by (auto simp: owns_def rec_lba_def)
  have recs: "jo_recs j' = (jo_recs j)(i \<mapsto> r\<lparr>br_dirty := br_dirty r @ [jb]\<rparr>)"
    and bufs: "jo_bufs j' = (jo_bufs j)(jb \<mapsto> \<lparr>jb_lba = 0, jb_block = block, jb_trans = t, jb_rec = i\<rparr>)"
    and root: "jo_rec_root j' = jo_rec_root j"
    using r(1) by (simp_all add: d upd_rec_def fun_eq_iff)
  have trans: "jo_trans j' k = (if k = t then map_option (\<lambda>t. t\<lparr>tr_data_cnt := tr_data_cnt t + 1, tr_bufs := jb # tr_bufs t\<rparr>)
      (jo_trans j k) else jo_trans j k)" for k
    by (simp add: d upd_rec_def)
  have lba: "rec_lba j' = rec_lba j" using r(1) by (auto simp: rec_lba_def recs fun_eq_iff)
  have own: "owns j' = owns j" using r(1) by (auto simp: owns_def recs fun_eq_iff)
  have new: "buf_logged j' t jb" using r by (simp add: buf_logged_def recs bufs)
  have log: "buf_logged j' k b" if b: "buf_logged j k b" for k b
  proof -
    obtain x y where x: "jo_bufs j b = Some x" "jb_trans x = k" "jo_recs j (jb_rec x) = Some y"
      "br_lba y = blk_lb_id (jb_block x)" "b \<in> set (br_dirty y)" using b by (auto simp: buf_logged_def)
    then have "b \<noteq> jb" using fresh by auto
    then show ?thesis using x r by (cases "jb_rec x = i") (auto simp: buf_logged_def recs bufs)
  qed
  have ok': "trans_ok j' k x'" if x': "jo_trans j' k = Some x'" for k x'
  proof -
    obtain x where x: "jo_trans j k = Some x"
      "x' = (if k = t then x\<lparr>tr_data_cnt := tr_data_cnt x + 1, tr_bufs := jb # tr_bufs x\<rparr> else x)"
      using x' by (auto simp: trans split: if_splits)
    have T: "trans_ok j k x" by (rule journal_okD(3) [OF ok x(1)])
    then have "jb \<notin> set (tr_bufs x)" using fresh by (auto simp: trans_ok_def buf_logged_def)
    then show ?thesis using T log new by (auto simp: trans_ok_def x(2) own root)
  qed
  have "\<exists>k x. owns j' k m \<and> jo_trans j' k = Some x \<and> m \<in> set (tr_recs x)" if m: "m \<in> set (jo_rec_root j')" for m
  proof -
    obtain k x where "owns j k m" "jo_trans j k = Some x" "m \<in> set (tr_recs x)"
      using journal_okD(2) [OF ok] m root by metis
    then show ?thesis by (intro exI [of _ k]) (auto simp: own trans)
  qed
  moreover have "dom (jo_bufs j') \<union> dom (jo_recs j') \<union> dom (jo_trans j') \<subseteq> {..h}"
    using ok fresh r by (auto simp: journal_ok_def bufs recs trans dom_def split: if_splits)
  moreover have "sorted_wrt (\<lambda>a b. rec_lba j' a < rec_lba j' b) (jo_rec_root j')"
    using journal_okD(1) [OF ok] by (simp add: lba root)
  ultimately show ?thesis using ok' by (simp add: journal_ok_def)
qed

lemma set_block_dirty_ok:
  assumes ok: "journal_ok (fs_heap fs) j"
    and c: "jbd_trans_set_block_dirty fs j t block = Some (r, fs', j')"
  shows "journal_ok (fs_heap fs') j'"
proof -
  obtain buf bf owned where b: "blk_buf block = Some buf" "bc_bufs (bdev_bc (fs_bdev fs)) buf = Some bf" "owned_by j t bf = Some owned"
    using c by (auto simp: jbd_trans_set_block_dirty_def bind_eq_Some_conv)
  obtain a fs1 where a: "fs_calloc fs = (a, fs1)" by (metis surj_pair)
  note H = fs_calloc_heap [OF a]
  show ?thesis
  proof (cases "owned \<or> a = None")
    case True
    then show ?thesis
      using c b a H journal_ok_mono [OF ok] ok by (auto simp: jbd_trans_set_block_dirty_def split: if_splits)
  next
    case False
    then obtain jb where jb: "a = Some jb" "\<not> owned" by auto
    obtain i fs2 j2 where i: "jbd_trans_insert_block_rec fs1 j t (blk_lb_id block) = Some (i, fs2, j2)"
      using c b a jb by (auto simp: jbd_trans_set_block_dirty_def bind_eq_Some_conv)
    have ok1: "journal_ok (fs_heap fs1) j" by (rule journal_ok_mono [OF ok]) (simp add: H)
    note R = insert_block_rec_ok [OF ok1 i]
    show ?thesis
    proof (cases i)
      case None
      then show ?thesis using c b a jb i R by (simp add: jbd_trans_set_block_dirty_def)
    next
      case (Some k)
      define j3 where "j3 = upd_trans t (\<lambda>t. t\<lparr>tr_data_cnt := tr_data_cnt t + 1, tr_bufs := jb # tr_bufs t\<rparr>)
        ((upd_rec k (\<lambda>r. r\<lparr>br_dirty := br_dirty r @ [jb]\<rparr>) j2)
          \<lparr>jo_bufs := (jo_bufs j2)(jb \<mapsto> \<lparr>jb_lba = 0, jb_block = block, jb_trans = t, jb_rec = k\<rparr>)\<rparr>)"
      have e: "j' = upd_trans t (\<lambda>t. t\<lparr>tr_revoke := filter (\<lambda>b. b \<noteq> blk_lb_id block) (tr_revoke t)\<rparr>) j3"
        "fs_heap fs' = fs_heap fs2"
        using c b a jb i Some by (auto simp: jbd_trans_set_block_dirty_def j3_def upd_rec_def)
      have "jo_bufs j2 jb = None" using R(3) journal_okD(4) [OF ok] H jb by simp
      moreover have "jb \<le> fs_heap fs2" using R(2) H jb by simp
      ultimately have "journal_ok (fs_heap fs2) j3"
        using insert_buf_ok [OF R(1) _ _ _ _ j3_def] R(5) [OF Some] by simp
      then show ?thesis
        unfolding e by (rule upd_trans_ok) (auto simp: trans_ok_def intro: sorted_wrt_filter)
    qed
  qed
qed

lemma revoke_block_ok:
  assumes ok: "journal_ok (fs_heap fs) j" and c: "jbd_trans_revoke_block fs j t lba = Some (r, fs', j')"
  shows "journal_ok (fs_heap fs') j'"
proof -
  obtain tr where t: "jo_trans j t = Some tr"
    using c by (auto simp: jbd_trans_revoke_block_def bind_eq_Some_conv)
  obtain a fs1 where a: "fs_calloc fs = (a, fs1)" by (metis surj_pair)
  note H = fs_calloc_heap [OF a]
  have ok1: "journal_ok (fs_heap fs1) j" by (rule journal_ok_mono [OF ok]) (simp add: H)
  show ?thesis
  proof (cases "lba \<in> set (tr_revoke tr) \<or> a = None")
    case True
    then show ?thesis using c t a ok ok1 by (auto simp: jbd_trans_revoke_block_def split: if_splits)
  next
    case False
    then have e: "fs' = fs1" "j' = upd_trans t (\<lambda>t. t\<lparr>tr_revoke := insort lba (tr_revoke t)\<rparr>) j"
      using c t a by (auto simp: jbd_trans_revoke_block_def)
    have "sorted_wrt (<) (insort lba (tr_revoke x))" if "jo_trans j t = Some x" "trans_ok j t x" for x
      using that t False
      by (simp add: trans_ok_def strict_sorted_iff sorted_insort distinct_insort)
    then show ?thesis
      unfolding e by (intro upd_trans_ok [OF ok1]) (simp add: trans_ok_def)
  qed
qed

lemma try_revoke_block_ok:
  assumes ok: "journal_ok (fs_heap fs) j" and c: "jbd_trans_try_revoke_block fs j t lba = Some (r, fs', j')"
  shows "journal_ok (fs_heap fs') j'"
  using c ok revoke_block_ok [OF ok]
  by (auto simp: jbd_trans_try_revoke_block_def bind_eq_Some_conv split: option.splits if_splits)

lemma new_trans_ok:
  assumes ok: "journal_ok (fs_heap fs) j" and c: "jbd_journal_new_trans fs j = (t, fs', j')"
  shows "journal_ok (fs_heap fs') j'"
proof -
  obtain a fs1 where a: "fs_calloc fs = (a, fs1)" by (metis surj_pair)
  note H = fs_calloc_heap [OF a]
  have ok1: "journal_ok (fs_heap fs1) j" by (rule journal_ok_mono [OF ok]) (simp add: H)
  show ?thesis
  proof (cases a)
    case None then show ?thesis using c a ok1 by (simp add: jbd_journal_new_trans_def)
  next
    case (Some i)
    have none: "jo_trans j i = None" using journal_okD(6) [OF ok] H Some by simp
    have e: "fs' = fs1" "jo_recs j' = jo_recs j" "jo_bufs j' = jo_bufs j" "jo_rec_root j' = jo_rec_root j"
      "jo_trans j' = (jo_trans j)(i \<mapsto> \<lparr>tr_id = 0, tr_start_iblock = 0, tr_alloc_blocks = 0, tr_data_cnt = 0,
         tr_data_csum = EXT4_CRC32_INIT, tr_written_cnt = 0, tr_error = EOK, tr_bufs = [], tr_revoke = [], tr_recs = []\<rparr>)"
      using c a Some by (auto simp: jbd_journal_new_trans_def)
    have own: "owns j' = owns j" "rec_lba j' = rec_lba j" "buf_logged j' = buf_logged j" "i \<le> fs_heap fs1"
      using H Some by (simp_all add: owns_def rec_lba_def buf_logged_def e fun_eq_iff)
    have "\<exists>k x. owns j' k m \<and> jo_trans j' k = Some x \<and> m \<in> set (tr_recs x)" if m: "m \<in> set (jo_rec_root j)" for m
    proof -
      obtain k x where "owns j k m" "jo_trans j k = Some x" "m \<in> set (tr_recs x)"
        using journal_okD(2) [OF ok m] by metis
      then show ?thesis using none by (intro exI [of _ k] exI [of _ x]) (auto simp: own e)
    qed
    moreover have "trans_ok j' k x" if "jo_trans j' k = Some x" for k x
      using that journal_okD(3) [OF ok, of k x] by (auto simp: e(5) trans_ok_def own e(4) split: if_splits)
    ultimately show ?thesis
      using ok1 own(4) unfolding journal_ok_def e(1-4) own(2) by (auto simp: e(5))
  qed
qed

text \<open>No stale pointer is followed.\<close>

lemma insert_block_rec_returns:
  assumes ok: "journal_ok h j" and t: "jo_trans j t = Some tr"
  shows "jbd_trans_insert_block_rec fs j t lba \<noteq> None"
proof (cases "jbd_trans_block_rec_lookup j lba")
  case (Some i)
  obtain r k x where "jo_recs j i = Some r" "br_trans r = Some k" "jo_trans j k = Some x"
    using journal_okD(2) [OF ok rec_lookup_Some(1) [OF Some]] by (auto simp: owns_def)
  then show ?thesis
    using Some t by (simp add: jbd_trans_insert_block_rec_def jbd_trans_change_ownership_def)
next
  case None
  then show ?thesis using t by (auto simp: jbd_trans_insert_block_rec_def Let_def split: prod.split option.split)
qed

lemma set_block_dirty_returns:
  assumes "journal_ok h j" "jo_trans j t = Some tr" "blk_buf block = Some buf"
    "bc_bufs (bdev_bc (fs_bdev fs)) buf = Some bf" "owned_by j t bf \<noteq> None"
  shows "jbd_trans_set_block_dirty fs j t block \<noteq> None"
proof -
  obtain a fs1 where a: "fs_calloc fs = (a, fs1)" by (metis surj_pair)
  obtain x fs2 j2 where "jbd_trans_insert_block_rec fs1 j t (blk_lb_id block) = Some (x, fs2, j2)"
    using insert_block_rec_returns [OF assms(1,2)] by (metis not_None_eq prod_cases3)
  then show ?thesis
    using assms a by (auto simp: jbd_trans_set_block_dirty_def Let_def split: option.splits)
qed

lemma try_revoke_returns:
  assumes ok: "journal_ok h j" and t: "jo_trans j t = Some tr"
  shows "jbd_trans_try_revoke_block fs j t lba \<noteq> None"
proof (cases "jbd_trans_block_rec_lookup j lba")
  case None then show ?thesis by (simp add: jbd_trans_try_revoke_block_def)
next
  case (Some i)
  have "jbd_trans_revoke_block fs j t lba \<noteq> None"
    using t by (auto simp: jbd_trans_revoke_block_def split: prod.split option.split)
  moreover obtain r where "jo_recs j i = Some r"
    using journal_okD(2) [OF ok rec_lookup_Some(1) [OF Some]] by (auto simp: owns_def)
  ultimately show ?thesis using Some by (auto simp: jbd_trans_try_revoke_block_def split: option.split)
qed

section \<open>The callbacks in the cache\<close>

text \<open>The objects that buffers in the cache name as the argument of the callback.\<close>

definition pending :: "'d ext4_fs \<Rightarrow> nat set" where
  "pending fs = {buf_end_write_arg bf | bf. bf \<in> ran (bc_bufs (bdev_bc (fs_bdev fs))) \<and>
     buf_end_write bf = Some JBD_TRANS_END_WRITE \<and> buf_end_write_arg bf \<noteq> 0}"

lemma pending_bufs:
  "bc_bufs (bdev_bc (fs_bdev fs')) = bc_bufs (bdev_bc (fs_bdev fs)) \<Longrightarrow> pending fs' = pending fs"
  by (simp add: pending_def)

lemma pending_owned:
  assumes "pending fs \<subseteq> dom (jo_bufs j)" "bc_bufs (bdev_bc (fs_bdev fs)) buf = Some bf"
  shows "owned_by j t bf \<noteq> None"
proof (cases "buf_end_write bf = Some JBD_TRANS_END_WRITE \<and> buf_end_write_arg bf \<noteq> 0")
  case True
  then have "buf_end_write_arg bf \<in> pending fs" using assms(2) by (auto simp: pending_def ran_def)
  then show ?thesis using assms(1) True by (auto simp: owned_by_def)
next
  case False
  then have "owned_by j t bf = Some False" unfolding owned_by_def by (rule if_not_P)
  then show ?thesis by simp
qed

lemma pending_update:
  assumes "bc_bufs (bdev_bc (fs_bdev fs')) = (bc_bufs (bdev_bc (fs_bdev fs)))(b \<mapsto> bf)"
  shows "pending fs' \<subseteq> insert (buf_end_write_arg bf) (pending fs)"
  using assms by (auto simp: pending_def ran_def split: if_splits)

lemma insert_block_rec_bufs:
  assumes "jbd_trans_insert_block_rec fs j t lba = Some (r, fs', j')"
  shows "bc_bufs (bdev_bc (fs_bdev fs')) = bc_bufs (bdev_bc (fs_bdev fs))"
proof -
  obtain a fs1 where a: "fs_calloc fs = (a, fs1)" by (metis surj_pair)
  show ?thesis using assms a fs_calloc_bufs [OF a]
    by (auto simp: jbd_trans_insert_block_rec_def Let_def bind_eq_Some_conv split: option.splits)
qed

lemma set_block_dirty_pending:
  assumes ok: "journal_ok (fs_heap fs) j" and p: "pending fs \<subseteq> dom (jo_bufs j)"
    and c: "jbd_trans_set_block_dirty fs j t block = Some (r, fs', j')"
  shows "pending fs' \<subseteq> dom (jo_bufs j')"
proof -
  obtain buf bf owned where b: "blk_buf block = Some buf" "bc_bufs (bdev_bc (fs_bdev fs)) buf = Some bf" "owned_by j t bf = Some owned"
    using c by (auto simp: jbd_trans_set_block_dirty_def bind_eq_Some_conv)
  obtain a fs1 where a: "fs_calloc fs = (a, fs1)" by (metis surj_pair)
  note P1 = pending_bufs [OF fs_calloc_bufs [OF a]]
  show ?thesis
  proof (cases "owned \<or> a = None")
    case True
    then show ?thesis using c b a p P1 by (auto simp: jbd_trans_set_block_dirty_def split: if_splits)
  next
    case False
    then obtain jb where jb: "a = Some jb" "\<not> owned" by auto
    obtain i fs2 j2 where i: "jbd_trans_insert_block_rec fs1 j t (blk_lb_id block) = Some (i, fs2, j2)"
      using c b a jb by (auto simp: jbd_trans_set_block_dirty_def bind_eq_Some_conv)
    have "journal_ok (fs_heap fs1) j" by (rule journal_ok_mono [OF ok]) (simp add: fs_calloc_heap [OF a])
    note bufs = insert_block_rec_ok(3) [OF this i]
    note P2 = pending_bufs [OF insert_block_rec_bufs [OF i]]
    show ?thesis
    proof (cases i)
      case None
      then show ?thesis using c b a jb i p P1 P2 bufs by (simp add: jbd_trans_set_block_dirty_def)
    next
      case (Some k)
      have "bc_bufs (bdev_bc (fs_bdev fs2)) buf = Some bf"
        using b(2) insert_block_rec_bufs [OF i] fs_calloc_bufs [OF a] by simp
      then have e: "jo_bufs j' = (jo_bufs j2)(jb \<mapsto> \<lparr>jb_lba = 0, jb_block = block, jb_trans = t, jb_rec = k\<rparr>)"
        "bc_bufs (bdev_bc (fs_bdev fs')) = (bc_bufs (bdev_bc (fs_bdev fs2)))(buf \<mapsto> ext4_bcache_set_dirty
          ((ext4_bcache_inc_ref bf)\<lparr>buf_end_write := Some JBD_TRANS_END_WRITE, buf_end_write_arg := jb\<rparr>))"
        using c b a jb i Some by (auto simp: jbd_trans_set_block_dirty_def upd_rec_def buf_at_def)
      have "pending fs' \<subseteq> insert jb (pending fs2)"
        using pending_update [OF e(2)] by (simp add: ext4_bcache_set_dirty_def ext4_bcache_set_flag_def)
      then show ?thesis using p P1 P2 by (auto simp: e(1) bufs)
    qed
  qed
qed

lemma revoke_pending:
  assumes "jbd_trans_try_revoke_block fs j t lba = Some (r, fs', j')"
  shows "pending fs' = pending fs" "jo_bufs j' = jo_bufs j"
proof -
  obtain a fs1 where a: "fs_calloc fs = (a, fs1)" by (metis surj_pair)
  show "pending fs' = pending fs" "jo_bufs j' = jo_bufs j"
    using assms a pending_bufs [OF fs_calloc_bufs [OF a]]
    by (auto simp: jbd_trans_try_revoke_block_def jbd_trans_revoke_block_def bind_eq_Some_conv split: option.splits if_splits)
qed

lemma new_trans_pending:
  assumes "jbd_journal_new_trans fs j = (t, fs', j')"
  shows "pending fs' = pending fs" "jo_bufs j' = jo_bufs j"
proof -
  obtain a fs1 where a: "fs_calloc fs = (a, fs1)" by (metis surj_pair)
  show "pending fs' = pending fs" "jo_bufs j' = jo_bufs j"
    using assms a pending_bufs [OF fs_calloc_bufs [OF a]]
    by (auto simp: jbd_journal_new_trans_def split: option.splits)
qed

section \<open>A session\<close>

text \<open>
  The states of a session before it commits: it is started on a journal structure that is zero, as it is in a mount point, with no
  buffer in the cache that carries the callback of a journal; blocks are added to transactions and revoked, and between these
  steps the file system may change in any way that does not take back what was allocated and, as nothing but the journal does, sets
  no callback of the journal.
\<close>

inductive session :: "'d ext4_fs \<Rightarrow> jbd_journal \<Rightarrow> bool" where
  started: "jbd_journal_start fs jf journal_zero = Some (EOK, fs', jf', j) \<Longrightarrow> pending fs' = {} \<Longrightarrow> session fs' j"
| opened: "session fs j \<Longrightarrow> jbd_journal_new_trans fs j = (t, fs', j') \<Longrightarrow> session fs' j'"
| dirtied: "session fs j \<Longrightarrow> jbd_trans_set_block_dirty fs j t block = Some (r, fs', j') \<Longrightarrow> session fs' j'"
| revoked: "session fs j \<Longrightarrow> jbd_trans_try_revoke_block fs j t lba = Some (r, fs', j') \<Longrightarrow> session fs' j'"
| elsewhere: "session fs j \<Longrightarrow> fs_heap fs \<le> fs_heap fs' \<Longrightarrow> pending fs' \<subseteq> pending fs \<Longrightarrow> session fs' j"

text \<open>The journal that \<open>jbd_journal_start\<close> makes, and what it does when the superblock was written.\<close>

definition started_journal :: "jbd_fs \<Rightarrow> jbd_journal \<Rightarrow> jbd_journal" where
  "started_journal jf j =
     (let first = to_be32 (js_first (jf_sb jf)); tid = to_be32 (js_sequence (jf_sb jf)) + 1
      in j\<lparr>jo_first := first, jo_start := first, jo_last := first, jo_trans_id := tid, jo_alloc_trans_id := tid,
           jo_block_size := to_be32 (js_blocksize (jf_sb jf)), jo_cp_queue := [], jo_rec_root := []\<rparr>)"

lemma journal_start_eq:
  "jbd_journal_start fs jf j =
     (case ext4_sb_write (fs_bdev fs) ((fs_sb fs)
          \<lparr>sb_features_incompatible := sb_features_incompatible (fs_sb fs) OR EXT4_FINCOM_RECOVER\<rparr>) of
        None \<Rightarrow> None
      | Some (r, bdev, sb) \<Rightarrow>
          if r \<noteq> EOK then Some (r, fs\<lparr>fs_bdev := bdev, fs_sb := sb\<rparr>, jf, j)
          else (case jbd_write_sb (fs\<lparr>fs_bdev := bdev, fs_sb := sb\<rparr>) (jbd_journal_write_sb jf (started_journal jf j)) of
              None \<Rightarrow> None
            | Some (r, fs, jf') \<Rightarrow> Some (r, fs, jf', started_journal jf j)))"
  by (simp add: jbd_journal_start_def started_journal_def Let_def split: option.split prod.split)

lemma journal_start_EOK:
  assumes "jbd_journal_start fs jf j = Some (EOK, fs', jf', j')"
  shows "j' = started_journal jf j"
    "\<exists>fs1. jbd_write_sb fs1 (jbd_journal_write_sb jf (started_journal jf j)) = Some (EOK, fs', jf')"
  using assms unfolding journal_start_eq by (auto split: option.splits prod.splits if_splits)

lemma session_ok: "session fs j \<Longrightarrow> journal_ok (fs_heap fs) j \<and> pending fs \<subseteq> dom (jo_bufs j)"
proof (induction rule: session.induct)
  case (started fs jf fs' jf' j)
  show ?case
    using journal_start_EOK(1) [OF started(1)] started(2)
    by (simp add: journal_ok_def journal_zero_def started_journal_def Let_def)
next
  case (opened fs j t fs' j')
  show ?case
    using new_trans_ok [OF conjunct1 [OF opened.IH] opened.hyps(2)] conjunct2 [OF opened.IH]
    unfolding new_trans_pending [OF opened.hyps(2)] by (rule conjI)
next
  case (dirtied fs j t block r fs' j')
  show ?case
    using set_block_dirty_ok [OF conjunct1 [OF dirtied.IH] dirtied.hyps(2)]
      set_block_dirty_pending [OF conjunct1 [OF dirtied.IH] conjunct2 [OF dirtied.IH] dirtied.hyps(2)] by (rule conjI)
next
  case (revoked fs j t lba r fs' j')
  show ?case
    using try_revoke_block_ok [OF conjunct1 [OF revoked.IH] revoked.hyps(2)] conjunct2 [OF revoked.IH]
    unfolding revoke_pending [OF revoked.hyps(2)] by (rule conjI)
next
  case (elsewhere fs j fs') then show ?case using journal_ok_mono by blast
qed

end
