(* ===== verification/Jbd_Session.thy ===== *)
theory Jbd_Session
  imports Jbd_Raw Jbd_Trans
begin

text \<open>
  Sessions of the journal on a device that does not fail: \<open>jbd_journal_start\<close> and the end of
  \<open>jbd_journal_stop\<close> always return, and with which transaction number a session begins.
\<close>

section \<open>The superblocks of a journal at home\<close>

text \<open>Where the superblock of the journal is on the partition.\<close>

definition jsb_pos :: "raw_file ext4_fs \<Rightarrow> jbd_fs \<Rightarrow> u64" where
  "jsb_pos fs jf = extent_place fs (jf_ref jf) 0 * ucast (ext4_sb_get_block_size (fs_sb fs))"

definition journal_home :: "nat \<Rightarrow> raw_file ext4_fs \<Rightarrow> jbd_fs \<Rightarrow> bool" where
  "journal_home N fs jf \<longleftrightarrow>
     raw_dev N (fs_bdev fs) \<and> part_ok (raw_cap N) (fs_bdev fs) \<and> raw_good (bdev_dev (fs_bdev fs)) \<and>
     roomy (bdev_bc (fs_bdev fs)) \<and> ph_refctr (bdev_bdif (fs_bdev fs)) \<noteq> 0 \<and> ext4_sblock_wf (fs_sb fs) \<and> jbd_sb_wf (jf_sb jf) \<and>
     extent_file fs (jf_ref jf) \<and> extent_place fs (jf_ref jf) 0 \<noteq> 0 \<and> 512 dvd unat (jsb_pos fs jf) \<and>
     2048 \<le> unat (jsb_pos fs jf) \<and> unat (jsb_pos fs jf) + 1024 \<le> unat (part_size (fs_bdev fs))"

lemma journal_homeD:
  assumes "journal_home N fs jf"
  shows "raw_dev N (fs_bdev fs)" "part_ok (raw_cap N) (fs_bdev fs)" "raw_good (bdev_dev (fs_bdev fs))"
    "ph_refctr (bdev_bdif (fs_bdev fs)) \<noteq> 0" "ext4_sblock_wf (fs_sb fs)" "jbd_sb_wf (jf_sb jf)" "extent_file fs (jf_ref jf)"
    "extent_place fs (jf_ref jf) 0 \<noteq> 0" "512 dvd unat (jsb_pos fs jf)" "2048 \<le> unat (jsb_pos fs jf)"
    "unat (jsb_pos fs jf) + 1024 \<le> unat (part_size (fs_bdev fs))" "roomy (bdev_bc (fs_bdev fs))"
  using assms by (simp_all add: journal_home_def)

text \<open>The 1024 bytes of the journal's superblock on the medium.\<close>

definition jsb_area :: "raw_file ext4_fs \<Rightarrow> jbd_fs \<Rightarrow> bytes" where
  "jsb_area fs jf = region (raw_img (bdev_dev (fs_bdev fs))) (unat (part_offset (fs_bdev fs)) + unat (jsb_pos fs jf)) 1024"

text \<open>Whether recovery is asked for is of no concern to the place of the journal.\<close>

lemma home_step:
  assumes home: "journal_home N fs jf" and dev: "same_setup (fs_bdev fs) bdev"
      "bc_bufs (bdev_bc bdev) = bc_bufs (bdev_bc (fs_bdev fs))" "roomy (bdev_bc bdev)" "raw_good (bdev_dev bdev)"
    and sb: "sb = fs_sb fs \<or> sb = ext4_sb_set_csum ((fs_sb fs)\<lparr>sb_features_incompatible := f\<rparr>)"
      "f AND EXT4_FINCOM_EXTENTS = sb_features_incompatible (fs_sb fs) AND EXT4_FINCOM_EXTENTS"
    and jf: "jf_ref jf' = jf_ref jf" "jbd_sb_wf (jf_sb jf')"
  shows "journal_home N (fs\<lparr>fs_bdev := bdev, fs_sb := sb\<rparr>) jf'" "jsb_pos (fs\<lparr>fs_bdev := bdev, fs_sb := sb\<rparr>) jf' = jsb_pos fs jf"
    "extent_place (fs\<lparr>fs_bdev := bdev, fs_sb := sb\<rparr>) (jf_ref jf') = extent_place fs (jf_ref jf)"
proof -
  note D = journal_homeD [OF home] and F = same_setup_fields [OF dev(1)]
  let ?fs = "fs\<lparr>fs_bdev := bdev, fs_sb := sb\<rparr>"
  have "fs_data ?fs b = fs_data fs b" for b using dev(2) by (simp add: fs_data_def blk_bytes_def buf_at_def)
  then have r: "root_bytes ?fs ir = root_bytes fs ir" and i: "ino_get ?fs ir = ino_get fs ir" for ir
    by (simp_all add: root_bytes_def node_bytes_def ino_get_def ino_bytes_def ext_inode_hdr_def)
  have b: "ext4_sb_feature_incom sb EXT4_FINCOM_EXTENTS = ext4_sb_feature_incom (fs_sb fs) EXT4_FINCOM_EXTENTS"
    "ext4_sb_get_block_size sb = ext4_sb_get_block_size (fs_sb fs)"
    "ext4_inode_get_size sb n = ext4_inode_get_size (fs_sb fs) n" "ext4_sblock_wf sb" for n
    using sb D(5) by (auto simp: ext4_sb_feature_incom_def ext4_sb_get_block_size_def ext4_inode_get_size_def
        ext4_sb_set_csum_def ext4_sblock_wf_def ext4_inode_is_type_def ext4_inode_type_def ext4_inode_get_mode_def split: if_splits)
  show p: "extent_place ?fs (jf_ref jf') = extent_place fs (jf_ref jf)"
    by (simp add: extent_place_def r jf(1) fun_eq_iff)
  then show q: "jsb_pos ?fs jf' = jsb_pos fs jf" by (simp add: jsb_pos_def b)
  have "root_ok ?fs ir = root_ok fs ir" for ir by (simp add: root_ok_def ext_depth_root r)
  then have "extent_file ?fs (jf_ref jf')"
    using D(7) by (simp add: extent_file_def uses_extents_def b i jf(1))
  then show "journal_home N ?fs jf'"
    unfolding journal_home_def p q using D dev(3,4) b(4) jf(2) same_setup_ok [OF dev(1)] F by simp
qed

lemma home_asked:
  assumes "journal_home N fs jf"
  shows "journal_home N (fs_asked fs) jf" "jsb_pos (fs_asked fs) jf = jsb_pos fs jf" "fs_can_malloc fs"
    "same_setup (fs_bdev fs) (fs_bdev (fs_asked fs))" "bdev_dev (fs_bdev (fs_asked fs)) = bdev_dev (fs_bdev fs)"
    "extent_place (fs_asked fs) (jf_ref jf) = extent_place fs (jf_ref jf)"
proof -
  note D = journal_homeD [OF assms]
  define bdev where "bdev = upd_bc (\<lambda>bc. bc\<lparr>heap_next := heap_next bc + 1\<rparr>) (fs_bdev fs)"
  have g: "fs_asked fs = fs\<lparr>fs_bdev := bdev, fs_sb := fs_sb fs\<rparr>" by (simp add: fs_asked_def bdev_def)
  have h: "same_setup (fs_bdev fs) bdev" "bc_bufs (bdev_bc bdev) = bc_bufs (bdev_bc (fs_bdev fs))" "roomy (bdev_bc bdev)"
    "raw_good (bdev_dev bdev)"
    using D(3,12) by (simp_all add: bdev_def roomy_def)
  show "journal_home N (fs_asked fs) jf" "jsb_pos (fs_asked fs) jf = jsb_pos fs jf"
    "extent_place (fs_asked fs) (jf_ref jf) = extent_place fs (jf_ref jf)"
    unfolding g by (rule home_step [OF assms h disjI1 [OF refl] refl refl D(6)])+
  show "fs_can_malloc fs" using D(12) by (simp add: fs_can_malloc_def roomy_def Let_def)
  show "same_setup (fs_bdev fs) (fs_bdev (fs_asked fs))" "bdev_dev (fs_bdev (fs_asked fs)) = bdev_dev (fs_bdev fs)"
    unfolding g using h(1) by (simp_all add: bdev_def)
qed

lemma jsb_csum_wf: "jbd_sb_wf s \<Longrightarrow> jbd_sb_wf (jbd_sb_csum_set s)"
  by (simp add: jbd_sb_csum_set_def jbd_sb_wf_def)

text \<open>Only one of the two areas changes.\<close>

definition outside :: "nat \<Rightarrow> nat \<Rightarrow> bool" where
  "outside p a \<longleftrightarrow> a < p \<or> p + 1024 \<le> a"

lemma region_outside:
  "(\<And>a. outside p a \<Longrightarrow> img' a = img a) \<Longrightarrow> q + 1024 \<le> p \<or> p + 1024 \<le> q \<Longrightarrow> region img' q 1024 = region img q 1024"
  by (auto simp: region_def outside_def intro!: map_cong)

lemma region_overwrite: "length bs = 1024 \<Longrightarrow> region (overwrite img p bs) p 1024 = bs"
  by (auto simp: list_eq_iff_nth_eq overwrite_def)

lemma overwrite_outside: "length bs = 1024 \<Longrightarrow> outside p a \<Longrightarrow> overwrite img p bs a = img a"
  by (auto simp: outside_def overwrite_def)

abbreviation sb_start :: "raw_file ext4_fs \<Rightarrow> nat" where
  "sb_start fs \<equiv> unat (part_offset (fs_bdev fs)) + 1024"

abbreviation jsb_start :: "raw_file ext4_fs \<Rightarrow> jbd_fs \<Rightarrow> nat" where
  "jsb_start fs jf \<equiv> unat (part_offset (fs_bdev fs)) + unat (jsb_pos fs jf)"

lemma mark_sb_sure:
  assumes home: "journal_home N fs jf"
    and f: "f AND EXT4_FINCOM_EXTENTS = sb_features_incompatible (fs_sb fs) AND EXT4_FINCOM_EXTENTS"
  shows "\<exists>bdev sb fs'. ext4_sb_write (fs_bdev fs) ((fs_sb fs)\<lparr>sb_features_incompatible := f\<rparr>) = Some (EOK, bdev, sb) \<and>
    fs' = fs\<lparr>fs_bdev := bdev, fs_sb := sb\<rparr> \<and> journal_home N fs' jf \<and> jsb_pos fs' jf = jsb_pos fs jf \<and>
    same_setup (fs_bdev fs) bdev \<and> sb = ext4_sb_set_csum ((fs_sb fs)\<lparr>sb_features_incompatible := f\<rparr>) \<and>
    sb_area fs' = ext4_sblock_bytes sb \<and> bdev_bc bdev = bdev_bc (fs_bdev fs) \<and>
    (\<forall>a. outside (sb_start fs) a \<longrightarrow> raw_img (bdev_dev bdev) a = raw_img (bdev_dev (fs_bdev fs)) a)"
proof -
  note D = journal_homeD [OF home]
  let ?sb = "ext4_sb_set_csum ((fs_sb fs)\<lparr>sb_features_incompatible := f\<rparr>)"
  have len: "length (ext4_sblock_bytes ?sb) = 1024"
    using D(5) set_csum_wf [of "(fs_sb fs)\<lparr>sb_features_incompatible := f\<rparr>"] by (simp add: ext4_sblock_wf_def)
  have "unat (1024 :: u64) + 1024 \<le> unat (part_size (fs_bdev fs))" using D(10,11) by simp
  from writebytes_sure [OF D(1-4) _ this len] obtain bdev where
    w: "ext4_block_writebytes (fs_bdev fs) 1024 (ext4_sblock_bytes ?sb) 1024 = Some (EOK, bdev)" "same_setup (fs_bdev fs) bdev"
      "bdev_bc bdev = bdev_bc (fs_bdev fs)" "raw_good (bdev_dev bdev)"
      "raw_img (bdev_dev bdev) = overwrite (raw_img (bdev_dev (fs_bdev fs))) (sb_start fs) (ext4_sblock_bytes ?sb)"
    by auto
  let ?fs = "fs\<lparr>fs_bdev := bdev, fs_sb := ?sb\<rparr>"
  have "ext4_sb_write (fs_bdev fs) ((fs_sb fs)\<lparr>sb_features_incompatible := f\<rparr>) = Some (EOK, bdev, ?sb)"
    using w(1) by (simp add: ext4_sb_write_def EXT4_SUPERBLOCK_OFFSET_def EXT4_SUPERBLOCK_SIZE_def Let_def)
  moreover note home_step(1,2) [OF home w(2) arg_cong [OF w(3), of bc_bufs] D(12) [folded w(3)] w(4) disjI2 [OF refl] f refl D(6)]
  moreover have "sb_area ?fs = ext4_sblock_bytes ?sb"
    using same_setup_fields [OF w(2)] region_overwrite [OF len] by (simp add: sb_area_def w(5))
  moreover have "\<forall>a. outside (sb_start fs) a \<longrightarrow> raw_img (bdev_dev bdev) a = raw_img (bdev_dev (fs_bdev fs)) a"
    using overwrite_outside [OF len] w(5) by simp
  ultimately show ?thesis using w(2,3)
    by (intro exI [of _ bdev] exI [of _ ?sb] exI [of _ ?fs] conjI) (assumption | rule refl)+
qed

lemma write_jsb_sure:
  assumes home: "journal_home N fs jf" and dirty: "jf_dirty jf"
  shows "\<exists>fs' jf'. jbd_write_sb fs jf = Some (EOK, fs', jf') \<and> jf' = jf\<lparr>jf_sb := jbd_sb_csum_set (jf_sb jf), jf_dirty := False\<rparr> \<and>
    journal_home N fs' jf' \<and> fs_sb fs' = fs_sb fs \<and> same_setup (fs_bdev fs) (fs_bdev fs') \<and> jsb_pos fs' jf' = jsb_pos fs jf \<and>
    jsb_area fs' jf' = jbd_sb_bytes (jf_sb jf') \<and> sb_area fs' = sb_area fs \<and>
    bc_bufs (bdev_bc (fs_bdev fs')) = bc_bufs (bdev_bc (fs_bdev fs)) \<and>
    (\<forall>a. outside (jsb_start fs jf) a \<longrightarrow> raw_img (bdev_dev (fs_bdev fs')) a = raw_img (bdev_dev (fs_bdev fs)) a)"
proof -
  let ?g = "fs_asked fs"
  note A = home_asked [OF home]
  note D = journal_homeD [OF A(1)]
  let ?jf = "jf\<lparr>jf_sb := jbd_sb_csum_set (jf_sb jf), jf_dirty := False\<rparr>" and ?bs = "jbd_sb_bytes (jbd_sb_csum_set (jf_sb jf))"
  have wf: "jbd_sb_wf (jbd_sb_csum_set (jf_sb jf))" by (rule jsb_csum_wf [OF D(6)])
  note len = length_jbd_sb_bytes [OF wf]
  have place: "ext4_fs_get_inode_dblk_idx fs (jf_ref jf) 0 False = Some (EOK, ?g, jf_ref jf, Some (extent_place ?g (jf_ref jf) 0))"
    using lookup_mapped_file [OF journal_homeD(7) [OF home], of 0] D(8) A(3,6) by simp
  from writebytes_sure [OF D(1-4,9,11) len] obtain bdev where
    w: "ext4_block_writebytes (fs_bdev ?g) (jsb_pos ?g jf) ?bs 1024 = Some (EOK, bdev)" "same_setup (fs_bdev ?g) bdev"
      "bdev_bc bdev = bdev_bc (fs_bdev ?g)" "raw_good (bdev_dev bdev)"
      "raw_img (bdev_dev bdev) = overwrite (raw_img (bdev_dev (fs_bdev ?g))) (jsb_start ?g jf) ?bs"
    by auto
  let ?fs = "?g\<lparr>fs_bdev := bdev\<rparr>"
  have e: "?g\<lparr>fs_bdev := bdev, fs_sb := fs_sb ?g\<rparr> = ?fs" by simp
  have s: "part_offset (fs_bdev fs) = part_offset (fs_bdev ?g)" using same_setup_fields [OF A(4)] by simp
  have "jbd_write_sb fs jf = Some (EOK, ?fs, ?jf)"
    using w(1) dirty place
    by (simp add: jbd_write_sb_def jbd_sb_write_def jbd_inode_bmap_def EXT4_SUPERBLOCK_SIZE_def jsb_pos_def Let_def)
  moreover have "journal_home N ?fs ?jf" "jsb_pos ?fs ?jf = jsb_pos fs jf"
    using home_step [OF A(1) w(2) arg_cong [OF w(3), of bc_bufs] D(12) [folded w(3)] w(4) disjI1 [OF refl] refl, of ?jf] wf A(2)
    unfolding e by simp_all
  moreover have "jsb_area ?fs ?jf = jbd_sb_bytes (jf_sb ?jf)"
    using same_setup_fields [OF w(2)] region_overwrite [OF len] calculation(3) A(2) by (simp add: jsb_area_def w(5))
  moreover have "sb_area ?fs = sb_area fs"
  proof -
    have "region (raw_img (bdev_dev bdev)) (sb_start fs) 1024 = region (raw_img (bdev_dev (fs_bdev ?g))) (sb_start fs) 1024"
      unfolding w(5) by (rule region_outside [OF overwrite_outside [OF len]], assumption) (use D(10) s in simp)
    then show ?thesis using same_setup_fields [OF w(2)] s A(5) by (simp add: sb_area_def)
  qed
  moreover have "\<forall>a. outside (jsb_start fs jf) a \<longrightarrow>
      raw_img (bdev_dev (fs_bdev ?fs)) a = raw_img (bdev_dev (fs_bdev fs)) a"
    using overwrite_outside [OF len] w(5) A(2,5) s by simp
  moreover have "fs_sb ?fs = fs_sb fs" "same_setup (fs_bdev fs) (fs_bdev ?fs)" using same_setup_trans [OF A(4) w(2)] by simp_all
  moreover have "bc_bufs (bdev_bc (fs_bdev ?fs)) = bc_bufs (bdev_bc (fs_bdev fs))" using w(3) by (simp add: fs_asked_def)
  ultimately show ?thesis
    by (intro exI [of _ ?fs] exI [of _ ?jf] conjI) (assumption | rule refl)+
qed

section \<open>Starting and closing\<close>

lemma recover_bit: "(x OR EXT4_FINCOM_RECOVER) AND EXT4_FINCOM_EXTENTS = x AND EXT4_FINCOM_EXTENTS"
  "(x AND NOT EXT4_FINCOM_RECOVER) AND EXT4_FINCOM_EXTENTS = x AND EXT4_FINCOM_EXTENTS"
  by (simp_all add: EXT4_FINCOM_RECOVER_def EXT4_FINCOM_EXTENTS_def bit.conj_disj_distrib2 and.assoc)

lemma written_sb: "jf_dirty (jbd_journal_write_sb jf j)" "jf_ref (jbd_journal_write_sb jf j) = jf_ref jf"
  "jf_sb (jbd_journal_write_sb jf j) = (jf_sb jf)\<lparr>js_start := to_be32 (jo_start j), js_sequence := to_be32 (jo_trans_id j)\<rparr>"
  by (simp_all add: jbd_journal_write_sb_def)

lemma home_jf:
  "journal_home N fs jf \<Longrightarrow> journal_home N fs (jbd_journal_write_sb jf j)" "jsb_pos fs (jbd_journal_write_sb jf j) = jsb_pos fs jf"
  by (simp_all add: journal_home_def jsb_pos_def written_sb jbd_sb_wf_def)

lemma jsb_csum_fields:
  "js_start (jbd_sb_csum_set s) = js_start s" "js_sequence (jbd_sb_csum_set s) = js_sequence s"
  "js_first (jbd_sb_csum_set s) = js_first s"
  by (simp_all add: jbd_sb_csum_set_def)

text \<open>Both superblocks are written, and nothing else; the blocks in the cache stay.\<close>

definition only_superblocks :: "raw_file ext4_fs \<Rightarrow> jbd_fs \<Rightarrow> raw_file ext4_fs \<Rightarrow> jbd_fs \<Rightarrow> bool" where
  "only_superblocks fs jf fs' jf' \<longleftrightarrow>
     sb_area fs' = ext4_sblock_bytes (fs_sb fs') \<and> jsb_area fs' jf' = jbd_sb_bytes (jf_sb jf') \<and>
     (\<forall>a. outside (sb_start fs) a \<and> outside (jsb_start fs jf) a \<longrightarrow>
       raw_img (bdev_dev (fs_bdev fs')) a = raw_img (bdev_dev (fs_bdev fs)) a) \<and>
     sb_start fs' = sb_start fs \<and> jsb_start fs' jf' = jsb_start fs jf \<and>
     bc_bufs (bdev_bc (fs_bdev fs')) = bc_bufs (bdev_bc (fs_bdev fs))"

lemma superblocks_sure:
  assumes home: "journal_home N fs jf"
    and f: "f AND EXT4_FINCOM_EXTENTS = sb_features_incompatible (fs_sb fs) AND EXT4_FINCOM_EXTENTS"
  shows "\<exists>bdev sb fs' jf'. ext4_sb_write (fs_bdev fs) ((fs_sb fs)\<lparr>sb_features_incompatible := f\<rparr>) = Some (EOK, bdev, sb) \<and>
    jbd_write_sb (fs\<lparr>fs_bdev := bdev, fs_sb := sb\<rparr>) (jbd_journal_write_sb jf j) = Some (EOK, fs', jf') \<and>
    journal_home N fs' jf' \<and> only_superblocks fs jf fs' jf' \<and> sb_features_incompatible (fs_sb fs') = f \<and>
    js_start (jf_sb jf') = to_be32 (jo_start j) \<and> js_sequence (jf_sb jf') = to_be32 (jo_trans_id j) \<and>
    js_first (jf_sb jf') = js_first (jf_sb jf)"
proof -
  obtain bdev sb fs1 where m: "ext4_sb_write (fs_bdev fs) ((fs_sb fs)\<lparr>sb_features_incompatible := f\<rparr>) = Some (EOK, bdev, sb)"
    "fs1 = fs\<lparr>fs_bdev := bdev, fs_sb := sb\<rparr>" "journal_home N fs1 jf" "jsb_pos fs1 jf = jsb_pos fs jf" "same_setup (fs_bdev fs) bdev"
    "sb = ext4_sb_set_csum ((fs_sb fs)\<lparr>sb_features_incompatible := f\<rparr>)" "sb_area fs1 = ext4_sblock_bytes sb"
    "bdev_bc bdev = bdev_bc (fs_bdev fs)" "\<forall>a. outside (sb_start fs) a \<longrightarrow> raw_img (bdev_dev bdev) a = raw_img (bdev_dev (fs_bdev fs)) a"
    using mark_sb_sure [OF home f] by blast
  obtain fs' jf' where w: "jbd_write_sb fs1 (jbd_journal_write_sb jf j) = Some (EOK, fs', jf')"
    "jf' = (jbd_journal_write_sb jf j)\<lparr>jf_sb := jbd_sb_csum_set (jf_sb (jbd_journal_write_sb jf j)), jf_dirty := False\<rparr>"
    "journal_home N fs' jf'" "fs_sb fs' = fs_sb fs1" "same_setup (fs_bdev fs1) (fs_bdev fs')" "jsb_pos fs' jf' = jsb_pos fs1 jf"
    "jsb_area fs' jf' = jbd_sb_bytes (jf_sb jf')" "sb_area fs' = sb_area fs1"
    "bc_bufs (bdev_bc (fs_bdev fs')) = bc_bufs (bdev_bc (fs_bdev fs1))" "\<forall>a. outside (jsb_start fs1 jf) a \<longrightarrow> raw_img (bdev_dev (fs_bdev fs')) a = raw_img (bdev_dev (fs_bdev fs1)) a"
    using write_jsb_sure [OF home_jf(1) [OF m(3)] written_sb(1), of j] unfolding home_jf(2) by blast
  note F = same_setup_fields [OF m(5)] same_setup_fields [OF w(5)]
  have "sb_area fs' = ext4_sblock_bytes (fs_sb fs')" by (simp add: w(4,8) m(7)) (simp add: m(2))
  moreover have "\<forall>a. outside (sb_start fs) a \<and> outside (jsb_start fs jf) a \<longrightarrow>
      raw_img (bdev_dev (fs_bdev fs')) a = raw_img (bdev_dev (fs_bdev fs)) a"
    using m(4,9) w(10) F by (simp add: m(2))
  moreover have "sb_start fs' = sb_start fs" "jsb_start fs' jf' = jsb_start fs jf" using F m(4) w(6) by (simp_all add: m(2))
  moreover have "bc_bufs (bdev_bc (fs_bdev fs')) = bc_bufs (bdev_bc (fs_bdev fs))" by (simp add: w(9) m(2,8))
  ultimately have "only_superblocks fs jf fs' jf'" using w(7) unfolding only_superblocks_def by blast
  moreover have "js_start (jf_sb jf') = to_be32 (jo_start j)" "js_first (jf_sb jf') = js_first (jf_sb jf)"
    "js_sequence (jf_sb jf') = to_be32 (jo_trans_id j)"
    by (simp_all add: w(2) written_sb jsb_csum_fields)
  moreover have "sb_features_incompatible (fs_sb fs') = f"
    by (simp add: w(4) m(2) m(6) ext4_sb_set_csum_def)
  ultimately show ?thesis using w(1,3) m(1) unfolding m(2)
    by (intro exI [of _ bdev] exI [of _ sb] exI [of _ fs'] exI [of _ jf'] conjI) assumption+
qed

lemma only_superblocks_trans:
  assumes "only_superblocks fs jf fs1 jf1" "only_superblocks fs1 jf1 fs2 jf2"
  shows "only_superblocks fs jf fs2 jf2"
  using assms unfolding only_superblocks_def by (metis (no_types, lifting))

lemma journal_start_sure:
  assumes home: "journal_home N fs jf"
  shows "\<exists>fs' jf'. jbd_journal_start fs jf j = Some (EOK, fs', jf', started_journal jf j) \<and>
    journal_home N fs' jf' \<and> only_superblocks fs jf fs' jf' \<and>
    sb_features_incompatible (fs_sb fs') = sb_features_incompatible (fs_sb fs) OR EXT4_FINCOM_RECOVER \<and>
    js_start (jf_sb jf') = js_first (jf_sb jf) \<and>
    js_sequence (jf_sb jf') = to_be32 (to_be32 (js_sequence (jf_sb jf)) + 1) \<and> js_first (jf_sb jf') = js_first (jf_sb jf)"
  unfolding journal_start_eq
  using superblocks_sure [OF home recover_bit(1), of "started_journal jf j"]
  by (auto simp: started_journal_def Let_def to_be32_twice)

lemma journal_close_sure:
  assumes home: "journal_home N fs jf"
  shows "\<exists>fs' jf' j'. journal_close fs jf j = Some (EOK, fs', jf', j') \<and>
    journal_home N fs' jf' \<and> only_superblocks fs jf fs' jf' \<and>
    sb_features_incompatible (fs_sb fs') = sb_features_incompatible (fs_sb fs) AND NOT EXT4_FINCOM_RECOVER \<and>
    js_start (jf_sb jf') = 0 \<and> js_sequence (jf_sb jf') = 0 \<and> js_first (jf_sb jf') = js_first (jf_sb jf)"
proof -
  have "to_be32 0 = 0" by (simp add: to_be32_def reorder32_def)
  then show ?thesis
    using superblocks_sure [OF home recover_bit(2), of "j\<lparr>jo_start := 0, jo_trans_id := 0\<rparr>"]
    by (auto simp: journal_close_def Let_def)
qed

text \<open>
  C27: A session that follows one that was closed begins with transaction 1. On a device that does not fail and with
  room in the heap, \<open>journal_close\<close> and then \<open>jbd_journal_start\<close> succeed, whatever number the last transaction of
  the closed session had; then the superblock on the medium asks for
  recovery, and that of the journal says that the log starts at its first block with transaction 1. All bytes beside the
  two superblocks are as before, also the log. The comment in \<open>jbd_journal_start\<close> promises that stale records
  are invalidated because the numbers go on from those of the session before. (The first session after a file system
  was made, and one that follows a recovery, take their number from the superblock they find.)
\<close>

theorem sessions_begin_alike:
  assumes "journal_home N fs jf"
  shows "\<exists>fs1 jf1 j1 fs2 jf2 j2. journal_close fs jf j = Some (EOK, fs1, jf1, j1) \<and>
    jbd_journal_start fs1 jf1 j1 = Some (EOK, fs2, jf2, j2) \<and> jo_trans_id j2 = 1 \<and>
    to_be32 (js_sequence (jf_sb jf2)) = 1 \<and> js_start (jf_sb jf2) = js_first (jf_sb jf) \<and>
    sb_features_incompatible (fs_sb fs2) AND EXT4_FINCOM_RECOVER \<noteq> 0 \<and> only_superblocks fs jf fs2 jf2"
proof -
  obtain fs1 jf1 j1 where c: "journal_close fs jf j = Some (EOK, fs1, jf1, j1)" "journal_home N fs1 jf1"
    "only_superblocks fs jf fs1 jf1" "js_sequence (jf_sb jf1) = 0" "js_first (jf_sb jf1) = js_first (jf_sb jf)"
    using journal_close_sure [OF assms] by blast
  obtain fs2 jf2 where s: "jbd_journal_start fs1 jf1 j1 = Some (EOK, fs2, jf2, started_journal jf1 j1)"
    "only_superblocks fs1 jf1 fs2 jf2"
    "sb_features_incompatible (fs_sb fs2) = sb_features_incompatible (fs_sb fs1) OR EXT4_FINCOM_RECOVER"
    "js_start (jf_sb jf2) = js_first (jf_sb jf1)" "js_sequence (jf_sb jf2) = to_be32 (to_be32 (js_sequence (jf_sb jf1)) + 1)"
    using journal_start_sure [OF c(2)] by blast
  have z: "to_be32 0 = 0" by (simp add: to_be32_def reorder32_def)
  have "(x OR EXT4_FINCOM_RECOVER) AND EXT4_FINCOM_RECOVER \<noteq> 0" for x
    by (simp add: EXT4_FINCOM_RECOVER_def bit.conj_disj_distrib2)
  then show ?thesis
    using c s only_superblocks_trans [OF c(3) s(2)]
    by (intro exI [of _ fs1] exI [of _ jf1] exI [of _ j1] exI [of _ fs2] exI [of _ jf2] exI [of _ "started_journal jf1 j1"])
      (simp add: z to_be32_twice started_journal_def Let_def)
qed

section \<open>The journal of the sample device\<close>

lemma rec_jsb_pos: "jsb_pos rec_fs rec_jf = 2048"
proof -
  have "ext4_sb_get_block_size (fs_sb rec_fs) = 1024"
    by (simp add: ext4_sb_get_block_size_def rec_fs_def ext4_sblock_of_def)
  then show ?thesis by (simp add: jsb_pos_def rec_place)
qed

lemma rec_home: "journal_home 8192 rec_fs rec_jf"
proof -
  have "fs_bdev rec_fs = rec_dev" by (simp add: rec_fs_def)
  moreover have "jbd_sb_wf (jf_sb rec_jf)" by (simp add: rec_jf_def jbd_sb_of_def jbd_sb_wf_def)
  ultimately show ?thesis
    using bdev_okD(1,2) [OF rec_dev_ok(1)] rec_dev_ok(2) rec_sb_wf rec_file
    by (simp add: journal_home_def rec_jsb_pos rec_place rec_dev_ok sure.sound_def)
qed

theorem sessions_begin_alike_witness:
  "\<exists>fs1 jf1 j1 fs2 jf2 j2. journal_close rec_fs rec_jf (journal_zero\<lparr>jo_trans_id := 70, jo_start := 3\<rparr>) = Some (EOK, fs1, jf1, j1) \<and>
    jbd_journal_start fs1 jf1 j1 = Some (EOK, fs2, jf2, j2) \<and> jo_trans_id j2 = 1 \<and>
    to_be32 (js_sequence (jf_sb jf2)) = 1 \<and> js_start (jf_sb jf2) = to_be32 1 \<and>
    sb_features_incompatible (fs_sb fs2) AND EXT4_FINCOM_RECOVER \<noteq> 0 \<and> only_superblocks rec_fs rec_jf fs2 jf2"
  using sessions_begin_alike [OF rec_home] by (simp only: rec_sb(7))

section \<open>The books of a session\<close>

text \<open>
  C4: In every state of a session the books are in order: the block records are sorted by their blocks and without
  duplicates, each is in the list of the one transaction that owns it, the buffers of a transaction are alive, name it
  and are in the queue of the record of their block, as many are counted as are queued or written, and
  the revoked blocks are sorted and distinct. So no stale pointer is followed when a block whose buffer is in the cache
  is added to a transaction that is alive, whatever callback the buffer carries, nor when a block is revoked. A session
  starts with no callback of a journal in the cache, and nothing but the journal sets one.
\<close>

theorem books_balanced:
  assumes "session fs j"
  shows "journal_ok (fs_heap fs) j \<and>
    (\<forall>t tr block buf bf. jo_trans j t = Some tr \<and> blk_buf block = Some buf \<and> bc_bufs (bdev_bc (fs_bdev fs)) buf = Some bf \<longrightarrow>
      jbd_trans_set_block_dirty fs j t block \<noteq> None) \<and>
    (\<forall>t tr lba. jo_trans j t = Some tr \<longrightarrow> jbd_trans_try_revoke_block fs j t lba \<noteq> None)"
proof -
  have ok: "journal_ok (fs_heap fs) j" "pending fs \<subseteq> dom (jo_bufs j)" using session_ok [OF assms] by simp_all
  have "jbd_trans_set_block_dirty fs j t block \<noteq> None"
    if "jo_trans j t = Some tr" "blk_buf block = Some buf" "bc_bufs (bdev_bc (fs_bdev fs)) buf = Some bf" for t tr block buf bf
    by (rule set_block_dirty_returns [OF ok(1) that pending_owned [OF ok(2) that(3)]])
  then show ?thesis using ok(1) try_revoke_returns [OF ok(1)] by blast
qed

theorem books_balanced_witness:
  "\<exists>fs j t tr. session (fs :: raw_file ext4_fs) j \<and> journal_ok (fs_heap fs) j \<and> jo_trans j t = Some tr \<and>
    tr_data_cnt tr = 1 \<and> length (tr_bufs tr) = 1 \<and> map (rec_lba j) (tr_recs tr) = [1]"
proof -
  obtain fs0 jf0 where start: "jbd_journal_start rec_fs rec_jf journal_zero = Some (EOK, fs0, jf0, started_journal rec_jf journal_zero)"
    and only: "only_superblocks rec_fs rec_jf fs0 jf0"
    using journal_start_sure [OF rec_home] by blast
  have bufs: "bc_bufs (bdev_bc (fs_bdev rec_fs)) = [1 \<mapsto> rec_buf]" by (simp add: rec_fs_def rec_dev_def)
  then have "pending fs0 = {}"
    using only by (auto simp: pending_def only_superblocks_def rec_buf_def ran_def)
  note began = session.started [OF start this]
  let ?h = "fs_heap fs0" and ?j0 = "started_journal rec_jf journal_zero" and ?b = "\<lparr>blk_lb_id = 1, blk_buf = Some 1, blk_data = True\<rparr>"
  define fs1 where "fs1 = rec_fs\<lparr>fs_bdev := upd_bc (\<lambda>bc. bc\<lparr>heap_next := ?h\<rparr>) rec_dev\<rparr>"
  have s1: "session fs1 ?j0"
    by (rule session.elsewhere [OF began]) (simp_all add: fs1_def pending_def rec_dev_def rec_buf_def ran_def)
  define grow :: "raw_file ext4_fs \<Rightarrow> raw_file ext4_fs"
    where "grow fs = fs\<lparr>fs_bdev := upd_bc (\<lambda>bc. bc\<lparr>heap_next := heap_next bc + 1\<rparr>) (fs_bdev fs)\<rparr>" for fs
  have grown: "bc_bufs (bdev_bc (fs_bdev (grow fs))) = bc_bufs (bdev_bc (fs_bdev fs))"
    "heap_ok (bdev_bc (fs_bdev (grow fs))) = heap_ok (bdev_bc (fs_bdev fs))" "fs_heap (grow fs) = fs_heap fs + 1" for fs
    by (simp_all add: grow_def)
  have alloc: "fs_calloc fs = (Some (fs_heap fs + 1), grow fs)" if "heap_ok (bdev_bc (fs_bdev fs)) = (\<lambda>_. True)" for fs
    using that by (simp add: fs_calloc_def fs_malloc_def fs_can_malloc_def fs_asked_def grow_def Let_def)
  have f1: "heap_ok (bdev_bc (fs_bdev fs1)) = (\<lambda>_. True)" "fs_heap fs1 = ?h" "bc_bufs (bdev_bc (fs_bdev fs1)) 1 = Some rec_buf"
    by (simp_all add: fs1_def rec_dev_def sample_dev_def sample_cache_def)
  obtain t fs2 j2 where n: "jbd_journal_new_trans fs1 ?j0 = (t, fs2, j2)" by (metis surj_pair)
  have s2: "session fs2 j2" by (rule session.opened [OF s1 n])
  have fs2: "fs2 = grow fs1" and trans2: "jo_trans j2 (?h + 1) = Some \<lparr>tr_id = 0, tr_start_iblock = 0, tr_alloc_blocks = 0,
      tr_data_cnt = 0, tr_data_csum = EXT4_CRC32_INIT, tr_written_cnt = 0, tr_error = EOK, tr_bufs = [], tr_revoke = [], tr_recs = []\<rparr>"
    and root2: "jo_rec_root j2 = []"
    using n alloc [OF f1(1)] f1(2) by (auto simp: jbd_journal_new_trans_def started_journal_def Let_def)
  have f2: "heap_ok (bdev_bc (fs_bdev fs2)) = (\<lambda>_. True)" "bc_bufs (bdev_bc (fs_bdev fs2)) 1 = Some rec_buf"
    by (simp_all add: fs2 grown f1)
  have own: "owned_by j2 (?h + 1) rec_buf = Some False" by (simp add: owned_by_def rec_buf_def)
  have "jbd_trans_set_block_dirty fs2 j2 (?h + 1) ?b \<noteq> None"
    by (rule conjunct1 [OF conjunct2 [OF books_balanced [OF s2]], rule_format, of _ _ _ 1 rec_buf]) (use trans2 f2 in auto)
  then obtain r fs3 j3 where d: "jbd_trans_set_block_dirty fs2 j2 (?h + 1) ?b = Some (r, fs3, j3)" by (metis not_None_eq prod_cases3)
  have s3: "session fs3 j3" by (rule session.dirtied [OF s2 d])
  have "\<exists>tr. jo_trans j3 (?h + 1) = Some tr \<and> tr_data_cnt tr = 1 \<and> length (tr_bufs tr) = 1 \<and> map (rec_lba j3) (tr_recs tr) = [1]"
    using d trans2 root2 f2 own alloc [OF f2(1)] alloc [of "grow fs2"] grown
    by (auto simp: jbd_trans_set_block_dirty_def Let_def jbd_trans_insert_block_rec_def jbd_trans_block_rec_lookup_def
        upd_rec_def rec_lba_def)
  then show ?thesis
    using s3 conjunct1 [OF books_balanced [OF s3]] by (intro exI [of _ fs3] exI [of _ j3] exI [of _ "?h + 1"]) simp
qed

end
