(* ===== verification/Spec2Isabelle.thy ===== *)
theory Spec2Isabelle
  imports Bitmap Crc Hash Super Block_Group Inode Trans Mbr Extent_Root Dx_Leaf Xattr_Map File_Map Api_Facts Mkfs_Facts
    Jbd_Facts Jbd_Session
begin

text \<open>
  A verification development for lwext4, the implementation of ext2, ext3 and ext4 in C under
  \<open>src/SharpExt4/lwext4\<close>, and its disk driver \<open>src/SharpExt4/SharpExt4/io_raw.cpp\<close>. File names below are relative
  to \<open>src/SharpExt4/lwext4\<close>.

  \<^bold>\<open>The program.\<close> A driver transfers physical blocks (\<open>io_raw.cpp\<close>). The block device (\<open>ext4_blockdev.c\<close>) makes
  of it byte access to a partition and, through the block cache (\<open>ext4_bcache.c\<close>), access to logical blocks. The file
  system core (\<open>ext4_fs.c\<close>) reads the superblock, block group descriptors and inodes from these blocks and
  writes them back; block and inode allocators (\<open>ext4_balloc.c\<close>, \<open>ext4_ialloc.c\<close>) search bitmaps; the blocks of an inode
  are found by its extent tree (\<open>ext4_extent.c\<close>) or its indirect blocks; directories are lists of entries
  (\<open>ext4_dir.c\<close>), possibly indexed by hash (\<open>ext4_dir_idx.c\<close>, \<open>ext4_hash.c\<close>); attributes are \<open>ext4_xattr.c\<close>. The journal
  (\<open>ext4_journal.c\<close>) is a file with a log. \<open>ext4.c\<close> has the public functions, \<open>ext4_mkfs.c\<close> creates a file system.

  \<^bold>\<open>Conventions.\<close> The host is little endian. Machine integers are words of their width, and wrap. A struct of the disk is
  a record with its byte image. A buffer is a list of bytes, a pointer into it an offset; a pointer to a buffer is the
  address of its block, and a null pointer is \<open>None\<close>. State is passed explicitly: an operation takes the device or
  the file system and returns its error code (\<open>errno\<close>) with the new state. Around this, a result \<open>None\<close> is what
  the C code has no result for: a failed assertion, a null or stale pointer that is followed, an access outside of
  a buffer, a variable without a value, or a loop that does not end. Red-black trees are ordered
  lists. \<open>malloc\<close> may fail at any call (\<open>heap_ok\<close>, counted by \<open>heap_next\<close>) and returns arbitrary bytes (\<open>heap_junk\<close>); a file system
  asks by \<open>fs_malloc\<close>, also for the path of a search in an extent tree. The driver and \<open>qsort\<close> of the C
  library are parameters.

  \<^bold>\<open>Theories, files and what is shown.\<close>

  \<^item> \<open>Prelude\<close>: types, error codes, \<open>ext4_misc.h\<close>, lemmas on words and byte lists.
  \<^item> \<open>Bitmap\<close> (\<open>ext4_bitmap.c\<close>), \<open>Crc\<close> (\<open>ext4_crc32.c\<close>, the CRC-16 of \<open>ext4_block_group.c\<close>), \<open>Hash\<close> (\<open>ext4_hash.c\<close>): the
    table-driven checksums are division by their polynomials and tell apart what differs in four bytes at most (locale
    \<open>crc_table\<close>, interpreted on the three tables).
  \<^item> \<open>Sblock\<close>, \<open>Super\<close> (\<open>ext4_super.c\<close>), \<open>Block_Group\<close>, \<open>Inode\<close> (\<open>ext4_inode.c\<close>): the records of the disk, their byte images,
    which determine each other, and their accessors.
  \<^item> \<open>Bcache\<close>, \<open>Blockdev\<close>: the cache and the block device over any driver. \<open>Device\<close>, \<open>Cached\<close>: over a driver that keeps the
    contract \<open>block_driver\<close>, byte access is exact and the cache is invisible: clients see one array of blocks,
    \<open>bview\<close>, whether writes fail or not. \<open>Io_Raw\<close>: the driver, and the interpretation \<open>raw\<close> of the contract on it.
    \<open>Reliable\<close> extends the contract to drivers that do not fail (\<open>reliable_driver\<close>, interpreted as \<open>sure\<close>): then gets, releases
    and flushes succeed, and a flush brings all blocks that wait to the medium.
  \<^item> \<open>Trans\<close> (\<open>ext4_trans.c\<close>): marking a modified block dirty changes the array at this block only. \<open>Mbr\<close> (\<open>ext4_mbr.c\<close>): on a
    driver that does not fail, a scan of a partition table that was written finds the partitions that are computed from the
    size of the disk and the percentages in natural numbers.
  \<^item> \<open>Fs\<close>, \<open>Inode_Ref\<close>, \<open>Fs_Inode\<close> (\<open>ext4_fs.c\<close>), \<open>Balloc\<close>, \<open>Ialloc\<close>: all operations.
  \<^item> \<open>Extent_Node\<close>, \<open>Extent\<close>, \<open>Extent_Ops\<close> (\<open>ext4_extent.c\<close>): all operations. \<open>Extent_List\<close>, \<open>Extent_Root\<close>: for a tree that lies in its
    inode, lookup is the lookup of the map that the extents stand for (or fails for lack of memory), insertion into a root
    with room extends this map, and three ways to damage it.
  \<^item> \<open>Dir_Block\<close>, \<open>Dir\<close>, \<open>Dx_Node\<close>, \<open>Dir_Index\<close>, \<open>Dir_Split\<close>: directories. Inserting and removing entries changes the lookup of
    a block at one name. \<open>Dx_Map\<close>, \<open>Dx_Leaf\<close>: a node of an index divides the hashes into intervals; splitting a leaf
    keeps its entries and divides them by hash.
  \<^item> \<open>Xattr_Entry\<close>, \<open>Xattr\<close> (\<open>ext4_xattr.c\<close>), \<open>Xattr_Map\<close>: a region of attributes is a map that insertion extends.
  \<^item> \<open>Mount\<close>, \<open>Path\<close>, \<open>Open\<close>, \<open>File\<close>, \<open>Attr\<close>, \<open>Api_Dir\<close> (\<open>ext4.c\<close>): the public functions. \<open>File_Map\<close>: a read of written
    blocks returns the bytes of the file, over the contract \<open>file_blocks\<close> (interpreted as \<open>root_file\<close>). \<open>Api_Facts\<close>: seeking, mounting.
  \<^item> \<open>Jbd_Sb\<close>, \<open>Mkfs\<close> (\<open>ext4_mkfs.c\<close>), \<open>Mkfs_Facts\<close>: a new superblock passes the check of a mount and gives its
    parameters back; where the metadata of a group lies.
  \<^item> \<open>Jbd\<close>, \<open>Jbd_Recover\<close> (\<open>ext4_journal.c\<close>): the format of the log and its replay. \<open>Jbd_Log\<close>: what a log says
    (\<open>log_from\<close>, a list of records) and what replaying it makes of the blocks (\<open>replay_log\<close>); each pass of the recovery
    reads the log to its end, over the contract \<open>journal_store\<close>. \<open>Jbd_Raw\<close>: the interpretation \<open>raw_journal\<close> of the contract on cache
    and driver, and the correctness of \<open>jbd_recover\<close>. \<open>Jbd_Facts\<close>: tags and checksums are read back.
  \<^item> \<open>Jbd_Trans\<close>: beginning and ending a session and the bookkeeping of transactions, a step relation \<open>session\<close> and its
    invariant, from which no operation on the books follows a stale pointer. \<open>Jbd_Session\<close>: closing a session and starting
    the next one, on a driver that does not fail.

  \<^bold>\<open>Loops.\<close> Loops that end are recursive functions with their measures. Loops that the code leaves only under
  a condition that the disk decides are partial functions in the option monad: eviction (\<open>shake_loop\<close>) and
  \<open>ext4_block_cache_flush\<close>, for which termination is proved, the iterators of directories and extents, the searches over groups and
  the passes over the log (\<open>log_loop\<close>; \<open>cost\<close> is how many blocks a log makes recovery take, and the recovery of every
  log that has an end is shown to return). Runs of adjacent blocks in reads and writes are bounded by the number of blocks
  left, names in paths by 255 bytes, and the number of heads of the partition table by a fuel of 5, as four
  doublings of 16 reach 256.

  \<^bold>\<open>Hypotheses.\<close> What is proved about the cache and byte access holds for every driver that fails at will. Recovery,
  sessions and the durable flush are about a driver and memory that do not fail, the partition table about such a driver. Reading files and the journal is for
  inodes whose extents lie in the inode. Counters of the cache are below their limits.

  \<^bold>\<open>Not modelled.\<close>

  \<^item> Committing transactions (prepare, commit, checkpoint, abort and the callback \<open>jbd_trans_end_write\<close> in \<open>ext4_journal.c\<close>), so also
    the end of a session but for its last part, \<open>journal_close\<close>, and the public functions that stop a journal or a transaction.
    The callback runs inside \<open>ext4_block_flush_buf\<close> and enters the journal and the cache again while the cache walks its
    own trees; the model of the cache records callbacks as events instead.
  \<^item> The public functions run with no journal attached, and do not call the lock callbacks of a mount point. A rename to
    another mount point has no result.
  \<^item> The path of \<open>io_raw_open\<close> that asks a physical disk for its geometry; \<open>ext4_debug.c\<close>; fast paths that the shipped
    configuration compiles out.
  \<^item> Third-party macros (\<open>misc/queue.h\<close>, \<open>misc/tree.h\<close>) and \<open>getopt.h\<close>; the C++/CLI classes of \<open>SharpExt4\<close> and the C# projects, which
    are in other languages than the core.
\<close>

end
